(* ===== verification/Prelude.thy ===== *)
theory Prelude
  imports Main "HOL-Library.Sublist" "HOL-Library.Word"
begin

text \<open>
  Shared vocabulary of the development.

  \<^item> Errors are values: \<open>error\<close> distinguishes a panic from an \<open>anyhow\<close> error carrying the
    message the code formats, and \<open>'a res\<close> is Rust's \<open>Result\<close>.  \<open>bind_res\<close> is the
    question-mark operator, \<open>traverse_res\<close> the loop that stops at the first error.
  \<^item> Machine integers keep their width: \<open>u32\<close>, \<open>i32\<close> (read with \<open>sint\<close>), and \<open>f32\<close>, whose
    values the code only moves around and which is therefore kept as its IEEE bit pattern.
  \<^item> The lemma collections used by the component proofs.
\<close>

section \<open>Lemma collections\<close>

named_theorems res_simps \<open>evaluation of the error monad\<close>
named_theorems str_simps \<open>facts about the string functions of the standard library\<close>
named_theorems tax_simps \<open>facts about well-formed taxonomy stores\<close>
named_theorems pol_simps \<open>facts about policy evaluation\<close>

section \<open>Machine numbers and identifiers\<close>

type_synonym u32 = "32 word"
type_synonym i32 = "32 word"
type_synonym u64 = "64 word"
type_synonym f32 = "32 word"
type_synonym f64 = "64 word"
type_synonym uuid = nat
type_synonym time = nat

abbreviation (input) f32_half :: f32 where "f32_half \<equiv> 0x3F000000"
abbreviation (input) f32_one :: f32 where "f32_one \<equiv> 0x3F800000"

section \<open>Results\<close>

datatype error = Panic string | Error string

type_synonym 'a res = "error + 'a"

fun bind_res :: "'e + 'a \<Rightarrow> ('a \<Rightarrow> 'e + 'b) \<Rightarrow> 'e + 'b" where
  "bind_res (Inl e) f = Inl e"
| "bind_res (Inr x) f = f x"

fun map_res :: "('a \<Rightarrow> 'b) \<Rightarrow> 'e + 'a \<Rightarrow> 'e + 'b" where
  "map_res f (Inl e) = Inl e"
| "map_res f (Inr x) = Inr (f x)"

fun ok_or :: "'e \<Rightarrow> 'a option \<Rightarrow> 'e + 'a" where
  "ok_or e None = Inl e"
| "ok_or e (Some x) = Inr x"

fun traverse_res :: "('a \<Rightarrow> 'e + 'b) \<Rightarrow> 'a list \<Rightarrow> 'e + 'b list" where
  "traverse_res f [] = Inr []"
| "traverse_res f (x # xs) =
     bind_res (f x) (\<lambda>y. bind_res (traverse_res f xs) (\<lambda>ys. Inr (y # ys)))"

fun is_ok :: "'e + 'a \<Rightarrow> bool" where
  "is_ok (Inl e) = False"
| "is_ok (Inr x) = True"

lemma bind_res_Inr_iff [res_simps]:
  "bind_res m f = Inr y \<longleftrightarrow> (\<exists>x. m = Inr x \<and> f x = Inr y)"
  by (cases m) auto

lemma bind_res_Inl_iff [res_simps]:
  "bind_res m f = Inl e \<longleftrightarrow> m = Inl e \<or> (\<exists>x. m = Inr x \<and> f x = Inl e)"
  by (cases m) auto

lemma map_res_Inr_iff [res_simps]: "map_res f m = Inr y \<longleftrightarrow> (\<exists>x. m = Inr x \<and> f x = y)"
  by (cases m) auto

lemma map_res_Inl_iff [res_simps]: "map_res f m = Inl e \<longleftrightarrow> m = Inl e"
  by (cases m) auto

lemma ok_or_Inr_iff [res_simps]: "ok_or e x = Inr y \<longleftrightarrow> x = Some y"
  by (cases x) auto

lemma ok_or_Inl_iff [res_simps]: "ok_or e x = Inl e' \<longleftrightarrow> x = None \<and> e' = e"
  by (cases x) auto

lemma is_ok_iff: "is_ok m \<longleftrightarrow> (\<exists>x. m = Inr x)"
  by (cases m) auto

lemma traverse_res_Inr_iff:
  "traverse_res f xs = Inr ys \<longleftrightarrow> list_all2 (\<lambda>x y. f x = Inr y) xs ys"
  by (induction xs arbitrary: ys) (auto simp: res_simps list_all2_Cons1)

lemma traverse_res_length: "traverse_res f xs = Inr ys \<Longrightarrow> length ys = length xs"
  by (auto simp: traverse_res_Inr_iff dest: list_all2_lengthD)

lemma traverse_res_Inl:
  "traverse_res f xs = Inl e \<Longrightarrow> \<exists>x \<in> set xs. f x = Inl e"
  by (induction xs) (auto simp: res_simps)

lemma traverse_res_total:
  assumes "\<And>x. x \<in> set xs \<Longrightarrow> \<exists>y. f x = Inr y"
  shows "\<exists>ys. traverse_res f xs = Inr ys"
  using assms by (induction xs) (auto simp: res_simps)

lemma traverse_res_mem:
  assumes "traverse_res f xs = Inr ys" "y \<in> set ys"
  shows "\<exists>x \<in> set xs. f x = Inr y"
  using assms by (induction xs arbitrary: ys) (auto simp: res_simps)

lemma traverse_res_id:
  assumes "\<And>x. x \<in> set xs \<Longrightarrow> f x = Inr x"
  shows "traverse_res f xs = Inr xs"
  using assms by (induction xs) auto

section \<open>Lists and maps\<close>

lemma find_None_iff_ball: "find P xs = None \<longleftrightarrow> (\<forall>x \<in> set xs. \<not> P x)"
  by (induction xs) auto

lemma list_length_2: "length xs = 2 \<Longrightarrow> \<exists>a b. xs = [a, b]"
  by (cases xs; cases "tl xs") auto

lemma find_Some_mem: "find P xs = Some x \<Longrightarrow> x \<in> set xs \<and> P x"
  by (induction xs) (auto split: if_splits)

lemma find_Some_prefix:
  assumes "find P xs = Some x"
  obtains ys zs where "xs = ys @ x # zs" "\<forall>y \<in> set ys. \<not> P y" "P x"
  using assms
proof (induction xs arbitrary: thesis)
  case Nil
  then show ?case by simp
next
  case (Cons a xs)
  show ?case
  proof (cases "P a")
    case True
    with Cons.prems show ?thesis by (metis append_Nil empty_iff find.simps(2) list.set(1) option.inject)
  next
    case False
    with Cons.prems(2) have "find P xs = Some x" by simp
    then obtain ys zs where "xs = ys @ x # zs" "\<forall>y \<in> set ys. \<not> P y" "P x"
      using Cons.IH by blast
    with False Cons.prems(1) [of "a # ys" zs] show ?thesis by auto
  qed
qed

text \<open>\<open>HashMap::entry(k).or_insert(v)\<close>: an existing binding wins.\<close>

definition or_insert :: "'k \<Rightarrow> 'v \<Rightarrow> ('k \<rightharpoonup> 'v) \<Rightarrow> ('k \<rightharpoonup> 'v)" where
  "or_insert k v m = (case m k of None \<Rightarrow> m(k \<mapsto> v) | Some _ \<Rightarrow> m)"

lemma or_insert_apply:
  "or_insert k v m x = (if x = k \<and> m k = None then Some v else m x)"
  by (auto simp: or_insert_def split: option.splits)

lemma or_insert_ran: "y \<in> ran (or_insert k v m) \<Longrightarrow> y = v \<or> y \<in> ran m"
  by (auto simp: ran_def or_insert_apply split: if_splits)

lemma map_upd_ran: "y \<in> ran (m(k \<mapsto> v)) \<Longrightarrow> y = v \<or> y \<in> ran m"
  by (auto simp: ran_def split: if_splits)

text \<open>
  \<open>ORDER BY key DESC LIMIT 1\<close>: a row with the greatest key.  SQL leaves the choice between
  equal keys open; the model takes the first such row of the table.
\<close>

fun latest_by :: "('a \<Rightarrow> nat) \<Rightarrow> 'a list \<Rightarrow> 'a option" where
  "latest_by f [] = None"
| "latest_by f (x # xs) =
     (case latest_by f xs of None \<Rightarrow> Some x | Some y \<Rightarrow> if f y \<le> f x then Some x else Some y)"

lemma latest_by_None_iff [simp]: "latest_by f xs = None \<longleftrightarrow> xs = []"
  by (cases xs) (auto split: option.splits)

lemma latest_by_Some:
  "latest_by f xs = Some x \<Longrightarrow> x \<in> set xs \<and> (\<forall>y \<in> set xs. f y \<le> f x)"
proof (induction xs arbitrary: x)
  case (Cons a xs)
  then show ?case by (cases "latest_by f xs") (force split: if_splits)+
qed simp

lemma latest_by_strict:
  assumes "x \<in> set xs" "\<And>y. y \<in> set xs \<Longrightarrow> y \<noteq> x \<Longrightarrow> f y < f x"
  shows "latest_by f xs = Some x"
proof -
  obtain z where z: "latest_by f xs = Some z" using assms(1) by (cases "latest_by f xs") auto
  with latest_by_Some [OF z] assms have "z = x" by (metis leD)
  with z show ?thesis by simp
qed

end
