(* ===== verification/Rust_Str.thy ===== *)
theory Rust_Str
  imports Prelude
begin

text \<open>
  The string functions of the Rust standard library that the program uses.  A \<open>str\<close> is its
  sequence of UTF-8 bytes, so \<open>length\<close> is \<open>str::len\<close>.  White space is Unicode's: the
  twenty-five code points with the White\_Space property, given by their encodings; on valid
  UTF-8 a byte match of an encoding is a match of the code point, because a lead byte never
  occurs inside another code point's encoding.
\<close>

section \<open>Characters\<close>

definition byte_in :: "nat \<Rightarrow> nat \<Rightarrow> char \<Rightarrow> bool" where
  "byte_in lo hi c \<longleftrightarrow> lo \<le> of_char c \<and> of_char c \<le> hi"

definition is_ascii_digit :: "char \<Rightarrow> bool" where
  "is_ascii_digit = byte_in 48 57"

definition is_ascii_upper :: "char \<Rightarrow> bool" where
  "is_ascii_upper = byte_in 65 90"

definition is_ascii_lower :: "char \<Rightarrow> bool" where
  "is_ascii_lower = byte_in 97 122"

definition is_ascii_alphanumeric :: "char \<Rightarrow> bool" where
  "is_ascii_alphanumeric c \<longleftrightarrow> is_ascii_digit c \<or> is_ascii_upper c \<or> is_ascii_lower c"

definition is_ascii :: "char \<Rightarrow> bool" where
  "is_ascii = byte_in 0 127"

text \<open>A continuation byte of UTF-8 belongs to the character before it.\<close>

definition utf8_continuation :: "char \<Rightarrow> bool" where
  "utf8_continuation c = byte_in 128 191 c"

definition ascii_lower :: "char \<Rightarrow> char" where
  "ascii_lower c = (if is_ascii_upper c then char_of ((of_char c :: nat) + 32) else c)"

lemma of_char_ascii_lower:
  "(of_char (ascii_lower c) :: nat) = (if is_ascii_upper c then of_char c + 32 else of_char c)"
  by (simp add: ascii_lower_def is_ascii_upper_def byte_in_def)

lemma ascii_lower_not_upper [simp]: "\<not> is_ascii_upper (ascii_lower c)"
proof (cases "is_ascii_upper c")
  case True
  then have "(of_char (ascii_lower c) :: nat) \<ge> 97"
    by (simp add: of_char_ascii_lower is_ascii_upper_def byte_in_def)
  then show ?thesis by (simp add: is_ascii_upper_def byte_in_def)
qed (simp add: ascii_lower_def)

lemma ascii_lower_id: "\<not> is_ascii_upper c \<Longrightarrow> ascii_lower c = c"
  by (simp add: ascii_lower_def)

lemma ascii_lower_idem [simp]: "ascii_lower (ascii_lower c) = ascii_lower c"
  by (rule ascii_lower_id) simp

lemma ascii_lower_eq_other:
  assumes "\<not> is_ascii_lower d"
  shows "ascii_lower c = d \<longleftrightarrow> c = d \<and> \<not> is_ascii_upper d"
proof (cases "is_ascii_upper c")
  case True
  then have "97 \<le> (of_char (ascii_lower c) :: nat)" "of_char (ascii_lower c) \<le> (122 :: nat)"
    by (auto simp: of_char_ascii_lower is_ascii_upper_def byte_in_def)
  then have "is_ascii_lower (ascii_lower c)" by (simp add: is_ascii_lower_def byte_in_def)
  with assms True show ?thesis by auto
qed (auto simp: ascii_lower_def)

section \<open>Case\<close>

definition to_ascii_lowercase :: "string \<Rightarrow> string" where
  "to_ascii_lowercase s = map ascii_lower s"

definition eq_ignore_ascii_case :: "string \<Rightarrow> string \<Rightarrow> bool" where
  "eq_ignore_ascii_case a b \<longleftrightarrow> to_ascii_lowercase a = to_ascii_lowercase b"

lemma to_ascii_lowercase_idem [simp]:
  "to_ascii_lowercase (to_ascii_lowercase s) = to_ascii_lowercase s"
  by (simp add: to_ascii_lowercase_def)

lemma length_to_ascii_lowercase [simp]: "length (to_ascii_lowercase s) = length s"
  by (simp add: to_ascii_lowercase_def)

lemma to_ascii_lowercase_append [simp]:
  "to_ascii_lowercase (a @ b) = to_ascii_lowercase a @ to_ascii_lowercase b"
  by (simp add: to_ascii_lowercase_def)

lemma to_ascii_lowercase_Cons [simp]:
  "to_ascii_lowercase (c # s) = ascii_lower c # to_ascii_lowercase s"
  by (simp add: to_ascii_lowercase_def)

lemma to_ascii_lowercase_Nil [simp]: "to_ascii_lowercase [] = []"
  by (simp add: to_ascii_lowercase_def)

lemma to_ascii_lowercase_eq_Nil [simp]: "to_ascii_lowercase s = [] \<longleftrightarrow> s = []"
  by (simp add: to_ascii_lowercase_def)

lemma to_ascii_lowercase_rev: "to_ascii_lowercase (rev s) = rev (to_ascii_lowercase s)"
  by (simp add: to_ascii_lowercase_def rev_map)

lemma to_ascii_lowercase_drop: "drop n (to_ascii_lowercase s) = to_ascii_lowercase (drop n s)"
  by (simp add: to_ascii_lowercase_def drop_map)

lemma to_ascii_lowercase_take: "take n (to_ascii_lowercase s) = to_ascii_lowercase (take n s)"
  by (simp add: to_ascii_lowercase_def take_map)

lemma eq_ignore_ascii_case_refl [simp]: "eq_ignore_ascii_case a a"
  by (simp add: eq_ignore_ascii_case_def)

lemma eq_ignore_length: "eq_ignore_ascii_case a b \<Longrightarrow> length a = length b"
  unfolding eq_ignore_ascii_case_def by (metis length_to_ascii_lowercase)

lemma eq_ignore_ascii_case_sym: "eq_ignore_ascii_case a b = eq_ignore_ascii_case b a"
  by (auto simp: eq_ignore_ascii_case_def)

section \<open>Prefixes and suffixes\<close>

definition starts_with :: "string \<Rightarrow> string \<Rightarrow> bool" where
  "starts_with s p \<longleftrightarrow> prefix p s"

definition ends_with :: "string \<Rightarrow> string \<Rightarrow> bool" where
  "ends_with s p \<longleftrightarrow> suffix p s"

definition contains_str :: "string \<Rightarrow> string \<Rightarrow> bool" where
  "contains_str s p \<longleftrightarrow> (\<exists>i \<in> set [0..<Suc (length s)]. prefix p (drop i s))"

fun strip_prefix :: "string \<Rightarrow> string \<Rightarrow> string option" where
  "strip_prefix [] s = Some s"
| "strip_prefix (p # ps) [] = None"
| "strip_prefix (p # ps) (c # cs) = (if p = c then strip_prefix ps cs else None)"

lemma strip_prefix_Some_iff: "strip_prefix p s = Some r \<longleftrightarrow> s = p @ r"
  by (induction p s rule: strip_prefix.induct) auto

lemma strip_prefix_None_iff: "strip_prefix p s = None \<longleftrightarrow> \<not> prefix p s"
  by (induction p s rule: strip_prefix.induct) auto

lemma strip_prefix_append [simp]: "strip_prefix p (p @ s) = Some s"
  by (simp add: strip_prefix_Some_iff)

definition trim_end_matches :: "char \<Rightarrow> string \<Rightarrow> string" where
  "trim_end_matches d s = rev (dropWhile (\<lambda>c. c = d) (rev s))"

lemma trim_end_matches_idem [simp]:
  "trim_end_matches d (trim_end_matches d s) = trim_end_matches d s"
  by (simp add: trim_end_matches_def dropWhile_idem)

lemma trim_end_matches_prefix: "prefix (trim_end_matches d s) s"
  unfolding trim_end_matches_def suffix_to_prefix [symmetric]
  by (metis rev_rev_ident suffix_dropWhile suffix_to_prefix)

lemma trim_end_matches_last: "trim_end_matches d s = [] \<or> last (trim_end_matches d s) \<noteq> d"
proof (cases "dropWhile (\<lambda>c. c = d) (rev s)")
  case (Cons x xs)
  then have "x \<noteq> d" using hd_dropWhile [of "\<lambda>c. c = d" "rev s"] by force
  with Cons show ?thesis by (simp add: trim_end_matches_def)
qed (simp add: trim_end_matches_def)

lemma trim_end_matches_id: "s = [] \<or> last s \<noteq> d \<Longrightarrow> trim_end_matches d s = s"
  by (cases s rule: rev_cases) (auto simp: trim_end_matches_def)

lemma trim_end_matches_lower:
  assumes "\<not> is_ascii_lower d" "\<not> is_ascii_upper d"
  shows "trim_end_matches d (to_ascii_lowercase s) = to_ascii_lowercase (trim_end_matches d s)"
proof -
  have "(\<lambda>c. c = d) \<circ> ascii_lower = (\<lambda>c. c = d)"
    using assms by (auto simp: fun_eq_iff ascii_lower_eq_other)
  then show ?thesis
    by (simp add: trim_end_matches_def to_ascii_lowercase_def rev_map dropWhile_map)
qed

section \<open>White space\<close>

definition ws_encodings :: "string list" where
  "ws_encodings =
     [[CHR 0x20], [CHR 0x09], [CHR 0x0A], [CHR 0x0B], [CHR 0x0C], [CHR 0x0D],
      [CHR 0xC2, CHR 0x85], [CHR 0xC2, CHR 0xA0], [CHR 0xE1, CHR 0x9A, CHR 0x80],
      [CHR 0xE2, CHR 0x80, CHR 0x80], [CHR 0xE2, CHR 0x80, CHR 0x81],
      [CHR 0xE2, CHR 0x80, CHR 0x82], [CHR 0xE2, CHR 0x80, CHR 0x83],
      [CHR 0xE2, CHR 0x80, CHR 0x84], [CHR 0xE2, CHR 0x80, CHR 0x85],
      [CHR 0xE2, CHR 0x80, CHR 0x86], [CHR 0xE2, CHR 0x80, CHR 0x87],
      [CHR 0xE2, CHR 0x80, CHR 0x88], [CHR 0xE2, CHR 0x80, CHR 0x89],
      [CHR 0xE2, CHR 0x80, CHR 0x8A], [CHR 0xE2, CHR 0x80, CHR 0xA8],
      [CHR 0xE2, CHR 0x80, CHR 0xA9], [CHR 0xE2, CHR 0x80, CHR 0xAF],
      [CHR 0xE2, CHR 0x81, CHR 0x9F], [CHR 0xE3, CHR 0x80, CHR 0x80]]"

definition ws_prefix :: "string \<Rightarrow> string option" where
  "ws_prefix s = find (\<lambda>w. prefix w s) ws_encodings"

definition ws_suffix :: "string \<Rightarrow> string option" where
  "ws_suffix s = find (\<lambda>w. suffix w s) ws_encodings"

lemma ws_encodings_nonempty: "w \<in> set ws_encodings \<Longrightarrow> w \<noteq> []"
  by (auto simp: ws_encodings_def)

lemma ws_prefix_Some:
  "ws_prefix s = Some w \<Longrightarrow> w \<in> set ws_encodings \<and> w \<noteq> [] \<and> (\<exists>r. s = w @ r)"
  by (auto simp: ws_prefix_def prefix_def dest!: find_Some_mem dest: ws_encodings_nonempty)

lemma ws_suffix_Some:
  "ws_suffix s = Some w \<Longrightarrow> w \<in> set ws_encodings \<and> w \<noteq> [] \<and> (\<exists>r. s = r @ w)"
  by (auto simp: ws_suffix_def suffix_def dest!: find_Some_mem dest: ws_encodings_nonempty)

lemma ws_prefix_None_iff: "ws_prefix s = None \<longleftrightarrow> (\<forall>w \<in> set ws_encodings. \<not> prefix w s)"
  by (simp add: ws_prefix_def find_None_iff_ball)

lemma ws_suffix_None_iff: "ws_suffix s = None \<longleftrightarrow> (\<forall>w \<in> set ws_encodings. \<not> suffix w s)"
  by (simp add: ws_suffix_def find_None_iff_ball)

function trim_start :: "string \<Rightarrow> string" where
  "trim_start s = (case ws_prefix s of None \<Rightarrow> s | Some w \<Rightarrow> trim_start (drop (length w) s))"
  by pat_completeness auto
termination
  by (relation "measure length") (auto dest!: ws_prefix_Some)

function trim_end :: "string \<Rightarrow> string" where
  "trim_end s = (case ws_suffix s of None \<Rightarrow> s | Some w \<Rightarrow> trim_end (take (length s - length w) s))"
  by pat_completeness auto
termination
  by (relation "measure length") (auto dest!: ws_suffix_Some)

declare trim_start.simps [simp del] trim_end.simps [simp del]

definition trim :: "string \<Rightarrow> string" where
  "trim s = trim_end (trim_start s)"

lemma trim_start_id: "ws_prefix s = None \<Longrightarrow> trim_start s = s"
  by (simp add: trim_start.simps [of s])

lemma trim_end_id: "ws_suffix s = None \<Longrightarrow> trim_end s = s"
  by (simp add: trim_end.simps [of s])

lemma trim_start_none: "ws_prefix (trim_start s) = None"
proof (induction s rule: trim_start.induct)
  case (1 s)
  then show ?case by (cases "ws_prefix s") (simp_all add: trim_start.simps [of s])
qed

lemma trim_end_none: "ws_suffix (trim_end s) = None"
proof (induction s rule: trim_end.induct)
  case (1 s)
  then show ?case by (cases "ws_suffix s") (simp_all add: trim_end.simps [of s])
qed

lemma trim_start_suffix: "suffix (trim_start s) s"
proof (induction s rule: trim_start.induct)
  case (1 s)
  then show ?case
    by (cases "ws_prefix s")
      (auto simp: trim_start.simps [of s] intro: suffix_order.trans suffix_drop)
qed

lemma trim_end_prefix: "prefix (trim_end s) s"
proof (induction s rule: trim_end.induct)
  case (1 s)
  then show ?case
    by (cases "ws_suffix s")
      (auto simp: trim_end.simps [of s] intro: prefix_order.trans take_is_prefix)
qed

lemma ws_prefix_None_prefix: "prefix t s \<Longrightarrow> ws_prefix s = None \<Longrightarrow> ws_prefix t = None"
  by (auto simp: ws_prefix_None_iff intro: prefix_order.trans)

lemma trim_prefix_none: "ws_prefix (trim s) = None"
  unfolding trim_def by (rule ws_prefix_None_prefix [OF trim_end_prefix trim_start_none])

lemma trim_suffix_none: "ws_suffix (trim s) = None"
  unfolding trim_def by (rule trim_end_none)

lemma trim_id: "ws_prefix s = None \<Longrightarrow> ws_suffix s = None \<Longrightarrow> trim s = s"
  by (simp add: trim_def trim_start_id trim_end_id)

lemma trim_idem [simp]: "trim (trim s) = trim s"
  by (rule trim_id) (rule trim_prefix_none, rule trim_suffix_none)

lemma trim_Nil [simp]: "trim [] = []"
  by (rule trim_id) (auto simp: ws_prefix_None_iff ws_suffix_None_iff dest: ws_encodings_nonempty)

lemma length_trim: "length (trim s) \<le> length s"
  unfolding trim_def
  by (metis trim_end_prefix trim_start_suffix prefix_length_le suffix_length_le order_trans)

text \<open>A string free of white space is unchanged by trimming, and so is each of its factors.\<close>

definition no_ws :: "string \<Rightarrow> bool" where
  "no_ws s \<longleftrightarrow> (\<forall>w \<in> set ws_encodings. \<not> sublist w s)"

lemma no_ws_sublist: "no_ws s \<Longrightarrow> sublist t s \<Longrightarrow> no_ws t"
  by (meson no_ws_def sublist_order.order_trans)

lemma no_ws_trim: "no_ws s \<Longrightarrow> trim s = s"
  by (rule trim_id) (auto simp: no_ws_def ws_prefix_None_iff ws_suffix_None_iff
      dest: prefix_imp_sublist suffix_imp_sublist)

lemma trim_sublist: "sublist (trim s) s"
  unfolding trim_def
  by (meson trim_end_prefix trim_start_suffix prefix_imp_sublist suffix_imp_sublist
      sublist_order.order_trans)

text \<open>Lower-casing neither creates nor destroys white space.\<close>

lemma ws_encodings_lower:
  "w \<in> set ws_encodings \<Longrightarrow> c \<in> set w \<Longrightarrow> \<not> is_ascii_upper c \<and> \<not> is_ascii_lower c"
  by (auto simp: ws_encodings_def is_ascii_upper_def is_ascii_lower_def byte_in_def)

lemma prefix_lower_iff:
  assumes "\<And>c. c \<in> set w \<Longrightarrow> \<not> is_ascii_upper c \<and> \<not> is_ascii_lower c"
  shows "prefix w (to_ascii_lowercase s) \<longleftrightarrow> prefix w s"
  using assms
proof (induction w arbitrary: s)
  case (Cons c w)
  have "ascii_lower a = c \<longleftrightarrow> a = c" for a
    using Cons.prems [of c] by (simp add: ascii_lower_eq_other)
  then have "c = ascii_lower a \<longleftrightarrow> c = a" for a by metis
  with Cons show ?case by (cases s) auto
qed simp

lemma ws_prefix_lower: "ws_prefix (to_ascii_lowercase s) = ws_prefix s"
proof -
  have "prefix w (to_ascii_lowercase s) = prefix w s" if "w \<in> set ws_encodings" for w
    using ws_encodings_lower [OF that] by (intro prefix_lower_iff) auto
  then show ?thesis unfolding ws_prefix_def by (intro find_cong) auto
qed

lemma ws_suffix_lower: "ws_suffix (to_ascii_lowercase s) = ws_suffix s"
proof -
  have "suffix w (to_ascii_lowercase s) = suffix w s" if "w \<in> set ws_encodings" for w
    unfolding suffix_to_prefix to_ascii_lowercase_rev [symmetric]
    using ws_encodings_lower [OF that] by (intro prefix_lower_iff) auto
  then show ?thesis unfolding ws_suffix_def by (intro find_cong) auto
qed

lemma trim_start_lower: "trim_start (to_ascii_lowercase s) = to_ascii_lowercase (trim_start s)"
proof (induction s rule: trim_start.induct)
  case (1 s)
  show ?case
    using "1" by (cases "ws_prefix s")
      (simp_all add: trim_start.simps [of s] trim_start.simps [of "to_ascii_lowercase s"]
        ws_prefix_lower to_ascii_lowercase_drop)
qed

lemma trim_end_lower: "trim_end (to_ascii_lowercase s) = to_ascii_lowercase (trim_end s)"
proof (induction s rule: trim_end.induct)
  case (1 s)
  show ?case
    using "1" by (cases "ws_suffix s")
      (simp_all add: trim_end.simps [of s] trim_end.simps [of "to_ascii_lowercase s"]
        ws_suffix_lower to_ascii_lowercase_take)
qed

lemma trim_lower: "trim (to_ascii_lowercase s) = to_ascii_lowercase (trim s)"
  by (simp add: trim_def trim_start_lower trim_end_lower)

lemma no_ws_lower: "no_ws (to_ascii_lowercase s) \<longleftrightarrow> no_ws s"
proof -
  have "sublist w (to_ascii_lowercase s) \<longleftrightarrow> sublist w s" if "w \<in> set ws_encodings" for w
  proof
    assume "sublist w s"
    then obtain a b where "s = a @ w @ b" by (auto simp: sublist_def)
    moreover have "to_ascii_lowercase w = w"
      unfolding to_ascii_lowercase_def
      by (rule map_idI) (use ws_encodings_lower [OF that] in \<open>simp add: ascii_lower_id\<close>)
    ultimately show "sublist w (to_ascii_lowercase s)" by (auto simp: sublist_def)
  next
    assume "sublist w (to_ascii_lowercase s)"
    then obtain a b where ab: "to_ascii_lowercase s = a @ w @ b" by (auto simp: sublist_def)
    then have "drop (length a) (to_ascii_lowercase s) = w @ b" by simp
    then have "prefix w (to_ascii_lowercase (drop (length a) s))"
      by (simp add: to_ascii_lowercase_drop)
    then have "prefix w (drop (length a) s)"
      using ws_encodings_lower [OF that] by (subst (asm) prefix_lower_iff) auto
    then show "sublist w s"
      by (meson prefix_imp_sublist sublist_drop sublist_order.order_trans)
  qed
  then show ?thesis by (auto simp: no_ws_def)
qed

section \<open>Splitting and joining\<close>

fun split_on :: "(char \<Rightarrow> bool) \<Rightarrow> string \<Rightarrow> string list" where
  "split_on P [] = [[]]"
| "split_on P (c # cs) =
     (if P c then [] # split_on P cs
      else (case split_on P cs of [] \<Rightarrow> [[c]] | p # ps \<Rightarrow> (c # p) # ps))"

definition split_char :: "char \<Rightarrow> string \<Rightarrow> string list" where
  "split_char d = split_on (\<lambda>c. c = d)"

fun join_str :: "string \<Rightarrow> string list \<Rightarrow> string" where
  "join_str sep [] = []"
| "join_str sep [x] = x"
| "join_str sep (x # y # ys) = x @ sep @ join_str sep (y # ys)"

fun split_once_char :: "char \<Rightarrow> string \<Rightarrow> (string \<times> string) option" where
  "split_once_char d [] = None"
| "split_once_char d (c # cs) =
     (if c = d then Some ([], cs)
      else map_option (\<lambda>(a, b). (c # a, b)) (split_once_char d cs))"

definition rsplit_once_char :: "char \<Rightarrow> string \<Rightarrow> (string \<times> string) option" where
  "rsplit_once_char d s = map_option (\<lambda>(a, b). (rev b, rev a)) (split_once_char d (rev s))"

fun split_once_str :: "string \<Rightarrow> string \<Rightarrow> (string \<times> string) option" where
  "split_once_str p [] = (if p = [] then Some ([], []) else None)"
| "split_once_str p (c # cs) =
     (if prefix p (c # cs) then Some ([], drop (length p) (c # cs))
      else map_option (\<lambda>(a, b). (c # a, b)) (split_once_str p cs))"

fun find_char :: "char \<Rightarrow> string \<Rightarrow> nat option" where
  "find_char d [] = None"
| "find_char d (c # cs) = (if c = d then Some 0 else map_option Suc (find_char d cs))"

lemma split_on_nonempty [simp]: "split_on P s \<noteq> []"
  by (cases s) (auto split: list.splits)

lemma split_on_append_sep:
  "P c \<Longrightarrow> split_on P (a @ c # b) = split_on P a @ split_on P b"
  by (induction a) (auto split: list.splits)

lemma split_on_no_sep: "\<forall>c \<in> set s. \<not> P c \<Longrightarrow> split_on P s = [s]"
  by (induction s) auto

lemma split_on_parts: "p \<in> set (split_on P s) \<Longrightarrow> c \<in> set p \<Longrightarrow> \<not> P c"
proof (induction s arbitrary: p c)
  case (Cons x xs)
  then show ?case
    by (cases "split_on P xs") (fastforce split: if_splits)+
qed simp

lemma join_str_Cons: "ys \<noteq> [] \<Longrightarrow> join_str sep (x # ys) = x @ sep @ join_str sep ys"
  by (cases ys) auto

lemma join_str_append:
  "xs \<noteq> [] \<Longrightarrow> ys \<noteq> [] \<Longrightarrow> join_str sep (xs @ ys) = join_str sep xs @ sep @ join_str sep ys"
  by (induction xs rule: induct_list012) (auto simp: join_str_Cons)

lemma split_char_nonempty [simp]: "split_char d s \<noteq> []"
  by (simp add: split_char_def)

lemma split_char_Nil [simp]: "split_char d [] = [[]]"
  by (simp add: split_char_def)

lemma split_char_append: "split_char d (a @ d # b) = split_char d a @ split_char d b"
  by (simp add: split_char_def split_on_append_sep)

lemma split_char_no_sep: "d \<notin> set s \<Longrightarrow> split_char d s = [s]"
  unfolding split_char_def by (rule split_on_no_sep) auto

lemma split_char_parts: "p \<in> set (split_char d s) \<Longrightarrow> d \<notin> set p"
  unfolding split_char_def using split_on_parts by fastforce

lemma split_char_Cons:
  "split_char d (c # s) =
     (if c = d then [] # split_char d s
      else (c # hd (split_char d s)) # tl (split_char d s))"
  by (cases "split_char d s") (auto simp: split_char_def)

lemma join_split_char: "join_str [d] (split_char d s) = s"
proof (induction s)
  case (Cons c s)
  obtain p ps where ps: "split_char d s = p # ps"
    using split_char_nonempty [of d s] by (cases "split_char d s") auto
  with Cons show ?case
    by (cases ps) (auto simp: split_char_Cons)
qed simp

lemma split_join_char:
  assumes "ps \<noteq> []" "\<And>p. p \<in> set ps \<Longrightarrow> d \<notin> set p"
  shows "split_char d (join_str [d] ps) = ps"
  using assms
proof (induction ps)
  case (Cons p ps)
  show ?case
  proof (cases "ps = []")
    case True
    with Cons.prems show ?thesis by (simp add: split_char_no_sep)
  next
    case False
    with Cons show ?thesis
      by (simp add: join_str_Cons split_char_append split_char_no_sep)
  qed
qed simp

text \<open>
  A suffix that starts at a separator is a suffix of the list of parts: the fact behind every
  label-boundary match on host names.
\<close>

lemma suffix_split_char_iff:
  "s = t \<or> suffix (d # t) s \<longleftrightarrow> suffix (split_char d t) (split_char d s)"
proof
  assume "s = t \<or> suffix (d # t) s"
  then show "suffix (split_char d t) (split_char d s)"
    by (auto simp: suffix_def split_char_append)
next
  assume "suffix (split_char d t) (split_char d s)"
  then obtain xs where xs: "split_char d s = xs @ split_char d t" by (auto simp: suffix_def)
  show "s = t \<or> suffix (d # t) s"
  proof (cases "xs = []")
    case True
    with xs have "split_char d s = split_char d t" by simp
    then have "join_str [d] (split_char d s) = join_str [d] (split_char d t)" by simp
    then show ?thesis by (simp add: join_split_char)
  next
    case False
    have "s = join_str [d] (xs @ split_char d t)" by (simp add: xs [symmetric] join_split_char)
    with False have "s = join_str [d] xs @ d # t" by (simp add: join_str_append join_split_char)
    then show ?thesis by (auto simp: suffix_def)
  qed
qed

lemma split_once_char_Some_iff:
  "split_once_char d s = Some (a, b) \<longleftrightarrow> s = a @ d # b \<and> d \<notin> set a"
proof (induction s arbitrary: a)
  case (Cons c s)
  then show ?case by (cases a) auto
qed simp

lemma split_once_char_None_iff: "split_once_char d s = None \<longleftrightarrow> d \<notin> set s"
  by (induction s) auto

lemma rsplit_once_char_Some_iff:
  "rsplit_once_char d s = Some (a, b) \<longleftrightarrow> s = a @ d # b \<and> d \<notin> set b"
proof -
  have "rsplit_once_char d s = Some (a, b) \<longleftrightarrow> split_once_char d (rev s) = Some (rev b, rev a)"
    by (force simp: rsplit_once_char_def)
  also have "\<dots> \<longleftrightarrow> rev s = rev b @ d # rev a \<and> d \<notin> set b"
    by (simp add: split_once_char_Some_iff)
  also have "rev s = rev b @ d # rev a \<longleftrightarrow> s = a @ d # b"
    by (metis append.assoc append_Cons append_Nil rev_append rev_rev_ident rev_singleton_conv rev.simps(2))
  finally show ?thesis .
qed

lemma rsplit_once_char_None_iff: "rsplit_once_char d s = None \<longleftrightarrow> d \<notin> set s"
  by (simp add: rsplit_once_char_def split_once_char_None_iff)

lemma split_once_str_Some: "split_once_str p s = Some (a, b) \<Longrightarrow> s = a @ p @ b"
proof (induction s arbitrary: a)
  case (Cons c s)
  then show ?case by (cases "prefix p (c # s)") (auto simp: prefix_def)
qed (auto split: if_splits)

text \<open>
  \<open>str::lines\<close>: every terminated line loses its line feed and one carriage return before it;
  what follows the last line feed is a line of its own unless it is empty.
\<close>

definition strip_cr :: "string \<Rightarrow> string" where
  "strip_cr l = (if l \<noteq> [] \<and> last l = CHR 0x0D then butlast l else l)"

definition str_lines :: "string \<Rightarrow> string list" where
  "str_lines s =
     (let ps = split_char (CHR 0x0A) s
      in map strip_cr (butlast ps) @ (if last ps = [] then [] else [last ps]))"

function split_ws_aux :: "string \<Rightarrow> string \<Rightarrow> string list" where
  "split_ws_aux acc s =
     (case ws_prefix s of
        Some w \<Rightarrow> (if acc = [] then [] else [acc]) @ split_ws_aux [] (drop (length w) s)
      | None \<Rightarrow> (case s of [] \<Rightarrow> (if acc = [] then [] else [acc])
                        | c # cs \<Rightarrow> split_ws_aux (acc @ [c]) cs))"
  by pat_completeness auto
termination
  by (relation "measure (\<lambda>(acc, s). length s)") (auto dest!: ws_prefix_Some)

declare split_ws_aux.simps [simp del]

definition split_whitespace :: "string \<Rightarrow> string list" where
  "split_whitespace s = split_ws_aux [] s"

section \<open>Printable text\<close>

text \<open>Printable ASCII without the space: the bytes of methods, URIs, host names and header values.\<close>

definition graphic :: "string \<Rightarrow> bool" where
  "graphic s \<longleftrightarrow> s \<noteq> [] \<and> (\<forall>c \<in> set s. byte_in 33 126 c)"

lemma ws_first_not_graphic: "w \<in> set ws_encodings \<Longrightarrow> \<not> byte_in 33 126 (hd w)"
  by (auto simp: ws_encodings_def byte_in_def)

lemma ws_last_not_graphic: "w \<in> set ws_encodings \<Longrightarrow> \<not> byte_in 33 126 (last w)"
  by (auto simp: ws_encodings_def byte_in_def)

lemma ws_prefix_graphic: "byte_in 33 126 c \<Longrightarrow> ws_prefix (c # s) = None"
  using ws_first_not_graphic
  by (fastforce simp: ws_prefix_None_iff prefix_Cons dest: ws_encodings_nonempty)

lemma ws_suffix_graphic:
  assumes "byte_in 33 126 (last s)" "s \<noteq> []"
  shows "ws_suffix s = None"
  unfolding ws_suffix_None_iff
proof (intro ballI notI)
  fix w assume w: "w \<in> set ws_encodings" "suffix w s"
  then have "last s = last w" using ws_encodings_nonempty [OF w(1)] by (auto simp: suffix_def)
  with assms w(1) ws_last_not_graphic show False by auto
qed

lemma trim_graphic [simp]: "graphic s \<Longrightarrow> trim s = s"
  by (cases s) (auto simp: graphic_def ws_prefix_graphic intro!: trim_id ws_suffix_graphic)

lemma trim_nonempty: "graphic k \<Longrightarrow> trim (k @ s) \<noteq> []"
proof
  assume k: "graphic k" and e: "trim (k @ s) = []"
  have "ws_prefix (k @ s) = None" using k by (cases k) (auto simp: graphic_def ws_prefix_graphic)
  then have "trim_end (k @ s) = []" using e by (simp add: trim_def trim_start_id)
  moreover have "trim_end (k @ t) \<noteq> []" for t
  proof (induction "k @ t" arbitrary: t rule: trim_end.induct)
    case 1
    show ?case
    proof (cases "ws_suffix (k @ t)")
      case None
      then show ?thesis using k by (simp add: trim_end_id graphic_def)
    next
      case (Some w)
      then obtain r where r: "k @ t = r @ w" "w \<in> set ws_encodings" "w \<noteq> []"
        using ws_suffix_Some by blast
      have "length w \<le> length t"
      proof (rule ccontr)
        assume "\<not> length w \<le> length t"
        then obtain u where u: "k = r @ u" "w = u @ t" "u \<noteq> []"
          using r(1) by (auto simp: append_eq_append_conv2)
        then have "hd w = hd u" "byte_in 33 126 (hd u)" using k by (auto simp: graphic_def)
        with ws_first_not_graphic [OF r(2)] show False by simp
      qed
      then have "take (length (k @ t) - length w) (k @ t) = k @ take (length t - length w) t" by simp
      moreover have "trim_end (k @ take (length t - length w) t) \<noteq> []"
        using 1 Some \<open>length w \<le> length t\<close> by simp
      ultimately show ?thesis using Some by (simp add: trim_end.simps [of "k @ t"])
    qed
  qed
  ultimately show False by blast
qed

section \<open>Formatting of numbers\<close>

definition digit_char :: "nat \<Rightarrow> char" where
  "digit_char d = (if d < 10 then char_of (48 + d) else char_of (55 + d))"

fun show_base :: "nat \<Rightarrow> nat \<Rightarrow> string" where
  "show_base b n =
     (if b < 2 \<or> n < b then [digit_char n] else show_base b (n div b) @ [digit_char (n mod b)])"

declare show_base.simps [simp del]

definition show_nat :: "nat \<Rightarrow> string" where
  "show_nat = show_base 10"

definition show_hex :: "nat \<Rightarrow> string" where
  "show_hex = show_base 16"

definition show_int :: "int \<Rightarrow> string" where
  "show_int i = (if i < 0 then CHR ''-'' # show_nat (nat (- i)) else show_nat (nat i))"

end
