(* ===== verification/Common_Types.thy ===== *)
theory Common_Types
  imports Rust_Str
begin

text \<open>
  The shared types of \<^verbatim>\<open>crates/common-types\<close> and their JSON form.

  JSON values are a datatype; \<open>JFloat\<close> carries the \<open>f32\<close> a non-integer number denotes, the only
  floating type the program reads from JSON.  The \<open>_to_json\<close> and \<open>_of_json\<close> functions follow
  the \<open>serde\<close> attributes of each structure (\<open>default\<close>, \<open>skip_serializing_if\<close>,
  \<open>deny_unknown_fields\<close>); a decoder returns \<open>None\<close> where \<open>serde\<close> reports an error.  Objects are
  key/value lists, and a repeated known key is an error; the positional (array) spelling of a
  structure is not modelled.

  \<open>externs\<close> collects the functions the program takes from outside the repository: the IDNA,
  public-suffix and URL crates, the JSON text layer, Unicode lower-casing and the IEEE
  conversions, and the text form of UUIDs.  Definitions take it as an argument.
\<close>

section \<open>JSON\<close>

datatype json =
    JNull
  | JBool bool
  | JInt int
  | JFloat f32
  | JStr string
  | JArr "json list"
  | JObj "(string \<times> json) list"

fun fields_of :: "string list \<Rightarrow> json \<Rightarrow> (string \<times> json) list option" where
  "fields_of known (JObj fs) =
     (if distinct (filter (\<lambda>k. k \<in> set known) (map fst fs)) then Some fs else None)"
| "fields_of known _ = None"

fun string_of_json :: "json \<Rightarrow> string option" where
  "string_of_json (JStr s) = Some s"
| "string_of_json _ = None"

fun bool_of_json :: "json \<Rightarrow> bool option" where
  "bool_of_json (JBool b) = Some b"
| "bool_of_json _ = None"

fun all_some :: "'a option list \<Rightarrow> 'a list option" where
  "all_some [] = Some []"
| "all_some (x # xs) = Option.bind x (\<lambda>y. map_option (Cons y) (all_some xs))"

fun list_of_json :: "(json \<Rightarrow> 'a option) \<Rightarrow> json \<Rightarrow> 'a list option" where
  "list_of_json f (JArr js) = all_some (map f js)"
| "list_of_json f _ = None"

text \<open>A field of type \<open>Option\<close>: absent and \<open>null\<close> both read as \<open>None\<close>.\<close>

definition opt_field :: "(json \<Rightarrow> 'a option) \<Rightarrow> string \<Rightarrow> (string \<times> json) list \<Rightarrow> 'a option option" where
  "opt_field f k fs =
     (case map_of fs k of
        None \<Rightarrow> Some None
      | Some JNull \<Rightarrow> Some None
      | Some j \<Rightarrow> map_option Some (f j))"

definition req_field :: "(json \<Rightarrow> 'a option) \<Rightarrow> string \<Rightarrow> (string \<times> json) list \<Rightarrow> 'a option" where
  "req_field f k fs = Option.bind (map_of fs k) f"

text \<open>A field with a default.\<close>

definition default_field ::
  "'a \<Rightarrow> (json \<Rightarrow> 'a option) \<Rightarrow> string \<Rightarrow> (string \<times> json) list \<Rightarrow> 'a option" where
  "default_field d f k fs = (case map_of fs k of None \<Rightarrow> Some d | Some j \<Rightarrow> f j)"

definition opt_to_json :: "('a \<Rightarrow> json) \<Rightarrow> 'a option \<Rightarrow> json" where
  "opt_to_json f x = (case x of None \<Rightarrow> JNull | Some y \<Rightarrow> f y)"

definition strs_to_json :: "string list \<Rightarrow> json" where
  "strs_to_json xs = JArr (map JStr xs)"

text \<open>\<open>skip_serializing_if = "Option::is_none"\<close>: the field is left out.\<close>

definition skip_none :: "string \<Rightarrow> ('a \<Rightarrow> json) \<Rightarrow> 'a option \<Rightarrow> (string \<times> json) list" where
  "skip_none k f x = (case x of None \<Rightarrow> [] | Some y \<Rightarrow> [(k, f y)])"

lemma all_some_map_Some [simp]: "all_some (map Some xs) = Some xs"
  by (induction xs) auto

lemma list_of_strs_to_json [simp]: "list_of_json string_of_json (strs_to_json xs) = Some xs"
  by (simp add: strs_to_json_def comp_def)

lemma opt_field_round:
  assumes "\<And>y. x = Some y \<Longrightarrow> g y \<noteq> JNull \<and> f (g y) = Some y"
    and "map_of fs k = Some (opt_to_json g x)"
  shows "opt_field f k fs = Some x"
proof (cases x)
  case None
  with assms(2) show ?thesis by (simp add: opt_field_def opt_to_json_def)
next
  case (Some y)
  with assms(2) have "map_of fs k = Some (g y)" by (simp add: opt_to_json_def)
  with assms(1) [OF Some] Some show ?thesis by (cases "g y") (simp_all add: opt_field_def)
qed

lemma opt_field_strs_round:
  "map_of fs k = Some (opt_to_json strs_to_json x) \<Longrightarrow>
   opt_field (list_of_json string_of_json) k fs = Some x"
  by (rule opt_field_round [where g = strs_to_json]) (simp_all, simp add: strs_to_json_def)

lemma opt_field_str_round:
  "map_of fs k = Some (opt_to_json JStr x) \<Longrightarrow> opt_field string_of_json k fs = Some x"
  by (rule opt_field_round [where g = JStr]) simp_all

section \<open>Code outside the repository\<close>

record url =
  url_scheme :: string
  url_host_str :: "string option"
  url_path :: string
  url_username :: string
  url_password :: "string option"

record externs =
  domain_to_ascii :: "string \<Rightarrow> string option"
  domain_root :: "string \<Rightarrow> string option"
  url_parse :: "string \<Rightarrow> url option"
  to_lowercase :: "string \<Rightarrow> string"
  json_of_text :: "string \<Rightarrow> json option"
  text_of_json :: "json \<Rightarrow> string"
  f32_of_int :: "int \<Rightarrow> f32"
  f32_of_f64 :: "f64 \<Rightarrow> f32"
  uuid_parse :: "string \<Rightarrow> uuid option"
  uuid_to_string :: "uuid \<Rightarrow> string"

section \<open>Levels and actions\<close>

datatype entity_level = ELDomain | ELSubdomain | ELUrl | ELPage

datatype policy_action =
  Allow | Block | Warn | Monitor | Review | RequireApproval | ContentPending

fun show_action :: "policy_action \<Rightarrow> string" where
  "show_action Allow = ''Allow''"
| "show_action Block = ''Block''"
| "show_action Warn = ''Warn''"
| "show_action Monitor = ''Monitor''"
| "show_action Review = ''Review''"
| "show_action RequireApproval = ''RequireApproval''"
| "show_action ContentPending = ''ContentPending''"

definition all_actions :: "policy_action list" where
  "all_actions = [Allow, Block, Warn, Monitor, Review, RequireApproval, ContentPending]"

definition action_of_json :: "json \<Rightarrow> policy_action option" where
  "action_of_json j =
     Option.bind (string_of_json j) (\<lambda>s. find (\<lambda>a. show_action a = s) all_actions)"

lemma all_actions_complete [simp]: "a \<in> set all_actions"
  by (cases a) (auto simp: all_actions_def)

lemma show_action_inject [simp]: "show_action a = show_action b \<longleftrightarrow> a = b"
  by (cases a; cases b) auto

lemma action_json_round [simp]: "action_of_json (JStr (show_action a)) = Some a"
  by (cases a) (auto simp: action_of_json_def all_actions_def)

section \<open>Key prefixes\<close>

text \<open>
  The literals of the normalised keys are named, so that a proof meets a constant and not its
  characters.
\<close>

definition domain_pfx :: string where "domain_pfx = ''domain:''"
definition subdomain_pfx :: string where "subdomain_pfx = ''subdomain:''"
definition url_pfx :: string where "url_pfx = ''url:''"

lemma domain_pfx_subdomain [simp]: "strip_prefix domain_pfx (subdomain_pfx @ h) = None"
  by (simp add: domain_pfx_def subdomain_pfx_def)

lemma subdomain_pfx_domain [simp]: "strip_prefix subdomain_pfx (domain_pfx @ h) = None"
  by (simp add: domain_pfx_def subdomain_pfx_def)

lemma pfx_neq [simp]: "domain_pfx @ h \<noteq> subdomain_pfx @ h'" "subdomain_pfx @ h' \<noteq> domain_pfx @ h"
  by (simp_all add: domain_pfx_def subdomain_pfx_def)

section \<open>Targets, verdicts and decisions\<close>

record normalized_target =
  nt_entity_level :: entity_level
  nt_normalized_key :: string
  nt_hostname :: string
  nt_registered_domain :: string
  nt_full_url :: string

record classification_verdict =
  cv_primary_category :: string
  cv_subcategory :: string
  cv_risk_level :: string
  cv_confidence :: f32
  cv_recommended_action :: policy_action

record policy_decision =
  pd_action :: policy_action
  pd_cache_hit :: bool
  pd_verdict :: "classification_verdict option"
  pd_decision_source :: "string option"

record policy_decision_request =
  pdr_normalized_key :: string
  pdr_entity_level :: entity_level
  pdr_source_ip :: string
  pdr_user_id :: "string option"
  pdr_group_ids :: "string list"

record page_fetch_job =
  pfj_normalized_key :: string
  pfj_url :: string
  pfj_hostname :: string
  pfj_candidate_urls :: "string list"
  pfj_trace_id :: "string option"
  pfj_idempotency_key :: "string option"
  pfj_ttl_seconds :: "i32 option"

text \<open>An infinite or NaN \<open>f32\<close> is written as \<open>null\<close>.\<close>

definition f32_finite :: "f32 \<Rightarrow> bool" where
  "f32_finite x \<longleftrightarrow> (drop_bit 23 x) mod 256 \<noteq> 255"

definition f32_to_json :: "f32 \<Rightarrow> json" where
  "f32_to_json x = (if f32_finite x then JFloat x else JNull)"

fun f32_of_json :: "externs \<Rightarrow> json \<Rightarrow> f32 option" where
  "f32_of_json ex (JFloat x) = Some x"
| "f32_of_json ex (JInt i) = Some (f32_of_int ex i)"
| "f32_of_json ex _ = None"

definition verdict_to_json :: "classification_verdict \<Rightarrow> json" where
  "verdict_to_json v = JObj
     [(''primary_category'', JStr (cv_primary_category v)),
      (''subcategory'', JStr (cv_subcategory v)),
      (''risk_level'', JStr (cv_risk_level v)),
      (''confidence'', f32_to_json (cv_confidence v)),
      (''recommended_action'', JStr (show_action (cv_recommended_action v)))]"

definition verdict_of_json :: "externs \<Rightarrow> json \<Rightarrow> classification_verdict option" where
  "verdict_of_json ex j =
     Option.bind (fields_of [''primary_category'', ''subcategory'', ''risk_level'',
       ''confidence'', ''recommended_action''] j) (\<lambda>fs.
     Option.bind (req_field string_of_json ''primary_category'' fs) (\<lambda>c.
     Option.bind (req_field string_of_json ''subcategory'' fs) (\<lambda>s.
     Option.bind (req_field string_of_json ''risk_level'' fs) (\<lambda>r.
     Option.bind (req_field (f32_of_json ex) ''confidence'' fs) (\<lambda>f.
     Option.bind (req_field action_of_json ''recommended_action'' fs) (\<lambda>a.
       Some \<lparr>cv_primary_category = c, cv_subcategory = s, cv_risk_level = r,
             cv_confidence = f, cv_recommended_action = a\<rparr>))))))"

definition decision_to_json :: "policy_decision \<Rightarrow> json" where
  "decision_to_json d = JObj
     ([(''action'', JStr (show_action (pd_action d))),
       (''cache_hit'', JBool (pd_cache_hit d)),
       (''verdict'', opt_to_json verdict_to_json (pd_verdict d))]
      @ skip_none ''decision_source'' JStr (pd_decision_source d))"

definition decision_of_json :: "externs \<Rightarrow> json \<Rightarrow> policy_decision option" where
  "decision_of_json ex j =
     Option.bind (fields_of [''action'', ''cache_hit'', ''verdict'', ''decision_source''] j) (\<lambda>fs.
     Option.bind (req_field action_of_json ''action'' fs) (\<lambda>a.
     Option.bind (req_field bool_of_json ''cache_hit'' fs) (\<lambda>h.
     Option.bind (opt_field (verdict_of_json ex) ''verdict'' fs) (\<lambda>v.
     Option.bind (opt_field string_of_json ''decision_source'' fs) (\<lambda>src.
       Some \<lparr>pd_action = a, pd_cache_hit = h, pd_verdict = v, pd_decision_source = src\<rparr>)))))"

fun show_level :: "entity_level \<Rightarrow> string" where
  "show_level ELDomain = ''Domain''"
| "show_level ELSubdomain = ''Subdomain''"
| "show_level ELUrl = ''Url''"
| "show_level ELPage = ''Page''"

definition decision_request_to_json :: "policy_decision_request \<Rightarrow> json" where
  "decision_request_to_json r = JObj
     ([(''normalized_key'', JStr (pdr_normalized_key r)),
       (''entity_level'', JStr (show_level (pdr_entity_level r))),
       (''source_ip'', JStr (pdr_source_ip r)),
       (''user_id'', opt_to_json JStr (pdr_user_id r))]
      @ (if pdr_group_ids r = [] then [] else [(''group_ids'', strs_to_json (pdr_group_ids r))]))"

definition page_fetch_job_to_json :: "page_fetch_job \<Rightarrow> json" where
  "page_fetch_job_to_json p = JObj
     ([(''normalized_key'', JStr (pfj_normalized_key p)),
       (''url'', JStr (pfj_url p)),
       (''hostname'', JStr (pfj_hostname p))]
      @ (if pfj_candidate_urls p = [] then []
         else [(''candidate_urls'', strs_to_json (pfj_candidate_urls p))])
      @ skip_none ''trace_id'' JStr (pfj_trace_id p)
      @ skip_none ''idempotency_key'' JStr (pfj_idempotency_key p)
      @ skip_none ''ttl_seconds'' (\<lambda>t. JInt (sint t)) (pfj_ttl_seconds p))"

text \<open>
  A decision survives its JSON form, unless its confidence is not a finite number: \<open>serde\<close>
  writes such a number as \<open>null\<close>, which does not read back.
\<close>

definition json_safe :: "policy_decision \<Rightarrow> bool" where
  "json_safe d \<longleftrightarrow> (case pd_verdict d of None \<Rightarrow> True | Some v \<Rightarrow> f32_finite (cv_confidence v))"

lemma verdict_json_round:
  "f32_finite (cv_confidence v) \<Longrightarrow> verdict_of_json ex (verdict_to_json v) = Some v"
  by (simp add: verdict_of_json_def verdict_to_json_def req_field_def f32_to_json_def)

lemma verdict_to_json_not_null: "verdict_to_json v \<noteq> JNull"
  by (simp add: verdict_to_json_def)

lemma decision_verdict_field:
  "json_safe d \<Longrightarrow> map_of fs k = Some (opt_to_json verdict_to_json (pd_verdict d)) \<Longrightarrow>
   opt_field (verdict_of_json ex) k fs = Some (pd_verdict d)"
  by (rule opt_field_round [where g = verdict_to_json])
    (simp_all add: verdict_to_json_not_null verdict_json_round json_safe_def)

lemma decision_json_round: "json_safe d \<Longrightarrow> decision_of_json ex (decision_to_json d) = Some d"
proof -
  assume d: "json_safe d"
  note v = decision_verdict_field [OF d]
  show ?thesis
    by (cases "pd_decision_source d")
      (auto simp: decision_of_json_def decision_to_json_def req_field_def skip_none_def v
        opt_field_def [of string_of_json])
qed

section \<open>The JSON text layer\<close>

text \<open>
  What the program relies on of \<open>serde_json\<close>: a value whose numbers are finite reads back from
  its text.
\<close>

fun json_finite :: "json \<Rightarrow> bool" where
  "json_finite (JFloat x) = f32_finite x"
| "json_finite (JArr js) = list_all json_finite js"
| "json_finite (JObj fs) = list_all (\<lambda>(k, j). json_finite j) fs"
| "json_finite _ = True"

definition json_text_ok :: "externs \<Rightarrow> bool" where
  "json_text_ok ex \<longleftrightarrow> (\<forall>j. json_finite j \<longrightarrow> json_of_text ex (text_of_json ex j) = Some j)"

lemma f32_to_json_finite [simp]: "json_finite (f32_to_json x)"
  by (simp add: f32_to_json_def)

lemma verdict_to_json_finite [simp]: "json_finite (verdict_to_json v)"
  by (simp add: verdict_to_json_def)

lemma decision_to_json_finite [simp]: "json_finite (decision_to_json d)"
  by (simp add: decision_to_json_def opt_to_json_def skip_none_def split: option.split)

lemma decision_text_round: "json_text_ok ex \<Longrightarrow>
  json_of_text ex (text_of_json ex (decision_to_json d)) = Some (decision_to_json d)"
  by (simp add: json_text_ok_def)

end
