(* ===== verification/Normalizer.thy ===== *)
theory Normalizer
  imports Common_Types "HOL-Library.AList"
begin

text \<open>
  Host and key normalisation, \<^verbatim>\<open>crates/common-types/src/normalizer.rs\<close>: \<open>normalize_target\<close>
  turns the host, path and scheme of a request into a \<open>normalized_target\<close>;
  \<open>canonical_classification_key\<close> maps a key to the key of its registered domain; the
  \<open>canonicalization_policy\<close> keeps sub-domain granularity for configured tenants.  The message for an
  invalid host ends before the debug text of the IDNA library's error.
\<close>

section \<open>Definitions\<close>

definition derive_registered_domain :: "externs \<Rightarrow> string \<Rightarrow> string" where
  "derive_registered_domain ex hostname =
     (case domain_root ex hostname of
        Some root \<Rightarrow> to_ascii_lowercase root
      | None \<Rightarrow>
          (let labels = split_char CHR ''.'' hostname
           in if length labels \<le> 2 then hostname
              else join_str ''.'' (drop (length labels - 2) labels)))"

definition sanitize_host :: "string \<Rightarrow> string" where
  "sanitize_host input =
     (let trimmed = trim input;
          tail =
            (case rsplit_once_char CHR '':'' trimmed of
               Some (host_part, port_part) \<Rightarrow>
                 if list_all is_ascii_digit port_part then host_part else trimmed
             | None \<Rightarrow> trimmed)
      in if starts_with trimmed ''['' then
           (case find_char CHR '']'' trimmed of
              Some end \<Rightarrow> take (end - 1) (drop 1 trimmed)
            | None \<Rightarrow> tail)
         else tail)"

fun level_prefix :: "entity_level \<Rightarrow> string" where
  "level_prefix ELDomain = ''domain''"
| "level_prefix ELSubdomain = ''subdomain''"
| "level_prefix ELUrl = ''url''"
| "level_prefix ELPage = ''page''"

definition normalize_target ::
  "externs \<Rightarrow> string \<Rightarrow> string \<Rightarrow> string option \<Rightarrow> normalized_target res" where
  "normalize_target ex host path scheme =
     (let scheme = (case scheme of None \<Rightarrow> ''http'' | Some s \<Rightarrow> s)
      in if trim host = [] then Inl (Error ''host required for normalization'')
         else
           bind_res
             (ok_or (Error (''invalid host '' @ host)) (domain_to_ascii ex (trim (sanitize_host host))))
             (\<lambda>ascii.
               let ascii_host = to_lowercase ex ascii;
                   normalized_path = (if starts_with path ''/'' then path else ''/'' @ path);
                   host_for_url =
                     (if CHR '':'' \<in> set ascii_host then ''['' @ ascii_host @ '']'' else ascii_host);
                   full_url = scheme @ ''://'' @ host_for_url @ normalized_path
               in bind_res (ok_or (Error ''failed to parse normalized url'') (url_parse ex full_url))
                    (\<lambda>_.
                      let hostname = ascii_host;
                          registered = derive_registered_domain ex hostname;
                          level = (if hostname \<noteq> registered then ELSubdomain else ELDomain)
                      in Inr \<lparr>nt_entity_level = level,
                              nt_normalized_key = level_prefix level @ '':'' @ hostname,
                              nt_hostname = hostname,
                              nt_registered_domain = registered,
                              nt_full_url = full_url\<rparr>)))"

definition key_host :: "string \<Rightarrow> string option" where
  "key_host normalized_key =
     Option.bind
       (case strip_prefix domain_pfx normalized_key of
          Some h \<Rightarrow> Some h
        | None \<Rightarrow> strip_prefix subdomain_pfx normalized_key)
       (\<lambda>h. let host = to_ascii_lowercase (trim_end_matches CHR ''.'' (trim h))
            in if host = [] then None else Some host)"

definition canonical_classification_key :: "externs \<Rightarrow> string \<Rightarrow> string option" where
  "canonical_classification_key ex normalized_key =
     map_option (\<lambda>host. domain_pfx @ derive_registered_domain ex host) (key_host normalized_key)"

text \<open>
  The exception table maps a tenant to a set of registered domains, as an association list; the
  input map is given as the list of its entries, in the order the loop visits them.
\<close>

type_synonym canonicalization_policy = "(string \<times> string set) list"

definition normalize_tenant_key :: "string \<Rightarrow> string" where
  "normalize_tenant_key raw = to_ascii_lowercase (trim raw)"

fun add_domains :: "externs \<Rightarrow> string set \<Rightarrow> string list \<Rightarrow> string set" where
  "add_domains ex acc [] = acc"
| "add_domains ex acc (d # ds) =
     (let normalized = to_ascii_lowercase (trim_end_matches CHR ''.'' (trim d))
      in if normalized = [] then add_domains ex acc ds
         else add_domains ex (insert (derive_registered_domain ex normalized) acc) ds)"

fun from_tenant_exceptions_loop ::
  "externs \<Rightarrow> canonicalization_policy \<Rightarrow> (string \<times> string list) list \<Rightarrow> canonicalization_policy" where
  "from_tenant_exceptions_loop ex m [] = m"
| "from_tenant_exceptions_loop ex m ((tenant, domains) # rest) =
     (let key = normalize_tenant_key tenant;
          old = (case map_of m key of None \<Rightarrow> {} | Some s \<Rightarrow> s)
      in from_tenant_exceptions_loop ex (AList.update key (add_domains ex old domains) m) rest)"

definition from_tenant_exceptions ::
  "externs \<Rightarrow> (string \<times> string list) list \<Rightarrow> canonicalization_policy" where
  "from_tenant_exceptions ex input = from_tenant_exceptions_loop ex [] input"

definition tenant_matches :: "canonicalization_policy \<Rightarrow> string \<Rightarrow> string \<Rightarrow> bool" where
  "tenant_matches policy registered key =
     (case map_of policy key of None \<Rightarrow> False | Some s \<Rightarrow> registered \<in> s)"

definition keeps_subdomain_granularity ::
  "externs \<Rightarrow> canonicalization_policy \<Rightarrow> string option \<Rightarrow> string \<Rightarrow> bool" where
  "keeps_subdomain_granularity ex policy tenant host =
     (let registered = to_ascii_lowercase
            (trim_end_matches CHR ''.'' (trim (derive_registered_domain ex host)))
      in policy \<noteq> [] \<and> registered \<noteq> [] \<and>
         ((case tenant of
             None \<Rightarrow> False
           | Some t \<Rightarrow> tenant_matches policy registered (normalize_tenant_key t)) \<or>
          tenant_matches policy registered ''*'' \<or>
          tenant_matches policy registered ''default''))"

definition canonical_classification_key_with_policy ::
  "externs \<Rightarrow> string \<Rightarrow> canonicalization_policy \<Rightarrow> string option \<Rightarrow> string option" where
  "canonical_classification_key_with_policy ex normalized_key policy tenant =
     Option.bind (key_host normalized_key)
       (\<lambda>host. if keeps_subdomain_granularity ex policy tenant host then Some (domain_pfx @ host)
               else Some (domain_pfx @ derive_registered_domain ex host))"

section \<open>Normal forms\<close>

definition host_clean :: "string \<Rightarrow> bool" where
  "host_clean h \<longleftrightarrow>
     h \<noteq> [] \<and> trim h = h \<and> trim_end_matches CHR ''.'' h = h \<and> to_ascii_lowercase h = h"

lemma key_host_domain: "host_clean h \<Longrightarrow> key_host (domain_pfx @ h) = Some h"
  by (simp add: key_host_def host_clean_def)

lemma key_host_subdomain: "host_clean h \<Longrightarrow> key_host (subdomain_pfx @ h) = Some h"
  by (simp add: key_host_def host_clean_def)

lemma key_host_cases:
  "key_host k = Some h \<Longrightarrow>
   (\<exists>r. (k = domain_pfx @ r \<or> k = subdomain_pfx @ r) \<and>
        h = to_ascii_lowercase (trim_end_matches CHR ''.'' (trim r)) \<and> h \<noteq> [])"
  by (auto simp: key_host_def Let_def bind_eq_Some_conv strip_prefix_Some_iff
      split: if_splits option.splits)

text \<open>The host of a key that contains no white space is clean.\<close>

lemma key_host_clean:
  assumes "key_host k = Some h" "no_ws k"
  shows "host_clean h"
proof -
  obtain r where r: "k = domain_pfx @ r \<or> k = subdomain_pfx @ r"
    and h: "h = to_ascii_lowercase (trim_end_matches CHR ''.'' (trim r))" "h \<noteq> []"
    using key_host_cases [OF assms(1)] by blast
  have "suffix r k" using r by (auto intro: suffixI)
  then have "no_ws r" using assms(2) no_ws_sublist suffix_imp_sublist by blast
  then have h': "h = to_ascii_lowercase (trim_end_matches CHR ''.'' r)"
    and "no_ws (trim_end_matches CHR ''.'' r)"
    using h no_ws_trim no_ws_sublist prefix_imp_sublist trim_end_matches_prefix by metis+
  then have "trim h = h" by (simp add: trim_lower no_ws_trim)
  moreover have "trim_end_matches CHR ''.'' h = h"
    by (simp add: h' trim_end_matches_lower is_ascii_lower_def is_ascii_upper_def byte_in_def)
  ultimately show ?thesis using h(2) h' by (simp add: host_clean_def)
qed

lemma normalize_target_Inr:
  assumes "normalize_target ex host path scheme = Inr t"
  shows "nt_registered_domain t = derive_registered_domain ex (nt_hostname t)"
    and "nt_entity_level t =
           (if nt_hostname t \<noteq> nt_registered_domain t then ELSubdomain else ELDomain)"
    and "nt_normalized_key t = level_prefix (nt_entity_level t) @ '':'' @ nt_hostname t"
    and "\<exists>u. url_parse ex (nt_full_url t) = Some u"
    and "\<exists>a. domain_to_ascii ex (trim (sanitize_host host)) = Some a \<and> nt_hostname t = to_lowercase ex a"
  using assms by (auto simp: normalize_target_def Let_def res_simps split: if_splits)

lemma level_prefix_key [simp]:
  "level_prefix ELDomain @ '':'' @ h = domain_pfx @ h"
  "level_prefix ELSubdomain @ '':'' @ h = subdomain_pfx @ h"
  by (simp_all add: domain_pfx_def subdomain_pfx_def)

lemma normalized_key_domain:
  assumes "normalize_target ex host path scheme = Inr t" "nt_hostname t = nt_registered_domain t"
  shows "nt_normalized_key t = domain_pfx @ nt_hostname t"
  using normalize_target_Inr(2,3) [OF assms(1)] assms(2) by (simp del: level_prefix.simps append.simps)

lemma normalized_key_subdomain:
  assumes "normalize_target ex host path scheme = Inr t" "nt_hostname t \<noteq> nt_registered_domain t"
  shows "nt_normalized_key t = subdomain_pfx @ nt_hostname t"
  using normalize_target_Inr(2,3) [OF assms(1)] assms(2) by (simp del: level_prefix.simps append.simps)

lemma normalized_key_host:
  assumes "normalize_target ex host path scheme = Inr t" "host_clean (nt_hostname t)"
  shows "key_host (nt_normalized_key t) = Some (nt_hostname t)"
  using assms normalized_key_domain normalized_key_subdomain key_host_domain key_host_subdomain
  by metis

section \<open>Registered domains\<close>

text \<open>
  What the program relies on of the public-suffix crate: the root of a clean host name is a
  clean host name and its own root, and a lower-case name of at most two labels has no root but
  itself.
\<close>

definition psl_ok :: "externs \<Rightarrow> bool" where
  "psl_ok ex \<longleftrightarrow>
     (\<forall>h r. host_clean h \<longrightarrow> domain_root ex h = Some r \<longrightarrow>
            host_clean (to_ascii_lowercase r) \<and>
            domain_root ex (to_ascii_lowercase r) = Some (to_ascii_lowercase r)) \<and>
     (\<forall>h r. length (split_char CHR ''.'' h) \<le> 2 \<longrightarrow> to_ascii_lowercase h = h \<longrightarrow>
            domain_root ex h = Some r \<longrightarrow> to_ascii_lowercase r = h)"

lemma last_two_labels_idem:
  assumes "l = drop (length (split_char d h) - 2) (split_char d h)"
  shows "split_char d (join_str [d] l) = l" "length l \<le> 2"
proof -
  have "l \<noteq> []" using assms by (cases "split_char d h" rule: rev_cases) auto
  moreover have "\<And>p. p \<in> set l \<Longrightarrow> d \<notin> set p"
    using assms split_char_parts by (metis in_set_dropD)
  ultimately show "split_char d (join_str [d] l) = l" by (rule split_join_char)
  show "length l \<le> 2" using assms by simp
qed

lemma join_drop_suffix:
  "suffix (join_str [d] (drop n (split_char d s))) s"
proof (cases "n < length (split_char d s) \<and> 0 < n")
  case True
  then have "s = join_str [d] (take n (split_char d s) @ drop n (split_char d s))"
    by (simp add: join_split_char)
  also have "\<dots> = join_str [d] (take n (split_char d s)) @ [d] @ join_str [d] (drop n (split_char d s))"
    using True by (intro join_str_append) auto
  finally show ?thesis by (metis append.assoc suffix_def)
next
  case False
  then show ?thesis by (cases "n = 0") (auto simp: join_split_char)
qed

lemma short_registered_domain:
  assumes "psl_ok ex" "length (split_char CHR ''.'' h) \<le> 2" "to_ascii_lowercase h = h"
  shows "derive_registered_domain ex h = h"
proof (cases "domain_root ex h")
  case None
  with assms(2) show ?thesis by (simp add: derive_registered_domain_def)
next
  case (Some r)
  then have "to_ascii_lowercase r = h" using assms unfolding psl_ok_def by blast
  with Some show ?thesis by (simp add: derive_registered_domain_def)
qed

lemma suffix_lower: "suffix t h \<Longrightarrow> to_ascii_lowercase h = h \<Longrightarrow> to_ascii_lowercase t = t"
  by (auto simp: suffix_def)

lemma derive_registered_domain_idem:
  assumes "psl_ok ex" "host_clean h"
  shows "derive_registered_domain ex (derive_registered_domain ex h) = derive_registered_domain ex h"
proof (cases "domain_root ex h")
  case (Some r)
  with assms have "domain_root ex (to_ascii_lowercase r) = Some (to_ascii_lowercase r)"
    by (auto simp: psl_ok_def)
  with Some show ?thesis by (simp add: derive_registered_domain_def)
next
  case None
  let ?ls = "split_char CHR ''.'' h"
  let ?x = "join_str ''.'' (drop (length ?ls - 2) ?ls)"
  have "suffix ?x h" by (rule join_drop_suffix)
  then have "to_ascii_lowercase ?x = ?x"
    using assms(2) suffix_lower unfolding host_clean_def by blast
  moreover have "length (split_char CHR ''.'' ?x) \<le> 2"
    using last_two_labels_idem [of "drop (length ?ls - 2) ?ls" "CHR ''.''" h] by simp
  ultimately have "derive_registered_domain ex ?x = ?x" by (rule short_registered_domain [OF assms(1), rotated])
  moreover have "derive_registered_domain ex h = (if length ?ls \<le> 2 then h else ?x)"
    using None by (simp add: derive_registered_domain_def Let_def)
  moreover have "length ?ls \<le> 2 \<Longrightarrow> ?x = h" by (simp add: join_split_char)
  ultimately show ?thesis by (auto split: if_splits)
qed

lemma no_ws_join_last:
  assumes "suffix t s" "no_ws s" shows "no_ws t"
  using assms no_ws_sublist suffix_imp_sublist by blast

lemma host_clean_suffix:
  assumes "host_clean h" "no_ws h" "suffix t h" "t \<noteq> []"
  shows "host_clean t"
proof -
  obtain p where p: "h = p @ t" using assms(3) by (auto simp: suffix_def)
  have "no_ws t" using assms(2,3) no_ws_join_last by blast
  moreover have "to_ascii_lowercase t = t"
    using assms(1) by (simp add: host_clean_def p)
  moreover have "last t = last h" using assms(4) p by simp
  then have "last t \<noteq> CHR ''.''"
    using assms(1) trim_end_matches_last [of "CHR ''.''" h] by (auto simp: host_clean_def)
  then have "trim_end_matches CHR ''.'' t = t" by (simp add: trim_end_matches_id)
  ultimately show ?thesis using assms(4) by (simp add: host_clean_def no_ws_trim)
qed

lemma derive_registered_domain_clean:
  assumes "psl_ok ex" "host_clean h" "no_ws h"
  shows "host_clean (derive_registered_domain ex h)"
proof (cases "domain_root ex h")
  case (Some r)
  with assms show ?thesis by (auto simp: derive_registered_domain_def psl_ok_def)
next
  case None
  let ?ls = "split_char CHR ''.'' h"
  let ?l = "drop (length ?ls - 2) ?ls"
  show ?thesis
  proof (cases "length ?ls \<le> 2")
    case True
    with None assms(2) show ?thesis by (simp add: derive_registered_domain_def)
  next
    case False
    then have "length ?l = 2" by simp
    then obtain a b where ab: "?l = [a, b]" using list_length_2 by blast
    with False None have eq: "derive_registered_domain ex h = join_str ''.'' ?l"
      by (simp add: derive_registered_domain_def Let_def)
    have "join_str ''.'' ?l \<noteq> []" by (simp add: ab)
    with host_clean_suffix [OF assms(2,3) join_drop_suffix] show ?thesis
      unfolding eq by simp
  qed
qed

lemma key_host_no_ws: "key_host k = Some h \<Longrightarrow> no_ws k \<Longrightarrow> no_ws h"
proof -
  assume "key_host k = Some h" "no_ws k"
  then obtain r where r: "k = domain_pfx @ r \<or> k = subdomain_pfx @ r"
    "h = to_ascii_lowercase (trim_end_matches CHR ''.'' (trim r))"
    using key_host_cases by blast
  then have "sublist (trim_end_matches CHR ''.'' (trim r)) k"
    by (metis prefix_imp_sublist sublist_order.order_trans suffixI suffix_imp_sublist
        trim_end_matches_prefix trim_sublist)
  then have "no_ws (trim_end_matches CHR ''.'' (trim r))"
    using \<open>no_ws k\<close> no_ws_sublist by blast
  then show "no_ws h" using r(2) no_ws_lower by simp
qed

section \<open>Exception tables\<close>

definition clean_domain :: "string \<Rightarrow> string" where
  "clean_domain d = to_ascii_lowercase (trim_end_matches CHR ''.'' (trim d))"

definition exceptions_of :: "canonicalization_policy \<Rightarrow> string \<Rightarrow> string set" where
  "exceptions_of policy key = (case map_of policy key of None \<Rightarrow> {} | Some s \<Rightarrow> s)"

text \<open>The registered domains the configuration lists for a tenant key.\<close>

definition configured :: "externs \<Rightarrow> (string \<times> string list) list \<Rightarrow> string \<Rightarrow> string set" where
  "configured ex input key =
     {derive_registered_domain ex (clean_domain d) | t ds d.
        (t, ds) \<in> set input \<and> normalize_tenant_key t = key \<and> d \<in> set ds \<and> clean_domain d \<noteq> []}"

lemma add_domains_eq:
  "add_domains ex acc ds =
     acc \<union> {derive_registered_domain ex (clean_domain d) | d. d \<in> set ds \<and> clean_domain d \<noteq> []}"
  by (induction ds arbitrary: acc) (auto simp: Let_def clean_domain_def)

lemma from_tenant_exceptions_loop_eq:
  "exceptions_of (from_tenant_exceptions_loop ex m input) key =
     exceptions_of m key \<union> configured ex input key"
proof (induction input arbitrary: m)
  case Nil
  then show ?case by (simp add: configured_def)
next
  case (Cons x input)
  obtain t ds where x: "x = (t, ds)" by (cases x)
  show ?case
    unfolding x from_tenant_exceptions_loop.simps Let_def Cons.IH
    by (auto simp: exceptions_of_def configured_def update_conv' add_domains_eq
        split: option.splits if_splits)
qed

lemma exceptions_of_from_tenant: "exceptions_of (from_tenant_exceptions ex input) key = configured ex input key"
  by (simp add: from_tenant_exceptions_def from_tenant_exceptions_loop_eq) (simp add: exceptions_of_def)

lemma tenant_matches_eq: "tenant_matches policy r key \<longleftrightarrow> r \<in> exceptions_of policy key"
  by (auto simp: tenant_matches_def exceptions_of_def split: option.splits)

lemma keeps_subdomain_granularity_eq:
  "keeps_subdomain_granularity ex policy tenant host \<longleftrightarrow>
     clean_domain (derive_registered_domain ex host) \<noteq> [] \<and>
     (\<exists>key. (key = ''*'' \<or> key = ''default'' \<or> map_option normalize_tenant_key tenant = Some key) \<and>
            clean_domain (derive_registered_domain ex host) \<in> exceptions_of policy key)"
  by (cases "policy = []"; cases tenant)
    (auto simp: keeps_subdomain_granularity_def Let_def clean_domain_def tenant_matches_eq
      exceptions_of_def)

section \<open>Properties\<close>

text \<open>
  The canonical classification key is stable.  For a key without white space, the canonical
  key of the canonical key is the canonical key itself, so a record stored under it is found
  again however often the key is canonicalised.
\<close>

theorem canonical_key_idempotent:
  assumes "psl_ok ex" "no_ws key" "canonical_classification_key ex key = Some k"
  shows "canonical_classification_key ex k = Some k"
proof -
  obtain h where h: "key_host key = Some h" "k = domain_pfx @ derive_registered_domain ex h"
    using assms(3) by (auto simp: canonical_classification_key_def)
  have c: "host_clean h" "no_ws h"
    using key_host_clean [OF h(1) assms(2)] key_host_no_ws [OF h(1) assms(2)] by simp_all
  have "key_host k = Some (derive_registered_domain ex h)"
    unfolding h(2) using derive_registered_domain_clean [OF assms(1) c] by (rule key_host_domain)
  then show ?thesis
    using derive_registered_domain_idem [OF assms(1) c(1)]
    by (simp add: canonical_classification_key_def h(2))
qed

text \<open>
  Tenant exceptions.  With a policy built from the configuration, the classification key of a
  host keeps the full host exactly when the registered domain is listed for the tenant of the
  request, for the wildcard tenant or for the default tenant; otherwise the key is that of the
  registered domain.
\<close>

theorem tenant_exceptions_decide_key:
  assumes "key_host key = Some h"
  shows "canonical_classification_key_with_policy ex key (from_tenant_exceptions ex input) tenant =
    Some (domain_pfx @
      (let r = clean_domain (derive_registered_domain ex h)
       in if r \<noteq> [] \<and> (\<exists>t. (t = ''*'' \<or> t = ''default'' \<or> map_option normalize_tenant_key tenant = Some t) \<and>
                r \<in> configured ex input t)
          then h else derive_registered_domain ex h))"
  using assms
  by (simp add: canonical_classification_key_with_policy_def keeps_subdomain_granularity_eq
      exceptions_of_from_tenant Let_def) blast

text \<open>
  The normal form of a target.  A normalised target carries the registered domain of its host
  name, is at domain level exactly when the host is its own registered domain, and its key leads
  back to the host: the canonical classification key of the target is the key of its registered
  domain.
\<close>

theorem normalized_target_key:
  assumes "normalize_target ex host path scheme = Inr t" "host_clean (nt_hostname t)"
  shows "nt_registered_domain t = derive_registered_domain ex (nt_hostname t) \<and>
    (nt_entity_level t = ELDomain \<longleftrightarrow> nt_hostname t = nt_registered_domain t) \<and>
    canonical_classification_key ex (nt_normalized_key t) = Some (domain_pfx @ nt_registered_domain t)"
  using normalize_target_Inr [OF assms(1)] normalized_key_host [OF assms]
  by (simp add: canonical_classification_key_def)

text \<open>
  An IPv6 address without brackets loses its last group.  When the text after the last colon
  is a decimal number, it is taken for a port, so two addresses that differ in that group only
  are not told apart.
\<close>

theorem sanitize_host_drops_last_group:
  assumes "graphic (h @ CHR '':'' # grp)" "h \<noteq> []" "hd h \<noteq> CHR ''[''" "list_all is_ascii_digit grp"
  shows "sanitize_host (h @ CHR '':'' # grp) = h"
proof -
  have "CHR '':'' \<notin> set grp" using assms(4) by (auto simp: list_all_iff is_ascii_digit_def byte_in_def)
  then have "rsplit_once_char CHR '':'' (h @ CHR '':'' # grp) = Some (h, grp)"
    by (simp add: rsplit_once_char_Some_iff)
  with assms show ?thesis
    by (cases h) (auto simp: sanitize_host_def Let_def starts_with_def)
qed

end
