(* ===== verification/Icap_Parser.thy ===== *)
theory Icap_Parser
  imports Normalizer
begin

text \<open>
  The ICAP request parser, \<^verbatim>\<open>services/icap-adaptor/src/icap.rs\<close>.  The request text is the
  bytes of one read, as \<open>String::from_utf8_lossy\<close> makes them a string.
\<close>

record icap_request =
  ir_method :: string
  ir_service :: string
  ir_headers :: "string \<rightharpoonup> string"
  ir_http_method :: "string option"
  ir_http_path :: "string option"
  ir_http_scheme :: "string option"
  ir_http_host :: "string option"
  ir_trace_id :: "string option"

definition crlf :: string where "crlf = [CHR 0x0D, CHR 0x0A]"

definition blank_line :: string where "blank_line = crlf @ crlf"

definition clean_host_value :: "externs \<Rightarrow> string \<Rightarrow> string" where
  "clean_host_value ex value =
     (let trimmed = trim value;
          tail =
            (case rsplit_once_char CHR '':'' trimmed of
               Some (host_part, port_part) \<Rightarrow>
                 if list_all is_ascii_digit port_part then to_lowercase ex host_part
                 else to_lowercase ex trimmed
             | None \<Rightarrow> to_lowercase ex trimmed)
      in if starts_with trimmed ''['' then
           (case find_char CHR '']'' trimmed of
              Some end \<Rightarrow> to_lowercase ex (take (end - 1) (drop 1 trimmed))
            | None \<Rightarrow> tail)
         else tail)"

text \<open>The header scan of \<open>parse_http_block\<close>: it stops at a blank line and at the first \<open>Host\<close>.\<close>

fun host_header :: "string list \<Rightarrow> string option" where
  "host_header [] = None"
| "host_header (line # lines) =
     (if trim line = [] then None
      else case split_once_char CHR '':'' line of
             Some (name, value) \<Rightarrow>
               if eq_ignore_ascii_case name ''host'' then Some (trim value) else host_header lines
           | None \<Rightarrow> host_header lines)"

definition request_target ::
  "externs \<Rightarrow> string \<Rightarrow> string \<Rightarrow> (string option \<times> string \<times> string) res" where
  "request_target ex meth target =
     (if eq_ignore_ascii_case meth ''CONNECT'' then
        Inr (Some ''https'', clean_host_value ex target, ''/'')
      else if starts_with target ''http://'' \<or> starts_with target ''https://'' then
        bind_res (ok_or (Error ''failed to parse absolute URL in HTTP request'') (url_parse ex target))
          (\<lambda>url.
            bind_res (ok_or (Error ''absolute request missing host'') (url_host_str url)) (\<lambda>host.
              Inr (Some (url_scheme url), to_lowercase ex host, url_path url)))
      else Inr (None, [], target))"

definition parse_http_block ::
  "externs \<Rightarrow> string \<Rightarrow> (string \<times> string \<times> string option \<times> string) res" where
  "parse_http_block ex block =
     (case str_lines block of
        [] \<Rightarrow> Inl (Error ''encapsulated HTTP request missing start line'')
      | request_line # lines \<Rightarrow>
          (case split_whitespace request_line of
             [] \<Rightarrow> Inl (Error ''http request missing method'')
           | [_] \<Rightarrow> Inl (Error ''http request missing target'')
           | meth # target # _ \<Rightarrow>
               bind_res (request_target ex meth target) (\<lambda>(http_scheme, http_host0, http_path).
                 let http_host =
                       (case host_header lines of
                          Some host_value \<Rightarrow>
                            if http_host0 = [] \<or> eq_ignore_ascii_case meth ''CONNECT''
                            then clean_host_value ex host_value else http_host0
                        | None \<Rightarrow> http_host0)
                 in if http_host = [] then Inl (Error ''HTTP host header missing'')
                    else Inr (meth, http_path, http_scheme, http_host))))"

definition add_header :: "string \<Rightarrow> (string \<rightharpoonup> string) \<Rightarrow> (string \<rightharpoonup> string)" where
  "add_header line headers =
     (if trim line = [] then headers
      else case split_once_char CHR '':'' line of
             Some (name, value) \<Rightarrow> headers(to_ascii_lowercase (trim name) \<mapsto> trim value)
           | None \<Rightarrow> headers)"

text \<open>The first two parts of \<open>raw.split\<close> on a blank line.\<close>

definition request_sections :: "string \<Rightarrow> string \<times> string" where
  "request_sections raw =
     (case split_once_str blank_line raw of
        None \<Rightarrow> (raw, [])
      | Some (head, rest) \<Rightarrow>
          (head, case split_once_str blank_line rest of None \<Rightarrow> rest | Some (block, _) \<Rightarrow> block))"

definition icap_parse :: "externs \<Rightarrow> string \<Rightarrow> icap_request res" where
  "icap_parse ex raw =
     (let (icap_head, http_block) = request_sections raw
      in case str_lines icap_head of
           [] \<Rightarrow> Inl (Error ''icap request missing start line'')
         | start_line # icap_lines \<Rightarrow>
             (case split_whitespace start_line of
                [] \<Rightarrow> Inl (Error ''icap request missing method'')
              | [_] \<Rightarrow> Inl (Error ''icap request missing service'')
              | meth # service # _ \<Rightarrow>
                  (let headers = fold add_header icap_lines Map.empty;
                       trace_id = headers ''x-trace-id''
                   in if eq_ignore_ascii_case meth ''OPTIONS'' then
                        Inr \<lparr>ir_method = meth, ir_service = service, ir_headers = headers,
                             ir_http_method = None, ir_http_path = None, ir_http_scheme = None,
                             ir_http_host = None, ir_trace_id = trace_id\<rparr>
                      else
                        bind_res (parse_http_block ex http_block)
                          (\<lambda>(http_method, http_path, http_scheme, http_host).
                            Inr \<lparr>ir_method = meth, ir_service = service, ir_headers = headers,
                                 ir_http_method = Some http_method, ir_http_path = Some http_path,
                                 ir_http_scheme = http_scheme, ir_http_host = Some http_host,
                                 ir_trace_id = trace_id\<rparr>))))"

section \<open>What a parsed request holds\<close>

lemma parse_http_block_host:
  "parse_http_block ex block = Inr (m, p, s, h) \<Longrightarrow> h \<noteq> []"
  by (auto simp: parse_http_block_def Let_def res_simps
      split: list.splits if_splits prod.splits option.splits)

lemma icap_parse_request:
  assumes "icap_parse ex raw = Inr r" "\<not> eq_ignore_ascii_case (ir_method r) ''OPTIONS''"
  shows "\<exists>h p m. ir_http_host r = Some h \<and> h \<noteq> [] \<and> ir_http_path r = Some p \<and> ir_http_method r = Some m"
  using assms
  by (auto simp: icap_parse_def Let_def res_simps
      split: list.splits if_splits prod.splits dest: parse_http_block_host)

section \<open>Parsing a well-formed request\<close>

lemma ws_prefix_space [simp]: "ws_prefix (CHR '' '' # s) = Some [CHR '' '']"
  by (simp add: ws_prefix_def ws_encodings_def)

lemma trim_space_graphic [simp]: "graphic s \<Longrightarrow> trim (CHR '' '' # s) = s"
  using trim_graphic [of s] by (simp add: trim_def trim_start.simps [of "CHR '' '' # s"])

lemma split_ws_aux_graphic:
  "\<forall>c \<in> set t. byte_in 33 126 c \<Longrightarrow> split_ws_aux acc (t @ s) = split_ws_aux (acc @ t) s"
proof (induction t arbitrary: acc)
  case (Cons c t)
  then show ?case
    by (simp add: split_ws_aux.simps [of acc "c # t @ s"] ws_prefix_graphic)
qed simp

lemma split_ws_aux_Nil: "split_ws_aux acc [] = (if acc = [] then [] else [acc])"
proof -
  have "ws_prefix [] = None" by (auto simp: ws_prefix_None_iff dest: ws_encodings_nonempty)
  then show ?thesis by (simp add: split_ws_aux.simps [of acc "[]"])
qed

lemma split_whitespace_three:
  assumes "graphic a" "graphic b" "graphic c"
  shows "split_whitespace (a @ CHR '' '' # b @ CHR '' '' # c) = [a, b, c]"
proof -
  have sp: "split_ws_aux acc (CHR '' '' # s) = (if acc = [] then [] else [acc]) @ split_ws_aux [] s"
    for acc s by (simp add: split_ws_aux.simps [of acc "CHR '' '' # s"])
  note g = split_ws_aux_graphic
  have "split_ws_aux [] c = [c]"
    using g [of c "[]" "[]"] assms(3) by (simp add: split_ws_aux_Nil graphic_def)
  then show ?thesis
    using assms by (simp add: split_whitespace_def g sp graphic_def)
qed

text \<open>Lines: no line break inside, and not empty.\<close>

definition line_ok :: "string \<Rightarrow> bool" where
  "line_ok l \<longleftrightarrow> l \<noteq> [] \<and> CHR 0x0D \<notin> set l \<and> CHR 0x0A \<notin> set l"

lemma split_once_blank_skip:
  "CHR 0x0D \<notin> set l \<Longrightarrow>
   split_once_str blank_line (l @ s) = map_option (\<lambda>(a, b). (l @ a, b)) (split_once_str blank_line s)"
proof (induction l)
  case Nil
  then show ?case by (cases "split_once_str blank_line s") auto
next
  case (Cons c l)
  then have "\<not> prefix blank_line (c # l @ s)" by (auto simp: blank_line_def crlf_def)
  with Cons show ?case by (cases "split_once_str blank_line s") auto
qed

lemma split_once_blank_lines:
  assumes "ls \<noteq> []" "\<forall>l \<in> set ls. line_ok l"
  shows "split_once_str blank_line (join_str crlf ls @ blank_line @ rest) =
    Some (join_str crlf ls, rest)"
  using assms
proof (induction ls)
  case (Cons l ls)
  have l: "CHR 0x0D \<notin> set l" using Cons.prems by (simp add: line_ok_def)
  show ?case
  proof (cases "ls = []")
    case True
    have "split_once_str blank_line (blank_line @ rest) = Some ([], rest)"
      by (simp add: blank_line_def crlf_def)
    with True show ?thesis by (simp add: split_once_blank_skip [OF l])
  next
    case False
    then obtain l' ls' where ls: "ls = l' # ls'" by (cases ls) auto
    then obtain c k where c: "l' = c # k" "c \<noteq> CHR 0x0D"
      using Cons.prems by (cases l') (auto simp: line_ok_def)
    let ?s = "join_str crlf ls @ blank_line @ rest"
    obtain t where t: "?s = c # t" using ls c by (cases ls') auto
    have "split_once_str blank_line (crlf @ ?s) =
        map_option (\<lambda>(a, b). (crlf @ a, b)) (split_once_str blank_line ?s)"
      unfolding t using c(2)
      by (cases "split_once_str blank_line (c # t)")
        (auto simp: blank_line_def crlf_def split: option.splits)
    moreover have "split_once_str blank_line ?s = Some (join_str crlf ls, rest)"
      using Cons False by simp
    ultimately show ?thesis
      using False by (simp add: join_str_Cons split_once_blank_skip [OF l])
  qed
qed simp

lemma join_crlf_lf:
  "ls \<noteq> [] \<Longrightarrow> join_str crlf ls =
   join_str [CHR 0x0A] (map (\<lambda>l. l @ [CHR 0x0D]) (butlast ls) @ [last ls])"
proof (induction ls)
  case (Cons l ls)
  then show ?case by (cases "ls = []") (auto simp: join_str_Cons crlf_def)
qed simp

lemma str_lines_join:
  assumes "ls \<noteq> []" "\<forall>l \<in> set ls. line_ok l"
  shows "str_lines (join_str crlf ls) = ls"
proof -
  let ?ps = "map (\<lambda>l. l @ [CHR 0x0D]) (butlast ls) @ [last ls]"
  have "split_char (CHR 0x0A) (join_str crlf ls) = ?ps"
    unfolding join_crlf_lf [OF assms(1)]
    using assms by (intro split_join_char) (auto simp: line_ok_def dest: in_set_butlastD)
  moreover have "last ls \<noteq> []" using assms by (simp add: line_ok_def)
  ultimately show ?thesis
    using assms(1) by (simp add: str_lines_def Let_def strip_cr_def comp_def)
qed

definition header_line :: "string \<times> string \<Rightarrow> string" where
  "header_line kv = fst kv @ '': '' @ snd kv"

definition header_ok :: "string \<times> string \<Rightarrow> bool" where
  "header_ok kv \<longleftrightarrow> graphic (fst kv) \<and> CHR '':'' \<notin> set (fst kv) \<and> graphic (snd kv)"

definition render_icap ::
  "string \<Rightarrow> string \<Rightarrow> (string \<times> string) list \<Rightarrow> string \<Rightarrow> string \<Rightarrow> string \<Rightarrow> string" where
  "render_icap meth service headers http_method target host =
     join_str crlf ((meth @ '' '' @ service @ '' ICAP/1.0'') # map header_line headers)
     @ blank_line
     @ join_str crlf [http_method @ '' '' @ target @ '' HTTP/1.1'', ''Host: '' @ host]
     @ blank_line"

lemma graphic_line: "graphic s \<Longrightarrow> CHR 0x0D \<notin> set s \<and> CHR 0x0A \<notin> set s"
  by (auto simp: graphic_def byte_in_def)

lemma start_line_ok: "graphic a \<Longrightarrow> graphic b \<Longrightarrow> graphic c \<Longrightarrow> line_ok (a @ CHR '' '' # b @ CHR '' '' # c)"
  using graphic_line by (auto simp: line_ok_def)

lemma header_line_ok: "header_ok kv \<Longrightarrow> line_ok (header_line kv)"
  using graphic_line by (auto simp: line_ok_def header_ok_def header_line_def graphic_def byte_in_def)

lemma split_header_line:
  "CHR '':'' \<notin> set k \<Longrightarrow> split_once_char CHR '':'' (k @ '': '' @ v) = Some (k, CHR '' '' # v)"
  by (simp add: split_once_char_Some_iff)

lemma add_header_line:
  "header_ok kv \<Longrightarrow> add_header (header_line kv) m = m(to_ascii_lowercase (fst kv) \<mapsto> snd kv)"
  using trim_nonempty [of "fst kv" "'': '' @ snd kv"] split_header_line [of "fst kv" "snd kv"]
  by (simp add: add_header_def header_line_def header_ok_def)

definition headers_map :: "(string \<times> string) list \<Rightarrow> (string \<rightharpoonup> string)" where
  "headers_map hs = map_of (rev (map (\<lambda>(k, v). (to_ascii_lowercase k, v)) hs))"

lemma fold_add_header:
  "\<forall>kv \<in> set hs. header_ok kv \<Longrightarrow>
   fold add_header (map header_line hs) m = m ++ headers_map hs"
proof (induction hs arbitrary: m)
  case (Cons kv hs)
  then show ?case
    by (cases kv) (simp add: add_header_line headers_map_def map_add_upd_left [symmetric] map_add_assoc [symmetric])
qed (simp add: headers_map_def)

lemma request_sections_render:
  assumes "graphic m" "graphic s" "\<forall>kv \<in> set hs. header_ok kv" "graphic hm" "graphic t" "graphic h"
  shows "request_sections (render_icap m s hs hm t h) =
    (join_str crlf ((m @ '' '' @ s @ '' ICAP/1.0'') # map header_line hs),
     join_str crlf [hm @ '' '' @ t @ '' HTTP/1.1'', ''Host: '' @ h])"
proof -
  let ?a = "(m @ '' '' @ s @ '' ICAP/1.0'') # map header_line hs"
  let ?b = "[hm @ '' '' @ t @ '' HTTP/1.1'', ''Host: '' @ h]"
  have g: "graphic ''ICAP/1.0''" "graphic ''HTTP/1.1''" "header_ok (''Host'', h)"
    using assms(6) by (auto simp: graphic_def byte_in_def header_ok_def)
  have a: "\<forall>l \<in> set ?a. line_ok l" "\<forall>l \<in> set ?b. line_ok l"
    using assms start_line_ok [OF assms(1,2) g(1)] start_line_ok [OF assms(4,5) g(2)]
      header_line_ok [OF g(3)] header_line_ok by (auto simp: header_line_def)
  show ?thesis
    using split_once_blank_lines [OF _ a(1), of "join_str crlf ?b @ blank_line"]
      split_once_blank_lines [OF _ a(2), of "[]"]
    by (simp add: request_sections_def render_icap_def)
qed

lemma host_header_first:
  assumes "graphic h"
  shows "host_header ((''Host: '' @ h) # ls) = Some h"
proof -
  have ok: "header_ok (''Host'', h)" using assms by (auto simp: header_ok_def graphic_def byte_in_def)
  have "trim (''Host'' @ '': '' @ h) \<noteq> []"
    using ok by (intro trim_nonempty) (simp add: header_ok_def)
  moreover have "split_once_char CHR '':'' (''Host'' @ '': '' @ h) = Some (''Host'', CHR '' '' # h)"
    by (rule split_header_line) simp
  moreover have "eq_ignore_ascii_case ''Host'' ''host''" by code_simp
  ultimately show ?thesis using assms by simp
qed

lemma request_line_parts:
  assumes "graphic a" "graphic b"
  shows "split_whitespace (a @ '' '' @ b @ '' ICAP/1.0'') = [a, b, ''ICAP/1.0'']"
    "split_whitespace (a @ '' '' @ b @ '' HTTP/1.1'') = [a, b, ''HTTP/1.1'']"
proof -
  have "graphic ''ICAP/1.0''" "graphic ''HTTP/1.1''" by (auto simp: graphic_def byte_in_def)
  then show "split_whitespace (a @ '' '' @ b @ '' ICAP/1.0'') = [a, b, ''ICAP/1.0'']"
    "split_whitespace (a @ '' '' @ b @ '' HTTP/1.1'') = [a, b, ''HTTP/1.1'']"
    using split_whitespace_three [OF assms] by simp_all
qed

lemma http_block_lines:
  assumes "graphic hm" "graphic t" "graphic h"
  shows "str_lines (join_str crlf [hm @ '' '' @ t @ '' HTTP/1.1'', ''Host: '' @ h]) =
    [hm @ '' '' @ t @ '' HTTP/1.1'', ''Host: '' @ h]"
proof -
  have g: "graphic ''HTTP/1.1''" "header_ok (''Host'', h)"
    using assms(3) by (auto simp: graphic_def byte_in_def header_ok_def)
  show ?thesis
    using start_line_ok [OF assms(1,2) g(1)] header_line_ok [OF g(2)]
    by (intro str_lines_join) (auto simp: header_line_def)
qed

lemma parse_http_block_render:
  assumes "graphic hm" "graphic t" "graphic h" "request_target ex hm t = Inr (sch, h0, p)"
    and host: "host = (if h0 = [] \<or> eq_ignore_ascii_case hm ''CONNECT'' then clean_host_value ex h else h0)"
    and "host \<noteq> []"
  shows "parse_http_block ex (join_str crlf [hm @ '' '' @ t @ '' HTTP/1.1'', ''Host: '' @ h]) =
    Inr (hm, p, sch, host)"
proof -
  have hd: "str_lines (join_str crlf [hm @ '' '' @ t @ '' HTTP/1.1'', ''Host: '' @ h]) =
      [hm @ '' '' @ t @ '' HTTP/1.1'', ''Host: '' @ h]"
    using http_block_lines [OF assms(1-3)] .
  show ?thesis
    unfolding parse_http_block_def hd list.case request_line_parts(2) [OF assms(1,2)]
      host_header_first [OF assms(3)] assms(4) bind_res.simps prod.case Let_def option.case
    using assms(6) host by simp
qed

lemma icap_head_lines:
  assumes "graphic m" "graphic s" "\<forall>kv \<in> set hs. header_ok kv"
  shows "str_lines (join_str crlf ((m @ '' '' @ s @ '' ICAP/1.0'') # map header_line hs)) =
    (m @ '' '' @ s @ '' ICAP/1.0'') # map header_line hs"
proof -
  have g: "graphic ''ICAP/1.0''" by (auto simp: graphic_def byte_in_def)
  show ?thesis
    using start_line_ok [OF assms(1,2) g] header_line_ok assms(3)
    by (intro str_lines_join) auto
qed

lemma icap_parse_render:
  assumes "graphic m" "graphic s" "\<forall>kv \<in> set hs. header_ok kv" "graphic hm" "graphic t" "graphic h"
    and "\<not> eq_ignore_ascii_case m ''OPTIONS''"
    and tgt: "request_target ex hm t = Inr (sch, h0, p)"
    and host: "host = (if h0 = [] \<or> eq_ignore_ascii_case hm ''CONNECT'' then clean_host_value ex h else h0)"
    and ne: "host \<noteq> []"
  shows "icap_parse ex (render_icap m s hs hm t h) =
    Inr \<lparr>ir_method = m, ir_service = s, ir_headers = headers_map hs, ir_http_method = Some hm,
         ir_http_path = Some p, ir_http_scheme = sch, ir_http_host = Some host,
         ir_trace_id = headers_map hs ''x-trace-id''\<rparr>"
  unfolding icap_parse_def request_sections_render [OF assms(1-6)] prod.case Let_def
    icap_head_lines [OF assms(1-3)] list.case request_line_parts(1) [OF assms(1,2)]
    parse_http_block_render [OF assms(4-6) tgt host ne] fold_add_header [OF assms(3)]
  using assms(7) by simp

text \<open>The two halves without assumptions on the target.\<close>

lemma parse_http_block_outcome:
  assumes "graphic hm" "graphic t" "graphic h"
  shows "parse_http_block ex (join_str crlf [hm @ '' '' @ t @ '' HTTP/1.1'', ''Host: '' @ h]) =
    bind_res (request_target ex hm t) (\<lambda>(sch, h0, p).
      let host = (if h0 = [] \<or> eq_ignore_ascii_case hm ''CONNECT'' then clean_host_value ex h else h0)
      in if host = [] then Inl (Error ''HTTP host header missing'') else Inr (hm, p, sch, host))"
  unfolding parse_http_block_def http_block_lines [OF assms] list.case request_line_parts(2) [OF assms(1,2)]
    host_header_first [OF assms(3)] by simp

lemma icap_parse_sections:
  assumes "graphic m" "graphic s" "\<forall>kv \<in> set hs. header_ok kv" "graphic hm" "graphic t" "graphic h"
  shows "icap_parse ex (render_icap m s hs hm t h) =
    (if eq_ignore_ascii_case m ''OPTIONS'' then
       Inr \<lparr>ir_method = m, ir_service = s, ir_headers = headers_map hs, ir_http_method = None, ir_http_path = None,
            ir_http_scheme = None, ir_http_host = None, ir_trace_id = headers_map hs ''x-trace-id''\<rparr>
     else bind_res (parse_http_block ex (join_str crlf [hm @ '' '' @ t @ '' HTTP/1.1'', ''Host: '' @ h]))
       (\<lambda>(http_method, http_path, http_scheme, http_host).
          Inr \<lparr>ir_method = m, ir_service = s, ir_headers = headers_map hs, ir_http_method = Some http_method,
               ir_http_path = Some http_path, ir_http_scheme = http_scheme, ir_http_host = Some http_host,
               ir_trace_id = headers_map hs ''x-trace-id''\<rparr>))"
  unfolding icap_parse_def request_sections_render [OF assms] prod.case Let_def
    icap_head_lines [OF assms(1-3)] list.case request_line_parts(1) [OF assms(1,2)] fold_add_header [OF assms(3)]
  by simp

section \<open>Host values\<close>

lemma clean_host_value_brackets:
  assumes "graphic (CHR ''['' # name @ CHR '']'' # rest)" "CHR '']'' \<notin> set name"
  shows "clean_host_value ex (CHR ''['' # name @ CHR '']'' # rest) = to_lowercase ex name"
proof -
  have "find_char CHR '']'' (name @ CHR '']'' # rest) = Some (length name)"
    using assms(2) by (induction name) auto
  then have "find_char CHR '']'' (CHR ''['' # name @ CHR '']'' # rest) = Some (Suc (length name))" by simp
  then show ?thesis using assms(1) by (simp add: clean_host_value_def Let_def starts_with_def)
qed

lemma clean_host_value_port:
  assumes "graphic (h @ CHR '':'' # port)" "hd h \<noteq> CHR ''[''" "h \<noteq> []" "list_all is_ascii_digit port"
  shows "clean_host_value ex (h @ CHR '':'' # port) = to_lowercase ex h"
proof -
  have "CHR '':'' \<notin> set port" using assms(4) by (auto simp: list_all_iff is_ascii_digit_def byte_in_def)
  then have "rsplit_once_char CHR '':'' (h @ CHR '':'' # port) = Some (h, port)"
    by (simp add: rsplit_once_char_Some_iff)
  with assms show ?thesis
    by (cases h) (auto simp: clean_host_value_def Let_def starts_with_def)
qed

lemma clean_host_value_plain:
  assumes "graphic h" "hd h \<noteq> CHR ''[''" "CHR '':'' \<notin> set h"
  shows "clean_host_value ex h = to_lowercase ex h"
proof -
  have "rsplit_once_char CHR '':'' h = None" using assms(3) by (simp add: rsplit_once_char_None_iff)
  with assms show ?thesis
    by (cases h) (auto simp: clean_host_value_def Let_def starts_with_def)
qed

section \<open>Properties\<close>

text \<open>
  C35: a well-formed request is read back.  For a request made of printable tokens the parser returns the method, the
  service and the last value of every header under its lower-case name.  An \<open>OPTIONS\<close> request has no other part.
  Otherwise the encapsulated request gives the rest: a \<open>CONNECT\<close> has the path \<open>/\<close> and the scheme \<open>https\<close>; an absolute URL
  gives its own path, scheme and host in lower case, and is refused when it is no URL or names no host; any other target
  is itself the path, without a scheme.  Where the URL gives no host, and for every \<open>CONNECT\<close>, the host is the name in
  the \<open>Host\<close> header in lower case, without port or brackets.
\<close>

theorem parse_rendered_request:
  assumes "graphic meth" "graphic service" "\<forall>kv \<in> set headers. header_ok kv"
    and "graphic http_method" "graphic target" "graphic host_value"
    and "host_value = name \<and> CHR '':'' \<notin> set name \<and> hd name \<noteq> CHR ''['' \<or>
      host_value = name @ CHR '':'' # port \<and> list_all is_ascii_digit port \<and> name \<noteq> [] \<and> hd name \<noteq> CHR ''['' \<or>
      host_value = CHR ''['' # name @ CHR '']'' # rest \<and> CHR '']'' \<notin> set name"
    and "to_lowercase ex name \<noteq> []"
  shows "icap_parse ex (render_icap meth service headers http_method target host_value) =
    (let request = (\<lambda>m path scheme host. Inr \<lparr>ir_method = meth, ir_service = service, ir_headers = headers_map headers,
         ir_http_method = m, ir_http_path = path, ir_http_scheme = scheme, ir_http_host = host,
         ir_trace_id = headers_map headers ''x-trace-id''\<rparr>)
     in if eq_ignore_ascii_case meth ''OPTIONS'' then request None None None None
        else if eq_ignore_ascii_case http_method ''CONNECT''
        then request (Some http_method) (Some ''/'') (Some ''https'') (Some (to_lowercase ex name))
        else if starts_with target ''http://'' \<or> starts_with target ''https://'' then
          (case url_parse ex target of
             None \<Rightarrow> Inl (Error ''failed to parse absolute URL in HTTP request'')
           | Some url \<Rightarrow>
               (case url_host_str url of
                  None \<Rightarrow> Inl (Error ''absolute request missing host'')
                | Some h \<Rightarrow> request (Some http_method) (Some (url_path url)) (Some (url_scheme url))
                    (Some (to_lowercase ex (if to_lowercase ex h = [] then name else h)))))
        else request (Some http_method) (Some target) None (Some (to_lowercase ex name)))"
proof -
  have clean: "clean_host_value ex host_value = to_lowercase ex name"
    using assms(6,7) clean_host_value_plain [of host_value] clean_host_value_port [of name port] clean_host_value_brackets
    by metis
  show ?thesis
    unfolding icap_parse_sections [OF assms(1-6)] parse_http_block_outcome [OF assms(4-6)] clean
    using assms(8) by (auto simp: request_target_def Let_def res_simps split: option.splits)
qed

text \<open>
  For a tunnel the \<open>Host\<close> header decides.  In a \<open>CONNECT\<close> request the host the decision is
  made for is taken from the \<open>Host\<close> header alone; the target of the tunnel plays no part.
\<close>

theorem connect_uses_host_header:
  assumes "graphic meth" "graphic service" "\<forall>kv \<in> set headers. header_ok kv"
    and "graphic target" "graphic host_value" "\<not> eq_ignore_ascii_case meth ''OPTIONS''"
    and "clean_host_value ex host_value \<noteq> []"
  shows "map_res (\<lambda>r. (ir_http_host r, ir_http_path r))
      (icap_parse ex (render_icap meth service headers ''CONNECT'' target host_value)) =
    Inr (Some (clean_host_value ex host_value), Some ''/'')"
proof -
  have c: "graphic ''CONNECT''" "eq_ignore_ascii_case ''CONNECT'' ''CONNECT''"
    by (auto simp: graphic_def byte_in_def)
  then have t: "request_target ex ''CONNECT'' target = Inr (Some ''https'', clean_host_value ex target, ''/'')"
    by (simp add: request_target_def)
  show ?thesis
    using icap_parse_render [OF assms(1-3) c(1) assms(4,5,6) t refl] c(2) assms(7) by simp
qed

text \<open>
  A parsed request always names a host.  Every request the parser accepts, other than an
  \<open>OPTIONS\<close> request, carries a method, a path and a host that is not empty.
\<close>

theorem parsed_request_has_host:
  assumes "icap_parse ex raw = Inr r" "\<not> eq_ignore_ascii_case (ir_method r) ''OPTIONS''"
  shows "\<exists>h p m. ir_http_host r = Some h \<and> h \<noteq> [] \<and> ir_http_path r = Some p \<and> ir_http_method r = Some m"
  using icap_parse_request [OF assms] .

end
