(* ===== verification/Host_Match.thy ===== *)
theory Host_Match
  imports Common_Types
begin

text \<open>
  Label-boundary matching of host names.  The program implements it three times: for the domain
  conditions of policy rules, for domain overrides, and for cache invalidation.  The locale
  states their common contract and derives what a match means for the labels of the host.
\<close>

abbreviation labels :: "string \<Rightarrow> string list" where
  "labels \<equiv> split_char CHR ''.''"

definition host_under :: "string \<Rightarrow> string \<Rightarrow> bool" where
  "host_under t h \<longleftrightarrow> h = t \<or> ends_with h (CHR ''.'' # t)"

lemma host_under_labels: "host_under t h \<longleftrightarrow> suffix (labels t) (labels h)"
  unfolding host_under_def ends_with_def by (rule suffix_split_char_iff)

lemma host_under_refl [simp]: "host_under t t"
  by (simp add: host_under_def)

lemma host_under_trans: "host_under s t \<Longrightarrow> host_under t h \<Longrightarrow> host_under s h"
  unfolding host_under_labels by (rule suffix_order.trans)

lemma host_under_extend: "host_under t h \<Longrightarrow> host_under t (x @ CHR ''.'' # h)"
  unfolding host_under_labels by (auto simp: split_char_append suffix_def)

lemma host_under_length: "host_under t h \<Longrightarrow> length t \<le> length h"
  by (auto simp: host_under_def ends_with_def dest: suffix_length_le)

lemma host_under_length_eq:
  assumes "host_under t h" "host_under t' h" "length t = length t'"
  shows "t = t'"
proof -
  have "suffix t h" "suffix t' h"
    using assms(1,2) by (auto simp: host_under_def ends_with_def dest: suffix_ConsD)
  with assms(3) show ?thesis by (metis append_eq_append_conv suffix_def)
qed

lemma host_under_linear:
  assumes "host_under t h" "host_under t' h"
  shows "host_under t t' \<or> host_under t' t"
  using assms unfolding host_under_labels by (rule suffix_same_cases)

text \<open>A name glued to the scope without a separating dot does not match.\<close>

lemma host_under_glued:
  assumes "x \<noteq> []" "last x \<noteq> CHR ''.''"
  shows "\<not> host_under t (x @ t)"
proof
  assume "host_under t (x @ t)"
  with assms(1) obtain p where "x @ t = p @ CHR ''.'' # t"
    by (auto simp: host_under_def ends_with_def suffix_def)
  then have "x = p @ [CHR ''.'']" by simp
  with assms(2) show False by simp
qed

locale scope_matcher =
  fixes scope_host :: "string \<Rightarrow> string option"
    and matches :: "string \<Rightarrow> string \<Rightarrow> bool"
  assumes matches_iff: "matches s h \<longleftrightarrow> (\<exists>t. scope_host s = Some t \<and> host_under t h)"
begin

lemma matches_labels:
  "matches s h \<longleftrightarrow> (\<exists>t. scope_host s = Some t \<and> suffix (labels t) (labels h))"
  by (simp add: matches_iff host_under_labels)

lemma matches_extend: "matches s h \<Longrightarrow> matches s (x @ CHR ''.'' # h)"
  by (auto simp: matches_iff intro: host_under_extend)

lemma matches_glued:
  "scope_host s = Some t \<Longrightarrow> x \<noteq> [] \<Longrightarrow> last x \<noteq> CHR ''.'' \<Longrightarrow> \<not> matches s (x @ t)"
  by (simp add: matches_iff host_under_glued)

lemma matches_same_length:
  assumes "matches s h" "matches s' h" "scope_host s = Some t" "scope_host s' = Some t'"
    "length t = length t'"
  shows "t = t'"
  using assms by (auto simp: matches_iff intro: host_under_length_eq)

lemma matches_nested:
  assumes "matches s h" "matches s' h" "scope_host s = Some t" "scope_host s' = Some t'"
    "length t \<le> length t'"
  shows "matches s t'"
proof -
  have "host_under t h" "host_under t' h" using assms by (auto simp: matches_iff)
  then have "host_under t t' \<or> host_under t' t" by (rule host_under_linear)
  then have "host_under t t'"
  proof
    assume "host_under t' t"
    with assms(5) have "length t = length t'" by (auto dest: host_under_length)
    with \<open>host_under t h\<close> \<open>host_under t' h\<close> have "t = t'" by (rule host_under_length_eq)
    then show ?thesis by simp
  qed
  with assms(3) show ?thesis by (auto simp: matches_iff)
qed

end

end
