(* ===== verification/Icap_Cache.thy ===== *)
theory Icap_Cache
  imports Host_Match
begin

text \<open>
  The decision cache of the ICAP adaptor, \<^verbatim>\<open>services/icap-adaptor/src/cache.rs\<close>: a memory map
  with expiry in front of an optional Redis server, and the subscriber that drops entries when
  the administration service announces a change.

  Time is in milliseconds.  Redis is shared with other processes; \<open>cw_fails k\<close> says that the
  \<open>k\<close>-th attempt to reach it fails, be it at the connection or at the command.  A retry sleeps,
  so it moves the clock.
\<close>

section \<open>State\<close>

record cache_entry =
  ce_decision :: policy_decision
  ce_expires_at :: time

record cache_world =
  cw_now :: time
  cw_memory :: "string \<rightharpoonup> cache_entry"
  cw_redis_configured :: bool
  cw_redis :: "string \<rightharpoonup> string \<times> time"
  cw_attempts :: nat
  cw_fails :: "nat \<Rightarrow> bool"

definition cache_sleep :: "nat \<Rightarrow> cache_world \<Rightarrow> cache_world" where
  "cache_sleep ms w = w\<lparr>cw_now := cw_now w + ms\<rparr>"

section \<open>Memory\<close>

definition memory_get :: "string \<Rightarrow> cache_world \<Rightarrow> policy_decision option" where
  "memory_get key w =
     Option.bind (cw_memory w key) (\<lambda>entry.
       if cw_now w \<le> ce_expires_at entry then Some (ce_decision entry) else None)"

definition memory_set :: "string \<Rightarrow> policy_decision \<Rightarrow> nat \<Rightarrow> cache_world \<Rightarrow> cache_world" where
  "memory_set key decision ttl w =
     w\<lparr>cw_memory := (cw_memory w)(key \<mapsto>
        \<lparr>ce_decision = decision, ce_expires_at = cw_now w + ttl\<rparr>)\<rparr>"

section \<open>Redis\<close>

definition redis_attempt :: "cache_world \<Rightarrow> bool \<times> cache_world" where
  "redis_attempt w =
     (\<not> cw_fails w (cw_attempts w), w\<lparr>cw_attempts := Suc (cw_attempts w)\<rparr>)"

definition redis_value :: "string \<Rightarrow> cache_world \<Rightarrow> string option" where
  "redis_value key w =
     (case cw_redis w key of
        Some (payload, expires) \<Rightarrow> if cw_now w < expires then Some payload else None
      | None \<Rightarrow> None)"

fun redis_get_loop :: "nat list \<Rightarrow> string \<Rightarrow> cache_world \<Rightarrow> string option \<times> cache_world" where
  "redis_get_loop [] key w = (None, w)"
| "redis_get_loop (attempt # rest) key w =
     (case redis_attempt w of
        (True, w') \<Rightarrow> (redis_value key w', w')
      | (False, w') \<Rightarrow> redis_get_loop rest key (cache_sleep (50 * (attempt + 1)) w'))"

definition redis_get :: "string \<Rightarrow> cache_world \<Rightarrow> string option \<times> cache_world" where
  "redis_get key w =
     (if \<not> cw_redis_configured w then (None, w) else redis_get_loop [0, 1, 2] key w)"

fun redis_set_loop :: "nat list \<Rightarrow> string \<Rightarrow> string \<Rightarrow> nat \<Rightarrow> cache_world \<Rightarrow> cache_world" where
  "redis_set_loop [] key payload ttl_secs w = w"
| "redis_set_loop (attempt # rest) key payload ttl_secs w =
     (case redis_attempt w of
        (True, w') \<Rightarrow> w'\<lparr>cw_redis := (cw_redis w')(key \<mapsto> (payload, cw_now w' + 1000 * ttl_secs))\<rparr>
      | (False, w') \<Rightarrow>
          redis_set_loop rest key payload ttl_secs (cache_sleep (50 * (attempt + 1)) w'))"

definition redis_set :: "string \<Rightarrow> string \<Rightarrow> nat \<Rightarrow> cache_world \<Rightarrow> cache_world" where
  "redis_set key payload ttl_secs w =
     (if \<not> cw_redis_configured w then w else redis_set_loop [0, 1, 2] key payload ttl_secs w)"

section \<open>The client\<close>

definition cache_new :: "bool \<Rightarrow> cache_world \<Rightarrow> cache_world" where
  "cache_new redis w = w\<lparr>cw_memory := Map.empty, cw_redis_configured := redis\<rparr>"

definition cache_get :: "externs \<Rightarrow> string \<Rightarrow> cache_world \<Rightarrow> policy_decision option \<times> cache_world" where
  "cache_get ex key w =
     (case memory_get key w of
        Some decision \<Rightarrow> (Some decision, w)
      | None \<Rightarrow>
          (case redis_get key w of
             (Some payload, w') \<Rightarrow> (Option.bind (json_of_text ex payload) (decision_of_json ex), w')
           | (None, w') \<Rightarrow> (None, w')))"

definition cache_set ::
  "externs \<Rightarrow> string \<Rightarrow> policy_decision \<Rightarrow> nat \<Rightarrow> cache_world \<Rightarrow> cache_world" where
  "cache_set ex key decision ttl w =
     (let w' = memory_set key decision ttl w
      in if cw_redis_configured w'
         then redis_set key (text_of_json ex (decision_to_json decision)) (max (ttl div 1000) 1) w'
         else w')"

section \<open>Invalidation\<close>

datatype cache_invalidation_event =
    OverrideEvent string string
  | ReviewEvent string
  | PolicyEvent

definition event_of_json :: "json \<Rightarrow> cache_invalidation_event option" where
  "event_of_json j =
     Option.bind (fields_of [''kind''] j) (\<lambda>fs.
     Option.bind (req_field string_of_json ''kind'' fs) (\<lambda>kind.
       if kind = ''override'' then
         Option.bind (fields_of [''scope_type'', ''scope_value''] j) (\<lambda>_.
         Option.bind (req_field string_of_json ''scope_type'' fs) (\<lambda>t.
         Option.bind (req_field string_of_json ''scope_value'' fs) (\<lambda>v. Some (OverrideEvent t v))))
       else if kind = ''review'' then
         Option.bind (fields_of [''normalized_key''] j) (\<lambda>_.
         Option.bind (req_field string_of_json ''normalized_key'' fs) (\<lambda>k. Some (ReviewEvent k)))
       else if kind = ''policy'' then Some PolicyEvent
       else None))"

definition key_matches_domain_scope :: "string \<Rightarrow> string \<Rightarrow> bool \<Rightarrow> bool" where
  "key_matches_domain_scope key scope_value wildcard =
     (case strip_prefix domain_pfx key of
        Some host \<Rightarrow> host = scope_value
      | None \<Rightarrow>
          (case strip_prefix subdomain_pfx key of
             Some host \<Rightarrow>
               (let suffix = CHR ''.'' # scope_value
                in if wildcard then host = scope_value \<or> ends_with host suffix
                   else if host = scope_value then True
                   else if ends_with host suffix then True
                   else False)
           | None \<Rightarrow> False))"

text \<open>\<open>HashMap::retain\<close>: the entries whose key is dropped.\<close>

definition memory_drop :: "(string \<Rightarrow> bool) \<Rightarrow> cache_world \<Rightarrow> cache_world" where
  "memory_drop P w = w\<lparr>cw_memory := (\<lambda>k. if P k then None else cw_memory w k)\<rparr>"

definition invalidate_policy :: "cache_world \<Rightarrow> cache_world" where
  "invalidate_policy w = w\<lparr>cw_memory := Map.empty\<rparr>"

definition invalidate_scope :: "string \<Rightarrow> string \<Rightarrow> cache_world \<Rightarrow> cache_world" where
  "invalidate_scope scope_type scope_value w =
     (if scope_type \<noteq> ''domain'' then w\<lparr>cw_memory := Map.empty\<rparr>
      else
        (let (wildcard, value) =
               (case strip_prefix ''*.'' scope_value of
                  Some rest \<Rightarrow> (True, rest)
                | None \<Rightarrow> (False, scope_value))
         in memory_drop (\<lambda>key. key_matches_domain_scope key value wildcard) w))"

definition invalidate_key :: "string \<Rightarrow> cache_world \<Rightarrow> cache_world" where
  "invalidate_key normalized_key w = w\<lparr>cw_memory := (cw_memory w)(normalized_key := None)\<rparr>"

definition apply_event :: "cache_invalidation_event \<Rightarrow> cache_world \<Rightarrow> cache_world" where
  "apply_event event w =
     (case event of
        OverrideEvent scope_type scope_value \<Rightarrow> invalidate_scope scope_type scope_value w
      | ReviewEvent normalized_key \<Rightarrow> invalidate_key normalized_key w
      | PolicyEvent \<Rightarrow> invalidate_policy w)"

definition apply_invalidation :: "externs \<Rightarrow> string \<Rightarrow> cache_world \<Rightarrow> unit res \<times> cache_world" where
  "apply_invalidation ex payload w =
     (case Option.bind (json_of_text ex payload) event_of_json of
        None \<Rightarrow> (Inl (Error ''invalid cache event''), w)
      | Some event \<Rightarrow> (Inr (), apply_event event w))"

text \<open>
  The subscriber over the messages of one connection: \<open>None\<close> is a payload that is not text,
  which ends the connection; a payload that does not parse is skipped.
\<close>

fun consume_messages :: "externs \<Rightarrow> string option list \<Rightarrow> cache_world \<Rightarrow> cache_world" where
  "consume_messages ex [] w = w"
| "consume_messages ex (None # msgs) w = w"
| "consume_messages ex (Some payload # msgs) w =
     consume_messages ex msgs (snd (apply_invalidation ex payload w))"

section \<open>A map with expiry\<close>

text \<open>
  The contract of the memory half.  A cache is driven by stores, by drops and by the passing of
  time; the derived lemmas say what a lookup can return after any such sequence.
\<close>

datatype ('k, 'v) cache_op = Store 'k 'v nat | Drop "'k \<Rightarrow> bool" | Tick nat

fun op_elapsed :: "('k, 'v) cache_op \<Rightarrow> nat" where
  "op_elapsed (Tick n) = n"
| "op_elapsed _ = 0"

fun op_touches :: "'k \<Rightarrow> ('k, 'v) cache_op \<Rightarrow> bool" where
  "op_touches k (Store k' v t) = (k = k')"
| "op_touches k (Drop P) = P k"
| "op_touches k (Tick n) = False"

locale ttl_cache =
  fixes lookup :: "'k \<Rightarrow> 's \<Rightarrow> 'v option"
    and store :: "'k \<Rightarrow> 'v \<Rightarrow> nat \<Rightarrow> 's \<Rightarrow> 's"
    and discard :: "('k \<Rightarrow> bool) \<Rightarrow> 's \<Rightarrow> 's"
    and tick :: "nat \<Rightarrow> 's \<Rightarrow> 's"
    and remaining :: "'k \<Rightarrow> 's \<Rightarrow> nat option"
  assumes lookup_store: "lookup k (store k' v t s) = (if k = k' then Some v else lookup k s)"
    and lookup_discard: "lookup k (discard P s) = (if P k then None else lookup k s)"
    and lookup_tick: "lookup k (tick n s) =
      (case remaining k s of None \<Rightarrow> None | Some m \<Rightarrow> if n \<le> m then lookup k s else None)"
    and remaining_store: "remaining k (store k' v t s) = (if k = k' then Some t else remaining k s)"
    and remaining_discard: "remaining k (discard P s) = (if P k then None else remaining k s)"
    and remaining_tick: "remaining k (tick n s) =
      (case remaining k s of None \<Rightarrow> None | Some m \<Rightarrow> if n \<le> m then Some (m - n) else None)"
    and remaining_lookup: "lookup k s \<noteq> None \<longleftrightarrow> remaining k s \<noteq> None"
begin

fun apply_op :: "('k, 'v) cache_op \<Rightarrow> 's \<Rightarrow> 's" where
  "apply_op (Store k v t) s = store k v t s"
| "apply_op (Drop P) s = discard P s"
| "apply_op (Tick n) s = tick n s"

definition run_ops :: "('k, 'v) cache_op list \<Rightarrow> 's \<Rightarrow> 's" where
  "run_ops ops s = fold apply_op ops s"

lemma run_ops_Cons: "run_ops (x # xs) s = run_ops xs (apply_op x s)"
  by (simp add: run_ops_def)

lemma apply_op_lookup:
  "lookup k (apply_op x s) = Some v \<Longrightarrow> lookup k s = Some v \<or> (\<exists>t. x = Store k v t)"
  by (cases x) (auto simp: lookup_store lookup_discard lookup_tick split: if_splits option.splits)

text \<open>No value appears that was not there or stored since.\<close>

lemma run_ops_provenance:
  "lookup k (run_ops xs s) = Some v \<Longrightarrow> lookup k s = Some v \<or> (\<exists>t. Store k v t \<in> set xs)"
proof (induction xs arbitrary: s)
  case (Cons x xs)
  then have "lookup k (apply_op x s) = Some v \<or> (\<exists>t. Store k v t \<in> set xs)"
    by (simp add: run_ops_Cons)
  with apply_op_lookup [of k x s v] show ?case by auto
qed (simp add: run_ops_def)

text \<open>A dropped key stays absent until it is stored again.\<close>

lemma drop_until_store:
  assumes "P k" "lookup k (run_ops xs (discard P s)) = Some v"
  shows "\<exists>t. Store k v t \<in> set xs"
  using run_ops_provenance [OF assms(2)] assms(1) by (simp add: lookup_discard)

text \<open>An entry that nothing touches is served exactly until its time is up.\<close>

lemma run_ops_untouched:
  assumes "\<forall>x \<in> set xs. \<not> op_touches k x"
  shows "remaining k (run_ops xs s) =
    (case remaining k s of None \<Rightarrow> None
     | Some m \<Rightarrow> if sum_list (map op_elapsed xs) \<le> m then Some (m - sum_list (map op_elapsed xs)) else None) \<and>
   lookup k (run_ops xs s) =
    (case remaining k s of None \<Rightarrow> None
     | Some m \<Rightarrow> if sum_list (map op_elapsed xs) \<le> m then lookup k s else None)"
  using assms
proof (induction xs arbitrary: s)
  case Nil
  then show ?case
    using remaining_lookup [of k s] by (auto simp: run_ops_def split: option.splits)
next
  case (Cons x xs)
  have IH: "remaining k (run_ops xs (apply_op x s)) =
    (case remaining k (apply_op x s) of None \<Rightarrow> None
     | Some m \<Rightarrow> if sum_list (map op_elapsed xs) \<le> m then Some (m - sum_list (map op_elapsed xs)) else None) \<and>
   lookup k (run_ops xs (apply_op x s)) =
    (case remaining k (apply_op x s) of None \<Rightarrow> None
     | Some m \<Rightarrow> if sum_list (map op_elapsed xs) \<le> m then lookup k (apply_op x s) else None)"
    using Cons by simp
  show ?case
  proof (cases x)
    case (Tick n)
    with IH show ?thesis
      by (cases "remaining k s") (auto simp: run_ops_Cons remaining_tick lookup_tick)
  qed (use IH Cons.prems in \<open>cases "remaining k s"; auto simp: run_ops_Cons remaining_store
        remaining_discard lookup_store lookup_discard\<close>)+
qed

lemma store_then_untouched:
  assumes "\<forall>x \<in> set xs. \<not> op_touches k x"
  shows "lookup k (run_ops xs (store k v t s)) =
    (if sum_list (map op_elapsed xs) \<le> t then Some v else None)"
  using run_ops_untouched [OF assms, of "store k v t s"] by (simp add: remaining_store lookup_store)

end

definition memory_remaining :: "string \<Rightarrow> cache_world \<Rightarrow> nat option" where
  "memory_remaining key w =
     Option.bind (cw_memory w key) (\<lambda>e.
       if cw_now w \<le> ce_expires_at e then Some (ce_expires_at e - cw_now w) else None)"

interpretation mem: ttl_cache memory_get memory_set memory_drop cache_sleep memory_remaining
  by unfold_locales
    (auto simp: memory_get_def memory_set_def memory_drop_def cache_sleep_def memory_remaining_def
      bind_eq_None_conv split: option.splits if_splits Option.bind_splits)

section \<open>Scopes\<close>

interpretation cache_scope: scope_matcher Some "\<lambda>s h. key_matches_domain_scope (subdomain_pfx @ h) s b"
  for b
  by unfold_locales (auto simp: key_matches_domain_scope_def host_under_def Let_def)

lemma key_matches_domain:
  "key_matches_domain_scope (domain_pfx @ h) s b \<longleftrightarrow> h = s"
  by (simp add: key_matches_domain_scope_def)

lemma key_matches_other:
  "strip_prefix domain_pfx key = None \<Longrightarrow> strip_prefix subdomain_pfx key = None \<Longrightarrow>
   \<not> key_matches_domain_scope key s b"
  by (simp add: key_matches_domain_scope_def)

text \<open>Every event drops a set of keys.\<close>

definition event_keys :: "cache_invalidation_event \<Rightarrow> string \<Rightarrow> bool" where
  "event_keys event key =
     (case event of
        OverrideEvent scope_type scope_value \<Rightarrow>
          scope_type \<noteq> ''domain'' \<or>
          key_matches_domain_scope key
            (case strip_prefix ''*.'' scope_value of Some rest \<Rightarrow> rest | None \<Rightarrow> scope_value) True
      | ReviewEvent normalized_key \<Rightarrow> key = normalized_key
      | PolicyEvent \<Rightarrow> True)"

lemma key_matches_wildcard: "key_matches_domain_scope key s b = key_matches_domain_scope key s True"
  by (cases b) (auto simp: key_matches_domain_scope_def Let_def split: option.splits)

lemma apply_event_drop: "apply_event event w = memory_drop (event_keys event) w"
proof (cases event)
  case (OverrideEvent t v)
  then show ?thesis
    using key_matches_wildcard [of _ v False]
    by (auto simp: apply_event_def invalidate_scope_def memory_drop_def event_keys_def Let_def
        split: option.splits)
qed (auto simp: apply_event_def invalidate_key_def invalidate_policy_def memory_drop_def
    event_keys_def fun_upd_def)

lemma apply_invalidation_now: "apply_invalidation ex payload w = (r, w') \<Longrightarrow> cw_now w' = cw_now w"
  by (auto simp: apply_invalidation_def apply_event_drop memory_drop_def split: option.splits)

section \<open>Redis round trip\<close>

text \<open>Redis is reachable within the next three attempts.\<close>

definition redis_reachable :: "cache_world \<Rightarrow> bool" where
  "redis_reachable w \<longleftrightarrow> (\<exists>i < 3. \<not> cw_fails w (cw_attempts w + i))"

lemma redis_attempt_pair:
  "redis_attempt w = (\<not> cw_fails w (cw_attempts w), w\<lparr>cw_attempts := Suc (cw_attempts w)\<rparr>)"
  by (simp add: redis_attempt_def)

lemma redis_set_loop_frame [simp]:
  "cw_memory (redis_set_loop as k p t w) = cw_memory w"
  "cw_redis_configured (redis_set_loop as k p t w) = cw_redis_configured w"
  "cw_fails (redis_set_loop as k p t w) = cw_fails w"
  by (induction as arbitrary: w) (auto simp: redis_attempt_pair cache_sleep_def split: prod.splits bool.splits)

lemma redis_get_loop_frame:
  "redis_get_loop as k w = (r, w') \<Longrightarrow>
   cw_memory w' = cw_memory w \<and> cw_redis w' = cw_redis w \<and> cw_now w \<le> cw_now w' \<and>
   cw_redis_configured w' = cw_redis_configured w \<and> cw_fails w' = cw_fails w"
proof (induction as arbitrary: w)
  case (Cons a as)
  let ?w = "cache_sleep (50 * (a + 1)) (w\<lparr>cw_attempts := Suc (cw_attempts w)\<rparr>)"
  show ?case
  proof (cases "cw_fails w (cw_attempts w)")
    case True
    then have "redis_get_loop as k ?w = (r, w')" using Cons.prems by (simp add: redis_attempt_pair)
    from Cons.IH [OF this] show ?thesis by (simp add: cache_sleep_def)
  next
    case False
    then show ?thesis using Cons.prems by (auto simp: redis_attempt_pair)
  qed
qed simp

lemma redis_set_loop_value:
  assumes "\<exists>i < length as. \<not> cw_fails w (cw_attempts w + i)"
  shows "\<exists>n. cw_redis (redis_set_loop as k p t w) = (cw_redis w)(k \<mapsto> (p, n + 1000 * t)) \<and>
    cw_now (redis_set_loop as k p t w) = n \<and> cw_now w \<le> n"
  using assms
proof (induction as arbitrary: w)
  case (Cons a as)
  show ?case
  proof (cases "cw_fails w (cw_attempts w)")
    case False
    then show ?thesis by (simp add: redis_attempt_pair)
  next
    case True
    let ?w = "cache_sleep (50 * (a + 1)) (w\<lparr>cw_attempts := Suc (cw_attempts w)\<rparr>)"
    obtain i where i: "i < length (a # as)" "\<not> cw_fails w (cw_attempts w + i)" using Cons.prems by blast
    with True obtain j where "i = Suc j" "j < length as" by (cases i) auto
    with i have "\<exists>i < length as. \<not> cw_fails ?w (cw_attempts ?w + i)"
      by (auto simp: cache_sleep_def)
    with Cons.IH [of ?w] True show ?thesis by (auto simp: redis_attempt_pair cache_sleep_def)
  qed
qed simp

lemma cache_get_memory: "memory_get key w = Some d \<Longrightarrow> cache_get ex key w = (Some d, w)"
  by (simp add: cache_get_def)

lemma cache_get_frame:
  "cache_get ex key w = (r, w') \<Longrightarrow>
   cw_memory w' = cw_memory w \<and> cw_redis w' = cw_redis w \<and> cw_now w \<le> cw_now w' \<and>
   cw_redis_configured w' = cw_redis_configured w \<and> cw_fails w' = cw_fails w"
  using redis_get_loop_frame [of "[0, 1, 2]" key w]
  by (auto simp: cache_get_def redis_get_def split: option.splits prod.splits if_splits
      simp del: redis_get_loop.simps)

lemma cache_set_memory:
  "cw_memory (cache_set ex key d ttl w) = cw_memory (memory_set key d ttl w)"
  by (simp add: cache_set_def redis_set_def Let_def del: redis_set_loop.simps)

text \<open>
  A decision put into Redis is found by a client whose memory does not have the key, such as the
  adaptor after a restart.
\<close>

lemma redis_round_trip:
  assumes "json_text_ok ex" "json_safe d" "cw_redis_configured w" "redis_reachable w"
    and w': "w' = cache_set ex key d ttl w"
    and w2: "cw_redis w2 = cw_redis w'" "cw_redis_configured w2" "cw_memory w2 key = None"
      "cw_now w2 < cw_now w' + 1000" "\<not> cw_fails w2 (cw_attempts w2)"
  shows "fst (cache_get ex key w2) = Some d"
proof -
  let ?p = "text_of_json ex (decision_to_json d)"
  have "\<exists>i < length [0, 1, 2::nat]. \<not> cw_fails (memory_set key d ttl w)
      (cw_attempts (memory_set key d ttl w) + i)"
    using assms(4) by (simp add: redis_reachable_def memory_set_def numeral_3_eq_3)
  from redis_set_loop_value [OF this, of key ?p "max (ttl div 1000) 1"]
  obtain n where n: "cw_redis w' = (cw_redis (memory_set key d ttl w))
      (key \<mapsto> (?p, n + 1000 * max (ttl div 1000) 1))" "cw_now w' = n"
    using assms(3) by (auto simp: w' cache_set_def redis_set_def memory_set_def Let_def
        simp del: redis_set_loop.simps)
  have "redis_value key (w2\<lparr>cw_attempts := Suc (cw_attempts w2)\<rparr>) = Some ?p"
    using n w2(1,4) by (simp add: redis_value_def)
  moreover have "memory_get key w2 = None" using w2(3) by (simp add: memory_get_def)
  ultimately show ?thesis
    using w2(2,5) assms(1,2)
    by (simp add: cache_get_def redis_get_def redis_attempt_pair decision_text_round decision_json_round)
qed

section \<open>Properties\<close>

text \<open>
  A cached decision is served exactly for its time to live.  After a decision was stored, and
  while the cache is only waiting or changing other keys, a look-up returns it until the time to
  live has passed and nothing afterwards.
\<close>

theorem memory_entry_lifetime:
  assumes "\<forall>x \<in> set ops. \<not> op_touches key x"
  shows "memory_get key (mem.run_ops ops (memory_set key decision ttl w)) =
    (if sum_list (map op_elapsed ops) \<le> ttl then Some decision else None)"
  using mem.store_then_untouched [OF assms] .

text \<open>
  A decision survives Redis.  If Redis can be reached within three attempts, a stored decision
  is what a client without the key in memory reads back in the following second.
\<close>

theorem decision_survives_redis:
  assumes "json_text_ok ex" "json_safe d" "cw_redis_configured w" "redis_reachable w"
    and "w' = cache_set ex key d ttl w"
    and "cw_redis w2 = cw_redis w'" "cw_redis_configured w2" "cw_memory w2 key = None"
      "cw_now w2 < cw_now w' + 1000" "\<not> cw_fails w2 (cw_attempts w2)"
  shows "fst (cache_get ex key w2) = Some d"
  using redis_round_trip [OF assms] .

end
