(* ===== verification/Config_Core.thy ===== *)
theory Config_Core
  imports Common_Types
begin

text \<open>
  Configuration, \<^verbatim>\<open>crates/config-core\<close>: reading a service's JSON configuration, environment
  lookup with deprecated aliases, and the validator that keeps default and example secrets out
  of a deployment.  The process environment is a function from names to values.
\<close>

section \<open>Loading\<close>

type_synonym environment = "string \<Rightarrow> string option"

datatype file_state = FileMissing | FileUnreadable | FileText string

definition load_config ::
  "externs \<Rightarrow> environment \<Rightarrow> (json \<Rightarrow> 'a option) \<Rightarrow> string \<Rightarrow> file_state \<Rightarrow> 'a res" where
  "load_config ex env decode path file =
     (let from_str = (\<lambda>s. Option.bind (json_of_text ex s) decode)
      in case file of
           FileUnreadable \<Rightarrow> Inl (Error (''failed to read config '' @ path))
         | FileText contents \<Rightarrow>
             ok_or (Error (''failed to parse config '' @ path @ '' as JSON'')) (from_str contents)
         | FileMissing \<Rightarrow>
             ok_or (Error ''failed to parse OD_CONFIG_JSON'')
               (from_str (case env ''OD_CONFIG_JSON'' of Some s \<Rightarrow> s | None \<Rightarrow> ''{}'')))"

record env_lookup =
  el_value :: "string option"
  el_source_key :: "string option"
  el_deprecated_alias :: "string option"

fun lookup_aliases :: "environment \<Rightarrow> string list \<Rightarrow> env_lookup" where
  "lookup_aliases env [] = \<lparr>el_value = None, el_source_key = None, el_deprecated_alias = None\<rparr>"
| "lookup_aliases env (alias # aliases) =
     (case env alias of
        Some value \<Rightarrow>
          if trim value \<noteq> []
          then \<lparr>el_value = Some value, el_source_key = Some alias, el_deprecated_alias = Some alias\<rparr>
          else lookup_aliases env aliases
      | None \<Rightarrow> lookup_aliases env aliases)"

definition lookup_env :: "environment \<Rightarrow> string \<Rightarrow> string list \<Rightarrow> env_lookup" where
  "lookup_env env canonical deprecated_aliases =
     (case env canonical of
        Some value \<Rightarrow>
          if trim value \<noteq> []
          then \<lparr>el_value = Some value, el_source_key = Some canonical, el_deprecated_alias = None\<rparr>
          else lookup_aliases env deprecated_aliases
      | None \<Rightarrow> lookup_aliases env deprecated_aliases)"

section \<open>Secrets\<close>

definition INSECURE_DEV_MODE_ENV :: string where
  "INSECURE_DEV_MODE_ENV = ''OD_ALLOW_INSECURE_DEV_SECRETS''"

definition DEFAULT_SECRET_MIN_LEN :: nat where
  "DEFAULT_SECRET_MIN_LEN = 12"

definition COMMON_BLOCKED_EXACT :: "string list" where
  "COMMON_BLOCKED_EXACT =
     [''changeme'', ''defender'', ''password'', ''secret'', ''admin'', ''test'', ''default'',
      ''example'', ''sample'', ''placeholder'', ''insecure'', ''dummy'']"

definition COMMON_BLOCKED_TOKENS :: "string list" where
  "COMMON_BLOCKED_TOKENS = [''defender'']"

definition KNOWN_EXAMPLE_VALUES :: "string list" where
  "KNOWN_EXAMPLE_VALUES =
     [''changeme-admin'', ''changeme-ingest'', ''changeme-elastic'',
      ''changeme-local-admin-password'', ''changeme-local-jwt-secret'',
      ''changeme-local-jwt-secret-min-32-chars'', ''defender'',
      ''AAEAAWVsYXN0aWMva2liYW5hL29kLXN0YWNrOk1MUUJvVnlnU19TSmNDT0Z6OVZMeGc'']"

record config_issue =
  ci_key :: string
  ci_problem :: string
  ci_remediation :: string

definition contains_weak_pattern :: "string \<Rightarrow> bool" where
  "contains_weak_pattern lowered \<longleftrightarrow>
     contains_str lowered ''changeme'' \<or>
     list_ex (\<lambda>pattern. lowered = pattern) COMMON_BLOCKED_EXACT \<or>
     list_ex (\<lambda>token. token \<noteq> [] \<and>
         list_ex (\<lambda>pattern. eq_ignore_ascii_case token pattern) COMMON_BLOCKED_TOKENS)
       (split_on (\<lambda>ch. \<not> is_ascii_alphanumeric ch) lowered)"

definition missing_problem :: string where
  "missing_problem = ''missing required value''"

definition short_problem :: "nat \<Rightarrow> string" where
  "short_problem min_len = ''value shorter than minimum length ('' @ show_nat min_len @ '')''"

definition weak_problem :: string where
  "weak_problem = ''value matches blocked default/test pattern''"

definition secret_findings ::
  "string \<Rightarrow> string option \<Rightarrow> nat \<Rightarrow> string list \<Rightarrow> bool \<Rightarrow> config_issue list" where
  "secret_findings key value min_len blocked_values required =
     (let candidate = map_option trim value
      in if (case candidate of None \<Rightarrow> True | Some v \<Rightarrow> v = []) then
           (if required
            then [\<lparr>ci_key = key, ci_problem = missing_problem,
                   ci_remediation = ''set a unique strong secret''\<rparr>]
            else [])
         else
           (let raw = the candidate; lowered = to_ascii_lowercase raw
            in (if length raw < min_len
                then [\<lparr>ci_key = key, ci_problem = short_problem min_len,
                       ci_remediation = ''use a longer random secret''\<rparr>] else [])
             @ (if list_ex (\<lambda>blocked. lowered = to_ascii_lowercase blocked)
                     (KNOWN_EXAMPLE_VALUES @ blocked_values)
                then [\<lparr>ci_key = key,
                       ci_problem = ''value matches repository example/default secret'',
                       ci_remediation = ''replace with deployment-specific secret''\<rparr>] else [])
             @ (if contains_weak_pattern lowered
                then [\<lparr>ci_key = key, ci_problem = weak_problem,
                       ci_remediation = ''replace with high-entropy secret''\<rparr>] else [])))"

definition parse_bool_env :: "environment \<Rightarrow> string \<Rightarrow> bool option" where
  "parse_bool_env env key =
     Option.bind (env key) (\<lambda>raw.
       let v = to_ascii_lowercase (trim raw)
       in if v \<in> {''1'', ''true'', ''yes'', ''on''} then Some True
          else if v \<in> {''0'', ''false'', ''no'', ''off''} then Some False
          else None)"

definition insecure_dev_mode_enabled :: "environment \<Rightarrow> bool" where
  "insecure_dev_mode_enabled env =
     (case parse_bool_env env INSECURE_DEV_MODE_ENV of None \<Rightarrow> False | Some b \<Rightarrow> b)"

section \<open>The validator\<close>

record config_validator =
  val_scope :: string
  val_issues :: "config_issue list"
  val_warnings :: "config_issue list"

definition validator_new :: "string \<Rightarrow> config_validator" where
  "validator_new scope = \<lparr>val_scope = scope, val_issues = [], val_warnings = []\<rparr>"

definition push_issue :: "config_issue \<Rightarrow> config_validator \<Rightarrow> config_validator" where
  "push_issue i v = v\<lparr>val_issues := val_issues v @ [i]\<rparr>"

definition require_non_empty ::
  "string \<Rightarrow> string option \<Rightarrow> string \<Rightarrow> config_validator \<Rightarrow> config_validator" where
  "require_non_empty key value remediation v =
     (if (case value of None \<Rightarrow> True | Some s \<Rightarrow> trim s = [])
      then push_issue \<lparr>ci_key = key, ci_problem = missing_problem, ci_remediation = remediation\<rparr> v
      else v)"

definition require_min_len ::
  "string \<Rightarrow> string option \<Rightarrow> nat \<Rightarrow> string \<Rightarrow> config_validator \<Rightarrow> config_validator" where
  "require_min_len key value min_len remediation v =
     (case value of
        None \<Rightarrow> v
      | Some raw \<Rightarrow>
          if length (trim raw) < min_len
          then push_issue \<lparr>ci_key = key, ci_problem = short_problem min_len,
                           ci_remediation = remediation\<rparr> v
          else v)"

definition forbid_substrings_ci ::
  "string \<Rightarrow> string option \<Rightarrow> string list \<Rightarrow> string \<Rightarrow> config_validator \<Rightarrow> config_validator" where
  "forbid_substrings_ci key value blocked remediation v =
     (case value of
        None \<Rightarrow> v
      | Some raw \<Rightarrow>
          if list_ex (\<lambda>needle. contains_str (to_ascii_lowercase raw) (to_ascii_lowercase needle)) blocked
          then push_issue \<lparr>ci_key = key, ci_problem = weak_problem, ci_remediation = remediation\<rparr> v
          else v)"

definition validator_extend :: "config_validator \<Rightarrow> config_validator \<Rightarrow> config_validator" where
  "validator_extend v other =
     v\<lparr>val_issues := val_issues v @ val_issues other,
       val_warnings := val_warnings v @ val_warnings other\<rparr>"

definition push_secret_findings ::
  "environment \<Rightarrow> config_issue list \<Rightarrow> string \<Rightarrow> config_validator \<Rightarrow> config_validator" where
  "push_secret_findings env findings remediation v =
     (if findings = [] then v
      else if insecure_dev_mode_enabled env
      then v\<lparr>val_warnings := val_warnings v @
               map (\<lambda>f. f\<lparr>ci_remediation := remediation\<rparr>) findings\<rparr>
      else v\<lparr>val_issues := val_issues v @ findings\<rparr>)"

definition require_strong_secret ::
  "environment \<Rightarrow> string \<Rightarrow> string option \<Rightarrow> nat \<Rightarrow> string \<Rightarrow> config_validator \<Rightarrow> config_validator" where
  "require_strong_secret env key value min_len remediation =
     push_secret_findings env
       (secret_findings key value (max min_len DEFAULT_SECRET_MIN_LEN) [] True) remediation"

definition require_strong_secret_with_blocklist ::
  "environment \<Rightarrow> string \<Rightarrow> string option \<Rightarrow> nat \<Rightarrow> string list \<Rightarrow> string \<Rightarrow> config_validator
   \<Rightarrow> config_validator" where
  "require_strong_secret_with_blocklist env key value min_len blocked_values remediation =
     push_secret_findings env
       (secret_findings key value (max min_len DEFAULT_SECRET_MIN_LEN) blocked_values True) remediation"

definition validate_optional_secret ::
  "environment \<Rightarrow> string \<Rightarrow> string option \<Rightarrow> nat \<Rightarrow> string \<Rightarrow> config_validator \<Rightarrow> config_validator" where
  "validate_optional_secret env key value min_len remediation =
     push_secret_findings env
       (secret_findings key value (max min_len DEFAULT_SECRET_MIN_LEN) [] False) remediation"

definition validate_optional_secret_with_blocklist ::
  "environment \<Rightarrow> string \<Rightarrow> string option \<Rightarrow> nat \<Rightarrow> string list \<Rightarrow> string \<Rightarrow> config_validator
   \<Rightarrow> config_validator" where
  "validate_optional_secret_with_blocklist env key value min_len blocked_values remediation =
     push_secret_findings env
       (secret_findings key value (max min_len DEFAULT_SECRET_MIN_LEN) blocked_values False) remediation"

definition auth_url_findings ::
  "externs \<Rightarrow> string \<Rightarrow> string option \<Rightarrow> bool \<Rightarrow> bool \<Rightarrow> nat \<Rightarrow> string \<Rightarrow> config_issue list" where
  "auth_url_findings ex key value require_username require_password min_password_len remediation =
     (let issue = (\<lambda>problem. \<lparr>ci_key = key, ci_problem = problem, ci_remediation = remediation\<rparr>)
      in case (case value of None \<Rightarrow> None
               | Some s \<Rightarrow> if trim s = [] then None else Some (trim s)) of
           None \<Rightarrow> [issue missing_problem]
         | Some raw \<Rightarrow>
             (case url_parse ex raw of
                None \<Rightarrow> [issue ''invalid URL format'']
              | Some parsed \<Rightarrow>
                  (let username = trim (url_username parsed);
                       password = map_option trim (url_password parsed)
                   in (if require_username \<and> username = []
                       then [issue ''URL is missing username credentials''] else [])
                    @ (if require_password \<and> (case password of None \<Rightarrow> [] | Some p \<Rightarrow> p) = []
                       then [issue ''URL is missing password credentials''] else [])
                    @ (if username \<noteq> [] then secret_findings key (Some username) 3 [] False else [])
                    @ (case password of
                         None \<Rightarrow> []
                       | Some pass \<Rightarrow>
                           secret_findings key (Some pass)
                             (max min_password_len DEFAULT_SECRET_MIN_LEN) [] False))))"

definition require_auth_url ::
  "externs \<Rightarrow> environment \<Rightarrow> string \<Rightarrow> string option \<Rightarrow> bool \<Rightarrow> bool \<Rightarrow> nat \<Rightarrow> string
   \<Rightarrow> config_validator \<Rightarrow> config_validator" where
  "require_auth_url ex env key value require_username require_password min_password_len remediation =
     push_secret_findings env
       (auth_url_findings ex key value require_username require_password min_password_len remediation)
       remediation"

definition render_issue :: "config_issue \<Rightarrow> string" where
  "render_issue i =
     [CHR 0x0A] @ ''- '' @ ci_key i @ '': '' @ ci_problem i @ ''. remediation: '' @ ci_remediation i"

text \<open>The warnings are only printed.\<close>

definition validator_finish :: "config_validator \<Rightarrow> unit res" where
  "validator_finish v =
     (if val_issues v = [] then Inr ()
      else Inl (Error (val_scope v @ '' config validation failed with ''
        @ show_nat (length (val_issues v)) @ '' issue(s):'' @ concat (map render_issue (val_issues v)))))"

section \<open>Accepted secrets\<close>

text \<open>What a value has to satisfy to pass as a secret.\<close>

definition strong_secret :: "nat \<Rightarrow> string list \<Rightarrow> string \<Rightarrow> bool" where
  "strong_secret min_len blocked s \<longleftrightarrow>
     min_len \<le> length s \<and>
     \<not> contains_weak_pattern (to_ascii_lowercase s) \<and>
     (\<forall>b \<in> set (KNOWN_EXAMPLE_VALUES @ blocked). \<not> eq_ignore_ascii_case s b)"

lemma strong_secret_mono: "strong_secret n bs s \<Longrightarrow> m \<le> n \<Longrightarrow> strong_secret m bs s"
  by (simp add: strong_secret_def)

lemma secret_findings_empty_iff:
  "secret_findings key value min_len blocked required = [] \<longleftrightarrow>
   (case map_option trim value of
      None \<Rightarrow> \<not> required
    | Some s \<Rightarrow> if s = [] then \<not> required else strong_secret min_len blocked s)"
  by (auto simp: secret_findings_def strong_secret_def Let_def eq_ignore_ascii_case_def
      list_ex_iff not_less split: option.splits)

lemma push_secret_findings_issues:
  "val_issues (push_secret_findings env fs rem v) =
     val_issues v @ (if insecure_dev_mode_enabled env then [] else fs)"
  by (simp add: push_secret_findings_def)

lemma push_secret_findings_scope [simp]:
  "val_scope (push_secret_findings env fs rem v) = val_scope v"
  by (simp add: push_secret_findings_def)

lemma require_non_empty_issues:
  "val_issues (require_non_empty key value rem v) = [] \<longleftrightarrow>
     val_issues v = [] \<and> (\<exists>s. value = Some s \<and> trim s \<noteq> [])"
  by (auto simp: require_non_empty_def push_issue_def split: option.splits)

lemma validator_finish_ok: "validator_finish v = Inr () \<longleftrightarrow> val_issues v = []"
  by (simp add: validator_finish_def)

lemma validator_new_issues [simp]: "val_issues (validator_new scope) = []"
  by (simp add: validator_new_def)

text \<open>The credentials of an accepted URL.\<close>

definition auth_url_ok :: "externs \<Rightarrow> bool \<Rightarrow> bool \<Rightarrow> nat \<Rightarrow> string option \<Rightarrow> bool" where
  "auth_url_ok ex need_user need_pass min_len value \<longleftrightarrow>
     (\<exists>s u. value = Some s \<and> trim s \<noteq> [] \<and> url_parse ex (trim s) = Some u \<and>
        (need_user \<longrightarrow> trim (url_username u) \<noteq> []) \<and>
        (trim (url_username u) \<noteq> [] \<longrightarrow> strong_secret 3 [] (trim (url_username u))) \<and>
        (need_pass \<longrightarrow> (\<exists>p. url_password u = Some p \<and> trim p \<noteq> [])) \<and>
        (\<forall>p. url_password u = Some p \<longrightarrow> trim p \<noteq> [] \<longrightarrow>
           strong_secret (max min_len DEFAULT_SECRET_MIN_LEN) [] (trim p)))"

lemma auth_url_findings_empty_iff:
  "auth_url_findings ex key value need_user need_pass min_len rem = [] \<longleftrightarrow>
     auth_url_ok ex need_user need_pass min_len value"
proof (cases "\<exists>s u. value = Some s \<and> trim s \<noteq> [] \<and> url_parse ex (trim s) = Some u")
  case True
  then obtain s u where "value = Some s" "trim s \<noteq> []" "url_parse ex (trim s) = Some u" by blast
  then show ?thesis
    by (cases "url_password u")
      (auto simp: auth_url_findings_def auth_url_ok_def Let_def secret_findings_empty_iff
        split: if_splits)
next
  case False
  then show ?thesis
    by (auto simp: auth_url_findings_def auth_url_ok_def Let_def split: option.splits)
qed

lemma require_auth_url_issues:
  "val_issues (require_auth_url ex env key value nu np m rem v) = [] \<longleftrightarrow>
     val_issues v = [] \<and> (insecure_dev_mode_enabled env \<or> auth_url_ok ex nu np m value)"
  by (simp add: require_auth_url_def push_secret_findings_issues auth_url_findings_empty_iff)

lemma require_strong_secret_issues:
  "val_issues (require_strong_secret env key value m rem v) = [] \<longleftrightarrow>
     val_issues v = [] \<and> (insecure_dev_mode_enabled env \<or>
       (\<exists>s. value = Some s \<and> trim s \<noteq> [] \<and>
         strong_secret (max m DEFAULT_SECRET_MIN_LEN) [] (trim s)))"
  by (auto simp: require_strong_secret_def push_secret_findings_issues secret_findings_empty_iff
      split: option.splits)

lemmas validator_issue_simps =
  validator_finish_ok require_non_empty_issues require_auth_url_issues require_strong_secret_issues

section \<open>Environment lookup\<close>

definition env_set :: "environment \<Rightarrow> string \<Rightarrow> bool" where
  "env_set env k \<longleftrightarrow> (\<exists>v. env k = Some v \<and> trim v \<noteq> [])"

lemma lookup_aliases_find:
  "lookup_aliases env aliases =
     (case find (env_set env) aliases of
        None \<Rightarrow> \<lparr>el_value = None, el_source_key = None, el_deprecated_alias = None\<rparr>
      | Some a \<Rightarrow> \<lparr>el_value = env a, el_source_key = Some a, el_deprecated_alias = Some a\<rparr>)"
  by (induction aliases) (auto simp: env_set_def split: option.splits)

lemma lookup_env_find:
  "lookup_env env canonical aliases =
     (case find (env_set env) (canonical # aliases) of
        None \<Rightarrow> \<lparr>el_value = None, el_source_key = None, el_deprecated_alias = None\<rparr>
      | Some a \<Rightarrow> \<lparr>el_value = env a, el_source_key = Some a,
                   el_deprecated_alias = (if env_set env canonical then None else Some a)\<rparr>)"
  by (auto simp: lookup_env_def lookup_aliases_find env_set_def split: option.splits)

section \<open>Properties\<close>

text \<open>
  Which secrets pass.  Outside insecure development mode a required secret adds no issue
  exactly when, without surrounding white space, it has the demanded length (twelve at least),
  contains no weak pattern and is not one of the example values of the repository.
\<close>

theorem strong_secret_required:
  assumes "\<not> insecure_dev_mode_enabled env"
  shows "val_issues (require_strong_secret env key value min_len remediation v) = val_issues v \<longleftrightarrow>
    (\<exists>s. value = Some s \<and> max min_len 12 \<le> length (trim s) \<and>
       \<not> contains_weak_pattern (to_ascii_lowercase (trim s)) \<and>
       (\<forall>b \<in> set KNOWN_EXAMPLE_VALUES. \<not> eq_ignore_ascii_case (trim s) b))"
  using assms
  by (auto simp: require_strong_secret_def push_secret_findings_issues secret_findings_empty_iff
      strong_secret_def DEFAULT_SECRET_MIN_LEN_def split: option.splits)

text \<open>
  Environment lookup.  The value found is never blank and comes from the first name that is
  set, the canonical one before its aliases; an alias is reported as deprecated exactly when the
  canonical name is not set and the value came from it.
\<close>

theorem lookup_env_precedence:
  "(case el_source_key (lookup_env env canonical aliases) of
      None \<Rightarrow> (\<forall>k \<in> set (canonical # aliases). \<not> env_set env k) \<and> el_value (lookup_env env canonical aliases) = None
    | Some k \<Rightarrow>
        find (env_set env) (canonical # aliases) = Some k \<and>
        el_value (lookup_env env canonical aliases) = env k \<and>
        (el_deprecated_alias (lookup_env env canonical aliases) = Some k \<longleftrightarrow> \<not> env_set env canonical))"
  unfolding lookup_env_find
  by (cases "find (env_set env) (canonical # aliases)")
    (auto simp: find_None_iff_ball split: if_splits)

end
