(* ===== verification/Icap_Adaptor.thy ===== *)
theory Icap_Adaptor
  imports Icap_Parser Icap_Cache Config_Core
begin

text \<open>
  The ICAP adaptor service: \<^verbatim>\<open>services/icap-adaptor/src/main.rs\<close> with \<^verbatim>\<open>config.rs\<close>,
  \<^verbatim>\<open>jobs.rs\<close>, \<^verbatim>\<open>metrics.rs\<close>, \<^verbatim>\<open>policy_client.rs\<close> and \<^verbatim>\<open>pending_client.rs\<close>.

  A connection is a function from the bytes of its first read and the state of the cache to a
  result, the new cache and the list of effects in the order the code performs them: HTTP calls,
  queue entries, metric updates and the response.  The policy engine, the administration service
  and the queues are reached through \<open>services\<close>: what each answers is a parameter.  A socket
  write is taken to succeed.
\<close>

section \<open>Configuration\<close>

record job_queue_config =
  jq_redis_url :: string
  jq_stream :: string

record page_fetch_queue_config =
  pq_redis_url :: string
  pq_stream :: string
  pq_ttl_seconds :: i32

record admin_api_config =
  aa_base_url :: string
  aa_admin_token :: "string option"

record icap_config =
  ic_host :: string
  ic_port :: nat
  ic_preview_size :: nat
  ic_redis_url :: "string option"
  ic_policy_endpoint :: "string option"
  ic_metrics_host :: string
  ic_metrics_port :: nat
  ic_cache_channel :: string
  ic_require_content :: bool
  ic_pending_cache_ttl_seconds :: nat
  ic_job_queue :: "job_queue_config option"
  ic_page_fetch_queue :: "page_fetch_queue_config option"
  ic_admin_api :: "admin_api_config option"
  ic_tenant_domain_exceptions :: "(string \<times> string list) list"

definition env_non_empty :: "environment \<Rightarrow> string \<Rightarrow> string option" where
  "env_non_empty env key =
     Option.bind (env key) (\<lambda>value. if trim value = [] then None else Some (trim value))"

text \<open>\<open>config::load\<close> after the JSON has been read.\<close>

definition apply_env_overrides :: "environment \<Rightarrow> icap_config \<Rightarrow> icap_config" where
  "apply_env_overrides env cfg0 =
     (let cfg1 =
            (case env_non_empty env ''OD_CACHE_REDIS_URL'' of
               None \<Rightarrow> cfg0
             | Some url \<Rightarrow>
                 cfg0\<lparr>ic_redis_url := Some url,
                      ic_job_queue := map_option (\<lambda>q. q\<lparr>jq_redis_url := url\<rparr>) (ic_job_queue cfg0)\<rparr>);
          cfg2 =
            (case env_non_empty env ''OD_PAGE_FETCH_REDIS_URL'' of
               None \<Rightarrow> cfg1
             | Some url \<Rightarrow>
                 cfg1\<lparr>ic_page_fetch_queue :=
                   map_option (\<lambda>q. q\<lparr>pq_redis_url := url\<rparr>) (ic_page_fetch_queue cfg1)\<rparr>)
      in cfg2\<lparr>ic_admin_api := map_option (\<lambda>admin.
           if (case aa_admin_token admin of None \<Rightarrow> True | Some t \<Rightarrow> trim t = [])
           then admin\<lparr>aa_admin_token := env_non_empty env ''OD_ADMIN_TOKEN''\<rparr>
           else admin) (ic_admin_api cfg2)\<rparr>)"

definition icap_load ::
  "externs \<Rightarrow> environment \<Rightarrow> (json \<Rightarrow> icap_config option) \<Rightarrow> file_state \<Rightarrow> icap_config res" where
  "icap_load ex env decode file =
     map_res (apply_env_overrides env) (load_config ex env decode ''config/icap.json'' file)"

definition redis_url_check ::
  "externs \<Rightarrow> environment \<Rightarrow> string \<Rightarrow> string option \<Rightarrow> string \<Rightarrow> config_validator \<Rightarrow> config_validator" where
  "redis_url_check ex env key url remediation v =
     (case url of None \<Rightarrow> v | Some u \<Rightarrow> require_auth_url ex env key (Some u) False True 16 remediation v)"

definition icap_validate_config :: "externs \<Rightarrow> environment \<Rightarrow> icap_config \<Rightarrow> unit res" where
  "icap_validate_config ex env cfg =
     (let v1 = require_non_empty ''icap.host'' (Some (ic_host cfg)) ''set host in config/icap.json''
                 (validator_new ''icap-adaptor'');
          v2 = redis_url_check ex env ''icap.redis_url'' (ic_redis_url cfg)
                 ''set redis_url in config/icap.json with password-authenticated Redis credentials'' v1;
          v3 = redis_url_check ex env ''icap.job_queue.redis_url''
                 (map_option jq_redis_url (ic_job_queue cfg))
                 ''set job_queue.redis_url with password-authenticated Redis credentials'' v2;
          v4 = redis_url_check ex env ''icap.page_fetch_queue.redis_url''
                 (map_option pq_redis_url (ic_page_fetch_queue cfg))
                 ''set page_fetch_queue.redis_url with password-authenticated Redis credentials'' v3;
          v5 = (case ic_admin_api cfg of
                  None \<Rightarrow> v4
                | Some admin \<Rightarrow>
                    require_strong_secret env ''icap.admin_api.admin_token'' (aa_admin_token admin) 16
                      ''set admin_api.admin_token to a strong non-default token''
                      (require_non_empty ''icap.admin_api.admin_token'' (aa_admin_token admin)
                        ''set admin_api.admin_token in config/icap.json or OD_ADMIN_TOKEN'' v4))
      in validator_finish v5)"

section \<open>Identity\<close>

record identity_context =
  id_user_id :: "string option"
  id_group_ids :: "string list"

definition identity_char :: "char \<Rightarrow> bool" where
  "identity_char ch \<longleftrightarrow> is_ascii_alphanumeric ch \<or> ch \<in> set ''@.-_:/''"

definition sanitize_identity :: "string \<Rightarrow> string option" where
  "sanitize_identity value =
     (let trimmed = trim value
      in if trimmed = [] \<or> length trimmed > 128 then None
         else if list_all identity_char trimmed then Some trimmed else None)"

fun collect_groups :: "string list \<Rightarrow> string list \<Rightarrow> string list" where
  "collect_groups [] acc = acc"
| "collect_groups (part # parts) acc =
     (if length acc \<ge> 32 then acc
      else case sanitize_identity part of
             Some clean \<Rightarrow> collect_groups parts (acc @ [clean])
           | None \<Rightarrow> collect_groups parts acc)"

definition extract_identity :: "(string \<rightharpoonup> string) \<Rightarrow> identity_context" where
  "extract_identity headers =
     \<lparr>id_user_id = Option.bind (headers ''x-user'') sanitize_identity,
      id_group_ids =
        (case headers ''x-group'' of
           None \<Rightarrow> []
         | Some value \<Rightarrow> collect_groups (split_on (\<lambda>c. c = CHR '','' \<or> c = CHR '';'') value) [])\<rparr>"

section \<open>Decision rules\<close>

definition action_requires_follow_up :: "policy_action \<Rightarrow> bool \<Rightarrow> bool" where
  "action_requires_follow_up action missing_verdict \<longleftrightarrow>
     missing_verdict \<or> action \<in> {Review, RequireApproval, Warn, ContentPending}"

definition entity_level_str_from_key :: "string \<Rightarrow> string" where
  "entity_level_str_from_key normalized_key =
     (if starts_with normalized_key ''domain:'' then ''domain''
      else if starts_with normalized_key ''subdomain:'' then ''subdomain''
      else if starts_with normalized_key ''url:'' then ''url''
      else ''page'')"

definition ancestor_domain_key :: "normalized_target \<Rightarrow> string option" where
  "ancestor_domain_key normalized =
     (if nt_entity_level normalized \<noteq> ELSubdomain then None
      else if nt_registered_domain normalized = nt_hostname normalized then None
      else Some (domain_pfx @ nt_registered_domain normalized))"

definition is_inheritable_ancestor_action :: "policy_action \<Rightarrow> bool" where
  "is_inheritable_ancestor_action action \<longleftrightarrow> action \<in> {Allow, Monitor, Block}"

definition UNKNOWN_FALLBACK :: string where
  "UNKNOWN_FALLBACK = ''unknown-unclassified''"

definition should_require_content_pending ::
  "bool \<Rightarrow> policy_action \<Rightarrow> classification_verdict option \<Rightarrow> bool" where
  "should_require_content_pending require_content action verdict \<longleftrightarrow>
     (let has_unknown_fallback =
            (case verdict of
               None \<Rightarrow> False
             | Some v \<Rightarrow> eq_ignore_ascii_case (cv_primary_category v) UNKNOWN_FALLBACK)
      in require_content \<and> (verdict = None \<or> has_unknown_fallback) \<and> action \<in> {Allow, Monitor})"

section \<open>Responses\<close>

text \<open>The text of the classification page; \<open>PENDING_HTML\<close> of the source.\<close>

definition quoted :: "string \<Rightarrow> string" where
  "quoted s = [CHR 0x22] @ s @ [CHR 0x22]"

definition PENDING_HTML :: string where
  "PENDING_HTML =
     ''<html><head><meta charset='' @ quoted ''utf-8'' @ '' /><title>Site Under Classification</title>''
     @ [CHR 0x0A]
     @ ''<style>body{font-family:sans-serif;background:#0b1221;color:#f4f7ff;display:flex;align-items:center;justify-content:center;height:100vh;margin:0;} .card{background:#141d33;border:1px solid #1f2a48;border-radius:12px;padding:32px;max-width:460px;text-align:center;box-shadow:0 20px 60px rgba(0,0,0,0.4);} h1{font-size:1.5rem;margin-bottom:12px;} p{line-height:1.5;color:#c6d4f5;} .hint{margin-top:20px;font-size:0.9rem;color:#8ea0ce;}</style>''
     @ [CHR 0x0A]
     @ ''</head><body><div class='' @ quoted ''card''
     @ ''><h1>Site Under Classification</h1><p>Security is verifying this destination with full page content. Access will be restored automatically once the scan completes.</p><p class=''
     @ quoted ''hint''
     @ ''>Please retry in a moment or contact Security if this persists.</p></div></body></html>''"

definition http_block_header :: "string \<Rightarrow> string \<Rightarrow> nat \<Rightarrow> string" where
  "http_block_header status_line content_type len =
     ''HTTP/1.1 '' @ status_line @ crlf @ ''Content-Type: '' @ content_type @ crlf
     @ ''Content-Length: '' @ show_nat len @ crlf @ ''Connection: close'' @ crlf @ crlf"

definition build_http_block_response :: "string \<Rightarrow> string \<Rightarrow> string \<Rightarrow> string" where
  "build_http_block_response status_line content_type body =
     (let http_header = http_block_header status_line content_type (length body)
      in ''ICAP/1.0 200 OK'' @ crlf
         @ ''Encapsulated: res-hdr=0, res-body='' @ show_nat (length http_header) @ crlf @ crlf
         @ http_header
         @ show_hex (length body) @ crlf
         @ body @ crlf @ ''0'' @ crlf @ crlf)"

definition no_content_response :: string where
  "no_content_response = ''ICAP/1.0 204 No Content'' @ crlf @ crlf"

fun icap_response :: "policy_action \<Rightarrow> string" where
  "icap_response Allow = no_content_response"
| "icap_response Monitor = no_content_response"
| "icap_response Review =
     build_http_block_response ''403 Forbidden'' ''text/plain; charset=utf-8''
       ''Request queued for security review.''"
| "icap_response ContentPending =
     build_http_block_response ''403 Forbidden'' ''text/html; charset=utf-8'' PENDING_HTML"
| "icap_response _ =
     build_http_block_response ''403 Forbidden'' ''text/plain; charset=utf-8'' ''Request blocked.''"

definition icap_options_response :: "nat \<Rightarrow> string" where
  "icap_options_response preview_size =
     ''ICAP/1.0 200 OK'' @ crlf @ ''Methods: REQMOD'' @ crlf @ ''Service: OpenDefender-REQMOD'' @ crlf
     @ ''ISTag: '' @ quoted ''open-defender'' @ crlf @ ''Allow: 204'' @ crlf
     @ ''Preview: '' @ show_nat preview_size @ crlf @ ''Encapsulated: null-body=0'' @ crlf @ crlf"

section \<open>Fetch candidates\<close>

definition derive_base_url :: "externs \<Rightarrow> string \<Rightarrow> string option" where
  "derive_base_url ex full_url =
     Option.bind (url_parse ex full_url) (\<lambda>parsed.
     Option.bind (url_host_str parsed) (\<lambda>host.
       Some (url_scheme parsed @ ''://'' @ host @ ''/'')))"

definition fallback_base_url :: "string \<Rightarrow> string" where
  "fallback_base_url hostname = ''https://'' @ hostname @ ''/''"

fun dedupe_loop :: "string list \<Rightarrow> string set \<Rightarrow> string list" where
  "dedupe_loop [] seen = []"
| "dedupe_loop (value # values) seen =
     (if value \<in> seen then dedupe_loop values seen
      else value # dedupe_loop values (insert value seen))"

definition dedupe_preserve_order :: "string list \<Rightarrow> string list" where
  "dedupe_preserve_order values = dedupe_loop values {}"

definition build_fetch_candidates :: "externs \<Rightarrow> string \<Rightarrow> normalized_target \<Rightarrow> string list" where
  "build_fetch_candidates ex classification_key normalized =
     (case strip_prefix domain_pfx classification_key of
        Some domain \<Rightarrow>
          dedupe_preserve_order
            ([''https://'' @ domain @ ''/'', ''https://www.'' @ domain @ ''/'']
             @ (case derive_base_url ex (nt_full_url normalized) of None \<Rightarrow> [] | Some observed \<Rightarrow> [observed]))
      | None \<Rightarrow>
          dedupe_preserve_order
            [case derive_base_url ex (nt_full_url normalized) of
               Some u \<Rightarrow> u
             | None \<Rightarrow> fallback_base_url (nt_hostname normalized)])"

section \<open>Jobs\<close>

record classification_job =
  cj_normalized_key :: string
  cj_entity_level :: string
  cj_hostname :: string
  cj_full_url :: string
  cj_trace_id :: string
  cj_idempotency_key :: "string option"
  cj_requires_content :: bool
  cj_base_url :: "string option"

definition classification_job_to_json :: "classification_job \<Rightarrow> json" where
  "classification_job_to_json j = JObj
     ([(''normalized_key'', JStr (cj_normalized_key j)), (''entity_level'', JStr (cj_entity_level j)),
       (''hostname'', JStr (cj_hostname j)), (''full_url'', JStr (cj_full_url j)),
       (''trace_id'', JStr (cj_trace_id j))]
      @ skip_none ''idempotency_key'' JStr (cj_idempotency_key j)
      @ [(''requires_content'', JBool (cj_requires_content j))]
      @ skip_none ''base_url'' JStr (cj_base_url j))"

record page_fetch_publisher =
  pfp_stream :: string
  pfp_default_ttl :: i32

definition page_fetch_publisher_new :: "string \<Rightarrow> i32 \<Rightarrow> page_fetch_publisher" where
  "page_fetch_publisher_new stream default_ttl =
     \<lparr>pfp_stream = stream,
      pfp_default_ttl = (if sint default_ttl < 60 then 60 else default_ttl)\<rparr>"

definition page_fetch_fill_ttl :: "page_fetch_publisher \<Rightarrow> page_fetch_job \<Rightarrow> page_fetch_job" where
  "page_fetch_fill_ttl pub job =
     (if sint (case pfj_ttl_seconds job of None \<Rightarrow> 0 | Some t \<Rightarrow> t) \<le> 0
      then job\<lparr>pfj_ttl_seconds := Some (pfp_default_ttl pub)\<rparr> else job)"

section \<open>Clients\<close>

record http_request =
  hr_method :: string
  hr_url :: string
  hr_headers :: "(string \<times> string) list"
  hr_body :: "json option"

text \<open>
  The services around the adaptor: \<open>sv_http\<close> answers a request with a status and a body or not at
  all, \<open>sv_urlencode\<close> is the percent encoding of the \<open>urlencoding\<close> crate.  Whether a call to the
  administration service or a queue succeeds does not change what the handler does next, so an
  effect records the attempt.
\<close>

record services =
  sv_http :: "http_request \<Rightarrow> (nat \<times> string) option"
  sv_urlencode :: "string \<Rightarrow> string"

definition http_ok :: "services \<Rightarrow> http_request \<Rightarrow> string res" where
  "http_ok sv req =
     (case sv_http sv req of
        None \<Rightarrow> Inl (Error ''request failed'')
      | Some (status, body) \<Rightarrow>
          if 400 \<le> status \<and> status < 600 then Inl (Error ''HTTP status error'') else Inr body)"

definition policy_client_new :: "string option \<Rightarrow> string res" where
  "policy_client_new base_url = ok_or (Error ''policy endpoint required'') base_url"

definition policy_request :: "string \<Rightarrow> policy_decision_request \<Rightarrow> http_request" where
  "policy_request base_url req =
     \<lparr>hr_method = ''POST'', hr_url = trim_end_matches CHR ''/'' base_url @ ''/api/v1/decision'',
      hr_headers = [], hr_body = Some (decision_request_to_json req)\<rparr>"

definition policy_client_evaluate ::
  "externs \<Rightarrow> services \<Rightarrow> string \<Rightarrow> policy_decision_request \<Rightarrow> policy_decision res" where
  "policy_client_evaluate ex sv base_url req =
     bind_res (http_ok sv (policy_request base_url req)) (\<lambda>body.
       ok_or (Error ''error decoding response body'')
         (Option.bind (json_of_text ex body) (decision_of_json ex)))"

record pending_client =
  pcl_base_url :: string
  pcl_admin_token :: "string option"

definition pending_client_new :: "string \<Rightarrow> string option \<Rightarrow> pending_client res" where
  "pending_client_new base_url admin_token =
     (if trim base_url = [] then Inl (Error ''admin api endpoint required'')
      else Inr \<lparr>pcl_base_url = base_url, pcl_admin_token = admin_token\<rparr>)"

definition pending_request ::
  "services \<Rightarrow> pending_client \<Rightarrow> string \<Rightarrow> string \<Rightarrow> json option \<Rightarrow> http_request" where
  "pending_request sv client meth normalized_key body =
     \<lparr>hr_method = meth,
      hr_url = trim_end_matches CHR ''/'' (pcl_base_url client) @ ''/api/v1/classifications/''
        @ sv_urlencode sv normalized_key @ ''/pending'',
      hr_headers = (case pcl_admin_token client of None \<Rightarrow> [] | Some t \<Rightarrow> [(''X-Admin-Token'', t)]),
      hr_body = body\<rparr>"

definition upsert_pending ::
  "services \<Rightarrow> pending_client \<Rightarrow> string \<Rightarrow> string option \<Rightarrow> http_request" where
  "upsert_pending sv client normalized_key base_url =
     pending_request sv client ''POST'' normalized_key
       (Some (JObj [(''status'', JStr ''waiting_content''), (''base_url'', opt_to_json JStr base_url)]))"

definition clear_pending :: "services \<Rightarrow> pending_client \<Rightarrow> string \<Rightarrow> http_request" where
  "clear_pending sv client normalized_key = pending_request sv client ''DELETE'' normalized_key None"

section \<open>Effects\<close>

datatype metric =
    CacheHit
  | CacheMiss
  | IcapError
  | Canonicalization string

datatype effect =
    Respond string
  | Http http_request
  | Enqueue string json
  | Metric metric

definition record_canonicalization :: "string \<Rightarrow> string \<Rightarrow> effect" where
  "record_canonicalization original_key canonical_key =
     Metric (Canonicalization (if original_key \<noteq> canonical_key then ''collapsed'' else ''unchanged''))"

section \<open>A connection\<close>

record adaptor =
  ad_cfg :: icap_config
  ad_policy :: canonicalization_policy
  ad_policy_url :: string
  ad_job_stream :: "string option"
  ad_page_fetch :: "page_fetch_publisher option"
  ad_pending :: "pending_client option"

definition adaptor_start :: "externs \<Rightarrow> icap_config \<Rightarrow> adaptor res" where
  "adaptor_start ex cfg =
     bind_res (policy_client_new (ic_policy_endpoint cfg)) (\<lambda>url.
     bind_res (case ic_admin_api cfg of
                 None \<Rightarrow> Inr None
               | Some admin \<Rightarrow>
                   map_res Some (pending_client_new (aa_base_url admin) (aa_admin_token admin))) (\<lambda>pending.
       Inr \<lparr>ad_cfg = cfg,
            ad_policy = from_tenant_exceptions ex (ic_tenant_domain_exceptions cfg),
            ad_policy_url = url,
            ad_job_stream = map_option jq_stream (ic_job_queue cfg),
            ad_page_fetch = map_option (\<lambda>q. page_fetch_publisher_new (pq_stream q) (pq_ttl_seconds q))
              (ic_page_fetch_queue cfg),
            ad_pending = pending\<rparr>))"

definition resolve_cached_decision ::
  "externs \<Rightarrow> string \<Rightarrow> normalized_target \<Rightarrow> cache_world
   \<Rightarrow> (policy_decision \<times> string) option \<times> cache_world" where
  "resolve_cached_decision ex normalized_key normalized w =
     (case cache_get ex normalized_key w of
        (Some decision, w') \<Rightarrow> (Some (decision, ''exact''), w')
      | (None, w') \<Rightarrow>
          (case ancestor_domain_key normalized of
             None \<Rightarrow> (None, w')
           | Some ancestor_key \<Rightarrow>
               (case cache_get ex ancestor_key w' of
                  (Some decision, w'') \<Rightarrow>
                    if is_inheritable_ancestor_action (pd_action decision)
                    then (Some (decision, ''ancestor''), w'') else (None, w'')
                | (None, w'') \<Rightarrow> (None, w''))))"

definition pending_effects ::
  "externs \<Rightarrow> services \<Rightarrow> adaptor \<Rightarrow> icap_request \<Rightarrow> string \<Rightarrow> normalized_target \<Rightarrow> string list
   \<Rightarrow> string option \<Rightarrow> bool \<Rightarrow> effect list" where
  "pending_effects ex sv ad icap_req classification_key normalized fetch_candidates base_url
     requires_pending =
     (if requires_pending then
        (case ad_pending ad of
           None \<Rightarrow> []
         | Some client \<Rightarrow> [Http (upsert_pending sv client classification_key base_url)])
        @ (case ad_page_fetch ad of
             None \<Rightarrow> []
           | Some pub \<Rightarrow>
               [Enqueue (pfp_stream pub) (page_fetch_job_to_json (page_fetch_fill_ttl pub
                 \<lparr>pfj_normalized_key = classification_key,
                  pfj_url = (case base_url of Some u \<Rightarrow> u | None \<Rightarrow> nt_full_url normalized),
                  pfj_hostname = nt_hostname normalized, pfj_candidate_urls = fetch_candidates,
                  pfj_trace_id = ir_trace_id icap_req,
                  pfj_idempotency_key = map_option (\<lambda>trace. ''page:'' @ classification_key @ '':'' @ trace)
                    (ir_trace_id icap_req),
                  pfj_ttl_seconds = None\<rparr>))])
      else
        (case ad_pending ad of
           None \<Rightarrow> []
         | Some client \<Rightarrow> [Http (clear_pending sv client classification_key)]))"

definition job_effects ::
  "adaptor \<Rightarrow> icap_request \<Rightarrow> string \<Rightarrow> normalized_target \<Rightarrow> string option \<Rightarrow> bool \<Rightarrow> policy_decision
   \<Rightarrow> effect list" where
  "job_effects ad icap_req classification_key normalized base_url requires_pending decision =
     (case ad_job_stream ad of
        None \<Rightarrow> []
      | Some stream \<Rightarrow>
          if requires_pending \<or> action_requires_follow_up (pd_action decision) (pd_verdict decision = None)
          then [Enqueue stream (classification_job_to_json
                 \<lparr>cj_normalized_key = classification_key,
                  cj_entity_level = entity_level_str_from_key classification_key,
                  cj_hostname = nt_hostname normalized, cj_full_url = nt_full_url normalized,
                  cj_trace_id = (case ir_trace_id icap_req of None \<Rightarrow> [] | Some t \<Rightarrow> t),
                  cj_idempotency_key = map_option (\<lambda>trace. ''cls:'' @ classification_key @ '':'' @ trace)
                    (ir_trace_id icap_req),
                  cj_requires_content = requires_pending, cj_base_url = base_url\<rparr>)]
          else [])"

text \<open>The target of a request: its normal form and its classification key.\<close>

definition connection_target ::
  "externs \<Rightarrow> canonicalization_policy \<Rightarrow> icap_request \<Rightarrow> (string \<times> normalized_target \<times> string) res" where
  "connection_target ex policy icap_req =
     bind_res (ok_or (Error ''HTTP host header missing'') (ir_http_host icap_req)) (\<lambda>http_host.
     bind_res (ok_or (Error ''HTTP path missing'') (ir_http_path icap_req)) (\<lambda>http_path.
     bind_res (normalize_target ex http_host http_path (ir_http_scheme icap_req)) (\<lambda>normalized.
       Inr (http_host, normalized,
            case canonical_classification_key_with_policy ex (nt_normalized_key normalized) policy
                   (ir_headers icap_req ''x-authenticated-tenant'') of
              Some k \<Rightarrow> k
            | None \<Rightarrow> nt_normalized_key normalized))))"

text \<open>The rest of the handler once the policy engine has answered.\<close>

definition requires_pending_of :: "icap_config \<Rightarrow> policy_decision \<Rightarrow> bool" where
  "requires_pending_of cfg decision \<longleftrightarrow>
     should_require_content_pending (ic_require_content cfg) (pd_action decision) (pd_verdict decision)
     \<or> pd_action decision = ContentPending"

definition response_decision_of :: "icap_config \<Rightarrow> policy_decision \<Rightarrow> policy_decision" where
  "response_decision_of cfg decision =
     (if requires_pending_of cfg decision
      then decision\<lparr>pd_action := ContentPending, pd_verdict := None\<rparr> else decision)"

definition response_ttl :: "icap_config \<Rightarrow> policy_decision \<Rightarrow> nat" where
  "response_ttl cfg decision =
     1000 * (if requires_pending_of cfg decision then max (ic_pending_cache_ttl_seconds cfg) 30 else 300)"

definition finish_decision ::
  "externs \<Rightarrow> services \<Rightarrow> adaptor \<Rightarrow> icap_request \<Rightarrow> normalized_target \<Rightarrow> string \<Rightarrow> policy_decision
   \<Rightarrow> cache_world \<Rightarrow> cache_world \<times> effect list" where
  "finish_decision ex sv ad icap_req normalized classification_key decision w =
     (let cfg = ad_cfg ad;
          requires_pending = requires_pending_of cfg decision;
          fetch_candidates = build_fetch_candidates ex classification_key normalized;
          base_url =
            (case fetch_candidates of
               u # _ \<Rightarrow> Some u
             | [] \<Rightarrow>
                 (case derive_base_url ex (nt_full_url normalized) of
                    Some u \<Rightarrow> Some u
                  | None \<Rightarrow> Some (fallback_base_url (nt_hostname normalized))));
          response_decision = response_decision_of cfg decision
      in (cache_set ex (nt_normalized_key normalized) response_decision (response_ttl cfg decision) w,
          pending_effects ex sv ad icap_req classification_key normalized fetch_candidates base_url
            requires_pending
          @ job_effects ad icap_req classification_key normalized base_url requires_pending decision
          @ [Respond (icap_response (pd_action response_decision))]))"

definition handle_request ::
  "externs \<Rightarrow> services \<Rightarrow> adaptor \<Rightarrow> icap_request \<Rightarrow> cache_world \<Rightarrow> unit res \<times> cache_world \<times> effect list" where
  "handle_request ex sv ad icap_req w =
     (case connection_target ex (ad_policy ad) icap_req of
        Inl e \<Rightarrow> (Inl e, w, [])
      | Inr (http_host, normalized, classification_key) \<Rightarrow>
          (let canon = record_canonicalization (nt_normalized_key normalized) classification_key;
               identity = extract_identity (ir_headers icap_req)
           in case resolve_cached_decision ex (nt_normalized_key normalized) normalized w of
                (Some (decision, source), w') \<Rightarrow>
                  (Inr (), w',
                   [canon]
                   @ (if pd_action decision \<noteq> ContentPending then
                        (case ad_pending ad of
                           None \<Rightarrow> []
                         | Some client \<Rightarrow> [Http (clear_pending sv client classification_key)])
                      else [])
                   @ [Metric CacheHit, Respond (icap_response (pd_action decision))])
              | (None, w') \<Rightarrow>
                  (let request =
                         \<lparr>pdr_normalized_key = nt_normalized_key normalized,
                          pdr_entity_level = nt_entity_level normalized,
                          pdr_source_ip = http_host, pdr_user_id = id_user_id identity,
                          pdr_group_ids = id_group_ids identity\<rparr>;
                       call = Http (policy_request (ad_policy_url ad) request)
                   in case policy_client_evaluate ex sv (ad_policy_url ad) request of
                        Inl e \<Rightarrow> (Inl e, w', [canon, Metric CacheMiss, call, Metric IcapError])
                      | Inr decision \<Rightarrow>
                          (case finish_decision ex sv ad icap_req normalized classification_key decision w' of
                             (w'', effects) \<Rightarrow>
                               (Inr (), w'', [canon, Metric CacheMiss, call] @ effects)))))"

text \<open>\<open>raw\<close> is the text of the first read.\<close>

definition handle_connection ::
  "externs \<Rightarrow> services \<Rightarrow> adaptor \<Rightarrow> string \<Rightarrow> cache_world \<Rightarrow> unit res \<times> cache_world \<times> effect list" where
  "handle_connection ex sv ad raw w =
     (case icap_parse ex raw of
        Inl e \<Rightarrow> (Inl e, w, [])
      | Inr icap_req \<Rightarrow>
          if eq_ignore_ascii_case (ir_method icap_req) ''OPTIONS''
          then (Inr (), w, [Respond (icap_options_response (ic_preview_size (ad_cfg ad)))])
          else handle_request ex sv ad icap_req w)"

section \<open>Identity and candidates\<close>

lemma sanitize_identity_Some:
  "sanitize_identity v = Some s \<Longrightarrow>
   s = trim v \<and> s \<noteq> [] \<and> length s \<le> 128 \<and> (\<forall>c \<in> set s. identity_char c)"
  by (auto simp: sanitize_identity_def Let_def list_all_iff split: if_splits)

lemma collect_groups_take:
  "length acc \<le> 32 \<Longrightarrow>
   collect_groups parts acc = take 32 (acc @ List.map_filter sanitize_identity parts)"
proof (induction parts arbitrary: acc)
  case (Cons p ps)
  then show ?case
    by (cases "sanitize_identity p") (auto simp: map_filter_simps take_Cons')
qed (simp add: map_filter_simps)

lemma dedupe_loop_props:
  "distinct (dedupe_loop vs seen) \<and> set (dedupe_loop vs seen) = set vs - seen"
  by (induction vs arbitrary: seen) auto

lemma dedupe_preserve_order_props:
  "distinct (dedupe_preserve_order vs)" "set (dedupe_preserve_order vs) = set vs"
  using dedupe_loop_props [of vs "{}"] by (simp_all add: dedupe_preserve_order_def)

lemma dedupe_preserve_order_hd: "dedupe_preserve_order (v # vs) = v # dedupe_loop vs {v}"
  by (simp add: dedupe_preserve_order_def)

lemma build_fetch_candidates_ne: "build_fetch_candidates ex k n \<noteq> []"
  by (simp add: build_fetch_candidates_def dedupe_preserve_order_hd split: option.split)

section \<open>Response framing\<close>

text \<open>
  A reader for the responses, as an ICAP client would take one apart: the header block up to the
  first empty line, the offset after \<open>res-body=\<close>, then the encapsulated header of that length
  and one chunk whose size is given in hexadecimal.
\<close>

definition digit_value :: "char \<Rightarrow> nat" where
  "digit_value c = (let n = of_char c in if n < 58 then n - 48 else n - 55)"

definition read_base :: "nat \<Rightarrow> string \<Rightarrow> nat" where
  "read_base b s = foldl (\<lambda>acc c. acc * b + digit_value c) 0 s"

lemma mod_less_below: "2 \<le> (b::nat) \<Longrightarrow> b \<le> m \<Longrightarrow> n mod b < m"
  by (rule less_le_trans [OF mod_less_divisor]) simp_all

lemma digit_value_char: "d < 16 \<Longrightarrow> digit_value (digit_char d) = d"
  by (auto simp: digit_value_def digit_char_def Let_def of_char_of)

lemma read_show_base: "2 \<le> b \<Longrightarrow> b \<le> 16 \<Longrightarrow> read_base b (show_base b n) = n"
proof (induction b n rule: show_base.induct)
  case (1 b n)
  show ?case
  proof (cases "n < b")
    case True
    with 1 show ?thesis by (simp add: show_base.simps [of b n] read_base_def digit_value_char)
  next
    case False
    with 1 have "read_base b (show_base b (n div b)) = n div b" by simp
    moreover have "n mod b < 16" using 1 by (intro mod_less_below) simp_all
    ultimately show ?thesis
      using 1 False by (simp add: show_base.simps [of b n] read_base_def digit_value_char)
  qed
qed

definition unframe :: "string \<Rightarrow> (string \<times> string) option" where
  "unframe r =
     Option.bind (split_once_str blank_line r) (\<lambda>(head, enc).
     Option.bind (split_once_str ''res-body='' head) (\<lambda>(_, off).
       let n = read_base 10 off; http = take n enc
       in Option.bind (split_once_str crlf (drop n enc)) (\<lambda>(size, rest).
            Some (http, take (read_base 16 size) rest))))"

lemma digit_char_no_crlf: "d < 16 \<Longrightarrow> digit_char d \<noteq> CHR 0x0D \<and> digit_char d \<noteq> CHR 0x0A"
proof -
  assume "d < 16"
  then have "(of_char (digit_char d) :: nat) \<ge> 48" by (auto simp: digit_char_def of_char_of)
  then show ?thesis by auto
qed

lemma show_base_no_crlf:
  "2 \<le> b \<Longrightarrow> b \<le> 16 \<Longrightarrow> c \<in> set (show_base b n) \<Longrightarrow> c \<noteq> CHR 0x0D \<and> c \<noteq> CHR 0x0A"
proof (induction b n rule: show_base.induct)
  case (1 b n)
  show ?case
  proof (cases "n < b")
    case True
    then have "c = digit_char n" using 1 by (simp add: show_base.simps [of b n])
    with True 1 show ?thesis using digit_char_no_crlf by simp
  next
    case False
    have "n mod b < 16" using 1 by (intro mod_less_below) simp_all
    with False 1 digit_char_no_crlf show ?thesis by (auto simp: show_base.simps [of b n])
  qed
qed

lemma split_once_crlf:
  "CHR 0x0D \<notin> set l \<Longrightarrow> split_once_str crlf (l @ crlf @ r) = Some (l, r)"
proof (induction l)
  case Nil
  then show ?case by (simp add: crlf_def)
next
  case (Cons c l)
  then have "\<not> prefix crlf (c # l @ crlf @ r)" by (auto simp: crlf_def)
  with Cons show ?case by simp
qed

lemma show_nat_line: "CHR 0x0D \<notin> set (show_nat n)" "CHR 0x0A \<notin> set (show_nat n)"
  "CHR 0x0D \<notin> set (show_hex n)"
  using show_base_no_crlf [of 10 _ n] show_base_no_crlf [of 16 _ n]
  by (auto simp: show_nat_def show_hex_def)

lemma split_offset:
  "split_once_str ''res-body='' (''ICAP/1.0 200 OK'' @ crlf @ ''Encapsulated: res-hdr=0, res-body='' @ x) =
   Some (''ICAP/1.0 200 OK'' @ crlf @ ''Encapsulated: res-hdr=0, '', x)"
  by (simp add: crlf_def)

lemma unframe_build:
  "unframe (build_http_block_response s c b) = Some (http_block_header s c (length b), b)"
proof -
  let ?h = "http_block_header s c (length b)"
  let ?ls = "[''ICAP/1.0 200 OK'', ''Encapsulated: res-hdr=0, res-body='' @ show_nat (length ?h)]"
  let ?enc = "?h @ show_hex (length b) @ crlf @ b @ crlf @ ''0'' @ crlf @ crlf"
  have ok: "\<forall>l \<in> set ?ls. line_ok l" using show_nat_line by (simp add: line_ok_def)
  have r: "build_http_block_response s c b = join_str crlf ?ls @ blank_line @ ?enc"
    by (simp add: build_http_block_response_def Let_def blank_line_def)
  have 1: "split_once_str blank_line (build_http_block_response s c b) = Some (join_str crlf ?ls, ?enc)"
    unfolding r by (rule split_once_blank_lines) (use ok in simp_all)
  have 2: "split_once_str ''res-body='' (join_str crlf ?ls) =
      Some (''ICAP/1.0 200 OK'' @ crlf @ ''Encapsulated: res-hdr=0, '', show_nat (length ?h))"
    using split_offset [of "show_nat (length ?h)"] by simp
  have 3: "read_base 10 (show_nat n) = n" "read_base 16 (show_hex n) = n" for n
    by (simp_all add: show_nat_def show_hex_def read_show_base)
  show ?thesis
    unfolding unframe_def 1 Option.bind.simps prod.case 2 Let_def 3
    using split_once_crlf [OF show_nat_line(3), of "length b" "b @ crlf @ ''0'' @ crlf @ crlf"]
    by (simp add: 3)
qed

lemma response_not_204: "build_http_block_response s c b \<noteq> no_content_response"
  by (simp add: build_http_block_response_def no_content_response_def Let_def)

lemma icap_response_204: "icap_response a = no_content_response \<longleftrightarrow> a \<in> {Allow, Monitor}"
  using response_not_204 response_not_204 [symmetric]
  by (cases a) (simp_all del: no_content_response_def)

section \<open>Jobs\<close>

lemma page_fetch_ttl_positive:
  "\<exists>t. pfj_ttl_seconds (page_fetch_fill_ttl (page_fetch_publisher_new stream dflt) job) = Some t \<and> 0 < sint t"
  by (cases "pfj_ttl_seconds job")
    (auto simp: page_fetch_fill_ttl_def page_fetch_publisher_new_def)

section \<open>Properties\<close>

text \<open>
  Block responses are well framed.  A client that reads the offset from the \<open>Encapsulated\<close>
  header and the size of the chunk recovers exactly the HTTP header the adaptor wrote and exactly
  the body, whatever the body is.
\<close>

theorem block_response_framing:
  "unframe (build_http_block_response status_line content_type body) =
     Some (http_block_header status_line content_type (length body), body)"
  by (rule unframe_build)

text \<open>
  Only an allow or a monitor lets a request through.  The response is the 204 that leaves the
  request alone exactly for these two actions; every other action yields a 403 page whose body a
  client can read.
\<close>

theorem response_passes_iff:
  "(icap_response action = no_content_response \<longleftrightarrow> action \<in> {Allow, Monitor}) \<and>
   (action \<notin> {Allow, Monitor} \<longrightarrow>
     (\<exists>content_type body. unframe (icap_response action) =
        Some (http_block_header ''403 Forbidden'' content_type (length body), body)))"
proof -
  have "\<exists>content_type body. icap_response action =
      build_http_block_response ''403 Forbidden'' content_type body" if "action \<notin> {Allow, Monitor}"
    using that by (cases action) auto
  then show ?thesis using icap_response_204 unframe_build by metis
qed

text \<open>
  Identity headers are sanitised.  The user and every group taken from a request is trimmed,
  not empty, at most 128 bytes long and made of the permitted characters; at most 32 groups are
  taken, the first valid ones of the header.
\<close>

theorem identity_sanitised:
  "(\<forall>s. s \<in> set_option (id_user_id (extract_identity headers)) \<union> set (id_group_ids (extract_identity headers)) \<longrightarrow>
      s \<noteq> [] \<and> length s \<le> 128 \<and> (\<forall>c \<in> set s. identity_char c)) \<and>
   length (id_group_ids (extract_identity headers)) \<le> 32 \<and>
   (\<forall>value. headers ''x-group'' = Some value \<longrightarrow>
      id_group_ids (extract_identity headers) =
        take 32 (List.map_filter sanitize_identity (split_on (\<lambda>c. c = CHR '','' \<or> c = CHR '';'') value)))"
proof -
  have g: "id_group_ids (extract_identity headers) = (case headers ''x-group'' of None \<Rightarrow> []
      | Some value \<Rightarrow> take 32 (List.map_filter sanitize_identity
          (split_on (\<lambda>c. c = CHR '','' \<or> c = CHR '';'') value)))"
    by (simp add: extract_identity_def collect_groups_take split: option.split)
  have "\<exists>v. sanitize_identity v = Some s" if "s \<in> set_option (id_user_id (extract_identity headers)) \<union>
      set (id_group_ids (extract_identity headers))" for s
    using that unfolding g
    by (auto simp: extract_identity_def bind_eq_Some_conv List.map_filter_def
        split: option.splits dest!: in_set_takeD) blast
  then have "\<forall>s. s \<in> set_option (id_user_id (extract_identity headers)) \<union>
      set (id_group_ids (extract_identity headers)) \<longrightarrow>
      s \<noteq> [] \<and> length s \<le> 128 \<and> (\<forall>c \<in> set s. identity_char c)"
    using sanitize_identity_Some by metis
  with g show ?thesis by (simp split: option.split)
qed

text \<open>
  Fetch candidates.  The list of URLs to fetch is never empty, has no duplicates, and for a
  domain key starts with the secure address of the domain.  A published fetch job has a positive
  time to live, whatever the configuration says.
\<close>

theorem fetch_candidates_ok:
  "build_fetch_candidates ex key n \<noteq> [] \<and> distinct (build_fetch_candidates ex key n) \<and>
   hd (build_fetch_candidates ex (domain_pfx @ domain) n) = ''https://'' @ domain @ ''/'' \<and>
   (\<exists>t. pfj_ttl_seconds (page_fetch_fill_ttl (page_fetch_publisher_new stream ttl) job) = Some t \<and> 0 < sint t)"
  using build_fetch_candidates_ne page_fetch_ttl_positive
  by (auto simp: build_fetch_candidates_def dedupe_preserve_order_props(1) dedupe_preserve_order_hd
      split: option.split)

end
