(* ===== verification/Cache_Invalidator.thy ===== *)
theory Cache_Invalidator
  imports Icap_Cache
begin

text \<open>
  The other end of cache invalidation, \<^verbatim>\<open>services/admin-api/src/cache.rs\<close>: the administration
  service deletes the affected keys from Redis and publishes an event to the adaptors.

  A command fails when \<open>iw_fails\<close> says so; what earlier commands did stays.  The server's pattern
  search is a parameter: \<open>glob pattern key\<close> tells whether a key matches, and \<open>pages\<close> splits the
  matching keys into the answers of successive \<open>SCAN\<close> calls.
\<close>

section \<open>Model\<close>

record inv_world =
  iw_redis :: "string \<rightharpoonup> string \<times> time"
  iw_published :: "string list"
  iw_cmds :: nat
  iw_fails :: "nat \<Rightarrow> bool"

record redis_server =
  rs_glob :: "string \<Rightarrow> string \<Rightarrow> bool"
  rs_pages :: "(string \<rightharpoonup> string \<times> time) \<Rightarrow> string \<Rightarrow> string list list"

type_synonym 'a inv = "inv_world \<Rightarrow> 'a res \<times> inv_world"

definition inv_cmd :: "string \<Rightarrow> (inv_world \<Rightarrow> 'a \<times> inv_world) \<Rightarrow> 'a inv" where
  "inv_cmd msg f w =
     (let w' = w\<lparr>iw_cmds := Suc (iw_cmds w)\<rparr>
      in if iw_fails w (iw_cmds w) then (Inl (Error msg), w')
         else (case f w' of (x, w'') \<Rightarrow> (Inr x, w'')))"

definition inv_bind :: "'a inv \<Rightarrow> ('a \<Rightarrow> 'b inv) \<Rightarrow> 'b inv" where
  "inv_bind m f w = (case m w of (Inl e, w') \<Rightarrow> (Inl e, w') | (Inr x, w') \<Rightarrow> f x w')"

definition inv_return :: "'a \<Rightarrow> 'a inv" where
  "inv_return x w = (Inr x, w)"

definition inv_connect :: "unit inv" where
  "inv_connect = inv_cmd ''redis connection failed'' (\<lambda>w. ((), w))"

definition inv_del :: "string list \<Rightarrow> unit inv" where
  "inv_del ks =
     inv_cmd ''failed to delete cache keys''
       (\<lambda>w. ((), w\<lparr>iw_redis := (\<lambda>k. if k \<in> set ks then None else iw_redis w k)\<rparr>))"

definition inv_delete_key :: "string \<Rightarrow> unit inv" where
  "inv_delete_key key =
     (if trim key = [] then inv_return ()
      else inv_bind inv_connect (\<lambda>_. inv_del [key]))"

text \<open>The \<open>SCAN\<close> loop over the pages the server will answer with.\<close>

fun scan_loop :: "string list list \<Rightarrow> unit inv" where
  "scan_loop [] = inv_return ()"
| "scan_loop (keys # pages) =
     inv_bind (inv_cmd ''redis scan failed'' (\<lambda>w. ((), w))) (\<lambda>_.
     inv_bind (if keys \<noteq> [] then inv_del keys else inv_return ()) (\<lambda>_.
       scan_loop pages))"

definition inv_delete_pattern :: "redis_server \<Rightarrow> string \<Rightarrow> unit inv" where
  "inv_delete_pattern srv pattern =
     (if trim pattern = [] then inv_return ()
      else inv_bind inv_connect (\<lambda>_ w. scan_loop (rs_pages srv (iw_redis w) pattern) w))"

definition flush_domain_entries :: "redis_server \<Rightarrow> unit inv" where
  "flush_domain_entries srv =
     inv_bind (inv_delete_pattern srv (domain_pfx @ ''*'')) (\<lambda>_.
       inv_delete_pattern srv (subdomain_pfx @ ''*''))"

definition delete_domain_scope :: "redis_server \<Rightarrow> string \<Rightarrow> unit inv" where
  "delete_domain_scope srv scope_value =
     (let domain_value = (case strip_prefix ''*.'' scope_value of Some rest \<Rightarrow> rest | None \<Rightarrow> scope_value)
      in inv_bind (inv_delete_key (domain_pfx @ domain_value)) (\<lambda>_.
         inv_bind (inv_delete_key (subdomain_pfx @ domain_value)) (\<lambda>_.
           inv_delete_pattern srv (subdomain_pfx @ ''*'' @ CHR ''.'' # domain_value))))"

definition delete_scope :: "redis_server \<Rightarrow> string \<Rightarrow> string \<Rightarrow> unit inv" where
  "delete_scope srv scope_type scope_value =
     (if scope_type = ''domain'' then delete_domain_scope srv scope_value
      else flush_domain_entries srv)"

fun cache_event_to_json :: "cache_invalidation_event \<Rightarrow> json" where
  "cache_event_to_json (OverrideEvent t v) =
     JObj [(''kind'', JStr ''override''), (''scope_type'', JStr t), (''scope_value'', JStr v)]"
| "cache_event_to_json (ReviewEvent k) =
     JObj [(''kind'', JStr ''review''), (''normalized_key'', JStr k)]"
| "cache_event_to_json PolicyEvent = JObj [(''kind'', JStr ''policy'')]"

definition inv_publish :: "externs \<Rightarrow> cache_invalidation_event \<Rightarrow> unit inv" where
  "inv_publish ex event =
     inv_bind inv_connect (\<lambda>_.
       inv_cmd ''failed to publish cache invalidation event''
         (\<lambda>w. ((), w\<lparr>iw_published := iw_published w @ [text_of_json ex (cache_event_to_json event)]\<rparr>)))"

definition admin_invalidate_override ::
  "externs \<Rightarrow> redis_server \<Rightarrow> string \<Rightarrow> string \<Rightarrow> unit inv" where
  "admin_invalidate_override ex srv scope_type scope_value =
     inv_bind (delete_scope srv scope_type scope_value) (\<lambda>_.
       inv_publish ex (OverrideEvent scope_type scope_value))"

definition admin_invalidate_policy :: "externs \<Rightarrow> redis_server \<Rightarrow> unit inv" where
  "admin_invalidate_policy ex srv =
     inv_bind (flush_domain_entries srv) (\<lambda>_. inv_publish ex PolicyEvent)"

definition admin_invalidate_key :: "string \<Rightarrow> unit inv" where
  "admin_invalidate_key key = inv_delete_key key"

section \<open>The event survives the channel\<close>

lemma event_json_round: "event_of_json (cache_event_to_json event) = Some event"
  by (cases event) (simp_all add: event_of_json_def req_field_def)

section \<open>What a successful command sequence deletes\<close>

text \<open>
  The documented behaviour of the server: a star in the pattern stands for any text, and a full
  \<open>SCAN\<close> of a finite store returns every key that is there throughout.
\<close>

definition glob_plain :: "string \<Rightarrow> bool" where
  "glob_plain s \<longleftrightarrow> set s \<inter> {CHR ''*'', CHR ''?'', CHR ''['', CHR '']'', CHR 0x5C} = {}"

definition server_ok :: "redis_server \<Rightarrow> bool" where
  "server_ok srv \<longleftrightarrow>
     (\<forall>p q k. glob_plain p \<longrightarrow> glob_plain q \<longrightarrow>
        rs_glob srv (p @ ''*'' @ q) k = (\<exists>x. k = p @ x @ q)) \<and>
     (\<forall>r p k. finite (dom r) \<longrightarrow> r k \<noteq> None \<longrightarrow> rs_glob srv p k \<longrightarrow>
        k \<in> set (concat (rs_pages srv r p)))"

lemma inv_bind_ok:
  "inv_bind m f w = (Inr y, w'') \<longleftrightarrow> (\<exists>x w'. m w = (Inr x, w') \<and> f x w' = (Inr y, w''))"
  by (auto simp: inv_bind_def split: prod.splits sum.splits)

lemma inv_cmd_ok:
  "inv_cmd msg f w = (Inr x, w') \<longleftrightarrow>
     \<not> iw_fails w (iw_cmds w) \<and> f (w\<lparr>iw_cmds := Suc (iw_cmds w)\<rparr>) = (x, w')"
  by (auto simp: inv_cmd_def Let_def split: prod.splits)

text \<open>Deleting only removes, and publishes nothing: what is gone stays gone.\<close>

definition shrinks :: "inv_world \<Rightarrow> inv_world \<Rightarrow> bool" where
  "shrinks w w' \<longleftrightarrow> iw_published w' = iw_published w \<and>
     (\<forall>k. iw_redis w' k = None \<or> iw_redis w' k = iw_redis w k)"

lemma shrinks_refl [simp]: "shrinks w w"
  by (simp add: shrinks_def)

lemma shrinks_trans: "shrinks a b \<Longrightarrow> shrinks b c \<Longrightarrow> shrinks a c"
  unfolding shrinks_def by metis

lemma shrinks_finite: "shrinks w w' \<Longrightarrow> finite (dom (iw_redis w)) \<Longrightarrow> finite (dom (iw_redis w'))"
  by (rule finite_subset [of _ "dom (iw_redis w)"]) (auto simp: shrinks_def dom_def; metis option.distinct(1))

lemma shrinks_None: "shrinks w w' \<Longrightarrow> iw_redis w k = None \<Longrightarrow> iw_redis w' k = None"
  unfolding shrinks_def by metis

lemma inv_del_ok:
  "inv_del ks w = (Inr (), w') \<Longrightarrow> shrinks w w' \<and> (\<forall>k \<in> set ks. iw_redis w' k = None)"
  by (auto simp: inv_del_def inv_cmd_ok shrinks_def)

lemma inv_connect_ok:
  "inv_connect w = (Inr (), w') \<Longrightarrow> iw_redis w' = iw_redis w \<and> iw_published w' = iw_published w"
  by (auto simp: inv_connect_def inv_cmd_ok)

lemma inv_delete_key_ok:
  assumes "inv_delete_key key w = (Inr (), w')"
  shows "shrinks w w' \<and> (trim key \<noteq> [] \<longrightarrow> iw_redis w' key = None)"
  using assms
  by (auto simp: inv_delete_key_def inv_return_def inv_bind_ok shrinks_def
      dest!: inv_del_ok inv_connect_ok split: if_splits)

lemma scan_loop_ok:
  "scan_loop pages w = (Inr (), w') \<Longrightarrow>
   shrinks w w' \<and> (\<forall>k \<in> set (concat pages). iw_redis w' k = None)"
proof (induction pages arbitrary: w)
  case Nil
  then show ?case by (simp add: inv_return_def)
next
  case (Cons ks pages)
  let ?w1 = "w\<lparr>iw_cmds := Suc (iw_cmds w)\<rparr>"
  from Cons.prems obtain w2 where
    2: "(if ks \<noteq> [] then inv_del ks else inv_return ()) ?w1 = (Inr (), w2)"
    and 3: "scan_loop pages w2 = (Inr (), w')"
    by (auto simp: inv_bind_ok inv_cmd_ok)
  have "shrinks ?w1 w2 \<and> (\<forall>k \<in> set ks. iw_redis w2 k = None)"
    using 2 inv_del_ok by (auto simp: inv_return_def split: if_splits)
  moreover have "shrinks w ?w1" by (simp add: shrinks_def)
  ultimately show ?case
    using Cons.IH [OF 3] shrinks_trans shrinks_None by (metis Un_iff concat.simps(2) set_append)
qed

lemma inv_delete_pattern_ok:
  assumes "server_ok srv" "inv_delete_pattern srv pat w = (Inr (), w')" "trim pat \<noteq> []"
    and fin: "finite (dom (iw_redis w))"
  shows "shrinks w w' \<and> (\<forall>k. rs_glob srv pat k \<longrightarrow> iw_redis w' k = None)"
proof -
  obtain w1 where w1: "iw_redis w1 = iw_redis w" "iw_published w1 = iw_published w"
    and s: "scan_loop (rs_pages srv (iw_redis w1) pat) w1 = (Inr (), w')"
    using assms(2,3) by (auto simp: inv_delete_pattern_def inv_bind_ok dest: inv_connect_ok)
  note sl = scan_loop_ok [OF s]
  have "iw_redis w' k = None" if "rs_glob srv pat k" for k
  proof (cases "iw_redis w1 k")
    case None
    then show ?thesis using sl shrinks_None by blast
  next
    case (Some v)
    then have "k \<in> set (concat (rs_pages srv (iw_redis w1) pat))"
      using assms(1) that fin w1(1) by (auto simp: server_ok_def)
    with sl show ?thesis by blast
  qed
  with sl w1 show ?thesis by (simp add: shrinks_def)
qed

lemma pfx_graphic: "graphic domain_pfx" "graphic subdomain_pfx"
  by (simp_all add: graphic_def domain_pfx_def subdomain_pfx_def byte_in_def)

lemma trim_pfx: "trim (domain_pfx @ s) \<noteq> []" "trim (subdomain_pfx @ s) \<noteq> []"
  using trim_nonempty [OF pfx_graphic(1)] trim_nonempty [OF pfx_graphic(2)] by simp_all

lemma pfx_glob_plain: "glob_plain domain_pfx" "glob_plain subdomain_pfx"
  by (simp_all add: glob_plain_def domain_pfx_def subdomain_pfx_def)

lemma key_matches_domain_scope_cases:
  assumes "key_matches_domain_scope key v b"
  shows "key = domain_pfx @ v \<or> key = subdomain_pfx @ v \<or> (\<exists>x. key = subdomain_pfx @ x @ CHR ''.'' # v)"
  using assms
  by (auto simp: key_matches_domain_scope_def strip_prefix_Some_iff ends_with_def suffix_def Let_def
      split: option.splits if_splits)

lemma delete_domain_scope_ok:
  assumes "server_ok srv" "delete_domain_scope srv sv w = (Inr (), w')"
    and v: "v = (case strip_prefix ''*.'' sv of Some rest \<Rightarrow> rest | None \<Rightarrow> sv)" "glob_plain v"
    and key: "key_matches_domain_scope key v b" and fin: "finite (dom (iw_redis w))"
  shows "iw_redis w' key = None"
proof -
  let ?pat = "subdomain_pfx @ ''*'' @ CHR ''.'' # v"
  obtain w1 w2 where 1: "inv_delete_key (domain_pfx @ v) w = (Inr (), w1)"
    and 2: "inv_delete_key (subdomain_pfx @ v) w1 = (Inr (), w2)"
    and 3: "inv_delete_pattern srv ?pat w2 = (Inr (), w')"
    using assms(2) by (auto simp: delete_domain_scope_def v(1) inv_bind_ok Let_def)
  have fin2: "finite (dom (iw_redis w2))"
    using inv_delete_key_ok [OF 1] inv_delete_key_ok [OF 2] shrinks_finite fin by blast
  have d: "shrinks w1 w2" "shrinks w2 w'" "iw_redis w1 (domain_pfx @ v) = None"
    "iw_redis w2 (subdomain_pfx @ v) = None" "\<forall>k. rs_glob srv ?pat k \<longrightarrow> iw_redis w' k = None"
    using inv_delete_key_ok [OF 1] inv_delete_key_ok [OF 2]
      inv_delete_pattern_ok [OF assms(1) 3 trim_pfx(2) fin2] trim_pfx by auto
  have "glob_plain (CHR ''.'' # v)" using v(2) by (simp add: glob_plain_def)
  then have "rs_glob srv ?pat (subdomain_pfx @ x @ CHR ''.'' # v)" for x
    using assms(1) pfx_glob_plain(2) unfolding server_ok_def by blast
  with d key_matches_domain_scope_cases [OF key] shrinks_None show ?thesis by metis
qed

lemma flush_domain_entries_ok:
  assumes "server_ok srv" "flush_domain_entries srv w = (Inr (), w')"
    and key: "prefix domain_pfx key \<or> prefix subdomain_pfx key" and fin: "finite (dom (iw_redis w))"
  shows "iw_redis w' key = None"
proof -
  obtain w1 where 1: "inv_delete_pattern srv (domain_pfx @ ''*'') w = (Inr (), w1)"
    and 2: "inv_delete_pattern srv (subdomain_pfx @ ''*'') w1 = (Inr (), w')"
    using assms(2) by (auto simp: flush_domain_entries_def inv_bind_ok)
  have g: "rs_glob srv (p @ ''*'') (p @ x)" if "glob_plain p" for p x
  proof -
    have "glob_plain []" by (simp add: glob_plain_def)
    then have "rs_glob srv (p @ ''*'' @ []) (p @ x)"
      using assms(1) that unfolding server_ok_def by (metis append_Nil2)
    then show ?thesis by simp
  qed
  have fin1: "finite (dom (iw_redis w1))"
    using inv_delete_pattern_ok [OF assms(1) 1 trim_pfx(1) fin] shrinks_finite fin by blast
  show ?thesis
    using inv_delete_pattern_ok [OF assms(1) 1 trim_pfx(1) fin] inv_delete_pattern_ok [OF assms(1) 2 trim_pfx(2) fin1]
      key g pfx_glob_plain shrinks_None by (metis prefix_def)
qed

lemma inv_publish_ok:
  "inv_publish ex event w = (Inr (), w') \<Longrightarrow>
   iw_redis w' = iw_redis w \<and> iw_published w' = iw_published w @ [text_of_json ex (cache_event_to_json event)]"
  by (auto simp: inv_publish_def inv_bind_ok inv_cmd_ok inv_connect_def)

lemma delete_domain_scope_shrinks:
  assumes "server_ok srv" "delete_domain_scope srv sv w = (Inr (), w')" and fin: "finite (dom (iw_redis w))"
  shows "shrinks w w'"
proof -
  obtain v w1 w2 where 1: "inv_delete_key (domain_pfx @ v) w = (Inr (), w1)"
    and 2: "inv_delete_key (subdomain_pfx @ v) w1 = (Inr (), w2)"
    and 3: "inv_delete_pattern srv (subdomain_pfx @ ''*'' @ CHR ''.'' # v) w2 = (Inr (), w')"
    using assms(2) by (auto simp: delete_domain_scope_def inv_bind_ok Let_def)
  have fin2: "finite (dom (iw_redis w2))"
    using inv_delete_key_ok [OF 1] inv_delete_key_ok [OF 2] shrinks_finite fin by blast
  show ?thesis
    using inv_delete_key_ok [OF 1] inv_delete_key_ok [OF 2]
      inv_delete_pattern_ok [OF assms(1) 3 trim_pfx(2) fin2] shrinks_trans by blast
qed

lemma override_event_published:
  assumes "admin_invalidate_override ex srv ''domain'' scope w = (Inr (), w')" "server_ok srv" "finite (dom (iw_redis w))"
  shows "iw_published w' = iw_published w @ [text_of_json ex (cache_event_to_json (OverrideEvent ''domain'' scope))]"
proof -
  obtain w1 where 1: "delete_domain_scope srv scope w = (Inr (), w1)"
    and 2: "inv_publish ex (OverrideEvent ''domain'' scope) w1 = (Inr (), w')"
    using assms(1) by (auto simp: admin_invalidate_override_def delete_scope_def inv_bind_ok)
  show ?thesis
    using delete_domain_scope_shrinks [OF assms(2) 1 assms(3)] inv_publish_ok [OF 2] by (simp add: shrinks_def)
qed

lemma published_event_understood:
  assumes "json_text_ok ex"
  shows "apply_invalidation ex (text_of_json ex (cache_event_to_json event)) cache = (Inr (), apply_event event cache)"
proof -
  have "json_finite (cache_event_to_json event)" by (cases event) simp_all
  then have "json_of_text ex (text_of_json ex (cache_event_to_json event)) = Some (cache_event_to_json event)"
    using assms by (simp add: json_text_ok_def)
  then show ?thesis by (simp add: apply_invalidation_def event_json_round)
qed

lemma override_event_applied:
  assumes "json_text_ok ex" "admin_invalidate_override ex srv ''domain'' scope w = (Inr (), w')" "server_ok srv"
    "finite (dom (iw_redis w))" "iw_published w' = iw_published w @ [payload]"
  shows "apply_invalidation ex payload cache = (Inr (), apply_event (OverrideEvent ''domain'' scope) cache)"
  using override_event_published [OF assms(2-4)] published_event_understood [OF assms(1)] assms(5)
  by (simp del: cache_event_to_json.simps)

lemma override_redis_cleared:
  assumes "server_ok srv" "finite (dom (iw_redis w))"
    and "name = (case strip_prefix ''*.'' scope of Some rest \<Rightarrow> rest | None \<Rightarrow> scope)" "glob_plain name"
    and "admin_invalidate_override ex srv ''domain'' scope w = (Inr (), w')"
  shows "key_matches_domain_scope key name b \<Longrightarrow> iw_redis w' key = None" "iw_redis w k = None \<Longrightarrow> iw_redis w' k = None"
proof -
  obtain w1 where 1: "delete_domain_scope srv scope w = (Inr (), w1)"
    and 2: "inv_publish ex (OverrideEvent ''domain'' scope) w1 = (Inr (), w')"
    using assms(5) by (auto simp: admin_invalidate_override_def delete_scope_def inv_bind_ok)
  show "iw_redis w' key = None" if "key_matches_domain_scope key name b"
    using delete_domain_scope_ok [OF assms(1) 1 assms(3,4) that assms(2)] inv_publish_ok [OF 2] by simp
  show "iw_redis w' k = None" if "iw_redis w k = None"
    using shrinks_None [OF delete_domain_scope_shrinks [OF assms(1) 1 assms(2)] that] inv_publish_ok [OF 2] by simp
qed

section \<open>What an invalidation leaves\<close>

text \<open>
  The other half of the server's documentation: \<open>SCAN\<close> with a pattern returns only keys that match
  it.  Then every delete names a key of the scope, also when a command fails on the way.
\<close>

definition scan_exact :: "redis_server \<Rightarrow> bool" where
  "scan_exact srv \<longleftrightarrow> (\<forall>r p. list_all (list_all (rs_glob srv p)) (rs_pages srv r p))"

definition inv_spares :: "string \<Rightarrow> 'a inv \<Rightarrow> bool" where
  "inv_spares k m \<longleftrightarrow> (\<forall>w. iw_redis (snd (m w)) k = iw_redis w k)"

lemma inv_sparesD: "inv_spares k m \<Longrightarrow> m w = (r, w') \<Longrightarrow> iw_redis w' k = iw_redis w k"
  by (metis inv_spares_def snd_conv)

lemma inv_spares_cmd: "(\<And>w. iw_redis (snd (f w)) k = iw_redis w k) \<Longrightarrow> inv_spares k (inv_cmd msg f)"
proof -
  assume kept: "\<And>w. iw_redis (snd (f w)) k = iw_redis w k"
  have "iw_redis (snd (f (w\<lparr>iw_cmds := n\<rparr>))) k = iw_redis w k" for w n
    using kept [of "w\<lparr>iw_cmds := n\<rparr>"] by simp
  then show ?thesis by (simp add: inv_spares_def inv_cmd_def Let_def case_prod_beta)
qed

lemma inv_spares_return: "inv_spares k (inv_return x)"
  by (simp add: inv_spares_def inv_return_def)

lemma inv_spares_bind: "inv_spares k m \<Longrightarrow> (\<And>x. inv_spares k (f x)) \<Longrightarrow> inv_spares k (inv_bind m f)"
  by (auto simp: inv_spares_def inv_bind_def split: prod.splits sum.splits) (metis snd_conv)+

lemma inv_spares_connect: "inv_spares k inv_connect"
  by (simp add: inv_connect_def inv_spares_cmd)

lemma inv_spares_del: "k \<notin> set ks \<Longrightarrow> inv_spares k (inv_del ks)"
  by (simp add: inv_del_def inv_spares_cmd)

lemma inv_spares_publish: "inv_spares k (inv_publish ex event)"
  by (auto simp: inv_publish_def intro!: inv_spares_bind inv_spares_connect inv_spares_cmd)

lemma inv_spares_key: "key \<noteq> k \<Longrightarrow> inv_spares k (inv_delete_key key)"
  by (auto simp: inv_delete_key_def intro!: inv_spares_bind inv_spares_connect inv_spares_del inv_spares_return)

lemma inv_spares_scan: "k \<notin> set (concat pages) \<Longrightarrow> inv_spares k (scan_loop pages)"
proof (induction pages)
  case Nil
  show ?case by (simp add: inv_spares_return)
next
  case (Cons ks pages)
  then show ?case by (auto intro!: inv_spares_bind inv_spares_cmd inv_spares_del inv_spares_return)
qed

lemma inv_spares_pattern:
  assumes "scan_exact srv" "\<not> rs_glob srv pat k"
  shows "inv_spares k (inv_delete_pattern srv pat)"
proof -
  have "inv_spares k (scan_loop (rs_pages srv r pat))" for r
    using assms by (intro inv_spares_scan) (auto simp: scan_exact_def list_all_iff)
  then have "inv_spares k (\<lambda>w. scan_loop (rs_pages srv (iw_redis w) pat) w)" by (simp add: inv_spares_def)
  then show ?thesis
    by (auto simp: inv_delete_pattern_def intro!: inv_spares_bind inv_spares_connect inv_spares_return)
qed

lemma invalidation_spares:
  assumes "server_ok srv" "scan_exact srv" "strip_prefix ''*.'' scope = None" "glob_plain scope"
    and "\<not> suffix scope key"
  shows "inv_spares key (admin_invalidate_override ex srv ''domain'' scope)"
proof -
  have "glob_plain (CHR ''.'' # scope)" using assms(4) by (simp add: glob_plain_def)
  then have "rs_glob srv (subdomain_pfx @ ''*'' @ CHR ''.'' # scope) key = (\<exists>x. key = subdomain_pfx @ x @ CHR ''.'' # scope)"
    using assms(1) pfx_glob_plain(2) unfolding server_ok_def by blast
  moreover have "suffix scope (subdomain_pfx @ x @ CHR ''.'' # scope)" for x
    by (intro suffixI [of _ "subdomain_pfx @ x @ ''.''"]) simp
  ultimately have "\<not> rs_glob srv (subdomain_pfx @ ''*'' @ CHR ''.'' # scope) key" using assms(5) by metis
  moreover have "domain_pfx @ scope \<noteq> key" "subdomain_pfx @ scope \<noteq> key" using assms(5) by (auto simp: suffix_def)
  ultimately show ?thesis using assms(2,3)
    by (auto simp: admin_invalidate_override_def delete_scope_def delete_domain_scope_def Let_def
        intro!: inv_spares_bind inv_spares_key inv_spares_publish inv_spares_pattern)
qed

lemma apply_event_spares:
  assumes "strip_prefix ''*.'' scope = None" "\<not> suffix scope key"
  shows "cw_memory (apply_event (OverrideEvent ''domain'' scope) cache) key = cw_memory cache key"
proof -
  have "\<not> key_matches_domain_scope key scope True"
    using assms(2) key_matches_domain_scope_cases [of key scope True] by (auto simp: suffix_def)
  then show ?thesis using assms(1) by (simp add: apply_event_drop memory_drop_def event_keys_def)
qed

section \<open>Without failures\<close>

text \<open>When no command fails, an operation comes to its end.\<close>

definition runs :: "'a inv \<Rightarrow> bool" where
  "runs m \<longleftrightarrow> (\<forall>w. iw_fails w = (\<lambda>_. False) \<longrightarrow> (\<exists>x w'. m w = (Inr x, w') \<and> iw_fails w' = (\<lambda>_. False)))"

lemma runsD: "runs m \<Longrightarrow> iw_fails w = (\<lambda>_. False) \<Longrightarrow> \<exists>x w'. m w = (Inr x, w')"
  unfolding runs_def by blast

lemma runs_return: "runs (inv_return x)"
  by (simp add: runs_def inv_return_def)

lemma runs_bind: "runs m \<Longrightarrow> (\<And>x. runs (f x)) \<Longrightarrow> runs (inv_bind m f)"
  unfolding runs_def inv_bind_def by (fastforce split: prod.splits)

lemma runs_connect: "runs inv_connect"
  by (simp add: runs_def inv_connect_def inv_cmd_def Let_def)

lemma runs_del: "runs (inv_del ks)"
  by (simp add: runs_def inv_del_def inv_cmd_def Let_def)

lemma runs_scan: "runs (scan_loop pages)"
proof (induction pages)
  case Nil
  show ?case by (simp add: runs_return)
next
  case (Cons ks pages)
  have "runs (inv_cmd ''redis scan failed'' (\<lambda>w. ((), w)))"
    by (simp add: runs_def inv_cmd_def Let_def)
  with Cons show ?case by (auto intro!: runs_bind simp: runs_return runs_del)
qed

lemma runs_pattern: "runs (inv_delete_pattern srv pat)"
proof -
  have "runs (\<lambda>w. scan_loop (rs_pages srv (iw_redis w) pat) w)"
    using runs_scan by (auto simp: runs_def)
  then show ?thesis by (auto simp: inv_delete_pattern_def runs_return runs_connect intro!: runs_bind)
qed

lemma runs_invalidation: "runs (admin_invalidate_override ex srv ''domain'' scope)"
proof -
  have "runs (inv_delete_key k)" for k
    by (auto simp: inv_delete_key_def runs_return runs_connect runs_del intro!: runs_bind)
  moreover have "runs (inv_publish ex event)" for event
  proof -
    have "runs (inv_cmd ''failed to publish cache invalidation event''
         (\<lambda>w. ((), w\<lparr>iw_published := iw_published w @ [text_of_json ex (cache_event_to_json event)]\<rparr>)))"
      by (simp add: runs_def inv_cmd_def Let_def)
    then show ?thesis by (auto simp: inv_publish_def runs_connect intro!: runs_bind)
  qed
  ultimately show ?thesis
    by (auto simp: admin_invalidate_override_def delete_scope_def delete_domain_scope_def Let_def
        runs_pattern intro!: runs_bind)
qed

section \<open>Properties\<close>

text \<open>
  C29: an override change reaches both layers.  When Redis holds finitely many keys and the
  administration service has invalidated a domain scope without an error, Redis holds none of the
  keys of that scope; exactly one event was published, the adaptor understands it, and after
  applying it the adaptor's memory holds none of the keys either.
\<close>

theorem override_invalidation_complete:
  assumes "server_ok srv" "json_text_ok ex" and fin: "finite (dom (iw_redis w))"
    and "glob_plain (case strip_prefix ''*.'' scope of Some rest \<Rightarrow> rest | None \<Rightarrow> scope)"
    and "admin_invalidate_override ex srv ''domain'' scope w = (Inr (), w')"
    and "event_keys (OverrideEvent ''domain'' scope) key"
  shows "iw_redis w' key = None \<and>
    (\<exists>payload. iw_published w' = iw_published w @ [payload] \<and>
      fst (apply_invalidation ex payload cache) = Inr () \<and>
      memory_get key (snd (apply_invalidation ex payload cache)) = None)"
proof -
  let ?event = "OverrideEvent ''domain'' scope"
  let ?payload = "text_of_json ex (cache_event_to_json ?event)"
  obtain w1 where 1: "delete_domain_scope srv scope w = (Inr (), w1)"
    and 2: "inv_publish ex ?event w1 = (Inr (), w')"
    using assms(5) by (auto simp: admin_invalidate_override_def delete_scope_def inv_bind_ok)
  have key: "key_matches_domain_scope key
      (case strip_prefix ''*.'' scope of Some rest \<Rightarrow> rest | None \<Rightarrow> scope) True"
    using assms(6) by (simp add: event_keys_def)
  have "iw_redis w' key = None"
    using delete_domain_scope_ok [OF assms(1) 1 refl assms(4) key fin] inv_publish_ok [OF 2] by simp
  moreover have "iw_published w' = iw_published w @ [?payload]"
    using delete_domain_scope_shrinks [OF assms(1) 1 fin] inv_publish_ok [OF 2] by (simp add: shrinks_def)
  moreover have "json_of_text ex ?payload = Some (cache_event_to_json ?event)"
    using assms(2) by (simp add: json_text_ok_def)
  then have "apply_invalidation ex ?payload cache = (Inr (), apply_event ?event cache)"
    by (simp add: apply_invalidation_def event_json_round del: cache_event_to_json.simps)
  then have "fst (apply_invalidation ex ?payload cache) = Inr ()"
    "memory_get key (snd (apply_invalidation ex ?payload cache)) = None"
    using assms(6) by (simp_all add: apply_event_drop mem.lookup_discard)
  ultimately show ?thesis by blast
qed

text \<open>
  Keys an override covers but its invalidation misses.  For a name that is its own registered
  domain below the scope, as under a public suffix, the override applies to the host while the
  event leaves the cached decision of its key in place.
\<close>

theorem invalidation_misses_registered_names:
  assumes "host = x @ CHR ''.'' # scope" "x \<noteq> []" "strip_prefix ''*.'' scope = None"
  shows "host_under scope host \<and> \<not> event_keys (OverrideEvent ''domain'' scope) (domain_pfx @ host)"
  using assms by (simp add: host_under_def ends_with_def suffix_def event_keys_def key_matches_domain)

end
