(* ===== verification/Adaptor_Run.thy ===== *)
theory Adaptor_Run
  imports Icap_Adaptor Cache_Invalidator
begin

text \<open>
  The adaptor as a transition system: connections, invalidation messages, the passing of time and
  the deletions other processes make in Redis, in any order.  The state carries the history of
  the answers the policy engine has given, and the invariant ties every cached decision to one of
  them.
\<close>

section \<open>Steps\<close>

text \<open>The answers of the policy engine that one connection obtained.\<close>

definition connection_answers ::
  "externs \<Rightarrow> services \<Rightarrow> adaptor \<Rightarrow> effect list \<Rightarrow> (policy_decision_request \<times> policy_decision) set" where
  "connection_answers ex sv ad effects =
     {(req, d). Http (policy_request (ad_policy_url ad) req) \<in> set effects \<and>
        policy_client_evaluate ex sv (ad_policy_url ad) req = Inr d}"

inductive adaptor_run ::
  "externs \<Rightarrow> adaptor \<Rightarrow> (policy_decision_request \<times> policy_decision) set \<Rightarrow> cache_world \<Rightarrow> bool"
  for ex ad where
  start: "cw_redis w = Map.empty \<Longrightarrow> adaptor_run ex ad {} (cache_new redis w)"
| connection: "adaptor_run ex ad hist w \<Longrightarrow> handle_connection ex sv ad raw w = (r, w', effects) \<Longrightarrow>
    adaptor_run ex ad (connection_answers ex sv ad effects \<union> hist) w'"
| message: "adaptor_run ex ad hist w \<Longrightarrow> apply_invalidation ex payload w = (r, w') \<Longrightarrow>
    adaptor_run ex ad hist w'"
| clock: "adaptor_run ex ad hist w \<Longrightarrow> adaptor_run ex ad hist (cache_sleep n w)"
| redis_deletion: "adaptor_run ex ad hist w \<Longrightarrow>
    adaptor_run ex ad hist (w\<lparr>cw_redis := cw_redis w |` keep\<rparr>)"

section \<open>Reading back\<close>

lemma decision_json_inj:
  assumes "decision_of_json ex (decision_to_json x) = Some y"
  shows "y = x"
proof (cases "json_safe x")
  case True
  then show ?thesis using assms decision_json_round [of x ex] by simp
next
  case False
  then obtain v where v: "pd_verdict x = Some v" "\<not> f32_finite (cv_confidence v)"
    by (auto simp: json_safe_def split: option.splits)
  then have "verdict_of_json ex (verdict_to_json v) = None"
    by (simp add: verdict_of_json_def verdict_to_json_def req_field_def f32_to_json_def)
  then have "opt_field (verdict_of_json ex) ''verdict'' (fs @ (''verdict'', verdict_to_json v) # gs) = None"
    if "map_of fs ''verdict'' = None" for fs gs
    using that
    by (cases "verdict_to_json v")
      (auto simp: opt_field_def map_add_def verdict_to_json_def)
  from this [of "[(''action'', JStr (show_action (pd_action x))), (''cache_hit'', JBool (pd_cache_hit x))]"
      "skip_none ''decision_source'' JStr (pd_decision_source x)"]
  have False
    using assms v by (auto simp: decision_of_json_def decision_to_json_def opt_to_json_def
        bind_eq_Some_conv split: if_splits)
  then show ?thesis ..
qed

section \<open>The invariant\<close>

text \<open>A decision the engine gave for a key, in the form in which it is cached.\<close>

definition cached_answer ::
  "icap_config \<Rightarrow> (policy_decision_request \<times> policy_decision) set \<Rightarrow> string \<Rightarrow> policy_decision \<Rightarrow> bool" where
  "cached_answer cfg hist key d \<longleftrightarrow>
     (\<exists>req d0. (req, d0) \<in> hist \<and> pdr_normalized_key req = key \<and> d = response_decision_of cfg d0)"

definition memory_explained ::
  "icap_config \<Rightarrow> (policy_decision_request \<times> policy_decision) set \<Rightarrow> string \<Rightarrow> cache_world \<Rightarrow> bool" where
  "memory_explained cfg hist k w \<longleftrightarrow>
     (\<forall>e. cw_memory w k = Some e \<longrightarrow> cached_answer cfg hist k (ce_decision e))"

definition redis_explained ::
  "externs \<Rightarrow> icap_config \<Rightarrow> (policy_decision_request \<times> policy_decision) set \<Rightarrow> string \<Rightarrow> cache_world \<Rightarrow> bool" where
  "redis_explained ex cfg hist k w \<longleftrightarrow>
     (\<forall>p t. cw_redis w k = Some (p, t) \<longrightarrow>
        (\<exists>d. p = text_of_json ex (decision_to_json d) \<and> cached_answer cfg hist k d))"

definition cache_explained ::
  "externs \<Rightarrow> icap_config \<Rightarrow> (policy_decision_request \<times> policy_decision) set \<Rightarrow> cache_world \<Rightarrow> bool" where
  "cache_explained ex cfg hist w \<longleftrightarrow>
     (\<forall>k. memory_explained cfg hist k w \<and> redis_explained ex cfg hist k w)"

lemma cached_answer_mono: "cached_answer cfg h k d \<Longrightarrow> h \<subseteq> h' \<Longrightarrow> cached_answer cfg h' k d"
  by (auto simp: cached_answer_def)

lemma explained_mono:
  "memory_explained cfg h k w \<Longrightarrow> h \<subseteq> h' \<Longrightarrow> memory_explained cfg h' k w"
  "redis_explained ex cfg h k w \<Longrightarrow> h \<subseteq> h' \<Longrightarrow> redis_explained ex cfg h' k w"
  unfolding memory_explained_def redis_explained_def by (meson cached_answer_mono)+

lemma explained_frame:
  "memory_explained cfg h k w \<Longrightarrow> cw_memory w' = cw_memory w \<Longrightarrow> memory_explained cfg h k w'"
  "redis_explained ex cfg h k w \<Longrightarrow> cw_redis w' = cw_redis w \<Longrightarrow> redis_explained ex cfg h k w'"
  by (simp_all add: memory_explained_def redis_explained_def)

lemma cache_explained_frame:
  "cache_explained ex cfg h w \<Longrightarrow> cw_memory w' = cw_memory w \<Longrightarrow> cw_redis w' = cw_redis w \<Longrightarrow>
   cache_explained ex cfg h w'"
  unfolding cache_explained_def using explained_frame by blast

lemma cache_get_explained:
  assumes "json_text_ok ex" "memory_explained cfg hist key w" "redis_explained ex cfg hist key w"
    and get: "cache_get ex key w = (Some d, w')"
  shows "cached_answer cfg hist key d"
proof (cases "memory_get key w")
  case (Some d')
  then have "d' = d" using get by (simp add: cache_get_def)
  with Some assms(2) show ?thesis
    by (auto simp: memory_get_def memory_explained_def bind_eq_Some_conv split: if_splits)
next
  case None
  then obtain p w1 where p: "redis_get key w = (Some p, w1)"
    and d: "Option.bind (json_of_text ex p) (decision_of_json ex) = Some d"
    using get by (auto simp: cache_get_def split: prod.splits option.splits)
  have loop: "redis_get_loop as key v = (Some p, w1) \<Longrightarrow> \<exists>t. cw_redis v key = Some (p, t)" for as v
  proof (induction as arbitrary: v)
    case (Cons a as)
    then show ?case
      by (cases "cw_fails v (cw_attempts v)")
        (fastforce simp: redis_attempt_pair redis_value_def cache_sleep_def
          split: option.splits if_splits)+
  qed simp
  obtain t where "cw_redis w key = Some (p, t)"
    using p loop by (auto simp: redis_get_def split: if_splits simp del: redis_get_loop.simps)
  then obtain x where x: "p = text_of_json ex (decision_to_json x)" "cached_answer cfg hist key x"
    using assms(3) unfolding redis_explained_def by blast
  have "decision_of_json ex (decision_to_json x) = Some d"
    using d assms(1) by (simp add: x(1) decision_text_round)
  with x(2) decision_json_inj show ?thesis by blast
qed

lemma cache_get_explained_all:
  "json_text_ok ex \<Longrightarrow> cache_explained ex cfg hist w \<Longrightarrow> cache_get ex key w = (Some d, w') \<Longrightarrow>
   cached_answer cfg hist key d"
  using cache_get_explained unfolding cache_explained_def by metis

lemma redis_set_loop_cases:
  "cw_redis (redis_set_loop as k p t w) = cw_redis w \<or>
   (\<exists>n. cw_redis (redis_set_loop as k p t w) = (cw_redis w)(k \<mapsto> (p, n)))"
proof (induction as arbitrary: w)
  case (Cons a as)
  show ?case
  proof (cases "cw_fails w (cw_attempts w)")
    case True
    then show ?thesis
      using Cons.IH [of "cache_sleep (50 * (a + 1)) (w\<lparr>cw_attempts := Suc (cw_attempts w)\<rparr>)"]
      by (simp add: redis_attempt_pair cache_sleep_def)
  next
    case False
    then show ?thesis by (auto simp: redis_attempt_pair)
  qed
qed simp

lemma cache_set_explained:
  assumes "cached_answer cfg hist key d"
  shows "memory_explained cfg hist k w \<Longrightarrow> memory_explained cfg hist k (cache_set ex key d ttl w)"
    "redis_explained ex cfg hist k w \<Longrightarrow> redis_explained ex cfg hist k (cache_set ex key d ttl w)"
proof -
  let ?p = "text_of_json ex (decision_to_json d)"
  have mem: "cw_memory (cache_set ex key d ttl w) =
      (cw_memory w)(key \<mapsto> \<lparr>ce_decision = d, ce_expires_at = cw_now w + ttl\<rparr>)"
    by (simp add: cache_set_memory memory_set_def)
  then show "memory_explained cfg hist k w \<Longrightarrow> memory_explained cfg hist k (cache_set ex key d ttl w)"
    using assms by (auto simp: memory_explained_def)
  have "cw_redis (cache_set ex key d ttl w) = cw_redis w \<or>
      (\<exists>n. cw_redis (cache_set ex key d ttl w) = (cw_redis w)(key \<mapsto> (?p, n)))"
    using redis_set_loop_cases [of "[0, 1, 2]" key ?p "max (ttl div 1000) 1" "memory_set key d ttl w"]
    by (simp add: cache_set_def redis_set_def memory_set_def Let_def del: redis_set_loop.simps)
  then show "redis_explained ex cfg hist k w \<Longrightarrow> redis_explained ex cfg hist k (cache_set ex key d ttl w)"
    using assms unfolding redis_explained_def by (auto split: if_splits)
qed

text \<open>An invalidation message, whatever it says, only takes entries from the memory.\<close>

lemma apply_invalidation_frame:
  assumes "apply_invalidation ex payload w = (r, w')"
  shows "cw_redis w' = cw_redis w" "cw_memory w' k = None \<or> cw_memory w' k = cw_memory w k"
  using assms by (auto simp: apply_invalidation_def apply_event_drop memory_drop_def split: option.splits if_splits)

lemma apply_invalidation_explained:
  assumes "apply_invalidation ex payload w = (r, w')"
  shows "memory_explained cfg hist k w \<Longrightarrow> memory_explained cfg hist k w'"
    "redis_explained ex cfg hist k w \<Longrightarrow> redis_explained ex cfg hist k w'"
  using apply_invalidation_frame(2) [OF assms, of k] apply_invalidation_frame(1) [OF assms]
  by (auto simp: memory_explained_def redis_explained_def)

section \<open>Connections\<close>

lemma resolve_cached_frame:
  assumes "resolve_cached_decision ex key n w = (r, w')"
  shows "cw_memory w' = cw_memory w \<and> cw_redis w' = cw_redis w"
proof -
  obtain r1 w1 where 1: "cache_get ex key w = (r1, w1)" by fastforce
  show ?thesis
  proof (cases "r1 = None \<and> ancestor_domain_key n \<noteq> None")
    case True
    then obtain a where a: "ancestor_domain_key n = Some a" by auto
    obtain r2 w2 where 2: "cache_get ex a w1 = (r2, w2)" by fastforce
    from True 1 2 a assms cache_get_frame [OF 1] cache_get_frame [OF 2] show ?thesis
      by (auto simp: resolve_cached_decision_def split: option.splits if_splits)
  next
    case False
    with 1 assms cache_get_frame [OF 1] show ?thesis
      by (auto simp: resolve_cached_decision_def split: option.splits)
  qed
qed

text \<open>The keys a request can be answered from.\<close>

definition answering_keys :: "normalized_target \<Rightarrow> string set" where
  "answering_keys n =
     insert (nt_normalized_key n) (case ancestor_domain_key n of None \<Rightarrow> {} | Some k \<Rightarrow> {k})"

lemma resolve_cached_explained:
  assumes "json_text_ok ex" "cache_explained ex cfg hist w"
    "resolve_cached_decision ex (nt_normalized_key n) n w = (Some (d, src), w')"
  shows "\<exists>k \<in> answering_keys n. cached_answer cfg hist k d"
proof -
  obtain r1 w1 where 1: "cache_get ex (nt_normalized_key n) w = (r1, w1)" by fastforce
  have e1: "cache_explained ex cfg hist w1"
    using cache_explained_frame [OF assms(2)] cache_get_frame [OF 1] by blast
  show ?thesis
  proof (cases r1)
    case (Some d1)
    with 1 assms(3) have "d1 = d" by (simp add: resolve_cached_decision_def)
    with cache_get_explained_all [OF assms(1,2)] 1 Some show ?thesis by (auto simp: answering_keys_def)
  next
    case None
    with 1 assms(3) obtain a where a: "ancestor_domain_key n = Some a"
      by (auto simp: resolve_cached_decision_def split: option.splits)
    obtain r2 w2 where 2: "cache_get ex a w1 = (r2, w2)" by fastforce
    with None 1 a assms(3) have "r2 = Some d"
      by (auto simp: resolve_cached_decision_def split: option.splits if_splits)
    with cache_get_explained_all [OF assms(1) e1] 2 a show ?thesis by (auto simp: answering_keys_def)
  qed
qed

lemma handle_request_cases:
  assumes "handle_request ex sv ad req w = (r, w', effects)"
  obtains (bad) e where "connection_target ex (ad_policy ad) req = Inl e" "r = Inl e" "w' = w" "effects = []"
  | (hit) host n key d src effs where "connection_target ex (ad_policy ad) req = Inr (host, n, key)"
      "resolve_cached_decision ex (nt_normalized_key n) n w = (Some (d, src), w')"
      "effects = effs @ [Respond (icap_response (pd_action d))]" "\<forall>e \<in> set effs. \<nexists>t. e = Respond t"
      "r = Inr ()"
  | (failed) host n key preq e where "connection_target ex (ad_policy ad) req = Inr (host, n, key)"
      "resolve_cached_decision ex (nt_normalized_key n) n w = (None, w')"
      "policy_client_evaluate ex sv (ad_policy_url ad) preq = Inl e"
      "\<forall>e \<in> set effects. \<nexists>t. e = Respond t" "r = Inl e"
  | (answered) host n key w1 preq d effs where "connection_target ex (ad_policy ad) req = Inr (host, n, key)"
      "resolve_cached_decision ex (nt_normalized_key n) n w = (None, w1)"
      "pdr_normalized_key preq = nt_normalized_key n" "pdr_source_ip preq = host"
      "policy_client_evaluate ex sv (ad_policy_url ad) preq = Inr d"
      "w' = cache_set ex (nt_normalized_key n) (response_decision_of (ad_cfg ad) d)
         (response_ttl (ad_cfg ad) d) w1"
      "Http (policy_request (ad_policy_url ad) preq) \<in> set effs"
      "effects = effs @ [Respond (icap_response (pd_action (response_decision_of (ad_cfg ad) d)))]"
      "\<forall>e \<in> set effs. \<nexists>t. e = Respond t" "r = Inr ()"
proof -
  have quiet: "\<forall>e \<in> set (pending_effects ex sv ad req key n cands url b). \<nexists>t. e = Respond t"
    "\<forall>e \<in> set (job_effects ad req key n url b d). \<nexists>t. e = Respond t" for key n cands url b d
    by (auto simp: pending_effects_def job_effects_def split: option.splits if_splits)
  show ?thesis
  proof (cases "connection_target ex (ad_policy ad) req")
    case (Inl e)
    with assms that(1) show ?thesis by (simp add: handle_request_def)
  next
    case (Inr tgt)
    obtain host n key where tgt: "connection_target ex (ad_policy ad) req = Inr (host, n, key)"
      using Inr by (cases tgt) auto
    obtain c w1 where c: "resolve_cached_decision ex (nt_normalized_key n) n w = (c, w1)" by fastforce
    show ?thesis
    proof (cases c)
      case (Some ds)
      with assms tgt c show ?thesis
        by (cases ds) (auto simp: handle_request_def Let_def record_canonicalization_def
            intro!: that(2) split: option.splits if_splits)
    next
      case None
      define preq where "preq = \<lparr>pdr_normalized_key = nt_normalized_key n,
          pdr_entity_level = nt_entity_level n, pdr_source_ip = host,
          pdr_user_id = id_user_id (extract_identity (ir_headers req)),
          pdr_group_ids = id_group_ids (extract_identity (ir_headers req))\<rparr>"
      let ?pre = "[record_canonicalization (nt_normalized_key n) key, Metric CacheMiss,
          Http (policy_request (ad_policy_url ad) preq)]"
      show ?thesis
      proof (cases "policy_client_evaluate ex sv (ad_policy_url ad) preq")
        case (Inl e)
        with assms tgt c None show ?thesis
          by (auto simp: handle_request_def Let_def preq_def [symmetric] record_canonicalization_def
              intro!: that(3))
      next
        case (Inr d)
        obtain effs where effs: "finish_decision ex sv ad req n key d w1 =
            (cache_set ex (nt_normalized_key n) (response_decision_of (ad_cfg ad) d)
               (response_ttl (ad_cfg ad) d) w1,
             effs @ [Respond (icap_response (pd_action (response_decision_of (ad_cfg ad) d)))])"
          "\<forall>e \<in> set effs. \<nexists>t. e = Respond t"
          using quiet by (auto simp: finish_decision_def Let_def) (metis Un_iff append_assoc set_append)
        show ?thesis
          using that(4) [OF tgt, of w1 preq d "?pre @ effs"] assms tgt c None Inr effs
          by (simp add: handle_request_def Let_def preq_def [symmetric])
            (simp add: preq_def record_canonicalization_def)
      qed
    qed
  qed
qed

text \<open>A connection leaves the cache as it is or stores an answer of the engine it has asked.\<close>

lemma handle_request_stores:
  assumes "handle_request ex sv ad req w = (r, w', effects)"
  shows "cw_memory w' = cw_memory w \<and> cw_redis w' = cw_redis w \<or>
    (\<exists>preq d ttl w1. (preq, d) \<in> connection_answers ex sv ad effects \<and>
       cw_memory w1 = cw_memory w \<and> cw_redis w1 = cw_redis w \<and>
       w' = cache_set ex (pdr_normalized_key preq) (response_decision_of (ad_cfg ad) d) ttl w1)"
  using assms
proof (cases rule: handle_request_cases)
  case (bad e)
  then show ?thesis by simp
next
  case (hit host n key d src effs)
  then show ?thesis using resolve_cached_frame by blast
next
  case (failed host n key preq e)
  then show ?thesis using resolve_cached_frame by blast
next
  case (answered host n key w1 preq d effs)
  then have "(preq, d) \<in> connection_answers ex sv ad effects" by (simp add: connection_answers_def)
  then show ?thesis using answered(3,6) resolve_cached_frame [OF answered(2)] by metis
qed

lemma handle_connection_stores:
  assumes "handle_connection ex sv ad raw w = (r, w', effects)"
  obtains (kept) "cw_memory w' = cw_memory w" "cw_redis w' = cw_redis w"
  | (stored) preq d ttl w1 where "(preq, d) \<in> connection_answers ex sv ad effects"
      "cw_memory w1 = cw_memory w" "cw_redis w1 = cw_redis w"
      "w' = cache_set ex (pdr_normalized_key preq) (response_decision_of (ad_cfg ad) d) ttl w1"
  using assms handle_request_stores
  by (auto simp: handle_connection_def split: sum.splits if_splits) metis+

lemma handle_connection_explained:
  fixes hist :: "(policy_decision_request \<times> policy_decision) set"
  assumes "handle_connection ex sv ad raw w = (r, w', effects)"
  defines "hist' \<equiv> connection_answers ex sv ad effects \<union> hist"
  shows "(memory_explained (ad_cfg ad) hist k w \<longrightarrow> memory_explained (ad_cfg ad) hist' k w') \<and>
    (redis_explained ex (ad_cfg ad) hist k w \<longrightarrow> redis_explained ex (ad_cfg ad) hist' k w')"
proof -
  have sub: "hist \<subseteq> hist'" by (simp add: hist'_def)
  from assms(1) show ?thesis
  proof (cases rule: handle_connection_stores)
    case kept
    then show ?thesis using explained_mono [OF _ sub] explained_frame by metis
  next
    case (stored preq d ttl w1)
    have "cached_answer (ad_cfg ad) hist' (pdr_normalized_key preq) (response_decision_of (ad_cfg ad) d)"
      using stored(1) by (auto simp: cached_answer_def hist'_def)
    note keep = cache_set_explained [OF this, where k = k and w = w1 and ttl = ttl]
    show ?thesis
      using keep explained_mono [OF _ sub] explained_frame(1) [OF _ stored(2)] explained_frame(2) [OF _ stored(3)]
      unfolding stored(4) by blast
  qed
qed

lemma adaptor_run_explained: "adaptor_run ex ad hist w \<Longrightarrow> cache_explained ex (ad_cfg ad) hist w"
proof (induction rule: adaptor_run.induct)
  case (start w redis)
  then show ?case by (simp add: cache_explained_def memory_explained_def redis_explained_def cache_new_def)
next
  case (connection hist w sv raw r w' effects)
  then show ?case unfolding cache_explained_def using handle_connection_explained [OF connection(2)] by metis
next
  case (message hist w payload r w')
  then show ?case unfolding cache_explained_def using apply_invalidation_explained [OF message(2)] by blast
next
  case (clock hist w n)
  then show ?case using cache_explained_frame [of ex "ad_cfg ad" hist w] by (simp add: cache_sleep_def)
next
  case (redis_deletion hist w keep)
  then show ?case
    by (auto simp: cache_explained_def memory_explained_def redis_explained_def restrict_map_def split: if_splits)
qed

section \<open>From a given state on\<close>




section \<open>When a request passes\<close>

text \<open>An answer that lets a request pass: an allow, and content known where that is required.\<close>

definition lets_pass :: "icap_config \<Rightarrow> policy_decision \<Rightarrow> bool" where
  "lets_pass cfg d \<longleftrightarrow>
     pd_action d \<in> {Allow, Monitor} \<and>
     (ic_require_content cfg \<longrightarrow>
        (\<exists>v. pd_verdict d = Some v \<and> \<not> eq_ignore_ascii_case (cv_primary_category v) UNKNOWN_FALLBACK))"

lemma response_decision_passes:
  "pd_action (response_decision_of cfg d) \<in> {Allow, Monitor} \<longleftrightarrow> lets_pass cfg d"
  by (cases "pd_verdict d")
    (auto simp: response_decision_of_def requires_pending_of_def should_require_content_pending_def
      lets_pass_def Let_def)

lemma options_not_204: "icap_options_response n \<noteq> no_content_response"
  by (simp add: icap_options_response_def no_content_response_def)

lemma pass_justified_request:
  assumes "json_text_ok ex" "cache_explained ex (ad_cfg ad) hist w"
    and run: "handle_request ex sv ad req w = (r, w', effects)"
    and pass: "Respond no_content_response \<in> set effects"
  shows "\<exists>host n key preq d. connection_target ex (ad_policy ad) req = Inr (host, n, key) \<and>
    (preq, d) \<in> connection_answers ex sv ad effects \<union> hist \<and>
    pdr_normalized_key preq \<in> answering_keys n \<and> lets_pass (ad_cfg ad) d"
  using run
proof (cases rule: handle_request_cases)
  case (bad e)
  with pass show ?thesis by simp
next
  case (hit host n key d src effs)
  then have "pd_action d \<in> {Allow, Monitor}" using pass icap_response_204 [of "pd_action d"] by auto
  moreover obtain k where "k \<in> answering_keys n" "cached_answer (ad_cfg ad) hist k d"
    using resolve_cached_explained [OF assms(1,2) hit(2)] by blast
  ultimately show ?thesis
    using hit(1) response_decision_passes by (fastforce simp: cached_answer_def)
next
  case (failed host n key preq e)
  with pass show ?thesis by blast
next
  case (answered host n key w1 preq d effs)
  then have "pd_action (response_decision_of (ad_cfg ad) d) \<in> {Allow, Monitor}"
    using pass icap_response_204 [of "pd_action (response_decision_of (ad_cfg ad) d)"] by auto
  then have "lets_pass (ad_cfg ad) d" by (simp only: response_decision_passes)
  moreover have "(preq, d) \<in> connection_answers ex sv ad effects"
    using answered by (simp add: connection_answers_def)
  ultimately show ?thesis using answered by (auto simp: answering_keys_def)
qed

lemma handle_connection_one_response:
  assumes "handle_connection ex sv ad raw w = (Inr (), w', effects)"
  shows "\<exists>effs t. effects = effs @ [Respond t] \<and> (\<forall>e \<in> set effs. \<nexists>u. e = Respond u)"
proof (cases "icap_parse ex raw")
  case (Inl e)
  with assms show ?thesis by (simp add: handle_connection_def)
next
  case (Inr req)
  show ?thesis
  proof (cases "eq_ignore_ascii_case (ir_method req) ''OPTIONS''")
    case True
    with Inr assms show ?thesis by (auto simp: handle_connection_def)
  next
    case False
    with Inr assms have "handle_request ex sv ad req w = (Inr (), w', effects)"
      by (simp add: handle_connection_def)
    then show ?thesis by (cases rule: handle_request_cases) auto
  qed
qed

lemma handle_connection_error_silent:
  assumes "handle_connection ex sv ad raw w = (Inl err, w', effects)"
  shows "\<forall>e \<in> set effects. \<nexists>u. e = Respond u"
proof (cases "icap_parse ex raw")
  case (Inl e)
  with assms show ?thesis by (simp add: handle_connection_def)
next
  case (Inr req)
  then have "handle_request ex sv ad req w = (Inl err, w', effects)"
    using assms by (auto simp: handle_connection_def split: if_splits)
  then show ?thesis by (cases rule: handle_request_cases) auto
qed

section \<open>Policy calls\<close>

lemma policy_request_inj:
  "policy_request u a = policy_request u b \<Longrightarrow> pdr_source_ip a = pdr_source_ip b"
  by (simp add: policy_request_def decision_request_to_json_def)

lemma policy_request_not_pending:
  "policy_request u a \<noteq> upsert_pending sv c k b" "policy_request u a \<noteq> clear_pending sv c k"
  by (simp_all add: policy_request_def upsert_pending_def clear_pending_def pending_request_def
      decision_request_to_json_def)

lemma no_policy_call_in_follow_up:
  "Http (policy_request u a) \<notin> set (pending_effects ex sv ad req key n cands url b)"
  "Http (policy_request u a) \<notin> set (job_effects ad req key n url b d)"
  using policy_request_not_pending
  by (auto simp: pending_effects_def job_effects_def split: option.splits if_splits)

lemma handle_request_policy_call:
  assumes "handle_request ex sv ad req w = (r, w', effects)"
    "connection_target ex (ad_policy ad) req = Inr (host, n, key)"
    "Http (policy_request (ad_policy_url ad) preq) \<in> set effects"
  shows "pdr_source_ip preq = host"
proof -
  obtain c w1 where c: "resolve_cached_decision ex (nt_normalized_key n) n w = (c, w1)" by fastforce
  show ?thesis
  proof (cases c)
    case (Some ds)
    with assms c policy_request_not_pending show ?thesis
      by (cases ds) (auto simp: handle_request_def Let_def record_canonicalization_def
          split: option.splits if_splits)
  next
    case None
    define call where "call = \<lparr>pdr_normalized_key = nt_normalized_key n,
        pdr_entity_level = nt_entity_level n, pdr_source_ip = host,
        pdr_user_id = id_user_id (extract_identity (ir_headers req)),
        pdr_group_ids = id_group_ids (extract_identity (ir_headers req))\<rparr>"
    have "policy_request (ad_policy_url ad) preq = policy_request (ad_policy_url ad) call"
      using assms c None no_policy_call_in_follow_up
      by (cases "policy_client_evaluate ex sv (ad_policy_url ad) call")
        (auto simp: handle_request_def Let_def record_canonicalization_def call_def [symmetric]
          finish_decision_def)
    from policy_request_inj [OF this] show ?thesis by (simp add: call_def)
  qed
qed

section \<open>Properties\<close>

text \<open>
  C2: a request passes only on the word of the policy engine.  In every state the adaptor can
  reach, if a connection is answered with the 204 that lets the request through, then the policy
  engine, in this connection or an earlier one, answered for the key of the request or for the
  key of its registered domain with an allow or a monitor, and, where content is required, with a
  verdict whose category is known.
\<close>

theorem pass_needs_policy_answer:
  assumes "json_text_ok ex" "adaptor_run ex ad hist w"
    and "icap_parse ex raw = Inr req"
    and "handle_connection ex sv ad raw w = (r, w', effects)"
    and "Respond no_content_response \<in> set effects"
  shows "\<exists>host n key preq d. connection_target ex (ad_policy ad) req = Inr (host, n, key) \<and>
    (preq, d) \<in> connection_answers ex sv ad effects \<union> hist \<and>
    pdr_normalized_key preq \<in> answering_keys n \<and>
    pd_action d \<in> {Allow, Monitor} \<and>
    (ic_require_content (ad_cfg ad) \<longrightarrow>
       (\<exists>v. pd_verdict d = Some v \<and> \<not> eq_ignore_ascii_case (cv_primary_category v) UNKNOWN_FALLBACK))"
proof -
  have "handle_request ex sv ad req w = (r, w', effects)"
    using assms(3-5) options_not_204 options_not_204 [symmetric]
    by (auto simp: handle_connection_def split: if_splits)
  from pass_justified_request [OF assms(1) adaptor_run_explained [OF assms(2)] this assms(5)]
  show ?thesis by (auto simp: lets_pass_def)
qed


text \<open>
  One response per connection.  A connection that ends without an error has written exactly
  one response, as its last effect; a connection that ends with an error has written none.
\<close>

theorem one_response_per_connection:
  assumes "handle_connection ex sv ad raw w = (r, w', effects)"
  shows "(case r of
      Inr _ \<Rightarrow> (\<exists>effs t. effects = effs @ [Respond t] \<and> (\<forall>e \<in> set effs. \<nexists>u. e = Respond u))
    | Inl _ \<Rightarrow> (\<forall>e \<in> set effects. \<nexists>u. e = Respond u))"
proof (cases r)
  case (Inl e)
  with assms handle_connection_error_silent show ?thesis by simp
next
  case (Inr u)
  with assms handle_connection_one_response show ?thesis by simp
qed

text \<open>
  C28: unclassified content is held back.  When the policy engine allows a request without a known
  category and content is required, the response is the pending page, the pending decision is
  cached for thirty seconds at least, and a configured job queue receives a job that asks for
  content.
\<close>

theorem unclassified_content_is_held:
  assumes "ic_require_content (ad_cfg ad)" "pd_action d \<in> {Allow, Monitor}"
    and "\<forall>v. pd_verdict d = Some v \<longrightarrow> eq_ignore_ascii_case (cv_primary_category v) UNKNOWN_FALLBACK"
    and "finish_decision ex sv ad req n key d w = (w', effects)"
  shows "last effects = Respond (icap_response ContentPending) \<and>
    (\<exists>t. cw_memory w' (nt_normalized_key n) =
       Some \<lparr>ce_decision = d\<lparr>pd_action := ContentPending, pd_verdict := None\<rparr>, ce_expires_at = t\<rparr> \<and>
       cw_now w + 30000 \<le> t) \<and>
    (\<forall>stream. ad_job_stream ad = Some stream \<longrightarrow>
      (\<exists>job. Enqueue stream (classification_job_to_json job) \<in> set effects \<and> cj_requires_content job \<and>
         cj_normalized_key job = key))"
proof -
  have p: "requires_pending_of (ad_cfg ad) d"
    using assms(1-3)
    by (cases "pd_verdict d")
      (auto simp: requires_pending_of_def should_require_content_pending_def Let_def)
  have "cw_memory w' = cw_memory (memory_set (nt_normalized_key n)
      (response_decision_of (ad_cfg ad) d) (response_ttl (ad_cfg ad) d) w)"
    using assms(4) by (auto simp: finish_decision_def Let_def cache_set_memory)
  moreover have "response_decision_of (ad_cfg ad) d = d\<lparr>pd_action := ContentPending, pd_verdict := None\<rparr>"
    using p by (simp add: response_decision_of_def)
  moreover have "30000 \<le> response_ttl (ad_cfg ad) d" using p by (simp add: response_ttl_def)
  moreover have "\<exists>job. Enqueue stream (classification_job_to_json job) \<in> set effects \<and>
      cj_requires_content job \<and> cj_normalized_key job = key"
    if "ad_job_stream ad = Some stream" for stream
    using assms(4) p that by (fastforce simp: finish_decision_def Let_def job_effects_def)
  ultimately show ?thesis
    using assms(4) by (auto simp: finish_decision_def Let_def memory_set_def)
qed

text \<open>
  The source address the engine sees is the destination.  Every policy request of a connection
  carries the host of the HTTP request in the field of the client's address.
\<close>

theorem source_ip_is_destination:
  assumes "icap_parse ex raw = Inr req" "ir_http_host req = Some host"
    and "handle_connection ex sv ad raw w = (r, w', effects)"
    and "Http (policy_request (ad_policy_url ad) preq) \<in> set effects"
  shows "pdr_source_ip preq = host"
proof -
  have run: "handle_request ex sv ad req w = (r, w', effects)"
    using assms(1,3,4) by (auto simp: handle_connection_def split: if_splits)
  show ?thesis
  proof (cases "connection_target ex (ad_policy ad) req")
    case (Inl e)
    with run assms(4) show ?thesis by (simp add: handle_request_def)
  next
    case (Inr tgt)
    obtain h n key where tgt: "connection_target ex (ad_policy ad) req = Inr (h, n, key)"
      using Inr by (cases tgt) auto
    have "h = host" using tgt assms(2) by (auto simp: connection_target_def res_simps)
    with handle_request_policy_call [OF run tgt assms(4)] show ?thesis by simp
  qed
qed

end
