(* ===== verification/Taxonomy.thy ===== *)
theory Taxonomy
  imports Common_Types
begin

text \<open>
  The canonical taxonomy and its lookup store, \<^verbatim>\<open>crates/taxonomy/src/lib.rs\<close>.

  \<open>validate\<close> is the load-time check; \<open>taxonomy_store_new\<close> builds the four look-up tables and the
  index of the unknown category; \<open>validate_labels\<close> and \<open>validate_category\<close> resolve the labels a
  classifier or an operator wrote.  Indexing out of range is a panic of the source and an
  \<open>Inl (Panic _)\<close> here; \<open>store_wf\<close> is the invariant under which it never happens.
\<close>

section \<open>Data\<close>

definition UNKNOWN_CATEGORY_ID :: string where
  "UNKNOWN_CATEGORY_ID = ''unknown-unclassified''"

definition UNKNOWN_DEFAULT_SUBCATEGORY_ID :: string where
  "UNKNOWN_DEFAULT_SUBCATEGORY_ID = ''insufficient-evidence''"

record canonical_subcategory =
  sub_id :: string
  sub_name :: string
  sub_always_enabled :: "bool option"

record canonical_category =
  cat_id :: string
  cat_name :: string
  cat_always_enabled :: "bool option"
  cat_subcategories :: "canonical_subcategory list"

record canonical_taxonomy =
  tax_version :: string
  tax_source :: "string option"
  tax_categories :: "canonical_category list"

datatype fallback_reason =
  MissingCategory | UnknownCategory | MissingSubcategory | UnknownSubcategory

fun fallback_reason_as_str :: "fallback_reason \<Rightarrow> string" where
  "fallback_reason_as_str MissingCategory = ''missing_category''"
| "fallback_reason_as_str UnknownCategory = ''unknown_category''"
| "fallback_reason_as_str MissingSubcategory = ''missing_subcategory''"
| "fallback_reason_as_str UnknownSubcategory = ''unknown_subcategory''"

section \<open>Loading and validation\<close>

fun validate_subcategories :: "string \<Rightarrow> string set \<Rightarrow> canonical_subcategory list \<Rightarrow> unit res" where
  "validate_subcategories cid seen [] = Inr ()"
| "validate_subcategories cid seen (s # ss) =
     (if sub_id s \<in> seen then
        Inl (Error (''duplicate subcategory id detected within '' @ cid @ '': '' @ sub_id s))
      else validate_subcategories cid (insert (sub_id s) seen) ss)"

fun validate_categories :: "string set \<Rightarrow> canonical_category list \<Rightarrow> unit res" where
  "validate_categories seen [] = Inr ()"
| "validate_categories seen (c # cs) =
     (if cat_id c \<in> seen then Inl (Error (''duplicate category id detected: '' @ cat_id c))
      else if cat_subcategories c = [] then
        Inl (Error (''category '' @ cat_id c @ '' must contain at least one subcategory''))
      else bind_res (validate_subcategories (cat_id c) {} (cat_subcategories c))
             (\<lambda>_. validate_categories (insert (cat_id c) seen) cs))"

definition validate :: "canonical_taxonomy \<Rightarrow> unit res" where
  "validate t =
     (if trim (tax_version t) = [] then Inl (Error ''taxonomy version must be non-empty'')
      else bind_res (validate_categories {} (tax_categories t)) (\<lambda>_.
        if length (tax_categories t) \<noteq> 41 then
          Inl (Error (''expected 41 canonical categories, found '' @ show_nat (length (tax_categories t))))
        else if \<not> list_ex (\<lambda>c. cat_id c = UNKNOWN_CATEGORY_ID) (tax_categories t) then
          Inl (Error ''missing unknown-unclassified category'')
        else Inr ()))"

definition subcategory_of_json :: "json \<Rightarrow> canonical_subcategory option" where
  "subcategory_of_json j =
     Option.bind (fields_of [''id'', ''name'', ''always_enabled''] j) (\<lambda>fs.
     Option.bind (req_field string_of_json ''id'' fs) (\<lambda>i.
     Option.bind (req_field string_of_json ''name'' fs) (\<lambda>n.
     Option.bind (opt_field bool_of_json ''always_enabled'' fs) (\<lambda>a.
       Some \<lparr>sub_id = i, sub_name = n, sub_always_enabled = a\<rparr>))))"

definition category_of_json :: "json \<Rightarrow> canonical_category option" where
  "category_of_json j =
     Option.bind (fields_of [''id'', ''name'', ''always_enabled'', ''subcategories''] j) (\<lambda>fs.
     Option.bind (req_field string_of_json ''id'' fs) (\<lambda>i.
     Option.bind (req_field string_of_json ''name'' fs) (\<lambda>n.
     Option.bind (opt_field bool_of_json ''always_enabled'' fs) (\<lambda>a.
     Option.bind (default_field [] (list_of_json subcategory_of_json) ''subcategories'' fs) (\<lambda>ss.
       Some \<lparr>cat_id = i, cat_name = n, cat_always_enabled = a, cat_subcategories = ss\<rparr>)))))"

definition taxonomy_of_json :: "json \<Rightarrow> canonical_taxonomy option" where
  "taxonomy_of_json j =
     Option.bind (fields_of [''version'', ''source'', ''categories''] j) (\<lambda>fs.
     Option.bind (req_field string_of_json ''version'' fs) (\<lambda>v.
     Option.bind (opt_field string_of_json ''source'' fs) (\<lambda>s.
     Option.bind (req_field (list_of_json category_of_json) ''categories'' fs) (\<lambda>cs.
       Some \<lparr>tax_version = v, tax_source = s, tax_categories = cs\<rparr>))))"

text \<open>\<open>body\<close> is the outcome of reading the file at \<open>path\<close>.\<close>

definition taxonomy_load :: "externs \<Rightarrow> string \<Rightarrow> string option \<Rightarrow> canonical_taxonomy res" where
  "taxonomy_load ex path body =
     bind_res (ok_or (Error (''failed to read canonical taxonomy file at '' @ path)) body) (\<lambda>text.
     bind_res (ok_or (Error (''failed to parse canonical taxonomy JSON at '' @ path))
                (Option.bind (json_of_text ex text) taxonomy_of_json)) (\<lambda>t.
     bind_res (validate t) (\<lambda>_. Inr t)))"

section \<open>Labels\<close>

fun squeeze_label :: "bool \<Rightarrow> string \<Rightarrow> string" where
  "squeeze_label last_was_space [] = []"
| "squeeze_label last_was_space (ch # cs) =
     (let lower = ascii_lower ch;
          mapped = (if is_ascii_digit lower \<or> is_ascii_lower lower then lower else CHR '' '')
      in if mapped = CHR '' '' then
           (if last_was_space then squeeze_label True cs else CHR '' '' # squeeze_label True cs)
         else mapped # squeeze_label False cs)"

definition normalize_label :: "string \<Rightarrow> string option" where
  "normalize_label value =
     (let trimmed = trim value
      in if trimmed = [] then None
         else (let normalized = trim (squeeze_label False trimmed)
               in if normalized = [] then None else Some normalized))"

definition CATEGORY_ALIAS_PAIRS :: "(string \<times> string) list" where
  "CATEGORY_ALIAS_PAIRS =
     [(''social'', ''social-media''),
      (''social networking'', ''social-media''),
      (''shopping'', ''shopping-e-commerce''),
      (''ecommerce'', ''shopping-e-commerce''),
      (''malware'', ''malware-phishing-fraud''),
      (''phishing'', ''malware-phishing-fraud''),
      (''fraud'', ''malware-phishing-fraud''),
      (''adult'', ''adult-sexual-content''),
      (''sexual content'', ''adult-sexual-content''),
      (''advertising'', ''advertisements''),
      (''ads'', ''advertisements''),
      (''adtech'', ''advertisements''),
      (''ad network'', ''advertisements''),
      (''unknown'', ''unknown-unclassified'')]"

definition SUBCATEGORY_ALIAS_PAIRS :: "(string \<times> string \<times> string) list" where
  "SUBCATEGORY_ALIAS_PAIRS =
     [(''social-media'', ''short form video'', ''short-video-platforms''),
      (''social-media'', ''social networking'', ''social-networks''),
      (''social-media'', ''social network'', ''social-networks''),
      (''social-media'', ''general social networking'', ''social-networks''),
      (''news-media'', ''general'', ''general-news''),
      (''shopping-e-commerce'', ''retail'', ''general-retail''),
      (UNKNOWN_CATEGORY_ID, ''unknown'', UNKNOWN_DEFAULT_SUBCATEGORY_ID),
      (''advertisements'', ''advertisement'', ''general-advertising''),
      (''advertisements'', ''ads'', ''general-advertising''),
      (''advertisements'', ''advertising network'', ''general-advertising'')]"

section \<open>The store\<close>

type_synonym index_map = "string \<rightharpoonup> nat"

record taxonomy_store =
  ts_taxonomy :: canonical_taxonomy
  ts_category_by_id :: index_map
  ts_category_lookup :: index_map
  ts_subcategory_by_id :: "string \<rightharpoonup> index_map"
  ts_subcategory_lookup :: "string \<rightharpoonup> index_map"
  ts_unknown_category_index :: nat
  ts_unknown_default_subcategory_index :: nat

text \<open>The local variables of the construction loop.\<close>

record tax_index =
  ix_category_by_id :: index_map
  ix_category_lookup :: index_map
  ix_subcategory_by_id :: "string \<rightharpoonup> index_map"
  ix_subcategory_lookup :: "string \<rightharpoonup> index_map"
  ix_unknown_category :: "nat option"
  ix_unknown_default_subcategory :: "nat option"

definition insert_label :: "string \<Rightarrow> string \<Rightarrow> nat \<Rightarrow> index_map \<Rightarrow> index_map" where
  "insert_label name ident i m =
     (let m1 = (case normalize_label name of None \<Rightarrow> m | Some n \<Rightarrow> m(n \<mapsto> i))
      in case normalize_label ident of None \<Rightarrow> m1 | Some n \<Rightarrow> or_insert n i m1)"

fun index_subcategories ::
  "string \<Rightarrow> nat \<Rightarrow> canonical_subcategory list \<Rightarrow> index_map \<times> index_map \<times> nat option
   \<Rightarrow> index_map \<times> index_map \<times> nat option" where
  "index_subcategories cid i [] acc = acc"
| "index_subcategories cid i (s # ss) (by_id, lookup, unk) =
     index_subcategories cid (Suc i) ss
       (by_id(sub_id s \<mapsto> i),
        insert_label (sub_name s) (sub_id s) i lookup,
        if cid = UNKNOWN_CATEGORY_ID \<and> sub_id s = UNKNOWN_DEFAULT_SUBCATEGORY_ID
        then Some i else unk)"

definition index_category :: "nat \<Rightarrow> canonical_category \<Rightarrow> tax_index \<Rightarrow> tax_index" where
  "index_category i c ix =
     (let (subs_by_id, subs_lookup, unk_sub) =
            index_subcategories (cat_id c) 0 (cat_subcategories c)
              (Map.empty, Map.empty, ix_unknown_default_subcategory ix)
      in \<lparr>ix_category_by_id = (ix_category_by_id ix)(cat_id c \<mapsto> i),
          ix_category_lookup = insert_label (cat_name c) (cat_id c) i (ix_category_lookup ix),
          ix_subcategory_by_id = (ix_subcategory_by_id ix)(cat_id c \<mapsto> subs_by_id),
          ix_subcategory_lookup = (ix_subcategory_lookup ix)(cat_id c \<mapsto> subs_lookup),
          ix_unknown_category =
            (if cat_id c = UNKNOWN_CATEGORY_ID then Some i else ix_unknown_category ix),
          ix_unknown_default_subcategory = unk_sub\<rparr>)"

fun index_categories :: "nat \<Rightarrow> canonical_category list \<Rightarrow> tax_index \<Rightarrow> tax_index" where
  "index_categories i [] ix = ix"
| "index_categories i (c # cs) ix = index_categories (Suc i) cs (index_category i c ix)"

definition empty_index :: tax_index where
  "empty_index =
     \<lparr>ix_category_by_id = Map.empty, ix_category_lookup = Map.empty,
      ix_subcategory_by_id = Map.empty, ix_subcategory_lookup = Map.empty,
      ix_unknown_category = None, ix_unknown_default_subcategory = None\<rparr>"

definition add_category_alias :: "string \<times> string \<Rightarrow> taxonomy_store \<Rightarrow> taxonomy_store" where
  "add_category_alias pair st =
     (case pair of (alias, category_id) \<Rightarrow>
        (case ts_category_by_id st category_id of
           None \<Rightarrow> st
         | Some idx \<Rightarrow>
             (case normalize_label alias of
                None \<Rightarrow> st
              | Some n \<Rightarrow> st\<lparr>ts_category_lookup := or_insert n idx (ts_category_lookup st)\<rparr>)))"

definition apply_category_aliases :: "taxonomy_store \<Rightarrow> taxonomy_store" where
  "apply_category_aliases st = fold add_category_alias CATEGORY_ALIAS_PAIRS st"

definition add_subcategory_alias ::
  "string \<times> string \<times> string \<Rightarrow> taxonomy_store \<Rightarrow> taxonomy_store" where
  "add_subcategory_alias entry st =
     (case entry of (category_id, alias, subcategory_id) \<Rightarrow>
        (case Option.bind (ts_subcategory_by_id st category_id) (\<lambda>m. m subcategory_id) of
           None \<Rightarrow> st
         | Some sub_idx \<Rightarrow>
             (case (normalize_label alias, ts_subcategory_lookup st category_id) of
                (Some n, Some lookup) \<Rightarrow>
                  st\<lparr>ts_subcategory_lookup :=
                       (ts_subcategory_lookup st)(category_id \<mapsto> or_insert n sub_idx lookup)\<rparr>
              | _ \<Rightarrow> st)))"

definition apply_subcategory_aliases :: "taxonomy_store \<Rightarrow> taxonomy_store" where
  "apply_subcategory_aliases st = fold add_subcategory_alias SUBCATEGORY_ALIAS_PAIRS st"

definition taxonomy_store_new :: "canonical_taxonomy \<Rightarrow> taxonomy_store res" where
  "taxonomy_store_new t =
     (let ix = index_categories 0 (tax_categories t) empty_index
      in bind_res (ok_or (Panic ''missing unknown category'') (ix_unknown_category ix)) (\<lambda>unk.
           Inr (apply_subcategory_aliases (apply_category_aliases
             \<lparr>ts_taxonomy = t,
              ts_category_by_id = ix_category_by_id ix,
              ts_category_lookup = ix_category_lookup ix,
              ts_subcategory_by_id = ix_subcategory_by_id ix,
              ts_subcategory_lookup = ix_subcategory_lookup ix,
              ts_unknown_category_index = unk,
              ts_unknown_default_subcategory_index =
                (case ix_unknown_default_subcategory ix of None \<Rightarrow> 0 | Some i \<Rightarrow> i)\<rparr>))))"

section \<open>Resolution\<close>

record validated_labels =
  vl_category :: canonical_category
  vl_subcategory :: canonical_subcategory
  vl_fallback_reason :: "fallback_reason option"
  vl_normalized_category :: "string option"
  vl_normalized_subcategory :: "string option"

record validated_category =
  vc_category :: canonical_category
  vc_fallback_reason :: "fallback_reason option"
  vc_normalized_category :: "string option"

datatype subcategory_resolution = Match nat | Fallback fallback_reason

definition index_res :: "'a list \<Rightarrow> nat \<Rightarrow> 'a res" where
  "index_res xs i = (if i < length xs then Inr (xs ! i) else Inl (Panic ''index out of bounds''))"

definition category_by_index :: "taxonomy_store \<Rightarrow> nat \<Rightarrow> canonical_category res" where
  "category_by_index st i = index_res (tax_categories (ts_taxonomy st)) i"

definition subcategory_by_index :: "taxonomy_store \<Rightarrow> nat \<Rightarrow> nat \<Rightarrow> canonical_subcategory res" where
  "subcategory_by_index st ci si =
     bind_res (category_by_index st ci) (\<lambda>c. index_res (cat_subcategories c) si)"

definition resolve_category ::
  "taxonomy_store \<Rightarrow> string \<Rightarrow> string option \<Rightarrow> nat \<times> fallback_reason option" where
  "resolve_category st input normalized =
     (case ts_category_by_id st input of
        Some idx \<Rightarrow> (idx, None)
      | None \<Rightarrow>
          (case Option.bind normalized (ts_category_lookup st) of
             Some idx \<Rightarrow> (idx, None)
           | None \<Rightarrow>
               (ts_unknown_category_index st,
                Some (if input = [] then MissingCategory else UnknownCategory))))"

definition resolve_subcategory ::
  "taxonomy_store \<Rightarrow> nat \<Rightarrow> string option \<Rightarrow> string option \<Rightarrow> subcategory_resolution option res" where
  "resolve_subcategory st ci input normalized =
     bind_res (category_by_index st ci) (\<lambda>category. Inr
       (case ts_subcategory_by_id st (cat_id category) of
          None \<Rightarrow> None
        | Some by_id \<Rightarrow>
            (case Option.bind input by_id of
               Some idx \<Rightarrow> Some (Match idx)
             | None \<Rightarrow>
                 (case Option.bind normalized
                    (\<lambda>n. Option.bind (ts_subcategory_lookup st (cat_id category)) (\<lambda>m. m n)) of
                    Some idx \<Rightarrow> Some (Match idx)
                  | None \<Rightarrow>
                      Some (Fallback (if input = None then MissingSubcategory
                                      else UnknownSubcategory))))))"

definition clean_label :: "string option \<Rightarrow> string option" where
  "clean_label subcategory =
     Option.bind subcategory (\<lambda>v. let trimmed = trim v in if trimmed = [] then None else Some trimmed)"

definition validate_labels ::
  "taxonomy_store \<Rightarrow> string \<Rightarrow> string option \<Rightarrow> validated_labels res" where
  "validate_labels st category subcategory =
     (let trimmed_category = trim category;
          normalized_category = normalize_label trimmed_category;
          (ci, reason) = resolve_category st trimmed_category normalized_category;
          cleaned = clean_label subcategory;
          normalized_subcategory = Option.bind cleaned normalize_label;
          unknown = (ts_unknown_category_index st, ts_unknown_default_subcategory_index st);
          keep = (\<lambda>r. if reason = None then Some r else reason)
      in bind_res
           (if ci = ts_unknown_category_index st then Inr (unknown, reason)
            else bind_res (resolve_subcategory st ci cleaned normalized_subcategory) (\<lambda>r. Inr
                   (case r of
                      Some (Match idx) \<Rightarrow> ((ci, idx), reason)
                    | Some (Fallback fr) \<Rightarrow> (unknown, keep fr)
                    | None \<Rightarrow> (unknown, keep MissingSubcategory))))
           (\<lambda>((ci, si), reason).
              bind_res (category_by_index st ci) (\<lambda>c.
              bind_res (subcategory_by_index st ci si) (\<lambda>s. Inr
                \<lparr>vl_category = c, vl_subcategory = s, vl_fallback_reason = reason,
                 vl_normalized_category = normalized_category,
                 vl_normalized_subcategory = normalized_subcategory\<rparr>))))"

definition validate_category :: "taxonomy_store \<Rightarrow> string \<Rightarrow> validated_category res" where
  "validate_category st category =
     (let trimmed_category = trim category;
          normalized_category = normalize_label trimmed_category;
          (ci, reason) = resolve_category st trimmed_category normalized_category
      in bind_res (category_by_index st ci) (\<lambda>c. Inr
           \<lparr>vc_category = c, vc_fallback_reason = reason,
            vc_normalized_category = normalized_category\<rparr>))"

section \<open>Validated taxonomies\<close>

definition taxonomy_ok :: "canonical_taxonomy \<Rightarrow> bool" where
  "taxonomy_ok t \<longleftrightarrow>
     distinct (map cat_id (tax_categories t)) \<and>
     (\<forall>c \<in> set (tax_categories t).
        cat_subcategories c \<noteq> [] \<and> distinct (map sub_id (cat_subcategories c))) \<and>
     UNKNOWN_CATEGORY_ID \<in> cat_id ` set (tax_categories t)"

lemma validate_subcategories_iff:
  "validate_subcategories cid seen ss = Inr u \<longleftrightarrow>
     distinct (map sub_id ss) \<and> seen \<inter> sub_id ` set ss = {}"
  by (induction ss arbitrary: seen) auto

lemma validate_categories_iff:
  "validate_categories seen cs = Inr u \<longleftrightarrow>
     distinct (map cat_id cs) \<and> seen \<inter> cat_id ` set cs = {} \<and>
     (\<forall>c \<in> set cs. cat_subcategories c \<noteq> [] \<and> distinct (map sub_id (cat_subcategories c)))"
  by (induction cs arbitrary: seen) (auto simp: res_simps validate_subcategories_iff)

lemma validate_iff:
  "validate t = Inr u \<longleftrightarrow>
     trim (tax_version t) \<noteq> [] \<and> taxonomy_ok t \<and> length (tax_categories t) = 41"
  by (auto simp: validate_def res_simps validate_categories_iff taxonomy_ok_def list_ex_iff)
    (metis image_eqI)

lemma taxonomy_load_ok: "taxonomy_load ex path body = Inr t \<Longrightarrow> taxonomy_ok t"
  by (auto simp: taxonomy_load_def res_simps validate_iff)

section \<open>Index tables\<close>

text \<open>
  \<open>ids_indexed ids n m\<close>: the table \<open>m\<close> is the inverse of the first \<open>n\<close> identifiers.
  \<open>below n m\<close>: every index of \<open>m\<close> is less than \<open>n\<close>.
\<close>

definition ids_indexed :: "string list \<Rightarrow> nat \<Rightarrow> index_map \<Rightarrow> bool" where
  "ids_indexed ids n m \<longleftrightarrow> (\<forall>k j. m k = Some j \<longleftrightarrow> j < n \<and> ids ! j = k)"

definition below :: "nat \<Rightarrow> index_map \<Rightarrow> bool" where
  "below n m \<longleftrightarrow> (\<forall>k j. m k = Some j \<longrightarrow> j < n)"

lemma ids_indexed_empty [simp]: "ids_indexed ids 0 Map.empty"
  by (simp add: ids_indexed_def)

lemma ids_indexed_below: "ids_indexed ids n m \<Longrightarrow> below n m"
  by (simp add: ids_indexed_def below_def)

lemma ids_indexed_step:
  assumes "distinct ids" "n < length ids" "ids_indexed ids n m"
  shows "ids_indexed ids (Suc n) (m(ids ! n \<mapsto> n))"
  unfolding ids_indexed_def
proof (intro allI)
  fix k j
  have ne: "j < n \<Longrightarrow> ids ! j \<noteq> ids ! n" using assms(1,2) by (simp add: nth_eq_iff_index_eq)
  show "(m(ids ! n \<mapsto> n)) k = Some j \<longleftrightarrow> j < Suc n \<and> ids ! j = k"
    using assms(3) ne by (auto simp: ids_indexed_def less_Suc_eq)
qed

lemma below_mono: "below n m \<Longrightarrow> n \<le> n' \<Longrightarrow> below n' m"
  by (fastforce simp: below_def)

lemma below_empty [simp]: "below n Map.empty"
  by (simp add: below_def)

lemma below_upd: "below n m \<Longrightarrow> i < n \<Longrightarrow> below n (m(k \<mapsto> i))"
  by (auto simp: below_def)

lemma below_or_insert: "below n m \<Longrightarrow> i < n \<Longrightarrow> below n (or_insert k i m)"
  by (auto simp: below_def or_insert_apply split: if_splits)

lemma below_insert_label:
  "below n m \<Longrightarrow> below (Suc n) (insert_label name ident n m)"
  by (auto simp: insert_label_def Let_def split: option.splits
      intro!: below_or_insert below_upd intro: below_mono)

lemma index_subcategories_inv:
  assumes "distinct (map sub_id (pre @ ss))"
    and "ids_indexed (map sub_id (pre @ ss)) (length pre) bi" "below (length pre) lu"
    and "index_subcategories cid (length pre) ss (bi, lu, unk) = (bi', lu', unk')"
  shows "ids_indexed (map sub_id (pre @ ss)) (length (pre @ ss)) bi' \<and> below (length (pre @ ss)) lu' \<and>
         (unk' = unk \<or> (cid = UNKNOWN_CATEGORY_ID \<and> (\<exists>i < length (pre @ ss). unk' = Some i)))"
  using assms
proof (induction ss arbitrary: pre bi lu unk)
  case (Cons s ss)
  define bi1 where "bi1 = bi(sub_id s \<mapsto> length pre)"
  define lu1 where "lu1 = insert_label (sub_name s) (sub_id s) (length pre) lu"
  define unk1 where "unk1 = (if cid = UNKNOWN_CATEGORY_ID \<and> sub_id s = UNKNOWN_DEFAULT_SUBCATEGORY_ID
    then Some (length pre) else unk)"
  have ids: "map sub_id (pre @ s # ss) ! length pre = sub_id s" by (simp add: nth_append)
  have bi: "ids_indexed (map sub_id ((pre @ [s]) @ ss)) (length (pre @ [s])) bi1"
    using ids_indexed_step [OF Cons.prems(1) _ Cons.prems(2)] by (simp only: ids bi1_def) simp
  have lu: "below (length (pre @ [s])) lu1"
    using below_insert_label [OF Cons.prems(3)] by (simp add: lu1_def)
  have run: "index_subcategories cid (length (pre @ [s])) ss (bi1, lu1, unk1) = (bi', lu', unk')"
    using Cons.prems(4) by (simp add: bi1_def lu1_def unk1_def)
  have d: "distinct (map sub_id ((pre @ [s]) @ ss))" using Cons.prems(1) by simp
  from Cons.IH [OF d bi lu run]
  show ?case unfolding unk1_def by (auto split: if_splits)
qed auto

section \<open>The store invariant\<close>

definition subs_indexed ::
  "canonical_category \<Rightarrow> (string \<rightharpoonup> index_map) \<Rightarrow> (string \<rightharpoonup> index_map) \<Rightarrow> bool" where
  "subs_indexed c by_id lookup \<longleftrightarrow>
     (\<exists>bi lu. by_id (cat_id c) = Some bi \<and> lookup (cat_id c) = Some lu \<and>
        ids_indexed (map sub_id (cat_subcategories c)) (length (cat_subcategories c)) bi \<and>
        below (length (cat_subcategories c)) lu)"

definition index_inv :: "canonical_category list \<Rightarrow> nat \<Rightarrow> tax_index \<Rightarrow> bool" where
  "index_inv cats n ix \<longleftrightarrow>
     ids_indexed (map cat_id cats) n (ix_category_by_id ix) \<and>
     below n (ix_category_lookup ix) \<and>
     (\<forall>j < n. subs_indexed (cats ! j) (ix_subcategory_by_id ix) (ix_subcategory_lookup ix)) \<and>
     (\<forall>j < n. cat_id (cats ! j) = UNKNOWN_CATEGORY_ID \<longrightarrow> ix_unknown_category ix = Some j) \<and>
     (\<forall>u. ix_unknown_category ix = Some u \<longrightarrow> u < n \<and> cat_id (cats ! u) = UNKNOWN_CATEGORY_ID) \<and>
     (\<forall>s. ix_unknown_default_subcategory ix = Some s \<longrightarrow>
        (\<exists>u < n. cat_id (cats ! u) = UNKNOWN_CATEGORY_ID \<and> s < length (cat_subcategories (cats ! u))))"

definition store_wf :: "taxonomy_store \<Rightarrow> bool" where
  "store_wf st \<longleftrightarrow>
     (let cats = tax_categories (ts_taxonomy st)
      in taxonomy_ok (ts_taxonomy st) \<and>
         ids_indexed (map cat_id cats) (length cats) (ts_category_by_id st) \<and>
         below (length cats) (ts_category_lookup st) \<and>
         (\<forall>c \<in> set cats. subs_indexed c (ts_subcategory_by_id st) (ts_subcategory_lookup st)) \<and>
         ts_unknown_category_index st < length cats \<and>
         cat_id (cats ! ts_unknown_category_index st) = UNKNOWN_CATEGORY_ID \<and>
         ts_unknown_default_subcategory_index st
           < length (cat_subcategories (cats ! ts_unknown_category_index st)))"

lemma subs_indexed_upd_other:
  "cat_id c \<noteq> k \<Longrightarrow> subs_indexed c (m(k \<mapsto> a)) (m'(k \<mapsto> b)) \<longleftrightarrow> subs_indexed c m m'"
  by (simp add: subs_indexed_def)

lemma index_inv_tables:
  assumes "index_inv cats n ix"
  shows "ids_indexed (map cat_id cats) n (ix_category_by_id ix)"
    "below n (ix_category_lookup ix)"
    "j < n \<Longrightarrow> subs_indexed (cats ! j) (ix_subcategory_by_id ix) (ix_subcategory_lookup ix)"
  using assms unfolding index_inv_def by blast+

lemma index_category_inv:
  assumes ok: "distinct (map cat_id cats)"
    "\<And>c. c \<in> set cats \<Longrightarrow> distinct (map sub_id (cat_subcategories c))"
    and n: "n < length cats" and inv: "index_inv cats n ix"
  shows "index_inv cats (Suc n) (index_category n (cats ! n) ix)"
proof -
  let ?c = "cats ! n"
  obtain bi lu unk where r: "index_subcategories (cat_id ?c) 0 (cat_subcategories ?c)
      (Map.empty, Map.empty, ix_unknown_default_subcategory ix) = (bi, lu, unk)"
    by (metis prod_cases3)
  have subs: "ids_indexed (map sub_id (cat_subcategories ?c)) (length (cat_subcategories ?c)) bi"
    "below (length (cat_subcategories ?c)) lu"
    "unk = ix_unknown_default_subcategory ix \<or> (cat_id ?c = UNKNOWN_CATEGORY_ID \<and>
       (\<exists>i < length (cat_subcategories ?c). unk = Some i))"
    using index_subcategories_inv [of "[]" "cat_subcategories ?c" Map.empty Map.empty "cat_id ?c"
        "ix_unknown_default_subcategory ix" bi lu unk] r ok(2) n by simp_all
  have other: "cat_id (cats ! j) \<noteq> cat_id ?c" if "j < n" for j
    using that nth_eq_iff_index_eq [OF ok(1), of j n] n by simp
  have ids: "ids_indexed (map cat_id cats) (Suc n) ((ix_category_by_id ix)(cat_id ?c \<mapsto> n))"
    using ids_indexed_step [OF ok(1), of n "ix_category_by_id ix"] n index_inv_tables(1) [OF inv]
    by simp
  have eq: "index_category n ?c ix =
      \<lparr>ix_category_by_id = (ix_category_by_id ix)(cat_id ?c \<mapsto> n),
       ix_category_lookup = insert_label (cat_name ?c) (cat_id ?c) n (ix_category_lookup ix),
       ix_subcategory_by_id = (ix_subcategory_by_id ix)(cat_id ?c \<mapsto> bi),
       ix_subcategory_lookup = (ix_subcategory_lookup ix)(cat_id ?c \<mapsto> lu),
       ix_unknown_category =
         (if cat_id ?c = UNKNOWN_CATEGORY_ID then Some n else ix_unknown_category ix),
       ix_unknown_default_subcategory = unk\<rparr>"
    by (simp add: index_category_def r)
  have sub_all: "subs_indexed (cats ! j) ((ix_subcategory_by_id ix)(cat_id ?c \<mapsto> bi))
      ((ix_subcategory_lookup ix)(cat_id ?c \<mapsto> lu))" if "j < Suc n" for j
  proof (cases "j = n")
    case True
    with subs(1,2) show ?thesis by (simp add: subs_indexed_def)
  next
    case False
    with that have "j < n" by simp
    with other index_inv_tables(3) [OF inv] show ?thesis by (simp add: subs_indexed_upd_other)
  qed
  have old: "below n (ix_category_lookup ix)"
    "\<And>j. j < n \<Longrightarrow> cat_id (cats ! j) = UNKNOWN_CATEGORY_ID \<Longrightarrow> ix_unknown_category ix = Some j"
    "\<And>u. ix_unknown_category ix = Some u \<Longrightarrow> u < n \<and> cat_id (cats ! u) = UNKNOWN_CATEGORY_ID"
    "\<And>s. ix_unknown_default_subcategory ix = Some s \<Longrightarrow>
       \<exists>u < n. cat_id (cats ! u) = UNKNOWN_CATEGORY_ID \<and> s < length (cat_subcategories (cats ! u))"
    using inv unfolding index_inv_def by blast+
  have unk: "\<exists>u < Suc n. cat_id (cats ! u) = UNKNOWN_CATEGORY_ID \<and> s < length (cat_subcategories (cats ! u))"
    if "unk = Some s" for s
    using that subs(3) old(4) less_SucI by (metis lessI option.inject)
  have unk_cat: "(if cat_id ?c = UNKNOWN_CATEGORY_ID then Some n else ix_unknown_category ix) = Some j"
    if "j < Suc n" "cat_id (cats ! j) = UNKNOWN_CATEGORY_ID" for j
    using that old(2) other by (metis less_antisym)
  have unk_cat': "u < Suc n \<and> cat_id (cats ! u) = UNKNOWN_CATEGORY_ID"
    if "(if cat_id ?c = UNKNOWN_CATEGORY_ID then Some n else ix_unknown_category ix) = Some u" for u
    using that old(3) by (auto split: if_splits)
  show ?thesis
    unfolding eq index_inv_def tax_index.select_convs
    using ids sub_all unk unk_cat unk_cat' below_insert_label [OF old(1)] by blast
qed

lemma index_categories_inv:
  assumes "distinct (map cat_id cats)"
    "\<And>c. c \<in> set cats \<Longrightarrow> distinct (map sub_id (cat_subcategories c))"
    and "index_inv cats n ix" "n \<le> length cats"
  shows "index_inv cats (length cats) (index_categories n (drop n cats) ix)"
  using assms(3,4)
proof (induction "length cats - n" arbitrary: n ix)
  case 0
  then show ?case by simp
next
  case (Suc k)
  then have n: "n < length cats" by simp
  from index_category_inv [OF assms(1,2) n Suc.prems(1)]
  have "index_inv cats (Suc n) (index_category n (cats ! n) ix)" by blast
  with Suc n show ?case by (simp add: Cons_nth_drop_Suc [symmetric])
qed

lemma empty_index_inv: "index_inv cats 0 empty_index"
  by (simp add: index_inv_def empty_index_def)

lemma store_wf_category_lookup:
  "store_wf st \<Longrightarrow> below (length (tax_categories (ts_taxonomy st))) m \<Longrightarrow>
   store_wf (st\<lparr>ts_category_lookup := m\<rparr>)"
  by (simp add: store_wf_def Let_def)

lemma add_category_alias_wf: "store_wf st \<Longrightarrow> store_wf (add_category_alias p st)"
  by (auto simp: add_category_alias_def split: prod.splits option.splits
      intro!: store_wf_category_lookup below_or_insert)
    (auto simp: store_wf_def Let_def ids_indexed_def)

lemma add_subcategory_alias_wf: "store_wf st \<Longrightarrow> store_wf (add_subcategory_alias p st)"
  by (fastforce simp: add_subcategory_alias_def store_wf_def Let_def subs_indexed_def bind_eq_Some_conv
      ids_indexed_def intro!: below_or_insert split: prod.splits option.splits)

lemma fold_wf: "(\<And>x st. P st \<Longrightarrow> P (f x st)) \<Longrightarrow> P st \<Longrightarrow> P (fold f xs st)"
  by (induction xs arbitrary: st) auto

lemma add_alias_taxonomy [simp]:
  "ts_taxonomy (add_category_alias p st) = ts_taxonomy st"
  "ts_taxonomy (add_subcategory_alias q st) = ts_taxonomy st"
  by (auto simp: add_category_alias_def add_subcategory_alias_def split: prod.splits option.splits)

lemma aliases_taxonomy:
  "ts_taxonomy (apply_subcategory_aliases (apply_category_aliases st)) = ts_taxonomy st"
  unfolding apply_subcategory_aliases_def apply_category_aliases_def
  by (rule fold_wf [where P = "\<lambda>s. ts_taxonomy s = ts_taxonomy st"], simp)
    (rule fold_wf [where P = "\<lambda>s. ts_taxonomy s = ts_taxonomy st"], simp_all)

lemma aliases_wf: "store_wf st \<Longrightarrow> store_wf (apply_subcategory_aliases (apply_category_aliases st))"
  unfolding apply_subcategory_aliases_def apply_category_aliases_def
  by (intro fold_wf [of store_wf] add_category_alias_wf add_subcategory_alias_wf)

lemma taxonomy_store_new_wf:
  assumes "taxonomy_ok t"
  shows "\<exists>st. taxonomy_store_new t = Inr st \<and> store_wf st \<and> ts_taxonomy st = t"
proof -
  let ?cats = "tax_categories t"
  let ?ix = "index_categories 0 ?cats empty_index"
  have inv: "index_inv ?cats (length ?cats) ?ix"
    using index_categories_inv [of ?cats 0 empty_index] assms empty_index_inv
    by (simp add: taxonomy_ok_def)
  obtain u where u: "u < length ?cats" "cat_id (?cats ! u) = UNKNOWN_CATEGORY_ID"
    using assms by (auto simp: taxonomy_ok_def in_set_conv_nth)
  with inv have unk: "ix_unknown_category ?ix = Some u" unfolding index_inv_def by blast
  define d where "d = (case ix_unknown_default_subcategory ?ix of None \<Rightarrow> 0 | Some i \<Rightarrow> i)"
  have d: "d < length (cat_subcategories (?cats ! u))"
  proof (cases "ix_unknown_default_subcategory ?ix")
    case None
    with assms u(1) show ?thesis by (auto simp: d_def taxonomy_ok_def)
  next
    case (Some s)
    with inv obtain v where v: "v < length ?cats" "cat_id (?cats ! v) = UNKNOWN_CATEGORY_ID"
      "s < length (cat_subcategories (?cats ! v))"
      unfolding index_inv_def by blast
    with inv unk have "v = u" unfolding index_inv_def by (metis option.inject)
    with v(3) Some show ?thesis by (simp add: d_def)
  qed
  let ?st = "\<lparr>ts_taxonomy = t, ts_category_by_id = ix_category_by_id ?ix,
    ts_category_lookup = ix_category_lookup ?ix, ts_subcategory_by_id = ix_subcategory_by_id ?ix,
    ts_subcategory_lookup = ix_subcategory_lookup ?ix, ts_unknown_category_index = u,
    ts_unknown_default_subcategory_index = d\<rparr>"
  have "subs_indexed c (ix_subcategory_by_id ?ix) (ix_subcategory_lookup ?ix)"
    if "c \<in> set ?cats" for c
    using that index_inv_tables(3) [OF inv] by (auto simp: in_set_conv_nth)
  then have "store_wf ?st"
    unfolding store_wf_def using index_inv_tables(1,2) [OF inv] assms u d by simp
  then have "store_wf (apply_subcategory_aliases (apply_category_aliases ?st))"
    by (rule aliases_wf)
  moreover have "taxonomy_store_new t = Inr (apply_subcategory_aliases (apply_category_aliases ?st))"
    by (simp add: taxonomy_store_new_def unk d_def Let_def)
  ultimately show ?thesis by (simp add: aliases_taxonomy)
qed

section \<open>Resolution on well-formed stores\<close>

abbreviation store_categories :: "taxonomy_store \<Rightarrow> canonical_category list" where
  "store_categories st \<equiv> tax_categories (ts_taxonomy st)"

definition unknown_category :: "taxonomy_store \<Rightarrow> canonical_category" where
  "unknown_category st = store_categories st ! ts_unknown_category_index st"

lemma store_wf_unknown:
  assumes "store_wf st"
  shows "ts_unknown_category_index st < length (store_categories st)"
    "cat_id (unknown_category st) = UNKNOWN_CATEGORY_ID"
    "ts_unknown_default_subcategory_index st < length (cat_subcategories (unknown_category st))"
    "unknown_category st \<in> set (store_categories st)"
  using assms by (auto simp: store_wf_def Let_def unknown_category_def)

lemma store_wf_by_id:
  "store_wf st \<Longrightarrow> ts_category_by_id st k = Some i \<longleftrightarrow>
     i < length (store_categories st) \<and> cat_id (store_categories st ! i) = k"
  by (auto simp: store_wf_def Let_def ids_indexed_def)

lemma store_wf_lookup:
  "store_wf st \<Longrightarrow> ts_category_lookup st k = Some i \<Longrightarrow> i < length (store_categories st)"
  by (simp add: store_wf_def Let_def below_def)

lemma store_wf_subs:
  assumes "store_wf st" "c \<in> set (store_categories st)"
  obtains bi lu where "ts_subcategory_by_id st (cat_id c) = Some bi"
    "ts_subcategory_lookup st (cat_id c) = Some lu"
    "ids_indexed (map sub_id (cat_subcategories c)) (length (cat_subcategories c)) bi"
    "below (length (cat_subcategories c)) lu"
  using assms unfolding store_wf_def Let_def subs_indexed_def by blast

lemma category_by_index_in:
  "i < length (store_categories st) \<Longrightarrow> category_by_index st i = Inr (store_categories st ! i)"
  by (simp add: category_by_index_def index_res_def)

lemma subcategory_by_index_in:
  "i < length (store_categories st) \<Longrightarrow>
   j < length (cat_subcategories (store_categories st ! i)) \<Longrightarrow>
   subcategory_by_index st i j = Inr (cat_subcategories (store_categories st ! i) ! j)"
  by (simp add: subcategory_by_index_def category_by_index_in index_res_def)

lemma resolve_category_wf:
  assumes "store_wf st" "resolve_category st x n = (ci, r)"
  shows "ci < length (store_categories st)"
    and "r \<noteq> None \<Longrightarrow> ci = ts_unknown_category_index st"
    and "r \<in> {None, Some MissingCategory, Some UnknownCategory}"
proof -
  have "ci < length (store_categories st) \<and> (r \<noteq> None \<longrightarrow> ci = ts_unknown_category_index st) \<and>
        r \<in> {None, Some MissingCategory, Some UnknownCategory}"
    using assms store_wf_unknown(1) [OF assms(1)]
    by (auto simp: resolve_category_def store_wf_by_id bind_eq_Some_conv store_wf_lookup
        split: option.splits if_splits)
  then show "ci < length (store_categories st)"
    and "r \<noteq> None \<Longrightarrow> ci = ts_unknown_category_index st"
    and "r \<in> {None, Some MissingCategory, Some UnknownCategory}" by blast+
qed

lemma resolve_category_id:
  assumes "store_wf st" "c \<in> set (store_categories st)"
  obtains i where "i < length (store_categories st)" "store_categories st ! i = c"
    "resolve_category st (cat_id c) n = (i, None)"
proof -
  obtain i where i: "i < length (store_categories st)" "store_categories st ! i = c"
    using assms(2) by (auto simp: in_set_conv_nth)
  with assms(1) have "ts_category_by_id st (cat_id c) = Some i" by (simp add: store_wf_by_id)
  with i that show ?thesis by (simp add: resolve_category_def)
qed

lemma validate_category_wf:
  assumes "store_wf st"
  obtains v where "validate_category st x = Inr v" "vc_category v \<in> set (store_categories st)"
    "vc_fallback_reason v \<in> {None, Some MissingCategory, Some UnknownCategory}"
    "vc_fallback_reason v \<noteq> None \<Longrightarrow> cat_id (vc_category v) = UNKNOWN_CATEGORY_ID"
proof -
  obtain ci r where r: "resolve_category st (trim x) (normalize_label (trim x)) = (ci, r)"
    by (metis surj_pair)
  note wf = resolve_category_wf [OF assms r]
  let ?v = "\<lparr>vc_category = store_categories st ! ci, vc_fallback_reason = r,
    vc_normalized_category = normalize_label (trim x)\<rparr>"
  have "validate_category st x = Inr ?v"
    using r wf(1) by (simp add: validate_category_def category_by_index_in)
  moreover have "r \<noteq> None \<Longrightarrow> cat_id (store_categories st ! ci) = UNKNOWN_CATEGORY_ID"
    using wf(2) store_wf_unknown(2) [OF assms] by (simp add: unknown_category_def)
  ultimately show ?thesis using that [of ?v] wf(1,3) by simp
qed

lemma resolve_subcategory_wf:
  assumes "store_wf st" "ci < length (store_categories st)"
  obtains r where "resolve_subcategory st ci x n = Inr (Some r)"
    "\<And>i. r = Match i \<Longrightarrow> i < length (cat_subcategories (store_categories st ! ci))"
proof -
  let ?c = "store_categories st ! ci"
  obtain bi lu where t: "ts_subcategory_by_id st (cat_id ?c) = Some bi"
    "ts_subcategory_lookup st (cat_id ?c) = Some lu"
    "ids_indexed (map sub_id (cat_subcategories ?c)) (length (cat_subcategories ?c)) bi"
    "below (length (cat_subcategories ?c)) lu"
    using store_wf_subs [OF assms(1), of ?c] assms(2) nth_mem by blast
  have bi: "\<And>k i. bi k = Some i \<Longrightarrow> i < length (cat_subcategories ?c)"
    and lu: "\<And>k i. lu k = Some i \<Longrightarrow> i < length (cat_subcategories ?c)"
    using t(3,4) by (auto simp: ids_indexed_def below_def)
  define r where "r = (case Option.bind x bi of Some i \<Rightarrow> Match i
    | None \<Rightarrow> (case Option.bind n lu of Some i \<Rightarrow> Match i
       | None \<Rightarrow> Fallback (if x = None then MissingSubcategory else UnknownSubcategory)))"
  have "resolve_subcategory st ci x n = Inr (Some r)"
    using assms(2) t(1,2)
    by (cases "Option.bind x bi"; cases "Option.bind n lu")
      (simp_all add: resolve_subcategory_def category_by_index_in r_def)
  moreover have "i < length (cat_subcategories ?c)" if "r = Match i" for i
    using that bi lu unfolding r_def by (auto simp: bind_eq_Some_conv split: option.splits)
  ultimately show ?thesis using that by blast
qed

text \<open>The outcome of \<open>validate_labels\<close> on a well-formed store.\<close>

definition labels_sound :: "taxonomy_store \<Rightarrow> validated_labels \<Rightarrow> bool" where
  "labels_sound st v \<longleftrightarrow>
     vl_category v \<in> set (store_categories st) \<and>
     vl_subcategory v \<in> set (cat_subcategories (vl_category v)) \<and>
     (vl_fallback_reason v \<noteq> None \<longrightarrow> vl_category v = unknown_category st)"

lemma validate_labels_wf:
  assumes "store_wf st"
  shows "\<exists>v. validate_labels st x sub = Inr v \<and> labels_sound st v"
proof -
  obtain ci r where r: "resolve_category st (trim x) (normalize_label (trim x)) = (ci, r)"
    by (metis surj_pair)
  note wf = resolve_category_wf [OF assms r] and unk = store_wf_unknown [OF assms]
  let ?cl = "clean_label sub"
  obtain sr where sr: "resolve_subcategory st ci ?cl (Option.bind ?cl normalize_label) = Inr (Some sr)"
    "\<And>i. sr = Match i \<Longrightarrow> i < length (cat_subcategories (store_categories st ! ci))"
    using resolve_subcategory_wf [OF assms wf(1)] by blast
  have sub: "subcategory_by_index st (ts_unknown_category_index st)
      (ts_unknown_default_subcategory_index st)
    = Inr (cat_subcategories (unknown_category st) ! ts_unknown_default_subcategory_index st)"
    using unk(1,3) by (simp add: subcategory_by_index_in unknown_category_def)
  show ?thesis
    using unk wf(1,2) sr r sub
    by (cases sr)
      (auto simp: validate_labels_def Let_def category_by_index_in subcategory_by_index_in
        labels_sound_def unknown_category_def)
qed

lemma validate_labels_exact:
  assumes wf: "store_wf st" and c: "c \<in> set (store_categories st)" "cat_id c \<noteq> UNKNOWN_CATEGORY_ID"
    and s: "s \<in> set (cat_subcategories c)"
    and tr: "trim (cat_id c) = cat_id c" "trim (sub_id s) = sub_id s" "sub_id s \<noteq> []"
  shows "\<exists>v. validate_labels st (cat_id c) (Some (sub_id s)) = Inr v \<and>
             vl_category v = c \<and> vl_subcategory v = s \<and> vl_fallback_reason v = None"
proof -
  obtain i where i: "i < length (store_categories st)" "store_categories st ! i = c"
    "resolve_category st (cat_id c) (normalize_label (cat_id c)) = (i, None)"
    using resolve_category_id [OF wf c(1)] by blast
  obtain j where j: "j < length (cat_subcategories c)" "cat_subcategories c ! j = s"
    using s by (auto simp: in_set_conv_nth)
  obtain bi where bi: "ts_subcategory_by_id st (cat_id c) = Some bi"
    "ids_indexed (map sub_id (cat_subcategories c)) (length (cat_subcategories c)) bi"
    using store_wf_subs [OF wf c(1)] by blast
  have "bi (sub_id s) = Some j" using bi(2) j by (simp add: ids_indexed_def)
  moreover have "i \<noteq> ts_unknown_category_index st"
    using store_wf_unknown(2) [OF wf] c(2) i(2) by (auto simp: unknown_category_def)
  ultimately show ?thesis
    using i j bi(1) tr
    by (simp add: validate_labels_def Let_def clean_label_def resolve_subcategory_def
        category_by_index_in subcategory_by_index_in)
qed

section \<open>The resolver interface\<close>

text \<open>
  What the policy store relies on: resolving a label always succeeds, yields a canonical
  identifier, and leaves canonical identifiers alone.  \<open>canon\<close> is the client's use of it: a
  list of labels is replaced by identifiers unless one of them falls back.
\<close>

locale category_resolver =
  fixes wf :: "'s \<Rightarrow> bool"
    and resolve :: "'s \<Rightarrow> string \<Rightarrow> 'v res"
    and ident :: "'v \<Rightarrow> string"
    and reason :: "'v \<Rightarrow> fallback_reason option"
    and canonical :: "'s \<Rightarrow> string \<Rightarrow> bool"
  assumes resolve_total: "wf s \<Longrightarrow> \<exists>v. resolve s x = Inr v"
    and resolve_canonical: "wf s \<Longrightarrow> resolve s x = Inr v \<Longrightarrow> canonical s (ident v)"
    and canonical_fixed:
      "wf s \<Longrightarrow> canonical s i \<Longrightarrow> \<exists>v. resolve s i = Inr v \<and> ident v = i \<and> reason v = None"
begin

definition canon_step :: "(string \<Rightarrow> fallback_reason \<Rightarrow> error) \<Rightarrow> 's \<Rightarrow> string \<Rightarrow> string res" where
  "canon_step err s x =
     bind_res (resolve s x) (\<lambda>v. case reason v of Some r \<Rightarrow> Inl (err x r) | None \<Rightarrow> Inr (ident v))"

lemma canon_step_canonical: "wf s \<Longrightarrow> canon_step err s x = Inr y \<Longrightarrow> canonical s y"
  by (auto simp: canon_step_def res_simps split: option.splits dest: resolve_canonical)

lemma canon_step_fixed: "wf s \<Longrightarrow> canonical s y \<Longrightarrow> canon_step err s y = Inr y"
  using canonical_fixed [of s y] by (auto simp: canon_step_def)

lemma canon_step_error:
  "wf s \<Longrightarrow> canon_step err s x = Inl e \<Longrightarrow> \<exists>r v. resolve s x = Inr v \<and> reason v = Some r \<and> e = err x r"
  using resolve_total [of s x] by (auto simp: canon_step_def res_simps split: option.splits)

lemma canon_canonical:
  assumes "wf s" "traverse_res (canon_step err s) xs = Inr ys" "y \<in> set ys"
  shows "canonical s y"
  using traverse_res_mem [OF assms(2,3)] canon_step_canonical [OF assms(1)] by blast

lemma canon_idem:
  assumes "wf s" "traverse_res (canon_step err s) xs = Inr ys"
  shows "traverse_res (canon_step err' s) ys = Inr ys"
  by (rule traverse_res_id) (rule canon_step_fixed [OF assms(1) canon_canonical [OF assms]])

end

definition ids_trimmed :: "taxonomy_store \<Rightarrow> bool" where
  "ids_trimmed st \<longleftrightarrow> (\<forall>c \<in> set (store_categories st). trim (cat_id c) = cat_id c)"

definition canonical_id :: "taxonomy_store \<Rightarrow> string \<Rightarrow> bool" where
  "canonical_id st i \<longleftrightarrow> i \<in> cat_id ` set (store_categories st)"

definition resolver_wf :: "taxonomy_store \<Rightarrow> bool" where
  "resolver_wf st \<longleftrightarrow> store_wf st \<and> ids_trimmed st"

lemma validate_category_id:
  assumes "store_wf st" "c \<in> set (store_categories st)" "trim (cat_id c) = cat_id c"
  shows "\<exists>v. validate_category st (cat_id c) = Inr v \<and> vc_category v = c \<and> vc_fallback_reason v = None"
  using resolve_category_id [OF assms(1,2), of "normalize_label (cat_id c)"] assms(3)
  by (force simp: validate_category_def category_by_index_in)

interpretation tax: category_resolver resolver_wf validate_category "\<lambda>v. cat_id (vc_category v)"
  vc_fallback_reason canonical_id
proof unfold_locales
  fix s x assume "resolver_wf s"
  then show "\<exists>v. validate_category s x = Inr v"
    using validate_category_wf unfolding resolver_wf_def by metis
next
  fix s x v assume "resolver_wf s" "validate_category s x = Inr v"
  then show "canonical_id s (cat_id (vc_category v))"
    using validate_category_wf [of s x] by (auto simp: resolver_wf_def canonical_id_def)
next
  fix s i assume "resolver_wf s" "canonical_id s i"
  then show "\<exists>v. validate_category s i = Inr v \<and> cat_id (vc_category v) = i \<and> vc_fallback_reason v = None"
    using validate_category_id by (auto simp: resolver_wf_def canonical_id_def ids_trimmed_def)
qed

section \<open>Properties\<close>

text \<open>
  A taxonomy that passes validation always yields a store, without a panic, and the store's
  tables agree with the taxonomy: every identifier finds its own entry and every index is in
  range.
\<close>

theorem validated_taxonomy_gives_store:
  assumes "validate t = Inr ()"
  shows "\<exists>st. taxonomy_store_new t = Inr st \<and> ts_taxonomy st = t \<and> store_wf st"
  using taxonomy_store_new_wf [of t] assms by (auto simp: validate_iff)

text \<open>
  Label validation never panics and never invents a label.  On a well-formed store it returns
  a category of the taxonomy with one of its own sub-categories, and whenever it fell back the
  category is the unknown one.
\<close>

theorem label_validation_sound:
  assumes "store_wf st"
  shows "\<exists>v. validate_labels st category subcategory = Inr v \<and>
    vl_category v \<in> set (store_categories st) \<and>
    vl_subcategory v \<in> set (cat_subcategories (vl_category v)) \<and>
    (vl_fallback_reason v \<noteq> None \<longrightarrow> vl_category v = unknown_category st)"
  using validate_labels_wf [OF assms, of category subcategory] by (auto simp: labels_sound_def)

text \<open>
  Canonical labels survive validation.  A category identifier with one of its sub-category
  identifiers validates to exactly that pair, with no fallback.
\<close>

theorem canonical_labels_round_trip:
  assumes "store_wf st" "c \<in> set (store_categories st)" "cat_id c \<noteq> UNKNOWN_CATEGORY_ID"
    and "s \<in> set (cat_subcategories c)"
    and "trim (cat_id c) = cat_id c" "trim (sub_id s) = sub_id s" "sub_id s \<noteq> []"
  shows "map_res (\<lambda>v. (vl_category v, vl_subcategory v, vl_fallback_reason v))
      (validate_labels st (cat_id c) (Some (sub_id s))) = Inr (c, s, None)"
  using validate_labels_exact [OF assms] by auto

end
