(* ===== verification/Activation.thy ===== *)
theory Activation
  imports Taxonomy
begin

text \<open>
  Taxonomy activation, \<^verbatim>\<open>crates/taxonomy/src/activation.rs\<close>: which categories and
  sub-categories are enabled.  The profile is read from two database tables; a load argument of
  \<open>Inl e\<close> is a failed query.  \<open>refresh_task\<close> is the thirty-second loop, over the outcomes of
  its successive loads.
\<close>

definition CATEGORY_SENTINEL_ID :: string where
  "CATEGORY_SENTINEL_ID = ''__CATEGORY__''"

record activation_profile =
  ap_id :: uuid
  ap_version :: string
  ap_updated_at :: time
  ap_category_states :: "string \<rightharpoonup> bool"
  ap_subcategory_states :: "string \<rightharpoonup> (string \<rightharpoonup> bool)"
  ap_default_enabled :: bool

record activation_profile_row =
  apr_id :: uuid
  apr_version :: string
  apr_updated_at :: time

record activation_entry_row =
  aer_profile_id :: uuid
  aer_category_id :: string
  aer_subcategory_id :: string
  aer_enabled :: bool

record activation_db =
  adb_profiles :: "activation_profile_row list"
  adb_entries :: "activation_entry_row list"

definition add_entry ::
  "activation_entry_row \<Rightarrow> (string \<rightharpoonup> bool) \<times> (string \<rightharpoonup> (string \<rightharpoonup> bool))
   \<Rightarrow> (string \<rightharpoonup> bool) \<times> (string \<rightharpoonup> (string \<rightharpoonup> bool))" where
  "add_entry e acc =
     (case acc of (cats, subs) \<Rightarrow>
        if aer_subcategory_id e = CATEGORY_SENTINEL_ID
        then (cats(aer_category_id e \<mapsto> aer_enabled e), subs)
        else (cats,
              subs(aer_category_id e \<mapsto>
                (case subs (aer_category_id e) of None \<Rightarrow> Map.empty | Some m \<Rightarrow> m)
                  (aer_subcategory_id e \<mapsto> aer_enabled e))))"

definition activation_load_from_db :: "activation_db res \<Rightarrow> activation_profile res" where
  "activation_load_from_db db =
     bind_res db (\<lambda>tables.
       case latest_by apr_updated_at (adb_profiles tables) of
         None \<Rightarrow> Inl (Error ''taxonomy activation profile not found'')
       | Some row \<Rightarrow>
           (let entries = filter (\<lambda>e. aer_profile_id e = apr_id row) (adb_entries tables);
                (cats, subs) = fold add_entry entries (Map.empty, Map.empty)
            in Inr \<lparr>ap_id = apr_id row, ap_version = apr_version row,
                    ap_updated_at = apr_updated_at row, ap_category_states = cats,
                    ap_subcategory_states = subs, ap_default_enabled = False\<rparr>))"

definition is_enabled :: "activation_profile \<Rightarrow> string \<Rightarrow> string option \<Rightarrow> bool" where
  "is_enabled p category_id subcategory_id =
     (case Option.bind subcategory_id (\<lambda>sub.
             Option.bind (ap_subcategory_states p category_id) (\<lambda>subs. subs sub)) of
        Some state \<Rightarrow> state
      | None \<Rightarrow>
          (case ap_category_states p category_id of
             Some state \<Rightarrow> state
           | None \<Rightarrow> ap_default_enabled p))"

definition activation_allow_all :: "time \<Rightarrow> activation_profile" where
  "activation_allow_all now =
     \<lparr>ap_id = 0, ap_version = ''allow-all'', ap_updated_at = now, ap_category_states = Map.empty,
      ap_subcategory_states = Map.empty, ap_default_enabled = True\<rparr>"

definition activation_deny_all :: "time \<Rightarrow> activation_profile" where
  "activation_deny_all now =
     \<lparr>ap_id = 0, ap_version = ''deny-all'', ap_updated_at = now, ap_category_states = Map.empty,
      ap_subcategory_states = Map.empty, ap_default_enabled = False\<rparr>"

definition activation_from_maps ::
  "time \<Rightarrow> (string \<rightharpoonup> bool) \<Rightarrow> (string \<rightharpoonup> (string \<rightharpoonup> bool)) \<Rightarrow> bool \<Rightarrow> activation_profile" where
  "activation_from_maps now cats subs default_enabled =
     \<lparr>ap_id = 0, ap_version = ''static'', ap_updated_at = now, ap_category_states = cats,
      ap_subcategory_states = subs, ap_default_enabled = default_enabled\<rparr>"

definition replace_if_new ::
  "activation_profile \<Rightarrow> activation_profile \<Rightarrow> string option \<times> activation_profile" where
  "replace_if_new guard profile =
     (if ap_updated_at profile > ap_updated_at guard \<or> ap_id profile \<noteq> ap_id guard
      then (Some (ap_version profile), profile)
      else (None, guard))"

definition refresh_from_db ::
  "activation_profile \<Rightarrow> activation_db res \<Rightarrow> bool res \<times> activation_profile" where
  "refresh_from_db guard db =
     (case activation_load_from_db db of
        Inl e \<Rightarrow> (Inl e, guard)
      | Inr profile \<Rightarrow>
          (let (version, guard') = replace_if_new guard profile in (Inr (version \<noteq> None), guard')))"

definition refresh_tick :: "activation_db res \<Rightarrow> activation_profile \<Rightarrow> activation_profile" where
  "refresh_tick db guard =
     (case activation_load_from_db db of
        Inr profile \<Rightarrow> snd (replace_if_new guard profile)
      | Inl e \<Rightarrow> guard)"

definition refresh_task :: "activation_db res list \<Rightarrow> activation_profile \<Rightarrow> activation_profile" where
  "refresh_task dbs guard = fold refresh_tick dbs guard"

section \<open>Reading entries\<close>

text \<open>
  The primary key of the entry table: at most one row for a profile, category and sub-category.
\<close>

definition entry_key :: "activation_entry_row \<Rightarrow> string \<times> string" where
  "entry_key e = (aer_category_id e, aer_subcategory_id e)"

text \<open>
  The state a list of entries gives to a category and sub-category: the last row wins, as the
  inserts of the loop overwrite.
\<close>

definition entry_state :: "activation_entry_row list \<Rightarrow> string \<Rightarrow> string \<Rightarrow> bool option" where
  "entry_state es c s = map_option aer_enabled (find (\<lambda>e. entry_key e = (c, s)) (rev es))"

definition sub_state :: "(string \<rightharpoonup> (string \<rightharpoonup> bool)) \<Rightarrow> string \<Rightarrow> string \<Rightarrow> bool option" where
  "sub_state subs c s = Option.bind (subs c) (\<lambda>m. m s)"

lemma entry_state_snoc:
  "entry_state (es @ [e]) c s =
     (if entry_key e = (c, s) then Some (aer_enabled e) else entry_state es c s)"
  by (simp add: entry_state_def)

lemma fold_add_entry:
  assumes "fold add_entry es (Map.empty, Map.empty) = (cats, subs)"
  shows "cats c = entry_state es c CATEGORY_SENTINEL_ID"
    and "s \<noteq> CATEGORY_SENTINEL_ID \<Longrightarrow> sub_state subs c s = entry_state es c s"
    and "sub_state subs c CATEGORY_SENTINEL_ID = None"
proof -
  have "cats c = entry_state es c CATEGORY_SENTINEL_ID \<and>
    (s \<noteq> CATEGORY_SENTINEL_ID \<longrightarrow> sub_state subs c s = entry_state es c s) \<and>
    sub_state subs c CATEGORY_SENTINEL_ID = None"
    using assms
  proof (induction es arbitrary: cats subs rule: rev_induct)
    case Nil
    then show ?case by (auto simp: entry_state_def sub_state_def)
  next
    case (snoc e es)
    obtain cats0 subs0 where acc: "fold add_entry es (Map.empty, Map.empty) = (cats0, subs0)"
      by fastforce
    with snoc.prems have "add_entry e (cats0, subs0) = (cats, subs)" by simp
    with snoc.IH [OF acc] show ?case
      unfolding entry_state_snoc
      by (auto simp: add_entry_def entry_key_def sub_state_def split: if_splits option.splits)
  qed
  then show "cats c = entry_state es c CATEGORY_SENTINEL_ID"
    and "s \<noteq> CATEGORY_SENTINEL_ID \<Longrightarrow> sub_state subs c s = entry_state es c s"
    and "sub_state subs c CATEGORY_SENTINEL_ID = None" by blast+
qed

lemma is_enabled_alt:
  "is_enabled p c (Some s) =
     (case sub_state (ap_subcategory_states p) c s of
        Some b \<Rightarrow> b
      | None \<Rightarrow> (case ap_category_states p c of Some b \<Rightarrow> b | None \<Rightarrow> ap_default_enabled p))"
  by (simp add: is_enabled_def sub_state_def)

lemma activation_load_Inr:
  assumes "activation_load_from_db db = Inr p"
  obtains tables row where "db = Inr tables" "row \<in> set (adb_profiles tables)"
    "\<forall>r \<in> set (adb_profiles tables). apr_updated_at r \<le> apr_updated_at row"
    "ap_id p = apr_id row" "ap_updated_at p = apr_updated_at row" "\<not> ap_default_enabled p"
    "fold add_entry (filter (\<lambda>e. aer_profile_id e = apr_id row) (adb_entries tables))
       (Map.empty, Map.empty) = (ap_category_states p, ap_subcategory_states p)"
proof -
  obtain tables where t: "db = Inr tables" using assms
    by (auto simp: activation_load_from_db_def res_simps)
  with assms obtain row where row: "latest_by apr_updated_at (adb_profiles tables) = Some row"
    by (auto simp: activation_load_from_db_def split: option.splits)
  have "ap_id p = apr_id row \<and> ap_updated_at p = apr_updated_at row \<and> \<not> ap_default_enabled p \<and>
    fold add_entry (filter (\<lambda>e. aer_profile_id e = apr_id row) (adb_entries tables))
       (Map.empty, Map.empty) = (ap_category_states p, ap_subcategory_states p)"
    using assms t row by (auto simp: activation_load_from_db_def Let_def split: prod.splits)
  with t latest_by_Some [OF row] that show ?thesis by blast
qed

lemma deny_all_disabled [simp]: "\<not> is_enabled (activation_deny_all now) c s"
  by (cases s) (simp_all add: is_enabled_def activation_deny_all_def)

lemma allow_all_enabled [simp]: "is_enabled (activation_allow_all now) c s"
  by (cases s) (simp_all add: is_enabled_def activation_allow_all_def)

lemma refresh_tick_cases:
  "refresh_tick db g = g \<or>
   (\<exists>p. activation_load_from_db db = Inr p \<and> refresh_tick db g = p \<and>
        (ap_updated_at g < ap_updated_at p \<or> ap_id p \<noteq> ap_id g))"
  by (auto simp: refresh_tick_def replace_if_new_def split: sum.splits)

lemma refresh_task_older:
  "ap_id (refresh_task dbs g) = ap_id g \<Longrightarrow>
   (\<And>db p. db \<in> set dbs \<Longrightarrow> activation_load_from_db db = Inr p \<Longrightarrow> ap_id p = ap_id g) \<Longrightarrow>
   ap_updated_at g \<le> ap_updated_at (refresh_task dbs g)"
proof (induction dbs arbitrary: g)
  case (Cons db dbs)
  let ?g = "refresh_tick db g"
  have id: "ap_id ?g = ap_id g" and up: "ap_updated_at g \<le> ap_updated_at ?g"
    using refresh_tick_cases [of db g] Cons.prems(2) [of db] by auto
  have "ap_updated_at ?g \<le> ap_updated_at (refresh_task dbs ?g)"
    using Cons.IH [of ?g] Cons.prems id by (auto simp: refresh_task_def)
  with up show ?case by (simp add: refresh_task_def)
qed (simp add: refresh_task_def)

lemma refresh_task_snoc: "refresh_task (dbs @ [db]) g = refresh_tick db (refresh_task dbs g)"
  by (simp add: refresh_task_def)

text \<open>The profile in force was loaded, and after a load that worked it is the profile of that load or no older.\<close>

lemma refresh_task_loaded:
  assumes "activation_load_from_db db0 = Inr p0"
  shows "(\<exists>db \<in> set (db0 # dbs). activation_load_from_db db = Inr (refresh_task dbs p0)) \<and>
    (\<forall>p. activation_load_from_db (last (db0 # dbs)) = Inr p \<longrightarrow>
       ap_id (refresh_task dbs p0) = ap_id p \<and> ap_updated_at p \<le> ap_updated_at (refresh_task dbs p0))"
proof (induction dbs rule: rev_induct)
  case Nil
  then show ?case using assms by (simp add: refresh_task_def)
next
  case (snoc db dbs)
  let ?g = "refresh_task dbs p0"
  have "\<exists>x \<in> set (db0 # dbs @ [db]). activation_load_from_db x = Inr (refresh_tick db ?g)"
    using snoc refresh_tick_cases [of db ?g] by auto
  moreover have "ap_id (refresh_tick db ?g) = ap_id p \<and> ap_updated_at p \<le> ap_updated_at (refresh_tick db ?g)"
    if "activation_load_from_db db = Inr p" for p
    using that by (auto simp: refresh_tick_def replace_if_new_def)
  ultimately show ?case by (simp add: refresh_task_snoc)
qed

text \<open>What an enabled pair says of the rows it was read from.\<close>

lemma entry_state_SomeD:
  "entry_state es c s = Some b \<Longrightarrow>
   \<exists>e \<in> set es. aer_category_id e = c \<and> aer_subcategory_id e = s \<and> aer_enabled e = b"
  by (force simp: entry_state_def entry_key_def dest: find_Some_mem)

lemma entry_state_NoneD: "entry_state es c s = None \<Longrightarrow> e \<in> set es \<Longrightarrow> (aer_category_id e, aer_subcategory_id e) \<noteq> (c, s)"
  by (auto simp: entry_state_def entry_key_def find_None_iff)

lemma enabled_by_rows:
  assumes "activation_load_from_db (Inr tables) = Inr p" "is_enabled p c (Some s)" "s \<noteq> CATEGORY_SENTINEL_ID"
  defines "rows \<equiv> filter (\<lambda>e. aer_profile_id e = ap_id p \<and> aer_category_id e = c) (adb_entries tables)"
  shows "(\<exists>e \<in> set rows. aer_subcategory_id e = s \<and> aer_enabled e) \<or>
    (\<forall>e \<in> set rows. aer_subcategory_id e \<noteq> s) \<and> (\<exists>e \<in> set rows. aer_subcategory_id e = CATEGORY_SENTINEL_ID \<and> aer_enabled e)"
proof -
  obtain tables' and row :: activation_profile_row where t: "Inr tables = (Inr tables' :: activation_db res)"
    and r: "ap_id p = apr_id row" "\<not> ap_default_enabled p"
    "fold add_entry (filter (\<lambda>e. aer_profile_id e = apr_id row) (adb_entries tables'))
       (Map.empty, Map.empty) = (ap_category_states p, ap_subcategory_states p)"
    by (rule activation_load_Inr [OF assms(1)]) blast
  let ?es = "filter (\<lambda>e. aer_profile_id e = ap_id p) (adb_entries tables)"
  note f = fold_add_entry [OF r(3), of c] fold_add_entry(2) [OF r(3) assms(3), of c]
  have "entry_state ?es c s = Some True \<or> entry_state ?es c s = None \<and> entry_state ?es c CATEGORY_SENTINEL_ID = Some True"
    using assms(2) f t r(1,2) by (auto simp: is_enabled_alt split: option.splits)
  then show ?thesis
    using entry_state_SomeD [of ?es c] entry_state_NoneD [of ?es c] by (fastforce simp: rows_def)
qed

section \<open>Properties\<close>

text \<open>
  What the activation tables mean.  After a load, a pair of category and sub-category is
  enabled according to its own row of the newest profile; without one, according to the row of
  the category; without either it is disabled.
\<close>

theorem activation_follows_rows:
  assumes "activation_load_from_db (Inr tables) = Inr p" "sub \<noteq> CATEGORY_SENTINEL_ID"
    and "rows = filter (\<lambda>e. aer_profile_id e = ap_id p) (adb_entries tables)"
  shows "is_enabled p category (Some sub) =
    (case entry_state rows category sub of
       Some b \<Rightarrow> b
     | None \<Rightarrow> (case entry_state rows category CATEGORY_SENTINEL_ID of Some b \<Rightarrow> b | None \<Rightarrow> False))"
proof -
  obtain tables' and row :: activation_profile_row where t: "Inr tables = (Inr tables' :: activation_db res)"
    and r: "ap_id p = apr_id row" "\<not> ap_default_enabled p"
    "fold add_entry (filter (\<lambda>e. aer_profile_id e = apr_id row) (adb_entries tables'))
       (Map.empty, Map.empty) = (ap_category_states p, ap_subcategory_states p)"
    by (rule activation_load_Inr [OF assms(1)]) blast
  note f = fold_add_entry [OF r(3)]
  show ?thesis
    using f(1) [of category] f(2) [OF assms(2), of category] r(2)
    using t by (simp add: is_enabled_alt assms(3) r(1) split: option.split)
qed

text \<open>
  The refresh loop never goes back in time.  As long as the profile identifier stays the same,
  the profile in force after any number of refreshes, failed ones included, is at least as new as
  before.
\<close>

theorem refresh_never_older:
  assumes "\<And>db p. db \<in> set dbs \<Longrightarrow> activation_load_from_db db = Inr p \<Longrightarrow> ap_id p = ap_id guard"
    and "ap_id (refresh_task dbs guard) = ap_id guard"
  shows "ap_updated_at guard \<le> ap_updated_at (refresh_task dbs guard)"
  using refresh_task_older [OF assms(2)] assms(1) by blast

end
