(* ===== verification/Policy_Store.thy ===== *)
theory Policy_Store
  imports Activation Host_Match "HOL-Library.Multiset"
begin

text \<open>
  The policy language (\<^verbatim>\<open>crates/policy-dsl\<close>) and the in-memory rule store of the policy
  engine (\<^verbatim>\<open>services/policy-engine/src/store.rs\<close>, \<^verbatim>\<open>models.rs\<close>): parsing of documents,
  canonicalisation of rule categories, first-match evaluation and the verdicts it attaches.
  The database half of \<^verbatim>\<open>store.rs\<close> is in \<open>Policy_Db\<close>.
\<close>

section \<open>Documents\<close>

record conditions =
  cond_domains :: "string list option"
  cond_categories :: "string list option"
  cond_users :: "string list option"
  cond_groups :: "string list option"
  cond_source_ips :: "string list option"
  cond_risk_levels :: "string list option"

definition conditions_default :: conditions where
  "conditions_default =
     \<lparr>cond_domains = None, cond_categories = None, cond_users = None, cond_groups = None,
      cond_source_ips = None, cond_risk_levels = None\<rparr>"

record policy_rule =
  pr_id :: string
  pr_description :: "string option"
  pr_priority :: u32
  pr_action :: policy_action
  pr_conditions :: conditions

record policy_document =
  pdoc_version :: string
  pdoc_rules :: "policy_rule list"

definition condition_keys :: "string list" where
  "condition_keys =
     [''domains'', ''categories'', ''users'', ''groups'', ''source_ips'', ''risk_levels'']"

definition conditions_to_json :: "conditions \<Rightarrow> json" where
  "conditions_to_json c = JObj
     [(''domains'', opt_to_json strs_to_json (cond_domains c)),
      (''categories'', opt_to_json strs_to_json (cond_categories c)),
      (''users'', opt_to_json strs_to_json (cond_users c)),
      (''groups'', opt_to_json strs_to_json (cond_groups c)),
      (''source_ips'', opt_to_json strs_to_json (cond_source_ips c)),
      (''risk_levels'', opt_to_json strs_to_json (cond_risk_levels c))]"

definition conditions_of_json :: "json \<Rightarrow> conditions option" where
  "conditions_of_json j =
     (let strs = opt_field (list_of_json string_of_json)
      in Option.bind (fields_of condition_keys j) (\<lambda>fs.
         if \<not> list_all (\<lambda>k. k \<in> set condition_keys) (map fst fs) then None else
         Option.bind (strs ''domains'' fs) (\<lambda>d.
         Option.bind (strs ''categories'' fs) (\<lambda>c.
         Option.bind (strs ''users'' fs) (\<lambda>u.
         Option.bind (strs ''groups'' fs) (\<lambda>g.
         Option.bind (strs ''source_ips'' fs) (\<lambda>i.
         Option.bind (strs ''risk_levels'' fs) (\<lambda>r.
           Some \<lparr>cond_domains = d, cond_categories = c, cond_users = u, cond_groups = g,
                 cond_source_ips = i, cond_risk_levels = r\<rparr>))))))))"

fun u32_of_json :: "json \<Rightarrow> u32 option" where
  "u32_of_json (JInt i) = (if 0 \<le> i \<and> i < 2 ^ 32 then Some (word_of_int i) else None)"
| "u32_of_json _ = None"

definition rule_to_json :: "policy_rule \<Rightarrow> json" where
  "rule_to_json r = JObj
     [(''id'', JStr (pr_id r)),
      (''description'', opt_to_json JStr (pr_description r)),
      (''priority'', JInt (uint (pr_priority r))),
      (''action'', JStr (show_action (pr_action r))),
      (''conditions'', conditions_to_json (pr_conditions r))]"

definition rule_of_json :: "json \<Rightarrow> policy_rule option" where
  "rule_of_json j =
     Option.bind (fields_of [''id'', ''description'', ''priority'', ''action'', ''conditions''] j) (\<lambda>fs.
     Option.bind (req_field string_of_json ''id'' fs) (\<lambda>i.
     Option.bind (opt_field string_of_json ''description'' fs) (\<lambda>d.
     Option.bind (req_field u32_of_json ''priority'' fs) (\<lambda>p.
     Option.bind (req_field action_of_json ''action'' fs) (\<lambda>a.
     Option.bind (default_field conditions_default conditions_of_json ''conditions'' fs) (\<lambda>c.
       Some \<lparr>pr_id = i, pr_description = d, pr_priority = p, pr_action = a,
             pr_conditions = c\<rparr>))))))"

definition document_of_json :: "json \<Rightarrow> policy_document option" where
  "document_of_json j =
     Option.bind (fields_of [''version'', ''rules''] j) (\<lambda>fs.
     Option.bind (req_field string_of_json ''version'' fs) (\<lambda>v.
     Option.bind (req_field (list_of_json rule_of_json) ''rules'' fs) (\<lambda>rs.
       Some \<lparr>pdoc_version = v, pdoc_rules = rs\<rparr>)))"

text \<open>\<open>data\<close> is the outcome of reading the file at \<open>path\<close>.\<close>

definition document_load_from_file :: "externs \<Rightarrow> string \<Rightarrow> string option \<Rightarrow> policy_document res" where
  "document_load_from_file ex path data =
     bind_res (ok_or (Error (''failed to read '' @ path)) data) (\<lambda>text.
       ok_or (Error ''invalid policy document'')
         (Option.bind (json_of_text ex text) document_of_json))"

section \<open>Requests and results\<close>

record decision_request =
  dr_normalized_key :: string
  dr_entity_level :: string
  dr_source_ip :: string
  dr_user_id :: "string option"
  dr_group_ids :: "string list option"
  dr_category_hint :: "string option"
  dr_subcategory_hint :: "string option"
  dr_risk_hint :: "string option"
  dr_confidence_hint :: "f32 option"

record simulation_result =
  sr_decision :: policy_decision
  sr_matched_rule_id :: "string option"

section \<open>The store\<close>

record policy_store =
  ps_rules :: "policy_rule list"
  ps_version :: string
  ps_policy_id :: "uuid option"
  ps_taxonomy :: taxonomy_store

definition invalid_category_error :: "string \<Rightarrow> string \<Rightarrow> fallback_reason \<Rightarrow> error" where
  "invalid_category_error rule_id category reason =
     Error (''policy rule '' @ [CHR 0x27] @ rule_id @ [CHR 0x27] @ '' references invalid category ''
       @ [CHR 0x27] @ category @ [CHR 0x27] @ '': '' @ fallback_reason_as_str reason)"

definition canonicalize_category :: "taxonomy_store \<Rightarrow> string \<Rightarrow> string \<Rightarrow> string res" where
  "canonicalize_category taxonomy rule_id category =
     bind_res (validate_category taxonomy category) (\<lambda>v.
       case vc_fallback_reason v of
         Some reason \<Rightarrow>
           if reason \<in> {MissingCategory, UnknownCategory}
           then Inl (invalid_category_error rule_id category reason)
           else Inr (cat_id (vc_category v))
       | None \<Rightarrow> Inr (cat_id (vc_category v)))"

definition canonicalize_rule :: "taxonomy_store \<Rightarrow> policy_rule \<Rightarrow> policy_rule res" where
  "canonicalize_rule taxonomy rule =
     (case cond_categories (pr_conditions rule) of
        None \<Rightarrow> Inr rule
      | Some categories \<Rightarrow>
          bind_res (traverse_res (canonicalize_category taxonomy (pr_id rule)) categories) (\<lambda>cs.
            Inr (rule\<lparr>pr_conditions := (pr_conditions rule)\<lparr>cond_categories := Some cs\<rparr>\<rparr>)))"

definition canonicalize_rules :: "taxonomy_store \<Rightarrow> policy_rule list \<Rightarrow> policy_rule list res" where
  "canonicalize_rules taxonomy rules = traverse_res (canonicalize_rule taxonomy) rules"

definition store_from_document :: "policy_document \<Rightarrow> taxonomy_store \<Rightarrow> policy_store res" where
  "store_from_document doc taxonomy =
     bind_res (canonicalize_rules taxonomy (pdoc_rules doc)) (\<lambda>rules.
       Inr \<lparr>ps_rules = sort_key pr_priority rules, ps_version = pdoc_version doc,
            ps_policy_id = None, ps_taxonomy = taxonomy\<rparr>)"

definition store_load_from_file ::
  "externs \<Rightarrow> string \<Rightarrow> string option \<Rightarrow> taxonomy_store \<Rightarrow> policy_store res" where
  "store_load_from_file ex path data taxonomy =
     bind_res (document_load_from_file ex path data) (\<lambda>doc. store_from_document doc taxonomy)"

definition store_update :: "policy_store \<Rightarrow> policy_document \<Rightarrow> policy_store res" where
  "store_update st doc =
     bind_res (canonicalize_rules (ps_taxonomy st) (pdoc_rules doc)) (\<lambda>rules.
       Inr (st\<lparr>ps_rules := sort_key pr_priority rules, ps_version := pdoc_version doc,
               ps_policy_id := None\<rparr>))"

definition store_update_from_rules ::
  "policy_store \<Rightarrow> policy_rule list \<Rightarrow> string \<Rightarrow> uuid option \<Rightarrow> policy_store res" where
  "store_update_from_rules st rules version policy_id =
     bind_res (canonicalize_rules (ps_taxonomy st) rules) (\<lambda>rules.
       Inr (st\<lparr>ps_rules := rules, ps_version := version, ps_policy_id := policy_id\<rparr>))"

definition list_rules :: "policy_store \<Rightarrow> policy_rule list" where
  "list_rules st = ps_rules st"

section \<open>Matching\<close>

definition store_host_from_normalized_key :: "string \<Rightarrow> string option" where
  "store_host_from_normalized_key normalized_key =
     (let clean = (\<lambda>h. to_ascii_lowercase (trim_end_matches CHR ''.'' (trim h)));
          non_empty = (\<lambda>h. if h = [] then None else Some h)
      in case (case strip_prefix domain_pfx normalized_key of
                 Some h \<Rightarrow> Some h
               | None \<Rightarrow> strip_prefix subdomain_pfx normalized_key) of
           Some host \<Rightarrow> non_empty (clean host)
         | None \<Rightarrow>
             Option.bind (strip_prefix url_pfx normalized_key) (\<lambda>raw_url.
               let without_scheme =
                     (case split_once_str ''://'' (trim raw_url) of
                        Some (_, tail) \<Rightarrow> tail
                      | None \<Rightarrow> raw_url);
                   host_port = hd (split_char CHR ''/'' without_scheme);
                   host = last (split_char CHR ''@'' host_port)
               in non_empty (clean (hd (split_char CHR '':'' host)))))"

definition domain_pattern_scope :: "string \<Rightarrow> string option" where
  "domain_pattern_scope pattern =
     (let normalized = to_ascii_lowercase (trim pattern)
      in if normalized = [] then None
         else Some (case strip_prefix ''*.'' normalized of Some s \<Rightarrow> s | None \<Rightarrow> normalized))"

definition domain_pattern_matches_host :: "string \<Rightarrow> string \<Rightarrow> bool" where
  "domain_pattern_matches_host pattern host =
     (case domain_pattern_scope pattern of
        None \<Rightarrow> False
      | Some scope \<Rightarrow> if host = scope then True else ends_with host (CHR ''.'' # scope))"

definition matches_conditions ::
  "conditions \<Rightarrow> string option \<Rightarrow> decision_request \<Rightarrow> bool" where
  "matches_conditions cond canonical_category request \<longleftrightarrow>
     (case cond_domains cond of
        None \<Rightarrow> True
      | Some domains \<Rightarrow>
          (case store_host_from_normalized_key (dr_normalized_key request) of
             None \<Rightarrow> False
           | Some host \<Rightarrow> list_ex (\<lambda>pattern. domain_pattern_matches_host pattern host) domains)) \<and>
     (case cond_categories cond of
        None \<Rightarrow> True
      | Some categories \<Rightarrow>
          (case canonical_category of
             Some category \<Rightarrow> list_ex (\<lambda>c. c = category) categories
           | None \<Rightarrow> False)) \<and>
     (case cond_users cond of
        None \<Rightarrow> True
      | Some users \<Rightarrow>
          (case dr_user_id request of
             Some user \<Rightarrow> list_ex (\<lambda>u. eq_ignore_ascii_case u user) users
           | None \<Rightarrow> False)) \<and>
     (case cond_groups cond of
        None \<Rightarrow> True
      | Some groups \<Rightarrow>
          (case dr_group_ids request of
             Some req_groups \<Rightarrow> list_ex (\<lambda>g. g \<in> set groups) req_groups
           | None \<Rightarrow> False)) \<and>
     (case cond_source_ips cond of
        None \<Rightarrow> True
      | Some ips \<Rightarrow> list_ex (\<lambda>ip. ip = dr_source_ip request) ips) \<and>
     (case cond_risk_levels cond of
        None \<Rightarrow> True
      | Some risk_levels \<Rightarrow>
          (case dr_risk_hint request of
             Some risk \<Rightarrow> list_ex (\<lambda>rl. eq_ignore_ascii_case rl risk) risk_levels
           | None \<Rightarrow> False))"

section \<open>Evaluation\<close>

definition canonicalize_request_category ::
  "taxonomy_store \<Rightarrow> string \<Rightarrow> string option \<Rightarrow> string option res" where
  "canonicalize_request_category taxonomy hint subcategory_hint =
     (if subcategory_hint \<noteq> None
      then map_res (\<lambda>v. Some (cat_id (vl_category v))) (validate_labels taxonomy hint subcategory_hint)
      else map_res (\<lambda>v. Some (cat_id (vc_category v))) (validate_category taxonomy hint))"

definition to_verdict ::
  "decision_request \<Rightarrow> policy_rule \<Rightarrow> string option \<Rightarrow> classification_verdict option" where
  "to_verdict request rule canonical_category =
     Some \<lparr>cv_primary_category =
             (case canonical_category of None \<Rightarrow> UNKNOWN_CATEGORY_ID | Some c \<Rightarrow> c),
           cv_subcategory = (case pr_description rule of None \<Rightarrow> ''Rule'' | Some d \<Rightarrow> d),
           cv_risk_level = (case dr_risk_hint request of None \<Rightarrow> ''medium'' | Some r \<Rightarrow> r),
           cv_confidence = (case dr_confidence_hint request of None \<Rightarrow> f32_half | Some f \<Rightarrow> f),
           cv_recommended_action = pr_action rule\<rparr>"

definition to_verdict_default ::
  "decision_request \<Rightarrow> string option \<Rightarrow> classification_verdict option" where
  "to_verdict_default request canonical_category =
     Some \<lparr>cv_primary_category =
             (case canonical_category of None \<Rightarrow> UNKNOWN_CATEGORY_ID | Some c \<Rightarrow> c),
           cv_subcategory = ''Default'',
           cv_risk_level = (case dr_risk_hint request of None \<Rightarrow> ''low'' | Some r \<Rightarrow> r),
           cv_confidence = (case dr_confidence_hint request of None \<Rightarrow> f32_half | Some f \<Rightarrow> f),
           cv_recommended_action = Allow\<rparr>"

fun simulate_rules ::
  "string option \<Rightarrow> decision_request \<Rightarrow> policy_rule list \<Rightarrow> simulation_result" where
  "simulate_rules canonical_category request [] =
     \<lparr>sr_decision =
        \<lparr>pd_action = Allow, pd_cache_hit = False,
         pd_verdict = to_verdict_default request canonical_category, pd_decision_source = None\<rparr>,
      sr_matched_rule_id = None\<rparr>"
| "simulate_rules canonical_category request (rule # rules) =
     (if matches_conditions (pr_conditions rule) canonical_category request then
        \<lparr>sr_decision =
           \<lparr>pd_action = pr_action rule, pd_cache_hit = False,
            pd_verdict = to_verdict request rule canonical_category, pd_decision_source = None\<rparr>,
         sr_matched_rule_id = Some (pr_id rule)\<rparr>
      else simulate_rules canonical_category request rules)"

definition request_category :: "taxonomy_store \<Rightarrow> decision_request \<Rightarrow> string option res" where
  "request_category taxonomy request =
     (case dr_category_hint request of
        None \<Rightarrow> Inr None
      | Some hint \<Rightarrow> canonicalize_request_category taxonomy hint (dr_subcategory_hint request))"

definition store_simulate :: "policy_store \<Rightarrow> decision_request \<Rightarrow> simulation_result res" where
  "store_simulate st request =
     bind_res (request_category (ps_taxonomy st) request) (\<lambda>canonical_category.
       Inr (simulate_rules canonical_category request (ps_rules st)))"

section \<open>Domain patterns\<close>

interpretation pattern: scope_matcher domain_pattern_scope domain_pattern_matches_host
  by unfold_locales
    (auto simp: domain_pattern_matches_host_def host_under_def split: option.splits)

section \<open>Canonical rules\<close>

definition rule_canonical :: "taxonomy_store \<Rightarrow> policy_rule \<Rightarrow> bool" where
  "rule_canonical tx r \<longleftrightarrow>
     (\<forall>cs. cond_categories (pr_conditions r) = Some cs \<longrightarrow> (\<forall>c \<in> set cs. canonical_id tx c))"

definition store_inv :: "policy_store \<Rightarrow> bool" where
  "store_inv st \<longleftrightarrow> resolver_wf (ps_taxonomy st) \<and> (\<forall>r \<in> set (ps_rules st). rule_canonical (ps_taxonomy st) r)"

lemma canonicalize_category_canon:
  assumes "resolver_wf tx"
  shows "canonicalize_category tx rid x = tax.canon_step (invalid_category_error rid) tx x"
proof -
  obtain v where "validate_category tx x = Inr v"
    "vc_fallback_reason v \<in> {None, Some MissingCategory, Some UnknownCategory}"
    using validate_category_wf [of tx x] assms by (auto simp: resolver_wf_def)
  then show ?thesis
    by (auto simp: canonicalize_category_def tax.canon_step_def)
qed

lemma canonicalize_categories_canon:
  "resolver_wf tx \<Longrightarrow>
   canonicalize_category tx rid = tax.canon_step (invalid_category_error rid) tx"
  by (rule ext) (rule canonicalize_category_canon)

lemma canonicalize_rule_cases:
  assumes "canonicalize_rule tx r = Inr r'"
  shows "pr_id r' = pr_id r" "pr_description r' = pr_description r"
    "pr_priority r' = pr_priority r" "pr_action r' = pr_action r"
    "cond_categories (pr_conditions r) = None \<Longrightarrow> r' = r"
  using assms by (auto simp: canonicalize_rule_def res_simps split: option.splits)

lemma canonicalize_rule_canonical:
  assumes "resolver_wf tx" "canonicalize_rule tx r = Inr r'"
  shows "rule_canonical tx r'"
  using assms
  by (auto simp: canonicalize_rule_def res_simps rule_canonical_def canonicalize_categories_canon
      split: option.splits dest: tax.canon_canonical)

lemma canonicalize_rule_fixed:
  assumes "resolver_wf tx" "rule_canonical tx r"
  shows "canonicalize_rule tx r = Inr r"
proof (cases "cond_categories (pr_conditions r)")
  case None
  then show ?thesis by (simp add: canonicalize_rule_def)
next
  case (Some cs)
  with assms have "traverse_res (canonicalize_category tx (pr_id r)) cs = Inr cs"
    by (intro traverse_res_id)
      (simp add: rule_canonical_def canonicalize_category_canon tax.canon_step_fixed)
  with Some show ?thesis by (simp add: canonicalize_rule_def)
qed

lemma canonicalize_rules_canonical:
  assumes "resolver_wf tx" "canonicalize_rules tx rs = Inr rs'" "r \<in> set rs'"
  shows "rule_canonical tx r"
  using traverse_res_mem [OF assms(2) [unfolded canonicalize_rules_def] assms(3)]
    canonicalize_rule_canonical [OF assms(1)] by blast

lemma canonicalize_rules_fixed:
  assumes "resolver_wf tx" "\<And>r. r \<in> set rs \<Longrightarrow> rule_canonical tx r"
  shows "canonicalize_rules tx rs = Inr rs"
  unfolding canonicalize_rules_def using assms canonicalize_rule_fixed by (intro traverse_res_id) blast

lemma canonicalize_rules_map:
  assumes "canonicalize_rules tx rs = Inr rs'"
  shows "map pr_priority rs' = map pr_priority rs" "map pr_id rs' = map pr_id rs"
    "map pr_action rs' = map pr_action rs"
proof -
  have "list_all2 (\<lambda>x y. canonicalize_rule tx x = Inr y) rs rs'"
    using assms by (simp add: canonicalize_rules_def traverse_res_Inr_iff)
  then show "map pr_priority rs' = map pr_priority rs" "map pr_id rs' = map pr_id rs"
    "map pr_action rs' = map pr_action rs"
    by (induction rule: list_all2_induct) (auto dest: canonicalize_rule_cases)
qed

section \<open>First match\<close>

text \<open>
  The specification of rule choice: among the matching rules of the document, one of least
  priority number, and the earliest such rule of the document.
\<close>

definition winning_rule :: "(policy_rule \<Rightarrow> bool) \<Rightarrow> policy_rule list \<Rightarrow> policy_rule option" where
  "winning_rule P rules =
     (let ms = filter P rules
      in if ms = [] then None
         else find (\<lambda>r. pr_priority r = Min (pr_priority ` set ms)) ms)"

definition rule_outcome ::
  "string option \<Rightarrow> decision_request \<Rightarrow> policy_rule option \<Rightarrow> simulation_result" where
  "rule_outcome cc req w =
     (case w of
        None \<Rightarrow> simulate_rules cc req []
      | Some r \<Rightarrow>
          \<lparr>sr_decision = \<lparr>pd_action = pr_action r, pd_cache_hit = False,
             pd_verdict = to_verdict req r cc, pd_decision_source = None\<rparr>,
           sr_matched_rule_id = Some (pr_id r)\<rparr>)"

lemma simulate_rules_find:
  "simulate_rules cc req rs =
     rule_outcome cc req (find (\<lambda>r. matches_conditions (pr_conditions r) cc req) rs)"
  by (induction rs) (auto simp: rule_outcome_def)

lemma rule_outcome_category:
  "pd_verdict (sr_decision (rule_outcome cc req w)) = Some v \<Longrightarrow>
   cv_primary_category v = (case cc of None \<Rightarrow> UNKNOWN_CATEGORY_ID | Some c \<Rightarrow> c)"
  by (cases w) (auto simp: rule_outcome_def to_verdict_def to_verdict_default_def)

lemma find_filter_hd: "find P xs = (case filter P xs of [] \<Rightarrow> None | y # _ \<Rightarrow> Some y)"
  by (induction xs) auto

lemma find_sorted_min:
  assumes "sorted (map f xs)" "find P xs = Some x"
  shows "f x = Min (f ` set (filter P xs))"
proof -
  obtain ys zs where xs: "xs = ys @ x # zs" "\<forall>y \<in> set ys. \<not> P y" "P x"
    using find_Some_prefix [OF assms(2)] by blast
  have "f x \<le> f y" if "y \<in> set (filter P xs)" for y
    using that xs assms(1) by (auto simp: sorted_append)
  moreover have "f x \<in> f ` set (filter P xs)" using xs by auto
  ultimately show ?thesis by (intro Min_eqI [symmetric]) auto
qed

lemma find_sort_key:
  fixes f :: "'a \<Rightarrow> 'k :: linorder"
  shows "find P (sort_key f xs) =
     (if filter P xs = [] then None
      else find (\<lambda>x. f x = Min (f ` set (filter P xs))) (filter P xs))"
proof (cases "find P (sort_key f xs)")
  case None
  then have "filter P xs = []" by (auto simp: find_None_iff_ball filter_empty_conv)
  with None show ?thesis by simp
next
  case (Some x)
  let ?m = "Min (f ` set (filter P xs))"
  have set: "set (filter P (sort_key f xs)) = set (filter P xs)" by simp
  have m: "f x = ?m" using find_sorted_min [OF sorted_sort_key Some] set by simp
  have x: "x \<in> set xs" "P x" using find_Some_mem [OF Some] by auto
  have "find (\<lambda>x. f x = ?m) (filter P (sort_key f xs)) = Some x"
    using Some m by (cases "filter P (sort_key f xs)") (auto simp: find_filter_hd)
  moreover have "filter (\<lambda>x. f x = ?m) (filter P (sort_key f xs)) = filter (\<lambda>x. f x = ?m) (filter P xs)"
  proof -
    have "filter (\<lambda>x. f x = ?m) (filter P (sort_key f xs)) = filter P (filter (\<lambda>x. f x = ?m) (sort_key f xs))"
      by (simp add: filter_filter conj_commute)
    also have "\<dots> = filter P (filter (\<lambda>x. f x = ?m) xs)" by (simp add: sort_key_stable)
    finally show ?thesis by (simp add: filter_filter conj_commute)
  qed
  ultimately have "find (\<lambda>x. f x = ?m) (filter P xs) = Some x" by (simp add: find_filter_hd)
  with Some x show ?thesis by (auto simp: filter_empty_conv)
qed

lemma find_sort_winning: "find P (sort_key pr_priority rs) = winning_rule P rs"
  by (simp add: find_sort_key winning_rule_def Let_def)

lemma winning_rule_Some:
  assumes "winning_rule P rs = Some r"
  shows "r \<in> set rs" "P r" "\<And>r'. r' \<in> set rs \<Longrightarrow> P r' \<Longrightarrow> pr_priority r \<le> pr_priority r'"
proof -
  have f: "find (\<lambda>x. pr_priority x = Min (pr_priority ` set (filter P rs))) (filter P rs) = Some r"
    using assms by (auto simp: winning_rule_def Let_def split: if_splits)
  then have r: "r \<in> set (filter P rs)" "pr_priority r = Min (pr_priority ` set (filter P rs))"
    using find_Some_mem by fastforce+
  then show "r \<in> set rs" "P r" by auto
  fix r' assume "r' \<in> set rs" "P r'"
  then have "Min (pr_priority ` set (filter P rs)) \<le> pr_priority r'" by (intro Min_le) auto
  with r(2) show "pr_priority r \<le> pr_priority r'" by simp
qed

lemma winning_rule_None: "winning_rule P rs = None \<longleftrightarrow> (\<forall>r \<in> set rs. \<not> P r)"
proof
  assume "winning_rule P rs = None"
  then have "find P (sort_key pr_priority rs) = None" by (simp add: find_sort_winning)
  then show "\<forall>r \<in> set rs. \<not> P r" by (simp add: find_None_iff_ball)
next
  assume "\<forall>r \<in> set rs. \<not> P r"
  then show "winning_rule P rs = None" by (simp add: winning_rule_def filter_empty_conv)
qed

lemma request_category_total: "store_wf tx \<Longrightarrow> \<exists>c. request_category tx req = Inr c"
proof -
  assume wf: "store_wf tx"
  have "\<exists>v. validate_category tx h = Inr v" for h by (metis validate_category_wf [OF wf])
  moreover have "\<exists>v. validate_labels tx h s = Inr v" for h s using validate_labels_wf [OF wf] by blast
  ultimately show ?thesis
    by (auto simp: request_category_def canonicalize_request_category_def res_simps
        split: option.splits)
qed

lemma request_category_canonical:
  assumes "store_wf tx" "request_category tx req = Inr (Some c)"
  shows "canonical_id tx c"
proof -
  have vc: "canonical_id tx (cat_id (vc_category v))" if "validate_category tx h = Inr v" for h v
    using that validate_category_wf [OF assms(1), of h] by (auto simp: canonical_id_def)
  have vl: "canonical_id tx (cat_id (vl_category v))" if "validate_labels tx h s = Inr v" for h s v
    using that validate_labels_wf [OF assms(1), of h s] by (auto simp: canonical_id_def labels_sound_def)
  show ?thesis
    using assms(2) vc vl
    by (auto simp: request_category_def canonicalize_request_category_def res_simps
        split: option.splits if_splits)
qed

lemma store_simulate_total: "store_inv st \<Longrightarrow> \<exists>r. store_simulate st req = Inr r"
  using request_category_total [of "ps_taxonomy st" req]
  by (auto simp: store_simulate_def store_inv_def resolver_wf_def)

lemma simulate_rules_verdict: "\<exists>v. pd_verdict (sr_decision (simulate_rules cc req rs)) = Some v"
  by (induction rs) (simp_all add: to_verdict_def to_verdict_default_def)

lemma simulate_has_verdict: "store_simulate st req = Inr r \<Longrightarrow> \<exists>v. pd_verdict (sr_decision r) = Some v"
  using simulate_rules_verdict by (auto simp: store_simulate_def res_simps)

section \<open>Invariant\<close>

lemma store_from_document_inv:
  "resolver_wf tx \<Longrightarrow> store_from_document doc tx = Inr st \<Longrightarrow> store_inv st"
  using canonicalize_rules_canonical
  by (auto simp: store_from_document_def res_simps store_inv_def)

lemma store_update_inv: "store_inv st \<Longrightarrow> store_update st doc = Inr st' \<Longrightarrow> store_inv st'"
  using canonicalize_rules_canonical
  by (auto simp: store_update_def res_simps store_inv_def)

lemma store_update_from_rules_inv:
  "store_inv st \<Longrightarrow> store_update_from_rules st rs v pid = Inr st' \<Longrightarrow> store_inv st'"
  using canonicalize_rules_canonical
  by (auto simp: store_update_from_rules_def res_simps store_inv_def)

lemma store_update_from_rules_again:
  "store_inv st \<Longrightarrow>
   store_update_from_rules st (ps_rules st) (ps_version st) (ps_policy_id st) = Inr st"
  by (simp add: store_update_from_rules_def store_inv_def canonicalize_rules_fixed)

section \<open>Properties\<close>

text \<open>
  C1: evaluation of a policy document.  A request gets the action, the verdict and the identifier
  of the matching rule with the least priority number, the earliest in the document among equals;
  when no rule matches it gets the default allow.
\<close>

theorem document_evaluation:
  assumes "resolver_wf taxonomy"
    and "canonicalize_rules taxonomy (pdoc_rules doc) = Inr rules"
    and "store_from_document doc taxonomy = Inr st"
  shows "\<exists>cc. request_category taxonomy request = Inr cc \<and>
    store_simulate st request =
      Inr (rule_outcome cc request
        (winning_rule (\<lambda>r. matches_conditions (pr_conditions r) cc request) rules))"
proof -
  have st: "ps_rules st = sort_key pr_priority rules" "ps_taxonomy st = taxonomy"
    using assms(2,3) by (auto simp: store_from_document_def)
  obtain cc where "request_category taxonomy request = Inr cc"
    using request_category_total assms(1) by (auto simp: resolver_wf_def)
  then show ?thesis
    by (simp add: store_simulate_def st simulate_rules_find find_sort_winning)
qed

text \<open>
  Evaluation never panics and always explains itself.  On a store that satisfies the
  invariant every request is answered, with a verdict whose category is a canonical one whenever
  the request carried a category hint.
\<close>

theorem simulate_total:
  assumes "store_inv st"
  shows "\<exists>r v. store_simulate st request = Inr r \<and> pd_verdict (sr_decision r) = Some v \<and>
    (dr_category_hint request \<noteq> None \<longrightarrow> canonical_id (ps_taxonomy st) (cv_primary_category v))"
proof -
  have wf: "store_wf (ps_taxonomy st)" using assms by (simp add: store_inv_def resolver_wf_def)
  obtain cc where cc: "request_category (ps_taxonomy st) request = Inr cc"
    using request_category_total [OF wf] by blast
  let ?r = "simulate_rules cc request (ps_rules st)"
  have r: "store_simulate st request = Inr ?r" by (simp add: store_simulate_def cc)
  obtain v where v: "pd_verdict (sr_decision ?r) = Some v" using simulate_rules_verdict by blast
  have c: "cv_primary_category v = (case cc of None \<Rightarrow> UNKNOWN_CATEGORY_ID | Some c \<Rightarrow> c)"
    using v unfolding simulate_rules_find by (rule rule_outcome_category)
  have "canonical_id (ps_taxonomy st) (cv_primary_category v)" if hint: "dr_category_hint request \<noteq> None"
  proof -
    obtain c' where "cc = Some c'"
      using hint cc by (auto simp: request_category_def canonicalize_request_category_def res_simps
          split: option.splits if_splits)
    with c request_category_canonical [OF wf] cc show ?thesis by simp
  qed
  with r v show ?thesis by blast
qed

text \<open>
  The store invariant.  Loading a document, replacing the rules by a document and replacing
  them by rows of the database all leave a store whose rules name canonical categories only.
\<close>

theorem store_operations_keep_invariant:
  assumes "resolver_wf taxonomy" "store_inv st"
  shows "(\<forall>st'. store_from_document doc taxonomy = Inr st' \<longrightarrow> store_inv st') \<and>
    (\<forall>st'. store_update st doc = Inr st' \<longrightarrow> store_inv st') \<and>
    (\<forall>st'. store_update_from_rules st rules version policy_id = Inr st' \<longrightarrow> store_inv st')"
  using store_from_document_inv [OF assms(1)] store_update_inv [OF assms(2)]
    store_update_from_rules_inv [OF assms(2)] by blast

text \<open>
  Canonicalisation is idempotent and keeps what evaluation looks at.  Rules that were
  canonicalised once come out unchanged, and priorities, identifiers and actions are those of the
  input, in its order.
\<close>

theorem canonicalize_rules_idempotent:
  assumes "resolver_wf taxonomy" "canonicalize_rules taxonomy rules = Inr rules'"
  shows "canonicalize_rules taxonomy rules' = Inr rules' \<and>
    map pr_priority rules' = map pr_priority rules \<and> map pr_id rules' = map pr_id rules \<and>
    map pr_action rules' = map pr_action rules"
  using canonicalize_rules_map [OF assms(2)]
    canonicalize_rules_fixed [OF assms(1) canonicalize_rules_canonical [OF assms]] by simp

text \<open>
  Domain conditions match whole labels.  A pattern covers a host exactly when the labels of
  its scope are a suffix of the labels of the host, so a name that merely ends in the same
  letters is not covered.
\<close>

theorem domain_pattern_labels:
  "domain_pattern_matches_host pattern host \<longleftrightarrow>
     (\<exists>scope. domain_pattern_scope pattern = Some scope \<and> suffix (labels scope) (labels host))"
  by (rule pattern.matches_labels)

end
