(* ===== verification/Policy_Db.thy ===== *)
theory Policy_Db
  imports Policy_Store
begin

text \<open>
  The database half of \<^verbatim>\<open>services/policy-engine/src/store.rs\<close>: the three policy tables, the
  statements that read and write them, and the audit table of \<^verbatim>\<open>audit.rs\<close>.

  The database is a record of its tables together with its environment: \<open>db_fails k\<close> says that
  the \<open>k\<close>-th statement fails, \<open>db_clock k\<close> is the value of \<open>NOW()\<close> in it, and \<open>db_uuids\<close> is the
  stream of random identifiers.  The code opens no transaction, so each statement that succeeds
  takes effect at once and stays when a later one fails; \<open>'a dbm\<close> threads the database through a
  result of either kind.
\<close>

section \<open>Tables\<close>

record policy_row =
  prow_id :: uuid
  prow_name :: string
  prow_version :: string
  prow_status :: string
  prow_created_by :: "string option"
  prow_created_at :: time

record policy_rule_row =
  rr_id :: uuid
  rr_policy_id :: uuid
  rr_priority :: i32
  rr_action :: string
  rr_description :: "string option"
  rr_conditions :: json

record policy_version_row =
  vr_id :: uuid
  vr_policy_id :: uuid
  vr_version :: string
  vr_status :: string
  vr_created_by :: "string option"
  vr_notes :: "string option"
  vr_rules :: json
  vr_created_at :: time

record policy_audit_event =
  pae_action :: string
  pae_actor :: "string option"
  pae_policy_id :: "uuid option"
  pae_version :: "string option"
  pae_status :: "string option"
  pae_notes :: "string option"
  pae_diff :: "json option"

record policy_db =
  db_policies :: "policy_row list"
  db_policy_rules :: "policy_rule_row list"
  db_policy_versions :: "policy_version_row list"
  db_audit :: "(uuid \<times> policy_audit_event) list"
  db_stmt :: nat
  db_uuid_next :: nat
  db_fails :: "nat \<Rightarrow> bool"
  db_clock :: "nat \<Rightarrow> time"
  db_uuids :: "nat \<Rightarrow> uuid"

section \<open>Statements\<close>

type_synonym 'a dbm = "policy_db \<Rightarrow> 'a res \<times> policy_db"

definition exec :: "(time \<Rightarrow> policy_db \<Rightarrow> 'a \<times> policy_db) \<Rightarrow> 'a dbm" where
  "exec f d =
     (let k = db_stmt d; d' = d\<lparr>db_stmt := Suc k\<rparr>
      in if db_fails d k then (Inl (Error ''database error''), d')
         else (let (x, d'') = f (db_clock d k) d' in (Inr x, d'')))"

definition query :: "(policy_db \<Rightarrow> 'a) \<Rightarrow> 'a dbm" where
  "query f = exec (\<lambda>_ d. (f d, d))"

definition db_return :: "'a \<Rightarrow> 'a dbm" where
  "db_return x d = (Inr x, d)"

definition db_lift :: "'a res \<Rightarrow> 'a dbm" where
  "db_lift r d = (r, d)"

definition db_bind :: "'a dbm \<Rightarrow> ('a \<Rightarrow> 'b dbm) \<Rightarrow> 'b dbm" where
  "db_bind m f d = (case m d of (Inl e, d') \<Rightarrow> (Inl e, d') | (Inr x, d') \<Rightarrow> f x d')"

definition new_uuid :: "uuid dbm" where
  "new_uuid d = (Inr (db_uuids d (db_uuid_next d)), d\<lparr>db_uuid_next := Suc (db_uuid_next d)\<rparr>)"

fun db_for :: "('a \<Rightarrow> unit dbm) \<Rightarrow> 'a list \<Rightarrow> unit dbm" where
  "db_for f [] = db_return ()"
| "db_for f (x # xs) = db_bind (f x) (\<lambda>_. db_for f xs)"

section \<open>Writing policies\<close>

definition insert_rule_row :: "uuid \<Rightarrow> policy_rule \<Rightarrow> unit dbm" where
  "insert_rule_row policy_id rule =
     db_bind new_uuid (\<lambda>rid.
       exec (\<lambda>_ d. ((), d\<lparr>db_policy_rules := db_policy_rules d @
         [\<lparr>rr_id = rid, rr_policy_id = policy_id, rr_priority = pr_priority rule,
           rr_action = show_action (pr_action rule), rr_description = pr_description rule,
           rr_conditions = conditions_to_json (pr_conditions rule)\<rparr>]\<rparr>)))"

definition record_policy_version ::
  "uuid \<Rightarrow> string \<Rightarrow> string \<Rightarrow> policy_rule list \<Rightarrow> string option \<Rightarrow> string option \<Rightarrow> unit dbm" where
  "record_policy_version policy_id version status rules created_by notes =
     db_bind new_uuid (\<lambda>vid.
       exec (\<lambda>now d. ((), d\<lparr>db_policy_versions := db_policy_versions d @
         [\<lparr>vr_id = vid, vr_policy_id = policy_id, vr_version = version, vr_status = status,
           vr_created_by = created_by, vr_notes = notes,
           vr_rules = JArr (map rule_to_json rules), vr_created_at = now\<rparr>]\<rparr>)))"

definition insert_policy_document ::
  "policy_document \<Rightarrow> string \<Rightarrow> string option \<Rightarrow> uuid dbm" where
  "insert_policy_document doc name created_by =
     db_bind new_uuid (\<lambda>policy_id.
     db_bind (exec (\<lambda>now d. ((), d\<lparr>db_policies := db_policies d @
       [\<lparr>prow_id = policy_id, prow_name = name, prow_version = pdoc_version doc,
         prow_status = ''active'', prow_created_by = created_by, prow_created_at = now\<rparr>]\<rparr>))) (\<lambda>_.
     db_bind (db_for (insert_rule_row policy_id) (pdoc_rules doc)) (\<lambda>_.
     db_bind (record_policy_version policy_id (pdoc_version doc) ''active'' (pdoc_rules doc)
       created_by None) (\<lambda>_.
     db_return policy_id))))"

section \<open>Reading policies\<close>

definition action_of_db :: "string \<Rightarrow> policy_action res" where
  "action_of_db action =
     (if action = ''Allow'' then Inr Allow
      else if action = ''Block'' then Inr Block
      else if action = ''Warn'' then Inr Warn
      else if action = ''Monitor'' then Inr Monitor
      else if action = ''Review'' then Inr Review
      else if action = ''RequireApproval'' then Inr RequireApproval
      else if action = ''ContentPending'' then Inr ContentPending
      else Inl (Error (''unknown action '' @ action)))"

definition db_row_to_rule ::
  "string \<Rightarrow> string option \<Rightarrow> i32 \<Rightarrow> json \<Rightarrow> policy_rule res" where
  "db_row_to_rule action description priority conditions =
     bind_res (action_of_db action) (\<lambda>action_enum.
     bind_res (ok_or (Error ''invalid conditions'') (conditions_of_json conditions)) (\<lambda>cond.
       Inr \<lparr>pr_id = ''db-rule-'' @ show_int (sint priority) @ ''-'' @ to_ascii_lowercase action,
            pr_description = description, pr_priority = priority, pr_action = action_enum,
            pr_conditions = cond\<rparr>))"

definition load_latest_version_rules :: "uuid \<Rightarrow> policy_rule list option dbm" where
  "load_latest_version_rules policy_id =
     db_bind (query (\<lambda>d. latest_by vr_created_at
       (filter (\<lambda>v. vr_policy_id v = policy_id) (db_policy_versions d)))) (\<lambda>row.
     case row of
       None \<Rightarrow> db_return None
     | Some v \<Rightarrow>
         db_lift (map_res Some
           (ok_or (Error ''invalid policy version'') (list_of_json rule_of_json (vr_rules v)))))"

definition load_policy_rules_table :: "uuid \<Rightarrow> policy_rule list dbm" where
  "load_policy_rules_table policy_id =
     db_bind (query (\<lambda>d. sort_key (\<lambda>r. sint (rr_priority r))
       (filter (\<lambda>r. rr_policy_id r = policy_id) (db_policy_rules d)))) (\<lambda>rows.
     db_lift (traverse_res
       (\<lambda>r. db_row_to_rule (rr_action r) (rr_description r) (rr_priority r) (rr_conditions r)) rows))"

definition fetch_policy_rules :: "uuid \<Rightarrow> policy_rule list dbm" where
  "fetch_policy_rules policy_id =
     db_bind (query (\<lambda>d. sort_key (\<lambda>r. sint (rr_priority r))
       (filter (\<lambda>r. rr_policy_id r = policy_id) (db_policy_rules d)))) (\<lambda>rows.
     db_lift (traverse_res
       (\<lambda>r. db_row_to_rule (rr_action r) (rr_description r) (rr_priority r) (rr_conditions r)) rows))"

definition store_load_from_db :: "taxonomy_store \<Rightarrow> policy_store option dbm" where
  "store_load_from_db taxonomy =
     db_bind (query (\<lambda>d. latest_by prow_created_at
       (filter (\<lambda>p. prow_status p = ''active'') (db_policies d)))) (\<lambda>policy.
     case policy of
       None \<Rightarrow> db_return None
     | Some row \<Rightarrow>
         db_bind (load_latest_version_rules (prow_id row)) (\<lambda>latest.
         let parsed = (case latest of None \<Rightarrow> [] | Some rs \<Rightarrow> rs)
         in db_bind (if parsed = [] then load_policy_rules_table (prow_id row) else db_return parsed)
            (\<lambda>parsed_rules.
            db_bind (db_lift (canonicalize_rules taxonomy parsed_rules)) (\<lambda>rules.
            db_return (Some \<lparr>ps_rules = rules, ps_version = prow_version row,
                             ps_policy_id = Some (prow_id row), ps_taxonomy = taxonomy\<rparr>)))))"

definition seed_db_from_document :: "policy_document \<Rightarrow> string \<Rightarrow> string option \<Rightarrow> uuid dbm" where
  "seed_db_from_document doc name created_by = insert_policy_document doc name created_by"

section \<open>Updating policies\<close>

record policy_update_request =
  pur_version :: "string option"
  pur_status :: "string option"
  pur_notes :: "string option"
  pur_rules :: "policy_rule list option"

definition update_policy_document ::
  "uuid \<Rightarrow> policy_update_request \<Rightarrow> string option \<Rightarrow> unit dbm" where
  "update_policy_document policy_id req actor =
     db_bind (query (\<lambda>d. find (\<lambda>p. prow_id p = policy_id) (db_policies d))) (\<lambda>row.
     db_bind (db_lift (ok_or (Error ''policy not found'') row)) (\<lambda>record.
     let version = (case pur_version req of None \<Rightarrow> prow_version record | Some v \<Rightarrow> v);
         status = (case pur_status req of None \<Rightarrow> prow_status record | Some s \<Rightarrow> s)
     in db_bind
          (if pur_version req \<noteq> None \<or> pur_status req \<noteq> None then
             exec (\<lambda>_ d. ((), d\<lparr>db_policies :=
               map (\<lambda>p. if prow_id p = policy_id
                        then p\<lparr>prow_version := version, prow_status := status\<rparr> else p)
                 (db_policies d)\<rparr>))
           else db_return ()) (\<lambda>_.
        db_bind
          (case pur_rules req of
             Some rules \<Rightarrow>
               db_bind (exec (\<lambda>_ d. ((), d\<lparr>db_policy_rules :=
                 filter (\<lambda>r. rr_policy_id r \<noteq> policy_id) (db_policy_rules d)\<rparr>))) (\<lambda>_.
               db_bind (db_for (insert_rule_row policy_id) rules) (\<lambda>_.
               db_return rules))
           | None \<Rightarrow> fetch_policy_rules policy_id) (\<lambda>rules.
        record_policy_version policy_id version status rules actor (pur_notes req)))))"

section \<open>Audit\<close>

definition audit_log :: "policy_audit_event \<Rightarrow> unit dbm" where
  "audit_log event =
     db_bind new_uuid (\<lambda>i. exec (\<lambda>_ d. ((), d\<lparr>db_audit := db_audit d @ [(i, event)]\<rparr>)))"

section \<open>Running statements\<close>

text \<open>From here on no statement fails.\<close>

definition db_quiet :: "policy_db \<Rightarrow> bool" where
  "db_quiet d \<longleftrightarrow> (\<forall>k \<ge> db_stmt d. \<not> db_fails d k)"

lemma db_quiet_now: "db_quiet d \<Longrightarrow> \<not> db_fails d (db_stmt d)"
  by (simp add: db_quiet_def)

lemma exec_quiet:
  "db_quiet d \<Longrightarrow>
   exec f d = (case f (db_clock d (db_stmt d)) (d\<lparr>db_stmt := Suc (db_stmt d)\<rparr>) of (x, d') \<Rightarrow> (Inr x, d'))"
  by (simp add: exec_def db_quiet_now Let_def)

lemma query_quiet: "db_quiet d \<Longrightarrow> query f d = (Inr (f (d\<lparr>db_stmt := Suc (db_stmt d)\<rparr>)), d\<lparr>db_stmt := Suc (db_stmt d)\<rparr>)"
  by (simp add: query_def exec_quiet)

lemma db_quiet_stmt [simp]: "db_quiet d \<Longrightarrow> db_quiet (d\<lparr>db_stmt := Suc (db_stmt d)\<rparr>)"
  by (simp add: db_quiet_def)

lemma db_bind_apply:
  "m d = (Inr x, d') \<Longrightarrow> db_bind m f d = f x d'"
  by (simp add: db_bind_def)

lemma db_bind_error: "m d = (Inl e, d') \<Longrightarrow> db_bind m f d = (Inl e, d')"
  by (simp add: db_bind_def)

lemmas db_run_simps = db_bind_def db_return_def db_lift_def new_uuid_def

text \<open>What a run of the rule inserts leaves of the database.\<close>

definition same_but_rules :: "policy_db \<Rightarrow> policy_db \<Rightarrow> bool" where
  "same_but_rules d d' \<longleftrightarrow>
     db_policies d' = db_policies d \<and> db_policy_versions d' = db_policy_versions d \<and>
     db_audit d' = db_audit d \<and> db_fails d' = db_fails d \<and> db_clock d' = db_clock d \<and>
     db_uuids d' = db_uuids d \<and> db_stmt d \<le> db_stmt d' \<and> db_uuid_next d \<le> db_uuid_next d'"

lemma same_but_rules_trans: "same_but_rules a b \<Longrightarrow> same_but_rules b c \<Longrightarrow> same_but_rules a c"
  by (auto simp: same_but_rules_def)

lemma same_but_rules_quiet: "same_but_rules d d' \<Longrightarrow> db_quiet d \<Longrightarrow> db_quiet d'"
  by (auto simp: same_but_rules_def db_quiet_def)

lemma insert_rule_row_quiet:
  assumes "db_quiet d"
  shows "\<exists>d'. insert_rule_row pid r d = (Inr (), d') \<and> same_but_rules d d'"
  using assms
  by (auto simp: insert_rule_row_def db_run_simps exec_def db_quiet_def same_but_rules_def)

lemma insert_rule_rows_quiet:
  "db_quiet d \<Longrightarrow> \<exists>d'. db_for (insert_rule_row pid) rs d = (Inr (), d') \<and> same_but_rules d d'"
proof (induction rs arbitrary: d)
  case Nil
  then show ?case by (simp add: db_return_def same_but_rules_def)
next
  case (Cons r rs)
  obtain d1 where d1: "insert_rule_row pid r d = (Inr (), d1)" "same_but_rules d d1"
    using insert_rule_row_quiet [OF Cons.prems] by blast
  obtain d2 where d2: "db_for (insert_rule_row pid) rs d1 = (Inr (), d2)" "same_but_rules d1 d2"
    using Cons.IH same_but_rules_quiet [OF d1(2) Cons.prems] by blast
  from d1 d2 same_but_rules_trans show ?case by (auto simp: db_bind_def)
qed

section \<open>JSON of rules\<close>

lemma conditions_json_round: "conditions_of_json (conditions_to_json c) = Some c"
proof -
  note f = opt_field_strs_round
  show ?thesis
    by (simp add: conditions_of_json_def conditions_to_json_def condition_keys_def Let_def f)
qed

lemma u32_json_round [simp]: "u32_of_json (JInt (uint w)) = Some w"
  using uint_lt2p [of w] by simp

lemma rule_json_round: "rule_of_json (rule_to_json r) = Some r"
  by (simp add: rule_of_json_def rule_to_json_def req_field_def default_field_def
      opt_field_str_round conditions_json_round del: u32_of_json.simps)

lemma rules_json_round: "list_of_json rule_of_json (JArr (map rule_to_json rs)) = Some rs"
  by (simp add: comp_def rule_json_round)

lemma action_db_round: "action_of_db (show_action a) = Inr a"
  by (cases a) (simp_all add: action_of_db_def)

lemma db_row_round:
  "db_row_to_rule (show_action (pr_action r)) (pr_description r) (pr_priority r)
     (conditions_to_json (pr_conditions r)) =
   Inr (r\<lparr>pr_id := ''db-rule-'' @ show_int (sint (pr_priority r)) @ ''-''
     @ to_ascii_lowercase (show_action (pr_action r))\<rparr>)"
  by (simp add: db_row_to_rule_def action_db_round conditions_json_round)

section \<open>Insert, then load\<close>

text \<open>
  What the environment promises an insert: the random identifier is new, and the clock has moved
  past the policies already stored.
\<close>

definition next_uuid :: "policy_db \<Rightarrow> uuid" where
  "next_uuid d = db_uuids d (db_uuid_next d)"

definition db_fresh :: "policy_db \<Rightarrow> bool" where
  "db_fresh d \<longleftrightarrow>
     (\<forall>p \<in> set (db_policies d). prow_created_at p < db_clock d (db_stmt d)) \<and>
     (\<forall>v \<in> set (db_policy_versions d). vr_policy_id v \<noteq> next_uuid d) \<and>
     (\<forall>r \<in> set (db_policy_rules d). rr_policy_id r \<noteq> next_uuid d)"

definition new_policy_row :: "policy_db \<Rightarrow> policy_document \<Rightarrow> string \<Rightarrow> string option \<Rightarrow> policy_row" where
  "new_policy_row d doc name created_by =
     \<lparr>prow_id = next_uuid d, prow_name = name, prow_version = pdoc_version doc,
      prow_status = ''active'', prow_created_by = created_by,
      prow_created_at = db_clock d (db_stmt d)\<rparr>"

text \<open>The state after the first statement of an insert.\<close>

definition with_policy_row :: "policy_row \<Rightarrow> policy_db \<Rightarrow> policy_db" where
  "with_policy_row row d =
     d\<lparr>db_policies := db_policies d @ [row], db_stmt := Suc (db_stmt d),
       db_uuid_next := Suc (db_uuid_next d)\<rparr>"

lemma with_policy_row_quiet: "db_quiet d \<Longrightarrow> db_quiet (with_policy_row row d)"
  by (simp add: with_policy_row_def db_quiet_def)

lemma insert_policy_document_first:
  assumes "\<not> db_fails d (db_stmt d)"
  shows "insert_policy_document doc name created_by d =
    db_bind (db_for (insert_rule_row (next_uuid d)) (pdoc_rules doc)) (\<lambda>_.
    db_bind (record_policy_version (next_uuid d) (pdoc_version doc) ''active'' (pdoc_rules doc)
      created_by None) (\<lambda>_. db_return (next_uuid d)))
    (with_policy_row (new_policy_row d doc name created_by) d)"
  using assms
  by (cases d) (simp add: insert_policy_document_def db_bind_def [of new_uuid] db_bind_def [of "exec f" for f]
      new_uuid_def exec_def with_policy_row_def new_policy_row_def next_uuid_def Let_def)

lemma record_policy_version_quiet:
  assumes "db_quiet d"
  shows "\<exists>v d'. record_policy_version pid ver st rs by notes d = (Inr (), d') \<and>
    db_policy_versions d' = db_policy_versions d @ [v] \<and> vr_policy_id v = pid \<and>
    vr_rules v = JArr (map rule_to_json rs) \<and> db_policies d' = db_policies d \<and>
    db_policy_rules d' = db_policy_rules d \<and> db_quiet d'"
  using assms by (auto simp: record_policy_version_def db_run_simps exec_def db_quiet_def Let_def)

lemma insert_policy_document_quiet:
  assumes "db_quiet d"
  obtains v d' where
    "insert_policy_document doc name created_by d = (Inr (next_uuid d), d')"
    "db_policies d' = db_policies d @ [new_policy_row d doc name created_by]"
    "db_policy_versions d' = db_policy_versions d @ [v]"
    "vr_policy_id v = next_uuid d" "vr_rules v = JArr (map rule_to_json (pdoc_rules doc))"
    "pdoc_rules doc = [] \<Longrightarrow> db_policy_rules d' = db_policy_rules d" "db_quiet d'"
proof -
  let ?d0 = "with_policy_row (new_policy_row d doc name created_by) d"
  have q0: "db_quiet ?d0" using assms by (rule with_policy_row_quiet)
  obtain d1 where d1: "db_for (insert_rule_row (next_uuid d)) (pdoc_rules doc) ?d0 = (Inr (), d1)"
    "same_but_rules ?d0 d1" using insert_rule_rows_quiet [OF q0] by blast
  have q1: "db_quiet d1" using same_but_rules_quiet d1(2) q0 by blast
  obtain v d' where v: "record_policy_version (next_uuid d) (pdoc_version doc) ''active''
      (pdoc_rules doc) created_by None d1 = (Inr (), d')"
    "db_policy_versions d' = db_policy_versions d1 @ [v]" "vr_policy_id v = next_uuid d"
    "vr_rules v = JArr (map rule_to_json (pdoc_rules doc))" "db_policies d' = db_policies d1"
    "db_policy_rules d' = db_policy_rules d1" "db_quiet d'"
    using record_policy_version_quiet [OF q1] by blast
  have run: "insert_policy_document doc name created_by d = (Inr (next_uuid d), d')"
    unfolding insert_policy_document_first [OF db_quiet_now [OF assms]]
    by (simp add: db_bind_def d1(1) v(1) db_return_def)
  have "db_policies d' = db_policies d @ [new_policy_row d doc name created_by]"
    "db_policy_versions d' = db_policy_versions d @ [v]"
    using v d1(2) by (auto simp: same_but_rules_def with_policy_row_def)
  moreover have "db_policy_rules d' = db_policy_rules d" if "pdoc_rules doc = []"
    using that v(6) d1(1) by (auto simp: db_return_def with_policy_row_def)
  ultimately show ?thesis using that run v by blast
qed

lemma load_latest_version_quiet:
  assumes "db_quiet d"
  shows "load_latest_version_rules pid d =
    (case latest_by vr_created_at (filter (\<lambda>v. vr_policy_id v = pid) (db_policy_versions d)) of
       None \<Rightarrow> Inr None
     | Some v \<Rightarrow> map_res Some
         (ok_or (Error ''invalid policy version'') (list_of_json rule_of_json (vr_rules v))),
     d\<lparr>db_stmt := Suc (db_stmt d)\<rparr>)"
  using assms
  by (simp add: load_latest_version_rules_def db_bind_def query_quiet db_return_def db_lift_def
      split: option.splits)

lemma load_policy_rules_table_none:
  assumes "db_quiet d" "\<forall>r \<in> set (db_policy_rules d). rr_policy_id r \<noteq> pid"
  shows "load_policy_rules_table pid d = (Inr [], d\<lparr>db_stmt := Suc (db_stmt d)\<rparr>)"
proof -
  have "filter (\<lambda>r. rr_policy_id r = pid) (db_policy_rules d) = []"
    using assms(2) by (auto simp: filter_empty_conv)
  with assms(1) show ?thesis
    by (simp add: load_policy_rules_table_def db_bind_def query_quiet db_lift_def)
qed

text \<open>Loading, when the newest active policy is known.\<close>

lemma store_load_from_db_quiet:
  assumes "db_quiet d"
    and row: "latest_by prow_created_at
      (filter (\<lambda>p. prow_status p = ''active'') (db_policies d)) = Some row"
    and rs: "fst (load_latest_version_rules (prow_id row) (d\<lparr>db_stmt := Suc (db_stmt d)\<rparr>)) = Inr rs"
    and e: "case rs of Some (_ # _) \<Rightarrow> True
      | _ \<Rightarrow> \<forall>r \<in> set (db_policy_rules d). rr_policy_id r \<noteq> prow_id row"
  shows "\<exists>k. store_load_from_db tx d =
    (map_res (\<lambda>rules. Some \<lparr>ps_rules = rules, ps_version = prow_version row,
         ps_policy_id = Some (prow_id row), ps_taxonomy = tx\<rparr>)
       (canonicalize_rules tx (case rs of None \<Rightarrow> [] | Some rs \<Rightarrow> rs)), d\<lparr>db_stmt := k\<rparr>)"
proof -
  define d1 where "d1 = d\<lparr>db_stmt := Suc (db_stmt d)\<rparr>"
  define d2 where "d2 = d\<lparr>db_stmt := Suc (Suc (db_stmt d))\<rparr>"
  define rules where "rules = (case rs of None \<Rightarrow> [] | Some rs \<Rightarrow> rs)"
  have q: "db_quiet d1" "db_quiet d2" using assms(1) by (simp_all add: d1_def d2_def db_quiet_def)
  have l: "load_latest_version_rules (prow_id row) d1 = (Inr rs, d2)"
    using rs load_latest_version_quiet [OF q(1), of "prow_id row"] by (simp add: d1_def d2_def)
  have step: "\<exists>k. (if rules = [] then load_policy_rules_table (prow_id row) else db_return rules) d2
      = (Inr rules, d\<lparr>db_stmt := k\<rparr>)"
  proof (cases "rules = []")
    case True
    then have "\<forall>r \<in> set (db_policy_rules d2). rr_policy_id r \<noteq> prow_id row"
      using e by (auto simp: rules_def d2_def split: option.splits list.splits)
    with True load_policy_rules_table_none [OF q(2)] show ?thesis by (auto simp: d2_def)
  next
    case False
    then show ?thesis by (auto simp: db_return_def d2_def)
  qed
  have pol1: "db_policies d1 = db_policies d" by (simp add: d1_def)
  from step obtain k where k: "(if rules = [] then load_policy_rules_table (prow_id row)
      else db_return rules) d2 = (Inr rules, d\<lparr>db_stmt := k\<rparr>)" by blast
  have "store_load_from_db tx d =
    db_bind (db_lift (canonicalize_rules tx rules)) (\<lambda>rules.
      db_return (Some \<lparr>ps_rules = rules, ps_version = prow_version row,
        ps_policy_id = Some (prow_id row), ps_taxonomy = tx\<rparr>)) (d\<lparr>db_stmt := k\<rparr>)"
    using row [folded pol1] l k
    by (simp add: store_load_from_db_def query_quiet [OF assms(1)] db_bind_def [of "query f" for f]
        d1_def [symmetric] db_bind_def [of "load_latest_version_rules p" for p] Let_def
        rules_def [symmetric] db_bind_def [of "if b then m else n" for b m n]
        split: if_splits)
  then show ?thesis
    by (cases "canonicalize_rules tx rules")
      (auto simp: db_bind_def db_lift_def db_return_def rules_def [symmetric])
qed

text \<open>The newest active policy of a database to which a fresh row was appended.\<close>

lemma latest_new_policy:
  assumes "db_fresh d" "ps = db_policies d @ [new_policy_row d doc name created_by]"
  shows "latest_by prow_created_at (filter (\<lambda>p. prow_status p = ''active'') ps) =
    Some (new_policy_row d doc name created_by)"
  using assms
  by (intro latest_by_strict) (auto simp: new_policy_row_def db_fresh_def)

lemma insert_then_load:
  assumes "db_quiet d" "db_fresh d"
    and run: "insert_policy_document doc name created_by d = (r, d')"
  shows "r = Inr (next_uuid d) \<and>
    fst (store_load_from_db tx d') =
      map_res (\<lambda>rules. Some \<lparr>ps_rules = rules, ps_version = pdoc_version doc,
        ps_policy_id = Some (next_uuid d), ps_taxonomy = tx\<rparr>)
      (canonicalize_rules tx (pdoc_rules doc))"
proof -
  obtain v where v: "r = Inr (next_uuid d)"
    "db_policies d' = db_policies d @ [new_policy_row d doc name created_by]"
    "db_policy_versions d' = db_policy_versions d @ [v]"
    "vr_policy_id v = next_uuid d" "vr_rules v = JArr (map rule_to_json (pdoc_rules doc))"
    "pdoc_rules doc = [] \<Longrightarrow> db_policy_rules d' = db_policy_rules d" "db_quiet d'"
    using insert_policy_document_quiet [OF assms(1), of doc name created_by] run
    by (metis prod.inject)
  let ?d1 = "d'\<lparr>db_stmt := Suc (db_stmt d')\<rparr>"
  have "filter (\<lambda>w. vr_policy_id w = next_uuid d) (db_policy_versions d') = [v]"
    using v assms(2) by (auto simp: db_fresh_def filter_empty_conv)
  then have rs: "fst (load_latest_version_rules (next_uuid d) ?d1) = Inr (Some (pdoc_rules doc))"
    using load_latest_version_quiet [OF db_quiet_stmt [OF v(7)], of "next_uuid d"]
    by (simp add: v(5) rules_json_round del: list_of_json.simps)
  have pid: "prow_id (new_policy_row d doc name created_by) = next_uuid d"
    "prow_version (new_policy_row d doc name created_by) = pdoc_version doc"
    by (simp_all add: new_policy_row_def)
  have "\<exists>k. store_load_from_db tx d' =
    (map_res (\<lambda>rules. Some \<lparr>ps_rules = rules, ps_version = pdoc_version doc,
         ps_policy_id = Some (next_uuid d), ps_taxonomy = tx\<rparr>)
       (canonicalize_rules tx (pdoc_rules doc)), d'\<lparr>db_stmt := k\<rparr>)"
    using store_load_from_db_quiet [OF v(7) latest_new_policy [OF assms(2) v(2)], unfolded pid, OF rs]
      v(6) assms(2)
    by (cases "pdoc_rules doc") (auto simp: db_fresh_def)
  with v(1) show ?thesis by auto
qed

section \<open>A failure in the middle of an insert\<close>

text \<open>
  The statements of an insert do not share a transaction.  When the first rule insert fails the
  policy row is already there, is the newest active one, and has neither version nor rules.
\<close>

lemma insert_partial:
  assumes "\<not> db_fails d (db_stmt d)" "db_fails d (Suc (db_stmt d))" "pdoc_rules doc = r0 # rs"
  shows "insert_policy_document doc name created_by d =
    (Inl (Error ''database error''),
     d\<lparr>db_policies := db_policies d @ [new_policy_row d doc name created_by],
       db_stmt := Suc (Suc (db_stmt d)), db_uuid_next := Suc (Suc (db_uuid_next d))\<rparr>)"
  unfolding insert_policy_document_first [OF assms(1)]
  using assms(2,3)
  by (cases d) (simp add: db_bind_def insert_rule_row_def new_uuid_def exec_def with_policy_row_def Let_def)

lemma load_after_partial:
  assumes "db_fresh d" "d' = d\<lparr>db_policies := db_policies d @ [new_policy_row d doc name created_by],
       db_stmt := k, db_uuid_next := n\<rparr>" "db_quiet d'"
  shows "fst (store_load_from_db tx d') =
    Inr (Some \<lparr>ps_rules = [], ps_version = pdoc_version doc,
      ps_policy_id = Some (next_uuid d), ps_taxonomy = tx\<rparr>)"
proof -
  let ?d1 = "d'\<lparr>db_stmt := Suc (db_stmt d')\<rparr>"
  have ps: "db_policies d' = db_policies d @ [new_policy_row d doc name created_by]"
    using assms(2) by simp
  have pid: "prow_id (new_policy_row d doc name created_by) = next_uuid d"
    "prow_version (new_policy_row d doc name created_by) = pdoc_version doc"
    by (simp_all add: new_policy_row_def)
  have "filter (\<lambda>w. vr_policy_id w = next_uuid d) (db_policy_versions d') = []"
    using assms by (auto simp: db_fresh_def filter_empty_conv)
  then have rs: "fst (load_latest_version_rules (next_uuid d) ?d1) = Inr None"
    using load_latest_version_quiet [OF db_quiet_stmt [OF assms(3)], of "next_uuid d"] by simp
  show ?thesis
    using store_load_from_db_quiet [OF assms(3) latest_new_policy [OF assms(1) ps], unfolded pid, OF rs,
        of tx] assms(1,2)
    by (auto simp: db_fresh_def canonicalize_rules_def)
qed

section \<open>Properties\<close>

text \<open>
  Rules survive their JSON form, the form in which policy versions are stored, and a condition
  object with a key the language does not know is rejected.
\<close>

theorem rule_json_faithful:
  "rule_of_json (rule_to_json rule) = Some rule \<and>
   (k \<notin> set condition_keys \<longrightarrow> conditions_of_json (JObj (fs @ (k, j) # gs)) = None)"
  by (simp add: rule_json_round conditions_of_json_def Let_def)

text \<open>
  An inserted policy is the one that is loaded.  When the identifier is new, the clock has
  moved on and no statement fails, loading right after an insert yields a store with the inserted
  rules, canonicalised, in the order of the document, under the inserted version and identifier.
\<close>

theorem insert_then_load_policy:
  assumes "db_quiet d" "db_fresh d"
    and "insert_policy_document doc name created_by d = (r, d')"
    and "canonicalize_rules taxonomy (pdoc_rules doc) = Inr rules"
  shows "r = Inr (next_uuid d) \<and>
    fst (store_load_from_db taxonomy d') =
      Inr (Some \<lparr>ps_rules = rules, ps_version = pdoc_version doc,
        ps_policy_id = Some (next_uuid d), ps_taxonomy = taxonomy\<rparr>)"
  using insert_then_load [OF assms(1-3), of taxonomy] assms(4) by simp

text \<open>
  The rule table is read in signed order.  The priority column is a signed integer, so the
  rows come sorted by the signed reading of the priority: a priority of \<open>2 ^ 31\<close> or more, which
  a document sorts last, comes before every smaller one.
\<close>

theorem rule_table_signed_order:
  assumes "load_policy_rules_table policy_id d = (Inr rules, d')"
  shows "sorted (map (\<lambda>r. sint (pr_priority r)) rules)"
proof -
  let ?key = "\<lambda>r. sint (rr_priority r)"
  have t: "traverse_res
       (\<lambda>r. db_row_to_rule (rr_action r) (rr_description r) (rr_priority r) (rr_conditions r))
       (sort_key ?key (filter (\<lambda>r. rr_policy_id r = policy_id) (db_policy_rules d))) = Inr rules"
    using assms
    by (auto simp: load_policy_rules_table_def query_def exec_def db_bind_def db_lift_def Let_def
        split: if_splits)
  define rows where "rows = sort_key ?key (filter (\<lambda>r. rr_policy_id r = policy_id) (db_policy_rules d))"
  have "list_all2 (\<lambda>x y. db_row_to_rule (rr_action x) (rr_description x) (rr_priority x)
      (rr_conditions x) = Inr y) rows rules"
    using t unfolding rows_def [symmetric] by (simp add: traverse_res_Inr_iff)
  then have "map (\<lambda>r. sint (pr_priority r)) rules = map ?key rows"
    by (induction rule: list_all2_induct) (auto simp: db_row_to_rule_def res_simps)
  moreover have "sorted (map ?key rows)" by (simp add: rows_def)
  ultimately show ?thesis by simp
qed

end
