(* ===== verification/Policy_Evaluator.thy ===== *)
theory Policy_Evaluator
  imports Policy_Db
begin

text \<open>
  The policy evaluator, \<^verbatim>\<open>services/policy-engine/src/evaluator.rs\<close>: the shared store, where its
  rules come from, and the activation profile that can turn a decision into a block.

  \<open>engine_env\<close> holds what an operation meets outside the process: the files (\<open>None\<close> when a file
  cannot be read) and the outcome of reading the activation tables.  The operations that reach
  the database return it next to the evaluator, so that what an error leaves behind is visible.
\<close>

datatype policy_source = PSFile string | PSDatabase "string option"

record evaluator =
  ev_store :: policy_store
  ev_source :: policy_source
  ev_activation :: activation_profile

record engine_env =
  env_files :: "string \<Rightarrow> string option"
  env_activation_db :: "activation_db res"

definition evaluator_from_file :: "policy_store \<Rightarrow> string \<Rightarrow> activation_profile \<Rightarrow> evaluator" where
  "evaluator_from_file store policy_file activation =
     \<lparr>ev_store = store, ev_source = PSFile policy_file, ev_activation = activation\<rparr>"

definition evaluator_from_database ::
  "policy_store \<Rightarrow> string option \<Rightarrow> activation_profile \<Rightarrow> evaluator" where
  "evaluator_from_database store seed_path activation =
     \<lparr>ev_store = store, ev_source = PSDatabase seed_path, ev_activation = activation\<rparr>"

section \<open>Evaluation\<close>

definition apply_activation :: "evaluator \<Rightarrow> policy_decision \<Rightarrow> policy_decision" where
  "apply_activation ev decision =
     (case pd_verdict decision of
        None \<Rightarrow> decision
      | Some verdict \<Rightarrow>
          if \<not> is_enabled (ev_activation ev) (cv_primary_category verdict)
                 (Some (cv_subcategory verdict))
          then decision\<lparr>pd_action := Block\<rparr> else decision)"

definition evaluator_evaluate :: "evaluator \<Rightarrow> decision_request \<Rightarrow> policy_decision res" where
  "evaluator_evaluate ev request =
     map_res (\<lambda>result. apply_activation ev (sr_decision result)) (store_simulate (ev_store ev) request)"

definition evaluator_simulate :: "evaluator \<Rightarrow> decision_request \<Rightarrow> simulation_result res" where
  "evaluator_simulate ev request =
     map_res (\<lambda>result. result\<lparr>sr_decision := apply_activation ev (sr_decision result)\<rparr>)
       (store_simulate (ev_store ev) request)"

definition is_category_enabled :: "evaluator \<Rightarrow> string \<Rightarrow> bool" where
  "is_category_enabled ev category_id = is_enabled (ev_activation ev) category_id None"

definition is_verdict_enabled :: "evaluator \<Rightarrow> string \<Rightarrow> string \<Rightarrow> bool" where
  "is_verdict_enabled ev category_id subcategory_id =
     is_enabled (ev_activation ev) category_id (Some subcategory_id)"

section \<open>Reloading\<close>

definition reload_from_rows :: "policy_store \<Rightarrow> policy_store \<Rightarrow> policy_store res" where
  "reload_from_rows st new_store =
     store_update_from_rules st (list_rules new_store) (ps_version new_store) (ps_policy_id new_store)"

definition reload_store ::
  "externs \<Rightarrow> engine_env \<Rightarrow> string option \<Rightarrow> policy_store \<Rightarrow> policy_store dbm" where
  "reload_store ex env seed_path st =
     db_bind (store_load_from_db (ps_taxonomy st)) (\<lambda>loaded.
     case loaded of
       Some new_store \<Rightarrow> db_lift (reload_from_rows st new_store)
     | None \<Rightarrow>
         (case seed_path of
            None \<Rightarrow> db_return st
          | Some seed \<Rightarrow>
              db_bind (db_lift (document_load_from_file ex seed (env_files env seed))) (\<lambda>doc.
              db_bind (seed_db_from_document doc ''default'' (Some ''system'')) (\<lambda>_.
              db_bind (store_load_from_db (ps_taxonomy st)) (\<lambda>again.
              case again of
                Some new_store \<Rightarrow> db_lift (reload_from_rows st new_store)
              | None \<Rightarrow> db_return st)))))"

definition evaluator_reload ::
  "externs \<Rightarrow> engine_env \<Rightarrow> evaluator \<Rightarrow> policy_db \<Rightarrow> unit res \<times> evaluator \<times> policy_db" where
  "evaluator_reload ex env ev d =
     (case ev_source ev of
        PSFile path \<Rightarrow>
          (case bind_res (document_load_from_file ex path (env_files env path))
                  (store_update (ev_store ev)) of
             Inl e \<Rightarrow> (Inl e, ev, d)
           | Inr st \<Rightarrow> (Inr (), ev\<lparr>ev_store := st\<rparr>, d))
      | PSDatabase seed_path \<Rightarrow>
          (case reload_store ex env seed_path (ev_store ev) d of
             (Inl e, d') \<Rightarrow> (Inl e, ev, d')
           | (Inr st, d') \<Rightarrow>
               (case refresh_from_db (ev_activation ev) (env_activation_db env) of
                  (r, activation) \<Rightarrow>
                    (map_res (\<lambda>_. ()) r, ev\<lparr>ev_store := st, ev_activation := activation\<rparr>, d'))))"

section \<open>Administration\<close>

record policy_create_request =
  pcr_name :: string
  pcr_version :: string
  pcr_created_by :: "string option"
  pcr_rules :: "policy_rule list"

definition into_document :: "policy_create_request \<Rightarrow> policy_document" where
  "into_document req = \<lparr>pdoc_version = pcr_version req, pdoc_rules = pcr_rules req\<rparr>"

definition NO_BACKEND :: string where
  "NO_BACKEND = ''database backend not configured''"

definition evaluator_create_policy ::
  "externs \<Rightarrow> engine_env \<Rightarrow> policy_create_request \<Rightarrow> evaluator \<Rightarrow> policy_db
   \<Rightarrow> uuid res \<times> evaluator \<times> policy_db" where
  "evaluator_create_policy ex env req ev d =
     (case ev_source ev of
        PSFile _ \<Rightarrow> (Inl (Error NO_BACKEND), ev, d)
      | PSDatabase _ \<Rightarrow>
          (case insert_policy_document (into_document req) (pcr_name req) (pcr_created_by req) d of
             (Inl e, d') \<Rightarrow> (Inl e, ev, d')
           | (Inr policy_id, d') \<Rightarrow>
               (case evaluator_reload ex env ev d' of
                  (r, ev', d'') \<Rightarrow> (map_res (\<lambda>_. policy_id) r, ev', d''))))"

definition evaluator_update_policy ::
  "externs \<Rightarrow> engine_env \<Rightarrow> uuid \<Rightarrow> policy_update_request \<Rightarrow> string \<Rightarrow> evaluator \<Rightarrow> policy_db
   \<Rightarrow> unit res \<times> evaluator \<times> policy_db" where
  "evaluator_update_policy ex env policy_id req actor ev d =
     (case ev_source ev of
        PSFile _ \<Rightarrow> (Inl (Error NO_BACKEND), ev, d)
      | PSDatabase _ \<Rightarrow>
          (case update_policy_document policy_id req (Some actor) d of
             (Inl e, d') \<Rightarrow> (Inl e, ev, d')
           | (Inr _, d') \<Rightarrow> evaluator_reload ex env ev d'))"

section \<open>Decisions and activation\<close>

text \<open>A disabled category or sub-category turns the decision into a block and changes nothing else.\<close>

lemma apply_activation_fields [simp]:
  "pd_verdict (apply_activation ev d) = pd_verdict d"
  "pd_cache_hit (apply_activation ev d) = pd_cache_hit d"
  "pd_decision_source (apply_activation ev d) = pd_decision_source d"
  by (auto simp: apply_activation_def split: option.splits)

lemma apply_activation_action:
  "pd_verdict d = Some v \<Longrightarrow>
   pd_action (apply_activation ev d) =
     (if is_verdict_enabled ev (cv_primary_category v) (cv_subcategory v) then pd_action d else Block)"
  by (auto simp: apply_activation_def is_verdict_enabled_def)

lemma evaluate_simulate:
  "evaluator_evaluate ev req = map_res sr_decision (evaluator_simulate ev req)"
  by (cases "store_simulate (ev_store ev) req")
    (simp_all add: evaluator_evaluate_def evaluator_simulate_def)

section \<open>Invariant\<close>

abbreviation evaluator_inv :: "evaluator \<Rightarrow> bool" where
  "evaluator_inv ev \<equiv> store_inv (ev_store ev)"

lemma reload_store_inv:
  assumes "store_inv st" "reload_store ex env seed st d = (Inr st', d')"
  shows "store_inv st'"
  using assms(2,1)
  by (auto simp: reload_store_def db_run_simps reload_from_rows_def
      split: prod.splits sum.splits option.splits
      intro: store_update_from_rules_inv [OF assms(1)])

lemma evaluator_reload_inv:
  assumes "evaluator_inv ev" "evaluator_reload ex env ev d = (r, ev', d')"
  shows "evaluator_inv ev'"
proof (cases "ev_source ev")
  case (PSFile path)
  with assms show ?thesis
    by (auto simp: evaluator_reload_def res_simps split: sum.splits
        intro: store_update_inv [OF assms(1)])
next
  case (PSDatabase seed)
  with assms show ?thesis
    by (auto simp: evaluator_reload_def split: sum.splits prod.splits
        intro: reload_store_inv [OF assms(1)])
qed

lemma evaluator_create_policy_inv:
  assumes "evaluator_inv ev" "evaluator_create_policy ex env req ev d = (r, ev', d')"
  shows "evaluator_inv ev'"
  using assms(2) assms(1)
  by (auto simp: evaluator_create_policy_def split: policy_source.splits sum.splits prod.splits
      intro: evaluator_reload_inv [OF assms(1)])

lemma evaluator_update_policy_inv:
  assumes "evaluator_inv ev" "evaluator_update_policy ex env pid req actor ev d = (r, ev', d')"
  shows "evaluator_inv ev'"
  using assms(2) assms(1)
  by (auto simp: evaluator_update_policy_def split: policy_source.splits sum.splits prod.splits
      intro: evaluator_reload_inv [OF assms(1)])

section \<open>Create, then serve\<close>

lemma reload_store_loaded:
  assumes "fst (store_load_from_db (ps_taxonomy st) d) = Inr (Some ns)"
  shows "fst (reload_store ex env seed st d) = reload_from_rows st ns"
  using assms
  by (cases "store_load_from_db (ps_taxonomy st) d")
    (simp add: reload_store_def db_bind_def db_lift_def)

lemma reload_from_rows_canonical:
  assumes "store_inv st" "canonicalize_rules (ps_taxonomy st) rs0 = Inr rs"
  shows "reload_from_rows st \<lparr>ps_rules = rs, ps_version = v, ps_policy_id = p, ps_taxonomy = t\<rparr> =
    Inr (st\<lparr>ps_rules := rs, ps_version := v, ps_policy_id := p\<rparr>)"
proof -
  have "canonicalize_rules (ps_taxonomy st) rs = Inr rs"
    using assms canonicalize_rules_canonical
    by (intro canonicalize_rules_fixed) (auto simp: store_inv_def)
  then show ?thesis
    by (simp add: reload_from_rows_def store_update_from_rules_def list_rules_def)
qed

lemma evaluator_reload_loaded:
  assumes "ev_source ev = PSDatabase seed" "evaluator_reload ex env ev d = (r, ev', d')"
    "fst (store_load_from_db (ps_taxonomy (ev_store ev)) d) = Inr (Some ns)"
    "reload_from_rows (ev_store ev) ns = Inr st"
  shows "ev_store ev' = st \<and> is_ok r = is_ok (activation_load_from_db (env_activation_db env))"
proof -
  have st: "fst (reload_store ex env seed (ev_store ev) d) = Inr st"
    using reload_store_loaded [OF assms(3)] assms(4) by simp
  show ?thesis
    using assms(1,2) st
    by (cases "reload_store ex env seed (ev_store ev) d")
      (auto simp: evaluator_reload_def refresh_from_db_def split: sum.splits prod.splits)
qed

lemma create_policy_store:
  assumes "evaluator_inv ev" "ev_source ev = PSDatabase seed" "db_quiet d" "db_fresh d"
    and canon: "canonicalize_rules (ps_taxonomy (ev_store ev)) (pcr_rules req) = Inr rules"
    and run: "evaluator_create_policy ex env req ev d = (r, ev', d')"
  shows "ev_store ev' = (ev_store ev)\<lparr>ps_rules := rules, ps_version := pcr_version req,
      ps_policy_id := Some (next_uuid d)\<rparr> \<and>
    (is_ok (activation_load_from_db (env_activation_db env)) \<longrightarrow> r = Inr (next_uuid d))"
proof -
  let ?tx = "ps_taxonomy (ev_store ev)"
  obtain r0 d0 where ins: "insert_policy_document (into_document req) (pcr_name req)
      (pcr_created_by req) d = (r0, d0)" by fastforce
  let ?ns = "\<lparr>ps_rules = rules, ps_version = pcr_version req,
      ps_policy_id = Some (next_uuid d), ps_taxonomy = ?tx\<rparr>"
  have load: "r0 = Inr (next_uuid d)" "fst (store_load_from_db ?tx d0) = Inr (Some ?ns)"
    using insert_then_load [OF assms(3,4) ins, of ?tx] canon by (simp_all add: into_document_def)
  obtain r1 where rel: "evaluator_reload ex env ev d0 = (r1, ev', d')"
    and r: "r = map_res (\<lambda>_. next_uuid d) r1"
    using run assms(2) ins load(1)
    by (auto simp: evaluator_create_policy_def split: prod.splits)
  have "ev_store ev' = (ev_store ev)\<lparr>ps_rules := rules, ps_version := pcr_version req,
      ps_policy_id := Some (next_uuid d)\<rparr>" "is_ok r1 = is_ok (activation_load_from_db (env_activation_db env))"
    using evaluator_reload_loaded [OF assms(2) rel load(2)
        reload_from_rows_canonical [OF assms(1) canon]] by simp_all
  with r show ?thesis by (auto simp: is_ok_iff)
qed

text \<open>After a half-done insert the next reload serves a policy without rules.\<close>

lemma reload_after_partial:
  assumes "evaluator_inv ev" "ev_source ev = PSDatabase seed" "db_fresh d"
    and "\<not> db_fails d (db_stmt d)" "db_fails d (Suc (db_stmt d))"
    and quiet: "\<forall>k \<ge> Suc (Suc (db_stmt d)). \<not> db_fails d k"
    and "pcr_rules req = r0 # rs"
    and create: "evaluator_create_policy ex env req ev d = (r, ev1, d1)"
    and reload: "evaluator_reload ex env' ev1 d1 = (r', ev2, d2)"
  shows "r = Inl (Error ''database error'') \<and> ev1 = ev \<and>
    ps_rules (ev_store ev2) = [] \<and> ps_policy_id (ev_store ev2) = Some (next_uuid d)"
proof -
  let ?tx = "ps_taxonomy (ev_store ev)"
  have doc: "pdoc_rules (into_document req) = r0 # rs" using assms(7) by (simp add: into_document_def)
  have c: "r = Inl (Error ''database error'')" "ev1 = ev"
    "d1 = d\<lparr>db_policies := db_policies d @
        [new_policy_row d (into_document req) (pcr_name req) (pcr_created_by req)],
       db_stmt := Suc (Suc (db_stmt d)), db_uuid_next := Suc (Suc (db_uuid_next d))\<rparr>"
    using create assms(2) insert_partial [OF assms(4,5) doc, of "pcr_name req" "pcr_created_by req"]
    by (auto simp: evaluator_create_policy_def)
  have "db_quiet d1" using quiet by (simp add: c(3) db_quiet_def)
  from load_after_partial [OF assms(3) c(3) this]
  have load: "fst (store_load_from_db ?tx d1) = Inr (Some \<lparr>ps_rules = [], ps_version = pcr_version req,
      ps_policy_id = Some (next_uuid d), ps_taxonomy = ?tx\<rparr>)" by (simp add: into_document_def)
  have "canonicalize_rules ?tx [] = Inr []" by (simp add: canonicalize_rules_def)
  from evaluator_reload_loaded [OF assms(2) reload [unfolded c(2)] load
      reload_from_rows_canonical [OF assms(1) this]] c
  show ?thesis by simp
qed

section \<open>Properties\<close>

text \<open>
  C30: a created policy is served.  Creating a policy with a database that is up leaves the
  evaluator with exactly the rules of the request, canonicalised and in the order of the request,
  under the new identifier, and the identifier is returned when the activation tables can be read.
\<close>

theorem created_policy_is_served:
  assumes "evaluator_inv ev" "ev_source ev = PSDatabase seed" "db_quiet d" "db_fresh d"
    and "canonicalize_rules (ps_taxonomy (ev_store ev)) (pcr_rules req) = Inr rules"
    and "evaluator_create_policy ex env req ev d = (r, ev', d')"
  shows "ps_rules (ev_store ev') = rules \<and> ps_version (ev_store ev') = pcr_version req \<and>
    ps_policy_id (ev_store ev') = Some (next_uuid d) \<and>
    (is_ok (activation_load_from_db (env_activation_db env)) \<longrightarrow> r = Inr (next_uuid d))"
  using create_policy_store [OF assms] by simp

text \<open>
  A half-done insert empties the policy.  When the insert of a policy fails at its first rule,
  the caller gets an error and the rules in force stay; but the policy row is already active, and
  the next reload replaces the rules in force by none at all.
\<close>

theorem partial_insert_empties_policy:
  assumes "evaluator_inv ev" "ev_source ev = PSDatabase seed" "db_fresh d"
    and "\<not> db_fails d (db_stmt d)" "db_fails d (Suc (db_stmt d))"
    and "\<forall>k \<ge> Suc (Suc (db_stmt d)). \<not> db_fails d k"
    and "pcr_rules req = r0 # rs"
    and "evaluator_create_policy ex env req ev d = (r, ev1, d1)"
    and "evaluator_reload ex env' ev1 d1 = (r', ev2, d2)"
  shows "r = Inl (Error ''database error'') \<and> ev_store ev1 = ev_store ev \<and>
    ps_rules (ev_store ev2) = []"
  using reload_after_partial [OF assms] by simp

text \<open>
  No administrative operation breaks the evaluator.  Whatever the database does, and whether
  or not the operation reports an error, reload, create and update leave a store that satisfies
  the invariant.
\<close>

theorem administration_keeps_invariant:
  assumes "evaluator_inv ev"
  shows "evaluator_inv (fst (snd (evaluator_reload ex env ev d))) \<and>
    evaluator_inv (fst (snd (evaluator_create_policy ex env creq ev d))) \<and>
    evaluator_inv (fst (snd (evaluator_update_policy ex env pid ureq actor ev d)))"
  using evaluator_reload_inv [OF assms] evaluator_create_policy_inv [OF assms]
    evaluator_update_policy_inv [OF assms] by (metis prod.collapse)

end
