(* ===== verification/Policy_Engine.thy ===== *)
theory Policy_Engine
  imports Policy_Evaluator Config_Core Normalizer
begin

text \<open>
  The policy engine service, \<^verbatim>\<open>services/policy-engine/src/main.rs\<close> with \<^verbatim>\<open>auth.rs\<close>,
  \<^verbatim>\<open>models.rs\<close> and \<^verbatim>\<open>config.rs\<close>: start-up, override resolution, hint hydration, the
  decision endpoint and the deprecated policy administration endpoints with their
  authentication.

  The classification database is a record of the two tables the engine reads; a query that fails
  is \<open>Inl\<close>.  A handler returns \<open>Inl\<close> of a panic, or a response: \<open>Inl (status, body)\<close> for an
  error and \<open>Inr\<close> for a success.  Logging is not modelled.
\<close>

section \<open>State\<close>

record app_state =
  as_evaluator :: evaluator
  as_audit_logger :: bool
  as_classification_pool :: bool

record classification_row =
  cr_normalized_key :: string
  cr_status :: string
  cr_primary_category :: "string option"
  cr_subcategory :: "string option"
  cr_risk_level :: "string option"
  cr_confidence :: "f64 option"
  cr_updated_at :: time

record override_row =
  ov_scope_type :: string
  ov_scope_value :: string
  ov_action :: string
  ov_status :: string
  ov_expires_at :: "time option"
  ov_updated_at :: time
  ov_created_at :: time

record classification_db =
  cdb_classifications :: "classification_row list res"
  cdb_overrides :: "override_row list res"
  cdb_now :: time

text \<open>\<open>ORDER BY key DESC\<close> over a natural number.\<close>

definition sort_desc :: "('a \<Rightarrow> nat) \<Rightarrow> 'a list \<Rightarrow> 'a list" where
  "sort_desc f xs = sort_key (\<lambda>x. - int (f x)) xs"

lemma set_sort_desc [simp]: "set (sort_desc f xs) = set xs"
  by (simp add: sort_desc_def)

section \<open>Hints\<close>

record persisted_hints =
  ph_category_hint :: "string option"
  ph_subcategory_hint :: "string option"
  ph_risk_hint :: "string option"
  ph_confidence_hint :: "f32 option"

definition apply_persisted_hints :: "decision_request \<Rightarrow> persisted_hints \<Rightarrow> decision_request" where
  "apply_persisted_hints request hints =
     (let keep = (\<lambda>old new. case old of None \<Rightarrow> new | Some _ \<Rightarrow> old)
      in request
        \<lparr>dr_category_hint := keep (dr_category_hint request) (ph_category_hint hints),
         dr_subcategory_hint := keep (dr_subcategory_hint request) (ph_subcategory_hint hints),
         dr_risk_hint := keep (dr_risk_hint request) (ph_risk_hint hints),
         dr_confidence_hint :=
           (case dr_confidence_hint request of None \<Rightarrow> ph_confidence_hint hints | Some c \<Rightarrow> Some c)\<rparr>)"

definition non_empty_string :: "string \<Rightarrow> string option" where
  "non_empty_string value = (let trimmed = trim value in if trimmed = [] then None else Some trimmed)"

record related_lookup =
  rl_ancestor_domain_key :: "string option"
  rl_descendant_like_pattern :: "string option"

definition engine_derive_registered_domain :: "string \<Rightarrow> string option" where
  "engine_derive_registered_domain hostname =
     (let trimmed = to_ascii_lowercase (trim_end_matches CHR ''.'' (trim hostname))
      in if trimmed = [] then None
         else (let labels = filter (\<lambda>l. l \<noteq> []) (split_char CHR ''.'' trimmed)
               in if length labels \<le> 2 then Some trimmed
                  else Some (join_str ''.'' (drop (length labels - 2) labels))))"

definition related_classification_lookup :: "string \<Rightarrow> related_lookup" where
  "related_classification_lookup normalized_key =
     (let none = \<lparr>rl_ancestor_domain_key = None, rl_descendant_like_pattern = None\<rparr>
      in case strip_prefix subdomain_pfx normalized_key of
           Some host \<Rightarrow>
             (case engine_derive_registered_domain host of
                Some registered \<Rightarrow>
                  (let ancestor = domain_pfx @ registered
                   in if ancestor \<noteq> normalized_key
                      then \<lparr>rl_ancestor_domain_key = Some ancestor, rl_descendant_like_pattern = None\<rparr>
                      else none)
              | None \<Rightarrow> none)
         | None \<Rightarrow>
             (case strip_prefix domain_pfx normalized_key of
                Some raw \<Rightarrow>
                  (let host = to_ascii_lowercase (trim_end_matches CHR ''.'' (trim raw))
                   in if host \<noteq> []
                      then \<lparr>rl_ancestor_domain_key = None,
                            rl_descendant_like_pattern = Some (subdomain_pfx @ ''%.'' @ host)\<rparr>
                      else none)
              | None \<Rightarrow> none))"

text \<open>
  SQL's \<open>LIKE\<close> on UTF-8 text: \<open>%\<close> stands for any text, an underscore for one character, and a
  backslash quotes the next byte.  A pattern that ends in a lone backslash matches nothing here;
  the database rejects it.
\<close>

fun like_match :: "string \<Rightarrow> string \<Rightarrow> bool" where
  "like_match [] s = (s = [])"
| "like_match (p # ps) s =
     (if p = CHR ''%'' then
        like_match ps s \<or> (case s of [] \<Rightarrow> False | _ # s' \<Rightarrow> like_match (p # ps) s')
      else if p = CHR ''_'' then
        (case s of [] \<Rightarrow> False | _ # s' \<Rightarrow> like_match ps (dropWhile utf8_continuation s'))
      else if p = CHR 0x5C then
        (case ps of
           [] \<Rightarrow> False
         | q # qs \<Rightarrow> (case s of [] \<Rightarrow> False | c # s' \<Rightarrow> c = q \<and> like_match qs s'))
      else (case s of [] \<Rightarrow> False | c # s' \<Rightarrow> c = p \<and> like_match ps s'))"

definition hint_rank :: "string \<Rightarrow> related_lookup \<Rightarrow> classification_row \<Rightarrow> nat" where
  "hint_rank key related row =
     (if cr_normalized_key row = key then 0
      else if rl_ancestor_domain_key related = Some (cr_normalized_key row) then 1
      else 2)"

definition hint_row_matches :: "string \<Rightarrow> related_lookup \<Rightarrow> classification_row \<Rightarrow> bool" where
  "hint_row_matches key related row \<longleftrightarrow>
     cr_status row = ''active'' \<and>
     (cr_normalized_key row = key \<or>
      rl_ancestor_domain_key related = Some (cr_normalized_key row) \<or>
      (case rl_descendant_like_pattern related of
         None \<Rightarrow> False
       | Some pat \<Rightarrow> like_match pat (cr_normalized_key row)))"

definition select_hint_row ::
  "string \<Rightarrow> related_lookup \<Rightarrow> classification_row list \<Rightarrow> classification_row option" where
  "select_hint_row key related rows =
     (case sort_key (hint_rank key related)
             (sort_desc cr_updated_at (filter (hint_row_matches key related) rows)) of
        [] \<Rightarrow> None
      | row # _ \<Rightarrow> Some row)"

definition hints_of_row :: "externs \<Rightarrow> classification_row \<Rightarrow> persisted_hints" where
  "hints_of_row ex row =
     \<lparr>ph_category_hint = Option.bind (cr_primary_category row) non_empty_string,
      ph_subcategory_hint = Option.bind (cr_subcategory row) non_empty_string,
      ph_risk_hint = Option.bind (cr_risk_level row) non_empty_string,
      ph_confidence_hint = map_option (f32_of_f64 ex) (cr_confidence row)\<rparr>"

definition hydrate_request_hints ::
  "externs \<Rightarrow> app_state \<Rightarrow> classification_db \<Rightarrow> decision_request \<Rightarrow> decision_request" where
  "hydrate_request_hints ex state cdb request =
     (if dr_category_hint request \<noteq> None \<and> dr_subcategory_hint request \<noteq> None \<and>
         dr_risk_hint request \<noteq> None \<and> dr_confidence_hint request \<noteq> None then request
      else if \<not> as_classification_pool state then request
      else (case cdb_classifications cdb of
              Inl _ \<Rightarrow> request
            | Inr rows \<Rightarrow>
                (case select_hint_row (dr_normalized_key request)
                        (related_classification_lookup (dr_normalized_key request)) rows of
                   None \<Rightarrow> request
                 | Some row \<Rightarrow> apply_persisted_hints request (hints_of_row ex row))))"

section \<open>Overrides\<close>

definition host_from_normalized_key :: "string \<Rightarrow> string option" where
  "host_from_normalized_key normalized_key =
     Option.bind
       (case strip_prefix domain_pfx normalized_key of
          Some h \<Rightarrow> Some h
        | None \<Rightarrow> strip_prefix subdomain_pfx normalized_key) (\<lambda>raw.
       let host = to_ascii_lowercase (trim_end_matches CHR ''.'' (trim raw))
       in if host = [] then None else Some host)"

definition normalize_scope_host :: "string \<Rightarrow> string option" where
  "normalize_scope_host scope_value =
     (let lowered = to_ascii_lowercase (trim scope_value);
          core = (case strip_prefix ''*.'' lowered of Some c \<Rightarrow> c | None \<Rightarrow> lowered);
          host = trim_end_matches CHR ''.'' core
      in if host = [] then None else Some host)"

definition domain_scope_matches_host :: "string \<Rightarrow> string \<Rightarrow> bool" where
  "domain_scope_matches_host scope_value host =
     (case normalize_scope_host scope_value of
        None \<Rightarrow> False
      | Some scope_host \<Rightarrow>
          if host = scope_host then True else ends_with host (CHR ''.'' # scope_host))"

definition domain_scope_specificity :: "string \<Rightarrow> nat" where
  "domain_scope_specificity scope_value =
     (case normalize_scope_host scope_value of Some host \<Rightarrow> length host | None \<Rightarrow> 0)"

definition normalize_override_action :: "string \<Rightarrow> string" where
  "normalize_override_action action = to_ascii_lowercase (trim action)"

definition override_action_rank :: "string \<Rightarrow> nat" where
  "override_action_rank action =
     (let a = normalize_override_action action
      in if a = ''block'' then 2 else if a = ''allow'' then 1 else 0)"

record override_record =
  or_scope_value :: string
  or_action :: string

record override_scan =
  os_best :: "(nat \<times> override_record) option"
  os_seen :: "string \<rightharpoonup> string"
  os_conflicts :: "string list"

definition note_action :: "string \<Rightarrow> string \<Rightarrow> override_scan \<Rightarrow> override_scan" where
  "note_action scope_value action scan =
     (case os_seen scan scope_value of
        Some previous \<Rightarrow>
          if previous \<noteq> action then scan\<lparr>os_conflicts := List.insert scope_value (os_conflicts scan)\<rparr>
          else scan
      | None \<Rightarrow> scan\<lparr>os_seen := (os_seen scan)(scope_value \<mapsto> action)\<rparr>)"

definition better_override ::
  "(nat \<times> override_record) option \<Rightarrow> override_record \<Rightarrow> (nat \<times> override_record) option" where
  "better_override best rec =
     (let specificity = domain_scope_specificity (or_scope_value rec)
      in case best of
           None \<Rightarrow> Some (specificity, rec)
         | Some (best_specificity, best_record) \<Rightarrow>
             if best_specificity > specificity then best
             else if best_specificity = specificity then
               (if override_action_rank (or_action rec) > override_action_rank (or_action best_record)
                then Some (specificity, rec) else best)
             else Some (specificity, rec))"

text \<open>The loop over the rows; \<open>None\<close> is the early return on a blank scope.\<close>

fun scan_overrides :: "string \<Rightarrow> override_row list \<Rightarrow> override_scan \<Rightarrow> override_scan option" where
  "scan_overrides host [] scan = Some scan"
| "scan_overrides host (row # rows) scan =
     (case non_empty_string (ov_scope_value row) of
        None \<Rightarrow> None
      | Some scope_value \<Rightarrow>
          if \<not> domain_scope_matches_host scope_value host then scan_overrides host rows scan
          else
            (let scan = note_action scope_value (normalize_override_action (ov_action row)) scan
             in scan_overrides host rows
                  (scan\<lparr>os_best := better_override (os_best scan)
                     \<lparr>or_scope_value = scope_value, or_action = ov_action row\<rparr>\<rparr>)))"

definition override_eligible :: "time \<Rightarrow> override_row \<Rightarrow> bool" where
  "override_eligible now row \<longleftrightarrow>
     ov_scope_type row = ''domain'' \<and> ov_status row = ''active'' \<and>
     (case ov_expires_at row of None \<Rightarrow> True | Some t \<Rightarrow> t > now)"

definition override_rows :: "time \<Rightarrow> override_row list \<Rightarrow> override_row list" where
  "override_rows now rows =
     sort_desc ov_updated_at (sort_desc ov_created_at (filter (override_eligible now) rows))"

definition override_verdict :: "policy_action \<Rightarrow> string \<Rightarrow> policy_decision" where
  "override_verdict action scope_value =
     \<lparr>pd_action = action, pd_cache_hit = False,
      pd_verdict = Some
        \<lparr>cv_primary_category = ''override-manual'', cv_subcategory = ''domain:'' @ scope_value,
         cv_risk_level = ''low'', cv_confidence = f32_one, cv_recommended_action = action\<rparr>,
      pd_decision_source = Some ''override''\<rparr>"

definition override_outcome :: "(nat \<times> override_record) option \<Rightarrow> policy_decision option" where
  "override_outcome best =
     (case best of
        None \<Rightarrow> None
      | Some (_, matched) \<Rightarrow>
          (let a = to_ascii_lowercase (trim (or_action matched))
           in if a = ''allow'' then Some (override_verdict Allow (or_scope_value matched))
              else if a = ''block'' then Some (override_verdict Block (or_scope_value matched))
              else None))"

definition resolve_override_decision ::
  "app_state \<Rightarrow> classification_db \<Rightarrow> decision_request \<Rightarrow> policy_decision option" where
  "resolve_override_decision state cdb request =
     (if \<not> as_classification_pool state then None
      else Option.bind (host_from_normalized_key (dr_normalized_key request)) (\<lambda>host.
        case cdb_overrides cdb of
          Inl _ \<Rightarrow> None
        | Inr rows \<Rightarrow>
            Option.bind (scan_overrides host (override_rows (cdb_now cdb) rows)
                \<lparr>os_best = None, os_seen = Map.empty, os_conflicts = []\<rparr>)
              (\<lambda>scan. override_outcome (os_best scan))))"

section \<open>Requests and responses\<close>

type_synonym status = nat

record error_response =
  er_error_code :: string
  er_message :: string

type_synonym 'a handled = "((status \<times> error_response) + 'a) res"

definition decision_request_of_json :: "externs \<Rightarrow> json \<Rightarrow> decision_request option" where
  "decision_request_of_json ex j =
     Option.bind (fields_of [''normalized_key'', ''entity_level'', ''source_ip'', ''user_id'',
       ''group_ids'', ''category_hint'', ''subcategory_hint'', ''risk_hint'', ''confidence_hint''] j) (\<lambda>fs.
     Option.bind (req_field string_of_json ''normalized_key'' fs) (\<lambda>k.
     Option.bind (req_field string_of_json ''entity_level'' fs) (\<lambda>l.
     Option.bind (req_field string_of_json ''source_ip'' fs) (\<lambda>i.
     Option.bind (opt_field string_of_json ''user_id'' fs) (\<lambda>u.
     Option.bind (opt_field (list_of_json string_of_json) ''group_ids'' fs) (\<lambda>g.
     Option.bind (opt_field string_of_json ''category_hint'' fs) (\<lambda>c.
     Option.bind (opt_field string_of_json ''subcategory_hint'' fs) (\<lambda>s.
     Option.bind (opt_field string_of_json ''risk_hint'' fs) (\<lambda>r.
     Option.bind (opt_field (f32_of_json ex) ''confidence_hint'' fs) (\<lambda>f.
       Some \<lparr>dr_normalized_key = k, dr_entity_level = l, dr_source_ip = i, dr_user_id = u,
             dr_group_ids = g, dr_category_hint = c, dr_subcategory_hint = s, dr_risk_hint = r,
             dr_confidence_hint = f\<rparr>))))))))))"

record policy_summary =
  psum_id :: string
  psum_description :: "string option"
  psum_priority :: u32
  psum_action :: policy_action

record policy_list_response =
  plr_policy_id :: "string option"
  plr_version :: string
  plr_rules :: "policy_summary list"

definition policy_list_from_store ::
  "externs \<Rightarrow> string \<Rightarrow> uuid option \<Rightarrow> policy_rule list \<Rightarrow> policy_list_response" where
  "policy_list_from_store ex version policy_id rules =
     \<lparr>plr_policy_id = map_option (uuid_to_string ex) policy_id, plr_version = version,
      plr_rules = map (\<lambda>rule. \<lparr>psum_id = pr_id rule, psum_description = pr_description rule,
        psum_priority = pr_priority rule, psum_action = pr_action rule\<rparr>) rules\<rparr>"

datatype simulation_mode = SimRuntime | SimPolicyOnly

fun simulation_mode_as_str :: "simulation_mode \<Rightarrow> string" where
  "simulation_mode_as_str SimRuntime = ''runtime''"
| "simulation_mode_as_str SimPolicyOnly = ''policy_only''"

record simulation_response =
  sresp_decision :: policy_decision
  sresp_matched_rule_id :: "string option"
  sresp_policy_version :: string
  sresp_mode :: string

record simulate_policy_request =
  spr_mode :: simulation_mode
  spr_request :: decision_request

definition create_request_to_json :: "policy_create_request \<Rightarrow> json" where
  "create_request_to_json req = JObj
     [(''name'', JStr (pcr_name req)), (''version'', JStr (pcr_version req)),
      (''created_by'', opt_to_json JStr (pcr_created_by req)),
      (''rules'', JArr (map rule_to_json (pcr_rules req)))]"

definition update_request_to_json :: "policy_update_request \<Rightarrow> json" where
  "update_request_to_json req = JObj
     [(''version'', opt_to_json JStr (pur_version req)), (''status'', opt_to_json JStr (pur_status req)),
      (''notes'', opt_to_json JStr (pur_notes req)),
      (''rules'', opt_to_json (\<lambda>rs. JArr (map rule_to_json rs)) (pur_rules req))]"

definition forbidden_response :: error_response where
  "forbidden_response = \<lparr>er_error_code = ''FORBIDDEN'', er_message = ''insufficient privileges''\<rparr>"

definition key_required_response :: error_response where
  "key_required_response =
     \<lparr>er_error_code = ''VALIDATION_ERROR'', er_message = ''normalized_key required''\<rparr>"

fun error_text :: "error \<Rightarrow> string" where
  "error_text (Error m) = m"
| "error_text (Panic m) = m"

section \<open>Authentication\<close>

record user_context =
  uc_actor :: string
  uc_roles :: "string list"

definition ROLE_POLICY_VIEWER_ROLES :: "string list" where
  "ROLE_POLICY_VIEWER_ROLES = [''policy-admin'', ''policy-editor'', ''policy-viewer'']"

definition ROLE_POLICY_EDITOR_ROLES :: "string list" where
  "ROLE_POLICY_EDITOR_ROLES = [''policy-admin'', ''policy-editor'']"

definition has_role :: "user_context \<Rightarrow> string \<Rightarrow> bool" where
  "has_role ctx role \<longleftrightarrow> role \<in> set (uc_roles ctx)"

definition require_roles :: "user_context \<Rightarrow> string list \<Rightarrow> status + unit" where
  "require_roles ctx roles = (if list_ex (has_role ctx) roles then Inr () else Inl 403)"

definition auth_settings_from_env :: "environment \<Rightarrow> string option option \<Rightarrow> string option" where
  "auth_settings_from_env env settings =
     (case env ''OD_IAM_RESOLVER_URL'' of
        Some url \<Rightarrow> Some url
      | None \<Rightarrow> (case settings of None \<Rightarrow> None | Some resolver_url \<Rightarrow> resolver_url))"

definition admin_auth_from_config :: "string option \<Rightarrow> string" where
  "admin_auth_from_config resolver_url =
     (case resolver_url of Some url \<Rightarrow> url | None \<Rightarrow> ''http://localhost:19000/api/v1/iam/whoami'')"

definition identity_of_json :: "json \<Rightarrow> user_context option" where
  "identity_of_json j =
     Option.bind (fields_of [''actor'', ''roles'', ''permissions''] j) (\<lambda>fs.
     Option.bind (req_field string_of_json ''actor'' fs) (\<lambda>actor.
     Option.bind (req_field (list_of_json string_of_json) ''roles'' fs) (\<lambda>roles.
     Option.bind (req_field (list_of_json string_of_json) ''permissions'' fs) (\<lambda>_.
       Some \<lparr>uc_actor = actor, uc_roles = roles\<rparr>))))"

text \<open>
  The identity resolver is another service: given its URL and the headers of the request it
  answers with a status and a body, or cannot be reached.
\<close>

type_synonym http_headers = "(string \<times> string) list"
type_synonym resolver = "string \<Rightarrow> http_headers \<Rightarrow> (status \<times> string) option"

definition authenticate ::
  "externs \<Rightarrow> resolver \<Rightarrow> string \<Rightarrow> string option \<Rightarrow> string option \<Rightarrow> status + user_context" where
  "authenticate ex resolver resolver_url bearer admin =
     (if bearer = None \<and> admin = None then Inl 401
      else
        (let headers = (case bearer of None \<Rightarrow> [] | Some authz \<Rightarrow> [(''Authorization'', authz)])
               @ (case admin of None \<Rightarrow> [] | Some token \<Rightarrow> [(''X-Admin-Token'', token)])
         in case resolver resolver_url headers of
              None \<Rightarrow> Inl 502
            | Some (status, body) \<Rightarrow>
                if status = 200 then
                  ok_or 502 (Option.bind (json_of_text ex body) identity_of_json)
                else if status = 401 then Inl 401
                else if status = 403 then Inl 403
                else Inl 502))"

text \<open>\<open>HeaderMap::get\<close> and \<open>HeaderValue::to_str\<close>.\<close>

definition header_get :: "http_headers \<Rightarrow> string \<Rightarrow> string option" where
  "header_get hs name = map_option snd (find (\<lambda>(k, v). eq_ignore_ascii_case k name) hs)"

definition visible_ascii :: "string \<Rightarrow> bool" where
  "visible_ascii s \<longleftrightarrow> list_all (\<lambda>c. byte_in 32 126 c \<or> c = CHR 0x09) s"

definition header_str :: "http_headers \<Rightarrow> string \<Rightarrow> string option" where
  "header_str hs name =
     Option.bind (header_get hs name) (\<lambda>v. if visible_ascii v then Some v else None)"

definition enforce_admin ::
  "externs \<Rightarrow> resolver \<Rightarrow> string \<Rightarrow> http_headers \<Rightarrow> status + user_context" where
  "enforce_admin ex resolver resolver_url headers =
     authenticate ex resolver resolver_url
       (Option.bind (header_str headers ''authorization'') (strip_prefix ''Bearer ''))
       (header_str headers ''X-Admin-Token'')"

text \<open>
  The credentials the administration service reads from the headers it receives, the same way
  (\<^verbatim>\<open>services/admin-api/src/auth.rs\<close>); without any it answers 401.
\<close>

definition admin_api_credentials :: "http_headers \<Rightarrow> string option \<times> string option" where
  "admin_api_credentials headers =
     (Option.bind (header_str headers ''authorization'') (strip_prefix ''Bearer ''),
      header_str headers ''X-Admin-Token'')"

record response =
  rs_status :: status
  rs_headers :: http_headers

definition header_insert :: "string \<Rightarrow> string \<Rightarrow> http_headers \<Rightarrow> http_headers" where
  "header_insert name value hs =
     filter (\<lambda>(k, v). \<not> eq_ignore_ascii_case k name) hs @ [(name, value)]"

definition deprecated_policy_admin_middleware :: "response \<Rightarrow> response" where
  "deprecated_policy_admin_middleware r =
     r\<lparr>rs_headers :=
        header_insert ''sunset'' ''Wed, 31 Dec 2026 23:59:59 GMT''
          (header_insert ''warning''
             (''299 - '' @ [CHR 0x22] @ ''Deprecated API: use admin-api /api/v1/policies'' @ [CHR 0x22])
             (header_insert ''deprecation'' ''true'' (rs_headers r)))\<rparr>"

text \<open>The layers around an administration route: authentication is the outer one.\<close>

definition admin_route ::
  "externs \<Rightarrow> resolver \<Rightarrow> string \<Rightarrow> (user_context \<Rightarrow> response \<times> 's) \<Rightarrow> 's \<Rightarrow> http_headers
   \<Rightarrow> response \<times> 's" where
  "admin_route ex resolver resolver_url handler st headers =
     (case enforce_admin ex resolver resolver_url headers of
        Inl status \<Rightarrow> (\<lparr>rs_status = status, rs_headers = []\<rparr>, st)
      | Inr user \<Rightarrow>
          (case handler user of (r, st') \<Rightarrow> (deprecated_policy_admin_middleware r, st')))"

section \<open>Handlers\<close>

definition decision_source_for_simulation :: "app_state \<Rightarrow> simulation_result \<Rightarrow> string" where
  "decision_source_for_simulation state simulation =
     (let taxonomy_disabled =
            (case pd_verdict (sr_decision simulation) of
               None \<Rightarrow> False
             | Some verdict \<Rightarrow>
                 \<not> is_verdict_enabled (as_evaluator state) (cv_primary_category verdict)
                     (cv_subcategory verdict))
      in if taxonomy_disabled then ''taxonomy_disabled''
         else if sr_matched_rule_id simulation \<noteq> None then ''policy_rule''
         else ''default'')"

definition simulate_with_source :: "app_state \<Rightarrow> decision_request \<Rightarrow> simulation_result res" where
  "simulate_with_source state request =
     map_res (\<lambda>simulation. simulation\<lparr>sr_decision := (sr_decision simulation)
         \<lparr>pd_decision_source := Some (decision_source_for_simulation state simulation)\<rparr>\<rparr>)
       (evaluator_simulate (as_evaluator state) request)"

definition handle_decision ::
  "externs \<Rightarrow> app_state \<Rightarrow> classification_db \<Rightarrow> decision_request \<Rightarrow> policy_decision handled" where
  "handle_decision ex state cdb payload =
     (if dr_normalized_key payload = [] then Inr (Inl (400, key_required_response))
      else
        (case resolve_override_decision state cdb payload of
           Some decision \<Rightarrow> Inr (Inr decision)
         | None \<Rightarrow>
             map_res (\<lambda>simulation. Inr (sr_decision simulation))
               (simulate_with_source state (hydrate_request_hints ex state cdb payload))))"

definition current_policy_list :: "externs \<Rightarrow> app_state \<Rightarrow> policy_list_response" where
  "current_policy_list ex state =
     (let st = ev_store (as_evaluator state)
      in policy_list_from_store ex (ps_version st) (ps_policy_id st) (list_rules st))"

definition list_policies ::
  "externs \<Rightarrow> user_context \<Rightarrow> app_state \<Rightarrow> status + policy_list_response" where
  "list_policies ex user state =
     bind_res (require_roles user ROLE_POLICY_VIEWER_ROLES) (\<lambda>_. Inr (current_policy_list ex state))"

text \<open>A failed audit insert is only logged.\<close>

definition log_event :: "app_state \<Rightarrow> policy_audit_event \<Rightarrow> policy_db \<Rightarrow> policy_db" where
  "log_event state event d = (if as_audit_logger state then snd (audit_log event d) else d)"

definition forbid :: "user_context \<Rightarrow> string list \<Rightarrow> (status \<times> error_response) + unit" where
  "forbid user roles =
     (case require_roles user roles of
        Inl status \<Rightarrow> Inl (status, forbidden_response)
      | Inr u \<Rightarrow> Inr u)"

definition reload_policies ::
  "externs \<Rightarrow> engine_env \<Rightarrow> user_context \<Rightarrow> app_state \<Rightarrow> policy_db
   \<Rightarrow> ((status \<times> error_response) + policy_list_response) \<times> app_state \<times> policy_db" where
  "reload_policies ex env user state d =
     (case forbid user ROLE_POLICY_EDITOR_ROLES of
        Inl e \<Rightarrow> (Inl e, state, d)
      | Inr _ \<Rightarrow>
          (case evaluator_reload ex env (as_evaluator state) d of
             (Inl err, ev, d') \<Rightarrow>
               (Inl (500, \<lparr>er_error_code = ''RELOAD_FAILED'', er_message = error_text err\<rparr>),
                state\<lparr>as_evaluator := ev\<rparr>, d')
           | (Inr _, ev, d') \<Rightarrow>
               (let state' = state\<lparr>as_evaluator := ev\<rparr>; st = ev_store ev
                in (Inr (current_policy_list ex state'), state',
                    log_event state'
                      \<lparr>pae_action = ''policy.reload'', pae_actor = Some (uc_actor user),
                       pae_policy_id = ps_policy_id st, pae_version = Some (ps_version st),
                       pae_status = None, pae_notes = Some ''manual reload'', pae_diff = None\<rparr> d'))))"

definition create_policy_handler ::
  "externs \<Rightarrow> engine_env \<Rightarrow> user_context \<Rightarrow> policy_create_request \<Rightarrow> app_state \<Rightarrow> policy_db
   \<Rightarrow> ((status \<times> error_response) + policy_list_response) \<times> app_state \<times> policy_db" where
  "create_policy_handler ex env user payload0 state d =
     (case forbid user ROLE_POLICY_EDITOR_ROLES of
        Inl e \<Rightarrow> (Inl e, state, d)
      | Inr _ \<Rightarrow>
          (let payload =
                 (if pcr_created_by payload0 = None
                  then payload0\<lparr>pcr_created_by := Some (uc_actor user)\<rparr> else payload0)
           in case evaluator_create_policy ex env payload (as_evaluator state) d of
                (Inl err, ev, d') \<Rightarrow>
                  (let status = (if contains_str (error_text err) NO_BACKEND then 501 else 500)
                   in (Inl (status, \<lparr>er_error_code = ''POLICY_CREATE_FAILED'',
                                     er_message = error_text err\<rparr>),
                       state\<lparr>as_evaluator := ev\<rparr>, d'))
              | (Inr policy_id, ev, d') \<Rightarrow>
                  (let state' = state\<lparr>as_evaluator := ev\<rparr>
                   in (Inr (current_policy_list ex state'), state',
                       log_event state'
                         \<lparr>pae_action = ''policy.create'', pae_actor = pcr_created_by payload,
                          pae_policy_id = Some policy_id, pae_version = Some (pcr_version payload),
                          pae_status = Some ''active'', pae_notes = None,
                          pae_diff = Some (create_request_to_json payload)\<rparr> d'))))"

definition simulate_policy ::
  "externs \<Rightarrow> classification_db \<Rightarrow> user_context \<Rightarrow> app_state \<Rightarrow> simulate_policy_request
   \<Rightarrow> simulation_response handled" where
  "simulate_policy ex cdb user state payload =
     (case forbid user ROLE_POLICY_VIEWER_ROLES of
        Inl e \<Rightarrow> Inr (Inl e)
      | Inr _ \<Rightarrow>
          if dr_normalized_key (spr_request payload) = [] then Inr (Inl (400, key_required_response))
          else
            (let version = ps_version (ev_store (as_evaluator state));
                 mode = simulation_mode_as_str (spr_mode payload);
                 respond = (\<lambda>request. map_res (\<lambda>r. Inr
                   \<lparr>sresp_decision = sr_decision r, sresp_matched_rule_id = sr_matched_rule_id r,
                    sresp_policy_version = version, sresp_mode = mode\<rparr>)
                   (simulate_with_source state request))
             in if spr_mode payload = SimRuntime then
                  (case resolve_override_decision state cdb (spr_request payload) of
                     Some decision \<Rightarrow>
                       Inr (Inr \<lparr>sresp_decision = decision, sresp_matched_rule_id = None,
                                 sresp_policy_version = version, sresp_mode = mode\<rparr>)
                   | None \<Rightarrow> respond (hydrate_request_hints ex state cdb (spr_request payload)))
                else respond (spr_request payload)))"

definition update_target ::
  "externs \<Rightarrow> app_state \<Rightarrow> string \<Rightarrow> (status \<times> error_response) + uuid" where
  "update_target ex state policy_id =
     (if policy_id = ''current'' then
        ok_or (501, \<lparr>er_error_code = ''POLICY_DB_DISABLED'',
                     er_message = ''policy database backend required for updates''\<rparr>)
          (ps_policy_id (ev_store (as_evaluator state)))
      else
        ok_or (400, \<lparr>er_error_code = ''VALIDATION_ERROR'',
                     er_message = ''policy_id must be a UUID or '' @ [CHR 0x27] @ ''current'' @ [CHR 0x27]\<rparr>)
          (uuid_parse ex policy_id))"

definition update_policy_handler ::
  "externs \<Rightarrow> engine_env \<Rightarrow> user_context \<Rightarrow> string \<Rightarrow> policy_update_request \<Rightarrow> app_state \<Rightarrow> policy_db
   \<Rightarrow> ((status \<times> error_response) + policy_list_response) \<times> app_state \<times> policy_db" where
  "update_policy_handler ex env user policy_id payload state d =
     (case bind_res (forbid user ROLE_POLICY_EDITOR_ROLES) (\<lambda>_. update_target ex state policy_id) of
        Inl e \<Rightarrow> (Inl e, state, d)
      | Inr target_id \<Rightarrow>
          (case evaluator_update_policy ex env target_id payload (uc_actor user) (as_evaluator state) d of
             (Inl err, ev, d') \<Rightarrow>
               (Inl (500, \<lparr>er_error_code = ''POLICY_UPDATE_FAILED'', er_message = error_text err\<rparr>),
                state\<lparr>as_evaluator := ev\<rparr>, d')
           | (Inr _, ev, d') \<Rightarrow>
               (let state' = state\<lparr>as_evaluator := ev\<rparr>; current_version = ps_version (ev_store ev)
                in (Inr (current_policy_list ex state'), state',
                    log_event state'
                      \<lparr>pae_action = ''policy.update'', pae_actor = Some (uc_actor user),
                       pae_policy_id = Some target_id,
                       pae_version = Some (case pur_version payload of
                         None \<Rightarrow> current_version | Some v \<Rightarrow> v),
                       pae_status = pur_status payload, pae_notes = pur_notes payload,
                       pae_diff = Some (update_request_to_json payload)\<rparr> d'))))"

section \<open>Start-up\<close>

record policy_config =
  pc_api_host :: string
  pc_api_port :: nat
  pc_policy_file :: string
  pc_database_url :: "string option"
  pc_activation_database_url :: "string option"
  pc_admin_token :: "string option"
  pc_auth :: "string option option"

definition resolve_policy_db_url ::
  "environment \<Rightarrow> policy_config \<Rightarrow> string option \<times> string option" where
  "resolve_policy_db_url env cfg =
     (case pc_database_url cfg of
        Some url \<Rightarrow> (Some url, None)
      | None \<Rightarrow>
          (let lookup = lookup_env env ''OD_POLICY_DATABASE_URL'' [''DATABASE_URL'']
           in (el_value lookup, el_deprecated_alias lookup)))"

definition resolve_activation_db_url ::
  "environment \<Rightarrow> policy_config \<Rightarrow> string option \<Rightarrow> string option \<times> string option" where
  "resolve_activation_db_url env cfg policy_db_url =
     (case pc_activation_database_url cfg of
        Some url \<Rightarrow> (Some url, None)
      | None \<Rightarrow>
          (let lookup = lookup_env env ''OD_TAXONOMY_DATABASE_URL'' [''OD_ADMIN_DATABASE_URL'']
           in (case el_value lookup of None \<Rightarrow> policy_db_url | Some v \<Rightarrow> Some v,
               el_deprecated_alias lookup)))"

definition emit_env_alias_warnings :: "environment \<Rightarrow> policy_config \<Rightarrow> string list" where
  "emit_env_alias_warnings env cfg =
     (let warn = (\<lambda>unset canonical aliases.
            if \<not> unset then []
            else (case el_deprecated_alias (lookup_env env canonical aliases) of
                    None \<Rightarrow> []
                  | Some alias \<Rightarrow>
                      [''warning: policy-engine deprecated env alias in use: '' @ alias @ '' -> ''
                        @ canonical]))
      in warn (pc_database_url cfg = None) ''OD_POLICY_DATABASE_URL'' [''DATABASE_URL'']
       @ warn (pc_activation_database_url cfg = None) ''OD_TAXONOMY_DATABASE_URL''
           [''OD_ADMIN_DATABASE_URL''])"

definition policy_validate_config ::
  "externs \<Rightarrow> environment \<Rightarrow> (string \<Rightarrow> bool) \<Rightarrow> policy_config \<Rightarrow> unit res" where
  "policy_validate_config ex env exists cfg =
     (let v1 = require_non_empty ''api_host'' (Some (pc_api_host cfg))
                 ''set api_host in config/policy-engine.json'' (validator_new ''policy-engine'');
          v2 = require_non_empty ''policy_file'' (Some (pc_policy_file cfg))
                 ''set policy_file in config/policy-engine.json'' v1;
          v3 = (if pc_database_url cfg = None \<and> \<not> exists (pc_policy_file cfg)
                then require_non_empty ''policy_file_exists'' None
                  ''create the policy file path configured in policy_file or configure database_url'' v2
                else v2);
          policy_db_url = fst (resolve_policy_db_url env cfg);
          v4 = (if policy_db_url \<noteq> None
                then require_auth_url ex env ''OD_POLICY_DATABASE_URL'' policy_db_url True True 12
                  ''set OD_POLICY_DATABASE_URL with non-default username/password credentials'' v3
                else v3);
          activation_db_url = fst (resolve_activation_db_url env cfg policy_db_url);
          v5 = (if activation_db_url \<noteq> None
                then require_auth_url ex env ''OD_TAXONOMY_DATABASE_URL'' activation_db_url True True 12
                  ''set OD_TAXONOMY_DATABASE_URL with non-default username/password credentials'' v4
                else v4)
      in validator_finish v5)"

text \<open>
  The part of \<open>main\<close> that builds the state: \<open>activation_outcome\<close> is the first read of the
  activation tables, the flag says whether the refresh task runs.  Connecting to the databases
  and the schema migrations are taken to succeed.
\<close>

definition initial_store ::
  "externs \<Rightarrow> engine_env \<Rightarrow> string \<Rightarrow> taxonomy_store \<Rightarrow> policy_store dbm" where
  "initial_store ex env policy_file taxonomy =
     db_bind (store_load_from_db taxonomy) (\<lambda>loaded.
     case loaded of
       Some store \<Rightarrow> db_return store
     | None \<Rightarrow>
         db_bind (db_lift (document_load_from_file ex policy_file (env_files env policy_file))) (\<lambda>doc.
         db_bind (seed_db_from_document doc ''default'' (Some ''system'')) (\<lambda>_.
         db_bind (store_load_from_db taxonomy) (\<lambda>again.
         db_lift (ok_or (Panic ''seeded policy must exist'') again)))))"

definition policy_engine_start ::
  "externs \<Rightarrow> environment \<Rightarrow> engine_env \<Rightarrow> time \<Rightarrow> policy_config \<Rightarrow> taxonomy_store
   \<Rightarrow> (app_state \<times> bool) dbm" where
  "policy_engine_start ex osenv env now cfg taxonomy =
     (case fst (resolve_policy_db_url osenv cfg) of
        Some db_url \<Rightarrow>
          (let (activation, refresh) =
                 (case activation_load_from_db (env_activation_db env) of
                    Inr profile \<Rightarrow> (profile, True)
                  | Inl _ \<Rightarrow> (activation_deny_all now, False))
           in db_bind (initial_store ex env (pc_policy_file cfg) taxonomy) (\<lambda>store.
              db_return
                (\<lparr>as_evaluator = evaluator_from_database store (Some (pc_policy_file cfg)) activation,
                  as_audit_logger = True, as_classification_pool = True\<rparr>, refresh)))
      | None \<Rightarrow>
          db_bind (db_lift (store_load_from_file ex (pc_policy_file cfg)
              (env_files env (pc_policy_file cfg)) taxonomy)) (\<lambda>store.
            db_return
              (\<lparr>as_evaluator = evaluator_from_file store (pc_policy_file cfg) (activation_allow_all now),
                as_audit_logger = False, as_classification_pool = False\<rparr>, False)))"

section \<open>Override resolution\<close>

interpretation override: scope_matcher normalize_scope_host domain_scope_matches_host
  by unfold_locales
    (auto simp: domain_scope_matches_host_def host_under_def split: option.splits)

lemma normalize_scope_host_trim [simp]: "normalize_scope_host (trim s) = normalize_scope_host s"
  by (simp add: normalize_scope_host_def)

lemma domain_scope_matches_host_trim [simp]:
  "domain_scope_matches_host (trim s) h = domain_scope_matches_host s h"
  by (simp add: domain_scope_matches_host_def)

lemma domain_scope_specificity_trim [simp]:
  "domain_scope_specificity (trim s) = domain_scope_specificity s"
  by (simp add: domain_scope_specificity_def)

definition row_record :: "override_row \<Rightarrow> override_record" where
  "row_record row = \<lparr>or_scope_value = trim (ov_scope_value row), or_action = ov_action row\<rparr>"

abbreviation row_matches :: "string \<Rightarrow> override_row \<Rightarrow> bool" where
  "row_matches host row \<equiv> domain_scope_matches_host (ov_scope_value row) host"

lemma note_action_best [simp]: "os_best (note_action s a scan) = os_best scan"
  by (simp add: note_action_def split: option.splits)

lemma scan_overrides_best:
  assumes "\<forall>row \<in> set rows. trim (ov_scope_value row) \<noteq> []"
  shows "\<exists>scan'. scan_overrides host rows scan = Some scan' \<and>
    os_best scan' = fold (\<lambda>row best. better_override best (row_record row))
      (filter (row_matches host) rows) (os_best scan)"
  using assms
proof (induction rows arbitrary: scan)
  case (Cons row rows)
  have ne: "non_empty_string (ov_scope_value row) = Some (trim (ov_scope_value row))"
    using Cons.prems by (simp add: non_empty_string_def Let_def)
  have prems: "\<forall>row \<in> set rows. trim (ov_scope_value row) \<noteq> []" using Cons.prems by simp
  show ?case
  proof (cases "row_matches host row")
    case True
    let ?scan = "note_action (trim (ov_scope_value row)) (normalize_override_action (ov_action row)) scan"
    let ?s = "?scan\<lparr>os_best := better_override (os_best ?scan) (row_record row)\<rparr>"
    have "scan_overrides host (row # rows) scan = scan_overrides host rows ?s"
      using True ne by (simp add: Let_def row_record_def)
    moreover have "fold (\<lambda>row best. better_override best (row_record row))
        (filter (row_matches host) (row # rows)) (os_best scan) =
      fold (\<lambda>row best. better_override best (row_record row)) (filter (row_matches host) rows) (os_best ?s)"
      using True by simp
    ultimately show ?thesis using Cons.IH [OF prems, of ?s] by simp
  next
    case False
    then show ?thesis using Cons.IH [OF prems, of scan] ne by simp
  qed
qed simp

text \<open>The order by which a record beats another.\<close>

definition override_le :: "override_record \<Rightarrow> override_record \<Rightarrow> bool" where
  "override_le a b \<longleftrightarrow>
     domain_scope_specificity (or_scope_value a) < domain_scope_specificity (or_scope_value b) \<or>
     domain_scope_specificity (or_scope_value a) = domain_scope_specificity (or_scope_value b) \<and>
     override_action_rank (or_action a) \<le> override_action_rank (or_action b)"

lemma override_le_refl [simp]: "override_le a a"
  by (simp add: override_le_def)

lemma override_le_trans: "override_le a b \<Longrightarrow> override_le b c \<Longrightarrow> override_le a c"
  by (auto simp: override_le_def)

lemma better_override_Some:
  "better_override (Some (domain_scope_specificity (or_scope_value b), b)) r =
     (let w = (if override_le r b then b else r) in Some (domain_scope_specificity (or_scope_value w), w))"
  by (auto simp: better_override_def override_le_def Let_def)

lemma better_override_None:
  "better_override None r = Some (domain_scope_specificity (or_scope_value r), r)"
  by (simp add: better_override_def Let_def)

lemma override_le_linear: "\<not> override_le a b \<Longrightarrow> override_le b a"
  by (auto simp: override_le_def)

lemma fold_better_override:
  assumes "fold (\<lambda>row best. better_override best (f row)) rows
      (Some (domain_scope_specificity (or_scope_value b), b)) = Some (s, m)"
  shows "m \<in> insert b (f ` set rows) \<and> (\<forall>r \<in> insert b (f ` set rows). override_le r m)"
  using assms
proof (induction rows arbitrary: b)
  case (Cons row rows)
  define w where "w = (if override_le (f row) b then b else f row)"
  have "better_override (Some (domain_scope_specificity (or_scope_value b), b)) (f row) =
      Some (domain_scope_specificity (or_scope_value w), w)"
    by (simp add: better_override_Some w_def Let_def)
  then have "m \<in> insert w (f ` set rows) \<and> (\<forall>r \<in> insert w (f ` set rows). override_le r m)"
    using Cons.IH [of w] Cons.prems by simp
  moreover have "override_le b w" "override_le (f row) w"
    by (auto simp: w_def override_le_linear)
  moreover have "w = b \<or> w = f row" by (simp add: w_def)
  ultimately show ?case
    by (auto intro: override_le_trans)
qed simp

lemma fold_better_override_is_Some:
  "\<exists>w. fold (\<lambda>row best. better_override best (f row)) rows
      (Some (domain_scope_specificity (or_scope_value b), b)) =
    Some (domain_scope_specificity (or_scope_value w), w)"
  by (induction rows arbitrary: b) (simp_all add: better_override_Some Let_def)

lemma fold_better_override_None:
  assumes "rows \<noteq> []"
  obtains m where "fold (\<lambda>row best. better_override best (f row)) rows None =
      Some (domain_scope_specificity (or_scope_value m), m)"
    "m \<in> f ` set rows" "\<forall>r \<in> f ` set rows. override_le r m"
proof -
  obtain row rows' where rows: "rows = row # rows'" using assms by (cases rows) auto
  obtain m where m: "fold (\<lambda>row best. better_override best (f row)) rows None =
      Some (domain_scope_specificity (or_scope_value m), m)"
    using fold_better_override_is_Some [of f rows' "f row"] rows by (auto simp: better_override_None)
  with fold_better_override [of f rows' "f row"] rows that show ?thesis
    by (simp add: better_override_None)
qed

text \<open>
  The specification: the rows in force for a host are the eligible ones whose scope covers it;
  among them only those with the longest scope count, and there a block beats an allow.
\<close>

definition rows_in_force :: "time \<Rightarrow> string \<Rightarrow> override_row list \<Rightarrow> override_row list" where
  "rows_in_force now host rows =
     filter (\<lambda>row. override_eligible now row \<and> row_matches host row) rows"

definition most_specific :: "override_row list \<Rightarrow> override_row list" where
  "most_specific rows =
     filter (\<lambda>row. list_all (\<lambda>row'. domain_scope_specificity (ov_scope_value row') \<le>
       domain_scope_specificity (ov_scope_value row)) rows) rows"

definition override_spec :: "time \<Rightarrow> string \<Rightarrow> override_row list \<Rightarrow> policy_action option" where
  "override_spec now host rows =
     (let top = map (\<lambda>row. normalize_override_action (ov_action row))
                  (most_specific (rows_in_force now host rows))
      in if ''block'' \<in> set top then Some Block
         else if ''allow'' \<in> set top then Some Allow
         else None)"

lemma override_outcome_action:
  "map_option pd_action (override_outcome (Some (s, m))) =
     (if override_action_rank (or_action m) = 2 then Some Block
      else if override_action_rank (or_action m) = 1 then Some Allow else None)"
  by (auto simp: override_outcome_def override_verdict_def override_action_rank_def
      normalize_override_action_def Let_def)

lemma rank_block: "override_action_rank a = 2 \<longleftrightarrow> normalize_override_action a = ''block''"
  by (simp add: override_action_rank_def Let_def)

lemma rank_allow: "override_action_rank a = 1 \<longleftrightarrow> normalize_override_action a = ''allow''"
  by (simp add: override_action_rank_def Let_def)

lemma rank_le_2: "override_action_rank a \<le> 2"
  by (simp add: override_action_rank_def Let_def)

lemma row_record_simps [simp]:
  "domain_scope_specificity (or_scope_value (row_record row)) = domain_scope_specificity (ov_scope_value row)"
  "or_action (row_record row) = ov_action row"
  by (simp_all add: row_record_def)

lemma most_specific_iff:
  "row \<in> set (most_specific rows) \<longleftrightarrow>
     row \<in> set rows \<and> (\<forall>row' \<in> set rows. domain_scope_specificity (ov_scope_value row') \<le>
       domain_scope_specificity (ov_scope_value row))"
  by (simp add: most_specific_def list_all_iff)

lemma best_rank_in_top:
  assumes "m \<in> set rows" "\<forall>r \<in> set rows. override_le (row_record r) (row_record m)"
  shows "m \<in> set (most_specific rows)"
    and "row \<in> set (most_specific rows) \<Longrightarrow>
      override_action_rank (ov_action row) \<le> override_action_rank (ov_action m)"
proof -
  show "m \<in> set (most_specific rows)"
    using assms by (force simp: most_specific_iff override_le_def)
  assume "row \<in> set (most_specific rows)"
  with assms show "override_action_rank (ov_action row) \<le> override_action_rank (ov_action m)"
    by (force simp: most_specific_iff override_le_def)
qed

lemma best_matches_top:
  assumes "m \<in> set rows" "\<forall>r \<in> set rows. override_le (row_record r) (row_record m)"
    and top: "A = normalize_override_action ` ov_action ` set (most_specific rows)"
  shows "map_option pd_action (override_outcome (Some (s, row_record m))) =
    (if ''block'' \<in> A then Some Block else if ''allow'' \<in> A then Some Allow else None)"
proof -
  note b = best_rank_in_top [OF assms(1,2)]
  have "''block'' \<in> A \<longleftrightarrow> override_action_rank (ov_action m) = 2"
  proof
    assume "''block'' \<in> A"
    then obtain r where r: "r \<in> set (most_specific rows)" "override_action_rank (ov_action r) = 2"
      unfolding top using rank_block by auto
    from b(2) [OF r(1)] r(2) rank_le_2 [of "ov_action m"]
    show "override_action_rank (ov_action m) = 2" by simp
  next
    assume "override_action_rank (ov_action m) = 2"
    with b(1) show "''block'' \<in> A" unfolding top using rank_block by force
  qed
  moreover have "''allow'' \<in> A \<longleftrightarrow> override_action_rank (ov_action m) = 1"
    if "override_action_rank (ov_action m) \<noteq> 2"
  proof
    assume "''allow'' \<in> A"
    then obtain r where r: "r \<in> set (most_specific rows)" "override_action_rank (ov_action r) = 1"
      unfolding top using rank_allow by auto
    from b(2) [OF r(1)] r(2) that rank_le_2 [of "ov_action m"]
    show "override_action_rank (ov_action m) = 1" by simp
  next
    assume "override_action_rank (ov_action m) = 1"
    with b(1) show "''allow'' \<in> A" unfolding top using rank_allow by force
  qed
  ultimately show ?thesis by (simp add: override_outcome_action)
qed

lemma override_rows_set: "set (override_rows now rows) = {r \<in> set rows. override_eligible now r}"
  by (auto simp: override_rows_def)

lemma most_specific_set_cong:
  "set xs = set ys \<Longrightarrow> set (most_specific xs) = set (most_specific ys)"
  by (auto simp: most_specific_iff)

lemma resolve_override_spec:
  assumes "as_classification_pool state" "cdb_overrides cdb = Inr rows"
    and "host_from_normalized_key (dr_normalized_key request) = Some host"
    and named: "\<forall>row \<in> set rows. override_eligible (cdb_now cdb) row \<longrightarrow> trim (ov_scope_value row) \<noteq> []"
  shows "map_option pd_action (resolve_override_decision state cdb request) =
    override_spec (cdb_now cdb) host rows"
proof -
  let ?rows = "override_rows (cdb_now cdb) rows"
  let ?ms = "filter (row_matches host) ?rows"
  let ?init = "\<lparr>os_best = None, os_seen = Map.empty, os_conflicts = []\<rparr>"
  have ms: "set ?ms = set (rows_in_force (cdb_now cdb) host rows)"
    by (auto simp: override_rows_set rows_in_force_def)
  have "\<forall>row \<in> set ?rows. trim (ov_scope_value row) \<noteq> []" using named by (auto simp: override_rows_set)
  from scan_overrides_best [OF this, of host ?init] obtain scan where
    scan: "scan_overrides host ?rows ?init = Some scan"
      "os_best scan = fold (\<lambda>row best. better_override best (row_record row)) ?ms None" by auto
  have res: "resolve_override_decision state cdb request = override_outcome (os_best scan)"
    using assms(1,2,3) scan(1) by (simp add: resolve_override_decision_def)
  show ?thesis
  proof (cases "?ms = []")
    case True
    then have "rows_in_force (cdb_now cdb) host rows = []" using ms by simp
    with True show ?thesis
      by (simp add: res scan(2) override_outcome_def override_spec_def most_specific_def)
  next
    case False
    obtain m where m: "os_best scan = Some (domain_scope_specificity (or_scope_value m), m)"
      "m \<in> row_record ` set ?ms" "\<forall>r \<in> row_record ` set ?ms. override_le r m"
      using fold_better_override_None [OF False, of row_record] scan(2) by metis
    then obtain row where row: "m = row_record row" "row \<in> set ?ms"
      "\<forall>r \<in> set ?ms. override_le (row_record r) (row_record row)" by blast
    have top: "set (most_specific ?ms) = set (most_specific (rows_in_force (cdb_now cdb) host rows))"
      using ms by (rule most_specific_set_cong)
    show ?thesis
      unfolding res m(1) row(1) best_matches_top [OF row(2,3) refl]
      by (simp add: override_spec_def top image_image Let_def)
  qed
qed

section \<open>Hydration\<close>

lemma apply_persisted_hints_keeps [simp]:
  "dr_normalized_key (apply_persisted_hints r h) = dr_normalized_key r"
  "dr_entity_level (apply_persisted_hints r h) = dr_entity_level r"
  "dr_source_ip (apply_persisted_hints r h) = dr_source_ip r"
  "dr_user_id (apply_persisted_hints r h) = dr_user_id r"
  "dr_group_ids (apply_persisted_hints r h) = dr_group_ids r"
  by (simp_all add: apply_persisted_hints_def Let_def)

text \<open>Two requests that agree but for hints one of them lacks.\<close>

definition hints_extend :: "decision_request \<Rightarrow> decision_request \<Rightarrow> bool" where
  "hints_extend a b \<longleftrightarrow>
     dr_normalized_key b = dr_normalized_key a \<and> dr_entity_level b = dr_entity_level a \<and>
     dr_source_ip b = dr_source_ip a \<and> dr_user_id b = dr_user_id a \<and>
     dr_group_ids b = dr_group_ids a \<and>
     (dr_category_hint a \<noteq> None \<longrightarrow> dr_category_hint b = dr_category_hint a) \<and>
     (dr_subcategory_hint a \<noteq> None \<longrightarrow> dr_subcategory_hint b = dr_subcategory_hint a) \<and>
     (dr_risk_hint a \<noteq> None \<longrightarrow> dr_risk_hint b = dr_risk_hint a) \<and>
     (dr_confidence_hint a \<noteq> None \<longrightarrow> dr_confidence_hint b = dr_confidence_hint a)"

lemma hints_extend_refl [simp]: "hints_extend a a"
  by (simp add: hints_extend_def)

lemma apply_persisted_hints_extend: "hints_extend r (apply_persisted_hints r h)"
  by (auto simp: hints_extend_def apply_persisted_hints_def Let_def)

lemma hydrate_request_hints_extend: "hints_extend r (hydrate_request_hints ex state cdb r)"
  by (auto simp: hydrate_request_hints_def apply_persisted_hints_extend
      split: sum.splits option.splits)

text \<open>The first row of a two-key ordering.\<close>

lemma hd_sort_sort_desc:
  assumes "sort_key f (sort_desc g xs) = x # zs"
  shows "x \<in> set xs \<and> (\<forall>y \<in> set xs. f x < f y \<or> f x = f y \<and> g y \<le> g x)"
proof -
  let ?ys = "sort_desc g xs"
  have set: "set (x # zs) = set xs" using arg_cong [OF assms, of set] by simp
  have srt: "sorted (map f (x # zs))" using assms sorted_sort_key [of f ?ys] by simp
  have us: "filter (\<lambda>y. f y = f x) ?ys = x # filter (\<lambda>y. f y = f x) zs"
    using sort_key_stable [of f "f x" ?ys] assms by simp
  have "sorted (map (\<lambda>y. - int (g y)) (filter (\<lambda>y. f y = f x) ?ys))"
    by (simp add: sort_desc_def sorted_filter)
  then have same: "g y \<le> g x" if "y \<in> set xs" "f y = f x" for y
    using that us set_filter [of "\<lambda>y. f y = f x" ?ys] by auto
  have "f x \<le> f y" if "y \<in> set xs" for y using that srt set by auto
  then show ?thesis using same set by (metis list.set_intros(1) order_le_imp_less_or_eq)
qed

lemma select_hint_row_Some:
  assumes "select_hint_row key rel rows = Some row"
  shows "row \<in> set rows" "hint_row_matches key rel row"
    "\<And>r. r \<in> set rows \<Longrightarrow> hint_row_matches key rel r \<Longrightarrow>
       hint_rank key rel row < hint_rank key rel r \<or>
       hint_rank key rel row = hint_rank key rel r \<and> cr_updated_at r \<le> cr_updated_at row"
proof -
  obtain zs where "sort_key (hint_rank key rel)
      (sort_desc cr_updated_at (filter (hint_row_matches key rel) rows)) = row # zs"
    using assms by (auto simp: select_hint_row_def split: list.splits)
  note h = hd_sort_sort_desc [OF this]
  from h show "row \<in> set rows" "hint_row_matches key rel row" by auto
  fix r assume "r \<in> set rows" "hint_row_matches key rel r"
  with h show "hint_rank key rel row < hint_rank key rel r \<or>
       hint_rank key rel row = hint_rank key rel r \<and> cr_updated_at r \<le> cr_updated_at row" by simp
qed

lemma select_hint_row_None:
  "select_hint_row key rel rows = None \<longleftrightarrow> (\<forall>r \<in> set rows. \<not> hint_row_matches key rel r)"
proof -
  let ?s = "sort_key (hint_rank key rel)
      (sort_desc cr_updated_at (filter (hint_row_matches key rel) rows))"
  have "select_hint_row key rel rows = None \<longleftrightarrow> ?s = []"
    by (auto simp: select_hint_row_def split: list.split)
  also have "\<dots> \<longleftrightarrow> set ?s = {}" by (simp only: set_empty)
  finally show ?thesis by auto
qed

subsection \<open>Patterns\<close>

definition like_plain :: "string \<Rightarrow> bool" where
  "like_plain s \<longleftrightarrow> CHR ''%'' \<notin> set s \<and> CHR ''_'' \<notin> set s \<and> CHR 0x5C \<notin> set s"

lemma like_match_literal:
  "like_plain p \<Longrightarrow> like_match (p @ q) s \<longleftrightarrow> (\<exists>r. s = p @ r \<and> like_match q r)"
proof (induction p arbitrary: s)
  case (Cons c p)
  then show ?case by (cases s) (auto simp: like_plain_def)
qed simp

lemma like_match_percent: "like_match (CHR ''%'' # q) s \<longleftrightarrow> (\<exists>a b. s = a @ b \<and> like_match q b)"
proof (induction s)
  case (Cons c s)
  have "like_match (CHR ''%'' # q) (c # s) \<longleftrightarrow> like_match q (c # s) \<or> like_match (CHR ''%'' # q) s"
    by simp
  also have "\<dots> \<longleftrightarrow> (\<exists>a b. c # s = a @ b \<and> like_match q b)"
    unfolding Cons.IH by (metis append_Cons append_Nil append_eq_Cons_conv)
  finally show ?case .
qed simp

lemma like_match_exact: "like_plain p \<Longrightarrow> like_match p s \<longleftrightarrow> s = p"
  using like_match_literal [of p "[]" s] by simp

lemma subdomain_pfx_plain: "like_plain subdomain_pfx"
  by (simp add: like_plain_def subdomain_pfx_def)

text \<open>The descendant pattern of a plain host name finds exactly the keys of its sub-domains.\<close>

lemma like_match_descendants:
  assumes "like_plain host"
  shows "like_match (subdomain_pfx @ ''%.'' @ host) key \<longleftrightarrow>
    (\<exists>x. key = subdomain_pfx @ x @ CHR ''.'' # host)"
proof -
  have plain: "like_plain (CHR ''.'' # host)" using assms by (simp add: like_plain_def)
  have "like_match (''%.'' @ host) r \<longleftrightarrow> (\<exists>x. r = x @ CHR ''.'' # host)" for r
    using like_match_percent [of "CHR ''.'' # host" r] like_match_exact [OF plain] by simp
  then show ?thesis by (auto simp: like_match_literal [OF subdomain_pfx_plain])
qed

section \<open>Decisions\<close>

lemma simulate_with_source_cases:
  assumes "simulate_with_source state req = Inr r"
  obtains r0 v where "store_simulate (ev_store (as_evaluator state)) req = Inr r0"
    "pd_verdict (sr_decision r0) = Some v" "pd_verdict (sr_decision r) = Some v"
    "sr_matched_rule_id r = sr_matched_rule_id r0"
    "pd_action (sr_decision r) =
       (if is_verdict_enabled (as_evaluator state) (cv_primary_category v) (cv_subcategory v)
        then pd_action (sr_decision r0) else Block)"
    "pd_decision_source (sr_decision r) = Some
       (if is_verdict_enabled (as_evaluator state) (cv_primary_category v) (cv_subcategory v)
        then (if sr_matched_rule_id r0 \<noteq> None then ''policy_rule'' else ''default'')
        else ''taxonomy_disabled'')"
proof -
  obtain r0 where r0: "store_simulate (ev_store (as_evaluator state)) req = Inr r0"
    and r: "r = (let s = r0\<lparr>sr_decision := apply_activation (as_evaluator state) (sr_decision r0)\<rparr>
      in s\<lparr>sr_decision := (sr_decision s)
        \<lparr>pd_decision_source := Some (decision_source_for_simulation state s)\<rparr>\<rparr>)"
    using assms by (auto simp: simulate_with_source_def evaluator_simulate_def res_simps Let_def)
  obtain v where v: "pd_verdict (sr_decision r0) = Some v" using simulate_has_verdict [OF r0] by blast
  show ?thesis
    using that [OF r0 v] apply_activation_action [OF v, of "as_evaluator state"] v
    by (simp add: r Let_def decision_source_for_simulation_def)
qed

lemma simulate_with_source_total:
  "evaluator_inv (as_evaluator state) \<Longrightarrow> \<exists>r. simulate_with_source state req = Inr r"
  using store_simulate_total [of "ev_store (as_evaluator state)" req]
  by (auto simp: simulate_with_source_def evaluator_simulate_def res_simps)

lemma override_outcome_source:
  "override_outcome b = Some d \<Longrightarrow>
   pd_decision_source d = Some ''override'' \<and> pd_action d \<in> {Allow, Block}"
  by (cases b) (auto simp: override_outcome_def override_verdict_def Let_def split: if_splits)

lemma override_source:
  assumes "resolve_override_decision state cdb req = Some d"
  shows "pd_decision_source d = Some ''override'' \<and> pd_action d \<in> {Allow, Block}"
proof -
  obtain b where "override_outcome b = Some d"
    using assms
    by (cases "cdb_overrides cdb")
      (auto simp: resolve_override_decision_def bind_eq_Some_conv split: if_splits)
  then show ?thesis by (rule override_outcome_source)
qed

lemma handle_decision_cases:
  assumes "handle_decision ex state cdb req = Inr (Inr d)"
  obtains (override) "resolve_override_decision state cdb req = Some d"
  | (evaluated) r where "resolve_override_decision state cdb req = None"
      "simulate_with_source state (hydrate_request_hints ex state cdb req) = Inr r"
      "d = sr_decision r"
  using assms by (auto simp: handle_decision_def res_simps split: if_splits option.splits)

lemma blank_scope_none:
  assumes "cdb_overrides cdb = Inr rows" "row \<in> set rows" "override_eligible (cdb_now cdb) row"
    and "trim (ov_scope_value row) = []"
  shows "resolve_override_decision state cdb request = None"
proof -
  have scan: "\<exists>row \<in> set rs. trim (ov_scope_value row) = [] \<Longrightarrow> scan_overrides host rs sc = None" for host rs sc
    by (induction rs arbitrary: sc) (auto simp: non_empty_string_def Let_def split: option.splits if_splits)
  have "\<exists>row \<in> set (override_rows (cdb_now cdb) rows). trim (ov_scope_value row) = []"
    using assms(2-4) by (auto simp: override_rows_set)
  then show ?thesis
    using scan assms(1)
    by (cases "host_from_normalized_key (dr_normalized_key request)")
      (simp_all add: resolve_override_decision_def)
qed

text \<open>Without an allow in force an override can only block.\<close>

lemma override_without_allow:
  assumes "resolve_override_decision state cdb request = Some d"
    and "\<And>rows row. cdb_overrides cdb = Inr rows \<Longrightarrow> row \<in> set rows \<Longrightarrow> override_eligible (cdb_now cdb) row \<Longrightarrow>
      normalize_override_action (ov_action row) \<noteq> ''allow''"
  shows "pd_action d = Block"
proof -
  obtain host rows where r: "as_classification_pool state" "cdb_overrides cdb = Inr rows"
    "host_from_normalized_key (dr_normalized_key request) = Some host"
    using assms(1) by (cases "cdb_overrides cdb")
      (auto simp: resolve_override_decision_def bind_eq_Some_conv split: if_splits)
  have "\<forall>row \<in> set rows. override_eligible (cdb_now cdb) row \<longrightarrow> trim (ov_scope_value row) \<noteq> []"
    using blank_scope_none [OF r(2)] assms(1) by fastforce
  from resolve_override_spec [OF r this] assms(1) have "override_spec (cdb_now cdb) host rows = Some (pd_action d)" by simp
  moreover have "''allow'' \<notin> set (map (\<lambda>row. normalize_override_action (ov_action row))
      (most_specific (rows_in_force (cdb_now cdb) host rows)))"
    using assms(2) [OF r(2)] by (force simp: most_specific_def rows_in_force_def)
  ultimately show ?thesis by (simp add: override_spec_def Let_def split: if_splits)
qed

lemma disabled_verdict_block:
  assumes "handle_decision ex state cdb request = Inr (Inr d)" "pd_decision_source d \<noteq> Some ''override''"
    and "pd_verdict d = Some v"
    and "\<not> is_verdict_enabled (as_evaluator state) (cv_primary_category v) (cv_subcategory v)"
  shows "pd_action d = Block \<and> pd_decision_source d = Some ''taxonomy_disabled''"
  using assms(1)
proof (cases rule: handle_decision_cases)
  case override
  then show ?thesis using override_source assms(2) by blast
next
  case (evaluated r)
  then show ?thesis using assms(3,4) by (auto elim!: simulate_with_source_cases)
qed

section \<open>Start-up invariant\<close>

lemma store_load_from_db_inv:
  assumes "resolver_wf tx" "store_load_from_db tx d = (Inr (Some st), d')"
  shows "store_inv st \<and> ps_taxonomy st = tx"
  using assms(2) canonicalize_rules_canonical [OF assms(1)] assms(1)
  by (auto simp: store_load_from_db_def db_run_simps store_inv_def Let_def
      split: prod.splits sum.splits option.splits)

lemma store_load_from_file_inv:
  "resolver_wf tx \<Longrightarrow> store_load_from_file ex path data tx = Inr st \<Longrightarrow> store_inv st"
  by (auto simp: store_load_from_file_def res_simps intro: store_from_document_inv)

lemma initial_store_inv:
  assumes "resolver_wf tx" "initial_store ex env path tx d = (Inr st, d')"
  shows "store_inv st"
  using assms(2)
  by (auto simp: initial_store_def db_run_simps res_simps
      split: prod.splits sum.splits option.splits
      dest: store_load_from_db_inv [OF assms(1)])

lemma policy_engine_start_inv:
  assumes "resolver_wf tx" "policy_engine_start ex osenv env now cfg tx d = (Inr (state, refresh), d')"
  shows "evaluator_inv (as_evaluator state)"
  using assms(2)
  by (auto simp: policy_engine_start_def db_run_simps evaluator_from_database_def
      evaluator_from_file_def
      split: prod.splits sum.splits option.splits
      dest: initial_store_inv [OF assms(1)] store_load_from_file_inv [OF assms(1)])

lemma policy_engine_start_denied:
  assumes "fst (resolve_policy_db_url osenv cfg) = Some url"
    "activation_load_from_db (env_activation_db env) = Inl e"
    "policy_engine_start ex osenv env now cfg tx d = (Inr (state, refresh), d')"
  shows "ev_activation (as_evaluator state) = activation_deny_all now \<and> \<not> refresh"
  using assms
  by (auto simp: policy_engine_start_def db_run_simps evaluator_from_database_def
      split: prod.splits sum.splits)

lemma policy_engine_start_loaded:
  assumes "fst (resolve_policy_db_url osenv cfg) = Some url"
    "activation_load_from_db (env_activation_db env) = Inr p"
    "policy_engine_start ex osenv env now cfg tx d = (Inr (state, refresh), d')"
  shows "ev_activation (as_evaluator state) = p \<and> refresh"
  using assms
  by (auto simp: policy_engine_start_def db_run_simps evaluator_from_database_def
      split: prod.splits sum.splits)

section \<open>Properties\<close>

text \<open>
  C3: overrides.  When the override table can be read and no row in force has a blank scope, the
  override decision for a host is decided by the active, unexpired domain rows that cover the
  host with the longest scope: a block among them blocks, otherwise an allow allows, otherwise
  there is no override.  Scopes of the same length, such as a name and the wildcard of the same name,
  are decided by the action alone: which of the rows was updated last does not matter.
\<close>

theorem override_most_specific_wins:
  assumes "as_classification_pool state" "cdb_overrides cdb = Inr rows"
    and "host_from_normalized_key (dr_normalized_key request) = Some host"
    and "\<forall>row \<in> set rows. override_eligible (cdb_now cdb) row \<longrightarrow> trim (ov_scope_value row) \<noteq> []"
  shows "map_option pd_action (resolve_override_decision state cdb request) =
    override_spec (cdb_now cdb) host rows"
  using resolve_override_spec [OF assms] .

text \<open>
  A blank scope switches overrides off.  A single active row with a blank scope makes the
  resolution return nothing, for every host, even where another row blocks that host.
\<close>

theorem blank_scope_disables_overrides:
  assumes "cdb_overrides cdb = Inr rows" "row \<in> set rows" "override_eligible (cdb_now cdb) row"
    and "trim (ov_scope_value row) = []"
  shows "resolve_override_decision state cdb request = None"
  by (rule blank_scope_none [OF assms])

text \<open>
  C26: every decision request is answered.  With an evaluator that satisfies its invariant, a
  request with an empty key is rejected as a validation error and every other one gets a decision
  that names its source.
\<close>

theorem decision_endpoint_total:
  assumes "evaluator_inv (as_evaluator state)"
  shows "(dr_normalized_key request = [] \<longrightarrow>
      handle_decision ex state cdb request = Inr (Inl (400, key_required_response))) \<and>
    (dr_normalized_key request \<noteq> [] \<longrightarrow>
      (\<exists>d src. handle_decision ex state cdb request = Inr (Inr d) \<and> pd_decision_source d = Some src \<and>
        src \<in> {''override'', ''policy_rule'', ''default'', ''taxonomy_disabled''}))"
proof (cases "resolve_override_decision state cdb request")
  case (Some d)
  then show ?thesis using override_source [OF Some] by (simp add: handle_decision_def)
next
  case None
  obtain r where r: "simulate_with_source state (hydrate_request_hints ex state cdb request) = Inr r"
    using simulate_with_source_total [OF assms] by blast
  then show ?thesis
    using None by (auto simp: handle_decision_def elim!: simulate_with_source_cases)
qed

text \<open>
  A disabled category is never let through by a rule.  A decision that did not come from an
  override is a block whenever the category and sub-category of its verdict are not enabled.
\<close>

theorem disabled_verdict_blocks:
  assumes "handle_decision ex state cdb request = Inr (Inr d)" "pd_decision_source d \<noteq> Some ''override''"
    and "pd_verdict d = Some v"
    and "\<not> is_verdict_enabled (as_evaluator state) (cv_primary_category v) (cv_subcategory v)"
  shows "pd_action d = Block \<and> pd_decision_source d = Some ''taxonomy_disabled''"
  using disabled_verdict_block [OF assms] .

text \<open>
  C11: what is switched off in the activation tables is blocked.  The engine has started with readable activation
  tables and its refresh task has made any number of loads, some of which may have failed.  The profile in force was
  read from one of those tables, and if the last load worked it is the profile the tables name, no older than what was
  read.  A decision that does not come from an override and is not a block has a verdict whose sub-category has an
  enabled row of its own in that profile, or none at all and an enabled row for its category.  (The sub-category of such a
  verdict is the description of the rule or \<open>Default\<close>.)
\<close>

theorem pass_needs_enabled_row:
  assumes "fst (resolve_policy_db_url osenv cfg) = Some url" "is_ok (activation_load_from_db (env_activation_db env))"
    and "policy_engine_start ex osenv env now cfg taxonomy db = (Inr (started, refresh), db')"
    and "profile = refresh_task loads (ev_activation (as_evaluator started))"
    and "state = started\<lparr>as_evaluator := (as_evaluator started)\<lparr>ev_activation := profile\<rparr>\<rparr>"
    and "handle_decision ex state cdb request = Inr (Inr d)" "pd_decision_source d \<noteq> Some ''override''"
      "pd_action d \<noteq> Block"
    and "pd_verdict d = Some v" "cv_subcategory v \<noteq> CATEGORY_SENTINEL_ID"
  shows "refresh \<and>
    (\<forall>p. activation_load_from_db (last (env_activation_db env # loads)) = Inr p \<longrightarrow>
       ap_id profile = ap_id p \<and> ap_updated_at p \<le> ap_updated_at profile) \<and>
    (\<exists>tables rows. Inr tables \<in> set (env_activation_db env # loads) \<and>
       rows = filter (\<lambda>e. aer_profile_id e = ap_id profile \<and> aer_category_id e = cv_primary_category v) (adb_entries tables) \<and>
       ((\<exists>e \<in> set rows. aer_subcategory_id e = cv_subcategory v \<and> aer_enabled e) \<or>
        (\<forall>e \<in> set rows. aer_subcategory_id e \<noteq> cv_subcategory v) \<and>
        (\<exists>e \<in> set rows. aer_subcategory_id e = CATEGORY_SENTINEL_ID \<and> aer_enabled e)))"
proof -
  obtain p0 where p0: "activation_load_from_db (env_activation_db env) = Inr p0" using assms(2) by (auto simp: is_ok_iff)
  note start = policy_engine_start_loaded [OF assms(1) p0 assms(3)]
  note loaded = refresh_task_loaded [OF p0, of loads]
  then obtain source where d: "source \<in> set (env_activation_db env # loads)" "activation_load_from_db source = Inr profile"
    using assms(4) start by auto
  then obtain tables where t: "source = Inr tables" by (auto simp: activation_load_from_db_def res_simps)
  have "is_enabled profile (cv_primary_category v) (Some (cv_subcategory v))"
    using disabled_verdict_block [OF assms(6,7,9)] assms(5,8) by (auto simp: is_verdict_enabled_def)
  note enabled_by_rows [OF d(2) [unfolded t] this assms(10)]
  then show ?thesis using d(1) t loaded assms(4) start by blast
qed

text \<open>
  C27: start-up fails closed.  When the engine starts with a database and the activation tables
  cannot be read, no refresh runs and every decision that does not come from an override is a
  block.
\<close>

theorem start_fails_closed:
  assumes "fst (resolve_policy_db_url osenv cfg) = Some url"
    and "activation_load_from_db (env_activation_db env) = Inl e"
    and "policy_engine_start ex osenv env now cfg taxonomy db = (Inr (state, refresh), db')"
  shows "\<not> refresh \<and>
    (\<forall>cdb request d. handle_decision ex state cdb request = Inr (Inr d) \<longrightarrow>
       pd_decision_source d \<noteq> Some ''override'' \<longrightarrow> pd_action d = Block)"
proof -
  note deny = policy_engine_start_denied [OF assms]
  have "pd_action d = Block"
    if "handle_decision ex state cdb request = Inr (Inr d)" "pd_decision_source d \<noteq> Some ''override''"
    for cdb request d
    using that(1)
  proof (cases rule: handle_decision_cases)
    case override
    then show ?thesis using override_source that(2) by blast
  next
    case (evaluated r)
    then show ?thesis
      using deny by (auto simp: is_verdict_enabled_def elim!: simulate_with_source_cases)
  qed
  with deny show ?thesis by blast
qed

text \<open>
  Hydration only fills gaps.  It leaves every field of a request alone but for hints the
  caller did not send; and the row it takes them from is the row with exactly the key of the
  request if there is one, else the one of the parent domain, the newest within each group.
\<close>

theorem hydration_fills_gaps:
  "hints_extend request (hydrate_request_hints ex state cdb request) \<and>
   (\<forall>row rows. select_hint_row key related rows = Some row \<longrightarrow>
      row \<in> set rows \<and> cr_status row = ''active'' \<and>
      (\<forall>r \<in> set rows. hint_row_matches key related r \<longrightarrow>
         hint_rank key related row < hint_rank key related r \<or>
         hint_rank key related row = hint_rank key related r \<and> cr_updated_at r \<le> cr_updated_at row))"
  using hydrate_request_hints_extend select_hint_row_Some
  by (fastforce simp: hint_row_matches_def)

text \<open>
  The descendants of a domain.  For a host name free of the special characters of \<open>LIKE\<close>,
  the pattern the engine builds for a domain key matches exactly the keys of names below it.
\<close>

theorem descendant_pattern_exact:
  assumes "rl_descendant_like_pattern (related_classification_lookup (domain_pfx @ host)) = Some pat"
    and "like_plain host" "host_clean host"
  shows "like_match pat key \<longleftrightarrow> (\<exists>x. key = subdomain_pfx @ x @ CHR ''.'' # host)"
proof -
  have "pat = subdomain_pfx @ ''%.'' @ host"
    using assms(1,3) by (simp add: related_classification_lookup_def host_clean_def Let_def)
  with like_match_descendants [OF assms(2)] show ?thesis by simp
qed

text \<open>
  Simulation shows what enforcement does.  For a user who may view policies, simulating a
  request in runtime mode yields exactly the decision the decision endpoint gives for it.
\<close>

theorem runtime_simulation_is_enforcement:
  assumes "require_roles user ROLE_POLICY_VIEWER_ROLES = Inr ()" "spr_mode payload = SimRuntime"
  shows "map_res (map_res sresp_decision) (simulate_policy ex cdb user state payload) =
    handle_decision ex state cdb (spr_request payload)"
  using assms
  by (cases "simulate_with_source state (hydrate_request_hints ex state cdb (spr_request payload))")
    (auto simp: simulate_policy_def handle_decision_def forbid_def Let_def split: option.split)

text \<open>
  Only editors change policies.  A caller with neither the editor nor the administrator role
  gets a 403 from reload, create and update, and neither the evaluator nor the database changes.
\<close>

theorem editors_only:
  assumes "\<not> has_role user ''policy-admin''" "\<not> has_role user ''policy-editor''"
  shows "reload_policies ex env user state d = (Inl (403, forbidden_response), state, d) \<and>
    create_policy_handler ex env user creq state d = (Inl (403, forbidden_response), state, d) \<and>
    update_policy_handler ex env user pid ureq state d = (Inl (403, forbidden_response), state, d)"
  using assms
  by (simp add: reload_policies_def create_policy_handler_def update_policy_handler_def forbid_def
      require_roles_def ROLE_POLICY_EDITOR_ROLES_def)

text \<open>
  An administration route runs its handler only for a caller the identity resolver accepted.
  Without credentials the answer is 401 and the resolver is not asked; when the resolver cannot
  be reached or answers in an unexpected way it is 502; in each case the state is untouched.
\<close>

theorem admin_route_guarded:
  assumes "rs_status (fst (admin_route ex resolver url handler st headers)) = status"
  shows "(enforce_admin ex resolver url headers = Inl status \<and>
      snd (admin_route ex resolver url handler st headers) = st \<and> status \<in> {401, 403, 502}) \<or>
    (\<exists>user hs body. resolver url hs = Some (200, body) \<and> hs \<noteq> [] \<and>
       Option.bind (json_of_text ex body) identity_of_json = Some user \<and>
       status = rs_status (fst (handler user)) \<and>
       snd (admin_route ex resolver url handler st headers) = snd (handler user))"
proof (cases "enforce_admin ex resolver url headers")
  case (Inl s)
  then have "s \<in> {401, 403, 502}"
    by (auto simp: enforce_admin_def authenticate_def Let_def res_simps
        split: if_splits option.splits prod.splits)
  with Inl assms show ?thesis by (simp add: admin_route_def)
next
  case (Inr user)
  then obtain hs body where h: "resolver url hs = Some (200, body)" "hs \<noteq> []"
    "Option.bind (json_of_text ex body) identity_of_json = Some user"
    by (auto simp: enforce_admin_def authenticate_def Let_def res_simps
        split: if_splits option.splits prod.splits)
  have "status = rs_status (fst (handler user)) \<and>
      snd (admin_route ex resolver url handler st headers) = snd (handler user)"
    using Inr assms
    by (auto simp: admin_route_def deprecated_policy_admin_middleware_def split: prod.splits)
  with h show ?thesis by blast
qed

text \<open>
  Bearer tokens are not accepted.  The engine forwards the token of an \<open>Authorization: Bearer\<close>
  header without its scheme, so a resolver that looks for the scheme, as the administration
  service does, finds no bearer credential: unless the token itself starts with the scheme, the
  caller without an admin token is refused.
\<close>

theorem bearer_tokens_refused:
  assumes "header_str headers ''authorization'' = Some (''Bearer '' @ token)"
    and "header_str headers ''X-Admin-Token'' = None"
    and "strip_prefix ''Bearer '' token = None"
    and "\<forall>hs. admin_api_credentials hs = (None, None) \<longrightarrow> resolver url hs = Some (401, [])"
  shows "enforce_admin ex resolver url headers = Inl 401"
proof -
  have "admin_api_credentials [(''Authorization'', token)] = (None, None)"
    using assms(3)
    by (auto simp: admin_api_credentials_def header_str_def header_get_def eq_ignore_ascii_case_def
        to_ascii_lowercase_def ascii_lower_def is_ascii_upper_def byte_in_def split: if_splits)
  with assms show ?thesis by (simp add: enforce_admin_def authenticate_def)
qed

text \<open>
  A validated configuration has strong database credentials.  When the configuration check of
  the policy engine passes outside insecure development mode and a policy database is configured,
  its URL parses and carries a user name of three bytes and a password of twelve bytes at least,
  neither of them a weak or an example value.
\<close>

theorem policy_config_credentials:
  assumes "policy_validate_config ex env exists cfg = Inr ()" "\<not> insecure_dev_mode_enabled env"
    and "fst (resolve_policy_db_url env cfg) = Some url"
  shows "\<exists>u p. url_parse ex (trim url) = Some u \<and> url_password u = Some p \<and>
    strong_secret 3 [] (trim (url_username u)) \<and> strong_secret 12 [] (trim p)"
proof -
  have "auth_url_ok ex True True 12 (Some url)"
    using assms
    by (auto simp: policy_validate_config_def Let_def validator_issue_simps split: if_splits)
  then show ?thesis by (auto simp: auth_url_ok_def DEFAULT_SECRET_MIN_LEN_def)
qed

end
