(* ===== verification/Enforcement.thy ===== *)
theory Enforcement
  imports Adaptor_Run Policy_Engine
begin

text \<open>
  The adaptor and the policy engine together: the engine as the HTTP service the adaptor calls,
  and what that means for the responses of the adaptor.
\<close>

section \<open>The engine as a service\<close>

text \<open>The request as the engine decodes it: a request without groups has no group list at all.\<close>

definition engine_view :: "policy_decision_request \<Rightarrow> decision_request" where
  "engine_view r =
     \<lparr>dr_normalized_key = pdr_normalized_key r, dr_entity_level = show_level (pdr_entity_level r),
      dr_source_ip = pdr_source_ip r, dr_user_id = pdr_user_id r,
      dr_group_ids = (if pdr_group_ids r = [] then None else Some (pdr_group_ids r)),
      dr_category_hint = None, dr_subcategory_hint = None, dr_risk_hint = None,
      dr_confidence_hint = None\<rparr>"

text \<open>
  The decision route: a body that does not decode is refused, an error of the handler gives its
  status, a panic of the handler closes the connection.
\<close>

definition decision_route ::
  "externs \<Rightarrow> app_state \<Rightarrow> classification_db \<Rightarrow> json option \<Rightarrow> (nat \<times> string) option" where
  "decision_route ex state cdb body =
     (case Option.bind body (decision_request_of_json ex) of
        None \<Rightarrow> Some (422, [])
      | Some payload \<Rightarrow>
          (case handle_decision ex state cdb payload of
             Inl _ \<Rightarrow> None
           | Inr (Inl (status, _)) \<Rightarrow> Some (status, [])
           | Inr (Inr d) \<Rightarrow> Some (200, text_of_json ex (decision_to_json d))))"

definition served_by :: "externs \<Rightarrow> services \<Rightarrow> string \<Rightarrow> app_state \<Rightarrow> classification_db \<Rightarrow> bool" where
  "served_by ex sv url state cdb \<longleftrightarrow>
     (\<forall>req. sv_http sv (policy_request url req) =
        decision_route ex state cdb (hr_body (policy_request url req)))"

lemma engine_decodes_request:
  "decision_request_of_json ex (decision_request_to_json r) = Some (engine_view r)"
proof (cases "pdr_group_ids r")
  case Nil
  then show ?thesis
    by (cases "pdr_user_id r")
      (simp_all add: decision_request_of_json_def decision_request_to_json_def engine_view_def
        req_field_def opt_field_def opt_to_json_def)
next
  case (Cons g gs)
  then show ?thesis
    by (cases "pdr_user_id r")
      (simp_all add: decision_request_of_json_def decision_request_to_json_def engine_view_def
        req_field_def opt_field_def opt_to_json_def strs_to_json_def comp_def)
qed

lemma served_evaluate:
  assumes "json_text_ok ex" "served_by ex sv url state cdb"
    "policy_client_evaluate ex sv url req = Inr d"
  shows "handle_decision ex state cdb (engine_view req) = Inr (Inr d)"
proof -
  have route: "sv_http sv (policy_request url req) =
      (case handle_decision ex state cdb (engine_view req) of
         Inl _ \<Rightarrow> None
       | Inr (Inl (status, _)) \<Rightarrow> Some (status, [])
       | Inr (Inr d) \<Rightarrow> Some (200, text_of_json ex (decision_to_json d)))"
    using assms(2)
    by (simp add: served_by_def decision_route_def policy_request_def engine_decodes_request)
  show ?thesis
  proof (cases "handle_decision ex state cdb (engine_view req)")
    case (Inl e)
    with route assms(3) show ?thesis by (simp add: policy_client_evaluate_def http_ok_def res_simps)
  next
    case (Inr h)
    show ?thesis
    proof (cases h)
      case (Inl e)
      have "dr_normalized_key (engine_view req) = []" "fst e = 400"
        using Inr Inl
        by (auto simp: handle_decision_def res_simps split: if_splits option.splits)
      with route Inr Inl assms(3) show ?thesis
        by (cases e) (simp add: policy_client_evaluate_def http_ok_def res_simps)
    next
      case (Inr d')
      then have "json_of_text ex (text_of_json ex (decision_to_json d')) = Some (decision_to_json d')"
        using assms(1) decision_text_round by blast
      with route \<open>handle_decision ex state cdb (engine_view req) = Inr h\<close> Inr assms(3)
      have "decision_of_json ex (decision_to_json d') = Some d"
        by (simp add: policy_client_evaluate_def http_ok_def res_simps)
      with decision_json_inj have "d = d'" by blast
      with Inr \<open>handle_decision ex state cdb (engine_view req) = Inr h\<close> show ?thesis by simp
    qed
  qed
qed

section \<open>Properties\<close>

text \<open>
  The two services agree on the request.  The request the adaptor serialises is decoded by the
  engine to the same key, address, user and groups, with no hints; an empty group list becomes an
  absent one.
\<close>

theorem engine_understands_adaptor:
  "decision_request_of_json ex (decision_request_to_json r) =
     Some \<lparr>dr_normalized_key = pdr_normalized_key r, dr_entity_level = show_level (pdr_entity_level r),
           dr_source_ip = pdr_source_ip r, dr_user_id = pdr_user_id r,
           dr_group_ids = (if pdr_group_ids r = [] then None else Some (pdr_group_ids r)),
           dr_category_hint = None, dr_subcategory_hint = None, dr_risk_hint = None,
           dr_confidence_hint = None\<rparr>"
  using engine_decodes_request by (simp add: engine_view_def)

text \<open>
  C9: enforcement end to end.  When the policy engine serves the adaptor, a decision the adaptor
  receives is the one the engine's decision handler gave for that request.
\<close>

theorem adaptor_gets_engine_decision:
  assumes "json_text_ok ex" "served_by ex sv url state cdb"
    and "policy_client_evaluate ex sv url req = Inr d"
  shows "handle_decision ex state cdb (engine_view req) = Inr (Inr d)"
  using served_evaluate [OF assms] .

text \<open>
  C10: an engine that has started without readable activation tables stops every request.  As long as no allow
  override is in force and the adaptor holds no earlier answer other than a block, no connection is
  answered with the 204 that lets it pass, and every answer the adaptor gets from the engine is a block.
\<close>

theorem denied_activation_blocks_connection:
  assumes "json_text_ok ex"
    and "fst (resolve_policy_db_url osenv cfg) = Some url" "activation_load_from_db (env_activation_db env) = Inl e"
    and "policy_engine_start ex osenv env now cfg taxonomy db = (Inr (state, refresh), db')"
    and "served_by ex sv (ad_policy_url ad) state cdb"
    and "\<forall>rows row. cdb_overrides cdb = Inr rows \<and> row \<in> set rows \<and> override_eligible (cdb_now cdb) row \<longrightarrow>
      normalize_override_action (ov_action row) \<noteq> ''allow''"
    and "adaptor_run ex ad hist w" "\<forall>(preq, d) \<in> hist. pd_action d = Block"
    and "handle_connection ex sv ad raw w = (r, w', effects)"
  shows "Respond no_content_response \<notin> set effects \<and> (\<forall>(preq, d) \<in> connection_answers ex sv ad effects. pd_action d = Block)"
proof -
  have block: "pd_action d = Block" if answer: "(preq, d) \<in> connection_answers ex sv ad effects" for preq d
  proof -
    have "handle_decision ex state cdb (engine_view preq) = Inr (Inr d)"
      using served_evaluate [OF assms(1,5)] answer by (simp add: connection_answers_def)
    then show ?thesis
    proof (cases rule: handle_decision_cases)
      case override
      then show ?thesis by (rule override_without_allow) (use assms(6) in blast)
    next
      case (evaluated r')
      with policy_engine_start_denied [OF assms(2-4)] show ?thesis
        by (auto simp: is_verdict_enabled_def elim!: simulate_with_source_cases)
    qed
  qed
  have "Respond no_content_response \<notin> set effects"
  proof
    assume pass: "Respond no_content_response \<in> set effects"
    obtain req where req: "icap_parse ex raw = Inr req"
      using assms(9) pass by (cases "icap_parse ex raw") (auto simp: handle_connection_def)
    have "handle_request ex sv ad req w = (r, w', effects)"
      using req assms(9) pass options_not_204 options_not_204 [symmetric]
      by (auto simp: handle_connection_def split: if_splits)
    from pass_justified_request [OF assms(1) adaptor_run_explained [OF assms(7)] this pass]
    obtain preq d where "(preq, d) \<in> connection_answers ex sv ad effects \<union> hist" "lets_pass (ad_cfg ad) d" by blast
    with block assms(8) show False by (auto simp: lets_pass_def)
  qed
  with block show ?thesis by blast
qed

end
