(* ===== verification/Samples.thy ===== *)
theory Samples
  imports Enforcement "HOL-Library.Countable"
begin

text \<open>
  Concrete inputs for the instances of the properties: external functions, a taxonomy, a policy
  store, a database, an engine and an adaptor.  \<open>plain_ex\<close> evaluates; \<open>json_ex\<close> codes JSON values
  as texts by counting them, which is all the round trips need.
\<close>

section \<open>External functions\<close>

definition sample_url :: url where
  "sample_url = \<lparr>url_scheme = ''http'', url_host_str = Some ''example.com'', url_path = ''/'',
     url_username = ''svc_policy'', url_password = Some ''correct-horse-battery''\<rparr>"

definition base_ex :: "(string \<Rightarrow> json option) \<Rightarrow> (json \<Rightarrow> string) \<Rightarrow> externs" where
  "base_ex dec enc =
     \<lparr>domain_to_ascii = Some, domain_root = (\<lambda>_. None), url_parse = (\<lambda>_. Some sample_url),
      to_lowercase = to_ascii_lowercase, json_of_text = dec, text_of_json = enc,
      f32_of_int = (\<lambda>_. 0), f32_of_f64 = (\<lambda>_. 0), uuid_parse = (\<lambda>_. None),
      uuid_to_string = show_nat\<rparr>"

definition plain_ex :: externs where
  "plain_ex = base_ex (\<lambda>_. None) (\<lambda>_. [])"

instance json :: countable
  by countable_datatype

definition text_of_code :: "json \<Rightarrow> string" where
  "text_of_code j = replicate (to_nat j) CHR ''1''"

definition code_of_text :: "string \<Rightarrow> json option" where
  "code_of_text s = Some (from_nat (length s))"

definition json_ex :: externs where
  "json_ex = base_ex code_of_text text_of_code"

lemma json_ex_text [simp]: "json_of_text json_ex (text_of_json json_ex j) = Some j"
  by (simp add: json_ex_def base_ex_def code_of_text_def text_of_code_def)

lemma json_ex_ok: "json_text_ok json_ex"
  by (simp add: json_text_ok_def)

lemma plain_ex_psl: "psl_ok plain_ex"
  by (simp add: psl_ok_def plain_ex_def base_ex_def)

section \<open>Taxonomy\<close>

definition sample_category :: "string \<Rightarrow> string list \<Rightarrow> canonical_category" where
  "sample_category i subs =
     \<lparr>cat_id = i, cat_name = i, cat_always_enabled = None,
      cat_subcategories = map (\<lambda>s. \<lparr>sub_id = s, sub_name = s, sub_always_enabled = None\<rparr>) subs\<rparr>"

definition sample_taxonomy :: canonical_taxonomy where
  "sample_taxonomy =
     \<lparr>tax_version = ''v1'', tax_source = None,
      tax_categories = sample_category ''unknown-unclassified'' [''insufficient-evidence''] #
        sample_category ''news'' [''world'', ''sports''] #
        map (\<lambda>i. sample_category (CHR ''c'' # show_nat i) [''general'']) [0..<39]\<rparr>"

lemma sample_taxonomy_validates: "validate sample_taxonomy = Inr ()"
  by code_simp

definition sample_store :: taxonomy_store where
  "sample_store = (case taxonomy_store_new sample_taxonomy of Inr st \<Rightarrow> st)"

lemma sample_store_wf: "store_wf sample_store" "ts_taxonomy sample_store = sample_taxonomy"
proof -
  obtain st where "taxonomy_store_new sample_taxonomy = Inr st" "store_wf st"
    "ts_taxonomy st = sample_taxonomy"
    using taxonomy_store_new_wf [of sample_taxonomy] sample_taxonomy_validates validate_iff by blast
  then show "store_wf sample_store" "ts_taxonomy sample_store = sample_taxonomy"
    by (simp_all add: sample_store_def)
qed

lemma sample_ids_trimmed: "list_all (\<lambda>c. trim (cat_id c) = cat_id c) (tax_categories sample_taxonomy)"
  by code_simp

lemma sample_resolver_wf: "resolver_wf sample_store"
  using sample_ids_trimmed by (simp add: resolver_wf_def ids_trimmed_def sample_store_wf list_all_iff)

lemma sample_news:
  "\<exists>v. validate_category sample_store ''news'' = Inr v \<and> cat_id (vc_category v) = ''news'' \<and>
     vc_fallback_reason v = None"
proof (rule tax.canonical_fixed [OF sample_resolver_wf])
  show "canonical_id sample_store ''news''"
    by (simp add: canonical_id_def sample_store_wf(2) sample_taxonomy_def sample_category_def)
qed

lemma sample_canonicalize: "canonicalize_category sample_store rule_id ''news'' = Inr ''news''"
  using sample_news by (auto simp: canonicalize_category_def)

section \<open>Policies\<close>

definition sample_rules :: "policy_rule list" where
  "sample_rules =
     [\<lparr>pr_id = ''block-news'', pr_description = None, pr_priority = 20, pr_action = Block,
       pr_conditions = conditions_default\<lparr>cond_categories := Some [''news'']\<rparr>\<rparr>,
      \<lparr>pr_id = ''allow-example'', pr_description = None, pr_priority = 10, pr_action = Allow,
       pr_conditions = conditions_default\<lparr>cond_domains := Some [''*.example.com'']\<rparr>\<rparr>]"

definition sample_document :: policy_document where
  "sample_document = \<lparr>pdoc_version = ''v1'', pdoc_rules = sample_rules\<rparr>"

definition sample_request :: decision_request where
  "sample_request =
     \<lparr>dr_normalized_key = ''subdomain:www.example.com'', dr_entity_level = ''Subdomain'',
      dr_source_ip = ''10.0.0.1'', dr_user_id = None, dr_group_ids = None,
      dr_category_hint = Some ''news'', dr_subcategory_hint = None, dr_risk_hint = None,
      dr_confidence_hint = None\<rparr>"

definition sample_policy_store :: policy_store where
  "sample_policy_store =
     \<lparr>ps_rules = sample_rules, ps_version = ''v1'', ps_policy_id = None, ps_taxonomy = sample_store\<rparr>"

lemma sample_rules_canonical: "canonicalize_rules sample_store sample_rules = Inr sample_rules"
  by (simp add: canonicalize_rules_def sample_rules_def canonicalize_rule_def conditions_default_def
      sample_canonicalize)

lemma sample_request_category: "request_category sample_store sample_request = Inr (Some ''news'')"
  using sample_news
  by (auto simp: request_category_def sample_request_def canonicalize_request_category_def)

lemma sample_policy_store_inv: "store_inv sample_policy_store"
proof -
  have "''news'' \<in> cat_id ` set (tax_categories sample_taxonomy)"
    by (simp add: sample_taxonomy_def sample_category_def)
  then show ?thesis
    by (auto simp: store_inv_def sample_policy_store_def sample_resolver_wf sample_rules_def
        rule_canonical_def conditions_default_def canonical_id_def sample_store_wf(2))
qed

section \<open>Activation and the policy database\<close>

definition sample_activation :: activation_db where
  "sample_activation =
     \<lparr>adb_profiles = [\<lparr>apr_id = 1, apr_version = ''v1'', apr_updated_at = 5\<rparr>],
      adb_entries =
        [\<lparr>aer_profile_id = 1, aer_category_id = ''news'', aer_subcategory_id = CATEGORY_SENTINEL_ID,
          aer_enabled = True\<rparr>,
         \<lparr>aer_profile_id = 1, aer_category_id = ''news'', aer_subcategory_id = ''sports'',
          aer_enabled = False\<rparr>]\<rparr>"

definition sample_db :: "(nat \<Rightarrow> bool) \<Rightarrow> policy_db" where
  "sample_db fails =
     \<lparr>db_policies = [], db_policy_rules = [], db_policy_versions = [], db_audit = [], db_stmt = 0,
      db_uuid_next = 0, db_fails = fails, db_clock = (\<lambda>k. k), db_uuids = (\<lambda>n. n + 1)\<rparr>"

definition sample_env :: engine_env where
  "sample_env = \<lparr>env_files = (\<lambda>_. None), env_activation_db = Inr sample_activation\<rparr>"

definition sample_evaluator :: evaluator where
  "sample_evaluator =
     \<lparr>ev_store = sample_policy_store, ev_source = PSDatabase None, ev_activation = activation_deny_all 0\<rparr>"

definition sample_create :: policy_create_request where
  "sample_create =
     \<lparr>pcr_name = ''main'', pcr_version = ''v2'', pcr_created_by = None, pcr_rules = sample_rules\<rparr>"

lemma sample_evaluator_inv: "evaluator_inv sample_evaluator"
  by (simp add: sample_evaluator_def sample_policy_store_inv)

lemma sample_db_quiet: "db_quiet (sample_db (\<lambda>_. False))"
  by (simp add: db_quiet_def sample_db_def)

lemma sample_db_fresh: "db_fresh (sample_db fails)"
  by (simp add: db_fresh_def sample_db_def)

section \<open>The engine\<close>

definition sample_override :: "string \<Rightarrow> string \<Rightarrow> override_row" where
  "sample_override scope action =
     \<lparr>ov_scope_type = ''domain'', ov_scope_value = scope, ov_action = action, ov_status = ''active'',
      ov_expires_at = None, ov_updated_at = 1, ov_created_at = 1\<rparr>"

definition sample_row :: classification_row where
  "sample_row =
     \<lparr>cr_normalized_key = ''domain:example.com'', cr_status = ''active'',
      cr_primary_category = Some ''news'', cr_subcategory = Some ''sports'',
      cr_risk_level = Some ''low'', cr_confidence = None, cr_updated_at = 3\<rparr>"

definition sample_cdb :: "override_row list \<Rightarrow> classification_db" where
  "sample_cdb rows = \<lparr>cdb_classifications = Inr [], cdb_overrides = Inr rows, cdb_now = 10\<rparr>"

definition sample_state :: app_state where
  "sample_state =
     \<lparr>as_evaluator = sample_evaluator, as_audit_logger = True, as_classification_pool = True\<rparr>"

definition sample_config :: policy_config where
  "sample_config =
     \<lparr>pc_api_host = ''0.0.0.0'', pc_api_port = 19010, pc_policy_file = ''config/policies.json'',
      pc_database_url = Some ''postgres://db'', pc_activation_database_url = None,
      pc_admin_token = None, pc_auth = None\<rparr>"

definition seeded_db :: policy_db where
  "seeded_db = (sample_db (\<lambda>_. False))\<lparr>db_policies :=
     [\<lparr>prow_id = 7, prow_name = ''main'', prow_version = ''v1'', prow_status = ''active'',
       prow_created_by = None, prow_created_at = 0\<rparr>]\<rparr>"

definition blind_env :: engine_env where
  "blind_env = sample_env\<lparr>env_activation_db := Inl (Error ''down'')\<rparr>"

definition blind_state :: app_state where
  "blind_state =
     \<lparr>as_evaluator =
        \<lparr>ev_store = \<lparr>ps_rules = [], ps_version = ''v1'', ps_policy_id = Some 7, ps_taxonomy = sample_store\<rparr>,
         ev_source = PSDatabase (Some ''config/policies.json''), ev_activation = activation_deny_all 0\<rparr>,
      as_audit_logger = True, as_classification_pool = True\<rparr>"

lemma blind_start:
  "\<exists>db'. policy_engine_start ex Map.empty blind_env 0 sample_config sample_store seeded_db =
     (Inr (blind_state, False), db')"
  by (simp add: policy_engine_start_def resolve_policy_db_url_def sample_config_def blind_env_def
      activation_load_from_db_def initial_store_def store_load_from_db_def load_latest_version_rules_def
      load_policy_rules_table_def query_def exec_def db_bind_def db_return_def db_lift_def
      seeded_db_def sample_db_def canonicalize_rules_def evaluator_from_database_def blind_state_def)

text \<open>The same engine with readable activation tables.\<close>

definition sighted_profile :: activation_profile where
  "sighted_profile =
     \<lparr>ap_id = 1, ap_version = ''v1'', ap_updated_at = 5, ap_category_states = [''news'' \<mapsto> True],
      ap_subcategory_states = [''news'' \<mapsto> [''sports'' \<mapsto> False]], ap_default_enabled = False\<rparr>"

definition sighted_state :: app_state where
  "sighted_state = blind_state\<lparr>as_evaluator := (as_evaluator blind_state)\<lparr>ev_activation := sighted_profile\<rparr>\<rparr>"

lemma sighted_load: "activation_load_from_db (env_activation_db sample_env) = Inr sighted_profile"
  by (simp add: activation_load_from_db_def sample_env_def sample_activation_def sighted_profile_def
      add_entry_def CATEGORY_SENTINEL_ID_def)

lemma sighted_start:
  "\<exists>db'. policy_engine_start ex Map.empty sample_env 0 sample_config sample_store seeded_db =
     (Inr (sighted_state, True), db')"
  by (simp add: policy_engine_start_def resolve_policy_db_url_def sample_config_def sighted_load
      initial_store_def store_load_from_db_def load_latest_version_rules_def
      load_policy_rules_table_def query_def exec_def db_bind_def db_return_def db_lift_def
      seeded_db_def sample_db_def canonicalize_rules_def evaluator_from_database_def blind_state_def sighted_state_def)

lemma sample_no_override: "resolve_override_decision state (sample_cdb []) request = None"
  by (simp add: resolve_override_decision_def sample_cdb_def override_rows_def sort_desc_def
      override_outcome_def bind_eq_None_conv)

lemma sample_no_hints: "hydrate_request_hints ex state (sample_cdb []) request = request"
  by (simp add: hydrate_request_hints_def sample_cdb_def select_hint_row_def sort_desc_def)

text \<open>The decision of an engine whose activation denies everything.\<close>

lemma sample_denied:
  assumes "request_category (ps_taxonomy (ev_store (as_evaluator state))) request = Inr cc"
    and "ev_activation (as_evaluator state) = activation_deny_all 0" "dr_normalized_key request \<noteq> []"
    and v: "pd_verdict (sr_decision (simulate_rules cc request (ps_rules (ev_store (as_evaluator state))))) = Some v"
  shows "\<exists>d. handle_decision ex state (sample_cdb []) request = Inr (Inr d) \<and>
    pd_decision_source d = Some ''taxonomy_disabled'' \<and> pd_verdict d = Some v"
  using assms(2-) v
  by (simp add: handle_decision_def sample_no_override sample_no_hints simulate_with_source_def
      evaluator_simulate_def store_simulate_def assms(1) apply_activation_def is_enabled_def
      activation_deny_all_def decision_source_for_simulation_def is_verdict_enabled_def)

lemma sample_decision:
  "\<exists>d v. handle_decision ex sample_state (sample_cdb []) sample_request = Inr (Inr d) \<and>
     pd_decision_source d = Some ''taxonomy_disabled'' \<and> pd_verdict d = Some v"
proof -
  have "pd_verdict (sr_decision (simulate_rules (Some ''news'') sample_request sample_rules)) \<noteq> None"
    by code_simp
  then show ?thesis
    using sample_denied [of sample_state sample_request] sample_request_category
    by (fastforce simp: sample_state_def sample_evaluator_def sample_policy_store_def sample_request_def)
qed

lemma blind_decision:
  "\<exists>d v. handle_decision ex blind_state (sample_cdb []) sample_request = Inr (Inr d) \<and>
     pd_decision_source d = Some ''taxonomy_disabled'' \<and> pd_verdict d = Some v"
  using sample_denied [of blind_state sample_request] sample_request_category
  by (fastforce simp: blind_state_def sample_request_def to_verdict_default_def)

lemma sighted_decision:
  "\<exists>d v. handle_decision ex sighted_state (sample_cdb []) sample_request = Inr (Inr d) \<and> pd_action d = Allow \<and>
     pd_decision_source d = Some ''default'' \<and> pd_verdict d = Some v \<and>
     cv_primary_category v = ''news'' \<and> cv_subcategory v = ''Default''"
  using sample_request_category
  by (simp add: handle_decision_def sample_no_override sample_no_hints simulate_with_source_def
      evaluator_simulate_def store_simulate_def apply_activation_def is_enabled_def sighted_profile_def
      decision_source_for_simulation_def is_verdict_enabled_def sighted_state_def blind_state_def to_verdict_default_def)
    (simp add: sample_request_def)

section \<open>Secrets\<close>

lemma sample_secrets:
  "strong_secret 3 [] ''svc_policy''" "strong_secret 16 [] ''correct-horse-battery''"
proof -
  have "\<not> contains_weak_pattern (to_ascii_lowercase ''svc_policy'')"
    "\<not> contains_weak_pattern (to_ascii_lowercase ''correct-horse-battery'')"
    by code_simp+
  then show "strong_secret 3 [] ''svc_policy''" "strong_secret 16 [] ''correct-horse-battery''"
    by (auto simp: strong_secret_def KNOWN_EXAMPLE_VALUES_def dest!: eq_ignore_length)
qed

lemma sample_trims:
  "trim ''svc_policy'' = ''svc_policy''" "trim ''correct-horse-battery'' = ''correct-horse-battery''"
  "trim ''postgres://db'' = ''postgres://db''" "trim ''0.0.0.0'' = ''0.0.0.0''"
  "trim ''config/policies.json'' = ''config/policies.json''"
  by code_simp+

lemma sample_config_valid: "policy_validate_config plain_ex Map.empty (\<lambda>_. True) sample_config = Inr ()"
proof -
  have "auth_url_ok plain_ex True True 12 (Some ''postgres://db'')"
    using sample_secrets strong_secret_mono [OF sample_secrets(2), of 12]
    by (simp add: auth_url_ok_def plain_ex_def base_ex_def sample_url_def sample_trims DEFAULT_SECRET_MIN_LEN_def)
  then show ?thesis
    by (simp add: policy_validate_config_def resolve_policy_db_url_def resolve_activation_db_url_def
        sample_config_def lookup_env_def Let_def validator_issue_simps sample_trims)
qed

section \<open>Requests to the adaptor\<close>

definition sample_raw :: string where
  "sample_raw = render_icap ''REQMOD'' ''/svc'' [(''X-User'', ''ann''), (''X-Group'', ''a,b;c'')] ''GET'' ''/'' ''Example.com:80''"

definition sample_icap :: icap_request where
  "sample_icap =
     \<lparr>ir_method = ''REQMOD'', ir_service = ''/svc'',
      ir_headers = headers_map [(''X-User'', ''ann''), (''X-Group'', ''a,b;c'')],
      ir_http_method = Some ''GET'', ir_http_path = Some ''/'', ir_http_scheme = None,
      ir_http_host = Some ''example.com'', ir_trace_id = None\<rparr>"

lemma sample_tokens:
  "graphic ''REQMOD''" "graphic ''/svc''" "graphic ''GET''" "graphic ''/''" "graphic ''Example.com:80''"
  "\<forall>kv \<in> set [(''X-User'', ''ann''), (''X-Group'', ''a,b;c'')]. header_ok kv"
  "\<not> eq_ignore_ascii_case ''REQMOD'' ''OPTIONS''" "\<not> eq_ignore_ascii_case ''GET'' ''CONNECT''"
  "headers_map [(''X-User'', ''ann''), (''X-Group'', ''a,b;c'')] ''x-trace-id'' = None"
  by code_simp+

lemma sample_target:
  "request_target (base_ex dec enc) ''GET'' ''/'' = Inr (None, [], ''/'')"
  "clean_host_value (base_ex dec enc) ''Example.com:80'' = ''example.com''"
  by code_simp+

lemma sample_parse: "icap_parse (base_ex dec enc) sample_raw = Inr sample_icap"
  unfolding sample_raw_def
  by (subst icap_parse_render [OF sample_tokens(1,2,6,3,4,5,7) sample_target(1) refl])
    (simp_all add: sample_target(2) sample_tokens(9) sample_icap_def)

definition sample_verdict :: classification_verdict where
  "sample_verdict =
     \<lparr>cv_primary_category = ''news'', cv_subcategory = ''sports'', cv_risk_level = ''low'',
      cv_confidence = 0, cv_recommended_action = Allow\<rparr>"

definition sample_allow :: policy_decision where
  "sample_allow =
     \<lparr>pd_action = Allow, pd_cache_hit = False, pd_verdict = Some sample_verdict, pd_decision_source = None\<rparr>"

definition sample_world :: "bool \<Rightarrow> cache_world" where
  "sample_world redis =
     \<lparr>cw_now = 0, cw_memory = Map.empty, cw_redis_configured = redis, cw_redis = Map.empty,
      cw_attempts = 0, cw_fails = (\<lambda>k. k = 0 \<or> k = Suc 0)\<rparr>"

lemma sample_allow_safe: "json_safe sample_allow"
  by code_simp

section \<open>A Redis server\<close>

definition one_star :: "string \<Rightarrow> string \<Rightarrow> bool" where
  "one_star pat k =
     (case split_once_char CHR ''*'' pat of
        None \<Rightarrow> k = pat
      | Some (p, q) \<Rightarrow> prefix p k \<and> suffix q (drop (length p) k))"

definition sample_server :: redis_server where
  "sample_server =
     \<lparr>rs_glob = one_star,
      rs_pages = (\<lambda>r pat. [filter (one_star pat) (map from_nat (sorted_list_of_set (to_nat ` dom r)))])\<rparr>"

lemma sample_server_ok: "server_ok sample_server"
proof -
  have s: "split_once_char CHR ''*'' (p @ ''*'' @ q) = Some (p, q)" if "glob_plain p" for p q
    using that by (simp add: split_once_char_Some_iff glob_plain_def)
  have g: "one_star (p @ ''*'' @ q) k \<longleftrightarrow> (\<exists>x. k = p @ x @ q)" if "glob_plain p" for p q k
    unfolding one_star_def s [OF that] by (auto simp: prefix_def suffix_def)
  have p: "k \<in> set (map from_nat (sorted_list_of_set (to_nat ` dom r)))"
    if "finite (dom r)" "r k \<noteq> None" for r :: "string \<Rightarrow> (string \<times> time) option" and k
    using that by (force simp: image_iff)
  show ?thesis
    unfolding server_ok_def sample_server_def using g p by simp
qed

lemma sample_server_exact: "scan_exact sample_server"
  by (simp add: scan_exact_def sample_server_def list_all_iff)

definition sample_inv :: inv_world where
  "sample_inv =
     \<lparr>iw_redis = [''domain:example.com'' \<mapsto> ([], 5), ''subdomain:www.example.com'' \<mapsto> ([], 5)],
      iw_published = [], iw_cmds = 0, iw_fails = (\<lambda>_. False)\<rparr>"

lemma sample_invalidation:
  "\<exists>w'. admin_invalidate_override json_ex sample_server ''domain'' ''example.com'' sample_inv = (Inr (), w')"
proof -
  have "iw_fails sample_inv = (\<lambda>_. False)"
    by (simp add: sample_inv_def)
  then show ?thesis
    using runsD [OF runs_invalidation [of json_ex sample_server "''example.com''"]] by simp
qed

section \<open>An adaptor\<close>

definition sample_icap_config :: icap_config where
  "sample_icap_config =
     \<lparr>ic_host = ''0.0.0.0'', ic_port = 1344, ic_preview_size = 4096, ic_redis_url = None,
      ic_policy_endpoint = Some ''http://policy:19010'', ic_metrics_host = ''0.0.0.0'', ic_metrics_port = 19005,
      ic_cache_channel = ''od:cache'', ic_require_content = True, ic_pending_cache_ttl_seconds = 5,
      ic_job_queue = None, ic_page_fetch_queue = None, ic_admin_api = None,
      ic_tenant_domain_exceptions = []\<rparr>"

definition sample_adaptor :: adaptor where
  "sample_adaptor =
     \<lparr>ad_cfg = sample_icap_config, ad_policy = [], ad_policy_url = ''http://policy:19010'',
      ad_job_stream = Some ''jobs'', ad_page_fetch = None, ad_pending = None\<rparr>"

definition sample_normalized :: normalized_target where
  "sample_normalized =
     \<lparr>nt_entity_level = ELDomain, nt_normalized_key = ''domain:example.com'', nt_hostname = ''example.com'',
      nt_registered_domain = ''example.com'', nt_full_url = ''http://example.com/''\<rparr>"

definition always :: "policy_decision \<Rightarrow> services" where
  "always d =
     \<lparr>sv_http = (\<lambda>_. Some (200, text_of_json json_ex (decision_to_json d))), sv_urlencode = (\<lambda>s. s)\<rparr>"

lemma sample_connection_target:
  "connection_target (base_ex dec enc) [] sample_icap =
     Inr (''example.com'', sample_normalized, ''domain:example.com'')"
  by code_simp

lemma always_evaluate: "json_safe d \<Longrightarrow> policy_client_evaluate json_ex (always d) url req = Inr d"
  by (simp add: policy_client_evaluate_def http_ok_def always_def decision_json_round)

definition sample_start :: cache_world where
  "sample_start = cache_new False (sample_world False)"

lemma sample_start_run: "adaptor_run ex ad {} sample_start"
  unfolding sample_start_def by (rule adaptor_run.start) (simp add: sample_world_def)

lemma sample_start_misses: "cache_get ex key sample_start = (None, sample_start)"
  by (simp add: sample_start_def cache_new_def cache_get_def memory_get_def redis_get_def)

lemma sample_connection:
  assumes "json_safe d" "finish_decision json_ex (always d) sample_adaptor sample_icap sample_normalized
      ''domain:example.com'' d sample_start = (w', effs)"
  shows "\<exists>pre. handle_connection json_ex (always d) sample_adaptor sample_raw sample_start = (Inr (), w', pre @ effs)"
proof -
  have p: "icap_parse json_ex sample_raw = Inr sample_icap"
    "connection_target json_ex [] sample_icap = Inr (''example.com'', sample_normalized, ''domain:example.com'')"
    unfolding json_ex_def by (rule sample_parse sample_connection_target)+
  have m: "\<not> eq_ignore_ascii_case (ir_method sample_icap) ''OPTIONS''" "ancestor_domain_key sample_normalized = None"
    by code_simp+
  show ?thesis
    using assms
    by (simp add: handle_connection_def handle_request_def p m resolve_cached_decision_def sample_start_misses
        always_evaluate sample_adaptor_def Let_def)
qed

lemma sample_allow_passes:
  "\<exists>w' effects. handle_connection json_ex (always sample_allow) sample_adaptor sample_raw sample_start =
     (Inr (), w', effects) \<and> Respond no_content_response \<in> set effects"
proof -
  let ?f = "finish_decision json_ex (always sample_allow) sample_adaptor sample_icap sample_normalized
      ''domain:example.com'' sample_allow sample_start"
  have a: "pd_action (response_decision_of (ad_cfg sample_adaptor) sample_allow) = Allow"
    by code_simp
  have "Respond no_content_response \<in> set (snd ?f)"
    by (simp add: finish_decision_def Let_def a)
  then show ?thesis
    using sample_connection [OF sample_allow_safe, of "fst ?f" "snd ?f"] by auto
qed

definition engine_service :: "app_state \<Rightarrow> classification_db \<Rightarrow> services" where
  "engine_service state cdb =
     \<lparr>sv_http = (\<lambda>req. decision_route json_ex state cdb (hr_body req)), sv_urlencode = (\<lambda>s. s)\<rparr>"

lemma engine_service_serves: "served_by json_ex (engine_service state cdb) url state cdb"
  by (simp add: served_by_def engine_service_def)

definition sample_policy_request :: policy_decision_request where
  "sample_policy_request =
     \<lparr>pdr_normalized_key = ''domain:example.com'', pdr_entity_level = ELDomain,
      pdr_source_ip = ''10.0.0.1'', pdr_user_id = None, pdr_group_ids = []\<rparr>"

lemma engine_answers:
  "\<exists>d. policy_client_evaluate json_ex (engine_service blind_state (sample_cdb [])) [] sample_policy_request = Inr d"
proof -
  let ?q = "engine_view sample_policy_request"
  let ?s = "simulate_rules None ?q []"
  have s: "map_option (\<lambda>v. f32_finite (cv_confidence v)) (pd_verdict (sr_decision ?s)) = Some True"
    by code_simp
  then obtain v where v: "pd_verdict (sr_decision ?s) = Some v" "f32_finite (cv_confidence v)"
    by auto
  have "\<exists>d. handle_decision json_ex blind_state (sample_cdb []) ?q = Inr (Inr d) \<and>
      pd_decision_source d = Some ''taxonomy_disabled'' \<and> pd_verdict d = Some v"
    by (rule sample_denied [where cc = None])
      (use v in \<open>simp_all add: blind_state_def sample_policy_store_def
        request_category_def engine_view_def sample_policy_request_def\<close>)
  then obtain d where d: "handle_decision json_ex blind_state (sample_cdb []) ?q = Inr (Inr d)" "json_safe d"
    using v(2) by (auto simp: json_safe_def)
  then show ?thesis
    by (simp add: policy_client_evaluate_def http_ok_def engine_service_def decision_route_def policy_request_def
        engine_decodes_request decision_json_round)
qed

end
