(* ===== verification/Witnesses.thy ===== *)
theory Witnesses
  imports Samples
begin

text \<open>
  Instances of the properties at concrete inputs.  Each theorem applies one property to data of
  \<open>Samples\<close> on which all its hypotheses hold, and reads off what it says there.
\<close>

section \<open>Keys\<close>

theorem canonical_key_idempotent_witness:
  "canonical_classification_key plain_ex ''subdomain:www.Example.com'' = Some ''domain:example.com'' \<and>
   canonical_classification_key plain_ex ''domain:example.com'' = Some ''domain:example.com''"
proof -
  have "no_ws ''subdomain:www.Example.com''"
    by code_simp
  moreover have "canonical_classification_key plain_ex ''subdomain:www.Example.com'' = Some ''domain:example.com''"
    by code_simp
  ultimately show ?thesis
    using canonical_key_idempotent [OF plain_ex_psl] by blast
qed

theorem tenant_exceptions_decide_key_witness:
  "canonical_classification_key_with_policy plain_ex ''subdomain:blog.example.com''
     (from_tenant_exceptions plain_ex [(''acme'', [''example.com''])]) (Some '' ACME '') =
   Some ''domain:blog.example.com''"
proof -
  have k: "key_host ''subdomain:blog.example.com'' = Some ''blog.example.com''"
    by code_simp
  have r: "derive_registered_domain plain_ex ''blog.example.com'' = ''example.com''"
    "derive_registered_domain plain_ex ''example.com'' = ''example.com''"
    "clean_domain ''example.com'' = ''example.com''" "normalize_tenant_key '' ACME '' = ''acme''"
    "normalize_tenant_key ''acme'' = ''acme''"
    by code_simp+
  have "''example.com'' \<in> configured plain_ex [(''acme'', [''example.com''])] ''acme''"
    by (force simp: configured_def r)
  then show ?thesis
    using tenant_exceptions_decide_key [OF k, of plain_ex "[(''acme'', [''example.com''])]" "Some '' ACME ''"]
    by (auto simp: r domain_pfx_def Let_def)
qed

section \<open>Taxonomy\<close>

theorem validated_taxonomy_gives_store_witness:
  "\<exists>st. taxonomy_store_new sample_taxonomy = Inr st \<and> ts_taxonomy st = sample_taxonomy \<and> store_wf st"
  by (rule validated_taxonomy_gives_store) (rule sample_taxonomy_validates)

theorem label_validation_sound_witness:
  "\<exists>v. validate_labels sample_store '' '' None = Inr v \<and> vl_category v \<in> set (store_categories sample_store) \<and>
    vl_subcategory v \<in> set (cat_subcategories (vl_category v))"
  using label_validation_sound [OF sample_store_wf(1)] by blast

theorem canonical_labels_round_trip_witness:
  "map_res (\<lambda>v. (cat_id (vl_category v), sub_id (vl_subcategory v), vl_fallback_reason v))
     (validate_labels sample_store ''news'' (Some ''sports'')) = Inr (''news'', ''sports'', None)"
proof -
  let ?c = "sample_category ''news'' [''world'', ''sports'']"
  let ?s = "\<lparr>sub_id = ''sports'', sub_name = ''sports'', sub_always_enabled = None\<rparr>"
  have c: "?c \<in> set (store_categories sample_store)"
    by (simp add: sample_store_wf(2)) (simp add: sample_taxonomy_def)
  have t: "cat_id ?c = ''news''" "sub_id ?s = ''sports''" "?s \<in> set (cat_subcategories ?c)"
    "''news'' \<noteq> UNKNOWN_CATEGORY_ID" "trim ''news'' = ''news''" "trim ''sports'' = ''sports''"
    by code_simp+
  show ?thesis
    using canonical_labels_round_trip [OF sample_store_wf(1) c, of ?s] t
    by (cases "validate_labels sample_store ''news'' (Some ''sports'')") auto
qed

section \<open>Activation\<close>

theorem activation_follows_rows_witness:
  "\<exists>p. activation_load_from_db (Inr sample_activation) = Inr p \<and>
    \<not> is_enabled p ''news'' (Some ''sports'') \<and> is_enabled p ''news'' (Some ''world'')"
proof -
  obtain p where p: "activation_load_from_db (Inr sample_activation) = Inr p" and i: "ap_id p = 1"
    by (simp add: activation_load_from_db_def sample_activation_def add_entry_def CATEGORY_SENTINEL_ID_def)
  have n: "''sports'' \<noteq> CATEGORY_SENTINEL_ID" "''world'' \<noteq> CATEGORY_SENTINEL_ID"
    by code_simp+
  show ?thesis
    using activation_follows_rows [OF p n(1) refl, of "''news''"]
      activation_follows_rows [OF p n(2) refl, of "''news''"] p i
    by (simp add: sample_activation_def entry_state_def entry_key_def CATEGORY_SENTINEL_ID_def)
qed

section \<open>Policies\<close>

theorem document_evaluation_witness:
  "\<exists>st r. store_from_document sample_document sample_store = Inr st \<and>
     store_simulate st sample_request = Inr r \<and> sr_matched_rule_id r = Some ''allow-example'' \<and>
     pd_action (sr_decision r) = Allow"
proof -
  have c: "canonicalize_rules sample_store (pdoc_rules sample_document) = Inr sample_rules"
    by (simp add: sample_document_def sample_rules_canonical)
  obtain st where st: "store_from_document sample_document sample_store = Inr st"
    by (simp add: store_from_document_def c)
  note q = sample_request_category
  have w: "map_option pr_id (winning_rule
      (\<lambda>r. matches_conditions (pr_conditions r) (Some ''news'') sample_request) sample_rules) =
      Some ''allow-example''"
   "map_option pr_action (winning_rule
      (\<lambda>r. matches_conditions (pr_conditions r) (Some ''news'') sample_request) sample_rules) =
      Some Allow"
    by code_simp+
  show ?thesis
    using document_evaluation [OF sample_resolver_wf c st, of sample_request] q w st
    by (auto simp: rule_outcome_def)
qed

theorem simulate_total_witness:
  "\<exists>r v. store_simulate sample_policy_store sample_request = Inr r \<and>
     pd_verdict (sr_decision r) = Some v \<and> canonical_id sample_store (cv_primary_category v)"
  using simulate_total [OF sample_policy_store_inv, of sample_request]
  by (simp add: sample_request_def sample_policy_store_def)

theorem store_operations_keep_invariant_witness:
  "\<exists>st. store_update sample_policy_store sample_document = Inr st \<and> store_inv st"
proof -
  obtain st where "store_update sample_policy_store sample_document = Inr st"
    by (simp add: store_update_def sample_policy_store_def sample_document_def sample_rules_canonical)
  then show ?thesis
    using store_operations_keep_invariant [OF sample_resolver_wf sample_policy_store_inv] by blast
qed

theorem canonicalize_rules_idempotent_witness:
  "canonicalize_rules sample_store
     [(hd sample_rules)\<lparr>pr_conditions := conditions_default\<lparr>cond_categories := Some ['' news '']\<rparr>\<rparr>] =
   Inr [hd sample_rules] \<and>
   canonicalize_rules sample_store [hd sample_rules] = Inr [hd sample_rules]"
proof -
  have "trim '' news '' = trim ''news''"
    by code_simp
  then have "validate_category sample_store '' news '' = validate_category sample_store ''news''"
    by (simp add: validate_category_def)
  then have "canonicalize_category sample_store ''block-news'' '' news '' = Inr ''news''"
    using sample_news by (auto simp: canonicalize_category_def)
  then have "canonicalize_rules sample_store
     [(hd sample_rules)\<lparr>pr_conditions := conditions_default\<lparr>cond_categories := Some ['' news '']\<rparr>\<rparr>] =
   Inr [hd sample_rules]"
    by (simp add: canonicalize_rules_def canonicalize_rule_def sample_rules_def conditions_default_def)
  then show ?thesis
    using canonicalize_rules_idempotent [OF sample_resolver_wf] by blast
qed

theorem rule_json_faithful_witness:
  "rule_of_json (rule_to_json (hd sample_rules)) = Some (hd sample_rules) \<and>
   conditions_of_json (JObj [(''domain'', JNull)]) = None"
  using rule_json_faithful [of "hd sample_rules" "''domain''" "[]" JNull "[]"]
  by (simp add: condition_keys_def)

section \<open>The evaluator\<close>

theorem created_policy_is_served_witness:
  "\<exists>ev d. evaluator_create_policy plain_ex sample_env sample_create sample_evaluator
       (sample_db (\<lambda>_. False)) = (Inr 1, ev, d) \<and>
     ps_rules (ev_store ev) = sample_rules \<and> ps_version (ev_store ev) = ''v2''"
proof -
  obtain r ev d where e: "evaluator_create_policy plain_ex sample_env sample_create sample_evaluator
      (sample_db (\<lambda>_. False)) = (r, ev, d)"
    by (rule prod_cases3)
  have s: "ev_source sample_evaluator = PSDatabase None"
    "canonicalize_rules (ps_taxonomy (ev_store sample_evaluator)) (pcr_rules sample_create) = Inr sample_rules"
    by (simp_all add: sample_evaluator_def sample_policy_store_def sample_create_def sample_rules_canonical)
  have a: "is_ok (activation_load_from_db (env_activation_db sample_env))"
    by code_simp
  have n: "next_uuid (sample_db (\<lambda>_. False)) = 1"
    by code_simp
  show ?thesis
    using created_policy_is_served [OF sample_evaluator_inv s(1) sample_db_quiet sample_db_fresh s(2) e] a n e
    by (simp add: sample_create_def)
qed

theorem partial_insert_empties_policy_witness:
  "\<exists>ev1 d1 r' ev2 d2.
     evaluator_create_policy plain_ex sample_env sample_create sample_evaluator
       (sample_db (\<lambda>k. k = 1)) = (Inl (Error ''database error''), ev1, d1) \<and>
     ps_rules (ev_store ev1) = sample_rules \<and>
     evaluator_reload plain_ex sample_env ev1 d1 = (r', ev2, d2) \<and> ps_rules (ev_store ev2) = []"
proof -
  let ?d = "sample_db (\<lambda>k. k = 1)"
  obtain r ev1 d1 where c: "evaluator_create_policy plain_ex sample_env sample_create sample_evaluator ?d =
      (r, ev1, d1)"
    by (rule prod_cases3)
  obtain r' ev2 d2 where l: "evaluator_reload plain_ex sample_env ev1 d1 = (r', ev2, d2)"
    by (rule prod_cases3)
  have f: "\<not> db_fails ?d (db_stmt ?d)" "db_fails ?d (Suc (db_stmt ?d))"
    "\<forall>k \<ge> Suc (Suc (db_stmt ?d)). \<not> db_fails ?d k"
    by (simp_all add: sample_db_def)
  have s: "ev_source sample_evaluator = PSDatabase None"
    "ps_rules (ev_store sample_evaluator) = sample_rules"
    "pcr_rules sample_create = hd sample_rules # tl sample_rules"
    by (simp_all add: sample_evaluator_def sample_policy_store_def sample_create_def sample_rules_def)
  show ?thesis
    using partial_insert_empties_policy [OF sample_evaluator_inv s(1) sample_db_fresh f s(3) c l] c l s(2)
    by simp
qed

theorem administration_keeps_invariant_witness:
  "evaluator_inv (fst (snd (evaluator_create_policy plain_ex sample_env sample_create sample_evaluator
     (sample_db (\<lambda>k. k = 3)))))"
  using administration_keeps_invariant [OF sample_evaluator_inv] by blast

section \<open>The engine\<close>

theorem override_most_specific_wins_witness:
  "map_option pd_action (resolve_override_decision sample_state
     (sample_cdb [sample_override ''*.com'' ''allow'', sample_override ''example.com'' '' Block '',
        sample_override ''EXAMPLE.com.'' ''allow'']) sample_request) = Some Block"
proof -
  let ?rows = "[sample_override ''*.com'' ''allow'', sample_override ''example.com'' '' Block '',
        sample_override ''EXAMPLE.com.'' ''allow'']"
  have h: "host_from_normalized_key (dr_normalized_key sample_request) = Some ''www.example.com''"
    by code_simp
  have "trim ''*.com'' \<noteq> []" "trim ''example.com'' \<noteq> []" "trim ''EXAMPLE.com.'' \<noteq> []"
    by code_simp+
  then have b: "\<forall>row \<in> set ?rows. override_eligible (cdb_now (sample_cdb ?rows)) row \<longrightarrow>
      trim (ov_scope_value row) \<noteq> []"
    by (simp add: sample_override_def)
  have p: "as_classification_pool sample_state" "cdb_overrides (sample_cdb ?rows) = Inr ?rows"
    by (simp_all add: sample_state_def sample_cdb_def)
  have "override_spec (cdb_now (sample_cdb ?rows)) ''www.example.com'' ?rows = Some Block"
    by code_simp
  then show ?thesis
    using override_most_specific_wins [OF p h b] by simp
qed

theorem blank_scope_disables_overrides_witness:
  "resolve_override_decision sample_state
     (sample_cdb [sample_override ''example.com'' ''block'', sample_override '' '' ''allow'']) sample_request =
   None"
proof -
  let ?rows = "[sample_override ''example.com'' ''block'', sample_override '' '' ''allow'']"
  have "override_eligible (cdb_now (sample_cdb ?rows)) (sample_override '' '' ''allow'')"
    "trim (ov_scope_value (sample_override '' '' ''allow'')) = []"
    by code_simp+
  moreover have "cdb_overrides (sample_cdb ?rows) = Inr ?rows"
    by (simp add: sample_cdb_def)
  ultimately show ?thesis
    using blank_scope_disables_overrides [of "sample_cdb ?rows" ?rows "sample_override '' '' ''allow''"] by simp
qed

theorem decision_endpoint_total_witness:
  "\<exists>d src. handle_decision plain_ex sample_state (sample_cdb []) sample_request = Inr (Inr d) \<and>
     pd_decision_source d = Some src"
  using decision_endpoint_total [of sample_state sample_request plain_ex "sample_cdb []"] sample_evaluator_inv
  by (auto simp: sample_state_def sample_request_def)

theorem disabled_verdict_blocks_witness:
  "\<exists>d. handle_decision plain_ex sample_state (sample_cdb []) sample_request = Inr (Inr d) \<and> pd_action d = Block"
proof -
  obtain d v where d: "handle_decision plain_ex sample_state (sample_cdb []) sample_request = Inr (Inr d)"
      "pd_decision_source d = Some ''taxonomy_disabled''" and v: "pd_verdict d = Some v"
    using sample_decision by blast
  have s: "pd_decision_source d \<noteq> Some ''override''"
    by (simp add: d(2))
  have "\<not> is_verdict_enabled (as_evaluator sample_state) (cv_primary_category v) (cv_subcategory v)"
    by (simp add: is_verdict_enabled_def sample_state_def sample_evaluator_def activation_deny_all_def is_enabled_def)
  then show ?thesis
    using disabled_verdict_blocks [OF d(1) s v] d(1) by blast
qed

theorem pass_needs_enabled_row_witness:
  "\<exists>db' d e. policy_engine_start plain_ex Map.empty sample_env 0 sample_config sample_store seeded_db =
       (Inr (sighted_state, True), db') \<and>
     handle_decision plain_ex sighted_state (sample_cdb []) sample_request = Inr (Inr d) \<and> pd_action d = Allow \<and>
     e \<in> set (adb_entries sample_activation) \<and> aer_category_id e = ''news'' \<and>
     aer_subcategory_id e = CATEGORY_SENTINEL_ID \<and> aer_enabled e"
proof -
  obtain db' where s: "policy_engine_start plain_ex Map.empty sample_env 0 sample_config sample_store seeded_db =
      (Inr (sighted_state, True), db')"
    using sighted_start by blast
  obtain d v where d: "handle_decision plain_ex sighted_state (sample_cdb []) sample_request = Inr (Inr d)"
      "pd_action d = Allow" "pd_decision_source d = Some ''default''" "pd_verdict d = Some v"
      "cv_primary_category v = ''news''" "cv_subcategory v = ''Default''"
    using sighted_decision by blast
  have u: "fst (resolve_policy_db_url Map.empty sample_config) = Some ''postgres://db''"
    "is_ok (activation_load_from_db (env_activation_db sample_env))"
    by (simp_all add: resolve_policy_db_url_def sample_config_def sighted_load)
  have r: "refresh_task [Inl (Error ''down'')] (ev_activation (as_evaluator sighted_state)) = sighted_profile"
    "sighted_state\<lparr>as_evaluator := (as_evaluator sighted_state)\<lparr>ev_activation := sighted_profile\<rparr>\<rparr> = sighted_state"
    by (simp_all add: refresh_task_def refresh_tick_def activation_load_from_db_def sighted_state_def)
  have "cv_subcategory v \<noteq> CATEGORY_SENTINEL_ID" by (simp add: d(6) CATEGORY_SENTINEL_ID_def)
  then have "\<exists>e \<in> set (adb_entries sample_activation). aer_category_id e = ''news'' \<and>
      aer_subcategory_id e = CATEGORY_SENTINEL_ID \<and> aer_enabled e"
    using pass_needs_enabled_row [OF u s r(1) [symmetric] r(2) [symmetric] d(1) _ _ d(4)] d(2,3,5,6)
    by (auto simp: sample_env_def sample_activation_def)
  then show ?thesis using s d(1,2) by blast
qed

theorem start_fails_closed_witness:
  "\<exists>state db' d. policy_engine_start plain_ex Map.empty blind_env 0
       sample_config sample_store seeded_db = (Inr (state, False), db') \<and>
     handle_decision plain_ex state (sample_cdb []) sample_request = Inr (Inr d) \<and> pd_action d = Block"
proof -
  have u: "fst (resolve_policy_db_url Map.empty sample_config) = Some ''postgres://db''"
    by (simp add: resolve_policy_db_url_def sample_config_def)
  have a: "activation_load_from_db (env_activation_db blind_env) = Inl (Error ''down'')"
    by (simp add: activation_load_from_db_def blind_env_def)
  obtain db' where s: "policy_engine_start plain_ex Map.empty blind_env 0 sample_config sample_store seeded_db =
      (Inr (blind_state, False), db')"
    using blind_start by blast
  obtain d where "handle_decision plain_ex blind_state (sample_cdb []) sample_request = Inr (Inr d)"
      "pd_decision_source d = Some ''taxonomy_disabled''"
    using blind_decision by blast
  then show ?thesis
    using start_fails_closed [OF u a s] s by auto
qed

theorem hydration_fills_gaps_witness:
  "dr_category_hint (hydrate_request_hints plain_ex sample_state (sample_cdb []) sample_request) = Some ''news'' \<and>
   (\<exists>row. select_hint_row ''subdomain:www.example.com''
      (related_classification_lookup ''subdomain:www.example.com'') [sample_row] = Some row \<and>
      cr_status row = ''active'')"
proof -
  have "map_option cr_normalized_key (select_hint_row ''subdomain:www.example.com''
      (related_classification_lookup ''subdomain:www.example.com'') [sample_row]) = Some ''domain:example.com''"
    by code_simp
  moreover have "dr_category_hint sample_request = Some ''news''"
    by (simp add: sample_request_def)
  ultimately show ?thesis
    using hydration_fills_gaps [of sample_request plain_ex sample_state "sample_cdb []"
      "''subdomain:www.example.com''" "related_classification_lookup ''subdomain:www.example.com''"]
    by (auto simp: hints_extend_def)
qed

theorem runtime_simulation_is_enforcement_witness:
  "\<exists>d. map_res (map_res sresp_decision) (simulate_policy plain_ex (sample_cdb [])
      \<lparr>uc_actor = ''ann'', uc_roles = [''policy-viewer'']\<rparr> sample_state
      \<lparr>spr_mode = SimRuntime, spr_request = sample_request\<rparr>) = Inr (Inr d) \<and>
    handle_decision plain_ex sample_state (sample_cdb []) sample_request = Inr (Inr d)"
proof -
  let ?u = "\<lparr>uc_actor = ''ann'', uc_roles = [''policy-viewer'']\<rparr>"
  let ?p = "\<lparr>spr_mode = SimRuntime, spr_request = sample_request\<rparr>"
  have r: "require_roles ?u ROLE_POLICY_VIEWER_ROLES = Inr ()" "spr_mode ?p = SimRuntime"
    by code_simp+
  show ?thesis
    using runtime_simulation_is_enforcement [OF r, of plain_ex "sample_cdb []" sample_state] sample_decision
    by auto
qed

theorem editors_only_witness:
  "reload_policies plain_ex sample_env \<lparr>uc_actor = ''ann'', uc_roles = [''policy-viewer'']\<rparr> sample_state seeded_db =
   (Inl (403, forbidden_response), sample_state, seeded_db)"
proof -
  let ?u = "\<lparr>uc_actor = ''ann'', uc_roles = [''policy-viewer'']\<rparr>"
  have "\<not> has_role ?u ''policy-admin''" "\<not> has_role ?u ''policy-editor''"
    by (simp_all add: has_role_def)
  then show ?thesis
    using editors_only by blast
qed

theorem admin_route_guarded_witness:
  "enforce_admin plain_ex (\<lambda>_ _. None) [] [] = Inl 401 \<and>
   snd (admin_route plain_ex (\<lambda>_ _. None) [] (\<lambda>user. (\<lparr>rs_status = 200, rs_headers = []\<rparr>, 1)) (0 :: nat) []) = 0"
proof -
  have "rs_status (fst (admin_route plain_ex (\<lambda>_ _. None) []
      (\<lambda>user. (\<lparr>rs_status = 200, rs_headers = []\<rparr>, 1)) (0 :: nat) [])) = 401"
    by code_simp
  then show ?thesis
    using admin_route_guarded [of plain_ex "\<lambda>_ _. None" "[]"
      "\<lambda>user. (\<lparr>rs_status = 200, rs_headers = []\<rparr>, 1)" "0 :: nat" "[]" 401] by simp
qed

theorem bearer_tokens_refused_witness:
  "enforce_admin plain_ex (\<lambda>_ hs. if admin_api_credentials hs = (None, None) then Some (401, []) else None) []
     [(''Authorization'', ''Bearer abc'')] = Inl 401"
proof (rule bearer_tokens_refused [where token = "''abc''"])
  show "header_str [(''Authorization'', ''Bearer abc'')] ''authorization'' = Some (''Bearer '' @ ''abc'')"
    "header_str [(''Authorization'', ''Bearer abc'')] ''X-Admin-Token'' = None"
    "strip_prefix ''Bearer '' ''abc'' = None"
    by code_simp+
qed simp

theorem policy_config_credentials_witness:
  "\<exists>u p. url_parse plain_ex (trim ''postgres://db'') = Some u \<and> url_password u = Some p \<and>
     strong_secret 3 [] (trim (url_username u)) \<and> strong_secret 12 [] (trim p)"
proof (rule policy_config_credentials [OF sample_config_valid])
  show "\<not> insecure_dev_mode_enabled Map.empty"
    "fst (resolve_policy_db_url Map.empty sample_config) = Some ''postgres://db''"
    by code_simp+
qed

theorem strong_secret_required_witness:
  "val_issues (require_strong_secret Map.empty ''OD_ADMIN_TOKEN'' (Some ''correct-horse-battery'') 16 []
     (validator_new ''admin'')) = []"
proof -
  have "\<not> insecure_dev_mode_enabled Map.empty"
    by code_simp
  from strong_secret_required [OF this, of "''OD_ADMIN_TOKEN''" "Some ''correct-horse-battery''" 16 "[]"
      "validator_new ''admin''"]
  show ?thesis
    using sample_secrets(2) by (simp add: sample_trims strong_secret_def)
qed

section \<open>The adaptor\<close>

theorem parse_rendered_request_witness:
  "icap_parse plain_ex sample_raw = Inr sample_icap"
proof -
  have n: "list_all is_ascii_digit ''80''" "to_lowercase plain_ex ''Example.com'' = ''example.com''"
    "\<not> starts_with ''/'' ''http://''" "\<not> starts_with ''/'' ''https://''"
    by code_simp+
  show ?thesis
    unfolding sample_raw_def
    by (subst parse_rendered_request [OF sample_tokens(1,2,6,3,4,5), of "''Example.com''" "''80''"])
      (use n sample_tokens(7,8,9) in \<open>simp_all add: sample_icap_def Let_def\<close>)
qed

theorem memory_entry_lifetime_witness:
  "memory_get ''k'' (mem.run_ops [Tick 40, Drop (\<lambda>k. k = ''other''), Tick 20]
      (memory_set ''k'' sample_allow 60 (sample_world False))) = Some sample_allow \<and>
   memory_get ''k'' (mem.run_ops [Tick 40, Tick 21]
      (memory_set ''k'' sample_allow 60 (sample_world False))) = None"
  using memory_entry_lifetime [of "[Tick 40, Drop (\<lambda>k. k = ''other''), Tick 20]" "''k''" sample_allow 60 "sample_world False"]
    memory_entry_lifetime [of "[Tick 40, Tick 21]" "''k''" sample_allow 60 "sample_world False"]
  by simp

theorem decision_survives_redis_witness:
  "fst (cache_get json_ex ''domain:example.com''
     ((cache_set json_ex ''domain:example.com'' sample_allow 300000 (sample_world True))\<lparr>cw_memory := Map.empty\<rparr>)) =
   Some sample_allow"
proof -
  let ?w = "sample_world True"
  let ?w' = "cache_set json_ex ''domain:example.com'' sample_allow 300000 ?w"
  have r: "cw_redis_configured ?w" "redis_reachable ?w"
    by (auto simp: sample_world_def redis_reachable_def intro: exI [of _ "2 :: nat"])
  have f: "cw_redis_configured ?w'" "\<not> cw_fails ?w' (cw_attempts ?w')"
    by (simp_all add: cache_set_def memory_set_def redis_set_def redis_attempt_def cache_sleep_def sample_world_def)
  have n: "cw_now ?w' < cw_now ?w' + 1000"
    by linarith
  show ?thesis
    by (rule decision_survives_redis [OF json_ex_ok sample_allow_safe r refl]) (use f in simp)+
qed

theorem override_invalidation_complete_witness:
  "\<exists>w' payload. admin_invalidate_override json_ex sample_server ''domain'' ''example.com'' sample_inv = (Inr (), w') \<and>
     iw_redis w' ''subdomain:www.example.com'' = None \<and> iw_published w' = [payload] \<and>
     memory_get ''subdomain:www.example.com'' (snd (apply_invalidation json_ex payload
       (memory_set ''subdomain:www.example.com'' sample_allow 60 (sample_world False)))) = None"
proof -
  obtain w' where w': "admin_invalidate_override json_ex sample_server ''domain'' ''example.com'' sample_inv = (Inr (), w')"
    using sample_invalidation by blast
  have f: "finite (dom (iw_redis sample_inv))"
    by (simp add: sample_inv_def)
  have g: "glob_plain (case strip_prefix ''*.'' ''example.com'' of Some rest \<Rightarrow> rest | None \<Rightarrow> ''example.com'')"
    "event_keys (OverrideEvent ''domain'' ''example.com'') ''subdomain:www.example.com''"
    by code_simp+
  show ?thesis
    using override_invalidation_complete [OF sample_server_ok json_ex_ok f g(1) w' g(2)] w'
    by (auto simp: sample_inv_def)
qed

theorem pass_needs_policy_answer_witness:
  "\<exists>w' effects n preq d. handle_connection json_ex (always sample_allow) sample_adaptor sample_raw sample_start =
       (Inr (), w', effects) \<and> Respond no_content_response \<in> set effects \<and>
     (preq, d) \<in> connection_answers json_ex (always sample_allow) sample_adaptor effects \<and>
     pdr_normalized_key preq \<in> answering_keys n \<and> pd_action d \<in> {Allow, Monitor} \<and> pd_verdict d \<noteq> None"
proof -
  obtain w' effects where c: "handle_connection json_ex (always sample_allow) sample_adaptor sample_raw sample_start =
      (Inr (), w', effects)" "Respond no_content_response \<in> set effects"
    using sample_allow_passes by blast
  have "ic_require_content (ad_cfg sample_adaptor)"
    by code_simp
  moreover have "icap_parse json_ex sample_raw = Inr sample_icap"
    unfolding json_ex_def by (rule sample_parse)
  ultimately show ?thesis
    using pass_needs_policy_answer [OF json_ex_ok sample_start_run _ c] c by fastforce
qed


theorem one_response_per_connection_witness:
  "\<exists>effs t. snd (snd (handle_connection json_ex (always sample_allow) sample_adaptor sample_raw sample_start)) =
     effs @ [Respond t]"
proof -
  obtain w' effects where c: "handle_connection json_ex (always sample_allow) sample_adaptor sample_raw sample_start =
      (Inr (), w', effects)"
    using sample_allow_passes by blast
  show ?thesis
    using one_response_per_connection [OF c] c by auto
qed

theorem unclassified_content_is_held_witness:
  "\<exists>w' effects. finish_decision json_ex (always sample_allow) sample_adaptor sample_icap sample_normalized
       ''domain:example.com'' (sample_allow\<lparr>pd_verdict := None\<rparr>) sample_start = (w', effects) \<and>
     last effects = Respond (icap_response ContentPending) \<and>
     (\<exists>job. Enqueue ''jobs'' (classification_job_to_json job) \<in> set effects \<and> cj_requires_content job)"
proof -
  let ?d = "sample_allow\<lparr>pd_verdict := None\<rparr>"
  obtain w' effects where f: "finish_decision json_ex (always sample_allow) sample_adaptor sample_icap
      sample_normalized ''domain:example.com'' ?d sample_start = (w', effects)"
    by fastforce
  have d: "ic_require_content (ad_cfg sample_adaptor)" "pd_action ?d \<in> {Allow, Monitor}"
    "ad_job_stream sample_adaptor = Some ''jobs''"
    by code_simp+
  show ?thesis
    using unclassified_content_is_held [OF d(1,2) _ f] d(3) f by auto
qed

theorem adaptor_gets_engine_decision_witness:
  "\<exists>d. policy_client_evaluate json_ex (engine_service blind_state (sample_cdb [])) [] sample_policy_request = Inr d \<and>
     handle_decision json_ex blind_state (sample_cdb []) (engine_view sample_policy_request) = Inr (Inr d)"
  using engine_answers adaptor_gets_engine_decision [OF json_ex_ok engine_service_serves] by blast

theorem denied_activation_blocks_connection_witness:
  "Respond no_content_response \<notin> set (snd (snd (handle_connection json_ex
     (engine_service blind_state (sample_cdb [])) sample_adaptor sample_raw sample_start)))"
proof -
  have u: "fst (resolve_policy_db_url Map.empty sample_config) = Some ''postgres://db''"
    by (simp add: resolve_policy_db_url_def sample_config_def)
  have a: "activation_load_from_db (env_activation_db blind_env) = Inl (Error ''down'')"
    by (simp add: activation_load_from_db_def blind_env_def)
  obtain db' where s: "policy_engine_start json_ex Map.empty blind_env 0 sample_config sample_store seeded_db =
      (Inr (blind_state, False), db')"
    using blind_start by blast
  obtain r w' effects where c: "handle_connection json_ex (engine_service blind_state (sample_cdb [])) sample_adaptor
      sample_raw sample_start = (r, w', effects)"
    by (rule prod_cases3)
  show ?thesis
    using denied_activation_blocks_connection [OF json_ex_ok u a s engine_service_serves _ sample_start_run _ c] c
    by (simp add: sample_cdb_def)
qed

theorem identity_sanitised_witness:
  "id_group_ids (extract_identity (ir_headers sample_icap)) =
     take 32 (List.map_filter sanitize_identity (split_on (\<lambda>c. c = CHR '','' \<or> c = CHR '';'') ''a,b;c'')) \<and>
   length (id_group_ids (extract_identity (ir_headers sample_icap))) \<le> 32"
proof -
  have "ir_headers sample_icap ''x-group'' = Some ''a,b;c''"
    by code_simp
  then show ?thesis
    using identity_sanitised [of "ir_headers sample_icap"] by blast
qed

end
