(* ===== verification/Rust_Num.thy ===== *)
theory Rust_Num
  imports Common_Types
begin

text \<open>
  Numbers as the services read and compare them: the order of 32-bit floats on their bit
  patterns, parsing of unsigned integers, and saturating arithmetic on 64-bit values.
\<close>

section \<open>Floats\<close>

text \<open>
  A float is its bit pattern.  The magnitude bits of a finite float or an infinity are ordered
  like the values, so comparison is comparison of signed magnitudes, and false for a NaN.
\<close>

definition f32_nan :: "f32 \<Rightarrow> bool" where
  "f32_nan x \<longleftrightarrow> \<not> f32_finite x \<and> take_bit 23 x \<noteq> 0"

definition f32_key :: "f32 \<Rightarrow> int" where
  "f32_key x = (if bit x 31 then - uint (take_bit 31 x) else uint (take_bit 31 x))"

definition f32_le :: "f32 \<Rightarrow> f32 \<Rightarrow> bool" where
  "f32_le x y \<longleftrightarrow> \<not> f32_nan x \<and> \<not> f32_nan y \<and> f32_key x \<le> f32_key y"

definition f32_lt :: "f32 \<Rightarrow> f32 \<Rightarrow> bool" where
  "f32_lt x y \<longleftrightarrow> \<not> f32_nan x \<and> \<not> f32_nan y \<and> f32_key x < f32_key y"

definition f32_clamp :: "f32 \<Rightarrow> f32 \<Rightarrow> f32 \<Rightarrow> f32" where
  "f32_clamp x lo hi = (if f32_lt x lo then lo else if f32_lt hi x then hi else x)"

definition f32_cap :: "f32 \<Rightarrow> f32 \<Rightarrow> f32" where
  "f32_cap x hi = (if f32_lt hi x then hi else x)"

lemma f32_le_trans: "f32_le x y \<Longrightarrow> f32_le y z \<Longrightarrow> f32_le x z"
  by (auto simp: f32_le_def)

lemma f32_lt_le: "f32_lt x y \<Longrightarrow> f32_le x y"
  by (auto simp: f32_le_def f32_lt_def)

lemma f32_le_refl: "f32_le x x \<longleftrightarrow> \<not> f32_nan x"
  by (simp add: f32_le_def)

lemma f32_not_lt: "\<not> f32_nan x \<Longrightarrow> \<not> f32_nan y \<Longrightarrow> \<not> f32_lt x y \<longleftrightarrow> f32_le y x"
  by (auto simp: f32_le_def f32_lt_def)

text \<open>A capped value lies below the cap and is the value itself whenever that was below.\<close>

lemma f32_cap_le: "\<not> f32_nan x \<Longrightarrow> \<not> f32_nan hi \<Longrightarrow> f32_le (f32_cap x hi) hi"
  by (simp add: f32_cap_def f32_le_refl f32_not_lt)

lemma f32_cap_below: "\<not> f32_nan hi \<Longrightarrow> f32_le lo x \<Longrightarrow> f32_le lo hi \<Longrightarrow> f32_le lo (f32_cap x hi)"
  by (simp add: f32_cap_def)

lemma f32_clamp_range:
  assumes "\<not> f32_nan x" "f32_le lo hi"
  shows "f32_le lo (f32_clamp x lo hi) \<and> f32_le (f32_clamp x lo hi) hi"
  using assms by (auto simp: f32_clamp_def f32_le_def f32_lt_def)

definition f32_unit :: "f32 \<Rightarrow> bool" where
  "f32_unit x \<longleftrightarrow> f32_le 0 x \<and> f32_le x 0x3F800000"

lemma f32_unit_not_nan: "f32_unit x \<Longrightarrow> \<not> f32_nan x"
  by (simp add: f32_unit_def f32_le_def)

lemma f32_zero_one: "f32_le 0 0x3F800000" "\<not> f32_nan 0" "\<not> f32_nan 0x3F800000"
  by code_simp+

lemma f32_unit_clamp: "\<not> f32_nan x \<Longrightarrow> f32_unit (f32_clamp x 0 0x3F800000)"
  using f32_clamp_range [of x 0 "0x3F800000"] f32_zero_one by (simp add: f32_unit_def)

lemma f32_clamp_unit_or_nan:
  "f32_nan (f32_clamp x 0 0x3F800000) \<or> f32_unit (f32_clamp x 0 0x3F800000)"
  using f32_unit_clamp [of x] by (cases "f32_nan x") (simp_all add: f32_clamp_def f32_lt_def)

lemma f32_unit_cap: "f32_unit x \<Longrightarrow> f32_unit hi \<Longrightarrow> f32_unit (f32_cap x hi)"
  by (auto simp: f32_cap_def)

section \<open>Integers\<close>

definition digits_value :: "string \<Rightarrow> nat" where
  "digits_value s = foldl (\<lambda>acc c. acc * 10 + (of_char c - 48)) 0 s"

text \<open>The parser of an unsigned integer of \<open>bits\<close> bits: an optional plus sign and digits.\<close>

definition parse_unsigned :: "nat \<Rightarrow> string \<Rightarrow> nat option" where
  "parse_unsigned bits s =
     (let ds = (case s of [] \<Rightarrow> [] | c # cs \<Rightarrow> if c = CHR ''+'' then cs else s)
      in if ds \<noteq> [] \<and> list_all is_ascii_digit ds \<and> digits_value ds < 2 ^ bits
         then Some (digits_value ds) else None)"

text \<open>The parser of a signed integer of \<open>bits\<close> bits.\<close>

definition parse_signed :: "nat \<Rightarrow> string \<Rightarrow> int option" where
  "parse_signed bits s =
     (let (neg, ds) = (case s of [] \<Rightarrow> (False, [])
           | c # cs \<Rightarrow> if c = CHR ''-'' then (True, cs) else if c = CHR ''+'' then (False, cs) else (False, s));
          v = (if neg then - int (digits_value ds) else int (digits_value ds))
      in if ds \<noteq> [] \<and> list_all is_ascii_digit ds \<and> - (2 ^ (bits - 1)) \<le> v \<and> v < 2 ^ (bits - 1)
         then Some v else None)"

definition parse_i64 :: "string \<Rightarrow> int option" where
  "parse_i64 = parse_signed 64"

definition U64_MAX :: nat where "U64_MAX = 2 ^ 64 - 1"

definition saturating_mul :: "nat \<Rightarrow> nat \<Rightarrow> nat" where
  "saturating_mul a b = min (a * b) U64_MAX"

definition saturating_pow :: "nat \<Rightarrow> nat \<Rightarrow> nat" where
  "saturating_pow a n = min (a ^ n) U64_MAX"

definition saturating_add :: "nat \<Rightarrow> nat \<Rightarrow> nat" where
  "saturating_add a b = min (a + b) U64_MAX"

fun i64_of_json :: "json \<Rightarrow> int option" where
  "i64_of_json (JInt i) = (if - (2 ^ 63) \<le> i \<and> i < 2 ^ 63 then Some i else None)"
| "i64_of_json _ = None"

lemma parse_unsigned_bound: "parse_unsigned bits s = Some n \<Longrightarrow> n < 2 ^ bits"
  by (auto simp: parse_unsigned_def Let_def split: if_splits)

end
