(* ===== verification/Llm_Config.thy ===== *)
theory Llm_Config
  imports Rust_Num Config_Core
begin

text \<open>
  The configuration of the classification worker: providers and their routing, the run-time
  settings derived from the routing section and the environment, and the configuration check.
  The numbers of the configuration are natural numbers below the bound of their Rust type;
  \<open>pf\<close> stands for the parser of decimal floats.
\<close>

section \<open>Environment\<close>

definition env_u64 :: "environment \<Rightarrow> string \<Rightarrow> nat option" where
  "env_u64 env key = Option.bind (env key) (\<lambda>v. parse_unsigned 64 (trim v))"

definition env_usize :: "environment \<Rightarrow> string \<Rightarrow> nat option" where
  "env_usize env key = Option.bind (env key) (\<lambda>v. parse_unsigned 64 (trim v))"

definition env_bool :: "environment \<Rightarrow> string \<Rightarrow> bool option" where
  "env_bool env key =
     Option.bind (env key) (\<lambda>raw.
       let v = to_ascii_lowercase (trim raw)
       in if v \<in> {''1'', ''true'', ''yes'', ''on''} then Some True
          else if v \<in> {''0'', ''false'', ''no'', ''off''} then Some False
          else None)"

definition env_csv_u16 :: "environment \<Rightarrow> string \<Rightarrow> nat list option" where
  "env_csv_u16 env key =
     Option.bind (env key) (\<lambda>raw.
       let values = List.map_filter (\<lambda>token.
             let trimmed = trim token in if trimmed = [] then None else parse_unsigned 16 trimmed)
             (split_char CHR '','' raw)
       in if values = [] then None else Some values)"

definition env_csv_strings :: "environment \<Rightarrow> string \<Rightarrow> string list option" where
  "env_csv_strings env key =
     Option.bind (env key) (\<lambda>raw.
       let values = filter (\<lambda>t. t \<noteq> [])
             (map (\<lambda>token. to_ascii_lowercase (trim token)) (split_char CHR '','' raw))
       in if values = [] then None else Some values)"

definition env_text :: "environment \<Rightarrow> string \<Rightarrow> string option" where
  "env_text env key = Option.bind (env key) (\<lambda>v. if trim v = [] then None else Some v)"

definition or_else :: "'a option \<Rightarrow> 'a option \<Rightarrow> 'a option" where
  "or_else a b = (case a of None \<Rightarrow> b | Some x \<Rightarrow> Some x)"

definition unwrap_or :: "'a option \<Rightarrow> 'a \<Rightarrow> 'a" where
  "unwrap_or a d = (case a of None \<Rightarrow> d | Some x \<Rightarrow> x)"

lemma or_else_simps [simp]: "or_else None b = b" "or_else (Some x) b = Some x"
  by (simp_all add: or_else_def)

lemma unwrap_or_simps [simp]: "unwrap_or None d = d" "unwrap_or (Some x) d = x"
  by (simp_all add: unwrap_or_def)

section \<open>Providers\<close>

datatype provider_kind =
  LmStudio | Ollama | Vllm | Openai | Anthropic | OpenaiCompatible | CustomJson

fun provider_label :: "provider_kind \<Rightarrow> string" where
  "provider_label LmStudio = ''lmstudio''"
| "provider_label Ollama = ''ollama''"
| "provider_label Vllm = ''vllm''"
| "provider_label Openai = ''openai''"
| "provider_label Anthropic = ''anthropic''"
| "provider_label OpenaiCompatible = ''openai_compatible''"
| "provider_label CustomJson = ''custom_json''"

record provider_config =
  pcf_name :: string
  pcf_kind :: provider_kind
  pcf_endpoint :: string
  pcf_model :: "string option"
  pcf_timeout_ms :: "nat option"
  pcf_headers :: "(string \<times> string) list"
  pcf_api_key :: "string option"
  pcf_api_key_env :: "string option"

record routing_config =
  rt_default :: "string option"
  rt_fallback :: "string option"
  rt_policy :: "string option"
  rt_primary_retry_max :: "nat option"
  rt_primary_retry_backoff_ms :: "nat option"
  rt_primary_retry_max_backoff_ms :: "nat option"
  rt_retryable_status_codes :: "nat list"
  rt_fallback_cooldown_secs :: "nat option"
  rt_fallback_max_per_min :: "nat option"
  rt_stale_pending_minutes :: "nat option"
  rt_stale_pending_online_provider :: "string option"
  rt_stale_pending_health_ttl_secs :: "nat option"
  rt_stale_pending_max_per_min :: "nat option"
  rt_online_context_mode :: "string option"
  rt_metadata_only_force_action :: "string option"
  rt_metadata_only_max_confidence :: "f32 option"
  rt_metadata_only_requeue_for_content :: "bool option"
  rt_content_required_mode :: "string option"
  rt_metadata_only_allowed_for :: "string option"
  rt_metadata_only_fetch_failure_threshold :: "nat option"
  rt_metadata_only_no_content_statuses :: "string list option"
  rt_pending_reconcile_enabled :: "bool option"
  rt_pending_reconcile_interval_secs :: "nat option"
  rt_pending_reconcile_stale_minutes :: "nat option"
  rt_pending_reconcile_batch :: "nat option"
  rt_requeue_max_attempts :: "nat option"

record worker_config =
  wc_queue_name :: string
  wc_redis_url :: string
  wc_cache_channel :: string
  wc_stream :: string
  wc_page_fetch_stream :: string
  wc_database_url :: string
  wc_llm_endpoint :: "string option"
  wc_llm_api_key :: "string option"
  wc_providers :: "provider_config list"
  wc_routing :: routing_config

record resolved_provider =
  rp_name :: string
  rp_kind :: provider_kind
  rp_endpoint :: string
  rp_model :: "string option"
  rp_timeout_ms :: "nat option"
  rp_headers :: "(string \<times> string) list"
  rp_api_key :: string

definition provider_from_config :: "environment \<Rightarrow> provider_config \<Rightarrow> resolved_provider res" where
  "provider_from_config env config =
     bind_res
       (if (case pcf_api_key config of None \<Rightarrow> False | Some v \<Rightarrow> v \<noteq> [])
        then Inr (the (pcf_api_key config))
        else (case pcf_api_key_env config of
                Some env_key \<Rightarrow>
                  ok_or (Error (''env var '' @ env_key @ '' not set for provider '' @ pcf_name config))
                    (env env_key)
              | None \<Rightarrow> Inr []))
       (\<lambda>api_key. Inr
         \<lparr>rp_name = pcf_name config, rp_kind = pcf_kind config, rp_endpoint = pcf_endpoint config,
          rp_model = pcf_model config, rp_timeout_ms = pcf_timeout_ms config,
          rp_headers = pcf_headers config, rp_api_key = api_key\<rparr>)"

definition find_provider :: "environment \<Rightarrow> worker_config \<Rightarrow> string \<Rightarrow> resolved_provider res" where
  "find_provider env cfg name =
     bind_res
       (ok_or (Error (''provider '' @ [CHR 0x27] @ name @ [CHR 0x27] @ '' not found''))
         (find (\<lambda>p. pcf_name p = name) (wc_providers cfg)))
       (provider_from_config env)"

datatype provider_role = RolePrimary | RoleFallback | RoleLegacy

record provider_summary =
  psu_name :: string
  psu_type :: string
  psu_endpoint :: string
  psu_role :: provider_role

record provider_router =
  router_primary :: resolved_provider
  router_fallback :: "resolved_provider option"
  router_catalog :: "provider_summary list"

definition summary_of :: "provider_role \<Rightarrow> resolved_provider \<Rightarrow> provider_summary" where
  "summary_of role p =
     \<lparr>psu_name = rp_name p, psu_type = provider_label (rp_kind p), psu_endpoint = rp_endpoint p,
      psu_role = role\<rparr>"

definition resolve_fallback ::
  "environment \<Rightarrow> worker_config \<Rightarrow> string \<Rightarrow> resolved_provider option res" where
  "resolve_fallback env cfg name =
     (case rt_fallback (wc_routing cfg) of
        None \<Rightarrow> Inr None
      | Some fallback_name \<Rightarrow>
          if fallback_name = name then Inr None
          else map_res Some (find_provider env cfg fallback_name))"

definition legacy_router :: "environment \<Rightarrow> worker_config \<Rightarrow> provider_router res" where
  "legacy_router env cfg =
     bind_res (ok_or (Error ''llm_endpoint missing and no providers configured'') (wc_llm_endpoint cfg))
       (\<lambda>endpoint. Inr
         \<lparr>router_primary =
            \<lparr>rp_name = ''legacy'', rp_kind = CustomJson, rp_endpoint = endpoint, rp_model = None,
             rp_timeout_ms = None, rp_headers = [],
             rp_api_key = unwrap_or (or_else (wc_llm_api_key cfg) (env ''LLM_API_KEY'')) []\<rparr>,
          router_fallback = None,
          router_catalog =
            [\<lparr>psu_name = ''legacy'', psu_type = provider_label CustomJson,
              psu_endpoint = ''(config file)'', psu_role = RoleLegacy\<rparr>]\<rparr>)"

definition resolve_router :: "environment \<Rightarrow> worker_config \<Rightarrow> provider_router res" where
  "resolve_router env cfg =
     (case wc_providers cfg of
        [] \<Rightarrow> legacy_router env cfg
      | p # _ \<Rightarrow>
          (let name = unwrap_or (rt_default (wc_routing cfg)) (pcf_name p)
           in bind_res (find_provider env cfg name) (\<lambda>primary.
              bind_res (resolve_fallback env cfg name) (\<lambda>fallback. Inr
                \<lparr>router_primary = primary, router_fallback = fallback,
                 router_catalog = summary_of RolePrimary primary #
                   (case fallback of None \<Rightarrow> [] | Some f \<Rightarrow> [summary_of RoleFallback f])\<rparr>))))"

definition router_by_name :: "provider_router \<Rightarrow> string \<Rightarrow> resolved_provider option" where
  "router_by_name r name =
     (if rp_name (router_primary r) = name then Some (router_primary r)
      else Option.bind (router_fallback r) (\<lambda>p. if rp_name p = name then Some p else None))"

definition is_online_provider :: "resolved_provider \<Rightarrow> bool" where
  "is_online_provider p \<longleftrightarrow> rp_kind p \<in> {Openai, OpenaiCompatible, Anthropic, Vllm}"

section \<open>Run-time settings\<close>

datatype online_context_mode = ModeRequired | ModePreferred | ModeMetadataOnly

definition online_mode_parse :: "string \<Rightarrow> online_context_mode" where
  "online_mode_parse value =
     (let v = to_ascii_lowercase (trim value)
      in if v = ''preferred'' then ModePreferred
         else if v = ''metadata_only'' then ModeMetadataOnly else ModeRequired)"

datatype content_required_mode = ContentRequired | ContentAuto

definition content_mode_parse :: "string \<Rightarrow> content_required_mode" where
  "content_mode_parse value =
     (if to_ascii_lowercase (trim value) = ''auto'' then ContentAuto else ContentRequired)"

datatype metadata_only_allowed_for = AllowedOnline | AllowedAll

definition allowed_for_parse :: "string \<Rightarrow> metadata_only_allowed_for" where
  "allowed_for_parse value =
     (if to_ascii_lowercase (trim value) = ''all'' then AllowedAll else AllowedOnline)"

datatype failover_policy = Aggressive | Safe | Disabled

definition failover_policy_parse :: "string \<Rightarrow> failover_policy" where
  "failover_policy_parse value =
     (let v = to_ascii_lowercase (trim value)
      in if v = ''safe'' then Safe else if v = ''disabled'' then Disabled else Aggressive)"

definition parse_policy_action :: "string \<Rightarrow> policy_action res" where
  "parse_policy_action value =
     (if value = ''Allow'' then Inr Allow
      else if value = ''Block'' then Inr Block
      else if value = ''Warn'' then Inr Warn
      else if value = ''Monitor'' then Inr Monitor
      else if value = ''Review'' then Inr Review
      else if value = ''RequireApproval'' then Inr RequireApproval
      else Inl (Error (''invalid action '' @ value)))"

record online_context_runtime =
  oc_mode :: online_context_mode
  oc_metadata_only_force_action :: policy_action
  oc_metadata_only_max_confidence :: f32
  oc_metadata_only_requeue_for_content :: bool
  oc_content_required_mode :: content_required_mode
  oc_metadata_only_allowed_for :: metadata_only_allowed_for
  oc_metadata_only_fetch_failure_threshold :: nat
  oc_metadata_only_no_content_statuses :: "string set"

record failover_runtime =
  fo_policy :: failover_policy
  fo_primary_retry_max :: nat
  fo_primary_retry_backoff_ms :: nat
  fo_primary_retry_max_backoff_ms :: nat
  fo_retryable_status_codes :: "nat set"
  fo_fallback_cooldown_secs :: nat
  fo_fallback_max_per_min :: nat

record stale_pending_runtime =
  sp_threshold_minutes :: nat
  sp_online_provider :: resolved_provider
  sp_health_ttl_secs :: nat
  sp_max_per_min :: nat

record pending_reconcile_runtime =
  pr_enabled :: bool
  pr_interval_secs :: nat
  pr_stale_minutes :: nat
  pr_batch :: nat

record prompt_injection_runtime =
  pi_enabled :: bool
  pi_review_threshold :: nat
  pi_confidence_cap :: f32

definition f32_two_fifths :: f32 where "f32_two_fifths = 0x3ECCCCCD"

definition resolve_stale_pending ::
  "environment \<Rightarrow> worker_config \<Rightarrow> stale_pending_runtime option res" where
  "resolve_stale_pending env cfg =
     (let routing = wc_routing cfg;
          threshold = unwrap_or (or_else (env_u64 env ''OD_LLM_STALE_PENDING_MINUTES'')
            (rt_stale_pending_minutes routing)) 0
      in if threshold = 0 then Inr None
         else
           bind_res (ok_or (Error ''stale pending diversion enabled but no online provider configured (OD_LLM_STALE_PENDING_ONLINE_PROVIDER or routing.fallback)'')
             (or_else (env_text env ''OD_LLM_STALE_PENDING_ONLINE_PROVIDER'')
               (or_else (rt_stale_pending_online_provider routing) (rt_fallback routing)))) (\<lambda>name.
           bind_res (find_provider env cfg name) (\<lambda>online_provider. Inr (Some
             \<lparr>sp_threshold_minutes = threshold, sp_online_provider = online_provider,
              sp_health_ttl_secs = max (unwrap_or (or_else
                (env_u64 env ''OD_LLM_STALE_PENDING_HEALTH_TTL_SECS'')
                (rt_stale_pending_health_ttl_secs routing)) 30) 1,
              sp_max_per_min = max (unwrap_or (or_else
                (env_usize env ''OD_LLM_STALE_PENDING_MAX_PER_MIN'')
                (rt_stale_pending_max_per_min routing)) 10) 1\<rparr>))))"

definition resolve_online_context ::
  "(string \<Rightarrow> f32 option) \<Rightarrow> environment \<Rightarrow> worker_config \<Rightarrow> online_context_runtime res" where
  "resolve_online_context pf env cfg =
     (let routing = wc_routing cfg
      in bind_res (parse_policy_action (unwrap_or (or_else
             (env_text env ''OD_LLM_METADATA_ONLY_FORCE_ACTION'')
             (rt_metadata_only_force_action routing)) ''Monitor'')) (\<lambda>force_action. Inr
           \<lparr>oc_mode = online_mode_parse (unwrap_or (or_else
              (env_text env ''OD_LLM_ONLINE_CONTEXT_MODE'') (rt_online_context_mode routing))
              ''required''),
            oc_metadata_only_force_action = force_action,
            oc_metadata_only_max_confidence = f32_clamp (unwrap_or (or_else
              (Option.bind (env ''OD_LLM_METADATA_ONLY_MAX_CONFIDENCE'') (\<lambda>v. pf (trim v)))
              (rt_metadata_only_max_confidence routing)) f32_two_fifths) 0 0x3F800000,
            oc_metadata_only_requeue_for_content = unwrap_or (or_else
              (env_bool env ''OD_LLM_METADATA_ONLY_REQUEUE_FOR_CONTENT'')
              (rt_metadata_only_requeue_for_content routing)) True,
            oc_content_required_mode = content_mode_parse (unwrap_or (or_else
              (env_text env ''OD_LLM_CONTENT_REQUIRED_MODE'') (rt_content_required_mode routing)) ''auto''),
            oc_metadata_only_allowed_for = allowed_for_parse (unwrap_or (or_else
              (env_text env ''OD_LLM_METADATA_ONLY_ALLOWED_FOR'') (rt_metadata_only_allowed_for routing))
              ''all''),
            oc_metadata_only_fetch_failure_threshold = max (unwrap_or (or_else
              (env_usize env ''OD_LLM_METADATA_ONLY_FETCH_FAILURE_THRESHOLD'')
              (rt_metadata_only_fetch_failure_threshold routing)) 1) 1,
            oc_metadata_only_no_content_statuses = set (filter (\<lambda>v. v \<noteq> [])
              (map (\<lambda>v. to_ascii_lowercase (trim v)) (unwrap_or (or_else
                (env_csv_strings env ''OD_LLM_METADATA_ONLY_NO_CONTENT_STATUSES'')
                (rt_metadata_only_no_content_statuses routing))
                [''failed'', ''unsupported'', ''blocked''])))\<rparr>))"

definition resolve_pending_reconcile ::
  "environment \<Rightarrow> worker_config \<Rightarrow> pending_reconcile_runtime" where
  "resolve_pending_reconcile env cfg =
     (let routing = wc_routing cfg
      in \<lparr>pr_enabled = unwrap_or (or_else (env_bool env ''OD_PENDING_RECONCILE_ENABLED'')
            (rt_pending_reconcile_enabled routing)) True,
          pr_interval_secs = max (unwrap_or (or_else (env_u64 env ''OD_PENDING_RECONCILE_INTERVAL_SECS'')
            (rt_pending_reconcile_interval_secs routing)) 60) 10,
          pr_stale_minutes = max (unwrap_or (or_else (env_u64 env ''OD_PENDING_RECONCILE_STALE_MINUTES'')
            (rt_pending_reconcile_stale_minutes routing)) 10) 1,
          pr_batch = max (unwrap_or (or_else (env_usize env ''OD_PENDING_RECONCILE_BATCH'')
            (rt_pending_reconcile_batch routing)) 100) 1\<rparr>)"

definition resolve_prompt_injection ::
  "(string \<Rightarrow> f32 option) \<Rightarrow> environment \<Rightarrow> prompt_injection_runtime" where
  "resolve_prompt_injection pf env =
     \<lparr>pi_enabled = unwrap_or (env_bool env ''OD_PROMPT_INJECTION_GUARDRAIL_ENABLED'') True,
      pi_review_threshold = max (unwrap_or (env_usize env ''OD_PROMPT_INJECTION_REVIEW_THRESHOLD'') 3) 1,
      pi_confidence_cap = f32_clamp (unwrap_or
        (Option.bind (env ''OD_PROMPT_INJECTION_CONFIDENCE_CAP'') (\<lambda>v. pf (trim v))) f32_two_fifths)
        0 0x3F800000\<rparr>"

definition failover_from_routing :: "environment \<Rightarrow> routing_config \<Rightarrow> failover_runtime" where
  "failover_from_routing env routing =
     \<lparr>fo_policy = failover_policy_parse (unwrap_or (or_else (env ''OD_LLM_FAILOVER_POLICY'')
        (rt_policy routing)) ''aggressive''),
      fo_primary_retry_max = unwrap_or (or_else (env_usize env ''OD_LLM_PRIMARY_RETRY_MAX'')
        (rt_primary_retry_max routing)) 3,
      fo_primary_retry_backoff_ms = unwrap_or (or_else (env_u64 env ''OD_LLM_PRIMARY_RETRY_BACKOFF_MS'')
        (rt_primary_retry_backoff_ms routing)) 500,
      fo_primary_retry_max_backoff_ms = unwrap_or (or_else
        (env_u64 env ''OD_LLM_PRIMARY_RETRY_MAX_BACKOFF_MS'') (rt_primary_retry_max_backoff_ms routing)) 5000,
      fo_retryable_status_codes = set (unwrap_or (env_csv_u16 env ''OD_LLM_RETRYABLE_STATUS_CODES'')
        (if rt_retryable_status_codes routing = [] then [408, 429, 500, 502, 503, 504]
         else rt_retryable_status_codes routing)),
      fo_fallback_cooldown_secs = unwrap_or (or_else (env_u64 env ''OD_LLM_FALLBACK_COOLDOWN_SECS'')
        (rt_fallback_cooldown_secs routing)) 30,
      fo_fallback_max_per_min = unwrap_or (or_else (env_usize env ''OD_LLM_FALLBACK_MAX_PER_MIN'')
        (rt_fallback_max_per_min routing)) 30\<rparr>"

section \<open>The configuration check\<close>

definition provider_secret :: "environment \<Rightarrow> provider_config \<Rightarrow> string option" where
  "provider_secret env p =
     or_else (Option.bind (pcf_api_key p) (\<lambda>v. if trim v = [] then None else Some v))
       (Option.bind (pcf_api_key_env p) (\<lambda>key. env_text env key))"

definition check_provider_secret ::
  "environment \<Rightarrow> provider_config \<Rightarrow> config_validator \<Rightarrow> config_validator" where
  "check_provider_secret env p v =
     (let key = ''llm-worker.providers.'' @ pcf_name p @ ''.api_key''
      in if pcf_kind p \<in> {Openai, Anthropic, OpenaiCompatible}
         then require_strong_secret env key (provider_secret env p) 16
           ''set provider api_key/api_key_env with a strong non-default API key'' v
         else validate_optional_secret env key (provider_secret env p) 16
           ''if set, provider api_key/api_key_env must be strong and non-default'' v)"

definition worker_validator :: "externs \<Rightarrow> environment \<Rightarrow> worker_config \<Rightarrow> config_validator" where
  "worker_validator ex env cfg =
     (let v1 = require_non_empty ''queue_name'' (Some (wc_queue_name cfg))
                 ''set queue_name in config/llm-worker.json'' (validator_new ''llm-worker'');
          v2 = require_non_empty ''redis_url'' (Some (wc_redis_url cfg))
                 ''set redis_url in config/llm-worker.json'' v1;
          v3 = require_non_empty ''database_url'' (Some (wc_database_url cfg))
                 ''set database_url in config/llm-worker.json'' v2;
          v4 = require_auth_url ex env ''llm-worker.redis_url'' (Some (wc_redis_url cfg)) False True 16
                 ''set redis_url in config/llm-worker.json with password-authenticated Redis credentials'' v3;
          v5 = require_auth_url ex env ''llm-worker.database_url'' (Some (wc_database_url cfg)) True True 12
                 ''set database_url in config/llm-worker.json with non-default DB credentials'' v4;
          v6 = fold (check_provider_secret env) (wc_providers cfg) v5
      in validate_optional_secret env ''LLM_API_KEY'' (wc_llm_api_key cfg) 16
           ''if using legacy llm_api_key, set a strong non-default API key'' v6)"

definition worker_validate_config ::
  "externs \<Rightarrow> (string \<Rightarrow> f32 option) \<Rightarrow> environment \<Rightarrow> worker_config \<Rightarrow> unit res" where
  "worker_validate_config ex pf env cfg =
     bind_res (validator_finish (worker_validator ex env cfg)) (\<lambda>_.
     bind_res (resolve_router env cfg) (\<lambda>_.
     bind_res (resolve_stale_pending env cfg) (\<lambda>_.
     bind_res (resolve_online_context pf env cfg) (\<lambda>_. Inr ()))))"

definition worker_env_overrides :: "environment \<Rightarrow> worker_config \<Rightarrow> worker_config" where
  "worker_env_overrides env cfg =
     (let cfg1 = (case env ''OD_CACHE_REDIS_URL'' of
            Some u \<Rightarrow> if trim u \<noteq> [] then cfg\<lparr>wc_redis_url := trim u\<rparr> else cfg
          | None \<Rightarrow> cfg)
      in case env ''OD_ADMIN_DATABASE_URL'' of
           Some u \<Rightarrow> if trim u \<noteq> [] then cfg1\<lparr>wc_database_url := trim u\<rparr> else cfg1
         | None \<Rightarrow> cfg1)"

section \<open>Resolved settings\<close>

text \<open>A resolved router never falls back to the provider it starts with.\<close>

lemma provider_from_config_name: "provider_from_config env c = Inr p \<Longrightarrow> rp_name p = pcf_name c"
  by (auto simp: provider_from_config_def res_simps)

lemma find_provider_name: "find_provider env cfg name = Inr p \<Longrightarrow> rp_name p = name"
  by (auto simp: find_provider_def res_simps dest!: provider_from_config_name find_Some_mem)

lemma resolve_router_names:
  assumes "resolve_router env cfg = Inr r" "router_fallback r = Some f"
  shows "rp_name f \<noteq> rp_name (router_primary r)"
  using assms
  by (auto simp: resolve_router_def legacy_router_def resolve_fallback_def Let_def res_simps
      dest!: find_provider_name split: list.splits option.splits if_splits)

lemma resolve_online_context_bounds:
  assumes "resolve_online_context pf env cfg = Inr oc"
  shows "1 \<le> oc_metadata_only_fetch_failure_threshold oc \<and>
    oc_metadata_only_force_action oc \<noteq> ContentPending \<and>
    (\<not> f32_nan (oc_metadata_only_max_confidence oc) \<longrightarrow> f32_unit (oc_metadata_only_max_confidence oc))"
proof -
  obtain a where a: "parse_policy_action (unwrap_or (or_else
      (env_text env ''OD_LLM_METADATA_ONLY_FORCE_ACTION'')
      (rt_metadata_only_force_action (wc_routing cfg))) ''Monitor'') = Inr a"
    using assms by (auto simp: resolve_online_context_def Let_def res_simps)
  have "a \<noteq> ContentPending"
    using a by (auto simp: parse_policy_action_def split: if_splits)
  then show ?thesis
    using assms
    by (auto simp: resolve_online_context_def Let_def a)
      (use f32_clamp_unit_or_nan in \<open>blast+\<close>)
qed

end
