(* ===== verification/Llm_Output.thy ===== *)
theory Llm_Output
  imports Llm_Config Taxonomy
begin

text \<open>
  What the worker accepts from a language model: the normal form of an answer, extraction of the
  JSON object from free text, the markers of prompt injection, and the classification of failed
  calls with the delay before the next attempt.  \<open>serde_message\<close> stands for the text of a JSON error.
\<close>

section \<open>Answers\<close>

record llm_response =
  lr_primary_category :: string
  lr_subcategory :: string
  lr_risk_level :: string
  lr_confidence :: f32
  lr_recommended_action :: string

text \<open>A structure without optional fields may also be spelled as the list of its values.\<close>

definition struct_fields :: "string list \<Rightarrow> json \<Rightarrow> (string \<times> json) list option" where
  "struct_fields known j =
     (case j of
        JArr js \<Rightarrow> if length js = length known then Some (zip known js) else None
      | _ \<Rightarrow> fields_of known j)"

definition llm_response_of_json :: "externs \<Rightarrow> json \<Rightarrow> llm_response option" where
  "llm_response_of_json ex j =
     Option.bind (struct_fields [''primary_category'', ''subcategory'', ''risk_level'', ''confidence'',
       ''recommended_action''] j) (\<lambda>fs.
     Option.bind (req_field string_of_json ''primary_category'' fs) (\<lambda>c.
     Option.bind (req_field string_of_json ''subcategory'' fs) (\<lambda>s.
     Option.bind (req_field string_of_json ''risk_level'' fs) (\<lambda>r.
     Option.bind (req_field (f32_of_json ex) ''confidence'' fs) (\<lambda>f.
     Option.bind (req_field string_of_json ''recommended_action'' fs) (\<lambda>a.
       Some \<lparr>lr_primary_category = c, lr_subcategory = s, lr_risk_level = r, lr_confidence = f,
             lr_recommended_action = a\<rparr>))))))"

definition action_name :: "string \<Rightarrow> string option" where
  "action_name lowered =
     (if lowered = ''allow'' then Some ''Allow''
      else if lowered = ''block'' then Some ''Block''
      else if lowered = ''warn'' then Some ''Warn''
      else if lowered = ''monitor'' then Some ''Monitor''
      else if lowered = ''review'' then Some ''Review''
      else if lowered \<in> {''requireapproval'', ''require_approval'', ''require-approval''}
      then Some ''RequireApproval''
      else None)"

definition response_normalize :: "externs \<Rightarrow> llm_response \<Rightarrow> llm_response res" where
  "response_normalize ex r =
     (if \<not> (f32_le 0 (lr_confidence r) \<and> f32_le (lr_confidence r) 0x3F800000)
      then Inl (Error ''confidence must be between 0 and 1'')
      else
        (let risk = to_lowercase ex (lr_risk_level r)
         in if risk \<notin> {''low'', ''medium'', ''high'', ''critical''} then Inl (Error ''invalid risk_level'')
            else
              (let lowered = to_lowercase ex (lr_recommended_action r)
               in bind_res (ok_or (Error (''invalid recommended_action: '' @ lowered)) (action_name lowered))
                    (\<lambda>a. Inr (r\<lparr>lr_risk_level := risk, lr_recommended_action := a\<rparr>)))))"

section \<open>Extraction\<close>

text \<open>
  The scanner looks for the first brace-balanced piece of text, outside string literals, that is
  JSON.  \<open>acc\<close> is the text since the opening brace in force, \<open>None\<close> when there is none.
\<close>

record scan_state =
  sc_acc :: "string option"
  sc_depth :: nat
  sc_in_string :: bool
  sc_escaped :: bool

definition push_char :: "char \<Rightarrow> string option \<Rightarrow> string option" where
  "push_char c acc = map_option (\<lambda>s. s @ [c]) acc"

definition scan_next :: "scan_state \<Rightarrow> char \<Rightarrow> scan_state" where
  "scan_next st c =
     (let st' = st\<lparr>sc_acc := push_char c (sc_acc st)\<rparr>
      in if sc_in_string st then
           (if sc_escaped st then st'\<lparr>sc_escaped := False\<rparr>
            else if c = CHR 0x5C then st'\<lparr>sc_escaped := True\<rparr>
            else if c = CHR 0x22 then st'\<lparr>sc_in_string := False\<rparr>
            else st')
         else if c = CHR 0x22 then st'\<lparr>sc_in_string := True\<rparr>
         else if c = CHR ''{'' then
           (if sc_depth st = 0 then st\<lparr>sc_acc := Some [c], sc_depth := 1\<rparr>
            else st'\<lparr>sc_depth := Suc (sc_depth st)\<rparr>)
         else if c = CHR ''}'' then
           (if sc_depth st = 0 then st'
            else if sc_depth st = 1 then st\<lparr>sc_acc := None, sc_depth := 0\<rparr>
            else st'\<lparr>sc_depth := sc_depth st - 1\<rparr>)
         else st')"

definition scan_candidate :: "scan_state \<Rightarrow> char \<Rightarrow> string option" where
  "scan_candidate st c =
     (if \<not> sc_in_string st \<and> c = CHR ''}'' \<and> sc_depth st = 1 then push_char c (sc_acc st) else None)"

fun scan_json :: "externs \<Rightarrow> scan_state \<Rightarrow> string \<Rightarrow> string option" where
  "scan_json ex st [] = None"
| "scan_json ex st (c # cs) =
     (case scan_candidate st c of
        Some candidate \<Rightarrow>
          if json_of_text ex candidate \<noteq> None then Some candidate else scan_json ex (scan_next st c) cs
      | None \<Rightarrow> scan_json ex (scan_next st c) cs)"

definition extract_balanced_json_object :: "externs \<Rightarrow> string \<Rightarrow> string option" where
  "extract_balanced_json_object ex text =
     scan_json ex \<lparr>sc_acc = None, sc_depth = 0, sc_in_string = False, sc_escaped = False\<rparr> text"

definition strip_suffix :: "string \<Rightarrow> string \<Rightarrow> string option" where
  "strip_suffix p s = map_option rev (strip_prefix (rev p) (rev s))"

definition strip_fences :: "string \<Rightarrow> string" where
  "strip_fences text =
     (let cleaned = trim text;
          opened =
            (case strip_prefix ''```json'' cleaned of
               Some s \<Rightarrow> trim s
             | None \<Rightarrow> (case strip_prefix ''```'' cleaned of Some s \<Rightarrow> trim s | None \<Rightarrow> cleaned))
      in case strip_suffix ''```'' opened of Some s \<Rightarrow> trim s | None \<Rightarrow> opened)"

definition NO_JSON_OBJECT :: string where
  "NO_JSON_OBJECT = ''llm response did not contain valid JSON object''"

definition parse_llm_json_text ::
  "externs \<Rightarrow> (string \<Rightarrow> string) \<Rightarrow> string \<Rightarrow> llm_response res" where
  "parse_llm_json_text ex serde_message text =
     (let cleaned = strip_fences text; decode = (\<lambda>t. Option.bind (json_of_text ex t) (llm_response_of_json ex))
      in case decode cleaned of
           Some parsed \<Rightarrow> response_normalize ex parsed
         | None \<Rightarrow>
             (case extract_balanced_json_object ex cleaned of
                Some candidate \<Rightarrow>
                  bind_res (ok_or (Error (serde_message candidate)) (decode candidate))
                    (response_normalize ex)
              | None \<Rightarrow> Inl (Error NO_JSON_OBJECT)))"

section \<open>Prompt injection\<close>

definition PROMPT_INJECTION_MARKER_RULES :: "(string \<times> string list \<times> nat) list" where
  "PROMPT_INJECTION_MARKER_RULES =
     [(''ignore_previous'',
       [''ignore previous instruction'', ''ignore all previous instruction'',
        ''disregard previous instruction''], 3),
      (''role_override'',
       [''system:'', ''you are now'', ''developer mode'', ''override the system''], 2),
      (''output_coercion'',
       [''respond only with json'', ''output only json'', ''return only json''], 2),
      (''action_coercion'',
       [''confidence: 1.0'', ''previous classification was wrong'', ''category:'',
        ''recommended_action''], 1)]"

record prompt_injection_assessment =
  pia_score :: nat
  pia_markers :: "string list"

definition assess_prompt_injection :: "string option \<Rightarrow> prompt_injection_assessment" where
  "assess_prompt_injection excerpt =
     (case excerpt of
        None \<Rightarrow> \<lparr>pia_score = 0, pia_markers = []\<rparr>
      | Some raw \<Rightarrow>
          (let lowered = to_ascii_lowercase raw;
               hits = filter (\<lambda>(_, terms, _). list_ex (contains_str lowered) terms)
                 PROMPT_INJECTION_MARKER_RULES
           in \<lparr>pia_score = fold (\<lambda>(_, _, w) score. saturating_add score w) hits 0,
               pia_markers = map fst hits\<rparr>))"

definition pia_suspicious :: "prompt_injection_assessment \<Rightarrow> bool" where
  "pia_suspicious a \<longleftrightarrow> pia_score a > 0"

section \<open>Failures\<close>

text \<open>
  An error of the HTTP client carries its kind, the status if it is a status error and the text
  the client prints for it; every other error is a message.
\<close>

record reqwest_error =
  re_timeout :: bool
  re_connect :: bool
  re_request :: bool
  re_status :: "nat option"
  re_text :: string

datatype invoke_error = Reqwest reqwest_error | Message string

fun invoke_error_text :: "invoke_error \<Rightarrow> string" where
  "invoke_error_text (Reqwest e) = re_text e"
| "invoke_error_text (Message m) = m"

datatype failure_class = Retryable | NonRetryable

record invocation_failure =
  if_class :: failure_class
  if_status :: "nat option"
  if_reason :: string
  if_output_invalid :: bool

definition is_output_invalid_message :: "string \<Rightarrow> bool" where
  "is_output_invalid_message lowered \<longleftrightarrow>
     contains_str lowered ''did not contain valid json object'' \<or>
     contains_str lowered ''invalid response format'' \<or>
     contains_str lowered ''missing choices'' \<or>
     contains_str lowered ''failed to parse''"

definition is_retryable_status :: "failover_runtime \<Rightarrow> nat \<Rightarrow> bool" where
  "is_retryable_status fo status \<longleftrightarrow> status \<in> fo_retryable_status_codes fo"

definition classify_by_text :: "string \<Rightarrow> failure_class" where
  "classify_by_text lowered =
     (if contains_str lowered ''timed out'' \<or> contains_str lowered ''connection refused'' \<or>
         contains_str lowered ''temporarily unavailable''
      then Retryable else NonRetryable)"

definition classify_invocation_failure :: "failover_runtime \<Rightarrow> invoke_error \<Rightarrow> invocation_failure" where
  "classify_invocation_failure fo err =
     (let msg = invoke_error_text err; lowered = to_ascii_lowercase msg;
          output_invalid = is_output_invalid_message lowered;
          by_text = \<lparr>if_class = classify_by_text lowered, if_status = None, if_reason = msg,
                     if_output_invalid = output_invalid\<rparr>
      in case err of
           Message _ \<Rightarrow> by_text
         | Reqwest e \<Rightarrow>
             if re_timeout e \<or> re_connect e \<or> re_request e then
               \<lparr>if_class = Retryable, if_status = None, if_reason = re_text e,
                if_output_invalid = output_invalid\<rparr>
             else (case re_status e of
                     Some status \<Rightarrow>
                       \<lparr>if_class = (if is_retryable_status fo status then Retryable else NonRetryable),
                        if_status = Some status, if_reason = re_text e,
                        if_output_invalid = output_invalid\<rparr>
                   | None \<Rightarrow> by_text))"

definition should_attempt_fallback :: "failover_runtime \<Rightarrow> invocation_failure \<Rightarrow> bool" where
  "should_attempt_fallback fo failure =
     (if if_output_invalid failure then True
      else case fo_policy fo of
             Disabled \<Rightarrow> False
           | Aggressive \<Rightarrow> True
           | Safe \<Rightarrow> if_class failure = Retryable)"

definition f32_one_fifth :: f32 where "f32_one_fifth = 0x3E4CCCCD"

definition synthesize_insufficient_evidence_verdict :: llm_response where
  "synthesize_insufficient_evidence_verdict =
     \<lparr>lr_primary_category = ''unknown-unclassified'', lr_subcategory = ''insufficient-evidence'',
      lr_risk_level = ''low'', lr_confidence = f32_one_fifth,
      lr_recommended_action = show_action Monitor\<rparr>"

definition calculate_retry_backoff_ms :: "failover_runtime \<Rightarrow> nat \<Rightarrow> nat" where
  "calculate_retry_backoff_ms fo attempt =
     (let base = max (fo_primary_retry_backoff_ms fo) 1;
          exp = saturating_pow 2 (min (attempt - 1) 10);
          raw = saturating_mul base exp
      in min raw (max (fo_primary_retry_max_backoff_ms fo) base))"

section \<open>Normal answers\<close>

definition normal_response :: "llm_response \<Rightarrow> bool" where
  "normal_response r \<longleftrightarrow>
     f32_unit (lr_confidence r) \<and>
     lr_risk_level r \<in> {''low'', ''medium'', ''high'', ''critical''} \<and>
     is_ok (parse_policy_action (lr_recommended_action r))"

lemma action_name_ok: "action_name s = Some a \<Longrightarrow> is_ok (parse_policy_action a)"
  by (auto simp: action_name_def parse_policy_action_def split: if_splits)

lemma response_normalize_normal: "response_normalize ex r = Inr r' \<Longrightarrow> normal_response r'"
  by (auto simp: response_normalize_def normal_response_def f32_unit_def Let_def res_simps action_name_ok
      split: if_splits)

lemma parse_llm_json_text_normal: "parse_llm_json_text ex sm text = Inr r \<Longrightarrow> normal_response r"
  by (auto simp: parse_llm_json_text_def Let_def res_simps response_normalize_normal split: option.splits)

lemma synthesized_normal: "normal_response synthesize_insufficient_evidence_verdict"
  unfolding normal_response_def synthesize_insufficient_evidence_verdict_def f32_one_fifth_def by code_simp

section \<open>The extracted object\<close>

text \<open>
  \<open>closes d\<close>: read from nesting depth \<open>d\<close>, the text returns to depth zero exactly at its end, braces
  inside string literals aside.
\<close>

fun closes :: "nat \<Rightarrow> bool \<Rightarrow> bool \<Rightarrow> string \<Rightarrow> bool" where
  "closes d in_string escaped [] = False"
| "closes d in_string escaped (c # cs) =
     (if in_string then
        (if escaped then closes d True False cs
         else if c = CHR 0x5C then closes d True True cs
         else if c = CHR 0x22 then closes d False False cs
         else closes d True False cs)
      else if c = CHR 0x22 then closes d True False cs
      else if c = CHR ''{'' then closes (Suc d) False False cs
      else if c = CHR ''}'' then (if d = 1 then cs = [] else closes (d - 1) False False cs)
      else closes d False False cs)"

definition object_text :: "string \<Rightarrow> bool" where
  "object_text s \<longleftrightarrow> (\<exists>r. s = CHR ''{'' # r \<and> closes 1 False False r)"

lemma scan_json_complete:
  assumes "closes d i e r" "d \<ge> 1" "i \<or> \<not> e" "json_of_text ex (a @ r) \<noteq> None"
  shows "scan_json ex \<lparr>sc_acc = Some a, sc_depth = d, sc_in_string = i, sc_escaped = e\<rparr> (r @ post) =
    Some (a @ r)"
  using assms
proof (induction r arbitrary: d i e a)
  case (Cons c cs)
  note IH = Cons.IH [where a = "a @ [x]" for x, simplified]
  from Cons.prems show ?case
    by (cases i; cases e) (auto simp: scan_next_def scan_candidate_def Let_def push_char_def IH split: if_splits)
qed simp

lemma scan_json_skip:
  assumes "CHR ''{'' \<notin> set pre" "CHR 0x22 \<notin> set pre"
  shows "scan_json ex \<lparr>sc_acc = None, sc_depth = 0, sc_in_string = False, sc_escaped = False\<rparr> (pre @ s) =
    scan_json ex \<lparr>sc_acc = None, sc_depth = 0, sc_in_string = False, sc_escaped = False\<rparr> s"
  using assms by (induction pre) (auto simp: scan_next_def scan_candidate_def Let_def push_char_def)

text \<open>
  The scanner's state after some text: outside every object nothing is recorded, inside one the text
  from its opening brace, which is closed by exactly the texts that close the state.
\<close>

definition scan_inv :: "scan_state \<Rightarrow> bool" where
  "scan_inv st \<longleftrightarrow>
     (sc_depth st = 0 \<longleftrightarrow> sc_acc st = None) \<and> (\<not> sc_in_string st \<longrightarrow> \<not> sc_escaped st) \<and>
     (\<forall>a. sc_acc st = Some a \<longrightarrow>
        (\<exists>p. a = CHR ''{'' # p \<and>
          (\<forall>r. closes (sc_depth st) (sc_in_string st) (sc_escaped st) r \<longrightarrow> closes 1 False False (p @ r))))"

definition recorded :: "scan_state \<Rightarrow> string" where
  "recorded st = (case sc_acc st of None \<Rightarrow> [] | Some a \<Rightarrow> a)"

lemma scan_next_outside:
  assumes "sc_depth st = 0" "sc_acc st = None" "sc_in_string st \<or> \<not> sc_escaped st"
  shows "scan_inv (scan_next st c)"
  using assms by (auto simp: scan_next_def scan_inv_def push_char_def Let_def)

lemma scan_next_inside:
  assumes "sc_depth st = Suc d" "sc_acc st = Some a" "sc_in_string st \<or> \<not> sc_escaped st"
  shows "sc_in_string (scan_next st c) \<or> \<not> sc_escaped (scan_next st c)"
    and "sc_acc (scan_next st c) = (if sc_depth (scan_next st c) = 0 then None else Some (a @ [c]))"
    and "sc_depth (scan_next st c) \<noteq> 0 \<Longrightarrow>
      closes (sc_depth (scan_next st c)) (sc_in_string (scan_next st c)) (sc_escaped (scan_next st c)) r \<Longrightarrow>
      closes (sc_depth st) (sc_in_string st) (sc_escaped st) (c # r)"
  using assms by (auto simp: scan_next_def push_char_def Let_def split: if_splits)

lemma scan_inv_next:
  assumes "scan_inv st"
  shows "scan_inv (scan_next st c)"
proof (cases "sc_depth st")
  case 0
  with assms show ?thesis by (intro scan_next_outside) (auto simp: scan_inv_def)
next
  case (Suc d)
  with assms obtain a p where a: "sc_acc st = Some a" "a = CHR ''{'' # p"
    and s: "sc_in_string st \<or> \<not> sc_escaped st"
    and p: "\<And>r. closes (sc_depth st) (sc_in_string st) (sc_escaped st) r \<Longrightarrow> closes 1 False False (p @ r)"
    by (auto simp: scan_inv_def)
  note next' = scan_next_inside [OF Suc a(1) s, of c]
  show ?thesis
    using next'(1,2) a(2) p [OF next'(3)] by (auto simp: scan_inv_def)
qed

lemma scan_candidate_object:
  assumes "scan_candidate st c = Some s" "scan_inv st"
  shows "object_text s \<and> s = recorded st @ [c]"
  using assms
  by (auto simp: scan_candidate_def scan_inv_def object_text_def recorded_def push_char_def
      split: if_splits)

lemma recorded_next: "suffix (recorded (scan_next st c)) (recorded st @ [c])"
  by (cases "sc_acc st") (auto simp: scan_next_def recorded_def push_char_def Let_def suffix_def)

lemma scan_json_sound:
  assumes "scan_json ex st cs = Some s" "scan_inv st"
  shows "object_text s \<and> json_of_text ex s \<noteq> None \<and> sublist s (recorded st @ cs)"
  using assms
proof (induction cs arbitrary: st)
  case (Cons c cs)
  have "object_text s \<and> json_of_text ex s \<noteq> None \<and> sublist s (recorded (scan_next st c) @ cs)"
    if "scan_json ex (scan_next st c) cs = Some s"
    using Cons.IH that scan_inv_next Cons.prems(2) by blast
  moreover have "sublist (recorded (scan_next st c) @ cs) (recorded st @ c # cs)"
    using recorded_next [of st c] by (auto simp: suffix_def)
  ultimately show ?case
    using Cons.prems scan_candidate_object [of st c]
    by (auto split: option.splits if_splits intro: sublist_order.order_trans)
qed simp

text \<open>
  The object taken from an answer is a piece of it, from an opening brace to the brace that closes it,
  and is JSON; and the first object of an answer is found whatever text without braces and quotes
  stands before it and whatever follows it.
\<close>

theorem extracted_object:
  "(extract_balanced_json_object ex t = Some s \<longrightarrow>
      object_text s \<and> json_of_text ex s \<noteq> None \<and> sublist s t) \<and>
   (CHR ''{'' \<notin> set pre \<and> CHR 0x22 \<notin> set pre \<and> object_text s \<and> json_of_text ex s \<noteq> None \<longrightarrow>
      extract_balanced_json_object ex (pre @ s @ post) = Some s)"
proof (intro conjI impI)
  let ?st = "\<lparr>sc_acc = None, sc_depth = 0, sc_in_string = False, sc_escaped = False\<rparr>"
  assume "extract_balanced_json_object ex t = Some s"
  then show "object_text s" "json_of_text ex s \<noteq> None" "sublist s t"
    using scan_json_sound [of ex ?st t s]
    by (simp_all add: extract_balanced_json_object_def scan_inv_def recorded_def)
next
  assume a: "CHR ''{'' \<notin> set pre \<and> CHR 0x22 \<notin> set pre \<and> object_text s \<and> json_of_text ex s \<noteq> None"
  then obtain r where "s = CHR ''{'' # r" "closes 1 False False r" by (auto simp: object_text_def)
  with a show "extract_balanced_json_object ex (pre @ s @ post) = Some s"
    using scan_json_complete [of 1 False False r ex "[CHR ''{'']" post]
    by (simp add: extract_balanced_json_object_def scan_json_skip scan_next_def scan_candidate_def Let_def)
qed

section \<open>Delays between attempts\<close>

text \<open>
  The delay before another attempt is at least the configured one, never above the larger of the
  configured delay and its maximum, and grows with the attempt.
\<close>

lemma retry_backoff_bounds:
  "max (fo_primary_retry_backoff_ms fo) 1 \<le> calculate_retry_backoff_ms fo attempt \<or>
     U64_MAX < max (fo_primary_retry_backoff_ms fo) 1"
  "calculate_retry_backoff_ms fo attempt \<le>
     max (fo_primary_retry_max_backoff_ms fo) (max (fo_primary_retry_backoff_ms fo) 1)"
  "attempt \<le> attempt' \<Longrightarrow> calculate_retry_backoff_ms fo attempt \<le> calculate_retry_backoff_ms fo attempt'"
proof -
  have "1 \<le> saturating_pow 2 (min (attempt - 1) 10)"
    by (simp add: saturating_pow_def U64_MAX_def)
  then show "max (fo_primary_retry_backoff_ms fo) 1 \<le> calculate_retry_backoff_ms fo attempt \<or>
      U64_MAX < max (fo_primary_retry_backoff_ms fo) 1"
    using mult_le_mono2 [of 1 _ "max (fo_primary_retry_backoff_ms fo) 1"]
    by (auto simp: calculate_retry_backoff_ms_def saturating_mul_def Let_def not_less)
  show "calculate_retry_backoff_ms fo attempt \<le>
     max (fo_primary_retry_max_backoff_ms fo) (max (fo_primary_retry_backoff_ms fo) 1)"
    by (simp add: calculate_retry_backoff_ms_def Let_def)
  assume "attempt \<le> attempt'"
  then have "(2::nat) ^ min (attempt - 1) 10 \<le> 2 ^ min (attempt' - 1) 10"
    by (intro power_increasing) auto
  then have "saturating_pow 2 (min (attempt - 1) 10) \<le> saturating_pow 2 (min (attempt' - 1) 10)"
    unfolding saturating_pow_def by (intro min.mono) auto
  then show "calculate_retry_backoff_ms fo attempt \<le> calculate_retry_backoff_ms fo attempt'"
    unfolding calculate_retry_backoff_ms_def saturating_mul_def Let_def
    by (intro min.mono mult_le_mono) auto
qed

end
