(* ===== verification/Llm_Provider.thy ===== *)
theory Llm_Provider
  imports Llm_Output
begin

text \<open>
  Jobs of the classification worker, the prompts built from them, and the calls to the language
  model providers.

  \<open>llm_service\<close> stands for everything behind the HTTP client: \<open>ls_call k req\<close> is what the \<open>k\<close>-th
  request meets, its duration in milliseconds and its outcome, and the other fields are the texts
  the client and the JSON library print for an error.  Headers the client adds on its own and the
  wire format are below this interface.
\<close>

section \<open>Jobs\<close>

record classification_job_payload =
  cp_normalized_key :: string
  cp_entity_level :: string
  cp_hostname :: string
  cp_full_url :: string
  cp_trace_id :: string
  cp_idempotency_key :: "string option"
  cp_requires_content :: bool
  cp_base_url :: "string option"
  cp_content_excerpt :: "string option"
  cp_content_hash :: "string option"
  cp_content_version :: "int option"
  cp_content_language :: "string option"
  cp_requeue_attempt :: nat
  cp_provider_override :: "string option"

fun usize_of_json :: "json \<Rightarrow> nat option" where
  "usize_of_json (JInt i) = (if 0 \<le> i \<and> i < 2 ^ 64 then Some (nat i) else None)"
| "usize_of_json _ = None"

definition job_fields :: "string list" where
  "job_fields = [''normalized_key'', ''entity_level'', ''hostname'', ''full_url'', ''trace_id'',
     ''idempotency_key'', ''requires_content'', ''base_url'', ''content_excerpt'', ''content_hash'',
     ''content_version'', ''content_language'', ''requeue_attempt'', ''provider_override'']"

definition job_payload_of_json :: "json \<Rightarrow> classification_job_payload option" where
  "job_payload_of_json j =
     Option.bind (fields_of job_fields j) (\<lambda>fs.
     Option.bind (req_field string_of_json ''normalized_key'' fs) (\<lambda>normalized_key.
     Option.bind (req_field string_of_json ''entity_level'' fs) (\<lambda>entity_level.
     Option.bind (req_field string_of_json ''hostname'' fs) (\<lambda>hostname.
     Option.bind (req_field string_of_json ''full_url'' fs) (\<lambda>full_url.
     Option.bind (req_field string_of_json ''trace_id'' fs) (\<lambda>trace_id.
     Option.bind (opt_field string_of_json ''idempotency_key'' fs) (\<lambda>idempotency_key.
     Option.bind (default_field False bool_of_json ''requires_content'' fs) (\<lambda>requires_content.
     Option.bind (opt_field string_of_json ''base_url'' fs) (\<lambda>base_url.
     Option.bind (opt_field string_of_json ''content_excerpt'' fs) (\<lambda>content_excerpt.
     Option.bind (opt_field string_of_json ''content_hash'' fs) (\<lambda>content_hash.
     Option.bind (opt_field i64_of_json ''content_version'' fs) (\<lambda>content_version.
     Option.bind (opt_field string_of_json ''content_language'' fs) (\<lambda>content_language.
     Option.bind (default_field 0 usize_of_json ''requeue_attempt'' fs) (\<lambda>requeue_attempt.
     Option.bind (opt_field string_of_json ''provider_override'' fs) (\<lambda>provider_override.
       Some \<lparr>cp_normalized_key = normalized_key, cp_entity_level = entity_level,
         cp_hostname = hostname, cp_full_url = full_url, cp_trace_id = trace_id,
         cp_idempotency_key = idempotency_key, cp_requires_content = requires_content,
         cp_base_url = base_url, cp_content_excerpt = content_excerpt,
         cp_content_hash = content_hash, cp_content_version = content_version,
         cp_content_language = content_language, cp_requeue_attempt = requeue_attempt,
         cp_provider_override = provider_override\<rparr>)))))))))))))))"

definition job_payload_to_json :: "classification_job_payload \<Rightarrow> json" where
  "job_payload_to_json job = JObj
     ([(''normalized_key'', JStr (cp_normalized_key job)), (''entity_level'', JStr (cp_entity_level job)),
       (''hostname'', JStr (cp_hostname job)), (''full_url'', JStr (cp_full_url job)),
       (''trace_id'', JStr (cp_trace_id job))]
      @ skip_none ''idempotency_key'' JStr (cp_idempotency_key job)
      @ [(''requires_content'', JBool (cp_requires_content job))]
      @ skip_none ''base_url'' JStr (cp_base_url job)
      @ skip_none ''content_excerpt'' JStr (cp_content_excerpt job)
      @ skip_none ''content_hash'' JStr (cp_content_hash job)
      @ skip_none ''content_version'' JInt (cp_content_version job)
      @ skip_none ''content_language'' JStr (cp_content_language job)
      @ [(''requeue_attempt'', JInt (int (cp_requeue_attempt job)))]
      @ skip_none ''provider_override'' JStr (cp_provider_override job))"

definition classification_idempotency_key :: "classification_job_payload \<Rightarrow> string" where
  "classification_idempotency_key job =
     unwrap_or (Option.bind (cp_idempotency_key job) (\<lambda>v. if trim v = [] then None else Some v))
       (cp_normalized_key job @ '':'' @ cp_full_url job @ '':'' @ cp_trace_id job)"

definition has_content :: "string option \<Rightarrow> bool" where
  "has_content value = (case value of None \<Rightarrow> False | Some t \<Rightarrow> trim t \<noteq> [])"

definition job_excerpt :: "classification_job_payload \<Rightarrow> string option" where
  "job_excerpt job =
     Option.bind (cp_content_excerpt job) (\<lambda>s. if trim s = [] then None else Some (trim s))"

section \<open>Prompts\<close>

definition chars_count :: "string \<Rightarrow> nat" where
  "chars_count s = length (filter (\<lambda>c. \<not> utf8_continuation c) s)"

fun chars_take :: "nat \<Rightarrow> string \<Rightarrow> string" where
  "chars_take n [] = []"
| "chars_take n (c # cs) =
     (if utf8_continuation c then c # chars_take n cs
      else case n of 0 \<Rightarrow> [] | Suc m \<Rightarrow> c # chars_take m cs)"

definition ellipsis :: string where
  "ellipsis = [CHR 0xE2, CHR 0x80, CHR 0xA6]"

definition PROMPT_HTML_CONTEXT_LIMIT :: nat where
  "PROMPT_HTML_CONTEXT_LIMIT = 120000"

definition format_excerpt :: "string \<Rightarrow> string \<times> bool" where
  "format_excerpt excerpt =
     (let cleaned = trim excerpt;
          buffer = chars_take PROMPT_HTML_CONTEXT_LIMIT cleaned;
          truncated = chars_count cleaned > chars_count buffer
      in (if truncated then buffer @ ellipsis else buffer, truncated))"

datatype prompt_context_mode = WithExcerpt | MetadataOnly

fun context_mode_str :: "prompt_context_mode \<Rightarrow> string" where
  "context_mode_str WithExcerpt = ''with_excerpt''"
| "context_mode_str MetadataOnly = ''metadata_only''"

text \<open>The separator is the two characters backslash and n, as the string literals of the code say.\<close>

definition backslash_n :: string where
  "backslash_n = [CHR 0x5C, CHR ''n'']"

definition newline :: string where
  "newline = [CHR 0x0A]"

definition build_prompt ::
  "classification_job_payload \<Rightarrow> string \<Rightarrow> string option \<Rightarrow> prompt_context_mode \<Rightarrow> string" where
  "build_prompt job taxonomy_prompt retry_instruction context_mode =
     join_str backslash_n
       ([''Classify the following web request. Return JSON with fields: primary_category, subcategory, risk_level, confidence (0-1), recommended_action (Allow|Block|Warn|Monitor|Review|RequireApproval). Use ONLY canonical taxonomy IDs for primary_category and subcategory.''
          @ backslash_n @ ''Normalized Key: '' @ cp_normalized_key job
          @ backslash_n @ ''Hostname: '' @ cp_hostname job
          @ backslash_n @ ''URL: '' @ cp_full_url job
          @ backslash_n @ ''Entity Level: '' @ cp_entity_level job
          @ backslash_n @ ''Trace ID: '' @ cp_trace_id job,
         ''Allowed Taxonomy IDs:'' @ newline @ taxonomy_prompt]
        @ (case retry_instruction of None \<Rightarrow> [] | Some i \<Rightarrow> [''Retry Instruction: '' @ i])
        @ [''Context Mode: '' @ context_mode_str context_mode]
        @ [case job_excerpt job of
             Some excerpt \<Rightarrow>
               (let (formatted, truncated) = format_excerpt excerpt
                in ''Homepage Content Excerpt (markdown/plain text, '' @ show_nat (chars_count formatted)
                   @ '' chars'' @ (if truncated then '', truncated'' else []) @ ''):''
                   @ backslash_n @ formatted)
           | None \<Rightarrow> ''Homepage Content Excerpt: unavailable (content fetch pending, failed, or disabled).'']
        @ (case cp_content_hash job of None \<Rightarrow> [] | Some h \<Rightarrow> [''Content Hash: '' @ h])
        @ (case cp_content_version job of None \<Rightarrow> [] | Some v \<Rightarrow> [''Content Version: '' @ show_int v])
        @ (case cp_content_language job of None \<Rightarrow> [] | Some l \<Rightarrow> [''Content Language: '' @ l]))"

definition build_taxonomy_prompt :: "taxonomy_store \<Rightarrow> string" where
  "build_taxonomy_prompt store =
     (let taxonomy = ts_taxonomy store
      in join_str newline
           ((''taxonomy_version: '' @ tax_version taxonomy) #
            concat (map (\<lambda>category.
              [''- '' @ cat_id category @ '' ('' @ cat_name category @ '')'',
               ''  subcategories: '' @ join_str '', ''
                 (map (\<lambda>sub. sub_id sub @ '' ('' @ sub_name sub @ '')'') (cat_subcategories category))])
              (tax_categories taxonomy))))"

section \<open>Calls\<close>

record llm_request =
  lq_url :: string
  lq_headers :: "(string \<times> string) list"
  lq_timeout_ms :: "nat option"
  lq_body :: json

datatype http_outcome = SendFailed reqwest_error | Answered nat "reqwest_error + string"

record llm_service =
  ls_call :: "nat \<Rightarrow> llm_request \<Rightarrow> nat \<times> http_outcome"
  ls_status_error :: "string \<Rightarrow> nat \<Rightarrow> string"
  ls_decode_error :: "string \<Rightarrow> string"
  ls_serde_message :: "string \<Rightarrow> string"

text \<open>Sending, \<open>error_for_status\<close> and \<open>json\<close>, with the reader of the expected structure.\<close>

definition plain_reqwest_error :: "nat option \<Rightarrow> string \<Rightarrow> reqwest_error" where
  "plain_reqwest_error status text =
     \<lparr>re_timeout = False, re_connect = False, re_request = False, re_status = status, re_text = text\<rparr>"

definition read_answer ::
  "externs \<Rightarrow> llm_service \<Rightarrow> string \<Rightarrow> (json \<Rightarrow> 'a option) \<Rightarrow> http_outcome \<Rightarrow> invoke_error + 'a" where
  "read_answer ex ls endpoint reader outcome =
     (case outcome of
        SendFailed e \<Rightarrow> Inl (Reqwest e)
      | Answered status body \<Rightarrow>
          if 400 \<le> status \<and> status < 600
          then Inl (Reqwest (plain_reqwest_error (Some status) (ls_status_error ls endpoint status)))
          else
            (case body of
               Inl e \<Rightarrow> Inl (Reqwest e)
             | Inr content \<Rightarrow>
                 ok_or (Reqwest (plain_reqwest_error None (ls_decode_error ls content)))
                   (Option.bind (json_of_text ex content) reader)))"

fun as_message :: "'a res \<Rightarrow> invoke_error + 'a" where
  "as_message (Inr x) = Inr x"
| "as_message (Inl (Error m)) = Inl (Message m)"
| "as_message (Inl (Panic m)) = Inl (Message m)"

definition bearer_headers :: "resolved_provider \<Rightarrow> (string \<times> string) list" where
  "bearer_headers p =
     (if rp_api_key p = [] then [] else [(''Authorization'', ''Bearer '' @ rp_api_key p)])"

definition SYSTEM_PROMPT :: string where
  "SYSTEM_PROMPT = ''You are an AI analyst classifying web traffic for a trust and safety team. Respond ONLY with JSON matching the schema and avoid prose.''"

definition chat_messages :: "string \<Rightarrow> json" where
  "chat_messages prompt =
     JArr [JObj [(''role'', JStr ''system''), (''content'', JStr SYSTEM_PROMPT)],
           JObj [(''role'', JStr ''user''), (''content'', JStr prompt)]]"

definition prompt_payload_to_json :: "classification_job_payload \<Rightarrow> json" where
  "prompt_payload_to_json job = JObj
     ([(''normalized_key'', JStr (cp_normalized_key job)), (''hostname'', JStr (cp_hostname job)),
       (''full_url'', JStr (cp_full_url job)), (''entity_level'', JStr (cp_entity_level job)),
       (''trace_id'', JStr (cp_trace_id job))]
      @ skip_none ''content_excerpt'' JStr (job_excerpt job)
      @ skip_none ''content_hash'' JStr (cp_content_hash job)
      @ skip_none ''content_version'' JInt (cp_content_version job))"

definition custom_json_request :: "resolved_provider \<Rightarrow> classification_job_payload \<Rightarrow> llm_request" where
  "custom_json_request p job =
     \<lparr>lq_url = rp_endpoint p, lq_headers = bearer_headers p @ rp_headers p,
      lq_timeout_ms = rp_timeout_ms p, lq_body = prompt_payload_to_json job\<rparr>"

definition openai_request :: "resolved_provider \<Rightarrow> string \<Rightarrow> llm_request" where
  "openai_request p prompt =
     \<lparr>lq_url = rp_endpoint p,
      lq_headers = (''Content-Type'', ''application/json'') # bearer_headers p @ rp_headers p,
      lq_timeout_ms = rp_timeout_ms p,
      lq_body = JObj
        [(''model'', JStr (unwrap_or (rp_model p) ''gpt-4o-mini'')), (''temperature'', JFloat 0),
         (''response_format'', JObj [(''type'', JStr ''json_object'')]),
         (''max_tokens'', JInt 256), (''messages'', chat_messages prompt)]\<rparr>"

definition lmstudio_request :: "resolved_provider \<Rightarrow> string \<Rightarrow> llm_request" where
  "lmstudio_request p prompt =
     \<lparr>lq_url = rp_endpoint p,
      lq_headers = (''Content-Type'', ''application/json'') # bearer_headers p @ rp_headers p,
      lq_timeout_ms = rp_timeout_ms p,
      lq_body = JObj
        [(''model'', JStr (unwrap_or (rp_model p) ''lmstudio-model'')), (''temperature'', JFloat 0),
         (''stream'', JBool False), (''max_tokens'', JInt 256), (''messages'', chat_messages prompt)]\<rparr>"

definition anthropic_request :: "resolved_provider \<Rightarrow> string \<Rightarrow> llm_request" where
  "anthropic_request p prompt =
     \<lparr>lq_url = rp_endpoint p,
      lq_headers = [(''content-type'', ''application/json''), (''x-api-key'', rp_api_key p),
        (''anthropic-version'', ''2023-06-01'')] @ rp_headers p,
      lq_timeout_ms = rp_timeout_ms p,
      lq_body = JObj
        [(''model'', JStr (unwrap_or (rp_model p) ''claude-3-sonnet-20240229'')),
         (''max_tokens'', JInt 512), (''temperature'', JFloat 0), (''system'', JStr SYSTEM_PROMPT),
         (''messages'', JArr [JObj [(''role'', JStr ''user''),
            (''content'', JArr [JObj [(''type'', JStr ''text''), (''text'', JStr prompt)]])]])]\<rparr>"

definition ollama_request :: "resolved_provider \<Rightarrow> string \<Rightarrow> llm_request" where
  "ollama_request p prompt =
     \<lparr>lq_url = rp_endpoint p, lq_headers = rp_headers p, lq_timeout_ms = rp_timeout_ms p,
      lq_body = JObj
        [(''model'', JStr (unwrap_or (rp_model p) ''llama3'')),
         (''prompt'', JStr (SYSTEM_PROMPT @ newline @ newline @ prompt)), (''stream'', JBool False)]\<rparr>"

section \<open>Answers of the providers\<close>

definition openai_message_of_json :: "json \<Rightarrow> json option" where
  "openai_message_of_json j =
     Option.bind (struct_fields [''content''] j) (\<lambda>fs. map_of fs ''content'')"

definition openai_choice_of_json :: "json \<Rightarrow> json option" where
  "openai_choice_of_json j =
     Option.bind (struct_fields [''message''] j) (req_field openai_message_of_json ''message'')"

definition openai_chat_of_json :: "json \<Rightarrow> json list option" where
  "openai_chat_of_json j =
     Option.bind (struct_fields [''choices''] j) (req_field (list_of_json openai_choice_of_json) ''choices'')"

text \<open>In a generic JSON value the last of several equal keys counts.\<close>

definition value_get :: "string \<Rightarrow> json \<Rightarrow> json option" where
  "value_get k j = (case j of JObj fs \<Rightarrow> map_of (rev fs) k | _ \<Rightarrow> None)"

definition content_text :: "json \<Rightarrow> string res" where
  "content_text content =
     (case content of
        JStr t \<Rightarrow> Inr t
      | JArr parts \<Rightarrow>
          (let combined = join_str newline
                 (List.map_filter (\<lambda>part. Option.bind (value_get ''text'' part) string_of_json) parts)
           in if combined = [] then Inl (Error ''openai response missing text content'') else Inr combined)
      | _ \<Rightarrow> Inl (Error ''unsupported OpenAI content type''))"

definition anthropic_block_of_json :: "json \<Rightarrow> string option option" where
  "anthropic_block_of_json j = Option.bind (struct_fields [''text''] j) (opt_field string_of_json ''text'')"

definition anthropic_of_json :: "json \<Rightarrow> string option list option" where
  "anthropic_of_json j =
     Option.bind (struct_fields [''content''] j) (req_field (list_of_json anthropic_block_of_json) ''content'')"

definition first_text :: "string option list \<Rightarrow> string res" where
  "first_text blocks =
     (case List.map_filter id blocks of
        [] \<Rightarrow> Inl (Error ''anthropic response missing text'') | t # _ \<Rightarrow> Inr t)"

definition ollama_of_json :: "json \<Rightarrow> string option" where
  "ollama_of_json j =
     Option.bind (struct_fields [''response''] j) (req_field string_of_json ''response'')"

definition chat_answer ::
  "externs \<Rightarrow> llm_service \<Rightarrow> string \<Rightarrow> string \<Rightarrow> http_outcome \<Rightarrow> invoke_error + llm_response" where
  "chat_answer ex ls missing endpoint outcome =
     bind_res (read_answer ex ls endpoint openai_chat_of_json outcome) (\<lambda>choices.
     bind_res (as_message (case choices of [] \<Rightarrow> Inl (Error missing) | c # _ \<Rightarrow> Inr c)) (\<lambda>content.
     bind_res (as_message (content_text content)) (\<lambda>t.
       as_message (parse_llm_json_text ex (ls_serde_message ls) t))))"

definition invoke_custom_json ::
  "externs \<Rightarrow> llm_service \<Rightarrow> nat \<Rightarrow> resolved_provider \<Rightarrow> classification_job_payload \<Rightarrow>
   nat \<times> (invoke_error + llm_response)" where
  "invoke_custom_json ex ls k p job =
     (case ls_call ls k (custom_json_request p job) of
        (elapsed, outcome) \<Rightarrow>
          (elapsed, bind_res (read_answer ex ls (rp_endpoint p) (llm_response_of_json ex) outcome) (\<lambda>r.
             as_message (response_normalize ex r))))"

definition invoke_openai_chat ::
  "externs \<Rightarrow> llm_service \<Rightarrow> nat \<Rightarrow> resolved_provider \<Rightarrow> string \<Rightarrow> nat \<times> (invoke_error + llm_response)" where
  "invoke_openai_chat ex ls k p prompt =
     apsnd (chat_answer ex ls ''openai response missing choices'' (rp_endpoint p))
       (ls_call ls k (openai_request p prompt))"

definition invoke_lmstudio_chat ::
  "externs \<Rightarrow> llm_service \<Rightarrow> nat \<Rightarrow> resolved_provider \<Rightarrow> string \<Rightarrow> nat \<times> (invoke_error + llm_response)" where
  "invoke_lmstudio_chat ex ls k p prompt =
     apsnd (chat_answer ex ls ''lm studio response missing choices'' (rp_endpoint p))
       (ls_call ls k (lmstudio_request p prompt))"

definition invoke_anthropic ::
  "externs \<Rightarrow> llm_service \<Rightarrow> nat \<Rightarrow> resolved_provider \<Rightarrow> string \<Rightarrow> nat \<times> (invoke_error + llm_response)" where
  "invoke_anthropic ex ls k p prompt =
     (if rp_api_key p = [] then (0, Inl (Message ''anthropic provider requires api_key''))
      else
        (case ls_call ls k (anthropic_request p prompt) of
           (elapsed, outcome) \<Rightarrow>
             (elapsed, bind_res (read_answer ex ls (rp_endpoint p) anthropic_of_json outcome) (\<lambda>blocks.
                bind_res (as_message (first_text blocks)) (\<lambda>t.
                  as_message (parse_llm_json_text ex (ls_serde_message ls) t))))))"

definition invoke_ollama ::
  "externs \<Rightarrow> llm_service \<Rightarrow> nat \<Rightarrow> resolved_provider \<Rightarrow> string \<Rightarrow> nat \<times> (invoke_error + llm_response)" where
  "invoke_ollama ex ls k p prompt =
     (case ls_call ls k (ollama_request p prompt) of
        (elapsed, outcome) \<Rightarrow>
          (elapsed, bind_res (read_answer ex ls (rp_endpoint p) ollama_of_json outcome) (\<lambda>t.
             as_message (parse_llm_json_text ex (ls_serde_message ls) (trim t)))))"

definition invoke_llm ::
  "externs \<Rightarrow> llm_service \<Rightarrow> nat \<Rightarrow> resolved_provider \<Rightarrow> classification_job_payload \<Rightarrow> string \<Rightarrow>
   nat \<times> (invoke_error + llm_response)" where
  "invoke_llm ex ls k p job prompt =
     (case rp_kind p of
        Ollama \<Rightarrow> invoke_ollama ex ls k p prompt
      | LmStudio \<Rightarrow> invoke_lmstudio_chat ex ls k p prompt
      | Openai \<Rightarrow> invoke_openai_chat ex ls k p prompt
      | Vllm \<Rightarrow> invoke_openai_chat ex ls k p prompt
      | OpenaiCompatible \<Rightarrow> invoke_openai_chat ex ls k p prompt
      | Anthropic \<Rightarrow> invoke_anthropic ex ls k p prompt
      | CustomJson \<Rightarrow> invoke_custom_json ex ls k p job)"

definition HEALTHCHECK_PROMPT :: string where
  "HEALTHCHECK_PROMPT =
     ''Return JSON only with this exact shape: {'' @
     join_str '',''
       (map (\<lambda>(k, v). [CHR 0x22] @ k @ [CHR 0x22] @ '':'' @ v)
         [(''primary_category'', [CHR 0x22] @ ''unknown'' @ [CHR 0x22]),
          (''subcategory'', [CHR 0x22] @ ''unclassified'' @ [CHR 0x22]),
          (''risk_level'', [CHR 0x22] @ ''low'' @ [CHR 0x22]),
          (''confidence'', ''0.5''),
          (''recommended_action'', [CHR 0x22] @ ''Allow'' @ [CHR 0x22])]) @ ''}.''"

definition healthcheck_job :: classification_job_payload where
  "healthcheck_job =
     \<lparr>cp_normalized_key = ''domain:healthcheck.internal'', cp_entity_level = ''domain'',
      cp_hostname = ''healthcheck.internal'', cp_full_url = ''https://healthcheck.internal/'',
      cp_trace_id = ''stale-pending-healthcheck'', cp_idempotency_key = None,
      cp_requires_content = False, cp_base_url = None,
      cp_content_excerpt = Some ''Healthcheck payload'', cp_content_hash = None,
      cp_content_version = None, cp_content_language = None, cp_requeue_attempt = 0,
      cp_provider_override = None\<rparr>"

definition invoke_provider_healthcheck ::
  "externs \<Rightarrow> llm_service \<Rightarrow> nat \<Rightarrow> resolved_provider \<Rightarrow> nat \<times> (invoke_error + llm_response)" where
  "invoke_provider_healthcheck ex ls k p = invoke_llm ex ls k p healthcheck_job HEALTHCHECK_PROMPT"

section \<open>Accepted answers\<close>

lemma as_message_Inr_iff [res_simps]: "as_message r = Inr x \<longleftrightarrow> r = Inr x"
  by (cases r rule: as_message.cases) auto

lemma chat_answer_normal: "chat_answer ex ls m e outcome = Inr r \<Longrightarrow> normal_response r"
  by (auto simp: chat_answer_def res_simps dest: parse_llm_json_text_normal)

text \<open>
  Whatever a provider sends, an accepted answer is in normal form: a confidence between zero and
  one, one of the four risk levels and one of the six actions a model may recommend.
\<close>

lemma invoke_llm_normal:
  assumes "snd (invoke_llm ex ls k p job prompt) = Inr r"
  shows "normal_response r"
  using assms
  by (auto simp: invoke_llm_def invoke_ollama_def invoke_lmstudio_chat_def invoke_openai_chat_def
      invoke_anthropic_def invoke_custom_json_def res_simps
      dest: parse_llm_json_text_normal chat_answer_normal response_normalize_normal
      split: provider_kind.splits if_splits prod.splits)

section \<open>Jobs survive the queue\<close>

definition job_in_range :: "classification_job_payload \<Rightarrow> bool" where
  "job_in_range job \<longleftrightarrow> cp_requeue_attempt job < 2 ^ 64 \<and>
     (\<forall>v. cp_content_version job = Some v \<longrightarrow> - (2 ^ 63) \<le> v \<and> v < 2 ^ 63)"

text \<open>Objects written with fields left out: lookup and the absence of repeated keys.\<close>

lemma map_of_skip_none:
  "map_of (skip_none k f x @ fs) k' =
     (if k' = k then (case x of None \<Rightarrow> map_of fs k' | Some y \<Rightarrow> Some (f y)) else map_of fs k')"
  by (simp add: skip_none_def split: option.split)

lemma distinct_skip_none:
  "distinct (map fst (skip_none k f x) @ ks) \<longleftrightarrow> (x = None \<or> k \<notin> set ks) \<and> distinct ks"
  by (auto simp: skip_none_def split: option.split)

lemma skip_none_keys: "k' \<in> fst ` set (skip_none k f x) \<longleftrightarrow> x \<noteq> None \<and> k' = k"
  by (auto simp: skip_none_def split: option.split)

lemma opt_field_written:
  assumes "map_of fs k = (case x of None \<Rightarrow> None | Some y \<Rightarrow> Some (g y))"
    and "\<And>y. x = Some y \<Longrightarrow> g y \<noteq> JNull \<and> f (g y) = Some y"
  shows "opt_field f k fs = Some x"
  using assms by (cases x) (auto simp: opt_field_def split: json.splits)

lemma skip_none_last:
  "map_of (skip_none k f x) k' = (if k' = k then (case x of None \<Rightarrow> None | Some y \<Rightarrow> Some (f y)) else None)"
  "distinct (map fst (skip_none k f x))"
  by (simp_all add: skip_none_def split: option.split)

lemmas written_object = skip_none_last map_of_skip_none distinct_skip_none skip_none_keys

lemma job_payload_fields:
  "\<exists>fs. job_payload_to_json job = JObj fs \<and> distinct (map fst fs) \<and>
     map_of fs ''normalized_key'' = Some (JStr (cp_normalized_key job)) \<and>
     map_of fs ''entity_level'' = Some (JStr (cp_entity_level job)) \<and>
     map_of fs ''hostname'' = Some (JStr (cp_hostname job)) \<and>
     map_of fs ''full_url'' = Some (JStr (cp_full_url job)) \<and>
     map_of fs ''trace_id'' = Some (JStr (cp_trace_id job)) \<and>
     map_of fs ''requires_content'' = Some (JBool (cp_requires_content job)) \<and>
     map_of fs ''requeue_attempt'' = Some (JInt (int (cp_requeue_attempt job))) \<and>
     map_of fs ''idempotency_key'' = (case cp_idempotency_key job of None \<Rightarrow> None | Some y \<Rightarrow> Some (JStr y)) \<and>
     map_of fs ''base_url'' = (case cp_base_url job of None \<Rightarrow> None | Some y \<Rightarrow> Some (JStr y)) \<and>
     map_of fs ''content_excerpt'' = (case cp_content_excerpt job of None \<Rightarrow> None | Some y \<Rightarrow> Some (JStr y)) \<and>
     map_of fs ''content_hash'' = (case cp_content_hash job of None \<Rightarrow> None | Some y \<Rightarrow> Some (JStr y)) \<and>
     map_of fs ''content_version'' = (case cp_content_version job of None \<Rightarrow> None | Some y \<Rightarrow> Some (JInt y)) \<and>
     map_of fs ''content_language'' = (case cp_content_language job of None \<Rightarrow> None | Some y \<Rightarrow> Some (JStr y)) \<and>
     map_of fs ''provider_override'' = (case cp_provider_override job of None \<Rightarrow> None | Some y \<Rightarrow> Some (JStr y))"
  unfolding job_payload_to_json_def
  by (rule exI, rule conjI, rule refl) (simp add: written_object del: map_of_append distinct_append cong: option.case_cong)

lemma job_payload_round:
  assumes "job_in_range job"
  shows "job_payload_of_json (job_payload_to_json job) = Some job"
proof -
  obtain fs where j: "job_payload_to_json job = JObj fs" and d: "distinct (map fst fs)"
    and req: "map_of fs ''normalized_key'' = Some (JStr (cp_normalized_key job))"
      "map_of fs ''entity_level'' = Some (JStr (cp_entity_level job))"
      "map_of fs ''hostname'' = Some (JStr (cp_hostname job))"
      "map_of fs ''full_url'' = Some (JStr (cp_full_url job))"
      "map_of fs ''trace_id'' = Some (JStr (cp_trace_id job))"
      "map_of fs ''requires_content'' = Some (JBool (cp_requires_content job))"
      "map_of fs ''requeue_attempt'' = Some (JInt (int (cp_requeue_attempt job)))"
    and opt: "map_of fs ''idempotency_key'' = (case cp_idempotency_key job of None \<Rightarrow> None | Some y \<Rightarrow> Some (JStr y))"
      "map_of fs ''base_url'' = (case cp_base_url job of None \<Rightarrow> None | Some y \<Rightarrow> Some (JStr y))"
      "map_of fs ''content_excerpt'' = (case cp_content_excerpt job of None \<Rightarrow> None | Some y \<Rightarrow> Some (JStr y))"
      "map_of fs ''content_hash'' = (case cp_content_hash job of None \<Rightarrow> None | Some y \<Rightarrow> Some (JStr y))"
      "map_of fs ''content_version'' = (case cp_content_version job of None \<Rightarrow> None | Some y \<Rightarrow> Some (JInt y))"
      "map_of fs ''content_language'' = (case cp_content_language job of None \<Rightarrow> None | Some y \<Rightarrow> Some (JStr y))"
      "map_of fs ''provider_override'' = (case cp_provider_override job of None \<Rightarrow> None | Some y \<Rightarrow> Some (JStr y))"
    using job_payload_fields [of job] by blast
  have v: "opt_field i64_of_json ''content_version'' fs = Some (cp_content_version job)"
    by (rule opt_field_written [OF opt(5)]) (use assms in \<open>simp_all add: job_in_range_def\<close>)
  have "opt_field string_of_json k fs = Some x"
    if "map_of fs k = (case x of None \<Rightarrow> None | Some y \<Rightarrow> Some (JStr y))" for k x
    using opt_field_written [OF that] by simp
  with assms v req opt d j show ?thesis
    by (simp add: job_payload_of_json_def req_field_def default_field_def job_in_range_def
        distinct_filter)
qed

lemma usize_of_json_range: "usize_of_json j = Some n \<Longrightarrow> n < 2 ^ 64"
  by (cases j) (auto split: if_splits)

lemma i64_of_json_range: "i64_of_json j = Some i \<Longrightarrow> - (2 ^ 63) \<le> i \<and> i < 2 ^ 63"
  by (cases j) (auto split: if_splits)

lemma default_field_range:
  "default_field d f k fs = Some x \<Longrightarrow> P d \<Longrightarrow> (\<And>j. f j = Some x \<Longrightarrow> P x) \<Longrightarrow> P x"
  by (auto simp: default_field_def split: option.splits)

lemma opt_field_range: "opt_field f k fs = Some (Some x) \<Longrightarrow> \<exists>j. f j = Some x"
  by (auto simp: opt_field_def split: option.splits json.splits)

lemma job_payload_of_json_in_range:
  assumes "job_payload_of_json j = Some job"
  shows "job_in_range job"
proof -
  obtain fs where "default_field 0 usize_of_json ''requeue_attempt'' fs = Some (cp_requeue_attempt job)"
    and "opt_field i64_of_json ''content_version'' fs = Some (cp_content_version job)"
    using assms by (auto simp: job_payload_of_json_def bind_eq_Some_conv)
  then show ?thesis
    using default_field_range [of 0 usize_of_json _ fs _ "\<lambda>n. n < 2 ^ 64"] usize_of_json_range
      opt_field_range [of i64_of_json _ fs] i64_of_json_range
    unfolding job_in_range_def by (metis zero_less_numeral zero_less_power)
qed

lemma job_payload_finite [simp]: "json_finite (job_payload_to_json job)"
  by (simp add: job_payload_to_json_def skip_none_def split: option.split)

section \<open>The size of a prompt\<close>

lemma chars_take_count: "chars_count (chars_take n s) = min n (chars_count s)"
  by (induction n s rule: chars_take.induct) (auto simp: chars_count_def split: nat.splits)

lemma chars_take_all: "chars_count s \<le> n \<Longrightarrow> chars_take n s = s"
  by (induction n s rule: chars_take.induct) (auto simp: chars_count_def split: nat.splits if_splits)

lemma format_excerpt_bounds:
  "chars_count (fst (format_excerpt s)) \<le> PROMPT_HTML_CONTEXT_LIMIT + 1"
  "\<not> snd (format_excerpt s) \<Longrightarrow> fst (format_excerpt s) = trim s"
proof -
  have e: "chars_count (t @ ellipsis) = chars_count t + 1" for t
    by (simp add: chars_count_def ellipsis_def utf8_continuation_def byte_in_def)
  show "chars_count (fst (format_excerpt s)) \<le> PROMPT_HTML_CONTEXT_LIMIT + 1"
    by (auto simp: format_excerpt_def Let_def e chars_take_count)
  show "\<not> snd (format_excerpt s) \<Longrightarrow> fst (format_excerpt s) = trim s"
    by (simp add: format_excerpt_def Let_def chars_take_count chars_take_all)
qed

end
