(* ===== verification/Llm_Budget.thy ===== *)
theory Llm_Budget
  imports Llm_Config
begin

text \<open>
  The two rate limiters of the classification worker, \<open>WindowBudgetState\<close> for diversions of stale
  jobs and \<open>FallbackBudgetState\<close> with its cooldown for calls to the fallback provider.  An
  \<open>Instant\<close> is a number of milliseconds.  Both are shown to implement the same fixed-window
  counter, from which the bound on the number of permitted calls follows once.
\<close>

section \<open>Model\<close>

definition as_secs :: "time \<Rightarrow> nat" where
  "as_secs ms = ms div 1000"

definition slide_window :: "time \<Rightarrow> time \<times> time list \<Rightarrow> time \<times> time list" where
  "slide_window now w =
     (case (if as_secs (now - fst w) \<ge> 60 then (now, []) else w) of
        (start, events) \<Rightarrow> (start, dropWhile (\<lambda>ts. as_secs (now - ts) \<ge> 60) events))"

record window_budget =
  wb_window_start :: time
  wb_window_events :: "time list"

definition window_new :: "time \<Rightarrow> window_budget" where
  "window_new now = \<lparr>wb_window_start = now, wb_window_events = []\<rparr>"

definition window_allow_and_record :: "nat \<Rightarrow> time \<Rightarrow> window_budget \<Rightarrow> bool \<times> window_budget" where
  "window_allow_and_record max_per_min now st =
     (case slide_window now (wb_window_start st, wb_window_events st) of
        (start, events) \<Rightarrow>
          if length events \<ge> max_per_min
          then (False, st\<lparr>wb_window_start := start, wb_window_events := events\<rparr>)
          else (True, st\<lparr>wb_window_start := start, wb_window_events := events @ [now]\<rparr>))"

record fallback_budget =
  fb_opened_until :: "time option"
  fb_window_start :: time
  fb_window_events :: "time list"

definition fallback_new :: "time \<Rightarrow> fallback_budget" where
  "fallback_new now = \<lparr>fb_opened_until = None, fb_window_start = now, fb_window_events = []\<rparr>"

definition fallback_allow_and_record ::
  "failover_runtime \<Rightarrow> time \<Rightarrow> fallback_budget \<Rightarrow> (string + unit) \<times> fallback_budget" where
  "fallback_allow_and_record fo now st =
     (if (case fb_opened_until st of None \<Rightarrow> False | Some until \<Rightarrow> now < until)
      then (Inl ''cooldown_active'', st)
      else
        (case slide_window now (fb_window_start st, fb_window_events st) of
           (start, events) \<Rightarrow>
             if length events \<ge> fo_fallback_max_per_min fo
             then (Inl ''budget_exhausted'',
               \<lparr>fb_opened_until = None, fb_window_start = start, fb_window_events = events\<rparr>)
             else (Inr (),
               \<lparr>fb_opened_until = None, fb_window_start = start, fb_window_events = events @ [now]\<rparr>)))"

definition trip_cooldown :: "failover_runtime \<Rightarrow> time \<Rightarrow> fallback_budget \<Rightarrow> fallback_budget" where
  "trip_cooldown fo now st =
     st\<lparr>fb_opened_until := Some (now + 1000 * fo_fallback_cooldown_secs fo)\<rparr>"

section \<open>The fixed-window counter\<close>

text \<open>
  The specification: a window of one minute with the number of calls permitted in it.  The first
  call after the minute opens the next window.
\<close>

definition fixed_window :: "nat \<Rightarrow> time \<times> nat \<Rightarrow> time \<Rightarrow> bool \<times> time \<times> nat" where
  "fixed_window limit w now =
     (let (start, n) = (if fst w + 60000 \<le> now then (now, 0) else w)
      in if n < limit then (True, start, Suc n) else (False, start, n))"

text \<open>The times at which a sequence of attempts is permitted.\<close>

fun permitted :: "(time \<Rightarrow> 's \<Rightarrow> bool \<times> 's) \<Rightarrow> 's \<Rightarrow> time list \<Rightarrow> time list" where
  "permitted attempt s [] = []"
| "permitted attempt s (now # ts) =
     (case attempt now s of (b, s') \<Rightarrow> (if b then [now] else []) @ permitted attempt s' ts)"

lemma permitted_ge:
  "\<forall>a \<in> set ts. t \<le> a \<Longrightarrow> \<forall>a \<in> set (permitted attempt s ts). t \<le> a"
  by (induction attempt s ts rule: permitted.induct) (auto split: prod.splits)

locale window_limiter =
  fixes attempt :: "time \<Rightarrow> 's \<Rightarrow> bool \<times> 's"
    and window :: "'s \<Rightarrow> time \<times> nat"
    and wf :: "'s \<Rightarrow> bool"
    and limit :: nat
  assumes attempt_wf: "wf s \<Longrightarrow> fst (window s) \<le> now \<Longrightarrow> wf (snd (attempt now s))"
    and attempt_refines: "wf s \<Longrightarrow> fst (window s) \<le> now \<Longrightarrow>
      (\<not> fst (attempt now s) \<and> window (snd (attempt now s)) = window s) \<or>
      (fst (attempt now s), window (snd (attempt now s))) = fixed_window limit (window s) now"
begin

definition within :: "time \<Rightarrow> 's \<Rightarrow> time list \<Rightarrow> nat" where
  "within t s ts = length (filter (\<lambda>a. t \<le> a \<and> a < t + 60000) (permitted attempt s ts))"

lemma attempt_cases [consumes 3, case_names same counted fresh]:
  assumes "attempt now s = (b, s')" "wf s" "fst (window s) \<le> now"
  obtains "\<not> b" "window s' = window s" "wf s'"
  | "b" "now < fst (window s) + 60000" "snd (window s) < limit"
      "window s' = (fst (window s), Suc (snd (window s)))" "wf s'"
  | "fst (window s) + 60000 \<le> now" "window s' = (now, if b then 1 else 0)" "b \<longleftrightarrow> 0 < limit" "wf s'"
  using attempt_refines [OF assms(2,3)] attempt_wf [OF assms(2,3)] assms(1)
  by (cases "window s") (auto simp: fixed_window_def Let_def split: if_splits)

lemma within_Cons:
  assumes "attempt now s = (b, s')"
  shows "within t s (now # ts) =
    (if b \<and> t \<le> now \<and> now < t + 60000 then 1 else 0) + within t s' ts"
  using assms by (simp add: within_def)

lemma within_late:
  assumes "sorted ts" "\<forall>a \<in> set ts. t + 60000 \<le> a"
  shows "within t s ts = 0"
  using permitted_ge [OF assms(2)] by (fastforce simp: within_def filter_empty_conv)

text \<open>A window that opened inside the minute in question is the last one to count.\<close>

lemma within_one_window:
  assumes "wf s" "sorted ts" "\<forall>a \<in> set ts. fst (window s) \<le> a" "t \<le> fst (window s)"
  shows "within t s ts \<le> limit - snd (window s)"
  using assms
proof (induction ts arbitrary: s)
  case Nil
  then show ?case by (simp add: within_def)
next
  case (Cons now ts)
  obtain b s' where a: "attempt now s = (b, s')" by (cases "attempt now s")
  have le: "fst (window s) \<le> now" using Cons.prems(3) by simp
  from a Cons.prems(1) le show ?case
  proof (cases rule: attempt_cases)
    case same
    with Cons.IH [of s'] Cons.prems show ?thesis by (auto simp: within_Cons [OF a] split: if_splits)
  next
    case counted
    with Cons.IH [of s'] Cons.prems show ?thesis by (auto simp: within_Cons [OF a] split: if_splits)
  next
    case fresh
    with Cons.prems within_late [of ts t s'] show ?thesis by (force simp: within_Cons [OF a])
  qed
qed

lemma within_two_windows:
  assumes "wf s" "sorted ts" "\<forall>a \<in> set ts. fst (window s) \<le> a" "snd (window s) \<le> limit"
  shows "within t s ts \<le>
    (if fst (window s) + 60000 \<le> t then 2 * limit else (limit - snd (window s)) + limit)"
  using assms
proof (induction ts arbitrary: s)
  case Nil
  then show ?case by (simp add: within_def)
next
  case (Cons now ts)
  obtain b s' where a: "attempt now s = (b, s')" by (cases "attempt now s")
  have le: "fst (window s) \<le> now" using Cons.prems(3) by simp
  from a Cons.prems(1) le show ?case
  proof (cases rule: attempt_cases)
    case same
    with Cons.IH [of s'] Cons.prems show ?thesis by (auto simp: within_Cons [OF a] split: if_splits)
  next
    case counted
    with Cons.IH [of s'] Cons.prems show ?thesis by (auto simp: within_Cons [OF a] split: if_splits)
  next
    case fresh
    show ?thesis
    proof (cases "t \<le> now")
      case True
      with fresh Cons.prems within_one_window [of s' ts t] show ?thesis
        by (auto simp: within_Cons [OF a] split: if_splits)
    next
      case False
      with fresh Cons.prems Cons.IH [of s'] show ?thesis
        by (auto simp: within_Cons [OF a] split: if_splits)
    qed
  qed
qed

lemma permitted_per_minute:
  assumes "wf s" "sorted ts" "\<forall>a \<in> set ts. fst (window s) \<le> a" "snd (window s) \<le> limit"
  shows "within t s ts \<le> 2 * limit"
  using within_two_windows [OF assms, of t] by (auto split: if_splits)

end

section \<open>Both limiters are fixed-window counters\<close>

text \<open>
  The sliding eviction never removes an event that the reset of the window has not removed: while
  a window is open all its events are younger than a minute.
\<close>

definition window_wf :: "time \<times> time list \<Rightarrow> bool" where
  "window_wf w \<longleftrightarrow> (\<forall>a \<in> set (snd w). fst w \<le> a)"

lemma slide_window_eq:
  assumes "window_wf w" "fst w \<le> now"
  shows "slide_window now w = (if fst w + 60000 \<le> now then (now, []) else w)"
proof -
  have "60 \<le> as_secs (now - fst w) \<longleftrightarrow> fst w + 60000 \<le> now"
    using assms(2) by (auto simp: as_secs_def)
  moreover have "dropWhile (\<lambda>ts. 60 \<le> as_secs (now - ts)) (snd w) = snd w" if "\<not> fst w + 60000 \<le> now"
    using assms(1) that by (cases "snd w") (auto simp: window_wf_def as_secs_def)
  ultimately show ?thesis by (cases w) (auto simp: slide_window_def)
qed

interpretation wb: window_limiter "window_allow_and_record m"
  "\<lambda>st. (wb_window_start st, length (wb_window_events st))"
  "\<lambda>st. window_wf (wb_window_start st, wb_window_events st)" m
  for m
  by unfold_locales
    (auto simp: window_allow_and_record_def slide_window_eq fixed_window_def window_wf_def Let_def)

interpretation fb: window_limiter
  "\<lambda>now st. (case fallback_allow_and_record fo now st of (r, st') \<Rightarrow> (is_ok r, st'))"
  "\<lambda>st. (fb_window_start st, length (fb_window_events st))"
  "\<lambda>st. window_wf (fb_window_start st, fb_window_events st)" "fo_fallback_max_per_min fo"
  for fo
  by unfold_locales
    (auto simp: fallback_allow_and_record_def slide_window_eq fixed_window_def window_wf_def Let_def
      split: option.splits)

section \<open>The bound\<close>

definition in_minute :: "time \<Rightarrow> time list \<Rightarrow> time list" where
  "in_minute t ts = filter (\<lambda>a. t \<le> a \<and> a < t + 60000) ts"

text \<open>
  Diversions of stale jobs and calls to the fallback provider are bounded: in any sixty seconds at
  most twice the configured number per minute is granted, whatever the times of the requests and
  whether or not a cooldown was in force.
\<close>

theorem budget_bound:
  assumes "sorted ts" "\<forall>a \<in> set ts. t0 \<le> a"
  shows "length (in_minute t (permitted (window_allow_and_record m) (window_new t0) ts)) \<le> 2 * m \<and>
    length (in_minute t (permitted
      (\<lambda>now st. (case fallback_allow_and_record fo now st of (r, st') \<Rightarrow> (is_ok r, st')))
      (fallback_new t0) ts)) \<le> 2 * fo_fallback_max_per_min fo"
  using assms wb.permitted_per_minute [of "window_new t0" ts m t]
    fb.permitted_per_minute [of "fallback_new t0" ts fo t]
  by (simp add: wb.within_def fb.within_def in_minute_def window_new_def fallback_new_def window_wf_def)

text \<open>
  The bound is reached: requests at the end of one window and at the start of the next are granted
  twice the number within a second.
\<close>

lemma budget_bound_tight:
  "length (in_minute 59500 (permitted (window_allow_and_record 2) (window_new 0)
     [59500, 59600, 60000, 60100])) = 4"
  by (simp add: in_minute_def window_allow_and_record_def window_new_def slide_window_def as_secs_def)

text \<open>While a cooldown lasts nothing is granted, and the budget is left as it is.\<close>

lemma cooldown_denies:
  assumes "now < t + 1000 * fo_fallback_cooldown_secs fo"
  shows "fallback_allow_and_record fo now (trip_cooldown fo t st) =
    (Inl ''cooldown_active'', trip_cooldown fo t st)"
  using assms by (simp add: fallback_allow_and_record_def trip_cooldown_def)

end
