(* ===== verification/Llm_World.thy ===== *)
theory Llm_World
  imports Llm_Provider Llm_Budget Cache_Invalidator Activation
begin

text \<open>
  The state the classification worker works on and the statements it issues.

  \<^item> The database tables it writes are lists of rows; \<open>page_contents\<close>, which only the page fetcher
    writes, is a function of the time, so that content may arrive while the worker waits.
  \<^item> Redis is a map of keys, a list of published messages, a list of stream entries and a list of
    acknowledged entries.
  \<^item> \<open>lw_fails k\<close> says that the \<open>k\<close>-th statement or command fails; what earlier ones did stays, for the
    worker opens no transaction.
  \<^item> One clock in milliseconds serves \<open>NOW()\<close> and \<open>Instant::now()\<close>; it moves when the worker sleeps
    and while a provider answers.

  Metrics and log lines are not modelled.  The confidence column keeps four decimals; the model keeps
  the value that is bound.
\<close>

section \<open>State\<close>

record class_row =
  cl_id :: uuid
  cl_normalized_key :: string
  cl_taxonomy_version :: string
  cl_model_version :: string
  cl_primary_category :: string
  cl_subcategory :: string
  cl_risk_level :: string
  cl_recommended_action :: string
  cl_confidence :: f32
  cl_sfw :: bool
  cl_flags :: json
  cl_ttl_seconds :: nat
  cl_status :: string
  cl_next_refresh_at :: time
  cl_updated_at :: time

record class_version_row =
  cw_id :: uuid
  cw_classification_id :: uuid
  cw_version :: nat
  cw_changed_by :: string
  cw_reason :: string
  cw_payload :: json

record request_row =
  rq_normalized_key :: string
  rq_status :: string
  rq_base_url :: "string option"
  rq_last_error :: "string option"
  rq_requested_at :: time
  rq_updated_at :: time

record page_content_row =
  pc_normalized_key :: string
  pc_fetch_version :: nat
  pc_content_hash :: "string option"
  pc_text_excerpt :: "string option"
  pc_fetch_status :: string
  pc_expires_at :: time

record worker_world =
  lw_now :: time
  lw_classifications :: "class_row list"
  lw_versions :: "class_version_row list"
  lw_requests :: "request_row list"
  lw_redis :: "string \<rightharpoonup> string \<times> time"
  lw_published :: "(string \<times> string) list"
  lw_streams :: "(string \<times> (string \<times> string) list) list"
  lw_acked :: "string list"
  lw_ops :: nat
  lw_fails :: "nat \<Rightarrow> bool"
  lw_uuid_next :: nat
  lw_uuids :: "nat \<Rightarrow> uuid"
  lw_calls :: nat
  lw_fallback_budget :: fallback_budget
  lw_divert_budget :: window_budget
  lw_health :: "string \<rightharpoonup> time \<times> bool"

record worker_env =
  we_ex :: externs
  we_llm :: llm_service
  we_pages :: "time \<Rightarrow> page_content_row list"
  we_rfc3339 :: "int \<Rightarrow> string option"

text \<open>
  A job ends with one of the error types the code tells apart, or with a panic, which no handler
  sees.
\<close>

datatype job_error =
  ContentNotReady | RetryableJob string | NonRetryableJob string | OtherJob string | JobPanic string

fun job_error_text :: "job_error \<Rightarrow> string" where
  "job_error_text ContentNotReady = ''page content not ready''"
| "job_error_text (RetryableJob r) = r"
| "job_error_text (NonRetryableJob r) = r"
| "job_error_text (OtherJob m) = m"
| "job_error_text (JobPanic m) = m"

type_synonym 'a job = "worker_world \<Rightarrow> (job_error + 'a) \<times> worker_world"

definition job_return :: "'a \<Rightarrow> 'a job" where
  "job_return x w = (Inr x, w)"

definition job_fail :: "job_error \<Rightarrow> 'a job" where
  "job_fail e w = (Inl e, w)"

definition job_bind :: "'a job \<Rightarrow> ('a \<Rightarrow> 'b job) \<Rightarrow> 'b job" where
  "job_bind m f w = (case m w of (Inl e, w') \<Rightarrow> (Inl e, w') | (Inr x, w') \<Rightarrow> f x w')"

text \<open>\<open>match\<close> on the result of a call: the error is a value and the program goes on.\<close>

definition job_try :: "'a job \<Rightarrow> (job_error + 'a) job" where
  "job_try m w = (case m w of
     (Inl (JobPanic p), w') \<Rightarrow> (Inl (JobPanic p), w') | (r, w') \<Rightarrow> (Inr r, w'))"

definition job_context :: "string \<Rightarrow> 'a job \<Rightarrow> 'a job" where
  "job_context msg m w = (case m w of
     (Inl (JobPanic p), w') \<Rightarrow> (Inl (JobPanic p), w')
   | (Inl e, w') \<Rightarrow> (Inl (OtherJob msg), w') | (Inr x, w') \<Rightarrow> (Inr x, w'))"

fun job_lift :: "'a res \<Rightarrow> 'a job" where
  "job_lift (Inr x) = job_return x"
| "job_lift (Inl (Error m)) = job_fail (OtherJob m)"
| "job_lift (Inl (Panic m)) = job_fail (JobPanic m)"

definition job_get :: "(worker_world \<Rightarrow> 'a) \<Rightarrow> 'a job" where
  "job_get f w = (Inr (f w), w)"

definition job_sleep :: "nat \<Rightarrow> unit job" where
  "job_sleep ms w = (Inr (), w\<lparr>lw_now := lw_now w + ms\<rparr>)"

definition job_op :: "string \<Rightarrow> (worker_world \<Rightarrow> 'a \<times> worker_world) \<Rightarrow> 'a job" where
  "job_op msg f w =
     (let w' = w\<lparr>lw_ops := Suc (lw_ops w)\<rparr>
      in if lw_fails w (lw_ops w) then (Inl (OtherJob msg), w')
         else (case f w' of (x, w'') \<Rightarrow> (Inr x, w'')))"

definition job_sql :: "(worker_world \<Rightarrow> 'a \<times> worker_world) \<Rightarrow> 'a job" where
  "job_sql f = job_op ''database error'' f"

definition job_query :: "(worker_world \<Rightarrow> 'a) \<Rightarrow> 'a job" where
  "job_query f = job_sql (\<lambda>w. (f w, w))"

definition job_redis :: "(worker_world \<Rightarrow> 'a \<times> worker_world) \<Rightarrow> 'a job" where
  "job_redis f = job_op ''redis error'' f"

definition job_connect :: "unit job" where
  "job_connect = job_redis (\<lambda>w. ((), w))"

definition job_uuid :: "uuid job" where
  "job_uuid w = (Inr (lw_uuids w (lw_uuid_next w)), w\<lparr>lw_uuid_next := Suc (lw_uuid_next w)\<rparr>)"

definition xadd :: "string \<Rightarrow> (string \<times> string) list \<Rightarrow> unit job" where
  "xadd stream fs =
     job_redis (\<lambda>w. ((), w\<lparr>lw_streams := lw_streams w @ [(stream, fs)]\<rparr>))"

section \<open>What a program leaves alone\<close>

text \<open>
  \<open>keeps R m\<close>: whatever \<open>m\<close> returns, the states before and after are related.  For a reflexive and
  transitive relation the rules below reduce this to the single statements.
\<close>

definition keeps :: "(worker_world \<Rightarrow> worker_world \<Rightarrow> bool) \<Rightarrow> 'a job \<Rightarrow> bool" where
  "keeps R m \<longleftrightarrow> (\<forall>w. R w (snd (m w)))"

lemma keepsD: "keeps R m \<Longrightarrow> m w = (r, w') \<Longrightarrow> R w w'"
  by (metis keeps_def snd_conv)

locale job_frame =
  fixes R :: "worker_world \<Rightarrow> worker_world \<Rightarrow> bool"
  assumes frame_refl: "R w w"
    and frame_trans: "R a b \<Longrightarrow> R b c \<Longrightarrow> R a c"
    and frame_ops: "R w (w\<lparr>lw_ops := n\<rparr>)"
    and frame_time: "R w (w\<lparr>lw_now := lw_now w + t\<rparr>)"
    and frame_uuid: "R w (w\<lparr>lw_uuid_next := n\<rparr>)"
begin

lemma keeps_return [intro!]: "keeps R (job_return x)"
  by (simp add: keeps_def job_return_def frame_refl)

lemma keeps_fail [intro!]: "keeps R (job_fail e)"
  by (simp add: keeps_def job_fail_def frame_refl)

lemma keeps_get [intro!]: "keeps R (job_get f)"
  by (simp add: keeps_def job_get_def frame_refl)

lemma keeps_lift [intro!]: "keeps R (job_lift r)"
  by (cases r rule: job_lift.cases) auto

lemma keeps_sleep [intro!]: "keeps R (job_sleep t)"
  by (simp add: keeps_def job_sleep_def frame_time)

lemma keeps_uuid [intro!]: "keeps R job_uuid"
  by (simp add: keeps_def job_uuid_def frame_uuid)

lemma keeps_bind [intro!]: "keeps R m \<Longrightarrow> (\<And>x. keeps R (f x)) \<Longrightarrow> keeps R (job_bind m f)"
  unfolding keeps_def job_bind_def
  by (auto split: prod.split sum.split) (metis frame_trans snd_conv)+

lemma keeps_try [intro!]: "keeps R m \<Longrightarrow> keeps R (job_try m)"
  unfolding keeps_def job_try_def
  by (auto split: prod.split sum.split job_error.split) (metis snd_conv)+

lemma keeps_context [intro!]: "keeps R m \<Longrightarrow> keeps R (job_context msg m)"
  unfolding keeps_def job_context_def
  by (auto split: prod.split sum.split job_error.split) (metis snd_conv)+

lemma keeps_op: "(\<And>w. R w (snd (f w))) \<Longrightarrow> keeps R (job_op msg f)"
  unfolding keeps_def job_op_def Let_def
  by (auto split: prod.split) (metis frame_ops frame_trans snd_conv)+

lemma keeps_sql: "(\<And>w. R w (snd (f w))) \<Longrightarrow> keeps R (job_sql f)"
  by (simp add: job_sql_def keeps_op)

lemma keeps_redis: "(\<And>w. R w (snd (f w))) \<Longrightarrow> keeps R (job_redis f)"
  by (simp add: job_redis_def keeps_op)

lemma keeps_query [intro!]: "keeps R (job_query f)"
  by (simp add: job_query_def keeps_sql frame_refl)

lemma keeps_connect [intro!]: "keeps R job_connect"
  by (simp add: job_connect_def keeps_redis frame_refl)

end

text \<open>\<open>yields P m\<close>: whenever \<open>m\<close> returns a value, the value satisfies \<open>P\<close>.\<close>

definition yields :: "('a \<Rightarrow> bool) \<Rightarrow> 'a job \<Rightarrow> bool" where
  "yields P m \<longleftrightarrow> (\<forall>w x w'. m w = (Inr x, w') \<longrightarrow> P x)"

lemma yieldsD: "yields P m \<Longrightarrow> m w = (Inr x, w') \<Longrightarrow> P x"
  by (auto simp: yields_def)

lemma yields_return [intro!]: "P x \<Longrightarrow> yields P (job_return x)"
  by (simp add: yields_def job_return_def)

lemma yields_fail [intro!]: "yields P (job_fail e)"
  by (simp add: yields_def job_fail_def)

lemma yields_bind: "yields Q m \<Longrightarrow> (\<And>x. Q x \<Longrightarrow> yields P (f x)) \<Longrightarrow> yields P (job_bind m f)"
  unfolding yields_def job_bind_def by (auto split: prod.splits sum.splits) metis

lemma yields_then: "(\<And>x. yields P (f x)) \<Longrightarrow> yields P (job_bind m f)"
  unfolding yields_def job_bind_def by (auto split: prod.splits sum.splits)

lemma yields_mono: "yields Q m \<Longrightarrow> (\<And>x. Q x \<Longrightarrow> P x) \<Longrightarrow> yields P m"
  by (auto simp: yields_def)

text \<open>\<open>raises E m\<close>: whenever \<open>m\<close> fails, the error satisfies \<open>E\<close>.\<close>

definition raises :: "(job_error \<Rightarrow> bool) \<Rightarrow> 'a job \<Rightarrow> bool" where
  "raises E m \<longleftrightarrow> (\<forall>w e w'. m w = (Inl e, w') \<longrightarrow> E e)"

lemma raisesD: "raises E m \<Longrightarrow> m w = (Inl e, w') \<Longrightarrow> E e"
  by (auto simp: raises_def)

lemma raises_return [intro!]: "raises E (job_return x)"
  by (simp add: raises_def job_return_def)

lemma raises_get [intro!]: "raises E (job_get f)"
  by (simp add: raises_def job_get_def)

lemma raises_sleep [intro!]: "raises E (job_sleep t)"
  by (simp add: raises_def job_sleep_def)

lemma raises_uuid [intro!]: "raises E job_uuid"
  by (simp add: raises_def job_uuid_def)

lemma raises_fail [intro!]: "E e \<Longrightarrow> raises E (job_fail e)"
  by (simp add: raises_def job_fail_def)

lemma raises_bind [intro!]: "raises E m \<Longrightarrow> (\<And>x. raises E (f x)) \<Longrightarrow> raises E (job_bind m f)"
  unfolding raises_def job_bind_def by (auto split: prod.splits sum.splits)

lemma raises_op: "E (OtherJob msg) \<Longrightarrow> raises E (job_op msg f)"
  by (auto simp: raises_def job_op_def Let_def split: prod.splits if_splits)

section \<open>Results of compound programs\<close>

named_theorems job_simps \<open>results of the worker's programs\<close>

lemma job_bind_Inr [job_simps]:
  "job_bind m f w = (Inr y, w'') \<longleftrightarrow> (\<exists>x w'. m w = (Inr x, w') \<and> f x w' = (Inr y, w''))"
  by (auto simp: job_bind_def split: prod.splits sum.splits)

lemma job_bind_Inl [job_simps]:
  "job_bind m f w = (Inl e, w'') \<longleftrightarrow>
     m w = (Inl e, w'') \<or> (\<exists>x w'. m w = (Inr x, w') \<and> f x w' = (Inl e, w''))"
  by (auto simp: job_bind_def split: prod.splits sum.splits)

lemma job_bindE:
  assumes "job_bind m f w = (Inr y, w'')"
  obtains x w' where "m w = (Inr x, w')" "f x w' = (Inr y, w'')"
  using assms by (auto simp: job_bind_Inr)

lemma job_return_eq [job_simps]: "job_return x w = (r, w') \<longleftrightarrow> r = Inr x \<and> w' = w"
  by (auto simp: job_return_def)

lemma job_fail_eq [job_simps]: "job_fail e w = (r, w') \<longleftrightarrow> r = Inl e \<and> w' = w"
  by (auto simp: job_fail_def)

lemma job_get_eq [job_simps]: "job_get f w = (r, w') \<longleftrightarrow> r = Inr (f w) \<and> w' = w"
  by (auto simp: job_get_def)

lemma job_sleep_eq [job_simps]:
  "job_sleep t w = (r, w') \<longleftrightarrow> r = Inr () \<and> w' = w\<lparr>lw_now := lw_now w + t\<rparr>"
  by (auto simp: job_sleep_def)

lemma job_lift_Inr [job_simps]: "job_lift x w = (Inr y, w') \<longleftrightarrow> x = Inr y \<and> w' = w"
  by (cases x rule: job_lift.cases) (auto simp: job_return_def job_fail_def)

lemma job_context_Inr [job_simps]: "job_context msg m w = (Inr x, w') \<longleftrightarrow> m w = (Inr x, w')"
  by (auto simp: job_context_def split: prod.splits sum.splits job_error.splits)

lemma job_op_Inr [job_simps]:
  "job_op msg f w = (Inr x, w') \<longleftrightarrow>
     \<not> lw_fails w (lw_ops w) \<and> f (w\<lparr>lw_ops := Suc (lw_ops w)\<rparr>) = (x, w')"
  by (auto simp: job_op_def Let_def split: prod.splits)

lemma job_op_Inl: "job_op msg f w = (Inl e, w') \<Longrightarrow> e = OtherJob msg"
  by (auto simp: job_op_def Let_def split: prod.splits if_splits)

end
