(* ===== verification/Llm_Worker.thy ===== *)
theory Llm_Worker
  imports Llm_World
begin

text \<open>
  The job consumer of \<^verbatim>\<open>workers/llm-worker/src/main.rs\<close>: fetching page content, choosing and calling a
  provider with retries and fallback, validating the answer against the taxonomy, the guardrails,
  storing the classification, invalidating the cache and keeping the table of pending requests.
\<close>

section \<open>The consumer\<close>

record job_consumer =
  jc_stream :: string
  jc_page_fetch_stream :: string
  jc_cache_channel :: string
  jc_router :: provider_router
  jc_taxonomy :: taxonomy_store
  jc_taxonomy_prompt :: string
  jc_activation :: activation_profile
  jc_failover :: failover_runtime
  jc_stale_pending :: "stale_pending_runtime option"
  jc_online_context :: online_context_runtime
  jc_prompt_injection :: prompt_injection_runtime
  jc_max_requeue_attempts :: nat
  jc_idempotency_ttl_seconds :: nat

definition job_consumer_new ::
  "environment \<Rightarrow> worker_config \<Rightarrow> provider_router \<Rightarrow> stale_pending_runtime option \<Rightarrow>
   online_context_runtime \<Rightarrow> taxonomy_store \<Rightarrow> activation_profile \<Rightarrow> failover_runtime \<Rightarrow>
   prompt_injection_runtime \<Rightarrow> job_consumer" where
  "job_consumer_new env cfg router stale_pending online_context taxonomy activation failover prompt_injection =
     \<lparr>jc_stream = wc_stream cfg, jc_page_fetch_stream = wc_page_fetch_stream cfg,
      jc_cache_channel = wc_cache_channel cfg, jc_router = router, jc_taxonomy = taxonomy,
      jc_taxonomy_prompt = build_taxonomy_prompt taxonomy, jc_activation = activation,
      jc_failover = failover, jc_stale_pending = stale_pending, jc_online_context = online_context,
      jc_prompt_injection = prompt_injection,
      jc_max_requeue_attempts = max (unwrap_or (or_else (env_usize env ''OD_LLM_JOB_REQUEUE_MAX'')
        (rt_requeue_max_attempts (wc_routing cfg))) 6) 1,
      jc_idempotency_ttl_seconds =
        max (unwrap_or (env_usize env ''OD_LLM_IDEMPOTENCY_TTL_SECONDS'') 86400) 60\<rparr>"

text \<open>Start-up: an activation profile that cannot be read is replaced by one that allows everything.\<close>

definition worker_activation ::
  "time \<Rightarrow> activation_db res \<Rightarrow> activation_profile \<times> bool" where
  "worker_activation now tables =
     (case activation_load_from_db tables of
        Inr state \<Rightarrow> (state, True)
      | Inl _ \<Rightarrow> (activation_allow_all now, False))"

section \<open>Page content\<close>

definition load_page_content ::
  "worker_env \<Rightarrow> string \<Rightarrow> (string option \<times> string option \<times> int) option job" where
  "load_page_content we key =
     job_query (\<lambda>w. map_option
       (\<lambda>row. (pc_text_excerpt row, pc_content_hash row, int (pc_fetch_version row)))
       (latest_by pc_fetch_version
         (filter (\<lambda>row. pc_normalized_key row = key \<and> to_lowercase (we_ex we) (pc_fetch_status row) = ''ok''
            \<and> pc_expires_at row > lw_now w) (we_pages we (lw_now w)))))"

record page_fetch_state =
  pf_latest_status :: "string option"
  pf_failure_count :: nat

definition load_page_fetch_state :: "worker_env \<Rightarrow> job_consumer \<Rightarrow> string \<Rightarrow> page_fetch_state job" where
  "load_page_fetch_state we jc key =
     job_bind (job_query (\<lambda>w. latest_by pc_fetch_version
       (filter (\<lambda>row. pc_normalized_key row = key) (we_pages we (lw_now w))))) (\<lambda>latest.
     let status = Option.bind latest (\<lambda>row.
           let s = to_ascii_lowercase (trim (pc_fetch_status row)) in if s = [] then None else Some s);
         terminal = oc_metadata_only_no_content_statuses (jc_online_context jc)
     in job_bind (job_query (\<lambda>w. length
          (filter (\<lambda>row. pc_normalized_key row = key \<and>
             to_lowercase (we_ex we) (pc_fetch_status row) \<in> terminal) (we_pages we (lw_now w))))) (\<lambda>count.
        job_return \<lparr>pf_latest_status = status, pf_failure_count = count\<rparr>))"

fun await_loop :: "worker_env \<Rightarrow> string \<Rightarrow> nat \<Rightarrow> (string option \<times> string option \<times> int) job" where
  "await_loop we key 0 = job_fail ContentNotReady"
| "await_loop we key (Suc n) =
     job_bind (load_page_content we key) (\<lambda>snippet.
       case snippet of
         Some s \<Rightarrow> job_return s
       | None \<Rightarrow> job_bind (job_sleep 3000) (\<lambda>_. await_loop we key n))"

definition await_page_content :: "worker_env \<Rightarrow> string \<Rightarrow> (string option \<times> string option \<times> int) job" where
  "await_page_content we key = await_loop we key 40"

definition enrich_job_with_content ::
  "worker_env \<Rightarrow> classification_job_payload \<Rightarrow> bool \<Rightarrow> classification_job_payload job" where
  "enrich_job_with_content we job require_content =
     (if require_content then
        job_bind (await_page_content we (cp_normalized_key job)) (\<lambda>(excerpt, hash, version).
          job_return (job\<lparr>cp_content_excerpt := excerpt, cp_content_hash := hash,
            cp_content_version := Some version, cp_content_language := None\<rparr>))
      else if has_content (cp_content_excerpt job) \<and> cp_content_hash job \<noteq> None
              \<and> cp_content_version job \<noteq> None
      then job_return job
      else
        job_bind (load_page_content we (cp_normalized_key job)) (\<lambda>snippet.
          case snippet of
            None \<Rightarrow> job_return job
          | Some (excerpt, hash, version) \<Rightarrow> job_return
              (job\<lparr>cp_content_excerpt :=
                     (if has_content (cp_content_excerpt job) then cp_content_excerpt job else excerpt),
                   cp_content_hash := or_else (cp_content_hash job) hash,
                   cp_content_version := or_else (cp_content_version job) (Some version)\<rparr>)))"

section \<open>What to send\<close>

definition as_i64 :: "nat \<Rightarrow> int" where
  "as_i64 n = sint (word_of_nat n :: 64 word)"

definition metadata_only_fetch_failure_reason ::
  "worker_env \<Rightarrow> job_consumer \<Rightarrow> classification_job_payload \<Rightarrow> string option job" where
  "metadata_only_fetch_failure_reason we jc job =
     job_bind (load_page_fetch_state we jc (cp_normalized_key job)) (\<lambda>state.
       let oc = jc_online_context jc;
           has_terminal_status = (case pf_latest_status state of None \<Rightarrow> False
             | Some s \<Rightarrow> s \<in> oc_metadata_only_no_content_statuses oc)
       in job_return
            (if has_terminal_status \<and>
                int (pf_failure_count state) \<ge> as_i64 (oc_metadata_only_fetch_failure_threshold oc)
             then Some ''fetch_failed_threshold'' else None))"

record provider_request_plan =
  rpl_require_content :: bool
  rpl_send_excerpt :: bool
  rpl_metadata_only_reason :: "string option"

definition default_request_plan ::
  "job_consumer \<Rightarrow> resolved_provider \<Rightarrow> classification_job_payload \<Rightarrow> provider_request_plan" where
  "default_request_plan jc provider job =
     (if \<not> is_online_provider provider
      then \<lparr>rpl_require_content = cp_requires_content job, rpl_send_excerpt = True,
            rpl_metadata_only_reason = None\<rparr>
      else
        (let require_content = (case oc_content_required_mode (jc_online_context jc) of
               ContentRequired \<Rightarrow> cp_requires_content job | ContentAuto \<Rightarrow> False)
         in case oc_mode (jc_online_context jc) of
              ModeMetadataOnly \<Rightarrow>
                \<lparr>rpl_require_content = False, rpl_send_excerpt = False,
                 rpl_metadata_only_reason = Some ''mode_forced''\<rparr>
            | _ \<Rightarrow>
                \<lparr>rpl_require_content = require_content, rpl_send_excerpt = True,
                 rpl_metadata_only_reason = None\<rparr>))"

definition metadata_only_allowed :: "job_consumer \<Rightarrow> resolved_provider \<Rightarrow> bool" where
  "metadata_only_allowed jc provider =
     (case oc_metadata_only_allowed_for (jc_online_context jc) of
        AllowedAll \<Rightarrow> True | AllowedOnline \<Rightarrow> is_online_provider provider)"

definition plan_provider_request ::
  "worker_env \<Rightarrow> job_consumer \<Rightarrow> resolved_provider \<Rightarrow> classification_job_payload \<Rightarrow>
   provider_request_plan job" where
  "plan_provider_request we jc provider job =
     job_bind
       (if cp_requires_content job \<and> metadata_only_allowed jc provider
        then metadata_only_fetch_failure_reason we jc job else job_return None) (\<lambda>reason.
     job_return
       (case reason of
          Some r \<Rightarrow> \<lparr>rpl_require_content = False, rpl_send_excerpt = True, rpl_metadata_only_reason = Some r\<rparr>
        | None \<Rightarrow> default_request_plan jc provider job))"

record prepared_request =
  pq_job :: classification_job_payload
  pq_prompt :: string
  pq_context_mode :: prompt_context_mode
  pq_excerpt_sent :: bool
  pq_metadata_only_reason :: "string option"

definition without_content :: "classification_job_payload \<Rightarrow> classification_job_payload" where
  "without_content job =
     job\<lparr>cp_content_excerpt := None, cp_content_hash := None, cp_content_version := None,
         cp_content_language := None\<rparr>"

definition prepare_provider_request ::
  "worker_env \<Rightarrow> job_consumer \<Rightarrow> classification_job_payload \<Rightarrow> resolved_provider \<Rightarrow> string option \<Rightarrow>
   prepared_request job" where
  "prepare_provider_request we jc base_job provider retry_instruction =
     job_bind (plan_provider_request we jc provider base_job) (\<lambda>plan.
     job_bind (enrich_job_with_content we base_job (rpl_require_content plan)) (\<lambda>job.
     job_return
       (if rpl_send_excerpt plan \<and> has_content (cp_content_excerpt job)
        then \<lparr>pq_job = job,
              pq_prompt = build_prompt job (jc_taxonomy_prompt jc) retry_instruction WithExcerpt,
              pq_context_mode = WithExcerpt, pq_excerpt_sent = True, pq_metadata_only_reason = None\<rparr>
        else \<lparr>pq_job = without_content job,
              pq_prompt = build_prompt (without_content job) (jc_taxonomy_prompt jc) retry_instruction
                MetadataOnly,
              pq_context_mode = MetadataOnly, pq_excerpt_sent = False,
              pq_metadata_only_reason = or_else (rpl_metadata_only_reason plan)
                (Some (if rpl_send_excerpt plan then ''missing_excerpt'' else ''mode_forced''))\<rparr>)))"

definition prepare_online_verification_request ::
  "job_consumer \<Rightarrow> classification_job_payload \<Rightarrow> string option \<Rightarrow> prepared_request" where
  "prepare_online_verification_request jc base_job retry_instruction =
     (let job = without_content (base_job\<lparr>cp_requires_content := False\<rparr>)
      in \<lparr>pq_job = job,
          pq_prompt = build_prompt job (jc_taxonomy_prompt jc) retry_instruction MetadataOnly,
          pq_context_mode = MetadataOnly, pq_excerpt_sent = False,
          pq_metadata_only_reason = Some ''local_output_invalid_online_verification''\<rparr>)"

section \<open>Calling providers\<close>

definition call_llm ::
  "worker_env \<Rightarrow> resolved_provider \<Rightarrow> classification_job_payload \<Rightarrow> string \<Rightarrow>
   (invoke_error + llm_response) job" where
  "call_llm we p job prompt w =
     (case invoke_llm (we_ex we) (we_llm we) (lw_calls w) p job prompt of
        (elapsed, r) \<Rightarrow> (Inr r, w\<lparr>lw_calls := Suc (lw_calls w), lw_now := lw_now w + elapsed\<rparr>))"

function retry_loop ::
  "worker_env \<Rightarrow> failover_runtime \<Rightarrow> resolved_provider \<Rightarrow> classification_job_payload \<Rightarrow> string \<Rightarrow>
   nat \<Rightarrow> (invocation_failure + llm_response) job" where
  "retry_loop we fo p job prompt attempt =
     job_bind (call_llm we p job prompt) (\<lambda>r.
       case r of
         Inr response \<Rightarrow> job_return (Inr response)
       | Inl err \<Rightarrow>
           (let failure = classify_invocation_failure fo err
            in if attempt \<ge> max (fo_primary_retry_max fo) 1 \<or> if_class failure = NonRetryable
               then job_return (Inl failure)
               else job_bind (job_sleep (calculate_retry_backoff_ms fo attempt)) (\<lambda>_.
                      retry_loop we fo p job prompt (attempt + 1))))"
  by pat_completeness auto
termination
  by (relation "measure (\<lambda>(we, fo, p, job, prompt, attempt). max (fo_primary_retry_max fo) 1 - attempt)")
    auto

declare retry_loop.simps [simp del]

definition invoke_primary_with_retry ::
  "worker_env \<Rightarrow> failover_runtime \<Rightarrow> resolved_provider \<Rightarrow> classification_job_payload \<Rightarrow> string \<Rightarrow>
   (invocation_failure + llm_response) job" where
  "invoke_primary_with_retry we fo p job prompt = retry_loop we fo p job prompt 1"

record llm_outcome =
  lo_response :: llm_response
  lo_provider :: string
  lo_context_mode :: prompt_context_mode
  lo_excerpt_sent :: bool
  lo_metadata_only_reason :: "string option"

definition outcome_of :: "resolved_provider \<Rightarrow> prepared_request \<Rightarrow> llm_response \<Rightarrow> llm_outcome" where
  "outcome_of p req response =
     \<lparr>lo_response = response, lo_provider = rp_name p, lo_context_mode = pq_context_mode req,
      lo_excerpt_sent = pq_excerpt_sent req, lo_metadata_only_reason = pq_metadata_only_reason req\<rparr>"

definition terminal_outcome :: "string \<Rightarrow> llm_outcome" where
  "terminal_outcome reason =
     \<lparr>lo_response = synthesize_insufficient_evidence_verdict,
      lo_provider = ''terminal-insufficient-evidence'', lo_context_mode = MetadataOnly,
      lo_excerpt_sent = False, lo_metadata_only_reason = Some reason\<rparr>"

fun class_error :: "failure_class \<Rightarrow> string \<Rightarrow> job_error" where
  "class_error Retryable reason = RetryableJob reason"
| "class_error NonRetryable reason = NonRetryableJob reason"

definition take_fallback_budget :: "failover_runtime \<Rightarrow> (string + unit) job" where
  "take_fallback_budget fo w =
     (case fallback_allow_and_record fo (lw_now w) (lw_fallback_budget w) of
        (r, b) \<Rightarrow> (Inr r, w\<lparr>lw_fallback_budget := b\<rparr>))"

definition trip_fallback_cooldown :: "failover_runtime \<Rightarrow> unit job" where
  "trip_fallback_cooldown fo w =
     (Inr (), w\<lparr>lw_fallback_budget := trip_cooldown fo (lw_now w) (lw_fallback_budget w)\<rparr>)"

definition call_fallback ::
  "worker_env \<Rightarrow> job_consumer \<Rightarrow> classification_job_payload \<Rightarrow> string option \<Rightarrow> invocation_failure \<Rightarrow>
   resolved_provider \<Rightarrow> llm_outcome job" where
  "call_fallback we jc job retry_instruction err fallback =
     job_bind
       (if if_output_invalid err
        then job_return (prepare_online_verification_request jc job retry_instruction)
        else prepare_provider_request we jc job fallback retry_instruction) (\<lambda>req.
     job_bind (call_llm we fallback (pq_job req) (pq_prompt req)) (\<lambda>r.
       case r of
         Inr response \<Rightarrow> job_return (outcome_of fallback req response)
       | Inl fallback_err \<Rightarrow>
           (let classified = classify_invocation_failure (jc_failover jc) fallback_err;
                reason = ''fallback provider failed after primary error: '' @ if_reason classified
            in job_bind (trip_fallback_cooldown (jc_failover jc)) (\<lambda>_.
                 if if_output_invalid err
                 then job_return (terminal_outcome ''local_output_invalid_online_failed'')
                 else job_fail (class_error (if_class classified) reason)))))"

definition fallback_provider :: "job_consumer \<Rightarrow> resolved_provider \<Rightarrow> resolved_provider option" where
  "fallback_provider jc primary =
     (if rp_name primary = rp_name (router_primary (jc_router jc))
      then router_fallback (jc_router jc)
      else Some (router_primary (jc_router jc)))"

definition after_primary_failure ::
  "worker_env \<Rightarrow> job_consumer \<Rightarrow> classification_job_payload \<Rightarrow> string option \<Rightarrow> resolved_provider \<Rightarrow>
   invocation_failure \<Rightarrow> llm_outcome job" where
  "after_primary_failure we jc job retry_instruction primary err =
     (let terminal_or = (\<lambda>reason e.
            if if_output_invalid err then job_return (terminal_outcome reason) else job_fail e)
      in if \<not> should_attempt_fallback (jc_failover jc) err then
           terminal_or ''local_output_invalid_online_unavailable''
             (class_error (if_class err)
               (''primary provider failed and fallback skipped: '' @ if_reason err))
         else
           (case fallback_provider jc primary of
              None \<Rightarrow>
                terminal_or ''local_output_invalid_online_unavailable''
                  (RetryableJob (''primary failed and fallback not configured: '' @ if_reason err))
            | Some fallback \<Rightarrow>
                job_bind (take_fallback_budget (jc_failover jc)) (\<lambda>granted.
                  case granted of
                    Inl blocked_reason \<Rightarrow>
                      terminal_or ''local_output_invalid_online_skipped''
                        (RetryableJob (''fallback blocked by '' @ blocked_reason
                          @ '' after primary failure: '' @ if_reason err))
                  | Inr _ \<Rightarrow> call_fallback we jc job retry_instruction err fallback)))"

definition try_stale_provider ::
  "worker_env \<Rightarrow> job_consumer \<Rightarrow> classification_job_payload \<Rightarrow> string option \<Rightarrow>
   resolved_provider option \<Rightarrow> resolved_provider \<Rightarrow> llm_outcome option job" where
  "try_stale_provider we jc job retry_instruction stale_provider primary =
     (case stale_provider of
        None \<Rightarrow> job_return None
      | Some provider \<Rightarrow>
          if rp_name provider = rp_name primary then job_return None
          else
            job_bind (prepare_provider_request we jc job provider retry_instruction) (\<lambda>req.
            job_bind (invoke_primary_with_retry we (jc_failover jc) provider (pq_job req) (pq_prompt req))
              (\<lambda>r. job_return (case r of Inr response \<Rightarrow> Some (outcome_of provider req response)
                                 | Inl _ \<Rightarrow> None))))"

definition choose_primary :: "job_consumer \<Rightarrow> classification_job_payload \<Rightarrow> resolved_provider" where
  "choose_primary jc job =
     unwrap_or (Option.bind (cp_provider_override job) (router_by_name (jc_router jc)))
       (router_primary (jc_router jc))"

definition invoke_with_fallback ::
  "worker_env \<Rightarrow> job_consumer \<Rightarrow> classification_job_payload \<Rightarrow> string option \<Rightarrow>
   resolved_provider option \<Rightarrow> llm_outcome job" where
  "invoke_with_fallback we jc job retry_instruction stale_provider =
     (let primary = choose_primary jc job
      in job_bind (try_stale_provider we jc job retry_instruction stale_provider primary) (\<lambda>diverted.
           case diverted of
             Some out \<Rightarrow> job_return out
           | None \<Rightarrow>
               job_bind (prepare_provider_request we jc job primary retry_instruction) (\<lambda>req.
               job_bind (invoke_primary_with_retry we (jc_failover jc) primary (pq_job req) (pq_prompt req))
                 (\<lambda>r. case r of
                    Inr response \<Rightarrow> job_return (outcome_of primary req response)
                  | Inl err \<Rightarrow> after_primary_failure we jc job retry_instruction primary err))))"

section \<open>Pending requests\<close>

definition upsert_request ::
  "string \<Rightarrow> string \<Rightarrow> string option \<Rightarrow> string option \<Rightarrow> worker_world \<Rightarrow> worker_world" where
  "upsert_request key status base_url last_error w =
     w\<lparr>lw_requests :=
         (if list_ex (\<lambda>r. rq_normalized_key r = key) (lw_requests w)
          then map (\<lambda>r. if rq_normalized_key r = key
                 then r\<lparr>rq_status := status, rq_base_url := or_else base_url (rq_base_url r),
                        rq_last_error := last_error, rq_updated_at := lw_now w\<rparr>
                 else r) (lw_requests w)
          else lw_requests w @
            [\<lparr>rq_normalized_key = key, rq_status = status, rq_base_url = base_url,
              rq_last_error = last_error, rq_requested_at = lw_now w, rq_updated_at = lw_now w\<rparr>])\<rparr>"

definition delete_request :: "string \<Rightarrow> worker_world \<Rightarrow> worker_world" where
  "delete_request key w =
     w\<lparr>lw_requests := filter (\<lambda>r. rq_normalized_key r \<noteq> key) (lw_requests w)\<rparr>"

definition mark_pending :: "classification_job_payload \<Rightarrow> string \<Rightarrow> string option \<Rightarrow> unit job" where
  "mark_pending job status last_error =
     job_sql (\<lambda>w. ((), upsert_request (cp_normalized_key job) status
       (or_else (cp_base_url job) (Some (cp_full_url job))) last_error w))"

definition find_request :: "string \<Rightarrow> worker_world \<Rightarrow> request_row option" where
  "find_request key w = find (\<lambda>r. rq_normalized_key r = key) (lw_requests w)"

text \<open>The age read before the deletion only feeds the metrics.\<close>

definition worker_clear_pending :: "string \<Rightarrow> unit job" where
  "worker_clear_pending key =
     job_bind (job_query (\<lambda>w. map_option rq_requested_at (find_request key w))) (\<lambda>_.
       job_sql (\<lambda>w. ((), delete_request key w)))"

definition stale_pending_age_minutes :: "string \<Rightarrow> nat \<Rightarrow> nat option job" where
  "stale_pending_age_minutes key threshold_minutes =
     job_query (\<lambda>w. Option.bind
       (find (\<lambda>r. rq_normalized_key r = key \<and> rq_status r = ''waiting_content'') (lw_requests w)) (\<lambda>r.
       let age = (int (lw_now w) - int (rq_requested_at r)) div 60000
       in if age < as_i64 threshold_minutes then None else Some (nat (max age 0))))"

definition probe_provider :: "worker_env \<Rightarrow> resolved_provider \<Rightarrow> bool job" where
  "probe_provider we provider w =
     (case invoke_provider_healthcheck (we_ex we) (we_llm we) (lw_calls w) provider of
        (elapsed, r) \<Rightarrow>
          (let now = lw_now w + elapsed
           in (Inr (is_ok r), w\<lparr>lw_calls := Suc (lw_calls w), lw_now := now,
                 lw_health := (lw_health w)(rp_name provider \<mapsto> (now, is_ok r))\<rparr>)))"

definition provider_health_ok :: "worker_env \<Rightarrow> resolved_provider \<Rightarrow> nat \<Rightarrow> bool job" where
  "provider_health_ok we provider ttl_secs w =
     (case lw_health w (rp_name provider) of
        Some (checked_at, healthy) \<Rightarrow>
          if as_secs (lw_now w - checked_at) \<le> ttl_secs then (Inr healthy, w)
          else probe_provider we provider w
      | None \<Rightarrow> probe_provider we provider w)"

definition take_divert_budget :: "nat \<Rightarrow> bool job" where
  "take_divert_budget max_per_min w =
     (case window_allow_and_record max_per_min (lw_now w) (lw_divert_budget w) of
        (r, b) \<Rightarrow> (Inr r, w\<lparr>lw_divert_budget := b\<rparr>))"

definition select_stale_pending_provider ::
  "worker_env \<Rightarrow> job_consumer \<Rightarrow> classification_job_payload \<Rightarrow> resolved_provider option job" where
  "select_stale_pending_provider we jc job =
     (case jc_stale_pending jc of
        None \<Rightarrow> job_return None
      | Some cfg \<Rightarrow>
          if \<not> cp_requires_content job then job_return None
          else
            job_bind (stale_pending_age_minutes (cp_normalized_key job) (sp_threshold_minutes cfg)) (\<lambda>age.
              if age = None \<or> rp_name (sp_online_provider cfg) = rp_name (router_primary (jc_router jc))
              then job_return None
              else
                job_bind (provider_health_ok we (sp_online_provider cfg) (sp_health_ttl_secs cfg)) (\<lambda>healthy.
                  if \<not> healthy then job_return None
                  else
                    job_bind (take_divert_budget (sp_max_per_min cfg)) (\<lambda>granted.
                      job_return (if granted then Some (sp_online_provider cfg) else None)))))"

section \<open>Verdicts\<close>

definition apply_taxonomy :: "job_consumer \<Rightarrow> llm_response \<Rightarrow> (llm_response \<times> fallback_reason option) res" where
  "apply_taxonomy jc verdict =
     bind_res (validate_labels (jc_taxonomy jc) (lr_primary_category verdict)
       (if trim (lr_subcategory verdict) = [] then None else Some (lr_subcategory verdict))) (\<lambda>v. Inr
       (verdict\<lparr>lr_primary_category := cat_id (vl_category v), lr_subcategory := sub_id (vl_subcategory v)\<rparr>,
        vl_fallback_reason v))"

definition RETRY_INSTRUCTION :: string where
  "RETRY_INSTRUCTION = ''Previous response used non-canonical taxonomy labels. Retry and return ONLY canonical IDs listed in Allowed Taxonomy IDs.''"

fun classify_loop ::
  "worker_env \<Rightarrow> job_consumer \<Rightarrow> classification_job_payload \<Rightarrow> resolved_provider option \<Rightarrow> nat list \<Rightarrow>
   (llm_response \<times> fallback_reason option \<times> llm_outcome) job" where
  "classify_loop we jc job stale [] = job_fail (OtherJob ''missing classification verdict'')"
| "classify_loop we jc job stale (attempt # attempts) =
     job_bind (invoke_with_fallback we jc job (if attempt > 1 then Some RETRY_INSTRUCTION else None) stale)
       (\<lambda>out.
     job_bind (job_lift (apply_taxonomy jc (lo_response out))) (\<lambda>(canonical, reason).
       if reason \<noteq> None \<and> attempts \<noteq> []
       then job_bind (job_sleep 250) (\<lambda>_. classify_loop we jc job stale attempts)
       else job_return (canonical, reason, out)))"

text \<open>The verdict after the guardrails, with the marks the stored row carries.\<close>

record final_verdict =
  fv_verdict :: llm_response
  fv_action :: policy_action
  fv_fallback_reason :: "fallback_reason option"
  fv_activation_blocked :: bool
  fv_context_mode :: prompt_context_mode
  fv_excerpt_sent :: bool
  fv_metadata_only_reason :: "string option"
  fv_forced_action :: bool
  fv_capped_confidence :: bool
  fv_injection :: prompt_injection_assessment
  fv_forced_review :: bool
  fv_injection_capped :: bool

definition metadata_only_guardrail ::
  "online_context_runtime \<Rightarrow> prompt_context_mode \<Rightarrow> policy_action \<times> f32 \<Rightarrow> (policy_action \<times> f32) \<times> bool \<times> bool" where
  "metadata_only_guardrail oc mode v =
     (case v of (action, confidence) \<Rightarrow>
        if mode = MetadataOnly
        then ((oc_metadata_only_force_action oc, f32_cap confidence (oc_metadata_only_max_confidence oc)),
              action \<noteq> oc_metadata_only_force_action oc,
              f32_lt (oc_metadata_only_max_confidence oc) confidence)
        else (v, False, False))"

definition prompt_injection_guardrail ::
  "prompt_injection_runtime \<Rightarrow> prompt_injection_assessment \<Rightarrow> policy_action \<times> f32 \<Rightarrow>
   (policy_action \<times> f32) \<times> bool \<times> bool" where
  "prompt_injection_guardrail pin assessment v =
     (case v of (action, confidence) \<Rightarrow>
        if pi_enabled pin \<and> pia_score assessment \<ge> pi_review_threshold pin
        then ((Review, f32_cap confidence (pi_confidence_cap pin)),
              action \<noteq> Review, f32_lt (pi_confidence_cap pin) confidence)
        else (v, False, False))"

definition apply_guardrails ::
  "job_consumer \<Rightarrow> classification_job_payload \<Rightarrow> llm_response \<Rightarrow> fallback_reason option \<Rightarrow> llm_outcome \<Rightarrow>
   policy_action \<Rightarrow> final_verdict" where
  "apply_guardrails jc job verdict reason out recommended =
     (let assessment = assess_prompt_injection (cp_content_excerpt job);
          (v1, forced, capped) = metadata_only_guardrail (jc_online_context jc) (lo_context_mode out)
            (recommended, lr_confidence verdict);
          (v2, forced_review, injection_capped) =
            prompt_injection_guardrail (jc_prompt_injection jc) assessment v1;
          allowed = is_enabled (jc_activation jc) (lr_primary_category verdict) (Some (lr_subcategory verdict));
          final_action = (if allowed then fst v2 else Block)
      in \<lparr>fv_verdict = verdict\<lparr>lr_confidence := snd v2, lr_recommended_action := show_action final_action\<rparr>,
          fv_action = final_action, fv_fallback_reason = reason, fv_activation_blocked = (\<not> allowed),
          fv_context_mode = lo_context_mode out, fv_excerpt_sent = lo_excerpt_sent out,
          fv_metadata_only_reason = lo_metadata_only_reason out, fv_forced_action = forced,
          fv_capped_confidence = capped, fv_injection = assessment, fv_forced_review = forced_review,
          fv_injection_capped = injection_capped\<rparr>)"

section \<open>Storing a classification\<close>

definition classification_flags :: "final_verdict \<Rightarrow> json" where
  "classification_flags fv = JObj
     ([(''source'', JStr ''llm-worker'')]
      @ skip_none ''taxonomy_fallback_reason'' (\<lambda>r. JStr (fallback_reason_as_str r)) (fv_fallback_reason fv)
      @ (if fv_activation_blocked fv then [(''taxonomy_activation_state'', JStr ''blocked'')] else [])
      @ [(''context_mode'', JStr (context_mode_str (fv_context_mode fv))),
         (''excerpt_sent'', JBool (fv_excerpt_sent fv))]
      @ (if fv_context_mode fv = MetadataOnly
         then [(''metadata_only'', JBool True)]
           @ skip_none ''metadata_only_reason'' JStr (fv_metadata_only_reason fv)
           @ [(''metadata_only_guardrail_forced_action'', JBool (fv_forced_action fv)),
              (''metadata_only_guardrail_confidence_cap'', JBool (fv_capped_confidence fv))]
         else [])
      @ (if pia_suspicious (fv_injection fv)
         then [(''prompt_injection_suspected'', JBool True),
               (''prompt_injection_score'', JInt (int (pia_score (fv_injection fv)))),
               (''prompt_injection_markers'', strs_to_json (pia_markers (fv_injection fv))),
               (''prompt_injection_guardrail_forced_review'', JBool (fv_forced_review fv)),
               (''prompt_injection_guardrail_confidence_cap'', JBool (fv_injection_capped fv))]
         else []))"

definition new_class_row ::
  "uuid \<Rightarrow> string \<Rightarrow> string \<Rightarrow> final_verdict \<Rightarrow> time \<Rightarrow> class_row" where
  "new_class_row new_id key taxonomy_version fv now =
     \<lparr>cl_id = new_id, cl_normalized_key = key, cl_taxonomy_version = taxonomy_version,
      cl_model_version = ''llm-sim'', cl_primary_category = lr_primary_category (fv_verdict fv),
      cl_subcategory = lr_subcategory (fv_verdict fv), cl_risk_level = lr_risk_level (fv_verdict fv),
      cl_recommended_action = show_action (fv_action fv), cl_confidence = lr_confidence (fv_verdict fv),
      cl_sfw = (fv_action fv = Allow), cl_flags = classification_flags fv, cl_ttl_seconds = 3600,
      cl_status = ''active'', cl_next_refresh_at = now + 4 * 3600000, cl_updated_at = now\<rparr>"

definition update_class_row :: "class_row \<Rightarrow> class_row \<Rightarrow> class_row" where
  "update_class_row excluded row =
     row\<lparr>cl_primary_category := cl_primary_category excluded, cl_subcategory := cl_subcategory excluded,
         cl_risk_level := cl_risk_level excluded, cl_recommended_action := cl_recommended_action excluded,
         cl_confidence := cl_confidence excluded, cl_sfw := cl_sfw excluded, cl_flags := cl_flags excluded,
         cl_ttl_seconds := cl_ttl_seconds excluded, cl_updated_at := cl_updated_at excluded\<rparr>"

definition find_class :: "string \<Rightarrow> worker_world \<Rightarrow> class_row option" where
  "find_class key w = find (\<lambda>r. cl_normalized_key r = key) (lw_classifications w)"

definition upsert_class :: "class_row \<Rightarrow> worker_world \<Rightarrow> uuid \<times> worker_world" where
  "upsert_class row w =
     (case find_class (cl_normalized_key row) w of
        Some old \<Rightarrow>
          (cl_id old, w\<lparr>lw_classifications :=
             map (\<lambda>r. if cl_normalized_key r = cl_normalized_key row then update_class_row row r else r)
               (lw_classifications w)\<rparr>)
      | None \<Rightarrow> (cl_id row, w\<lparr>lw_classifications := lw_classifications w @ [row]\<rparr>))"

definition current_version :: "uuid \<Rightarrow> worker_world \<Rightarrow> nat" where
  "current_version cid w =
     fold max (map cw_version (filter (\<lambda>v. cw_classification_id v = cid) (lw_versions w))) 0"

definition store_classification ::
  "classification_job_payload \<Rightarrow> string \<Rightarrow> final_verdict \<Rightarrow> policy_action job" where
  "store_classification job taxonomy_version fv =
     job_bind job_uuid (\<lambda>new_id.
     job_bind (job_sql (\<lambda>w. upsert_class
       (new_class_row new_id (cp_normalized_key job) taxonomy_version fv (lw_now w)) w)) (\<lambda>classification_id.
     job_bind (job_query (current_version classification_id)) (\<lambda>current.
     job_bind job_uuid (\<lambda>vid.
     job_bind (job_sql (\<lambda>w. ((), w\<lparr>lw_versions := lw_versions w @
       [\<lparr>cw_id = vid, cw_classification_id = classification_id, cw_version = current + 1,
         cw_changed_by = ''llm-worker'', cw_reason = ''automated'',
         cw_payload = JObj [(''normalized_key'', JStr (cp_normalized_key job)),
           (''category'', JStr (lr_primary_category (fv_verdict fv))),
           (''action'', JStr (show_action (fv_action fv)))]\<rparr>]\<rparr>))) (\<lambda>_.
     job_return (fv_action fv))))))"

section \<open>The cache\<close>

definition publish_invalidation :: "worker_env \<Rightarrow> job_consumer \<Rightarrow> string \<Rightarrow> unit job" where
  "publish_invalidation we jc key =
     job_bind job_connect (\<lambda>_.
     job_bind (job_redis (\<lambda>w. ((), w\<lparr>lw_redis := (lw_redis w)(key := None)\<rparr>))) (\<lambda>_.
     job_redis (\<lambda>w. ((), w\<lparr>lw_published := lw_published w @
       [(jc_cache_channel jc, text_of_json (we_ex we) (JObj
          [(''kind'', JStr ''review''), (''normalized_key'', JStr key)]))]\<rparr>))))"

section \<open>A job\<close>

definition handle_job :: "worker_env \<Rightarrow> job_consumer \<Rightarrow> string \<Rightarrow> unit job" where
  "handle_job we jc payload =
     (case Option.bind (json_of_text (we_ex we) payload) job_payload_of_json of
        None \<Rightarrow> job_fail (OtherJob (ls_serde_message (we_llm we) payload))
      | Some job \<Rightarrow>
          job_bind (if cp_requires_content job then mark_pending job ''waiting_content'' None
                    else job_return ()) (\<lambda>_.
          job_bind (select_stale_pending_provider we jc job) (\<lambda>stale_provider.
          job_bind (classify_loop we jc job stale_provider [1, 2, 3]) (\<lambda>(verdict, reason, out).
          job_bind (job_lift (parse_policy_action (lr_recommended_action verdict))) (\<lambda>recommended.
          let fv = apply_guardrails jc job verdict reason out recommended
          in job_bind (job_context ''failed to persist classification''
               (store_classification job (tax_version (ts_taxonomy (jc_taxonomy jc))) fv)) (\<lambda>action.
             job_bind (job_context ''failed to publish cache entry''
               (publish_invalidation we jc (cp_normalized_key job))) (\<lambda>_.
             if lo_context_mode out = MetadataOnly
                \<and> oc_metadata_only_requeue_for_content (jc_online_context jc)
                \<and> lo_metadata_only_reason out \<noteq> Some ''fetch_failed_threshold''
             then mark_pending job ''waiting_content'' (Some ''metadata_only_classification'')
             else worker_clear_pending (cp_normalized_key job))))))))"

section \<open>Queue entries\<close>

definition idempotency_redis_key :: "string \<Rightarrow> string" where
  "idempotency_redis_key k = ''od:idempotency:llm:'' @ k"

definition idempotency_key_seen :: "string \<Rightarrow> bool job" where
  "idempotency_key_seen k =
     job_bind job_connect (\<lambda>_.
     job_redis (\<lambda>w. (case lw_redis w (idempotency_redis_key k) of
        None \<Rightarrow> False | Some (_, expiry) \<Rightarrow> lw_now w < expiry, w)))"

definition idempotency_mark_processed :: "job_consumer \<Rightarrow> string \<Rightarrow> unit job" where
  "idempotency_mark_processed jc k =
     job_bind job_connect (\<lambda>_.
     job_redis (\<lambda>w. ((), w\<lparr>lw_redis := (lw_redis w)(idempotency_redis_key k \<mapsto>
       (''1'', lw_now w + 1000 * jc_idempotency_ttl_seconds jc))\<rparr>)))"

definition fetch_job_of :: "classification_job_payload \<Rightarrow> page_fetch_job" where
  "fetch_job_of job =
     \<lparr>pfj_normalized_key = cp_normalized_key job, pfj_url = cp_full_url job,
      pfj_hostname = cp_hostname job,
      pfj_candidate_urls = (case cp_base_url job of None \<Rightarrow> [] | Some u \<Rightarrow> [u]),
      pfj_trace_id = Some (cp_trace_id job),
      pfj_idempotency_key = Some (''page:'' @ cp_normalized_key job @ '':'' @ cp_trace_id job),
      pfj_ttl_seconds = None\<rparr>"

definition requeued_job :: "classification_job_payload \<Rightarrow> classification_job_payload" where
  "requeued_job job = job\<lparr>cp_requeue_attempt := saturating_add (cp_requeue_attempt job) 1\<rparr>"

definition requeue ::
  "worker_env \<Rightarrow> job_consumer \<Rightarrow> string \<Rightarrow> classification_job_payload option \<Rightarrow> unit job" where
  "requeue we jc payload hint =
     job_bind job_connect (\<lambda>_.
     job_bind (xadd (jc_stream jc) [(''payload'', case hint of
         Some job \<Rightarrow> text_of_json (we_ex we) (job_payload_to_json (requeued_job job))
       | None \<Rightarrow> payload)]) (\<lambda>_.
       case hint of
         Some job \<Rightarrow>
           if cp_requires_content job
           then job_bind (job_try (xadd (jc_page_fetch_stream jc) [(''payload'',
                  text_of_json (we_ex we) (page_fetch_job_to_json (fetch_job_of job)))])) (\<lambda>_. job_return ())
           else job_return ()
       | None \<Rightarrow> job_return ()))"

definition should_requeue :: "job_error \<Rightarrow> bool" where
  "should_requeue e = (case e of ContentNotReady \<Rightarrow> True | RetryableJob _ \<Rightarrow> True | _ \<Rightarrow> False)"

definition ignore_error :: "'a job \<Rightarrow> unit job" where
  "ignore_error m = job_bind (job_try m) (\<lambda>_. job_return ())"

definition mark_failed :: "classification_job_payload option \<Rightarrow> string \<Rightarrow> unit job" where
  "mark_failed hint message =
     (case hint of None \<Rightarrow> job_return ()
      | Some job \<Rightarrow> ignore_error (mark_pending job ''failed'' (Some message)))"

definition after_job_error ::
  "worker_env \<Rightarrow> job_consumer \<Rightarrow> string \<Rightarrow> classification_job_payload option \<Rightarrow> job_error \<Rightarrow> unit job" where
  "after_job_error we jc payload hint err =
     (if should_requeue err then
        (if (case hint of None \<Rightarrow> False | Some job \<Rightarrow> cp_requeue_attempt job \<ge> jc_max_requeue_attempts jc)
         then mark_failed hint (''retry exhausted after '' @ show_nat (jc_max_requeue_attempts jc)
                @ '' queue requeues: '' @ job_error_text err)
         else job_bind (job_try (requeue we jc payload hint)) (\<lambda>r.
                case r of Inr _ \<Rightarrow> job_return ()
                | Inl e \<Rightarrow> mark_failed hint (''requeue publish failed: '' @ job_error_text e)))
      else mark_failed hint (job_error_text err))"

definition process_job :: "worker_env \<Rightarrow> job_consumer \<Rightarrow> string \<Rightarrow> unit job" where
  "process_job we jc payload =
     (let hint = Option.bind (json_of_text (we_ex we) payload) job_payload_of_json
      in job_bind (case hint of
           None \<Rightarrow> job_return False
         | Some job \<Rightarrow> job_bind (job_try (idempotency_key_seen (classification_idempotency_key job)))
             (\<lambda>r. job_return (case r of Inr seen \<Rightarrow> seen | Inl _ \<Rightarrow> False))) (\<lambda>duplicate.
         if duplicate then job_return ()
         else
           job_bind (job_try (handle_job we jc payload)) (\<lambda>result.
             case result of
               Inr _ \<Rightarrow>
                 (case hint of None \<Rightarrow> job_return ()
                  | Some job \<Rightarrow>
                      ignore_error (idempotency_mark_processed jc (classification_idempotency_key job)))
             | Inl err \<Rightarrow>
                 job_bind (after_job_error we jc payload hint err) (\<lambda>_. job_fail err))))"

end
