(* ===== verification/Llm_Queue.thy ===== *)
theory Llm_Queue
  imports Llm_Worker
begin

text \<open>
  The loops around the job consumer: reading the classification stream with acknowledgements and
  dead letters, and the reconciler that re-enqueues requests which wait for content too long.
  What the server answers to \<open>XREADGROUP\<close> is an argument; claiming entries of other consumers has no
  effect the worker sees except through that answer.
\<close>

section \<open>Stream entries\<close>

record stream_entry =
  se_id :: string
  se_payload :: "string option"

definition entry_id_timestamp_iso8601 :: "worker_env \<Rightarrow> string \<Rightarrow> string option" where
  "entry_id_timestamp_iso8601 we entry_id =
     Option.bind (split_once_char CHR ''-'' entry_id) (\<lambda>(millis, _).
     Option.bind (parse_i64 millis) (we_rfc3339 we))"

definition entry_too_old :: "time \<Rightarrow> string \<Rightarrow> nat \<Rightarrow> bool" where
  "entry_too_old now entry_id max_age_ms =
     (case split_once_char CHR ''-'' entry_id of
        None \<Rightarrow> False
      | Some (millis, _) \<Rightarrow>
          (case parse_unsigned 64 millis of
             None \<Rightarrow> False
           | Some ts_ms \<Rightarrow> now - ts_ms > max_age_ms))"

definition publish_dead_letter ::
  "worker_env \<Rightarrow> string \<Rightarrow> string \<Rightarrow> string \<Rightarrow> string \<Rightarrow> string option \<Rightarrow> unit job" where
  "publish_dead_letter we dlq_stream source_stream entry_id reason payload =
     job_bind (job_get lw_now) (\<lambda>now.
       xadd dlq_stream
         [(''source_stream'', source_stream), (''entry_id'', entry_id), (''reason'', reason),
          (''delivery_count'', ''1''),
          (''first_seen_at'', unwrap_or (entry_id_timestamp_iso8601 we entry_id) []),
          (''last_seen_at'', unwrap_or (we_rfc3339 we (int now)) []), (''trace_id'', []),
          (''payload'', unwrap_or payload [])])"

definition xack :: "string \<Rightarrow> unit job" where
  "xack entry_id = job_redis (\<lambda>w. ((), w\<lparr>lw_acked := lw_acked w @ [entry_id]\<rparr>))"

definition handle_entry ::
  "worker_env \<Rightarrow> job_consumer \<Rightarrow> string \<Rightarrow> stream_entry \<Rightarrow> unit job" where
  "handle_entry we jc dlq entry =
     job_bind (job_get lw_now) (\<lambda>now.
       if entry_too_old now (se_id entry) 300000 then ignore_error (xack (se_id entry))
       else
         job_bind
           (case se_payload entry of
              Some payload \<Rightarrow>
                job_bind (job_try (process_job we jc payload)) (\<lambda>r.
                  if \<not> is_ok r \<and> Option.bind (json_of_text (we_ex we) payload) job_payload_of_json = None
                  then ignore_error (publish_dead_letter we dlq (jc_stream jc) (se_id entry)
                    ''invalid_payload'' (Some payload))
                  else job_return ())
            | None \<Rightarrow>
                ignore_error (publish_dead_letter we dlq (jc_stream jc) (se_id entry) ''missing_payload'' None))
           (\<lambda>_. ignore_error (xack (se_id entry))))"

fun handle_entries ::
  "worker_env \<Rightarrow> job_consumer \<Rightarrow> string \<Rightarrow> stream_entry list \<Rightarrow> unit job" where
  "handle_entries we jc dlq [] = job_return ()"
| "handle_entries we jc dlq (e # es) =
     job_bind (handle_entry we jc dlq e) (\<lambda>_. handle_entries we jc dlq es)"

text \<open>One round of the loop: the entries this consumer still holds, then new ones.\<close>

definition consume_round ::
  "worker_env \<Rightarrow> job_consumer \<Rightarrow> string \<Rightarrow> stream_entry list \<Rightarrow> stream_entry list \<Rightarrow> unit job" where
  "consume_round we jc dlq held fresh =
     job_bind (ignore_error (job_redis (\<lambda>w. ((), w)))) (\<lambda>_.
     job_bind (job_redis (\<lambda>w. ((), w))) (\<lambda>_.
     job_bind (handle_entries we jc dlq held) (\<lambda>_.
     job_bind (job_redis (\<lambda>w. ((), w))) (\<lambda>_.
       handle_entries we jc dlq fresh))))"

section \<open>The reconciler\<close>

definition parse_normalized_key_parts :: "string \<Rightarrow> (string \<times> string) option" where
  "parse_normalized_key_parts key =
     (case strip_prefix ''domain:'' key of
        Some rest \<Rightarrow> Some (''domain'', rest)
      | None \<Rightarrow> map_option (Pair ''subdomain'') (strip_prefix ''subdomain:'' key))"

text \<open>\<open>url_text\<close> stands for the text the URL library prints for a parsed URL with a path.\<close>

definition normalize_base_url :: "externs \<Rightarrow> (url \<Rightarrow> string) \<Rightarrow> string \<Rightarrow> string option" where
  "normalize_base_url ex url_text value =
     (if trim value = [] then None
      else map_option (\<lambda>u. url_text (if url_path u = [] then u\<lparr>url_path := ''/''\<rparr> else u))
             (url_parse ex (trim value)))"

definition derive_urls ::
  "externs \<Rightarrow> (url \<Rightarrow> string) \<Rightarrow> string \<Rightarrow> string option \<Rightarrow> string \<times> string \<times> string" where
  "derive_urls ex url_text key_value base_url =
     (case Option.bind base_url (normalize_base_url ex url_text) of
        Some base \<Rightarrow>
          (unwrap_or (Option.bind (url_parse ex base) url_host_str) key_value, base, base)
      | None \<Rightarrow>
          (let fallback = ''https://'' @ key_value @ ''/'' in (key_value, fallback, fallback)))"

record reconciler =
  rc_classification_stream :: string
  rc_page_fetch_stream :: string
  rc_cfg :: pending_reconcile_runtime

definition reconciler_new ::
  "string \<Rightarrow> string \<Rightarrow> string \<Rightarrow> pending_reconcile_runtime \<Rightarrow> reconciler res" where
  "reconciler_new redis_url classification_stream page_fetch_stream cfg =
     (if trim redis_url = [] then Inl (Error ''redis_url required for pending reconciler'')
      else Inr \<lparr>rc_classification_stream = classification_stream,
                rc_page_fetch_stream = page_fetch_stream, rc_cfg = cfg\<rparr>)"

definition stale_requests :: "reconciler \<Rightarrow> worker_world \<Rightarrow> request_row list" where
  "stale_requests rc w =
     take (pr_batch (rc_cfg rc))
       (sort_key rq_updated_at
         (filter (\<lambda>r. rq_status r = ''waiting_content'' \<and>
            int (rq_updated_at r) \<le> int (lw_now w)
              - 60000 * sint (word_of_nat (pr_stale_minutes (rc_cfg rc)) :: 32 word)) (lw_requests w)))"

definition reconcile_class_job ::
  "string \<Rightarrow> string \<Rightarrow> string \<Rightarrow> string \<Rightarrow> string \<Rightarrow> string \<Rightarrow> classification_job_payload" where
  "reconcile_class_job key entity_level hostname full_url base_url trace_id =
     \<lparr>cp_normalized_key = key, cp_entity_level = entity_level, cp_hostname = hostname,
      cp_full_url = full_url, cp_trace_id = trace_id,
      cp_idempotency_key = Some (''cls:'' @ key @ '':'' @ trace_id), cp_requires_content = True,
      cp_base_url = Some base_url, cp_content_excerpt = None, cp_content_hash = None,
      cp_content_version = None, cp_content_language = None, cp_requeue_attempt = 0,
      cp_provider_override = None\<rparr>"

definition reconcile_fetch_job :: "string \<Rightarrow> string \<Rightarrow> string \<Rightarrow> string \<Rightarrow> string \<Rightarrow> page_fetch_job" where
  "reconcile_fetch_job key hostname full_url base_url trace_id =
     \<lparr>pfj_normalized_key = key, pfj_url = full_url, pfj_hostname = hostname,
      pfj_candidate_urls = [base_url], pfj_trace_id = Some trace_id,
      pfj_idempotency_key = Some (''page:'' @ key @ '':'' @ base_url), pfj_ttl_seconds = None\<rparr>"

definition update_request ::
  "string \<Rightarrow> (request_row \<Rightarrow> request_row) \<Rightarrow> worker_world \<Rightarrow> worker_world" where
  "update_request key f w =
     w\<lparr>lw_requests := map (\<lambda>r. if rq_normalized_key r = key then f r else r) (lw_requests w)\<rparr>"

definition reconcile_row ::
  "worker_env \<Rightarrow> (url \<Rightarrow> string) \<Rightarrow> reconciler \<Rightarrow> request_row \<Rightarrow> unit job" where
  "reconcile_row we url_text rc row =
     (let key = rq_normalized_key row
      in job_bind (job_query (\<lambda>w. find_class key w \<noteq> None)) (\<lambda>classified.
         if classified then job_sql (\<lambda>w. ((), delete_request key w))
         else
           (case parse_normalized_key_parts key of
              None \<Rightarrow> job_sql (\<lambda>w. ((), update_request key
                (\<lambda>r. r\<lparr>rq_last_error := Some ''invalid normalized key'', rq_updated_at := lw_now w\<rparr>) w))
            | Some (entity_level, key_value) \<Rightarrow>
                (case derive_urls (we_ex we) url_text key_value (rq_base_url row) of
                   (hostname, full_url, base_url) \<Rightarrow>
                     job_bind job_uuid (\<lambda>u.
                     let trace_id = ''reconcile-'' @ uuid_to_string (we_ex we) u
                     in job_bind (xadd (rc_classification_stream rc) [(''payload'',
                          text_of_json (we_ex we) (job_payload_to_json
                            (reconcile_class_job key entity_level hostname full_url base_url trace_id)))]) (\<lambda>_.
                        job_bind (xadd (rc_page_fetch_stream rc) [(''payload'',
                          text_of_json (we_ex we) (page_fetch_job_to_json
                            (reconcile_fetch_job key hostname full_url base_url trace_id)))]) (\<lambda>_.
                        job_sql (\<lambda>w. ((), update_request key
                          (\<lambda>r. r\<lparr>rq_updated_at := lw_now w, rq_last_error := None,
                                 rq_base_url := Some base_url\<rparr>) w)))))))))"

fun reconcile_rows ::
  "worker_env \<Rightarrow> (url \<Rightarrow> string) \<Rightarrow> reconciler \<Rightarrow> request_row list \<Rightarrow> unit job" where
  "reconcile_rows we url_text rc [] = job_return ()"
| "reconcile_rows we url_text rc (r # rs) =
     job_bind (reconcile_row we url_text rc r) (\<lambda>_. reconcile_rows we url_text rc rs)"

definition reconcile_once :: "worker_env \<Rightarrow> (url \<Rightarrow> string) \<Rightarrow> reconciler \<Rightarrow> unit job" where
  "reconcile_once we url_text rc =
     job_bind (job_query (stale_requests rc)) (\<lambda>rows.
       if rows = [] then job_return ()
       else job_bind job_connect (\<lambda>_. reconcile_rows we url_text rc rows))"

section \<open>Consumer identity\<close>

definition default_stream_consumer_name :: "environment \<Rightarrow> nat \<Rightarrow> string \<Rightarrow> string" where
  "default_stream_consumer_name env pid pfx =
     (let host = unwrap_or (env_text env ''HOSTNAME'') ''local''
      in pfx @ ''-'' @ map (\<lambda>c. if is_ascii_alphanumeric c \<or> c \<in> {CHR ''-'', CHR ''_'', CHR ''.''}
           then c else CHR ''-'') (filter (\<lambda>c. \<not> utf8_continuation c) host) @ ''-'' @ show_nat pid)"

end
