(* ===== verification/Llm_Correct.thy ===== *)
theory Llm_Correct
  imports Llm_Queue
begin

text \<open>
  Correctness of the classification worker: what a job leaves alone, what a successful job stores,
  how failed jobs end, and the bounds on the work a job may cause.
\<close>

section \<open>Frames\<close>

text \<open>While a verdict is obtained the tables, Redis and the streams stay as they are.\<close>

definition same_tables :: "worker_world \<Rightarrow> worker_world \<Rightarrow> bool" where
  "same_tables w w' \<longleftrightarrow>
     lw_classifications w' = lw_classifications w \<and> lw_versions w' = lw_versions w \<and>
     lw_requests w' = lw_requests w \<and> lw_redis w' = lw_redis w \<and> lw_published w' = lw_published w \<and>
     lw_streams w' = lw_streams w \<and> lw_acked w' = lw_acked w \<and> lw_fails w' = lw_fails w \<and>
     lw_now w \<le> lw_now w'"

interpretation st: job_frame same_tables
  by unfold_locales (auto simp: same_tables_def)

lemma keeps_call_llm [intro!]: "keeps same_tables (call_llm we p job prompt)"
  by (simp add: keeps_def call_llm_def same_tables_def split: prod.split)

lemma keeps_page_content [intro!]: "keeps same_tables (load_page_content we key)"
  by (auto simp: load_page_content_def)

lemma keeps_await_loop [intro!]: "keeps same_tables (await_loop we key n)"
  by (induction n) (auto split: option.split)

lemma keeps_enrich [intro!]: "keeps same_tables (enrich_job_with_content we job rc)"
  by (auto simp: enrich_job_with_content_def await_page_content_def split: option.split)

lemma keeps_plan [intro!]: "keeps same_tables (plan_provider_request we jc p job)"
  by (auto simp: plan_provider_request_def metadata_only_fetch_failure_reason_def
      load_page_fetch_state_def Let_def)

lemma keeps_prepare [intro!]: "keeps same_tables (prepare_provider_request we jc job p ri)"
  by (auto simp: prepare_provider_request_def)

lemma keeps_retry_loop [intro!]: "keeps same_tables (retry_loop we fo p job prompt n)"
proof (induction we fo p job prompt n rule: retry_loop.induct)
  case (1 we fo p job prompt n)
  then show ?case
    by (subst retry_loop.simps) (auto simp: Let_def split: sum.split)
qed

lemma keeps_budgets [intro!]:
  "keeps same_tables (take_fallback_budget fo)" "keeps same_tables (trip_fallback_cooldown fo)"
  "keeps same_tables (take_divert_budget n)"
  by (simp_all add: keeps_def take_fallback_budget_def trip_fallback_cooldown_def take_divert_budget_def
      same_tables_def split: prod.split)

lemma keeps_invoke [intro!]: "keeps same_tables (invoke_with_fallback we jc job ri stale)"
  by (auto simp: invoke_with_fallback_def try_stale_provider_def after_primary_failure_def
      call_fallback_def invoke_primary_with_retry_def Let_def split: option.split sum.split)

lemma keeps_health [intro!]: "keeps same_tables (provider_health_ok we p ttl)"
  by (simp add: keeps_def provider_health_ok_def probe_provider_def same_tables_def Let_def
      split: option.split prod.split)

lemma keeps_select_stale [intro!]: "keeps same_tables (select_stale_pending_provider we jc job)"
  by (auto simp: select_stale_pending_provider_def stale_pending_age_minutes_def split: option.split)

lemma keeps_classify_loop [intro!]: "keeps same_tables (classify_loop we jc job stale as)"
  by (induction "as") (auto split: prod.split)

section \<open>The verdict\<close>

definition normal_result :: "'e + llm_response \<Rightarrow> bool" where
  "normal_result r \<longleftrightarrow> (case r of Inl _ \<Rightarrow> True | Inr x \<Rightarrow> normal_response x)"

lemma normal_result_simps [simp]: "normal_result (Inl e)" "normal_result (Inr x) = normal_response x"
  by (simp_all add: normal_result_def)

lemma call_llm_normal [intro!]: "yields normal_result (call_llm we p job prompt)"
  by (auto simp: yields_def call_llm_def normal_result_def split: prod.splits sum.splits)
    (metis invoke_llm_normal snd_conv)

lemma retry_loop_normal [intro!]: "yields normal_result (retry_loop we fo p job prompt n)"
proof (induction we fo p job prompt n rule: retry_loop.induct)
  case (1 we fo p job prompt n)
  then show ?case
    by (subst retry_loop.simps, intro yields_bind [OF call_llm_normal])
      (auto simp: Let_def intro!: yields_then split: sum.split)
qed

abbreviation normal_outcome :: "llm_outcome \<Rightarrow> bool" where
  "normal_outcome out \<equiv> normal_response (lo_response out)"

lemma call_fallback_normal [intro!]: "yields normal_outcome (call_fallback we jc job ri err p)"
  unfolding call_fallback_def
  by (rule yields_then, rule yields_bind [OF call_llm_normal])
    (auto simp: outcome_of_def terminal_outcome_def synthesized_normal Let_def intro!: yields_then
      split: sum.split)

lemma after_primary_failure_normal [intro!]:
  "yields normal_outcome (after_primary_failure we jc job ri p err)"
  by (auto simp: after_primary_failure_def terminal_outcome_def synthesized_normal Let_def
      intro!: yields_then split: option.split sum.split)

lemma try_stale_normal [intro!]:
  "yields (\<lambda>d. \<forall>out. d = Some out \<longrightarrow> normal_outcome out) (try_stale_provider we jc job ri stale p)"
  unfolding try_stale_provider_def invoke_primary_with_retry_def
  by (auto simp: outcome_of_def intro!: yields_then yields_bind [OF retry_loop_normal]
      split: option.split sum.splits)

lemma invoke_with_fallback_normal [intro!]:
  "yields normal_outcome (invoke_with_fallback we jc job ri stale)"
  unfolding invoke_with_fallback_def invoke_primary_with_retry_def Let_def
  by (rule yields_bind [OF try_stale_normal])
    (auto simp: outcome_of_def intro!: yields_then yields_bind [OF retry_loop_normal]
      split: option.split sum.split)

text \<open>The labels of a stored verdict are labels of the taxonomy.\<close>

definition canonical_labels :: "taxonomy_store \<Rightarrow> llm_response \<Rightarrow> bool" where
  "canonical_labels st r \<longleftrightarrow>
     (\<exists>c \<in> set (store_categories st). cat_id c = lr_primary_category r \<and>
        (\<exists>s \<in> set (cat_subcategories c). sub_id s = lr_subcategory r))"

lemma apply_taxonomy_canonical:
  assumes "store_wf (jc_taxonomy jc)" "normal_response r"
  obtains r' reason where "apply_taxonomy jc r = Inr (r', reason)" "canonical_labels (jc_taxonomy jc) r'"
    "normal_response r'" "reason \<noteq> None \<Longrightarrow> lr_primary_category r' = UNKNOWN_CATEGORY_ID"
proof -
  obtain v where v: "validate_labels (jc_taxonomy jc) (lr_primary_category r)
      (if trim (lr_subcategory r) = [] then None else Some (lr_subcategory r)) = Inr v"
    and l: "labels_sound (jc_taxonomy jc) v"
    using validate_labels_wf [OF assms(1)] by blast
  show ?thesis
    by (rule that [of "r\<lparr>lr_primary_category := cat_id (vl_category v), lr_subcategory := sub_id (vl_subcategory v)\<rparr>"
          "vl_fallback_reason v"])
      (use v l assms in \<open>auto simp: apply_taxonomy_def labels_sound_def canonical_labels_def normal_response_def store_wf_unknown(2)\<close>)
qed

text \<open>What the classification loop returns: a normal verdict with canonical labels.\<close>

definition sound_verdict :: "job_consumer \<Rightarrow> llm_response \<times> fallback_reason option \<times> llm_outcome \<Rightarrow> bool" where
  "sound_verdict jc v \<longleftrightarrow> (case v of (r, reason, out) \<Rightarrow>
     canonical_labels (jc_taxonomy jc) r \<and> normal_response r \<and>
     (reason \<noteq> None \<longrightarrow> lr_primary_category r = UNKNOWN_CATEGORY_ID))"

lemma classify_loop_sound:
  assumes "store_wf (jc_taxonomy jc)"
  shows "yields (sound_verdict jc) (classify_loop we jc job stale as)"
proof (induction "as")
  case (Cons a as)
  have lift: "yields (\<lambda>v. sound_verdict jc (fst v, snd v, out)) (job_lift (apply_taxonomy jc (lo_response out)))"
    if "normal_outcome out" for out
    by (rule apply_taxonomy_canonical [OF assms that]) (auto simp: sound_verdict_def)
  have step: "yields (sound_verdict jc) (if reason \<noteq> None \<and> as \<noteq> []
      then job_bind (job_sleep 250) (\<lambda>_. classify_loop we jc job stale as) else job_return (r, reason, out))"
    if "sound_verdict jc (r, reason, out)" for r reason out
    using that by (auto intro!: yields_then Cons.IH)
  show ?case
    unfolding classify_loop.simps
    by (rule yields_bind [OF invoke_with_fallback_normal], rule yields_bind [OF lift])
      (simp_all only: split_beta step prod.collapse)
qed auto

section \<open>Guardrails\<close>

text \<open>Whether the prompt-injection guardrail applies to a job.\<close>

definition injection_flagged :: "job_consumer \<Rightarrow> classification_job_payload \<Rightarrow> bool" where
  "injection_flagged jc job \<longleftrightarrow> pi_enabled (jc_prompt_injection jc) \<and>
     pia_score (assess_prompt_injection (cp_content_excerpt job)) \<ge> pi_review_threshold (jc_prompt_injection jc)"

definition verdict_enabled :: "job_consumer \<Rightarrow> llm_response \<Rightarrow> bool" where
  "verdict_enabled jc r \<longleftrightarrow> is_enabled (jc_activation jc) (lr_primary_category r) (Some (lr_subcategory r))"

definition guarded_action ::
  "job_consumer \<Rightarrow> classification_job_payload \<Rightarrow> llm_response \<Rightarrow> llm_outcome \<Rightarrow> policy_action \<Rightarrow> policy_action" where
  "guarded_action jc job r out recommended =
     (if \<not> verdict_enabled jc r then Block
      else if injection_flagged jc job then Review
      else if lo_context_mode out = MetadataOnly then oc_metadata_only_force_action (jc_online_context jc)
      else recommended)"

definition caps_ok :: "job_consumer \<Rightarrow> bool" where
  "caps_ok jc \<longleftrightarrow> f32_unit (oc_metadata_only_max_confidence (jc_online_context jc)) \<and>
     f32_unit (pi_confidence_cap (jc_prompt_injection jc))"

lemma guardrails_action:
  "fv_action (apply_guardrails jc job r reason out recommended) = guarded_action jc job r out recommended"
  by (auto simp: apply_guardrails_def metadata_only_guardrail_def prompt_injection_guardrail_def
      guarded_action_def injection_flagged_def verdict_enabled_def Let_def)

lemma guardrails_confidence:
  fixes job :: classification_job_payload and reason :: "fallback_reason option" and out :: llm_outcome
    and recommended :: policy_action
  assumes "caps_ok jc" "f32_unit (lr_confidence r)"
  defines "c \<equiv> lr_confidence (fv_verdict (apply_guardrails jc job r reason out recommended))"
  shows "f32_unit c" "f32_le c (lr_confidence r)"
    "lo_context_mode out = MetadataOnly \<Longrightarrow> f32_le c (oc_metadata_only_max_confidence (jc_online_context jc))"
    "injection_flagged jc job \<Longrightarrow> f32_le c (pi_confidence_cap (jc_prompt_injection jc))"
proof -
  have n: "\<not> f32_nan (lr_confidence r)" "\<not> f32_nan (oc_metadata_only_max_confidence (jc_online_context jc))"
    "\<not> f32_nan (pi_confidence_cap (jc_prompt_injection jc))"
    using assms by (auto simp: caps_ok_def dest: f32_unit_not_nan)
  note defs = c_def apply_guardrails_def metadata_only_guardrail_def prompt_injection_guardrail_def Let_def
  show "f32_unit c"
    using assms by (auto simp: defs caps_ok_def intro!: f32_unit_cap)
  show "f32_le c (lr_confidence r)"
    using n by (auto simp: defs f32_cap_def f32_le_def f32_lt_def)
  show "lo_context_mode out = MetadataOnly \<Longrightarrow> f32_le c (oc_metadata_only_max_confidence (jc_online_context jc))"
    using n by (auto simp: defs f32_cap_def f32_le_def f32_lt_def)
  show "injection_flagged jc job \<Longrightarrow> f32_le c (pi_confidence_cap (jc_prompt_injection jc))"
    using n by (auto simp: defs injection_flagged_def f32_cap_def f32_le_def f32_lt_def)
qed

lemma guardrails_labels:
  "lr_primary_category (fv_verdict (apply_guardrails jc job r reason out rec)) = lr_primary_category r"
  "lr_subcategory (fv_verdict (apply_guardrails jc job r reason out rec)) = lr_subcategory r"
  "lr_risk_level (fv_verdict (apply_guardrails jc job r reason out rec)) = lr_risk_level r"
  by (simp_all add: apply_guardrails_def Let_def split_beta)

section \<open>Storing\<close>

definition row_of_verdict :: "final_verdict \<Rightarrow> class_row \<Rightarrow> bool" where
  "row_of_verdict fv row \<longleftrightarrow>
     cl_primary_category row = lr_primary_category (fv_verdict fv) \<and>
     cl_subcategory row = lr_subcategory (fv_verdict fv) \<and>
     cl_risk_level row = lr_risk_level (fv_verdict fv) \<and>
     cl_confidence row = lr_confidence (fv_verdict fv) \<and>
     cl_recommended_action row = show_action (fv_action fv) \<and>
     cl_sfw row = (fv_action fv = Allow) \<and> cl_flags row = classification_flags fv"

lemma find_map_key:
  assumes "\<And>r. key (f r) = key r"
  shows "find (\<lambda>r. key r = k) (map f xs) = map_option f (find (\<lambda>r. key r = k) xs)"
  by (induction xs) (auto simp: assms)

lemma find_append: "find P (xs @ ys) = (case find P xs of None \<Rightarrow> find P ys | Some x \<Rightarrow> Some x)"
  by (induction xs) auto

lemma find_class_key: "find (\<lambda>r. cl_normalized_key r = k) xs = Some r \<Longrightarrow> cl_normalized_key r = k"
  by (auto dest: find_Some_mem)

lemma upsert_class_find:
  assumes "upsert_class row w = (cid, w')"
  shows "find_class k w' =
      (if k = cl_normalized_key row
       then Some (case find_class k w of None \<Rightarrow> row | Some old \<Rightarrow> update_class_row row old)
       else find_class k w)"
    and "w' = w\<lparr>lw_classifications := lw_classifications w'\<rparr>"
    and "cid = (case find_class (cl_normalized_key row) w of None \<Rightarrow> cl_id row | Some old \<Rightarrow> cl_id old)"
proof -
  let ?f = "\<lambda>r. if cl_normalized_key r = cl_normalized_key row then update_class_row row r else r"
  have "cl_normalized_key (?f r) = cl_normalized_key r" for r by (simp add: update_class_row_def)
  note fm = find_map_key [of cl_normalized_key ?f, OF this, of k "lw_classifications w"]
  show "find_class k w' = (if k = cl_normalized_key row
       then Some (case find_class k w of None \<Rightarrow> row | Some old \<Rightarrow> update_class_row row old)
       else find_class k w)"
    using assms fm
    by (cases "find_class (cl_normalized_key row) w"; cases "find_class k w")
      (auto simp: upsert_class_def find_class_def find_append dest: find_class_key)
  show "w' = w\<lparr>lw_classifications := lw_classifications w'\<rparr>"
    "cid = (case find_class (cl_normalized_key row) w of None \<Rightarrow> cl_id row | Some old \<Rightarrow> cl_id old)"
    using assms by (auto simp: upsert_class_def split: option.splits)
qed

text \<open>What storing a verdict does: the row of the key, a new version, and nothing else.\<close>

definition other_tables :: "worker_world \<Rightarrow> worker_world \<Rightarrow> bool" where
  "other_tables w w' \<longleftrightarrow>
     lw_requests w' = lw_requests w \<and> lw_redis w' = lw_redis w \<and> lw_published w' = lw_published w \<and>
     lw_streams w' = lw_streams w \<and> lw_acked w' = lw_acked w \<and> lw_now w' = lw_now w"

lemma store_classification_ok:
  assumes "store_classification job tv fv w = (Inr a, w')"
  shows "a = fv_action fv" "other_tables w w'"
    "\<And>k. k \<noteq> cp_normalized_key job \<Longrightarrow> find_class k w' = find_class k w"
    "\<exists>row. find_class (cp_normalized_key job) w' = Some row \<and> row_of_verdict fv row \<and>
       cl_updated_at row = lw_now w \<and>
       cl_status row = (case find_class (cp_normalized_key job) w of None \<Rightarrow> ''active'' | Some old \<Rightarrow> cl_status old)"
proof -
  obtain new_id cid w1 w2 where
    r: "upsert_class (new_class_row new_id (cp_normalized_key job) tv fv (lw_now w)) w1 = (cid, w2)"
    and w1: "lw_classifications w1 = lw_classifications w" "other_tables w w1"
    and w': "a = fv_action fv" "lw_classifications w' = lw_classifications w2" "other_tables w2 w'"
    using assms
    by (auto simp: store_classification_def job_simps job_uuid_def job_sql_def job_query_def other_tables_def)
  note u = upsert_class_find [OF r]
  show "a = fv_action fv" by (fact w')
  have "other_tables w1 w2" by (subst u(2)) (simp add: other_tables_def)
  with w1 w' show "other_tables w w'" by (simp add: other_tables_def)
  have f: "find_class k w1 = find_class k w" "find_class k w' = find_class k w2" for k
    using w1 w' by (simp_all add: find_class_def)
  show "find_class k w' = find_class k w" if "k \<noteq> cp_normalized_key job" for k
    using u(1) [of k] that by (simp add: f new_class_row_def)
  show "\<exists>row. find_class (cp_normalized_key job) w' = Some row \<and> row_of_verdict fv row \<and>
       cl_updated_at row = lw_now w \<and>
       cl_status row = (case find_class (cp_normalized_key job) w of None \<Rightarrow> ''active'' | Some old \<Rightarrow> cl_status old)"
    using u(1) [of "cp_normalized_key job"]
    by (auto simp: f new_class_row_def update_class_row_def row_of_verdict_def split: option.split)
qed

lemma publish_invalidation_ok:
  assumes "publish_invalidation we jc key w = (Inr (), w')"
  shows "lw_redis w' = (lw_redis w)(key := None)"
    "lw_published w' = lw_published w @
       [(jc_cache_channel jc, text_of_json (we_ex we) (cache_event_to_json (ReviewEvent key)))]"
    "lw_classifications w' = lw_classifications w" "lw_requests w' = lw_requests w"
    "lw_streams w' = lw_streams w" "lw_now w' = lw_now w"
  using assms
  by (auto simp: publish_invalidation_def job_simps job_connect_def job_redis_def)

section \<open>Pending requests\<close>

lemma find_request_upsert:
  "find_request k (upsert_request key status base lerr w) =
     (if k = key
      then Some (case find_request key w of
        None \<Rightarrow> \<lparr>rq_normalized_key = key, rq_status = status, rq_base_url = base, rq_last_error = lerr,
                  rq_requested_at = lw_now w, rq_updated_at = lw_now w\<rparr>
      | Some r \<Rightarrow> r\<lparr>rq_status := status, rq_base_url := or_else base (rq_base_url r),
                    rq_last_error := lerr, rq_updated_at := lw_now w\<rparr>)
      else find_request k w)"
proof -
  let ?f = "\<lambda>r. if rq_normalized_key r = key
    then r\<lparr>rq_status := status, rq_base_url := or_else base (rq_base_url r), rq_last_error := lerr,
           rq_updated_at := lw_now w\<rparr> else r"
  have "rq_normalized_key (?f r) = rq_normalized_key r" for r by simp
  note fm = find_map_key [of rq_normalized_key ?f, OF this, of k "lw_requests w"]
  have key: "find (\<lambda>r. rq_normalized_key r = k') xs = Some r \<Longrightarrow> rq_normalized_key r = k'" for k' xs r
    by (auto dest: find_Some_mem)
  have ex: "list_ex (\<lambda>r. rq_normalized_key r = key) (lw_requests w) \<longleftrightarrow> find_request key w \<noteq> None"
    by (auto simp: find_request_def list_ex_iff find_None_iff_ball)
  show ?thesis
    using fm ex
    by (cases "find_request key w"; cases "find_request k w")
      (auto simp: upsert_request_def find_request_def find_append dest: key)
qed

lemma find_filter_other:
  "k \<noteq> key \<Longrightarrow> find (\<lambda>r. f r = k) (filter (\<lambda>r. f r \<noteq> key) xs) = find (\<lambda>r. f r = k) xs"
  by (induction xs) auto

lemma find_request_delete: "find_request k (delete_request key w) = (if k = key then None else find_request k w)"
  by (auto simp: find_request_def delete_request_def find_None_iff_ball find_filter_other)

section \<open>A successful job\<close>

definition job_of :: "worker_env \<Rightarrow> string \<Rightarrow> classification_job_payload option" where
  "job_of we payload = Option.bind (json_of_text (we_ex we) payload) job_payload_of_json"

definition waits_for_content :: "job_consumer \<Rightarrow> llm_outcome \<Rightarrow> bool" where
  "waits_for_content jc out \<longleftrightarrow> lo_context_mode out = MetadataOnly \<and>
     oc_metadata_only_requeue_for_content (jc_online_context jc) \<and>
     lo_metadata_only_reason out \<noteq> Some ''fetch_failed_threshold''"

lemma mark_pending_ok:
  assumes "mark_pending job status e w = (Inr (), w')"
  shows "w' = upsert_request (cp_normalized_key job) status (or_else (cp_base_url job) (Some (cp_full_url job))) e
    (w\<lparr>lw_ops := Suc (lw_ops w)\<rparr>)"
  using assms by (auto simp: mark_pending_def job_sql_def job_simps)

text \<open>The verdict of the loop is the last answer of a provider with its labels resolved.\<close>

lemma classify_loop_answer:
  "yields (\<lambda>(r, reason, out). apply_taxonomy jc (lo_response out) = Inr (r, reason)) (classify_loop we jc job stale as)"
proof (induction "as")
  case (Cons a as)
  have "apply_taxonomy jc (lo_response out) = Inr (r, reason)"
    if loop: "classify_loop we jc job stale (a # as) w = (Inr (r, reason, out), w')" for r reason out w w'
  proof -
    obtain o' v v' r' reason' where o': "apply_taxonomy jc (lo_response o') = Inr (r', reason')"
      "(if reason' \<noteq> None \<and> as \<noteq> [] then job_bind (job_sleep 250) (\<lambda>_. classify_loop we jc job stale as)
        else job_return (r', reason', o')) v = (Inr (r, reason, out), w')"
      using loop by (auto simp: job_lift_Inr simp del: split_paired_Ex elim!: job_bindE split: prod.splits)
    show ?thesis
    proof (cases "reason' \<noteq> None \<and> as \<noteq> []")
      case True
      with o'(2) obtain u u' where "classify_loop we jc job stale as u = (Inr (r, reason, out), u')"
        by (auto elim!: job_bindE)
      from yieldsD [OF Cons.IH this] show ?thesis by simp
    next
      case False
      with o' show ?thesis by (auto simp: job_return_def split: if_splits)
    qed
  qed
  then show ?case by (auto simp: yields_def)
qed auto

text \<open>The steps of a successful job.\<close>

lemma handle_job_trace:
  assumes h: "handle_job we jc payload w = (Inr (), w')"
  obtains job stale w0 wa wb r reason out recommended a w2 w3 where
    "job_of we payload = Some job"
    "(if cp_requires_content job then mark_pending job ''waiting_content'' None else job_return ()) w = (Inr (), w0)"
    "select_stale_pending_provider we jc job w0 = (Inr stale, wa)"
    "classify_loop we jc job stale [1, 2, 3] wa = (Inr (r, reason, out), wb)"
    "parse_policy_action (lr_recommended_action r) = Inr recommended"
    "store_classification job (tax_version (ts_taxonomy (jc_taxonomy jc)))
       (apply_guardrails jc job r reason out recommended) wb = (Inr a, w2)"
    "publish_invalidation we jc (cp_normalized_key job) w2 = (Inr (), w3)"
    "(if waits_for_content jc out
      then mark_pending job ''waiting_content'' (Some ''metadata_only_classification'')
      else worker_clear_pending (cp_normalized_key job)) w3 = (Inr (), w')"
proof -
  obtain job where job: "job_of we payload = Some job"
    using h by (cases "job_of we payload") (auto simp: handle_job_def job_of_def job_simps)
  from h job that show thesis
    unfolding handle_job_def job_of_def waits_for_content_def Let_def
    by (auto simp: job_context_Inr job_lift_Inr simp del: classify_loop.simps split: prod.splits
        elim!: job_bindE)
qed

lemma verdict_steps_keep:
  assumes "(if cp_requires_content job then mark_pending job ''waiting_content'' None else job_return ()) w = (Inr (), w0)"
    and "select_stale_pending_provider we jc job w0 = (Inr stale, wa)"
    and "classify_loop we jc job stale [1, 2, 3] wa = (Inr (r, reason, out), wb)"
  shows "lw_classifications wb = lw_classifications w \<and> lw_redis wb = lw_redis w \<and>
    lw_published wb = lw_published w \<and> lw_streams wb = lw_streams w \<and> lw_now w \<le> lw_now wb"
proof -
  have "lw_classifications w0 = lw_classifications w \<and> lw_redis w0 = lw_redis w \<and>
      lw_published w0 = lw_published w \<and> lw_streams w0 = lw_streams w \<and> lw_now w0 = lw_now w"
    using assms(1) by (auto simp: job_simps upsert_request_def dest!: mark_pending_ok split: if_splits)
  moreover have "same_tables w0 wa" using keepsD [OF keeps_select_stale assms(2)] .
  moreover have "same_tables wa wb" using keepsD [OF keeps_classify_loop assms(3)] .
  ultimately show ?thesis by (simp add: same_tables_def)
qed

lemma final_steps_keep:
  assumes "publish_invalidation we jc (cp_normalized_key job) w2 = (Inr (), w3)"
    and "(if waits_for_content jc out
      then mark_pending job ''waiting_content'' (Some ''metadata_only_classification'')
      else worker_clear_pending (cp_normalized_key job)) w3 = (Inr (), w')"
  shows "lw_classifications w' = lw_classifications w2"
proof -
  have "lw_classifications w' = lw_classifications w3"
    using assms(2) by (auto simp: job_simps worker_clear_pending_def job_query_def job_sql_def
        upsert_request_def delete_request_def dest!: mark_pending_ok split: if_splits)
  then show ?thesis using publish_invalidation_ok(3) [OF assms(1)] by simp
qed

lemma handle_job_ok:
  assumes wf: "store_wf (jc_taxonomy jc)" and h: "handle_job we jc payload w = (Inr (), w')"
  obtains job r reason out recommended w1 w2 w3 where
    "job_of we payload = Some job" "sound_verdict jc (r, reason, out)"
    "parse_policy_action (lr_recommended_action r) = Inr recommended"
    "lw_classifications w1 = lw_classifications w" "lw_redis w1 = lw_redis w"
    "lw_published w1 = lw_published w" "lw_streams w1 = lw_streams w" "lw_now w \<le> lw_now w1"
    "store_classification job (tax_version (ts_taxonomy (jc_taxonomy jc)))
       (apply_guardrails jc job r reason out recommended) w1 =
       (Inr (fv_action (apply_guardrails jc job r reason out recommended)), w2)"
    "publish_invalidation we jc (cp_normalized_key job) w2 = (Inr (), w3)"
    "(if waits_for_content jc out
      then mark_pending job ''waiting_content'' (Some ''metadata_only_classification'')
      else worker_clear_pending (cp_normalized_key job)) w3 = (Inr (), w')"
proof -
  obtain job stale w0 wa wb r reason out recommended a w2 w3 where job: "job_of we payload = Some job"
    and m: "(if cp_requires_content job then mark_pending job ''waiting_content'' None else job_return ()) w = (Inr (), w0)"
    and sel: "select_stale_pending_provider we jc job w0 = (Inr stale, wa)"
    and c: "classify_loop we jc job stale [1, 2, 3] wa = (Inr (r, reason, out), wb)"
    and p: "parse_policy_action (lr_recommended_action r) = Inr recommended"
    and s: "store_classification job (tax_version (ts_taxonomy (jc_taxonomy jc)))
       (apply_guardrails jc job r reason out recommended) wb = (Inr a, w2)"
    and pub: "publish_invalidation we jc (cp_normalized_key job) w2 = (Inr (), w3)"
    and fin: "(if waits_for_content jc out
      then mark_pending job ''waiting_content'' (Some ''metadata_only_classification'')
      else worker_clear_pending (cp_normalized_key job)) w3 = (Inr (), w')"
    by (rule handle_job_trace [OF h])
  show ?thesis
    using that [OF job yieldsD [OF classify_loop_sound [OF wf] c] p _ _ _ _ _ _ pub fin, of wb]
      verdict_steps_keep [OF m sel c] s store_classification_ok(1) [OF s]
    by simp
qed

lemma handle_job_row:
  assumes "store_wf (jc_taxonomy jc)" "handle_job we jc payload w = (Inr (), w')"
  obtains job r reason out recommended row where "job_of we payload = Some job"
    "sound_verdict jc (r, reason, out)" "parse_policy_action (lr_recommended_action r) = Inr recommended"
    "find_class (cp_normalized_key job) w' = Some row"
    "row_of_verdict (apply_guardrails jc job r reason out recommended) row"
    "cl_status row = (case find_class (cp_normalized_key job) w of None \<Rightarrow> ''active'' | Some old \<Rightarrow> cl_status old)"
    "\<And>k. k \<noteq> cp_normalized_key job \<Longrightarrow> find_class k w' = find_class k w"
proof -
  obtain job r reason out recommended w1 w2 w3 where job: "job_of we payload = Some job"
    and v: "sound_verdict jc (r, reason, out)"
    and p: "parse_policy_action (lr_recommended_action r) = Inr recommended"
    and w1: "lw_classifications w1 = lw_classifications w"
    and s: "store_classification job (tax_version (ts_taxonomy (jc_taxonomy jc)))
       (apply_guardrails jc job r reason out recommended) w1 =
       (Inr (fv_action (apply_guardrails jc job r reason out recommended)), w2)"
    and pub: "publish_invalidation we jc (cp_normalized_key job) w2 = (Inr (), w3)"
    and fin: "(if waits_for_content jc out
      then mark_pending job ''waiting_content'' (Some ''metadata_only_classification'')
      else worker_clear_pending (cp_normalized_key job)) w3 = (Inr (), w')"
    by (rule handle_job_ok [OF assms])
  have f: "find_class k w2 = find_class k w'" "find_class k w1 = find_class k w" for k
    using final_steps_keep [OF pub fin] w1 by (simp_all add: find_class_def)
  show ?thesis
    using store_classification_ok(4) [OF s] that [OF job v p] store_classification_ok(3) [OF s]
    unfolding f by blast
qed

text \<open>
  C6: a successful job stores the verdict of its own run.  The labels, the risk level and the recommendation are
  those of the last answer of the providers in this run, with the labels resolved against the taxonomy:
  they are labels of the taxonomy, and the risk level and confidence are in range.  The stored action
  is a block where the activation profile disables the labels, a review where the job's excerpt is
  flagged, the configured action where the provider saw no page content, and the provider's
  recommendation otherwise; the confidence is not raised, and stays below the configured limits of the
  guardrails that apply.  No other key is touched.
\<close>

theorem stored_classification_sound:
  assumes "store_wf (jc_taxonomy jc)" "caps_ok jc" "handle_job we jc payload w = (Inr (), w')"
  shows "\<exists>job stale w0 w1 w2 verdict reason out recommended row.
    Option.bind (json_of_text (we_ex we) payload) job_payload_of_json = Some job \<and>
    (if cp_requires_content job then mark_pending job ''waiting_content'' None else job_return ()) w = (Inr (), w0) \<and>
    select_stale_pending_provider we jc job w0 = (Inr stale, w1) \<and>
    classify_loop we jc job stale [1, 2, 3] w1 = (Inr (verdict, reason, out), w2) \<and>
    apply_taxonomy jc (lo_response out) = Inr (verdict, reason) \<and>
    canonical_labels (jc_taxonomy jc) verdict \<and> normal_response verdict \<and>
    (reason \<noteq> None \<longrightarrow> lr_primary_category verdict = UNKNOWN_CATEGORY_ID) \<and>
    parse_policy_action (lr_recommended_action verdict) = Inr recommended \<and>
    find_class (cp_normalized_key job) w' = Some row \<and>
    cl_primary_category row = lr_primary_category verdict \<and> cl_subcategory row = lr_subcategory verdict \<and>
    cl_risk_level row = lr_risk_level verdict \<and>
    cl_recommended_action row = show_action
      (if \<not> is_enabled (jc_activation jc) (lr_primary_category verdict) (Some (lr_subcategory verdict)) then Block
       else if injection_flagged jc job then Review
       else if lo_context_mode out = MetadataOnly then oc_metadata_only_force_action (jc_online_context jc)
       else recommended) \<and>
    f32_unit (cl_confidence row) \<and> f32_le (cl_confidence row) (lr_confidence verdict) \<and>
    (lo_context_mode out = MetadataOnly \<longrightarrow>
       f32_le (cl_confidence row) (oc_metadata_only_max_confidence (jc_online_context jc))) \<and>
    (injection_flagged jc job \<longrightarrow> f32_le (cl_confidence row) (pi_confidence_cap (jc_prompt_injection jc))) \<and>
    (\<forall>k. k \<noteq> cp_normalized_key job \<longrightarrow> find_class k w' = find_class k w)"
proof -
  obtain job stale w0 w1 w2 v reason out recommended a w3 w4 where steps: "job_of we payload = Some job"
    "(if cp_requires_content job then mark_pending job ''waiting_content'' None else job_return ()) w = (Inr (), w0)"
    "select_stale_pending_provider we jc job w0 = (Inr stale, w1)"
    "classify_loop we jc job stale [1, 2, 3] w1 = (Inr (v, reason, out), w2)"
    "parse_policy_action (lr_recommended_action v) = Inr recommended"
    and st: "store_classification job (tax_version (ts_taxonomy (jc_taxonomy jc)))
       (apply_guardrails jc job v reason out recommended) w2 = (Inr a, w3)"
    and pub: "publish_invalidation we jc (cp_normalized_key job) w3 = (Inr (), w4)"
    and fin: "(if waits_for_content jc out
      then mark_pending job ''waiting_content'' (Some ''metadata_only_classification'')
      else worker_clear_pending (cp_normalized_key job)) w4 = (Inr (), w')"
    by (rule handle_job_trace [OF assms(3)])
  have sound: "sound_verdict jc (v, reason, out)" by (rule yieldsD [OF classify_loop_sound [OF assms(1)] steps(4)])
  then have conf: "f32_unit (lr_confidence v)" by (simp add: sound_verdict_def normal_response_def)
  have before: "find_class k w2 = find_class k w" for k
    using verdict_steps_keep [OF steps(2-4)] by (simp add: find_class_def)
  have after: "find_class k w' = find_class k w3" for k
    using final_steps_keep [OF pub fin] by (simp add: find_class_def)
  obtain row where row: "find_class (cp_normalized_key job) w3 = Some row"
    "row_of_verdict (apply_guardrails jc job v reason out recommended) row"
    using store_classification_ok(4) [OF st] by blast
  have ans: "apply_taxonomy jc (lo_response out) = Inr (v, reason)"
    using yieldsD [OF classify_loop_answer steps(4)] by simp
  show ?thesis
    by (intro exI [of _ job] exI [of _ stale] exI [of _ w0] exI [of _ w1] exI [of _ w2] exI [of _ v] exI [of _ reason]
        exI [of _ out] exI [of _ recommended] exI [of _ row])
      (use steps ans sound row guardrails_confidence [OF assms(2) conf] store_classification_ok(3) [OF st] in
        \<open>simp add: job_of_def before after sound_verdict_def row_of_verdict_def guardrails_action guardrails_labels
          guarded_action_def verdict_enabled_def del: classify_loop.simps\<close>)
qed

text \<open>
  C14: after a successful job the decision cached for its key is gone from Redis, the event published last
  removes exactly this key from the memory of every adaptor that receives it, and the request for the
  key is cleared, or waits for content when the provider has not seen any.
\<close>

theorem classified_key_is_released:
  assumes "store_wf (jc_taxonomy jc)" "json_text_ok (we_ex we)" "handle_job we jc payload w = (Inr (), w')"
  shows "\<exists>job msg. job_of we payload = Some job \<and>
    lw_redis w' = (lw_redis w)(cp_normalized_key job := None) \<and>
    lw_published w' = lw_published w @ [(jc_cache_channel jc, msg)] \<and>
    (\<forall>c. apply_invalidation (we_ex we) msg c = (Inr (), invalidate_key (cp_normalized_key job) c)) \<and>
    (find_request (cp_normalized_key job) w' = None \<or>
     (\<exists>r. find_request (cp_normalized_key job) w' = Some r \<and> rq_status r = ''waiting_content'' \<and>
        rq_last_error r = Some ''metadata_only_classification''))"
proof -
  obtain job out w1 w2 w3 fv a where job: "job_of we payload = Some job"
    and w1: "lw_redis w1 = lw_redis w" "lw_published w1 = lw_published w"
    and s: "store_classification job (tax_version (ts_taxonomy (jc_taxonomy jc))) fv w1 = (Inr a, w2)"
    and pub: "publish_invalidation we jc (cp_normalized_key job) w2 = (Inr (), w3)"
    and fin: "(if waits_for_content jc out
      then mark_pending job ''waiting_content'' (Some ''metadata_only_classification'')
      else worker_clear_pending (cp_normalized_key job)) w3 = (Inr (), w')"
    by (rule handle_job_ok [OF assms(1,3)])
  let ?msg = "text_of_json (we_ex we) (cache_event_to_json (ReviewEvent (cp_normalized_key job)))"
  have same: "lw_redis w' = lw_redis w3" "lw_published w' = lw_published w3"
    using fin by (auto simp: job_simps worker_clear_pending_def job_query_def job_sql_def
        upsert_request_def delete_request_def dest!: mark_pending_ok split: if_splits)
  have "apply_invalidation (we_ex we) ?msg c = (Inr (), invalidate_key (cp_normalized_key job) c)" for c
    using assms(2) event_json_round [of "ReviewEvent (cp_normalized_key job)"]
    by (simp add: apply_invalidation_def json_text_ok_def apply_event_def)
  moreover have "find_request (cp_normalized_key job) w' = None \<or>
     (\<exists>r. find_request (cp_normalized_key job) w' = Some r \<and> rq_status r = ''waiting_content'' \<and>
        rq_last_error r = Some ''metadata_only_classification'')"
    using fin by (auto simp: job_simps worker_clear_pending_def job_query_def job_sql_def
        find_request_upsert find_request_delete dest!: mark_pending_ok split: if_splits option.splits)
  moreover have "lw_redis w2 = lw_redis w1" "lw_published w2 = lw_published w1"
    using store_classification_ok(2) [OF s] by (simp_all add: other_tables_def)
  ultimately show ?thesis
    using job same w1 publish_invalidation_ok(1,2) [OF pub] by auto
qed

end
