(* ===== verification/Llm_Run.thy ===== *)
theory Llm_Run
  imports Llm_Correct
begin

text \<open>
  The worker over many jobs: the invariant of its tables, how failed jobs end, why no job is lost or
  repeated, and how much work one job may cause.
\<close>

section \<open>The tables stay keyed\<close>

definition world_ok :: "worker_world \<Rightarrow> bool" where
  "world_ok w \<longleftrightarrow>
     distinct (map cl_normalized_key (lw_classifications w)) \<and>
     distinct (map rq_normalized_key (lw_requests w)) \<and>
     distinct (map (\<lambda>v. (cw_classification_id v, cw_version v)) (lw_versions w))"

definition ok_step :: "worker_world \<Rightarrow> worker_world \<Rightarrow> bool" where
  "ok_step w w' \<longleftrightarrow> (world_ok w \<longrightarrow> world_ok w')"

interpretation os: job_frame ok_step
  by unfold_locales (auto simp: ok_step_def world_ok_def)

lemma keeps_mono: "keeps R m \<Longrightarrow> (\<And>w w'. R w w' \<Longrightarrow> S w w') \<Longrightarrow> keeps S m"
  by (simp add: keeps_def)

lemma same_tables_ok: "same_tables w w' \<Longrightarrow> ok_step w w'"
  by (simp add: same_tables_def ok_step_def world_ok_def)

lemma quiet_ok [intro!]:
  "keeps ok_step (select_stale_pending_provider we jc job)"
  "keeps ok_step (classify_loop we jc job stale as)"
  by (rule keeps_mono [OF keeps_select_stale same_tables_ok], assumption,
      rule keeps_mono [OF keeps_classify_loop same_tables_ok], assumption)

lemma map_key_update:
  assumes "\<And>r. key (f r) = key r"
  shows "map (key \<circ> (\<lambda>r. if P r then f r else r)) xs = map key xs"
  by (simp add: assms)

lemma upsert_request_ok: "ok_step w (upsert_request key status base e w)"
  by (auto simp: ok_step_def world_ok_def upsert_request_def list_ex_iff map_key_update)

lemma delete_request_ok: "ok_step w (delete_request key w)"
  by (auto simp: ok_step_def world_ok_def delete_request_def distinct_map intro: inj_on_subset)

lemma update_request_ok:
  assumes "\<And>r. rq_normalized_key (f r) = rq_normalized_key r"
  shows "ok_step w (update_request key f w)"
  by (simp add: ok_step_def world_ok_def update_request_def map_key_update assms)

lemma keeps_mark_pending [intro!]: "keeps ok_step (mark_pending job status e)"
  unfolding mark_pending_def by (rule os.keeps_sql) (simp add: upsert_request_ok)

lemma keeps_clear_pending [intro!]: "keeps ok_step (worker_clear_pending key)"
  by (auto simp: worker_clear_pending_def intro!: os.keeps_sql simp: delete_request_ok)

lemma current_version_ge:
  "v \<in> set (lw_versions w) \<Longrightarrow> cw_classification_id v = cid \<Longrightarrow> cw_version v \<le> current_version cid w"
proof -
  have "x \<in> set xs \<Longrightarrow> x \<le> fold max xs (a :: nat)" "a \<le> fold max xs a" for x xs a
    by (induction xs arbitrary: a) (auto, (meson le_trans max.cobounded1 max.cobounded2)+)
  then show "v \<in> set (lw_versions w) \<Longrightarrow> cw_classification_id v = cid \<Longrightarrow> cw_version v \<le> current_version cid w"
    by (auto simp: current_version_def)
qed

lemma upsert_class_ok: "ok_step w (snd (upsert_class row w))"
  by (auto simp: ok_step_def world_ok_def upsert_class_def find_class_def find_None_iff_ball map_key_update
      update_class_row_def split: option.split)

lemma keeps_store [intro!]: "keeps ok_step (store_classification job tv fv)"
proof -
  have v: "keeps ok_step (job_bind (job_query (current_version cid)) (\<lambda>current.
     job_bind job_uuid (\<lambda>vid.
     job_bind (job_sql (\<lambda>w. ((), w\<lparr>lw_versions := lw_versions w @
       [\<lparr>cw_id = vid, cw_classification_id = cid, cw_version = current + 1,
         cw_changed_by = ''llm-worker'', cw_reason = ''automated'', cw_payload = p\<rparr>]\<rparr>))) (\<lambda>_.
     job_return a))))" for cid p and a :: policy_action
    unfolding keeps_def
    by (auto simp: job_bind_def job_query_def job_sql_def job_op_def job_uuid_def job_return_def Let_def
        ok_step_def world_ok_def dest: current_version_ge split: if_splits)
      (auto simp: current_version_def dest: current_version_ge)
  show ?thesis
    unfolding store_classification_def
    by (intro os.keeps_bind os.keeps_uuid os.keeps_sql v upsert_class_ok)
qed

lemma keeps_redis_ok:
  assumes "\<And>w. lw_classifications (snd (f w)) = lw_classifications w \<and>
    lw_requests (snd (f w)) = lw_requests w \<and> lw_versions (snd (f w)) = lw_versions w"
  shows "keeps ok_step (job_redis f)"
  by (rule os.keeps_redis) (simp add: ok_step_def world_ok_def assms)

lemma keeps_xadd [intro!]: "keeps ok_step (xadd s fs)"
  by (simp add: xadd_def keeps_redis_ok)

lemma keeps_publish [intro!]: "keeps ok_step (publish_invalidation we jc key)"
  by (auto simp: publish_invalidation_def keeps_redis_ok)

lemma keeps_handle_job [intro!]: "keeps ok_step (handle_job we jc payload)"
  by (auto simp: handle_job_def Let_def simp del: classify_loop.simps split: option.split prod.split)

lemma keeps_ignore_error [intro!]: "keeps ok_step m \<Longrightarrow> keeps ok_step (ignore_error m)"
  by (auto simp: ignore_error_def)

lemma keeps_mark_failed [intro!]: "keeps ok_step (mark_failed hint m)"
  by (auto simp: mark_failed_def split: option.split)

lemma keeps_process_job [intro!]: "keeps ok_step (process_job we jc payload)"
  by (auto simp: process_job_def after_job_error_def requeue_def idempotency_key_seen_def
      idempotency_mark_processed_def keeps_redis_ok Let_def split: option.split sum.split)

lemma keeps_handle_entries [intro!]: "keeps ok_step (handle_entries we jc dlq es)"
  by (induction es) (auto simp: handle_entry_def publish_dead_letter_def xack_def keeps_redis_ok split: option.split)

lemma keeps_reconcile_rows [intro!]: "keeps ok_step (reconcile_rows we ut rc rs)"
  by (induction rs)
    (auto simp: reconcile_row_def Let_def delete_request_ok update_request_ok intro!: os.keeps_sql
      split: option.split prod.split)

text \<open>
  C33: the tables keep their keys whatever fails on the way: at most one classification and one request
  per key, and no version number of a classification is used twice.
\<close>

theorem worker_tables_keyed:
  assumes "world_ok w"
  shows "world_ok (snd (consume_round we jc dlq held fresh w)) \<and>
    world_ok (snd (reconcile_once we url_text rc w))"
proof -
  have "keeps ok_step (consume_round we jc dlq held fresh)"
    by (auto simp: consume_round_def keeps_redis_ok)
  moreover have "keeps ok_step (reconcile_once we url_text rc)"
    by (auto simp: reconcile_once_def)
  ultimately show ?thesis using assms by (auto simp: keeps_def ok_step_def)
qed

section \<open>No panics\<close>

definition calm :: "job_error \<Rightarrow> bool" where
  "calm e \<longleftrightarrow> (\<forall>p. e \<noteq> JobPanic p)"

lemma calm_simps [simp]:
  "calm ContentNotReady" "calm (RetryableJob r)" "calm (NonRetryableJob r)" "calm (OtherJob m)"
  "\<not> calm (JobPanic p)" "calm (class_error c r)"
  by (cases c; simp add: calm_def)+

lemma calm_statements [intro!]:
  "raises calm (job_op msg f)" "raises calm (job_sql g)" "raises calm (job_query h)"
  "raises calm (job_redis g)" "raises calm job_connect"
  by (simp_all add: raises_op job_sql_def job_query_def job_redis_def job_connect_def)

lemma calm_call_llm [intro!]: "raises calm (call_llm we p job prompt)"
  by (simp add: raises_def call_llm_def split: prod.split)

lemma calm_await [intro!]: "raises calm (await_loop we key n)"
  by (induction n) (auto simp: load_page_content_def split: option.split)

lemma calm_prepare [intro!]: "raises calm (prepare_provider_request we jc job p ri)"
  by (auto simp: prepare_provider_request_def plan_provider_request_def metadata_only_fetch_failure_reason_def
      load_page_fetch_state_def enrich_job_with_content_def await_page_content_def load_page_content_def
      Let_def split: option.split)

lemma calm_retry_loop [intro!]: "raises calm (retry_loop we fo p job prompt n)"
proof (induction we fo p job prompt n rule: retry_loop.induct)
  case (1 we fo p job prompt n)
  then show ?case by (subst retry_loop.simps) (auto simp: Let_def split: sum.split)
qed

lemma calm_budgets [intro!]:
  "raises calm (take_fallback_budget fo)" "raises calm (trip_fallback_cooldown fo)"
  "raises calm (take_divert_budget n)"
  by (simp_all add: raises_def take_fallback_budget_def trip_fallback_cooldown_def take_divert_budget_def
      split: prod.split)

lemma calm_invoke [intro!]: "raises calm (invoke_with_fallback we jc job ri stale)"
  by (auto simp: invoke_with_fallback_def try_stale_provider_def after_primary_failure_def
      call_fallback_def invoke_primary_with_retry_def Let_def split: option.split sum.split)

lemma calm_health [intro!]: "raises calm (provider_health_ok we p ttl)"
  by (simp add: raises_def provider_health_ok_def probe_provider_def Let_def split: option.split prod.split)

lemma calm_select_stale [intro!]: "raises calm (select_stale_pending_provider we jc job)"
  by (auto simp: select_stale_pending_provider_def stale_pending_age_minutes_def split: option.split)

lemma calm_taxonomy:
  assumes "store_wf (jc_taxonomy jc)"
  shows "raises calm (job_lift (apply_taxonomy jc r))"
proof -
  obtain v where "validate_labels (jc_taxonomy jc) (lr_primary_category r)
      (if trim (lr_subcategory r) = [] then None else Some (lr_subcategory r)) = Inr v"
    using validate_labels_wf [OF assms] by blast
  then show ?thesis by (auto simp: apply_taxonomy_def)
qed

lemma calm_classify_loop:
  "store_wf (jc_taxonomy jc) \<Longrightarrow> raises calm (classify_loop we jc job stale as)"
  by (induction "as") (auto intro!: calm_taxonomy split: prod.split)

lemma calm_action [intro!]: "raises calm (job_lift (parse_policy_action a))"
  by (auto simp: parse_policy_action_def)

lemma calm_context [intro!]: "raises calm m \<Longrightarrow> raises calm (job_context msg m)"
  by (fastforce simp: raises_def job_context_def split: prod.splits sum.splits job_error.splits)

lemma handle_job_calm:
  assumes "store_wf (jc_taxonomy jc)"
  shows "raises calm (handle_job we jc payload)"
  by (auto simp: handle_job_def mark_pending_def store_classification_def publish_invalidation_def
      worker_clear_pending_def Let_def simp del: classify_loop.simps intro!: calm_classify_loop assms
      split: option.split prod.split)

section \<open>What a job writes to the streams\<close>

definition quiet :: "worker_world \<Rightarrow> worker_world \<Rightarrow> bool" where
  "quiet w w' \<longleftrightarrow> lw_fails w' = lw_fails w \<and> lw_streams w' = lw_streams w"

interpretation qu: job_frame quiet
  by unfold_locales (auto simp: quiet_def)

lemma quiet_statement:
  assumes "\<And>w. lw_fails (snd (f w)) = lw_fails w \<and> lw_streams (snd (f w)) = lw_streams w"
  shows "keeps quiet (job_sql f)" "keeps quiet (job_redis f)"
  by (rule qu.keeps_sql qu.keeps_redis, simp add: quiet_def assms)+

lemma same_tables_quiet: "same_tables w w' \<Longrightarrow> quiet w w'"
  by (simp add: same_tables_def quiet_def)

lemma quiet_programs [intro!]:
  "keeps quiet (select_stale_pending_provider we jc job)"
  "keeps quiet (classify_loop we jc job stale as)"
  by (rule keeps_mono [OF keeps_select_stale same_tables_quiet], assumption,
      rule keeps_mono [OF keeps_classify_loop same_tables_quiet], assumption)

lemma upsert_class_quiet: "lw_fails (snd (upsert_class row w)) = lw_fails w \<and>
  lw_streams (snd (upsert_class row w)) = lw_streams w"
  by (simp add: upsert_class_def split: option.split)

lemma quiet_mark_pending [intro!]: "keeps quiet (mark_pending job status e)"
  by (simp add: mark_pending_def quiet_statement upsert_request_def)

lemma quiet_handle_job [intro!]: "keeps quiet (handle_job we jc payload)"
  by (auto simp: handle_job_def store_classification_def publish_invalidation_def
      worker_clear_pending_def delete_request_def Let_def simp del: classify_loop.simps
      intro!: quiet_statement upsert_class_quiet split: option.split prod.split)

text \<open>
  The entries a job adds: its own successor with the counter raised, and a request for the page.
\<close>

definition requeue_entry :: "worker_env \<Rightarrow> job_consumer \<Rightarrow> classification_job_payload \<Rightarrow>
  string \<times> (string \<times> string) list" where
  "requeue_entry we jc job =
     (jc_stream jc, [(''payload'', text_of_json (we_ex we) (job_payload_to_json (requeued_job job)))])"

definition fetch_entry :: "worker_env \<Rightarrow> job_consumer \<Rightarrow> classification_job_payload \<Rightarrow>
  string \<times> (string \<times> string) list" where
  "fetch_entry we jc job =
     (jc_page_fetch_stream jc,
      [(''payload'', text_of_json (we_ex we) (page_fetch_job_to_json (fetch_job_of job)))])"

definition adds :: "((string \<times> (string \<times> string) list) list \<Rightarrow> bool) \<Rightarrow> 'a job \<Rightarrow> bool" where
  "adds P m \<longleftrightarrow> (\<forall>w. \<exists>new. lw_streams (snd (m w)) = lw_streams w @ new \<and> P new)"

lemma addsD: "adds P m \<Longrightarrow> m w = (r, w') \<Longrightarrow> \<exists>new. lw_streams w' = lw_streams w @ new \<and> P new"
  unfolding adds_def by (metis snd_conv)

lemma adds_quiet: "keeps quiet m \<Longrightarrow> P [] \<Longrightarrow> adds P m"
  unfolding adds_def keeps_def quiet_def by (metis append_Nil2)

lemma quiet_ignore [intro!]: "keeps quiet m \<Longrightarrow> keeps quiet (ignore_error m)"
  by (auto simp: ignore_error_def)

lemma quiet_mark_failed [intro!]: "keeps quiet (mark_failed hint m)"
  by (auto simp: mark_failed_def split: option.split)

lemma xadd_streams:
  "lw_streams (snd (xadd s fs w)) = lw_streams w \<or> lw_streams (snd (xadd s fs w)) = lw_streams w @ [(s, fs)]"
  by (simp add: xadd_def job_redis_def job_op_def Let_def)

lemma adds_requeue:
  "adds (\<lambda>new. new \<in> {[], [requeue_entry we jc job], [requeue_entry we jc job, fetch_entry we jc job]})
     (requeue we jc payload (Some job))"
  unfolding adds_def requeue_def
  by (auto simp: job_bind_def job_connect_def job_redis_def job_op_def xadd_def job_try_def job_return_def
      requeue_entry_def fetch_entry_def Let_def split: if_splits)

definition allowed_entries ::
  "worker_env \<Rightarrow> job_consumer \<Rightarrow> string \<Rightarrow> (string \<times> (string \<times> string) list) list \<Rightarrow> bool" where
  "allowed_entries we jc payload new \<longleftrightarrow> new = [] \<or>
     (\<exists>job. job_of we payload = Some job \<and> cp_requeue_attempt job < jc_max_requeue_attempts jc \<and>
        (new = [requeue_entry we jc job] \<or> new = [requeue_entry we jc job, fetch_entry we jc job]))"

section \<open>How a job ends\<close>

lemma job_try_calm: "raises calm m \<Longrightarrow> m w = (r, w') \<Longrightarrow> job_try m w = (Inr r, w')"
  by (cases r) (auto simp: job_try_def dest: raisesD split: job_error.split)

lemma ignore_error_calm: "raises calm m \<Longrightarrow> ignore_error m w = (Inr (), snd (m w))"
  using job_try_calm [of m w] by (cases "m w") (simp add: ignore_error_def job_bind_def job_return_def)

lemma raises_none:
  assumes "raises (\<lambda>_. False) (m :: unit job)"
  obtains w' where "m w = (Inr (), w')"
  using assms by (cases "m w"; cases "fst (m w)") (auto simp: raises_def)

lemma raises_try: "raises calm m \<Longrightarrow> raises E (job_try m)"
  using job_try_calm [of m] unfolding raises_def by (metis Inl_Inr_False prod.inject surj_pair)

lemma raises_ignore [intro!]: "raises calm m \<Longrightarrow> raises E (ignore_error m)"
  by (auto simp: ignore_error_def raises_try)

lemma calm_mark_pending [intro!]: "raises calm (mark_pending job st e)"
  by (auto simp: mark_pending_def)

lemma calm_requeue [intro!]: "raises calm (requeue we jc payload hint)"
  by (auto simp: requeue_def xadd_def intro!: raises_try split: option.split)

lemma raises_mark_failed [intro!]: "raises E (mark_failed hint m)"
  by (auto simp: mark_failed_def split: option.split)

lemma after_job_error_total: "raises E (after_job_error we jc payload hint err)"
  by (auto simp: after_job_error_def intro!: raises_try split: sum.split)

lemma after_job_error_Inr: "\<exists>w'. after_job_error we jc payload hint err w = (Inr (), w')"
  using after_job_error_total [of "\<lambda>_. False" we jc payload hint err]
  by (cases "after_job_error we jc payload hint err w"; cases "fst (after_job_error we jc payload hint err w)")
    (auto simp: raises_def)

lemma calm_seen [intro!]: "raises calm (idempotency_key_seen k)"
  by (auto simp: idempotency_key_seen_def)

lemma calm_marked [intro!]: "raises calm (idempotency_mark_processed jc k)"
  by (auto simp: idempotency_mark_processed_def)

text \<open>The four ways a decodable job ends, on a store that does not panic.\<close>

lemma process_job_cases:
  assumes wf: "store_wf (jc_taxonomy jc)" and j: "job_of we payload = Some job"
    and p: "process_job we jc payload w = (r, w')"
  obtains
    (duplicate) "idempotency_key_seen (classification_idempotency_key job) w = (Inr True, w')"
      "r = Inr ()"
  | (success) w1 w2 where "handle_job we jc payload w1 = (Inr (), w2)" "r = Inr ()"
      "snd (idempotency_key_seen (classification_idempotency_key job) w) = w1"
      "w' = snd (idempotency_mark_processed jc (classification_idempotency_key job) w2)"
  | (failed) w1 w2 err where "handle_job we jc payload w1 = (Inl err, w2)" "r = Inl err" "calm err"
      "snd (idempotency_key_seen (classification_idempotency_key job) w) = w1"
      "after_job_error we jc payload (Some job) err w2 = (Inr (), w')"
proof -
  let ?k = "classification_idempotency_key job"
  obtain q w1 where q: "idempotency_key_seen ?k w = (q, w1)" by (metis surj_pair)
  obtain h w2 where h: "handle_job we jc payload w1 = (h, w2)" by (metis surj_pair)
  note t = job_try_calm [OF calm_seen q] job_try_calm [OF handle_job_calm [OF wf] h]
  show thesis
  proof (cases "q = Inr True")
    case True
    with p j q t(1) duplicate show ?thesis
      by (simp add: process_job_def job_of_def job_bind_def job_return_def Let_def)
  next
    case nq: False
    then have seen: "(case q of Inr seen \<Rightarrow> seen | Inl _ \<Rightarrow> False) = False" by (cases q) auto
    show ?thesis
    proof (cases h)
      case (Inr u)
      with p j q t seen ignore_error_calm [OF calm_marked, of jc ?k w2] h show ?thesis
        by (intro success [of w1 w2]) (simp_all add: process_job_def job_of_def job_bind_def job_return_def Let_def)
    next
      case (Inl err)
      obtain w3 where "after_job_error we jc payload (Some job) err w2 = (Inr (), w3)"
        using after_job_error_Inr by blast
      with Inl p j q t seen h raisesD [OF handle_job_calm [OF wf] h [unfolded Inl]] show ?thesis
        by (intro failed [of w1 err w2])
          (simp_all add: process_job_def job_of_def job_bind_def job_return_def job_fail_def Let_def)
    qed
  qed
qed

lemma after_job_error_streams:
  assumes "job_of we payload = Some job" "after_job_error we jc payload (Some job) err w = (q, w')"
  shows "\<exists>new. lw_streams w' = lw_streams w @ new \<and> allowed_entries we jc payload new \<and>
    (new \<noteq> [] \<longrightarrow> should_requeue err)"
proof (cases "should_requeue err \<and> cp_requeue_attempt job < jc_max_requeue_attempts jc")
  case True
  obtain r w1 where r: "requeue we jc payload (Some job) w = (r, w1)" by (metis surj_pair)
  obtain new where new: "lw_streams w1 = lw_streams w @ new"
    "new \<in> {[], [requeue_entry we jc job], [requeue_entry we jc job, fetch_entry we jc job]}"
    using addsD [OF adds_requeue r] by blast
  have "lw_streams w' = lw_streams w1"
  proof (cases r)
    case (Inl e)
    with assms(2) True job_try_calm [OF calm_requeue r]
    have "mark_failed (Some job) (''requeue publish failed: '' @ job_error_text e) w1 = (q, w')"
      by (simp add: after_job_error_def job_bind_def)
    then show ?thesis using keepsD [OF quiet_mark_failed] by (simp add: quiet_def)
  next
    case (Inr u)
    with assms(2) True job_try_calm [OF calm_requeue r] show ?thesis
      by (simp add: after_job_error_def job_bind_def job_return_def)
  qed
  with new True assms(1) show ?thesis by (auto simp: allowed_entries_def)
next
  case False
  then have "keeps quiet (after_job_error we jc payload (Some job) err)"
    by (auto simp: after_job_error_def)
  with assms(2) show ?thesis by (auto dest!: keepsD simp: quiet_def allowed_entries_def)
qed

lemma quiet_seen: "keeps quiet (idempotency_key_seen k)" "keeps quiet (idempotency_mark_processed jc k)"
  by (auto simp: idempotency_key_seen_def idempotency_mark_processed_def quiet_statement)

lemma quietD: "keeps quiet m \<Longrightarrow> lw_streams (snd (m w)) = lw_streams w \<and> lw_fails (snd (m w)) = lw_fails w"
  by (simp add: keeps_def quiet_def)

text \<open>
  C31: a job is put back at most the configured number of times: whatever a job does, the only entries it
  adds are its own successor, with the counter raised by one, and a request for the page, and it adds
  them only after a failure that asks for a retry and while the counter is below the limit.
\<close>

theorem requeue_bounded:
  assumes "store_wf (jc_taxonomy jc)" "job_of we payload = Some job"
    and "process_job we jc payload w = (r, w')"
  shows "\<exists>new. lw_streams w' = lw_streams w @ new \<and>
    (new = [] \<or>
     (new = [requeue_entry we jc job] \<or> new = [requeue_entry we jc job, fetch_entry we jc job]) \<and>
     (\<exists>err. r = Inl err \<and> should_requeue err) \<and>
     cp_requeue_attempt (requeued_job job) \<le> jc_max_requeue_attempts jc)"
  using assms
proof (cases rule: process_job_cases)
  case duplicate
  then show ?thesis using quietD [OF quiet_seen(1)] by (metis append_Nil2 snd_conv)
next
  case (success w1 w2)
  then show ?thesis
    using quietD [OF quiet_seen(1)] quietD [OF quiet_seen(2)] keepsD [OF quiet_handle_job]
    by (metis append_Nil2 quiet_def)
next
  case (failed w1 w2 err)
  have "lw_streams w2 = lw_streams w"
    using keepsD [OF quiet_handle_job failed(1)] quietD [OF quiet_seen(1), of _ w] failed(4)
    by (auto simp: quiet_def)
  with after_job_error_streams [OF assms(2) failed(5)] obtain new where
    "lw_streams w' = lw_streams w @ new" "allowed_entries we jc payload new" "new \<noteq> [] \<longrightarrow> should_requeue err"
    by auto
  with assms(2) failed(2) show ?thesis
    by (auto simp: allowed_entries_def requeued_job_def saturating_add_def)
qed

section \<open>No job is lost, no job is repeated\<close>

text \<open>The database and Redis answer every statement.\<close>

definition reliable :: "worker_world \<Rightarrow> bool" where
  "reliable w \<longleftrightarrow> (\<forall>k. \<not> lw_fails w k)"

lemma reliable_quiet: "quiet w w' \<Longrightarrow> reliable w \<Longrightarrow> reliable w'"
  by (simp add: quiet_def reliable_def)

lemma reliable_op:
  "reliable w \<Longrightarrow> job_op msg f w = (Inr (fst (f (w\<lparr>lw_ops := Suc (lw_ops w)\<rparr>))), snd (f (w\<lparr>lw_ops := Suc (lw_ops w)\<rparr>)))"
  by (simp add: job_op_def reliable_def Let_def split_beta)

lemma mark_failed_reliable:
  assumes "reliable w" "mark_failed (Some job) m w = (q, w')"
  shows "\<exists>r. find_request (cp_normalized_key job) w' = Some r \<and> rq_status r = ''failed'' \<and> rq_last_error r = Some m"
proof -
  have "w' = snd (mark_pending job ''failed'' (Some m) w)"
    using assms(2) ignore_error_calm [OF calm_mark_pending] by (simp add: mark_failed_def)
  then show ?thesis
    using assms(1) by (auto simp: mark_pending_def job_sql_def reliable_op find_request_upsert split: option.split)
qed

lemma requeue_reliable:
  assumes "reliable w"
  shows "\<exists>w'. requeue we jc payload (Some job) w = (Inr (), w') \<and> requeue_entry we jc job \<in> set (lw_streams w')"
  using assms
  by (simp add: requeue_def job_bind_def job_connect_def job_redis_def reliable_op xadd_def job_try_def
      job_return_def requeue_entry_def reliable_def job_op_def Let_def)

text \<open>
  C15: with a working database and queue no failed job is lost: it is back on the stream with its counter
  raised, or the request for its key is marked as failed with the reason.
\<close>

theorem failed_job_not_lost:
  assumes "store_wf (jc_taxonomy jc)" "reliable w" "job_of we payload = Some job"
    and "process_job we jc payload w = (Inl err, w')"
  shows "if should_requeue err \<and> cp_requeue_attempt job < jc_max_requeue_attempts jc
    then requeue_entry we jc job \<in> set (lw_streams w')
    else \<exists>r m. find_request (cp_normalized_key job) w' = Some r \<and> rq_status r = ''failed'' \<and>
      rq_last_error r = Some m"
  using assms(1,3,4)
proof (cases rule: process_job_cases)
  case (failed w1 w2 err')
  have rel: "reliable w2"
    using assms(2) quietD [OF quiet_seen(1), of _ w] keepsD [OF quiet_handle_job failed(1)] failed(4)
    by (auto simp: quiet_def reliable_def)
  have [simp]: "err' = err" using failed(2) by simp
  show ?thesis
  proof (cases "should_requeue err \<and> cp_requeue_attempt job < jc_max_requeue_attempts jc")
    case True
    obtain w3 where w3: "requeue we jc payload (Some job) w2 = (Inr (), w3)"
      "requeue_entry we jc job \<in> set (lw_streams w3)"
      using requeue_reliable [OF rel] by blast
    with failed(5) True job_try_calm [OF calm_requeue w3(1)] show ?thesis
      by (simp add: after_job_error_def job_bind_def job_return_def)
  next
    case False
    then have "\<exists>m. after_job_error we jc payload (Some job) err w2 = mark_failed (Some job) m w2"
      by (cases "should_requeue err") (auto simp: after_job_error_def not_less)
    then obtain m where "after_job_error we jc payload (Some job) err w2 = mark_failed (Some job) m w2" ..
    with failed(5) have "mark_failed (Some job) m w2 = (Inr (), w')" by simp
    from mark_failed_reliable [OF rel this] False show ?thesis by auto
  qed
qed simp_all

lemma seen_reliable:
  assumes "reliable w"
  shows "idempotency_key_seen k w =
    (Inr (case lw_redis w (idempotency_redis_key k) of None \<Rightarrow> False | Some (_, e) \<Rightarrow> lw_now w < e),
     w\<lparr>lw_ops := lw_ops w + 2\<rparr>)"
  using assms
  by (simp add: idempotency_key_seen_def job_bind_def job_connect_def job_redis_def job_op_def reliable_def Let_def
      split: option.split prod.split)

lemma process_job_duplicate:
  assumes "reliable w" "job_of we payload = Some job"
    and "lw_redis w (idempotency_redis_key (classification_idempotency_key job)) = Some (v, e)" "lw_now w < e"
  shows "process_job we jc payload w = (Inr (), w\<lparr>lw_ops := lw_ops w + 2\<rparr>)"
  using assms job_try_calm [OF calm_seen seen_reliable [OF assms(1)]]
  by (simp add: process_job_def job_of_def job_bind_def job_return_def Let_def)

text \<open>
  A job that was processed is not processed again while its mark lasts: a second delivery changes
  nothing but the count of commands.
\<close>

theorem processed_job_not_repeated:
  assumes "store_wf (jc_taxonomy jc)" "reliable w" "job_of we payload = Some job"
    and "process_job we jc payload w = (Inr (), w1)" "0 < jc_idempotency_ttl_seconds jc"
  shows "\<exists>e. lw_now w1 < e \<and> (\<forall>t < e. process_job we jc payload (w1\<lparr>lw_now := t\<rparr>) =
    (Inr (), w1\<lparr>lw_now := t, lw_ops := lw_ops w1 + 2\<rparr>))"
proof -
  let ?k = "idempotency_redis_key (classification_idempotency_key job)"
  have "\<exists>v e. lw_redis w1 ?k = Some (v, e) \<and> lw_now w1 < e \<and> reliable w1"
    using assms(1,3,4)
  proof (cases rule: process_job_cases)
    case duplicate
    with assms(2) seen_reliable [OF assms(2), of "classification_idempotency_key job"] show ?thesis
      by (auto simp: reliable_def split: option.splits)
  next
    case (success wa wb)
    have "reliable wb"
      using assms(2) quietD [OF quiet_seen(1), of _ w] keepsD [OF quiet_handle_job success(1)] success(3)
      by (auto simp: quiet_def reliable_def)
    with success(4) assms(5) show ?thesis
      by (simp add: idempotency_mark_processed_def job_bind_def job_connect_def job_redis_def job_op_def
          reliable_def Let_def)
  qed simp_all
  then obtain v e where e: "lw_redis w1 ?k = Some (v, e)" "lw_now w1 < e" "reliable w1" by blast
  have "process_job we jc payload (w1\<lparr>lw_now := t\<rparr>) = (Inr (), w1\<lparr>lw_now := t, lw_ops := lw_ops w1 + 2\<rparr>)"
    if "t < e" for t
    using process_job_duplicate [of "w1\<lparr>lw_now := t\<rparr>" we payload job v e jc] e that assms(3)
    by (simp add: reliable_def)
  with e(2) show ?thesis by blast
qed

section \<open>Acknowledgements\<close>

definition same_acked :: "worker_world \<Rightarrow> worker_world \<Rightarrow> bool" where
  "same_acked w w' \<longleftrightarrow> lw_acked w' = lw_acked w \<and> lw_fails w' = lw_fails w"

interpretation sa: job_frame same_acked
  by unfold_locales (auto simp: same_acked_def)

lemma acked_statement:
  assumes "\<And>w. lw_acked (snd (f w)) = lw_acked w \<and> lw_fails (snd (f w)) = lw_fails w"
  shows "keeps same_acked (job_sql f)" "keeps same_acked (job_redis f)"
  by (rule sa.keeps_sql sa.keeps_redis, simp add: same_acked_def assms)+

lemma same_tables_acked: "same_tables w w' \<Longrightarrow> same_acked w w'"
  by (simp add: same_tables_def same_acked_def)

lemma acked_programs [intro!]:
  "keeps same_acked (select_stale_pending_provider we jc job)"
  "keeps same_acked (classify_loop we jc job stale as)"
  by (rule keeps_mono [OF keeps_select_stale same_tables_acked], assumption,
      rule keeps_mono [OF keeps_classify_loop same_tables_acked], assumption)

lemma upsert_class_acked: "lw_acked (snd (upsert_class row w)) = lw_acked w \<and>
  lw_fails (snd (upsert_class row w)) = lw_fails w"
  by (simp add: upsert_class_def split: option.split)

lemma acked_mark_pending [intro!]: "keeps same_acked (mark_pending job status e)"
  by (simp add: mark_pending_def acked_statement upsert_request_def)

lemma acked_handle_job [intro!]: "keeps same_acked (handle_job we jc payload)"
  by (auto simp: handle_job_def store_classification_def publish_invalidation_def
      worker_clear_pending_def delete_request_def Let_def simp del: classify_loop.simps
      intro!: acked_statement upsert_class_acked split: option.split prod.split)

lemma acked_ignore [intro!]: "keeps same_acked m \<Longrightarrow> keeps same_acked (ignore_error m)"
  by (auto simp: ignore_error_def)

lemma acked_mark_failed [intro!]: "keeps same_acked (mark_failed hint m)"
  by (auto simp: mark_failed_def split: option.split)

lemma acked_process_job [intro!]: "keeps same_acked (process_job we jc payload)"
  by (auto simp: process_job_def after_job_error_def requeue_def idempotency_key_seen_def xadd_def
      idempotency_mark_processed_def acked_statement Let_def split: option.split sum.split)

lemma calm_process_job:
  assumes "store_wf (jc_taxonomy jc)"
  shows "raises calm (process_job we jc payload)"
proof (cases "job_of we payload")
  case None
  then show ?thesis
    by (auto simp: process_job_def job_of_def handle_job_def after_job_error_def should_requeue_def mark_failed_def
        Let_def raises_def job_bind_def job_try_def job_return_def job_fail_def split: prod.splits sum.splits)
next
  case (Some job)
  show ?thesis
    unfolding raises_def using process_job_cases [OF assms Some] by (metis Inl_inject Inr_not_Inl)
qed

lemma xack_reliable:
  "reliable w \<Longrightarrow> ignore_error (xack i) w = (Inr (), w\<lparr>lw_ops := Suc (lw_ops w), lw_acked := lw_acked w @ [i]\<rparr>)"
  by (simp add: ignore_error_def xack_def job_redis_def reliable_op job_try_def job_bind_def job_return_def)

lemma acked_dead_letter [intro!]: "keeps same_acked (publish_dead_letter we dlq st i reason p)"
  by (auto simp: publish_dead_letter_def xadd_def acked_statement)

lemma calm_dead_letter [intro!]: "raises calm (publish_dead_letter we dlq st i reason p)"
  by (auto simp: publish_dead_letter_def xadd_def)

text \<open>
  With a working queue every entry the consumer handles is acknowledged exactly once, whether its job
  succeeded, failed, was put back or was no job at all.
\<close>

theorem entry_acknowledged_once:
  assumes wf: "store_wf (jc_taxonomy jc)" and rel: "reliable w"
  shows "\<exists>w'. handle_entry we jc dlq e w = (Inr (), w') \<and> lw_acked w' = lw_acked w @ [se_id e]"
proof -
  let ?m = "case se_payload e of
      Some payload \<Rightarrow> job_bind (job_try (process_job we jc payload)) (\<lambda>r.
        if \<not> is_ok r \<and> Option.bind (json_of_text (we_ex we) payload) job_payload_of_json = None
        then ignore_error (publish_dead_letter we dlq (jc_stream jc) (se_id e) ''invalid_payload'' (Some payload))
        else job_return ())
    | None \<Rightarrow> ignore_error (publish_dead_letter we dlq (jc_stream jc) (se_id e) ''missing_payload'' None)"
  have k: "keeps same_acked ?m" by (auto split: option.split)
  have "raises (\<lambda>_. False) ?m" by (auto intro!: raises_try calm_process_job wf split: option.split)
  then obtain w1 where w1: "?m w = (Inr (), w1)" by (rule raises_none)
  have "same_acked w w1" using keepsD [OF k w1] .
  then have "reliable w1" "lw_acked w1 = lw_acked w" using rel by (simp_all add: same_acked_def reliable_def)
  then show ?thesis
    using w1 xack_reliable [of w1 "se_id e"] xack_reliable [OF rel, of "se_id e"]
    by (auto simp: handle_entry_def job_bind_def job_get_def)
qed

end
