(* ===== verification/Llm_Bounds.thy ===== *)
theory Llm_Bounds
  imports Llm_Run
begin

text \<open>
  How much work one job may cause: the number of calls to providers, and the time spent waiting for
  page content.
\<close>

section \<open>Counting calls\<close>

definition no_call :: "worker_world \<Rightarrow> worker_world \<Rightarrow> bool" where
  "no_call w w' \<longleftrightarrow> lw_calls w' = lw_calls w"

interpretation nc: job_frame no_call
  by unfold_locales (auto simp: no_call_def)

lemma no_call_statement:
  assumes "\<And>w. lw_calls (snd (f w)) = lw_calls w"
  shows "keeps no_call (job_sql f)" "keeps no_call (job_redis f)"
  by (rule nc.keeps_sql nc.keeps_redis, simp add: no_call_def assms)+

definition costs :: "nat \<Rightarrow> 'a job \<Rightarrow> bool" where
  "costs n m \<longleftrightarrow> (\<forall>w. lw_calls (snd (m w)) \<le> lw_calls w + n)"

lemma costs_free: "keeps no_call m \<Longrightarrow> costs n m"
  by (simp add: costs_def keeps_def no_call_def)

lemma costs_mono: "costs a m \<Longrightarrow> a \<le> b \<Longrightarrow> costs b m"
  unfolding costs_def by (meson add_left_mono le_trans)

lemma costs_bind: "costs a m \<Longrightarrow> (\<And>x. costs b (f x)) \<Longrightarrow> costs (a + b) (job_bind m f)"
  unfolding costs_def job_bind_def
  by (auto split: prod.split sum.split) (metis add.assoc add_le_mono1 le_add1 le_trans snd_conv)+

lemma costs_then: "keeps no_call m \<Longrightarrow> (\<And>x. costs n (f x)) \<Longrightarrow> costs n (job_bind m f)"
  using costs_bind [of 0 m n f] costs_free [of m 0] by simp

lemma costs_before: "costs n m \<Longrightarrow> (\<And>x. keeps no_call (f x)) \<Longrightarrow> costs n (job_bind m f)"
  by (metis add.right_neutral costs_bind costs_free)

lemma costs_return [intro!]: "costs n (job_return x)"
  by (rule costs_free) auto

lemma costs_fail [intro!]: "costs n (job_fail e)"
  by (rule costs_free) auto

lemma costs_call_llm: "costs 1 (call_llm we p job prompt)"
  by (simp add: costs_def call_llm_def split: prod.split)

lemma free_await [intro!]: "keeps no_call (await_loop we key n)"
  by (induction n) (auto simp: load_page_content_def split: option.split)

lemma free_prepare [intro!]: "keeps no_call (prepare_provider_request we jc job p ri)"
  by (auto simp: prepare_provider_request_def plan_provider_request_def metadata_only_fetch_failure_reason_def
      load_page_fetch_state_def enrich_job_with_content_def await_page_content_def load_page_content_def
      Let_def split: option.split)

lemma free_budgets [intro!]:
  "keeps no_call (take_fallback_budget fo)" "keeps no_call (trip_fallback_cooldown fo)"
  "keeps no_call (take_divert_budget n)"
  by (simp_all add: keeps_def take_fallback_budget_def trip_fallback_cooldown_def take_divert_budget_def
      no_call_def split: prod.split)

text \<open>The retry loop makes at most the configured number of calls, one at least.\<close>

definition retry_limit :: "failover_runtime \<Rightarrow> nat" where
  "retry_limit fo = max (fo_primary_retry_max fo) 1"

lemma costs_retry_loop: "costs (Suc (retry_limit fo - n)) (retry_loop we fo p job prompt n)"
proof (induction we fo p job prompt n rule: retry_loop.induct)
  case (1 we fo p job prompt n)
  have "costs (retry_limit fo - n)
      (let failure = classify_invocation_failure fo err
       in if attempt_over \<or> if_class failure = NonRetryable then job_return (Inl failure)
          else job_bind (job_sleep t) (\<lambda>_. retry_loop we fo p job prompt (n + 1)))"
    if "attempt_over = (n \<ge> max (fo_primary_retry_max fo) 1)" for err attempt_over t
  proof (cases "attempt_over \<or> if_class (classify_invocation_failure fo err) = NonRetryable")
    case True
    then show ?thesis by (auto simp: Let_def intro: costs_free)
  next
    case False
    with that have "costs (Suc (retry_limit fo - (n + 1))) (retry_loop we fo p job prompt (n + 1))"
      by (intro "1.IH" [OF refl]) auto
    moreover have "Suc (retry_limit fo - (n + 1)) \<le> retry_limit fo - n"
      using False that by (auto simp: retry_limit_def)
    ultimately show ?thesis using False by (auto simp: Let_def intro!: costs_then elim: costs_mono)
  qed
  then have "costs (1 + (retry_limit fo - n)) (retry_loop we fo p job prompt n)"
    by (subst retry_loop.simps, intro costs_bind costs_call_llm)
      (auto intro: costs_free split: sum.split)
  then show ?case by simp
qed

lemma costs_retry: "costs (retry_limit fo) (invoke_primary_with_retry we fo p job prompt)"
  using costs_retry_loop [of fo 1] by (simp add: invoke_primary_with_retry_def retry_limit_def)

lemma costs_after_failure: "costs 1 (after_primary_failure we jc job ri p err)"
proof -
  have "costs 1 (call_fallback we jc job ri err q)" for q
    unfolding call_fallback_def
    by (rule costs_then, simp add: free_prepare nc.keeps_return, rule costs_before [OF costs_call_llm])
      (auto simp: Let_def split: sum.split)
  then show ?thesis
    by (auto simp: after_primary_failure_def Let_def intro!: costs_then intro: costs_free
        split: option.split sum.split)
qed

lemma costs_stale: "costs (retry_limit (jc_failover jc)) (try_stale_provider we jc job ri stale p)"
  unfolding try_stale_provider_def
  by (auto intro!: costs_then costs_before [OF costs_retry] intro: costs_free split: option.split)

lemma costs_invoke: "costs (2 * retry_limit (jc_failover jc) + 1) (invoke_with_fallback we jc job ri stale)"
proof -
  let ?n = "retry_limit (jc_failover jc)"
  have "costs (?n + 1) (job_bind (prepare_provider_request we jc job p ri) (\<lambda>req.
      job_bind (invoke_primary_with_retry we (jc_failover jc) p (pq_job req) (pq_prompt req)) (\<lambda>r. case r of
        Inr response \<Rightarrow> job_return (outcome_of p req response)
      | Inl err \<Rightarrow> after_primary_failure we jc job ri p err)))" for p
    by (rule costs_then [OF free_prepare], rule costs_bind [OF costs_retry])
      (auto intro: costs_after_failure [simplified] split: sum.split)
  then have "costs (?n + (?n + 1)) (invoke_with_fallback we jc job ri stale)"
    unfolding invoke_with_fallback_def Let_def
    by (intro costs_bind costs_stale) (auto intro: costs_free split: option.split)
  then show ?thesis by (simp add: mult_2)
qed

lemma costs_classify_loop:
  "costs (length as * (2 * retry_limit (jc_failover jc) + 1)) (classify_loop we jc job stale as)"
proof (induction "as")
  case (Cons a as)
  define n where "n = 2 * retry_limit (jc_failover jc) + 1"
  define k where "k = length as * n"
  have "costs k (classify_loop we jc job stale as)" using Cons.IH by (simp add: k_def n_def)
  then have "costs (n + k) (classify_loop we jc job stale (a # as))"
    unfolding classify_loop.simps n_def
    by (intro costs_bind [OF costs_invoke] costs_then [OF nc.keeps_lift])
      (auto intro!: costs_then split: prod.split)
  moreover have "length (a # as) * (2 * retry_limit (jc_failover jc) + 1) = n + k"
    by (simp add: k_def n_def)
  ultimately show ?case by (simp only:)
qed auto

lemma costs_select_stale: "costs 1 (select_stale_pending_provider we jc job)"
proof -
  have "costs 1 (provider_health_ok we p ttl)" for p ttl
    by (simp add: costs_def provider_health_ok_def probe_provider_def Let_def split: option.split prod.split)
  then have "costs 1 (job_bind (provider_health_ok we p ttl) (\<lambda>healthy.
      if \<not> healthy then job_return None
      else job_bind (take_divert_budget n) (\<lambda>granted. job_return (if granted then Some p else None))))" for p ttl n
    by (rule costs_before) auto
  then show ?thesis
    unfolding select_stale_pending_provider_def stale_pending_age_minutes_def
    by (auto intro!: costs_then [OF nc.keeps_query] split: option.split)
qed

lemma free_writes [intro!]:
  "keeps no_call (store_classification job tv fv)" "keeps no_call (publish_invalidation we jc key)"
  "keeps no_call (mark_pending job st e)" "keeps no_call (worker_clear_pending key)"
  by (auto simp: store_classification_def publish_invalidation_def mark_pending_def worker_clear_pending_def
      upsert_request_def delete_request_def upsert_class_def intro!: no_call_statement split: option.split)

text \<open>
  C37: one job causes a bounded number of calls to providers: one health check, and in each of three
  rounds at most the configured attempts with the diverted provider, the same number with the primary
  one, and a single call to the fallback.
\<close>

theorem provider_calls_bounded:
  "lw_calls (snd (handle_job we jc payload w)) \<le>
     lw_calls w + 1 + 3 * (2 * max (fo_primary_retry_max (jc_failover jc)) 1 + 1)"
proof -
  have loop: "costs (3 * (2 * retry_limit (jc_failover jc) + 1)) (classify_loop we jc job stale [1, 2, 3])" for job stale
    by (rule costs_mono [OF costs_classify_loop]) simp
  have "costs (1 + 3 * (2 * retry_limit (jc_failover jc) + 1)) (handle_job we jc payload)"
  proof (cases "Option.bind (json_of_text (we_ex we) payload) job_payload_of_json")
    case (Some job)
    have m: "keeps no_call (if cp_requires_content job then mark_pending job ''waiting_content'' None else job_return ())"
      by auto
    show ?thesis
      unfolding handle_job_def Some option.case Let_def
      by (rule costs_then [OF m], rule costs_bind [OF costs_select_stale], rule costs_before [OF loop])
        (auto split: prod.split)
  qed (simp add: handle_job_def costs_fail)
  then show ?thesis unfolding costs_def retry_limit_def add.assoc by blast
qed

section \<open>Waiting for content\<close>

lemma await_loop_time:
  "await_loop we key n w = (r, w') \<Longrightarrow> lw_now w' \<le> lw_now w + 3000 * n"
proof (induction n arbitrary: w)
  case (Suc n)
  obtain s w1 where s: "load_page_content we key w = (s, w1)" by (metis surj_pair)
  have "lw_now w1 = lw_now w"
    using s by (auto simp: load_page_content_def job_query_def job_sql_def job_op_def Let_def split: if_splits)
  with Suc.prems s Suc.IH [of "w1\<lparr>lw_now := lw_now w1 + 3000\<rparr>"] show ?case
    by (cases s) (auto simp: job_bind_def job_sleep_def job_return_def split: option.splits)
qed (simp add: job_fail_def)

text \<open>
  Waiting for content ends after two minutes: within that time the wait returns the newest usable
  content of the key, or gives up with the error that puts the job back.
\<close>

theorem content_wait_bounded: "lw_now (snd (await_page_content we key w)) \<le> lw_now w + 120000"
  using await_loop_time [of we key 40 w] by (cases "await_loop we key 40 w") (simp add: await_page_content_def)

end
