(* ===== verification/Classification_Flow.thy ===== *)
theory Classification_Flow
  imports Llm_Bounds Enforcement
begin

text \<open>
  The services around one classification: the job the adaptor queues as the worker decodes it, the
  row the worker stores as the engine reads it, and the reconciler that keeps requests moving.
\<close>

section \<open>The adaptor's job\<close>

definition worker_view :: "classification_job \<Rightarrow> classification_job_payload" where
  "worker_view j =
     \<lparr>cp_normalized_key = cj_normalized_key j, cp_entity_level = cj_entity_level j,
      cp_hostname = cj_hostname j, cp_full_url = cj_full_url j, cp_trace_id = cj_trace_id j,
      cp_idempotency_key = cj_idempotency_key j, cp_requires_content = cj_requires_content j,
      cp_base_url = cj_base_url j, cp_content_excerpt = None, cp_content_hash = None,
      cp_content_version = None, cp_content_language = None, cp_requeue_attempt = 0,
      cp_provider_override = None\<rparr>"

lemma worker_decodes_job: "job_payload_of_json (classification_job_to_json j) = Some (worker_view j)"
  by (cases "cj_idempotency_key j"; cases "cj_base_url j")
    (simp_all add: job_payload_of_json_def classification_job_to_json_def worker_view_def struct_fields_def
      job_fields_def skip_none_def req_field_def opt_field_def default_field_def)

lemma job_json_finite [simp]: "json_finite (classification_job_to_json j)"
  by (simp add: classification_job_to_json_def skip_none_def split: option.split)

lemma assess_nothing [simp]: "assess_prompt_injection None = \<lparr>pia_score = 0, pia_markers = []\<rparr>"
  by (simp add: assess_prompt_injection_def)

lemma not_flagged:
  assumes "jc_prompt_injection jc = resolve_prompt_injection pf env" "cp_content_excerpt job = None"
  shows "\<not> injection_flagged jc job"
  using assms by (simp add: injection_flagged_def resolve_prompt_injection_def)

section \<open>The stored row\<close>

text \<open>A row of the worker as the engine's query returns it; \<open>widen\<close> is the conversion to \<open>f64\<close>.\<close>

definition engine_row :: "(f32 \<Rightarrow> f64) \<Rightarrow> class_row \<Rightarrow> classification_row" where
  "engine_row widen row =
     \<lparr>cr_normalized_key = cl_normalized_key row, cr_status = cl_status row,
      cr_primary_category = Some (cl_primary_category row), cr_subcategory = Some (cl_subcategory row),
      cr_risk_level = Some (cl_risk_level row), cr_confidence = Some (widen (cl_confidence row)),
      cr_updated_at = cl_updated_at row\<rparr>"

definition reads_worker_tables ::
  "(f32 \<Rightarrow> f64) \<Rightarrow> app_state \<Rightarrow> classification_db \<Rightarrow> worker_world \<Rightarrow> bool" where
  "reads_worker_tables widen state cdb w \<longleftrightarrow> as_classification_pool state \<and>
     cdb_classifications cdb = Inr (map (engine_row widen) (lw_classifications w))"

definition labels_plain :: "taxonomy_store \<Rightarrow> bool" where
  "labels_plain st \<longleftrightarrow> (\<forall>c \<in> set (store_categories st). trim (cat_id c) = cat_id c \<and> cat_id c \<noteq> [] \<and>
     (\<forall>s \<in> set (cat_subcategories c). trim (sub_id s) = sub_id s \<and> sub_id s \<noteq> []))"

lemma validate_labels_canonical:
  assumes "store_wf st" "labels_plain st" "c \<in> set (store_categories st)" "s \<in> set (cat_subcategories c)"
  shows "\<exists>v. validate_labels st (cat_id c) (Some (sub_id s)) = Inr v \<and> cat_id (vl_category v) = cat_id c"
proof (cases "cat_id c = UNKNOWN_CATEGORY_ID")
  case False
  then show ?thesis using validate_labels_exact [OF assms(1,3) False assms(4)] assms by (auto simp: labels_plain_def)
next
  case True
  obtain i where i: "i < length (store_categories st)" "store_categories st ! i = c"
    "resolve_category st (cat_id c) (normalize_label (cat_id c)) = (i, None)"
    using resolve_category_id [OF assms(1,3)] by blast
  have "trim (cat_id c) = cat_id c" using assms(2,3) by (simp add: labels_plain_def)
  moreover have "i = ts_unknown_category_index st"
    using True i store_wf_unknown(1,2) [OF assms(1)] store_wf_by_id [OF assms(1)]
    by (metis option.inject unknown_category_def)
  ultimately show ?thesis
    using i store_wf_unknown [OF assms(1)]
    by (simp add: validate_labels_def Let_def category_by_index_in subcategory_by_index_in unknown_category_def)
qed

lemma select_worker_row:
  assumes "distinct (map cl_normalized_key rows)" "row \<in> set rows" "cl_status row = ''active''"
  shows "select_hint_row (cl_normalized_key row) rel (map (engine_row widen) rows) = Some (engine_row widen row)"
proof -
  let ?k = "cl_normalized_key row" and ?rows = "map (engine_row widen) rows"
  have m: "hint_row_matches ?k rel (engine_row widen row)" "hint_rank ?k rel (engine_row widen row) = 0"
    using assms(3) by (simp_all add: hint_row_matches_def hint_rank_def engine_row_def)
  with assms(2) obtain r where r: "select_hint_row ?k rel ?rows = Some r"
    using select_hint_row_None [of ?k rel ?rows] by fastforce
  obtain x where x: "x \<in> set rows" "r = engine_row widen x"
    using select_hint_row_Some(1) [OF r] by auto
  have "hint_rank ?k rel r = 0" using select_hint_row_Some(3) [OF r _ m(1)] m(2) assms(2) by simp
  with x have "cl_normalized_key x = ?k" by (simp add: hint_rank_def engine_row_def split: if_splits)
  with assms(1,2) x(1) have "x = row" by (metis distinct_map inj_onD)
  with r x show ?thesis by simp
qed

lemma hydrated_from_row:
  assumes "reads_worker_tables widen state cdb w" "world_ok w"
    and "find_class (dr_normalized_key req) w = Some row" "cl_status row = ''active''"
    and "dr_category_hint req = None"
  shows "hydrate_request_hints ex state cdb req =
    apply_persisted_hints req (hints_of_row ex (engine_row widen row))"
proof -
  have "row \<in> set (lw_classifications w)" "cl_normalized_key row = dr_normalized_key req"
    using assms(3) by (auto simp: find_class_def dest: find_Some_mem)
  with select_worker_row [of "lw_classifications w" row] assms(1,2,4,5) show ?thesis
    by (simp add: hydrate_request_hints_def reads_worker_tables_def world_ok_def)
qed

lemma stored_hints:
  assumes "labels_plain st" "canonical_labels st r" "normal_response r"
    and "cl_primary_category row = lr_primary_category r" "cl_subcategory row = lr_subcategory r"
      "cl_risk_level row = lr_risk_level r"
  shows "hints_of_row ex (engine_row widen row) =
    \<lparr>ph_category_hint = Some (cl_primary_category row), ph_subcategory_hint = Some (cl_subcategory row),
     ph_risk_hint = Some (cl_risk_level row), ph_confidence_hint = Some (f32_of_f64 ex (widen (cl_confidence row)))\<rparr>"
proof -
  have "trim (lr_risk_level r) = lr_risk_level r \<and> lr_risk_level r \<noteq> []"
    using assms(3) by (auto simp: normal_response_def) (code_simp)+
  moreover have "trim (lr_primary_category r) = lr_primary_category r \<and> lr_primary_category r \<noteq> []"
    "trim (lr_subcategory r) = lr_subcategory r \<and> lr_subcategory r \<noteq> []"
    using assms(1,2) unfolding labels_plain_def canonical_labels_def by metis+
  ultimately show ?thesis
    using assms(4-6) by (simp add: hints_of_row_def engine_row_def non_empty_string_def)
qed

lemma hinted_verdict:
  assumes "dr_risk_hint req = Some risk" "pd_verdict (sr_decision (simulate_rules (Some c) req rules)) = Some v"
  shows "cv_primary_category v = c \<and> cv_risk_level v = risk"
  using assms by (induction rules) (auto simp: to_verdict_def to_verdict_default_def split: if_splits)

lemma stored_category_decides:
  assumes "store_wf st" "labels_plain st" "canonical_labels st r"
    and "dr_category_hint req = Some (lr_primary_category r)" "dr_subcategory_hint req = Some (lr_subcategory r)"
  shows "request_category st req = Inr (Some (lr_primary_category r))"
proof -
  obtain c s where c: "c \<in> set (store_categories st)" "s \<in> set (cat_subcategories c)"
    "cat_id c = lr_primary_category r" "sub_id s = lr_subcategory r"
    using assms(3) by (auto simp: canonical_labels_def)
  obtain v where "validate_labels st (lr_primary_category r) (Some (lr_subcategory r)) = Inr v"
    "cat_id (vl_category v) = lr_primary_category r"
    using validate_labels_canonical [OF assms(1,2) c(1,2)] c(3,4) by auto
  with assms(4,5) show ?thesis by (simp add: request_category_def canonicalize_request_category_def)
qed

section \<open>Properties\<close>

text \<open>
  C5: a classification takes effect end to end.  After the worker has finished the job of a key whose
  classification is active, an engine that reads the worker's tables and serves the adaptor answers
  every request for this key which no override decides with a verdict that carries the stored category
  and risk level, both of them valid; and unless the stored category is the unknown one, the adaptor
  does not hold the answer back for content.
\<close>

theorem classified_key_is_served:
  assumes "json_text_ok ex" "served_by ex sv url state cdb"
    and "ps_taxonomy (ev_store (as_evaluator state)) = jc_taxonomy jc"
    and wf: "store_wf (jc_taxonomy jc)" and plain: "labels_plain (jc_taxonomy jc)"
    and "world_ok w" and h: "handle_job we jc payload w = (Inr (), w')"
    and "\<forall>old. find_class (pdr_normalized_key req) w = Some old \<longrightarrow> cl_status old = ''active''"
    and "reads_worker_tables widen state cdb w'"
    and "policy_client_evaluate ex sv url req = Inr d"
    and "map_option cp_normalized_key (job_of we payload) = Some (pdr_normalized_key req)"
    and "pd_decision_source d \<noteq> Some ''override''"
  shows "\<exists>row v. find_class (pdr_normalized_key req) w' = Some row \<and> pd_verdict d = Some v \<and>
    cv_primary_category v = cl_primary_category row \<and> cv_risk_level v = cl_risk_level row \<and>
    canonical_id (jc_taxonomy jc) (cl_primary_category row) \<and>
    cl_risk_level row \<in> {''low'', ''medium'', ''high'', ''critical''} \<and>
    (should_require_content_pending require (pd_action d) (pd_verdict d) \<longrightarrow>
       eq_ignore_ascii_case (cl_primary_category row) UNKNOWN_FALLBACK)"
proof -
  obtain job r reason out recommended row where job: "job_of we payload = Some job"
    and v: "sound_verdict jc (r, reason, out)"
    and row: "find_class (cp_normalized_key job) w' = Some row"
      "row_of_verdict (apply_guardrails jc job r reason out recommended) row"
    and st: "cl_status row = (case find_class (cp_normalized_key job) w of None \<Rightarrow> ''active'' | Some old \<Rightarrow> cl_status old)"
    by (rule handle_job_row [OF wf h]) blast
  have key: "pdr_normalized_key req = cp_normalized_key job" using assms(11) job by simp
  have active: "cl_status row = ''active''" using st assms(8) key by (simp split: option.splits)
  have ok: "world_ok w'" using keepsD [OF keeps_handle_job h] assms(6) by (simp add: ok_step_def)
  have r: "canonical_labels (jc_taxonomy jc) r" "normal_response r"
    and c: "cl_primary_category row = lr_primary_category r" "cl_subcategory row = lr_subcategory r"
      "cl_risk_level row = lr_risk_level r"
    using v row(2) by (simp_all add: sound_verdict_def row_of_verdict_def guardrails_labels)
  let ?q = "hydrate_request_hints ex state cdb (engine_view req)"
  have q: "?q = apply_persisted_hints (engine_view req) (hints_of_row ex (engine_row widen row))"
    using hydrated_from_row [OF assms(9) ok, of "engine_view req" row] row(1) active key
    by (simp add: engine_view_def)
  have hints: "dr_category_hint ?q = Some (lr_primary_category r)" "dr_subcategory_hint ?q = Some (lr_subcategory r)"
    "dr_risk_hint ?q = Some (lr_risk_level r)"
    unfolding q stored_hints [OF plain r c] by (simp_all add: c apply_persisted_hints_def engine_view_def)
  have "handle_decision ex state cdb (engine_view req) = Inr (Inr d)"
    using served_evaluate [OF assms(1,2,10)] .
  then obtain v where "pd_verdict d = Some v" "cv_primary_category v = lr_primary_category r"
    "cv_risk_level v = lr_risk_level r"
  proof (cases rule: handle_decision_cases)
    case override
    then show ?thesis using override_source assms(12) by blast
  next
    case (evaluated sim)
    then obtain r0 v where "store_simulate (ev_store (as_evaluator state)) ?q = Inr r0"
      "pd_verdict (sr_decision r0) = Some v" "pd_verdict d = Some v"
      by (auto elim: simulate_with_source_cases)
    with stored_category_decides [OF wf plain r(1) hints(1,2)] assms(3) hinted_verdict [OF hints(3)] that
    show ?thesis by (auto simp: store_simulate_def)
  qed
  moreover have "canonical_id (jc_taxonomy jc) (lr_primary_category r)"
    using r(1) unfolding canonical_labels_def canonical_id_def by (metis image_eqI)
  moreover have "lr_risk_level r \<in> {''low'', ''medium'', ''high'', ''critical''}"
    using r(2) by (simp add: normal_response_def)
  ultimately show ?thesis
    using row(1) key c by (auto simp: should_require_content_pending_def)
qed

text \<open>
  The guardrail against prompt injection never acts on the adaptor's jobs.  They carry no excerpt, and
  the excerpt the worker fetches for them is not assessed: whatever the page says, the stored row is
  not marked as suspected and its action is the one the other guardrails give.
\<close>

theorem fetched_content_not_assessed:
  assumes "store_wf (jc_taxonomy jc)" "json_text_ok (we_ex we)"
    and "jc_prompt_injection jc = resolve_prompt_injection pf env"
    and "handle_job we jc (text_of_json (we_ex we) (classification_job_to_json j)) w = (Inr (), w')"
  shows "\<exists>row fs r (out :: llm_outcome) recommended. find_class (cj_normalized_key j) w' = Some row \<and>
    cl_flags row = JObj fs \<and> ''prompt_injection_suspected'' \<notin> fst ` set fs \<and>
    cl_primary_category row = lr_primary_category r \<and> cl_subcategory row = lr_subcategory r \<and>
    parse_policy_action (lr_recommended_action r) = Inr recommended \<and>
    cl_recommended_action row = show_action
      (if \<not> verdict_enabled jc r then Block
       else if lo_context_mode out = MetadataOnly then oc_metadata_only_force_action (jc_online_context jc)
       else recommended)"
proof -
  have job: "job_of we (text_of_json (we_ex we) (classification_job_to_json j)) = Some (worker_view j)"
    using assms(2) by (simp add: job_of_def json_text_ok_def worker_decodes_job)
  obtain r reason out recommended row where
    p: "parse_policy_action (lr_recommended_action r) = Inr recommended"
    and row: "find_class (cj_normalized_key j) w' = Some row"
      "row_of_verdict (apply_guardrails jc (worker_view j) r reason out recommended) row"
    by (rule handle_job_row [OF assms(1,4)]) (auto simp: job worker_view_def)
  have n: "\<not> injection_flagged jc (worker_view j)"
    using not_flagged [OF assms(3)] by (simp add: worker_view_def)
  let ?fv = "apply_guardrails jc (worker_view j) r reason out recommended"
  have "pia_suspicious (fv_injection ?fv) = False"
    by (simp add: apply_guardrails_def worker_view_def pia_suspicious_def Let_def split_beta)
  then have "\<exists>fs. cl_flags row = JObj fs \<and> ''prompt_injection_suspected'' \<notin> fst ` set fs"
    using row(2) by (auto simp: row_of_verdict_def classification_flags_def skip_none_def split: option.split)
  then obtain fs where "cl_flags row = JObj fs" "''prompt_injection_suspected'' \<notin> fst ` set fs" by blast
  moreover have "cl_recommended_action row = show_action
      (if \<not> verdict_enabled jc r then Block
       else if lo_context_mode out = MetadataOnly then oc_metadata_only_force_action (jc_online_context jc)
       else recommended)" "cl_primary_category row = lr_primary_category r" "cl_subcategory row = lr_subcategory r"
    using row(2) n by (simp_all add: row_of_verdict_def guardrails_action guardrails_labels guarded_action_def)
  ultimately show ?thesis
    using row(1) p by blast
qed

end
