(* ===== verification/Llm_Reconcile.thy ===== *)
theory Llm_Reconcile
  imports Llm_Run
begin

text \<open>
  The reconciler of \<^verbatim>\<open>workers/llm-worker/src/main.rs\<close>: what one round does with every request that has
  waited too long.
\<close>

section \<open>Statements\<close>

lemma find_request_update:
  assumes "\<And>r. rq_normalized_key (f r) = rq_normalized_key r"
  shows "find_request k (update_request key f w) =
    (if k = key then map_option f (find_request k w) else find_request k w)"
proof -
  let ?f = "\<lambda>r. if rq_normalized_key r = key then f r else r"
  have "find (\<lambda>r. rq_normalized_key r = k) (map ?f xs) =
      map_option ?f (find (\<lambda>r. rq_normalized_key r = k) xs)" for xs
    by (rule find_map_key) (simp add: assms)
  moreover have "find (\<lambda>r. rq_normalized_key r = k) xs = Some r \<Longrightarrow> rq_normalized_key r = k" for xs r
    by (auto dest: find_Some_mem)
  ultimately show ?thesis
    by (cases "find_request k w") (auto simp: find_request_def update_request_def)
qed

lemma update_request_other [simp]:
  "lw_now (update_request key f w) = lw_now w" "lw_streams (update_request key f w) = lw_streams w"
  "lw_classifications (update_request key f w) = lw_classifications w"
  "lw_fails (update_request key f w) = lw_fails w"
  by (simp_all add: update_request_def)

lemma delete_request_other [simp]:
  "lw_now (delete_request key w) = lw_now w" "lw_streams (delete_request key w) = lw_streams w"
  "lw_classifications (delete_request key w) = lw_classifications w"
  "lw_fails (delete_request key w) = lw_fails w"
  by (simp_all add: delete_request_def)

lemma find_request_ops [simp]:
  "find_request k (w\<lparr>lw_ops := n\<rparr>) = find_request k w" "find_class k (w\<lparr>lw_ops := n\<rparr>) = find_class k w"
  "find_request k (w\<lparr>lw_streams := st\<rparr>) = find_request k w"
  "find_request k (w\<lparr>lw_uuid_next := n\<rparr>) = find_request k w"
  by (simp_all add: find_request_def find_class_def)

section \<open>One request\<close>

text \<open>
  The classification job the reconciler queues, as the worker that takes it from the stream sees it.
\<close>

definition fresh_job :: "worker_env \<Rightarrow> reconciler \<Rightarrow> string \<Rightarrow> worker_world \<Rightarrow> bool" where
  "fresh_job we rc key w \<longleftrightarrow>
     (\<exists>payload job. (rc_classification_stream rc, [(''payload'', payload)]) \<in> set (lw_streams w) \<and>
        job_of we payload = Some job \<and> cp_normalized_key job = key \<and> cp_requires_content job \<and>
        cp_requeue_attempt job = 0)"

definition fresh_fetch :: "worker_env \<Rightarrow> reconciler \<Rightarrow> string \<Rightarrow> worker_world \<Rightarrow> bool" where
  "fresh_fetch we rc key w \<longleftrightarrow>
     (\<exists>fetch. (rc_page_fetch_stream rc, [(''payload'', text_of_json (we_ex we) (page_fetch_job_to_json fetch))])
          \<in> set (lw_streams w) \<and> pfj_normalized_key fetch = key)"

definition reconciled :: "worker_env \<Rightarrow> reconciler \<Rightarrow> string \<Rightarrow> worker_world \<Rightarrow> worker_world \<Rightarrow> bool" where
  "reconciled we rc key w w' \<longleftrightarrow>
     (if find_class key w \<noteq> None then find_request key w' = None
      else if parse_normalized_key_parts key = None
      then \<exists>r. find_request key w' = Some r \<and> rq_updated_at r = lw_now w \<and>
             rq_last_error r = Some ''invalid normalized key''
      else (\<exists>r. find_request key w' = Some r \<and> rq_updated_at r = lw_now w \<and> rq_last_error r = None) \<and>
           fresh_job we rc key w' \<and> fresh_fetch we rc key w')"

definition row_step :: "string \<Rightarrow> worker_world \<Rightarrow> worker_world \<Rightarrow> bool" where
  "row_step key w w' \<longleftrightarrow> reliable w' \<and> lw_now w' = lw_now w \<and>
     lw_classifications w' = lw_classifications w \<and>
     (\<forall>k. k \<noteq> key \<longrightarrow> find_request k w' = find_request k w) \<and>
     (\<exists>new. lw_streams w' = lw_streams w @ new)"

lemma reconcile_job_in_range: "job_in_range (reconcile_class_job key lvl h u b t)"
  by (simp add: job_in_range_def reconcile_class_job_def)

lemma reconcile_row_step:
  assumes "reliable w" "json_text_ok (we_ex we)" "find_request (rq_normalized_key row) w \<noteq> None"
  shows "\<exists>w'. reconcile_row we url_text rc row w = (Inr (), w') \<and> row_step (rq_normalized_key row) w w' \<and>
    reconciled we rc (rq_normalized_key row) w w'"
proof -
  let ?key = "rq_normalized_key row"
  have r [simp]: "\<And>w' k. lw_fails w' = lw_fails w \<Longrightarrow> \<not> lw_fails w' k"
    using assms(1) by (simp add: reliable_def)
  have round: "job_of we (text_of_json (we_ex we) (job_payload_to_json (reconcile_class_job k lvl h u b t))) =
      Some (reconcile_class_job k lvl h u b t)" for k lvl h u b t
    using assms(2) job_payload_round [OF reconcile_job_in_range] by (simp add: job_of_def json_text_ok_def)
  note run = reconcile_row_def Let_def job_bind_def job_query_def job_sql_def job_redis_def job_op_def xadd_def
    job_uuid_def
  show ?thesis
  proof (cases "find_class ?key w")
    case (Some c)
    then show ?thesis
      using assms(1) by (auto simp: run row_step_def reconciled_def find_request_delete reliable_def)
  next
    case None
    show ?thesis
    proof (cases "parse_normalized_key_parts ?key")
      case None
      with \<open>find_class ?key w = None\<close> show ?thesis
        using assms(1,3) by (auto simp: run row_step_def reconciled_def find_request_update reliable_def)
    next
      case (Some p)
      obtain h u b where d: "derive_urls (we_ex we) url_text (snd p) (rq_base_url row) = (h, u, b)"
        by (cases "derive_urls (we_ex we) url_text (snd p) (rq_base_url row)")
      show ?thesis
        using None Some d assms(1,3) round
        by (cases p) (fastforce simp: run row_step_def reconciled_def find_request_update reliable_def
            fresh_job_def fresh_fetch_def reconcile_class_job_def reconcile_fetch_job_def)
    qed
  qed
qed

section \<open>A round\<close>

definition rows_step :: "string set \<Rightarrow> worker_world \<Rightarrow> worker_world \<Rightarrow> bool" where
  "rows_step keys w w' \<longleftrightarrow> reliable w' \<and> lw_now w' = lw_now w \<and>
     lw_classifications w' = lw_classifications w \<and>
     (\<forall>k. k \<notin> keys \<longrightarrow> find_request k w' = find_request k w) \<and>
     (\<exists>new. lw_streams w' = lw_streams w @ new)"

lemma reconciled_later:
  assumes "reconciled we rc k w w1" "rows_step keys w1 w2" "k \<notin> keys"
  shows "reconciled we rc k w w2"
  using assms unfolding rows_step_def reconciled_def fresh_job_def fresh_fetch_def
  by (auto split: if_splits)

lemma reconciled_cong:
  "lw_now w = lw_now w0 \<Longrightarrow> lw_classifications w = lw_classifications w0 \<Longrightarrow>
   reconciled we rc k w w' \<longleftrightarrow> reconciled we rc k w0 w'"
  by (simp add: reconciled_def find_class_def)

lemma reconcile_rows_step:
  assumes "json_text_ok (we_ex we)"
  shows "reliable w \<Longrightarrow> distinct (map rq_normalized_key rows) \<Longrightarrow>
    (\<forall>r \<in> set rows. find_request (rq_normalized_key r) w \<noteq> None) \<Longrightarrow>
    \<exists>w'. reconcile_rows we url_text rc rows w = (Inr (), w') \<and>
      rows_step (rq_normalized_key ` set rows) w w' \<and>
      (\<forall>r \<in> set rows. reconciled we rc (rq_normalized_key r) w w')"
proof (induction rows arbitrary: w)
  case Nil
  then show ?case by (auto simp: job_return_def rows_step_def)
next
  case (Cons r rows)
  obtain w1 where w1: "reconcile_row we url_text rc r w = (Inr (), w1)" "row_step (rq_normalized_key r) w w1"
    "reconciled we rc (rq_normalized_key r) w w1"
    using reconcile_row_step [OF Cons.prems(1) assms, of r url_text rc] Cons.prems(3) by auto
  have "reliable w1" "\<forall>r' \<in> set rows. find_request (rq_normalized_key r') w1 \<noteq> None"
    using w1(2) Cons.prems(2,3) by (auto simp: row_step_def) (metis image_eqI)
  then obtain w2 where w2: "reconcile_rows we url_text rc rows w1 = (Inr (), w2)"
    "rows_step (rq_normalized_key ` set rows) w1 w2" "\<forall>r \<in> set rows. reconciled we rc (rq_normalized_key r) w1 w2"
    using Cons.IH [of w1] Cons.prems(2) by auto
  have "reconciled we rc (rq_normalized_key r) w w2"
    using reconciled_later [OF w1(3) w2(2)] Cons.prems(2) by auto
  moreover have "reconciled we rc k w w2 \<longleftrightarrow> reconciled we rc k w1 w2" for k
    using w1(2) by (intro reconciled_cong) (simp_all add: row_step_def)
  moreover have "rows_step (rq_normalized_key ` set (r # rows)) w w2"
    using w1(2) w2(2) by (auto simp: rows_step_def row_step_def)
  ultimately show ?case using w1(1) w2 by (auto simp: job_bind_def)
qed

lemma stale_requests_keys:
  assumes "world_ok w"
  shows "distinct (map rq_normalized_key (stale_requests rc w))"
    "r \<in> set (stale_requests rc w) \<Longrightarrow> find_request (rq_normalized_key r) w \<noteq> None"
proof -
  let ?P = "\<lambda>r. rq_status r = ''waiting_content'' \<and> int (rq_updated_at r) \<le> int (lw_now w)
    - 60000 * sint (word_of_nat (pr_stale_minutes (rc_cfg rc)) :: 32 word)"
  have "distinct (map rq_normalized_key (sort_key rq_updated_at (filter ?P (lw_requests w))))"
    using assms by (simp add: world_ok_def distinct_map inj_on_def)
  then show "distinct (map rq_normalized_key (stale_requests rc w))"
    unfolding stale_requests_def take_map [symmetric] by (rule distinct_take)
  show "find_request (rq_normalized_key r) w \<noteq> None" if "r \<in> set (stale_requests rc w)"
    using in_set_takeD [OF that [unfolded stale_requests_def]]
    by (auto simp: find_request_def find_None_iff_ball)
qed

text \<open>
  C32: no request waits for ever.  With a working database and queue one round of the reconciler deals with
  every request it selects: one whose key is classified is deleted, one whose key has no known form is
  marked, and for every other a fresh classification job and a page fetch are on their streams and the
  request is young again.  Other requests, the classifications and the queued entries stay.
\<close>

theorem stale_requests_reconciled:
  assumes "reliable w" "world_ok w" "json_text_ok (we_ex we)"
  shows "\<exists>w'. reconcile_once we url_text rc w = (Inr (), w') \<and>
    (\<forall>r \<in> set (stale_requests rc w). reconciled we rc (rq_normalized_key r) w w') \<and>
    (\<forall>k. k \<notin> rq_normalized_key ` set (stale_requests rc w) \<longrightarrow> find_request k w' = find_request k w) \<and>
    lw_classifications w' = lw_classifications w \<and> (\<exists>new. lw_streams w' = lw_streams w @ new)"
proof -
  let ?w = "\<lambda>n. w\<lparr>lw_ops := n\<rparr>" and ?rows = "stale_requests rc w"
  have same: "stale_requests rc (?w n) = ?rows" for n by (simp add: stale_requests_def)
  have q: "job_query (stale_requests rc) w = (Inr ?rows, ?w (Suc (lw_ops w)))"
    using assms(1) by (simp add: job_query_def job_sql_def reliable_op same)
  show ?thesis
  proof (cases "?rows = []")
    case True
    then show ?thesis using q by (auto simp: reconcile_once_def job_bind_def job_return_def)
  next
    case False
    let ?n = "Suc (Suc (lw_ops w))"
    have c: "job_connect (?w (Suc (lw_ops w))) = (Inr (), ?w ?n)"
      using assms(1) by (simp add: job_connect_def job_redis_def job_op_def reliable_def)
    have "reliable (?w ?n)" using assms(1) by (simp add: reliable_def)
    then obtain w' where "reconcile_rows we url_text rc ?rows (?w ?n) = (Inr (), w')"
      "rows_step (rq_normalized_key ` set ?rows) (?w ?n) w'"
      "\<forall>r \<in> set ?rows. reconciled we rc (rq_normalized_key r) (?w ?n) w'"
      using reconcile_rows_step [OF assms(3), where w = "?w ?n" and rows = ?rows and url_text = url_text and rc = rc]
        stale_requests_keys [OF assms(2)] by auto
    moreover have "reconciled we rc k (?w ?n) w' \<longleftrightarrow> reconciled we rc k w w'" for k
      by (rule reconciled_cong) simp_all
    ultimately show ?thesis
      using q c False by (auto simp: reconcile_once_def job_bind_def rows_step_def)
  qed
qed

end
