(* ===== verification/Worker_Witnesses.thy ===== *)
theory Worker_Witnesses
  imports Worker_Samples
begin

text \<open>
  Instances of the properties of the classification worker, on the data of \<open>Worker_Samples\<close>.
\<close>

lemma sample_key [simp]:
  "cp_normalized_key (worker_view sample_job) = ''domain:example.com''"
  "cj_normalized_key sample_job = ''domain:example.com''"
  "pdr_normalized_key sample_policy_request = ''domain:example.com''"
  by (simp_all add: worker_view_def sample_job_def sample_policy_request_def)

theorem extracted_object_witness:
  "\<exists>ex. extract_balanced_json_object ex (''Sure: '' @ ''{}'' @ '' done {'') = Some ''{}''"
proof -
  let ?ex = "base_ex (\<lambda>s. if s = ''{}'' then Some (JObj []) else None) (\<lambda>_. [])"
  have "CHR ''{'' \<notin> set ''Sure: '' \<and> CHR 0x22 \<notin> set ''Sure: '' \<and> object_text ''{}''"
    by (simp add: object_text_def)
  moreover have "json_of_text ?ex ''{}'' \<noteq> None" by (simp add: base_ex_def)
  ultimately show ?thesis
    using extracted_object [of ?ex "[]" "''{}''" "''Sure: ''" "'' done {''"] by blast
qed

theorem budget_bound_witness:
  "length (in_minute 59500 (permitted (window_allow_and_record 2) (window_new 0) [59500, 59600, 60000, 60100])) \<le> 4"
proof -
  have "sorted [59500, 59600, 60000, 60100 :: nat]" "\<forall>a \<in> set [59500, 59600, 60000, 60100 :: nat]. 0 \<le> a"
    by simp_all
  then show ?thesis
    using budget_bound [of "[59500, 59600, 60000, 60100]" 0 59500 2 sample_failover] by simp
qed

theorem stored_classification_sound_witness:
  "\<exists>w' w1 row verdict reason out. handle_job (sample_we answering) sample_jc sample_payload sample_ww = (Inr (), w') \<and>
     classify_loop (sample_we answering) sample_jc (worker_view sample_job) None [1, 2, 3] sample_ww = (Inr (verdict, reason, out), w1) \<and>
     find_class ''domain:example.com'' w' = Some row \<and> canonical_labels (jc_taxonomy sample_jc) verdict \<and>
     cl_primary_category row = lr_primary_category verdict \<and> f32_unit (cl_confidence row)"
proof -
  obtain w' where h: "handle_job (sample_we answering) sample_jc sample_payload sample_ww = (Inr (), w')"
    using sample_handle_job [OF sample_world_ok(2)] by blast
  have r: "\<not> cp_requires_content (worker_view sample_job)" by (simp add: worker_view_def sample_job_def)
  have s: "select_stale_pending_provider (sample_we answering) sample_jc (worker_view sample_job) = job_return None"
    by (simp add: select_stale_pending_provider_def sample_jc_def)
  have j: "Option.bind (json_of_text (we_ex (sample_we answering)) sample_payload) job_payload_of_json = Some (worker_view sample_job)"
    using sample_job_of [of answering] by (simp add: job_of_def)
  have k: "cp_normalized_key (worker_view sample_job) = ''domain:example.com''" by (simp add: worker_view_def sample_job_def)
  from stored_classification_sound [OF sample_jc_taxonomy(2) sample_caps h] h show ?thesis
    unfolding j by (auto simp: r s k job_return_def simp del: classify_loop.simps)
qed

theorem classified_key_is_released_witness:
  "\<exists>w' msg. handle_job (sample_we answering) sample_jc sample_payload
       (sample_ww\<lparr>lw_redis := [''domain:example.com'' \<mapsto> ([], 900)]\<rparr>) = (Inr (), w') \<and>
     lw_redis w' ''domain:example.com'' = None \<and> lw_published w' = [(''od:cache'', msg)]"
proof -
  let ?w = "sample_ww\<lparr>lw_redis := [''domain:example.com'' \<mapsto> ([], 900)]\<rparr>"
  have "reliable ?w" by (simp add: reliable_def)
  then obtain w' where h: "handle_job (sample_we answering) sample_jc sample_payload ?w = (Inr (), w')"
    using sample_handle_job by blast
  have "json_text_ok (we_ex (sample_we answering))" by (simp add: json_ex_ok)
  from classified_key_is_released [OF sample_jc_taxonomy(2) this h] h show ?thesis
    by (auto simp: sample_job_of sample_ww_def sample_jc_def)
qed

theorem worker_tables_keyed_witness:
  "world_ok (snd (consume_round (sample_we answering) sample_jc ''dlq'' []
     [\<lparr>se_id = ''100-0'', se_payload = Some sample_payload\<rparr>] sample_ww))"
  using worker_tables_keyed [OF sample_world_ok(1)] by blast

theorem requeue_bounded_witness:
  "\<exists>r w' new. process_job (sample_we failing) sample_jc sample_payload sample_ww = (r, w') \<and>
     lw_streams w' = new \<and> length new \<le> 2"
proof -
  obtain r w' where p: "process_job (sample_we failing) sample_jc sample_payload sample_ww = (r, w')" by fastforce
  show ?thesis
    using requeue_bounded [OF sample_jc_taxonomy(2) sample_job_of p] p by auto
qed

theorem failed_job_not_lost_witness:
  "\<exists>w' m. process_job (sample_we failing) sample_jc sample_payload sample_ww = (Inl (RetryableJob m), w') \<and>
     requeue_entry (sample_we failing) sample_jc (worker_view sample_job) \<in> set (lw_streams w')"
proof -
  obtain m w' where p: "process_job (sample_we failing) sample_jc sample_payload sample_ww = (Inl (RetryableJob m), w')"
    using sample_process_fails by blast
  have "cp_requeue_attempt (worker_view sample_job) < jc_max_requeue_attempts sample_jc"
    by (simp add: worker_view_def sample_jc_def)
  then show ?thesis
    using failed_job_not_lost [OF sample_jc_taxonomy(2) sample_world_ok(2) sample_job_of p] p
    by (auto simp: should_requeue_def)
qed

theorem processed_job_not_repeated_witness:
  "\<exists>w1 e. process_job (sample_we answering) sample_jc sample_payload sample_ww = (Inr (), w1) \<and> lw_now w1 < e \<and>
     process_job (sample_we answering) sample_jc sample_payload w1 = (Inr (), w1\<lparr>lw_ops := lw_ops w1 + 2\<rparr>)"
proof -
  obtain w1 where p: "process_job (sample_we answering) sample_jc sample_payload sample_ww = (Inr (), w1)"
    using sample_process_succeeds by blast
  have "0 < jc_idempotency_ttl_seconds sample_jc" by (simp add: sample_jc_def)
  from processed_job_not_repeated [OF sample_jc_taxonomy(2) sample_world_ok(2) sample_job_of p this]
  obtain e where e: "lw_now w1 < e" "\<forall>t < e. process_job (sample_we answering) sample_jc sample_payload (w1\<lparr>lw_now := t\<rparr>) =
    (Inr (), w1\<lparr>lw_now := t, lw_ops := lw_ops w1 + 2\<rparr>)" by blast
  from e(2) [rule_format, OF e(1)] p e(1) show ?thesis by auto
qed

theorem entry_acknowledged_once_witness:
  "\<exists>w'. handle_entry (sample_we failing) sample_jc ''dlq'' \<lparr>se_id = ''100-0'', se_payload = Some sample_payload\<rparr>
       sample_ww = (Inr (), w') \<and> lw_acked w' = [''100-0'']"
  using entry_acknowledged_once [OF sample_jc_taxonomy(2) sample_world_ok(2), of "sample_we failing" "''dlq''"
      "\<lparr>se_id = ''100-0'', se_payload = Some sample_payload\<rparr>"]
  by (simp add: sample_ww_def)

theorem stale_requests_reconciled_witness:
  "\<exists>w'. reconcile_once (sample_we answering) (\<lambda>_. ''u'') sample_reconciler waiting_ww = (Inr (), w') \<and>
     fresh_job (sample_we answering) sample_reconciler ''domain:example.com'' w'"
proof -
  have ok: "json_text_ok (we_ex (sample_we answering))" by (simp add: json_ex_ok)
  have "parse_normalized_key_parts ''domain:example.com'' \<noteq> None" by code_simp
  moreover have "find_class k waiting_ww = None" for k by (simp add: find_class_def waiting_ww_def)
  moreover have "rq_normalized_key sample_waiting = ''domain:example.com''" by (simp add: sample_waiting_def)
  ultimately show ?thesis
    using stale_requests_reconciled [OF waiting_ok(2,1) ok, of "\<lambda>_. ''u''" sample_reconciler]
    by (auto simp: waiting_stale reconciled_def)
qed

theorem classified_key_is_served_witness:
  "\<exists>w' d row v. handle_job (sample_we answering) sample_jc sample_payload sample_ww = (Inr (), w') \<and>
     policy_client_evaluate json_ex (engine_service sample_state (worker_cdb w')) [] sample_policy_request = Inr d \<and>
     find_class ''domain:example.com'' w' = Some row \<and> pd_verdict d = Some v \<and>
     cv_primary_category v = cl_primary_category row"
proof -
  obtain w' where h: "handle_job (sample_we answering) sample_jc sample_payload sample_ww = (Inr (), w')"
    using sample_handle_job [OF sample_world_ok(2)] by blast
  obtain d where d: "policy_client_evaluate json_ex (engine_service sample_state (worker_cdb w')) []
      sample_policy_request = Inr d" "pd_decision_source d \<noteq> Some ''override''"
    using worker_engine_answers by blast
  have t: "ps_taxonomy (ev_store (as_evaluator sample_state)) = jc_taxonomy sample_jc"
    by (simp add: sample_state_def sample_evaluator_def sample_policy_store_def sample_jc_def)
  have plain: "labels_plain (jc_taxonomy sample_jc)" by (simp add: sample_jc_taxonomy sample_store_plain)
  have new: "\<forall>old. find_class (pdr_normalized_key sample_policy_request) sample_ww = Some old \<longrightarrow>
      cl_status old = ''active''"
    by (simp add: find_class_def)
  have key: "map_option cp_normalized_key (job_of (sample_we answering) sample_payload) =
      Some (pdr_normalized_key sample_policy_request)"
    by (simp add: sample_job_of)
  from classified_key_is_served [OF json_ex_ok engine_service_serves t sample_jc_taxonomy(2) plain
      sample_world_ok(1) h new sample_reads d(1) key d(2), of True]
  show ?thesis using h d(1) by auto
qed

theorem fetched_content_not_assessed_witness:
  "\<exists>w' row fs. handle_job (sample_we answering) sample_jc sample_payload sample_ww = (Inr (), w') \<and>
     find_class ''domain:example.com'' w' = Some row \<and> cl_flags row = JObj fs \<and>
     ''prompt_injection_suspected'' \<notin> fst ` set fs"
proof -
  obtain w' where h: "handle_job (sample_we answering) sample_jc sample_payload sample_ww = (Inr (), w')"
    using sample_handle_job [OF sample_world_ok(2)] by blast
  have ok: "json_text_ok (we_ex (sample_we answering))"
    "jc_prompt_injection sample_jc = resolve_prompt_injection (\<lambda>_. None) Map.empty"
    by (simp_all add: json_ex_ok sample_jc_def)
  have h': "handle_job (sample_we answering) sample_jc (text_of_json (we_ex (sample_we answering))
      (classification_job_to_json sample_job)) sample_ww = (Inr (), w')"
    using h by (simp add: sample_payload_def)
  from fetched_content_not_assessed [OF sample_jc_taxonomy(2) ok h'] h show ?thesis by auto
qed

end
