(* ===== verification/Svc_Monad.thy ===== *)
theory Svc_Monad
  imports Rust_Num Common_Types
begin

text \<open>
  Services that talk to a database, to Redis and to other services.  The base record holds the clock,
  Redis, its streams, the count of statements and calls and the pattern of those that fail; the tables of
  a service extend it.  A transaction that fails restores exactly the extension, so a rollback undoes
  the tables and nothing else.  A failed commit is taken to have no effect.

  Programs are reasoned about by weakest preconditions: \<open>svc_wp m Q E w\<close> says that \<open>m\<close> started in \<open>w\<close> ends
  with a value and a state that satisfy \<open>Q\<close>, or with an error and a state that satisfy \<open>E\<close>.
\<close>

section \<open>State and programs\<close>

record svc_base =
  sb_now :: time
  sb_redis :: "string \<rightharpoonup> string \<times> time"
  sb_streams :: "(string \<times> (string \<times> string) list) list"
  sb_acked :: "string list"
  sb_ops :: nat
  sb_fails :: "nat \<Rightarrow> bool"
  sb_calls :: nat
  sb_uuid_next :: nat
  sb_uuids :: "nat \<Rightarrow> uuid"

type_synonym ('t, 'a) svc = "'t svc_base_scheme \<Rightarrow> 'a res \<times> 't svc_base_scheme"

definition svc_return :: "'a \<Rightarrow> ('t, 'a) svc" where
  "svc_return x w = (Inr x, w)"

definition svc_fail :: "error \<Rightarrow> ('t, 'a) svc" where
  "svc_fail e w = (Inl e, w)"

definition svc_bind :: "('t, 'a) svc \<Rightarrow> ('a \<Rightarrow> ('t, 'b) svc) \<Rightarrow> ('t, 'b) svc" where
  "svc_bind m f w = (case m w of (Inl e, w') \<Rightarrow> (Inl e, w') | (Inr x, w') \<Rightarrow> f x w')"

text \<open>\<open>match\<close> on a result: errors become values, a panic goes on.\<close>

definition svc_try :: "('t, 'a) svc \<Rightarrow> ('t, string + 'a) svc" where
  "svc_try m w =
     (case m w of
        (Inr x, w') \<Rightarrow> (Inr (Inr x), w')
      | (Inl (Error s), w') \<Rightarrow> (Inr (Inl s), w')
      | (Inl (Panic s), w') \<Rightarrow> (Inl (Panic s), w'))"

definition svc_ignore :: "('t, 'a) svc \<Rightarrow> ('t, unit) svc" where
  "svc_ignore m = svc_bind (svc_try m) (\<lambda>_. svc_return ())"

definition svc_lift :: "'a res \<Rightarrow> ('t, 'a) svc" where
  "svc_lift r w = (r, w)"

definition svc_get :: "('t svc_base_scheme \<Rightarrow> 'a) \<Rightarrow> ('t, 'a) svc" where
  "svc_get f w = (Inr (f w), w)"

definition svc_op :: "('t svc_base_scheme \<Rightarrow> 'a \<times> 't svc_base_scheme) \<Rightarrow> ('t, 'a) svc" where
  "svc_op f w =
     (if sb_fails w (sb_ops w) then (Inl (Error ''statement failed''), w\<lparr>sb_ops := Suc (sb_ops w)\<rparr>)
      else (case f (w\<lparr>sb_ops := Suc (sb_ops w)\<rparr>) of (x, w') \<Rightarrow> (Inr x, w')))"

definition svc_query :: "('t svc_base_scheme \<Rightarrow> 'a) \<Rightarrow> ('t, 'a) svc" where
  "svc_query f = svc_op (\<lambda>w. (f w, w))"

definition svc_exec :: "('t svc_base_scheme \<Rightarrow> 't svc_base_scheme) \<Rightarrow> ('t, unit) svc" where
  "svc_exec f = svc_op (\<lambda>w. ((), f w))"

text \<open>A statement that a constraint of the schema may refuse.\<close>

definition svc_stmt :: "('t svc_base_scheme \<Rightarrow> ('a \<times> 't svc_base_scheme) option) \<Rightarrow> ('t, 'a) svc" where
  "svc_stmt f w =
     (if sb_fails w (sb_ops w) then (Inl (Error ''statement failed''), w\<lparr>sb_ops := Suc (sb_ops w)\<rparr>)
      else (case f (w\<lparr>sb_ops := Suc (sb_ops w)\<rparr>) of
              None \<Rightarrow> (Inl (Error ''constraint violated''), w\<lparr>sb_ops := Suc (sb_ops w)\<rparr>)
            | Some (x, w') \<Rightarrow> (Inr x, w')))"

text \<open>A \<open>SELECT\<close> with a \<open>LIMIT\<close>, which the database refuses when it is negative.\<close>

definition svc_rows :: "int \<Rightarrow> ('t svc_base_scheme \<Rightarrow> 'a list) \<Rightarrow> ('t, 'a list) svc" where
  "svc_rows limit f = svc_stmt (\<lambda>w. if limit < 0 then None else Some (take (nat limit) (f w), w))"

text \<open>Reading a column that the code takes to be there.\<close>

fun svc_column :: "'a option \<Rightarrow> ('t, 'a) svc" where
  "svc_column None = svc_fail (Error ''unexpected null'')"
| "svc_column (Some x) = svc_return x"

definition svc_sleep :: "nat \<Rightarrow> ('t, unit) svc" where
  "svc_sleep ms w = (Inr (), w\<lparr>sb_now := sb_now w + ms\<rparr>)"

definition svc_connect :: "('t, unit) svc" where
  "svc_connect = svc_exec id"

definition svc_uuid :: "('t, uuid) svc" where
  "svc_uuid w = (Inr (sb_uuids w (sb_uuid_next w)), w\<lparr>sb_uuid_next := Suc (sb_uuid_next w)\<rparr>)"

text \<open>A call of another service: its number and what it takes and answers.\<close>

definition svc_call :: "(nat \<Rightarrow> nat \<times> 'a) \<Rightarrow> ('t, 'a) svc" where
  "svc_call f w =
     (case f (sb_calls w) of (elapsed, x) \<Rightarrow>
        (Inr x, w\<lparr>sb_calls := Suc (sb_calls w), sb_now := sb_now w + elapsed\<rparr>))"

definition svc_xadd :: "string \<Rightarrow> (string \<times> string) list \<Rightarrow> ('t, unit) svc" where
  "svc_xadd stream fs = svc_exec (\<lambda>w. w\<lparr>sb_streams := sb_streams w @ [(stream, fs)]\<rparr>)"

definition svc_xack :: "string \<Rightarrow> ('t, unit) svc" where
  "svc_xack entry_id = svc_exec (\<lambda>w. w\<lparr>sb_acked := sb_acked w @ [entry_id]\<rparr>)"

definition rollback_to :: "'t svc_base_scheme \<Rightarrow> 't svc_base_scheme \<Rightarrow> 't svc_base_scheme" where
  "rollback_to w w' = svc_base.more_update (\<lambda>_. svc_base.more w) w'"

definition svc_tx :: "('t, 'a) svc \<Rightarrow> ('t, 'a) svc" where
  "svc_tx m w =
     (case svc_bind (svc_exec id) (\<lambda>_. svc_bind m (\<lambda>x. svc_bind (svc_exec id) (\<lambda>_. svc_return x))) w of
        (Inr x, w') \<Rightarrow> (Inr x, w')
      | (Inl e, w') \<Rightarrow> (Inl e, rollback_to w w'))"

fun svc_each :: "('a \<Rightarrow> ('t, unit) svc) \<Rightarrow> 'a list \<Rightarrow> ('t, unit) svc" where
  "svc_each f [] = svc_return ()"
| "svc_each f (x # xs) = svc_bind (f x) (\<lambda>_. svc_each f xs)"

section \<open>Weakest preconditions\<close>

named_theorems wp \<open>weakest preconditions of service programs\<close>

definition svc_wp ::
  "('t, 'a) svc \<Rightarrow> ('a \<Rightarrow> 't svc_base_scheme \<Rightarrow> bool) \<Rightarrow> (error \<Rightarrow> 't svc_base_scheme \<Rightarrow> bool) \<Rightarrow>
   't svc_base_scheme \<Rightarrow> bool" where
  "svc_wp m Q E w = (case m w of (Inr x, w') \<Rightarrow> Q x w' | (Inl e, w') \<Rightarrow> E e w')"

lemma wp_return [wp]: "svc_wp (svc_return x) Q E w = Q x w"
  by (simp add: svc_wp_def svc_return_def)

lemma wp_fail [wp]: "svc_wp (svc_fail e) Q E w = E e w"
  by (simp add: svc_wp_def svc_fail_def)

lemma wp_bind [wp]: "svc_wp (svc_bind m f) Q E w = svc_wp m (\<lambda>x. svc_wp (f x) Q E) E w"
  by (simp add: svc_wp_def svc_bind_def split: prod.split sum.split)

lemma wp_try [wp]:
  "svc_wp (svc_try m) Q E w =
     svc_wp m (\<lambda>x. Q (Inr x)) (\<lambda>e. case e of Error s \<Rightarrow> Q (Inl s) | Panic s \<Rightarrow> E (Panic s)) w"
  by (simp add: svc_wp_def svc_try_def split: prod.split sum.split error.split)

lemma wp_lift [wp]: "svc_wp (svc_lift r) Q E w = (case r of Inr x \<Rightarrow> Q x w | Inl e \<Rightarrow> E e w)"
  by (simp add: svc_wp_def svc_lift_def)

lemma wp_get [wp]: "svc_wp (svc_get f) Q E w = Q (f w) w"
  by (simp add: svc_wp_def svc_get_def)

lemma wp_op:
  "svc_wp (svc_op f) Q E w =
     (if sb_fails w (sb_ops w) then E (Error ''statement failed'') (w\<lparr>sb_ops := Suc (sb_ops w)\<rparr>)
      else Q (fst (f (w\<lparr>sb_ops := Suc (sb_ops w)\<rparr>))) (snd (f (w\<lparr>sb_ops := Suc (sb_ops w)\<rparr>))))"
  by (simp add: svc_wp_def svc_op_def split: prod.split)

lemma wp_query [wp]:
  "svc_wp (svc_query f) Q E w =
     (if sb_fails w (sb_ops w) then E (Error ''statement failed'') (w\<lparr>sb_ops := Suc (sb_ops w)\<rparr>)
      else Q (f (w\<lparr>sb_ops := Suc (sb_ops w)\<rparr>)) (w\<lparr>sb_ops := Suc (sb_ops w)\<rparr>))"
  by (simp add: svc_query_def wp_op)

lemma wp_exec [wp]:
  "svc_wp (svc_exec f) Q E w =
     (if sb_fails w (sb_ops w) then E (Error ''statement failed'') (w\<lparr>sb_ops := Suc (sb_ops w)\<rparr>)
      else Q () (f (w\<lparr>sb_ops := Suc (sb_ops w)\<rparr>)))"
  by (simp add: svc_exec_def wp_op)

lemma wp_stmt [wp]:
  "svc_wp (svc_stmt f) Q E w =
     (if sb_fails w (sb_ops w) then E (Error ''statement failed'') (w\<lparr>sb_ops := Suc (sb_ops w)\<rparr>)
      else (case f (w\<lparr>sb_ops := Suc (sb_ops w)\<rparr>) of
              None \<Rightarrow> E (Error ''constraint violated'') (w\<lparr>sb_ops := Suc (sb_ops w)\<rparr>)
            | Some (x, w') \<Rightarrow> Q x w'))"
  by (simp add: svc_wp_def svc_stmt_def split: option.split prod.split)

lemma wp_rows [wp]:
  "svc_wp (svc_rows limit f) Q E w =
     (let w' = w\<lparr>sb_ops := Suc (sb_ops w)\<rparr>
      in if sb_fails w (sb_ops w) then E (Error ''statement failed'') w'
         else if limit < 0 then E (Error ''constraint violated'') w'
         else Q (take (nat limit) (f w')) w')"
  by (simp add: svc_rows_def wp_stmt Let_def)

lemma wp_column [wp]:
  "svc_wp (svc_column c) Q E w =
     (case c of None \<Rightarrow> E (Error ''unexpected null'') w | Some x \<Rightarrow> Q x w)"
  by (cases c) (simp_all add: wp_return wp_fail)

lemma wp_sleep [wp]: "svc_wp (svc_sleep ms) Q E w = Q () (w\<lparr>sb_now := sb_now w + ms\<rparr>)"
  by (simp add: svc_wp_def svc_sleep_def)

lemma wp_connect [wp]:
  "svc_wp svc_connect Q E w =
     (if sb_fails w (sb_ops w) then E (Error ''statement failed'') (w\<lparr>sb_ops := Suc (sb_ops w)\<rparr>)
      else Q () (w\<lparr>sb_ops := Suc (sb_ops w)\<rparr>))"
  by (simp add: svc_connect_def wp_exec)

lemma wp_uuid [wp]:
  "svc_wp svc_uuid Q E w = Q (sb_uuids w (sb_uuid_next w)) (w\<lparr>sb_uuid_next := Suc (sb_uuid_next w)\<rparr>)"
  by (simp add: svc_wp_def svc_uuid_def)

lemma wp_call [wp]:
  "svc_wp (svc_call f) Q E w =
     Q (snd (f (sb_calls w))) (w\<lparr>sb_calls := Suc (sb_calls w), sb_now := sb_now w + fst (f (sb_calls w))\<rparr>)"
  by (simp add: svc_wp_def svc_call_def split: prod.split)

lemma wp_xadd [wp]:
  "svc_wp (svc_xadd stream fs) Q E w =
     (let w' = w\<lparr>sb_ops := Suc (sb_ops w)\<rparr>
      in if sb_fails w (sb_ops w) then E (Error ''statement failed'') w'
         else Q () (w'\<lparr>sb_streams := sb_streams w @ [(stream, fs)]\<rparr>))"
  by (simp add: svc_xadd_def wp_exec Let_def)

lemma wp_xack [wp]:
  "svc_wp (svc_xack entry_id) Q E w =
     (let w' = w\<lparr>sb_ops := Suc (sb_ops w)\<rparr>
      in if sb_fails w (sb_ops w) then E (Error ''statement failed'') w'
         else Q () (w'\<lparr>sb_acked := sb_acked w @ [entry_id]\<rparr>))"
  by (simp add: svc_xack_def wp_exec Let_def)

lemma wp_ignore [wp]:
  "svc_wp (svc_ignore m) Q E w =
     svc_wp m (\<lambda>_. Q ()) (\<lambda>e. case e of Error s \<Rightarrow> Q () | Panic s \<Rightarrow> E (Panic s)) w"
  by (simp add: svc_ignore_def svc_wp_def svc_bind_def svc_try_def svc_return_def
      split: prod.split sum.split error.split)

lemma wp_tx [wp]:
  "svc_wp (svc_tx m) Q E w =
     svc_wp (svc_bind (svc_exec id) (\<lambda>_. svc_bind m (\<lambda>x. svc_bind (svc_exec id) (\<lambda>_. svc_return x))))
       Q (\<lambda>e w'. E e (rollback_to w w')) w"
  by (simp add: svc_wp_def svc_tx_def split: prod.split sum.split)

lemma wp_if [wp]: "svc_wp (if b then m else m') Q E w = (if b then svc_wp m Q E w else svc_wp m' Q E w)"
  by simp

lemma wp_mono:
  assumes "svc_wp m Q E w" "\<And>x w'. Q x w' \<Longrightarrow> Q' x w'" "\<And>e w'. E e w' \<Longrightarrow> E' e w'"
  shows "svc_wp m Q' E' w"
  using assms by (auto simp: svc_wp_def split: prod.splits sum.splits)

lemma wpD:
  assumes "svc_wp m Q E w" "m w = (r, w')"
  shows "case r of Inr x \<Rightarrow> Q x w' | Inl e \<Rightarrow> E e w'"
  using assms by (simp add: svc_wp_def)

lemma wp_Inr: "svc_wp m Q (\<lambda>_ _. False) w \<Longrightarrow> \<exists>x w'. m w = (Inr x, w') \<and> Q x w'"
  by (auto simp: svc_wp_def split: prod.splits sum.splits)

text \<open>A loop keeps what each of its steps keeps.\<close>

lemma wp_each:
  assumes "\<And>x w. x \<in> set xs \<Longrightarrow> I w \<Longrightarrow> svc_wp (f x) (\<lambda>_. I) E w" "I w"
  shows "svc_wp (svc_each f xs) (\<lambda>_. I) E w"
  using assms
proof (induction xs arbitrary: w)
  case Nil
  then show ?case by (simp add: wp)
next
  case (Cons x xs)
  have "svc_wp (f x) (\<lambda>_. I) E w" using Cons.prems by simp
  then have "svc_wp (f x) (\<lambda>_. svc_wp (svc_each f xs) (\<lambda>_. I) E) E w"
    by (rule wp_mono) (use Cons in auto)
  then show ?case by (simp add: wp)
qed

text \<open>
  Invariants of the tables.  A predicate that looks at the tables only is kept by every program whose
  statements keep it, whatever fails.
\<close>

definition svc_keeps :: "('t \<Rightarrow> bool) \<Rightarrow> ('t, 'a) svc \<Rightarrow> bool" where
  "svc_keeps I m \<longleftrightarrow> (\<forall>w. I (svc_base.more w) \<longrightarrow> I (svc_base.more (snd (m w))))"

lemma svc_keepsD: "svc_keeps I m \<Longrightarrow> I (svc_base.more w) \<Longrightarrow> I (svc_base.more (snd (m w)))"
  by (simp add: svc_keeps_def)

lemma svc_keeps_wp:
  "svc_keeps I m \<longleftrightarrow> (\<forall>w. I (svc_base.more w) \<longrightarrow>
     svc_wp m (\<lambda>_ w'. I (svc_base.more w')) (\<lambda>_ w'. I (svc_base.more w')) w)"
proof -
  have "svc_wp m (\<lambda>_ w'. I (svc_base.more w')) (\<lambda>_ w'. I (svc_base.more w')) w
    \<longleftrightarrow> I (svc_base.more (snd (m w)))" for w
    by (cases "m w") (simp add: svc_wp_def split: sum.split)
  then show ?thesis by (simp add: svc_keeps_def)
qed

named_theorems svc_keeps_intros \<open>programs keep an invariant of the tables\<close>

lemma svc_keeps_simple [svc_keeps_intros]:
  "svc_keeps I (svc_return x)" "svc_keeps I (svc_fail e)" "svc_keeps I (svc_get g)"
  "svc_keeps I (svc_lift r)" "svc_keeps I (svc_query g)" "svc_keeps I svc_uuid"
  "svc_keeps I (svc_call c)" "svc_keeps I (svc_sleep t)" "svc_keeps I svc_connect"
  "svc_keeps I (svc_xadd s fs)" "svc_keeps I (svc_xack i)" "svc_keeps I (svc_column col)"
  "svc_keeps I (svc_rows n h)"
  by (simp_all add: svc_keeps_wp wp Let_def split: sum.split option.split)

lemma svc_keeps_exec [svc_keeps_intros]:
  "(\<And>w. I (svc_base.more w) \<Longrightarrow> I (svc_base.more (f w))) \<Longrightarrow> svc_keeps I (svc_exec f)"
  by (simp add: svc_keeps_wp wp)

lemma svc_keeps_stmt [svc_keeps_intros]:
  assumes "\<And>w x w'. I (svc_base.more w) \<Longrightarrow> f w = Some (x, w') \<Longrightarrow> I (svc_base.more w')"
  shows "svc_keeps I (svc_stmt f)"
  using assms [of "_\<lparr>sb_ops := Suc (sb_ops _)\<rparr>"]
  by (auto simp: svc_keeps_wp wp split: option.split)

lemma svc_keeps_bind [svc_keeps_intros]:
  assumes "svc_keeps I m" "\<And>x. svc_keeps I (f x)"
  shows "svc_keeps I (svc_bind m f)"
  unfolding svc_keeps_wp
proof (intro allI impI)
  fix w assume "I (svc_base.more w)"
  then have "svc_wp m (\<lambda>_ w'. I (svc_base.more w')) (\<lambda>_ w'. I (svc_base.more w')) w"
    using assms(1) by (simp add: svc_keeps_wp)
  then show "svc_wp (svc_bind m f) (\<lambda>_ w'. I (svc_base.more w')) (\<lambda>_ w'. I (svc_base.more w')) w"
    unfolding wp_bind by (rule wp_mono) (use assms(2) in \<open>auto simp: svc_keeps_wp\<close>)
qed

lemma svc_keeps_try [svc_keeps_intros]: "svc_keeps I m \<Longrightarrow> svc_keeps I (svc_try m)"
  by (fastforce simp: svc_keeps_def svc_try_def split: prod.splits sum.splits error.splits)

lemma svc_keeps_ignore [svc_keeps_intros]: "svc_keeps I m \<Longrightarrow> svc_keeps I (svc_ignore m)"
  by (simp add: svc_ignore_def svc_keeps_intros)

lemma svc_keeps_if [svc_keeps_intros]:
  "(b \<Longrightarrow> svc_keeps I m) \<Longrightarrow> (\<not> b \<Longrightarrow> svc_keeps I m') \<Longrightarrow> svc_keeps I (if b then m else m')"
  by simp

lemma svc_keeps_option [svc_keeps_intros]:
  "svc_keeps I m \<Longrightarrow> (\<And>y. svc_keeps I (f y)) \<Longrightarrow> svc_keeps I (case x of None \<Rightarrow> m | Some y \<Rightarrow> f y)"
  by (simp split: option.split)

lemma svc_keeps_sum [svc_keeps_intros]:
  "(\<And>e. svc_keeps I (g e)) \<Longrightarrow> (\<And>y. svc_keeps I (f y)) \<Longrightarrow>
   svc_keeps I (case x of Inl e \<Rightarrow> g e | Inr y \<Rightarrow> f y)"
  by (simp split: sum.split)

lemma svc_keeps_tx [svc_keeps_intros]:
  assumes "svc_keeps I m"
  shows "svc_keeps I (svc_tx m)"
proof -
  have "svc_keeps I (svc_bind (svc_exec id) (\<lambda>_. svc_bind m (\<lambda>x. svc_bind (svc_exec id) (\<lambda>_. svc_return x))))"
    using assms by (intro svc_keeps_intros) simp_all
  then show ?thesis
    by (fastforce simp: svc_keeps_def svc_tx_def rollback_to_def split: prod.splits sum.splits)
qed

lemma svc_keeps_each [svc_keeps_intros]:
  "(\<And>x. x \<in> set xs \<Longrightarrow> svc_keeps I (f x)) \<Longrightarrow> svc_keeps I (svc_each f xs)"
  by (induction xs) (auto intro!: svc_keeps_intros)

text \<open>No program of these services changes which statements fail, and a program without a panic in it has none.\<close>

definition svc_calm :: "('t, 'a) svc \<Rightarrow> bool" where
  "svc_calm m \<longleftrightarrow>
     (\<forall>w r w'. m w = (r, w') \<longrightarrow> sb_fails w' = sb_fails w \<and> (\<forall>p. r \<noteq> Inl (Panic p)))"

named_theorems svc_calm_intros \<open>programs that neither panic nor change the faults\<close>

lemma svc_calmD:
  assumes "svc_calm m" "m w = (r, w')"
  shows "sb_fails w' = sb_fails w" "r = Inl e \<Longrightarrow> \<exists>s. e = Error s"
proof -
  show "sb_fails w' = sb_fails w" using assms by (simp add: svc_calm_def)
  show "r = Inl e \<Longrightarrow> \<exists>s. e = Error s" using assms by (cases e) (auto simp: svc_calm_def)
qed

lemma svc_calm_simple [svc_calm_intros]:
  "svc_calm (svc_return x)" "svc_calm (svc_fail (Error s))" "svc_calm (svc_get g)"
  "svc_calm (svc_query g)" "svc_calm svc_uuid" "svc_calm (svc_call c)" "svc_calm (svc_sleep t)"
  "svc_calm svc_connect" "svc_calm (svc_xadd st fs)" "svc_calm (svc_xack i)"
  by (auto simp: svc_calm_def svc_return_def svc_fail_def svc_get_def svc_query_def svc_op_def
      svc_uuid_def svc_call_def svc_sleep_def svc_connect_def svc_exec_def svc_xadd_def svc_xack_def
      split: prod.splits if_splits)

lemma svc_calm_lift [svc_calm_intros]: "(\<And>p. r \<noteq> Inl (Panic p)) \<Longrightarrow> svc_calm (svc_lift r)"
  by (simp add: svc_calm_def svc_lift_def)

lemma svc_calm_exec [svc_calm_intros]: "(\<And>w. sb_fails (f w) = sb_fails w) \<Longrightarrow> svc_calm (svc_exec f)"
  by (auto simp: svc_calm_def svc_exec_def svc_op_def split: if_splits)

lemma svc_calm_stmt [svc_calm_intros]:
  assumes "\<And>w x w'. f w = Some (x, w') \<Longrightarrow> sb_fails w' = sb_fails w"
  shows "svc_calm (svc_stmt f)"
  using assms [of "_\<lparr>sb_ops := Suc (sb_ops _)\<rparr>"]
  by (auto simp: svc_calm_def svc_stmt_def split: option.splits if_splits)

lemma svc_calm_bind [svc_calm_intros]:
  "svc_calm m \<Longrightarrow> (\<And>x. svc_calm (f x)) \<Longrightarrow> svc_calm (svc_bind m f)"
  unfolding svc_calm_def svc_bind_def by (auto split: prod.splits sum.splits)

lemma svc_calm_try [svc_calm_intros]: "svc_calm m \<Longrightarrow> svc_calm (svc_try m)"
  unfolding svc_calm_def svc_try_def by (auto split: prod.splits sum.splits error.splits)

lemma svc_calm_ignore [svc_calm_intros]: "svc_calm m \<Longrightarrow> svc_calm (svc_ignore m)"
  by (simp add: svc_ignore_def svc_calm_intros)

lemma svc_calm_cases [svc_calm_intros]:
  "(b \<Longrightarrow> svc_calm m) \<Longrightarrow> (\<not> b \<Longrightarrow> svc_calm m') \<Longrightarrow> svc_calm (if b then m else m')"
  "svc_calm n \<Longrightarrow> (\<And>y. svc_calm (f y)) \<Longrightarrow> svc_calm (case x of None \<Rightarrow> n | Some y \<Rightarrow> f y)"
  "(\<And>e. svc_calm (g e)) \<Longrightarrow> (\<And>y. svc_calm (f y)) \<Longrightarrow> svc_calm (case z of Inl e \<Rightarrow> g e | Inr y \<Rightarrow> f y)"
  "(\<And>c d. svc_calm (h c d)) \<Longrightarrow> svc_calm (case q of (c, d) \<Rightarrow> h c d)"
  by (simp_all split: option.split sum.split prod.split)

lemma svc_calm_tx [svc_calm_intros]:
  assumes "svc_calm m"
  shows "svc_calm (svc_tx m)"
proof -
  have "svc_calm (svc_bind (svc_exec id) (\<lambda>_. svc_bind m (\<lambda>x. svc_bind (svc_exec id) (\<lambda>_. svc_return x))))"
    using assms by (intro svc_calm_intros) simp_all
  then show ?thesis
    unfolding svc_calm_def svc_tx_def by (auto simp: rollback_to_def split: prod.splits sum.splits)
qed

lemma svc_calm_each [svc_calm_intros]:
  "(\<And>x. x \<in> set xs \<Longrightarrow> svc_calm (f x)) \<Longrightarrow> svc_calm (svc_each f xs)"
  by (induction xs) (auto intro!: svc_calm_intros)

section \<open>Numbers in configuration files\<close>

text \<open>An integer type of the configuration structures reads the integers it can hold.\<close>

fun unsigned_of_json :: "nat \<Rightarrow> json \<Rightarrow> nat option" where
  "unsigned_of_json bits (JInt i) = (if 0 \<le> i \<and> i < 2 ^ bits then Some (nat i) else None)"
| "unsigned_of_json bits _ = None"

fun i32_of_json :: "json \<Rightarrow> i32 option" where
  "i32_of_json (JInt i) = (if - (2 ^ 31) \<le> i \<and> i < 2 ^ 31 then Some (word_of_int i) else None)"
| "i32_of_json _ = None"

section \<open>A working system\<close>

definition svc_reliable :: "'t svc_base_scheme \<Rightarrow> bool" where
  "svc_reliable w \<longleftrightarrow> (\<forall>k. \<not> sb_fails w k)"

lemma svc_reliableD [simp]: "svc_reliable w \<Longrightarrow> \<not> sb_fails w k"
  by (simp add: svc_reliable_def)

lemma rollback_simps [simp]:
  "sb_now (rollback_to w w') = sb_now w'" "sb_redis (rollback_to w w') = sb_redis w'"
  "sb_streams (rollback_to w w') = sb_streams w'" "sb_acked (rollback_to w w') = sb_acked w'"
  "sb_fails (rollback_to w w') = sb_fails w'" "svc_base.more (rollback_to w w') = svc_base.more w"
  by (simp_all add: rollback_to_def)

end
