(* ===== verification/Reclass_Worker.thy ===== *)
theory Reclass_Worker
  imports Svc_Monad Llm_World
begin

text \<open>
  The reclassification worker (\<open>workers/reclass-worker/src/main.rs\<close>): the planner, which schedules a
  job for every classification whose refresh is due, and the dispatcher, which hands the jobs to the
  classification stream.  The worker owns the table \<open>reclassification_jobs\<close>, relabels and reschedules
  rows of \<open>classifications\<close> and reads \<open>page_contents\<close>.  The two tasks share nothing but the tables.
  Rows of equal sort keys keep their table order; row locks are not modelled.
\<close>

section \<open>Configuration\<close>

record page_fetch_queue_config =
  pq_redis_url :: string
  pq_stream :: string
  pq_ttl_seconds :: i32

record reclass_config =
  rcf_redis_url :: string
  rcf_job_stream :: string
  rcf_database_url :: string
  rcf_planner_interval_seconds :: nat
  rcf_planner_batch_size :: int
  rcf_dispatcher_batch_size :: int
  rcf_metrics_host :: string
  rcf_metrics_port :: nat
  rcf_db_pool_size :: nat
  rcf_page_fetch_queue :: "page_fetch_queue_config option"

definition page_fetch_queue_of_json :: "json \<Rightarrow> page_fetch_queue_config option" where
  "page_fetch_queue_of_json j =
     Option.bind (fields_of [''redis_url'', ''stream'', ''ttl_seconds''] j) (\<lambda>fs.
     Option.bind (req_field string_of_json ''redis_url'' fs) (\<lambda>redis_url.
     Option.bind (default_field ''page-fetch-jobs'' string_of_json ''stream'' fs) (\<lambda>stream.
     Option.bind (default_field 21600 i32_of_json ''ttl_seconds'' fs) (\<lambda>ttl.
       Some \<lparr>pq_redis_url = redis_url, pq_stream = stream, pq_ttl_seconds = ttl\<rparr>))))"

definition reclass_config_of_json :: "json \<Rightarrow> reclass_config option" where
  "reclass_config_of_json j =
     Option.bind (fields_of [''redis_url'', ''job_stream'', ''database_url'', ''planner_interval_seconds'',
       ''planner_batch_size'', ''dispatcher_batch_size'', ''metrics_host'', ''metrics_port'', ''db_pool_size'',
       ''page_fetch_queue''] j) (\<lambda>fs.
     Option.bind (req_field string_of_json ''redis_url'' fs) (\<lambda>redis_url.
     Option.bind (req_field string_of_json ''job_stream'' fs) (\<lambda>job_stream.
     Option.bind (req_field string_of_json ''database_url'' fs) (\<lambda>database_url.
     Option.bind (default_field 60 (unsigned_of_json 64) ''planner_interval_seconds'' fs) (\<lambda>interval.
     Option.bind (default_field 200 i64_of_json ''planner_batch_size'' fs) (\<lambda>planner_batch.
     Option.bind (default_field 200 i64_of_json ''dispatcher_batch_size'' fs) (\<lambda>dispatcher_batch.
     Option.bind (default_field ''0.0.0.0'' string_of_json ''metrics_host'' fs) (\<lambda>metrics_host.
     Option.bind (default_field 19016 (unsigned_of_json 16) ''metrics_port'' fs) (\<lambda>metrics_port.
     Option.bind (default_field 5 (unsigned_of_json 32) ''db_pool_size'' fs) (\<lambda>pool.
     Option.bind (opt_field page_fetch_queue_of_json ''page_fetch_queue'' fs) (\<lambda>queue.
       Some \<lparr>rcf_redis_url = redis_url, rcf_job_stream = job_stream, rcf_database_url = database_url,
             rcf_planner_interval_seconds = interval, rcf_planner_batch_size = planner_batch,
             rcf_dispatcher_batch_size = dispatcher_batch, rcf_metrics_host = metrics_host,
             rcf_metrics_port = metrics_port, rcf_db_pool_size = pool,
             rcf_page_fetch_queue = queue\<rparr>)))))))))))"

definition reclass_validator :: "externs \<Rightarrow> environment \<Rightarrow> reclass_config \<Rightarrow> config_validator" where
  "reclass_validator ex env cfg =
     (let v = require_auth_url ex env ''reclass.database_url'' (Some (rcf_database_url cfg)) True True 12
            ''set database_url in config/reclass-worker.json with non-default DB credentials''
          (require_auth_url ex env ''reclass.redis_url'' (Some (rcf_redis_url cfg)) False True 16
            ''set redis_url in config/reclass-worker.json with password-authenticated Redis credentials''
          (require_non_empty ''reclass.database_url'' (Some (rcf_database_url cfg))
            ''set database_url in config/reclass-worker.json''
          (require_non_empty ''reclass.redis_url'' (Some (rcf_redis_url cfg))
            ''set redis_url in config/reclass-worker.json''
          (validator_new ''reclass-worker''))))
      in case rcf_page_fetch_queue cfg of
           None \<Rightarrow> v
         | Some queue \<Rightarrow>
             require_auth_url ex env ''reclass.page_fetch_queue.redis_url'' (Some (pq_redis_url queue))
               False True 16
               ''set page_fetch_queue.redis_url with password-authenticated Redis credentials'' v)"

definition reclass_validate_config :: "externs \<Rightarrow> environment \<Rightarrow> reclass_config \<Rightarrow> unit res" where
  "reclass_validate_config ex env cfg = validator_finish (reclass_validator ex env cfg)"

definition reclass_env_overrides :: "environment \<Rightarrow> reclass_config \<Rightarrow> reclass_config" where
  "reclass_env_overrides env cfg =
     (let cfg1 = (case env_text env ''OD_CACHE_REDIS_URL'' of
            Some u \<Rightarrow> cfg\<lparr>rcf_redis_url := trim u\<rparr> | None \<Rightarrow> cfg);
          cfg2 = (case env_text env ''OD_ADMIN_DATABASE_URL'' of
            Some u \<Rightarrow> cfg1\<lparr>rcf_database_url := trim u\<rparr> | None \<Rightarrow> cfg1)
      in case env_text env ''OD_PAGE_FETCH_REDIS_URL'' of
           Some u \<Rightarrow> cfg2\<lparr>rcf_page_fetch_queue :=
             map_option (\<lambda>q. q\<lparr>pq_redis_url := trim u\<rparr>) (rcf_page_fetch_queue cfg2)\<rparr>
         | None \<Rightarrow> cfg2)"

section \<open>Tables\<close>

record rc_class_row =
  rk_id :: uuid
  rk_normalized_key :: string
  rk_taxonomy_version :: "string option"
  rk_primary_category :: "string option"
  rk_subcategory :: "string option"
  rk_ttl_seconds :: "int option"
  rk_status :: string
  rk_next_refresh_at :: "time option"
  rk_updated_at :: time

record rc_job_row =
  rj_id :: uuid
  rj_normalized_key :: string
  rj_reason :: string
  rj_status :: string
  rj_created_at :: time
  rj_started_at :: "time option"
  rj_completed_at :: "time option"

record reclass_tables =
  rt_classes :: "rc_class_row list"
  rt_jobs :: "rc_job_row list"
  rt_pages :: "page_content_row list"

type_synonym reclass_world = "reclass_tables svc_base_scheme"

abbreviation (input) tables :: "reclass_world \<Rightarrow> reclass_tables" where
  "tables \<equiv> svc_base.more"

abbreviation (input) rw_jobs :: "reclass_world \<Rightarrow> rc_job_row list" where
  "rw_jobs w \<equiv> rt_jobs (svc_base.more w)"

abbreviation (input) rw_classes :: "reclass_world \<Rightarrow> rc_class_row list" where
  "rw_classes w \<equiv> rt_classes (svc_base.more w)"

definition upd_tables :: "(reclass_tables \<Rightarrow> reclass_tables) \<Rightarrow> reclass_world \<Rightarrow> reclass_world" where
  "upd_tables f = svc_base.more_update f"

definition live :: "rc_job_row \<Rightarrow> bool" where
  "live j \<longleftrightarrow> rj_status j \<in> {''pending'', ''running''}"

definition update_class :: "uuid \<Rightarrow> (rc_class_row \<Rightarrow> rc_class_row) \<Rightarrow> reclass_world \<Rightarrow> reclass_world" where
  "update_class i f = upd_tables (\<lambda>t. t\<lparr>rt_classes :=
     map (\<lambda>r. if rk_id r = i then f r else r) (rt_classes t)\<rparr>)"

definition set_job :: "uuid \<Rightarrow> (rc_job_row \<Rightarrow> rc_job_row) \<Rightarrow> rc_job_row list \<Rightarrow> rc_job_row list" where
  "set_job i f = map (\<lambda>r. if rj_id r = i then f r else r)"

definition update_job :: "uuid \<Rightarrow> (rc_job_row \<Rightarrow> rc_job_row) \<Rightarrow> reclass_world \<Rightarrow> reclass_world" where
  "update_job i f = upd_tables (\<lambda>t. t\<lparr>rt_jobs := set_job i f (rt_jobs t)\<rparr>)"

section \<open>The planner\<close>

record planner =
  pl_batch_size :: int
  pl_taxonomy :: taxonomy_store

definition due_rows :: "reclass_world \<Rightarrow> rc_class_row list" where
  "due_rows w =
     sort_key (\<lambda>r. the (rk_next_refresh_at r))
       (filter (\<lambda>r. rk_status r = ''active'' \<and>
          (case rk_next_refresh_at r of None \<Rightarrow> False | Some t \<Rightarrow> t \<le> sb_now w)) (rw_classes w))"

definition ensure_canonical_labels ::
  "planner \<Rightarrow> uuid \<Rightarrow> string \<Rightarrow> string \<Rightarrow> (reclass_tables, unit) svc" where
  "ensure_canonical_labels pl classification_id category subcategory =
     svc_bind (svc_lift (validate_labels (pl_taxonomy pl) category (Some subcategory))) (\<lambda>validated.
     let new_category = cat_id (vl_category validated);
         new_subcategory = sub_id (vl_subcategory validated);
         needs_update = vl_fallback_reason validated \<noteq> None
           \<or> new_category \<noteq> category \<or> new_subcategory \<noteq> subcategory
     in if needs_update
        then svc_exec (\<lambda>w. update_class classification_id (\<lambda>r. r\<lparr>rk_primary_category := Some new_category,
               rk_subcategory := Some new_subcategory,
               rk_taxonomy_version := Some (tax_version (ts_taxonomy (pl_taxonomy pl))),
               rk_updated_at := sb_now w\<rparr>) w)
        else svc_return ())"

definition insert_refresh_job :: "string \<Rightarrow> (reclass_tables, bool) svc" where
  "insert_refresh_job key =
     svc_bind svc_uuid (\<lambda>i.
     svc_stmt (\<lambda>w.
       if \<exists>j \<in> set (rw_jobs w). rj_normalized_key j = key \<and> live j then Some (False, w)
       else if i \<in> rj_id ` set (rw_jobs w) then None
       else Some (True, upd_tables (\<lambda>t. t\<lparr>rt_jobs := rt_jobs t @
         [\<lparr>rj_id = i, rj_normalized_key = key, rj_reason = ''ttl_refresh'', rj_status = ''pending'',
           rj_created_at = sb_now w, rj_started_at = None, rj_completed_at = None\<rparr>]\<rparr>) w)))"

definition plan_row :: "planner \<Rightarrow> rc_class_row \<Rightarrow> (reclass_tables, bool) svc" where
  "plan_row pl row =
     svc_bind (svc_column (rk_primary_category row)) (\<lambda>primary_category.
     svc_bind (svc_column (rk_subcategory row)) (\<lambda>subcategory.
     svc_bind (ensure_canonical_labels pl (rk_id row) primary_category subcategory) (\<lambda>_.
     svc_bind (svc_get sb_now) (\<lambda>now.
     let ttl = max (case rk_ttl_seconds row of None \<Rightarrow> 3600 | Some t \<Rightarrow> t) 300;
         next_refresh = now + nat (ttl * 1000)
     in svc_bind (svc_exec (\<lambda>w. update_class (rk_id row)
          (\<lambda>r. r\<lparr>rk_next_refresh_at := Some next_refresh, rk_updated_at := sb_now w\<rparr>) w)) (\<lambda>_.
        insert_refresh_job (rk_normalized_key row))))))"

fun plan_rows :: "planner \<Rightarrow> rc_class_row list \<Rightarrow> nat \<Rightarrow> (reclass_tables, nat) svc" where
  "plan_rows pl [] planned = svc_return planned"
| "plan_rows pl (row # rows) planned =
     svc_bind (plan_row pl row) (\<lambda>inserted. plan_rows pl rows (if inserted then planned + 1 else planned))"

definition fetch_backlog :: "(reclass_tables, nat) svc" where
  "fetch_backlog = svc_query (\<lambda>w. length (filter (\<lambda>j. rj_status j = ''pending'') (rw_jobs w)))"

text \<open>With no row due the loop below is empty and the transaction commits with nothing planned.\<close>

definition plan_batch :: "planner \<Rightarrow> (reclass_tables, nat) svc" where
  "plan_batch pl =
     svc_bind (svc_tx (svc_bind (svc_rows (pl_batch_size pl) due_rows) (\<lambda>rows. plan_rows pl rows 0)))
       (\<lambda>planned. svc_bind fetch_backlog (\<lambda>_. svc_return planned))"

section \<open>The dispatcher\<close>

text \<open>\<open>re_href\<close> stands for the text the URL library prints for the URL it read from a text.\<close>

record reclass_env =
  re_ex :: externs
  re_href :: "string \<Rightarrow> string"

record job_target =
  jt_entity_level :: string
  jt_hostname :: string
  jt_full_url :: string

definition trim_slashes :: "string \<Rightarrow> string" where
  "trim_slashes s = trim_end_matches CHR ''/'' (dropWhile (\<lambda>c. c = CHR ''/'') s)"

definition build_target :: "reclass_env \<Rightarrow> string \<Rightarrow> job_target res" where
  "build_target re key =
     (case split_once_char CHR '':'' key of
        None \<Rightarrow> Inl (Error (''normalized_key missing prefix: '' @ key))
      | Some (pfx, remainder) \<Rightarrow>
          if pfx = ''domain'' \<or> pfx = ''subdomain'' then
            (let host = trim_slashes (trim remainder)
             in if host = [] then Inl (Error (''empty host for normalized key '' @ key))
                else Inr \<lparr>jt_entity_level = pfx, jt_hostname = host,
                          jt_full_url = ''https://'' @ host @ ''/''\<rparr>)
          else if pfx = ''url'' \<or> pfx = ''page'' then
            (case url_parse (re_ex re) remainder of
               None \<Rightarrow> Inl (Error (''invalid URL in normalized key '' @ key))
             | Some parsed \<Rightarrow>
                 (case url_host_str parsed of
                    None \<Rightarrow> Inl (Error (''url missing host for key '' @ key))
                  | Some host \<Rightarrow> Inr \<lparr>jt_entity_level = pfx, jt_hostname = host,
                                       jt_full_url = re_href re remainder\<rparr>))
          else Inl (Error (''unsupported entity level '' @ pfx @ '' for key '' @ key)))"

definition derive_base_url :: "externs \<Rightarrow> string \<Rightarrow> string \<Rightarrow> string" where
  "derive_base_url ex full_url hostname =
     (case Option.bind (url_parse ex full_url)
             (\<lambda>u. map_option (\<lambda>host. url_scheme u @ ''://'' @ host @ ''/'') (url_host_str u)) of
        Some base \<Rightarrow> base
      | None \<Rightarrow> ''https://'' @ hostname @ ''/'')"

record page_content_snippet =
  ps_content_excerpt :: "string option"
  ps_content_hash :: "string option"
  ps_content_version :: "int option"
  ps_content_language :: "string option"

definition current_content :: "string \<Rightarrow> time \<Rightarrow> page_content_row list \<Rightarrow> page_content_snippet option" where
  "current_content key now pages =
     map_option
       (\<lambda>row. \<lparr>ps_content_excerpt = pc_text_excerpt row, ps_content_hash = pc_content_hash row,
               ps_content_version = Some (int (pc_fetch_version row)), ps_content_language = None\<rparr>)
       (latest_by pc_fetch_version
         (filter (\<lambda>row. pc_normalized_key row = key \<and> pc_expires_at row > now) pages))"

definition reclass_load_page_content :: "string \<Rightarrow> (reclass_tables, page_content_snippet option) svc" where
  "reclass_load_page_content key =
     svc_query (\<lambda>w. current_content key (sb_now w) (rt_pages (svc_base.more w)))"

record classification_job_message =
  jm_normalized_key :: string
  jm_entity_level :: string
  jm_hostname :: string
  jm_full_url :: string
  jm_trace_id :: string
  jm_idempotency_key :: "string option"
  jm_requires_content :: bool
  jm_base_url :: "string option"
  jm_content_excerpt :: "string option"
  jm_content_hash :: "string option"
  jm_content_version :: "int option"
  jm_content_language :: "string option"

definition job_message_to_json :: "classification_job_message \<Rightarrow> json" where
  "job_message_to_json m = JObj
     ([(''normalized_key'', JStr (jm_normalized_key m)), (''entity_level'', JStr (jm_entity_level m)),
       (''hostname'', JStr (jm_hostname m)), (''full_url'', JStr (jm_full_url m)),
       (''trace_id'', JStr (jm_trace_id m))]
      @ skip_none ''idempotency_key'' JStr (jm_idempotency_key m)
      @ [(''requires_content'', JBool (jm_requires_content m))]
      @ skip_none ''base_url'' JStr (jm_base_url m)
      @ skip_none ''content_excerpt'' JStr (jm_content_excerpt m)
      @ skip_none ''content_hash'' JStr (jm_content_hash m)
      @ skip_none ''content_version'' JInt (jm_content_version m)
      @ skip_none ''content_language'' JStr (jm_content_language m))"

definition dispatch_message ::
  "externs \<Rightarrow> rc_job_row \<Rightarrow> job_target \<Rightarrow> page_content_snippet option \<Rightarrow> classification_job_message" where
  "dispatch_message ex row target content =
     (let key = rj_normalized_key row;
          trace_id = uuid_to_string ex (rj_id row)
      in \<lparr>jm_normalized_key = key, jm_entity_level = jt_entity_level target,
          jm_hostname = jt_hostname target, jm_full_url = jt_full_url target, jm_trace_id = trace_id,
          jm_idempotency_key = Some (''cls:'' @ key @ '':'' @ trace_id), jm_requires_content = True,
          jm_base_url = Some (derive_base_url ex (jt_full_url target) (jt_hostname target)),
          jm_content_excerpt = Option.bind content ps_content_excerpt,
          jm_content_hash = Option.bind content ps_content_hash,
          jm_content_version = Option.bind content ps_content_version,
          jm_content_language = Option.bind content ps_content_language\<rparr>)"

definition publish_job :: "externs \<Rightarrow> string \<Rightarrow> classification_job_message \<Rightarrow> (reclass_tables, unit) svc" where
  "publish_job ex stream job =
     svc_bind svc_connect (\<lambda>_.
       svc_xadd stream [(''payload'', text_of_json ex (job_message_to_json job))])"

record page_fetch_publisher =
  pp_stream :: string
  pp_default_ttl :: i32

definition page_fetch_publisher_new :: "string \<Rightarrow> i32 \<Rightarrow> page_fetch_publisher" where
  "page_fetch_publisher_new stream default_ttl =
     \<lparr>pp_stream = stream, pp_default_ttl = (if sint default_ttl < 60 then 60 else default_ttl)\<rparr>"

definition publish_page_fetch ::
  "externs \<Rightarrow> page_fetch_publisher \<Rightarrow> page_fetch_job \<Rightarrow> (reclass_tables, unit) svc" where
  "publish_page_fetch ex pp job =
     (let job' = (if sint (case pfj_ttl_seconds job of None \<Rightarrow> 0 | Some t \<Rightarrow> t) \<le> 0
                  then job\<lparr>pfj_ttl_seconds := Some (pp_default_ttl pp)\<rparr> else job)
      in svc_bind svc_connect (\<lambda>_.
           svc_xadd (pp_stream pp) [(''payload'', text_of_json ex (page_fetch_job_to_json job'))]))"

record dispatcher =
  di_job_stream :: string
  di_page_fetch :: "page_fetch_publisher option"
  di_batch_size :: int

definition dispatch_fetch_job :: "externs \<Rightarrow> rc_job_row \<Rightarrow> job_target \<Rightarrow> page_fetch_job" where
  "dispatch_fetch_job ex row target =
     (let base_url = derive_base_url ex (jt_full_url target) (jt_hostname target);
          trace_id = uuid_to_string ex (rj_id row)
      in \<lparr>pfj_normalized_key = rj_normalized_key row, pfj_url = base_url,
          pfj_hostname = jt_hostname target, pfj_candidate_urls = [base_url],
          pfj_trace_id = Some trace_id,
          pfj_idempotency_key = Some (''page:'' @ rj_normalized_key row @ '':'' @ trace_id),
          pfj_ttl_seconds = None\<rparr>)"

definition dispatch_job :: "reclass_env \<Rightarrow> dispatcher \<Rightarrow> rc_job_row \<Rightarrow> (reclass_tables, bool) svc" where
  "dispatch_job re di row =
     (case build_target re (rj_normalized_key row) of
        Inl _ \<Rightarrow>
          svc_bind (svc_exec (\<lambda>w. update_job (rj_id row)
            (\<lambda>j. j\<lparr>rj_status := ''failed'', rj_completed_at := Some (sb_now w)\<rparr>) w)) (\<lambda>_.
          svc_return False)
      | Inr target \<Rightarrow>
          svc_bind (reclass_load_page_content (rj_normalized_key row)) (\<lambda>content.
          svc_bind (svc_try (publish_job (re_ex re) (di_job_stream di)
            (dispatch_message (re_ex re) row target content))) (\<lambda>published.
          case published of
            Inr _ \<Rightarrow>
              svc_bind (svc_exec (\<lambda>w. update_job (rj_id row)
                (\<lambda>j. j\<lparr>rj_status := ''completed'', rj_completed_at := Some (sb_now w)\<rparr>) w)) (\<lambda>_.
              svc_bind (case di_page_fetch di of
                  None \<Rightarrow> svc_return ()
                | Some fetcher \<Rightarrow>
                    svc_ignore (publish_page_fetch (re_ex re) fetcher
                      (dispatch_fetch_job (re_ex re) row target))) (\<lambda>_.
              svc_return True))
          | Inl _ \<Rightarrow>
              svc_bind (svc_exec (update_job (rj_id row)
                (\<lambda>j. j\<lparr>rj_status := ''pending'', rj_started_at := None\<rparr>))) (\<lambda>_.
              svc_return False))))"

fun dispatch_jobs ::
  "reclass_env \<Rightarrow> dispatcher \<Rightarrow> rc_job_row list \<Rightarrow> nat \<Rightarrow> (reclass_tables, nat) svc" where
  "dispatch_jobs re di [] processed = svc_return processed"
| "dispatch_jobs re di (row # rows) processed =
     svc_bind (dispatch_job re di row) (\<lambda>done.
       dispatch_jobs re di rows (if done then processed + 1 else processed))"

definition pending_rows :: "reclass_world \<Rightarrow> rc_job_row list" where
  "pending_rows w = sort_key rj_created_at (filter (\<lambda>j. rj_status j = ''pending'') (rw_jobs w))"

definition start_job :: "rc_job_row \<Rightarrow> (reclass_tables, unit) svc" where
  "start_job row = svc_exec (\<lambda>w. update_job (rj_id row)
     (\<lambda>j. j\<lparr>rj_status := ''running'', rj_started_at := Some (sb_now w)\<rparr>) w)"

definition claim_batch :: "dispatcher \<Rightarrow> (reclass_tables, rc_job_row list) svc" where
  "claim_batch di =
     svc_tx (svc_bind (svc_rows (di_batch_size di) pending_rows) (\<lambda>rows.
       svc_bind (svc_each start_job rows) (\<lambda>_. svc_return rows)))"

definition dispatch_batch :: "reclass_env \<Rightarrow> dispatcher \<Rightarrow> (reclass_tables, nat) svc" where
  "dispatch_batch re di =
     svc_bind (claim_batch di) (\<lambda>rows.
     svc_bind (dispatch_jobs re di rows 0) (\<lambda>processed.
     svc_bind fetch_backlog (\<lambda>_. svc_return processed)))"

section \<open>The two loops\<close>

definition planner_tick :: "planner \<Rightarrow> (reclass_tables, unit) svc" where
  "planner_tick pl = svc_ignore (plan_batch pl)"

definition dispatcher_iteration :: "reclass_env \<Rightarrow> dispatcher \<Rightarrow> (reclass_tables, unit) svc" where
  "dispatcher_iteration re di =
     svc_bind (svc_try (dispatch_batch re di)) (\<lambda>r.
       case r of
         Inr processed \<Rightarrow> if processed = 0 then svc_sleep 5000 else svc_return ()
       | Inl _ \<Rightarrow> svc_sleep 2000)"

text \<open>
  Any interleaving of the two loops, one iteration at a time, with any time between them and any
  later failures.
\<close>

inductive reclass_run :: "reclass_env \<Rightarrow> planner \<Rightarrow> dispatcher \<Rightarrow> reclass_world \<Rightarrow> reclass_world \<Rightarrow> bool"
  for re pl di where
  run_refl: "reclass_run re pl di w w"
| run_plan: "reclass_run re pl di w w' \<Longrightarrow> reclass_run re pl di w (snd (planner_tick pl w'))"
| run_dispatch: "reclass_run re pl di w w' \<Longrightarrow>
    reclass_run re pl di w (snd (dispatcher_iteration re di w'))"
| run_wait: "reclass_run re pl di w w' \<Longrightarrow>
    reclass_run re pl di w (w'\<lparr>sb_now := sb_now w' + t, sb_fails := fails\<rparr>)"

end
