(* ===== verification/Reclass_Correct.thy ===== *)
theory Reclass_Correct
  imports Reclass_Worker
begin

text \<open>
  Correctness of the reclassification worker.  The job table is abstracted to a lifecycle: a job is
  inserted pending when its key has no live job, is started, and ends, fails or goes back.  Planner and
  dispatcher refine that lifecycle whatever fails, so no key ever has two live jobs.
\<close>

section \<open>The life of a job\<close>

inductive job_step :: "rc_job_row list \<Rightarrow> rc_job_row list \<Rightarrow> bool" where
  job_plan: "rj_id j \<notin> rj_id ` set jobs \<Longrightarrow> rj_status j = ''pending'' \<Longrightarrow>
    (\<And>k. k \<in> set jobs \<Longrightarrow> rj_normalized_key k = rj_normalized_key j \<Longrightarrow> \<not> live k) \<Longrightarrow>
    job_step jobs (jobs @ [j])"
| job_start: "j \<in> set jobs \<Longrightarrow> rj_status j = ''pending'' \<Longrightarrow>
    job_step jobs (set_job (rj_id j) (\<lambda>r. r\<lparr>rj_status := ''running'', rj_started_at := t\<rparr>) jobs)"
| job_finish: "j \<in> set jobs \<Longrightarrow> rj_status j = ''running'' \<Longrightarrow> st \<in> {''completed'', ''failed''} \<Longrightarrow>
    job_step jobs (set_job (rj_id j) (\<lambda>r. r\<lparr>rj_status := st, rj_completed_at := t\<rparr>) jobs)"
| job_retry: "j \<in> set jobs \<Longrightarrow> rj_status j = ''running'' \<Longrightarrow>
    job_step jobs (set_job (rj_id j) (\<lambda>r. r\<lparr>rj_status := ''pending'', rj_started_at := None\<rparr>) jobs)"

definition jobs_ok :: "rc_job_row list \<Rightarrow> bool" where
  "jobs_ok jobs \<longleftrightarrow> distinct (map rj_id jobs) \<and> distinct (map rj_normalized_key (filter live jobs))"

lemma set_job_simps [simp]:
  "set_job i f [] = []"
  "set_job i f (r # rs) = (if rj_id r = i then f r else r) # set_job i f rs"
  "set_job i f (rs @ ss) = set_job i f rs @ set_job i f ss"
  by (simp_all add: set_job_def)

lemma set_job_ids: "(\<And>r. rj_id (f r) = rj_id r) \<Longrightarrow> map rj_id (set_job i f jobs) = map rj_id jobs"
  by (simp add: set_job_def)

lemma set_job_absent: "i \<notin> rj_id ` set jobs \<Longrightarrow> set_job i f jobs = jobs"
  by (induction jobs) auto

lemma distinct_id_eq:
  "distinct (map rj_id jobs) \<Longrightarrow> j \<in> set jobs \<Longrightarrow> k \<in> set jobs \<Longrightarrow> rj_id j = rj_id k \<Longrightarrow> j = k"
  by (induction jobs) (auto simp: image_iff)

text \<open>Changing one live job never adds a live key.\<close>

lemma set_job_live_keys:
  assumes "\<And>r. r \<in> set jobs \<Longrightarrow> rj_id r = i \<Longrightarrow> live r"
    and "\<And>r. rj_normalized_key (f r) = rj_normalized_key r"
    and "distinct (map rj_normalized_key (filter live jobs))"
  shows "distinct (map rj_normalized_key (filter live (set_job i f jobs)))"
proof -
  define g where "g = (\<lambda>r. if rj_id r = i then f r else r)"
  have "rj_normalized_key \<circ> g = rj_normalized_key" using assms(2) by (auto simp: g_def)
  then have "map rj_normalized_key (filter live (set_job i f jobs))
    = map rj_normalized_key (filter (live \<circ> g) jobs)"
    by (simp only: set_job_def g_def [symmetric] filter_map map_map)
  also have "filter (live \<circ> g) jobs = filter (live \<circ> g) (filter live jobs)"
    using assms(1) by (auto intro!: filter_cong simp: g_def)
  also have "distinct (map rj_normalized_key (filter (live \<circ> g) (filter live jobs)))"
    using assms(3) by (rule distinct_map_filter)
  finally show ?thesis .
qed

lemma set_job_ok:
  assumes "jobs_ok jobs" "j \<in> set jobs" "live j"
    and "\<And>r. rj_id (f r) = rj_id r" "\<And>r. rj_normalized_key (f r) = rj_normalized_key r"
  shows "jobs_ok (set_job (rj_id j) f jobs)"
proof -
  have "live r" if "r \<in> set jobs" "rj_id r = rj_id j" for r
    using assms(1-3) distinct_id_eq [of jobs j r] that by (simp add: jobs_ok_def)
  then show ?thesis
    using assms(1,4,5) set_job_live_keys [of jobs "rj_id j" f] by (simp add: jobs_ok_def set_job_ids)
qed

lemma job_step_ok: "job_step jobs jobs' \<Longrightarrow> jobs_ok jobs \<Longrightarrow> jobs_ok jobs'"
proof (induction rule: job_step.induct)
  case (job_plan j jobs)
  then show ?case by (auto simp: jobs_ok_def live_def)
qed (auto intro!: set_job_ok simp: live_def)

lemma job_steps_ok: "job_step\<^sup>*\<^sup>* jobs jobs' \<Longrightarrow> jobs_ok jobs \<Longrightarrow> jobs_ok jobs'"
  by (induction rule: rtranclp_induct) (auto intro: job_step_ok)

section \<open>The planner refines the lifecycle\<close>

lemma more_upd_tables [simp]: "svc_base.more (upd_tables f w) = f (svc_base.more w)"
  by (simp add: upd_tables_def)

lemma rt_jobs_update_class [simp]: "rt_jobs (svc_base.more (update_class i f w)) = rt_jobs (svc_base.more w)"
  by (simp add: update_class_def)

lemma rt_jobs_update_job [simp]:
  "rt_jobs (svc_base.more (update_job i f w)) = set_job i f (rt_jobs (svc_base.more w))"
  by (simp add: update_job_def)

lemma insert_refresh_job_steps:
  "svc_keeps (\<lambda>t. job_step\<^sup>*\<^sup>* jobs (rt_jobs t)) (insert_refresh_job key)"
  unfolding insert_refresh_job_def
  by (intro svc_keeps_intros)
    (auto split: if_splits elim!: rtranclp.rtrancl_into_rtrancl intro!: job_plan)

lemma plan_row_steps: "svc_keeps (\<lambda>t. job_step\<^sup>*\<^sup>* jobs (rt_jobs t)) (plan_row pl row)"
  unfolding plan_row_def ensure_canonical_labels_def Let_def
  by (intro svc_keeps_intros insert_refresh_job_steps) auto

lemma plan_rows_steps: "svc_keeps (\<lambda>t. job_step\<^sup>*\<^sup>* jobs (rt_jobs t)) (plan_rows pl rows n)"
  by (induction rows arbitrary: n) (auto intro!: svc_keeps_intros plan_row_steps)

lemma plan_batch_steps: "job_step\<^sup>*\<^sup>* (rw_jobs w) (rw_jobs (snd (plan_batch pl w)))"
proof -
  have "svc_keeps (\<lambda>t. job_step\<^sup>*\<^sup>* (rw_jobs w) (rt_jobs t)) (plan_batch pl)"
    unfolding plan_batch_def fetch_backlog_def by (intro svc_keeps_intros plan_rows_steps)
  then show ?thesis by (rule svc_keepsD) simp
qed

section \<open>The dispatcher refines the lifecycle\<close>

lemma svc_wp_total: "svc_wp m (\<lambda>_. I) (\<lambda>_. I) w \<longleftrightarrow> I (snd (m w))"
  by (cases "m w") (simp add: svc_wp_def split: sum.split)

text \<open>One dispatched job moves only its own row, from running to an end or back.\<close>

definition job_moved :: "uuid \<Rightarrow> rc_job_row list \<Rightarrow> rc_job_row list \<Rightarrow> bool" where
  "job_moved i jobs jobs' \<longleftrightarrow>
     jobs' = jobs \<or>
     (\<exists>st t. st \<in> {''completed'', ''failed''} \<and>
        jobs' = set_job i (\<lambda>r. r\<lparr>rj_status := st, rj_completed_at := t\<rparr>) jobs) \<or>
     jobs' = set_job i (\<lambda>r. r\<lparr>rj_status := ''pending'', rj_started_at := None\<rparr>) jobs"

lemma dispatch_job_moved:
  "job_moved (rj_id row) (rw_jobs w) (rw_jobs (snd (dispatch_job re di row w)))"
proof -
  have "svc_wp (dispatch_job re di row) (\<lambda>_ w'. job_moved (rj_id row) (rw_jobs w) (rw_jobs w'))
    (\<lambda>_ w'. job_moved (rj_id row) (rw_jobs w) (rw_jobs w')) w"
    by (simp add: dispatch_job_def reclass_load_page_content_def publish_job_def publish_page_fetch_def
        wp Let_def split: sum.split option.split)
      (fastforce simp: job_moved_def)
  then show ?thesis by (simp add: svc_wp_total)
qed

lemma job_moved_step:
  assumes "job_moved i jobs jobs'" "j \<in> set jobs" "rj_id j = i" "rj_status j = ''running''"
  shows "job_step\<^sup>*\<^sup>* jobs jobs'"
  using assms(1) job_finish [OF assms(2,4)] job_retry [OF assms(2,4)] assms(3)
  unfolding job_moved_def by blast

lemma job_moved_cases:
  assumes "job_moved i jobs jobs'"
  obtains f where "jobs' = set_job i f jobs"
    "\<forall>r. rj_id (f r) = rj_id r \<and> rj_normalized_key (f r) = rj_normalized_key r"
proof -
  have "jobs' = jobs \<Longrightarrow> jobs' = set_job i (\<lambda>r. r) jobs" by (simp add: set_job_def)
  then show ?thesis using assms that unfolding job_moved_def by fastforce
qed

lemma set_job_other: "r \<in> set jobs \<Longrightarrow> rj_id r \<noteq> i \<Longrightarrow> r \<in> set (set_job i f jobs)"
  by (force simp: set_job_def)

lemma snd_svc_bind:
  "snd (svc_bind m f w) = (case m w of (Inl e, w') \<Rightarrow> w' | (Inr x, w') \<Rightarrow> snd (f x w'))"
  by (simp add: svc_bind_def split: prod.split sum.split)

definition running_in :: "rc_job_row list \<Rightarrow> uuid \<Rightarrow> bool" where
  "running_in jobs i \<longleftrightarrow> (\<exists>j \<in> set jobs. rj_id j = i \<and> rj_status j = ''running'')"

lemma dispatch_jobs_steps:
  assumes "distinct (map rj_id rows)" "\<forall>r \<in> set rows. running_in (rw_jobs w) (rj_id r)"
  shows "job_step\<^sup>*\<^sup>* (rw_jobs w) (rw_jobs (snd (dispatch_jobs re di rows n w)))"
  using assms
proof (induction rows arbitrary: n w)
  case Nil
  then show ?case by (simp add: svc_return_def)
next
  case (Cons row rows)
  obtain r w' where w': "dispatch_job re di row w = (r, w')" by fastforce
  have m: "job_moved (rj_id row) (rw_jobs w) (rw_jobs w')"
    using dispatch_job_moved [of row w re di] w' by simp
  obtain j where "j \<in> set (rw_jobs w)" "rj_id j = rj_id row" "rj_status j = ''running''"
    using Cons.prems(2) by (auto simp: running_in_def)
  then have step: "job_step\<^sup>*\<^sup>* (rw_jobs w) (rw_jobs w')" using job_moved_step [OF m] by blast
  have "running_in (rw_jobs w') (rj_id x)" if "x \<in> set rows" for x
  proof -
    have "rj_id x \<noteq> rj_id row" using that Cons.prems(1) by (auto simp: image_iff)
    with that Cons.prems(2) show ?thesis
      unfolding running_in_def by (metis job_moved_cases [OF m] list.set_intros(2) set_job_other)
  qed
  then have "job_step\<^sup>*\<^sup>* (rw_jobs w') (rw_jobs (snd (dispatch_jobs re di rows k w')))" for k
    using Cons.IH [of w' k] Cons.prems(1) by simp
  with step w' show ?case by (auto simp: snd_svc_bind split: sum.split intro: rtranclp_trans)
qed

section \<open>Claiming a batch\<close>

definition started :: "time \<Rightarrow> uuid set \<Rightarrow> rc_job_row list \<Rightarrow> rc_job_row list" where
  "started now ids = map (\<lambda>j. if rj_id j \<in> ids
     then j\<lparr>rj_status := ''running'', rj_started_at := Some now\<rparr> else j)"

lemma started_insert:
  "started now (insert i ids) jobs
     = started now ids (set_job i (\<lambda>j. j\<lparr>rj_status := ''running'', rj_started_at := Some now\<rparr>) jobs)"
  by (simp add: started_def set_job_def)

lemma started_empty [simp]: "started now {} jobs = jobs"
  by (simp add: started_def)

lemma started_mem:
  "r \<in> set jobs \<Longrightarrow> rj_id r \<in> ids \<Longrightarrow>
   r\<lparr>rj_status := ''running'', rj_started_at := Some now\<rparr> \<in> set (started now ids jobs)"
  by (force simp: started_def)

lemma started_steps:
  assumes "finite ids" "distinct (map rj_id jobs)"
    and "\<forall>i \<in> ids. \<exists>j \<in> set jobs. rj_id j = i \<and> rj_status j = ''pending''"
  shows "job_step\<^sup>*\<^sup>* jobs (started now ids jobs)"
  using assms
proof (induction ids arbitrary: jobs rule: finite_induct)
  case empty
  then show ?case by simp
next
  case (insert i ids)
  let ?f = "\<lambda>j. j\<lparr>rj_status := ''running'', rj_started_at := Some now\<rparr>"
  obtain j where j: "j \<in> set jobs" "rj_id j = i" "rj_status j = ''pending''"
    using insert.prems(2) by auto
  have "job_step jobs (set_job i ?f jobs)" using job_start [OF j(1,3)] j(2) by blast
  moreover have "\<exists>j \<in> set (set_job i ?f jobs). rj_id j = k \<and> rj_status j = ''pending''" if "k \<in> ids" for k
    using that insert.prems(2) insert.hyps(2) by (metis insertCI set_job_other)
  then have "job_step\<^sup>*\<^sup>* (set_job i ?f jobs) (started now ids (set_job i ?f jobs))"
    using insert.prems(1) by (intro insert.IH) (auto simp: set_job_ids)
  ultimately show ?case by (simp add: started_insert)
qed

lemma start_jobs_wp:
  "svc_wp (svc_each start_job rows)
     (\<lambda>_ w'. rw_jobs w' = started (sb_now w) (rj_id ` set rows) (rw_jobs w) \<and>
        rw_classes w' = rw_classes w \<and> sb_streams w' = sb_streams w \<and> sb_now w' = sb_now w)
     (\<lambda>_ _. True) w"
proof (induction rows arbitrary: w)
  case Nil
  then show ?case by (simp add: wp)
next
  case (Cons row rows)
  let ?w = "update_job (rj_id row) (\<lambda>j. j\<lparr>rj_status := ''running'', rj_started_at := Some (sb_now w)\<rparr>)
    (w\<lparr>sb_ops := Suc (sb_ops w)\<rparr>)"
  have "sb_now ?w = sb_now w" "sb_streams ?w = sb_streams w" "rw_classes ?w = rw_classes w"
    by (simp_all add: update_job_def upd_tables_def)
  then show ?case
    using Cons.IH [of ?w] by (simp add: wp start_job_def started_insert)
qed

lemma pending_rows_props:
  assumes "distinct (map rj_id (rw_jobs w))"
  shows "distinct (map rj_id (take n (pending_rows w)))"
    and "set (take n (pending_rows w)) \<subseteq> {j \<in> set (rw_jobs w). rj_status j = ''pending''}"
proof -
  have "distinct (map rj_id (pending_rows w))"
    using assms inj_on_subset [of rj_id "set (rw_jobs w)"]
    by (auto simp: pending_rows_def distinct_map)
  then show "distinct (map rj_id (take n (pending_rows w)))" by (simp add: take_map [symmetric])
  show "set (take n (pending_rows w)) \<subseteq> {j \<in> set (rw_jobs w). rj_status j = ''pending''}"
    using set_take_subset [of n "pending_rows w"] by (auto simp: pending_rows_def)
qed

lemma pending_rows_ops [simp]:
  "pending_rows (w\<lparr>sb_ops := n\<rparr>) = pending_rows w" "due_rows (w\<lparr>sb_ops := n\<rparr>) = due_rows w"
  by (simp_all add: pending_rows_def due_rows_def cong: option.case_cong)

lemma claim_batch_wp:
  "svc_wp (claim_batch di)
     (\<lambda>rows w'. rows = take (nat (di_batch_size di)) (pending_rows w) \<and>
        rw_jobs w' = started (sb_now w) (rj_id ` set rows) (rw_jobs w) \<and>
        rw_classes w' = rw_classes w \<and> sb_streams w' = sb_streams w \<and> sb_now w' = sb_now w)
     (\<lambda>_ w'. svc_base.more w' = svc_base.more w) w"
proof -
  let ?rows = "take (nat (di_batch_size di)) (pending_rows w)"
  let ?w = "w\<lparr>sb_ops := Suc (Suc (sb_ops w))\<rparr>"
  have "svc_wp (svc_each start_job ?rows)
     (\<lambda>_ w'. rw_jobs w' = started (sb_now w) (rj_id ` set ?rows) (rw_jobs w) \<and>
        rw_classes w' = rw_classes w \<and> sb_streams w' = sb_streams w \<and> sb_now w' = sb_now w)
     (\<lambda>_ _. True) ?w"
    using start_jobs_wp [of ?rows ?w] by simp
  then show ?thesis
    by (auto simp: claim_batch_def wp Let_def elim!: wp_mono)
qed

lemma claim_batch_cases:
  assumes "claim_batch di w = (r, w')"
  obtains (failed) e where "r = Inl e" "svc_base.more w' = svc_base.more w"
  | (claimed) rows where "r = Inr rows" "rows = take (nat (di_batch_size di)) (pending_rows w)"
      "rw_jobs w' = started (sb_now w) (rj_id ` set rows) (rw_jobs w)"
  using wpD [OF claim_batch_wp assms] that by (cases r) auto

lemma claimed_rows_running:
  assumes "distinct (map rj_id (rw_jobs w))" "rows = take n (pending_rows w)"
    and "rw_jobs w' = started now (rj_id ` set rows) (rw_jobs w)"
  shows "\<forall>r \<in> set rows. running_in (rw_jobs w') (rj_id r)"
    and "job_step\<^sup>*\<^sup>* (rw_jobs w) (rw_jobs w')"
proof -
  have rows: "set rows \<subseteq> {j \<in> set (rw_jobs w). rj_status j = ''pending''}"
    using pending_rows_props [OF assms(1)] assms(2) by blast
  then show "\<forall>r \<in> set rows. running_in (rw_jobs w') (rj_id r)"
    unfolding running_in_def assms(3) by (auto intro!: bexI [OF _ started_mem])
  show "job_step\<^sup>*\<^sup>* (rw_jobs w) (rw_jobs w')"
    unfolding assms(3) using rows assms(1) by (intro started_steps) auto
qed

lemma snd_dispatch_batch:
  assumes "claim_batch di w = (Inr rows, w')"
  shows "rw_jobs (snd (dispatch_batch re di w)) = rw_jobs (snd (dispatch_jobs re di rows 0 w'))"
  using assms by (simp add: dispatch_batch_def fetch_backlog_def svc_query_def svc_op_def svc_return_def
      snd_svc_bind split: prod.split sum.split)

lemma dispatch_batch_steps:
  assumes "distinct (map rj_id (rw_jobs w))"
  shows "job_step\<^sup>*\<^sup>* (rw_jobs w) (rw_jobs (snd (dispatch_batch re di w)))"
proof -
  obtain r w' where c: "claim_batch di w = (r, w')" by fastforce
  then show ?thesis
  proof (cases rule: claim_batch_cases)
    case (failed e)
    then show ?thesis using c by (simp add: dispatch_batch_def snd_svc_bind)
  next
    case (claimed rows)
    note run = claimed_rows_running [OF assms claimed(2,3)]
    have "job_step\<^sup>*\<^sup>* (rw_jobs w') (rw_jobs (snd (dispatch_jobs re di rows 0 w')))"
      using pending_rows_props(1) [OF assms] claimed(2) run(1) by (intro dispatch_jobs_steps) auto
    with run(2) show ?thesis
      using c claimed(1) by (auto simp: snd_dispatch_batch)
  qed
qed

lemma snd_planner_tick: "snd (planner_tick pl w) = snd (plan_batch pl w)"
  by (auto simp: planner_tick_def svc_ignore_def svc_try_def svc_return_def snd_svc_bind
      split: prod.split sum.split error.split)

lemma tables_dispatcher_iteration:
  "svc_base.more (snd (dispatcher_iteration re di w)) = svc_base.more (snd (dispatch_batch re di w))"
  by (auto simp: dispatcher_iteration_def svc_try_def svc_return_def svc_sleep_def snd_svc_bind
      split: prod.split sum.split error.split)

section \<open>Runs of the worker\<close>

lemma reclass_run_jobs:
  assumes "reclass_run re pl di w w'" "jobs_ok (rw_jobs w)"
  shows "job_step\<^sup>*\<^sup>* (rw_jobs w) (rw_jobs w') \<and> jobs_ok (rw_jobs w')"
  using assms
proof (induction rule: reclass_run.induct)
  case (run_refl w)
  then show ?case by simp
next
  case (run_plan w w')
  have "job_step\<^sup>*\<^sup>* (rw_jobs w') (rw_jobs (snd (planner_tick pl w')))"
    by (simp add: snd_planner_tick plan_batch_steps)
  with run_plan show ?case using job_steps_ok by (meson rtranclp_trans)
next
  case (run_dispatch w w')
  then have "job_step\<^sup>*\<^sup>* (rw_jobs w') (rw_jobs (snd (dispatcher_iteration re di w')))"
    by (simp add: tables_dispatcher_iteration dispatch_batch_steps jobs_ok_def)
  with run_dispatch show ?case using job_steps_ok by (meson rtranclp_trans)
next
  case (run_wait w w' t fails)
  then show ?case by simp
qed

section \<open>Jobs left running\<close>

abbreviation (input) jobs_for :: "string \<Rightarrow> rc_job_row list \<Rightarrow> rc_job_row list" where
  "jobs_for key \<equiv> filter (\<lambda>j. rj_normalized_key j = key)"

lemma set_job_jobs_for:
  assumes "\<And>r. rj_normalized_key (f r) = rj_normalized_key r"
    and "\<And>r. r \<in> set jobs \<Longrightarrow> rj_id r = i \<Longrightarrow> rj_normalized_key r \<noteq> key"
  shows "jobs_for key (set_job i f jobs) = jobs_for key jobs"
  using assms(2) by (induction jobs) (simp_all add: assms(1))

lemma started_jobs_for:
  "(\<And>r. r \<in> set jobs \<Longrightarrow> rj_id r \<in> ids \<Longrightarrow> rj_normalized_key r \<noteq> key) \<Longrightarrow>
   jobs_for key (started now ids jobs) = jobs_for key jobs"
  by (induction jobs) (auto simp: started_def)

text \<open>The jobs of a key that none of the given rows belongs to.\<close>

definition apart :: "string \<Rightarrow> uuid set \<Rightarrow> rc_job_row list \<Rightarrow> bool" where
  "apart key ids jobs \<longleftrightarrow> (\<forall>j \<in> set jobs. rj_id j \<in> ids \<longrightarrow> rj_normalized_key j \<noteq> key)"

lemma dispatch_jobs_for:
  assumes "apart key (rj_id ` set rows) (rw_jobs w)"
  shows "jobs_for key (rw_jobs (snd (dispatch_jobs re di rows n w))) = jobs_for key (rw_jobs w)"
  using assms
proof (induction rows arbitrary: n w)
  case Nil
  then show ?case by (simp add: svc_return_def)
next
  case (Cons row rows)
  obtain r w' where w': "dispatch_job re di row w = (r, w')" by fastforce
  then have "job_moved (rj_id row) (rw_jobs w) (rw_jobs w')"
    using dispatch_job_moved [of row w re di] by simp
  then obtain f where f: "rw_jobs w' = set_job (rj_id row) f (rw_jobs w)"
    "\<forall>r. rj_id (f r) = rj_id r \<and> rj_normalized_key (f r) = rj_normalized_key r"
    by (rule job_moved_cases)
  have "jobs_for key (rw_jobs w') = jobs_for key (rw_jobs w)"
    unfolding f(1) using Cons.prems f(2) by (intro set_job_jobs_for) (auto simp: apart_def)
  moreover have "apart key (rj_id ` set rows) (rw_jobs w')"
    unfolding f(1) using Cons.prems f(2) by (auto simp: apart_def set_job_def)
  ultimately show ?case using Cons.IH [of w'] w' by (simp add: snd_svc_bind split: sum.split)
qed

lemma dispatch_batch_jobs_for:
  assumes "distinct (map rj_id (rw_jobs w))" "\<forall>j \<in> set (rw_jobs w). rj_status j = ''pending'' \<longrightarrow> rj_normalized_key j \<noteq> key"
  shows "jobs_for key (rw_jobs (snd (dispatch_batch re di w))) = jobs_for key (rw_jobs w)"
proof -
  obtain r w' where c: "claim_batch di w = (r, w')" by fastforce
  then show ?thesis
  proof (cases rule: claim_batch_cases)
    case (failed e)
    then show ?thesis using c by (simp add: dispatch_batch_def snd_svc_bind)
  next
    case (claimed rows)
    have rows: "\<And>r. r \<in> set rows \<Longrightarrow> r \<in> set (rw_jobs w) \<and> rj_status r = ''pending''"
      using pending_rows_props(2) [OF assms(1)] claimed(2) by blast
    then have apart: "apart key (rj_id ` set rows) (rw_jobs w)"
      using assms distinct_id_eq by (fastforce simp: apart_def)
    then have "apart key (rj_id ` set rows) (rw_jobs w')"
      unfolding claimed(3) by (auto simp: apart_def started_def)
    then have "jobs_for key (rw_jobs (snd (dispatch_batch re di w))) = jobs_for key (rw_jobs w')"
      using c claimed(1) by (simp add: snd_dispatch_batch dispatch_jobs_for)
    also have "\<dots> = jobs_for key (rw_jobs w)"
      unfolding claimed(3) using apart by (intro started_jobs_for) (auto simp: apart_def)
    finally show ?thesis .
  qed
qed

definition key_live :: "string \<Rightarrow> rc_job_row list \<Rightarrow> bool" where
  "key_live key jobs \<longleftrightarrow> (\<exists>j \<in> set jobs. rj_normalized_key j = key \<and> live j)"

lemma key_live_jobs_for: "jobs_for key jobs = jobs_for key jobs' \<Longrightarrow> key_live key jobs = key_live key jobs'"
  unfolding key_live_def by (metis (mono_tags, lifting) mem_Collect_eq set_filter)

lemma plan_batch_jobs_for:
  assumes "key_live key (rw_jobs w)"
  shows "jobs_for key (rw_jobs (snd (plan_batch pl w))) = jobs_for key (rw_jobs w)"
proof -
  let ?I = "\<lambda>t. jobs_for key (rt_jobs t) = jobs_for key (rw_jobs w)"
  have "svc_keeps ?I (insert_refresh_job k)" for k
    unfolding insert_refresh_job_def using assms key_live_jobs_for [of key _ "rw_jobs w"]
    by (intro svc_keeps_intros) (fastforce simp: key_live_def split: if_splits)
  then have "svc_keeps ?I (plan_row pl row)" for row
    unfolding plan_row_def ensure_canonical_labels_def Let_def
    by (intro svc_keeps_intros) auto
  then have "svc_keeps ?I (plan_rows pl rows n)" for rows n
    by (induction rows arbitrary: n) (auto intro!: svc_keeps_intros)
  then have "svc_keeps ?I (plan_batch pl)"
    unfolding plan_batch_def fetch_backlog_def by (intro svc_keeps_intros)
  then show ?thesis by (rule svc_keepsD) simp
qed

lemma running_key_frozen:
  assumes "reclass_run re pl di w w'" "jobs_ok (rw_jobs w)"
    and "j \<in> set (rw_jobs w)" "rj_status j = ''running''"
  shows "jobs_for (rj_normalized_key j) (rw_jobs w') = jobs_for (rj_normalized_key j) (rw_jobs w)"
  using assms
proof (induction rule: reclass_run.induct)
  case (run_plan w w')
  then have "key_live (rj_normalized_key j) (rw_jobs w)" by (auto simp: key_live_def live_def)
  with run_plan show ?case
    using key_live_jobs_for [of "rj_normalized_key j" "rw_jobs w'" "rw_jobs w"]
    by (simp add: snd_planner_tick plan_batch_jobs_for)
next
  case (run_dispatch w w')
  have ok: "jobs_ok (rw_jobs w')" using reclass_run_jobs run_dispatch by blast
  have "jobs_for (rj_normalized_key j) (rw_jobs w') = jobs_for (rj_normalized_key j) (rw_jobs w)"
    using run_dispatch by blast
  then have "j \<in> set (jobs_for (rj_normalized_key j) (rw_jobs w'))"
    using run_dispatch.prems(2) by (simp only:) simp
  then have "j \<in> set (rw_jobs w')" by simp
  then have "rj_normalized_key k \<noteq> rj_normalized_key j" if "k \<in> set (rw_jobs w')" "rj_status k = ''pending''" for k
    using ok that run_dispatch.prems(3) inj_onD [of rj_normalized_key "set (filter live (rw_jobs w'))" j k]
    by (auto simp: jobs_ok_def distinct_map live_def)
  then have "jobs_for (rj_normalized_key j) (rw_jobs (snd (dispatch_batch re di w'))) = jobs_for (rj_normalized_key j) (rw_jobs w')"
    using ok by (intro dispatch_batch_jobs_for) (auto simp: jobs_ok_def)
  with run_dispatch show ?case by (simp add: tables_dispatcher_iteration)
qed simp_all

section \<open>A dispatch in which nothing fails\<close>

definition final_status :: "reclass_env \<Rightarrow> string \<Rightarrow> string" where
  "final_status re key = (if is_ok (build_target re key) then ''completed'' else ''failed'')"

definition finished :: "reclass_env \<Rightarrow> time \<Rightarrow> uuid set \<Rightarrow> rc_job_row list \<Rightarrow> rc_job_row list" where
  "finished re now ids = map (\<lambda>j. if rj_id j \<in> ids
     then j\<lparr>rj_status := final_status re (rj_normalized_key j), rj_completed_at := Some now\<rparr> else j)"

definition job_entry :: "reclass_env \<Rightarrow> dispatcher \<Rightarrow> time \<Rightarrow> page_content_row list \<Rightarrow> rc_job_row \<Rightarrow> job_target \<Rightarrow>
    string \<times> (string \<times> string) list" where
  "job_entry re di now pages row target =
     (di_job_stream di, [(''payload'', text_of_json (re_ex re) (job_message_to_json
        (dispatch_message (re_ex re) row target (current_content (rj_normalized_key row) now pages))))])"

definition fetch_entry :: "reclass_env \<Rightarrow> rc_job_row \<Rightarrow> job_target \<Rightarrow> page_fetch_publisher \<Rightarrow>
    string \<times> (string \<times> string) list" where
  "fetch_entry re row target pp =
     (pp_stream pp, [(''payload'', text_of_json (re_ex re) (page_fetch_job_to_json
        ((dispatch_fetch_job (re_ex re) row target)\<lparr>pfj_ttl_seconds := Some (pp_default_ttl pp)\<rparr>)))])"

definition row_entries :: "reclass_env \<Rightarrow> dispatcher \<Rightarrow> time \<Rightarrow> page_content_row list \<Rightarrow> rc_job_row \<Rightarrow>
    (string \<times> (string \<times> string) list) list" where
  "row_entries re di now pages row =
     (case build_target re (rj_normalized_key row) of
        Inl _ \<Rightarrow> []
      | Inr target \<Rightarrow> job_entry re di now pages row target
          # (case di_page_fetch di of None \<Rightarrow> [] | Some pp \<Rightarrow> [fetch_entry re row target pp]))"

lemma update_job_base [simp]:
  "sb_streams (update_job i f w) = sb_streams w" "sb_now (update_job i f w) = sb_now w"
  "sb_fails (update_job i f w) = sb_fails w" "sb_ops (update_job i f w) = sb_ops w"
  "rt_pages (svc_base.more (update_job i f w)) = rt_pages (svc_base.more w)"
  by (simp_all add: update_job_def upd_tables_def)

lemma dispatch_job_reliable:
  assumes "svc_reliable w"
  shows "svc_wp (dispatch_job re di row)
    (\<lambda>done w'. done = is_ok (build_target re (rj_normalized_key row)) \<and>
       rw_jobs w' = set_job (rj_id row) (\<lambda>j. j\<lparr>rj_status := final_status re (rj_normalized_key row),
         rj_completed_at := Some (sb_now w)\<rparr>) (rw_jobs w) \<and>
       sb_streams w' = sb_streams w @ row_entries re di (sb_now w) (rt_pages (svc_base.more w)) row \<and>
       rt_pages (svc_base.more w') = rt_pages (svc_base.more w) \<and> sb_now w' = sb_now w \<and> svc_reliable w')
    (\<lambda>_ _. False) w"
  using assms
  by (simp add: dispatch_job_def reclass_load_page_content_def publish_job_def publish_page_fetch_def
      dispatch_fetch_job_def row_entries_def job_entry_def fetch_entry_def final_status_def svc_reliable_def
      wp Let_def split: sum.split option.split)

lemma dispatch_jobs_reliable:
  assumes "svc_reliable w"
    and "\<forall>j \<in> set (rw_jobs w). \<forall>r \<in> set rows. rj_id j = rj_id r \<longrightarrow> rj_normalized_key j = rj_normalized_key r"
  shows "svc_wp (dispatch_jobs re di rows n)
    (\<lambda>processed w'.
       processed = n + length (filter (\<lambda>r. is_ok (build_target re (rj_normalized_key r))) rows) \<and>
       rw_jobs w' = finished re (sb_now w) (rj_id ` set rows) (rw_jobs w) \<and>
       sb_streams w' = sb_streams w @ concat (map (row_entries re di (sb_now w) (rt_pages (svc_base.more w))) rows) \<and>
       svc_reliable w')
    (\<lambda>_ _. False) w"
  using assms
proof (induction rows arbitrary: n w)
  case Nil
  then show ?case by (simp add: wp finished_def)
next
  case (Cons row rows)
  have eq: "finished re now (insert (rj_id row) ids) (rw_jobs w)
    = finished re now ids (set_job (rj_id row) (\<lambda>j. j\<lparr>rj_status := final_status re (rj_normalized_key row),
         rj_completed_at := Some now\<rparr>) (rw_jobs w))" for now ids
    using Cons.prems(2) by (auto simp: finished_def set_job_def)
  show ?case
    unfolding dispatch_jobs.simps wp_bind
  proof (rule wp_mono [OF dispatch_job_reliable [OF Cons.prems(1)]], goal_cases)
    case (1 ok w')
    have "\<forall>j \<in> set (rw_jobs w'). \<forall>r \<in> set rows. rj_id j = rj_id r \<longrightarrow> rj_normalized_key j = rj_normalized_key r"
      using Cons.prems(2) 1 by (auto simp: set_job_def)
    then show ?case
      using 1 by (intro wp_mono [OF Cons.IH]) (auto simp: eq)
  qed simp
qed

lemma claim_batch_reliable:
  assumes "svc_reliable w" "0 \<le> di_batch_size di"
  obtains w' where "claim_batch di w = (Inr (take (nat (di_batch_size di)) (pending_rows w)), w')"
    "rw_jobs w' = started (sb_now w) (rj_id ` set (take (nat (di_batch_size di)) (pending_rows w))) (rw_jobs w)"
    "svc_reliable w'" "sb_streams w' = sb_streams w" "sb_now w' = sb_now w"
    "rt_pages (svc_base.more w') = rt_pages (svc_base.more w)"
proof -
  let ?I = "\<lambda>w'. svc_reliable w' \<and> rt_pages (svc_base.more w') = rt_pages (svc_base.more w)"
  let ?w = "w\<lparr>sb_ops := Suc (Suc (sb_ops w))\<rparr>"
  have "svc_wp (svc_each start_job rows) (\<lambda>_. ?I) (\<lambda>_ _. False) ?w" for rows
    using assms(1) by (intro wp_each) (auto simp: start_job_def wp svc_reliable_def)
  then have "svc_wp (svc_each start_job rows) (\<lambda>_. svc_wp (svc_return rows)
      (\<lambda>x. svc_wp (svc_bind (svc_exec id) (\<lambda>_. svc_return x)) (\<lambda>_. ?I) (\<lambda>_ _. False)) (\<lambda>_ _. False))
      (\<lambda>_ _. False) ?w" for rows
    by (rule wp_mono) (auto simp: wp svc_reliable_def)
  then have "svc_wp (claim_batch di) (\<lambda>_. ?I) (\<lambda>_ _. False) w"
    using assms by (simp add: claim_batch_def wp Let_def)
  from wp_Inr [OF this] obtain rows w' where "claim_batch di w = (Inr rows, w')" "?I w'" by blast
  moreover from this(1) have "rows = take (nat (di_batch_size di)) (pending_rows w) \<and>
        rw_jobs w' = started (sb_now w) (rj_id ` set rows) (rw_jobs w) \<and>
        rw_classes w' = rw_classes w \<and> sb_streams w' = sb_streams w \<and> sb_now w' = sb_now w"
    using wpD [OF claim_batch_wp] by fastforce
  ultimately show ?thesis using that by blast
qed

section \<open>What the classification worker reads\<close>

definition message_view :: "classification_job_message \<Rightarrow> classification_job_payload" where
  "message_view m =
     \<lparr>cp_normalized_key = jm_normalized_key m, cp_entity_level = jm_entity_level m,
      cp_hostname = jm_hostname m, cp_full_url = jm_full_url m, cp_trace_id = jm_trace_id m,
      cp_idempotency_key = jm_idempotency_key m, cp_requires_content = jm_requires_content m,
      cp_base_url = jm_base_url m, cp_content_excerpt = jm_content_excerpt m,
      cp_content_hash = jm_content_hash m, cp_content_version = jm_content_version m,
      cp_content_language = jm_content_language m, cp_requeue_attempt = 0, cp_provider_override = None\<rparr>"

lemma message_fields:
  "\<exists>fs. job_message_to_json m = JObj fs \<and> distinct (map fst fs) \<and>
     map_of fs ''normalized_key'' = Some (JStr (jm_normalized_key m)) \<and>
     map_of fs ''entity_level'' = Some (JStr (jm_entity_level m)) \<and>
     map_of fs ''hostname'' = Some (JStr (jm_hostname m)) \<and>
     map_of fs ''full_url'' = Some (JStr (jm_full_url m)) \<and>
     map_of fs ''trace_id'' = Some (JStr (jm_trace_id m)) \<and>
     map_of fs ''requires_content'' = Some (JBool (jm_requires_content m)) \<and>
     map_of fs ''requeue_attempt'' = None \<and> map_of fs ''provider_override'' = None \<and>
     map_of fs ''idempotency_key'' = (case jm_idempotency_key m of None \<Rightarrow> None | Some y \<Rightarrow> Some (JStr y)) \<and>
     map_of fs ''base_url'' = (case jm_base_url m of None \<Rightarrow> None | Some y \<Rightarrow> Some (JStr y)) \<and>
     map_of fs ''content_excerpt'' = (case jm_content_excerpt m of None \<Rightarrow> None | Some y \<Rightarrow> Some (JStr y)) \<and>
     map_of fs ''content_hash'' = (case jm_content_hash m of None \<Rightarrow> None | Some y \<Rightarrow> Some (JStr y)) \<and>
     map_of fs ''content_version'' = (case jm_content_version m of None \<Rightarrow> None | Some y \<Rightarrow> Some (JInt y)) \<and>
     map_of fs ''content_language'' = (case jm_content_language m of None \<Rightarrow> None | Some y \<Rightarrow> Some (JStr y))"
  unfolding job_message_to_json_def
  by (rule exI, rule conjI, rule refl) (simp add: written_object del: map_of_append distinct_append cong: option.case_cong)

definition version_in_range :: "int option \<Rightarrow> bool" where
  "version_in_range v = (case v of None \<Rightarrow> True | Some i \<Rightarrow> - (2 ^ 63) \<le> i \<and> i < 2 ^ 63)"

lemma message_understood:
  assumes "version_in_range (jm_content_version m)"
  shows "job_payload_of_json (job_message_to_json m) = Some (message_view m)"
proof -
  obtain fs where fs: "job_message_to_json m = JObj fs" "distinct (map fst fs)"
      "map_of fs ''normalized_key'' = Some (JStr (jm_normalized_key m))"
      "map_of fs ''entity_level'' = Some (JStr (jm_entity_level m))"
      "map_of fs ''hostname'' = Some (JStr (jm_hostname m))"
      "map_of fs ''full_url'' = Some (JStr (jm_full_url m))"
      "map_of fs ''trace_id'' = Some (JStr (jm_trace_id m))"
      "map_of fs ''requires_content'' = Some (JBool (jm_requires_content m))"
      "map_of fs ''requeue_attempt'' = None" "map_of fs ''provider_override'' = None"
    and opt: "map_of fs ''idempotency_key'' = (case jm_idempotency_key m of None \<Rightarrow> None | Some y \<Rightarrow> Some (JStr y))"
      "map_of fs ''base_url'' = (case jm_base_url m of None \<Rightarrow> None | Some y \<Rightarrow> Some (JStr y))"
      "map_of fs ''content_excerpt'' = (case jm_content_excerpt m of None \<Rightarrow> None | Some y \<Rightarrow> Some (JStr y))"
      "map_of fs ''content_hash'' = (case jm_content_hash m of None \<Rightarrow> None | Some y \<Rightarrow> Some (JStr y))"
      "map_of fs ''content_version'' = (case jm_content_version m of None \<Rightarrow> None | Some y \<Rightarrow> Some (JInt y))"
      "map_of fs ''content_language'' = (case jm_content_language m of None \<Rightarrow> None | Some y \<Rightarrow> Some (JStr y))"
    using message_fields [of m] by blast
  have v: "opt_field i64_of_json ''content_version'' fs = Some (jm_content_version m)"
    by (rule opt_field_written [OF opt(5)]) (use assms in \<open>simp_all add: version_in_range_def\<close>)
  have p: "opt_field string_of_json ''provider_override'' fs = Some None"
    using fs(10) by (simp add: opt_field_def)
  have "opt_field string_of_json k fs = Some x"
    if "map_of fs k = (case x of None \<Rightarrow> None | Some y \<Rightarrow> Some (JStr y))" for k x
    using opt_field_written [OF that] by simp
  with v fs opt show ?thesis
    by (simp add: p job_payload_of_json_def req_field_def default_field_def message_view_def distinct_filter)
qed

section \<open>Planning in which nothing fails\<close>

text \<open>Identifiers drawn from now on are new.\<close>

definition fresh_ids :: "reclass_world \<Rightarrow> bool" where
  "fresh_ids w \<longleftrightarrow> inj (sb_uuids w) \<and> rj_id ` set (rw_jobs w) \<subseteq> sb_uuids w ` {..<sb_uuid_next w}"

lemma fresh_ids_next: "fresh_ids w \<Longrightarrow> sb_uuids w (sb_uuid_next w) \<notin> rj_id ` set (rw_jobs w)"
  unfolding fresh_ids_def by (metis imageE injD lessThan_iff less_irrefl subsetD)

lemma fresh_ids_step:
  assumes "fresh_ids w" "sb_uuids w' = sb_uuids w" "sb_uuid_next w' = Suc (sb_uuid_next w)"
    and "rj_id ` set (rw_jobs w') \<subseteq> insert (sb_uuids w (sb_uuid_next w)) (rj_id ` set (rw_jobs w))"
  shows "fresh_ids w'"
  using assms by (fastforce simp: fresh_ids_def lessThan_Suc)

lemma insert_refresh_job_wp:
  assumes "svc_reliable w" "fresh_ids w"
  shows "svc_wp (insert_refresh_job key)
    (\<lambda>_ w'. svc_reliable w' \<and> fresh_ids w' \<and> sb_now w' = sb_now w \<and> rw_classes w' = rw_classes w \<and>
       key_live key (rw_jobs w') \<and> (\<forall>k. key_live k (rw_jobs w) \<longrightarrow> key_live k (rw_jobs w')))
    (\<lambda>_ _. False) w"
  using assms fresh_ids_next [OF assms(2)]
  by (auto simp: insert_refresh_job_def wp svc_reliable_def upd_tables_def key_live_def live_def
      intro!: fresh_ids_step [OF assms(2)])

definition refresh_ms :: "rc_class_row \<Rightarrow> nat" where
  "refresh_ms r = nat (max (case rk_ttl_seconds r of None \<Rightarrow> 3600 | Some t \<Rightarrow> t) 300 * 1000)"

definition canonical_row :: "taxonomy_store \<Rightarrow> rc_class_row \<Rightarrow> bool" where
  "canonical_row st r \<longleftrightarrow>
     (\<exists>c \<in> set (store_categories st). \<exists>s \<in> set (cat_subcategories c).
        rk_primary_category r = Some (cat_id c) \<and> rk_subcategory r = Some (sub_id s))"

text \<open>The row after its plan: rescheduled, with canonical labels, its key and identity kept.\<close>

definition replanned :: "taxonomy_store \<Rightarrow> time \<Rightarrow> rc_class_row \<Rightarrow> rc_class_row \<Rightarrow> bool" where
  "replanned st now r r' \<longleftrightarrow>
     rk_id r' = rk_id r \<and> rk_normalized_key r' = rk_normalized_key r \<and> rk_status r' = rk_status r \<and>
     rk_next_refresh_at r' = Some (now + refresh_ms r) \<and> canonical_row st r'"

lemma update_class_base [simp]:
  "sb_streams (update_class i f w) = sb_streams w" "sb_now (update_class i f w) = sb_now w"
  "sb_fails (update_class i f w) = sb_fails w" "sb_uuids (update_class i f w) = sb_uuids w"
  "sb_uuid_next (update_class i f w) = sb_uuid_next w"
  "rt_classes (svc_base.more (update_class i f w)) =
     map (\<lambda>r. if rk_id r = i then f r else r) (rt_classes (svc_base.more w))"
  by (simp_all add: update_class_def upd_tables_def)

lemma ensure_labels_wp:
  assumes "svc_reliable w" "fresh_ids w" "store_wf (pl_taxonomy pl)"
  shows "svc_wp (ensure_canonical_labels pl i c s)
    (\<lambda>_ w'. svc_reliable w' \<and> fresh_ids w' \<and> sb_now w' = sb_now w \<and> rw_jobs w' = rw_jobs w \<and>
       (\<exists>f. rw_classes w' = map (\<lambda>r. if rk_id r = i then f r else r) (rw_classes w) \<and>
         (\<forall>r. rk_id (f r) = rk_id r \<and> rk_normalized_key (f r) = rk_normalized_key r \<and>
              rk_status (f r) = rk_status r \<and>
              (rk_primary_category r = Some c \<longrightarrow> rk_subcategory r = Some s \<longrightarrow>
                 canonical_row (pl_taxonomy pl) (f r)))))
    (\<lambda>_ _. False) w"
proof -
  obtain v where v: "validate_labels (pl_taxonomy pl) c (Some s) = Inr v" "labels_sound (pl_taxonomy pl) v"
    using validate_labels_wf [OF assms(3)] by blast
  let ?g = "\<lambda>r. r\<lparr>rk_primary_category := Some (cat_id (vl_category v)),
    rk_subcategory := Some (sub_id (vl_subcategory v)),
    rk_taxonomy_version := Some (tax_version (ts_taxonomy (pl_taxonomy pl))), rk_updated_at := sb_now w\<rparr>"
  have "canonical_row (pl_taxonomy pl) (?g r)" for r
    using v(2) by (auto simp: canonical_row_def labels_sound_def)
  then have g: "\<forall>r. canonical_row (pl_taxonomy pl) (?g r)" by blast
  have id: "canonical_row (pl_taxonomy pl) r"
    if "rk_primary_category r = Some (cat_id (vl_category v))" "rk_subcategory r = Some (sub_id (vl_subcategory v))" for r
    using v(2) that by (auto simp: canonical_row_def labels_sound_def)
  show ?thesis
  proof (cases "vl_fallback_reason v \<noteq> None \<or> cat_id (vl_category v) \<noteq> c \<or> sub_id (vl_subcategory v) \<noteq> s")
    case True
    with assms(1,2) v(1) g show ?thesis
      by (simp only: ensure_canonical_labels_def Let_def wp v(1) sum.case if_True)
        (auto simp: svc_reliable_def fresh_ids_def intro!: exI [of _ ?g])
  next
    case False
    with assms(1,2) v(1) id show ?thesis
      by (auto simp: ensure_canonical_labels_def wp Let_def intro!: exI [of _ "\<lambda>r. r"])
  qed
qed

definition labelled :: "rc_class_row \<Rightarrow> bool" where
  "labelled r \<longleftrightarrow> rk_primary_category r \<noteq> None \<and> rk_subcategory r \<noteq> None"

lemma plan_row_wp:
  assumes "svc_reliable w" "fresh_ids w" "store_wf (pl_taxonomy pl)" "labelled row"
    and "row \<in> set (rw_classes w)" "distinct (map rk_id (rw_classes w))"
  shows "svc_wp (plan_row pl row)
    (\<lambda>_ w'. svc_reliable w' \<and> fresh_ids w' \<and> sb_now w' = sb_now w \<and>
       key_live (rk_normalized_key row) (rw_jobs w') \<and>
       (\<forall>k. key_live k (rw_jobs w) \<longrightarrow> key_live k (rw_jobs w')) \<and>
       (\<exists>f. rw_classes w' = map (\<lambda>r. if rk_id r = rk_id row then f r else r) (rw_classes w) \<and>
         replanned (pl_taxonomy pl) (sb_now w) row (f row)))
    (\<lambda>_ _. False) w"
proof -
  obtain c s where cs: "rk_primary_category row = Some c" "rk_subcategory row = Some s"
    using assms(4) by (auto simp: labelled_def)
  have row: "r = row" if "r \<in> set (rw_classes w)" "rk_id r = rk_id row" for r
    using assms(5,6) that by (metis distinct_map inj_onD)
  show ?thesis
    unfolding plan_row_def cs svc_column.simps wp_bind wp_return
  proof (rule wp_mono [OF ensure_labels_wp [OF assms(1-3)]], goal_cases)
    case (1 u w1)
    then obtain f where f: "rw_classes w1 = map (\<lambda>r. if rk_id r = rk_id row then f r else r) (rw_classes w)"
      "\<forall>r. rk_id (f r) = rk_id r \<and> rk_normalized_key (f r) = rk_normalized_key r \<and> rk_status (f r) = rk_status r"
      "canonical_row (pl_taxonomy pl) (f row)"
      using cs by blast
    let ?h = "\<lambda>r. r\<lparr>rk_next_refresh_at := Some (sb_now w + refresh_ms row), rk_updated_at := sb_now w\<rparr>"
    let ?w = "update_class (rk_id row) ?h (w1\<lparr>sb_ops := Suc (sb_ops w1)\<rparr>)"
    have "rw_classes ?w = map (\<lambda>r. if rk_id r = rk_id row then ?h (f r) else r) (rw_classes w)"
      using f(1,2) by auto
    moreover have "replanned (pl_taxonomy pl) (sb_now w) row (?h (f row))"
      using f(2,3) by (auto simp: replanned_def canonical_row_def)
    moreover have "svc_reliable ?w" "fresh_ids ?w" "sb_now ?w = sb_now w" "rw_jobs ?w = rw_jobs w"
      using 1 by (auto simp: svc_reliable_def fresh_ids_def)
    ultimately have "svc_wp (insert_refresh_job (rk_normalized_key row))
      (\<lambda>_ w'. svc_reliable w' \<and> fresh_ids w' \<and> sb_now w' = sb_now w \<and>
         key_live (rk_normalized_key row) (rw_jobs w') \<and>
         (\<forall>k. key_live k (rw_jobs w) \<longrightarrow> key_live k (rw_jobs w')) \<and>
         (\<exists>f. rw_classes w' = map (\<lambda>r. if rk_id r = rk_id row then f r else r) (rw_classes w) \<and>
           replanned (pl_taxonomy pl) (sb_now w) row (f row)))
      (\<lambda>_ _. False) ?w"
      by (intro wp_mono [OF insert_refresh_job_wp]) (auto intro!: exI [of _ "\<lambda>r. ?h (f r)"])
    then show ?case using 1 by (simp add: wp refresh_ms_def Let_def)
  qed simp
qed

definition plan_done :: "planner \<Rightarrow> time \<Rightarrow> rc_class_row \<Rightarrow> reclass_world \<Rightarrow> bool" where
  "plan_done pl now r w \<longleftrightarrow> key_live (rk_normalized_key r) (rw_jobs w) \<and>
     (\<exists>r' \<in> set (rw_classes w). replanned (pl_taxonomy pl) now r r')"

lemma plan_rows_wp:
  assumes "svc_reliable w" "fresh_ids w" "store_wf (pl_taxonomy pl)" "\<forall>r \<in> set rows. labelled r"
    and "set rows \<subseteq> set (rw_classes w)" "distinct (map rk_id (rw_classes w))" "distinct (map rk_id rows)"
    and "\<forall>r \<in> P. plan_done pl (sb_now w) r w" "\<forall>r \<in> P. rk_id r \<notin> rk_id ` set rows"
  shows "svc_wp (plan_rows pl rows n)
    (\<lambda>_ w'. svc_reliable w' \<and> (\<forall>r \<in> P \<union> set rows. plan_done pl (sb_now w) r w') \<and>
       (\<forall>r \<in> set (rw_classes w). rk_id r \<notin> rk_id ` set rows \<longrightarrow> r \<in> set (rw_classes w')))
    (\<lambda>_ _. False) w"
  using assms
proof (induction rows arbitrary: n w P)
  case Nil
  then show ?case by (simp add: wp)
next
  case (Cons row rows)
  show ?case
    unfolding plan_rows.simps wp_bind
  proof (rule wp_mono [OF plan_row_wp], goal_cases)
    case (7 ins w1)
    then obtain f where f: "rw_classes w1 = map (\<lambda>r. if rk_id r = rk_id row then f r else r) (rw_classes w)"
      "replanned (pl_taxonomy pl) (sb_now w) row (f row)" by blast
    have keep: "r \<in> set (rw_classes w1)" if "r \<in> set (rw_classes w)" "rk_id r \<noteq> rk_id row" for r
      using that f(1) by force
    have "f row \<in> set (rw_classes w1)" using f(1) Cons.prems(5) by force
    then have new: "plan_done pl (sb_now w) row w1" using 7 f(2) by (auto simp: plan_done_def)
    have old: "plan_done pl (sb_now w) r w1" if r: "r \<in> P" for r
    proof -
      have "rk_id r \<noteq> rk_id row" using Cons.prems(9) r by auto
      moreover obtain r' where "r' \<in> set (rw_classes w)" "replanned (pl_taxonomy pl) (sb_now w) r r'"
        using Cons.prems(8) r by (auto simp: plan_done_def)
      ultimately show ?thesis
        using keep [of r'] Cons.prems(8) r 7 by (auto simp: plan_done_def replanned_def)
    qed
    have ids: "map rk_id (rw_classes w1) = map rk_id (rw_classes w)"
    proof -
      have "rk_id (f row) = rk_id row" using f(2) by (simp add: replanned_def)
      moreover have "r = row" if "r \<in> set (rw_classes w)" "rk_id r = rk_id row" for r
        using Cons.prems(5,6) that by (metis distinct_map inj_onD list.set_intros(1) subsetD)
      ultimately show ?thesis unfolding f(1) by auto
    qed
    have rows: "\<forall>r \<in> set rows. rk_id r \<noteq> rk_id row" using Cons.prems(7) by (auto simp: image_iff)
    show ?case
    proof (rule wp_mono [OF Cons.IH [of w1 "insert row P"]], goal_cases)
      case (10 x w2)
      then show ?case using 7 keep by auto
    qed (use 7 Cons.prems ids rows old new keep in \<open>auto simp: subset_iff\<close>)
  qed (use Cons.prems in auto)
qed

lemma due_rows_props:
  assumes "distinct (map rk_id (rw_classes w))"
  shows "distinct (map rk_id (take n (due_rows w)))" "set (take n (due_rows w)) \<subseteq> set (rw_classes w)"
proof -
  have "distinct (map rk_id (due_rows w))" "set (due_rows w) \<subseteq> set (rw_classes w)"
    using assms inj_on_subset [of rk_id "set (rw_classes w)"]
    by (auto simp: due_rows_def distinct_map)
  then show "distinct (map rk_id (take n (due_rows w)))" "set (take n (due_rows w)) \<subseteq> set (rw_classes w)"
    using set_take_subset [of n "due_rows w"] by (auto simp: take_map [symmetric])
qed

lemma plan_batch_wp:
  assumes "svc_reliable w" "fresh_ids w" "store_wf (pl_taxonomy pl)" "0 \<le> pl_batch_size pl"
    and "distinct (map rk_id (rw_classes w))"
    and rows: "rows = take (nat (pl_batch_size pl)) (due_rows w)" and "\<forall>r \<in> set rows. labelled r"
  shows "svc_wp (plan_batch pl)
    (\<lambda>_ w'. (\<forall>r \<in> set rows. plan_done pl (sb_now w) r w') \<and>
       (\<forall>r \<in> set (rw_classes w). rk_id r \<notin> rk_id ` set rows \<longrightarrow> r \<in> set (rw_classes w')))
    (\<lambda>_ _. False) w"
proof -
  let ?w = "w\<lparr>sb_ops := Suc (Suc (sb_ops w))\<rparr>"
  let ?Q = "\<lambda>w'. (\<forall>r \<in> set rows. plan_done pl (sb_now w) r w') \<and>
       (\<forall>r \<in> set (rw_classes w). rk_id r \<notin> rk_id ` set rows \<longrightarrow> r \<in> set (rw_classes w'))"
  have "svc_wp (plan_rows pl rows 0) (\<lambda>_ w'. svc_reliable w' \<and> ?Q w') (\<lambda>_ _. False) ?w"
    using assms(1-3,5,7) due_rows_props [OF assms(5)] unfolding rows
    by (intro wp_mono [OF plan_rows_wp [where P = "{}"]]) (auto simp: svc_reliable_def fresh_ids_def)
  then have "svc_wp (plan_rows pl rows 0) (\<lambda>x. svc_wp (svc_bind (svc_exec id) (\<lambda>_. svc_return x))
      (\<lambda>x. svc_wp (svc_bind fetch_backlog (\<lambda>_. svc_return x)) (\<lambda>_ w'. ?Q w') (\<lambda>_ _. False)) (\<lambda>_ _. False))
      (\<lambda>_ _. False) ?w"
    by (rule wp_mono) (auto simp: wp fetch_backlog_def svc_reliable_def plan_done_def)
  then show ?thesis
    using assms(1,4) by (simp add: plan_batch_def wp Let_def rows [symmetric])
qed

section \<open>The properties\<close>

text \<open>
  C16: whatever statements fail and however the two loops interleave, the job table only makes steps
  of the job lifecycle: a job is planned when its key has no live job, started, and then completed,
  failed or put back.
\<close>

theorem reclass_refines_lifecycle:
  assumes "reclass_run re pl di w w'" "jobs_ok (rt_jobs (svc_base.more w))"
  shows "job_step\<^sup>*\<^sup>* (rt_jobs (svc_base.more w)) (rt_jobs (svc_base.more w')) \<and>
    jobs_ok (rt_jobs (svc_base.more w'))"
  using assms by (rule reclass_run_jobs)

text \<open>
  A job that is running between two iterations of the dispatcher is never touched again: no
  iteration of the planner or the dispatcher changes it, and its key never gets another job.
\<close>

theorem stranded_job_blocks_key:
  assumes "reclass_run re pl di w w'" "jobs_ok (rt_jobs (svc_base.more w))"
    and "j \<in> set (rt_jobs (svc_base.more w))" "rj_status j = ''running''"
  shows "filter (\<lambda>k. rj_normalized_key k = rj_normalized_key j) (rt_jobs (svc_base.more w')) =
    filter (\<lambda>k. rj_normalized_key k = rj_normalized_key j) (rt_jobs (svc_base.more w))"
  using assms by (rule running_key_frozen)

text \<open>
  C34: when nothing fails, one dispatch settles the whole batch: the oldest pending jobs end as
  completed, or as failed when their key names no target, no other job changes, and each completed
  job has put its message on the classification stream (and a fetch job on the fetch stream).
\<close>

theorem reliable_dispatch_drains:
  assumes "svc_reliable w" "jobs_ok (rt_jobs (svc_base.more w))" "0 \<le> di_batch_size di"
  defines "rows \<equiv> take (nat (di_batch_size di)) (pending_rows w)"
  shows "\<exists>w'. dispatch_batch re di w =
      (Inr (length (filter (\<lambda>r. is_ok (build_target re (rj_normalized_key r))) rows)), w') \<and>
    rt_jobs (svc_base.more w') = map (\<lambda>j. if rj_id j \<in> rj_id ` set rows
      then j\<lparr>rj_status := final_status re (rj_normalized_key j), rj_started_at := Some (sb_now w),
             rj_completed_at := Some (sb_now w)\<rparr> else j) (rt_jobs (svc_base.more w)) \<and>
    sb_streams w' = sb_streams w @
      concat (map (row_entries re di (sb_now w) (rt_pages (svc_base.more w))) rows)"
proof -
  have ids: "distinct (map rj_id (rw_jobs w))" using assms(2) by (simp add: jobs_ok_def)
  obtain v where v: "claim_batch di w = (Inr rows, v)"
    "rw_jobs v = started (sb_now w) (rj_id ` set rows) (rw_jobs w)"
    "svc_reliable v" "sb_streams v = sb_streams w" "sb_now v = sb_now w"
    "rt_pages (svc_base.more v) = rt_pages (svc_base.more w)"
    using claim_batch_reliable [OF assms(1,3)] unfolding rows_def by blast
  have "rj_normalized_key j = rj_normalized_key r"
    if "j \<in> set (rw_jobs v)" "r \<in> set rows" "rj_id j = rj_id r" for j r
    using that pending_rows_props(2) [OF ids, of "nat (di_batch_size di)"] distinct_id_eq [OF ids]
    unfolding v(2) rows_def by (auto simp: started_def split: if_splits) blast+
  then obtain n w1 where w1: "dispatch_jobs re di rows 0 v = (Inr n, w1)"
    "n = length (filter (\<lambda>r. is_ok (build_target re (rj_normalized_key r))) rows)"
    "rw_jobs w1 = finished re (sb_now w) (rj_id ` set rows) (rw_jobs v)"
    "sb_streams w1 = sb_streams w @ concat (map (row_entries re di (sb_now w) (rt_pages (svc_base.more w))) rows)"
    "svc_reliable w1"
    using wp_Inr [OF dispatch_jobs_reliable [OF v(3), of rows re di 0]] v by auto
  then have "dispatch_batch re di w = (Inr n, w1\<lparr>sb_ops := Suc (sb_ops w1)\<rparr>)"
    using v(1) by (simp add: dispatch_batch_def svc_bind_def fetch_backlog_def svc_query_def svc_op_def
        svc_return_def)
  moreover have "rw_jobs w1 = map (\<lambda>j. if rj_id j \<in> rj_id ` set rows
      then j\<lparr>rj_status := final_status re (rj_normalized_key j), rj_started_at := Some (sb_now w),
             rj_completed_at := Some (sb_now w)\<rparr> else j) (rw_jobs w)"
    unfolding w1(3) v(2) finished_def started_def by simp
  ultimately show ?thesis using w1 by simp
qed

text \<open>
  When nothing fails, a planner run reschedules every due classification of its batch: the row
  gets labels of the taxonomy and a refresh time at least five minutes ahead, its key has a live job,
  and the rows outside the batch stay as they are.
\<close>

theorem due_rows_planned:
  assumes "svc_reliable w" "fresh_ids w" "store_wf (pl_taxonomy pl)" "0 \<le> pl_batch_size pl"
    and "distinct (map rk_id (rt_classes (svc_base.more w)))"
  defines "rows \<equiv> take (nat (pl_batch_size pl)) (due_rows w)"
  assumes "list_all labelled rows"
  shows "\<exists>n w'. plan_batch pl w = (Inr n, w') \<and>
    (\<forall>r \<in> set rows. key_live (rk_normalized_key r) (rt_jobs (svc_base.more w')) \<and>
       (\<exists>r' \<in> set (rt_classes (svc_base.more w')).
          rk_id r' = rk_id r \<and> rk_normalized_key r' = rk_normalized_key r \<and>
          canonical_row (pl_taxonomy pl) r' \<and>
          (\<exists>t. rk_next_refresh_at r' = Some t \<and> sb_now w + 300000 \<le> t))) \<and>
    (\<forall>r \<in> set (rt_classes (svc_base.more w)). rk_id r \<notin> rk_id ` set rows \<longrightarrow>
       r \<in> set (rt_classes (svc_base.more w')))"
proof -
  have "300000 \<le> refresh_ms r" for r by (simp add: refresh_ms_def)
  then show ?thesis
    using wp_Inr [OF plan_batch_wp [OF assms(1-5) rows_def [THEN meta_eq_to_obj_eq]]] assms(7)
    unfolding plan_done_def replanned_def list_all_iff by fastforce
qed

end
