(* ===== verification/Page_Fetcher.thy ===== *)
theory Page_Fetcher
  imports Svc_Monad Llm_Queue "HOL-Library.Product_Lexorder"
begin

text \<open>
  The page fetcher (\<open>workers/page-fetcher/src/main.rs\<close>): it takes fetch jobs from a stream, asks the
  crawl service for the page behind one of the candidate URLs and stores what it got, or why it got
  nothing, as a new version of the key in \<open>page_contents\<close>.  The worker is the only writer of that table.

  The crawl service, the resolver, the hash function and the texts of library errors are parameters.
  A call of the resolver or of the crawl service takes time and is numbered, so two calls may answer
  differently.  The lock that a store takes on its key has no other effect on one worker than that it
  may fail.  Times before the epoch, which a negative lifetime may give, count as the epoch.
\<close>

section \<open>Configuration\<close>

record fetcher_config =
  fc_queue_name :: string
  fc_stream :: string
  fc_stream_start_id :: string
  fc_redis_url :: string
  fc_crawl_service_url :: string
  fc_database_url :: string
  fc_metrics_host :: string
  fc_metrics_port :: nat
  fc_max_excerpt_chars :: nat
  fc_max_html_context_chars :: nat
  fc_max_html_bytes :: nat
  fc_ttl_seconds :: i32
  fc_page_content_max_versions_per_key :: int
  fc_fetch_timeout_seconds :: nat
  fc_idempotency_ttl_seconds :: nat
  fc_database_pool_size :: nat
  fc_terminal_retry_cooldown_seconds :: nat
  fc_blocked_retry_cooldown_seconds :: nat
  fc_unsupported_retry_cooldown_seconds :: nat
  fc_unsupported_host_allowlist :: "string list"

definition fetcher_fields :: "string list" where
  "fetcher_fields = [''queue_name'', ''stream'', ''stream_start_id'', ''redis_url'', ''crawl_service_url'',
     ''database_url'', ''metrics_host'', ''metrics_port'', ''max_excerpt_chars'', ''max_html_context_chars'',
     ''max_html_bytes'', ''ttl_seconds'', ''page_content_max_versions_per_key'', ''fetch_timeout_seconds'',
     ''idempotency_ttl_seconds'', ''database_pool_size'', ''terminal_retry_cooldown_seconds'',
     ''blocked_retry_cooldown_seconds'', ''unsupported_retry_cooldown_seconds'',
     ''unsupported_host_allowlist'']"

definition fetcher_config_of_json :: "json \<Rightarrow> fetcher_config option" where
  "fetcher_config_of_json j =
     Option.bind (fields_of fetcher_fields j) (\<lambda>fs.
     Option.bind (default_field ''page-fetcher'' string_of_json ''queue_name'' fs) (\<lambda>queue.
     Option.bind (default_field ''page-fetch-jobs'' string_of_json ''stream'' fs) (\<lambda>stream.
     Option.bind (default_field ''$'' string_of_json ''stream_start_id'' fs) (\<lambda>start_id.
     Option.bind (req_field string_of_json ''redis_url'' fs) (\<lambda>redis_url.
     Option.bind (req_field string_of_json ''crawl_service_url'' fs) (\<lambda>crawl_url.
     Option.bind (req_field string_of_json ''database_url'' fs) (\<lambda>database_url.
     Option.bind (default_field ''0.0.0.0'' string_of_json ''metrics_host'' fs) (\<lambda>metrics_host.
     Option.bind (default_field 19025 (unsigned_of_json 16) ''metrics_port'' fs) (\<lambda>metrics_port.
     Option.bind (default_field 4000 (unsigned_of_json 64) ''max_excerpt_chars'' fs) (\<lambda>max_excerpt.
     Option.bind (default_field 120000 (unsigned_of_json 64) ''max_html_context_chars'' fs) (\<lambda>max_context.
     Option.bind (default_field 524288 (unsigned_of_json 64) ''max_html_bytes'' fs) (\<lambda>max_bytes.
     Option.bind (default_field 21600 i32_of_json ''ttl_seconds'' fs) (\<lambda>ttl.
     Option.bind (default_field 30 i64_of_json ''page_content_max_versions_per_key'' fs) (\<lambda>max_versions.
     Option.bind (default_field 60 (unsigned_of_json 64) ''fetch_timeout_seconds'' fs) (\<lambda>timeout.
     Option.bind (default_field 86400 (unsigned_of_json 64) ''idempotency_ttl_seconds'' fs) (\<lambda>idem_ttl.
     Option.bind (default_field 5 (unsigned_of_json 32) ''database_pool_size'' fs) (\<lambda>pool.
     Option.bind (default_field 1200 (unsigned_of_json 64) ''terminal_retry_cooldown_seconds'' fs) (\<lambda>terminal.
     Option.bind (default_field 14400 (unsigned_of_json 64) ''blocked_retry_cooldown_seconds'' fs) (\<lambda>blocked.
     Option.bind (default_field 21600 (unsigned_of_json 64) ''unsupported_retry_cooldown_seconds'' fs) (\<lambda>unsupported.
     Option.bind (default_field [] (list_of_json string_of_json) ''unsupported_host_allowlist'' fs) (\<lambda>allowlist.
       Some \<lparr>fc_queue_name = queue, fc_stream = stream, fc_stream_start_id = start_id,
             fc_redis_url = redis_url, fc_crawl_service_url = crawl_url, fc_database_url = database_url,
             fc_metrics_host = metrics_host, fc_metrics_port = metrics_port,
             fc_max_excerpt_chars = max_excerpt, fc_max_html_context_chars = max_context,
             fc_max_html_bytes = max_bytes, fc_ttl_seconds = ttl,
             fc_page_content_max_versions_per_key = max_versions, fc_fetch_timeout_seconds = timeout,
             fc_idempotency_ttl_seconds = idem_ttl, fc_database_pool_size = pool,
             fc_terminal_retry_cooldown_seconds = terminal, fc_blocked_retry_cooldown_seconds = blocked,
             fc_unsupported_retry_cooldown_seconds = unsupported,
             fc_unsupported_host_allowlist = allowlist\<rparr>)))))))))))))))))))))"

definition fetcher_validator :: "externs \<Rightarrow> environment \<Rightarrow> fetcher_config \<Rightarrow> config_validator" where
  "fetcher_validator ex env cfg =
     require_auth_url ex env ''page-fetcher.database_url'' (Some (fc_database_url cfg)) True True 12
       ''set database_url in config/page-fetcher.json with non-default DB credentials''
     (require_auth_url ex env ''page-fetcher.redis_url'' (Some (fc_redis_url cfg)) False True 16
       ''set redis_url in config/page-fetcher.json with password-authenticated Redis credentials''
     (require_non_empty ''database_url'' (Some (fc_database_url cfg))
       ''set database_url in config/page-fetcher.json''
     (require_non_empty ''crawl_service_url'' (Some (fc_crawl_service_url cfg))
       ''set crawl_service_url in config/page-fetcher.json''
     (require_non_empty ''redis_url'' (Some (fc_redis_url cfg)) ''set redis_url in config/page-fetcher.json''
     (require_non_empty ''queue_name'' (Some (fc_queue_name cfg)) ''set queue_name in config/page-fetcher.json''
     (validator_new ''page-fetcher''))))))"

definition fetcher_validate_config :: "externs \<Rightarrow> environment \<Rightarrow> fetcher_config \<Rightarrow> unit res" where
  "fetcher_validate_config ex env cfg =
     bind_res (validator_finish (fetcher_validator ex env cfg)) (\<lambda>_.
       if fc_page_content_max_versions_per_key cfg < 1
       then Inl (Error ''page_content_max_versions_per_key must be >= 1'') else Inr ())"

definition fetcher_env_overrides :: "environment \<Rightarrow> fetcher_config \<Rightarrow> fetcher_config" where
  "fetcher_env_overrides env cfg =
     (let cfg1 = (case env_text env ''OD_PAGE_FETCH_REDIS_URL'' of
            Some u \<Rightarrow> cfg\<lparr>fc_redis_url := trim u\<rparr> | None \<Rightarrow> cfg)
      in case env_text env ''OD_ADMIN_DATABASE_URL'' of
           Some u \<Rightarrow> cfg1\<lparr>fc_database_url := trim u\<rparr> | None \<Rightarrow> cfg1)"

record fetch_stream_settings =
  fs_group :: string
  fs_consumer :: string
  fs_start_id :: string
  fs_dead_letter_stream :: string
  fs_claim_idle_ms :: nat
  fs_claim_batch :: nat

definition fetch_settings :: "environment \<Rightarrow> nat \<Rightarrow> fetcher_config \<Rightarrow> fetch_stream_settings" where
  "fetch_settings env pid cfg =
     \<lparr>fs_group = unwrap_or (env ''OD_PAGE_FETCH_STREAM_GROUP'') ''page-fetcher'',
      fs_consumer = unwrap_or (env_text env ''OD_PAGE_FETCH_STREAM_CONSUMER'')
        (default_stream_consumer_name env pid (fc_queue_name cfg)),
      fs_start_id = unwrap_or (env ''OD_PAGE_FETCH_STREAM_GROUP_START_ID'') (fc_stream_start_id cfg),
      fs_dead_letter_stream = unwrap_or (env ''OD_PAGE_FETCH_STREAM_DEAD_LETTER'') ''page-fetch-jobs-dlq'',
      fs_claim_idle_ms = unwrap_or
        (Option.bind (env ''OD_PAGE_FETCH_STREAM_CLAIM_IDLE_MS'') (parse_unsigned 64)) 30000,
      fs_claim_batch = unwrap_or
        (Option.bind (env ''OD_PAGE_FETCH_STREAM_CLAIM_BATCH'') (parse_unsigned 64)) 25\<rparr>"

section \<open>Jobs and what the crawl service says\<close>

definition page_fetch_job_of_json :: "json \<Rightarrow> page_fetch_job option" where
  "page_fetch_job_of_json j =
     Option.bind (fields_of [''normalized_key'', ''url'', ''hostname'', ''candidate_urls'', ''trace_id'',
       ''idempotency_key'', ''ttl_seconds''] j) (\<lambda>fs.
     Option.bind (req_field string_of_json ''normalized_key'' fs) (\<lambda>key.
     Option.bind (req_field string_of_json ''url'' fs) (\<lambda>url.
     Option.bind (req_field string_of_json ''hostname'' fs) (\<lambda>hostname.
     Option.bind (default_field [] (list_of_json string_of_json) ''candidate_urls'' fs) (\<lambda>candidates.
     Option.bind (opt_field string_of_json ''trace_id'' fs) (\<lambda>trace_id.
     Option.bind (opt_field string_of_json ''idempotency_key'' fs) (\<lambda>idempotency_key.
     Option.bind (opt_field i32_of_json ''ttl_seconds'' fs) (\<lambda>ttl.
       Some \<lparr>pfj_normalized_key = key, pfj_url = url, pfj_hostname = hostname,
             pfj_candidate_urls = candidates, pfj_trace_id = trace_id,
             pfj_idempotency_key = idempotency_key, pfj_ttl_seconds = ttl\<rparr>))))))))"

definition page_fetch_idempotency_key :: "page_fetch_job \<Rightarrow> string" where
  "page_fetch_idempotency_key job =
     unwrap_or (Option.bind (pfj_idempotency_key job) (\<lambda>v. if trim v = [] then None else Some v))
       (pfj_normalized_key job @ '':'' @ pfj_url job @ '':'' @ unwrap_or (pfj_trace_id job) ''none'')"

record crawl_api_response =
  cv_status :: string
  cv_markdown_text :: string
  cv_cleaned_text :: string
  cv_content_type :: string
  cv_language :: "string option"
  cv_title :: "string option"
  cv_metadata :: "json option"

definition crawl_response_of_json :: "json \<Rightarrow> crawl_api_response option" where
  "crawl_response_of_json j =
     Option.bind (fields_of [''status'', ''markdown_text'', ''cleaned_text'', ''content_type'', ''language'',
       ''title'', ''metadata''] j) (\<lambda>fs.
     Option.bind (req_field string_of_json ''status'' fs) (\<lambda>status.
     Option.bind (req_field string_of_json ''markdown_text'' fs) (\<lambda>markdown_text.
     Option.bind (req_field string_of_json ''cleaned_text'' fs) (\<lambda>cleaned_text.
     Option.bind (req_field string_of_json ''content_type'' fs) (\<lambda>content_type.
     Option.bind (opt_field string_of_json ''language'' fs) (\<lambda>language.
     Option.bind (opt_field string_of_json ''title'' fs) (\<lambda>title.
     Option.bind (opt_field Some ''metadata'' fs) (\<lambda>metadata.
       Some \<lparr>cv_status = status, cv_markdown_text = markdown_text, cv_cleaned_text = cleaned_text,
             cv_content_type = content_type, cv_language = language, cv_title = title,
             cv_metadata = metadata\<rparr>))))))))"

record fetch_failure =
  ff_fetch_status :: string
  ff_fetch_reason :: string
  ff_detail :: string

record crawl_attempt =
  ca_url :: string
  ca_outcome :: string
  ca_reason :: string

record crawl_error_detail =
  ce_report :: "string option"
  ce_reason :: "string option"
  ce_detail :: "string option"

definition crawl_error_detail_of_json :: "json \<Rightarrow> crawl_error_detail option" where
  "crawl_error_detail_of_json j =
     Option.bind (fields_of [''report'', ''reason'', ''detail''] j) (\<lambda>fs.
     Option.bind (opt_field string_of_json ''report'' fs) (\<lambda>report.
     Option.bind (opt_field string_of_json ''reason'' fs) (\<lambda>reason.
     Option.bind (opt_field string_of_json ''detail'' fs) (\<lambda>detail.
       Some \<lparr>ce_report = report, ce_reason = reason, ce_detail = detail\<rparr>))))"

definition crawl_error_envelope_of_json :: "json \<Rightarrow> crawl_error_detail option option" where
  "crawl_error_envelope_of_json j =
     Option.bind (fields_of [''detail''] j) (opt_field crawl_error_detail_of_json ''detail'')"

definition parse_crawl_error_payload :: "externs \<Rightarrow> string \<Rightarrow> fetch_failure option" where
  "parse_crawl_error_payload ex payload =
     Option.bind (Option.bind (json_of_text ex payload) crawl_error_envelope_of_json) (\<lambda>envelope.
     Option.bind envelope (\<lambda>detail.
     Option.bind (ce_report detail) (\<lambda>report_text.
     let report = to_ascii_lowercase report_text
     in Some \<lparr>ff_fetch_status = (if report = ''blocked'' then ''blocked''
                 else if report = ''unsupported'' then ''unsupported'' else ''failed''),
              ff_fetch_reason = unwrap_or (ce_reason detail) ''crawl_failed'',
              ff_detail = unwrap_or (ce_detail detail) ''crawl service error''\<rparr>)))"

definition classify_crawl_failure :: "string \<Rightarrow> nat option \<Rightarrow> string \<times> string" where
  "classify_crawl_failure detail status_code =
     (let has = contains_str (to_ascii_lowercase detail)
      in if status_code = Some 403 then (''blocked'', ''http_403'')
         else if status_code = Some 429 then (''blocked'', ''http_429'')
         else if has ''minimal_text'' \<or> has ''no_content_elements'' then (''unsupported'', ''no_content_endpoint'')
         else if has ''anti_bot_or_access_denied'' \<or> has ''http_403'' \<or> has ''http_429''
                 \<or> has ''access denied'' \<or> has ''captcha''
         then (''blocked'', ''anti_bot_or_access_denied'')
         else if has ''name_not_resolved'' \<or> has ''dns'' then (''failed'', ''dns_resolution_failed'')
         else if has ''connection_refused'' then (''failed'', ''connection_refused'')
         else if has ''timed out'' \<or> has ''timeout'' then (''failed'', ''timeout'')
         else (''failed'', ''crawl_failed''))"

section \<open>Candidates\<close>

definition asset_labels :: "string list" where
  "asset_labels = [''cdn'', ''cdns'', ''img'', ''images'', ''image'', ''static'', ''assets'', ''media'', ''js'']"

definition is_likely_asset_host :: "string \<Rightarrow> string list \<Rightarrow> bool" where
  "is_likely_asset_host hostname allowlist =
     (if list_ex (\<lambda>allowed. eq_ignore_ascii_case hostname allowed
           \<or> ends_with hostname (''.'' @ allowed)) allowlist then False
      else list_ex (\<lambda>label. label \<in> set asset_labels) (split_char CHR ''.'' (to_ascii_lowercase hostname)))"

fun dedup_urls :: "externs \<Rightarrow> string list \<Rightarrow> string list \<Rightarrow> string list" where
  "dedup_urls ex acc [] = acc"
| "dedup_urls ex acc (v # vs) =
     dedup_urls ex (if url_parse ex v = None \<or> v \<in> set acc then acc else acc @ [v]) vs"

definition resolve_candidate_urls :: "externs \<Rightarrow> page_fetch_job \<Rightarrow> string list res" where
  "resolve_candidate_urls ex job =
     (let deduped = dedup_urls ex [] (pfj_url job # pfj_candidate_urls job)
      in if deduped = [] then Inl (Error ''no valid candidate URLs in job payload'') else Inr deduped)"

section \<open>The excerpt\<close>

text \<open>Blank lines are kept one at a time; \<open>lines\<close> holds what has been collected, last line first.\<close>

fun collapse_lines :: "string list \<Rightarrow> string list \<Rightarrow> string list" where
  "collapse_lines acc [] = rev acc"
| "collapse_lines acc (l # ls) =
     (let trimmed = trim l
      in if trimmed = []
         then (case acc of
                 a # _ \<Rightarrow> if a = [] then collapse_lines acc ls else collapse_lines ([] # acc) ls
               | [] \<Rightarrow> collapse_lines ([] # acc) ls)
         else collapse_lines (trimmed # acc) ls)"

definition truncate_chars :: "string \<Rightarrow> nat \<Rightarrow> string" where
  "truncate_chars value limit = (if limit = 0 then [] else chars_take limit value)"

definition build_markdown_excerpt :: "string \<Rightarrow> string \<Rightarrow> string option \<Rightarrow> nat \<Rightarrow> string" where
  "build_markdown_excerpt markdown_text cleaned_text title max_chars =
     (let base = (if trim markdown_text \<noteq> [] then markdown_text else cleaned_text);
          joined = trim (join_str newline (collapse_lines [] (str_lines base)));
          excerpt = (if joined = [] then trim base else joined);
          titled = (case Option.bind title (\<lambda>t. if trim t = [] then None else Some (trim t)) of
                      Some t \<Rightarrow> ''# '' @ t @ newline @ newline @ excerpt
                    | None \<Rightarrow> excerpt)
      in truncate_chars titled max_chars)"

section \<open>State\<close>

record page_row =
  pg_id :: uuid
  pg_normalized_key :: string
  pg_fetch_version :: nat
  pg_content_type :: "string option"
  pg_content_hash :: "string option"
  pg_text_excerpt :: "string option"
  pg_char_count :: "i32 option"
  pg_byte_count :: "i32 option"
  pg_fetch_status :: string
  pg_fetch_reason :: "string option"
  pg_ttl_seconds :: i32
  pg_fetched_at :: time
  pg_source_url :: "string option"
  pg_resolved_url :: "string option"
  pg_attempt_summary :: "string option"

type_synonym fetcher_world = "page_row list svc_base_scheme"

text \<open>The trigger of the table: a row expires its lifetime after the fetch.\<close>

definition pg_expires_at :: "page_row \<Rightarrow> time" where
  "pg_expires_at r = nat (int (pg_fetched_at r) + sint (pg_ttl_seconds r) * 1000)"

datatype crawl_reply =
  CrawlUnreachable string
| CrawlReply nat "string option"

record fetch_env =
  fe_ex :: externs
  fe_dns :: "nat \<Rightarrow> string \<Rightarrow> nat \<times> bool"
  fe_crawl :: "nat \<Rightarrow> string \<Rightarrow> json \<Rightarrow> nat \<times> crawl_reply"
  fe_sha256_hex :: "string \<Rightarrow> string"
  fe_json_error :: "string option \<Rightarrow> string"
  fe_rfc3339 :: "int \<Rightarrow> string option"

section \<open>Statements\<close>

definition pf_redis_key :: "string \<Rightarrow> string" where
  "pf_redis_key k = ''od:idempotency:page-fetch:'' @ k"

definition pf_idempotency_key_seen :: "string \<Rightarrow> (page_row list, bool) svc" where
  "pf_idempotency_key_seen k =
     svc_bind svc_connect (\<lambda>_.
     svc_query (\<lambda>w. case sb_redis w (pf_redis_key k) of
        None \<Rightarrow> False | Some (_, expiry) \<Rightarrow> sb_now w < expiry))"

text \<open>The lifetime is cast to \<open>i64\<close>; Redis refuses one that is not positive.\<close>

definition pf_idempotency_mark_processed :: "fetcher_config \<Rightarrow> string \<Rightarrow> (page_row list, unit) svc" where
  "pf_idempotency_mark_processed cfg k =
     svc_bind svc_connect (\<lambda>_.
     svc_stmt (\<lambda>w.
       let ttl = as_i64 (fc_idempotency_ttl_seconds cfg)
       in if ttl \<le> 0 then None
          else Some ((), w\<lparr>sb_redis := (sb_redis w)(pf_redis_key k \<mapsto>
            (''1'', sb_now w + nat (1000 * ttl)))\<rparr>)))"

definition content_fresh :: "fetch_env \<Rightarrow> string \<Rightarrow> (page_row list, bool) svc" where
  "content_fresh fe key =
     svc_query (\<lambda>w. \<exists>r \<in> set (svc_base.more w). pg_normalized_key r = key \<and> pg_expires_at r > sb_now w
       \<and> to_lowercase (fe_ex fe) (pg_fetch_status r) = ''ok'')"

definition cooldown_for :: "fetcher_config \<Rightarrow> string \<Rightarrow> nat option" where
  "cooldown_for cfg status =
     (if status = ''blocked'' then Some (fc_blocked_retry_cooldown_seconds cfg)
      else if status = ''unsupported'' then Some (fc_unsupported_retry_cooldown_seconds cfg)
      else if status = ''failed'' then Some (fc_terminal_retry_cooldown_seconds cfg)
      else None)"

text \<open>The age is cast to \<open>bigint\<close>, which rounds to the nearest second.\<close>

definition terminal_fetch_recently_recorded ::
  "fetch_env \<Rightarrow> fetcher_config \<Rightarrow> string \<Rightarrow> (page_row list, bool) svc" where
  "terminal_fetch_recently_recorded fe cfg key =
     svc_query (\<lambda>w.
       case latest_by pg_fetched_at (filter (\<lambda>r. pg_normalized_key r = key) (svc_base.more w)) of
         None \<Rightarrow> False
       | Some r \<Rightarrow>
           (let age_seconds = (sb_now w - pg_fetched_at r + 500) div 1000
            in case cooldown_for cfg (to_lowercase (fe_ex fe) (pg_fetch_status r)) of
                 None \<Rightarrow> False
               | Some cooldown \<Rightarrow> age_seconds \<le> cooldown))"

section \<open>Asking the crawl service\<close>

definition crawl_request_json :: "fetcher_config \<Rightarrow> page_fetch_job \<Rightarrow> string \<Rightarrow> json" where
  "crawl_request_json cfg job url = JObj
     [(''url'', JStr url), (''normalized_key'', JStr (pfj_normalized_key job)),
      (''max_html_bytes'', JInt (int (fc_max_html_bytes cfg))),
      (''max_text_chars'', JInt (int (fc_max_excerpt_chars cfg)))]"

definition read_crawl_reply :: "fetch_env \<Rightarrow> crawl_reply \<Rightarrow> fetch_failure + crawl_api_response" where
  "read_crawl_reply fe reply =
     (case reply of
        CrawlUnreachable err \<Rightarrow> Inl \<lparr>ff_fetch_status = ''failed'',
          ff_fetch_reason = ''crawl_service_unreachable'',
          ff_detail = ''crawl service request failed: '' @ err\<rparr>
      | CrawlReply code content \<Rightarrow>
          if \<not> (200 \<le> code \<and> code < 300) then
            (let body = unwrap_or content ''<empty>''
             in case parse_crawl_error_payload (fe_ex fe) body of
                  Some failure \<Rightarrow> Inl failure
                | None \<Rightarrow>
                    (case classify_crawl_failure body (Some code) of (status, reason) \<Rightarrow>
                       Inl \<lparr>ff_fetch_status = status, ff_fetch_reason = reason,
                            ff_detail = ''crawl service error: '' @ body\<rparr>))
          else
            (case Option.bind content (\<lambda>b. Option.bind (json_of_text (fe_ex fe) b) crawl_response_of_json) of
               None \<Rightarrow> Inl \<lparr>ff_fetch_status = ''failed'', ff_fetch_reason = ''invalid_crawl_payload'',
                            ff_detail = ''invalid crawl payload: '' @ fe_json_error fe content\<rparr>
             | Some parsed \<Rightarrow>
                 if cv_status parsed \<noteq> ''ok''
                 then Inl \<lparr>ff_fetch_status = ''failed'', ff_fetch_reason = ''crawl_status_non_ok'',
                           ff_detail = ''crawl service returned status '' @ cv_status parsed\<rparr>
                 else Inr parsed))"

definition fetch_content ::
  "fetch_env \<Rightarrow> fetcher_config \<Rightarrow> page_fetch_job \<Rightarrow> string \<Rightarrow>
   (page_row list, fetch_failure + crawl_api_response) svc" where
  "fetch_content fe cfg job url =
     svc_bind (svc_call (\<lambda>n. fe_crawl fe n
       (trim_end_matches CHR ''/'' (fc_crawl_service_url cfg) @ ''/crawl'') (crawl_request_json cfg job url)))
       (\<lambda>reply. svc_return (read_crawl_reply fe reply))"

definition host_resolves ::
  "fetch_env \<Rightarrow> string \<Rightarrow> (string \<rightharpoonup> bool) \<Rightarrow> (page_row list, bool \<times> (string \<rightharpoonup> bool)) svc" where
  "host_resolves fe host cache =
     (case cache host of
        Some resolved \<Rightarrow> svc_return (resolved, cache)
      | None \<Rightarrow> svc_bind (svc_call (\<lambda>n. fe_dns fe n host)) (\<lambda>resolved.
          svc_return (resolved, cache(host \<mapsto> resolved))))"

section \<open>Storing\<close>

definition attempt_to_json :: "crawl_attempt \<Rightarrow> json" where
  "attempt_to_json a = JObj [(''url'', JStr (ca_url a)), (''outcome'', JStr (ca_outcome a)),
     (''reason'', JStr (ca_reason a))]"

definition attempts_text :: "fetch_env \<Rightarrow> crawl_attempt list \<Rightarrow> string" where
  "attempts_text fe attempts = text_of_json (fe_ex fe) (JArr (map attempt_to_json attempts))"

definition lock_page_content_key :: "(page_row list, unit) svc" where
  "lock_page_content_key = svc_exec id"

definition key_rows :: "string \<Rightarrow> page_row list \<Rightarrow> page_row list" where
  "key_rows key = filter (\<lambda>r. pg_normalized_key r = key)"

definition next_version_tx :: "string \<Rightarrow> (page_row list, nat) svc" where
  "next_version_tx key =
     svc_query (\<lambda>w. case latest_by pg_fetch_version (key_rows key (svc_base.more w)) of
        None \<Rightarrow> 1 | Some r \<Rightarrow> pg_fetch_version r + 1)"

text \<open>
  The version is bound as \<open>i64\<close> to an \<open>INTEGER\<close> column; identifiers are unique, and so are the
  versions of a key.
\<close>

definition insert_page_row :: "page_row \<Rightarrow> (page_row list, unit) svc" where
  "insert_page_row row =
     svc_stmt (\<lambda>w.
       if 2 ^ 31 \<le> pg_fetch_version row \<or> pg_id row \<in> pg_id ` set (svc_base.more w)
          \<or> (\<exists>r \<in> set (svc_base.more w). pg_normalized_key r = pg_normalized_key row
               \<and> pg_fetch_version r = pg_fetch_version row)
       then None
       else Some ((), svc_base.more_update (\<lambda>rows. rows @ [row]) w))"

definition newest_first :: "page_row list \<Rightarrow> page_row list" where
  "newest_first rows = rev (sort_key (\<lambda>r. (pg_fetch_version r, pg_fetched_at r, pg_id r)) rows)"

definition prune_page_content_versions ::
  "fetcher_config \<Rightarrow> string \<Rightarrow> (page_row list, nat) svc" where
  "prune_page_content_versions cfg key =
     svc_stmt (\<lambda>w.
       let keep = fc_page_content_max_versions_per_key cfg;
           old = pg_id ` set (drop (nat keep) (newest_first (key_rows key (svc_base.more w))))
       in if keep < 0 then None
          else Some (length (filter (\<lambda>r. pg_id r \<in> old) (svc_base.more w)),
                 svc_base.more_update (filter (\<lambda>r. pg_id r \<notin> old)) w))"

definition store_failure ::
  "fetch_env \<Rightarrow> fetcher_config \<Rightarrow> page_fetch_job \<Rightarrow> i32 \<Rightarrow> fetch_failure \<Rightarrow> crawl_attempt list \<Rightarrow>
   (page_row list, unit) svc" where
  "store_failure fe cfg job ttl_seconds failure attempts =
     svc_tx (svc_bind lock_page_content_key (\<lambda>_.
       svc_bind (next_version_tx (pfj_normalized_key job)) (\<lambda>version.
       svc_bind svc_uuid (\<lambda>i.
       svc_bind (svc_get sb_now) (\<lambda>now.
       svc_bind (insert_page_row
         \<lparr>pg_id = i, pg_normalized_key = pfj_normalized_key job, pg_fetch_version = version,
          pg_content_type = None, pg_content_hash = None, pg_text_excerpt = None, pg_char_count = None,
          pg_byte_count = None, pg_fetch_status = ff_fetch_status failure,
          pg_fetch_reason = Some (ff_fetch_reason failure), pg_ttl_seconds = ttl_seconds,
          pg_fetched_at = now, pg_source_url = Some (pfj_url job), pg_resolved_url = None,
          pg_attempt_summary = Some (attempts_text fe attempts)\<rparr>) (\<lambda>_.
       svc_bind (prune_page_content_versions cfg (pfj_normalized_key job)) (\<lambda>_.
         svc_return ())))))))"

definition store_content ::
  "fetch_env \<Rightarrow> fetcher_config \<Rightarrow> page_fetch_job \<Rightarrow> i32 \<Rightarrow> crawl_api_response \<Rightarrow> string \<Rightarrow>
   crawl_attempt list \<Rightarrow> (page_row list, unit) svc" where
  "store_content fe cfg job ttl_seconds crawl resolved_url attempts =
     (let text_excerpt = build_markdown_excerpt (cv_markdown_text crawl) (cv_cleaned_text crawl)
            (cv_title crawl) (fc_max_html_context_chars cfg);
          resolved_host = unwrap_or (Option.bind (url_parse (fe_ex fe) resolved_url) url_host_str)
            (pfj_hostname job)
      in svc_tx (svc_bind lock_page_content_key (\<lambda>_.
         svc_bind (next_version_tx (pfj_normalized_key job)) (\<lambda>version.
         svc_bind svc_uuid (\<lambda>i.
         svc_bind (svc_get sb_now) (\<lambda>now.
         svc_bind (insert_page_row
           \<lparr>pg_id = i, pg_normalized_key = pfj_normalized_key job, pg_fetch_version = version,
            pg_content_type = Some (cv_content_type crawl),
            pg_content_hash = Some (fe_sha256_hex fe text_excerpt), pg_text_excerpt = Some text_excerpt,
            pg_char_count = Some (word_of_nat (chars_count text_excerpt)),
            pg_byte_count = Some (word_of_nat (length text_excerpt)), pg_fetch_status = ''ok'',
            pg_fetch_reason = Some resolved_host, pg_ttl_seconds = ttl_seconds, pg_fetched_at = now,
            pg_source_url = Some (pfj_url job), pg_resolved_url = Some resolved_url,
            pg_attempt_summary = Some (attempts_text fe attempts)\<rparr>) (\<lambda>_.
         svc_bind (prune_page_content_versions cfg (pfj_normalized_key job)) (\<lambda>_.
           svc_return ()))))))))"

section \<open>One job\<close>

record crawl_progress =
  cg_attempts :: "crawl_attempt list"
  cg_last_failure :: "fetch_failure option"
  cg_dns_cache :: "string \<rightharpoonup> bool"
  cg_had_crawl_attempt :: bool

definition note_attempt :: "string \<Rightarrow> string \<Rightarrow> string \<Rightarrow> crawl_progress \<Rightarrow> crawl_progress" where
  "note_attempt url outcome reason cg =
     cg\<lparr>cg_attempts := cg_attempts cg @ [\<lparr>ca_url = url, ca_outcome = outcome, ca_reason = reason\<rparr>]\<rparr>"

definition bad_host_failure :: fetch_failure where
  "bad_host_failure = \<lparr>ff_fetch_status = ''failed'', ff_fetch_reason = ''invalid_candidate_host'',
     ff_detail = ''candidate URL is missing a hostname''\<rparr>"

text \<open>\<open>None\<close> when a candidate was fetched and stored.\<close>

fun try_candidates ::
  "fetch_env \<Rightarrow> fetcher_config \<Rightarrow> page_fetch_job \<Rightarrow> i32 \<Rightarrow> string \<Rightarrow> string list \<Rightarrow> crawl_progress \<Rightarrow>
   (page_row list, crawl_progress option) svc" where
  "try_candidates fe cfg job ttl idem [] cg = svc_return (Some cg)"
| "try_candidates fe cfg job ttl idem (candidate # rest) cg =
     (case url_parse (fe_ex fe) candidate of
        None \<Rightarrow> svc_fail (Error ''candidate url invalid'')
      | Some parsed \<Rightarrow>
          (let host = unwrap_or (url_host_str parsed) []
           in if host = [] then
                try_candidates fe cfg job ttl idem rest
                  ((note_attempt candidate ''failed'' ''invalid_candidate_host'' cg)
                     \<lparr>cg_last_failure := Some bad_host_failure\<rparr>)
              else if is_likely_asset_host host (fc_unsupported_host_allowlist cfg) then
                try_candidates fe cfg job ttl idem rest
                  (note_attempt candidate ''unsupported'' ''asset_endpoint'' cg)
              else
                svc_bind (host_resolves fe host (cg_dns_cache cg)) (\<lambda>(resolved, cache).
                let cg1 = cg\<lparr>cg_dns_cache := cache\<rparr>
                in if \<not> resolved then
                     try_candidates fe cfg job ttl idem rest
                       (note_attempt candidate ''unsupported'' ''dns_unresolvable'' cg1)
                   else
                     let cg2 = cg1\<lparr>cg_had_crawl_attempt := True\<rparr>
                     in svc_bind (fetch_content fe cfg job candidate) (\<lambda>answer.
                        case answer of
                          Inr response \<Rightarrow>
                            svc_bind (store_content fe cfg job ttl response candidate
                              (cg_attempts (note_attempt candidate ''ok'' ''ok'' cg2))) (\<lambda>_.
                            svc_bind (pf_idempotency_mark_processed cfg idem) (\<lambda>_.
                            svc_return None))
                        | Inl failure \<Rightarrow>
                            try_candidates fe cfg job ttl idem rest
                              ((note_attempt candidate (ff_fetch_status failure) (ff_fetch_reason failure) cg2)
                                 \<lparr>cg_last_failure := Some failure\<rparr>)))))"

definition final_failure :: "crawl_progress \<Rightarrow> fetch_failure" where
  "final_failure cg =
     (if \<not> cg_had_crawl_attempt cg \<and> cg_attempts cg \<noteq> []
         \<and> list_all (\<lambda>a. ca_reason a = ''dns_unresolvable'') (cg_attempts cg)
      then \<lparr>ff_fetch_status = ''unsupported'', ff_fetch_reason = ''dns_unresolvable'',
            ff_detail = ''all candidate hosts failed DNS preflight before Crawl4AI''\<rparr>
      else unwrap_or (cg_last_failure cg)
        \<lparr>ff_fetch_status = ''unsupported'', ff_fetch_reason = ''all_candidates_filtered'',
         ff_detail = ''all candidate URLs were filtered as non-page endpoints''\<rparr>)"

definition fetch_job :: "fetch_env \<Rightarrow> fetcher_config \<Rightarrow> page_fetch_job \<Rightarrow> string \<Rightarrow> (page_row list, unit) svc" where
  "fetch_job fe cfg job idem =
     (let ttl_seconds = unwrap_or (pfj_ttl_seconds job) (fc_ttl_seconds cfg)
      in svc_bind (svc_lift (resolve_candidate_urls (fe_ex fe) job)) (\<lambda>candidates.
         svc_bind (try_candidates fe cfg job ttl_seconds idem candidates
           \<lparr>cg_attempts = [], cg_last_failure = None, cg_dns_cache = Map.empty,
            cg_had_crawl_attempt = False\<rparr>) (\<lambda>r.
         case r of
           None \<Rightarrow> svc_return ()
         | Some cg \<Rightarrow>
             svc_bind (store_failure fe cfg job ttl_seconds (final_failure cg) (cg_attempts cg)) (\<lambda>_.
             svc_fail (Error (ff_detail (final_failure cg)))))))"

definition pf_process_job :: "fetch_env \<Rightarrow> fetcher_config \<Rightarrow> string \<Rightarrow> (page_row list, unit) svc" where
  "pf_process_job fe cfg payload =
     (case Option.bind (json_of_text (fe_ex fe) payload) page_fetch_job_of_json of
        None \<Rightarrow> svc_fail (Error (fe_json_error fe (Some payload)))
      | Some job \<Rightarrow>
          (let idem = page_fetch_idempotency_key job
           in svc_bind (pf_idempotency_key_seen idem) (\<lambda>seen.
              if seen then svc_return ()
              else
                svc_bind (content_fresh fe (pfj_normalized_key job)) (\<lambda>fresh.
                if fresh then pf_idempotency_mark_processed cfg idem
                else
                  svc_bind (terminal_fetch_recently_recorded fe cfg (pfj_normalized_key job)) (\<lambda>cooling.
                  if cooling then pf_idempotency_mark_processed cfg idem
                  else fetch_job fe cfg job idem)))))"

section \<open>Stream entries\<close>

definition pf_entry_timestamp :: "fetch_env \<Rightarrow> string \<Rightarrow> string option" where
  "pf_entry_timestamp fe entry_id =
     Option.bind (split_once_char CHR ''-'' entry_id) (\<lambda>(millis, _).
     Option.bind (parse_i64 millis) (fe_rfc3339 fe))"

definition pf_publish_dead_letter ::
  "fetch_env \<Rightarrow> string \<Rightarrow> string \<Rightarrow> string \<Rightarrow> string \<Rightarrow> nat \<Rightarrow> string option \<Rightarrow> string option \<Rightarrow>
   (page_row list, unit) svc" where
  "pf_publish_dead_letter fe dlq_stream source_stream entry_id reason delivery_count trace_id payload =
     svc_bind (svc_get sb_now) (\<lambda>now.
       svc_xadd dlq_stream
         [(''source_stream'', source_stream), (''entry_id'', entry_id), (''reason'', reason),
          (''delivery_count'', show_int (as_i64 delivery_count)),
          (''first_seen_at'', unwrap_or (pf_entry_timestamp fe entry_id) []),
          (''last_seen_at'', unwrap_or (fe_rfc3339 fe (int now)) []),
          (''trace_id'', unwrap_or trace_id []), (''payload'', unwrap_or payload [])])"

definition pf_handle_entry ::
  "fetch_env \<Rightarrow> fetcher_config \<Rightarrow> fetch_stream_settings \<Rightarrow> stream_entry \<Rightarrow> (page_row list, unit) svc" where
  "pf_handle_entry fe cfg fs entry =
     svc_bind (svc_get sb_now) (\<lambda>now.
       if entry_too_old now (se_id entry) 300000 then svc_ignore (svc_xack (se_id entry))
       else
         svc_bind
           (case se_payload entry of
              Some payload \<Rightarrow>
                svc_bind (svc_try (pf_process_job fe cfg payload)) (\<lambda>r.
                  if \<not> is_ok r \<and> Option.bind (json_of_text (fe_ex fe) payload) page_fetch_job_of_json = None
                  then svc_ignore (pf_publish_dead_letter fe (fs_dead_letter_stream fs) (fc_stream cfg)
                    (se_id entry) ''invalid_payload'' 1 None (Some payload))
                  else svc_return ())
            | None \<Rightarrow>
                svc_ignore (pf_publish_dead_letter fe (fs_dead_letter_stream fs) (fc_stream cfg)
                  (se_id entry) ''missing_payload'' 1 None None))
           (\<lambda>_. svc_ignore (svc_xack (se_id entry))))"

text \<open>
  One round of the loop: claiming stale entries, whose failure is ignored, then the entries this
  consumer still holds, then new ones.
\<close>

definition pf_round ::
  "fetch_env \<Rightarrow> fetcher_config \<Rightarrow> fetch_stream_settings \<Rightarrow> stream_entry list \<Rightarrow> stream_entry list \<Rightarrow>
   (page_row list, unit) svc" where
  "pf_round fe cfg fs held fresh =
     svc_bind (svc_ignore (svc_exec id)) (\<lambda>_.
     svc_bind (svc_exec id) (\<lambda>_.
     svc_bind (svc_each (pf_handle_entry fe cfg fs) held) (\<lambda>_.
     svc_bind (svc_exec id) (\<lambda>_.
       svc_each (pf_handle_entry fe cfg fs) fresh))))"

end
