(* ===== verification/Fetch_Correct.thy ===== *)
theory Fetch_Correct
  imports Page_Fetcher "HOL-Library.Multiset"
begin

text \<open>
  Correctness of the page fetcher: the table of pages stays bounded and its versions unique, a job
  adds at most one version and only for its own key, failed and repeated fetches are held back, and
  what is stored is what the classification worker reads.
\<close>

section \<open>Pruning\<close>

definition pruned :: "nat \<Rightarrow> string \<Rightarrow> page_row list \<Rightarrow> page_row list" where
  "pruned n key rows =
     filter (\<lambda>r. pg_id r \<notin> pg_id ` set (drop n (newest_first (key_rows key rows)))) rows"

definition pages_ok :: "page_row list \<Rightarrow> bool" where
  "pages_ok rows \<longleftrightarrow> distinct (map pg_id rows) \<and>
     distinct (map (\<lambda>r. (pg_normalized_key r, pg_fetch_version r)) rows)"

lemma newest_first_mset [simp]: "mset (newest_first rows) = mset rows"
  by (simp add: newest_first_def)

lemma newest_first_set [simp]: "set (newest_first rows) = set rows"
  by (metis newest_first_mset set_mset_mset)

lemma distinct_by_mset:
  "mset xs = mset ys \<Longrightarrow> distinct (map f xs) \<longleftrightarrow> distinct (map f ys)"
  by (metis mset_eq_imp_distinct_iff mset_map)

lemma key_rows_distinct: "distinct (map f rows) \<Longrightarrow> distinct (map f (key_rows key rows))"
  unfolding key_rows_def by (rule distinct_map_filter)

lemma filter_parts: "\<forall>x \<in> set xs. P x \<Longrightarrow> \<forall>y \<in> set ys. \<not> P y \<Longrightarrow> filter P (xs @ ys) = xs"
  by (simp add: filter_id_conv)

lemma set_butlast_last: "x \<in> set xs \<Longrightarrow> x \<in> set (butlast xs) \<or> x = last xs"
  by (induction xs) auto

text \<open>What is left of a key are its newest rows.\<close>

lemma pruned_key_rows:
  assumes "distinct (map pg_id rows)"
  shows "mset (key_rows key (pruned n key rows)) = mset (take n (newest_first (key_rows key rows)))"
proof -
  let ?s = "newest_first (key_rows key rows)" and ?old = "pg_id ` set (drop n (newest_first (key_rows key rows)))"
  have d: "distinct (map pg_id ?s)"
    using key_rows_distinct [OF assms] distinct_by_mset [OF newest_first_mset, of pg_id] by blast
  then have "distinct (map pg_id (take n ?s @ drop n ?s))" by simp
  then have *: "pg_id ` set (take n ?s) \<inter> ?old = {}" unfolding map_append distinct_append by simp
  have "mset (key_rows key (pruned n key rows)) = mset (filter (\<lambda>r. pg_id r \<notin> ?old) (key_rows key rows))"
    unfolding pruned_def key_rows_def filter_filter by (rule arg_cong [where f = mset]) (meson filter_cong)
  also have "\<dots> = filter_mset (\<lambda>r. pg_id r \<notin> ?old) (mset ?s)" by simp
  also have "\<dots> = mset (filter (\<lambda>r. pg_id r \<notin> ?old) (take n ?s @ drop n ?s))"
    by (simp only: mset_filter append_take_drop_id)
  also have "filter (\<lambda>r. pg_id r \<notin> ?old) (take n ?s @ drop n ?s) = take n ?s"
    by (rule filter_parts) (use * in blast)+
  finally show ?thesis .
qed

lemma pruned_length:
  assumes "distinct (map pg_id rows)"
  shows "length (key_rows key (pruned n key rows)) = min n (length (key_rows key rows))"
proof -
  have "length (key_rows key (pruned n key rows)) = length (take n (newest_first (key_rows key rows)))"
    using pruned_key_rows [OF assms] by (metis size_mset)
  moreover have "length (newest_first (key_rows key rows)) = length (key_rows key rows)"
    by (simp add: newest_first_def)
  ultimately show ?thesis by simp
qed

lemma pruned_other:
  assumes "distinct (map pg_id rows)" "key' \<noteq> key"
  shows "key_rows key' (pruned n key rows) = key_rows key' rows"
proof -
  have "pg_id r \<notin> pg_id ` set (drop n (newest_first (key_rows key rows)))"
    if "r \<in> set rows" "pg_normalized_key r = key'" for r
  proof
    assume "pg_id r \<in> pg_id ` set (drop n (newest_first (key_rows key rows)))"
    then obtain x where "x \<in> set (key_rows key rows)" "pg_id x = pg_id r"
      using set_drop_subset [of n "newest_first (key_rows key rows)"] by auto
    then have "x = r" using assms(1) that(1) by (auto simp: key_rows_def distinct_map dest: inj_onD)
    with \<open>x \<in> _\<close> that(2) assms(2) show False by (simp add: key_rows_def)
  qed
  then show ?thesis by (auto simp: pruned_def key_rows_def intro!: filter_cong)
qed

text \<open>The newest row of the key stays.\<close>

lemma pruned_newest:
  assumes "distinct (map pg_id rows)" "0 < n" "row \<in> set rows" "pg_normalized_key row = key"
    and "\<And>r. r \<in> set (key_rows key rows) \<Longrightarrow> r \<noteq> row \<Longrightarrow> pg_fetch_version r < pg_fetch_version row"
  shows "row \<in> set (pruned n key rows)"
proof -
  let ?k = "\<lambda>r. (pg_fetch_version r, pg_fetched_at r, pg_id r)"
  let ?s = "sort_key ?k (key_rows key rows)"
  have row: "row \<in> set ?s" using assms(3,4) by (simp add: key_rows_def)
  then have ne: "?s \<noteq> []" by (metis empty_iff empty_set)
  have "sorted (map ?k (butlast ?s @ [last ?s]))" by (simp only: append_butlast_last_id [OF ne] sorted_sort_key)
  then have "?k r \<le> ?k (last ?s)" if "r \<in> set (butlast ?s)" for r
    using that by (auto simp: sorted_append)
  moreover have "row \<in> set (butlast ?s) \<or> row = last ?s"
    using row by (rule set_butlast_last)
  ultimately have "?k row \<le> ?k (last ?s)" by blast
  then have "last ?s = row"
    using assms(5) [of "last ?s"] last_in_set [OF ne] by (fastforce simp: less_eq_prod_def)
  then have "hd (newest_first (key_rows key rows)) = row" "newest_first (key_rows key rows) \<noteq> []"
    using ne by (simp_all add: newest_first_def hd_rev)
  then have "row \<in> set (take n (newest_first (key_rows key rows)))"
    using assms(2) by (cases "newest_first (key_rows key rows)"; cases n) auto
  then have "row \<in># mset (key_rows key (pruned n key rows))"
    unfolding pruned_key_rows [OF assms(1)] by simp
  then show ?thesis by (simp add: key_rows_def)
qed

lemma pruned_subset: "set (pruned n key rows) \<subseteq> set rows"
  by (auto simp: pruned_def)

lemma pruned_ok: "pages_ok rows \<Longrightarrow> pages_ok (pruned n key rows)"
  by (simp add: pages_ok_def pruned_def distinct_map_filter)

section \<open>Storing a version\<close>

definition store_page ::
  "fetcher_config \<Rightarrow> string \<Rightarrow> (nat \<Rightarrow> uuid \<Rightarrow> time \<Rightarrow> page_row) \<Rightarrow> (page_row list, unit) svc" where
  "store_page cfg key mk =
     svc_tx (svc_bind lock_page_content_key (\<lambda>_.
       svc_bind (next_version_tx key) (\<lambda>version.
       svc_bind svc_uuid (\<lambda>i.
       svc_bind (svc_get sb_now) (\<lambda>now.
       svc_bind (insert_page_row (mk version i now)) (\<lambda>_.
       svc_bind (prune_page_content_versions cfg key) (\<lambda>_. svc_return ())))))))"

definition failure_row ::
  "fetch_env \<Rightarrow> page_fetch_job \<Rightarrow> i32 \<Rightarrow> fetch_failure \<Rightarrow> crawl_attempt list \<Rightarrow> nat \<Rightarrow> uuid \<Rightarrow> time \<Rightarrow> page_row" where
  "failure_row fe job ttl failure attempts version i now =
     \<lparr>pg_id = i, pg_normalized_key = pfj_normalized_key job, pg_fetch_version = version,
      pg_content_type = None, pg_content_hash = None, pg_text_excerpt = None, pg_char_count = None,
      pg_byte_count = None, pg_fetch_status = ff_fetch_status failure,
      pg_fetch_reason = Some (ff_fetch_reason failure), pg_ttl_seconds = ttl,
      pg_fetched_at = now, pg_source_url = Some (pfj_url job), pg_resolved_url = None,
      pg_attempt_summary = Some (attempts_text fe attempts)\<rparr>"

definition excerpt_of :: "fetcher_config \<Rightarrow> crawl_api_response \<Rightarrow> string" where
  "excerpt_of cfg crawl = build_markdown_excerpt (cv_markdown_text crawl) (cv_cleaned_text crawl)
     (cv_title crawl) (fc_max_html_context_chars cfg)"

definition content_row ::
  "fetch_env \<Rightarrow> fetcher_config \<Rightarrow> page_fetch_job \<Rightarrow> i32 \<Rightarrow> crawl_api_response \<Rightarrow> string \<Rightarrow> crawl_attempt list \<Rightarrow>
   nat \<Rightarrow> uuid \<Rightarrow> time \<Rightarrow> page_row" where
  "content_row fe cfg job ttl crawl resolved_url attempts version i now =
     \<lparr>pg_id = i, pg_normalized_key = pfj_normalized_key job, pg_fetch_version = version,
      pg_content_type = Some (cv_content_type crawl),
      pg_content_hash = Some (fe_sha256_hex fe (excerpt_of cfg crawl)),
      pg_text_excerpt = Some (excerpt_of cfg crawl),
      pg_char_count = Some (word_of_nat (chars_count (excerpt_of cfg crawl))),
      pg_byte_count = Some (word_of_nat (length (excerpt_of cfg crawl))), pg_fetch_status = ''ok'',
      pg_fetch_reason = Some (unwrap_or (Option.bind (url_parse (fe_ex fe) resolved_url) url_host_str)
        (pfj_hostname job)),
      pg_ttl_seconds = ttl, pg_fetched_at = now, pg_source_url = Some (pfj_url job),
      pg_resolved_url = Some resolved_url, pg_attempt_summary = Some (attempts_text fe attempts)\<rparr>"

lemma store_failure_page:
  "store_failure fe cfg job ttl failure attempts
     = store_page cfg (pfj_normalized_key job) (failure_row fe job ttl failure attempts)"
  by (simp add: store_failure_def store_page_def failure_row_def)

lemma store_content_page:
  "store_content fe cfg job ttl crawl url attempts
     = store_page cfg (pfj_normalized_key job) (content_row fe cfg job ttl crawl url attempts)"
  by (simp add: store_content_def store_page_def content_row_def excerpt_of_def Let_def)

definition next_version :: "string \<Rightarrow> page_row list \<Rightarrow> nat" where
  "next_version key rows =
     (case latest_by pg_fetch_version (key_rows key rows) of None \<Rightarrow> 1 | Some r \<Rightarrow> pg_fetch_version r + 1)"

lemma next_version_newer: "r \<in> set (key_rows key rows) \<Longrightarrow> pg_fetch_version r < next_version key rows"
  by (auto simp: next_version_def less_Suc_eq_le split: option.split dest!: latest_by_Some)

text \<open>The table gained one version of the key, and the oldest versions beyond the limit went.\<close>

definition gained :: "fetcher_config \<Rightarrow> page_row \<Rightarrow> page_row list \<Rightarrow> page_row list \<Rightarrow> bool" where
  "gained cfg row rows rows' \<longleftrightarrow>
     pg_id row \<notin> pg_id ` set rows \<and> pg_fetch_version row = next_version (pg_normalized_key row) rows \<and>
     pg_fetch_version row < 2 ^ 31 \<and> 0 \<le> fc_page_content_max_versions_per_key cfg \<and>
     rows' = pruned (nat (fc_page_content_max_versions_per_key cfg)) (pg_normalized_key row) (rows @ [row])"

text \<open>Nothing stands in the way of storing a version of the key and marking the job.\<close>

definition healthy :: "fetcher_config \<Rightarrow> string \<Rightarrow> fetcher_world \<Rightarrow> bool" where
  "healthy cfg key w \<longleftrightarrow> svc_reliable w \<and> 0 < as_i64 (fc_idempotency_ttl_seconds cfg) \<and>
     0 \<le> fc_page_content_max_versions_per_key cfg \<and> next_version key (svc_base.more w) < 2 ^ 31 \<and>
     sb_uuids w (sb_uuid_next w) \<notin> pg_id ` set (svc_base.more w)"

lemma store_page_wp:
  assumes mk: "\<And>v i t. pg_normalized_key (mk v i t) = key \<and> pg_fetch_version (mk v i t) = v \<and> pg_id (mk v i t) = i"
  shows "svc_wp (store_page cfg key mk)
    (\<lambda>_ w'. (\<exists>v i. gained cfg (mk v i (sb_now w)) (svc_base.more w) (svc_base.more w')) \<and>
       sb_now w' = sb_now w \<and> sb_redis w' = sb_redis w \<and> sb_calls w' = sb_calls w \<and> sb_fails w' = sb_fails w)
    (\<lambda>_ w'. svc_base.more w' = svc_base.more w \<and> \<not> healthy cfg key w) w"
proof -
  have v: "next_version key (svc_base.more w) = (case latest_by pg_fetch_version (key_rows key (svc_base.more w)) of
      None \<Rightarrow> 1 | Some r \<Rightarrow> pg_fetch_version r + 1)"
    by (simp add: next_version_def)
  have new: "\<not> (\<exists>r \<in> set (svc_base.more w). pg_normalized_key r = key \<and> pg_fetch_version r = next_version key (svc_base.more w))"
    using next_version_newer [of _ key "svc_base.more w"] unfolding key_rows_def by force
  show ?thesis
    using mk new unfolding v
    by (auto simp: store_page_def lock_page_content_key_def next_version_tx_def insert_page_row_def
        prune_page_content_versions_def wp Let_def gained_def pruned_def not_le healthy_def svc_reliable_def v)
qed

lemma gained_ok:
  assumes "gained cfg row rows rows'" "pages_ok rows"
  shows "pages_ok (rows @ [row])" "pages_ok rows'"
proof -
  have "(pg_normalized_key r, pg_fetch_version r) \<noteq> (pg_normalized_key row, pg_fetch_version row)"
    if "r \<in> set rows" for r
    using assms(1) that next_version_newer [of r "pg_normalized_key row" rows]
    by (auto simp: gained_def key_rows_def)
  then have "(pg_normalized_key row, pg_fetch_version row) \<notin> (\<lambda>r. (pg_normalized_key r, pg_fetch_version r)) ` set rows"
    by (metis (no_types, lifting) imageE)
  then show *: "pages_ok (rows @ [row])"
    using assms by (simp add: gained_def pages_ok_def)
  then show "pages_ok rows'" using assms(1) by (simp add: gained_def pruned_ok)
qed

lemma gained_bound:
  assumes "gained cfg row rows rows'" "pages_ok rows"
  shows "length (key_rows (pg_normalized_key row) rows') \<le> nat (fc_page_content_max_versions_per_key cfg)"
    and "key \<noteq> pg_normalized_key row \<Longrightarrow> key_rows key rows' = key_rows key rows"
proof -
  have d: "distinct (map pg_id (rows @ [row]))" using gained_ok(1) [OF assms] by (simp add: pages_ok_def)
  show "length (key_rows (pg_normalized_key row) rows') \<le> nat (fc_page_content_max_versions_per_key cfg)"
    using assms(1) pruned_length [OF d] by (simp add: gained_def)
  show "key_rows key rows' = key_rows key rows" if "key \<noteq> pg_normalized_key row"
    using assms(1) pruned_other [OF d that] that by (simp add: gained_def key_rows_def)
qed

lemma gained_newest:
  assumes "gained cfg row rows rows'" "pages_ok rows" "1 \<le> fc_page_content_max_versions_per_key cfg"
  shows "row \<in> set rows'"
    and "r \<in> set (key_rows (pg_normalized_key row) rows') \<Longrightarrow> r \<noteq> row \<Longrightarrow> pg_fetch_version r < pg_fetch_version row"
proof -
  have d: "distinct (map pg_id (rows @ [row]))" using gained_ok(1) [OF assms(1,2)] by (simp add: pages_ok_def)
  have newer: "pg_fetch_version r < pg_fetch_version row"
    if "r \<in> set (key_rows (pg_normalized_key row) (rows @ [row]))" "r \<noteq> row" for r
    using that assms(1) next_version_newer [of r "pg_normalized_key row" rows]
    by (auto simp: gained_def key_rows_def)
  show "row \<in> set rows'"
    using assms(1,3) pruned_newest [OF d _ _ refl newer] by (simp add: gained_def)
  show "pg_fetch_version r < pg_fetch_version row"
    if "r \<in> set (key_rows (pg_normalized_key row) rows')" "r \<noteq> row"
  proof -
    have "r \<in> set (rows @ [row])"
      using that(1) assms(1) pruned_subset by (fastforce simp: gained_def key_rows_def)
    with that newer show ?thesis by (simp add: key_rows_def)
  qed
qed

section \<open>One job\<close>

text \<open>A job leaves the table alone or adds one version of its key.\<close>

definition at_most_one_new :: "fetcher_config \<Rightarrow> string \<Rightarrow> page_row list \<Rightarrow> page_row list \<Rightarrow> bool" where
  "at_most_one_new cfg key rows rows' \<longleftrightarrow>
     rows' = rows \<or> (\<exists>row. pg_normalized_key row = key \<and> gained cfg row rows rows')"

lemma failure_row_shape:
  "pg_normalized_key (failure_row fe job ttl f a v i t) = pfj_normalized_key job \<and>
   pg_fetch_version (failure_row fe job ttl f a v i t) = v \<and> pg_id (failure_row fe job ttl f a v i t) = i"
  by (simp add: failure_row_def)

lemma content_row_shape:
  "pg_normalized_key (content_row fe cfg job ttl c u a v i t) = pfj_normalized_key job \<and>
   pg_fetch_version (content_row fe cfg job ttl c u a v i t) = v \<and> pg_id (content_row fe cfg job ttl c u a v i t) = i"
  by (simp add: content_row_def)

lemma store_failure_wp:
  "svc_wp (store_failure fe cfg job ttl failure attempts)
    (\<lambda>_ w'. (\<exists>v i. gained cfg (failure_row fe job ttl failure attempts v i (sb_now w)) (svc_base.more w) (svc_base.more w')) \<and>
       sb_now w' = sb_now w \<and> sb_redis w' = sb_redis w \<and> sb_calls w' = sb_calls w \<and> sb_fails w' = sb_fails w)
    (\<lambda>_ w'. svc_base.more w' = svc_base.more w \<and> \<not> healthy cfg (pfj_normalized_key job) w) w"
  unfolding store_failure_page by (rule store_page_wp [OF failure_row_shape])

lemma store_content_wp:
  "svc_wp (store_content fe cfg job ttl crawl url attempts)
    (\<lambda>_ w'. (\<exists>v i. gained cfg (content_row fe cfg job ttl crawl url attempts v i (sb_now w)) (svc_base.more w) (svc_base.more w')) \<and>
       sb_now w' = sb_now w \<and> sb_redis w' = sb_redis w \<and> sb_calls w' = sb_calls w \<and> sb_fails w' = sb_fails w)
    (\<lambda>_ w'. svc_base.more w' = svc_base.more w \<and> \<not> healthy cfg (pfj_normalized_key job) w) w"
  unfolding store_content_page by (rule store_page_wp [OF content_row_shape])

definition marked :: "fetcher_config \<Rightarrow> string \<Rightarrow> fetcher_world \<Rightarrow> bool" where
  "marked cfg k w \<longleftrightarrow> 0 < as_i64 (fc_idempotency_ttl_seconds cfg) \<and>
     sb_redis w (pf_redis_key k) = Some (''1'', sb_now w + nat (1000 * as_i64 (fc_idempotency_ttl_seconds cfg)))"

lemma mark_processed_wp:
  "svc_wp (pf_idempotency_mark_processed cfg k)
    (\<lambda>_ w'. svc_base.more w' = svc_base.more w \<and> sb_now w' = sb_now w \<and> sb_calls w' = sb_calls w \<and> marked cfg k w')
    (\<lambda>_ w'. svc_base.more w' = svc_base.more w \<and>
       \<not> (svc_reliable w \<and> 0 < as_i64 (fc_idempotency_ttl_seconds cfg))) w"
  by (auto simp: pf_idempotency_mark_processed_def wp Let_def marked_def svc_reliable_def)

text \<open>Where a failed attempt ends up.\<close>

definition terminal_status :: "string \<Rightarrow> bool" where
  "terminal_status s \<longleftrightarrow> s \<in> {''blocked'', ''unsupported'', ''failed''}"

lemma read_crawl_reply_terminal: "read_crawl_reply fe reply = Inl failure \<Longrightarrow> terminal_status (ff_fetch_status failure)"
  by (auto simp: read_crawl_reply_def parse_crawl_error_payload_def classify_crawl_failure_def terminal_status_def
      Let_def bind_eq_Some_conv split: crawl_reply.splits if_splits option.splits)

definition progress_ok :: "crawl_progress \<Rightarrow> bool" where
  "progress_ok cg \<longleftrightarrow> (\<forall>f. cg_last_failure cg = Some f \<longrightarrow> terminal_status (ff_fetch_status f))"

lemma final_failure_terminal: "progress_ok cg \<Longrightarrow> terminal_status (ff_fetch_status (final_failure cg))"
  by (auto simp: final_failure_def progress_ok_def terminal_status_def unwrap_or_def split: option.split)

lemma note_attempt_simps [simp]:
  "cg_last_failure (note_attempt u out rs cg) = cg_last_failure cg"
  by (simp add: note_attempt_def)

text \<open>
  The loop over the candidates: until one is stored the table is untouched; then the job is marked
  and the loop ends.
\<close>

definition candidates_post ::
  "fetch_env \<Rightarrow> fetcher_config \<Rightarrow> page_fetch_job \<Rightarrow> i32 \<Rightarrow> string \<Rightarrow> page_row list \<Rightarrow> crawl_progress option \<Rightarrow>
   fetcher_world \<Rightarrow> bool" where
  "candidates_post fe cfg job ttl idem rows r w' =
     (case r of
        None \<Rightarrow> marked cfg idem w' \<and> (\<exists>crawl url attempts v i t.
          gained cfg (content_row fe cfg job ttl crawl url attempts v i t) rows (svc_base.more w'))
      | Some cg' \<Rightarrow> svc_base.more w' = rows \<and> progress_ok cg')"

lemma store_and_mark_wp:
  "svc_wp (svc_bind (store_content fe cfg job ttl crawl url attempts)
      (\<lambda>_. svc_bind (pf_idempotency_mark_processed cfg idem) (\<lambda>_. svc_return None)))
    (\<lambda>r w'. r = None \<and> candidates_post fe cfg job ttl idem (svc_base.more w) None w')
    (\<lambda>_ w'. at_most_one_new cfg (pfj_normalized_key job) (svc_base.more w) (svc_base.more w') \<and>
       \<not> healthy cfg (pfj_normalized_key job) w) w"
proof -
  let ?E = "\<lambda>_ w'. at_most_one_new cfg (pfj_normalized_key job) (svc_base.more w) (svc_base.more w') \<and>
       \<not> healthy cfg (pfj_normalized_key job) w"
  have "svc_wp (pf_idempotency_mark_processed cfg idem)
      (\<lambda>_. candidates_post fe cfg job ttl idem (svc_base.more w) None) ?E w1"
    if "gained cfg (content_row fe cfg job ttl crawl url attempts v i t) (svc_base.more w) (svc_base.more w1)"
      "sb_fails w1 = sb_fails w" for w1 v i t
    using that content_row_shape
    by (intro wp_mono [OF mark_processed_wp])
      (auto simp: candidates_post_def at_most_one_new_def healthy_def svc_reliable_def, blast+)
  then show ?thesis
    unfolding wp_bind wp_return
    by (intro wp_mono [OF store_content_wp]) (auto simp: wp_return at_most_one_new_def)
qed

text \<open>The state as far as a later store depends on it.\<close>

definition same_ground :: "fetcher_world \<Rightarrow> fetcher_world \<Rightarrow> bool" where
  "same_ground w w' \<longleftrightarrow> svc_base.more w' = svc_base.more w \<and> sb_fails w' = sb_fails w \<and>
     sb_uuids w' = sb_uuids w \<and> sb_uuid_next w' = sb_uuid_next w"

lemma same_ground_healthy: "same_ground w w' \<Longrightarrow> healthy cfg key w' \<longleftrightarrow> healthy cfg key w"
  by (simp add: same_ground_def healthy_def svc_reliable_def)

definition candidates_end ::
  "fetch_env \<Rightarrow> fetcher_config \<Rightarrow> page_fetch_job \<Rightarrow> i32 \<Rightarrow> string \<Rightarrow> fetcher_world \<Rightarrow> crawl_progress option \<Rightarrow>
   fetcher_world \<Rightarrow> bool" where
  "candidates_end fe cfg job ttl idem w r w' \<longleftrightarrow>
     candidates_post fe cfg job ttl idem (svc_base.more w) r w' \<and> (r \<noteq> None \<longrightarrow> same_ground w w')"

lemma try_candidates_wp:
  assumes "progress_ok cg" "same_ground w0 w" "list_all (\<lambda>c. url_parse (fe_ex fe) c \<noteq> None) candidates"
  shows "svc_wp (try_candidates fe cfg job ttl idem candidates cg)
    (candidates_end fe cfg job ttl idem w0)
    (\<lambda>_ w'. at_most_one_new cfg (pfj_normalized_key job) (svc_base.more w0) (svc_base.more w') \<and>
       \<not> healthy cfg (pfj_normalized_key job) w0) w"
  using assms
proof (induction candidates arbitrary: cg w)
  case Nil
  then show ?case by (simp add: wp candidates_end_def candidates_post_def same_ground_def)
next
  case (Cons c cs)
  have bad: "progress_ok ((note_attempt c s r cg)\<lparr>cg_last_failure := Some bad_host_failure\<rparr>)" for s r cg
    by (simp add: progress_ok_def bad_host_failure_def terminal_status_def)
  have keep: "progress_ok (note_attempt c s r cg)" "progress_ok (cg\<lparr>cg_dns_cache := cache\<rparr>)"
    "progress_ok (cg\<lparr>cg_had_crawl_attempt := b\<rparr>)" if "progress_ok cg" for s r cg cache b
    using that by (simp_all add: progress_ok_def)
  have failed: "progress_ok ((note_attempt c s r cg)\<lparr>cg_last_failure := Some f\<rparr>)"
    if "read_crawl_reply fe reply = Inl f" for reply f s r cg
    using read_crawl_reply_terminal [OF that] by (simp add: progress_ok_def)
  have fetch: "svc_wp (fetch_content fe cfg job c)
      (\<lambda>answer w'. same_ground w0 w' \<and> (\<exists>reply. answer = read_crawl_reply fe reply)) (\<lambda>_ _. False) v"
    if "same_ground w0 v" for v
    using that by (auto simp: fetch_content_def wp same_ground_def)
  have resolve: "svc_wp (host_resolves fe h cache) (\<lambda>_ w'. same_ground w0 w') (\<lambda>_ _. False) w" for h cache
    using Cons.prems(2) by (auto simp: host_resolves_def wp same_ground_def split: option.split)
  have stored: "svc_wp (svc_bind (store_content fe cfg job ttl crawl url attempts)
      (\<lambda>_. svc_bind (pf_idempotency_mark_processed cfg idem) (\<lambda>_. svc_return None)))
      (candidates_end fe cfg job ttl idem w0)
      (\<lambda>_ w'. at_most_one_new cfg (pfj_normalized_key job) (svc_base.more w0) (svc_base.more w') \<and>
         \<not> healthy cfg (pfj_normalized_key job) w0) v"
    if "same_ground w0 v" for crawl url attempts v
  proof -
    have "svc_base.more v = svc_base.more w0" using that by (simp add: same_ground_def)
    with store_and_mark_wp [of fe cfg job ttl crawl url attempts idem v] show ?thesis
      by (simp add: same_ground_healthy [OF that]) (auto elim!: wp_mono simp: candidates_end_def)
  qed
  obtain parsed where parsed: "url_parse (fe_ex fe) c = Some parsed" using Cons.prems(3) by auto
  let ?host = "unwrap_or (url_host_str parsed) []"
  consider "?host = []" | "?host \<noteq> []" "is_likely_asset_host ?host (fc_unsupported_host_allowlist cfg)"
    | "?host \<noteq> []" "\<not> is_likely_asset_host ?host (fc_unsupported_host_allowlist cfg)" by blast
  then show ?case
  proof cases
    case 1
    then show ?thesis using Cons.IH [OF bad Cons.prems(2)] Cons.prems(3) parsed by (simp add: Let_def)
  next
    case 2
    then show ?thesis
      using Cons.IH [OF keep(1) [OF Cons.prems(1)] Cons.prems(2)] Cons.prems(3) parsed by (simp add: Let_def)
  next
    case 3
    have answered: "svc_wp (case answer of
        Inr response \<Rightarrow> svc_bind (store_content fe cfg job ttl response c attempts)
          (\<lambda>_. svc_bind (pf_idempotency_mark_processed cfg idem) (\<lambda>_. svc_return None))
      | Inl failure \<Rightarrow> try_candidates fe cfg job ttl idem cs
          ((note_attempt c (ff_fetch_status failure) (ff_fetch_reason failure) cg2)\<lparr>cg_last_failure := Some failure\<rparr>))
      (candidates_end fe cfg job ttl idem w0)
      (\<lambda>_ w'. at_most_one_new cfg (pfj_normalized_key job) (svc_base.more w0) (svc_base.more w') \<and>
         \<not> healthy cfg (pfj_normalized_key job) w0) v"
      if a: "same_ground w0 v \<and> (\<exists>reply. answer = read_crawl_reply fe reply)" for answer attempts cg2 v
    proof (cases answer)
      case (Inl failure)
      then obtain reply where "read_crawl_reply fe reply = Inl failure" using a by auto
      then show ?thesis using Cons.IH [OF failed] Cons.prems(3) a Inl by simp
    next
      case (Inr response)
      then show ?thesis using stored a by simp
    qed
    show ?thesis
      unfolding try_candidates.simps parsed option.case Let_def if_not_P [OF 3(1)] if_not_P [OF 3(2)] wp_bind
    proof (rule wp_mono [OF resolve], goal_cases)
      case (1 rc v)
      obtain resolved cache where rc: "rc = (resolved, cache)" by fastforce
      have "svc_wp (try_candidates fe cfg job ttl idem cs
          (note_attempt c ''unsupported'' ''dns_unresolvable'' (cg\<lparr>cg_dns_cache := cache\<rparr>)))
          (candidates_end fe cfg job ttl idem w0)
          (\<lambda>_ w'. at_most_one_new cfg (pfj_normalized_key job) (svc_base.more w0) (svc_base.more w') \<and>
            \<not> healthy cfg (pfj_normalized_key job) w0) v"
        using Cons.IH [OF keep(1) [OF keep(2) [OF Cons.prems(1)]] 1] Cons.prems(3) by simp
      then show ?case
        unfolding rc prod.case wp_if wp_bind using wp_mono [OF fetch [OF 1] answered] by auto
    qed simp
  qed
qed

lemma dedup_urls_props:
  assumes "list_all (\<lambda>c. url_parse ex c \<noteq> None) acc" "distinct acc"
  shows "list_all (\<lambda>c. url_parse ex c \<noteq> None) (dedup_urls ex acc vs)" "distinct (dedup_urls ex acc vs)"
    and "set (dedup_urls ex acc vs) = set acc \<union> {v \<in> set vs. url_parse ex v \<noteq> None}"
  using assms by (induction vs arbitrary: acc) auto

lemma resolve_candidates_parse:
  "resolve_candidate_urls ex job = Inr cs \<Longrightarrow> list_all (\<lambda>c. url_parse ex c \<noteq> None) cs"
  using dedup_urls_props(1) [of ex "[]" "pfj_url job # pfj_candidate_urls job"]
  by (auto simp: resolve_candidate_urls_def Let_def simp del: dedup_urls.simps split: if_splits)

definition no_progress :: crawl_progress where
  "no_progress = \<lparr>cg_attempts = [], cg_last_failure = None, cg_dns_cache = Map.empty, cg_had_crawl_attempt = False\<rparr>"

text \<open>
  How a fetch may end: with a stored page and the job marked; with a stored failure and an error; or,
  only when something stood in the way, with an error and at most one new version.
\<close>

definition page_stored :: "fetch_env \<Rightarrow> fetcher_config \<Rightarrow> page_fetch_job \<Rightarrow> page_row list \<Rightarrow> page_row list \<Rightarrow> bool" where
  "page_stored fe cfg job rows rows' \<longleftrightarrow>
     (\<exists>crawl url attempts v i t. gained cfg (content_row fe cfg job
        (unwrap_or (pfj_ttl_seconds job) (fc_ttl_seconds cfg)) crawl url attempts v i t) rows rows')"

definition failure_stored :: "fetch_env \<Rightarrow> fetcher_config \<Rightarrow> page_fetch_job \<Rightarrow> time \<Rightarrow> page_row list \<Rightarrow> page_row list \<Rightarrow> bool" where
  "failure_stored fe cfg job now rows rows' \<longleftrightarrow>
     (\<exists>failure attempts v i. terminal_status (ff_fetch_status failure) \<and> gained cfg (failure_row fe job
        (unwrap_or (pfj_ttl_seconds job) (fc_ttl_seconds cfg)) failure attempts v i now) rows rows')"

lemma fetch_job_wp:
  assumes "\<exists>cs. resolve_candidate_urls (fe_ex fe) job = Inr cs"
  shows "svc_wp (fetch_job fe cfg job idem)
    (\<lambda>_ w'. marked cfg idem w' \<and> page_stored fe cfg job (svc_base.more w) (svc_base.more w'))
    (\<lambda>_ w'. failure_stored fe cfg job (sb_now w') (svc_base.more w) (svc_base.more w') \<or>
       at_most_one_new cfg (pfj_normalized_key job) (svc_base.more w) (svc_base.more w') \<and>
       \<not> healthy cfg (pfj_normalized_key job) w) w"
proof -
  obtain cs where cs: "resolve_candidate_urls (fe_ex fe) job = Inr cs" using assms by blast
  let ?ttl = "unwrap_or (pfj_ttl_seconds job) (fc_ttl_seconds cfg)"
  have "svc_wp (try_candidates fe cfg job ?ttl idem cs no_progress) (candidates_end fe cfg job ?ttl idem w)
    (\<lambda>_ w'. at_most_one_new cfg (pfj_normalized_key job) (svc_base.more w) (svc_base.more w') \<and>
       \<not> healthy cfg (pfj_normalized_key job) w) w"
    using resolve_candidates_parse [OF cs]
    by (intro try_candidates_wp) (simp_all add: progress_ok_def no_progress_def same_ground_def)
  then show ?thesis
    unfolding fetch_job_def Let_def wp_bind wp_lift cs sum.case no_progress_def [symmetric]
  proof (rule wp_mono, goal_cases)
    case (1 r v)
    show ?case
    proof (cases r)
      case None
      with 1 show ?thesis
        by (auto simp: wp_return candidates_end_def candidates_post_def page_stored_def)
    next
      case (Some cg)
      with 1 have v: "same_ground w v" "progress_ok cg"
        by (auto simp: candidates_end_def candidates_post_def)
      then have "svc_base.more v = svc_base.more w" by (simp add: same_ground_def)
      then show ?thesis
        unfolding Some option.case wp_bind wp_fail using final_failure_terminal [OF v(2)]
        by (intro wp_mono [OF store_failure_wp])
          (auto simp: failure_stored_def at_most_one_new_def same_ground_healthy [OF v(1)])
    qed
  qed blast
qed

lemma page_stored_new: "page_stored fe cfg job rows rows' \<Longrightarrow> at_most_one_new cfg (pfj_normalized_key job) rows rows'"
  using content_row_shape unfolding page_stored_def at_most_one_new_def by blast

lemma failure_stored_new:
  "failure_stored fe cfg job now rows rows' \<Longrightarrow> at_most_one_new cfg (pfj_normalized_key job) rows rows'"
  using failure_row_shape unfolding failure_stored_def at_most_one_new_def by blast

lemma fetch_job_new:
  "svc_wp (fetch_job fe cfg job idem)
    (\<lambda>_ w'. at_most_one_new cfg (pfj_normalized_key job) (svc_base.more w) (svc_base.more w'))
    (\<lambda>_ w'. at_most_one_new cfg (pfj_normalized_key job) (svc_base.more w) (svc_base.more w')) w"
proof (cases "resolve_candidate_urls (fe_ex fe) job")
  case (Inl e)
  then show ?thesis by (simp add: fetch_job_def Let_def wp at_most_one_new_def)
next
  case (Inr cs)
  then show ?thesis
    by (intro wp_mono [OF fetch_job_wp]) (auto dest: page_stored_new failure_stored_new)
qed

lemma mark_unchanged:
  "svc_wp (pf_idempotency_mark_processed cfg k) (\<lambda>_ w'. svc_base.more w' = svc_base.more w)
     (\<lambda>_ w'. svc_base.more w' = svc_base.more w) w"
  by (rule wp_mono [OF mark_processed_wp]) auto

definition decoded :: "fetch_env \<Rightarrow> string \<Rightarrow> page_fetch_job option" where
  "decoded fe payload = Option.bind (json_of_text (fe_ex fe) payload) page_fetch_job_of_json"

lemma process_job_new:
  assumes "decoded fe payload = Some job"
  shows "at_most_one_new cfg (pfj_normalized_key job) (svc_base.more w)
    (svc_base.more (snd (pf_process_job fe cfg payload w)))"
proof -
  let ?I = "\<lambda>_ w'. at_most_one_new cfg (pfj_normalized_key job) (svc_base.more w) (svc_base.more w')"
  have mark: "svc_wp (pf_idempotency_mark_processed cfg k) ?I ?I v" if "svc_base.more v = svc_base.more w" for k v
    using that by (intro wp_mono [OF mark_unchanged]) (auto simp: at_most_one_new_def)
  have fetch: "svc_wp (fetch_job fe cfg job k) ?I ?I v" if "svc_base.more v = svc_base.more w" for k v
    using that fetch_job_new [of fe cfg job k v] by simp
  have "svc_wp (pf_process_job fe cfg payload) ?I ?I w"
    using assms mark fetch
    by (simp add: pf_process_job_def decoded_def [symmetric] pf_idempotency_key_seen_def content_fresh_def
        terminal_fetch_recently_recorded_def Let_def wp)
      (auto simp: at_most_one_new_def)
  then show ?thesis by (cases "pf_process_job fe cfg payload w") (auto simp: svc_wp_def split: sum.splits)
qed

lemma process_job_undecoded:
  "decoded fe payload = None \<Longrightarrow> pf_process_job fe cfg payload w = (Inl (Error (fe_json_error fe (Some payload))), w)"
  by (simp add: pf_process_job_def decoded_def svc_fail_def)

section \<open>The bound on stored versions\<close>

definition table_ok :: "fetcher_config \<Rightarrow> page_row list \<Rightarrow> bool" where
  "table_ok cfg rows \<longleftrightarrow> pages_ok rows \<and>
     (\<forall>key. length (key_rows key rows) \<le> nat (fc_page_content_max_versions_per_key cfg))"

lemma new_table_ok:
  assumes "at_most_one_new cfg key rows rows'" "table_ok cfg rows"
  shows "table_ok cfg rows'"
  using assms(1) unfolding at_most_one_new_def
proof
  assume "rows' = rows"
  then show ?thesis using assms(2) by simp
next
  assume "\<exists>row. pg_normalized_key row = key \<and> gained cfg row rows rows'"
  then obtain row where g: "gained cfg row rows rows'" by blast
  have ok: "pages_ok rows" using assms(2) by (simp add: table_ok_def)
  have "length (key_rows k rows') \<le> nat (fc_page_content_max_versions_per_key cfg)" for k
    using gained_bound(1) [OF g ok] gained_bound(2) [OF g ok, of k] assms(2) by (cases "k = pg_normalized_key row") (auto simp: table_ok_def)
  then show ?thesis using gained_ok(2) [OF g ok] by (simp add: table_ok_def)
qed

lemma process_job_keeps: "svc_keeps (table_ok cfg) (pf_process_job fe cfg payload)"
  unfolding svc_keeps_def
  using process_job_new process_job_undecoded new_table_ok
  by (metis not_None_eq snd_conv)

lemma handle_entry_keeps: "svc_keeps (table_ok cfg) (pf_handle_entry fe cfg fs entry)"
  unfolding pf_handle_entry_def pf_publish_dead_letter_def
  by (intro svc_keeps_intros process_job_keeps)

section \<open>Jobs held back\<close>

lemma seen_job_skipped:
  assumes "decoded fe payload = Some job" "sb_redis w (pf_redis_key (page_fetch_idempotency_key job)) = Some (v, expiry)"
    and "sb_now w < expiry" "pf_process_job fe cfg payload w = (r, w')"
  shows "svc_base.more w' = svc_base.more w \<and> sb_calls w' = sb_calls w \<and> sb_redis w' = sb_redis w"
proof -
  have "svc_wp (pf_process_job fe cfg payload)
    (\<lambda>_ w'. svc_base.more w' = svc_base.more w \<and> sb_calls w' = sb_calls w \<and> sb_redis w' = sb_redis w)
    (\<lambda>_ w'. svc_base.more w' = svc_base.more w \<and> sb_calls w' = sb_calls w \<and> sb_redis w' = sb_redis w) w"
    using assms(1-3)
    by (simp add: pf_process_job_def decoded_def [symmetric] pf_idempotency_key_seen_def Let_def wp)
  then show ?thesis using assms(4) by (auto simp: svc_wp_def split: sum.splits)
qed

text \<open>A job that ends without an error was marked, unless it had been marked before.\<close>

lemma done_job_marked:
  assumes "decoded fe payload = Some job" "pf_process_job fe cfg payload w = (Inr (), w')"
    and "sb_redis w (pf_redis_key (page_fetch_idempotency_key job)) = None"
  shows "marked cfg (page_fetch_idempotency_key job) w'"
proof -
  let ?Q = "\<lambda>_. marked cfg (page_fetch_idempotency_key job)"
  have mark: "svc_wp (pf_idempotency_mark_processed cfg (page_fetch_idempotency_key job)) ?Q (\<lambda>_ _. True) v" for v
    by (rule wp_mono [OF mark_processed_wp]) auto
  have fetch: "svc_wp (fetch_job fe cfg job (page_fetch_idempotency_key job)) ?Q (\<lambda>_ _. True) v" for v
  proof (cases "resolve_candidate_urls (fe_ex fe) job")
    case (Inl e)
    then show ?thesis by (simp add: fetch_job_def Let_def wp)
  next
    case (Inr cs)
    then show ?thesis by (intro wp_mono [OF fetch_job_wp]) auto
  qed
  have "svc_wp (pf_process_job fe cfg payload) ?Q (\<lambda>_ _. True) w"
    using assms(1,3) mark fetch
    by (simp add: pf_process_job_def decoded_def [symmetric] pf_idempotency_key_seen_def content_fresh_def
        terminal_fetch_recently_recorded_def Let_def wp)
  then show ?thesis using assms(2) by (simp add: svc_wp_def)
qed

lemma cooling_job_skipped:
  assumes "decoded fe payload = Some job"
    and "latest_by pg_fetched_at (key_rows (pfj_normalized_key job) (svc_base.more w)) = Some row"
    and "cooldown_for cfg (to_lowercase (fe_ex fe) (pg_fetch_status row)) = Some cooldown"
    and "(sb_now w - pg_fetched_at row + 500) div 1000 \<le> cooldown"
    and "pf_process_job fe cfg payload w = (r, w')"
  shows "svc_base.more w' = svc_base.more w \<and> sb_calls w' = sb_calls w"
proof -
  let ?Q = "\<lambda>_ w'. svc_base.more w' = svc_base.more w \<and> sb_calls w' = sb_calls w"
  have mark: "svc_wp (pf_idempotency_mark_processed cfg k) ?Q ?Q v"
    if "svc_base.more v = svc_base.more w" "sb_calls v = sb_calls w" for k v
    using that by (auto simp: pf_idempotency_mark_processed_def wp Let_def)
  have "svc_wp (pf_process_job fe cfg payload) ?Q ?Q w"
    using assms(1-4) mark
    by (simp add: pf_process_job_def decoded_def [symmetric] pf_idempotency_key_seen_def content_fresh_def
        terminal_fetch_recently_recorded_def key_rows_def Let_def wp)
  then show ?thesis using assms(5) by (auto simp: svc_wp_def split: sum.splits)
qed

section \<open>The excerpt\<close>

lemma truncate_bound: "chars_count (truncate_chars v limit) \<le> limit"
  by (simp add: truncate_chars_def chars_take_count) (simp add: chars_count_def)

lemma excerpt_bound: "chars_count (build_markdown_excerpt m c t limit) \<le> limit"
  by (simp add: build_markdown_excerpt_def truncate_bound Let_def)

section \<open>Acknowledgement\<close>

lemma calm_store_page: "svc_calm (store_page cfg key mk)"
  unfolding store_page_def lock_page_content_key_def next_version_tx_def insert_page_row_def
    prune_page_content_versions_def Let_def
  by (intro svc_calm_intros) (auto split: if_splits)

lemma calm_mark: "svc_calm (pf_idempotency_mark_processed cfg k)"
  unfolding pf_idempotency_mark_processed_def Let_def
  by (intro svc_calm_intros) (auto split: if_splits)

lemma calm_candidates: "svc_calm (try_candidates fe cfg job ttl idem cs cg)"
proof (induction cs arbitrary: cg)
  case Nil
  then show ?case by (simp add: svc_calm_intros)
next
  case (Cons c cs)
  show ?case
    unfolding try_candidates.simps Let_def host_resolves_def fetch_content_def store_content_page
    by (intro svc_calm_intros Cons.IH calm_store_page calm_mark)
qed

lemma calm_pf_process_job: "svc_calm (pf_process_job fe cfg payload)"
proof -
  have "resolve_candidate_urls ex job \<noteq> Inl (Panic p)" for ex job p
    by (simp add: resolve_candidate_urls_def Let_def)
  then show ?thesis
    unfolding pf_process_job_def fetch_job_def Let_def pf_idempotency_key_seen_def content_fresh_def
      terminal_fetch_recently_recorded_def store_failure_page
    by (intro svc_calm_intros calm_candidates calm_mark calm_store_page)
qed

lemma reliable_calm: "svc_calm m \<Longrightarrow> m w = (r, w') \<Longrightarrow> svc_reliable w \<Longrightarrow> svc_reliable w'"
  using svc_calmD(1) [of m w r w'] by (simp add: svc_reliable_def)

definition dead_letter :: "fetch_env \<Rightarrow> fetcher_config \<Rightarrow> fetch_stream_settings \<Rightarrow> time \<Rightarrow> stream_entry \<Rightarrow> string \<Rightarrow>
    string \<times> (string \<times> string) list" where
  "dead_letter fe cfg fs now entry reason =
     (fs_dead_letter_stream fs,
      [(''source_stream'', fc_stream cfg), (''entry_id'', se_id entry), (''reason'', reason),
       (''delivery_count'', show_int (as_i64 1)),
       (''first_seen_at'', unwrap_or (pf_entry_timestamp fe (se_id entry)) []),
       (''last_seen_at'', unwrap_or (fe_rfc3339 fe (int now)) []),
       (''trace_id'', []), (''payload'', unwrap_or (se_payload entry) [])])"

lemma handle_entry_wp:
  assumes "svc_reliable w"
  shows "svc_wp (pf_handle_entry fe cfg fs entry)
    (\<lambda>_ w'. svc_reliable w' \<and> se_id entry \<in> set (sb_acked w') \<and>
       (entry_too_old (sb_now w) (se_id entry) 300000 \<or>
        (case se_payload entry of
           None \<Rightarrow> dead_letter fe cfg fs (sb_now w) entry ''missing_payload'' \<in> set (sb_streams w')
         | Some payload \<Rightarrow> decoded fe payload \<noteq> None \<or>
             dead_letter fe cfg fs (sb_now w) entry ''invalid_payload'' \<in> set (sb_streams w'))))
    (\<lambda>_ _. False) w"
proof (cases "entry_too_old (sb_now w) (se_id entry) 300000")
  case True
  with assms show ?thesis by (simp add: pf_handle_entry_def wp Let_def svc_reliable_def)
next
  case old: False
  show ?thesis
  proof (cases "se_payload entry")
    case None
    with old assms show ?thesis
      by (simp add: pf_handle_entry_def pf_publish_dead_letter_def wp Let_def svc_reliable_def
          dead_letter_def unwrap_or_def)
  next
    case (Some payload)
    obtain r v where rv: "pf_process_job fe cfg payload w = (r, v)" by fastforce
    have rel: "svc_reliable v" by (rule reliable_calm [OF calm_pf_process_job rv assms])
    have "decoded fe payload = None \<Longrightarrow> v = w \<and> \<not> is_ok r"
      using rv by (auto simp: process_job_undecoded)
    moreover have "r = Inl e \<Longrightarrow> \<exists>s. e = Error s" for e
      by (rule svc_calmD(2) [OF calm_pf_process_job rv])
    ultimately have "svc_wp (svc_try (pf_process_job fe cfg payload))
        (\<lambda>x w'. svc_reliable w' \<and> (decoded fe payload = None \<longrightarrow> w' = w \<and> \<not> is_ok x)) (\<lambda>_ _. False) w"
      using rel rv by (cases r) (fastforce simp: svc_wp_def svc_try_def)+
    then show ?thesis
      unfolding pf_handle_entry_def wp_bind wp_get wp_if if_not_P [OF old] Some option.case decoded_def [symmetric]
      by (rule wp_mono)
        (auto simp: wp Let_def pf_publish_dead_letter_def svc_reliable_def dead_letter_def unwrap_or_def Some)
  qed
qed

section \<open>The properties\<close>

text \<open>
  C17: whatever the entries say and whatever fails, a round of the fetcher keeps the page table in
  order: identifiers and the versions of a key stay unique, and no key has more versions than the
  configuration allows.
\<close>

theorem page_table_bounded:
  assumes "table_ok cfg (svc_base.more w)"
  shows "table_ok cfg (svc_base.more (snd (pf_round fe cfg fs held fresh w)))"
proof -
  have "svc_keeps (table_ok cfg) (pf_round fe cfg fs held fresh)"
    unfolding pf_round_def by (intro svc_keeps_intros handle_entry_keeps) simp_all
  then show ?thesis using assms by (rule svc_keepsD)
qed

text \<open>
  A job that is neither a duplicate nor held back ends in exactly one new version of its key when
  nothing stands in the way: a page, with the job marked as processed, or a recorded failure with a
  status the cooldowns know, and then an error.
\<close>

theorem accepted_job_recorded:
  assumes "resolve_candidate_urls (fe_ex fe) job = Inr candidates" "healthy cfg (pfj_normalized_key job) w"
    and "fetch_job fe cfg job idem w = (r, w')"
  shows "case r of
      Inr _ \<Rightarrow> marked cfg idem w' \<and> page_stored fe cfg job (svc_base.more w) (svc_base.more w')
    | Inl _ \<Rightarrow> failure_stored fe cfg job (sb_now w') (svc_base.more w) (svc_base.more w')"
  using wpD [OF fetch_job_wp [of fe job cfg idem w] assms(3)] assms(1,2) by (auto split: sum.splits)

text \<open>
  Once a job has ended without an error, another job with the same idempotency key is dropped for
  the whole idempotency lifetime: no call to the resolver or the crawl service and no change of the
  table, whatever has expired in the meantime.
\<close>

theorem done_fetch_not_repeated:
  assumes "decoded fe payload = Some job" "pf_process_job fe cfg payload w = (Inr (), w1)"
    and "sb_redis w (pf_redis_key (page_fetch_idempotency_key job)) = None"
    and "decoded fe payload' = Some job'" "page_fetch_idempotency_key job' = page_fetch_idempotency_key job"
    and "sb_redis w2 = sb_redis w1" "sb_now w2 < sb_now w1 + nat (1000 * as_i64 (fc_idempotency_ttl_seconds cfg))"
    and "pf_process_job fe cfg payload' w2 = (r, w3)"
  shows "svc_base.more w3 = svc_base.more w2 \<and> sb_calls w3 = sb_calls w2"
proof -
  have "marked cfg (page_fetch_idempotency_key job) w1" by (rule done_job_marked [OF assms(1-3)])
  then have "sb_redis w2 (pf_redis_key (page_fetch_idempotency_key job'))
      = Some (''1'', sb_now w1 + nat (1000 * as_i64 (fc_idempotency_ttl_seconds cfg)))"
    using assms(5,6) by (simp add: marked_def)
  from seen_job_skipped [OF assms(4) this assms(7,8)] show ?thesis by blast
qed

text \<open>
  A recorded failure holds the key back.  After a job has ended in a recorded failure, no job for
  that key calls the resolver or the crawl service, or changes the table, until the cooldown of the
  recorded status is over.
\<close>

theorem failed_key_held_back:
  assumes "failure_stored fe cfg job (sb_now w1) rows (svc_base.more w1)"
    and "pages_ok rows" "1 \<le> fc_page_content_max_versions_per_key cfg"
    and "list_all (\<lambda>r. pg_fetched_at r < sb_now w1) rows"
    and "\<forall>s. terminal_status s \<longrightarrow> to_lowercase (fe_ex fe) s = s"
    and "svc_base.more w2 = svc_base.more w1"
    and "list_all (\<lambda>s. case cooldown_for cfg s of None \<Rightarrow> False
           | Some c \<Rightarrow> (sb_now w2 - sb_now w1 + 500) div 1000 \<le> c) [''blocked'', ''unsupported'', ''failed'']"
    and "decoded fe payload = Some job'" "pfj_normalized_key job' = pfj_normalized_key job"
    and "pf_process_job fe cfg payload w2 = (r, w3)"
  shows "svc_base.more w3 = svc_base.more w2 \<and> sb_calls w3 = sb_calls w2"
proof -
  obtain failure attempts v i where t: "terminal_status (ff_fetch_status failure)"
    and g: "gained cfg (failure_row fe job (unwrap_or (pfj_ttl_seconds job) (fc_ttl_seconds cfg)) failure attempts v i (sb_now w1))
      rows (svc_base.more w1)"
    using assms(1) by (auto simp: failure_stored_def)
  let ?row = "failure_row fe job (unwrap_or (pfj_ttl_seconds job) (fc_ttl_seconds cfg)) failure attempts v i (sb_now w1)"
  have row: "pg_normalized_key ?row = pfj_normalized_key job" "pg_fetched_at ?row = sb_now w1"
    "pg_fetch_status ?row = ff_fetch_status failure" by (simp_all add: failure_row_def)
  have "pg_fetched_at r < pg_fetched_at ?row"
    if "r \<in> set (key_rows (pfj_normalized_key job) (svc_base.more w1))" "r \<noteq> ?row" for r
    using that assms(4) g pruned_subset [of _ _ "rows @ [?row]"] row(2)
    by (auto simp: gained_def key_rows_def list_all_iff)
  then have "latest_by pg_fetched_at (key_rows (pfj_normalized_key job) (svc_base.more w1)) = Some ?row"
    using gained_newest(1) [OF g assms(2,3)] row(1) by (intro latest_by_strict) (auto simp: key_rows_def)
  moreover have "\<exists>c. cooldown_for cfg (ff_fetch_status failure) = Some c \<and> (sb_now w2 - sb_now w1 + 500) div 1000 \<le> c"
    using assms(7) t by (auto simp: terminal_status_def split: option.splits)
  ultimately show ?thesis
    using cooling_job_skipped [OF assms(8) _ _ _ assms(10)] assms(5,6,9) t row by fastforce
qed

text \<open>
  When Redis works, every entry the fetcher takes is acknowledged, and an entry without a payload
  or with one that does not decode ends in the dead-letter stream, unless it was too old to look at.
\<close>

theorem fetch_entry_settled:
  assumes "svc_reliable w"
  shows "\<exists>w'. pf_handle_entry fe cfg fs entry w = (Inr (), w') \<and> se_id entry \<in> set (sb_acked w') \<and>
    (entry_too_old (sb_now w) (se_id entry) 300000 \<or>
     (case se_payload entry of
        None \<Rightarrow> dead_letter fe cfg fs (sb_now w) entry ''missing_payload'' \<in> set (sb_streams w')
      | Some payload \<Rightarrow> decoded fe payload \<noteq> None \<or>
          dead_letter fe cfg fs (sb_now w) entry ''invalid_payload'' \<in> set (sb_streams w')))"
  using wp_Inr [OF handle_entry_wp [OF assms, of fe cfg fs entry]] by fastforce

end
