(* ===== verification/Worker_Flow.thy ===== *)
theory Worker_Flow
  imports Reclass_Correct Fetch_Correct
begin

text \<open>
  What the workers hand to each other: the jobs the reclassification worker publishes as the
  classification worker and the page fetcher decode them, and the page the fetcher stores as the
  classification worker reads it.
\<close>

section \<open>Fetch jobs\<close>

lemma strings_round [simp]: "list_of_json string_of_json (strs_to_json xs) = Some xs"
proof -
  have "all_some (map (string_of_json \<circ> JStr) xs) = Some xs" by (induction xs) auto
  then show ?thesis by (simp add: strs_to_json_def)
qed

lemma i32_range [simp]: "- 2147483648 \<le> sint t" "sint t < 2147483648" for t :: i32
  using sint_greater_eq [of t] sint_less [of t] by simp_all

lemma fetch_job_json_round:
  "page_fetch_job_of_json (page_fetch_job_to_json job) = Some job"
  by (cases job; cases "pfj_candidate_urls job = []"; cases "pfj_trace_id job"; cases "pfj_idempotency_key job";
      cases "pfj_ttl_seconds job")
    (simp_all add: page_fetch_job_of_json_def page_fetch_job_to_json_def req_field_def opt_field_def
      default_field_def skip_none_def)


lemma strs_finite [simp]: "json_finite (strs_to_json xs)"
  by (induction xs) (simp_all add: strs_to_json_def)

lemma fetch_job_json_finite [simp]: "json_finite (page_fetch_job_to_json job)"
  by (simp add: page_fetch_job_to_json_def skip_none_def split: option.split)

lemma job_message_finite [simp]: "json_finite (job_message_to_json m)"
  by (simp add: job_message_to_json_def skip_none_def split: option.split)

section \<open>Pages\<close>

text \<open>A row of the fetcher as the classification worker's queries see it.\<close>

definition page_view :: "page_row \<Rightarrow> page_content_row" where
  "page_view r =
     \<lparr>pc_normalized_key = pg_normalized_key r, pc_fetch_version = pg_fetch_version r,
      pc_content_hash = pg_content_hash r, pc_text_excerpt = pg_text_excerpt r,
      pc_fetch_status = pg_fetch_status r, pc_expires_at = pg_expires_at r\<rparr>"

lemma newest_page_loaded:
  assumes "row \<in> set rows" "pg_normalized_key row = key" "to_lowercase (we_ex we) (pg_fetch_status row) = ''ok''"
    and "\<And>r. r \<in> set (key_rows key rows) \<Longrightarrow> r \<noteq> row \<Longrightarrow> pg_fetch_version r < pg_fetch_version row"
    and "we_pages we (lw_now w) = map page_view rows" "lw_now w < pg_expires_at row" "\<not> lw_fails w (lw_ops w)"
  shows "fst (load_page_content we key w) =
    Inr (Some (pg_text_excerpt row, pg_content_hash row, int (pg_fetch_version row)))"
proof -
  let ?rows = "filter (\<lambda>r. pc_normalized_key r = key \<and> to_lowercase (we_ex we) (pc_fetch_status r) = ''ok''
    \<and> pc_expires_at r > lw_now w) (map page_view rows)"
  have "latest_by pc_fetch_version ?rows = Some (page_view row)"
  proof (rule latest_by_strict)
    show "page_view row \<in> set ?rows" using assms by (auto simp: page_view_def)
    show "pc_fetch_version y < pc_fetch_version (page_view row)" if y: "y \<in> set ?rows" "y \<noteq> page_view row" for y
    proof -
      obtain x where x: "x \<in> set rows" "y = page_view x" "pg_normalized_key x = key"
        using y(1) by (auto simp: page_view_def)
      then show ?thesis using assms(4) [of x] y(2) by (auto simp: page_view_def key_rows_def)
    qed
  qed
  then show ?thesis
    using assms(5,7)
    by (simp add: load_page_content_def job_query_def job_sql_def job_op_def Let_def page_view_def)
qed

section \<open>The properties\<close>

text \<open>
  A fetch job survives its JSON form: what any service puts on the page-fetch stream is what the
  fetcher reads from it.
\<close>

theorem fetch_job_round_trip:
  assumes "json_text_ok (fe_ex fe)"
  shows "decoded fe (text_of_json (fe_ex fe) (page_fetch_job_to_json job)) = Some job"
  using assms by (simp add: decoded_def json_text_ok_def fetch_job_json_round)

text \<open>
  C25: the message a dispatched reclassification job puts on the stream is a classification job the
  classification worker accepts, for the same key, content required, with an idempotency key of its
  own and the content that was stored for the key.
\<close>

theorem dispatched_job_understood:
  assumes "json_text_ok (re_ex re)" "list_all (\<lambda>p. pc_fetch_version p < 2 ^ 31) pages"
    and "job_entry re di now pages row target = (stream, [(''payload'', payload)])"
  shows "\<exists>job. Option.bind (json_of_text (re_ex re) payload) job_payload_of_json = Some job \<and>
    cp_normalized_key job = rj_normalized_key row \<and> cp_requires_content job \<and>
    cp_full_url job = jt_full_url target \<and>
    cp_idempotency_key job = Some (''cls:'' @ rj_normalized_key row @ '':'' @ uuid_to_string (re_ex re) (rj_id row)) \<and>
    cp_content_excerpt job = Option.bind (current_content (rj_normalized_key row) now pages) ps_content_excerpt"
proof -
  let ?content = "current_content (rj_normalized_key row) now pages"
  let ?m = "dispatch_message (re_ex re) row target ?content"
  have "version_in_range (Option.bind ?content ps_content_version)"
    using assms(2) by (auto simp: current_content_def version_in_range_def list_all_iff bind_eq_Some_conv
        split: option.split dest!: latest_by_Some) force
  then have "version_in_range (jm_content_version ?m)" by (simp add: dispatch_message_def Let_def)
  then have "job_payload_of_json (job_message_to_json ?m) = Some (message_view ?m)" by (rule message_understood)
  moreover have "payload = text_of_json (re_ex re) (job_message_to_json ?m)"
    using assms(3) by (simp add: job_entry_def)
  ultimately show ?thesis
    using assms(1) by (simp add: json_text_ok_def message_view_def dispatch_message_def Let_def)
qed

text \<open>
  C24: the page the fetcher stores is the one the classification worker finds.  After the fetcher has stored what the
  crawler delivered, the worker's query for the key returns, until the lifetime of the page is over,
  the excerpt built from the crawler's texts, its hash and a version above all earlier versions of the
  key; the excerpt respects the configured bound.
\<close>

theorem stored_page_reaches_worker:
  assumes "store_content fe cfg job ttl crawl url attempts w = (Inr (), w')" "pages_ok (svc_base.more w)"
    and "1 \<le> fc_page_content_max_versions_per_key cfg" "to_lowercase (we_ex we) ''ok'' = ''ok''"
    and "we_pages we (lw_now ww) = map page_view (svc_base.more w')" "\<not> lw_fails ww (lw_ops ww)"
    and "int (lw_now ww) < int (sb_now w) + sint ttl * 1000"
  defines "text \<equiv> build_markdown_excerpt (cv_markdown_text crawl) (cv_cleaned_text crawl) (cv_title crawl)
      (fc_max_html_context_chars cfg)"
  shows "\<exists>version. fst (load_page_content we (pfj_normalized_key job) ww) =
        Inr (Some (Some text, Some (fe_sha256_hex fe text), int version)) \<and>
      (\<forall>r \<in> set (svc_base.more w). pg_normalized_key r = pfj_normalized_key job \<longrightarrow> pg_fetch_version r < version) \<and>
      chars_count text \<le> fc_max_html_context_chars cfg"
proof -
  obtain v i where g: "gained cfg (content_row fe cfg job ttl crawl url attempts v i (sb_now w)) (svc_base.more w) (svc_base.more w')"
    using wpD [OF store_content_wp assms(1)] by auto
  let ?row = "content_row fe cfg job ttl crawl url attempts v i (sb_now w)"
  have row: "pg_normalized_key ?row = pfj_normalized_key job" "pg_fetch_status ?row = ''ok''" "pg_text_excerpt ?row = Some text"
    "pg_content_hash ?row = Some (fe_sha256_hex fe text)" "pg_fetch_version ?row = v" "lw_now ww < pg_expires_at ?row"
    using assms(7) by (simp_all add: content_row_def excerpt_of_def text_def pg_expires_at_def)
  have "fst (load_page_content we (pfj_normalized_key job) ww) =
      Inr (Some (pg_text_excerpt ?row, pg_content_hash ?row, int (pg_fetch_version ?row)))"
    using gained_newest [OF g assms(2,3)] row assms(4-6) by (intro newest_page_loaded) simp_all
  moreover have "pg_fetch_version r < v" if "r \<in> set (svc_base.more w)" "pg_normalized_key r = pfj_normalized_key job" for r
    using next_version_newer [of r "pfj_normalized_key job" "svc_base.more w"] g that row
    by (simp add: gained_def key_rows_def)
  moreover have "chars_count text \<le> fc_max_html_context_chars cfg" by (simp add: text_def excerpt_bound)
  ultimately show ?thesis using row by auto
qed

end
