(* ===== verification/Flow_Witnesses.thy ===== *)
theory Flow_Witnesses
  imports Worker_Samples Worker_Flow
begin

text \<open>
  Concrete inputs for the reclassification worker and the page fetcher, and the instances of their
  properties.
\<close>

section \<open>A fetcher\<close>

definition sample_crawl :: json where
  "sample_crawl = JObj [(''status'', JStr ''ok''), (''markdown_text'', JStr ''hello''),
     (''cleaned_text'', JStr ''hello''), (''content_type'', JStr ''text/html'')]"

definition sample_fe :: "crawl_reply \<Rightarrow> fetch_env" where
  "sample_fe reply = \<lparr>fe_ex = json_ex, fe_dns = (\<lambda>_ _. (2, True)), fe_crawl = (\<lambda>_ _ _. (40, reply)),
     fe_sha256_hex = (\<lambda>s. s), fe_json_error = (\<lambda>_. []), fe_rfc3339 = (\<lambda>_. None)\<rparr>"

definition crawl_ok :: crawl_reply where
  "crawl_ok = CrawlReply 200 (Some (text_of_json json_ex sample_crawl))"

definition crawl_down :: crawl_reply where
  "crawl_down = CrawlUnreachable ''refused''"

definition sample_fc :: fetcher_config where
  "sample_fc = \<lparr>fc_queue_name = ''page-fetcher'', fc_stream = ''page-fetch-jobs'', fc_stream_start_id = ''$'',
     fc_redis_url = [], fc_crawl_service_url = ''http://crawl'', fc_database_url = [], fc_metrics_host = [],
     fc_metrics_port = 0, fc_max_excerpt_chars = 4000, fc_max_html_context_chars = 120000,
     fc_max_html_bytes = 524288, fc_ttl_seconds = 21600, fc_page_content_max_versions_per_key = 2,
     fc_fetch_timeout_seconds = 60, fc_idempotency_ttl_seconds = 86400, fc_database_pool_size = 5,
     fc_terminal_retry_cooldown_seconds = 1200, fc_blocked_retry_cooldown_seconds = 14400,
     fc_unsupported_retry_cooldown_seconds = 21600, fc_unsupported_host_allowlist = []\<rparr>"

definition sample_fetch :: page_fetch_job where
  "sample_fetch = \<lparr>pfj_normalized_key = ''domain:example.com'', pfj_url = ''http://example.com/'',
     pfj_hostname = ''example.com'', pfj_candidate_urls = [], pfj_trace_id = Some ''t1'',
     pfj_idempotency_key = Some ''page:k'', pfj_ttl_seconds = None\<rparr>"

definition sample_fetch_payload :: string where
  "sample_fetch_payload = text_of_json json_ex (page_fetch_job_to_json sample_fetch)"

definition sample_fw :: fetcher_world where
  "sample_fw = \<lparr>sb_now = 5000, sb_redis = Map.empty, sb_streams = [], sb_acked = [], sb_ops = 0,
     sb_fails = (\<lambda>_. False), sb_calls = 0, sb_uuid_next = 0, sb_uuids = (\<lambda>n. n), \<dots> = []\<rparr>"

lemma sample_fe_simps [simp]:
  "fe_ex (sample_fe r) = json_ex" "fe_dns (sample_fe r) n h = (2, True)" "fe_crawl (sample_fe r) n u j = (40, r)"
  by (simp_all add: sample_fe_def)

lemma json_ex_simps [simp]:
  "url_parse json_ex u = Some sample_url" "to_lowercase json_ex = to_ascii_lowercase" "uuid_to_string json_ex = show_nat"
  by (simp_all add: json_ex_def base_ex_def)

lemma sample_fw_simps [simp]:
  "sb_now sample_fw = 5000" "sb_redis sample_fw = Map.empty" "svc_base.more sample_fw = []"
  "sb_fails sample_fw k = False" "sb_calls sample_fw = 0" "sb_ops sample_fw = 0" "sb_uuid_next sample_fw = 0"
  by (simp_all add: sample_fw_def)

lemma sample_fc_simps [simp]:
  "fc_unsupported_host_allowlist sample_fc = []" "fc_page_content_max_versions_per_key sample_fc = 2"
  "as_i64 (fc_idempotency_ttl_seconds sample_fc) = 86400"
  by (simp_all add: sample_fc_def as_i64_def)

lemma sample_decoded: "decoded (sample_fe r) sample_fetch_payload = Some sample_fetch"
  by (simp add: decoded_def sample_fetch_payload_def fetch_job_json_round)

lemma sample_fetch_simps [simp]:
  "pfj_normalized_key sample_fetch = ''domain:example.com''" "pfj_ttl_seconds sample_fetch = None"
  by (simp_all add: sample_fetch_def)

lemma sample_resolve: "resolve_candidate_urls json_ex sample_fetch = Inr [''http://example.com/'']"
  by (simp add: resolve_candidate_urls_def sample_fetch_def Let_def)

lemma sample_host: "url_host_str sample_url = Some ''example.com''"
  "\<not> is_likely_asset_host ''example.com'' []"
  by (simp add: sample_url_def) code_simp

lemma sample_healthy: "healthy sample_fc ''domain:example.com'' sample_fw"
  by (simp add: healthy_def svc_reliable_def sample_fc_def as_i64_def next_version_def key_rows_def)

lemma sample_table_ok: "table_ok sample_fc (svc_base.more sample_fw)" "pages_ok (svc_base.more sample_fw)"
  by (simp_all add: table_ok_def pages_ok_def key_rows_def)

lemma sample_reply: "\<exists>resp. read_crawl_reply (sample_fe r) crawl_ok = Inr resp"
  by (simp add: read_crawl_reply_def crawl_ok_def crawl_response_of_json_def sample_crawl_def req_field_def
      opt_field_def)

lemma sample_reply_down:
  "\<exists>f. read_crawl_reply (sample_fe r) crawl_down = Inl f"
  by (simp add: read_crawl_reply_def crawl_down_def)

abbreviation (input) asked :: "fetcher_world \<Rightarrow> fetcher_world" where
  "asked w \<equiv> w\<lparr>sb_calls := Suc (Suc (sb_calls w)), sb_now := 42 + sb_now w\<rparr>"

lemma sample_try_step:
  "svc_wp (try_candidates (sample_fe r) sample_fc sample_fetch ttl idem [''http://example.com/''] no_progress) Q E w
   = (case read_crawl_reply (sample_fe r) r of
        Inr resp \<Rightarrow> svc_wp (svc_bind (store_content (sample_fe r) sample_fc sample_fetch ttl resp ''http://example.com/''
            [\<lparr>ca_url = ''http://example.com/'', ca_outcome = ''ok'', ca_reason = ''ok''\<rparr>])
          (\<lambda>_. svc_bind (pf_idempotency_mark_processed sample_fc idem) (\<lambda>_. svc_return None))) Q E (asked w)
      | Inl f \<Rightarrow> Q (Some ((note_attempt ''http://example.com/'' (ff_fetch_status f) (ff_fetch_reason f)
          (no_progress\<lparr>cg_dns_cache := [''example.com'' \<mapsto> True], cg_had_crawl_attempt := True\<rparr>))
          \<lparr>cg_last_failure := Some f\<rparr>)) (asked w))"
  by (simp add: sample_host unwrap_or_def wp Let_def host_resolves_def fetch_content_def no_progress_def
      note_attempt_def split: sum.split)

lemma asked_healthy: "healthy cfg key w \<Longrightarrow> healthy cfg key (asked w)"
  by (simp add: healthy_def svc_reliable_def)

lemma sample_fetch_ok:
  assumes "healthy sample_fc ''domain:example.com'' w"
  shows "svc_wp (fetch_job (sample_fe crawl_ok) sample_fc sample_fetch idem) (\<lambda>_ _. True) (\<lambda>_ _. False) w"
proof -
  obtain resp where "read_crawl_reply (sample_fe crawl_ok) crawl_ok = Inr resp" using sample_reply by blast
  then have "svc_wp (try_candidates (sample_fe crawl_ok) sample_fc sample_fetch ttl idem
      [''http://example.com/''] no_progress) (\<lambda>r _. r = None) (\<lambda>_ _. False) w" for ttl
    unfolding sample_try_step sum.case
    using asked_healthy [OF assms] by (simp only: sum.case) (rule wp_mono [OF store_and_mark_wp], auto)
  then show ?thesis
    unfolding fetch_job_def Let_def wp_bind wp_lift sample_fe_simps sample_resolve sum.case no_progress_def [symmetric]
    by (rule wp_mono) (auto simp: wp)
qed

lemma sample_fetch_down:
  assumes "healthy sample_fc ''domain:example.com'' w"
  shows "svc_wp (fetch_job (sample_fe crawl_down) sample_fc sample_fetch idem) (\<lambda>_ _. False)
     (\<lambda>_ w'. sb_now w' = 42 + sb_now w) w"
proof -
  obtain f where f: "read_crawl_reply (sample_fe crawl_down) crawl_down = Inl f" using sample_reply_down by blast
  have "svc_wp (try_candidates (sample_fe crawl_down) sample_fc sample_fetch ttl idem
      [''http://example.com/''] no_progress) (\<lambda>r w'. r \<noteq> None \<and> w' = asked w) (\<lambda>_ _. False) w" for ttl
    unfolding sample_try_step f by simp
  then show ?thesis
    unfolding fetch_job_def Let_def wp_bind wp_lift sample_fe_simps sample_resolve sum.case no_progress_def [symmetric]
    by (rule wp_mono) (use asked_healthy [OF assms] in \<open>auto simp: wp intro!: wp_mono [OF store_failure_wp]\<close>)
qed

lemma sample_process_ok:
  obtains w1 where "pf_process_job (sample_fe crawl_ok) sample_fc sample_fetch_payload sample_fw = (Inr (), w1)"
proof -
  have "healthy sample_fc ''domain:example.com'' (sample_fw\<lparr>sb_ops := n\<rparr>)" for n
    using sample_healthy by (simp add: healthy_def svc_reliable_def)
  then have "svc_wp (pf_process_job (sample_fe crawl_ok) sample_fc sample_fetch_payload)
      (\<lambda>_ _. True) (\<lambda>_ _. False) sample_fw"
    using sample_fetch_ok sample_decoded [of crawl_ok]
    by (simp add: pf_process_job_def decoded_def pf_idempotency_key_seen_def
        content_fresh_def terminal_fetch_recently_recorded_def Let_def wp)
  from wp_Inr [OF this] show ?thesis using that by auto
qed

section \<open>Instances: the fetcher\<close>

theorem page_table_bounded_witness:
  "table_ok sample_fc (svc_base.more (snd (pf_round (sample_fe crawl_ok) sample_fc (fetch_settings Map.empty 7 sample_fc)
     [\<lparr>se_id = ''1-0'', se_payload = Some sample_fetch_payload\<rparr>] [\<lparr>se_id = ''2-0'', se_payload = None\<rparr>] sample_fw)))"
  by (rule page_table_bounded [OF sample_table_ok(1)])

theorem accepted_job_recorded_witness:
  "\<exists>w'. fst (fetch_job (sample_fe crawl_ok) sample_fc sample_fetch ''i'' sample_fw) = Inr () \<and>
     snd (fetch_job (sample_fe crawl_ok) sample_fc sample_fetch ''i'' sample_fw) = w' \<and>
     marked sample_fc ''i'' w' \<and> page_stored (sample_fe crawl_ok) sample_fc sample_fetch [] (svc_base.more w')"
proof -
  obtain w' where f: "fetch_job (sample_fe crawl_ok) sample_fc sample_fetch ''i'' sample_fw = (Inr (), w')"
    using wp_Inr [OF sample_fetch_ok [OF sample_healthy, of "''i''"]] by auto
  have "resolve_candidate_urls (fe_ex (sample_fe crawl_ok)) sample_fetch = Inr [''http://example.com/'']"
    by (simp add: sample_resolve)
  then show ?thesis
    using accepted_job_recorded [OF _ _ f] f sample_healthy by simp
qed

theorem done_fetch_not_repeated_witness:
  "\<exists>w1. pf_process_job (sample_fe crawl_ok) sample_fc sample_fetch_payload sample_fw = (Inr (), w1) \<and>
     (let w2 = w1\<lparr>sb_now := sb_now w1 + 86399000\<rparr>;
          w3 = snd (pf_process_job (sample_fe crawl_ok) sample_fc sample_fetch_payload w2)
      in svc_base.more w3 = svc_base.more w2 \<and> sb_calls w3 = sb_calls w2)"
proof -
  obtain w1 where w1: "pf_process_job (sample_fe crawl_ok) sample_fc sample_fetch_payload sample_fw = (Inr (), w1)"
    by (rule sample_process_ok)
  let ?w2 = "w1\<lparr>sb_now := sb_now w1 + 86399000\<rparr>"
  obtain r w3 where w3: "pf_process_job (sample_fe crawl_ok) sample_fc sample_fetch_payload ?w2 = (r, w3)"
    by fastforce
  have "svc_base.more w3 = svc_base.more ?w2 \<and> sb_calls w3 = sb_calls ?w2"
    by (rule done_fetch_not_repeated [OF sample_decoded w1 _ sample_decoded refl _ _ w3]) simp_all
  with w1 w3 show ?thesis by (simp add: Let_def)
qed

theorem failed_key_held_back_witness:
  "\<exists>w1. failure_stored (sample_fe crawl_down) sample_fc sample_fetch (sb_now w1) [] (svc_base.more w1) \<and>
     (let w2 = w1\<lparr>sb_now := sb_now w1 + 1200000\<rparr>;
          w3 = snd (pf_process_job (sample_fe crawl_down) sample_fc sample_fetch_payload w2)
      in svc_base.more w3 = svc_base.more w2 \<and> sb_calls w3 = sb_calls w2)"
proof -
  obtain r w1 where f: "fetch_job (sample_fe crawl_down) sample_fc sample_fetch ''i'' sample_fw = (r, w1)"
    by fastforce
  obtain e where e: "r = Inl e"
    using wpD [OF sample_fetch_down [OF sample_healthy] f] by (cases r) auto
  have s: "failure_stored (sample_fe crawl_down) sample_fc sample_fetch (sb_now w1) [] (svc_base.more w1)"
    using wpD [OF fetch_job_wp f] sample_healthy e sample_resolve by auto
  let ?w2 = "w1\<lparr>sb_now := sb_now w1 + 1200000\<rparr>"
  obtain r3 w3 where w3: "pf_process_job (sample_fe crawl_down) sample_fc sample_fetch_payload ?w2 = (r3, w3)"
    by fastforce
  have low: "\<forall>s. terminal_status s \<longrightarrow> to_lowercase (fe_ex (sample_fe crawl_down)) s = s"
    by (auto simp: terminal_status_def) code_simp+
  have "svc_base.more w3 = svc_base.more ?w2 \<and> sb_calls w3 = sb_calls ?w2"
    by (rule failed_key_held_back [OF s _ _ _ low _ _ sample_decoded refl w3])
      (simp_all add: pages_ok_def cooldown_for_def sample_fc_def)
  with s w3 show ?thesis by (auto simp: Let_def)
qed

theorem stored_page_reaches_worker_witness:
  "\<exists>crawl w1 text version. store_content (sample_fe crawl_ok) sample_fc sample_fetch 21600 crawl ''http://example.com/'' [] sample_fw
       = (Inr (), w1) \<and>
     fst (load_page_content ((sample_we answering)\<lparr>we_pages := (\<lambda>_. map page_view (svc_base.more w1))\<rparr>) ''domain:example.com'' sample_ww)
       = Inr (Some (Some text, Some (fe_sha256_hex (sample_fe crawl_ok) text), int version)) \<and>
     chars_count text \<le> fc_max_html_context_chars sample_fc"
proof -
  obtain crawl where "read_crawl_reply (sample_fe crawl_ok) crawl_ok = Inr crawl" using sample_reply by blast
  have h: "healthy sample_fc (pfj_normalized_key sample_fetch) sample_fw"
    using sample_healthy by (simp add: sample_fetch_def)
  have "svc_wp (store_content (sample_fe crawl_ok) sample_fc sample_fetch 21600 crawl ''http://example.com/'' [])
      (\<lambda>_ _. True) (\<lambda>_ _. False) sample_fw"
    by (rule wp_mono [OF store_content_wp]) (use h in auto)
  then obtain w1 where w1: "store_content (sample_fe crawl_ok) sample_fc sample_fetch 21600 crawl ''http://example.com/'' [] sample_fw = (Inr (), w1)"
    using wp_Inr by force
  let ?we = "(sample_we answering)\<lparr>we_pages := (\<lambda>_. map page_view (svc_base.more w1))\<rparr>"
  have "to_lowercase (we_ex ?we) ''ok'' = ''ok''" by simp code_simp
  from stored_page_reaches_worker [OF w1 _ _ this, of sample_ww] w1 show ?thesis
    by (fastforce simp: pages_ok_def sample_fetch_def sample_fc_def sample_ww_def sample_fw_def)
qed

section \<open>Instances: the reclassification worker\<close>

definition sample_re :: reclass_env where
  "sample_re = \<lparr>re_ex = json_ex, re_href = (\<lambda>s. s)\<rparr>"

definition sample_pl :: planner where
  "sample_pl = \<lparr>pl_batch_size = 10, pl_taxonomy = sample_store\<rparr>"

definition sample_di :: dispatcher where
  "sample_di = \<lparr>di_job_stream = ''classification-jobs'',
     di_page_fetch = Some (page_fetch_publisher_new ''page-fetch-jobs'' 30), di_batch_size = 10\<rparr>"

definition sample_class :: rc_class_row where
  "sample_class = \<lparr>rk_id = 1, rk_normalized_key = ''domain:example.com'', rk_taxonomy_version = None,
     rk_primary_category = Some ''Old News'', rk_subcategory = Some ''x'', rk_ttl_seconds = Some 60,
     rk_status = ''active'', rk_next_refresh_at = Some 50, rk_updated_at = 0\<rparr>"

definition sample_reclass_job :: rc_job_row where
  "sample_reclass_job = \<lparr>rj_id = 100, rj_normalized_key = ''domain:example.com'', rj_reason = ''ttl_refresh'',
     rj_status = ''pending'', rj_created_at = 10, rj_started_at = None, rj_completed_at = None\<rparr>"

definition sample_rw :: "rc_job_row list \<Rightarrow> (nat \<Rightarrow> bool) \<Rightarrow> reclass_world" where
  "sample_rw jobs fails = \<lparr>sb_now = 5000, sb_redis = Map.empty, sb_streams = [], sb_acked = [], sb_ops = 0,
     sb_fails = fails, sb_calls = 0, sb_uuid_next = 0, sb_uuids = (\<lambda>n. n),
     \<dots> = \<lparr>rt_classes = [sample_class], rt_jobs = jobs, rt_pages = []\<rparr>\<rparr>"

lemma sample_rw_simps [simp]:
  "sb_now (sample_rw js fs) = 5000" "sb_ops (sample_rw js fs) = 0" "sb_fails (sample_rw js fs) = fs"
  "sb_streams (sample_rw js fs) = []"
  "svc_base.more (sample_rw js fs) = \<lparr>rt_classes = [sample_class], rt_jobs = js, rt_pages = []\<rparr>"
  "svc_reliable (sample_rw js (\<lambda>_. False))"
  by (simp_all add: sample_rw_def svc_reliable_def)

lemma sample_sizes [simp]:
  "pl_batch_size sample_pl = 10" "pl_taxonomy sample_pl = sample_store" "di_batch_size sample_di = 10"
  "rk_normalized_key sample_class = ''domain:example.com''" "rk_id sample_class = 1" "labelled sample_class"
  "rj_normalized_key sample_reclass_job = ''domain:example.com''"
  by (simp_all add: sample_pl_def sample_di_def sample_class_def labelled_def sample_reclass_job_def)

lemma sample_rows:
  "take 10 (due_rows (sample_rw js fs)) = [sample_class]"
  "take 10 (pending_rows (sample_rw [sample_reclass_job] fs)) = [sample_reclass_job]"
  by (simp_all add: due_rows_def pending_rows_def sample_class_def sample_reclass_job_def)

lemma sample_row_target: "build_target sample_re ''domain:example.com'' =
  Inr \<lparr>jt_entity_level = ''domain'', jt_hostname = ''example.com'', jt_full_url = ''https://example.com/''\<rparr>"
proof -
  have "trim ''example.com'' = ''example.com''" "trim_slashes ''example.com'' = ''example.com''" by code_simp+
  then show ?thesis by (simp add: build_target_def)
qed

lemma sample_jobs_ok: "jobs_ok []" "jobs_ok [sample_reclass_job]"
  by (simp_all add: jobs_ok_def)

theorem reclass_refines_lifecycle_witness:
  "jobs_ok (rt_jobs (svc_base.more (snd (dispatcher_iteration sample_re sample_di
     (snd (planner_tick sample_pl (sample_rw [] (\<lambda>_. False))))))))"
proof -
  have "reclass_run sample_re sample_pl sample_di (sample_rw [] (\<lambda>_. False))
    (snd (dispatcher_iteration sample_re sample_di (snd (planner_tick sample_pl (sample_rw [] (\<lambda>_. False))))))"
    by (intro run_dispatch run_plan run_refl)
  then show ?thesis using reclass_refines_lifecycle sample_jobs_ok by simp
qed

theorem due_rows_planned_witness:
  "\<exists>n w'. plan_batch sample_pl (sample_rw [] (\<lambda>_. False)) = (Inr n, w') \<and>
     key_live ''domain:example.com'' (rt_jobs (svc_base.more w')) \<and>
     (\<exists>r' \<in> set (rt_classes (svc_base.more w')). rk_id r' = 1 \<and> canonical_row sample_store r')"
proof -
  have "fresh_ids (sample_rw [] (\<lambda>_. False))" by (simp add: fresh_ids_def sample_rw_def inj_def)
  then show ?thesis
    using due_rows_planned [of "sample_rw [] (\<lambda>_. False)" sample_pl]
    by (auto simp: sample_rows sample_store_wf)
qed

theorem reliable_dispatch_drains_witness:
  "\<exists>w'. dispatch_batch sample_re sample_di (sample_rw [sample_reclass_job] (\<lambda>_. False)) = (Inr 1, w') \<and>
     map rj_status (rt_jobs (svc_base.more w')) = [''completed''] \<and> length (sb_streams w') = 2"
proof -
  have "\<exists>pp. di_page_fetch sample_di = Some pp" by (simp add: sample_di_def)
  then show ?thesis
    using reliable_dispatch_drains [of "sample_rw [sample_reclass_job] (\<lambda>_. False)" sample_di sample_re] sample_jobs_ok
    by (auto simp: sample_rows final_status_def row_entries_def sample_row_target)
qed

text \<open>The fifth statement of this dispatch, the query for the page of the first job, fails.\<close>

lemma sample_stranded:
  obtains w1 where "dispatch_batch sample_re sample_di (sample_rw [sample_reclass_job] (\<lambda>n. n = 4)) =
      (Inl (Error ''statement failed''), w1)"
    "rt_jobs (svc_base.more w1) = [sample_reclass_job\<lparr>rj_status := ''running'', rj_started_at := Some 5000\<rparr>]"
proof -
  have "svc_wp (dispatch_batch sample_re sample_di) (\<lambda>_ _. False)
    (\<lambda>e w'. e = Error ''statement failed'' \<and> rt_jobs (svc_base.more w') =
       [sample_reclass_job\<lparr>rj_status := ''running'', rj_started_at := Some 5000\<rparr>])
    (sample_rw [sample_reclass_job] (\<lambda>n. n = 4))"
    by (simp add: dispatch_batch_def claim_batch_def start_job_def dispatch_job_def sample_row_target
        reclass_load_page_content_def sample_rows wp Let_def)
  then show ?thesis using that by (auto simp: svc_wp_def split: prod.splits sum.splits)
qed

theorem stranded_job_blocks_key_witness:
  "\<exists>w1. dispatch_batch sample_re sample_di (sample_rw [sample_reclass_job] (\<lambda>n. n = 4)) = (Inl (Error ''statement failed''), w1) \<and>
     (let w2 = w1\<lparr>sb_now := sb_now w1 + 1000000, sb_fails := (\<lambda>_. False)\<rparr>;
          w3 = snd (planner_tick sample_pl (snd (dispatcher_iteration sample_re sample_di w2)))
      in map rj_status (filter (\<lambda>k. rj_normalized_key k = ''domain:example.com'') (rt_jobs (svc_base.more w3))) = [''running''])"
proof -
  let ?j = "sample_reclass_job\<lparr>rj_status := ''running'', rj_started_at := Some 5000\<rparr>"
  obtain w1 where w1: "dispatch_batch sample_re sample_di (sample_rw [sample_reclass_job] (\<lambda>n. n = 4)) =
      (Inl (Error ''statement failed''), w1)" "rt_jobs (svc_base.more w1) = [?j]"
    by (rule sample_stranded)
  let ?w3 = "snd (planner_tick sample_pl (snd (dispatcher_iteration sample_re sample_di
    (w1\<lparr>sb_now := sb_now w1 + 1000000, sb_fails := (\<lambda>_. False)\<rparr>))))"
  have "reclass_run sample_re sample_pl sample_di w1 ?w3"
    by (intro run_plan run_dispatch run_wait run_refl)
  from stranded_job_blocks_key [OF this, of ?j] show ?thesis
    using w1 by (auto simp: Let_def jobs_ok_def sample_reclass_job_def)
qed

theorem dispatched_job_understood_witness:
  "\<exists>job. Option.bind (json_of_text json_ex (snd (hd (snd (job_entry sample_re sample_di 5000 [] sample_reclass_job
       \<lparr>jt_entity_level = ''domain'', jt_hostname = ''example.com'', jt_full_url = ''https://example.com/''\<rparr>)))))
       job_payload_of_json = Some job \<and>
     cp_normalized_key job = ''domain:example.com'' \<and> cp_requires_content job"
proof -
  let ?t = "\<lparr>jt_entity_level = ''domain'', jt_hostname = ''example.com'', jt_full_url = ''https://example.com/''\<rparr>"
  obtain st p where e: "job_entry sample_re sample_di 5000 [] sample_reclass_job ?t = (st, [(''payload'', p)])"
    by (simp add: job_entry_def)
  have "json_text_ok (re_ex sample_re)" by (simp add: sample_re_def json_ex_ok)
  from dispatched_job_understood [OF this _ e] e show ?thesis
    by (auto simp: sample_re_def sample_reclass_job_def)
qed

end
