(* ===== verification/Admin_Base.thy ===== *)
theory Admin_Base
  imports Svc_Monad Config_Core "HOL-Library.Product_Lexorder" "HOL-Library.List_Lexorder"
begin

text \<open>
  What the modules of the administration service (\<^verbatim>\<open>services/admin-api\<close>) share: programs with typed
  errors, the identity tables with the constraints of the schema, the functions the service takes from
  outside the repository, and the context of an authenticated caller.

  A program of type \<open>('t, 'e + 'a) svc\<close> returns a typed error or a value; the error of the underlying
  program is left for panics.  Every write of an identity table is checked against the constraints of
  the migrations (keys, unique indexes, checks and references), and is refused when it breaks one.  The
  clock stands still while a request is handled.
\<close>

section \<open>Typed errors\<close>

definition ret :: "'a \<Rightarrow> ('t, 'e + 'a) svc" where
  "ret x = svc_return (Inr x)"

definition raise :: "'e \<Rightarrow> ('t, 'e + 'a) svc" where
  "raise e = svc_return (Inl e)"

definition tbind :: "('t, 'e + 'a) svc \<Rightarrow> ('a \<Rightarrow> ('t, 'e + 'b) svc) \<Rightarrow> ('t, 'e + 'b) svc" where
  "tbind m f = svc_bind m (\<lambda>r. case r of Inl e \<Rightarrow> raise e | Inr x \<Rightarrow> f x)"

definition map_err :: "('e \<Rightarrow> 'f) \<Rightarrow> ('t, 'e + 'a) svc \<Rightarrow> ('t, 'f + 'a) svc" where
  "map_err f m = svc_bind m (\<lambda>r. case r of Inl e \<Rightarrow> raise (f e) | Inr x \<Rightarrow> ret x)"

text \<open>A statement whose failure is a value.\<close>

definition sql :: "('t, 'a) svc \<Rightarrow> ('t, string + 'a) svc" where
  "sql m = svc_try m"

text \<open>\<open>let _ = statement\<close>: the outcome is dropped.\<close>

definition best_effort :: "('t, 'a) svc \<Rightarrow> ('t, 'e + unit) svc" where
  "best_effort m = svc_bind (svc_ignore m) (\<lambda>_. ret ())"

definition lift_svc :: "('t, 'a) svc \<Rightarrow> ('t, 'e + 'a) svc" where
  "lift_svc m = svc_bind m ret"

definition ok_or_raise :: "'e \<Rightarrow> 'a option \<Rightarrow> ('t, 'e + 'a) svc" where
  "ok_or_raise e x = (case x of None \<Rightarrow> raise e | Some y \<Rightarrow> ret y)"

definition require :: "bool \<Rightarrow> 'e \<Rightarrow> ('t, 'e + unit) svc" where
  "require b e = (if b then ret () else raise e)"

lemma wp_ret [wp]: "svc_wp (ret x) Q E = Q (Inr x)"
  by (rule ext) (simp add: ret_def wp)

lemma wp_raise [wp]: "svc_wp (raise e) Q E = Q (Inl e)"
  by (rule ext) (simp add: raise_def wp)

lemma wp_sum:
  "svc_wp (case r of Inl e \<Rightarrow> f e | Inr x \<Rightarrow> g x) Q E =
     (case r of Inl e \<Rightarrow> svc_wp (f e) Q E | Inr x \<Rightarrow> svc_wp (g x) Q E)"
  by (simp split: sum.split)

lemma wp_tbind [wp]:
  "svc_wp (tbind m f) Q E w = svc_wp m (\<lambda>r. case r of Inl e \<Rightarrow> Q (Inl e) | Inr x \<Rightarrow> svc_wp (f x) Q E) E w"
  unfolding tbind_def wp_bind wp_sum wp_raise by (rule refl)

lemma wp_map_err [wp]:
  "svc_wp (map_err f m) Q E w =
     svc_wp m (\<lambda>r. case r of Inl e \<Rightarrow> Q (Inl (f e)) | Inr x \<Rightarrow> Q (Inr x)) E w"
  unfolding map_err_def wp_bind wp_sum wp_raise wp_ret by (rule refl)

lemma wp_sql [wp]:
  "svc_wp (sql m) Q E w =
     svc_wp m (\<lambda>x. Q (Inr x)) (\<lambda>e. case e of Error s \<Rightarrow> Q (Inl s) | Panic s \<Rightarrow> E (Panic s)) w"
  by (simp add: sql_def wp)

lemma wp_best_effort [wp]:
  "svc_wp (best_effort m) Q E w =
     svc_wp m (\<lambda>_. Q (Inr ())) (\<lambda>e. case e of Error s \<Rightarrow> Q (Inr ()) | Panic s \<Rightarrow> E (Panic s)) w"
  by (simp add: best_effort_def wp)

lemma wp_lift_svc [wp]: "svc_wp (lift_svc m) Q E w = svc_wp m (\<lambda>x. Q (Inr x)) E w"
  by (simp add: lift_svc_def wp)

lemma wp_ok_or_raise [wp]:
  "svc_wp (ok_or_raise e x) Q E w = (case x of None \<Rightarrow> Q (Inl e) w | Some y \<Rightarrow> Q (Inr y) w)"
  by (simp add: ok_or_raise_def wp split: option.split)

lemma wp_require [wp]: "svc_wp (require b e) Q E w = (if b then Q (Inr ()) w else Q (Inl e) w)"
  by (simp add: require_def wp)

lemma svc_keeps_typed [svc_keeps_intros]:
  "svc_keeps I (ret x)" "svc_keeps I (raise e)" "svc_keeps I (ok_or_raise e' y)" "svc_keeps I (require b e'')"
  by (simp_all add: svc_keeps_wp wp split: option.split)

lemma svc_keeps_tbind [svc_keeps_intros]:
  "svc_keeps I m \<Longrightarrow> (\<And>x. svc_keeps I (f x)) \<Longrightarrow> svc_keeps I (tbind m f)"
  by (simp add: tbind_def svc_keeps_intros)

lemma svc_keeps_map_err [svc_keeps_intros]: "svc_keeps I m \<Longrightarrow> svc_keeps I (map_err f m)"
  by (simp add: map_err_def svc_keeps_intros)

lemma svc_keeps_sql [svc_keeps_intros]: "svc_keeps I m \<Longrightarrow> svc_keeps I (sql m)"
  by (simp add: sql_def svc_keeps_intros)

lemma svc_keeps_best_effort [svc_keeps_intros]: "svc_keeps I m \<Longrightarrow> svc_keeps I (best_effort m)"
  by (simp add: best_effort_def svc_keeps_intros)

lemma svc_keeps_lift_svc [svc_keeps_intros]: "svc_keeps I m \<Longrightarrow> svc_keeps I (lift_svc m)"
  by (simp add: lift_svc_def svc_keeps_intros)

section \<open>Code outside the repository\<close>

text \<open>
  \<open>ae_random k n\<close> is the \<open>k\<close>-th random string, of \<open>n\<close> characters; \<open>ae_collate\<close> is the sort key of a text
  under the collation of the database; \<open>ae_sql_lower\<close> is its \<open>LOWER\<close>.
\<close>

record admin_env =
  ae_ex :: externs
  ae_env :: environment
  ae_random :: "nat \<Rightarrow> nat \<Rightarrow> string"
  ae_argon_hash :: "string \<Rightarrow> string \<Rightarrow> string option"
  ae_argon_verify :: "string \<Rightarrow> string \<Rightarrow> bool option"
  ae_sha256_hex :: "string \<Rightarrow> string"
  ae_hmac_sha256 :: "string \<Rightarrow> string \<Rightarrow> string"
  ae_base64_encode :: "string \<Rightarrow> string"
  ae_base64_decode :: "string \<Rightarrow> string option"
  ae_rfc3339 :: "time \<Rightarrow> string"
  ae_time_parse :: "string \<Rightarrow> time option"
  ae_chrono_max :: time
  ae_sql_lower :: "string \<Rightarrow> string"
  ae_collate :: "string \<Rightarrow> nat list"

definition svc_draw :: "admin_env \<Rightarrow> nat \<Rightarrow> ('t, string) svc" where
  "svc_draw ae n w = (Inr (ae_random ae (sb_uuid_next w) n), w\<lparr>sb_uuid_next := Suc (sb_uuid_next w)\<rparr>)"

lemma wp_draw [wp]:
  "svc_wp (svc_draw ae n) Q E w =
     Q (ae_random ae (sb_uuid_next w) n) (w\<lparr>sb_uuid_next := Suc (sb_uuid_next w)\<rparr>)"
  by (simp add: svc_wp_def svc_draw_def)

lemma svc_keeps_draw [svc_keeps_intros]: "svc_keeps I (svc_draw ae n)"
  by (simp add: svc_keeps_wp wp)

text \<open>Adding a duration to the current time panics when the sum cannot be represented.\<close>

definition now_plus :: "admin_env \<Rightarrow> nat \<Rightarrow> ('t, time) svc" where
  "now_plus ae seconds =
     svc_bind (svc_get sb_now) (\<lambda>now.
       if now + 1000 * seconds \<le> ae_chrono_max ae then svc_return (now + 1000 * seconds)
       else svc_fail (Panic ''DateTime overflow''))"

lemma wp_now_plus [wp]:
  "svc_wp (now_plus ae n) Q E w =
     (if sb_now w + 1000 * n \<le> ae_chrono_max ae then Q (sb_now w + 1000 * n) w
      else E (Panic ''DateTime overflow'') w)"
  by (simp add: now_plus_def wp)

lemma svc_keeps_now_plus [svc_keeps_intros]: "svc_keeps I (now_plus ae n)"
  by (simp add: svc_keeps_wp wp)

section \<open>Roles and callers\<close>

definition ROLE_POLICY_ADMIN :: string where "ROLE_POLICY_ADMIN = ''policy-admin''"
definition ROLE_POLICY_EDITOR :: string where "ROLE_POLICY_EDITOR = ''policy-editor''"
definition ROLE_POLICY_VIEWER :: string where "ROLE_POLICY_VIEWER = ''policy-viewer''"
definition ROLE_AUDITOR :: string where "ROLE_AUDITOR = ''auditor''"

definition ROLE_IAM_VIEW :: "string list" where "ROLE_IAM_VIEW = [ROLE_POLICY_ADMIN, ROLE_AUDITOR]"
definition ROLE_IAM_ADMIN :: "string list" where "ROLE_IAM_ADMIN = [ROLE_POLICY_ADMIN]"

definition default_static_roles :: "string list" where
  "default_static_roles = [ROLE_POLICY_ADMIN, ROLE_POLICY_EDITOR, ROLE_POLICY_VIEWER, ROLE_AUDITOR]"

record effective_access =
  ea_roles :: "string set"
  ea_permissions :: "string set"

datatype principal_type = PrincipalSystem | PrincipalUser | PrincipalServiceAccount | PrincipalFallback

record api_user_context =
  cx_actor :: string
  cx_principal_type :: principal_type
  cx_principal_id :: "uuid option"
  cx_roles :: "string set"
  cx_permissions :: "string set"

definition context_from_fallback :: "string \<Rightarrow> string list \<Rightarrow> api_user_context" where
  "context_from_fallback actor roles =
     \<lparr>cx_actor = actor, cx_principal_type = PrincipalFallback, cx_principal_id = None,
      cx_roles = set roles, cx_permissions = set roles\<rparr>"

definition context_from_effective ::
  "string \<Rightarrow> principal_type \<Rightarrow> uuid option \<Rightarrow> effective_access \<Rightarrow> api_user_context" where
  "context_from_effective actor ptype pid access =
     \<lparr>cx_actor = actor, cx_principal_type = ptype, cx_principal_id = pid,
      cx_roles = ea_roles access, cx_permissions = ea_permissions access\<rparr>"

record service_account_principal =
  sp_id :: uuid
  sp_name :: string
  sp_roles :: "string set"
  sp_permissions :: "string set"

definition context_from_service_account :: "service_account_principal \<Rightarrow> api_user_context" where
  "context_from_service_account p =
     \<lparr>cx_actor = sp_name p, cx_principal_type = PrincipalServiceAccount, cx_principal_id = Some (sp_id p),
      cx_roles = sp_roles p, cx_permissions = sp_permissions p\<rparr>"

definition api_has_role :: "api_user_context \<Rightarrow> string \<Rightarrow> bool" where
  "api_has_role ctx role \<longleftrightarrow> role \<in> cx_roles ctx"

type_synonym api_error = "string \<times> string"
type_synonym ('t, 'a) route = "('t, (nat \<times> api_error) + 'a) svc"

definition api_forbidden :: api_error where
  "api_forbidden = (''FORBIDDEN'', ''insufficient privileges'')"

definition api_require_roles :: "api_user_context \<Rightarrow> string list \<Rightarrow> ('t, nat + unit) svc" where
  "api_require_roles ctx roles = require (list_ex (api_has_role ctx) roles) 403"

text \<open>The check every route starts with.\<close>

definition guard_roles :: "api_user_context \<Rightarrow> string list \<Rightarrow> ('t, unit) route" where
  "guard_roles ctx roles = map_err (\<lambda>status. (status, api_forbidden)) (api_require_roles ctx roles)"

lemma wp_guard_roles [wp]:
  "svc_wp (guard_roles ctx roles) Q E w =
     (if \<exists>r \<in> set roles. r \<in> cx_roles ctx then Q (Inr ()) w else Q (Inl (403, api_forbidden)) w)"
  by (auto simp: guard_roles_def api_require_roles_def wp list_ex_iff api_has_role_def)

lemma svc_keeps_guard_roles [svc_keeps_intros]: "svc_keeps I (guard_roles ctx roles)"
  by (simp add: svc_keeps_wp wp)

section \<open>The identity tables\<close>

record iam_user =
  iu_id :: uuid
  iu_username :: "string option"
  iu_subject :: "string option"
  iu_email :: "string option"
  iu_display_name :: "string option"
  iu_status :: string
  iu_is_protected :: bool
  iu_password_hash :: "string option"
  iu_password_updated_at :: "time option"
  iu_must_change_password :: bool
  iu_failed_login_attempts :: i32
  iu_locked_until :: "time option"
  iu_token_version :: int
  iu_last_login_at :: "time option"
  iu_created_at :: time
  iu_updated_at :: time

record iam_group =
  ig_id :: uuid
  ig_name :: string
  ig_description :: "string option"
  ig_status :: string
  ig_created_at :: time
  ig_updated_at :: time

record iam_role =
  ir_id :: uuid
  ir_name :: string
  ir_description :: "string option"
  ir_builtin :: bool
  ir_created_at :: time

record service_account =
  sa_id :: uuid
  sa_name :: string
  sa_description :: "string option"
  sa_token_hash :: string
  sa_token_hint :: "string option"
  sa_status :: string
  sa_created_at :: time
  sa_last_rotated_at :: "time option"
  sa_expires_at :: "time option"

record user_token =
  ut_id :: uuid
  ut_user_id :: uuid
  ut_name :: string
  ut_token_hash :: string
  ut_token_hint :: "string option"
  ut_status :: string
  ut_created_at :: time
  ut_last_used_at :: "time option"
  ut_expires_at :: "time option"

record refresh_token =
  rt_id :: uuid
  rt_user_id :: uuid
  rt_token_hash :: string
  rt_token_hint :: "string option"
  rt_token_version :: int
  rt_created_at :: time
  rt_last_used_at :: "time option"
  rt_expires_at :: time
  rt_revoked_at :: "time option"
  rt_revoked_reason :: "string option"
  rt_replaced_by_id :: "uuid option"

record iam_audit_event =
  ia_id :: uuid
  ia_actor :: "string option"
  ia_action :: string
  ia_target_type :: "string option"
  ia_target_id :: "string option"
  ia_payload :: json
  ia_created_at :: time

record audit_event =
  ad_id :: uuid
  ad_actor :: "string option"
  ad_action :: string
  ad_target_type :: "string option"
  ad_target_id :: "string option"
  ad_payload :: "json option"

record iam_tables =
  it_users :: "iam_user list"
  it_groups :: "iam_group list"
  it_members :: "(uuid \<times> uuid) list"
  it_roles :: "iam_role list"
  it_role_permissions :: "(uuid \<times> string) list"
  it_user_roles :: "(uuid \<times> uuid) list"
  it_group_roles :: "(uuid \<times> uuid) list"
  it_accounts :: "service_account list"
  it_account_roles :: "(uuid \<times> uuid) list"
  it_user_tokens :: "user_token list"
  it_refresh :: "refresh_token list"
  it_audit :: "iam_audit_event list"
  it_audit_events :: "audit_event list"

abbreviation iam_of :: "iam_tables svc_base_scheme \<Rightarrow> iam_tables" where
  "iam_of w \<equiv> svc_base.more w"

text \<open>\<open>BTRIM\<close> removes spaces only.\<close>

definition btrim :: "string \<Rightarrow> string" where
  "btrim s = rev (dropWhile (\<lambda>c. c = CHR '' '') (rev (dropWhile (\<lambda>c. c = CHR '' '') s)))"

definition blank_column :: "string option \<Rightarrow> bool" where
  "blank_column c \<longleftrightarrow> btrim (case c of None \<Rightarrow> [] | Some s \<Rightarrow> s) = []"

definition status_ok :: "string \<Rightarrow> bool" where
  "status_ok s \<longleftrightarrow> s = ''active'' \<or> s = ''disabled''"

definition users_ok :: "admin_env \<Rightarrow> iam_user list \<Rightarrow> bool" where
  "users_ok ae us \<longleftrightarrow>
     distinct (map iu_id us) \<and> distinct (List.map_filter iu_subject us) \<and>
     distinct (List.map_filter (\<lambda>u. map_option (ae_sql_lower ae) (iu_email u)) us) \<and>
     distinct (List.map_filter (\<lambda>u. map_option (ae_sql_lower ae) (iu_username u)) us) \<and>
     list_all (\<lambda>u. status_ok (iu_status u) \<and> \<not> (blank_column (iu_username u) \<and> blank_column (iu_email u)) \<and>
       - (2 ^ 63) \<le> iu_token_version u \<and> iu_token_version u < 2 ^ 63) us"

definition pairs_ok :: "uuid set \<Rightarrow> uuid set \<Rightarrow> (uuid \<times> uuid) list \<Rightarrow> bool" where
  "pairs_ok A B ps \<longleftrightarrow> distinct ps \<and> list_all (\<lambda>(a, b). a \<in> A \<and> b \<in> B) ps"

definition tokens_ok :: "admin_env \<Rightarrow> iam_tables \<Rightarrow> bool" where
  "tokens_ok ae t \<longleftrightarrow>
     distinct (map ut_id (it_user_tokens t)) \<and>
     distinct (map (\<lambda>x. (ut_user_id x, ae_sql_lower ae (ut_name x))) (it_user_tokens t)) \<and>
     list_all (\<lambda>x. ut_user_id x \<in> iu_id ` set (it_users t) \<and> status_ok (ut_status x)) (it_user_tokens t) \<and>
     distinct (map rt_id (it_refresh t)) \<and> distinct (map rt_token_hash (it_refresh t)) \<and>
     list_all (\<lambda>x. rt_user_id x \<in> iu_id ` set (it_users t) \<and>
       (case rt_replaced_by_id x of None \<Rightarrow> True | Some i \<Rightarrow> i \<in> rt_id ` set (it_refresh t))) (it_refresh t)"

definition accounts_ok :: "service_account list \<Rightarrow> bool" where
  "accounts_ok as \<longleftrightarrow> distinct (map sa_id as) \<and> distinct (map sa_name as) \<and> list_all (\<lambda>a. status_ok (sa_status a)) as"

definition groups_ok :: "iam_group list \<Rightarrow> bool" where
  "groups_ok gs \<longleftrightarrow> distinct (map ig_id gs) \<and> distinct (map ig_name gs) \<and> list_all (\<lambda>g. status_ok (ig_status g)) gs"

definition roles_ok :: "iam_tables \<Rightarrow> bool" where
  "roles_ok t \<longleftrightarrow> distinct (map ir_id (it_roles t)) \<and> distinct (map ir_name (it_roles t)) \<and>
     distinct (it_role_permissions t) \<and> list_all (\<lambda>p. fst p \<in> ir_id ` set (it_roles t)) (it_role_permissions t)"

fun is_object :: "json \<Rightarrow> bool" where
  "is_object (JObj fs) = True"
| "is_object _ = False"

definition iam_ok :: "admin_env \<Rightarrow> iam_tables \<Rightarrow> bool" where
  "iam_ok ae t \<longleftrightarrow>
     users_ok ae (it_users t) \<and> groups_ok (it_groups t) \<and> roles_ok t \<and> accounts_ok (it_accounts t) \<and>
     pairs_ok (ig_id ` set (it_groups t)) (iu_id ` set (it_users t)) (it_members t) \<and>
     pairs_ok (iu_id ` set (it_users t)) (ir_id ` set (it_roles t)) (it_user_roles t) \<and>
     pairs_ok (ig_id ` set (it_groups t)) (ir_id ` set (it_roles t)) (it_group_roles t) \<and>
     pairs_ok (sa_id ` set (it_accounts t)) (ir_id ` set (it_roles t)) (it_account_roles t) \<and>
     tokens_ok ae t \<and> distinct (map ia_id (it_audit t)) \<and> list_all (\<lambda>e. is_object (ia_payload e)) (it_audit t) \<and>
     distinct (map ad_id (it_audit_events t))"

text \<open>A write: the value it returns and the new tables, refused when a constraint is broken.\<close>

definition iam_write :: "admin_env \<Rightarrow> (time \<Rightarrow> iam_tables \<Rightarrow> 'a \<times> iam_tables) \<Rightarrow> (iam_tables, 'a) svc" where
  "iam_write ae f =
     svc_stmt (\<lambda>w. case f (sb_now w) (iam_of w) of (x, t) \<Rightarrow>
       if iam_ok ae t then Some (x, svc_base.more_update (\<lambda>_. t) w) else None)"

definition iam_read :: "(time \<Rightarrow> iam_tables \<Rightarrow> 'a) \<Rightarrow> (iam_tables, 'a) svc" where
  "iam_read f = svc_query (\<lambda>w. f (sb_now w) (iam_of w))"

lemma wp_iam_write [wp]:
  "svc_wp (iam_write ae f) Q E w =
     (let w' = w\<lparr>sb_ops := Suc (sb_ops w)\<rparr>; r = f (sb_now w) (iam_of w)
      in if sb_fails w (sb_ops w) then E (Error ''statement failed'') w'
         else if iam_ok ae (snd r) then Q (fst r) (svc_base.more_update (\<lambda>_. snd r) w')
         else E (Error ''constraint violated'') w')"
  by (simp add: iam_write_def wp Let_def split: prod.split)

lemma wp_iam_read [wp]:
  "svc_wp (iam_read f) Q E w =
     (let w' = w\<lparr>sb_ops := Suc (sb_ops w)\<rparr>
      in if sb_fails w (sb_ops w) then E (Error ''statement failed'') w'
         else Q (f (sb_now w) (iam_of w)) w')"
  by (simp add: iam_read_def wp Let_def)

text \<open>The constraints hold whatever the programs do.\<close>

lemma svc_keeps_iam_ok [svc_keeps_intros]: "svc_keeps (iam_ok ae) (iam_write ae f)"
  by (simp add: svc_keeps_wp wp Let_def)

lemma svc_keeps_iam_read [svc_keeps_intros]: "svc_keeps I (iam_read f)"
  by (simp add: svc_keeps_wp wp Let_def)

lemma svc_keeps_iam_write:
  "(\<And>now t. I t \<Longrightarrow> iam_ok ae (snd (f now t)) \<Longrightarrow> I (snd (f now t))) \<Longrightarrow> svc_keeps I (iam_write ae f)"
  by (auto simp: svc_keeps_wp wp Let_def)

end
