(* ===== verification/Iam_Service.thy ===== *)
theory Iam_Service
  imports Admin_Base
begin

text \<open>
  The identity service of \<^verbatim>\<open>services/admin-api/src/iam.rs\<close>: users, groups, roles, service accounts, API
  tokens, passwords with lockout, effective permissions, and the guard that keeps the last
  administrator.
\<close>

section \<open>Errors, records and small functions\<close>

datatype iam_error =
    IamNotFound string
  | IamValidation string
  | IamDb string
  | IamCrypto string
  | IamInvalidCredentials
  | IamDisabled
  | IamLocked time
  | IamProtectedUser
  | IamLastActiveAdmin

type_synonym 'a iam = "(iam_tables, iam_error + 'a) svc"

definition map_db_error :: "string \<Rightarrow> iam_error" where
  "map_db_error s = (if s = ''constraint violated'' then IamValidation s else IamDb s)"

abbreviation iam_sql :: "(iam_tables, 'a) svc \<Rightarrow> 'a iam" where
  "iam_sql m \<equiv> map_err IamDb (sql m)"

fun map_iam_error :: "admin_env \<Rightarrow> iam_error \<Rightarrow> nat \<times> api_error" where
  "map_iam_error ae (IamNotFound resource) = (404, (''NOT_FOUND'', resource @ '' not found''))"
| "map_iam_error ae (IamValidation msg) = (400, (''VALIDATION_ERROR'', msg))"
| "map_iam_error ae (IamDb err) = (500, (''DB_ERROR'', err))"
| "map_iam_error ae (IamCrypto err) = (500, (''CRYPTO_ERROR'', err))"
| "map_iam_error ae IamInvalidCredentials = (401, (''INVALID_CREDENTIALS'', ''invalid credentials''))"
| "map_iam_error ae IamDisabled = (403, (''ACCOUNT_DISABLED'', ''account disabled''))"
| "map_iam_error ae (IamLocked until) = (429, (''ACCOUNT_LOCKED'', ''account locked until '' @ ae_rfc3339 ae until))"
| "map_iam_error ae IamProtectedUser =
     (409, (''PROTECTED_USER'', ''protected local admin cannot be disabled, renamed, or deleted''))"
| "map_iam_error ae IamLastActiveAdmin =
     (409, (''LAST_ACTIVE_ADMIN'', ''operation would remove the last active policy-admin''))"

record user_record =
  ur_id :: uuid
  ur_username :: "string option"
  ur_subject :: "string option"
  ur_email :: "string option"
  ur_display_name :: "string option"
  ur_status :: string
  ur_is_protected :: bool
  ur_last_login_at :: "time option"
  ur_created_at :: time
  ur_updated_at :: time

definition user_record_of :: "iam_user \<Rightarrow> user_record" where
  "user_record_of u =
     \<lparr>ur_id = iu_id u, ur_username = iu_username u, ur_subject = iu_subject u, ur_email = iu_email u,
      ur_display_name = iu_display_name u, ur_status = iu_status u, ur_is_protected = iu_is_protected u,
      ur_last_login_at = iu_last_login_at u, ur_created_at = iu_created_at u, ur_updated_at = iu_updated_at u\<rparr>"

record local_authenticated_user =
  la_id :: uuid
  la_username :: "string option"
  la_email :: string
  la_display_name :: "string option"
  la_roles :: "string set"
  la_permissions :: "string set"
  la_must_change_password :: bool
  la_token_version :: int

record create_user_request =
  cu_username :: string
  cu_subject :: "string option"
  cu_email :: "string option"
  cu_display_name :: "string option"
  cu_status :: "string option"
  cu_password :: string
  cu_must_change_password :: "bool option"

record update_user_request =
  uu_username :: "string option"
  uu_subject :: "string option"
  uu_email :: "string option"
  uu_display_name :: "string option"
  uu_status :: "string option"

definition opt_else :: "'a option \<Rightarrow> 'a \<Rightarrow> 'a" where
  "opt_else x d = (case x of None \<Rightarrow> d | Some y \<Rightarrow> y)"

definition coalesce :: "'a option \<Rightarrow> 'a option \<Rightarrow> 'a option" where
  "coalesce x y = (case x of None \<Rightarrow> y | Some _ \<Rightarrow> x)"

definition generate_token :: "admin_env \<Rightarrow> (iam_tables, string) svc" where
  "generate_token ae = svc_draw ae 48"

definition hash_token :: "admin_env \<Rightarrow> string \<Rightarrow> string iam" where
  "hash_token ae token =
     tbind (lift_svc (svc_draw ae 22)) (\<lambda>salt.
       ok_or_raise (IamCrypto ''password hash'') (ae_argon_hash ae salt token))"

definition verify_hash :: "admin_env \<Rightarrow> string \<Rightarrow> string \<Rightarrow> bool iam" where
  "verify_hash ae token hash = ok_or_raise (IamCrypto ''password hash'') (ae_argon_verify ae token hash)"

text \<open>The last eight bytes; the slice panics when it starts inside a character.\<close>

definition token_hint :: "string \<Rightarrow> string res" where
  "token_hint token =
     (let trimmed = trim token; len = length trimmed
      in if len \<le> 8 then Inr trimmed
         else if utf8_continuation (trimmed ! (len - 8)) then Inl (Panic ''byte index is not a char boundary'')
         else Inr (drop (len - 8) trimmed))"

section \<open>Users\<close>

definition user_by_id :: "uuid \<Rightarrow> iam_tables \<Rightarrow> iam_user option" where
  "user_by_id i t = find (\<lambda>u. iu_id u = i) (it_users t)"

definition iam_get_user :: "uuid \<Rightarrow> user_record iam" where
  "iam_get_user i =
     tbind (iam_sql (iam_read (\<lambda>_ t. map_option user_record_of (user_by_id i t))))
       (ok_or_raise (IamNotFound ''user''))"

definition find_user_by_subject :: "string \<Rightarrow> user_record option iam" where
  "find_user_by_subject subject =
     iam_sql (iam_read (\<lambda>_ t. map_option user_record_of (find (\<lambda>u. iu_subject u = Some subject) (it_users t))))"

definition find_user_by_email :: "string \<Rightarrow> user_record option iam" where
  "find_user_by_email email =
     iam_sql (iam_read (\<lambda>_ t. map_option user_record_of (find (\<lambda>u. iu_email u = Some (trim email)) (it_users t))))"

definition iam_create_user :: "admin_env \<Rightarrow> create_user_request \<Rightarrow> user_record iam" where
  "iam_create_user ae payload =
     tbind (require (trim (cu_username payload) \<noteq> []) (IamValidation ''username required'')) (\<lambda>_.
     let email = (case map_option trim (cu_email payload) of None \<Rightarrow> None
                  | Some v \<Rightarrow> if v = [] then None else Some v);
         trimmed_password = trim (cu_password payload)
     in tbind (require (trimmed_password \<noteq> []) (IamValidation ''password is required for user creation'')) (\<lambda>_.
        tbind (require (8 \<le> length trimmed_password) (IamValidation ''password must be at least 8 characters'')) (\<lambda>_.
        tbind (hash_token ae trimmed_password) (\<lambda>password_hash.
        tbind (lift_svc svc_uuid) (\<lambda>i.
        map_err map_db_error (sql (iam_write ae (\<lambda>now t.
          let u = \<lparr>iu_id = i, iu_username = Some (trim (cu_username payload)), iu_subject = cu_subject payload,
                iu_email = email, iu_display_name = cu_display_name payload,
                iu_status = opt_else (cu_status payload) ''active'', iu_is_protected = False,
                iu_password_hash = Some password_hash, iu_password_updated_at = Some now,
                iu_must_change_password = opt_else (cu_must_change_password payload) True,
                iu_failed_login_attempts = 0, iu_locked_until = None, iu_token_version = 1,
                iu_last_login_at = None, iu_created_at = now, iu_updated_at = now\<rparr>
          in (user_record_of u, t\<lparr>it_users := it_users t @ [u]\<rparr>)))))))))"

definition user_is_protected :: "uuid \<Rightarrow> bool iam" where
  "user_is_protected i =
     tbind (iam_sql (iam_read (\<lambda>_ t. map_option iu_is_protected (user_by_id i t))))
       (ok_or_raise (IamNotFound ''user''))"

definition role_named :: "iam_tables \<Rightarrow> uuid \<Rightarrow> string \<Rightarrow> bool" where
  "role_named t rid name \<longleftrightarrow> (\<exists>r \<in> set (it_roles t). ir_id r = rid \<and> ir_name r = name)"

text \<open>The identifiers of the roles a user has, directly or through a group of any status.\<close>

definition user_role_ids :: "iam_tables \<Rightarrow> uuid \<Rightarrow> uuid set" where
  "user_role_ids t i =
     {rid. (i, rid) \<in> set (it_user_roles t)} \<union>
     {rid. \<exists>g. (g, i) \<in> set (it_members t) \<and> (g, rid) \<in> set (it_group_roles t)}"

definition active_policy_admin :: "iam_tables \<Rightarrow> iam_user \<Rightarrow> bool" where
  "active_policy_admin t u \<longleftrightarrow> iu_status u = ''active'' \<and>
     ((\<exists>(i, rid) \<in> set (it_user_roles t). i = iu_id u \<and> role_named t rid ROLE_POLICY_ADMIN) \<or>
      (\<exists>(g, i) \<in> set (it_members t). i = iu_id u \<and>
         (\<exists>(g', rid) \<in> set (it_group_roles t). g' = g \<and> role_named t rid ROLE_POLICY_ADMIN)))"

definition user_is_active_policy_admin :: "uuid \<Rightarrow> bool iam" where
  "user_is_active_policy_admin i =
     iam_sql (iam_read (\<lambda>_ t. list_ex (\<lambda>u. iu_id u = i \<and> active_policy_admin t u) (it_users t)))"

definition active_policy_admins :: "iam_tables \<Rightarrow> iam_user list" where
  "active_policy_admins t = filter (active_policy_admin t) (it_users t)"

definition active_policy_admin_count :: "nat iam" where
  "active_policy_admin_count = iam_sql (iam_read (\<lambda>_ t. length (active_policy_admins t)))"

definition has_active_policy_admin :: "bool iam" where
  "has_active_policy_admin = tbind active_policy_admin_count (\<lambda>n. ret (n > 0))"

definition ensure_user_mutation_allowed :: "uuid \<Rightarrow> bool \<Rightarrow> unit iam" where
  "ensure_user_mutation_allowed i enforce_last_admin =
     tbind (user_is_protected i) (\<lambda>protected.
     tbind (require (\<not> protected) IamProtectedUser) (\<lambda>_.
       if enforce_last_admin then
         tbind (user_is_active_policy_admin i) (\<lambda>admin.
           if admin then tbind active_policy_admin_count (\<lambda>n. require (\<not> n \<le> 1) IamLastActiveAdmin)
           else ret ())
       else ret ()))"

definition update_users :: "uuid \<Rightarrow> (iam_user \<Rightarrow> iam_user) \<Rightarrow> iam_tables \<Rightarrow> iam_tables" where
  "update_users i f t = t\<lparr>it_users := map (\<lambda>u. if iu_id u = i then f u else u) (it_users t)\<rparr>"

text \<open>An \<open>UPDATE\<close> of one user and whether there was such a row.\<close>

definition write_user :: "admin_env \<Rightarrow> uuid \<Rightarrow> (time \<Rightarrow> iam_user \<Rightarrow> iam_user) \<Rightarrow> (iam_tables, bool) svc" where
  "write_user ae i f = iam_write ae (\<lambda>now t. (user_by_id i t \<noteq> None, update_users i (f now) t))"

definition iam_update_user :: "admin_env \<Rightarrow> uuid \<Rightarrow> update_user_request \<Rightarrow> user_record iam" where
  "iam_update_user ae i payload =
     (let disable_requested = (case uu_status payload of None \<Rightarrow> False
            | Some s \<Rightarrow> eq_ignore_ascii_case s ''disabled'')
      in tbind (if disable_requested then ensure_user_mutation_allowed i True else ret ()) (\<lambda>_.
         tbind (if uu_username payload \<noteq> None then
                  tbind (user_is_protected i) (\<lambda>p. require (\<not> p) IamProtectedUser)
                else ret ()) (\<lambda>_.
         tbind (iam_sql (iam_write ae (\<lambda>now t.
           let t' = update_users i (\<lambda>u. u\<lparr>
                 iu_username := coalesce (uu_username payload) (iu_username u),
                 iu_subject := coalesce (uu_subject payload) (iu_subject u),
                 iu_email := coalesce (uu_email payload) (iu_email u),
                 iu_display_name := coalesce (uu_display_name payload) (iu_display_name u),
                 iu_status := opt_else (uu_status payload) (iu_status u),
                 iu_token_version :=
                   (if opt_else (uu_status payload) (iu_status u) = ''disabled'' \<and> iu_status u \<noteq> ''disabled''
                    then iu_token_version u + 1 else iu_token_version u),
                 iu_updated_at := now\<rparr>) t
           in (map_option user_record_of (user_by_id i t'), t'))))
           (ok_or_raise (IamNotFound ''user'')))))"

definition iam_disable_user :: "admin_env \<Rightarrow> uuid \<Rightarrow> unit iam" where
  "iam_disable_user ae i =
     tbind (ensure_user_mutation_allowed i True) (\<lambda>_.
     tbind (iam_sql (write_user ae i (\<lambda>now u. u\<lparr>iu_status := ''disabled'',
              iu_token_version := iu_token_version u + 1, iu_updated_at := now\<rparr>))) (\<lambda>found.
       require found (IamNotFound ''user'')))"

definition iam_enable_user :: "admin_env \<Rightarrow> uuid \<Rightarrow> unit iam" where
  "iam_enable_user ae i =
     tbind (iam_sql (write_user ae i (\<lambda>now u. u\<lparr>iu_status := ''active'', iu_updated_at := now\<rparr>))) (\<lambda>found.
       require found (IamNotFound ''user''))"

text \<open>Deleting a user deletes what refers to it.\<close>

definition delete_user_rows :: "uuid \<Rightarrow> iam_tables \<Rightarrow> iam_tables" where
  "delete_user_rows i t = t\<lparr>
     it_users := filter (\<lambda>u. iu_id u \<noteq> i) (it_users t),
     it_members := filter (\<lambda>(g, u). u \<noteq> i) (it_members t),
     it_user_roles := filter (\<lambda>(u, r). u \<noteq> i) (it_user_roles t),
     it_user_tokens := filter (\<lambda>x. ut_user_id x \<noteq> i) (it_user_tokens t),
     it_refresh := filter (\<lambda>x. rt_user_id x \<noteq> i) (it_refresh t)\<rparr>"

definition hard_delete_user :: "admin_env \<Rightarrow> uuid \<Rightarrow> unit iam" where
  "hard_delete_user ae i =
     tbind (ensure_user_mutation_allowed i True) (\<lambda>_.
     tbind (iam_sql (iam_write ae (\<lambda>_ t. (user_by_id i t \<noteq> None, delete_user_rows i t)))) (\<lambda>found.
       require found (IamNotFound ''user'')))"

section \<open>Groups and roles\<close>

record create_group_request =
  cg_name :: string
  cg_description :: "string option"
  cg_status :: "string option"

record update_group_request =
  ug_name :: "string option"
  ug_description :: "string option"
  ug_status :: "string option"

definition group_by_id :: "uuid \<Rightarrow> iam_tables \<Rightarrow> iam_group option" where
  "group_by_id i t = find (\<lambda>g. ig_id g = i) (it_groups t)"

definition iam_get_group :: "uuid \<Rightarrow> iam_group iam" where
  "iam_get_group i =
     tbind (iam_sql (iam_read (\<lambda>_ t. group_by_id i t))) (ok_or_raise (IamNotFound ''group''))"

definition iam_create_group :: "admin_env \<Rightarrow> create_group_request \<Rightarrow> iam_group iam" where
  "iam_create_group ae payload =
     tbind (require (trim (cg_name payload) \<noteq> []) (IamValidation ''name required'')) (\<lambda>_.
     tbind (lift_svc svc_uuid) (\<lambda>i.
     map_err map_db_error (sql (iam_write ae (\<lambda>now t.
       let g = \<lparr>ig_id = i, ig_name = trim (cg_name payload), ig_description = cg_description payload,
                ig_status = opt_else (cg_status payload) ''active'', ig_created_at = now, ig_updated_at = now\<rparr>
       in (g, t\<lparr>it_groups := it_groups t @ [g]\<rparr>))))))"

definition iam_update_group :: "admin_env \<Rightarrow> uuid \<Rightarrow> update_group_request \<Rightarrow> iam_group iam" where
  "iam_update_group ae i payload =
     tbind (iam_sql (iam_write ae (\<lambda>now t.
       let t' = t\<lparr>it_groups := map (\<lambda>g. if ig_id g = i then g\<lparr>
             ig_name := opt_else (ug_name payload) (ig_name g),
             ig_description := coalesce (ug_description payload) (ig_description g),
             ig_status := opt_else (ug_status payload) (ig_status g), ig_updated_at := now\<rparr> else g)
             (it_groups t)\<rparr>
       in (group_by_id i t', t'))))
       (ok_or_raise (IamNotFound ''group''))"

definition delete_group_rows :: "uuid \<Rightarrow> iam_tables \<Rightarrow> iam_tables" where
  "delete_group_rows i t = t\<lparr>
     it_groups := filter (\<lambda>g. ig_id g \<noteq> i) (it_groups t),
     it_members := filter (\<lambda>(g, u). g \<noteq> i) (it_members t),
     it_group_roles := filter (\<lambda>(g, r). g \<noteq> i) (it_group_roles t)\<rparr>"

definition iam_delete_group :: "admin_env \<Rightarrow> uuid \<Rightarrow> unit iam" where
  "iam_delete_group ae i =
     tbind (iam_sql (iam_write ae (\<lambda>_ t. (group_by_id i t \<noteq> None, delete_group_rows i t)))) (\<lambda>found.
       require found (IamNotFound ''group''))"

text \<open>The query leaves \<open>is_protected\<close> out, so the field takes its default.\<close>

definition list_group_members :: "admin_env \<Rightarrow> uuid \<Rightarrow> user_record list iam" where
  "list_group_members ae g =
     iam_sql (iam_read (\<lambda>_ t.
       map (\<lambda>u. (user_record_of u)\<lparr>ur_is_protected := False\<rparr>)
         (sort_key (\<lambda>u. case iu_email u of Some e \<Rightarrow> (0::nat, ae_collate ae e) | None \<Rightarrow> (1, []))
           (filter (\<lambda>u. (g, iu_id u) \<in> set (it_members t)) (it_users t)))))"

definition insert_pair :: "'a \<Rightarrow> 'a list \<Rightarrow> 'a list" where
  "insert_pair p ps = (if p \<in> set ps then ps else ps @ [p])"

definition add_group_member :: "admin_env \<Rightarrow> uuid \<Rightarrow> uuid \<Rightarrow> unit iam" where
  "add_group_member ae g i =
     iam_sql (iam_write ae (\<lambda>_ t. ((), t\<lparr>it_members := insert_pair (g, i) (it_members t)\<rparr>)))"

definition remove_group_member :: "admin_env \<Rightarrow> uuid \<Rightarrow> uuid \<Rightarrow> unit iam" where
  "remove_group_member ae g i =
     tbind (iam_sql (iam_write ae (\<lambda>_ t.
       ((g, i) \<in> set (it_members t), t\<lparr>it_members := filter (\<lambda>p. p \<noteq> (g, i)) (it_members t)\<rparr>)))) (\<lambda>found.
       require found (IamNotFound ''membership''))"

record role_record =
  rr_role :: iam_role
  rr_permissions :: "string list"

definition iam_list_roles :: "admin_env \<Rightarrow> role_record list iam" where
  "iam_list_roles ae =
     iam_sql (iam_read (\<lambda>_ t.
       map (\<lambda>r. \<lparr>rr_role = r,
                rr_permissions = map snd (filter (\<lambda>p. fst p = ir_id r) (it_role_permissions t))\<rparr>)
         (sort_key (\<lambda>r. ae_collate ae (ir_name r)) (it_roles t))))"

definition role_id_by_name :: "string \<Rightarrow> uuid iam" where
  "role_id_by_name role =
     tbind (iam_sql (iam_read (\<lambda>_ t. map_option ir_id (find (\<lambda>r. ir_name r = role) (it_roles t)))))
       (ok_or_raise (IamValidation (''unknown role: '' @ role)))"

definition names_in_order :: "admin_env \<Rightarrow> iam_tables \<Rightarrow> (uuid \<Rightarrow> bool) \<Rightarrow> string list" where
  "names_in_order ae t P =
     map ir_name (sort_key (\<lambda>r. ae_collate ae (ir_name r)) (filter (\<lambda>r. P (ir_id r)) (it_roles t)))"

definition user_roles :: "admin_env \<Rightarrow> uuid \<Rightarrow> string list iam" where
  "user_roles ae i = iam_sql (iam_read (\<lambda>_ t. names_in_order ae t (\<lambda>rid. rid \<in> user_role_ids t i)))"

definition group_roles :: "admin_env \<Rightarrow> uuid \<Rightarrow> string list iam" where
  "group_roles ae g = iam_sql (iam_read (\<lambda>_ t. names_in_order ae t (\<lambda>rid. (g, rid) \<in> set (it_group_roles t))))"

definition assign_role_to_user :: "admin_env \<Rightarrow> uuid \<Rightarrow> string \<Rightarrow> string list iam" where
  "assign_role_to_user ae i role =
     tbind (role_id_by_name role) (\<lambda>rid.
     tbind (iam_sql (iam_write ae (\<lambda>_ t. ((), t\<lparr>it_user_roles := insert_pair (i, rid) (it_user_roles t)\<rparr>)))) (\<lambda>_.
       user_roles ae i))"

definition revoke_role_from_user :: "admin_env \<Rightarrow> uuid \<Rightarrow> string \<Rightarrow> string list iam" where
  "revoke_role_from_user ae i role =
     tbind (if eq_ignore_ascii_case role ''policy-admin'' then ensure_user_mutation_allowed i True else ret ()) (\<lambda>_.
     tbind (role_id_by_name role) (\<lambda>rid.
     tbind (iam_sql (iam_write ae (\<lambda>_ t.
         ((), t\<lparr>it_user_roles := filter (\<lambda>p. p \<noteq> (i, rid)) (it_user_roles t)\<rparr>)))) (\<lambda>_.
       user_roles ae i)))"

definition assign_role_to_group :: "admin_env \<Rightarrow> uuid \<Rightarrow> string \<Rightarrow> string list iam" where
  "assign_role_to_group ae g role =
     tbind (role_id_by_name role) (\<lambda>rid.
     tbind (iam_sql (iam_write ae (\<lambda>_ t. ((), t\<lparr>it_group_roles := insert_pair (g, rid) (it_group_roles t)\<rparr>)))) (\<lambda>_.
       group_roles ae g))"

definition revoke_role_from_group :: "admin_env \<Rightarrow> uuid \<Rightarrow> string \<Rightarrow> string list iam" where
  "revoke_role_from_group ae g role =
     tbind (role_id_by_name role) (\<lambda>rid.
     tbind (iam_sql (iam_write ae (\<lambda>_ t.
         ((), t\<lparr>it_group_roles := filter (\<lambda>p. p \<noteq> (g, rid)) (it_group_roles t)\<rparr>)))) (\<lambda>_.
       group_roles ae g))"

section \<open>Effective permissions\<close>

definition access_of_roles :: "(iam_tables \<Rightarrow> uuid set) \<Rightarrow> effective_access iam" where
  "access_of_roles ids =
     tbind (iam_sql (iam_read (\<lambda>_ t. filter (\<lambda>r. ir_id r \<in> ids t) (it_roles t)))) (\<lambda>rows.
       let role_ids = map ir_id rows; role_names = set (map ir_name rows)
       in tbind (if role_ids = [] then ret {}
                 else iam_sql (iam_read (\<lambda>_ t.
                   snd ` set (filter (\<lambda>p. fst p \<in> set role_ids) (it_role_permissions t))))) (\<lambda>permissions.
          ret \<lparr>ea_roles = role_names, ea_permissions = permissions\<rparr>))"

definition effective_permissions_for_user :: "uuid \<Rightarrow> effective_access iam" where
  "effective_permissions_for_user i = access_of_roles (\<lambda>t. user_role_ids t i)"

definition effective_permissions_for_service_account :: "uuid \<Rightarrow> effective_access iam" where
  "effective_permissions_for_service_account i =
     access_of_roles (\<lambda>t. {rid. (i, rid) \<in> set (it_account_roles t)})"

section \<open>Service accounts\<close>

record create_service_account_request =
  cs_name :: string
  cs_description :: "string option"
  cs_roles :: "string list"
  cs_status :: "string option"
  cs_expires_at :: "time option"

record update_service_account_roles =
  us_roles :: "string list"
  us_expires_at :: "time option"

record service_account_record =
  sr_id :: uuid
  sr_name :: string
  sr_description :: "string option"
  sr_status :: string
  sr_token_hint :: "string option"
  sr_created_at :: time
  sr_last_rotated_at :: "time option"
  sr_expires_at :: "time option"

definition account_record_of :: "service_account \<Rightarrow> service_account_record" where
  "account_record_of a =
     \<lparr>sr_id = sa_id a, sr_name = sa_name a, sr_description = sa_description a, sr_status = sa_status a,
      sr_token_hint = sa_token_hint a, sr_created_at = sa_created_at a,
      sr_last_rotated_at = sa_last_rotated_at a, sr_expires_at = sa_expires_at a\<rparr>"

definition account_by_id :: "uuid \<Rightarrow> iam_tables \<Rightarrow> service_account option" where
  "account_by_id i t = find (\<lambda>a. sa_id a = i) (it_accounts t)"

definition get_service_account :: "uuid \<Rightarrow> service_account_record iam" where
  "get_service_account i =
     tbind (iam_sql (iam_read (\<lambda>_ t. map_option account_record_of (account_by_id i t))))
       (ok_or_raise (IamNotFound ''service_account''))"

definition default_service_account_expiry :: "admin_env \<Rightarrow> (iam_tables, time) svc" where
  "default_service_account_expiry ae =
     now_plus ae (86400 * nat (max (opt_else (Option.bind (ae_env ae ''OD_IAM_SERVICE_TOKEN_TTL_DAYS'') parse_i64) 90) 1))"

definition role_ids_by_name :: "string list \<Rightarrow> uuid list iam" where
  "role_ids_by_name roles =
     (if roles = [] then ret []
      else tbind (iam_sql (iam_read (\<lambda>_ t. filter (\<lambda>r. ir_name r \<in> set roles) (it_roles t)))) (\<lambda>rows.
        let missing = filter (\<lambda>r. r \<notin> set (map ir_name rows)) roles
        in tbind (require (missing = []) (IamValidation (''unknown role(s): '' @ join_str '', '' missing)))
             (\<lambda>_. ret (map ir_id rows))))"

definition replace_service_account_roles :: "admin_env \<Rightarrow> uuid \<Rightarrow> string list \<Rightarrow> unit iam" where
  "replace_service_account_roles ae i roles =
     tbind (role_ids_by_name roles) (\<lambda>role_ids.
     iam_sql (svc_tx (svc_bind (iam_write ae (\<lambda>_ t.
         ((), t\<lparr>it_account_roles := filter (\<lambda>p. fst p \<noteq> i) (it_account_roles t)\<rparr>))) (\<lambda>_.
       svc_each (\<lambda>rid. iam_write ae (\<lambda>_ t.
         ((), t\<lparr>it_account_roles := it_account_roles t @ [(i, rid)]\<rparr>))) role_ids))))"

definition create_service_account ::
  "admin_env \<Rightarrow> create_service_account_request \<Rightarrow> (service_account_record \<times> string) iam" where
  "create_service_account ae payload =
     tbind (require (trim (cs_name payload) \<noteq> []) (IamValidation ''name required'')) (\<lambda>_.
     tbind (lift_svc (generate_token ae)) (\<lambda>token.
     tbind (hash_token ae token) (\<lambda>hash.
     tbind (lift_svc (svc_lift (token_hint token))) (\<lambda>hint.
     tbind (case cs_expires_at payload of Some e \<Rightarrow> ret e
            | None \<Rightarrow> lift_svc (default_service_account_expiry ae)) (\<lambda>expires_at.
     tbind (lift_svc svc_uuid) (\<lambda>i.
     tbind (map_err map_db_error (sql (iam_write ae (\<lambda>now t.
       let a = \<lparr>sa_id = i, sa_name = trim (cs_name payload), sa_description = cs_description payload,
                sa_token_hash = hash, sa_token_hint = Some hint,
                sa_status = opt_else (cs_status payload) ''active'', sa_created_at = now,
                sa_last_rotated_at = Some now, sa_expires_at = Some expires_at\<rparr>
       in (account_record_of a, t\<lparr>it_accounts := it_accounts t @ [a]\<rparr>))))) (\<lambda>account.
     tbind (if cs_roles payload \<noteq> [] then replace_service_account_roles ae (sr_id account) (cs_roles payload)
            else ret ()) (\<lambda>_.
       ret (account, token)))))))))"

definition rotate_service_account ::
  "admin_env \<Rightarrow> uuid \<Rightarrow> update_service_account_roles option \<Rightarrow> (service_account_record \<times> string) iam" where
  "rotate_service_account ae i payload =
     tbind (lift_svc (generate_token ae)) (\<lambda>token.
     tbind (hash_token ae token) (\<lambda>hash.
     tbind (lift_svc (svc_lift (token_hint token))) (\<lambda>hint.
     tbind (case Option.bind payload us_expires_at of Some e \<Rightarrow> ret e
            | None \<Rightarrow> lift_svc (default_service_account_expiry ae)) (\<lambda>expires_at.
     tbind (iam_sql (iam_write ae (\<lambda>now t.
       let t' = t\<lparr>it_accounts := map (\<lambda>a. if sa_id a = i then a\<lparr>sa_token_hash := hash,
             sa_token_hint := Some hint, sa_last_rotated_at := Some now, sa_expires_at := Some expires_at\<rparr>
             else a) (it_accounts t)\<rparr>
       in (map_option account_record_of (account_by_id i t'), t')))) (\<lambda>updated.
     tbind (ok_or_raise (IamNotFound ''service_account'') updated) (\<lambda>account.
     tbind (case payload of
              Some update \<Rightarrow> (if us_roles update \<noteq> []
                then replace_service_account_roles ae (sr_id account) (us_roles update) else ret ())
            | None \<Rightarrow> ret ()) (\<lambda>_.
       ret (account, token))))))))"

definition disable_service_account :: "admin_env \<Rightarrow> uuid \<Rightarrow> unit iam" where
  "disable_service_account ae i =
     tbind (iam_sql (iam_write ae (\<lambda>_ t. (account_by_id i t \<noteq> None,
       t\<lparr>it_accounts := map (\<lambda>a. if sa_id a = i then a\<lparr>sa_status := ''disabled''\<rparr> else a) (it_accounts t)\<rparr>)))) (\<lambda>found.
       require found (IamNotFound ''service_account''))"

definition service_account_roles :: "admin_env \<Rightarrow> uuid \<Rightarrow> string list iam" where
  "service_account_roles ae i =
     iam_sql (iam_read (\<lambda>_ t. names_in_order ae t (\<lambda>rid. (i, rid) \<in> set (it_account_roles t))))"

definition not_expired :: "time \<Rightarrow> time option \<Rightarrow> bool" where
  "not_expired now expires_at = (case expires_at of None \<Rightarrow> True | Some e \<Rightarrow> now < e)"

fun match_accounts :: "admin_env \<Rightarrow> string \<Rightarrow> service_account list \<Rightarrow> service_account_principal option iam" where
  "match_accounts ae token [] = ret None"
| "match_accounts ae token (a # as) =
     tbind (verify_hash ae token (sa_token_hash a)) (\<lambda>valid.
       if valid then
         tbind (effective_permissions_for_service_account (sa_id a)) (\<lambda>access.
           ret (Some \<lparr>sp_id = sa_id a, sp_name = sa_name a, sp_roles = ea_roles access,
                      sp_permissions = ea_permissions access\<rparr>))
       else match_accounts ae token as)"

definition verify_service_token :: "admin_env \<Rightarrow> string \<Rightarrow> service_account_principal option iam" where
  "verify_service_token ae token =
     tbind (lift_svc (svc_lift (token_hint token))) (\<lambda>hint.
     tbind (iam_sql (iam_read (\<lambda>now t. filter (\<lambda>a. sa_status a = ''active'' \<and> sa_token_hint a = Some hint \<and>
         not_expired now (sa_expires_at a)) (it_accounts t))))
       (match_accounts ae token))"

section \<open>The audit trail\<close>

definition record_iam_event ::
  "admin_env \<Rightarrow> string option \<Rightarrow> string \<Rightarrow> string \<Rightarrow> string option \<Rightarrow> json \<Rightarrow> (iam_tables, 'e + unit) svc" where
  "record_iam_event ae actor action target_type target_id payload =
     tbind (lift_svc svc_uuid) (\<lambda>i.
     best_effort (iam_write ae (\<lambda>now t. ((), t\<lparr>it_audit := it_audit t @
       [\<lparr>ia_id = i, ia_actor = actor, ia_action = action, ia_target_type = Some target_type,
         ia_target_id = target_id, ia_payload = payload, ia_created_at = now\<rparr>]\<rparr>))))"

text \<open>
  The general audit log is written by a task of its own; nothing else reads it, so it is taken
  to be written at once.  The export to Elasticsearch is left out.
\<close>

definition audit_logger_log ::
  "admin_env \<Rightarrow> string option \<Rightarrow> string \<Rightarrow> string option \<Rightarrow> string option \<Rightarrow> json option \<Rightarrow>
   (iam_tables, 'e + unit) svc" where
  "audit_logger_log ae actor action target_type target_id payload =
     tbind (lift_svc svc_uuid) (\<lambda>i.
     best_effort (iam_write ae (\<lambda>_ t. ((), t\<lparr>it_audit_events := it_audit_events t @
       [\<lparr>ad_id = i, ad_actor = actor, ad_action = action, ad_target_type = target_type,
         ad_target_id = target_id, ad_payload = payload\<rparr>]\<rparr>))))"

definition log_iam_event ::
  "admin_env \<Rightarrow> string \<Rightarrow> string option \<Rightarrow> string \<Rightarrow> string option \<Rightarrow> json \<Rightarrow> (iam_tables, 'e + unit) svc" where
  "log_iam_event ae action actor target_type target_id payload =
     tbind (record_iam_event ae actor action target_type target_id payload) (\<lambda>_.
       audit_logger_log ae actor action (Some target_type) target_id (Some payload))"

section \<open>Passwords and logins\<close>

text \<open>The bootstrap of the first administrator, within one transaction.\<close>

definition insert_default_admin :: "admin_env \<Rightarrow> uuid \<Rightarrow> string \<Rightarrow> (iam_tables, uuid) svc" where
  "insert_default_admin ae i password_hash =
     iam_write ae (\<lambda>now t.
       case find (\<lambda>u. iu_email u = Some ''admin@local'') (it_users t) of
         Some old \<Rightarrow> (iu_id old, update_users (iu_id old) (\<lambda>u. u\<lparr>
           iu_username := coalesce (iu_username u) (Some ''admin''),
           iu_password_hash := coalesce (iu_password_hash u) (Some password_hash),
           iu_password_updated_at := coalesce (iu_password_updated_at u) (Some now),
           iu_is_protected := True\<rparr>) t)
       | None \<Rightarrow> (i, t\<lparr>it_users := it_users t @ [\<lparr>iu_id = i, iu_username = Some ''admin'', iu_subject = None,
           iu_email = Some ''admin@local'', iu_display_name = Some ''Default Admin'', iu_status = ''active'',
           iu_is_protected = True, iu_password_hash = Some password_hash, iu_password_updated_at = Some now,
           iu_must_change_password = True, iu_failed_login_attempts = 0, iu_locked_until = None,
           iu_token_version = 1, iu_last_login_at = None, iu_created_at = now, iu_updated_at = now\<rparr>]\<rparr>))"

definition bootstrap_local_admin :: "admin_env \<Rightarrow> string \<Rightarrow> unit iam" where
  "bootstrap_local_admin ae default_password =
     tbind (require (trim default_password \<noteq> []) (IamValidation ''OD_DEFAULT_ADMIN_PASSWORD cannot be empty'')) (\<lambda>_.
     tbind (iam_sql (iam_read (\<lambda>_ t. list_ex (\<lambda>u. iu_status u = ''active'' \<and>
         list_ex (\<lambda>(i, rid). i = iu_id u \<and> role_named t rid ROLE_POLICY_ADMIN) (it_user_roles t)) (it_users t)))) (\<lambda>present.
       if present then ret ()
       else tbind (hash_token ae default_password) (\<lambda>password_hash.
         tbind (lift_svc svc_uuid) (\<lambda>user_id.
         iam_sql (svc_tx (svc_bind (insert_default_admin ae user_id password_hash) (\<lambda>admin_id.
           svc_bind (iam_read (\<lambda>_ t. map_option ir_id (find (\<lambda>r. ir_name r = ROLE_POLICY_ADMIN) (it_roles t)))) (\<lambda>role.
             case role of None \<Rightarrow> svc_fail (Error ''no rows returned'')
             | Some rid \<Rightarrow> iam_write ae (\<lambda>_ t.
                 ((), t\<lparr>it_user_roles := insert_pair (admin_id, rid) (it_user_roles t)\<rparr>))))))))))"

definition login_matches :: "admin_env \<Rightarrow> string \<Rightarrow> iam_user \<Rightarrow> bool" where
  "login_matches ae name u \<longleftrightarrow>
     map_option (ae_sql_lower ae) (iu_email u) = Some (ae_sql_lower ae name) \<or>
     ae_sql_lower ae (opt_else (iu_username u) []) = ae_sql_lower ae name"

definition authenticate_local_user ::
  "admin_env \<Rightarrow> string \<Rightarrow> string \<Rightarrow> i32 \<Rightarrow> int \<Rightarrow> local_authenticated_user iam" where
  "authenticate_local_user ae username_or_email password max_failed_attempts lockout_seconds =
     tbind (iam_sql (iam_read (\<lambda>_ t. find (login_matches ae (trim username_or_email)) (it_users t)))) (\<lambda>found.
     tbind (ok_or_raise IamInvalidCredentials found) (\<lambda>row.
     tbind (require (iu_status row = ''active'') IamDisabled) (\<lambda>_.
     tbind (lift_svc (svc_get sb_now)) (\<lambda>now.
     tbind (case iu_locked_until row of
              Some until \<Rightarrow> require (\<not> now < until) (IamLocked until) | None \<Rightarrow> ret ()) (\<lambda>_.
     tbind (ok_or_raise IamInvalidCredentials (iu_password_hash row)) (\<lambda>hash.
     tbind (verify_hash ae password hash) (\<lambda>valid.
       if \<not> valid then
         (let failed = iu_failed_login_attempts row + 1
          in tbind (if sint max_failed_attempts \<le> sint failed
                    then tbind (lift_svc (now_plus ae (nat (max lockout_seconds 1)))) (\<lambda>until. ret (Some until))
                    else ret None) (\<lambda>lock_until.
             tbind (iam_sql (write_user ae (iu_id row) (\<lambda>now u. u\<lparr>iu_failed_login_attempts := failed,
                      iu_locked_until := lock_until, iu_updated_at := now\<rparr>))) (\<lambda>_.
               raise IamInvalidCredentials)))
       else
         tbind (iam_sql (write_user ae (iu_id row) (\<lambda>now u. u\<lparr>iu_failed_login_attempts := 0,
                  iu_locked_until := None, iu_last_login_at := Some now, iu_updated_at := now\<rparr>))) (\<lambda>_.
         tbind (effective_permissions_for_user (iu_id row)) (\<lambda>access.
           ret \<lparr>la_id = iu_id row, la_username = iu_username row,
                la_email = opt_else (iu_email row) (opt_else (iu_username row) []),
                la_display_name = iu_display_name row, la_roles = ea_roles access,
                la_permissions = ea_permissions access,
                la_must_change_password = iu_must_change_password row,
                la_token_version = iu_token_version row\<rparr>)))))))))"

definition user_token_version :: "uuid \<Rightarrow> int iam" where
  "user_token_version i =
     tbind (iam_sql (iam_read (\<lambda>_ t. map_option iu_token_version (user_by_id i t))))
       (ok_or_raise (IamNotFound ''user''))"

definition set_user_password :: "admin_env \<Rightarrow> uuid \<Rightarrow> string \<Rightarrow> bool \<Rightarrow> unit iam" where
  "set_user_password ae i password must_change_password =
     tbind (require (trim password \<noteq> []) (IamValidation ''password is required'')) (\<lambda>_.
     tbind (require (8 \<le> length (trim password)) (IamValidation ''password must be at least 8 characters'')) (\<lambda>_.
     tbind (hash_token ae (trim password)) (\<lambda>hash.
     tbind (iam_sql (write_user ae i (\<lambda>now u. u\<lparr>iu_password_hash := Some hash,
              iu_password_updated_at := Some now, iu_must_change_password := must_change_password,
              iu_token_version := iu_token_version u + 1, iu_failed_login_attempts := 0,
              iu_locked_until := None, iu_updated_at := now\<rparr>))) (\<lambda>found.
       require found (IamNotFound ''user'')))))"

definition change_password :: "admin_env \<Rightarrow> uuid \<Rightarrow> string \<Rightarrow> string \<Rightarrow> unit iam" where
  "change_password ae i current_password new_password =
     tbind (iam_sql (iam_read (\<lambda>_ t. map_option iu_password_hash (user_by_id i t)))) (\<lambda>row.
     tbind (ok_or_raise (IamNotFound ''user'') row) (\<lambda>stored.
     tbind (ok_or_raise IamInvalidCredentials stored) (\<lambda>existing.
     tbind (verify_hash ae current_password existing) (\<lambda>valid.
     tbind (require valid IamInvalidCredentials) (\<lambda>_.
       set_user_password ae i new_password False)))))"

section \<open>API tokens of users\<close>

record create_user_token_request =
  ct_name :: string
  ct_expires_at :: "time option"

record user_token_record =
  tr_id :: uuid
  tr_user_id :: uuid
  tr_name :: string
  tr_token_hint :: "string option"
  tr_status :: string
  tr_created_at :: time
  tr_last_used_at :: "time option"
  tr_expires_at :: "time option"

definition token_record_of :: "user_token \<Rightarrow> user_token_record" where
  "token_record_of x =
     \<lparr>tr_id = ut_id x, tr_user_id = ut_user_id x, tr_name = ut_name x, tr_token_hint = ut_token_hint x,
      tr_status = ut_status x, tr_created_at = ut_created_at x, tr_last_used_at = ut_last_used_at x,
      tr_expires_at = ut_expires_at x\<rparr>"

definition create_user_token ::
  "admin_env \<Rightarrow> uuid \<Rightarrow> create_user_token_request \<Rightarrow> (string \<times> user_token_record) iam" where
  "create_user_token ae i payload =
     tbind (require (trim (ct_name payload) \<noteq> []) (IamValidation ''token name is required'')) (\<lambda>_.
     tbind (lift_svc (generate_token ae)) (\<lambda>token.
     tbind (hash_token ae token) (\<lambda>hash.
     tbind (lift_svc (svc_lift (token_hint token))) (\<lambda>hint.
     tbind (lift_svc svc_uuid) (\<lambda>tid.
     tbind (map_err map_db_error (sql (iam_write ae (\<lambda>now t.
       let x = \<lparr>ut_id = tid, ut_user_id = i, ut_name = trim (ct_name payload), ut_token_hash = hash,
                ut_token_hint = Some hint, ut_status = ''active'', ut_created_at = now,
                ut_last_used_at = None, ut_expires_at = ct_expires_at payload\<rparr>
       in (token_record_of x, t\<lparr>it_user_tokens := it_user_tokens t @ [x]\<rparr>))))) (\<lambda>record.
       ret (token, record)))))))"

text \<open>Rows of equal creation time come in the order of the table.\<close>

definition list_user_tokens :: "uuid \<Rightarrow> user_token_record list iam" where
  "list_user_tokens i =
     iam_sql (iam_read (\<lambda>_ t. map token_record_of (rev (sort_key ut_created_at
       (rev (filter (\<lambda>x. ut_user_id x = i) (it_user_tokens t)))))))"

definition revoke_user_token :: "admin_env \<Rightarrow> uuid \<Rightarrow> uuid \<Rightarrow> unit iam" where
  "revoke_user_token ae i token_id =
     tbind (iam_sql (iam_write ae (\<lambda>_ t.
       (list_ex (\<lambda>x. ut_id x = token_id \<and> ut_user_id x = i) (it_user_tokens t),
        t\<lparr>it_user_tokens := map (\<lambda>x. if ut_id x = token_id \<and> ut_user_id x = i
            then x\<lparr>ut_status := ''disabled''\<rparr> else x) (it_user_tokens t)\<rparr>)))) (\<lambda>found.
       require found (IamNotFound ''user_token''))"

fun match_user_tokens ::
  "admin_env \<Rightarrow> string \<Rightarrow> (user_token \<times> iam_user) list \<Rightarrow> local_authenticated_user option iam" where
  "match_user_tokens ae token [] = ret None"
| "match_user_tokens ae token ((x, u) # rest) =
     tbind (lift_svc (svc_get sb_now)) (\<lambda>now.
       if \<not> not_expired now (ut_expires_at x) then match_user_tokens ae token rest
       else tbind (verify_hash ae token (ut_token_hash x)) (\<lambda>valid.
         if \<not> valid then match_user_tokens ae token rest
         else if iu_status u \<noteq> ''active'' then match_user_tokens ae token rest
         else tbind (effective_permissions_for_user (ut_user_id x)) (\<lambda>access.
           tbind (best_effort (iam_write ae (\<lambda>now t. ((), t\<lparr>it_user_tokens := map (\<lambda>y.
               if ut_id y = ut_id x then y\<lparr>ut_last_used_at := Some now\<rparr> else y) (it_user_tokens t)\<rparr>)))) (\<lambda>_.
           ret (Some \<lparr>la_id = ut_user_id x, la_username = iu_username u,
                     la_email = opt_else (iu_email u) (opt_else (iu_username u) []),
                     la_display_name = iu_display_name u, la_roles = ea_roles access,
                     la_permissions = ea_permissions access, la_must_change_password = False,
                     la_token_version = iu_token_version u\<rparr>)))))"

definition token_candidates :: "string \<Rightarrow> iam_tables \<Rightarrow> (user_token \<times> iam_user) list" where
  "token_candidates hint t =
     concat (map (\<lambda>x. case user_by_id (ut_user_id x) t of None \<Rightarrow> [] | Some u \<Rightarrow> [(x, u)])
       (filter (\<lambda>x. ut_status x = ''active'' \<and> ut_token_hint x = Some hint) (it_user_tokens t)))"

definition verify_user_token :: "admin_env \<Rightarrow> string \<Rightarrow> local_authenticated_user option iam" where
  "verify_user_token ae token =
     tbind (lift_svc (svc_lift (token_hint token))) (\<lambda>hint.
     tbind (iam_sql (iam_read (\<lambda>_ t. token_candidates hint t))) (match_user_tokens ae token))"

end
