(* ===== verification/Iam_Routes.thy ===== *)
theory Iam_Routes
  imports Iam_Service Admin_Pages
begin

text \<open>
  The request handlers of \<^verbatim>\<open>services/admin-api/src/iam.rs\<close>, and the part of the router in
  \<^verbatim>\<open>services/admin-api/src/main.rs\<close> that leads to them.  Every handler checks the roles of the caller first,
  calls the service, maps its errors to a status, and writes the audit trail.
\<close>

section \<open>Answers\<close>

record user_details =
  ud_user :: user_record
  ud_roles :: "string list"
  ud_groups :: "iam_group list"

record group_details =
  gd_group :: iam_group
  gd_members :: "user_record list"
  gd_roles :: "string list"

record service_account_details =
  sd_account :: service_account_record
  sd_roles :: "string list"

record service_account_with_token =
  st_account :: service_account_record
  st_token :: string
  st_roles :: "string list"

record who_am_i =
  wi_actor :: string
  wi_principal_type :: principal_type
  wi_principal_id :: "uuid option"
  wi_roles :: "string set"
  wi_permissions :: "string set"
  wi_username :: "string option"
  wi_email :: "string option"
  wi_display_name :: "string option"
  wi_must_change_password :: "bool option"

record list_query =
  lq_limit :: "nat option"
  lq_cursor :: "string option"

abbreviation iam_route :: "admin_env \<Rightarrow> 'a iam \<Rightarrow> (iam_tables, 'a) route" where
  "iam_route ae m \<equiv> map_err (map_iam_error ae) m"

text \<open>A query of a handler itself.\<close>

abbreviation route_sql :: "admin_env \<Rightarrow> (iam_tables, 'a) svc \<Rightarrow> (iam_tables, 'a) route" where
  "route_sql ae m \<equiv> map_err (\<lambda>s. map_iam_error ae (map_db_error s)) (sql m)"

definition uuid_json :: "admin_env \<Rightarrow> uuid \<Rightarrow> json" where
  "uuid_json ae i = JStr (uuid_to_string (ae_ex ae) i)"

definition audit :: "admin_env \<Rightarrow> api_user_context \<Rightarrow> string \<Rightarrow> string \<Rightarrow> uuid \<Rightarrow> (string \<times> json) list \<Rightarrow> (iam_tables, unit) route" where
  "audit ae ctx action target_type i payload =
     log_iam_event ae action (Some (cx_actor ctx)) target_type (Some (uuid_to_string (ae_ex ae) i)) (JObj payload)"

definition groups_of_user :: "admin_env \<Rightarrow> uuid \<Rightarrow> (iam_tables, iam_group list) route" where
  "groups_of_user ae i =
     route_sql ae (iam_read (\<lambda>_ t. sort_key (\<lambda>g. ae_collate ae (ig_name g))
       (filter (\<lambda>g. (ig_id g, i) \<in> set (it_members t)) (it_groups t))))"

fun collect :: "('a \<Rightarrow> (iam_tables, 'b) route) \<Rightarrow> 'a list \<Rightarrow> (iam_tables, 'b list) route" where
  "collect f [] = ret []"
| "collect f (x # xs) = tbind (f x) (\<lambda>y. tbind (collect f xs) (\<lambda>ys. ret (y # ys)))"

section \<open>Cursors\<close>

definition time_of_json :: "admin_env \<Rightarrow> json \<Rightarrow> time option" where
  "time_of_json ae j = Option.bind (string_of_json j) (ae_time_parse ae)"

definition uuid_of_json :: "admin_env \<Rightarrow> json \<Rightarrow> uuid option" where
  "uuid_of_json ae j = Option.bind (string_of_json j) (uuid_parse (ae_ex ae))"

text \<open>The cursors of users and audit events, and those of groups and service accounts.\<close>

definition time_cursor_to_json :: "admin_env \<Rightarrow> time \<times> uuid \<Rightarrow> json" where
  "time_cursor_to_json ae c = JObj [(''created_at'', JStr (ae_rfc3339 ae (fst c))), (''id'', uuid_json ae (snd c))]"

definition time_cursor_of_json :: "admin_env \<Rightarrow> json \<Rightarrow> (time \<times> uuid) option" where
  "time_cursor_of_json ae j =
     Option.bind (fields_of [''created_at'', ''id''] j) (\<lambda>fs.
     Option.bind (req_field (time_of_json ae) ''created_at'' fs) (\<lambda>t.
     Option.bind (req_field (uuid_of_json ae) ''id'' fs) (\<lambda>i. Some (t, i))))"

definition name_cursor_to_json :: "admin_env \<Rightarrow> string \<times> uuid \<Rightarrow> json" where
  "name_cursor_to_json ae c = JObj [(''name'', JStr (fst c)), (''id'', uuid_json ae (snd c))]"

definition name_cursor_of_json :: "admin_env \<Rightarrow> json \<Rightarrow> (string \<times> uuid) option" where
  "name_cursor_of_json ae j =
     Option.bind (fields_of [''name'', ''id''] j) (\<lambda>fs.
     Option.bind (req_field string_of_json ''name'' fs) (\<lambda>n.
     Option.bind (req_field (uuid_of_json ae) ''id'' fs) (\<lambda>i. Some (n, i))))"

text \<open>An empty name stands for no anchor.\<close>

definition name_anchor :: "admin_env \<Rightarrow> (string \<times> uuid) option \<Rightarrow> (nat list \<times> uuid) option" where
  "name_anchor ae c = (case c of None \<Rightarrow> None | Some (n, i) \<Rightarrow> if n = [] then None else Some (ae_collate ae n, i))"

section \<open>Users\<close>

definition user_details_of :: "admin_env \<Rightarrow> user_record \<Rightarrow> (iam_tables, user_details) route" where
  "user_details_of ae u =
     tbind (iam_route ae (user_roles ae (ur_id u))) (\<lambda>roles.
     tbind (groups_of_user ae (ur_id u)) (\<lambda>groups.
       ret \<lparr>ud_user = u, ud_roles = roles, ud_groups = groups\<rparr>))"

definition list_users_route ::
  "admin_env \<Rightarrow> api_user_context \<Rightarrow> list_query \<Rightarrow> (iam_tables, user_details cursor_paged) route" where
  "list_users_route ae ctx query =
     tbind (guard_roles ctx ROLE_IAM_VIEW) (\<lambda>_.
     let limit = cursor_limit (lq_limit query)
     in tbind (read_cursor ae (time_cursor_of_json ae) (lq_cursor query)) (\<lambda>(direction, anchor).
        tbind (route_sql ae (iam_read (\<lambda>_ t. map user_record_of
          (window (direction = CursorPrev) (\<lambda>u. (iu_created_at u, iu_id u)) anchor (limit + 1) (it_users t))))) (\<lambda>fetched.
        let (has_more, users) = page_rows direction limit fetched
        in tbind (collect (user_details_of ae) users) (\<lambda>results.
           let (next_cursor, prev_cursor) = page_cursors ae (time_cursor_to_json ae)
                 (\<lambda>d. (ur_created_at (ud_user d), ur_id (ud_user d))) (lq_cursor query) has_more results
           in ret (new_with_prev results limit has_more next_cursor prev_cursor)))))"

definition create_user_route ::
  "admin_env \<Rightarrow> api_user_context \<Rightarrow> create_user_request \<Rightarrow> (iam_tables, user_details) route" where
  "create_user_route ae ctx payload =
     tbind (guard_roles ctx ROLE_IAM_ADMIN) (\<lambda>_.
     tbind (iam_route ae (iam_create_user ae payload)) (\<lambda>u.
     tbind (audit ae ctx ''iam.user.create'' ''user'' (ur_id u)
       [(''username'', opt_to_json JStr (ur_username u)), (''email'', opt_to_json JStr (ur_email u)),
        (''status'', JStr (ur_status u))]) (\<lambda>_.
       ret \<lparr>ud_user = u, ud_roles = [], ud_groups = []\<rparr>)))"

definition get_user_route :: "admin_env \<Rightarrow> api_user_context \<Rightarrow> uuid \<Rightarrow> (iam_tables, user_details) route" where
  "get_user_route ae ctx i =
     tbind (guard_roles ctx ROLE_IAM_VIEW) (\<lambda>_.
     tbind (iam_route ae (iam_get_user i)) (\<lambda>u.
     tbind (iam_route ae (user_roles ae i)) (\<lambda>roles.
     tbind (groups_of_user ae i) (\<lambda>groups.
       ret \<lparr>ud_user = u, ud_roles = roles, ud_groups = groups\<rparr>))))"

definition update_user_route ::
  "admin_env \<Rightarrow> api_user_context \<Rightarrow> uuid \<Rightarrow> update_user_request \<Rightarrow> (iam_tables, user_details) route" where
  "update_user_route ae ctx i payload =
     tbind (guard_roles ctx ROLE_IAM_ADMIN) (\<lambda>_.
     tbind (iam_route ae (iam_update_user ae i payload)) (\<lambda>u.
     tbind (iam_route ae (user_roles ae i)) (\<lambda>roles.
     tbind (groups_of_user ae i) (\<lambda>groups.
     tbind (audit ae ctx ''iam.user.update'' ''user'' i [(''status'', JStr (ur_status u))]) (\<lambda>_.
       ret \<lparr>ud_user = u, ud_roles = roles, ud_groups = groups\<rparr>)))))"

definition delete_user_route :: "admin_env \<Rightarrow> api_user_context \<Rightarrow> uuid \<Rightarrow> bool option \<Rightarrow> (iam_tables, nat) route" where
  "delete_user_route ae ctx i hard =
     tbind (guard_roles ctx ROLE_IAM_ADMIN) (\<lambda>_.
       if opt_else hard False then
         tbind (iam_route ae (hard_delete_user ae i)) (\<lambda>_.
         tbind (audit ae ctx ''iam.user.delete'' ''user'' i [(''hard'', JBool True)]) (\<lambda>_. ret 204))
       else
         tbind (iam_route ae (iam_disable_user ae i)) (\<lambda>_.
         tbind (audit ae ctx ''iam.user.disable'' ''user'' i []) (\<lambda>_. ret 204)))"

definition disable_user_route :: "admin_env \<Rightarrow> api_user_context \<Rightarrow> uuid \<Rightarrow> (iam_tables, nat) route" where
  "disable_user_route ae ctx i =
     tbind (guard_roles ctx ROLE_IAM_ADMIN) (\<lambda>_.
     tbind (iam_route ae (iam_disable_user ae i)) (\<lambda>_.
     tbind (audit ae ctx ''iam.user.disable'' ''user'' i []) (\<lambda>_. ret 204)))"

definition enable_user_route :: "admin_env \<Rightarrow> api_user_context \<Rightarrow> uuid \<Rightarrow> (iam_tables, nat) route" where
  "enable_user_route ae ctx i =
     tbind (guard_roles ctx ROLE_IAM_ADMIN) (\<lambda>_.
     tbind (iam_route ae (iam_enable_user ae i)) (\<lambda>_.
     tbind (audit ae ctx ''iam.user.enable'' ''user'' i []) (\<lambda>_. ret 204)))"

definition set_user_password_route ::
  "admin_env \<Rightarrow> api_user_context \<Rightarrow> uuid \<Rightarrow> string \<Rightarrow> bool option \<Rightarrow> (iam_tables, nat) route" where
  "set_user_password_route ae ctx i password must_change =
     tbind (guard_roles ctx ROLE_IAM_ADMIN) (\<lambda>_.
     tbind (iam_route ae (set_user_password ae i password (opt_else must_change True))) (\<lambda>_.
     tbind (audit ae ctx ''iam.user.password.set'' ''user'' i
       [(''must_change_password'', JBool (opt_else must_change True))]) (\<lambda>_. ret 204)))"

definition create_user_token_route ::
  "admin_env \<Rightarrow> api_user_context \<Rightarrow> uuid \<Rightarrow> create_user_token_request \<Rightarrow> (iam_tables, string \<times> user_token_record) route" where
  "create_user_token_route ae ctx i payload =
     tbind (guard_roles ctx ROLE_IAM_ADMIN) (\<lambda>_.
     tbind (iam_route ae (create_user_token ae i payload)) (\<lambda>created.
     tbind (audit ae ctx ''iam.user.token.create'' ''user'' i
       [(''token_name'', JStr (tr_name (snd created))), (''token_id'', uuid_json ae (tr_id (snd created)))]) (\<lambda>_.
       ret created)))"

definition list_user_tokens_route ::
  "admin_env \<Rightarrow> api_user_context \<Rightarrow> uuid \<Rightarrow> (iam_tables, user_token_record list) route" where
  "list_user_tokens_route ae ctx i =
     tbind (guard_roles ctx ROLE_IAM_VIEW) (\<lambda>_. iam_route ae (list_user_tokens i))"

definition revoke_user_token_route :: "admin_env \<Rightarrow> api_user_context \<Rightarrow> uuid \<Rightarrow> uuid \<Rightarrow> (iam_tables, nat) route" where
  "revoke_user_token_route ae ctx i token_id =
     tbind (guard_roles ctx ROLE_IAM_ADMIN) (\<lambda>_.
     tbind (iam_route ae (revoke_user_token ae i token_id)) (\<lambda>_.
     tbind (audit ae ctx ''iam.user.token.revoke'' ''user'' i [(''token_id'', uuid_json ae token_id)]) (\<lambda>_. ret 204)))"

section \<open>Groups\<close>

definition group_details_of :: "admin_env \<Rightarrow> iam_group \<Rightarrow> (iam_tables, group_details) route" where
  "group_details_of ae g =
     tbind (iam_route ae (list_group_members ae (ig_id g))) (\<lambda>members.
     tbind (iam_route ae (group_roles ae (ig_id g))) (\<lambda>roles.
       ret \<lparr>gd_group = g, gd_members = members, gd_roles = roles\<rparr>))"

definition list_groups_route ::
  "admin_env \<Rightarrow> api_user_context \<Rightarrow> list_query \<Rightarrow> (iam_tables, group_details cursor_paged) route" where
  "list_groups_route ae ctx query =
     tbind (guard_roles ctx ROLE_IAM_VIEW) (\<lambda>_.
     let limit = cursor_limit (lq_limit query)
     in tbind (read_cursor ae (name_cursor_of_json ae) (lq_cursor query)) (\<lambda>(direction, anchor).
        tbind (route_sql ae (iam_read (\<lambda>_ t.
          window (direction = CursorNext) (\<lambda>g. (ae_collate ae (ig_name g), ig_id g)) (name_anchor ae anchor)
            (limit + 1) (it_groups t)))) (\<lambda>fetched.
        let (has_more, groups) = page_rows direction limit fetched
        in tbind (collect (group_details_of ae) groups) (\<lambda>results.
           let (next_cursor, prev_cursor) = page_cursors ae (name_cursor_to_json ae)
                 (\<lambda>d. (ig_name (gd_group d), ig_id (gd_group d))) (lq_cursor query) has_more results
           in ret (new_with_prev results limit has_more next_cursor prev_cursor)))))"

definition create_group_route ::
  "admin_env \<Rightarrow> api_user_context \<Rightarrow> create_group_request \<Rightarrow> (iam_tables, group_details) route" where
  "create_group_route ae ctx payload =
     tbind (guard_roles ctx ROLE_IAM_ADMIN) (\<lambda>_.
     tbind (iam_route ae (iam_create_group ae payload)) (\<lambda>g.
     tbind (audit ae ctx ''iam.group.create'' ''group'' (ig_id g) [(''name'', JStr (ig_name g))]) (\<lambda>_.
       ret \<lparr>gd_group = g, gd_members = [], gd_roles = []\<rparr>)))"

definition get_group_route :: "admin_env \<Rightarrow> api_user_context \<Rightarrow> uuid \<Rightarrow> (iam_tables, group_details) route" where
  "get_group_route ae ctx i =
     tbind (guard_roles ctx ROLE_IAM_VIEW) (\<lambda>_.
     tbind (iam_route ae (iam_get_group i)) (\<lambda>g.
     tbind (iam_route ae (list_group_members ae i)) (\<lambda>members.
     tbind (iam_route ae (group_roles ae i)) (\<lambda>roles.
       ret \<lparr>gd_group = g, gd_members = members, gd_roles = roles\<rparr>))))"

definition update_group_route ::
  "admin_env \<Rightarrow> api_user_context \<Rightarrow> uuid \<Rightarrow> update_group_request \<Rightarrow> (iam_tables, group_details) route" where
  "update_group_route ae ctx i payload =
     tbind (guard_roles ctx ROLE_IAM_ADMIN) (\<lambda>_.
     tbind (iam_route ae (iam_update_group ae i payload)) (\<lambda>g.
     tbind (iam_route ae (list_group_members ae i)) (\<lambda>members.
     tbind (iam_route ae (group_roles ae i)) (\<lambda>roles.
     tbind (audit ae ctx ''iam.group.update'' ''group'' i [(''status'', JStr (ig_status g))]) (\<lambda>_.
       ret \<lparr>gd_group = g, gd_members = members, gd_roles = roles\<rparr>)))))"

definition delete_group_route :: "admin_env \<Rightarrow> api_user_context \<Rightarrow> uuid \<Rightarrow> (iam_tables, nat) route" where
  "delete_group_route ae ctx i =
     tbind (guard_roles ctx ROLE_IAM_ADMIN) (\<lambda>_.
     tbind (iam_route ae (iam_delete_group ae i)) (\<lambda>_.
     tbind (audit ae ctx ''iam.group.delete'' ''group'' i []) (\<lambda>_. ret 204)))"

definition add_member_route :: "admin_env \<Rightarrow> api_user_context \<Rightarrow> uuid \<Rightarrow> uuid \<Rightarrow> (iam_tables, user_record list) route" where
  "add_member_route ae ctx g i =
     tbind (guard_roles ctx ROLE_IAM_ADMIN) (\<lambda>_.
     tbind (iam_route ae (add_group_member ae g i)) (\<lambda>_.
     tbind (iam_route ae (list_group_members ae g)) (\<lambda>members.
     tbind (audit ae ctx ''iam.group.member.add'' ''group'' g [(''user_id'', uuid_json ae i)]) (\<lambda>_. ret members))))"

definition list_group_members_route ::
  "admin_env \<Rightarrow> api_user_context \<Rightarrow> uuid \<Rightarrow> (iam_tables, user_record list) route" where
  "list_group_members_route ae ctx g =
     tbind (guard_roles ctx ROLE_IAM_VIEW) (\<lambda>_. iam_route ae (list_group_members ae g))"

definition remove_member_route :: "admin_env \<Rightarrow> api_user_context \<Rightarrow> uuid \<Rightarrow> uuid \<Rightarrow> (iam_tables, nat) route" where
  "remove_member_route ae ctx g i =
     tbind (guard_roles ctx ROLE_IAM_ADMIN) (\<lambda>_.
     tbind (iam_route ae (remove_group_member ae g i)) (\<lambda>_.
     tbind (audit ae ctx ''iam.group.member.remove'' ''group'' g [(''user_id'', uuid_json ae i)]) (\<lambda>_. ret 204)))"

section \<open>Roles\<close>

definition role_required :: "string \<Rightarrow> (iam_tables, unit) route" where
  "role_required role = require (trim role \<noteq> []) (400, (''VALIDATION_ERROR'', ''role required''))"

definition assign_user_role_route ::
  "admin_env \<Rightarrow> api_user_context \<Rightarrow> uuid \<Rightarrow> string \<Rightarrow> (iam_tables, string list) route" where
  "assign_user_role_route ae ctx i role =
     tbind (guard_roles ctx ROLE_IAM_ADMIN) (\<lambda>_.
     tbind (role_required role) (\<lambda>_.
     tbind (iam_route ae (assign_role_to_user ae i (trim role))) (\<lambda>roles.
     tbind (audit ae ctx ''iam.user.role.assign'' ''user'' i [(''role'', JStr role)]) (\<lambda>_. ret roles))))"

definition revoke_user_role_route ::
  "admin_env \<Rightarrow> api_user_context \<Rightarrow> uuid \<Rightarrow> string \<Rightarrow> (iam_tables, string list) route" where
  "revoke_user_role_route ae ctx i role =
     tbind (guard_roles ctx ROLE_IAM_ADMIN) (\<lambda>_.
     tbind (iam_route ae (revoke_role_from_user ae i (trim role))) (\<lambda>roles.
     tbind (audit ae ctx ''iam.user.role.revoke'' ''user'' i [(''role'', JStr role)]) (\<lambda>_. ret roles)))"

definition assign_group_role_route ::
  "admin_env \<Rightarrow> api_user_context \<Rightarrow> uuid \<Rightarrow> string \<Rightarrow> (iam_tables, string list) route" where
  "assign_group_role_route ae ctx g role =
     tbind (guard_roles ctx ROLE_IAM_ADMIN) (\<lambda>_.
     tbind (role_required role) (\<lambda>_.
     tbind (iam_route ae (assign_role_to_group ae g (trim role))) (\<lambda>roles.
     tbind (audit ae ctx ''iam.group.role.assign'' ''group'' g [(''role'', JStr role)]) (\<lambda>_. ret roles))))"

definition revoke_group_role_route ::
  "admin_env \<Rightarrow> api_user_context \<Rightarrow> uuid \<Rightarrow> string \<Rightarrow> (iam_tables, string list) route" where
  "revoke_group_role_route ae ctx g role =
     tbind (guard_roles ctx ROLE_IAM_ADMIN) (\<lambda>_.
     tbind (iam_route ae (revoke_role_from_group ae g (trim role))) (\<lambda>roles.
     tbind (audit ae ctx ''iam.group.role.revoke'' ''group'' g [(''role'', JStr role)]) (\<lambda>_. ret roles)))"

definition list_roles_route :: "admin_env \<Rightarrow> api_user_context \<Rightarrow> (iam_tables, role_record list) route" where
  "list_roles_route ae ctx = tbind (guard_roles ctx ROLE_IAM_VIEW) (\<lambda>_. iam_route ae (iam_list_roles ae))"

section \<open>Service accounts\<close>

definition account_details_of ::
  "admin_env \<Rightarrow> service_account_record \<Rightarrow> (iam_tables, service_account_details) route" where
  "account_details_of ae a =
     tbind (iam_route ae (service_account_roles ae (sr_id a))) (\<lambda>roles.
       ret \<lparr>sd_account = a, sd_roles = roles\<rparr>)"

definition list_service_accounts_route ::
  "admin_env \<Rightarrow> api_user_context \<Rightarrow> list_query \<Rightarrow> (iam_tables, service_account_details cursor_paged) route" where
  "list_service_accounts_route ae ctx query =
     tbind (guard_roles ctx ROLE_IAM_VIEW) (\<lambda>_.
     let limit = cursor_limit (lq_limit query)
     in tbind (read_cursor ae (name_cursor_of_json ae) (lq_cursor query)) (\<lambda>(direction, anchor).
        tbind (route_sql ae (iam_read (\<lambda>_ t. map account_record_of
          (window (direction = CursorNext) (\<lambda>a. (ae_collate ae (sa_name a), sa_id a)) (name_anchor ae anchor)
            (limit + 1) (it_accounts t))))) (\<lambda>fetched.
        let (has_more, accounts) = page_rows direction limit fetched
        in tbind (collect (account_details_of ae) accounts) (\<lambda>results.
           let (next_cursor, prev_cursor) = page_cursors ae (name_cursor_to_json ae)
                 (\<lambda>d. (sr_name (sd_account d), sr_id (sd_account d))) (lq_cursor query) has_more results
           in ret (new_with_prev results limit has_more next_cursor prev_cursor)))))"

definition get_service_account_route ::
  "admin_env \<Rightarrow> api_user_context \<Rightarrow> uuid \<Rightarrow> (iam_tables, service_account_details) route" where
  "get_service_account_route ae ctx i =
     tbind (guard_roles ctx ROLE_IAM_VIEW) (\<lambda>_.
     tbind (iam_route ae (get_service_account i)) (\<lambda>a.
     tbind (iam_route ae (service_account_roles ae i)) (\<lambda>roles.
       ret \<lparr>sd_account = a, sd_roles = roles\<rparr>)))"

definition create_service_account_route ::
  "admin_env \<Rightarrow> api_user_context \<Rightarrow> create_service_account_request \<Rightarrow> (iam_tables, service_account_with_token) route" where
  "create_service_account_route ae ctx payload =
     tbind (guard_roles ctx ROLE_IAM_ADMIN) (\<lambda>_.
     tbind (iam_route ae (create_service_account ae payload)) (\<lambda>(account, token).
     tbind (iam_route ae (service_account_roles ae (sr_id account))) (\<lambda>roles.
     tbind (audit ae ctx ''iam.service_account.create'' ''service_account'' (sr_id account)
       [(''name'', JStr (sr_name account))]) (\<lambda>_.
       ret \<lparr>st_account = account, st_token = token, st_roles = roles\<rparr>))))"

definition rotate_service_account_route ::
  "admin_env \<Rightarrow> api_user_context \<Rightarrow> uuid \<Rightarrow> update_service_account_roles \<Rightarrow>
   (iam_tables, service_account_with_token) route" where
  "rotate_service_account_route ae ctx i payload =
     tbind (guard_roles ctx ROLE_IAM_ADMIN) (\<lambda>_.
     tbind (iam_route ae (rotate_service_account ae i (Some payload))) (\<lambda>(account, token).
     tbind (iam_route ae (service_account_roles ae (sr_id account))) (\<lambda>roles.
     tbind (audit ae ctx ''iam.service_account.rotate'' ''service_account'' (sr_id account) []) (\<lambda>_.
       ret \<lparr>st_account = account, st_token = token, st_roles = roles\<rparr>))))"

definition disable_service_account_route :: "admin_env \<Rightarrow> api_user_context \<Rightarrow> uuid \<Rightarrow> (iam_tables, nat) route" where
  "disable_service_account_route ae ctx i =
     tbind (guard_roles ctx ROLE_IAM_ADMIN) (\<lambda>_.
     tbind (iam_route ae (disable_service_account ae i)) (\<lambda>_.
     tbind (audit ae ctx ''iam.service_account.disable'' ''service_account'' i []) (\<lambda>_. ret 204)))"

section \<open>The caller and the audit trail\<close>

definition whoami_route :: "admin_env \<Rightarrow> api_user_context \<Rightarrow> (iam_tables, who_am_i) route" where
  "whoami_route ae ctx =
     tbind (case (cx_principal_type ctx, cx_principal_id ctx) of
              (PrincipalUser, Some i) \<Rightarrow> route_sql ae (iam_read (\<lambda>_ t. user_by_id i t))
            | _ \<Rightarrow> ret None) (\<lambda>profile.
       ret \<lparr>wi_actor = cx_actor ctx, wi_principal_type = cx_principal_type ctx,
            wi_principal_id = cx_principal_id ctx, wi_roles = cx_roles ctx,
            wi_permissions = cx_permissions ctx,
            wi_username = Option.bind profile iu_username, wi_email = Option.bind profile iu_email,
            wi_display_name = Option.bind profile iu_display_name,
            wi_must_change_password = map_option iu_must_change_password profile\<rparr>)"

definition list_audit_route ::
  "admin_env \<Rightarrow> api_user_context \<Rightarrow> list_query \<Rightarrow> (iam_tables, iam_audit_event cursor_paged) route" where
  "list_audit_route ae ctx query =
     tbind (guard_roles ctx ROLE_IAM_VIEW) (\<lambda>_.
     let limit = cursor_limit (lq_limit query)
     in tbind (read_cursor ae (time_cursor_of_json ae) (lq_cursor query)) (\<lambda>(direction, anchor).
        tbind (route_sql ae (iam_read (\<lambda>_ t.
          window (direction = CursorPrev) (\<lambda>e. (ia_created_at e, ia_id e)) anchor (limit + 1) (it_audit t)))) (\<lambda>fetched.
        let (has_more, events) = page_rows direction limit fetched;
            (next_cursor, prev_cursor) = page_cursors ae (time_cursor_to_json ae)
              (\<lambda>e. (ia_created_at e, ia_id e)) (lq_cursor query) has_more events
        in ret (new_with_prev events limit has_more next_cursor prev_cursor))))"

section \<open>The router\<close>

datatype iam_request =
    ReqListUsers list_query
  | ReqCreateUser create_user_request
  | ReqGetUser uuid
  | ReqUpdateUser uuid update_user_request
  | ReqDeleteUser uuid "bool option"
  | ReqDisableUser uuid
  | ReqEnableUser uuid
  | ReqAssignUserRole uuid string
  | ReqRevokeUserRole uuid string
  | ReqSetPassword uuid string "bool option"
  | ReqListUserTokens uuid
  | ReqCreateUserToken uuid create_user_token_request
  | ReqRevokeUserToken uuid uuid
  | ReqListGroups list_query
  | ReqCreateGroup create_group_request
  | ReqGetGroup uuid
  | ReqUpdateGroup uuid update_group_request
  | ReqDeleteGroup uuid
  | ReqListMembers uuid
  | ReqAddMember uuid uuid
  | ReqRemoveMember uuid uuid
  | ReqAssignGroupRole uuid string
  | ReqRevokeGroupRole uuid string
  | ReqListRoles
  | ReqListServiceAccounts list_query
  | ReqCreateServiceAccount create_service_account_request
  | ReqGetServiceAccount uuid
  | ReqDisableServiceAccount uuid
  | ReqRotateServiceAccount uuid update_service_account_roles
  | ReqWhoAmI
  | ReqListAudit list_query

definition done_route :: "(iam_tables, 'a) route \<Rightarrow> (iam_tables, unit) route" where
  "done_route m = tbind m (\<lambda>_. ret ())"

text \<open>Which handler a request reaches; the answer is left out.\<close>

fun iam_dispatch :: "admin_env \<Rightarrow> api_user_context \<Rightarrow> iam_request \<Rightarrow> (iam_tables, unit) route" where
  "iam_dispatch ae ctx (ReqListUsers q) = done_route (list_users_route ae ctx q)"
| "iam_dispatch ae ctx (ReqCreateUser p) = done_route (create_user_route ae ctx p)"
| "iam_dispatch ae ctx (ReqGetUser i) = done_route (get_user_route ae ctx i)"
| "iam_dispatch ae ctx (ReqUpdateUser i p) = done_route (update_user_route ae ctx i p)"
| "iam_dispatch ae ctx (ReqDeleteUser i h) = done_route (delete_user_route ae ctx i h)"
| "iam_dispatch ae ctx (ReqDisableUser i) = done_route (disable_user_route ae ctx i)"
| "iam_dispatch ae ctx (ReqEnableUser i) = done_route (enable_user_route ae ctx i)"
| "iam_dispatch ae ctx (ReqAssignUserRole i r) = done_route (assign_user_role_route ae ctx i r)"
| "iam_dispatch ae ctx (ReqRevokeUserRole i r) = done_route (revoke_user_role_route ae ctx i r)"
| "iam_dispatch ae ctx (ReqSetPassword i p m) = done_route (set_user_password_route ae ctx i p m)"
| "iam_dispatch ae ctx (ReqListUserTokens i) = done_route (list_user_tokens_route ae ctx i)"
| "iam_dispatch ae ctx (ReqCreateUserToken i p) = done_route (create_user_token_route ae ctx i p)"
| "iam_dispatch ae ctx (ReqRevokeUserToken i k) = done_route (revoke_user_token_route ae ctx i k)"
| "iam_dispatch ae ctx (ReqListGroups q) = done_route (list_groups_route ae ctx q)"
| "iam_dispatch ae ctx (ReqCreateGroup p) = done_route (create_group_route ae ctx p)"
| "iam_dispatch ae ctx (ReqGetGroup i) = done_route (get_group_route ae ctx i)"
| "iam_dispatch ae ctx (ReqUpdateGroup i p) = done_route (update_group_route ae ctx i p)"
| "iam_dispatch ae ctx (ReqDeleteGroup i) = done_route (delete_group_route ae ctx i)"
| "iam_dispatch ae ctx (ReqListMembers g) = done_route (list_group_members_route ae ctx g)"
| "iam_dispatch ae ctx (ReqAddMember g i) = done_route (add_member_route ae ctx g i)"
| "iam_dispatch ae ctx (ReqRemoveMember g i) = done_route (remove_member_route ae ctx g i)"
| "iam_dispatch ae ctx (ReqAssignGroupRole g r) = done_route (assign_group_role_route ae ctx g r)"
| "iam_dispatch ae ctx (ReqRevokeGroupRole g r) = done_route (revoke_group_role_route ae ctx g r)"
| "iam_dispatch ae ctx ReqListRoles = done_route (list_roles_route ae ctx)"
| "iam_dispatch ae ctx (ReqListServiceAccounts q) = done_route (list_service_accounts_route ae ctx q)"
| "iam_dispatch ae ctx (ReqCreateServiceAccount p) = done_route (create_service_account_route ae ctx p)"
| "iam_dispatch ae ctx (ReqGetServiceAccount i) = done_route (get_service_account_route ae ctx i)"
| "iam_dispatch ae ctx (ReqDisableServiceAccount i) = done_route (disable_service_account_route ae ctx i)"
| "iam_dispatch ae ctx (ReqRotateServiceAccount i p) = done_route (rotate_service_account_route ae ctx i p)"
| "iam_dispatch ae ctx ReqWhoAmI = done_route (whoami_route ae ctx)"
| "iam_dispatch ae ctx (ReqListAudit q) = done_route (list_audit_route ae ctx q)"

end
