(* ===== verification/Iam_Correct.thy ===== *)
theory Iam_Correct
  imports Iam_Routes
begin

text \<open>
  What the identity service guarantees: handlers act only for callers with the right role, the requests
  that change users keep an active administrator, and the lists are walked completely.
\<close>

section \<open>Who may ask for what\<close>

text \<open>The roles a request needs: viewers read, administrators write, everybody may ask who they are.\<close>

fun needed_roles :: "iam_request \<Rightarrow> string set" where
  "needed_roles (ReqListUsers q) = {ROLE_POLICY_ADMIN, ROLE_AUDITOR}"
| "needed_roles (ReqGetUser i) = {ROLE_POLICY_ADMIN, ROLE_AUDITOR}"
| "needed_roles (ReqListUserTokens i) = {ROLE_POLICY_ADMIN, ROLE_AUDITOR}"
| "needed_roles (ReqListGroups q) = {ROLE_POLICY_ADMIN, ROLE_AUDITOR}"
| "needed_roles (ReqGetGroup i) = {ROLE_POLICY_ADMIN, ROLE_AUDITOR}"
| "needed_roles (ReqListMembers i) = {ROLE_POLICY_ADMIN, ROLE_AUDITOR}"
| "needed_roles ReqListRoles = {ROLE_POLICY_ADMIN, ROLE_AUDITOR}"
| "needed_roles (ReqListServiceAccounts q) = {ROLE_POLICY_ADMIN, ROLE_AUDITOR}"
| "needed_roles (ReqGetServiceAccount i) = {ROLE_POLICY_ADMIN, ROLE_AUDITOR}"
| "needed_roles (ReqListAudit q) = {ROLE_POLICY_ADMIN, ROLE_AUDITOR}"
| "needed_roles _ = {ROLE_POLICY_ADMIN}"

lemma guard_refused:
  assumes "cx_roles ctx \<inter> set roles = {}"
  shows "tbind (guard_roles ctx roles) f w = (Inr (Inl (403, api_forbidden)), w)"
proof -
  have "\<not> list_ex (api_has_role ctx) roles" using assms by (auto simp: list_ex_iff api_has_role_def)
  then show ?thesis
    by (simp add: tbind_def guard_roles_def api_require_roles_def require_def map_err_def raise_def svc_bind_def
        svc_return_def)
qed

lemmas route_defs =
  list_users_route_def create_user_route_def get_user_route_def update_user_route_def delete_user_route_def
  disable_user_route_def enable_user_route_def set_user_password_route_def create_user_token_route_def
  list_user_tokens_route_def revoke_user_token_route_def list_groups_route_def create_group_route_def
  get_group_route_def update_group_route_def delete_group_route_def add_member_route_def
  list_group_members_route_def remove_member_route_def assign_user_role_route_def revoke_user_role_route_def
  assign_group_role_route_def revoke_group_role_route_def list_roles_route_def list_service_accounts_route_def
  get_service_account_route_def create_service_account_route_def rotate_service_account_route_def
  disable_service_account_route_def list_audit_route_def

lemma done_refused: "m w = (Inr (Inl e), w') \<Longrightarrow> done_route m w = (Inr (Inl e), w')"
  by (simp add: done_route_def tbind_def svc_bind_def raise_def svc_return_def)

lemma dispatch_refused:
  assumes "req \<noteq> ReqWhoAmI" "cx_roles ctx \<inter> needed_roles req = {}"
  shows "iam_dispatch ae ctx req w = (Inr (Inl (403, api_forbidden)), w)"
  using assms
  by (cases req; simp only: iam_dispatch.simps needed_roles.simps route_defs)
    (auto intro!: done_refused guard_refused simp: ROLE_IAM_ADMIN_def ROLE_IAM_VIEW_def)

text \<open>
  Whatever the request asks for, a caller without one of the roles it needs is answered with 403, and
  nothing changes.  Only the question who the caller is needs no role.
\<close>

theorem iam_routes_guarded:
  assumes "req \<noteq> ReqWhoAmI" "cx_roles ctx \<inter> needed_roles req = {}"
  shows "iam_dispatch ae ctx req w = (Inr (Inl (403, api_forbidden)), w)"
  using assms by (rule dispatch_refused)

section \<open>Programs that keep a fact about the tables\<close>

lemma svc_keeps_prod [svc_keeps_intros]:
  "(\<And>a b. svc_keeps I (f a b)) \<Longrightarrow> svc_keeps I (case p of (a, b) \<Rightarrow> f a b)"
  by (simp split: prod.split)

lemma svc_keeps_collect [svc_keeps_intros]: "(\<And>x. svc_keeps I (f x)) \<Longrightarrow> svc_keeps I (collect f xs)"
  by (induction xs) (auto intro!: svc_keeps_intros)

lemma svc_keeps_read_cursor [svc_keeps_intros]: "svc_keeps I (read_cursor ae dec c)"
  unfolding read_cursor_def by (intro svc_keeps_intros)

lemmas reading_defs =
  iam_get_user_def find_user_by_subject_def find_user_by_email_def user_is_protected_def
  user_is_active_policy_admin_def active_policy_admin_count_def has_active_policy_admin_def
  ensure_user_mutation_allowed_def iam_get_group_def list_group_members_def iam_list_roles_def
  role_id_by_name_def user_roles_def group_roles_def access_of_roles_def
  effective_permissions_for_user_def effective_permissions_for_service_account_def get_service_account_def
  default_service_account_expiry_def role_ids_by_name_def service_account_roles_def user_token_version_def
  list_user_tokens_def generate_token_def hash_token_def verify_hash_def

text \<open>Queries keep everything.\<close>

lemma svc_keeps_reading [svc_keeps_intros]:
  "svc_keeps I (iam_get_user i)" "svc_keeps I (find_user_by_subject s)" "svc_keeps I (find_user_by_email s)"
  "svc_keeps I (user_is_protected i)" "svc_keeps I (user_is_active_policy_admin i)"
  "svc_keeps I active_policy_admin_count" "svc_keeps I has_active_policy_admin"
  "svc_keeps I (ensure_user_mutation_allowed i b)" "svc_keeps I (iam_get_group i)"
  "svc_keeps I (list_group_members ae i)" "svc_keeps I (iam_list_roles ae)" "svc_keeps I (role_id_by_name s)"
  "svc_keeps I (user_roles ae i)" "svc_keeps I (group_roles ae i)" "svc_keeps I (access_of_roles g)"
  "svc_keeps I (effective_permissions_for_user i)" "svc_keeps I (effective_permissions_for_service_account i)"
  "svc_keeps I (get_service_account i)" "svc_keeps I (default_service_account_expiry ae)"
  "svc_keeps I (role_ids_by_name ss)" "svc_keeps I (service_account_roles ae i)" "svc_keeps I (user_token_version i)"
  "svc_keeps I (list_user_tokens i)" "svc_keeps I (generate_token ae)" "svc_keeps I (hash_token ae s)"
  "svc_keeps I (verify_hash ae s h)"
  unfolding reading_defs Let_def by (intro svc_keeps_intros)+

section \<open>The last administrator\<close>

definition has_admin :: "iam_tables \<Rightarrow> bool" where
  "has_admin t \<longleftrightarrow> (\<exists>u \<in> set (it_users t). active_policy_admin t u)"

definition other_admin :: "uuid \<Rightarrow> iam_tables \<Rightarrow> bool" where
  "other_admin i t \<longleftrightarrow> (\<exists>u \<in> set (it_users t). active_policy_admin t u \<and> iu_id u \<noteq> i)"

lemma other_admin_has: "other_admin i t \<Longrightarrow> has_admin t"
  by (auto simp: other_admin_def has_admin_def)

lemma has_admin_list: "has_admin t \<longleftrightarrow> active_policy_admins t \<noteq> []"
  by (auto simp: has_admin_def active_policy_admins_def filter_empty_conv)

text \<open>A write keeps an administrator when it keeps those users and their bindings.\<close>

lemma active_policy_admin_mono:
  assumes "active_policy_admin t u" "iu_id u' = iu_id u" "iu_status u' = ''active''"
    and "set (it_user_roles t) \<subseteq> set (it_user_roles t')" "set (it_members t) \<subseteq> set (it_members t')"
    and "set (it_group_roles t) \<subseteq> set (it_group_roles t')" "it_roles t' = it_roles t"
  shows "active_policy_admin t' u'"
  using assms unfolding active_policy_admin_def role_named_def by fastforce

lemma has_admin_write:
  assumes "has_admin t"
    and "\<And>u. u \<in> set (it_users t) \<Longrightarrow> iu_status u = ''active'' \<Longrightarrow>
      \<exists>u' \<in> set (it_users t'). iu_id u' = iu_id u \<and> iu_status u' = ''active''"
    and "set (it_user_roles t) \<subseteq> set (it_user_roles t')" "set (it_members t) \<subseteq> set (it_members t')"
    and "set (it_group_roles t) \<subseteq> set (it_group_roles t')" "it_roles t' = it_roles t"
  shows "has_admin t'"
proof -
  obtain u where u: "u \<in> set (it_users t)" "active_policy_admin t u" using assms(1) by (auto simp: has_admin_def)
  then have "iu_status u = ''active''" by (simp add: active_policy_admin_def)
  with assms(2) u(1) obtain u' where "u' \<in> set (it_users t')" "iu_id u' = iu_id u" "iu_status u' = ''active''"
    by blast
  with active_policy_admin_mono [OF u(2) _ _ assms(3-6)] show ?thesis by (auto simp: has_admin_def)
qed

lemma has_admin_same_users:
  "has_admin t \<Longrightarrow> it_users t' = it_users t \<Longrightarrow> set (it_user_roles t) \<subseteq> set (it_user_roles t') \<Longrightarrow>
   set (it_members t) \<subseteq> set (it_members t') \<Longrightarrow> set (it_group_roles t) \<subseteq> set (it_group_roles t') \<Longrightarrow>
   it_roles t' = it_roles t \<Longrightarrow> has_admin t'"
  by (rule has_admin_write) auto

lemma has_admin_update_users:
  assumes "has_admin t" "\<And>u. iu_id (f u) = iu_id u" "\<And>u. iu_status u = ''active'' \<Longrightarrow> iu_status (f u) = ''active''"
  shows "has_admin (update_users i f t)"
proof (rule has_admin_write [OF assms(1)])
  fix u assume u: "u \<in> set (it_users t)" "iu_status u = ''active''"
  let ?u = "if iu_id u = i then f u else u"
  have "?u \<in> set (it_users (update_users i f t))" using u(1) by (auto simp: update_users_def)
  moreover have "iu_id ?u = iu_id u" "iu_status ?u = ''active''" using assms(2,3) u(2) by auto
  ultimately show "\<exists>u' \<in> set (it_users (update_users i f t)). iu_id u' = iu_id u \<and> iu_status u' = ''active''"
    by blast
qed (simp_all add: update_users_def)

lemma set_insert_pair [simp]: "set (insert_pair p ps) = insert p (set ps)"
  by (auto simp: insert_pair_def)

text \<open>The requests that take nothing from a user keep an administrator by themselves.\<close>

lemma keeps_admin_audit [svc_keeps_intros]:
  "svc_keeps has_admin (log_iam_event ae action actor tt ti payload)"
  unfolding log_iam_event_def record_iam_event_def audit_logger_log_def
  by (intro svc_keeps_intros svc_keeps_iam_write; erule has_admin_same_users) simp_all

lemma keeps_admin_audit_route [svc_keeps_intros]: "svc_keeps has_admin (audit ae ctx action tt i payload)"
  unfolding audit_def by (intro svc_keeps_intros)

lemma keeps_admin_accounts [svc_keeps_intros]:
  "svc_keeps has_admin (replace_service_account_roles ae i roles)"
  "svc_keeps has_admin (disable_service_account ae i)"
  unfolding replace_service_account_roles_def disable_service_account_def
  by (intro svc_keeps_intros svc_keeps_iam_write; (erule has_admin_same_users)?; simp)+

lemma keeps_admin_new_accounts [svc_keeps_intros]:
  "svc_keeps has_admin (create_service_account ae cs)" "svc_keeps has_admin (rotate_service_account ae i us)"
  unfolding create_service_account_def rotate_service_account_def Let_def
  by (intro svc_keeps_intros svc_keeps_iam_write; (erule has_admin_same_users)?; simp)+

lemma keeps_admin_tokens [svc_keeps_intros]:
  "svc_keeps has_admin (create_user_token ae i ct)" "svc_keeps has_admin (revoke_user_token ae i j)"
  unfolding create_user_token_def revoke_user_token_def Let_def
  by (intro svc_keeps_intros svc_keeps_iam_write; (erule has_admin_same_users)?; simp)+

lemma keeps_admin_grants [svc_keeps_intros]:
  "svc_keeps has_admin (iam_create_group ae cg)" "svc_keeps has_admin (iam_update_group ae i ug)"
  "svc_keeps has_admin (add_group_member ae i j)" "svc_keeps has_admin (assign_role_to_user ae i r)"
  "svc_keeps has_admin (assign_role_to_group ae i r)"
  unfolding iam_create_group_def iam_update_group_def add_group_member_def assign_role_to_user_def
    assign_role_to_group_def Let_def
  by (intro svc_keeps_intros svc_keeps_iam_write; (erule has_admin_same_users)?; auto)+

lemma keeps_admin_users [svc_keeps_intros]:
  "svc_keeps has_admin (iam_create_user ae cu)" "svc_keeps has_admin (iam_enable_user ae i)"
  "svc_keeps has_admin (set_user_password ae i pw b)"
  unfolding iam_create_user_def iam_enable_user_def set_user_password_def write_user_def Let_def
    apply (intro svc_keeps_intros svc_keeps_iam_write)
    apply (erule has_admin_write; force)
   apply (intro svc_keeps_intros svc_keeps_iam_write; simp add: has_admin_update_users)
  apply (intro svc_keeps_intros svc_keeps_iam_write; simp add: has_admin_update_users)
  done

text \<open>The guard leaves the tables alone, and passes only when another administrator is there.\<close>

lemma ensure_allowed:
  assumes "has_admin (iam_of w)" "iam_ok ae (iam_of w)"
  shows "svc_wp (ensure_user_mutation_allowed i True)
    (\<lambda>r w'. iam_of w' = iam_of w \<and> (r = Inr () \<longrightarrow> other_admin i (iam_of w))) (\<lambda>_ _. False) w"
proof -
  let ?t = "iam_of w"
  have d: "distinct (map iu_id (it_users ?t))" using assms(2) by (simp add: iam_ok_def users_ok_def)
  have two: "other_admin i ?t" if more: "\<not> length (active_policy_admins ?t) \<le> 1"
  proof -
    obtain u v rest where uv: "active_policy_admins ?t = u # v # rest"
      using more by (cases "active_policy_admins ?t"; cases "tl (active_policy_admins ?t)") auto
    have "distinct (map iu_id (active_policy_admins ?t))"
      using d by (simp add: active_policy_admins_def distinct_map_filter)
    with uv have "iu_id u \<noteq> iu_id v" by simp
    moreover have "{u, v} \<subseteq> set (active_policy_admins ?t)" using uv by simp
    ultimately show ?thesis by (auto simp: other_admin_def active_policy_admins_def)
  qed
  have none: "other_admin i ?t" if "\<not> list_ex (\<lambda>u. iu_id u = i \<and> active_policy_admin ?t u) (it_users ?t)"
    using that assms(1) by (auto simp: other_admin_def has_admin_def list_ex_iff)
  show ?thesis
    by (auto simp: ensure_user_mutation_allowed_def user_is_protected_def user_is_active_policy_admin_def
        active_policy_admin_count_def wp Let_def two none split: option.split)
qed

text \<open>The writes behind the guard touch one user only.\<close>

lemma other_admin_update_users:
  assumes "other_admin i t" "\<And>u. iu_id (f u) = iu_id u"
  shows "other_admin i (update_users i f t)"
proof -
  obtain u where u: "u \<in> set (it_users t)" "active_policy_admin t u" "iu_id u \<noteq> i"
    using assms(1) by (auto simp: other_admin_def)
  have "active_policy_admin (update_users i f t) u"
    by (rule active_policy_admin_mono [OF u(2)]) (use u(2) in \<open>auto simp: update_users_def active_policy_admin_def\<close>)
  moreover have "u \<in> set (it_users (update_users i f t))" using u(1,3) by (force simp: update_users_def)
  ultimately show ?thesis using u(3) by (auto simp: other_admin_def)
qed

lemma other_admin_delete_user:
  assumes "other_admin i t"
  shows "has_admin (delete_user_rows i t)"
proof -
  obtain u where u: "u \<in> set (it_users t)" "active_policy_admin t u" "iu_id u \<noteq> i"
    using assms by (auto simp: other_admin_def)
  have "active_policy_admin (delete_user_rows i t) u"
    using u(2,3) unfolding active_policy_admin_def role_named_def delete_user_rows_def by fastforce
  with u(1,3) show ?thesis by (auto simp: has_admin_def delete_user_rows_def)
qed

lemma other_admin_revoke:
  assumes "other_admin i t"
  shows "has_admin (t\<lparr>it_user_roles := filter (\<lambda>p. p \<noteq> (i, rid)) (it_user_roles t)\<rparr>)"
proof -
  let ?t = "t\<lparr>it_user_roles := filter (\<lambda>p. p \<noteq> (i, rid)) (it_user_roles t)\<rparr>"
  obtain u where u: "u \<in> set (it_users t)" "active_policy_admin t u" "iu_id u \<noteq> i"
    using assms by (auto simp: other_admin_def)
  have "active_policy_admin ?t u"
    using u(2,3) unfolding active_policy_admin_def role_named_def by fastforce
  with u(1) show ?thesis by (auto simp: has_admin_def)
qed

lemma unnamed_role_revoke:
  assumes "has_admin t" "\<not> role_named t rid ROLE_POLICY_ADMIN"
  shows "has_admin (t\<lparr>it_user_roles := filter (\<lambda>p. p \<noteq> (i, rid)) (it_user_roles t)\<rparr>)"
  using assms unfolding has_admin_def active_policy_admin_def role_named_def by fastforce

text \<open>The four operations behind the guard.\<close>

lemma snd_map_err [simp]: "snd (map_err f m w) = snd (m w)"
  by (simp add: map_err_def svc_bind_def raise_def ret_def svc_return_def split: prod.split sum.split)

lemma snd_tbind_keeps:
  assumes "I (svc_base.more (snd (m w)))" "\<And>x. svc_keeps I (f x)"
  shows "I (svc_base.more (snd (tbind m f w)))"
  using assms
  by (auto simp: tbind_def svc_bind_def raise_def svc_return_def svc_keeps_def split: prod.split sum.split)

lemma snd_guard:
  assumes "I (svc_base.more w)" "I (svc_base.more (snd (f () w)))"
  shows "I (svc_base.more (snd (tbind (guard_roles ctx roles) f w)))"
  using assms
  by (auto simp: tbind_def svc_bind_def guard_roles_def api_require_roles_def require_def map_err_def raise_def
      ret_def svc_return_def)

lemma wp_snd: "svc_wp m (\<lambda>_ w'. P w') (\<lambda>_ w'. P w') w \<longleftrightarrow> P (snd (m w))"
  by (cases "m w") (simp add: svc_wp_def split: sum.split)

lemma after_ensure:
  assumes "has_admin (iam_of w)" "iam_ok ae (iam_of w)"
    and "\<And>w'. iam_of w' = iam_of w \<Longrightarrow> other_admin i (iam_of w) \<Longrightarrow> has_admin (iam_of (snd (f () w')))"
  shows "has_admin (iam_of (snd (tbind (ensure_user_mutation_allowed i True) f w)))"
proof -
  let ?P = "\<lambda>w'. has_admin (iam_of w')"
  have "svc_wp (ensure_user_mutation_allowed i True) (\<lambda>r. case r of Inl e \<Rightarrow> ?P
      | Inr x \<Rightarrow> svc_wp (f x) (\<lambda>_. ?P) (\<lambda>_. ?P)) (\<lambda>_. ?P) w"
    by (rule wp_mono [OF ensure_allowed [OF assms(1,2)]])
      (use assms(1,3) in \<open>auto simp: wp_snd [of _ ?P] split: sum.split\<close>)
  then have "svc_wp (tbind (ensure_user_mutation_allowed i True) f) (\<lambda>_. ?P) (\<lambda>_. ?P) w"
    unfolding wp_tbind .
  then show ?thesis by (simp only: wp_snd [of _ ?P])
qed

lemma snd_write:
  assumes "has_admin (iam_of w)" "iam_ok ae (snd (f (sb_now w) (iam_of w))) \<Longrightarrow> has_admin (snd (f (sb_now w) (iam_of w)))"
    and "\<And>x. svc_keeps has_admin (g x)"
  shows "has_admin (iam_of (snd (tbind (iam_sql (iam_write ae f)) g w)))"
proof -
  let ?P = "\<lambda>w'. has_admin (iam_of w')"
  have "svc_wp (iam_write ae f) (\<lambda>_. ?P) (\<lambda>_. ?P) w" using assms(1,2) by (simp add: wp Let_def)
  then have "svc_wp (sql (iam_write ae f)) (\<lambda>_. ?P) (\<lambda>_. ?P) w"
    unfolding wp_sql by (rule wp_mono) (auto split: error.split)
  then have "?P (snd (iam_sql (iam_write ae f) w))" by (simp add: wp_snd [of _ ?P])
  then show ?thesis by (rule snd_tbind_keeps) (rule assms(3))
qed

lemma disable_user_admin:
  assumes "has_admin (iam_of w)" "iam_ok ae (iam_of w)"
  shows "has_admin (iam_of (snd (iam_disable_user ae i w)))"
  unfolding iam_disable_user_def
proof (rule after_ensure [OF assms])
  fix w' assume w': "iam_of w' = iam_of w" "other_admin i (iam_of w)"
  show "has_admin (iam_of (snd (tbind (iam_sql (write_user ae i (\<lambda>now u. u\<lparr>iu_status := ''disabled'',
      iu_token_version := iu_token_version u + 1, iu_updated_at := now\<rparr>)))
      (\<lambda>found. require found (IamNotFound ''user'')) w')))"
    unfolding write_user_def
    by (rule snd_write) (use assms(1) w' in \<open>auto intro!: svc_keeps_intros other_admin_has other_admin_update_users\<close>)
qed

lemma hard_delete_user_admin:
  assumes "has_admin (iam_of w)" "iam_ok ae (iam_of w)"
  shows "has_admin (iam_of (snd (hard_delete_user ae i w)))"
  unfolding hard_delete_user_def
  by (rule after_ensure [OF assms], rule snd_write)
    (use assms(1) in \<open>auto intro!: svc_keeps_intros other_admin_delete_user\<close>)

text \<open>A status the schema accepts and the guard has not seen is the active one.\<close>

lemma update_status_admin:
  assumes "has_admin t" "iam_ok ae (update_users i f t)" "\<And>u. iu_id (f u) = iu_id u"
    and "\<And>u. iu_status (f u) = opt_else status (iu_status u)"
    and "case status of None \<Rightarrow> True | Some s \<Rightarrow> \<not> eq_ignore_ascii_case s ''disabled''"
  shows "has_admin (update_users i f t)"
proof (rule has_admin_write [OF assms(1)])
  fix u assume u: "u \<in> set (it_users t)" "iu_status u = ''active''"
  let ?u = "if iu_id u = i then f u else u"
  have m: "?u \<in> set (it_users (update_users i f t))" using u(1) by (auto simp: update_users_def)
  then have "status_ok (iu_status ?u)" using assms(2) by (auto simp: iam_ok_def users_ok_def list_all_iff)
  then have "iu_status ?u = ''active''"
    using u(2) assms(4,5) by (auto simp: status_ok_def opt_else_def split: option.splits if_splits)
  with m assms(3) show "\<exists>u' \<in> set (it_users (update_users i f t)). iu_id u' = iu_id u \<and> iu_status u' = ''active''"
    by (intro bexI [of _ ?u]) auto
qed (simp_all add: update_users_def)

lemma snd_read:
  assumes "svc_keeps (\<lambda>t. t = iam_of w) m" "has_admin (iam_of w)"
    and "\<And>x w'. iam_of w' = iam_of w \<Longrightarrow> has_admin (iam_of (snd (f x w')))"
  shows "has_admin (iam_of (snd (tbind m f w)))"
  using assms
  by (auto simp: tbind_def svc_bind_def raise_def svc_return_def svc_keeps_def split: prod.split sum.split)

lemma update_user_admin:
  assumes "has_admin (iam_of w)" "iam_ok ae (iam_of w)"
  shows "has_admin (iam_of (snd (iam_update_user ae i payload w)))"
proof -
  let ?disable = "case uu_status payload of None \<Rightarrow> False | Some s \<Rightarrow> eq_ignore_ascii_case s ''disabled''"
  let ?rename = "if uu_username payload \<noteq> None then tbind (user_is_protected i) (\<lambda>p. require (\<not> p) IamProtectedUser) else ret ()"
  have rename: "svc_keeps I ?rename" for I by (intro svc_keeps_intros)
  show ?thesis
  proof (cases ?disable)
    case True
    show ?thesis
      unfolding iam_update_user_def Let_def if_P [OF True]
      by (rule after_ensure [OF assms], rule snd_read [OF rename], simp add: assms(1), rule snd_write)
        (use assms(1) in \<open>auto intro!: svc_keeps_intros other_admin_has other_admin_update_users\<close>)
  next
    case False
    show ?thesis
      unfolding iam_update_user_def Let_def if_not_P [OF False]
      by (rule snd_read, intro svc_keeps_intros, rule assms(1), rule snd_read [OF rename], simp add: assms(1),
          rule snd_write)
        (use assms(1) False in \<open>auto intro!: svc_keeps_intros update_status_admin [where status = "uu_status payload"]
           split: option.splits\<close>)
  qed
qed

lemma role_id_wp:
  "svc_wp (role_id_by_name role) (\<lambda>r w'. iam_of w' = iam_of w \<and>
     (\<forall>rid. r = Inr rid \<longrightarrow> (\<exists>x \<in> set (it_roles (iam_of w)). ir_id x = rid \<and> ir_name x = role))) (\<lambda>_ _. False) w"
proof -
  have "\<exists>x \<in> set xs. ir_id x = ir_id y \<and> ir_name x = role" if "find (\<lambda>r. ir_name r = role) xs = Some y" for xs y
    using that by (auto dest: find_Some_mem)
  then show ?thesis by (auto simp: role_id_by_name_def wp Let_def split: option.split)
qed

lemma role_name_unique:
  assumes "iam_ok ae t" "x \<in> set (it_roles t)" "ir_name x \<noteq> name"
  shows "\<not> role_named t (ir_id x) name"
proof
  assume "role_named t (ir_id x) name"
  then obtain y where "y \<in> set (it_roles t)" "ir_id y = ir_id x" "ir_name y = name" by (auto simp: role_named_def)
  moreover have "distinct (map ir_id (it_roles t))" using assms(1) by (simp add: iam_ok_def roles_ok_def)
  ultimately show False using assms(2,3) by (auto simp: distinct_map inj_on_def)
qed

lemma revoke_role_admin:
  assumes "has_admin (iam_of w)" "iam_ok ae (iam_of w)"
  shows "has_admin (iam_of (snd (revoke_role_from_user ae i role w)))"
proof -
  let ?P = "\<lambda>w'. has_admin (iam_of w')"
  let ?rest = "\<lambda>rid. tbind (iam_sql (iam_write ae (\<lambda>_ t.
      ((), t\<lparr>it_user_roles := filter (\<lambda>p. p \<noteq> (i, rid)) (it_user_roles t)\<rparr>)))) (\<lambda>_. user_roles ae i)"
  show ?thesis
  proof (cases "eq_ignore_ascii_case role ''policy-admin''")
    case True
    show ?thesis
      unfolding revoke_role_from_user_def if_P [OF True]
      by (rule after_ensure [OF assms], rule snd_read, intro svc_keeps_intros, simp add: assms(1), rule snd_write)
        (use assms(1) in \<open>auto intro!: svc_keeps_intros other_admin_revoke\<close>)
  next
    case False
    then have role: "role \<noteq> ROLE_POLICY_ADMIN" by (auto simp: ROLE_POLICY_ADMIN_def)
    have "?P (snd (tbind (role_id_by_name role) ?rest w'))" if w': "iam_of w' = iam_of w" for w'
    proof -
      have "svc_wp (role_id_by_name role) (\<lambda>r. case r of Inl e \<Rightarrow> ?P | Inr x \<Rightarrow> svc_wp (?rest x) (\<lambda>_. ?P) (\<lambda>_. ?P))
          (\<lambda>_. ?P) w'"
      proof (rule wp_mono [OF role_id_wp])
        fix r v
        assume v: "iam_of v = iam_of w' \<and>
          (\<forall>rid. r = Inr rid \<longrightarrow> (\<exists>x \<in> set (it_roles (iam_of w')). ir_id x = rid \<and> ir_name x = role))"
        have "?P (snd (?rest rid v))" if "r = Inr rid" for rid
        proof (rule snd_write)
          have "\<not> role_named (iam_of v) rid ROLE_POLICY_ADMIN"
            using v that role role_name_unique [OF assms(2)] w' by auto
          then show "has_admin (snd ((), (iam_of v)\<lparr>it_user_roles :=
              filter (\<lambda>p. p \<noteq> (i, rid)) (it_user_roles (iam_of v))\<rparr>))"
            using unnamed_role_revoke assms(1) v w' by simp
        qed (use assms(1) v w' in \<open>auto intro!: svc_keeps_intros\<close>)
        then show "(case r of Inl e \<Rightarrow> ?P | Inr x \<Rightarrow> svc_wp (?rest x) (\<lambda>_. ?P) (\<lambda>_. ?P)) v"
          using assms(1) v w' by (auto simp: wp_snd [of _ ?P] split: sum.split)
      qed simp
      then have "svc_wp (tbind (role_id_by_name role) ?rest) (\<lambda>_. ?P) (\<lambda>_. ?P) w'" unfolding wp_tbind .
      then show ?thesis by (simp only: wp_snd [of _ ?P])
    qed
    then show ?thesis
      unfolding revoke_role_from_user_def if_not_P [OF False]
      by (rule snd_read [OF svc_keeps_typed(1) assms(1)])
  qed
qed

text \<open>The requests that can take the administrator role from a user without looking at the user.\<close>

fun group_removal :: "iam_request \<Rightarrow> bool" where
  "group_removal (ReqDeleteGroup g) = True"
| "group_removal (ReqRemoveMember g i) = True"
| "group_removal (ReqRevokeGroupRole g r) = True"
| "group_removal _ = False"

lemma keeps_details [svc_keeps_intros]:
  "svc_keeps I (groups_of_user ae i)" "svc_keeps I (user_details_of ae u)" "svc_keeps I (group_details_of ae g)"
  "svc_keeps I (account_details_of ae a)" "svc_keeps I (role_required r)"
  unfolding groups_of_user_def user_details_of_def group_details_of_def account_details_of_def role_required_def
  by (intro svc_keeps_intros)+

text \<open>Handlers that read keep everything, those that write at most add to what an administrator needs.\<close>

lemma keeps_reading_routes [svc_keeps_intros]:
  "svc_keeps I (list_users_route ae ctx q)" "svc_keeps I (get_user_route ae ctx i)"
  "svc_keeps I (list_user_tokens_route ae ctx i)" "svc_keeps I (list_groups_route ae ctx q)"
  "svc_keeps I (get_group_route ae ctx i)" "svc_keeps I (list_group_members_route ae ctx i)"
  "svc_keeps I (list_roles_route ae ctx)" "svc_keeps I (list_service_accounts_route ae ctx q)"
  "svc_keeps I (get_service_account_route ae ctx i)" "svc_keeps I (list_audit_route ae ctx q)"
  unfolding route_defs Let_def by (intro svc_keeps_intros)+

lemma keeps_whoami [svc_keeps_intros]: "svc_keeps I (whoami_route ae ctx)"
  unfolding whoami_route_def
  by (cases "cx_principal_type ctx"; cases "cx_principal_id ctx"; simp only: prod.case principal_type.case option.case;
      intro svc_keeps_intros)

lemma keeps_admin_routes [svc_keeps_intros]:
  "svc_keeps has_admin (create_user_route ae ctx cu)" "svc_keeps has_admin (enable_user_route ae ctx i)"
  "svc_keeps has_admin (set_user_password_route ae ctx i pw b)"
  "svc_keeps has_admin (create_user_token_route ae ctx i ct)" "svc_keeps has_admin (revoke_user_token_route ae ctx i j)"
  "svc_keeps has_admin (create_group_route ae ctx cg)" "svc_keeps has_admin (update_group_route ae ctx i ug)"
  "svc_keeps has_admin (add_member_route ae ctx i j)" "svc_keeps has_admin (assign_user_role_route ae ctx i r)"
  "svc_keeps has_admin (assign_group_role_route ae ctx i r)"
  "svc_keeps has_admin (create_service_account_route ae ctx cs)"
  "svc_keeps has_admin (rotate_service_account_route ae ctx i us)"
  "svc_keeps has_admin (disable_service_account_route ae ctx i)"
  unfolding route_defs by (intro svc_keeps_intros)+

lemma keeps_done [svc_keeps_intros]: "svc_keeps I m \<Longrightarrow> svc_keeps I (done_route m)"
  unfolding done_route_def by (intro svc_keeps_intros)

lemma done_admin: "has_admin (iam_of (snd (m w))) \<Longrightarrow> has_admin (iam_of (snd (done_route m w)))"
  unfolding done_route_def by (erule snd_tbind_keeps) (intro svc_keeps_intros)

text \<open>A handler that calls one operation and then only reads and logs.\<close>

lemma route_admin:
  assumes "has_admin (iam_of w)" "has_admin (iam_of (snd (m w)))" "\<And>x. svc_keeps has_admin (f x)"
  shows "has_admin (iam_of (snd (tbind (guard_roles ctx roles) (\<lambda>_. tbind (map_err g m) f) w)))"
  by (rule snd_guard [where I = has_admin, OF assms(1)], rule snd_tbind_keeps)
    (simp_all add: assms(2,3))

text \<open>
  C13: as long as there is an active administrator, every identity request, whoever sends it and whatever
  statements fail, leaves one, apart from the three requests that take a role from a group or a user
  from a group.
\<close>

theorem last_admin_kept:
  assumes "iam_ok ae (iam_of w)" "active_policy_admins (iam_of w) \<noteq> []" "\<not> group_removal req"
    and "iam_dispatch ae ctx req w = (r, w')"
  shows "active_policy_admins (iam_of w') \<noteq> []"
proof -
  have admin: "has_admin (iam_of w)" using assms(2) by (simp add: has_admin_list)
  note ops = update_user_admin [OF admin assms(1)] disable_user_admin [OF admin assms(1)]
    hard_delete_user_admin [OF admin assms(1)] revoke_role_admin [OF admin assms(1)]
  have "has_admin (iam_of (snd (iam_dispatch ae ctx req w)))"
  proof (cases req)
    case (ReqUpdateUser i p)
    show ?thesis unfolding ReqUpdateUser iam_dispatch.simps update_user_route_def
      by (rule done_admin, rule route_admin [OF admin], rule ops(1)) (intro svc_keeps_intros)
  next
    case (ReqDisableUser i)
    show ?thesis unfolding ReqDisableUser iam_dispatch.simps disable_user_route_def
      by (rule done_admin, rule route_admin [OF admin], rule ops(2)) (intro svc_keeps_intros)
  next
    case (ReqDeleteUser i h)
    have "has_admin (iam_of (snd (delete_user_route ae ctx i h w)))"
      unfolding delete_user_route_def
      by (cases "opt_else h False"; simp only: if_True if_False;
          rule route_admin [OF admin]; (rule ops | intro svc_keeps_intros))
    then show ?thesis unfolding ReqDeleteUser iam_dispatch.simps by (rule done_admin)
  next
    case (ReqRevokeUserRole i role)
    show ?thesis unfolding ReqRevokeUserRole iam_dispatch.simps revoke_user_role_route_def
      by (rule done_admin, rule route_admin [OF admin], rule ops(4)) (intro svc_keeps_intros)
  qed (use assms(3) admin in \<open>simp_all add: svc_keepsD svc_keeps_intros\<close>)
  with assms(4) show ?thesis by (simp add: has_admin_list)
qed

section \<open>Groups and the administrator role\<close>

text \<open>Logging touches the audit tables only, whatever happens to it.\<close>

definition same_but_audit :: "iam_tables \<Rightarrow> iam_tables \<Rightarrow> bool" where
  "same_but_audit t t' \<longleftrightarrow> (\<exists>a b. t' = t\<lparr>it_audit := a, it_audit_events := b\<rparr>)"

lemma same_but_audit_refl [simp]: "same_but_audit t t"
  unfolding same_but_audit_def by (rule exI [of _ "it_audit t"], rule exI [of _ "it_audit_events t"]) simp

lemma log_iam_event_wp:
  "svc_wp (log_iam_event ae action actor tt ti payload)
     (\<lambda>r w'. r = Inr () \<and> same_but_audit (iam_of w) (iam_of w') \<and> sb_fails w' = sb_fails w \<and> sb_now w' = sb_now w)
     (\<lambda>_ _. False) w"
proof -
  have parts: "same_but_audit t (t\<lparr>it_audit := a\<rparr>)" "same_but_audit t (t\<lparr>it_audit_events := b\<rparr>)"
    "same_but_audit t (t\<lparr>it_audit := a, it_audit_events := b\<rparr>)" for t a b
    unfolding same_but_audit_def
      apply (rule exI [of _ a], rule exI [of _ "it_audit_events t"], simp)
     apply (rule exI [of _ "it_audit t"], rule exI [of _ b], simp)
    by blast
  show ?thesis
    by (auto simp: log_iam_event_def record_iam_event_def audit_logger_log_def wp Let_def parts)
qed

lemma audit_admins: "same_but_audit t t' \<Longrightarrow> active_policy_admins t' = active_policy_admins t"
  by (auto simp: same_but_audit_def active_policy_admins_def active_policy_admin_def role_named_def
      intro!: filter_cong)

lemma tokens_ok_frame:
  assumes "it_users t' = it_users t" "it_user_tokens t' = it_user_tokens t" "it_refresh t' = it_refresh t"
  shows "tokens_ok ae t' = tokens_ok ae t"
  unfolding tokens_ok_def assms by (rule refl)

lemma delete_group_ok:
  assumes "iam_ok ae t"
  shows "iam_ok ae (delete_group_rows g t)"
proof -
  have "groups_ok (filter (\<lambda>x. ig_id x \<noteq> g) (it_groups t))"
    using assms by (auto simp: iam_ok_def groups_ok_def list_all_iff distinct_map_filter)
  moreover have "pairs_ok (ig_id ` set (filter (\<lambda>x. ig_id x \<noteq> g) (it_groups t))) B (filter (\<lambda>(a, b). a \<noteq> g) ps)"
    if "pairs_ok (ig_id ` set (it_groups t)) B ps" for B ps
    using that by (auto simp: pairs_ok_def list_all_iff)
  ultimately show ?thesis
    using assms tokens_ok_frame [of "delete_group_rows g t" t]
    by (simp add: iam_ok_def delete_group_rows_def roles_ok_def)
qed

text \<open>
  Deleting the group that holds the administrator role succeeds and leaves no active administrator, so the
  guard does not cover roles that come from groups.
\<close>

theorem group_deletion_removes_last_admin:
  assumes "svc_reliable w" "iam_ok ae (iam_of w)" "ROLE_POLICY_ADMIN \<in> cx_roles ctx"
    and "group_by_id g (iam_of w) \<noteq> None"
    and "\<forall>(i, rid) \<in> set (it_user_roles (iam_of w)). \<not> role_named (iam_of w) rid ROLE_POLICY_ADMIN"
    and "\<forall>(g', rid) \<in> set (it_group_roles (iam_of w)). role_named (iam_of w) rid ROLE_POLICY_ADMIN \<longrightarrow> g' = g"
  shows "\<exists>w'. delete_group_route ae ctx g w = (Inr (Inr 204), w') \<and> active_policy_admins (iam_of w') = []"
proof -
  have none: "active_policy_admins (delete_group_rows g (iam_of w)) = []"
    using assms(5,6) unfolding active_policy_admins_def active_policy_admin_def delete_group_rows_def role_named_def
    by (fastforce simp: filter_empty_conv)
  have log: "svc_wp (audit ae ctx a tt g [])
      (\<lambda>r. case r of Inl e \<Rightarrow> \<lambda>_. False | Inr x \<Rightarrow> \<lambda>w'. active_policy_admins (iam_of w') = []) (\<lambda>_ _. False) v"
    if "active_policy_admins (iam_of v) = []" for a tt v
    unfolding audit_def by (rule wp_mono [OF log_iam_event_wp]) (use that in \<open>auto simp: audit_admins\<close>)
  have "svc_wp (delete_group_route ae ctx g)
      (\<lambda>r w'. r = Inr 204 \<and> active_policy_admins (iam_of w') = []) (\<lambda>_ _. False) w"
    using assms(1,3,4)
    by (auto simp: delete_group_route_def iam_delete_group_def wp Let_def ROLE_IAM_ADMIN_def delete_group_ok [OF assms(2)]
        intro!: wp_mono [OF log] simp: none split: sum.splits)
  then show ?thesis by (auto dest: wp_Inr)
qed

end
