(* ===== verification/Iam_Listing.thy ===== *)
theory Iam_Listing
  imports Iam_Correct
begin

text \<open>
  The lists of the identity service.  The four routes are instances of \<open>keyset\<close>; following the forward
  cursors of the user list returns every user once, newest first, and a backward step to the first page
  loses the way forward.
\<close>

section \<open>The keys of the lists\<close>

interpretation user_pages: keyset False "\<lambda>u. (iu_created_at u, iu_id u)" iu_id
  by unfold_locales simp

interpretation audit_pages: keyset False "\<lambda>e. (ia_created_at e, ia_id e)" ia_id
  by unfold_locales simp

interpretation group_pages: keyset True "\<lambda>g. (ae_collate ae (ig_name g), ig_id g)" ig_id for ae
  by unfold_locales simp

interpretation account_pages: keyset True "\<lambda>a. (ae_collate ae (sa_name a), sa_id a)" sa_id for ae
  by unfold_locales simp

section \<open>One page\<close>

text \<open>What is relied on of the text forms in a cursor.\<close>

definition cursor_text_ok :: "admin_env \<Rightarrow> bool" where
  "cursor_text_ok ae \<longleftrightarrow> base64_ok ae \<and> json_text_ok (ae_ex ae) \<and>
     (\<forall>t. ae_time_parse ae (ae_rfc3339 ae t) = Some t) \<and>
     (\<forall>i. uuid_parse (ae_ex ae) (uuid_to_string (ae_ex ae) i) = Some i)"

definition user_cursor :: "admin_env \<Rightarrow> cursor_direction \<Rightarrow> iam_user \<Rightarrow> string" where
  "user_cursor ae d u = encode_directional_cursor ae (time_cursor_to_json ae) d (iu_created_at u, iu_id u)"

lemma user_cursor_decodes:
  assumes "cursor_text_ok ae"
  shows "decode_cursor_with_direction ae (time_cursor_of_json ae) (user_cursor ae d u)
    = Inr (d, (iu_created_at u, iu_id u))"
  unfolding user_cursor_def
  by (rule cursor_round_trip)
    (use assms in \<open>auto simp: cursor_text_ok_def time_cursor_to_json_def time_cursor_of_json_def uuid_json_def
       req_field_def time_of_json_def uuid_of_json_def\<close>)

lemma user_details_wp:
  "svc_reliable w \<Longrightarrow> svc_wp (user_details_of ae u)
     (\<lambda>r w'. (\<exists>d :: user_details. r = Inr d \<and> ud_user d = u) \<and> iam_of w' = iam_of w \<and> svc_reliable w')
     (\<lambda>_ _. False) w"
  by (auto simp: user_details_of_def user_roles_def groups_of_user_def wp Let_def) (simp_all add: svc_reliable_def)

lemma collect_wp:
  assumes "svc_reliable w"
  shows "svc_wp (collect (user_details_of ae) us)
     (\<lambda>r w'. (\<exists>ds :: user_details list. r = Inr ds \<and> map ud_user ds = us) \<and> iam_of w' = iam_of w \<and> svc_reliable w')
     (\<lambda>_ _. False) w"
  using assms
proof (induction us arbitrary: w)
  case Nil
  then show ?case by (simp add: wp)
next
  case (Cons u us)
  let ?rest = "\<lambda>y. tbind (collect (user_details_of ae) us) (\<lambda>ys. ret (y # ys))"
  let ?Q = "\<lambda>r w'. (\<exists>ds :: user_details list. r = Inr ds \<and> map ud_user ds = u # us) \<and> iam_of w' = iam_of w \<and> svc_reliable w'"
  have "svc_wp (user_details_of ae u) (\<lambda>r. case r of Inl e \<Rightarrow> ?Q (Inl e) | Inr d \<Rightarrow> svc_wp (?rest d) ?Q (\<lambda>_ _. False))
      (\<lambda>_ _. False) w"
  proof (rule wp_mono [OF user_details_wp [OF Cons.prems]])
    fix r :: "(nat \<times> api_error) + user_details" and v
    assume v: "(\<exists>d. r = Inr d \<and> ud_user d = u) \<and> iam_of v = iam_of w \<and> svc_reliable v"
    then obtain d where d: "r = Inr d" "ud_user d = u" by auto
    have "svc_wp (collect (user_details_of ae) us)
        (\<lambda>r. case r of Inl e \<Rightarrow> ?Q (Inl e) | Inr x \<Rightarrow> ?Q (Inr (d # x))) (\<lambda>_ _. False) v"
      by (rule wp_mono [OF Cons.IH]) (use v d in auto)
    then show "(case r of Inl e \<Rightarrow> ?Q (Inl e) | Inr d \<Rightarrow> svc_wp (?rest d) ?Q (\<lambda>_ _. False)) v"
      unfolding d(1) sum.case wp_tbind wp_ret .
  qed simp
  then show ?case unfolding collect.simps wp_tbind .
qed

text \<open>A page that starts behind what has been seen: \<open>ys\<close> are the users still to come.\<close>

definition users_left :: "admin_env \<Rightarrow> iam_tables \<Rightarrow> string option \<Rightarrow> iam_user list \<Rightarrow> bool" where
  "users_left ae t cursor ys \<longleftrightarrow>
     (case cursor of
        None \<Rightarrow> ys = user_pages.ordered (it_users t)
      | Some c \<Rightarrow> (\<exists>xs u. user_pages.ordered (it_users t) = xs @ u # ys \<and> c = user_cursor ae CursorNext u))"

lemma fetched_users:
  assumes "users_left ae t cursor ys" "distinct (map iu_id (it_users t))" "cursor_text_ok ae"
  shows "\<exists>anchor. read_cursor ae (time_cursor_of_json ae) cursor = (ret (CursorNext, anchor) :: (iam_tables, _) route) \<and>
    window False (\<lambda>u. (iu_created_at u, iu_id u)) anchor n (it_users t) = take n ys"
proof (cases cursor)
  case None
  with assms(1) show ?thesis
    by (auto simp: read_cursor_def users_left_def user_pages.window_ordered)
next
  case (Some c)
  with assms(1) obtain xs u where u: "user_pages.ordered (it_users t) = xs @ u # ys" "c = user_cursor ae CursorNext u"
    by (auto simp: users_left_def)
  then show ?thesis
    using user_pages.beyond_row [OF assms(2) u(1)]
    by (intro exI [of _ "Some (iu_created_at u, iu_id u)"])
      (simp add: read_cursor_def Some user_cursor_decodes [OF assms(3)])
qed

lemma users_page:
  fixes n :: "nat option"
  assumes "svc_reliable w" "iam_ok ae (iam_of w)" "cursor_text_ok ae"
    and "cx_roles ctx \<inter> {ROLE_POLICY_ADMIN, ROLE_AUDITOR} \<noteq> {}" "users_left ae (iam_of w) cursor ys"
  defines "limit \<equiv> cursor_limit n"
  shows "\<exists>page w'. list_users_route ae ctx \<lparr>lq_limit = n, lq_cursor = cursor\<rparr> w = (Inr (Inr page), w') \<and>
    iam_of w' = iam_of w \<and> svc_reliable w' \<and> map ud_user (cp_data page) = map user_record_of (take limit ys) \<and>
    cp_next_cursor page = (if limit < length ys then Some (user_cursor ae CursorNext (last (take limit ys))) else None)"
proof -
  have dist: "distinct (map iu_id (it_users (iam_of w)))" using assms(2) by (simp add: iam_ok_def users_ok_def)
  obtain anchor where anchor: "read_cursor ae (time_cursor_of_json ae) cursor = (ret (CursorNext, anchor) :: (iam_tables, _) route)"
    "window False (\<lambda>u. (iu_created_at u, iu_id u)) anchor (limit + 1) (it_users (iam_of w)) = take (limit + 1) ys"
    using fetched_users [OF assms(5) dist assms(3)] by blast
  have pos: "0 < limit" by (simp add: limit_def cursor_limit_def)
  have rows: "page_rows CursorNext limit (map user_record_of (take (Suc limit) ys))
      = (limit < length ys, map user_record_of (take limit ys))"
    by (auto simp: page_rows_def Let_def take_map [symmetric] min_def)
  let ?Q = "\<lambda>r w'. case r of Inl _ \<Rightarrow> False | Inr page \<Rightarrow> iam_of w' = iam_of w \<and> svc_reliable w' \<and>
      map ud_user (cp_data page) = map user_record_of (take limit ys) \<and>
      cp_next_cursor page = (if limit < length ys then Some (user_cursor ae CursorNext (last (take limit ys))) else None)"
  have cursors: "fst (page_cursors ae (time_cursor_to_json ae) (\<lambda>d. (ur_created_at (ud_user d), ur_id (ud_user d)))
      cursor b ds)
      = (if limit < length ys then Some (user_cursor ae CursorNext (last (take limit ys))) else None)"
    if ds: "map ud_user ds = map user_record_of (take limit ys)" and b: "b = (limit < length ys)"
    for ds :: "user_details list" and b
  proof (cases "limit < length ys")
    case True
    with pos have ne: "take limit ys \<noteq> []" by auto
    with ds have "ds \<noteq> []" by auto
    moreover have "ud_user (last ds) = user_record_of (last (take limit ys))"
      using ds ne \<open>ds \<noteq> []\<close> by (metis last_map)
    ultimately show ?thesis using True by (simp add: page_cursors_def b user_cursor_def user_record_of_def)
  qed (simp add: page_cursors_def b)
  have "svc_wp (list_users_route ae ctx \<lparr>lq_limit = n, lq_cursor = cursor\<rparr>) ?Q (\<lambda>_ _. False) w"
    using assms(1,4)
    by (auto simp: list_users_route_def wp Let_def ROLE_IAM_VIEW_def anchor(1) anchor(2) [simplified] rows
        limit_def [symmetric] new_with_prev_def prod.case_eq_if cursors svc_reliable_def
        intro!: wp_mono [OF collect_wp] split: sum.splits)
  then obtain x w' where "list_users_route ae ctx \<lparr>lq_limit = n, lq_cursor = cursor\<rparr> w = (Inr x, w')" "?Q x w'"
    using wp_Inr by blast
  then show ?thesis by (cases x) auto
qed

section \<open>All pages\<close>

text \<open>A client that follows the forward cursors, with fuel for the number of pages.\<close>

fun walk_users :: "admin_env \<Rightarrow> api_user_context \<Rightarrow> nat option \<Rightarrow> nat \<Rightarrow> string option \<Rightarrow> (iam_tables, user_details list) route" where
  "walk_users ae ctx n 0 cursor = lift_svc (svc_fail (Error ''out of fuel''))"
| "walk_users ae ctx n (Suc fuel) cursor =
     tbind (list_users_route ae ctx \<lparr>lq_limit = n, lq_cursor = cursor\<rparr>) (\<lambda>page.
       case cp_next_cursor page of
         None \<Rightarrow> ret (cp_data page)
       | Some c \<Rightarrow> tbind (walk_users ae ctx n fuel (Some c)) (\<lambda>rest. ret (cp_data page @ rest)))"

lemma run_ret [simp]: "ret x w = (Inr (Inr x), w)"
  by (simp add: ret_def svc_return_def)

lemma users_left_next:
  assumes "users_left ae t cursor ys" "0 < limit" "limit < length ys"
  shows "users_left ae t (Some (user_cursor ae CursorNext (last (take limit ys)))) (drop limit ys)"
proof -
  have split: "ys = butlast (take limit ys) @ last (take limit ys) # drop limit ys"
    using user_pages.next_page(2) [OF assms(2,3)] by blast
  obtain zs where zs: "user_pages.ordered (it_users t) = zs @ ys"
    using assms(1) by (auto simp: users_left_def split: option.splits)
  have "user_pages.ordered (it_users t) = (zs @ butlast (take limit ys)) @ last (take limit ys) # drop limit ys"
    using zs split by (metis append.assoc)
  then show ?thesis unfolding users_left_def by auto
qed

lemma walk_users_left:
  assumes "svc_reliable w" "iam_ok ae (iam_of w)" "cursor_text_ok ae"
    and "cx_roles ctx \<inter> {ROLE_POLICY_ADMIN, ROLE_AUDITOR} \<noteq> {}" "users_left ae (iam_of w) cursor ys"
    and "length ys < fuel"
  shows "\<exists>ds w'. walk_users ae ctx n fuel cursor w = (Inr (Inr ds), w') \<and> iam_of w' = iam_of w \<and>
    map ud_user ds = map user_record_of ys"
  using assms
proof (induction fuel arbitrary: w cursor ys)
  case 0
  then show ?case by simp
next
  case (Suc fuel)
  let ?limit = "cursor_limit n"
  obtain page w1 where page: "list_users_route ae ctx \<lparr>lq_limit = n, lq_cursor = cursor\<rparr> w = (Inr (Inr page), w1)"
    "iam_of w1 = iam_of w" "svc_reliable w1" "map ud_user (cp_data page) = map user_record_of (take ?limit ys)"
    "cp_next_cursor page = (if ?limit < length ys then Some (user_cursor ae CursorNext (last (take ?limit ys))) else None)"
    using users_page [OF Suc.prems(1-5), of n] by blast
  have pos: "0 < ?limit" by (simp add: cursor_limit_def)
  show ?case
  proof (cases "?limit < length ys")
    case False
    then show ?thesis using page by (simp add: tbind_def svc_bind_def)
  next
    case True
    have left: "users_left ae (iam_of w1) (Some (user_cursor ae CursorNext (last (take ?limit ys)))) (drop ?limit ys)"
      using users_left_next [OF Suc.prems(5) pos True] page(2) by simp
    have short: "length (drop ?limit ys) < fuel" using True pos Suc.prems(6) by simp
    have ok: "iam_ok ae (iam_of w1)" using Suc.prems(2) page(2) by simp
    obtain ds w2 where rest:
      "walk_users ae ctx n fuel (Some (user_cursor ae CursorNext (last (take ?limit ys)))) w1 = (Inr (Inr ds), w2)"
      "iam_of w2 = iam_of w1" "map ud_user ds = map user_record_of (drop ?limit ys)"
      using Suc.IH [OF page(3) ok Suc.prems(3,4) left short] by blast
    have "map user_record_of (take ?limit ys) @ map user_record_of (drop ?limit ys) = map user_record_of ys"
      by (simp add: map_append [symmetric] del: map_append)
    then show ?thesis
      using rest page True by (simp add: tbind_def svc_bind_def)
  qed
qed

text \<open>
  C39: whatever page size is asked for, following the forward cursors of the user list ends, and returns
  every user exactly once, newest first.
\<close>

theorem user_pages_complete:
  assumes "svc_reliable w" "iam_ok ae (iam_of w)" "cursor_text_ok ae"
    and "cx_roles ctx \<inter> {ROLE_POLICY_ADMIN, ROLE_AUDITOR} \<noteq> {}"
  shows "\<exists>ds w'. walk_users ae ctx n (Suc (length (it_users (iam_of w)))) None w = (Inr (Inr ds), w') \<and>
    iam_of w' = iam_of w \<and>
    map ud_user ds = map user_record_of (rev (sort_key (\<lambda>u. (iu_created_at u, iu_id u)) (it_users (iam_of w))))"
  using walk_users_left [OF assms, of None "user_pages.ordered (it_users (iam_of w))" "Suc (length (it_users (iam_of w)))" n]
  by (simp add: users_left_def user_pages.ordered_def del: walk_users.simps)

end
