(* ===== verification/Admin_Auth.thy ===== *)
theory Admin_Auth
  imports Iam_Service
begin

text \<open>
  Authentication in the administration service, \<^verbatim>\<open>services/admin-api/src/auth.rs\<close>: settings, local and OIDC bearer
  tokens, API tokens, logins, refresh tokens and password changes.  The MAC, the hash functions, base64
  and the clock's text form are taken from \<open>admin_env\<close>.
\<close>

section \<open>Settings\<close>

datatype auth_mode = AuthLocal | AuthHybrid | AuthOidc

record auth_settings =
  as_mode :: auth_mode
  as_static_roles :: "string list option"
  as_oidc_issuer :: "string option"
  as_oidc_audience :: "string option"
  as_oidc_hs256_secret :: "string option"
  as_allow_claim_fallback :: bool
  as_local_jwt_secret :: "string option"
  as_local_jwt_ttl_seconds :: int
  as_max_failed_attempts :: i32
  as_lockout_seconds :: int
  as_refresh_ttl_seconds :: int
  as_refresh_max_sessions :: int

text \<open>The derived default, for a configuration without the section.\<close>

definition auth_settings_default :: auth_settings where
  "auth_settings_default =
     \<lparr>as_mode = AuthLocal, as_static_roles = None, as_oidc_issuer = None, as_oidc_audience = None,
      as_oidc_hs256_secret = None, as_allow_claim_fallback = False, as_local_jwt_secret = None,
      as_local_jwt_ttl_seconds = 0, as_max_failed_attempts = 0, as_lockout_seconds = 0,
      as_refresh_ttl_seconds = 0, as_refresh_max_sessions = 0\<rparr>"

definition mode_of_json :: "json \<Rightarrow> auth_mode option" where
  "mode_of_json j =
     (if j = JStr ''local'' then Some AuthLocal else if j = JStr ''hybrid'' then Some AuthHybrid
      else if j = JStr ''oidc'' then Some AuthOidc else None)"

definition auth_settings_of_json :: "json \<Rightarrow> auth_settings option" where
  "auth_settings_of_json j =
     Option.bind (fields_of [''mode'', ''static_roles'', ''oidc_issuer'', ''oidc_audience'', ''oidc_hs256_secret'',
       ''allow_claim_fallback'', ''local_jwt_secret'', ''local_jwt_ttl_seconds'', ''max_failed_attempts'',
       ''lockout_seconds'', ''refresh_ttl_seconds'', ''refresh_max_sessions''] j) (\<lambda>fs.
     Option.bind (default_field AuthLocal mode_of_json ''mode'' fs) (\<lambda>mode.
     Option.bind (opt_field (list_of_json string_of_json) ''static_roles'' fs) (\<lambda>roles.
     Option.bind (opt_field string_of_json ''oidc_issuer'' fs) (\<lambda>issuer.
     Option.bind (opt_field string_of_json ''oidc_audience'' fs) (\<lambda>audience.
     Option.bind (opt_field string_of_json ''oidc_hs256_secret'' fs) (\<lambda>hs256.
     Option.bind (default_field True bool_of_json ''allow_claim_fallback'' fs) (\<lambda>fallback.
     Option.bind (opt_field string_of_json ''local_jwt_secret'' fs) (\<lambda>secret.
     Option.bind (default_field 3600 i64_of_json ''local_jwt_ttl_seconds'' fs) (\<lambda>ttl.
     Option.bind (default_field 5 i32_of_json ''max_failed_attempts'' fs) (\<lambda>attempts.
     Option.bind (default_field 900 i64_of_json ''lockout_seconds'' fs) (\<lambda>lockout.
     Option.bind (default_field 604800 i64_of_json ''refresh_ttl_seconds'' fs) (\<lambda>refresh_ttl.
     Option.bind (default_field 5 i64_of_json ''refresh_max_sessions'' fs) (\<lambda>sessions.
       Some \<lparr>as_mode = mode, as_static_roles = roles, as_oidc_issuer = issuer, as_oidc_audience = audience,
             as_oidc_hs256_secret = hs256, as_allow_claim_fallback = fallback, as_local_jwt_secret = secret,
             as_local_jwt_ttl_seconds = ttl, as_max_failed_attempts = attempts, as_lockout_seconds = lockout,
             as_refresh_ttl_seconds = refresh_ttl, as_refresh_max_sessions = sessions\<rparr>)))))))))))))"

definition env_number :: "environment \<Rightarrow> string \<Rightarrow> nat \<Rightarrow> int \<Rightarrow> int \<Rightarrow> int" where
  "env_number env name bits lower old =
     (case Option.bind (env name) (parse_signed bits) of None \<Rightarrow> old | Some v \<Rightarrow> max v lower)"

definition merge_env :: "environment \<Rightarrow> auth_settings \<Rightarrow> auth_settings" where
  "merge_env env s = s\<lparr>
     as_mode := (case env ''OD_AUTH_MODE'' of None \<Rightarrow> as_mode s
       | Some m \<Rightarrow> (if to_ascii_lowercase m = ''oidc'' then AuthOidc
                    else if to_ascii_lowercase m = ''hybrid'' then AuthHybrid else AuthLocal)),
     as_oidc_hs256_secret := coalesce (env ''OD_OIDC_HS256_SECRET'') (as_oidc_hs256_secret s),
     as_oidc_issuer := coalesce (env ''OD_OIDC_ISSUER'') (as_oidc_issuer s),
     as_oidc_audience := coalesce (env ''OD_OIDC_AUDIENCE'') (as_oidc_audience s),
     as_local_jwt_secret := coalesce (env ''OD_LOCAL_AUTH_JWT_SECRET'') (as_local_jwt_secret s),
     as_local_jwt_ttl_seconds := env_number env ''OD_LOCAL_AUTH_TTL_SECONDS'' 64 300 (as_local_jwt_ttl_seconds s),
     as_max_failed_attempts :=
       word_of_int (env_number env ''OD_LOCAL_AUTH_MAX_FAILED_ATTEMPTS'' 32 1 (sint (as_max_failed_attempts s))),
     as_lockout_seconds := env_number env ''OD_LOCAL_AUTH_LOCKOUT_SECONDS'' 64 30 (as_lockout_seconds s),
     as_refresh_ttl_seconds := env_number env ''OD_LOCAL_AUTH_REFRESH_TTL_SECONDS'' 64 600 (as_refresh_ttl_seconds s),
     as_refresh_max_sessions := env_number env ''OD_LOCAL_AUTH_REFRESH_MAX_SESSIONS'' 64 1 (as_refresh_max_sessions s),
     as_static_roles := (case as_static_roles s of None \<Rightarrow> Some default_static_roles
       | Some r \<Rightarrow> if r = [] then Some default_static_roles else Some r)\<rparr>"

definition validate_local_jwt_secret :: "environment \<Rightarrow> string \<Rightarrow> unit res" where
  "validate_local_jwt_secret env secret =
     validator_finish (require_strong_secret_with_blocklist env ''OD_LOCAL_AUTH_JWT_SECRET'' (Some secret) 32
       [''od-local-dev-secret-change-me'', ''changeme-local-jwt-secret'', ''local-jwt-secret'']
       ''OD_LOCAL_AUTH_JWT_SECRET must be at least 32 characters and not use default/test values''
       (validator_new ''admin-api.auth''))"

definition local_login_enabled :: "auth_mode \<Rightarrow> bool" where
  "local_login_enabled m \<longleftrightarrow> m = AuthLocal \<or> m = AuthHybrid"

definition secret_missing :: error where
  "secret_missing = Error ''OD_LOCAL_AUTH_JWT_SECRET is required when auth.mode is local or hybrid''"

definition validate_settings_for_startup :: "environment \<Rightarrow> auth_settings \<Rightarrow> auth_settings res" where
  "validate_settings_for_startup env settings =
     (let merged = merge_env env settings
      in if local_login_enabled (as_mode merged)
         then bind_res (ok_or secret_missing (as_local_jwt_secret merged)) (\<lambda>secret.
              bind_res (validate_local_jwt_secret env secret) (\<lambda>_. Inr merged))
         else Inr merged)"

record local_jwt_issuer =
  lj_secret :: string
  lj_ttl_seconds :: int

record jwt_validator =
  jv_secret :: string
  jv_issuer :: string
  jv_audience :: string

record admin_auth =
  aa_static_token :: "string option"
  aa_fallback_roles :: "string list"
  aa_mode :: auth_mode
  aa_allow_claim_fallback :: bool
  aa_local_jwt :: local_jwt_issuer
  aa_max_failed_attempts :: i32
  aa_lockout_seconds :: int
  aa_refresh_ttl_seconds :: int
  aa_refresh_max_sessions :: int
  aa_jwt :: "jwt_validator option"

definition local_jwt_issuer_new :: "string \<Rightarrow> int \<Rightarrow> local_jwt_issuer" where
  "local_jwt_issuer_new secret ttl = \<lparr>lj_secret = secret, lj_ttl_seconds = max ttl 300\<rparr>"

definition auth_from_config :: "environment \<Rightarrow> string option \<Rightarrow> auth_settings \<Rightarrow> admin_auth res" where
  "auth_from_config env static_token settings =
     bind_res (validate_settings_for_startup env settings) (\<lambda>merged.
     bind_res (if local_login_enabled (as_mode merged)
               then bind_res (ok_or secret_missing (as_local_jwt_secret merged)) (\<lambda>secret.
                    bind_res (validate_local_jwt_secret env secret) (\<lambda>_. Inr secret))
               else Inr (opt_else (as_local_jwt_secret merged) ''od-oidc-local-jwt-unused'')) (\<lambda>local_secret.
       Inr \<lparr>aa_static_token = static_token,
            aa_fallback_roles = opt_else (as_static_roles merged) default_static_roles,
            aa_mode = as_mode merged, aa_allow_claim_fallback = as_allow_claim_fallback merged,
            aa_local_jwt = local_jwt_issuer_new local_secret (as_local_jwt_ttl_seconds merged),
            aa_max_failed_attempts = as_max_failed_attempts merged,
            aa_lockout_seconds = as_lockout_seconds merged,
            aa_refresh_ttl_seconds = as_refresh_ttl_seconds merged,
            aa_refresh_max_sessions = as_refresh_max_sessions merged,
            aa_jwt = (case (as_oidc_hs256_secret merged, as_oidc_issuer merged, as_oidc_audience merged) of
                        (Some s, Some i, Some a) \<Rightarrow> Some \<lparr>jv_secret = s, jv_issuer = i, jv_audience = a\<rparr>
                      | _ \<Rightarrow> None)\<rparr>))"

section \<open>Errors\<close>

datatype auth_error =
    AuthInvalidFormat
  | AuthInvalidSignature
  | AuthInvalidIssuer
  | AuthInvalidAudience
  | AuthExpired
  | AuthInvalidCredentials
  | AuthLocked string
  | AuthNotProvisioned
  | AuthDisabled
  | AuthDatabase string
  | AuthInternal string

type_synonym 'a auth = "(iam_tables, auth_error + 'a) svc"

fun auth_error_of_iam :: "admin_env \<Rightarrow> iam_error \<Rightarrow> auth_error" where
  "auth_error_of_iam ae (IamNotFound _) = AuthNotProvisioned"
| "auth_error_of_iam ae (IamValidation msg) = AuthInternal msg"
| "auth_error_of_iam ae (IamDb e) = AuthDatabase e"
| "auth_error_of_iam ae (IamCrypto e) = AuthInternal e"
| "auth_error_of_iam ae IamInvalidCredentials = AuthInvalidCredentials"
| "auth_error_of_iam ae IamDisabled = AuthDisabled"
| "auth_error_of_iam ae (IamLocked until) = AuthLocked (ae_rfc3339 ae until)"
| "auth_error_of_iam ae IamProtectedUser = AuthInternal ''protected user mutation blocked''"
| "auth_error_of_iam ae IamLastActiveAdmin = AuthInternal ''last active admin guard blocked mutation''"

fun map_auth_error :: "auth_error \<Rightarrow> nat" where
  "map_auth_error (AuthLocked _) = 429"
| "map_auth_error AuthNotProvisioned = 403"
| "map_auth_error AuthDisabled = 403"
| "map_auth_error (AuthDatabase _) = 500"
| "map_auth_error (AuthInternal _) = 500"
| "map_auth_error _ = 401"

fun map_login_error :: "auth_error \<Rightarrow> nat \<times> api_error" where
  "map_login_error AuthDisabled = (403, (''ACCOUNT_DISABLED'', ''account disabled''))"
| "map_login_error (AuthLocked until) = (429, (''ACCOUNT_LOCKED'', ''account locked until '' @ until))"
| "map_login_error (AuthDatabase msg) = (500, (''AUTH_ERROR'', msg))"
| "map_login_error (AuthInternal msg) = (500, (''AUTH_ERROR'', msg))"
| "map_login_error _ = (401, (''INVALID_CREDENTIALS'', ''invalid credentials''))"

abbreviation auth_iam :: "admin_env \<Rightarrow> 'a iam \<Rightarrow> 'a auth" where
  "auth_iam ae m \<equiv> map_err (auth_error_of_iam ae) m"

abbreviation auth_sql :: "(iam_tables, 'a) svc \<Rightarrow> 'a auth" where
  "auth_sql m \<equiv> map_err AuthDatabase (sql m)"

section \<open>Bearer tokens\<close>

definition i64_wrap :: "int \<Rightarrow> int" where
  "i64_wrap i = sint (word_of_int i :: 64 word)"

definition timestamp :: "time \<Rightarrow> int" where
  "timestamp now = int (now div 1000)"

record local_token_claims =
  lc_sub :: uuid
  lc_username :: "string option"
  lc_email :: string
  lc_token_version :: int
  lc_iss :: string
  lc_aud :: string
  lc_exp :: int
  lc_iat :: int

definition local_claims_to_json :: "admin_env \<Rightarrow> local_token_claims \<Rightarrow> json" where
  "local_claims_to_json ae c = JObj
     [(''sub'', JStr (uuid_to_string (ae_ex ae) (lc_sub c))), (''username'', opt_to_json JStr (lc_username c)),
      (''email'', JStr (lc_email c)), (''token_version'', JInt (lc_token_version c)), (''iss'', JStr (lc_iss c)),
      (''aud'', JStr (lc_aud c)), (''exp'', JInt (lc_exp c)), (''iat'', JInt (lc_iat c))]"

definition local_claims_of_json :: "admin_env \<Rightarrow> json \<Rightarrow> local_token_claims option" where
  "local_claims_of_json ae j =
     Option.bind (fields_of [''sub'', ''username'', ''email'', ''token_version'', ''iss'', ''aud'', ''exp'', ''iat''] j) (\<lambda>fs.
     Option.bind (req_field (\<lambda>j. Option.bind (string_of_json j) (uuid_parse (ae_ex ae))) ''sub'' fs) (\<lambda>sub.
     Option.bind (opt_field string_of_json ''username'' fs) (\<lambda>username.
     Option.bind (req_field string_of_json ''email'' fs) (\<lambda>email.
     Option.bind (req_field i64_of_json ''token_version'' fs) (\<lambda>version.
     Option.bind (req_field string_of_json ''iss'' fs) (\<lambda>iss.
     Option.bind (req_field string_of_json ''aud'' fs) (\<lambda>aud.
     Option.bind (req_field i64_of_json ''exp'' fs) (\<lambda>exp.
     Option.bind (req_field i64_of_json ''iat'' fs) (\<lambda>iat.
       Some \<lparr>lc_sub = sub, lc_username = username, lc_email = email, lc_token_version = version,
             lc_iss = iss, lc_aud = aud, lc_exp = exp, lc_iat = iat\<rparr>)))))))))"

definition issue_claims :: "local_jwt_issuer \<Rightarrow> time \<Rightarrow> local_authenticated_user \<Rightarrow> local_token_claims" where
  "issue_claims jwt now user =
     \<lparr>lc_sub = la_id user, lc_username = la_username user, lc_email = la_email user,
      lc_token_version = la_token_version user, lc_iss = ''od-local'', lc_aud = ''od-admin-ui'',
      lc_exp = i64_wrap (timestamp now + lj_ttl_seconds jwt), lc_iat = timestamp now\<rparr>"

definition jwt_issue :: "admin_env \<Rightarrow> local_jwt_issuer \<Rightarrow> time \<Rightarrow> local_authenticated_user \<Rightarrow> string" where
  "jwt_issue ae jwt now user =
     (let header = ae_base64_encode ae (text_of_json (ae_ex ae)
            (JObj [(''alg'', JStr ''HS256''), (''typ'', JStr ''JWT'')]));
          payload = ae_base64_encode ae (text_of_json (ae_ex ae)
            (local_claims_to_json ae (issue_claims jwt now user)));
          signing_input = header @ ''.'' @ payload;
          signature = ae_base64_encode ae (ae_hmac_sha256 ae (lj_secret jwt) signing_input)
      in signing_input @ ''.'' @ signature)"

definition decode_segment :: "admin_env \<Rightarrow> string \<Rightarrow> auth_error + string" where
  "decode_segment ae segment = ok_or AuthInvalidFormat (ae_base64_decode ae segment)"

definition verify_signature :: "admin_env \<Rightarrow> string \<Rightarrow> string \<Rightarrow> string \<Rightarrow> string \<Rightarrow> auth_error + unit" where
  "verify_signature ae secret header payload signature =
     bind_res (decode_segment ae signature) (\<lambda>provided.
       if ae_hmac_sha256 ae secret (header @ ''.'' @ payload) = provided then Inr () else Inl AuthInvalidSignature)"

definition jwt_parts :: "string \<Rightarrow> auth_error + string \<times> string \<times> string" where
  "jwt_parts token =
     (case split_char CHR ''.'' token of
        [header, payload, signature] \<Rightarrow> Inr (header, payload, signature)
      | _ \<Rightarrow> Inl AuthInvalidFormat)"

definition parse_segment :: "admin_env \<Rightarrow> (json \<Rightarrow> 'a option) \<Rightarrow> string \<Rightarrow> auth_error + 'a" where
  "parse_segment ae dec bytes = ok_or AuthInvalidFormat (Option.bind (json_of_text (ae_ex ae) bytes) dec)"

definition local_jwt_validate ::
  "admin_env \<Rightarrow> local_jwt_issuer \<Rightarrow> time \<Rightarrow> string \<Rightarrow> auth_error + local_token_claims" where
  "local_jwt_validate ae jwt now token =
     bind_res (jwt_parts token) (\<lambda>(header, payload, signature).
     bind_res (verify_signature ae (lj_secret jwt) header payload signature) (\<lambda>_.
     bind_res (decode_segment ae payload) (\<lambda>bytes.
     bind_res (parse_segment ae (local_claims_of_json ae) bytes) (\<lambda>claims.
       if lc_iss claims \<noteq> ''od-local'' \<or> lc_aud claims \<noteq> ''od-admin-ui'' then Inl AuthInvalidAudience
       else if lc_exp claims \<le> timestamp now then Inl AuthExpired
       else Inr claims))))"

record oidc_claims =
  oc_sub :: string
  oc_iss :: string
  oc_aud :: "string option"
  oc_exp :: "int option"
  oc_preferred_username :: "string option"
  oc_email :: "string option"
  oc_roles :: "string list option"
  oc_scope :: "string option"

definition oidc_claims_of_json :: "json \<Rightarrow> oidc_claims option" where
  "oidc_claims_of_json j =
     Option.bind (fields_of [''sub'', ''iss'', ''aud'', ''exp'', ''preferred_username'', ''email'', ''roles'', ''scope''] j) (\<lambda>fs.
     Option.bind (req_field string_of_json ''sub'' fs) (\<lambda>sub.
     Option.bind (req_field string_of_json ''iss'' fs) (\<lambda>iss.
     Option.bind (opt_field string_of_json ''aud'' fs) (\<lambda>aud.
     Option.bind (opt_field i64_of_json ''exp'' fs) (\<lambda>exp.
     Option.bind (opt_field string_of_json ''preferred_username'' fs) (\<lambda>name.
     Option.bind (opt_field string_of_json ''email'' fs) (\<lambda>email.
     Option.bind (opt_field (list_of_json string_of_json) ''roles'' fs) (\<lambda>roles.
     Option.bind (opt_field string_of_json ''scope'' fs) (\<lambda>scope.
       Some \<lparr>oc_sub = sub, oc_iss = iss, oc_aud = aud, oc_exp = exp, oc_preferred_username = name,
             oc_email = email, oc_roles = roles, oc_scope = scope\<rparr>)))))))))"

definition claims_validate :: "time \<Rightarrow> string \<Rightarrow> string \<Rightarrow> oidc_claims \<Rightarrow> auth_error + unit" where
  "claims_validate now issuer audience c =
     (if oc_iss c \<noteq> issuer then Inl AuthInvalidIssuer
      else if oc_aud c \<noteq> Some audience then Inl AuthInvalidAudience
      else case oc_exp c of None \<Rightarrow> Inr ()
           | Some exp \<Rightarrow> if exp < timestamp now then Inl AuthExpired else Inr ())"

definition compute_roles :: "oidc_claims \<Rightarrow> string list" where
  "compute_roles c =
     (case oc_roles c of
        Some (r # rs) \<Rightarrow> r # rs
      | _ \<Rightarrow> (case oc_scope c of Some scope \<Rightarrow> split_whitespace scope | None \<Rightarrow> default_static_roles))"

definition claims_actor :: "oidc_claims \<Rightarrow> string" where
  "claims_actor c = opt_else (coalesce (oc_preferred_username c) (oc_email c)) (oc_sub c)"

definition jwt_header_of_json :: "json \<Rightarrow> string option" where
  "jwt_header_of_json j = Option.bind (fields_of [''alg''] j) (req_field string_of_json ''alg'')"

definition jwt_validate :: "admin_env \<Rightarrow> jwt_validator \<Rightarrow> time \<Rightarrow> string \<Rightarrow> auth_error + oidc_claims" where
  "jwt_validate ae jwt now token =
     bind_res (jwt_parts token) (\<lambda>(header, payload, signature).
     bind_res (decode_segment ae header) (\<lambda>header_bytes.
     bind_res (decode_segment ae payload) (\<lambda>payload_bytes.
     bind_res (verify_signature ae (jv_secret jwt) header payload signature) (\<lambda>_.
     bind_res (parse_segment ae jwt_header_of_json header_bytes) (\<lambda>alg.
       if alg \<noteq> ''HS256'' then Inl AuthInvalidFormat
       else bind_res (parse_segment ae oidc_claims_of_json payload_bytes) (\<lambda>claims.
            bind_res (claims_validate now (jv_issuer jwt) (jv_audience jwt) claims) (\<lambda>_. Inr claims)))))))"

section \<open>Authentication of a request\<close>

text \<open>\<open>raise\<close> or return a result that needs no state.\<close>

definition lift_sum :: "'e + 'a \<Rightarrow> ('t, 'e + 'a) svc" where
  "lift_sum r = svc_return r"

lemma wp_lift_sum [wp]: "svc_wp (lift_sum r) Q E w = Q r w"
  by (simp add: lift_sum_def wp)

lemma svc_keeps_lift_sum [svc_keeps_intros]: "svc_keeps I (lift_sum r)"
  by (simp add: svc_keeps_wp wp)

definition resolve_local_subject :: "admin_env \<Rightarrow> local_token_claims \<Rightarrow> api_user_context auth" where
  "resolve_local_subject ae claims =
     tbind (map_err (\<lambda>_. AuthNotProvisioned) (iam_get_user (lc_sub claims))) (\<lambda>user.
     tbind (require (ur_status user = ''active'') AuthDisabled) (\<lambda>_.
     tbind (auth_iam ae (user_token_version (ur_id user))) (\<lambda>current_token_version.
     tbind (require (lc_token_version claims = current_token_version) AuthInvalidCredentials) (\<lambda>_.
     tbind (auth_iam ae (effective_permissions_for_user (ur_id user))) (\<lambda>access.
       ret (context_from_effective
         (opt_else (lc_username claims)
           (opt_else (coalesce (ur_username user) (ur_email user)) (uuid_to_string (ae_ex ae) (ur_id user))))
         PrincipalUser (Some (ur_id user)) access))))))"

definition context_of_user :: "admin_env \<Rightarrow> string \<Rightarrow> user_record \<Rightarrow> api_user_context auth" where
  "context_of_user ae actor user =
     tbind (require (ur_status user = ''active'') AuthDisabled) (\<lambda>_.
     tbind (auth_iam ae (effective_permissions_for_user (ur_id user))) (\<lambda>access.
       ret (context_from_effective actor PrincipalUser (Some (ur_id user)) access)))"

definition resolve_claims :: "admin_env \<Rightarrow> admin_auth \<Rightarrow> oidc_claims \<Rightarrow> api_user_context auth" where
  "resolve_claims ae aa claims =
     (let actor = claims_actor claims
      in tbind (auth_iam ae (find_user_by_subject (oc_sub claims))) (\<lambda>by_subject.
         case by_subject of
           Some user \<Rightarrow> context_of_user ae actor user
         | None \<Rightarrow>
             tbind (case oc_email claims of None \<Rightarrow> ret None
                    | Some email \<Rightarrow> auth_iam ae (find_user_by_email email)) (\<lambda>by_email.
             case by_email of
               Some user \<Rightarrow> context_of_user ae actor user
             | None \<Rightarrow>
                 (if aa_allow_claim_fallback aa
                  then ret (context_from_fallback actor (compute_roles claims))
                  else raise AuthNotProvisioned))))"

definition authenticate_bearer :: "admin_env \<Rightarrow> admin_auth \<Rightarrow> string \<Rightarrow> (iam_tables, nat + api_user_context) svc" where
  "authenticate_bearer ae aa token =
     tbind (lift_svc (svc_get sb_now)) (\<lambda>now.
       case (if local_login_enabled (aa_mode aa) then local_jwt_validate ae (aa_local_jwt aa) now token
             else Inl AuthInvalidFormat) of
         Inr local_claims \<Rightarrow> map_err map_auth_error (resolve_local_subject ae local_claims)
       | Inl _ \<Rightarrow>
           (case (if aa_mode aa = AuthOidc \<or> aa_mode aa = AuthHybrid then aa_jwt aa else None) of
              None \<Rightarrow> raise 401
            | Some jwt \<Rightarrow>
                map_err map_auth_error (tbind (lift_sum (jwt_validate ae jwt now token)) (resolve_claims ae aa))))"

definition authenticate_admin_token :: "admin_env \<Rightarrow> admin_auth \<Rightarrow> string \<Rightarrow> (iam_tables, nat + api_user_context) svc" where
  "authenticate_admin_token ae aa provided =
     tbind (map_err (\<lambda>_. 500) (verify_user_token ae provided)) (\<lambda>user_principal.
       case user_principal of
         Some user \<Rightarrow> ret (context_from_effective (opt_else (la_username user) (la_email user)) PrincipalUser
           (Some (la_id user)) \<lparr>ea_roles = la_roles user, ea_permissions = la_permissions user\<rparr>)
       | None \<Rightarrow>
           tbind (map_err (\<lambda>_. 500) (verify_service_token ae provided)) (\<lambda>service.
             case service of
               Some account \<Rightarrow> ret (context_from_service_account account)
             | None \<Rightarrow>
                 (if aa_static_token aa = Some provided
                  then ret (context_from_fallback ''static-admin'' (aa_fallback_roles aa))
                  else raise 401)))"

definition admin_authenticate ::
  "admin_env \<Rightarrow> admin_auth \<Rightarrow> string option \<Rightarrow> string option \<Rightarrow> (iam_tables, nat + api_user_context) svc" where
  "admin_authenticate ae aa bearer admin =
     (case bearer of
        Some token \<Rightarrow> authenticate_bearer ae aa token
      | None \<Rightarrow> (case admin of Some provided \<Rightarrow> authenticate_admin_token ae aa provided | None \<Rightarrow> raise 401))"

text \<open>The middleware in front of the administration routes; the headers that are text are given.\<close>

definition api_enforce_admin ::
  "admin_env \<Rightarrow> admin_auth \<Rightarrow> string option \<Rightarrow> string option \<Rightarrow> (api_user_context \<Rightarrow> (iam_tables, 'a) route) \<Rightarrow>
   (iam_tables, nat + ((nat \<times> api_error) + 'a)) svc" where
  "api_enforce_admin ae aa authorization admin_header next_handler =
     tbind (admin_authenticate ae aa (Option.bind authorization (strip_prefix ''Bearer '')) admin_header)
       (\<lambda>ctx. lift_svc (next_handler ctx))"

section \<open>Refresh tokens\<close>

definition generate_refresh_token :: "admin_env \<Rightarrow> (iam_tables, string) svc" where
  "generate_refresh_token ae = svc_bind (svc_draw ae 64) (\<lambda>random. svc_return (''odr_'' @ random))"

definition hash_refresh_token :: "admin_env \<Rightarrow> string \<Rightarrow> string" where
  "hash_refresh_token ae token = ae_sha256_hex ae token"

definition refresh_token_hint :: "string \<Rightarrow> string option" where
  "refresh_token_hint token =
     (if length token < 8 then None else Some (take 4 token @ ''...'' @ drop (length token - 4) token))"

definition live_refresh :: "time \<Rightarrow> refresh_token \<Rightarrow> bool" where
  "live_refresh now x \<longleftrightarrow> rt_revoked_at x = None \<and> now < rt_expires_at x"

definition sessions_of :: "time \<Rightarrow> uuid \<Rightarrow> iam_tables \<Rightarrow> refresh_token list" where
  "sessions_of now i t = filter (\<lambda>x. rt_user_id x = i \<and> live_refresh now x) (it_refresh t)"

definition update_refresh :: "(refresh_token \<Rightarrow> bool) \<Rightarrow> (refresh_token \<Rightarrow> refresh_token) \<Rightarrow> iam_tables \<Rightarrow> iam_tables" where
  "update_refresh P f t = t\<lparr>it_refresh := map (\<lambda>x. if P x then f x else x) (it_refresh t)\<rparr>"

text \<open>The newest sessions stay; of those created at the same time the later rows count as newer.\<close>

definition excess_sessions :: "nat \<Rightarrow> time \<Rightarrow> uuid \<Rightarrow> iam_tables \<Rightarrow> uuid set" where
  "excess_sessions n now i t = rt_id ` set (drop n (rev (sort_key rt_created_at (sessions_of now i t))))"

definition enforce_refresh_session_limit :: "admin_env \<Rightarrow> admin_auth \<Rightarrow> uuid \<Rightarrow> unit auth" where
  "enforce_refresh_session_limit ae aa i =
     auth_sql (iam_write ae (\<lambda>now t. ((), update_refresh
       (\<lambda>x. rt_id x \<in> excess_sessions (nat (max (aa_refresh_max_sessions aa) 1)) now i t \<and> rt_revoked_at x = None)
       (\<lambda>x. x\<lparr>rt_revoked_at := Some now, rt_revoked_reason := Some ''max_sessions_exceeded''\<rparr>) t)))"

definition issue_refresh_token :: "admin_env \<Rightarrow> admin_auth \<Rightarrow> uuid \<Rightarrow> string auth" where
  "issue_refresh_token ae aa i =
     tbind (lift_svc (generate_refresh_token ae)) (\<lambda>token.
     tbind (auth_iam ae (user_token_version i)) (\<lambda>token_version.
     tbind (lift_svc (now_plus ae (nat (max (aa_refresh_ttl_seconds aa) 600)))) (\<lambda>expires_at.
     tbind (lift_svc svc_uuid) (\<lambda>refresh_id.
     tbind (auth_sql (iam_write ae (\<lambda>now t. ((), t\<lparr>it_refresh := it_refresh t @
       [\<lparr>rt_id = refresh_id, rt_user_id = i, rt_token_hash = hash_refresh_token ae token,
         rt_token_hint = refresh_token_hint token, rt_token_version = token_version, rt_created_at = now,
         rt_last_used_at = None, rt_expires_at = expires_at, rt_revoked_at = None, rt_revoked_reason = None,
         rt_replaced_by_id = None\<rparr>]\<rparr>)))) (\<lambda>_.
     tbind (enforce_refresh_session_limit ae aa i) (\<lambda>_. ret token))))))"

definition local_user_for_token :: "admin_env \<Rightarrow> uuid \<Rightarrow> local_authenticated_user auth" where
  "local_user_for_token ae i =
     tbind (auth_iam ae (iam_get_user i)) (\<lambda>user.
     tbind (require (ur_status user = ''active'') AuthDisabled) (\<lambda>_.
     tbind (auth_iam ae (effective_permissions_for_user (ur_id user))) (\<lambda>access.
     tbind (auth_iam ae (user_token_version (ur_id user))) (\<lambda>token_version.
       ret \<lparr>la_id = ur_id user, la_username = ur_username user,
            la_email = opt_else (ur_email user) (uuid_to_string (ae_ex ae) (ur_id user)),
            la_display_name = ur_display_name user, la_roles = ea_roles access,
            la_permissions = ea_permissions access, la_must_change_password = False,
            la_token_version = token_version\<rparr>))))"

definition rotate_refresh_token :: "admin_env \<Rightarrow> admin_auth \<Rightarrow> string \<Rightarrow> (string \<times> string) auth" where
  "rotate_refresh_token ae aa refresh_token =
     tbind (auth_sql (iam_read (\<lambda>now t. find (\<lambda>x. rt_token_hash x = hash_refresh_token ae refresh_token \<and>
         live_refresh now x) (it_refresh t)))) (\<lambda>found.
     tbind (ok_or_raise AuthInvalidCredentials found) (\<lambda>row.
     tbind (local_user_for_token ae (rt_user_id row)) (\<lambda>user.
       if la_token_version user \<noteq> rt_token_version row then
         tbind (auth_sql (iam_write ae (\<lambda>now t. ((), update_refresh (\<lambda>x. rt_id x = rt_id row)
           (\<lambda>x. x\<lparr>rt_revoked_at := Some now, rt_revoked_reason := Some ''token_version_mismatch''\<rparr>) t)))) (\<lambda>_.
           raise AuthInvalidCredentials)
       else
         tbind (lift_svc (svc_get (\<lambda>w. jwt_issue ae (aa_local_jwt aa) (sb_now w) user))) (\<lambda>new_access.
         tbind (issue_refresh_token ae aa (rt_user_id row)) (\<lambda>new_refresh.
         tbind (auth_sql (svc_bind (iam_read (\<lambda>_ t. find (\<lambda>x. rt_token_hash x = hash_refresh_token ae new_refresh) (it_refresh t)))
                  (\<lambda>r. case r of None \<Rightarrow> svc_fail (Error ''no rows returned'') | Some x \<Rightarrow> svc_return (rt_id x)))) (\<lambda>replacement_id.
         tbind (auth_sql (iam_write ae (\<lambda>now t. ((), update_refresh (\<lambda>x. rt_id x = rt_id row)
           (\<lambda>x. x\<lparr>rt_revoked_at := Some now, rt_revoked_reason := Some ''rotated'',
                 rt_replaced_by_id := Some replacement_id, rt_last_used_at := Some now\<rparr>) t)))) (\<lambda>_.
           ret (new_access, new_refresh))))))))"

definition revoke_refresh_token :: "admin_env \<Rightarrow> string \<Rightarrow> unit auth" where
  "revoke_refresh_token ae refresh_token =
     auth_sql (iam_write ae (\<lambda>now t. ((), update_refresh
       (\<lambda>x. rt_token_hash x = hash_refresh_token ae refresh_token \<and> rt_revoked_at x = None)
       (\<lambda>x. x\<lparr>rt_revoked_at := Some now, rt_revoked_reason := Some ''logout''\<rparr>) t)))"

section \<open>The public routes\<close>

record local_login_success =
  ls_access_token :: string
  ls_expires_in :: int
  ls_user :: local_authenticated_user

definition login_local :: "admin_env \<Rightarrow> admin_auth \<Rightarrow> string \<Rightarrow> string \<Rightarrow> local_login_success auth" where
  "login_local ae aa username password =
     tbind (require (local_login_enabled (aa_mode aa))
       (AuthInternal ''local authentication is disabled in current auth mode'')) (\<lambda>_.
     tbind (auth_iam ae (authenticate_local_user ae username password (aa_max_failed_attempts aa)
       (aa_lockout_seconds aa))) (\<lambda>user.
     tbind (lift_svc (svc_get (\<lambda>w. jwt_issue ae (aa_local_jwt aa) (sb_now w) user))) (\<lambda>access_token.
       ret \<lparr>ls_access_token = access_token, ls_expires_in = lj_ttl_seconds (aa_local_jwt aa), ls_user = user\<rparr>)))"

record local_login_response =
  lr_access_token :: string
  lr_refresh_token :: string
  lr_expires_in :: int
  lr_refresh_expires_in :: int
  lr_user :: local_authenticated_user

definition login_route :: "admin_env \<Rightarrow> admin_auth \<Rightarrow> string \<Rightarrow> string \<Rightarrow> (iam_tables, local_login_response) route" where
  "login_route ae aa username password =
     tbind (require (trim username \<noteq> [] \<and> password \<noteq> [])
       (400, (''VALIDATION_ERROR'', ''username and password are required''))) (\<lambda>_.
     tbind (map_err map_login_error (login_local ae aa (trim username) password)) (\<lambda>login.
     tbind (map_err map_login_error (issue_refresh_token ae aa (la_id (ls_user login)))) (\<lambda>refresh_token.
     tbind (log_iam_event ae ''iam.auth.login.success'' (Some (la_email (ls_user login))) ''user''
       (Some (uuid_to_string (ae_ex ae) (la_id (ls_user login))))
       (JObj [(''username'', opt_to_json JStr (la_username (ls_user login)))])) (\<lambda>_.
       ret \<lparr>lr_access_token = ls_access_token login, lr_refresh_token = refresh_token,
            lr_expires_in = ls_expires_in login, lr_refresh_expires_in = aa_refresh_ttl_seconds aa,
            lr_user = ls_user login\<rparr>))))"

definition refresh_route :: "admin_env \<Rightarrow> admin_auth \<Rightarrow> string \<Rightarrow> (iam_tables, string \<times> string \<times> int \<times> int) route" where
  "refresh_route ae aa refresh_token =
     tbind (require (trim refresh_token \<noteq> []) (400, (''VALIDATION_ERROR'', ''refresh_token is required''))) (\<lambda>_.
     tbind (require (local_login_enabled (aa_mode aa))
       (400, (''AUTH_MODE_UNSUPPORTED'', ''refresh tokens are only available in local or hybrid auth mode''))) (\<lambda>_.
     tbind (map_err map_login_error (rotate_refresh_token ae aa (trim refresh_token))) (\<lambda>(access_token, new_refresh).
       ret (access_token, new_refresh, lj_ttl_seconds (aa_local_jwt aa), aa_refresh_ttl_seconds aa))))"

definition logout_route :: "admin_env \<Rightarrow> string \<Rightarrow> (iam_tables, nat) route" where
  "logout_route ae refresh_token =
     (if trim refresh_token = [] then ret 204
      else tbind (map_err map_login_error (revoke_refresh_token ae (trim refresh_token))) (\<lambda>_. ret 204))"

definition auth_mode_route :: "admin_auth \<Rightarrow> (iam_tables, string) route" where
  "auth_mode_route aa =
     ret (case aa_mode aa of AuthLocal \<Rightarrow> ''local'' | AuthHybrid \<Rightarrow> ''hybrid'' | AuthOidc \<Rightarrow> ''oidc'')"

definition change_password_route :: "admin_env \<Rightarrow> api_user_context \<Rightarrow> string \<Rightarrow> string \<Rightarrow> (iam_tables, nat) route" where
  "change_password_route ae ctx current_password new_password =
     tbind (ok_or_raise (403, (''FORBIDDEN'', ''password change is only supported for authenticated user principals''))
       (cx_principal_id ctx)) (\<lambda>user_id.
     tbind (require (trim current_password \<noteq> [] \<and> trim new_password \<noteq> [])
       (400, (''VALIDATION_ERROR'', ''current_password and new_password are required''))) (\<lambda>_.
     tbind (map_err (map_iam_error ae) (change_password ae user_id current_password new_password)) (\<lambda>_.
     tbind (log_iam_event ae ''iam.auth.password.change'' (Some (cx_actor ctx)) ''user''
       (Some (uuid_to_string (ae_ex ae) user_id)) (JObj [])) (\<lambda>_. ret 204))))"

end
