(* ===== verification/Admin_Run.thy ===== *)
theory Admin_Run
  imports Admin_Base
begin

text \<open>
  Execution of programs of the administration service by rewriting: the collection \<open>run\<close> takes a program
  and a state to its outcome.  Statements succeed when the system is reliable.
\<close>

named_theorems run \<open>outcomes of programs\<close>

lemma run_tbind [run]:
  "tbind m f w =
     (case m w of (Inl e, w') \<Rightarrow> (Inl e, w') | (Inr (Inl e), w') \<Rightarrow> (Inr (Inl e), w') | (Inr (Inr x), w') \<Rightarrow> f x w')"
  by (simp add: tbind_def svc_bind_def raise_def svc_return_def split: prod.split sum.split)

lemma run_map_err [run]:
  "map_err g m w =
     (case m w of (Inl e, w') \<Rightarrow> (Inl e, w') | (Inr (Inl e), w') \<Rightarrow> (Inr (Inl (g e)), w')
      | (Inr (Inr x), w') \<Rightarrow> (Inr (Inr x), w'))"
  by (simp add: map_err_def svc_bind_def raise_def ret_def svc_return_def split: prod.split sum.split)

lemma run_simple [run]:
  "ret x w = (Inr (Inr x), w)" "raise e w = (Inr (Inl e), w)"
  "require b e w = (if b then (Inr (Inr ()), w) else (Inr (Inl e), w))"
  "ok_or_raise e y w = (case y of None \<Rightarrow> (Inr (Inl e), w) | Some z \<Rightarrow> (Inr (Inr z), w))"
  by (simp_all add: ret_def raise_def require_def ok_or_raise_def svc_return_def split: option.split)

lemma run_lift_svc [run]:
  "lift_svc m w = (case m w of (Inl e, w') \<Rightarrow> (Inl e, w') | (Inr x, w') \<Rightarrow> (Inr (Inr x), w'))"
  by (simp add: lift_svc_def svc_bind_def run_simple split: prod.split sum.split)

lemma run_svc [run]:
  "svc_get g w = (Inr (g w), w)" "svc_lift r w = (r, w)"
  "svc_uuid w = (Inr (sb_uuids w (sb_uuid_next w)), w\<lparr>sb_uuid_next := Suc (sb_uuid_next w)\<rparr>)"
  "svc_draw ae n w = (Inr (ae_random ae (sb_uuid_next w) n), w\<lparr>sb_uuid_next := Suc (sb_uuid_next w)\<rparr>)"
  "now_plus ae n w = (if sb_now w + 1000 * n \<le> ae_chrono_max ae then (Inr (sb_now w + 1000 * n), w)
     else (Inl (Panic ''DateTime overflow''), w))"
  by (simp_all add: svc_get_def svc_lift_def svc_uuid_def svc_draw_def now_plus_def svc_bind_def svc_return_def svc_fail_def)

lemma svc_reliable_ops [simp]:
  "svc_reliable (w\<lparr>sb_ops := k\<rparr>) = svc_reliable w" "svc_reliable (w\<lparr>sb_uuid_next := k\<rparr>) = svc_reliable w"
  "svc_reliable (w\<lparr>sb_now := t\<rparr>) = svc_reliable w"
  "svc_reliable (svc_base.more_update f w) = svc_reliable w"
  by (simp_all add: svc_reliable_def)

lemma run_read [run]:
  "svc_reliable w \<Longrightarrow> sql (iam_read f) w = (Inr (Inr (f (sb_now w) (iam_of w))), w\<lparr>sb_ops := Suc (sb_ops w)\<rparr>)"
  by (simp add: sql_def svc_try_def iam_read_def svc_query_def svc_op_def)

lemma run_write [run]:
  "svc_reliable w \<Longrightarrow> sql (iam_write ae f) w =
     (let r = f (sb_now w) (iam_of w); w' = w\<lparr>sb_ops := Suc (sb_ops w)\<rparr>
      in if iam_ok ae (snd r) then (Inr (Inr (fst r)), svc_base.more_update (\<lambda>_. snd r) w')
         else (Inr (Inl ''constraint violated''), w'))"
  by (simp add: sql_def svc_try_def iam_write_def svc_stmt_def Let_def split: prod.split)

text \<open>A write whose outcome is dropped never stops a program.\<close>

lemma best_effort_runs: "\<exists>w'. best_effort (iam_write ae f) w = (Inr (Inr ()), w')"
proof -
  have "svc_wp (best_effort (iam_write ae f)) (\<lambda>r w'. r = Inr ()) (\<lambda>_ _. False) w" by (simp add: wp Let_def)
  from wp_Inr [OF this] show ?thesis by auto
qed

lemma run_guard_roles [run]:
  "guard_roles ctx roles w =
     (if \<exists>r \<in> set roles. r \<in> cx_roles ctx then (Inr (Inr ()), w) else (Inr (Inl (403, api_forbidden)), w))"
  by (auto simp: guard_roles_def api_require_roles_def run list_ex_iff api_has_role_def)

text \<open>Only the statement counter has moved.\<close>

definition unmoved :: "iam_tables svc_base_scheme \<Rightarrow> iam_tables svc_base_scheme \<Rightarrow> bool" where
  "unmoved w w' \<longleftrightarrow> (\<exists>k. w' = w\<lparr>sb_ops := k\<rparr>)"

lemma unmovedD:
  assumes "unmoved w w'"
  shows "iam_of w' = iam_of w" "sb_now w' = sb_now w" "sb_fails w' = sb_fails w" "svc_reliable w' = svc_reliable w"
  using assms by (auto simp: unmoved_def svc_reliable_def)

lemma unmoved_ops [simp]: "unmoved w w" "unmoved w (w\<lparr>sb_ops := k\<rparr>)"
  unfolding unmoved_def by (rule exI [of _ "sb_ops w"], simp) blast

section \<open>What a success says\<close>

named_theorems ok_iff \<open>a program ended with a value\<close>

lemma ok_tbind [ok_iff]:
  "tbind m f w = (Inr (Inr y), w') \<longleftrightarrow> (\<exists>x v. m w = (Inr (Inr x), v) \<and> f x v = (Inr (Inr y), w'))"
  by (auto simp: run_tbind split: prod.splits sum.splits)

lemma ok_map_err [ok_iff]: "map_err g m w = (Inr (Inr y), w') \<longleftrightarrow> m w = (Inr (Inr y), w')"
  by (auto simp: run_map_err split: prod.splits sum.splits)

lemma ok_simple [ok_iff]:
  "ret x w = (Inr (Inr y), w') \<longleftrightarrow> y = x \<and> w' = w" "\<not> raise e w = (Inr (Inr y), w')"
  "require b e' w = (Inr (Inr u), w') \<longleftrightarrow> b \<and> w' = w"
  "ok_or_raise e'' z w = (Inr (Inr y), w') \<longleftrightarrow> z = Some y \<and> w' = w"
  by (auto simp: run split: option.splits)

lemma ok_lift_svc [ok_iff]: "lift_svc m w = (Inr (Inr y), w') \<longleftrightarrow> m w = (Inr y, w')"
  by (auto simp: run_lift_svc split: prod.splits sum.splits)

lemma ok_sql [ok_iff]: "sql m w = (Inr (Inr y), w') \<longleftrightarrow> m w = (Inr y, w')"
  by (auto simp: sql_def svc_try_def split: prod.splits sum.splits error.splits)

lemma ok_svc [ok_iff]:
  "svc_get g w = (Inr y, w') \<longleftrightarrow> y = g w \<and> w' = w" "svc_lift r w = (Inr z, w') \<longleftrightarrow> r = Inr z \<and> w' = w"
  "svc_uuid w = (Inr i, w') \<longleftrightarrow> i = sb_uuids w (sb_uuid_next w) \<and> w' = w\<lparr>sb_uuid_next := Suc (sb_uuid_next w)\<rparr>"
  "svc_draw ae n w = (Inr s, w') \<longleftrightarrow>
     s = ae_random ae (sb_uuid_next w) n \<and> w' = w\<lparr>sb_uuid_next := Suc (sb_uuid_next w)\<rparr>"
  "now_plus ae n w = (Inr t, w') \<longleftrightarrow> t = sb_now w + 1000 * n \<and> t \<le> ae_chrono_max ae \<and> w' = w"
  by (auto simp: run)

lemma ok_bind [ok_iff]:
  "svc_bind m f w = (Inr y, w') \<longleftrightarrow> (\<exists>x v. m w = (Inr x, v) \<and> f x v = (Inr y, w'))"
  "svc_return z w = (Inr y, w') \<longleftrightarrow> y = z \<and> w' = w" "\<not> svc_fail err w = (Inr y, w')"
  by (auto simp: svc_bind_def svc_return_def svc_fail_def split: prod.splits sum.splits)

lemma ok_read [ok_iff]:
  "iam_read f w = (Inr y, w') \<longleftrightarrow>
     \<not> sb_fails w (sb_ops w) \<and> y = f (sb_now w) (iam_of w) \<and> w' = w\<lparr>sb_ops := Suc (sb_ops w)\<rparr>"
  by (auto simp: iam_read_def svc_query_def svc_op_def)

lemma ok_write [ok_iff]:
  "iam_write ae f w = (Inr y, w') \<longleftrightarrow>
     \<not> sb_fails w (sb_ops w) \<and> iam_ok ae (snd (f (sb_now w) (iam_of w))) \<and> y = fst (f (sb_now w) (iam_of w)) \<and>
     w' = svc_base.more_update (\<lambda>_. snd (f (sb_now w) (iam_of w))) (w\<lparr>sb_ops := Suc (sb_ops w)\<rparr>)"
  by (auto simp: iam_write_def svc_stmt_def split: prod.splits)

lemma ok_guard_roles [ok_iff]:
  "guard_roles ctx roles w = (Inr (Inr u), w') \<longleftrightarrow> cx_roles ctx \<inter> set roles \<noteq> {} \<and> w' = w"
  by (auto simp: run_guard_roles)

end
