(* ===== verification/Auth_Correct.thy ===== *)
theory Auth_Correct
  imports Admin_Auth Iam_Correct Admin_Run
begin

text \<open>
  What authentication guarantees: which bearer tokens are accepted and for how long, that wrong passwords
  lock an account, that refresh tokens are used once and sessions are bounded, that an accepted API token
  belongs to somebody, and that identity data changes only for callers with the administrator role.
\<close>

section \<open>Local bearer tokens\<close>

text \<open>What is relied on of the text forms in a token, and of the range of the clock.\<close>

definition token_text_ok :: "admin_env \<Rightarrow> bool" where
  "token_text_ok ae \<longleftrightarrow> base64_ok ae \<and> json_text_ok (ae_ex ae) \<and> ae_chrono_max ae < 2 ^ 62 \<and>
     (\<forall>i. uuid_parse (ae_ex ae) (uuid_to_string (ae_ex ae) i) = Some i)"

lemma jwt_parts_issue:
  assumes "CHR ''.'' \<notin> set a" "CHR ''.'' \<notin> set b" "CHR ''.'' \<notin> set c"
  shows "jwt_parts (a @ ''.'' @ b @ ''.'' @ c) = Inr (a, b, c)"
proof -
  have "split_char CHR ''.'' (a @ ''.'' @ b @ ''.'' @ c) = [a, b, c]"
    using assms by (simp add: split_char_append split_char_no_sep)
  then show ?thesis by (simp add: jwt_parts_def)
qed

lemma local_claims_round_trip:
  assumes "token_text_ok ae" "- (2 ^ 63) \<le> lc_token_version c" "lc_token_version c < 2 ^ 63"
    and "- (2 ^ 63) \<le> lc_exp c" "lc_exp c < 2 ^ 63" "- (2 ^ 63) \<le> lc_iat c" "lc_iat c < 2 ^ 63"
  shows "local_claims_of_json ae (local_claims_to_json ae c) = Some c"
proof -
  let ?fs = "case local_claims_to_json ae c of JObj fs \<Rightarrow> fs | _ \<Rightarrow> []"
  have "opt_field string_of_json ''username'' ?fs = Some (lc_username c)"
    by (rule opt_field_str_round) (simp add: local_claims_to_json_def)
  then show ?thesis
    using assms by (simp add: local_claims_of_json_def local_claims_to_json_def req_field_def token_text_ok_def)
qed

lemma i64_wrap_id: "- (2 ^ 63) \<le> i \<Longrightarrow> i < 2 ^ 63 \<Longrightarrow> i64_wrap i = i"
  unfolding i64_wrap_def by (simp add: sint_sbintrunc' signed_take_bit_int_eq_self)

lemma issued_token_validates:
  assumes "token_text_ok ae" "- (2 ^ 63) \<le> la_token_version u" "la_token_version u < 2 ^ 63"
    and "0 \<le> lj_ttl_seconds jwt" "timestamp now + lj_ttl_seconds jwt < 2 ^ 63"
  shows "local_jwt_validate ae jwt now' (jwt_issue ae jwt now u) =
    (if timestamp now + lj_ttl_seconds jwt \<le> timestamp now' then Inl AuthExpired
     else Inr (issue_claims jwt now u))"
proof -
  let ?c = "issue_claims jwt now u"
  have exp: "lc_exp ?c = timestamp now + lj_ttl_seconds jwt"
    using assms(4,5) by (simp add: issue_claims_def i64_wrap_id timestamp_def)
  have claims: "local_claims_of_json ae (local_claims_to_json ae ?c) = Some ?c"
    by (rule local_claims_round_trip) (use assms exp in \<open>auto simp: issue_claims_def timestamp_def\<close>)
  have fin: "json_finite (local_claims_to_json ae ?c)"
    by (simp add: local_claims_to_json_def opt_to_json_def split: option.split)
  have parsed: "json_of_text (ae_ex ae) (text_of_json (ae_ex ae) (local_claims_to_json ae ?c)) = Some (local_claims_to_json ae ?c)"
    using assms(1) fin by (simp add: token_text_ok_def json_text_ok_def)
  show ?thesis
    using assms(1) exp claims parsed
    by (simp add: local_jwt_validate_def jwt_issue_def Let_def jwt_parts_issue [simplified] token_text_ok_def base64_ok_def
        verify_signature_def decode_segment_def parse_segment_def)
      (simp add: issue_claims_def)
qed

section \<open>Effective access\<close>

text \<open>The names of the roles with the given identifiers, and what they permit.\<close>

definition access_in :: "iam_tables \<Rightarrow> uuid set \<Rightarrow> effective_access" where
  "access_in t ids =
     \<lparr>ea_roles = ir_name ` {r \<in> set (it_roles t). ir_id r \<in> ids},
      ea_permissions = {p. \<exists>r \<in> set (it_roles t). ir_id r \<in> ids \<and> (ir_id r, p) \<in> set (it_role_permissions t)}\<rparr>"

lemma access_in_rows:
  assumes "rows = filter (\<lambda>r. ir_id r \<in> ids) (it_roles t)"
  shows "access_in t ids = \<lparr>ea_roles = set (map ir_name rows), ea_permissions =
      (if map ir_id rows = [] then {}
       else snd ` set (filter (\<lambda>p. fst p \<in> set (map ir_id rows)) (it_role_permissions t)))\<rparr>"
proof (cases "rows = []")
  case True
  then show ?thesis using assms by (auto simp: access_in_def filter_empty_conv)
next
  case False
  then show ?thesis using assms by (force simp: access_in_def image_iff)
qed

lemma access_run:
  assumes "svc_reliable w"
  shows "\<exists>k. access_of_roles ids w =
    (Inr (Inr (access_in (iam_of w) (ids (iam_of w)))), w\<lparr>sb_ops := k\<rparr>)"
  using assms by (auto simp: access_of_roles_def run Let_def access_in_rows [OF refl])

lemma access_ok:
  "access_of_roles ids w = (Inr (Inr a), w') \<Longrightarrow>
     a = access_in (iam_of w) (ids (iam_of w)) \<and> unmoved w w'"
  by (auto simp: access_of_roles_def ok_iff Let_def access_in_rows [OF refl] split: if_splits)

section \<open>Which bearer tokens are accepted\<close>

definition local_context :: "admin_env \<Rightarrow> iam_tables \<Rightarrow> local_token_claims \<Rightarrow> iam_user \<Rightarrow> api_user_context" where
  "local_context ae t claims u = context_from_effective
     (opt_else (lc_username claims) (opt_else (coalesce (iu_username u) (iu_email u)) (uuid_to_string (ae_ex ae) (iu_id u))))
     PrincipalUser (Some (iu_id u)) (access_in t (user_role_ids t (iu_id u)))"

definition subject_decision :: "admin_env \<Rightarrow> iam_tables \<Rightarrow> local_token_claims \<Rightarrow> nat + api_user_context" where
  "subject_decision ae t claims =
     (case user_by_id (lc_sub claims) t of
        None \<Rightarrow> Inl 403
      | Some u \<Rightarrow> (if iu_status u \<noteq> ''active'' then Inl 403
          else if lc_token_version claims \<noteq> iu_token_version u then Inl 401
          else Inr (local_context ae t claims u)))"

lemma user_by_id_Some: "user_by_id i t = Some u \<Longrightarrow> u \<in> set (it_users t) \<and> iu_id u = i"
  unfolding user_by_id_def by (auto dest: find_Some_mem)

lemma resolve_local_run:
  assumes "svc_reliable w"
  shows "\<exists>k. map_err map_auth_error (resolve_local_subject ae claims) w
    = (Inr (subject_decision ae (iam_of w) claims), w\<lparr>sb_ops := k\<rparr>)"
proof (cases "user_by_id (lc_sub claims) (iam_of w)")
  case None
  with assms show ?thesis
    by (simp add: resolve_local_subject_def iam_get_user_def run subject_decision_def) blast
next
  case (Some u)
  then have u: "iu_id u = lc_sub claims" by (simp add: user_by_id_Some)
  obtain k where k: "access_of_roles (\<lambda>t. user_role_ids t (iu_id u)) (w\<lparr>sb_ops := Suc (Suc (sb_ops w))\<rparr>) =
      (Inr (Inr (access_in (iam_of w) (user_role_ids (iam_of w) (iu_id u)))), w\<lparr>sb_ops := k\<rparr>)"
    using access_run [of "w\<lparr>sb_ops := Suc (Suc (sb_ops w))\<rparr>" "\<lambda>t. user_role_ids t (iu_id u)"] assms by auto
  show ?thesis
    using assms Some u k
    by (auto simp: resolve_local_subject_def iam_get_user_def user_token_version_def run subject_decision_def
        user_record_of_def local_context_def effective_permissions_for_user_def)
qed

lemma ok_write_user [ok_iff]:
  "write_user ae i f w = (Inr y, w') \<longleftrightarrow>
     \<not> sb_fails w (sb_ops w) \<and> iam_ok ae (update_users i (f (sb_now w)) (iam_of w)) \<and>
     y = (user_by_id i (iam_of w) \<noteq> None) \<and>
     w' = svc_base.more_update (\<lambda>_. update_users i (f (sb_now w)) (iam_of w)) (w\<lparr>sb_ops := Suc (sb_ops w)\<rparr>)"
  by (simp add: write_user_def ok_iff)

lemma authenticated_user:
  assumes "authenticate_local_user ae name password attempts lockout w = (Inr (Inr la), w')"
  shows "\<exists>u \<in> set (it_users (iam_of w)). la_id la = iu_id u \<and> la_token_version la = iu_token_version u \<and>
    iu_status u = ''active'' \<and> sb_now w' = sb_now w"
  using assms
  by (auto simp: authenticate_local_user_def verify_hash_def effective_permissions_for_user_def ok_iff Let_def
      split: if_splits option.splits dest!: find_Some_mem access_ok unmovedD(2))

text \<open>The token of a login speaks for a user of the tables, as of the time of the login.\<close>

lemma login_issued:
  assumes "login_route ae aa name password w = (Inr (Inr resp), w')"
  shows "\<exists>u \<in> set (it_users (iam_of w)). la_id (lr_user resp) = iu_id u \<and>
    la_token_version (lr_user resp) = iu_token_version u \<and> iu_status u = ''active'' \<and>
    lr_access_token resp = jwt_issue ae (aa_local_jwt aa) (sb_now w) (lr_user resp) \<and>
    local_login_enabled (aa_mode aa) \<and> sb_now w \<le> ae_chrono_max ae"
  using assms
  by (auto simp: login_route_def login_local_def issue_refresh_token_def generate_refresh_token_def
      user_token_version_def ok_iff       dest!: authenticated_user)

lemma login_token_validates:
  assumes "token_text_ok ae" "iam_ok ae (iam_of w)" "0 \<le> lj_ttl_seconds (aa_local_jwt aa)"
    and "lj_ttl_seconds (aa_local_jwt aa) < 2 ^ 62" "login_route ae aa name password w = (Inr (Inr resp), w1)"
  shows "local_jwt_validate ae (aa_local_jwt aa) now (lr_access_token resp) =
    (if timestamp (sb_now w) + lj_ttl_seconds (aa_local_jwt aa) \<le> timestamp now then Inl AuthExpired
     else Inr (issue_claims (aa_local_jwt aa) (sb_now w) (lr_user resp)))"
proof -
  obtain u where u: "u \<in> set (it_users (iam_of w))" "la_token_version (lr_user resp) = iu_token_version u"
    "lr_access_token resp = jwt_issue ae (aa_local_jwt aa) (sb_now w) (lr_user resp)" "sb_now w \<le> ae_chrono_max ae"
    using login_issued [OF assms(5)] by blast
  have "- (2 ^ 63) \<le> iu_token_version u \<and> iu_token_version u < 2 ^ 63"
    using assms(2) u(1) by (auto simp: iam_ok_def users_ok_def list_all_iff)
  moreover have "timestamp (sb_now w) < 2 ^ 62"
    using u(4) assms(1) div_le_dividend [of "sb_now w" 1000]
    by (auto simp: token_text_ok_def timestamp_def)
  ultimately show ?thesis
    using issued_token_validates [OF assms(1), of "lr_user resp" "aa_local_jwt aa" "sb_now w" now] assms(3,4) u(2,3) by simp
qed

lemma issue_claims_subject:
  "lc_sub (issue_claims jwt now u) = la_id u" "lc_token_version (issue_claims jwt now u) = la_token_version u"
  by (simp_all add: issue_claims_def)

lemma login_decides:
  assumes "token_text_ok ae" "iam_ok ae (iam_of w)" "0 \<le> lj_ttl_seconds (aa_local_jwt aa)"
    and "lj_ttl_seconds (aa_local_jwt aa) < 2 ^ 62"
    and "login_route ae aa name password w = (Inr (Inr resp), w1)" "svc_reliable w2"
  defines "expires \<equiv> timestamp (sb_now w) + lj_ttl_seconds (aa_local_jwt aa)"
    and "i \<equiv> la_id (lr_user resp)" and "t \<equiv> iam_of w2"
  shows "(timestamp (sb_now w2) < expires \<longrightarrow>
      fst (admin_authenticate ae aa (Some (lr_access_token resp)) header w2) =
        (case user_by_id i t of
           None \<Rightarrow> Inr (Inl 403)
         | Some u \<Rightarrow>
             if iu_status u \<noteq> ''active'' then Inr (Inl 403)
             else if la_token_version (lr_user resp) \<noteq> iu_token_version u then Inr (Inl 401)
             else Inr (Inr (local_context ae t (issue_claims (aa_local_jwt aa) (sb_now w) (lr_user resp)) u)))) \<and>
    (expires \<le> timestamp (sb_now w2) \<and> aa_mode aa = AuthLocal \<longrightarrow>
      fst (admin_authenticate ae aa (Some (lr_access_token resp)) header w2) = Inr (Inl 401))"
proof -
  let ?c = "issue_claims (aa_local_jwt aa) (sb_now w) (lr_user resp)"
  obtain k where k: "map_err map_auth_error (resolve_local_subject ae ?c) w2 =
      (Inr (subject_decision ae t ?c), w2\<lparr>sb_ops := k\<rparr>)"
    using resolve_local_run [OF assms(6)] unfolding t_def by blast
  have "local_login_enabled (aa_mode aa)" using login_issued [OF assms(5)] by blast
  then show ?thesis
    by (auto simp: admin_authenticate_def authenticate_bearer_def login_token_validates [OF assms(1-5)] expires_def run
        k [unfolded run_map_err] subject_decision_def issue_claims_subject i_def split: option.split)
qed

text \<open>An accepted token of a login carries the current version of its user, whatever else fails.\<close>

lemma login_token_current:
  assumes "token_text_ok ae" "iam_ok ae (iam_of w)" "0 \<le> lj_ttl_seconds (aa_local_jwt aa)"
    and "lj_ttl_seconds (aa_local_jwt aa) < 2 ^ 62" "login_route ae aa name password w = (Inr (Inr resp), w1)"
    and "aa_mode aa = AuthLocal" "admin_authenticate ae aa (Some (lr_access_token resp)) header w2 = (Inr (Inr ctx), w3)"
  shows "\<exists>u \<in> set (it_users (iam_of w2)). iu_id u = la_id (lr_user resp) \<and> iu_token_version u = la_token_version (lr_user resp)"
  using assms(6,7)
  by (auto simp: admin_authenticate_def authenticate_bearer_def login_token_validates [OF assms(1-5)] local_login_enabled_def
      resolve_local_subject_def iam_get_user_def user_token_version_def issue_claims_subject ok_iff user_record_of_def
      dest!: user_by_id_Some split: if_splits)

text \<open>
  C18: a login with the right password gives a bearer token that decides as follows in any later state of
  a working service.  Until it expires it is refused with 403 when the user is gone or not active, with
  401 when the user's token version has changed since, and otherwise accepted with exactly the roles
  and permissions the user has at that time.  Once it has expired it is refused with 401 in local mode.
\<close>

theorem login_token_decision:
  assumes "token_text_ok ae" "iam_ok ae (iam_of w)" "0 \<le> lj_ttl_seconds (aa_local_jwt aa)"
    and "lj_ttl_seconds (aa_local_jwt aa) < 2 ^ 62"
    and "login_route ae aa name password w = (Inr (Inr resp), w1)" "svc_reliable w2"
  defines "expires \<equiv> timestamp (sb_now w) + lj_ttl_seconds (aa_local_jwt aa)"
    and "i \<equiv> la_id (lr_user resp)" and "t \<equiv> iam_of w2"
  shows "(timestamp (sb_now w2) < expires \<longrightarrow>
      fst (admin_authenticate ae aa (Some (lr_access_token resp)) header w2) =
        (case user_by_id i t of
           None \<Rightarrow> Inr (Inl 403)
         | Some u \<Rightarrow>
             if iu_status u \<noteq> ''active'' then Inr (Inl 403)
             else if la_token_version (lr_user resp) \<noteq> iu_token_version u then Inr (Inl 401)
             else Inr (Inr (local_context ae t (issue_claims (aa_local_jwt aa) (sb_now w) (lr_user resp)) u)))) \<and>
    (expires \<le> timestamp (sb_now w2) \<and> aa_mode aa = AuthLocal \<longrightarrow>
      fst (admin_authenticate ae aa (Some (lr_access_token resp)) header w2) = Inr (Inl 401))"
  using login_decides [OF assms(1-6)] unfolding expires_def i_def t_def .

section \<open>API tokens\<close>

text \<open>What makes the holder of a token a user or a service account at a time.\<close>

definition user_token_of :: "admin_env \<Rightarrow> time \<Rightarrow> iam_tables \<Rightarrow> string \<Rightarrow> user_token \<Rightarrow> iam_user \<Rightarrow> bool" where
  "user_token_of ae now t token x u \<longleftrightarrow>
     x \<in> set (it_user_tokens t) \<and> u \<in> set (it_users t) \<and> iu_id u = ut_user_id x \<and> ut_status x = ''active'' \<and>
     iu_status u = ''active'' \<and> not_expired now (ut_expires_at x) \<and>
     ae_argon_verify ae token (ut_token_hash x) = Some True"

definition account_token_of :: "admin_env \<Rightarrow> time \<Rightarrow> iam_tables \<Rightarrow> string \<Rightarrow> service_account \<Rightarrow> bool" where
  "account_token_of ae now t token a \<longleftrightarrow>
     a \<in> set (it_accounts t) \<and> sa_status a = ''active'' \<and> not_expired now (sa_expires_at a) \<and>
     ae_argon_verify ae token (sa_token_hash a) = Some True"

lemma ok_verify_hash [ok_iff]:
  "verify_hash ae s h w = (Inr (Inr b), w') \<longleftrightarrow> ae_argon_verify ae s h = Some b \<and> w' = w"
  by (auto simp: verify_hash_def ok_iff)

lemma match_user_tokens_Some:
  assumes "match_user_tokens ae token cs w = (Inr (Inr (Some la)), w')"
  shows "\<exists>x u. (x, u) \<in> set cs \<and> not_expired (sb_now w) (ut_expires_at x) \<and> iu_status u = ''active'' \<and>
    ae_argon_verify ae token (ut_token_hash x) = Some True \<and> la_id la = ut_user_id x \<and>
    \<lparr>ea_roles = la_roles la, ea_permissions = la_permissions la\<rparr> = access_in (iam_of w) (user_role_ids (iam_of w) (ut_user_id x))"
  using assms
proof (induction cs)
  case Nil
  then show ?case by (simp add: ok_iff)
next
  case (Cons c cs)
  obtain x u where c: "c = (x, u)" by (cases c)
  show ?case
  proof (cases "match_user_tokens ae token cs w = (Inr (Inr (Some la)), w')")
    case True
    with Cons.IH show ?thesis by (fastforce simp: c)
  next
    case False
    then show ?thesis
      using Cons.prems unfolding c
      by (fastforce simp: ok_iff effective_permissions_for_user_def split: if_splits dest!: access_ok)
  qed
qed

lemma match_user_tokens_None:
  "match_user_tokens ae token cs w = (Inr (Inr None), w') \<Longrightarrow> w' = w"
  by (induction cs) (auto simp: ok_iff split: if_splits)

lemma match_accounts_Some:
  assumes "match_accounts ae token as w = (Inr (Inr (Some p)), w')"
  shows "\<exists>a \<in> set as. ae_argon_verify ae token (sa_token_hash a) = Some True \<and> sp_id p = sa_id a \<and>
    \<lparr>ea_roles = sp_roles p, ea_permissions = sp_permissions p\<rparr>
      = access_in (iam_of w) {rid. (sa_id a, rid) \<in> set (it_account_roles (iam_of w))}"
  using assms
  by (induction as) (auto simp: ok_iff effective_permissions_for_service_account_def split: if_splits dest!: access_ok)

text \<open>
  C19: an API token that is accepted belongs to an active user or to an active service account, is active and not
  expired, verifies against the stored hash, and gives exactly the access of its owner; the only other
  token accepted is the configured static one.
\<close>

theorem admin_token_sound:
  assumes "admin_authenticate ae aa None (Some token) w = (Inr (Inr ctx), w')"
  defines "t \<equiv> iam_of w"
  shows "(\<exists>x u. user_token_of ae (sb_now w) t token x u \<and> cx_principal_id ctx = Some (iu_id u) \<and>
       cx_principal_type ctx = PrincipalUser \<and>
       \<lparr>ea_roles = cx_roles ctx, ea_permissions = cx_permissions ctx\<rparr> = access_in t (user_role_ids t (iu_id u))) \<or>
    (\<exists>a. account_token_of ae (sb_now w) t token a \<and> cx_principal_id ctx = Some (sa_id a) \<and>
       cx_principal_type ctx = PrincipalServiceAccount \<and>
       \<lparr>ea_roles = cx_roles ctx, ea_permissions = cx_permissions ctx\<rparr>
         = access_in t {rid. (sa_id a, rid) \<in> set (it_account_roles t)}) \<or>
    (aa_static_token aa = Some token \<and> ctx = context_from_fallback ''static-admin'' (aa_fallback_roles aa))"
proof -
  obtain hint user w1 where user: "token_hint token = Inr hint"
    "match_user_tokens ae token (token_candidates hint t) (w\<lparr>sb_ops := Suc (sb_ops w)\<rparr>) = (Inr (Inr user), w1)"
    using assms(1)
    by (auto simp: admin_authenticate_def authenticate_admin_token_def verify_user_token_def ok_iff t_def)
  show ?thesis
  proof (cases user)
    case (Some la)
    obtain x u where "(x, u) \<in> set (token_candidates hint t)" "not_expired (sb_now w) (ut_expires_at x)"
      "iu_status u = ''active''" "ae_argon_verify ae token (ut_token_hash x) = Some True" "la_id la = ut_user_id x"
      "\<lparr>ea_roles = la_roles la, ea_permissions = la_permissions la\<rparr> = access_in t (user_role_ids t (ut_user_id x))"
      using match_user_tokens_Some [OF user(2) [unfolded Some]] by (auto simp: t_def)
    moreover from this(1) have "x \<in> set (it_user_tokens t)" "ut_status x = ''active''" "u \<in> set (it_users t)"
      "iu_id u = ut_user_id x"
      by (auto simp: token_candidates_def dest: user_by_id_Some [OF sym] split: option.splits)
    ultimately have "user_token_of ae (sb_now w) t token x u" "la_id la = iu_id u"
      "\<lparr>ea_roles = la_roles la, ea_permissions = la_permissions la\<rparr> = access_in t (user_role_ids t (iu_id u))"
      by (simp_all add: user_token_of_def)
    moreover have "ctx = context_from_effective (opt_else (la_username la) (la_email la)) PrincipalUser (Some (la_id la))
        \<lparr>ea_roles = la_roles la, ea_permissions = la_permissions la\<rparr>"
      using assms(1) user Some
      by (auto simp: admin_authenticate_def authenticate_admin_token_def verify_user_token_def ok_iff t_def)
    ultimately show ?thesis
      by (intro disjI1 exI [of _ x] exI [of _ u]) (simp add: context_from_effective_def)
  next
    case None
    then have w1: "w1 = w\<lparr>sb_ops := Suc (sb_ops w)\<rparr>" using user(2) match_user_tokens_None by blast
    let ?as = "filter (\<lambda>a. sa_status a = ''active'' \<and> sa_token_hint a = Some hint \<and> not_expired (sb_now w) (sa_expires_at a)) (it_accounts t)"
    obtain service w2 where service:
      "match_accounts ae token ?as (w\<lparr>sb_ops := Suc (Suc (sb_ops w))\<rparr>) = (Inr (Inr service), w2)"
      "case service of Some p \<Rightarrow> ctx = context_from_service_account p
       | None \<Rightarrow> aa_static_token aa = Some token \<and> ctx = context_from_fallback ''static-admin'' (aa_fallback_roles aa)"
      using assms(1) user None w1
      by (auto simp: admin_authenticate_def authenticate_admin_token_def verify_user_token_def verify_service_token_def
          ok_iff t_def split: option.splits if_splits)
    then show ?thesis
      by (cases service)
        (auto dest!: match_accounts_Some simp: account_token_of_def context_from_service_account_def t_def)
  qed
qed

end
