(* ===== verification/Auth_Sessions.thy ===== *)
theory Auth_Sessions
  imports Auth_Correct
begin

text \<open>
  Logins and sessions: wrong passwords lock an account for everybody, refresh tokens are used once, and a
  user has a bounded number of live sessions.
\<close>

section \<open>Updating a user within the constraints\<close>

text \<open>The columns the constraints look at; the version has to stay in its range.\<close>

definition constrained where
  "constrained u = (iu_id u, iu_subject u, iu_email u, iu_username u, iu_status u)"

lemma iam_ok_update_users:
  assumes "iam_ok ae t" "\<And>u. constrained (f u) = constrained u"
    and "\<And>u. u \<in> set (it_users t) \<Longrightarrow> iu_id u = i \<Longrightarrow>
      - (2 ^ 63) \<le> iu_token_version (f u) \<and> iu_token_version (f u) < 2 ^ 63"
  shows "iam_ok ae (update_users i f t)"
proof -
  let ?g = "\<lambda>u. if iu_id u = i then f u else u"
  have g: "iu_id (?g u) = iu_id u" "iu_subject (?g u) = iu_subject u" "iu_email (?g u) = iu_email u"
    "iu_username (?g u) = iu_username u" "iu_status (?g u) = iu_status u" for u
    using assms(2) [of u] by (simp_all add: constrained_def)
  have mf: "List.map_filter h (map ?g us) = List.map_filter h us" if "\<And>u. h (?g u) = h u" for h :: "iam_user \<Rightarrow> string option" and us
    by (induction us) (simp_all only: list.map map_filter_simps that)
  have versions: "- (2 ^ 63) \<le> iu_token_version (?g u) \<and> iu_token_version (?g u) < 2 ^ 63" if "u \<in> set (it_users t)" for u
    using assms(1,3) that by (auto simp: iam_ok_def users_ok_def list_all_iff)
  define us' where "us' = map ?g (it_users t)"
  have "users_ok ae us'"
    using assms(1) versions unfolding us'_def iam_ok_def users_ok_def
    by (simp only: mf g list_all_iff map_map o_def set_map ball_simps) blast
  moreover have "iu_id ` set us' = iu_id ` set (it_users t)"
    unfolding us'_def set_map image_image g(1) ..
  moreover have "update_users i f t = t\<lparr>it_users := us'\<rparr>" by (simp add: update_users_def us'_def)
  ultimately show ?thesis
    using assms(1) by (simp add: iam_ok_def tokens_ok_def roles_ok_def cong: option.case_cong)
qed

lemma iam_ok_version: "iam_ok ae t \<Longrightarrow> u \<in> set (it_users t) \<Longrightarrow>
  - (2 ^ 63) \<le> iu_token_version u \<and> iu_token_version u < 2 ^ 63"
  by (auto simp: iam_ok_def users_ok_def list_all_iff)

text \<open>Other columns may change freely.\<close>

lemma iam_ok_update_other:
  assumes "iam_ok ae t" "\<And>u. constrained (f u) = constrained u" "\<And>u. iu_token_version (f u) = iu_token_version u"
  shows "iam_ok ae (update_users i f t)"
  by (rule iam_ok_update_users [OF assms(1,2)]) (use iam_ok_version [OF assms(1)] assms(3) in auto)

lemma find_update:
  assumes "\<And>u. P (f u) = P u" "find P us = Some u" "iu_id u = i"
  shows "find P (map (\<lambda>u. if iu_id u = i then f u else u) us) = Some (f u)"
  using assms(2,3)
  by (induction us) (auto simp: assms(1) split: if_splits)

section \<open>Lockout\<close>

text \<open>A row after a number of wrong passwords.\<close>

definition failing_row :: "admin_env \<Rightarrow> string \<Rightarrow> string \<Rightarrow> nat \<Rightarrow> iam_tables \<Rightarrow> bool" where
  "failing_row ae name hash n t \<longleftrightarrow>
     (\<exists>u. find (login_matches ae (trim (trim name))) (it_users t) = Some u \<and> iu_status u = ''active'' \<and>
       iu_password_hash u = Some hash \<and> iu_failed_login_attempts u = of_nat n \<and> iu_locked_until u = None)"

definition locked_row :: "admin_env \<Rightarrow> string \<Rightarrow> time \<Rightarrow> iam_tables \<Rightarrow> bool" where
  "locked_row ae name until t \<longleftrightarrow>
     (\<exists>u. find (login_matches ae (trim (trim name))) (it_users t) = Some u \<and> iu_status u = ''active'' \<and>
       iu_locked_until u = Some until)"

text \<open>Logins one after the other, each some time after the one before.\<close>

fun login_attempts ::
  "admin_env \<Rightarrow> admin_auth \<Rightarrow> string \<Rightarrow> (nat \<times> string) list \<Rightarrow> iam_tables svc_base_scheme \<Rightarrow> iam_tables svc_base_scheme" where
  "login_attempts ae aa name [] w = w"
| "login_attempts ae aa name ((pause, password) # rest) w =
     login_attempts ae aa name rest (snd (login_route ae aa name password (w\<lparr>sb_now := sb_now w + pause\<rparr>)))"

definition wrong_password :: "admin_env \<Rightarrow> string \<Rightarrow> string \<Rightarrow> bool" where
  "wrong_password ae hash password \<longleftrightarrow> password \<noteq> [] \<and> ae_argon_verify ae password hash = Some False"

lemma wrong_login:
  assumes "svc_reliable w" "iam_ok ae (iam_of w)" "failing_row ae name hash n (iam_of w)" "wrong_password ae hash password"
    and "trim name \<noteq> []" "local_login_enabled (aa_mode aa)" "int (Suc n) < 2 ^ 31"
    and "sb_now w + 1000 * nat (max (aa_lockout_seconds aa) 1) \<le> ae_chrono_max ae"
  defines "w' \<equiv> snd (login_route ae aa name password w)"
  shows "fst (login_route ae aa name password w) = Inr (Inl (401, (''INVALID_CREDENTIALS'', ''invalid credentials'')))"
    and "svc_reliable w'" "iam_ok ae (iam_of w')" "sb_now w' = sb_now w"
    and "if sint (aa_max_failed_attempts aa) \<le> int (Suc n)
      then locked_row ae name (sb_now w + 1000 * nat (max (aa_lockout_seconds aa) 1)) (iam_of w')
      else failing_row ae name hash (Suc n) (iam_of w')"
proof -
  obtain u where u: "find (login_matches ae (trim (trim name))) (it_users (iam_of w)) = Some u"
    "iu_status u = ''active''" "iu_password_hash u = Some hash" "iu_failed_login_attempts u = of_nat n" "iu_locked_until u = None"
    using assms(3) by (auto simp: failing_row_def)
  let ?until = "if sint (aa_max_failed_attempts aa) \<le> int (Suc n)
      then Some (sb_now w + 1000 * nat (max (aa_lockout_seconds aa) 1)) else None"
  let ?f = "\<lambda>u. u\<lparr>iu_failed_login_attempts := of_nat (Suc n), iu_locked_until := ?until, iu_updated_at := sb_now w\<rparr>"
  let ?t = "update_users (iu_id u) ?f (iam_of w)"
  have "sint (word_of_int (int (Suc n)) :: i32) = int (Suc n)"
    unfolding sint_sbintrunc' by (rule signed_take_bit_int_eq_self) (use assms(7) in simp_all)
  then have sint: "sint (1 + of_nat n :: i32) = 1 + int n" by simp
  have ok: "iam_ok ae (update_users (iu_id u) (\<lambda>u. u\<lparr>iu_failed_login_attempts := a, iu_locked_until := b,
      iu_updated_at := c\<rparr>) (iam_of w))" for a b c
    by (rule iam_ok_update_other [OF assms(2)]) (simp_all add: constrained_def)
  have run: "login_route ae aa name password w =
      (Inr (Inl (401, (''INVALID_CREDENTIALS'', ''invalid credentials''))),
       svc_base.more_update (\<lambda>_. ?t) (w\<lparr>sb_ops := Suc (Suc (sb_ops w))\<rparr>))"
    using assms(1,4-6,8) u
    by (simp add: ok add.commute login_route_def login_local_def authenticate_local_user_def run Let_def wrong_password_def
        verify_hash_def write_user_def sint)
  have row: "find (login_matches ae (trim (trim name))) (it_users ?t) = Some (?f u)"
    using find_update [of "login_matches ae (trim (trim name))" ?f, OF _ u(1) refl]
    unfolding update_users_def by (simp add: login_matches_def)
  show "fst (login_route ae aa name password w) = Inr (Inl (401, (''INVALID_CREDENTIALS'', ''invalid credentials'')))"
    "svc_reliable w'" "iam_ok ae (iam_of w')" "sb_now w' = sb_now w"
    using assms(1) by (simp_all only: w'_def run, simp_all add: ok)
  have "iam_of w' = ?t" by (simp add: w'_def run)
  then have "find (login_matches ae (trim (trim name))) (it_users (iam_of w')) = Some (?f u)"
    using row by simp
  then show "if sint (aa_max_failed_attempts aa) \<le> int (Suc n)
      then locked_row ae name (sb_now w + 1000 * nat (max (aa_lockout_seconds aa) 1)) (iam_of w')
      else failing_row ae name hash (Suc n) (iam_of w')"
    unfolding locked_row_def failing_row_def using u by auto
qed

lemma wrong_logins_lock:
  assumes "svc_reliable w" "iam_ok ae (iam_of w)" "failing_row ae name hash n (iam_of w)"
    and "list_all (\<lambda>(pause, password). wrong_password ae hash password) tries" "tries \<noteq> []"
    and "trim name \<noteq> []" "local_login_enabled (aa_mode aa)" "sint (aa_max_failed_attempts aa) = int (n + length tries)"
    and "sb_now w + sum_list (map fst tries) + 1000 * nat (max (aa_lockout_seconds aa) 1) \<le> ae_chrono_max ae"
  defines "w' \<equiv> login_attempts ae aa name tries w"
  shows "svc_reliable w' \<and> sb_now w' = sb_now w + sum_list (map fst tries) \<and>
    locked_row ae name (sb_now w' + 1000 * nat (max (aa_lockout_seconds aa) 1)) (iam_of w')"
  using assms(1-5,8,9) unfolding w'_def
proof (induction tries arbitrary: w n)
  case Nil
  then show ?case by simp
next
  case (Cons c tries)
  obtain pause password where c: "c = (pause, password)" by (cases c)
  let ?w = "w\<lparr>sb_now := sb_now w + pause\<rparr>"
  have "sint (aa_max_failed_attempts aa) < 2 ^ 31" using sint_lt [of "aa_max_failed_attempts aa"] by simp
  then have bound: "int (Suc n) < 2 ^ 31" using Cons.prems(6) by simp
  have pre: "svc_reliable ?w" "iam_ok ae (iam_of ?w)" "failing_row ae name hash n (iam_of ?w)"
    "wrong_password ae hash password" "trim name \<noteq> []" "local_login_enabled (aa_mode aa)"
    "sb_now ?w + 1000 * nat (max (aa_lockout_seconds aa) 1) \<le> ae_chrono_max ae"
    using Cons.prems assms(6,7) c by simp_all
  note step = wrong_login [OF pre(1-6) bound pre(7)]
  show ?case
  proof (cases "tries = []")
    case True
    then show ?thesis using step Cons.prems(6) by (simp add: c)
  next
    case False
    let ?v = "snd (login_route ae aa name password ?w)"
    have row: "failing_row ae name hash (Suc n) (iam_of ?v)"
      using step(5) False Cons.prems(6) by (simp split: if_splits)
    have "svc_reliable (login_attempts ae aa name tries ?v) \<and>
      sb_now (login_attempts ae aa name tries ?v) = sb_now ?v + sum_list (map fst tries) \<and>
      locked_row ae name (sb_now (login_attempts ae aa name tries ?v) + 1000 * nat (max (aa_lockout_seconds aa) 1))
        (iam_of (login_attempts ae aa name tries ?v))"
      by (rule Cons.IH [OF step(2,3) row]) (use Cons.prems(4,6,7) False step(4) c in simp_all)
    then show ?thesis using step(4) by (auto simp: c)
  qed
qed

text \<open>
  C20: as many wrong passwords in a row as the configuration allows, at whatever intervals, lock the account: until
  the lockout has passed since the last of them, a login with any password, also the right one, is
  answered with 429 and changes nothing.
\<close>

theorem wrong_passwords_lock_account:
  assumes "svc_reliable w" "iam_ok ae (iam_of w)" "failing_row ae name hash 0 (iam_of w)"
    and "list_all (\<lambda>(pause, password). wrong_password ae hash password) tries"
    and "trim name \<noteq> []" "local_login_enabled (aa_mode aa)"
    and "0 < length tries" "sint (aa_max_failed_attempts aa) = int (length tries)"
    and "sb_now w + sum_list (map fst tries) + 1000 * nat (max (aa_lockout_seconds aa) 1) \<le> ae_chrono_max ae"
    and "pause < 1000 * nat (max (aa_lockout_seconds aa) 1)" "password \<noteq> []"
  defines "w1 \<equiv> login_attempts ae aa name tries w"
  defines "w2 \<equiv> w1\<lparr>sb_now := sb_now w1 + pause\<rparr>"
  defines "until \<equiv> sb_now w1 + 1000 * nat (max (aa_lockout_seconds aa) 1)"
  shows "\<exists>w'. login_route ae aa name password w2 =
      (Inr (Inl (429, (''ACCOUNT_LOCKED'', ''account locked until '' @ ae_rfc3339 ae until))), w') \<and> unmoved w2 w'"
proof -
  have lock: "svc_reliable w1" "locked_row ae name until (iam_of w1)"
    using wrong_logins_lock [OF assms(1-4) _ assms(5,6) _ assms(9)] assms(7,8) unfolding w1_def until_def by auto
  then obtain u where "find (login_matches ae (trim (trim name))) (it_users (iam_of w1)) = Some u"
    "iu_status u = ''active''" "iu_locked_until u = Some until"
    by (auto simp: locked_row_def)
  moreover have "sb_now w2 < until" using assms(10) by (simp add: w2_def until_def)
  ultimately show ?thesis
    using lock(1) assms(5,6,11)
    by (simp add: login_route_def login_local_def authenticate_local_user_def run w2_def)
qed

section \<open>Refresh tokens\<close>

definition session_limit :: "admin_auth \<Rightarrow> nat" where
  "session_limit aa = nat (max (aa_refresh_max_sessions aa) 1)"

text \<open>Revoking all but the newest leaves at most as many as are allowed.\<close>

lemma sessions_after_limit:
  "length (sessions_of now i (update_refresh
     (\<lambda>x. rt_id x \<in> excess_sessions n now i t \<and> rt_revoked_at x = None)
     (\<lambda>x. x\<lparr>rt_revoked_at := Some now, rt_revoked_reason := reason\<rparr>) t)) \<le> n"
proof -
  define E where "E = excess_sessions n now i t"
  let ?g = "\<lambda>x. if rt_id x \<in> E \<and> rt_revoked_at x = None
      then x\<lparr>rt_revoked_at := Some now, rt_revoked_reason := reason\<rparr> else x"
  let ?live = "\<lambda>x. rt_user_id x = i \<and> live_refresh now x"
  let ?sorted = "rev (sort_key rt_created_at (sessions_of now i t))"
  have "filter ?live (map ?g xs) = filter (\<lambda>x. rt_id x \<notin> E) (filter ?live xs)" for xs
    by (induction xs) (auto simp: live_refresh_def)
  then have "length (sessions_of now i (update_refresh (\<lambda>x. rt_id x \<in> E \<and> rt_revoked_at x = None)
      (\<lambda>x. x\<lparr>rt_revoked_at := Some now, rt_revoked_reason := reason\<rparr>) t)) =
      length (filter (\<lambda>x. rt_id x \<notin> E) (sessions_of now i t))"
    by (simp add: sessions_of_def update_refresh_def)
  also have "\<dots> = length (filter (\<lambda>x. rt_id x \<notin> E) ?sorted)"
    by (simp add: rev_filter [symmetric] filter_sort)
  also have "\<dots> = length (filter (\<lambda>x. rt_id x \<notin> E) (take n ?sorted)) + length (filter (\<lambda>x. rt_id x \<notin> E) (drop n ?sorted))"
    by (metis append_take_drop_id filter_append length_append)
  also have "filter (\<lambda>x. rt_id x \<notin> E) (drop n ?sorted) = []"
    by (auto simp: filter_empty_conv E_def excess_sessions_def)
  also have "length (filter (\<lambda>x. rt_id x \<notin> E) (take n ?sorted)) + length ([] :: refresh_token list) \<le> n"
    using length_filter_le [of "\<lambda>x. rt_id x \<notin> E" "take n ?sorted"] by simp
  finally show ?thesis by (simp add: E_def)
qed

lemma issue_refresh_bounded:
  assumes "issue_refresh_token ae aa i w = (Inr (Inr token), w')"
  shows "length (sessions_of (sb_now w') i (iam_of w')) \<le> session_limit aa" "sb_now w' = sb_now w"
  using assms
  by (auto simp: issue_refresh_token_def generate_refresh_token_def user_token_version_def enforce_refresh_session_limit_def
      ok_iff session_limit_def sessions_after_limit)

lemma log_keeps_refresh:
  assumes "log_iam_event ae a b c d e w = (Inr (Inr ()), w')"
  shows "it_refresh (iam_of w') = it_refresh (iam_of w) \<and> sb_now w' = sb_now w"
  using wpD [OF log_iam_event_wp assms] by (auto simp: same_but_audit_def)

text \<open>
  However many sessions a user had, after a login the user has at most as many live refresh tokens as the
  configuration allows, and at least one is always allowed.
\<close>

theorem login_sessions_bounded:
  assumes "login_route ae aa name password w = (Inr (Inr resp), w')"
  shows "length (sessions_of (sb_now w') (la_id (lr_user resp)) (iam_of w')) \<le> nat (max (aa_refresh_max_sessions aa) 1)"
proof -
  obtain token v v' where "issue_refresh_token ae aa (la_id (lr_user resp)) v = (Inr (Inr token), v')"
    "it_refresh (iam_of w') = it_refresh (iam_of v')" "sb_now w' = sb_now v'"
    using assms by (auto simp: login_route_def ok_iff dest!: log_keeps_refresh)
  then show ?thesis
    using issue_refresh_bounded(1) by (fastforce simp: sessions_of_def session_limit_def)
qed

text \<open>The row a token stands for stays in the table, with its hash, until it is revoked.\<close>

lemma update_refresh_row:
  assumes "\<exists>x \<in> set (it_refresh t). rt_id x = rid \<and> rt_token_hash x = h"
    and "\<And>x. rt_id (f x) = rt_id x" "\<And>x. rt_token_hash (f x) = rt_token_hash x"
  shows "\<exists>x \<in> set (it_refresh (update_refresh P f t)). rt_id x = rid \<and> rt_token_hash x = h"
proof -
  obtain x where x: "x \<in> set (it_refresh t)" "rt_id x = rid" "rt_token_hash x = h" using assms(1) by auto
  then have "(if P x then f x else x) \<in> set (it_refresh (update_refresh P f t))"
    by (auto simp: update_refresh_def)
  then show ?thesis using x assms(2,3) by (intro bexI [of _ "if P x then f x else x"]) auto
qed

lemma keeps_row:
  "svc_keeps (\<lambda>t. \<exists>x \<in> set (it_refresh t). rt_id x = rid \<and> rt_token_hash x = h) (issue_refresh_token ae aa i)"
  unfolding issue_refresh_token_def generate_refresh_token_def enforce_refresh_session_limit_def
  by (intro svc_keeps_intros svc_keeps_iam_write) (auto intro!: update_refresh_row)

lemma rotated_is_revoked:
  assumes "rotate_refresh_token ae aa token w = (Inr (Inr r), w')"
  shows "\<forall>x \<in> set (it_refresh (iam_of w')). rt_token_hash x = hash_refresh_token ae token \<longrightarrow> rt_revoked_at x \<noteq> None"
proof -
  let ?h = "hash_refresh_token ae token"
  let ?K = "\<lambda>rid t. \<exists>x \<in> set (it_refresh t). rt_id x = rid \<and> rt_token_hash x = ?h"
  obtain row u v1 new v2 rep where steps:
    "find (\<lambda>x. rt_token_hash x = ?h \<and> live_refresh (sb_now w) x) (it_refresh (iam_of w)) = Some row"
    "local_user_for_token ae (rt_user_id row) (w\<lparr>sb_ops := Suc (sb_ops w)\<rparr>) = (Inr (Inr u), v1)"
    "issue_refresh_token ae aa (rt_user_id row) v1 = (Inr (Inr new), v2)"
    "iam_of w' = update_refresh (\<lambda>x. rt_id x = rt_id row) (\<lambda>x. x\<lparr>rt_revoked_at := Some (sb_now v2),
       rt_revoked_reason := Some ''rotated'', rt_replaced_by_id := Some rep, rt_last_used_at := Some (sb_now v2)\<rparr>) (iam_of v2)"
    "iam_ok ae (iam_of w')"
    using assms by (auto simp: rotate_refresh_token_def ok_iff split: if_splits option.splits)
  have "?K (rt_id row) (iam_of w)" using find_Some_mem [OF steps(1)] by auto
  moreover have "svc_keeps (?K (rt_id row)) (local_user_for_token ae (rt_user_id row))"
    unfolding local_user_for_token_def by (intro svc_keeps_intros)
  ultimately have "?K (rt_id row) (iam_of v1)"
    using svc_keepsD [of "?K (rt_id row)" "local_user_for_token ae (rt_user_id row)" "w\<lparr>sb_ops := Suc (sb_ops w)\<rparr>"] steps(2)
    by simp
  then have "?K (rt_id row) (iam_of v2)" 
    using svc_keepsD [OF keeps_row [of "rt_id row" ?h ae aa "rt_user_id row"], of v1] steps(3) by simp
  then have "\<exists>x \<in> set (it_refresh (iam_of w')). rt_id x = rt_id row \<and> rt_token_hash x = ?h"
    unfolding steps(4) by (rule update_refresh_row) simp_all
  then obtain x where x: "x \<in> set (it_refresh (iam_of w'))" "rt_id x = rt_id row" "rt_token_hash x = ?h" by blast
  then have revoked: "rt_revoked_at x \<noteq> None" by (auto simp: steps(4) update_refresh_def split: if_splits)
  have "distinct (map rt_token_hash (it_refresh (iam_of w')))" using steps(5) by (simp add: iam_ok_def tokens_ok_def)
  then have "y = x" if "y \<in> set (it_refresh (iam_of w'))" "rt_token_hash y = ?h" for y
    using that x by (auto simp: distinct_map inj_on_def)
  with revoked show ?thesis by blast
qed

section \<open>A login that succeeds\<close>

lemma iam_ok_add_refresh:
  assumes "iam_ok ae t" "rt_id x \<notin> rt_id ` set (it_refresh t)" "rt_token_hash x \<notin> rt_token_hash ` set (it_refresh t)"
    and "rt_user_id x \<in> iu_id ` set (it_users t)" "rt_replaced_by_id x = None"
  shows "iam_ok ae (t\<lparr>it_refresh := it_refresh t @ [x]\<rparr>)"
proof -
  have "tokens_ok ae (t\<lparr>it_refresh := it_refresh t @ [x]\<rparr>)"
    using assms by (auto simp: iam_ok_def tokens_ok_def list_all_iff split: option.splits)
  then show ?thesis using assms(1) by (simp add: iam_ok_def roles_ok_def)
qed

lemma iam_ok_update_refresh:
  assumes "iam_ok ae t" "\<And>x. rt_id (f x) = rt_id x" "\<And>x. rt_token_hash (f x) = rt_token_hash x"
    and "\<And>x. rt_user_id (f x) = rt_user_id x"
    and "\<And>x. rt_replaced_by_id (f x) = rt_replaced_by_id x \<or> (\<exists>j \<in> rt_id ` set (it_refresh t). rt_replaced_by_id (f x) = Some j)"
  shows "iam_ok ae (update_refresh P f t)"
proof -
  let ?g = "\<lambda>x. if P x then f x else x"
  let ?ok = "\<lambda>r. case r of None \<Rightarrow> True | Some j \<Rightarrow> j \<in> rt_id ` set (it_refresh t)"
  have g: "rt_id (?g x) = rt_id x" "rt_token_hash (?g x) = rt_token_hash x" "rt_user_id (?g x) = rt_user_id x" for x
    using assms(2-4) by simp_all
  define xs where "xs = map ?g (it_refresh t)"
  have cols: "map rt_id xs = map rt_id (it_refresh t)" "map rt_token_hash xs = map rt_token_hash (it_refresh t)"
    unfolding xs_def map_map o_def g by simp_all
  have old: "rt_user_id x \<in> iu_id ` set (it_users t)" "?ok (rt_replaced_by_id x)" if "x \<in> set (it_refresh t)" for x
    using assms(1) that by (auto simp: iam_ok_def tokens_ok_def list_all_iff)
  have "rt_user_id (?g x) \<in> iu_id ` set (it_users t) \<and> ?ok (rt_replaced_by_id (?g x))" if "x \<in> set (it_refresh t)" for x
    using old [OF that] assms(4) assms(5) [of x] by (auto split: option.splits)
  then have all: "list_all (\<lambda>x. rt_user_id x \<in> iu_id ` set (it_users t) \<and> ?ok (rt_replaced_by_id x)) xs"
    by (simp only: xs_def list_all_iff set_map ball_simps) blast
  have ids: "rt_id ` set xs = rt_id ` set (it_refresh t)" using cols(1) by (metis set_map)
  have "tokens_ok ae (t\<lparr>it_refresh := xs\<rparr>)"
    using assms(1) all cols ids by (simp add: iam_ok_def tokens_ok_def cong: option.case_cong)
  then show ?thesis
    using assms(1) by (simp add: iam_ok_def roles_ok_def update_refresh_def xs_def [symmetric])
qed

text \<open>A new session: its row is added, and others may have been revoked.\<close>

definition new_session :: "admin_env \<Rightarrow> iam_tables \<Rightarrow> string \<Rightarrow> iam_tables \<Rightarrow> bool" where
  "new_session ae t token t' \<longleftrightarrow>
     (\<exists>rs. t' = t\<lparr>it_refresh := rs\<rparr> \<and> map rt_token_hash rs = map rt_token_hash (it_refresh t) @ [hash_refresh_token ae token])"

lemma new_session_limited:
  assumes "rt_token_hash x = hash_refresh_token ae token" "\<And>y. rt_token_hash (f y) = rt_token_hash y"
  shows "new_session ae t token (update_refresh P f (t\<lparr>it_refresh := it_refresh t @ [x]\<rparr>))"
proof -
  have "map rt_token_hash (map (\<lambda>y. if P y then f y else y) ys) = map rt_token_hash ys" for ys
    using assms(2) by (induction ys) simp_all
  from this [of "it_refresh t @ [x]"] show ?thesis
    using assms(1) unfolding new_session_def update_refresh_def
    by (intro exI [of _ "map (\<lambda>y. if P y then f y else y) (it_refresh t @ [x])"]) simp
qed

lemma issue_refresh_succeeds:
  assumes "svc_reliable w" "iam_ok ae (iam_of w)" "user_by_id i (iam_of w) \<noteq> None"
    and "sb_now w + 1000 * nat (max (aa_refresh_ttl_seconds aa) 600) \<le> ae_chrono_max ae"
    and "sb_uuids w (Suc (sb_uuid_next w)) \<notin> rt_id ` set (it_refresh (iam_of w))"
    and "hash_refresh_token ae (''odr_'' @ ae_random ae (sb_uuid_next w) 64) \<notin> rt_token_hash ` set (it_refresh (iam_of w))"
  shows "\<exists>token w'. issue_refresh_token ae aa i w = (Inr (Inr token), w') \<and> svc_reliable w' \<and>
    iam_ok ae (iam_of w') \<and> new_session ae (iam_of w) token (iam_of w')"
proof -
  obtain u where u: "user_by_id i (iam_of w) = Some u" using assms(3) by auto
  then have "i \<in> iu_id ` set (it_users (iam_of w))" using user_by_id_Some by force
  then have add: "iam_ok ae ((iam_of w)\<lparr>it_refresh := it_refresh (iam_of w) @
      [\<lparr>rt_id = sb_uuids w (Suc (sb_uuid_next w)), rt_user_id = i,
        rt_token_hash = hash_refresh_token ae (''odr_'' @ ae_random ae (sb_uuid_next w) 64),
        rt_token_hint = hint, rt_token_version = v, rt_created_at = c, rt_last_used_at = None, rt_expires_at = e,
        rt_revoked_at = None, rt_revoked_reason = None, rt_replaced_by_id = None\<rparr>]\<rparr>)" for hint v c e
    using assms(2,5,6) by (intro iam_ok_add_refresh) simp_all
  show ?thesis
    using assms(1,4) u
    by (auto simp: issue_refresh_token_def generate_refresh_token_def svc_bind_def svc_return_def user_token_version_def
        enforce_refresh_session_limit_def run Let_def add [simplified] iam_ok_update_refresh [OF add [simplified]]
        new_session_limited)
qed

lemma log_runs: "\<exists>w'. log_iam_event ae a b c d e w = (Inr (Inr ()), w') \<and> same_but_audit (iam_of w) (iam_of w') \<and>
  sb_fails w' = sb_fails w"
  using wp_Inr [OF log_iam_event_wp] by fastforce

text \<open>The right password of an active account that is not locked is accepted.\<close>

lemma right_password_logs_in:
  assumes "svc_reliable w" "iam_ok ae (iam_of w)" "local_login_enabled (aa_mode aa)" "trim name \<noteq> []" "password \<noteq> []"
    and "find (login_matches ae (trim (trim name))) (it_users (iam_of w)) = Some u" "iu_status u = ''active''"
    and "case iu_locked_until u of None \<Rightarrow> True | Some t \<Rightarrow> t \<le> sb_now w"
    and "iu_password_hash u = Some hash" "ae_argon_verify ae password hash = Some True"
    and "sb_now w + 1000 * nat (max (aa_refresh_ttl_seconds aa) 600) \<le> ae_chrono_max ae"
    and "sb_uuids w (Suc (sb_uuid_next w)) \<notin> rt_id ` set (it_refresh (iam_of w))"
    and "hash_refresh_token ae (''odr_'' @ ae_random ae (sb_uuid_next w) 64) \<notin> rt_token_hash ` set (it_refresh (iam_of w))"
  shows "\<exists>resp w'. login_route ae aa name password w = (Inr (Inr resp), w') \<and> la_id (lr_user resp) = iu_id u \<and>
    svc_reliable w' \<and> map (\<lambda>u. (iu_id u, iu_token_version u)) (it_users (iam_of w'))
      = map (\<lambda>u. (iu_id u, iu_token_version u)) (it_users (iam_of w))"
proof -
  let ?f = "\<lambda>u. u\<lparr>iu_failed_login_attempts := 0, iu_locked_until := None, iu_last_login_at := Some (sb_now w),
      iu_updated_at := sb_now w\<rparr>"
  let ?t = "update_users (iu_id u) ?f (iam_of w)"
  have ok: "iam_ok ae ?t" by (rule iam_ok_update_other [OF assms(2)]) (simp_all add: constrained_def)
  let ?v = "svc_base.more_update (\<lambda>_. ?t) (w\<lparr>sb_ops := Suc (Suc (sb_ops w))\<rparr>)"
  obtain k where k: "access_of_roles (\<lambda>t. user_role_ids t (iu_id u)) ?v = (Inr (Inr (access_in ?t (user_role_ids ?t (iu_id u)))), ?v\<lparr>sb_ops := k\<rparr>)"
    using access_run [of ?v] assms(1) by fastforce
  obtain la where la: "authenticate_local_user ae (trim name) password (aa_max_failed_attempts aa) (aa_lockout_seconds aa) w
      = (Inr (Inr la), ?v\<lparr>sb_ops := k\<rparr>)" "la_id la = iu_id u"
    using assms(1,6-10) ok k
    by (auto simp: authenticate_local_user_def verify_hash_def write_user_def effective_permissions_for_user_def run Let_def
        split: option.splits)
  have "u \<in> set (it_users (iam_of w))" using find_Some_mem [OF assms(6)] by simp
  then have "user_by_id (iu_id u) ?t \<noteq> None"
    by (auto simp: user_by_id_def update_users_def find_None_iff)
  then obtain token w1 where w1: "issue_refresh_token ae aa (iu_id u) (?v\<lparr>sb_ops := k\<rparr>) = (Inr (Inr token), w1)"
    "svc_reliable w1" "new_session ae ?t token (iam_of w1)"
    using issue_refresh_succeeds [of "?v\<lparr>sb_ops := k\<rparr>" ae "iu_id u" aa] assms(1,11-13) ok by (auto simp: update_users_def)
  obtain w2 where w2: "log_iam_event ae ''iam.auth.login.success'' (Some (la_email la)) ''user''
      (Some (uuid_to_string (ae_ex ae) (iu_id u))) (JObj [(''username'', opt_to_json JStr (la_username la))]) w1
      = ((Inr (Inr ()) :: ((nat \<times> api_error) + unit) res), w2)"
    "same_but_audit (iam_of w1) (iam_of w2)" "sb_fails w2 = sb_fails w1"
    using log_runs by blast
  have "it_users (iam_of w2) = it_users ?t"
    using w1(3) w2(2) by (auto simp: same_but_audit_def new_session_def)
  moreover have "map (\<lambda>u. (iu_id u, iu_token_version u)) (it_users ?t) = map (\<lambda>u. (iu_id u, iu_token_version u)) (it_users (iam_of w))"
    by (simp add: update_users_def)
  moreover have "svc_reliable w2" using w1(2) w2(3) by (simp add: svc_reliable_def)
  ultimately show ?thesis
    using assms(3-5) la w1(1) w2(1) by (simp add: login_route_def login_local_def run)
qed

lemma login_keeps_constraints: "svc_keeps (iam_ok ae) (login_route ae aa name password)"
  unfolding login_route_def login_local_def authenticate_local_user_def issue_refresh_token_def generate_refresh_token_def
    enforce_refresh_session_limit_def write_user_def log_iam_event_def record_iam_event_def audit_logger_log_def Let_def
  by (intro svc_keeps_intros)

lemma local_user_run:
  assumes "svc_reliable w" "user_by_id i (iam_of w) = Some u" "iu_status u = ''active''"
  shows "\<exists>la k. local_user_for_token ae i w = (Inr (Inr la), w\<lparr>sb_ops := k\<rparr>) \<and> la_token_version la = iu_token_version u"
proof -
  have u: "iu_id u = i" using user_by_id_Some [OF assms(2)] by simp
  obtain k where k: "access_of_roles (\<lambda>t. user_role_ids t i) (w\<lparr>sb_ops := Suc (sb_ops w)\<rparr>) =
      (Inr (Inr (access_in (iam_of w) (user_role_ids (iam_of w) i))), w\<lparr>sb_ops := k\<rparr>)"
    using access_run [of "w\<lparr>sb_ops := Suc (sb_ops w)\<rparr>" "\<lambda>t. user_role_ids t i"] assms(1) by auto
  show ?thesis
    using assms u k
    by (auto simp: local_user_for_token_def iam_get_user_def user_token_version_def effective_permissions_for_user_def
        user_record_of_def run)
qed

text \<open>A live refresh token of an active user whose version has not changed is exchanged.\<close>

lemma live_refresh_accepted:
  assumes "svc_reliable w" "iam_ok ae (iam_of w)" "local_login_enabled (aa_mode aa)" "trim token \<noteq> []"
    and "find (\<lambda>x. rt_token_hash x = hash_refresh_token ae (trim token) \<and> live_refresh (sb_now w) x) (it_refresh (iam_of w)) = Some row"
    and "user_by_id (rt_user_id row) (iam_of w) = Some u" "iu_status u = ''active''" "iu_token_version u = rt_token_version row"
    and "sb_now w + 1000 * nat (max (aa_refresh_ttl_seconds aa) 600) \<le> ae_chrono_max ae"
    and "sb_uuids w (Suc (sb_uuid_next w)) \<notin> rt_id ` set (it_refresh (iam_of w))"
    and "hash_refresh_token ae (''odr_'' @ ae_random ae (sb_uuid_next w) 64) \<notin> rt_token_hash ` set (it_refresh (iam_of w))"
  shows "\<exists>r w'. refresh_route ae aa token w = (Inr (Inr r), w')"
proof -
  obtain la k where la: "local_user_for_token ae (rt_user_id row) (w\<lparr>sb_ops := Suc (sb_ops w)\<rparr>) = (Inr (Inr la), w\<lparr>sb_ops := k\<rparr>)"
    "la_token_version la = iu_token_version u"
    using local_user_run [of "w\<lparr>sb_ops := Suc (sb_ops w)\<rparr>" "rt_user_id row" u ae] assms(1,6,7) by auto
  obtain new w1 where new: "issue_refresh_token ae aa (rt_user_id row) (w\<lparr>sb_ops := k\<rparr>) = (Inr (Inr new), w1)"
    "svc_reliable w1" "iam_ok ae (iam_of w1)" "new_session ae (iam_of w) new (iam_of w1)"
    using issue_refresh_succeeds [of "w\<lparr>sb_ops := k\<rparr>" ae "rt_user_id row" aa] assms(1,2,6,9-11) by auto
  have "hash_refresh_token ae new \<in> set (map rt_token_hash (it_refresh (iam_of w1)))"
    using new(4) by (auto simp: new_session_def simp del: set_map)
  then obtain x where x: "find (\<lambda>x. rt_token_hash x = hash_refresh_token ae new) (it_refresh (iam_of w1)) = Some x"
    by (cases "find (\<lambda>x. rt_token_hash x = hash_refresh_token ae new) (it_refresh (iam_of w1))") (auto simp: find_None_iff)
  have "iam_ok ae (update_refresh (\<lambda>y. rt_id y = rt_id row) (\<lambda>y. y\<lparr>rt_revoked_at := a, rt_revoked_reason := b,
      rt_replaced_by_id := Some (rt_id x), rt_last_used_at := c\<rparr>) (iam_of w1))" for a b c
    by (rule iam_ok_update_refresh [OF new(3)]) (use find_Some_mem [OF x] in auto)
  then show ?thesis
    using assms(1,3-5,8) la new(1,2) x
    by (simp add: refresh_route_def rotate_refresh_token_def svc_bind_def svc_return_def run sql_def svc_try_def iam_read_def
        svc_query_def svc_op_def Let_def iam_write_def svc_stmt_def)
qed

text \<open>Setting a password succeeds for a user whose version can still grow.\<close>

lemma set_password_succeeds:
  assumes "svc_reliable w" "iam_ok ae (iam_of w)" "user_by_id i (iam_of w) = Some u" "iu_token_version u + 1 < 2 ^ 63"
    and "8 \<le> length (trim password)" "ae_argon_hash ae (ae_random ae (sb_uuid_next w) 22) (trim password) = Some h"
    and "ROLE_POLICY_ADMIN \<in> cx_roles ctx"
  shows "\<exists>w'. iam_dispatch ae ctx (ReqSetPassword i password m) w = (Inr (Inr ()), w') \<and> svc_reliable w'"
proof -
  have "distinct (map iu_id (it_users (iam_of w)))" using assms(2) by (simp add: iam_ok_def users_ok_def)
  then have only: "x = u" if "x \<in> set (it_users (iam_of w))" "iu_id x = i" for x
    using that user_by_id_Some [OF assms(3)] by (auto simp: distinct_map inj_on_def)
  have ok: "iam_ok ae (update_users i (\<lambda>u. u\<lparr>iu_password_hash := a, iu_password_updated_at := b, iu_must_change_password := c,
      iu_token_version := iu_token_version u + 1, iu_failed_login_attempts := d, iu_locked_until := e, iu_updated_at := g\<rparr>) (iam_of w))"
    for a b c d e g
  proof (rule iam_ok_update_users [OF assms(2)])
    fix x
    assume "x \<in> set (it_users (iam_of w))" "iu_id x = i"
    with only iam_ok_version [OF assms(2)] assms(4)
    have "- (2 ^ 63) \<le> iu_token_version x + 1 \<and> iu_token_version x + 1 < 2 ^ 63" by fastforce
    then show "- (2 ^ 63) \<le> iu_token_version (x\<lparr>iu_password_hash := a, iu_password_updated_at := b, iu_must_change_password := c,
        iu_token_version := iu_token_version x + 1, iu_failed_login_attempts := d, iu_locked_until := e, iu_updated_at := g\<rparr>) \<and>
      iu_token_version (x\<lparr>iu_password_hash := a, iu_password_updated_at := b, iu_must_change_password := c,
        iu_token_version := iu_token_version x + 1, iu_failed_login_attempts := d, iu_locked_until := e, iu_updated_at := g\<rparr>) < 2 ^ 63"
      by simp
  qed (simp add: constrained_def)
  have "trim password \<noteq> []" using assms(5) by auto
  then obtain v where v: "set_user_password ae i password (opt_else m True) w = (Inr (Inr ()), v)" "svc_reliable v"
    using assms(1,3,5,6) ok by (auto simp: set_user_password_def hash_token_def write_user_def run Let_def)
  obtain w' where "audit ae ctx ''iam.user.password.set'' ''user'' i [(''must_change_password'', JBool (opt_else m True))] v
      = ((Inr (Inr ()) :: ((nat \<times> api_error) + unit) res), w')" "sb_fails w' = sb_fails v"
    using log_runs unfolding audit_def by blast
  with v assms(7) show ?thesis
    by (auto simp: done_route_def set_user_password_route_def run ROLE_IAM_ADMIN_def svc_reliable_def)
qed

section \<open>Claims without roles\<close>

text \<open>
  C38: with claim fallback, a valid token of the identity provider that names neither roles nor scopes, of a subject
  the service does not know, is given every built-in role, the administrator role among them.
\<close>

theorem claims_without_roles_are_admin:
  assumes "aa_mode aa = AuthOidc" "aa_jwt aa = Some jwt" "aa_allow_claim_fallback aa" "svc_reliable w"
    and "jwt_validate ae jwt (sb_now w) token = Inr claims"
    and "oc_roles claims = None \<or> oc_roles claims = Some []" "oc_scope claims = None"
    and "find (\<lambda>u. iu_subject u = Some (oc_sub claims)) (it_users (iam_of w)) = None"
    and "\<forall>email. oc_email claims = Some email \<longrightarrow> find (\<lambda>u. iu_email u = Some (trim email)) (it_users (iam_of w)) = None"
  shows "\<exists>ctx w'. admin_authenticate ae aa (Some token) header w = (Inr (Inr ctx), w') \<and>
    cx_roles ctx = {ROLE_POLICY_ADMIN, ROLE_POLICY_EDITOR, ROLE_POLICY_VIEWER, ROLE_AUDITOR}"
proof -
  have "compute_roles claims = default_static_roles" using assms(6,7) by (auto simp: compute_roles_def)
  then have "set (compute_roles claims) = {ROLE_POLICY_ADMIN, ROLE_POLICY_EDITOR, ROLE_POLICY_VIEWER, ROLE_AUDITOR}"
    by (simp add: default_static_roles_def)
  then show ?thesis
    using assms(1-5,8,9)
    by (cases "oc_email claims")
      (simp_all add: admin_authenticate_def authenticate_bearer_def local_login_enabled_def resolve_claims_def
        find_user_by_subject_def find_user_by_email_def run lift_sum_def svc_return_def Let_def context_from_fallback_def)
qed

end
