(* ===== verification/Auth_Runs.thy ===== *)
theory Auth_Runs
  imports Auth_Sessions
begin

text \<open>
  The identity side of the administration service over time.  A run is any sequence of identity requests,
  logins, refreshes, logouts and password changes, with pauses and with outages in which any statements
  fail.  The locale \<open>session_law\<close> states what a fact about users and sessions needs to outlive every such
  step: the programs of the service are shown to keep it once, for all such facts.
\<close>

section \<open>Requests and runs\<close>

datatype admin_call =
    CallIdentity "string option" "string option" iam_request
  | CallLogin string string
  | CallRefresh string
  | CallLogout string
  | CallChangePassword "string option" "string option" string string

text \<open>The routes with the middleware in front of them; only the new state is kept.\<close>

fun admin_serve ::
  "admin_env \<Rightarrow> admin_auth \<Rightarrow> admin_call \<Rightarrow> iam_tables svc_base_scheme \<Rightarrow> iam_tables svc_base_scheme" where
  "admin_serve ae aa (CallIdentity authorization header req) w =
     snd (api_enforce_admin ae aa authorization header (\<lambda>ctx. iam_dispatch ae ctx req) w)"
| "admin_serve ae aa (CallLogin name password) w = snd (login_route ae aa name password w)"
| "admin_serve ae aa (CallRefresh token) w = snd (refresh_route ae aa token w)"
| "admin_serve ae aa (CallLogout token) w = snd (logout_route ae token w)"
| "admin_serve ae aa (CallChangePassword authorization header old new) w =
     snd (api_enforce_admin ae aa authorization header (\<lambda>ctx. change_password_route ae ctx old new) w)"

inductive admin_run :: "admin_env \<Rightarrow> admin_auth \<Rightarrow> iam_tables svc_base_scheme \<Rightarrow> iam_tables svc_base_scheme \<Rightarrow> bool"
  for ae aa w where
  run_start: "admin_run ae aa w w"
| run_call: "admin_run ae aa w u \<Longrightarrow> admin_run ae aa w (admin_serve ae aa c u)"
| run_pause: "admin_run ae aa w u \<Longrightarrow> admin_run ae aa w (u\<lparr>sb_now := sb_now u + pause\<rparr>)"
| run_outage: "admin_run ae aa w u \<Longrightarrow> admin_run ae aa w (u\<lparr>sb_fails := pattern\<rparr>)"

section \<open>Facts that outlive every request\<close>

text \<open>
  How a row of a user may change: the token version never goes back, and it rises when the user is
  disabled.  A session that is revoked stays revoked.
\<close>

definition user_kept :: "iam_user \<Rightarrow> iam_user \<Rightarrow> bool" where
  "user_kept u u' \<longleftrightarrow> iu_id u' = iu_id u \<and> iu_token_version u \<le> iu_token_version u' \<and>
     (iu_status u' = ''disabled'' \<and> iu_status u \<noteq> ''disabled'' \<longrightarrow> iu_token_version u < iu_token_version u')"

definition session_kept :: "refresh_token \<Rightarrow> refresh_token \<Rightarrow> bool" where
  "session_kept x x' \<longleftrightarrow> rt_token_hash x' = rt_token_hash x \<and> (rt_revoked_at x \<noteq> None \<longrightarrow> rt_revoked_at x' \<noteq> None)"

named_theorems stays_intros \<open>programs that keep the facts about users and sessions\<close>

text \<open>\<open>fresh n us\<close> says that identifiers and random texts from the \<open>n\<close>-th on are not among the used ones.\<close>

locale session_law =
  fixes ae :: admin_env and fresh :: "nat \<Rightarrow> (nat \<Rightarrow> uuid) \<Rightarrow> bool" and T :: "iam_tables \<Rightarrow> bool"
  assumes fresh_later: "fresh n us \<Longrightarrow> fresh (Suc n) us"
    and T_frame: "T t \<Longrightarrow> it_users t' = it_users t \<Longrightarrow> it_refresh t' = it_refresh t \<Longrightarrow> T t'"
    and T_user: "T t \<Longrightarrow> (\<And>u. user_kept u (f u)) \<Longrightarrow> T (update_users j f t)"
    and T_delete: "T t \<Longrightarrow> T (delete_user_rows j t)"
    and T_new_user: "fresh n us \<Longrightarrow> T t \<Longrightarrow> iu_id u = us n \<Longrightarrow> T (t\<lparr>it_users := it_users t @ [u]\<rparr>)"
    and T_session: "T t \<Longrightarrow> (\<And>x. session_kept x (g x)) \<Longrightarrow> T (update_refresh P g t)"
    and T_new_session: "fresh n us \<Longrightarrow> T t \<Longrightarrow> rt_token_hash x = hash_refresh_token ae (''odr_'' @ ae_random ae n 64) \<Longrightarrow>
      T (t\<lparr>it_refresh := it_refresh t @ [x]\<rparr>)"
begin

definition law :: "iam_tables svc_base_scheme \<Rightarrow> bool" where
  "law w \<longleftrightarrow> fresh (sb_uuid_next w) (sb_uuids w) \<and> T (iam_of w)"

definition stays :: "(iam_tables, 'a) svc \<Rightarrow> bool" where
  "stays m \<longleftrightarrow> (\<forall>w. law w \<longrightarrow> law (snd (m w)))"

lemma staysD: "stays m \<Longrightarrow> law w \<Longrightarrow> law (snd (m w))"
  by (simp add: stays_def)

lemma stays_run: "stays m \<Longrightarrow> m w = (r, w') \<Longrightarrow> law w \<Longrightarrow> law w'"
  by (metis staysD snd_conv)

lemma stays_simple [stays_intros]:
  "stays (svc_return x)" "stays (svc_fail e)" "stays (svc_get g)" "stays (svc_lift r)"
  "stays svc_uuid" "stays (svc_draw ae n)" "stays (now_plus ae n)" "stays (iam_read q)"
  "stays (ret y)" "stays (raise e')" "stays (ok_or_raise e' z)" "stays (require b e')"
  "stays (guard_roles ctx roles)" "stays (lift_sum s)"
  by (simp_all add: stays_def law_def fresh_later svc_return_def svc_fail_def run iam_read_def svc_query_def svc_op_def
      lift_sum_def split: option.split)

lemma stays_write [stays_intros]:
  "(\<And>now t. T t \<Longrightarrow> T (snd (f now t))) \<Longrightarrow> stays (iam_write ae f)"
  by (auto simp: stays_def law_def iam_write_def svc_stmt_def split: option.split prod.splits) (metis snd_conv)+

lemma stays_bind [stays_intros]:
  "stays m \<Longrightarrow> (\<And>x. stays (f x)) \<Longrightarrow> stays (svc_bind m f)"
  by (fastforce simp: stays_def svc_bind_def split: prod.split sum.split)

lemma stays_try [stays_intros]: "stays m \<Longrightarrow> stays (svc_try m)"
  by (fastforce simp: stays_def svc_try_def split: prod.split sum.split error.split)

lemma stays_if [stays_intros]:
  "(b \<Longrightarrow> stays m) \<Longrightarrow> (\<not> b \<Longrightarrow> stays n) \<Longrightarrow> stays (if b then m else n)"
  "stays m' \<Longrightarrow> (\<And>y. stays (f y)) \<Longrightarrow> stays (case x of None \<Rightarrow> m' | Some y \<Rightarrow> f y)"
  "(\<And>e. stays (g e)) \<Longrightarrow> (\<And>y. stays (h y)) \<Longrightarrow> stays (case r of Inl e \<Rightarrow> g e | Inr y \<Rightarrow> h y)"
  "(\<And>a c. stays (k a c)) \<Longrightarrow> stays (case p of (a, c) \<Rightarrow> k a c)"
  by (simp_all split: option.split sum.split prod.split)

lemma stays_typed [stays_intros]:
  "stays m \<Longrightarrow> (\<And>x. stays (f x)) \<Longrightarrow> stays (tbind m f)"
  "stays m' \<Longrightarrow> stays (map_err g m')" "stays n \<Longrightarrow> stays (sql n)"
  "stays n \<Longrightarrow> stays (best_effort n)" "stays n \<Longrightarrow> stays (lift_svc n)"
  unfolding tbind_def map_err_def sql_def best_effort_def lift_svc_def svc_ignore_def
  by (intro stays_intros; assumption)+

lemma stays_each [stays_intros]: "(\<And>x. stays (f x)) \<Longrightarrow> stays (svc_each f xs)"
  by (induction xs) (simp_all, (intro stays_intros; assumption)+)

lemma stays_tx [stays_intros]:
  assumes "stays m"
  shows "stays (svc_tx m)"
proof -
  have "stays (svc_exec id)" by (simp add: stays_def law_def svc_exec_def svc_op_def)
  then have body: "stays (svc_bind (svc_exec id) (\<lambda>_. svc_bind m (\<lambda>x. svc_bind (svc_exec id) (\<lambda>_. svc_return x))))"
    using assms by (intro stays_intros)
  show ?thesis
    unfolding stays_def
  proof (intro allI impI)
    fix w
    assume w: "law w"
    from staysD [OF body w] w show "law (snd (svc_tx m w))"
      by (auto simp: svc_tx_def law_def rollback_to_def split: prod.splits sum.splits)
  qed
qed

text \<open>What is drawn anew is fresh.\<close>

lemma stays_new_uuid:
  assumes "\<And>n us. fresh n us \<Longrightarrow> stays (f (us n))"
  shows "stays (tbind (lift_svc svc_uuid) f)"
  using assms by (auto simp: stays_def run law_def fresh_later)

lemma stays_new_token:
  assumes "\<And>n us. fresh n us \<Longrightarrow> stays (f (''odr_'' @ ae_random ae n 64))"
  shows "stays (tbind (lift_svc (generate_refresh_token ae)) f)"
  using assms by (auto simp: stays_def run law_def fresh_later generate_refresh_token_def svc_bind_def svc_return_def)

text \<open>The programs.\<close>

lemma stays_reading [stays_intros]:
  "stays (iam_get_user j)" "stays (find_user_by_subject s)" "stays (find_user_by_email s)"
  "stays (user_is_protected j)" "stays (user_is_active_policy_admin j)"
  "stays active_policy_admin_count" "stays has_active_policy_admin"
  "stays (ensure_user_mutation_allowed j b)" "stays (iam_get_group j)"
  "stays (list_group_members ae j)" "stays (iam_list_roles ae)" "stays (role_id_by_name s)"
  "stays (user_roles ae j)" "stays (group_roles ae j)" "stays (access_of_roles g)"
  "stays (effective_permissions_for_user j)" "stays (effective_permissions_for_service_account j)"
  "stays (get_service_account j)" "stays (default_service_account_expiry ae)"
  "stays (role_ids_by_name ss)" "stays (service_account_roles ae j)" "stays (user_token_version j)"
  "stays (list_user_tokens j)" "stays (generate_token ae)" "stays (hash_token ae s)"
  "stays (verify_hash ae s h)"
  unfolding reading_defs Let_def by (intro stays_intros)+

lemma stays_write_user [stays_intros]:
  "(\<And>now u. user_kept u (f now u)) \<Longrightarrow> stays (write_user ae j f)"
  unfolding write_user_def by (intro stays_intros) (simp add: T_user)

lemma stays_write_other:
  "(\<And>now t. it_users (snd (f now t)) = it_users t \<and> it_refresh (snd (f now t)) = it_refresh t) \<Longrightarrow> stays (iam_write ae f)"
  by (rule stays_write) (metis T_frame)

lemma stays_log [stays_intros]:
  "stays (log_iam_event ae action actor tt ti payload)" "stays (audit ae ctx action' tt' j payload')"
  unfolding audit_def log_iam_event_def record_iam_event_def audit_logger_log_def
  by (intro stays_intros; erule T_frame; simp)+

lemma stays_elsewhere [stays_intros]:
  "stays (replace_service_account_roles ae j roles)" "stays (disable_service_account ae j)"
  "stays (create_user_token ae j ct)" "stays (revoke_user_token ae j k)"
  "stays (iam_create_group ae cg)" "stays (iam_update_group ae j ug)" "stays (iam_delete_group ae j)"
  "stays (add_group_member ae g j)" "stays (remove_group_member ae g j)"
  "stays (assign_role_to_user ae j r)" "stays (revoke_role_from_user ae j r)"
  "stays (assign_role_to_group ae j r)" "stays (revoke_role_from_group ae j r)"
  unfolding replace_service_account_roles_def disable_service_account_def create_user_token_def revoke_user_token_def
    iam_create_group_def iam_update_group_def iam_delete_group_def add_group_member_def remove_group_member_def
    assign_role_to_user_def revoke_role_from_user_def assign_role_to_group_def revoke_role_from_group_def Let_def
  by (intro stays_intros; (erule T_frame)?; simp add: delete_group_rows_def)+

lemma stays_accounts [stays_intros]:
  "stays (create_service_account ae cs)" "stays (rotate_service_account ae j us)"
  unfolding create_service_account_def rotate_service_account_def Let_def
  by (intro stays_intros; (erule T_frame)?; simp)+

lemma stays_users [stays_intros]:
  "stays (iam_enable_user ae j)" "stays (iam_disable_user ae j)" "stays (set_user_password ae j pw b)"
  "stays (change_password ae j old new)" "stays (hard_delete_user ae j)"
  unfolding iam_enable_user_def iam_disable_user_def set_user_password_def change_password_def hard_delete_user_def
  by (intro stays_intros; simp add: user_kept_def T_delete)+

lemma stays_update_user [stays_intros]: "stays (iam_update_user ae j payload)"
  unfolding iam_update_user_def Let_def
  by (intro stays_intros) (simp add: T_user user_kept_def)

lemma stays_create_user [stays_intros]: "stays (iam_create_user ae cu)"
  unfolding iam_create_user_def Let_def
  by (rule stays_typed(1), rule stays_simple, rule stays_typed(1), rule stays_simple, rule stays_typed(1),
      rule stays_simple, rule stays_typed(1), rule stays_reading, rule stays_new_uuid, intro stays_intros)
    (auto intro: T_new_user)

text \<open>The routes.\<close>

lemma stays_collect [stays_intros]: "(\<And>x. stays (f x)) \<Longrightarrow> stays (collect f xs)"
  by (induction xs) (simp_all, (intro stays_intros; assumption)+)

lemma stays_details [stays_intros]:
  "stays (groups_of_user ae j)" "stays (user_details_of ae u)" "stays (group_details_of ae g)"
  "stays (account_details_of ae a)" "stays (role_required r)" "stays (read_cursor ae dec c)"
  unfolding groups_of_user_def user_details_of_def group_details_of_def account_details_of_def role_required_def
    read_cursor_def
  by (intro stays_intros)+

lemma stays_whoami [stays_intros]: "stays (whoami_route ae ctx)"
  unfolding whoami_route_def
  by (cases "cx_principal_type ctx"; cases "cx_principal_id ctx"; simp only: prod.case principal_type.case option.case;
      intro stays_intros)

lemma stays_dispatch: "stays (iam_dispatch ae ctx req)"
  by (cases req; simp only: iam_dispatch.simps done_route_def route_defs Let_def; intro stays_intros)

lemma stays_tokens [stays_intros]:
  "stays (match_user_tokens ae token cs)" "stays (match_accounts ae token as)"
proof (induction cs)
  case Nil
  show "stays (match_user_tokens ae token [])" "stays (match_accounts ae token as)"
    by (simp add: stays_simple) (induction as; simp; intro stays_intros; assumption?)
next
  case (Cons c cs)
  obtain x u where c: "c = (x, u)" by (cases c)
  show "stays (match_user_tokens ae token (c # cs))"
    unfolding c match_user_tokens.simps
    by (intro stays_intros Cons.IH(1)) (erule T_frame; simp)
  show "stays (match_accounts ae token as)" by (rule Cons.IH(2))
qed

lemma stays_authenticate: "stays (admin_authenticate ae aa bearer header)"
  unfolding admin_authenticate_def authenticate_bearer_def authenticate_admin_token_def resolve_local_subject_def
    resolve_claims_def context_of_user_def verify_user_token_def verify_service_token_def Let_def
  by (intro stays_intros)

lemma stays_issue [stays_intros]: "stays (issue_refresh_token ae aa j)"
  unfolding issue_refresh_token_def enforce_refresh_session_limit_def
  by (rule stays_new_token, intro stays_intros; simp) (auto intro: T_new_session T_session simp: session_kept_def)

lemma stays_auth_routes:
  "stays (login_route ae aa name password)" "stays (refresh_route ae aa token)"
  "stays (logout_route ae token)" "stays (change_password_route ae ctx old new)"
  unfolding login_route_def login_local_def authenticate_local_user_def refresh_route_def rotate_refresh_token_def
    local_user_for_token_def logout_route_def revoke_refresh_token_def change_password_route_def Let_def
  by (intro stays_intros; simp add: user_kept_def session_kept_def T_session)+

lemma stays_enforce:
  assumes "\<And>ctx. stays (f ctx)"
  shows "stays (api_enforce_admin ae aa authorization header f)"
  unfolding api_enforce_admin_def by (intro stays_intros stays_authenticate assms)

lemma serve_keeps: "law w \<Longrightarrow> law (admin_serve ae aa c w)"
  by (cases c) (simp_all add: staysD stays_enforce stays_dispatch stays_auth_routes)

lemma run_keeps: "admin_run ae aa w w' \<Longrightarrow> law w \<Longrightarrow> law w'"
  by (induction rule: admin_run.induct) (simp_all add: serve_keeps, simp_all add: law_def)

end

end
