(* ===== verification/Auth_Revocation.thy ===== *)
theory Auth_Revocation
  imports Auth_Runs
begin

text \<open>
  Revocation over time.  Token versions never go back during a run, so a bearer token from before a
  revocation is never accepted again; a refresh token that has been exchanged stays revoked; and who may
  change identities and passwords at all.
\<close>

section \<open>Token versions\<close>

text \<open>
  The user's version is above \<open>v\<close>, or, when \<open>live\<close> is set, the user still has version \<open>v\<close> and has not been disabled.
\<close>

definition version_since :: "uuid \<Rightarrow> bool \<Rightarrow> int \<Rightarrow> iam_tables \<Rightarrow> bool" where
  "version_since i live v t \<longleftrightarrow> (\<forall>u \<in> set (it_users t). iu_id u = i \<longrightarrow>
     v < iu_token_version u \<or> (live \<and> v = iu_token_version u \<and> iu_status u \<noteq> ''disabled''))"

lemma version_since_update:
  assumes "version_since i live v t"
    and "\<And>u. iu_id (f u) = iu_id u"
    and "\<And>u. v < iu_token_version u \<or> (live \<and> v = iu_token_version u \<and> iu_status u \<noteq> ''disabled'') \<Longrightarrow>
      v < iu_token_version (f u) \<or> (live' \<and> v = iu_token_version (f u) \<and> iu_status (f u) \<noteq> ''disabled'')"
    and "j \<noteq> i \<Longrightarrow> live' = live"
  shows "version_since i live' v (update_users j f t)"
  unfolding version_since_def
proof (intro ballI impI)
  fix x
  assume "x \<in> set (it_users (update_users j f t))" and x: "iu_id x = i"
  then obtain u where u: "u \<in> set (it_users t)" "x = (if iu_id u = j then f u else u)"
    by (auto simp: update_users_def)
  with x assms(2) have "iu_id u = i" by (simp split: if_splits)
  with u assms(1,3,4) show "v < iu_token_version x \<or> (live' \<and> v = iu_token_version x \<and> iu_status x \<noteq> ''disabled'')"
    by (auto simp: version_since_def)
qed

interpretation vers: session_law ae "\<lambda>n us. \<forall>k \<ge> n. us k \<noteq> i" "version_since i live v" for ae i live v
proof unfold_locales
  show "version_since i live v (update_users j f t)"
    if "version_since i live v t" "\<And>u. user_kept u (f u)" for t f j
  proof (rule version_since_update [OF that(1)])
    fix u
    show "iu_id (f u) = iu_id u"
      "v < iu_token_version u \<or> (live \<and> v = iu_token_version u \<and> iu_status u \<noteq> ''disabled'') \<Longrightarrow>
       v < iu_token_version (f u) \<or> (live \<and> v = iu_token_version (f u) \<and> iu_status (f u) \<noteq> ''disabled'')"
      using that(2) [of u] by (auto simp: user_kept_def)
  qed simp
qed (auto simp: version_since_def delete_user_rows_def update_refresh_def)

section \<open>Spent refresh tokens\<close>

definition spent :: "string \<Rightarrow> iam_tables \<Rightarrow> bool" where
  "spent h t \<longleftrightarrow> (\<forall>x \<in> set (it_refresh t). rt_token_hash x = h \<longrightarrow> rt_revoked_at x \<noteq> None)"

interpretation sess: session_law ae "\<lambda>n us. \<forall>k \<ge> n. hash_refresh_token ae (''odr_'' @ ae_random ae k 64) \<noteq> h" "spent h" for ae h
proof unfold_locales
  show "spent h (update_refresh P g t)" if "spent h t" "\<And>x. session_kept x (g x)" for t P g
    using that unfolding spent_def update_refresh_def session_kept_def by auto
qed (auto simp: spent_def delete_user_rows_def update_users_def)

section \<open>Revocation\<close>

text \<open>The requests of an administrator that end the sessions of a user.\<close>

fun revokes :: "uuid \<Rightarrow> iam_request \<Rightarrow> bool" where
  "revokes i (ReqDisableUser j) = (j = i)"
| "revokes i (ReqUpdateUser j payload) = (j = i \<and> uu_status payload = Some ''disabled'')"
| "revokes i (ReqDeleteUser j hard) = (j = i)"
| "revokes i (ReqSetPassword j password must_change) = (j = i)"
| "revokes i _ = False"

abbreviation (input) before :: "uuid \<Rightarrow> int \<Rightarrow> iam_tables svc_base_scheme \<Rightarrow> bool" where
  "before i v \<equiv> vers.law i True v"

abbreviation (input) after :: "uuid \<Rightarrow> int \<Rightarrow> iam_tables svc_base_scheme \<Rightarrow> bool" where
  "after i v \<equiv> vers.law i False v"

lemma raised_by_write:
  assumes "before i v w" "write_user ae i f w = (Inr b, w')"
    and "\<And>now u. iu_id (f now u) = iu_id u" "\<And>now u. iu_token_version (f now u) = iu_token_version u + 1"
  shows "after i v w'"
proof -
  have "version_since i False v (update_users i (f (sb_now w)) (iam_of w))"
    by (rule version_since_update [where live = True]) (use assms in \<open>auto simp: vers.law_def\<close>)
  then show ?thesis using assms(1,2) by (simp add: ok_iff vers.law_def)
qed

lemma disabled_raises:
  assumes "iam_disable_user ae i w = (Inr (Inr ()), w')" "before i v w"
  shows "after i v w'"
proof -
  obtain u b where u: "ensure_user_mutation_allowed i True w = (Inr (Inr ()), u)"
    "write_user ae i (\<lambda>now u. u\<lparr>iu_status := ''disabled'', iu_token_version := iu_token_version u + 1,
       iu_updated_at := now\<rparr>) u = (Inr b, w')"
    using assms(1) by (auto simp: iam_disable_user_def ok_iff)
  have "before i v u" by (rule vers.stays_run [OF vers.stays_reading(8) u(1) assms(2)])
  then show ?thesis by (rule raised_by_write [OF _ u(2)]) simp_all
qed

lemma password_raises:
  assumes "set_user_password ae i password b w = (Inr (Inr ()), w')" "before i v w"
  shows "after i v w'"
proof -
  obtain h u c where u: "hash_token ae (trim password) w = (Inr (Inr h), u)"
    "write_user ae i (\<lambda>now u. u\<lparr>iu_password_hash := Some h, iu_password_updated_at := Some now,
       iu_must_change_password := b, iu_token_version := iu_token_version u + 1, iu_failed_login_attempts := 0,
       iu_locked_until := None, iu_updated_at := now\<rparr>) u = (Inr c, w')"
    using assms(1) by (auto simp: set_user_password_def ok_iff)
  have "before i v u" by (rule vers.stays_run [OF vers.stays_reading(25) u(1) assms(2)])
  then show ?thesis by (rule raised_by_write [OF _ u(2)]) simp_all
qed

lemma update_raises:
  assumes "iam_update_user ae i payload w = (Inr (Inr r), w')" "uu_status payload = Some ''disabled''" "before i v w"
  shows "after i v w'"
proof -
  have "version_since i True v (iam_of w)" "\<forall>k \<ge> sb_uuid_next w'. sb_uuids w' k \<noteq> i"
    using assms(3) vers.stays_run [OF vers.stays_update_user assms(1,3)] by (auto simp: vers.law_def)
  moreover obtain f where "iam_of w' = update_users i f (iam_of w)" "\<And>u. iu_id (f u) = iu_id u"
    "\<And>u. iu_token_version (f u) = (if iu_status u \<noteq> ''disabled'' then iu_token_version u + 1 else iu_token_version u)"
    using assms(1,2)
    by (auto simp: iam_update_user_def Let_def ok_iff opt_else_def reading_defs split: if_splits)
  ultimately show ?thesis
    by (auto simp: vers.law_def split: if_splits intro!: version_since_update [where live = True and f = f])
qed

lemma deletion_raises:
  assumes "hard_delete_user ae i w = (Inr (Inr ()), w')" "before i v w"
  shows "after i v w'"
proof -
  obtain u where u: "iam_of w' = delete_user_rows i (iam_of u)"
    using assms(1) by (auto simp: hard_delete_user_def ok_iff)
  have "before i v w'" by (rule vers.stays_run [OF vers.stays_users(5) assms])
  then show ?thesis by (simp add: vers.law_def version_since_def u delete_user_rows_def)
qed

lemma revoked_after:
  assumes "iam_dispatch ae ctx req w = (Inr (Inr ()), w')" "revokes i req" "before i v w"
  shows "after i v w'"
proof -
  have log: "after i v u'" if "audit ae ctx a tt j payload u = (Inr (Inr ()), u')" "after i v u" for a tt j payload u u'
    by (rule vers.stays_run [OF vers.stays_log(2) that])
  have update: "after i v w'" if route: "update_user_route ae ctx i payload w = (Inr (Inr d), w')" and disabled: "uu_status payload = Some ''disabled''" for payload d
  proof -
    let ?rest = "\<lambda>r. tbind (iam_route ae (user_roles ae i)) (\<lambda>roles. tbind (groups_of_user ae i) (\<lambda>groups.
         tbind (audit ae ctx ''iam.user.update'' ''user'' i [(''status'', JStr (ur_status r))]) (\<lambda>_.
         ret \<lparr>ud_user = r, ud_roles = roles, ud_groups = groups\<rparr>)))"
    obtain r u where u: "iam_update_user ae i payload w = (Inr (Inr r), u)" "?rest r u = (Inr (Inr d), w')"
      using route unfolding update_user_route_def by (auto simp: ok_iff)
    have "vers.stays i False v (?rest r)" by (intro stays_intros)
    from vers.stays_run [OF this u(2) update_raises [OF u(1) disabled assms(3)]] show ?thesis .
  qed
  show ?thesis
    using assms update
    by (cases req)
      (auto simp: done_route_def disable_user_route_def delete_user_route_def set_user_password_route_def ok_iff
        intro: log disabled_raises password_raises deletion_raises split: if_splits)
qed

text \<open>
  C4: a bearer token obtained by a login in local mode is worthless for ever once an administrator has disabled or
  deleted the user or set a new password.  Whatever requests, pauses and outages come between the login
  and the revocation and after it, and whatever fails while the token is looked at, it is not accepted;
  when nothing fails then, the answer is 401 or 403.  The identifier of the user is taken not to be
  given to another user.
\<close>

theorem revoked_token_stays_refused:
  assumes "token_text_ok ae" "iam_ok ae (iam_of w0)" "0 \<le> lj_ttl_seconds (aa_local_jwt aa)"
    and "lj_ttl_seconds (aa_local_jwt aa) < 2 ^ 62" "aa_mode aa = AuthLocal"
    and "login_route ae aa name password w0 = (Inr (Inr resp), w1)" "admin_run ae aa w1 w2"
    and "iam_dispatch ae ctx req w2 = (Inr (Inr ()), w3)" "revokes (la_id (lr_user resp)) req"
    and "admin_run ae aa w3 w4"
    and "\<forall>k \<ge> sb_uuid_next w0. sb_uuids w0 k \<noteq> la_id (lr_user resp)"
  shows "(\<forall>accepted. fst (admin_authenticate ae aa (Some (lr_access_token resp)) header w4) \<noteq> Inr (Inr accepted)) \<and>
    (svc_reliable w4 \<longrightarrow>
      fst (admin_authenticate ae aa (Some (lr_access_token resp)) header w4) \<in> {Inr (Inl 401), Inr (Inl 403)})"
proof -
  let ?i = "la_id (lr_user resp)" and ?v = "la_token_version (lr_user resp)"
  obtain u where u: "u \<in> set (it_users (iam_of w0))" "?i = iu_id u" "?v = iu_token_version u" "iu_status u = ''active''"
    using login_issued [OF assms(6)] by blast
  have "distinct (map iu_id (it_users (iam_of w0)))" using assms(2) by (simp add: iam_ok_def users_ok_def)
  with u have "version_since ?i True ?v (iam_of w0)"
    by (auto simp: version_since_def distinct_map inj_on_def)
  with assms(11) have "before ?i ?v w0" by (simp add: vers.law_def)
  then have "before ?i ?v w1" by (rule vers.stays_run [OF vers.stays_auth_routes(1) assms(6)])
  then have "before ?i ?v w2" by (rule vers.run_keeps [OF assms(7)])
  then have "after ?i ?v w3" by (rule revoked_after [OF assms(8,9)])
  then have "after ?i ?v w4" by (rule vers.run_keeps [OF assms(10)])
  then have stale: "?v < iu_token_version x" if "x \<in> set (it_users (iam_of w4))" "iu_id x = ?i" for x
    using that by (auto simp: vers.law_def version_since_def)
  have refused: "fst (admin_authenticate ae aa (Some (lr_access_token resp)) header w4) \<noteq> Inr (Inr accepted)" for accepted
  proof
    assume "fst (admin_authenticate ae aa (Some (lr_access_token resp)) header w4) = Inr (Inr accepted)"
    then have "admin_authenticate ae aa (Some (lr_access_token resp)) header w4 =
        (Inr (Inr accepted), snd (admin_authenticate ae aa (Some (lr_access_token resp)) header w4))"
      by (metis prod.collapse)
    from login_token_current [OF assms(1-4,6,5) this] stale show False by fastforce
  qed
  moreover have "fst (admin_authenticate ae aa (Some (lr_access_token resp)) header w4) \<in> {Inr (Inl 401), Inr (Inl 403)}"
    if "svc_reliable w4"
    using login_decides [OF assms(1-4,6) that, of header] assms(5) refused
    by (cases "timestamp (sb_now w4) < timestamp (sb_now w0) + lj_ttl_seconds (aa_local_jwt aa)")
      (auto split: option.splits if_splits)
  ultimately show ?thesis by blast
qed

text \<open>
  C21: a refresh token is good for one use.  Once it has been exchanged, then whatever requests, pauses and outages
  follow, presenting it again is answered with 401 and changes nothing when no statement fails, and
  yields no tokens in any case; random texts drawn later are taken not to hash to the same value.
\<close>

theorem refresh_token_single_use:
  assumes "refresh_route ae aa token w = (Inr (Inr r), w1)" "admin_run ae aa w1 w2"
    and "\<forall>k \<ge> sb_uuid_next w. hash_refresh_token ae (''odr_'' @ ae_random ae k 64) \<noteq> hash_refresh_token ae (trim token)"
  shows "(\<forall>tokens. fst (refresh_route ae aa token w2) \<noteq> Inr (Inr tokens)) \<and>
    (svc_reliable w2 \<longrightarrow> (\<exists>v. refresh_route ae aa token w2 =
      (Inr (Inl (401, (''INVALID_CREDENTIALS'', ''invalid credentials''))), v) \<and> unmoved w2 v))"
proof -
  let ?h = "hash_refresh_token ae (trim token)"
  obtain acc where acc: "trim token \<noteq> []" "local_login_enabled (aa_mode aa)"
    "rotate_refresh_token ae aa (trim token) w = (Inr (Inr acc), w1)"
    using assms(1) by (auto simp: refresh_route_def ok_iff)
  have "sb_uuid_next w \<le> sb_uuid_next w1 \<and> sb_uuids w1 = sb_uuids w"
    using acc(3) by (auto simp: rotate_refresh_token_def ok_iff issue_refresh_token_def generate_refresh_token_def
        local_user_for_token_def reading_defs enforce_refresh_session_limit_def split: if_splits option.splits)
  with assms(3) rotated_is_revoked [OF acc(3)] have "sess.law ae ?h w1"
    unfolding sess.law_def spent_def by auto
  then have "spent ?h (iam_of w2)" using sess.run_keeps [OF assms(2)] unfolding sess.law_def by blast
  then have none: "find (\<lambda>x. rt_token_hash x = ?h \<and> live_refresh now x) (it_refresh (iam_of w2)) = None" for now
    by (auto simp: find_None_iff live_refresh_def spent_def)
  then have "\<exists>v. refresh_route ae aa token w2 =
      (Inr (Inl (401, (''INVALID_CREDENTIALS'', ''invalid credentials''))), v) \<and> unmoved w2 v" if "svc_reliable w2"
    using that acc(1,2) by (simp add: refresh_route_def rotate_refresh_token_def run)
  moreover have "fst (refresh_route ae aa token w2) \<noteq> Inr (Inr tokens)" for tokens
  proof
    assume "fst (refresh_route ae aa token w2) = Inr (Inr tokens)"
    then have "refresh_route ae aa token w2 = (Inr (Inr tokens), snd (refresh_route ae aa token w2))"
      by (metis prod.collapse)
    with none show False by (auto simp: refresh_route_def rotate_refresh_token_def ok_iff)
  qed
  ultimately show ?thesis by blast
qed

end
