(* ===== verification/Auth_Changes.thy ===== *)
theory Auth_Changes
  imports Auth_Runs
begin

text \<open>
  Who changes identity data.  The identity of the users, their API tokens, groups, roles and service
  accounts change only by identity requests of administrators; passwords and token versions also by the
  user who knows the current password.  Logins only keep books on attempts and times.
\<close>

section \<open>The parts of the tables\<close>

definition user_identity where
  "user_identity u =
     (iu_id u, iu_username u, iu_subject u, iu_email u, iu_display_name u, iu_status u, iu_is_protected u)"

definition token_identity where
  "token_identity x = (ut_id x, ut_user_id x, ut_name x, ut_token_hash x, ut_status x, ut_expires_at x)"

definition user_secret where
  "user_secret u = (iu_id u, iu_password_hash u, iu_must_change_password u, iu_token_version u)"

definition identity_part where
  "identity_part t =
     (map user_identity (it_users t), map token_identity (it_user_tokens t), it_groups t, it_members t, it_roles t,
      it_role_permissions t, it_user_roles t, it_group_roles t, it_accounts t, it_account_roles t)"

definition secrets_part where
  "secrets_part t = map user_secret (it_users t)"

lemma map_untouched: "(\<And>x. h (f x) = h x) \<Longrightarrow> map h (map (\<lambda>x. if P x then f x else x) xs) = map h xs"
  by (induction xs) simp_all

abbreviation identity_kept :: "iam_tables \<Rightarrow> (iam_tables, 'a) svc \<Rightarrow> bool" where
  "identity_kept t \<equiv> svc_keeps (\<lambda>t'. identity_part t' = identity_part t)"

abbreviation secrets_kept :: "iam_tables \<Rightarrow> (iam_tables, 'a) svc \<Rightarrow> bool" where
  "secrets_kept t \<equiv> svc_keeps (\<lambda>t'. secrets_part t' = secrets_part t)"

lemma identity_keptD: "identity_kept (iam_of w) m \<Longrightarrow> identity_part (iam_of (snd (m w))) = identity_part (iam_of w)"
  by (erule svc_keepsD) (rule refl)

lemma secrets_keptD: "secrets_kept (iam_of w) m \<Longrightarrow> secrets_part (iam_of (snd (m w))) = secrets_part (iam_of w)"
  by (erule svc_keepsD) (rule refl)

lemma kept_log:
  "identity_kept t (log_iam_event ae action actor tt ti payload)" "secrets_kept t (log_iam_event ae action actor tt ti payload)"
  "identity_kept t (audit ae ctx action tt j payload')" "secrets_kept t (audit ae ctx action tt j payload')"
  unfolding audit_def log_iam_event_def record_iam_event_def audit_logger_log_def
  by (intro svc_keeps_intros svc_keeps_iam_write; simp add: identity_part_def secrets_part_def)+

section \<open>Authentication and sessions\<close>

lemma kept_tokens:
  "identity_kept t (match_user_tokens ae token cs)" "secrets_kept t (match_user_tokens ae token cs)"
proof (induction cs)
  case (Cons c cs)
  obtain x u where c: "c = (x, u)" by (cases c)
  case 1
  show ?case
    unfolding c match_user_tokens.simps
    by (intro svc_keeps_intros svc_keeps_iam_write Cons.IH)
      (simp add: identity_part_def map_untouched token_identity_def del: map_map)
  case 2
  show ?case
    unfolding c match_user_tokens.simps
    by (intro svc_keeps_intros svc_keeps_iam_write Cons.IH) (simp add: secrets_part_def)
qed (simp, intro svc_keeps_intros)+

lemma keeps_match_accounts: "svc_keeps I (match_accounts ae token as)"
  by (induction as) (simp_all, intro svc_keeps_intros, (assumption | intro svc_keeps_intros)+)

lemma kept_authenticate:
  "identity_kept t (admin_authenticate ae aa bearer header)" "secrets_kept t (admin_authenticate ae aa bearer header)"
  unfolding admin_authenticate_def authenticate_bearer_def authenticate_admin_token_def resolve_local_subject_def
    resolve_claims_def context_of_user_def verify_user_token_def verify_service_token_def Let_def
  by (intro svc_keeps_intros kept_tokens keeps_match_accounts)+

text \<open>An update of the books of a user.\<close>

lemma kept_write_user:
  "(\<And>now u. user_identity (f now u) = user_identity u) \<Longrightarrow> identity_kept t (write_user ae i f)"
  "(\<And>now u. user_secret (g now u) = user_secret u) \<Longrightarrow> secrets_kept t (write_user ae i g)"
  unfolding write_user_def
  by (rule svc_keeps_iam_write; simp add: identity_part_def secrets_part_def update_users_def map_untouched del: map_map)+

lemma kept_issue:
  "identity_kept t (issue_refresh_token ae aa j)" "secrets_kept t (issue_refresh_token ae aa j)"
  unfolding issue_refresh_token_def generate_refresh_token_def enforce_refresh_session_limit_def
  by (intro svc_keeps_intros svc_keeps_iam_write; simp add: identity_part_def secrets_part_def update_refresh_def)+

lemma kept_sessions:
  "identity_kept t (login_route ae aa name password)" "secrets_kept t (login_route ae aa name password)"
  "identity_kept t (refresh_route ae aa token)" "secrets_kept t (refresh_route ae aa token)"
  "identity_kept t (logout_route ae token)" "secrets_kept t (logout_route ae token)"
  unfolding login_route_def login_local_def authenticate_local_user_def refresh_route_def rotate_refresh_token_def
    local_user_for_token_def logout_route_def revoke_refresh_token_def Let_def
  by (intro svc_keeps_intros svc_keeps_iam_write kept_write_user kept_issue kept_log;
      simp add: identity_part_def secrets_part_def update_refresh_def user_identity_def user_secret_def)+

section \<open>Requests\<close>

lemma dispatch_without_admin:
  assumes "ROLE_POLICY_ADMIN \<notin> cx_roles ctx"
  shows "svc_keeps I (iam_dispatch ae ctx req)"
proof (cases "cx_roles ctx \<inter> needed_roles req = {} \<and> req \<noteq> ReqWhoAmI")
  case True
  then show ?thesis by (simp add: svc_keeps_def dispatch_refused)
next
  case False
  with assms show ?thesis by (cases req) (auto intro!: svc_keeps_intros)
qed

text \<open>A change of password touches no other user, and nothing at all without the current password.\<close>

definition others_secrets :: "uuid \<Rightarrow> iam_tables \<Rightarrow> (uuid \<times> string option \<times> bool \<times> int) list" where
  "others_secrets i t = filter (\<lambda>s. fst s \<noteq> i) (secrets_part t)"

lemma others_update:
  assumes "\<And>u. iu_id (f u) = iu_id u"
  shows "others_secrets i (update_users i f t) = others_secrets i t"
proof -
  have "filter (\<lambda>s. fst s \<noteq> i) (map user_secret (map (\<lambda>u. if iu_id u = i then f u else u) us))
      = filter (\<lambda>s. fst s \<noteq> i) (map user_secret us)" for us
    by (induction us) (simp_all add: user_secret_def assms)
  then show ?thesis by (simp add: others_secrets_def secrets_part_def update_users_def)
qed

lemma tbind_present: "tbind (ok_or_raise e (Some x)) f = f x"
  by (rule ext) (simp add: run)

lemma change_password_kept:
  "identity_kept t (change_password_route ae ctx old new)"
  "cx_principal_id ctx = Some i \<Longrightarrow>
     svc_keeps (\<lambda>t'. others_secrets i t' = others_secrets i t) (change_password_route ae ctx old new)"
proof -
  have log: "svc_keeps (\<lambda>t'. others_secrets i t' = others_secrets i t) (log_iam_event ae a b c d e)" for a b c d e
    unfolding others_secrets_def log_iam_event_def record_iam_event_def audit_logger_log_def
    by (intro svc_keeps_intros svc_keeps_iam_write; simp add: secrets_part_def)
  show "identity_kept t (change_password_route ae ctx old new)"
    unfolding change_password_route_def change_password_def set_user_password_def
    by (intro svc_keeps_intros kept_write_user kept_log; simp add: user_identity_def)
  show "svc_keeps (\<lambda>t'. others_secrets i t' = others_secrets i t) (change_password_route ae ctx old new)"
    if "cx_principal_id ctx = Some i"
    unfolding change_password_route_def change_password_def set_user_password_def that tbind_present write_user_def
    by (intro svc_keeps_intros svc_keeps_iam_write log; simp add: others_update)
qed

lemma change_password_needs_current:
  assumes "change_password_route ae ctx old new v = (r, w')" "secrets_part (iam_of w') \<noteq> secrets_part (iam_of v)"
  shows "\<exists>u hash. u \<in> set (it_users (iam_of v)) \<and> cx_principal_id ctx = Some (iu_id u) \<and> iu_password_hash u = Some hash \<and>
    ae_argon_verify ae old hash = Some True \<and> others_secrets (iu_id u) (iam_of w') = others_secrets (iu_id u) (iam_of v)"
proof (rule ccontr)
  assume none: "\<not> ?thesis"
  have "svc_wp (change_password_route ae ctx old new) (\<lambda>_ w'. iam_of w' = iam_of v) (\<lambda>_ w'. iam_of w' = iam_of v) v"
  proof (cases "cx_principal_id ctx")
    case (Some i)
    have "others_secrets i (iam_of w') = others_secrets i (iam_of v)"
      using svc_keepsD [OF change_password_kept(2) [OF Some, of "iam_of v" ae old new], of v] assms(1) by simp
    with none Some have wrong: "ae_argon_verify ae old hash \<noteq> Some True"
      if "user_by_id i (iam_of v) = Some u" "iu_password_hash u = Some hash" for u hash
      using user_by_id_Some [OF that(1)] that(2) by blast
    then show ?thesis
      by (auto simp: change_password_route_def change_password_def verify_hash_def wp Some split: option.split)
  qed (simp add: change_password_route_def wp)
  then have "iam_of w' = iam_of v" using assms(1) by (auto simp: svc_wp_def split: sum.splits)
  with assms(2) show False by simp
qed

abbreviation authenticated ::
  "admin_env \<Rightarrow> admin_auth \<Rightarrow> string option \<Rightarrow> string option \<Rightarrow> (iam_tables, nat + api_user_context) svc" where
  "authenticated ae aa authorization header \<equiv>
     admin_authenticate ae aa (Option.bind authorization (strip_prefix ''Bearer '')) header"

text \<open>Behind the middleware a handler runs for an authenticated caller or not at all.\<close>

lemma enforced_cases:
  obtains (handled) ctx v where "authenticated ae aa a h w = (Inr (Inr ctx), v)"
      "snd (api_enforce_admin ae aa a h f w) = snd (f ctx v)"
      "identity_part (iam_of v) = identity_part (iam_of w)" "secrets_part (iam_of v) = secrets_part (iam_of w)"
  | (refused) "identity_part (iam_of (snd (api_enforce_admin ae aa a h f w))) = identity_part (iam_of w)"
      "secrets_part (iam_of (snd (api_enforce_admin ae aa a h f w))) = secrets_part (iam_of w)"
proof -
  obtain r v where v: "authenticated ae aa a h w = (r, v)" by fastforce
  have same: "identity_part (iam_of v) = identity_part (iam_of w)" "secrets_part (iam_of v) = secrets_part (iam_of w)"
    using identity_keptD [OF kept_authenticate(1) [where t = "iam_of w"]] secrets_keptD [OF kept_authenticate(2) [where t = "iam_of w"]] v
    by (metis snd_conv)+
  show thesis
  proof (cases "\<exists>ctx. r = Inr (Inr ctx)")
    case True
    with v same handled show thesis by (auto simp: api_enforce_admin_def run split: prod.splits sum.splits)
  next
    case False
    then have "snd (api_enforce_admin ae aa a h f w) = v"
      using v by (auto simp: api_enforce_admin_def run split: sum.splits)
    with same refused show thesis by simp
  qed
qed

lemma identity_call:
  assumes "w' = admin_serve ae aa (CallIdentity a h req) w"
    and "(identity_part (iam_of w'), secrets_part (iam_of w')) \<noteq> (identity_part (iam_of w), secrets_part (iam_of w))"
  shows "\<exists>ctx v. authenticated ae aa a h w = (Inr (Inr ctx), v) \<and> ROLE_POLICY_ADMIN \<in> cx_roles ctx"
proof (cases rule: enforced_cases [where ae = ae and aa = aa and a = a and h = h and w = w and f = "\<lambda>ctx. iam_dispatch ae ctx req"])
  case (handled ctx v)
  have "iam_of w' = iam_of v" if "ROLE_POLICY_ADMIN \<notin> cx_roles ctx"
    using svc_keepsD [OF dispatch_without_admin [OF that, of "\<lambda>t. t = iam_of v" ae req], of v] handled(2) assms(1) by simp
  with handled assms(2) show ?thesis by (cases "ROLE_POLICY_ADMIN \<in> cx_roles ctx") auto
qed (use assms in simp)

lemma change_password_call:
  assumes "w' = admin_serve ae aa (CallChangePassword a h old new) w"
  shows "identity_part (iam_of w') = identity_part (iam_of w) \<and>
    (secrets_part (iam_of w') \<noteq> secrets_part (iam_of w) \<longrightarrow>
      (\<exists>ctx v u hash. authenticated ae aa a h w = (Inr (Inr ctx), v) \<and> u \<in> set (it_users (iam_of w)) \<and>
        cx_principal_id ctx = Some (iu_id u) \<and> iu_password_hash u = Some hash \<and> ae_argon_verify ae old hash = Some True \<and>
        others_secrets (iu_id u) (iam_of w') = others_secrets (iu_id u) (iam_of w)))"
    (is "?same \<and> (?changed \<longrightarrow> ?own)")
proof (cases rule: enforced_cases [where ae = ae and aa = aa and a = a and h = h and w = w and
      f = "\<lambda>ctx. change_password_route ae ctx old new"])
  case (handled ctx v)
  then have ?same
    using identity_keptD [OF change_password_kept(1) [of "iam_of v" ae ctx old new]] assms by simp
  moreover have ?own if ?changed
  proof -
    have "change_password_route ae ctx old new v = (fst (change_password_route ae ctx old new v), w')"
      using handled(2) assms by simp
    from change_password_needs_current [OF this] obtain u hash where u: "u \<in> set (it_users (iam_of v))"
      "cx_principal_id ctx = Some (iu_id u)" "iu_password_hash u = Some hash" "ae_argon_verify ae old hash = Some True"
      "others_secrets (iu_id u) (iam_of w') = others_secrets (iu_id u) (iam_of v)"
      using \<open>?changed\<close> handled(4) by auto
    have "user_secret u \<in> set (secrets_part (iam_of v))" using u(1) by (simp add: secrets_part_def)
    then obtain u' where "u' \<in> set (it_users (iam_of w))" "iu_id u' = iu_id u" "iu_password_hash u' = iu_password_hash u"
      unfolding handled(4) by (auto simp: secrets_part_def user_secret_def)
    with u handled(1,4) show ?own
      by (intro exI [of _ ctx] exI [of _ v] exI [of _ u'] exI [of _ hash]) (simp add: others_secrets_def)
  qed
  ultimately show ?thesis by blast
qed (use assms in simp)

text \<open>
  C12: whatever a client asks of the identity side of the service, users, their API tokens, groups, roles and service
  accounts change only by an identity request whose caller authenticated with the administrator role,
  and a password or token version changes only that way or by a change of password whose caller
  authenticated as that user and gave the current password; then no other user's password or version
  changes.
\<close>

theorem identity_changes_need_admin:
  assumes "w' = admin_serve ae aa c w"
  defines "by_admin \<equiv> \<exists>authorization header req ctx v. c = CallIdentity authorization header req \<and>
      authenticated ae aa authorization header w = (Inr (Inr ctx), v) \<and> ROLE_POLICY_ADMIN \<in> cx_roles ctx"
  shows "(identity_part (iam_of w') \<noteq> identity_part (iam_of w) \<longrightarrow> by_admin) \<and>
    (secrets_part (iam_of w') \<noteq> secrets_part (iam_of w) \<longrightarrow> by_admin \<or>
      (\<exists>authorization header old new ctx v u hash. c = CallChangePassword authorization header old new \<and>
         authenticated ae aa authorization header w = (Inr (Inr ctx), v) \<and> u \<in> set (it_users (iam_of w)) \<and>
         cx_principal_id ctx = Some (iu_id u) \<and> iu_password_hash u = Some hash \<and> ae_argon_verify ae old hash = Some True \<and>
         others_secrets (iu_id u) (iam_of w') = others_secrets (iu_id u) (iam_of w)))"
proof (cases c)
  case (CallIdentity a h req)
  then show ?thesis using identity_call [OF assms(1) [unfolded CallIdentity]] unfolding by_admin_def by blast
next
  case (CallChangePassword a h old new)
  then show ?thesis using change_password_call [OF assms(1) [unfolded CallChangePassword]] by blast
qed (use assms(1) kept_sessions(1,3,5) [THEN identity_keptD] kept_sessions(2,4,6) [THEN secrets_keptD] in auto)

end
