(* ===== verification/Admin_Samples.thy ===== *)
theory Admin_Samples
  imports Iam_Listing Auth_Revocation Auth_Changes Samples
begin

text \<open>
  Concrete inputs for the instances of the identity properties: an environment whose codecs count,
  two users, a group, roles, and a server on which no statement fails.
\<close>

definition count_text :: "'a::countable \<Rightarrow> string" where
  "count_text x = replicate (to_nat x) CHR ''1''"

definition text_count :: "string \<Rightarrow> 'a::countable option" where
  "text_count s = Some (from_nat (length s))"

lemma count_text_round [simp]: "text_count (count_text x) = Some x"
  by (simp add: text_count_def count_text_def)

definition admin_ex :: externs where
  "admin_ex = json_ex\<lparr>uuid_parse := text_count, uuid_to_string := count_text\<rparr>"

definition sample_ae :: admin_env where
  "sample_ae =
     \<lparr>ae_ex = admin_ex, ae_env = (\<lambda>_. None), ae_random = (\<lambda>k n. replicate (k + n) CHR ''r''),
      ae_argon_hash = (\<lambda>salt s. Some s), ae_argon_verify = (\<lambda>s h. Some (s = h)),
      ae_sha256_hex = id, ae_hmac_sha256 = (\<lambda>k s. k @ s),
      ae_base64_encode = count_text, ae_base64_decode = text_count, ae_rfc3339 = count_text,
      ae_time_parse = text_count, ae_chrono_max = 10 ^ 15, ae_sql_lower = to_ascii_lowercase,
      ae_collate = map of_char\<rparr>"

lemma sample_ae_text [simp]:
  "cursor_text_ok sample_ae" "base64_ok sample_ae" "json_text_ok (ae_ex sample_ae)"
  "uuid_parse (ae_ex sample_ae) (uuid_to_string (ae_ex sample_ae) i) = Some i"
proof -
  have "json_text_ok (ae_ex sample_ae)" "base64_ok sample_ae"
    using json_ex_ok by (simp_all add: json_text_ok_def sample_ae_def admin_ex_def base64_ok_def count_text_def text_count_def)
  moreover show "uuid_parse (ae_ex sample_ae) (uuid_to_string (ae_ex sample_ae) i) = Some i" for i
    by (simp add: sample_ae_def admin_ex_def)
  ultimately show "cursor_text_ok sample_ae" "base64_ok sample_ae" "json_text_ok (ae_ex sample_ae)"
    by (simp_all add: cursor_text_ok_def) (simp add: sample_ae_def)
qed

definition sample_user :: "uuid \<Rightarrow> string \<Rightarrow> time \<Rightarrow> iam_user" where
  "sample_user i name created =
     \<lparr>iu_id = i, iu_username = Some name, iu_subject = None, iu_email = None, iu_display_name = None,
      iu_status = ''active'', iu_is_protected = False, iu_password_hash = Some (name @ ''-pw''),
      iu_password_updated_at = None, iu_must_change_password = False, iu_failed_login_attempts = 0,
      iu_locked_until = None, iu_token_version = 1, iu_last_login_at = None, iu_created_at = created,
      iu_updated_at = created\<rparr>"

definition sample_iam :: iam_tables where
  "sample_iam =
     \<lparr>it_users = [sample_user 1 ''alice'' 10, sample_user 2 ''bob'' 20],
      it_groups = [\<lparr>ig_id = 5, ig_name = ''ops'', ig_description = None, ig_status = ''active'',
                    ig_created_at = 10, ig_updated_at = 10\<rparr>],
      it_members = [(5, 2)],
      it_roles = [\<lparr>ir_id = 10, ir_name = ROLE_POLICY_ADMIN, ir_description = None, ir_builtin = True, ir_created_at = 0\<rparr>,
                  \<lparr>ir_id = 11, ir_name = ROLE_AUDITOR, ir_description = None, ir_builtin = True, ir_created_at = 0\<rparr>],
      it_role_permissions = [(10, ''iam:write'')], it_user_roles = [(1, 10)], it_group_roles = [(5, 11)],
      it_accounts = [], it_account_roles = [], it_user_tokens = [], it_refresh = [], it_audit = [],
      it_audit_events = []\<rparr>"

text \<open>The same users, with the administrator role bound to the group only.\<close>

definition group_iam :: iam_tables where
  "group_iam = sample_iam\<lparr>it_user_roles := [], it_group_roles := [(5, 10)]\<rparr>"

definition admin_server :: "iam_tables \<Rightarrow> iam_tables svc_base_scheme" where
  "admin_server t =
     \<lparr>sb_now = 100000, sb_redis = Map.empty, sb_streams = [], sb_acked = [], sb_ops = 0, sb_fails = (\<lambda>_. False),
      sb_calls = 0, sb_uuid_next = 0, sb_uuids = (\<lambda>k. 100 + k), \<dots> = t\<rparr>"

lemma admin_server_simps [simp]:
  "iam_of (admin_server t) = t" "svc_reliable (admin_server t)" "sb_now (admin_server t) = 100000"
  by (simp_all add: admin_server_def svc_reliable_def)

definition sample_admin :: api_user_context where
  "sample_admin = context_from_fallback ''root'' [ROLE_POLICY_ADMIN]"

definition sample_viewer :: api_user_context where
  "sample_viewer = context_from_fallback ''eve'' [ROLE_POLICY_VIEWER]"

lemmas iam_ok_defs = iam_ok_def users_ok_def groups_ok_def roles_ok_def accounts_ok_def pairs_ok_def tokens_ok_def

lemma sample_iam_ok [simp]: "iam_ok sample_ae sample_iam" "iam_ok sample_ae group_iam"
proof -
  have low: "ae_sql_lower sample_ae = to_ascii_lowercase" by (simp add: sample_ae_def)
  have "to_ascii_lowercase ''alice'' \<noteq> to_ascii_lowercase ''bob''" by code_simp
  moreover have "btrim ''alice'' \<noteq> []" "btrim ''bob'' \<noteq> []" by code_simp+
  ultimately show "iam_ok sample_ae sample_iam" "iam_ok sample_ae group_iam"
    by (simp_all add: group_iam_def sample_iam_def iam_ok_defs low sample_user_def map_filter_simps
        status_ok_def blank_column_def ROLE_POLICY_ADMIN_def ROLE_AUDITOR_def)
qed

section \<open>Authentication\<close>

definition sample_aa :: "auth_mode \<Rightarrow> admin_auth" where
  "sample_aa mode =
     \<lparr>aa_static_token = Some ''s3cret'', aa_fallback_roles = default_static_roles, aa_mode = mode,
      aa_allow_claim_fallback = True, aa_local_jwt = \<lparr>lj_secret = ''k'', lj_ttl_seconds = 3600\<rparr>,
      aa_max_failed_attempts = 2, aa_lockout_seconds = 900, aa_refresh_ttl_seconds = 600,
      aa_refresh_max_sessions = 1,
      aa_jwt = Some \<lparr>jv_secret = ''idp-key'', jv_issuer = ''idp'', jv_audience = ''od''\<rparr>\<rparr>"

lemma sample_token_text [simp]: "token_text_ok sample_ae"
  using sample_ae_text unfolding token_text_ok_def by (simp add: sample_ae_def)

lemma sample_bob: "find (login_matches sample_ae ''bob'') (it_users sample_iam) = Some (sample_user 2 ''bob'' 20)"
proof -
  have "to_ascii_lowercase ''alice'' \<noteq> to_ascii_lowercase ''bob''" by code_simp
  then show ?thesis by (simp add: sample_iam_def sample_user_def login_matches_def sample_ae_def opt_else_def)
qed

lemma trim_bob: "trim ''bob'' = ''bob''"
  by code_simp

lemma sample_login:
  "\<exists>resp w'. login_route sample_ae (sample_aa AuthLocal) ''bob'' ''bob-pw'' (admin_server sample_iam) = (Inr (Inr resp), w') \<and>
    la_id (lr_user resp) = 2 \<and> svc_reliable w' \<and>
    map (\<lambda>u. (iu_id u, iu_token_version u)) (it_users (iam_of w')) = [(1, 1), (2, 1)]"
proof -
  have "\<exists>resp w'. login_route sample_ae (sample_aa AuthLocal) ''bob'' ''bob-pw'' (admin_server sample_iam) = (Inr (Inr resp), w') \<and>
    la_id (lr_user resp) = iu_id (sample_user 2 ''bob'' 20) \<and> svc_reliable w' \<and>
    map (\<lambda>u. (iu_id u, iu_token_version u)) (it_users (iam_of w'))
      = map (\<lambda>u. (iu_id u, iu_token_version u)) (it_users (iam_of (admin_server sample_iam)))"
    by (rule right_password_logs_in [where hash = "''bob-pw''"])
      (simp_all add: sample_aa_def local_login_enabled_def trim_bob sample_bob sample_user_def,
       simp_all add: sample_ae_def sample_iam_def)
  then show ?thesis by (simp add: sample_user_def sample_iam_def)
qed

text \<open>Bob with an API token and with a live session.\<close>

definition sample_api_token :: user_token where
  "sample_api_token =
     \<lparr>ut_id = 60, ut_user_id = 2, ut_name = ''ci'', ut_token_hash = ''bob-token'', ut_token_hint = Some ''ob-token'',
      ut_status = ''active'', ut_created_at = 0, ut_last_used_at = None, ut_expires_at = None\<rparr>"

definition token_iam :: iam_tables where
  "token_iam = sample_iam\<lparr>it_user_tokens := [sample_api_token]\<rparr>"

definition sample_session :: refresh_token where
  "sample_session =
     \<lparr>rt_id = 50, rt_user_id = 2, rt_token_hash = ''odr_x'', rt_token_hint = None, rt_token_version = 1,
       rt_created_at = 0, rt_last_used_at = None, rt_expires_at = 200000, rt_revoked_at = None,
       rt_revoked_reason = None, rt_replaced_by_id = None\<rparr>"

definition session_iam :: iam_tables where
  "session_iam = sample_iam\<lparr>it_refresh := [sample_session]\<rparr>"

lemma session_iam_ok: "iam_ok sample_ae session_iam"
proof -
  have "iam_ok sample_ae (sample_iam\<lparr>it_refresh := it_refresh sample_iam @ [sample_session]\<rparr>)"
    by (rule iam_ok_add_refresh [OF sample_iam_ok(1)]) (simp_all add: sample_iam_def sample_user_def sample_session_def)
  then show ?thesis by (simp add: session_iam_def sample_iam_def)
qed

lemma sample_refresh:
  "\<exists>r w'. refresh_route sample_ae (sample_aa AuthLocal) ''odr_x'' (admin_server session_iam) = (Inr (Inr r), w')"
proof -
  have t: "trim ''odr_x'' = ''odr_x''" by code_simp
  have r: "replicate 64 CHR ''r'' \<noteq> ''x''" by (rule notI, drule arg_cong [of _ _ length], simp)
  show ?thesis
    by (rule live_refresh_accepted [where u = "sample_user 2 ''bob'' 20" and row = sample_session])
      (simp_all only: admin_server_simps session_iam_ok t,
       simp_all add: r sample_session_def sample_aa_def local_login_enabled_def session_iam_def sample_iam_def hash_refresh_token_def
         live_refresh_def user_by_id_def sample_user_def sample_ae_def admin_server_def)
qed

text \<open>A token of the identity provider that names a subject only.\<close>

definition idp_claims :: json where
  "idp_claims = JObj [(''sub'', JStr ''someone''), (''iss'', JStr ''idp''), (''aud'', JStr ''od'')]"

definition idp_token :: string where
  "idp_token =
     (let header = ae_base64_encode sample_ae (text_of_json (ae_ex sample_ae) (JObj [(''alg'', JStr ''HS256'')]));
          payload = ae_base64_encode sample_ae (text_of_json (ae_ex sample_ae) idp_claims)
      in header @ ''.'' @ payload @ ''.'' @ ae_base64_encode sample_ae (''idp-key'' @ header @ ''.'' @ payload))"

lemma idp_token_valid:
  "jwt_validate sample_ae \<lparr>jv_secret = ''idp-key'', jv_issuer = ''idp'', jv_audience = ''od''\<rparr> now idp_token
     = Inr \<lparr>oc_sub = ''someone'', oc_iss = ''idp'', oc_aud = Some ''od'', oc_exp = None, oc_preferred_username = None,
            oc_email = None, oc_roles = None, oc_scope = None\<rparr>"
proof -
  let ?e = "ae_base64_encode sample_ae"
  have b: "CHR ''.'' \<notin> set (?e s)" "ae_base64_decode sample_ae (?e s) = Some s" for s
    using sample_ae_text(2) by (simp_all add: base64_ok_def)
  have j: "json_of_text (ae_ex sample_ae) (text_of_json (ae_ex sample_ae) j) = Some j" if "json_finite j" for j
    using sample_ae_text(3) that by (simp add: json_text_ok_def)
  have h: "ae_hmac_sha256 sample_ae k s = k @ s" for k s by (simp add: sample_ae_def)
  show ?thesis
    unfolding jwt_validate_def idp_token_def Let_def jwt_parts_issue [OF b(1) b(1) b(1)]
    by (simp add: decode_segment_def b(2) verify_signature_def h parse_segment_def j idp_claims_def jwt_header_of_json_def
        oidc_claims_of_json_def req_field_def opt_field_def claims_validate_def)
qed

end
