(* ===== verification/Admin_Witnesses.thy ===== *)
theory Admin_Witnesses
  imports Admin_Samples
begin

text \<open>Instances of the properties of the administration service at concrete inputs.\<close>

theorem iam_routes_guarded_witness:
  "iam_dispatch sample_ae sample_viewer (ReqDeleteUser 1 (Some True)) (admin_server sample_iam)
     = (Inr (Inl (403, api_forbidden)), admin_server sample_iam)"
  by (rule iam_routes_guarded)
    (simp_all add: sample_viewer_def context_from_fallback_def ROLE_POLICY_ADMIN_def ROLE_POLICY_VIEWER_def)

theorem last_admin_kept_witness:
  "active_policy_admins (iam_of (snd (iam_dispatch sample_ae sample_admin (ReqDisableUser 1) (admin_server sample_iam)))) \<noteq> []"
proof (rule last_admin_kept [where req = "ReqDisableUser 1" and w = "admin_server sample_iam" and ctx = sample_admin
      and ae = sample_ae])
  show "active_policy_admins (iam_of (admin_server sample_iam)) \<noteq> []"
    by (simp add: active_policy_admins_def active_policy_admin_def sample_iam_def sample_user_def role_named_def)
qed (simp_all, rule prod.collapse [symmetric])

theorem group_deletion_removes_last_admin_witness:
  "\<exists>w'. delete_group_route sample_ae sample_admin 5 (admin_server group_iam) = (Inr (Inr 204), w') \<and>
    active_policy_admins (iam_of w') = []"
  by (rule group_deletion_removes_last_admin, simp, simp)
    (simp_all add: sample_admin_def context_from_fallback_def group_by_id_def group_iam_def sample_iam_def)

theorem user_pages_complete_witness:
  "\<exists>ds w'. walk_users sample_ae sample_admin (Some 1) 3 None (admin_server sample_iam) = (Inr (Inr ds), w') \<and>
    map (\<lambda>d. ur_id (ud_user d)) ds = [2, 1]"
proof -
  obtain ds w' where *: "walk_users sample_ae sample_admin (Some 1) (Suc (length (it_users sample_iam))) None
      (admin_server sample_iam) = (Inr (Inr ds), w')"
    "map ud_user ds = map user_record_of (rev (sort_key (\<lambda>u. (iu_created_at u, iu_id u)) (it_users sample_iam)))"
    using user_pages_complete [of "admin_server sample_iam" sample_ae sample_admin "Some 1"]
    by (auto simp: sample_admin_def context_from_fallback_def)
  have "map (\<lambda>d. ur_id (ud_user d)) ds = map ur_id (map ud_user ds)" by simp
  also have "\<dots> = [2, 1]"
    unfolding *(2) by (simp add: sample_iam_def sample_user_def user_record_of_def)
  finally show ?thesis using *(1) by (simp add: sample_iam_def numeral_3_eq_3 del: walk_users.simps)
qed

section \<open>Authentication\<close>

lemma sample_static:
  "admin_authenticate sample_ae (sample_aa AuthLocal) None (Some ''s3cret'') (admin_server sample_iam)
     = (Inr (Inr (context_from_fallback ''static-admin'' default_static_roles)), (admin_server sample_iam)\<lparr>sb_ops := 2\<rparr>)"
proof -
  have "trim ''s3cret'' = ''s3cret''" by code_simp
  then show ?thesis
    by (simp add: admin_authenticate_def authenticate_admin_token_def verify_user_token_def verify_service_token_def
        token_hint_def Let_def run token_candidates_def sample_iam_def sample_aa_def)
      (simp add: admin_server_def numeral_2_eq_2)
qed

theorem login_token_decision_witness:
  "\<exists>resp w1 ctx. login_route sample_ae (sample_aa AuthLocal) ''bob'' ''bob-pw'' (admin_server sample_iam) = (Inr (Inr resp), w1) \<and>
    fst (admin_authenticate sample_ae (sample_aa AuthLocal) (Some (lr_access_token resp)) None (admin_server sample_iam))
      = Inr (Inr ctx) \<and> cx_roles ctx = {ROLE_AUDITOR}"
proof -
  obtain resp w1 where login: "login_route sample_ae (sample_aa AuthLocal) ''bob'' ''bob-pw'' (admin_server sample_iam) = (Inr (Inr resp), w1)"
    "la_id (lr_user resp) = 2"
    using sample_login by blast
  have version: "la_token_version (lr_user resp) = 1"
    using login_issued [OF login(1)] login(2) by (auto simp: sample_iam_def sample_user_def)
  have bob: "user_by_id 2 sample_iam = Some (sample_user 2 ''bob'' 20)"
    by (simp add: user_by_id_def sample_iam_def sample_user_def)
  have "fst (admin_authenticate sample_ae (sample_aa AuthLocal) (Some (lr_access_token resp)) None (admin_server sample_iam)) =
      Inr (Inr (local_context sample_ae sample_iam (issue_claims (aa_local_jwt (sample_aa AuthLocal)) 100000 (lr_user resp)) (sample_user 2 ''bob'' 20)))"
    using login_token_decision [OF sample_token_text _ _ _ login(1), of "admin_server sample_iam" None] bob login(2) version
    by (simp add: sample_aa_def timestamp_def sample_user_def)
  moreover have "ea_roles (access_in sample_iam (user_role_ids sample_iam 2)) = {ROLE_AUDITOR}"
    by (force simp: access_in_def user_role_ids_def sample_iam_def image_def)
  ultimately show ?thesis
    using login(1) by (auto simp: local_context_def context_from_effective_def sample_user_def)
qed

theorem admin_token_sound_witness:
  "\<exists>ctx w'. admin_authenticate sample_ae (sample_aa AuthLocal) None (Some ''bob-token'') (admin_server token_iam) = (Inr (Inr ctx), w') \<and>
    (\<exists>x u. user_token_of sample_ae 100000 token_iam ''bob-token'' x u \<and> cx_principal_id ctx = Some (iu_id u))"
proof -
  have hint: "token_hint ''bob-token'' = Inr ''ob-token''" by code_simp
  have cand: "token_candidates ''ob-token'' token_iam = [(sample_api_token, sample_user 2 ''bob'' 20)]"
    by (simp add: token_candidates_def token_iam_def sample_iam_def user_by_id_def sample_user_def sample_api_token_def)
  let ?v = "(admin_server token_iam)\<lparr>sb_ops := Suc 0\<rparr>"
  obtain k where k: "access_of_roles (\<lambda>t. user_role_ids t 2) ?v = (Inr (Inr (access_in token_iam (user_role_ids token_iam 2))), ?v\<lparr>sb_ops := k\<rparr>)"
    using access_run [of ?v "\<lambda>t. user_role_ids t 2"] by auto
  have ops: "sb_ops (admin_server token_iam) = 0" by (simp add: admin_server_def)
  have verify: "ae_argon_verify sample_ae s h = Some (s = h)" for s h by (simp add: sample_ae_def)
  let ?f = "\<lambda>now t. ((), t\<lparr>it_user_tokens := map (\<lambda>y. if ut_id y = 60 then y\<lparr>ut_last_used_at := Some now\<rparr> else y) (it_user_tokens t)\<rparr>)"
  obtain v' where used: "best_effort (iam_write sample_ae ?f) (?v\<lparr>sb_ops := k\<rparr>) = ((Inr (Inr ()) :: (iam_error + unit) res), v')"
    using best_effort_runs by blast
  obtain ctx w' where ok: "admin_authenticate sample_ae (sample_aa AuthLocal) None (Some ''bob-token'') (admin_server token_iam) = (Inr (Inr ctx), w')"
    using k used
    by (auto simp: admin_authenticate_def authenticate_admin_token_def verify_user_token_def run hint cand ops verify_hash_def verify
        effective_permissions_for_user_def sample_user_def not_expired_def sample_api_token_def)
  have "aa_static_token (sample_aa AuthLocal) \<noteq> Some ''bob-token''" "it_accounts token_iam = []"
    by (simp_all add: sample_aa_def token_iam_def sample_iam_def)
  then show ?thesis
    using admin_token_sound [OF ok] ok by (auto simp: account_token_of_def)
qed

theorem identity_changes_need_admin_witness:
  "\<exists>ctx v. admin_authenticate sample_ae (sample_aa AuthLocal) None (Some ''s3cret'') (admin_server sample_iam) = (Inr (Inr ctx), v) \<and>
    ROLE_POLICY_ADMIN \<in> cx_roles ctx"
proof -
  let ?ctx = "context_from_fallback ''static-admin'' default_static_roles"
  let ?w = "admin_server sample_iam"
  let ?c = "CallIdentity None (Some ''s3cret'') (ReqDeleteGroup 5)"
  have role: "ROLE_POLICY_ADMIN \<in> cx_roles ?ctx" by (simp add: context_from_fallback_def default_static_roles_def)
  have del: "iam_delete_group sample_ae 5 (?w\<lparr>sb_ops := 2\<rparr>) =
      (Inr (Inr ()), svc_base.more_update (\<lambda>_. delete_group_rows 5 sample_iam) (?w\<lparr>sb_ops := 3\<rparr>))"
    using delete_group_ok [OF sample_iam_ok(1), of 5]
    by (simp add: iam_delete_group_def run Let_def group_by_id_def sample_iam_def eval_nat_numeral)
  obtain w' where log: "audit sample_ae ?ctx ''iam.group.delete'' ''group'' 5 []
      (svc_base.more_update (\<lambda>_. delete_group_rows 5 sample_iam) (?w\<lparr>sb_ops := 3\<rparr>)) = ((Inr (Inr ()) :: ((nat \<times> api_error) + unit) res), w')"
    "same_but_audit (delete_group_rows 5 sample_iam) (iam_of w')"
    using log_runs [where w = "svc_base.more_update (\<lambda>_. delete_group_rows 5 sample_iam) (?w\<lparr>sb_ops := 3\<rparr>)"] unfolding audit_def by fastforce
  have "delete_group_route sample_ae ?ctx 5 (?w\<lparr>sb_ops := 2\<rparr>) = (Inr (Inr 204), w')"
    using role del log(1) by (simp add: delete_group_route_def run ROLE_IAM_ADMIN_def)
  then have "admin_serve sample_ae (sample_aa AuthLocal) ?c ?w = w'"
    by (simp add: api_enforce_admin_def sample_static run done_route_def)
  moreover have "it_groups (iam_of w') = []" "it_groups sample_iam \<noteq> []"
    using log(2) by (auto simp: same_but_audit_def delete_group_rows_def sample_iam_def)
  ultimately have "identity_part (iam_of (admin_serve sample_ae (sample_aa AuthLocal) ?c ?w)) \<noteq> identity_part (iam_of ?w)"
    by (simp add: identity_part_def)
  with identity_changes_need_admin [OF refl, of sample_ae "sample_aa AuthLocal" ?c ?w] show ?thesis by auto
qed

theorem wrong_passwords_lock_account_witness:
  "\<exists>w'. login_route sample_ae (sample_aa AuthLocal) ''bob'' ''bob-pw''
      ((login_attempts sample_ae (sample_aa AuthLocal) ''bob'' [(0, ''x''), (5, ''y'')] (admin_server sample_iam))
        \<lparr>sb_now := sb_now (login_attempts sample_ae (sample_aa AuthLocal) ''bob'' [(0, ''x''), (5, ''y'')] (admin_server sample_iam)) + 10\<rparr>)
    = (Inr (Inl (429, (''ACCOUNT_LOCKED'', ''account locked until '' @ ae_rfc3339 sample_ae
        (sb_now (login_attempts sample_ae (sample_aa AuthLocal) ''bob'' [(0, ''x''), (5, ''y'')] (admin_server sample_iam)) + 900000)))), w')"
proof -
  have row: "failing_row sample_ae ''bob'' ''bob-pw'' 0 (iam_of (admin_server sample_iam))"
    unfolding failing_row_def by (simp add: trim_bob sample_bob sample_user_def)
  show ?thesis
    using wrong_passwords_lock_account [OF _ _ row, of "[(0, ''x''), (5, ''y'')]" "sample_aa AuthLocal" 10 "''bob-pw''"]
    by (simp add: wrong_password_def trim_bob sample_aa_def local_login_enabled_def del: login_attempts.simps)
      (auto simp: sample_ae_def simp del: login_attempts.simps)
qed

theorem login_sessions_bounded_witness:
  "\<exists>resp w'. login_route sample_ae (sample_aa AuthLocal) ''bob'' ''bob-pw'' (admin_server sample_iam) = (Inr (Inr resp), w') \<and>
    length (sessions_of (sb_now w') (la_id (lr_user resp)) (iam_of w')) \<le> 1"
  using sample_login login_sessions_bounded [of sample_ae "sample_aa AuthLocal"]
  by (fastforce simp: sample_aa_def)

theorem refresh_token_single_use_witness:
  "\<exists>r w1 v. refresh_route sample_ae (sample_aa AuthLocal) ''odr_x'' (admin_server session_iam) = (Inr (Inr r), w1) \<and>
    refresh_route sample_ae (sample_aa AuthLocal) ''odr_x''
      ((admin_serve sample_ae (sample_aa AuthLocal) (CallLogin ''bob'' ''bob-pw'') (w1\<lparr>sb_fails := even\<rparr>))\<lparr>sb_fails := \<lambda>_. False\<rparr>)
      = (Inr (Inl (401, (''INVALID_CREDENTIALS'', ''invalid credentials''))), v)"
proof -
  obtain r w1 where w1: "refresh_route sample_ae (sample_aa AuthLocal) ''odr_x'' (admin_server session_iam) = (Inr (Inr r), w1)"
    using sample_refresh by blast
  have t: "trim ''odr_x'' = ''odr_x''" by code_simp
  have "replicate n CHR ''r'' \<noteq> ''x''" for n by (induction n) simp_all
  then have fresh: "\<forall>k \<ge> sb_uuid_next (admin_server session_iam).
      hash_refresh_token sample_ae (''odr_'' @ ae_random sample_ae k 64) \<noteq> hash_refresh_token sample_ae (trim ''odr_x'')"
    by (simp add: t hash_refresh_token_def sample_ae_def)
  let ?w2 = "(admin_serve sample_ae (sample_aa AuthLocal) (CallLogin ''bob'' ''bob-pw'') (w1\<lparr>sb_fails := even\<rparr>))\<lparr>sb_fails := \<lambda>_. False\<rparr>"
  have run: "admin_run sample_ae (sample_aa AuthLocal) w1 ?w2" by (intro admin_run.intros)
  have "svc_reliable ?w2" by (simp add: svc_reliable_def)
  with refresh_token_single_use [OF w1 run fresh] w1 show ?thesis by blast
qed

theorem claims_without_roles_are_admin_witness:
  "\<exists>ctx w'. admin_authenticate sample_ae (sample_aa AuthOidc) (Some idp_token) None (admin_server sample_iam) = (Inr (Inr ctx), w') \<and>
    cx_roles ctx = {ROLE_POLICY_ADMIN, ROLE_POLICY_EDITOR, ROLE_POLICY_VIEWER, ROLE_AUDITOR}"
  by (rule claims_without_roles_are_admin [OF _ _ _ _ idp_token_valid])
    (simp_all add: sample_aa_def sample_iam_def sample_user_def)

theorem revoked_token_stays_refused_witness:
  "\<exists>resp w1 w3. login_route sample_ae (sample_aa AuthLocal) ''bob'' ''bob-pw'' (admin_server sample_iam) = (Inr (Inr resp), w1) \<and>
    iam_dispatch sample_ae sample_admin (ReqSetPassword 2 ''new-password'' None) w1 = (Inr (Inr ()), w3) \<and>
    fst (admin_authenticate sample_ae (sample_aa AuthLocal) (Some (lr_access_token resp)) None
      ((admin_serve sample_ae (sample_aa AuthLocal) (CallLogin ''bob'' ''bob-pw'') (w3\<lparr>sb_fails := even\<rparr>))\<lparr>sb_fails := \<lambda>_. False\<rparr>))
      \<in> {Inr (Inl 401), Inr (Inl 403)}"
proof -
  obtain resp w1 where login: "login_route sample_ae (sample_aa AuthLocal) ''bob'' ''bob-pw'' (admin_server sample_iam) = (Inr (Inr resp), w1)"
    "la_id (lr_user resp) = 2" "svc_reliable w1"
    "map (\<lambda>u. (iu_id u, iu_token_version u)) (it_users (iam_of w1)) = [(1, 1), (2, 1)]"
    using sample_login by auto
  have ok: "iam_ok sample_ae (iam_of w1)"
    using svc_keepsD [OF login_keeps_constraints, of sample_ae "admin_server sample_iam"] login(1) by (metis admin_server_simps(1) sample_iam_ok(1) snd_conv)
  obtain u where u: "user_by_id 2 (iam_of w1) = Some u" "iu_token_version u = 1"
    using login(4) by (auto simp: user_by_id_def Cons_eq_map_conv map_eq_Cons_conv)
  have "trim ''new-password'' = ''new-password''" by code_simp
  then obtain w3 where w3: "iam_dispatch sample_ae sample_admin (ReqSetPassword 2 ''new-password'' None) w1 = (Inr (Inr ()), w3)"
    using set_password_succeeds [OF login(3) ok u(1), of "''new-password''" "''new-password''" sample_admin None] u(2)
    by (auto simp: sample_ae_def sample_admin_def context_from_fallback_def)
  let ?w4 = "(admin_serve sample_ae (sample_aa AuthLocal) (CallLogin ''bob'' ''bob-pw'') (w3\<lparr>sb_fails := even\<rparr>))\<lparr>sb_fails := \<lambda>_. False\<rparr>"
  have w4: "admin_run sample_ae (sample_aa AuthLocal) w3 ?w4" by (intro admin_run.intros)
  have "svc_reliable ?w4" by (simp add: svc_reliable_def)
  then have "fst (admin_authenticate sample_ae (sample_aa AuthLocal) (Some (lr_access_token resp)) None ?w4) \<in> {Inr (Inl 401), Inr (Inl 403)}"
    using revoked_token_stays_refused [OF sample_token_text _ _ _ _ login(1) run_start w3 _ w4, of None]
    by (simp add: login(2) sample_aa_def admin_server_def sample_iam_ok(1))
  with login(1) w3 show ?thesis by blast
qed

end
