(* ===== verification/Override_Exchange.thy ===== *)
theory Override_Exchange
  imports Admin_Base
begin

text \<open>
  What the administration service (\<^verbatim>\<open>services/admin-api/src/main.rs\<close>) accepts as an override: the
  normalisation of the fields of a request, and the text format in which lists of domains are exchanged.
  The counters of lines are natural numbers; the size limit of a request body keeps them far below the
  width of the code's \<open>u32\<close>.
\<close>

section \<open>Fields\<close>

definition api_validation_error :: "string \<Rightarrow> nat \<times> api_error" where
  "api_validation_error message = (400, (''VALIDATION_ERROR'', message))"

definition ALLOWED_SCOPE_TYPES :: "string list" where "ALLOWED_SCOPE_TYPES = [''domain'']"
definition ALLOWED_ACTIONS :: "string list" where "ALLOWED_ACTIONS = [''allow'', ''block'']"
definition ALLOWED_STATUSES :: "string list" where
  "ALLOWED_STATUSES = [''active'', ''inactive'', ''expired'', ''revoked'']"

definition normalize_scope_type :: "string \<Rightarrow> (nat \<times> api_error) + string" where
  "normalize_scope_type v =
     (let normalized = to_ascii_lowercase (trim v)
      in if normalized = [] then Inl (api_validation_error ''scope_type required'')
         else if normalized \<in> set ALLOWED_SCOPE_TYPES then Inr normalized
         else Inl (api_validation_error ''scope_type must be domain''))"

definition domain_byte :: "char \<Rightarrow> bool" where
  "domain_byte c \<longleftrightarrow> is_ascii_alphanumeric c \<or> c = CHR ''-'' \<or> c = CHR ''.''"

definition normalize_domain_scope :: "string \<Rightarrow> (nat \<times> api_error) + string" where
  "normalize_domain_scope v =
     (let lowered = to_ascii_lowercase (trim v)
      in if lowered = [] then Inl (api_validation_error ''scope_value required for domain overrides'')
         else
           (let (wildcard_prefix, domain_part) =
                  (case strip_prefix ''*.'' lowered of Some rest \<Rightarrow> (''*.'', rest) | None \<Rightarrow> ([], lowered))
            in if domain_part = [] \<or> CHR ''.'' \<notin> set domain_part
               then Inl (api_validation_error ''domain scope must include a valid hostname'')
               else if length domain_part > 253
               then Inl (api_validation_error ''domain scope exceeds maximum length'')
               else if \<not> list_all domain_byte domain_part
               then Inl (api_validation_error
                 ''domain scope may only include alphanumeric, '-', '.' characters'')
               else Inr (wildcard_prefix @ domain_part)))"

definition normalize_scope_value :: "string \<Rightarrow> string \<Rightarrow> (nat \<times> api_error) + string" where
  "normalize_scope_value scope_type v =
     (if scope_type = ''domain'' then normalize_domain_scope v
      else Inl (api_validation_error ''unsupported scope_type''))"

definition normalize_action :: "string \<Rightarrow> (nat \<times> api_error) + string" where
  "normalize_action v =
     (let normalized = to_ascii_lowercase (trim v)
      in if normalized = [] then Inl (api_validation_error ''action required'')
         else if normalized \<in> set ALLOWED_ACTIONS then Inr normalized
         else Inl (api_validation_error ''action must be one of allow|block''))"

definition normalize_status :: "string \<Rightarrow> (nat \<times> api_error) + string" where
  "normalize_status v =
     (let normalized = to_ascii_lowercase (trim v)
      in if normalized = [] then Inl (api_validation_error ''status cannot be empty'')
         else if normalized \<in> set ALLOWED_STATUSES then Inr normalized
         else Inl (api_validation_error ''status must be one of active|inactive|expired|revoked''))"

definition normalize_optional_field :: "string option \<Rightarrow> string option" where
  "normalize_optional_field v =
     Option.bind v (\<lambda>s. let trimmed = trim s in if trimmed = [] then None else Some trimmed)"

record override_upsert_request =
  oq_scope_type :: string
  oq_scope_value :: string
  oq_action :: string
  oq_reason :: "string option"
  oq_created_by :: "string option"
  oq_expires_at :: "time option"
  oq_status :: "string option"

record validated_override_payload =
  vo_scope_type :: string
  vo_scope_value :: string
  vo_action :: string
  vo_reason :: "string option"
  vo_created_by :: "string option"
  vo_expires_at :: "time option"
  vo_status :: "string option"

definition validate_override_payload ::
  "override_upsert_request \<Rightarrow> (nat \<times> api_error) + validated_override_payload" where
  "validate_override_payload p =
     bind_res (normalize_scope_type (oq_scope_type p)) (\<lambda>scope_type.
     bind_res (normalize_scope_value scope_type (oq_scope_value p)) (\<lambda>scope_value.
     bind_res (normalize_action (oq_action p)) (\<lambda>action.
     bind_res (case oq_status p of None \<Rightarrow> Inr None | Some v \<Rightarrow> map_res Some (normalize_status v)) (\<lambda>status.
       Inr \<lparr>vo_scope_type = scope_type, vo_scope_value = scope_value, vo_action = action,
            vo_reason = normalize_optional_field (oq_reason p),
            vo_created_by = normalize_optional_field (oq_created_by p),
            vo_expires_at = oq_expires_at p, vo_status = status\<rparr>))))"

section \<open>The exchange format\<close>

datatype override_import_mode = Merge | Replace

definition import_mode_str :: "override_import_mode \<Rightarrow> string" where
  "import_mode_str mode = (case mode of Merge \<Rightarrow> ''merge'' | Replace \<Rightarrow> ''replace'')"

definition normalize_override_import_mode :: "string option \<Rightarrow> (nat \<times> api_error) + override_import_mode" where
  "normalize_override_import_mode v =
     (let normalized = to_ascii_lowercase (trim (case v of None \<Rightarrow> ''merge'' | Some s \<Rightarrow> s))
      in if normalized = ''merge'' then Inr Merge
         else if normalized = ''replace'' then Inr Replace
         else Inl (api_validation_error ''mode must be merge|replace''))"

record override_import_invalid_line =
  il_line_number :: nat
  il_value :: string
  il_error :: string

record parsed_override_import =
  pi_total_lines :: nat
  pi_scopes :: "string list"
  pi_duplicates :: nat
  pi_invalid_lines :: "override_import_invalid_line list"

definition parse_exchange_line :: "nat \<times> string \<Rightarrow> parsed_override_import \<Rightarrow> parsed_override_import" where
  "parse_exchange_line il p =
     (let p = p\<lparr>pi_total_lines := Suc (pi_total_lines p)\<rparr>;
          trimmed = trim (snd il)
      in if trimmed = [] \<or> starts_with trimmed ''#'' then p
         else (case normalize_domain_scope trimmed of
            Inr scope_value \<Rightarrow>
              if scope_value \<notin> set (pi_scopes p) then p\<lparr>pi_scopes := pi_scopes p @ [scope_value]\<rparr>
              else p\<lparr>pi_duplicates := Suc (pi_duplicates p)\<rparr>
          | Inl (_, (_, message)) \<Rightarrow>
              p\<lparr>pi_invalid_lines := pi_invalid_lines p @
                [\<lparr>il_line_number = fst il + 1, il_value = trimmed, il_error = message\<rparr>]\<rparr>))"

definition parse_override_exchange_lines :: "string \<Rightarrow> parsed_override_import" where
  "parse_override_exchange_lines content =
     fold parse_exchange_line (enumerate 0 (str_lines content))
       \<lparr>pi_total_lines = 0, pi_scopes = [], pi_duplicates = 0, pi_invalid_lines = []\<rparr>"

text \<open>What an export writes for the values it selected: sorted bytewise, without repetitions.\<close>

definition exchange_lines :: "string list \<Rightarrow> string list" where
  "exchange_lines values = remdups_adj (sort_key (map (of_char :: char \<Rightarrow> nat)) values)"

definition exchange_body :: "string list \<Rightarrow> string" where
  "exchange_body lines = join_str [CHR 0x0A] lines"

section \<open>Normal forms\<close>

text \<open>A scope as the service stores it.\<close>

definition canonical_scope :: "string \<Rightarrow> bool" where
  "canonical_scope s \<longleftrightarrow> normalize_domain_scope s = Inr s"

lemma domain_byte_graphic: "domain_byte c \<Longrightarrow> byte_in 33 126 c"
  by (auto simp: domain_byte_def is_ascii_alphanumeric_def is_ascii_digit_def is_ascii_upper_def
      is_ascii_lower_def byte_in_def)

text \<open>The part of a scope that is a name.\<close>

definition scope_name :: "string \<Rightarrow> string" where
  "scope_name s = (case strip_prefix ''*.'' s of Some rest \<Rightarrow> rest | None \<Rightarrow> s)"

lemma scope_name_cases: "s = ''*.'' @ scope_name s \<or> s = scope_name s"
proof (cases "strip_prefix ''*.'' s")
  case (Some r)
  then have "s = ''*.'' @ r" by (simp only: strip_prefix_Some_iff)
  with Some show ?thesis unfolding scope_name_def by (metis option.simps(5))
qed (simp add: scope_name_def)

lemma normalize_domain_scope_Inr:
  "normalize_domain_scope v = Inr s \<longleftrightarrow>
     s = to_ascii_lowercase (trim v) \<and> CHR ''.'' \<in> set (scope_name s) \<and>
     length (scope_name s) \<le> 253 \<and> list_all domain_byte (scope_name s)"
proof (cases "strip_prefix ''*.'' (to_ascii_lowercase (trim v))")
  case None
  then show ?thesis
    by (auto simp: normalize_domain_scope_def scope_name_def Let_def)
next
  case (Some r)
  then have "to_ascii_lowercase (trim v) = ''*.'' @ r" by (simp only: strip_prefix_Some_iff)
  with Some show ?thesis
    by (auto simp: normalize_domain_scope_def scope_name_def Let_def)
qed

lemma canonical_scopeD:
  assumes "canonical_scope s"
  shows "graphic s" "to_ascii_lowercase s = s" "CHR ''.'' \<in> set (scope_name s)"
    "list_all domain_byte (scope_name s)" "hd s \<noteq> CHR ''#''"
proof -
  note c = assms [unfolded canonical_scope_def normalize_domain_scope_Inr]
  then show d: "list_all domain_byte (scope_name s)" "CHR ''.'' \<in> set (scope_name s)" by simp_all
  then have n: "\<forall>x \<in> set (scope_name s). byte_in 33 126 x" "scope_name s \<noteq> []"
    by (auto simp: list_all_iff intro: domain_byte_graphic)
  have "byte_in 33 126 CHR ''*''" "byte_in 33 126 CHR ''.''" by (simp_all add: byte_in_def)
  with n scope_name_cases [of s] show g: "graphic s"
    unfolding graphic_def by (metis Un_iff append_is_Nil_conv empty_iff empty_set insert_iff list.simps(15) set_append)
  from c g show "to_ascii_lowercase s = s" by simp
  have "\<not> domain_byte CHR ''#''"
    by (simp add: domain_byte_def is_ascii_alphanumeric_def is_ascii_digit_def is_ascii_upper_def
        is_ascii_lower_def byte_in_def)
  with d(1) n(2) have "hd (scope_name s) \<noteq> CHR ''#''"
    using hd_in_set by (metis list_all_iff)
  moreover have "hd (''*.'' @ scope_name s) \<noteq> CHR ''#''" by simp
  ultimately show "hd s \<noteq> CHR ''#''" using scope_name_cases [of s] by metis
qed

lemma normalize_domain_scope_canonical:
  assumes "normalize_domain_scope v = Inr s"
  shows "canonical_scope s"
proof -
  note n = assms [unfolded normalize_domain_scope_Inr]
  then have "s = to_ascii_lowercase (trim s)" by (simp add: trim_lower)
  with n show ?thesis unfolding canonical_scope_def normalize_domain_scope_Inr by blast
qed

lemma normalized_members:
  "normalize_scope_type v = Inr ty \<Longrightarrow> ty = ''domain''"
  "normalize_action v = Inr a \<Longrightarrow> a \<in> set ALLOWED_ACTIONS"
  "normalize_status v = Inr st \<Longrightarrow> st \<in> set ALLOWED_STATUSES"
  by (auto simp: normalize_scope_type_def normalize_action_def normalize_status_def ALLOWED_SCOPE_TYPES_def
      Let_def split: if_splits)

lemma validated_payload:
  assumes "validate_override_payload p = Inr v"
  shows "vo_scope_type v = ''domain''" "canonical_scope (vo_scope_value v)" "vo_action v \<in> set ALLOWED_ACTIONS"
    "pred_option (\<lambda>st. st \<in> set ALLOWED_STATUSES) (vo_status v)"
  using assms
  by (auto simp: validate_override_payload_def normalize_scope_value_def bind_res_Inr_iff map_res_Inr_iff
      dest!: normalized_members intro: normalize_domain_scope_canonical split: option.splits if_splits)

section \<open>Reading back what was written\<close>

lemma exchange_lines_split:
  assumes "\<forall>l \<in> set ls. graphic l"
  shows "str_lines (join_str [CHR 0x0A] ls) = ls"
proof (cases "ls = []")
  case True
  then show ?thesis by (simp add: str_lines_def)
next
  case False
  have nl: "\<not> byte_in 33 126 (CHR 0x0A)" "\<not> byte_in 33 126 (CHR 0x0D)" by (simp_all add: byte_in_def)
  have g: "\<forall>c \<in> set l. byte_in 33 126 c" "l \<noteq> []" if "l \<in> set ls" for l
    using assms that by (auto simp: graphic_def)
  then have "CHR 0x0A \<notin> set l" "strip_cr l = l" if "l \<in> set ls" for l
    using that nl last_in_set [of l] unfolding strip_cr_def by metis+
  moreover have "last ls \<noteq> []" using assms False by (auto simp: graphic_def)
  ultimately have "split_char (CHR 0x0A) (join_str [CHR 0x0A] ls) = ls"
    "map strip_cr (butlast ls) = butlast ls" "last ls \<noteq> []"
    using False by (auto simp: split_join_char intro!: map_idI dest: in_set_butlastD)
  then show ?thesis using False by (simp add: str_lines_def)
qed

lemma parse_canonical_line:
  assumes "canonical_scope s" "s \<notin> set (pi_scopes p)"
  shows "parse_exchange_line (k, s) p =
    p\<lparr>pi_total_lines := Suc (pi_total_lines p), pi_scopes := pi_scopes p @ [s]\<rparr>"
  using assms canonical_scopeD [OF assms(1)]
  by (cases s) (auto simp: parse_exchange_line_def starts_with_def canonical_scope_def graphic_def Let_def)

lemma parse_canonical_lines:
  assumes "\<forall>l \<in> set ls. canonical_scope l" "distinct (pi_scopes p @ ls)"
  shows "fold parse_exchange_line (enumerate k ls) p =
    p\<lparr>pi_total_lines := pi_total_lines p + length ls, pi_scopes := pi_scopes p @ ls\<rparr>"
  using assms by (induction ls arbitrary: k p) (simp_all add: parse_canonical_line)

lemma exchange_round:
  assumes "\<forall>l \<in> set ls. canonical_scope l" "distinct ls"
  shows "parse_override_exchange_lines (exchange_body ls) =
    \<lparr>pi_total_lines = length ls, pi_scopes = ls, pi_duplicates = 0, pi_invalid_lines = []\<rparr>"
  using assms canonical_scopeD(1)
  by (simp add: parse_override_exchange_lines_def exchange_body_def exchange_lines_split parse_canonical_lines)

lemma distinct_remdups_adj_sorted: "sorted xs \<Longrightarrow> distinct (remdups_adj xs)"
  by (induction xs rule: remdups_adj.induct) (auto simp: less_le)

lemma exchange_lines_props:
  "set (exchange_lines vs) = set vs" "distinct (exchange_lines vs)"
proof -
  have inj: "inj (map (of_char :: char \<Rightarrow> nat))"
    by (intro inj_mapI) (simp add: inj_on_def)
  show "set (exchange_lines vs) = set vs" by (simp add: exchange_lines_def)
  have "distinct (map (map (of_char :: char \<Rightarrow> nat)) (exchange_lines vs))"
    by (simp only: exchange_lines_def remdups_adj_map_injective [OF inj, symmetric])
      (rule distinct_remdups_adj_sorted, rule sorted_sort_key)
  then show "distinct (exchange_lines vs)" by (simp add: distinct_map)
qed

text \<open>What is parsed is canonical and free of repetitions, and every line is accounted for.\<close>

lemma parse_line_keeps:
  assumes "distinct (pi_scopes p)" "\<forall>s \<in> set (pi_scopes p). canonical_scope s"
  shows "distinct (pi_scopes (parse_exchange_line il p))"
    "\<forall>s \<in> set (pi_scopes (parse_exchange_line il p)). canonical_scope s"
proof -
  let ?q = "parse_exchange_line il p" and ?n = "normalize_domain_scope (trim (snd il))"
  have "pi_scopes ?q = pi_scopes p \<or> (\<exists>s. ?n = Inr s \<and> s \<notin> set (pi_scopes p) \<and> pi_scopes ?q = pi_scopes p @ [s])"
    by (cases ?n) (auto simp: parse_exchange_line_def Let_def split: prod.split)
  with assms normalize_domain_scope_canonical
  show "distinct (pi_scopes ?q)" "\<forall>s \<in> set (pi_scopes ?q). canonical_scope s"
    by auto
qed

lemma parsed_scopes:
  "distinct (pi_scopes (parse_override_exchange_lines content))"
  "\<forall>s \<in> set (pi_scopes (parse_override_exchange_lines content)). canonical_scope s"
proof -
  have "distinct (pi_scopes (fold parse_exchange_line ls p)) \<and>
      (\<forall>s \<in> set (pi_scopes (fold parse_exchange_line ls p)). canonical_scope s)"
    if "distinct (pi_scopes p)" "\<forall>s \<in> set (pi_scopes p). canonical_scope s" for ls p
    using that
  proof (induction ls arbitrary: p)
    case (Cons l ls)
    from Cons.IH [OF parse_line_keeps [OF Cons.prems]] show ?case by simp
  qed simp
  from this [of "\<lparr>pi_total_lines = 0, pi_scopes = [], pi_duplicates = 0, pi_invalid_lines = []\<rparr>"]
  show "distinct (pi_scopes (parse_override_exchange_lines content))"
    "\<forall>s \<in> set (pi_scopes (parse_override_exchange_lines content)). canonical_scope s"
    unfolding parse_override_exchange_lines_def by simp_all
qed

end
