(* ===== verification/Admin_Overrides.thy ===== *)
theory Admin_Overrides
  imports Override_Exchange Admin_Pages Iam_Routes Admin_Run Cache_Invalidator
begin

text \<open>
  The override routes of the administration service (\<^verbatim>\<open>services/admin-api/src/main.rs\<close>): listing, export,
  import, creation, update and deletion, over the table of overrides with the constraints of its
  migrations: the primary key, and at most one active override for a scope.  After a change the caches
  are invalidated through Redis and the change is recorded in the audit log; neither may fail the request.
\<close>

section \<open>State\<close>

record override_entry =
  oe_id :: uuid
  oe_scope_type :: string
  oe_scope_value :: string
  oe_action :: string
  oe_reason :: "string option"
  oe_created_by :: "string option"
  oe_expires_at :: "time option"
  oe_status :: string
  oe_created_at :: time
  oe_updated_at :: time

record override_tables =
  ot_overrides :: "override_entry list"
  ot_audit_events :: "audit_event list"

abbreviation ovr_of :: "override_tables svc_base_scheme \<Rightarrow> override_tables" where
  "ovr_of w \<equiv> svc_base.more w"

definition oe_active :: "override_entry \<Rightarrow> bool" where
  "oe_active r \<longleftrightarrow> oe_status r = ''active''"

definition oe_scope :: "override_entry \<Rightarrow> string \<times> string" where
  "oe_scope r = (oe_scope_type r, oe_scope_value r)"

definition overrides_ok :: "override_entry list \<Rightarrow> bool" where
  "overrides_ok rows \<longleftrightarrow> distinct (map oe_id rows) \<and> distinct (map oe_scope (filter oe_active rows))"

definition ovr_ok :: "override_tables \<Rightarrow> bool" where
  "ovr_ok t \<longleftrightarrow> overrides_ok (ot_overrides t) \<and> distinct (map ad_id (ot_audit_events t))"

definition ovr_write :: "(time \<Rightarrow> override_tables \<Rightarrow> 'a \<times> override_tables) \<Rightarrow> (override_tables, 'a) svc" where
  "ovr_write f =
     svc_stmt (\<lambda>w. case f (sb_now w) (ovr_of w) of (x, t) \<Rightarrow>
       if ovr_ok t then Some (x, svc_base.more_update (\<lambda>_. t) w) else None)"

definition ovr_read :: "(override_entry list \<Rightarrow> 'a) \<Rightarrow> (override_tables, 'a) svc" where
  "ovr_read f = svc_query (\<lambda>w. f (ot_overrides (ovr_of w)))"

text \<open>The shared state of the service; \<open>ap_channel\<close> is the channel of the cache invalidator, if there is one.\<close>

record admin_state =
  ap_env :: admin_env
  ap_server :: redis_server
  ap_channel :: "string option"

abbreviation db_route :: "('t, 'a) svc \<Rightarrow> ('t, 'a) route" where
  "db_route m \<equiv> map_err (\<lambda>s. (500, (''DB_ERROR'', s))) (sql m)"

text \<open>
  A transaction of a handler: an early return drops it, which rolls back what it did; only the last
  statement commits.
\<close>

definition route_tx :: "('t, 'a) route \<Rightarrow> ('t, 'a) route" where
  "route_tx m w =
     (case tbind (db_route (svc_exec id)) (\<lambda>_. tbind m (\<lambda>x. tbind (db_route (svc_exec id)) (\<lambda>_. ret x))) w of
        (Inr (Inr x), w') \<Rightarrow> (Inr (Inr x), w')
      | (r, w') \<Rightarrow> (r, rollback_to w w'))"

section \<open>Caches and the audit log\<close>

text \<open>
  The invalidator works on the Redis of the service.  What it publishes is appended to the messages sent,
  under its channel.
\<close>

definition svc_inv :: "string \<Rightarrow> 'a inv \<Rightarrow> ('t, 'a) svc" where
  "svc_inv channel m w =
     (case m \<lparr>iw_redis = sb_redis w, iw_published = [], iw_cmds = sb_ops w, iw_fails = sb_fails w\<rparr> of (r, v) \<Rightarrow>
        (r, w\<lparr>sb_redis := iw_redis v, sb_ops := iw_cmds v,
          sb_streams := sb_streams w @ map (\<lambda>payload. (channel, [(''message'', payload)])) (iw_published v)\<rparr>))"

definition state_invalidate_override ::
  "admin_state \<Rightarrow> string \<Rightarrow> string \<Rightarrow> (override_tables, 'e + unit) svc" where
  "state_invalidate_override st scope_type scope_value =
     (case ap_channel st of
        None \<Rightarrow> ret ()
      | Some channel \<Rightarrow>
          best_effort (svc_inv channel
            (admin_invalidate_override (ae_ex (ap_env st)) (ap_server st) scope_type scope_value)))"

definition log_override_event ::
  "string \<Rightarrow> string option \<Rightarrow> string \<Rightarrow> json \<Rightarrow> (override_tables, 'e + unit) svc" where
  "log_override_event action actor target_id payload =
     tbind (lift_svc svc_uuid) (\<lambda>i.
     best_effort (ovr_write (\<lambda>_ t. ((), t\<lparr>ot_audit_events := ot_audit_events t @
       [\<lparr>ad_id = i, ad_actor = actor, ad_action = action, ad_target_type = Some ''override'',
         ad_target_id = Some target_id, ad_payload = Some payload\<rparr>]\<rparr>))))"

definition override_to_json :: "admin_env \<Rightarrow> override_entry \<Rightarrow> json" where
  "override_to_json ae r =
     JObj [(''id'', uuid_json ae (oe_id r)), (''scope_type'', JStr (oe_scope_type r)),
       (''scope_value'', JStr (oe_scope_value r)), (''action'', JStr (oe_action r)),
       (''reason'', opt_to_json JStr (oe_reason r)), (''created_by'', opt_to_json JStr (oe_created_by r)),
       (''expires_at'', opt_to_json (\<lambda>t. JStr (ae_rfc3339 ae t)) (oe_expires_at r)),
       (''status'', JStr (oe_status r)), (''created_at'', JStr (ae_rfc3339 ae (oe_created_at r))),
       (''updated_at'', JStr (ae_rfc3339 ae (oe_updated_at r)))]"

section \<open>Reading\<close>

definition ROLE_OVERRIDES_WRITE :: "string list" where
  "ROLE_OVERRIDES_WRITE = [ROLE_POLICY_ADMIN, ROLE_POLICY_EDITOR]"
definition ROLE_OVERRIDES_DELETE :: "string list" where "ROLE_OVERRIDES_DELETE = [ROLE_POLICY_ADMIN]"
definition ROLE_OVERRIDES_VIEW :: "string list" where
  "ROLE_OVERRIDES_VIEW = [ROLE_POLICY_ADMIN, ROLE_POLICY_EDITOR, ROLE_POLICY_VIEWER]"

text \<open>This route answers an error with the bare status.\<close>

definition list_overrides ::
  "admin_state \<Rightarrow> api_user_context \<Rightarrow> list_query \<Rightarrow> (override_tables, nat + override_entry cursor_paged) svc" where
  "list_overrides st ctx query =
     tbind (api_require_roles ctx ROLE_OVERRIDES_VIEW) (\<lambda>_.
     let limit = cursor_limit (lq_limit query); ae = ap_env st
     in tbind (map_err fst (read_cursor ae (time_cursor_of_json ae) (lq_cursor query))) (\<lambda>(direction, anchor).
        tbind (map_err (\<lambda>_. 500) (sql (ovr_read (\<lambda>rows.
          window (direction = CursorPrev) (\<lambda>r. (oe_created_at r, oe_id r)) anchor (limit + 1) rows)))) (\<lambda>fetched.
        let (has_more, overrides) = page_rows direction limit fetched;
            (next_cursor, prev_cursor) = page_cursors ae (time_cursor_to_json ae)
              (\<lambda>r. (oe_created_at r, oe_id r)) (lq_cursor query) has_more overrides
        in ret (new_with_prev overrides limit has_more next_cursor prev_cursor))))"

record export_response =
  xr_filename :: string
  xr_body :: string

text \<open>The name of the file holds only letters and dashes, so it always makes a header.\<close>

definition export_overrides ::
  "admin_state \<Rightarrow> api_user_context \<Rightarrow> string \<Rightarrow> (override_tables, export_response) route" where
  "export_overrides st ctx action =
     tbind (guard_roles ctx ROLE_OVERRIDES_VIEW) (\<lambda>_.
     tbind (svc_return (normalize_action action)) (\<lambda>action.
     tbind (db_route (ovr_read (\<lambda>rows. map oe_scope_value
       (sort_key (\<lambda>r. ae_collate (ap_env st) (oe_scope_value r))
         (filter (\<lambda>r. oe_scope_type r = ''domain'' \<and> oe_action r = action \<and> oe_status r = ''active'') rows))))) (\<lambda>values.
     let lines = exchange_lines values
     in tbind (log_override_event (''override.export.'' @ action) (Some (cx_actor ctx)) action
          (JObj [(''count'', JInt (int (length lines)))])) (\<lambda>_.
        ret \<lparr>xr_filename = ''overrides-'' @ action @ ''-exchange.txt'', xr_body = exchange_body lines\<rparr>))))"

section \<open>Statements\<close>

text \<open>\<open>ORDER BY updated_at DESC, created_at DESC, id DESC\<close>.\<close>

definition latest_first :: "override_entry list \<Rightarrow> override_entry list" where
  "latest_first rows = rev (sort_key (\<lambda>r. (oe_updated_at r, oe_created_at r, oe_id r)) rows)"

text \<open>An \<open>UPDATE\<close> of the rows that satisfy a condition, and one of a row that returns it.\<close>

definition update_where ::
  "(override_entry \<Rightarrow> bool) \<Rightarrow> (time \<Rightarrow> override_entry \<Rightarrow> override_entry) \<Rightarrow> (override_tables, unit) svc" where
  "update_where P f =
     ovr_write (\<lambda>now t. ((), t\<lparr>ot_overrides := map (\<lambda>r. if P r then f now r else r) (ot_overrides t)\<rparr>))"

definition update_returning ::
  "uuid \<Rightarrow> (time \<Rightarrow> override_entry \<Rightarrow> override_entry) \<Rightarrow> (override_tables, override_entry option) svc" where
  "update_returning i f =
     ovr_write (\<lambda>now t.
       (map_option (f now) (find (\<lambda>r. oe_id r = i) (ot_overrides t)),
        t\<lparr>ot_overrides := map (\<lambda>r. if oe_id r = i then f now r else r) (ot_overrides t)\<rparr>))"

definition delete_where :: "(override_entry \<Rightarrow> bool) \<Rightarrow> (override_tables, override_entry list) svc" where
  "delete_where P =
     ovr_write (\<lambda>_ t. (filter P (ot_overrides t), t\<lparr>ot_overrides := filter (\<lambda>r. \<not> P r) (ot_overrides t)\<rparr>))"

definition insert_override :: "(time \<Rightarrow> override_entry) \<Rightarrow> (override_tables, override_entry) svc" where
  "insert_override f = ovr_write (\<lambda>now t. (f now, t\<lparr>ot_overrides := ot_overrides t @ [f now]\<rparr>))"

definition revoked :: "time \<Rightarrow> override_entry \<Rightarrow> override_entry" where
  "revoked now r = r\<lparr>oe_status := ''revoked'', oe_updated_at := now\<rparr>"

section \<open>Creation, update and deletion\<close>

definition new_entry :: "validated_override_payload \<Rightarrow> string \<Rightarrow> uuid \<Rightarrow> time \<Rightarrow> override_entry" where
  "new_entry v status i now =
     \<lparr>oe_id = i, oe_scope_type = vo_scope_type v, oe_scope_value = vo_scope_value v, oe_action = vo_action v,
      oe_reason = vo_reason v, oe_created_by = vo_created_by v, oe_expires_at = vo_expires_at v,
      oe_status = status, oe_created_at = now, oe_updated_at = now\<rparr>"

definition rewritten :: "validated_override_payload \<Rightarrow> string \<Rightarrow> time \<Rightarrow> override_entry \<Rightarrow> override_entry" where
  "rewritten v status now r =
     r\<lparr>oe_action := vo_action v, oe_reason := vo_reason v, oe_created_by := vo_created_by v,
       oe_expires_at := vo_expires_at v, oe_status := status, oe_updated_at := now\<rparr>"

definition row_missing :: "nat \<times> api_error" where
  "row_missing = (500, (''DB_ERROR'', ''no rows returned by a query that expected to return at least one row''))"

definition insert_payload :: "validated_override_payload \<Rightarrow> string \<Rightarrow> (override_tables, override_entry) route" where
  "insert_payload v status =
     tbind (lift_svc svc_uuid) (\<lambda>i. db_route (insert_override (new_entry v status i)))"

text \<open>
  An active override replaces the newest active one of its scope; the others of the scope, which data
  older than the unique index may hold, are revoked first.
\<close>

definition upsert_active :: "validated_override_payload \<Rightarrow> string \<Rightarrow> (override_tables, override_entry) route" where
  "upsert_active v status =
     tbind (db_route (ovr_read (\<lambda>rows. map oe_id (latest_first (filter (\<lambda>r.
       oe_scope_type r = vo_scope_type v \<and> oe_scope_value r = vo_scope_value v \<and> oe_status r = ''active'') rows))))) (\<lambda>ids.
     tbind (if length ids > 1 then db_route (update_where (\<lambda>r. oe_id r \<in> set (tl ids)) revoked) else ret ()) (\<lambda>_.
     case ids of
       active_id # _ \<Rightarrow>
         tbind (db_route (update_returning active_id (rewritten v status))) (ok_or_raise row_missing)
     | [] \<Rightarrow> insert_payload v status))"

definition with_author :: "api_user_context \<Rightarrow> override_upsert_request \<Rightarrow> override_upsert_request" where
  "with_author ctx p = (if oq_created_by p = None then p\<lparr>oq_created_by := Some (cx_actor ctx)\<rparr> else p)"

definition entry_author :: "api_user_context \<Rightarrow> override_entry \<Rightarrow> string option" where
  "entry_author ctx r = (case oe_created_by r of Some a \<Rightarrow> Some a | None \<Rightarrow> Some (cx_actor ctx))"

definition create_override ::
  "admin_state \<Rightarrow> api_user_context \<Rightarrow> override_upsert_request \<Rightarrow> (override_tables, override_entry) route" where
  "create_override st ctx payload =
     tbind (guard_roles ctx ROLE_OVERRIDES_WRITE) (\<lambda>_.
     tbind (svc_return (validate_override_payload (with_author ctx payload))) (\<lambda>v.
     let status_value = (case vo_status v of None \<Rightarrow> ''active'' | Some s \<Rightarrow> s)
     in tbind (route_tx (if eq_ignore_ascii_case status_value ''active'' then upsert_active v status_value
          else insert_payload v status_value)) (\<lambda>mapped.
        tbind (state_invalidate_override st (oe_scope_type mapped) (oe_scope_value mapped)) (\<lambda>_.
        tbind (log_override_event ''override.create'' (entry_author ctx mapped)
          (uuid_to_string (ae_ex (ap_env st)) (oe_id mapped)) (override_to_json (ap_env st) mapped)) (\<lambda>_.
          ret mapped)))))"

definition delete_override ::
  "admin_state \<Rightarrow> api_user_context \<Rightarrow> uuid \<Rightarrow> (override_tables, unit) route" where
  "delete_override st ctx i =
     tbind (guard_roles ctx ROLE_OVERRIDES_DELETE) (\<lambda>_.
     tbind (db_route (delete_where (\<lambda>r. oe_id r = i))) (\<lambda>deleted.
     case deleted of
       [] \<Rightarrow> raise (404, (''NOT_FOUND'', ''override not found''))
     | r # _ \<Rightarrow>
         tbind (state_invalidate_override st (oe_scope_type r) (oe_scope_value r)) (\<lambda>_.
         log_override_event ''override.delete'' (Some (cx_actor ctx)) (uuid_to_string (ae_ex (ap_env st)) i)
           (JObj [(''scope_type'', JStr (oe_scope_type r)), (''scope_value'', JStr (oe_scope_value r))]))))"

definition override_invalidation_scopes :: "string \<times> string \<Rightarrow> string \<times> string \<Rightarrow> (string \<times> string) list" where
  "override_invalidation_scopes previous updated =
     previous # (if fst previous \<noteq> fst updated \<or> snd previous \<noteq> snd updated then [updated] else [])"

fun invalidate_scopes :: "admin_state \<Rightarrow> (string \<times> string) list \<Rightarrow> (override_tables, 'e + unit) svc" where
  "invalidate_scopes st [] = ret ()"
| "invalidate_scopes st (s # scopes) =
     tbind (state_invalidate_override st (fst s) (snd s)) (\<lambda>_. invalidate_scopes st scopes)"

definition moved :: "validated_override_payload \<Rightarrow> string \<Rightarrow> time \<Rightarrow> override_entry \<Rightarrow> override_entry" where
  "moved v status now r =
     (rewritten v status now r)\<lparr>oe_scope_type := vo_scope_type v, oe_scope_value := vo_scope_value v\<rparr>"

definition update_in_tx ::
  "uuid \<Rightarrow> validated_override_payload \<Rightarrow> (override_tables, (string \<times> string) \<times> override_entry) route" where
  "update_in_tx i v =
     tbind (db_route (ovr_read (find (\<lambda>r. oe_id r = i)))) (\<lambda>existing.
     case existing of
       None \<Rightarrow> raise (404, (''NOT_FOUND'', ''override not found''))
     | Some previous \<Rightarrow>
         (let next_status = (case vo_status v of Some s \<Rightarrow> s | None \<Rightarrow> oe_status previous)
          in tbind (if eq_ignore_ascii_case next_status ''active''
               then db_route (update_where (\<lambda>r. oe_scope_type r = vo_scope_type v \<and> oe_scope_value r = vo_scope_value v \<and>
                 oe_status r = ''active'' \<and> oe_id r \<noteq> i) revoked)
               else ret ()) (\<lambda>_.
             tbind (db_route (update_returning i (moved v next_status))) (\<lambda>row.
             case row of
               None \<Rightarrow> raise (404, (''NOT_FOUND'', ''override not found''))
             | Some mapped \<Rightarrow> ret (oe_scope previous, mapped)))))"

definition update_override ::
  "admin_state \<Rightarrow> api_user_context \<Rightarrow> uuid \<Rightarrow> override_upsert_request \<Rightarrow> (override_tables, override_entry) route" where
  "update_override st ctx i payload =
     tbind (guard_roles ctx ROLE_OVERRIDES_WRITE) (\<lambda>_.
     tbind (svc_return (validate_override_payload (with_author ctx payload))) (\<lambda>v.
     tbind (route_tx (update_in_tx i v)) (\<lambda>(previous, mapped).
     tbind (invalidate_scopes st (override_invalidation_scopes previous (oe_scope mapped))) (\<lambda>_.
     tbind (log_override_event ''override.update'' (entry_author ctx mapped)
       (uuid_to_string (ae_ex (ap_env st)) (oe_id mapped)) (override_to_json (ap_env st) mapped)) (\<lambda>_.
       ret mapped)))))"

section \<open>Import\<close>

record override_import_request =
  mq_action :: string
  mq_mode :: "string option"
  mq_dry_run :: "bool option"
  mq_content :: string

record override_import_response =
  mr_action :: string
  mr_mode :: string
  mr_dry_run :: bool
  mr_total_lines :: nat
  mr_parsed :: nat
  mr_duplicates :: nat
  mr_imported :: nat
  mr_updated :: nat
  mr_deleted :: nat
  mr_skipped :: nat
  mr_invalid :: nat
  mr_invalid_lines :: "override_import_invalid_line list"

definition import_response_to_json :: "override_import_response \<Rightarrow> json" where
  "import_response_to_json m =
     JObj [(''action'', JStr (mr_action m)), (''mode'', JStr (mr_mode m)), (''dry_run'', JBool (mr_dry_run m)),
       (''total_lines'', JInt (int (mr_total_lines m))), (''parsed'', JInt (int (mr_parsed m))),
       (''duplicates'', JInt (int (mr_duplicates m))), (''imported'', JInt (int (mr_imported m))),
       (''updated'', JInt (int (mr_updated m))), (''deleted'', JInt (int (mr_deleted m))),
       (''skipped'', JInt (int (mr_skipped m))), (''invalid'', JInt (int (mr_invalid m))),
       (''invalid_lines'', JArr (map (\<lambda>l. JObj [(''line_number'', JInt (int (il_line_number l))),
          (''value'', JStr (il_value l)), (''error'', JStr (il_error l))]) (mr_invalid_lines m)))]"

text \<open>What the handler remembers of the rows there are: a scope's active row, the newest row of a scope and an action.\<close>

record import_index =
  ix_active :: "string \<rightharpoonup> uuid \<times> string"
  ix_latest :: "string \<times> string \<rightharpoonup> uuid"
  ix_scopes :: "string \<Rightarrow> string list"
  ix_duplicates :: "uuid list"

definition index_row :: "override_entry \<Rightarrow> import_index \<Rightarrow> import_index" where
  "index_row r ix =
     (let key = (oe_scope_value r, oe_action r);
          ix = (case ix_latest ix key of None \<Rightarrow> ix\<lparr>ix_latest := (ix_latest ix)(key \<mapsto> oe_id r)\<rparr> | Some _ \<Rightarrow> ix)
      in if \<not> eq_ignore_ascii_case (oe_status r) ''active'' then ix
         else if ix_active ix (oe_scope_value r) \<noteq> None then ix\<lparr>ix_duplicates := ix_duplicates ix @ [oe_id r]\<rparr>
         else ix\<lparr>ix_scopes := (ix_scopes ix)(oe_action r := List.insert (oe_scope_value r) (ix_scopes ix (oe_action r))),
                 ix_active := (ix_active ix)(oe_scope_value r \<mapsto> (oe_id r, oe_action r))\<rparr>)"

definition build_index :: "override_entry list \<Rightarrow> import_index" where
  "build_index rows =
     fold index_row rows \<lparr>ix_active = Map.empty, ix_latest = Map.empty, ix_scopes = (\<lambda>_. []), ix_duplicates = []\<rparr>"

definition known_scope :: "import_index \<Rightarrow> string \<Rightarrow> string \<Rightarrow> bool" where
  "known_scope ix action scope_value \<longleftrightarrow>
     ix_active ix scope_value \<noteq> None \<or> ix_latest ix (scope_value, action) \<noteq> None"

definition deleted_would :: "import_index \<Rightarrow> override_import_mode \<Rightarrow> string \<Rightarrow> string list \<Rightarrow> nat" where
  "deleted_would ix mode action scopes =
     (if mode = Replace then length (filter (\<lambda>s. s \<notin> set scopes) (ix_scopes ix action)) else 0)"

definition import_reason :: string where "import_reason = ''Imported via Allow / Deny Exchange''"

definition imported_again :: "api_user_context \<Rightarrow> string \<Rightarrow> time \<Rightarrow> override_entry \<Rightarrow> override_entry" where
  "imported_again ctx action now r =
     r\<lparr>oe_action := action, oe_reason := Some import_reason, oe_created_by := Some (cx_actor ctx),
       oe_expires_at := None, oe_status := ''active'', oe_updated_at := now\<rparr>"

definition imported_entry :: "api_user_context \<Rightarrow> string \<Rightarrow> string \<Rightarrow> uuid \<Rightarrow> time \<Rightarrow> override_entry" where
  "imported_entry ctx action scope_value i now =
     \<lparr>oe_id = i, oe_scope_type = ''domain'', oe_scope_value = scope_value, oe_action = action,
      oe_reason = Some import_reason, oe_created_by = Some (cx_actor ctx), oe_expires_at = None,
      oe_status = ''active'', oe_created_at = now, oe_updated_at = now\<rparr>"

record import_run =
  ir_index :: import_index
  ir_imported :: nat
  ir_updated :: nat

definition set_active :: "string \<Rightarrow> uuid \<Rightarrow> string \<Rightarrow> import_run \<Rightarrow> import_run" where
  "set_active scope_value i action run =
     run\<lparr>ir_index := (ir_index run)\<lparr>ix_active := (ix_active (ir_index run))(scope_value \<mapsto> (i, action)),
       ix_latest := (ix_latest (ir_index run))((scope_value, action) \<mapsto> i)\<rparr>\<rparr>"

text \<open>One line of an import; the caches are invalidated before the transaction is committed.\<close>

definition import_scope ::
  "admin_state \<Rightarrow> api_user_context \<Rightarrow> string \<Rightarrow> string \<Rightarrow> import_run \<Rightarrow> (override_tables, import_run) route" where
  "import_scope st ctx action scope_value run =
     tbind
       (case (case ix_active (ir_index run) scope_value of
                Some (active_id, _) \<Rightarrow> Some active_id
              | None \<Rightarrow> ix_latest (ir_index run) (scope_value, action)) of
          Some i \<Rightarrow>
            tbind (db_route (update_where (\<lambda>r. oe_id r = i) (imported_again ctx action))) (\<lambda>_.
              ret (set_active scope_value i action (run\<lparr>ir_updated := Suc (ir_updated run)\<rparr>)))
        | None \<Rightarrow>
            tbind (lift_svc svc_uuid) (\<lambda>i.
            tbind (db_route (insert_override (imported_entry ctx action scope_value i))) (\<lambda>_.
              ret (set_active scope_value i action (run\<lparr>ir_imported := Suc (ir_imported run)\<rparr>))))) (\<lambda>run.
     tbind (state_invalidate_override st ''domain'' scope_value) (\<lambda>_. ret run))"

fun import_scopes ::
  "admin_state \<Rightarrow> api_user_context \<Rightarrow> string \<Rightarrow> string list \<Rightarrow> import_run \<Rightarrow> (override_tables, import_run) route" where
  "import_scopes st ctx action [] run = ret run"
| "import_scopes st ctx action (s # scopes) run =
     tbind (import_scope st ctx action s run) (import_scopes st ctx action scopes)"

definition import_deletes ::
  "admin_state \<Rightarrow> override_import_mode \<Rightarrow> string \<Rightarrow> string list \<Rightarrow> (override_tables, nat) route" where
  "import_deletes st mode action scopes =
     (if mode = Replace then
        tbind (db_route (delete_where (\<lambda>r. oe_scope_type r = ''domain'' \<and> oe_action r = action \<and>
          oe_status r = ''active'' \<and> (scopes = [] \<or> oe_scope_value r \<notin> set scopes)))) (\<lambda>removed.
        tbind (invalidate_scopes st (map oe_scope removed)) (\<lambda>_. ret (length removed)))
      else ret 0)"

definition import_in_tx ::
  "admin_state \<Rightarrow> api_user_context \<Rightarrow> string \<Rightarrow> override_import_mode \<Rightarrow> string list \<Rightarrow> import_index \<Rightarrow>
   (override_tables, import_run \<times> nat) route" where
  "import_in_tx st ctx action mode scopes ix =
     tbind (if ix_duplicates ix \<noteq> [] then db_route (update_where (\<lambda>r. oe_id r \<in> set (ix_duplicates ix)) revoked)
            else ret ()) (\<lambda>_.
     tbind (import_scopes st ctx action scopes \<lparr>ir_index = ix, ir_imported = 0, ir_updated = 0\<rparr>) (\<lambda>run.
     tbind (import_deletes st mode action scopes) (\<lambda>deleted. ret (run, deleted))))"

definition import_overrides ::
  "admin_state \<Rightarrow> api_user_context \<Rightarrow> override_import_request \<Rightarrow> (override_tables, override_import_response) route" where
  "import_overrides st ctx payload =
     tbind (guard_roles ctx ROLE_OVERRIDES_WRITE) (\<lambda>_.
     tbind (svc_return (normalize_action (mq_action payload))) (\<lambda>action.
     tbind (svc_return (normalize_override_import_mode (mq_mode payload))) (\<lambda>mode.
     let dry_run = (case mq_dry_run payload of None \<Rightarrow> True | Some b \<Rightarrow> b);
         parsed = parse_override_exchange_lines (mq_content payload);
         scopes = pi_scopes parsed
     in tbind (db_route (ovr_read (\<lambda>rows. sort_key (\<lambda>r. ae_collate (ap_env st) (oe_scope_value r))
          (latest_first (filter (\<lambda>r. oe_scope_type r = ''domain'') rows))))) (\<lambda>existing.
        let ix = build_index existing
        in tbind (if \<not> dry_run
             then tbind (route_tx (import_in_tx st ctx action mode scopes ix)) (\<lambda>(run, deleted).
                    ret (ir_imported run, ir_updated run, deleted))
             else ret (length (filter (\<lambda>s. \<not> known_scope ix action s) scopes),
                       length (filter (known_scope ix action) scopes), deleted_would ix mode action scopes))
             (\<lambda>(imported, updated, deleted).
           let response = \<lparr>mr_action = action, mr_mode = import_mode_str mode, mr_dry_run = dry_run,
                 mr_total_lines = pi_total_lines parsed, mr_parsed = length scopes,
                 mr_duplicates = pi_duplicates parsed, mr_imported = imported, mr_updated = updated,
                 mr_deleted = deleted, mr_skipped = 0, mr_invalid = length (pi_invalid_lines parsed),
                 mr_invalid_lines = pi_invalid_lines parsed\<rparr>
           in tbind (log_override_event (''override.import.'' @ action) (Some (cx_actor ctx)) action
                (import_response_to_json response)) (\<lambda>_. ret response))))))"

section \<open>Requests\<close>

datatype override_command =
    CreateOverride override_upsert_request
  | UpdateOverride uuid override_upsert_request
  | DeleteOverride uuid
  | ImportOverrides override_import_request

definition discard_value :: "('t, 'a) route \<Rightarrow> ('t, unit) route" where
  "discard_value m = tbind m (\<lambda>_. ret ())"

fun override_dispatch :: "admin_state \<Rightarrow> api_user_context \<Rightarrow> override_command \<Rightarrow> (override_tables, unit) route" where
  "override_dispatch st ctx (CreateOverride p) = discard_value (create_override st ctx p)"
| "override_dispatch st ctx (UpdateOverride i p) = discard_value (update_override st ctx i p)"
| "override_dispatch st ctx (DeleteOverride i) = delete_override st ctx i"
| "override_dispatch st ctx (ImportOverrides p) = discard_value (import_overrides st ctx p)"

end
