(* ===== verification/Override_Run.thy ===== *)
theory Override_Run
  imports Admin_Overrides
begin

text \<open>
  Laws of the statements behind the override routes: what a success says, what stays when a transaction
  fails, and that the invalidation of caches and the audit log neither stop a request nor touch the overrides.
\<close>

section \<open>Outcomes\<close>

lemma ok_ovr_read [ok_iff]:
  "ovr_read f w = (Inr y, w') \<longleftrightarrow>
     \<not> sb_fails w (sb_ops w) \<and> y = f (ot_overrides (ovr_of w)) \<and> w' = w\<lparr>sb_ops := Suc (sb_ops w)\<rparr>"
  by (auto simp: ovr_read_def svc_query_def svc_op_def)

lemma ok_ovr_write [ok_iff]:
  "ovr_write f w = (Inr y, w') \<longleftrightarrow>
     \<not> sb_fails w (sb_ops w) \<and> ovr_ok (snd (f (sb_now w) (ovr_of w))) \<and> y = fst (f (sb_now w) (ovr_of w)) \<and>
     w' = svc_base.more_update (\<lambda>_. snd (f (sb_now w) (ovr_of w))) (w\<lparr>sb_ops := Suc (sb_ops w)\<rparr>)"
  by (auto simp: ovr_write_def svc_stmt_def split: prod.splits)

lemma run_ovr_read [run]:
  "svc_reliable w \<Longrightarrow> sql (ovr_read f) w = (Inr (Inr (f (ot_overrides (ovr_of w)))), w\<lparr>sb_ops := Suc (sb_ops w)\<rparr>)"
  by (simp add: sql_def svc_try_def ovr_read_def svc_query_def svc_op_def)

lemma run_ovr_write [run]:
  "svc_reliable w \<Longrightarrow> sql (ovr_write f) w =
     (let r = f (sb_now w) (ovr_of w); w' = w\<lparr>sb_ops := Suc (sb_ops w)\<rparr>
      in if ovr_ok (snd r) then (Inr (Inr (fst r)), svc_base.more_update (\<lambda>_. snd r) w')
         else (Inr (Inl ''constraint violated''), w'))"
  by (simp add: sql_def svc_try_def ovr_write_def svc_stmt_def Let_def split: prod.split)

lemma ok_exec [ok_iff]:
  "svc_exec f w = (Inr u, w') \<longleftrightarrow> \<not> sb_fails w (sb_ops w) \<and> w' = f (w\<lparr>sb_ops := Suc (sb_ops w)\<rparr>)"
  by (auto simp: svc_exec_def svc_op_def)

lemma ok_route_tx [ok_iff]:
  "route_tx m w = (Inr (Inr y), w') \<longleftrightarrow>
     \<not> sb_fails w (sb_ops w) \<and> (\<exists>v. m (w\<lparr>sb_ops := Suc (sb_ops w)\<rparr>) = (Inr (Inr y), v) \<and>
       \<not> sb_fails v (sb_ops v) \<and> w' = v\<lparr>sb_ops := Suc (sb_ops v)\<rparr>)"
proof -
  let ?m = "tbind (db_route (svc_exec id)) (\<lambda>_. tbind m (\<lambda>x. tbind (db_route (svc_exec id)) (\<lambda>_. ret x)))"
  have "route_tx m w = (Inr (Inr y), w') \<longleftrightarrow> ?m w = (Inr (Inr y), w')"
    by (cases "?m w") (auto simp: route_tx_def split: sum.splits)
  then show ?thesis by (auto simp: ok_iff)
qed

text \<open>A transaction that does not commit leaves the tables as they were.\<close>

lemma route_tx_refused:
  assumes "route_tx m w = (r, w')" "\<And>y. r \<noteq> Inr (Inr y)"
  shows "ovr_of w' = ovr_of w"
  using assms by (auto simp: route_tx_def split: prod.splits sum.splits)

section \<open>Steps that cannot fail a request\<close>

definition harmless :: "(override_tables, 'e + unit) svc \<Rightarrow> bool" where
  "harmless m \<longleftrightarrow> (\<forall>w. \<exists>w'. m w = (Inr (Inr ()), w') \<and> ot_overrides (ovr_of w') = ot_overrides (ovr_of w) \<and>
     (ovr_ok (ovr_of w) \<longrightarrow> ovr_ok (ovr_of w')) \<and> sb_fails w' = sb_fails w \<and> sb_now w' = sb_now w)"

lemma harmlessE:
  assumes "harmless m"
  obtains w' where "m w = (Inr (Inr ()), w')" "ot_overrides (ovr_of w') = ot_overrides (ovr_of w)"
    "ovr_ok (ovr_of w) \<Longrightarrow> ovr_ok (ovr_of w')" "sb_fails w' = sb_fails w" "sb_now w' = sb_now w"
  using assms unfolding harmless_def by blast

lemma harmlessD:
  assumes "harmless m" "m w = (r, w')"
  shows "r = Inr (Inr ())" "ot_overrides (ovr_of w') = ot_overrides (ovr_of w)"
    "ovr_ok (ovr_of w) \<Longrightarrow> ovr_ok (ovr_of w')" "sb_fails w' = sb_fails w" "sb_now w' = sb_now w"
  using assms by (auto elim!: harmlessE [of m w])

lemma harmless_ret: "harmless (ret ())"
  by (simp add: harmless_def run)

lemma harmless_tbind:
  assumes "harmless m" "harmless n"
  shows "harmless (tbind m (\<lambda>_. n))"
  unfolding harmless_def
proof
  fix w
  obtain v where v: "m w = (Inr (Inr ()), v)" "ot_overrides (ovr_of v) = ot_overrides (ovr_of w)"
    "ovr_ok (ovr_of w) \<Longrightarrow> ovr_ok (ovr_of v)" "sb_fails v = sb_fails w" "sb_now v = sb_now w"
    using harmlessE [OF assms(1), of w] by blast
  obtain w' where "n v = (Inr (Inr ()), w')" "ot_overrides (ovr_of w') = ot_overrides (ovr_of v)"
    "ovr_ok (ovr_of v) \<Longrightarrow> ovr_ok (ovr_of w')" "sb_fails w' = sb_fails v" "sb_now w' = sb_now v"
    using harmlessE [OF assms(2), of v] by blast
  with v show "\<exists>w'. tbind m (\<lambda>_. n) w = (Inr (Inr ()), w') \<and> ot_overrides (ovr_of w') = ot_overrides (ovr_of w) \<and>
      (ovr_ok (ovr_of w) \<longrightarrow> ovr_ok (ovr_of w')) \<and> sb_fails w' = sb_fails w \<and> sb_now w' = sb_now w"
    by (simp add: run)
qed

text \<open>Commands of the invalidator fail with an error, never with a panic.\<close>

definition inv_calm :: "'a inv \<Rightarrow> bool" where
  "inv_calm m \<longleftrightarrow> (\<forall>w. (\<forall>p. fst (m w) \<noteq> Inl (Panic p)) \<and> iw_fails (snd (m w)) = iw_fails w)"

lemma inv_calm_cmd: "(\<And>w. iw_fails (snd (f w)) = iw_fails w) \<Longrightarrow> inv_calm (inv_cmd msg f)"
  by (simp add: inv_calm_def inv_cmd_def Let_def case_prod_beta)

lemma inv_calm_return: "inv_calm (inv_return x)"
  by (simp add: inv_calm_def inv_return_def)

lemma inv_calm_bind:
  assumes "inv_calm m" "\<And>x. inv_calm (f x)"
  shows "inv_calm (inv_bind m f)"
  unfolding inv_calm_def
proof
  fix w
  obtain r v where m: "m w = (r, v)" by fastforce
  with assms(1) have r: "\<forall>p. r \<noteq> Inl (Panic p)" "iw_fails v = iw_fails w"
    unfolding inv_calm_def by (metis fst_conv, metis snd_conv)
  show "(\<forall>p. fst (inv_bind m f w) \<noteq> Inl (Panic p)) \<and> iw_fails (snd (inv_bind m f w)) = iw_fails w"
  proof (cases r)
    case (Inr x)
    with m r(2) assms(2) [of x] show ?thesis by (simp add: inv_bind_def inv_calm_def)
  qed (use m r in \<open>simp add: inv_bind_def\<close>)
qed

lemmas inv_calm_intros = inv_calm_cmd inv_calm_return inv_calm_bind

lemma inv_calm_basic: "inv_calm inv_connect" "inv_calm (inv_del ks)"
  unfolding inv_connect_def inv_del_def by (auto intro!: inv_calm_cmd)

lemma inv_calm_delete_key: "inv_calm (inv_delete_key key)"
  by (auto simp: inv_delete_key_def intro!: inv_calm_intros inv_calm_basic)

lemma inv_calm_scan: "inv_calm (scan_loop pages)"
  by (induction pages) (auto intro!: inv_calm_intros inv_calm_basic)

lemma inv_calm_pattern: "inv_calm (inv_delete_pattern srv pat)"
proof -
  have "inv_calm (\<lambda>w. scan_loop (rs_pages srv (iw_redis w) pat) w)"
    using inv_calm_scan by (simp add: inv_calm_def)
  then show ?thesis by (auto simp: inv_delete_pattern_def intro!: inv_calm_intros inv_calm_basic)
qed

lemma inv_calm_invalidate: "inv_calm (admin_invalidate_override ex srv ty v)"
  by (auto simp: admin_invalidate_override_def delete_scope_def delete_domain_scope_def flush_domain_entries_def
      inv_publish_def Let_def intro!: inv_calm_bind inv_calm_cmd inv_calm_basic inv_calm_pattern inv_calm_delete_key)

lemma harmless_inv:
  assumes "inv_calm m"
  shows "harmless (best_effort (svc_inv channel m))"
  unfolding harmless_def
proof
  fix w :: "override_tables svc_base_scheme"
  let ?v = "\<lparr>iw_redis = sb_redis w, iw_published = [], iw_cmds = sb_ops w, iw_fails = sb_fails w\<rparr>"
  obtain r v where m: "m ?v = (r, v)" by fastforce
  then have "\<forall>p. r \<noteq> Inl (Panic p)" using assms unfolding inv_calm_def by (metis fst_conv)
  then show "\<exists>w'. best_effort (svc_inv channel m) w = (Inr (Inr ()), w') \<and>
      ot_overrides (ovr_of w') = ot_overrides (ovr_of w) \<and> (ovr_ok (ovr_of w) \<longrightarrow> ovr_ok (ovr_of w')) \<and>
      sb_fails w' = sb_fails w \<and> sb_now w' = sb_now w"
    by (cases r rule: sum.exhaust) (auto simp: best_effort_def svc_ignore_def svc_bind_def svc_try_def svc_inv_def m ret_def
        svc_return_def split: error.splits sum.splits)
qed

lemma harmless_invalidate: "harmless (state_invalidate_override st ty v)"
  by (simp add: state_invalidate_override_def harmless_ret harmless_inv inv_calm_invalidate split: option.split)

lemma harmless_invalidate_scopes: "harmless (invalidate_scopes st scopes)"
  by (induction scopes) (simp_all add: harmless_ret harmless_tbind harmless_invalidate)

lemma harmless_log: "harmless (log_override_event action actor target payload)"
  by (auto simp: harmless_def log_override_event_def run best_effort_def svc_ignore_def svc_bind_def svc_try_def
      ovr_write_def svc_stmt_def svc_return_def ovr_ok_def)

lemmas harmless_intros = harmless_ret harmless_tbind harmless_invalidate harmless_invalidate_scopes harmless_log

section \<open>The table as a map\<close>

text \<open>What the table says: the action of the active override of a scope.\<close>

definition active_map :: "override_entry list \<Rightarrow> string \<times> string \<rightharpoonup> string" where
  "active_map rows s = map_option oe_action (find (\<lambda>r. oe_active r \<and> oe_scope r = s) rows)"

lemma active_unique:
  assumes "overrides_ok rows" "r \<in> set rows" "r' \<in> set rows" "oe_active r" "oe_active r'" "oe_scope r = oe_scope r'"
  shows "r = r'"
proof -
  have "inj_on oe_scope (set (filter oe_active rows))"
    using assms(1) by (simp add: overrides_ok_def distinct_map)
  with assms(2-) show ?thesis by (auto dest: inj_onD)
qed

lemma id_unique: "overrides_ok rows \<Longrightarrow> r \<in> set rows \<Longrightarrow> r' \<in> set rows \<Longrightarrow> oe_id r = oe_id r' \<Longrightarrow> r = r'"
  by (auto simp: overrides_ok_def distinct_map dest: inj_onD)

lemma active_map_Some:
  assumes "overrides_ok rows"
  shows "active_map rows s = Some a \<longleftrightarrow> (\<exists>r \<in> set rows. oe_active r \<and> oe_scope r = s \<and> oe_action r = a)"
proof
  assume "active_map rows s = Some a"
  then show "\<exists>r \<in> set rows. oe_active r \<and> oe_scope r = s \<and> oe_action r = a"
    by (auto simp: active_map_def dest!: find_Some_mem)
next
  assume "\<exists>r \<in> set rows. oe_active r \<and> oe_scope r = s \<and> oe_action r = a"
  then obtain r where r: "r \<in> set rows" "oe_active r" "oe_scope r = s" "oe_action r = a" by blast
  then obtain x where x: "find (\<lambda>r. oe_active r \<and> oe_scope r = s) rows = Some x"
    by (cases "find (\<lambda>r. oe_active r \<and> oe_scope r = s) rows") (auto simp: find_None_iff_ball)
  with find_Some_mem [OF x] r active_unique [OF assms] have "x = r" by auto
  with x r show "active_map rows s = Some a" by (simp add: active_map_def)
qed

lemma active_map_eqI:
  assumes "overrides_ok rows"
    and "\<And>s a. (\<exists>r \<in> set rows. oe_active r \<and> oe_scope r = s \<and> oe_action r = a) \<longleftrightarrow> m s = Some a"
  shows "active_map rows = m"
proof
  fix s
  show "active_map rows s = m s"
    using active_map_Some [OF assms(1), of s] assms(2) [of s] by (metis not_Some_eq)
qed

definition update_row :: "uuid \<Rightarrow> (override_entry \<Rightarrow> override_entry) \<Rightarrow> override_entry list \<Rightarrow> override_entry list" where
  "update_row i f rows = map (\<lambda>r. if oe_id r = i then f r else r) rows"

lemma set_update_row:
  assumes "overrides_ok rows" "r \<in> set rows" "oe_id r = i"
  shows "set (update_row i f rows) = insert (f r) (set rows - {r})"
proof -
  have eq: "oe_id x = i \<longleftrightarrow> x = r" if "x \<in> set rows" for x using that assms id_unique by blast
  have "update_row i f rows = map (\<lambda>x. if x = r then f r else x) rows"
    unfolding update_row_def by (rule map_cong) (simp_all add: eq)
  with assms(2) show ?thesis by auto
qed

lemma active_map_update:
  assumes "overrides_ok rows" "overrides_ok (update_row i f rows)" "r \<in> set rows" "oe_id r = i"
  shows "active_map (update_row i f rows) =
    (let m = (if oe_active r then (active_map rows)(oe_scope r := None) else active_map rows)
     in if oe_active (f r) then m(oe_scope (f r) \<mapsto> oe_action (f r)) else m)"
  (is "_ = ?m")
proof (rule active_map_eqI [OF assms(2)])
  fix s a
  have u: "x = f r" if "x \<in> set (update_row i f rows)" "oe_active x" "oe_active (f r)" "oe_scope x = oe_scope (f r)" for x
    using active_unique [OF assms(2), of x "f r"] that set_update_row [OF assms(1,3,4), of f] by auto
  have v: "x = r" if "x \<in> set rows" "oe_active x" "oe_active r" "oe_scope x = oe_scope r" for x
    using active_unique [OF assms(1)] assms(3) that by blast
  have "(\<exists>x \<in> set (update_row i f rows). oe_active x \<and> oe_scope x = s \<and> oe_action x = a) \<longleftrightarrow>
      (if oe_active (f r) \<and> s = oe_scope (f r) then a = oe_action (f r)
       else \<exists>x \<in> set rows - {r}. oe_active x \<and> oe_scope x = s \<and> oe_action x = a)"
    using u unfolding set_update_row [OF assms(1,3,4)] by auto
  moreover have "(\<exists>x \<in> set rows - {r}. oe_active x \<and> oe_scope x = s \<and> oe_action x = a) \<longleftrightarrow>
      (if oe_active r \<and> s = oe_scope r then False else active_map rows s = Some a)"
    using v unfolding active_map_Some [OF assms(1)] by auto
  ultimately show "(\<exists>x \<in> set (update_row i f rows). oe_active x \<and> oe_scope x = s \<and> oe_action x = a) \<longleftrightarrow> ?m s = Some a"
    by (simp add: Let_def) metis
qed

lemma active_map_insert:
  assumes "overrides_ok (rows @ [r])"
  shows "active_map (rows @ [r]) =
    (if oe_active r then (active_map rows)(oe_scope r \<mapsto> oe_action r) else active_map rows)" (is "_ = ?m")
proof (rule active_map_eqI [OF assms])
  fix s a
  have ok: "overrides_ok rows" using assms by (auto simp: overrides_ok_def split: if_splits)
  have "x = r" if "x \<in> set rows" "oe_active x" "oe_active r" "oe_scope x = oe_scope r" for x
    using active_unique [OF assms, of x r] that by simp
  then show "(\<exists>x \<in> set (rows @ [r]). oe_active x \<and> oe_scope x = s \<and> oe_action x = a) \<longleftrightarrow> ?m s = Some a"
    using active_map_Some [OF ok, of s a] by auto
qed

lemma overrides_ok_filter: "overrides_ok rows \<Longrightarrow> overrides_ok (filter P rows)"
  by (auto simp: overrides_ok_def distinct_map inj_on_def filter_filter)

lemma active_map_delete:
  assumes "overrides_ok rows"
  shows "active_map (filter (\<lambda>r. \<not> P r) rows) s =
    (if \<exists>r \<in> set rows. P r \<and> oe_active r \<and> oe_scope r = s then None else active_map rows s)"
proof -
  have "active_map (filter (\<lambda>r. \<not> P r) rows) =
      (\<lambda>s. if \<exists>r \<in> set rows. P r \<and> oe_active r \<and> oe_scope r = s then None else active_map rows s)" (is "_ = ?m")
  proof (rule active_map_eqI [OF overrides_ok_filter [OF assms]])
    fix s a
    show "(\<exists>r \<in> set (filter (\<lambda>r. \<not> P r) rows). oe_active r \<and> oe_scope r = s \<and> oe_action r = a) \<longleftrightarrow> ?m s = Some a"
      using active_map_Some [OF assms, of s a] active_unique [OF assms] by auto
  qed
  then show ?thesis by simp
qed

end
