(* ===== verification/Override_Correct.thy ===== *)
theory Override_Correct
  imports Override_Run
begin

text \<open>
  The override routes implement a map from scopes to actions.  Every command that succeeds changes the map
  the way its request says, every command that does not leaves the table as it was, and the table keeps
  its invariant.
\<close>

section \<open>The invariant\<close>

definition entry_ok :: "override_entry \<Rightarrow> bool" where
  "entry_ok r \<longleftrightarrow> oe_scope_type r = ''domain'' \<and> canonical_scope (oe_scope_value r) \<and>
     oe_action r \<in> set ALLOWED_ACTIONS \<and> oe_status r \<in> set ALLOWED_STATUSES"

definition overrides_inv :: "override_tables \<Rightarrow> bool" where
  "overrides_inv t \<longleftrightarrow> ovr_ok t \<and> list_all entry_ok (ot_overrides t)"

lemma overrides_invD:
  assumes "overrides_inv t"
  shows "ovr_ok t" "overrides_ok (ot_overrides t)" "\<forall>r \<in> set (ot_overrides t). entry_ok r"
  using assms by (simp_all add: overrides_inv_def ovr_ok_def list_all_iff)

lemma harmless_inv_kept:
  assumes "harmless m" "m w = (r, w')" "overrides_inv (ovr_of w)"
  shows "overrides_inv (ovr_of w')" "ot_overrides (ovr_of w') = ot_overrides (ovr_of w)"
  using harmlessD [OF assms(1,2)] assms(3) by (simp_all add: overrides_inv_def)

lemma active_status: "s \<in> set ALLOWED_STATUSES \<Longrightarrow> eq_ignore_ascii_case s ''active'' \<longleftrightarrow> s = ''active''"
  by (auto simp: ALLOWED_STATUSES_def eq_ignore_ascii_case_def dest: eq_ignore_length)

lemma active_ok [simp]: "''active'' \<in> set ALLOWED_STATUSES" "''revoked'' \<in> set ALLOWED_STATUSES"
  by (simp_all add: ALLOWED_STATUSES_def)

section \<open>The effect of a command\<close>

definition import_effect ::
  "override_import_mode \<Rightarrow> string \<Rightarrow> string list \<Rightarrow> (string \<times> string \<rightharpoonup> string) \<Rightarrow> (string \<times> string \<rightharpoonup> string)" where
  "import_effect mode action scopes m s =
     (if fst s = ''domain'' \<and> snd s \<in> set scopes then Some action
      else if mode = Replace \<and> fst s = ''domain'' \<and> m s = Some action then None
      else m s)"

definition without :: "override_entry \<Rightarrow> (string \<times> string \<rightharpoonup> string) \<Rightarrow> (string \<times> string \<rightharpoonup> string)" where
  "without r m = (if oe_active r then m(oe_scope r := None) else m)"

definition put ::
  "validated_override_payload \<Rightarrow> string \<Rightarrow> (string \<times> string \<rightharpoonup> string) \<Rightarrow> (string \<times> string \<rightharpoonup> string)" where
  "put v status m = (if status = ''active'' then m((vo_scope_type v, vo_scope_value v) \<mapsto> vo_action v) else m)"

fun command_effect ::
  "override_entry list \<Rightarrow> override_command \<Rightarrow> (string \<times> string \<rightharpoonup> string) \<Rightarrow> (string \<times> string \<rightharpoonup> string)" where
  "command_effect rows (CreateOverride p) m =
     (case validate_override_payload p of
        Inl _ \<Rightarrow> m
      | Inr v \<Rightarrow> put v (case vo_status v of None \<Rightarrow> ''active'' | Some s \<Rightarrow> s) m)"
| "command_effect rows (UpdateOverride i p) m =
     (case (validate_override_payload p, find (\<lambda>r. oe_id r = i) rows) of
        (Inr v, Some r) \<Rightarrow> put v (case vo_status v of None \<Rightarrow> oe_status r | Some s \<Rightarrow> s) (without r m)
      | _ \<Rightarrow> m)"
| "command_effect rows (DeleteOverride i) m =
     (case find (\<lambda>r. oe_id r = i) rows of None \<Rightarrow> m | Some r \<Rightarrow> without r m)"
| "command_effect rows (ImportOverrides p) m =
     (case (normalize_action (mq_action p), normalize_override_import_mode (mq_mode p)) of
        (Inr action, Inr mode) \<Rightarrow>
          if mq_dry_run p = Some False
          then import_effect mode action (pi_scopes (parse_override_exchange_lines (mq_content p))) m
          else m
      | _ \<Rightarrow> m)"

section \<open>Creation\<close>

lemma with_author_fields [simp]:
  "oq_scope_type (with_author ctx p) = oq_scope_type p" "oq_scope_value (with_author ctx p) = oq_scope_value p"
  "oq_action (with_author ctx p) = oq_action p" "oq_reason (with_author ctx p) = oq_reason p"
  "oq_expires_at (with_author ctx p) = oq_expires_at p" "oq_status (with_author ctx p) = oq_status p"
  by (simp_all add: with_author_def)

lemma validate_authored:
  assumes "validate_override_payload p = Inr v"
  shows "validate_override_payload (with_author ctx p) =
    Inr (v\<lparr>vo_created_by := normalize_optional_field (oq_created_by (with_author ctx p))\<rparr>)"
  using assms by (auto simp: validate_override_payload_def bind_res_Inr_iff)

lemma validate_with_author:
  assumes "validate_override_payload (with_author ctx p) = Inr v"
  shows "\<exists>v'. validate_override_payload p = Inr v' \<and> vo_scope_type v' = vo_scope_type v \<and>
    vo_scope_value v' = vo_scope_value v \<and> vo_action v' = vo_action v \<and> vo_status v' = vo_status v"
  using assms
  by (auto simp: validate_override_payload_def bind_res_Inr_iff)

lemma put_cong:
  "vo_scope_type v' = vo_scope_type v \<Longrightarrow> vo_scope_value v' = vo_scope_value v \<Longrightarrow> vo_action v' = vo_action v \<Longrightarrow>
   put v' = put v"
  by (simp add: put_def fun_eq_iff)

text \<open>What a validated payload writes satisfies the invariant of a row.\<close>

definition payload_ok :: "validated_override_payload \<Rightarrow> bool" where
  "payload_ok v \<longleftrightarrow> vo_scope_type v = ''domain'' \<and> canonical_scope (vo_scope_value v) \<and>
     vo_action v \<in> set ALLOWED_ACTIONS \<and> pred_option (\<lambda>s. s \<in> set ALLOWED_STATUSES) (vo_status v)"

lemma validated_ok: "validate_override_payload p = Inr v \<Longrightarrow> payload_ok v"
  by (auto simp: payload_ok_def dest: validated_payload)

lemma new_entry_simps [simp]:
  "oe_scope (new_entry v status i now) = (vo_scope_type v, vo_scope_value v)"
  "oe_action (new_entry v status i now) = vo_action v" "oe_active (new_entry v status i now) \<longleftrightarrow> status = ''active''"
  "oe_id (new_entry v status i now) = i"
  by (simp_all add: new_entry_def oe_scope_def oe_active_def)

lemma new_entry_ok: "payload_ok v \<Longrightarrow> status \<in> set ALLOWED_STATUSES \<Longrightarrow> entry_ok (new_entry v status i now)"
  by (simp add: payload_ok_def entry_ok_def new_entry_def)

lemma rewritten_simps [simp]:
  "oe_scope (rewritten v status now r) = oe_scope r" "oe_action (rewritten v status now r) = vo_action v"
  "oe_active (rewritten v status now r) \<longleftrightarrow> status = ''active''" "oe_id (rewritten v status now r) = oe_id r"
  "oe_status (rewritten v status now r) = status" "oe_expires_at (rewritten v status now r) = vo_expires_at v"
  by (simp_all add: rewritten_def oe_scope_def oe_active_def)

lemma rewritten_ok:
  "payload_ok v \<Longrightarrow> status \<in> set ALLOWED_STATUSES \<Longrightarrow> entry_ok r \<Longrightarrow> entry_ok (rewritten v status now r)"
  by (simp add: payload_ok_def entry_ok_def rewritten_def)

lemma insert_payload_ok:
  assumes "overrides_inv (ovr_of w)" "payload_ok v" "status \<in> set ALLOWED_STATUSES"
    and "insert_payload v status w = (Inr (Inr r), w')"
  shows "overrides_inv (ovr_of w')" "active_map (ot_overrides (ovr_of w')) = put v status (active_map (ot_overrides (ovr_of w)))"
    "r \<in> set (ot_overrides (ovr_of w'))" "oe_scope r = (vo_scope_type v, vo_scope_value v)"
    "oe_action r = vo_action v \<and> oe_status r = status \<and> oe_expires_at r = vo_expires_at v"
proof -
  let ?rows = "ot_overrides (ovr_of w)"
  obtain i where ok: "ovr_ok (ovr_of w')" and
    rows: "ot_overrides (ovr_of w') = ?rows @ [new_entry v status i (sb_now w)]" and r: "r = new_entry v status i (sb_now w)"
    using assms(4) by (auto simp: insert_payload_def insert_override_def ok_iff)
  show "overrides_inv (ovr_of w')"
    using ok assms(1-3) by (simp add: overrides_inv_def rows new_entry_ok)
  show "active_map (ot_overrides (ovr_of w')) = put v status (active_map ?rows)"
    using ok active_map_insert [of ?rows "new_entry v status i (sb_now w)"] by (simp add: rows ovr_ok_def put_def)
  show "r \<in> set (ot_overrides (ovr_of w'))" "oe_scope r = (vo_scope_type v, vo_scope_value v)"
    by (simp_all add: rows r)
  show "oe_action r = vo_action v \<and> oe_status r = status \<and> oe_expires_at r = vo_expires_at v"
    by (simp add: r new_entry_def)
qed

lemma update_row_inv:
  assumes "overrides_inv t" "ovr_ok (t\<lparr>ot_overrides := update_row i f (ot_overrides t)\<rparr>)"
    and "\<And>r. r \<in> set (ot_overrides t) \<Longrightarrow> oe_id r = i \<Longrightarrow> entry_ok (f r)"
  shows "overrides_inv (t\<lparr>ot_overrides := update_row i f (ot_overrides t)\<rparr>)"
  using assms by (auto simp: overrides_inv_def update_row_def list_all_iff)

lemma set_latest_first [simp]: "set (latest_first rows) = set rows" "length (latest_first rows) = length rows"
  by (simp_all add: latest_first_def)

lemma list_at_most_one: "length xs \<le> 1 \<Longrightarrow> xs = [] \<or> (\<exists>x. xs = [x])"
  by (cases xs; cases "tl xs") auto

lemma filter_ConsD: "filter P xs = y # ys \<Longrightarrow> y \<in> set xs \<and> P y"
  by (metis filter_eq_ConsD in_set_conv_decomp)

text \<open>At most one row of a scope is active, so there is nothing to revoke.\<close>

lemma active_ids:
  assumes "overrides_ok rows"
    and "ids = map oe_id (latest_first (filter (\<lambda>r. oe_scope_type r = ty \<and> oe_scope_value r = sv \<and> oe_status r = ''active'') rows))"
  shows "ids = [] \<or> (\<exists>r \<in> set rows. ids = [oe_id r] \<and> oe_active r \<and> oe_scope r = (ty, sv))"
proof -
  let ?P = "\<lambda>r. oe_scope_type r = ty \<and> oe_scope_value r = sv \<and> oe_status r = ''active''"
  have P: "?P r \<longleftrightarrow> oe_active r \<and> oe_scope r = (ty, sv)" for r by (auto simp: oe_active_def oe_scope_def)
  have d: "distinct (filter ?P rows)"
    using assms(1) by (simp add: overrides_ok_def distinct_map distinct_filter)
  have "r = r'" if "r \<in> set (filter ?P rows)" "r' \<in> set (filter ?P rows)" for r r'
  proof -
    have "r \<in> set rows" "r' \<in> set rows" "oe_active r" "oe_active r'" "oe_scope r = oe_scope r'"
      using that P [of r] P [of r'] by simp_all
    then show ?thesis by (rule active_unique [OF assms(1)])
  qed
  then have "card (set (filter ?P rows)) \<le> Suc 0"
    using card_le_Suc0_iff_eq [of "set (filter ?P rows)"] by blast
  then have "length (filter ?P rows) \<le> 1" by (simp only: distinct_card [OF d] One_nat_def)
  then have "filter ?P rows = [] \<or> (\<exists>r. filter ?P rows = [r])"
    by (rule list_at_most_one)
  then show ?thesis
  proof
    assume "\<exists>r. filter ?P rows = [r]"
    then obtain r where r: "filter ?P rows = [r]" by blast
    then have "r \<in> set rows \<and> ?P r" by (rule filter_ConsD)
    with r P [of r] assms(2) show ?thesis by (auto simp: latest_first_def)
  qed (simp add: assms(2) latest_first_def)
qed

lemma upsert_active_ok:
  assumes "overrides_inv (ovr_of w)" "payload_ok v"
    and "upsert_active v ''active'' w = (Inr (Inr r), w')"
  shows "overrides_inv (ovr_of w')"
    "active_map (ot_overrides (ovr_of w')) = put v ''active'' (active_map (ot_overrides (ovr_of w)))"
    "r \<in> set (ot_overrides (ovr_of w'))" "oe_scope r = (vo_scope_type v, vo_scope_value v)"
    "oe_action r = vo_action v \<and> oe_status r = ''active'' \<and> oe_expires_at r = vo_expires_at v"
proof -
  let ?rows = "ot_overrides (ovr_of w)" and ?w = "w\<lparr>sb_ops := Suc (sb_ops w)\<rparr>"
  define ids where "ids = map oe_id (latest_first (filter (\<lambda>r. oe_scope_type r = vo_scope_type v \<and>
    oe_scope_value r = vo_scope_value v \<and> oe_status r = ''active'') ?rows))"
  note ok = overrides_invD [OF assms(1)]
  have "overrides_inv (ovr_of w') \<and>
    active_map (ot_overrides (ovr_of w')) = put v ''active'' (active_map ?rows) \<and>
    r \<in> set (ot_overrides (ovr_of w')) \<and> oe_scope r = (vo_scope_type v, vo_scope_value v) \<and>
    oe_action r = vo_action v \<and> oe_status r = ''active'' \<and> oe_expires_at r = vo_expires_at v"
    using active_ids [OF ok(2) ids_def]
  proof
    assume "ids = []"
    then have "insert_payload v ''active'' ?w = (Inr (Inr r), w')"
      using assms(3) by (auto simp: upsert_active_def ok_iff ids_def [symmetric])
    with insert_payload_ok [of ?w v "''active''" r w'] assms(1,2) show ?thesis by simp
  next
    assume "\<exists>x \<in> set ?rows. ids = [oe_id x] \<and> oe_active x \<and> oe_scope x = (vo_scope_type v, vo_scope_value v)"
    then obtain x where x: "x \<in> set ?rows" "ids = [oe_id x]" "oe_active x"
      "oe_scope x = (vo_scope_type v, vo_scope_value v)" by blast
    let ?f = "rewritten v ''active'' (sb_now w)"
    have f: "find (\<lambda>r. oe_id r = oe_id x) ?rows = Some x"
      using x(1) id_unique [OF ok(2)] find_Some_mem
      by (cases "find (\<lambda>r. oe_id r = oe_id x) ?rows") (force simp: find_None_iff_ball)+
    have t: "ovr_of w' = (ovr_of w)\<lparr>ot_overrides := update_row (oe_id x) ?f ?rows\<rparr>" "r = ?f x" "ovr_ok (ovr_of w')"
      using assms(3) f by (auto simp: upsert_active_def ok_iff ids_def [symmetric] x(2) update_returning_def update_row_def)
    have "overrides_inv (ovr_of w')"
      using update_row_inv [OF assms(1)] t ok(3) rewritten_ok [OF assms(2) active_ok(1)] by metis
    moreover have "overrides_ok (update_row (oe_id x) ?f ?rows)" using t(1,3) by (simp add: ovr_ok_def)
    then have "active_map (ot_overrides (ovr_of w')) = put v ''active'' (active_map ?rows)"
      using active_map_update [OF ok(2) _ x(1) refl, of ?f] x(3,4) t(1) by (simp add: put_def)
    moreover have "r \<in> set (ot_overrides (ovr_of w'))"
      using t(1,2) set_update_row [OF ok(2) x(1) refl, of ?f] by simp
    ultimately show ?thesis using t(2) x(4) by simp
  qed
  then show "overrides_inv (ovr_of w')"
    "active_map (ot_overrides (ovr_of w')) = put v ''active'' (active_map ?rows)"
    "r \<in> set (ot_overrides (ovr_of w'))" "oe_scope r = (vo_scope_type v, vo_scope_value v)"
    "oe_action r = vo_action v \<and> oe_status r = ''active'' \<and> oe_expires_at r = vo_expires_at v" by simp_all
qed

text \<open>
  A handler is a check of the request, one change of the table, and steps that cannot fail it.  When the
  change is refused the table stays.
\<close>

definition settled ::
  "(override_entry list \<Rightarrow> bool) \<Rightarrow> (override_entry list \<Rightarrow> override_entry list \<Rightarrow> bool) \<Rightarrow> (override_tables, 'a) route \<Rightarrow> bool" where
  "settled P Q m \<longleftrightarrow> (\<forall>w r w'. overrides_inv (ovr_of w) \<longrightarrow> P (ot_overrides (ovr_of w)) \<longrightarrow> m w = (r, w') \<longrightarrow>
     (case r of
        Inr (Inr _) \<Rightarrow> overrides_inv (ovr_of w') \<and> Q (ot_overrides (ovr_of w)) (ot_overrides (ovr_of w'))
      | _ \<Rightarrow> ot_overrides (ovr_of w') = ot_overrides (ovr_of w)))"

lemma settledD:
  assumes "settled P Q m" "overrides_inv (ovr_of w)" "P (ot_overrides (ovr_of w))" "m w = (r, w')"
  shows "case r of Inr (Inr _) \<Rightarrow> overrides_inv (ovr_of w') \<and> Q (ot_overrides (ovr_of w)) (ot_overrides (ovr_of w'))
    | _ \<Rightarrow> ot_overrides (ovr_of w') = ot_overrides (ovr_of w)"
  using assms unfolding settled_def by blast

lemma settled_guard:
  assumes "settled P Q m"
  shows "settled P Q (tbind (guard_roles ctx roles) (\<lambda>_. m))"
  using assms by (auto simp: settled_def run)

lemma settled_check:
  assumes "\<And>v. c = Inr v \<Longrightarrow> settled P Q (f v)"
  shows "settled P Q (tbind (svc_return c) f)"
  using assms by (cases c) (auto simp: settled_def run svc_return_def)

text \<open>What follows a transaction may depend on its value.\<close>

lemma settled_tx:
  assumes "\<And>w x w'. overrides_inv (ovr_of w) \<Longrightarrow> P (ot_overrides (ovr_of w)) \<Longrightarrow> m w = (Inr (Inr x), w') \<Longrightarrow>
      overrides_inv (ovr_of w') \<and> Q (ot_overrides (ovr_of w)) (ot_overrides (ovr_of w'))"
    and "\<And>x. harmless (f x)" "\<And>x. harmless (g x)"
  shows "settled P Q (tbind (route_tx m) (\<lambda>x. tbind (f x) (\<lambda>_. tbind (g x) (\<lambda>_. ret (h x)))))"
  unfolding settled_def
proof (intro allI impI)
  fix w r w'
  assume w: "overrides_inv (ovr_of w)" "P (ot_overrides (ovr_of w))"
    and prog: "tbind (route_tx m) (\<lambda>x. tbind (f x) (\<lambda>_. tbind (g x) (\<lambda>_. ret (h x)))) w = (r, w')"
  obtain r1 w1 where 1: "route_tx m w = (r1, w1)" by fastforce
  show "case r of Inr (Inr _) \<Rightarrow> overrides_inv (ovr_of w') \<and> Q (ot_overrides (ovr_of w)) (ot_overrides (ovr_of w'))
      | _ \<Rightarrow> ot_overrides (ovr_of w') = ot_overrides (ovr_of w)"
  proof (cases "\<exists>x. r1 = Inr (Inr x)")
    case False
    then have "ovr_of w1 = ovr_of w" using route_tx_refused [OF 1] by blast
    moreover have "r = (case r1 of Inl e \<Rightarrow> Inl e | Inr (Inl e) \<Rightarrow> Inr (Inl e))" "w' = w1"
      using prog False by (auto simp: run_tbind 1 split: sum.splits)
    ultimately show ?thesis using False by (auto split: sum.splits)
  next
    case True
    then obtain x where x: "r1 = Inr (Inr x)" by blast
    have "overrides_inv (ovr_of w1) \<and> Q (ot_overrides (ovr_of w)) (ot_overrides (ovr_of w1))"
      using 1 [unfolded x ok_route_tx] assms(1) [of "w\<lparr>sb_ops := Suc (sb_ops w)\<rparr>" x] w by auto
    moreover obtain w2 where 2: "f x w1 = (Inr (Inr ()), w2)" "ot_overrides (ovr_of w2) = ot_overrides (ovr_of w1)"
      "ovr_ok (ovr_of w1) \<Longrightarrow> ovr_ok (ovr_of w2)" using harmlessE [OF assms(2) [of x], of w1] by blast
    moreover obtain w3 where 3: "g x w2 = (Inr (Inr ()), w3)" "ot_overrides (ovr_of w3) = ot_overrides (ovr_of w2)"
      "ovr_ok (ovr_of w2) \<Longrightarrow> ovr_ok (ovr_of w3)" using harmlessE [OF assms(3) [of x], of w2] by blast
    ultimately show ?thesis using prog by (auto simp: run 1 x overrides_inv_def)
  qed
qed

lemma settled_discard: "settled P Q m \<Longrightarrow> settled P Q (discard_value m)"
  unfolding settled_def discard_value_def
  by (fastforce simp: run_tbind run_simple split: prod.splits sum.splits)

definition maps_by ::
  "(override_entry list \<Rightarrow> (string \<times> string \<rightharpoonup> string) \<Rightarrow> (string \<times> string \<rightharpoonup> string)) \<Rightarrow>
   override_entry list \<Rightarrow> override_entry list \<Rightarrow> bool" where
  "maps_by g rows rows' \<longleftrightarrow> active_map rows' = g rows (active_map rows)"

abbreviation carries_out :: "override_command \<Rightarrow> override_entry list \<Rightarrow> override_entry list \<Rightarrow> bool" where
  "carries_out c \<equiv> maps_by (\<lambda>rows. command_effect rows c)"

lemma create_settled:
  "settled (\<lambda>_. True) (carries_out (CreateOverride p)) (create_override st ctx p)"
  unfolding create_override_def
proof (intro settled_guard settled_check)
  fix v assume v: "validate_override_payload (with_author ctx p) = Inr v"
  note pv = validated_ok [OF v]
  obtain v' where v': "validate_override_payload p = Inr v'" "vo_status v' = vo_status v" "put v' = put v"
    using validate_with_author [OF v] put_cong by blast
  define status where "status = (case vo_status v of None \<Rightarrow> ''active'' | Some s \<Rightarrow> s)"
  have s: "status \<in> set ALLOWED_STATUSES" using pv by (auto simp: status_def payload_ok_def split: option.splits)
  have e: "command_effect rows (CreateOverride p) = put v status" for rows
    by (simp add: fun_eq_iff v' status_def)
  let ?tx = "if eq_ignore_ascii_case status ''active'' then upsert_active v status else insert_payload v status"
  have tx: "overrides_inv (ovr_of w') \<and> carries_out (CreateOverride p) (ot_overrides (ovr_of w)) (ot_overrides (ovr_of w'))"
    if "overrides_inv (ovr_of w)" "?tx w = (Inr (Inr x), w')" for w x w'
    using upsert_active_ok [OF that(1) pv] insert_payload_ok [OF that(1) pv s] that(2)
    unfolding active_status [OF s] maps_by_def e by (auto split: if_splits)
  show "settled (\<lambda>_. True) (carries_out (CreateOverride p))
    (let status_value = case vo_status v of None \<Rightarrow> ''active'' | Some s \<Rightarrow> s
     in tbind (route_tx (if eq_ignore_ascii_case status_value ''active'' then upsert_active v status_value
          else insert_payload v status_value)) (\<lambda>mapped.
        tbind (state_invalidate_override st (oe_scope_type mapped) (oe_scope_value mapped)) (\<lambda>_.
        tbind (log_override_event ''override.create'' (entry_author ctx mapped)
          (uuid_to_string (ae_ex (ap_env st)) (oe_id mapped)) (override_to_json (ap_env st) mapped)) (\<lambda>_.
          ret mapped))))"
    unfolding Let_def status_def [symmetric]
    by (rule settled_tx) (use tx in \<open>auto intro: harmless_intros\<close>)
qed

section \<open>Update and deletion\<close>

lemma find_id:
  assumes "overrides_ok rows" "find (\<lambda>r. oe_id r = i) rows = Some x"
  shows "x \<in> set rows" "oe_id x = i" "r \<in> set rows \<Longrightarrow> oe_id r = i \<Longrightarrow> r = x"
  using find_Some_mem [OF assms(2)] id_unique [OF assms(1)] by auto

lemma moved_simps [simp]:
  "oe_scope (moved v status now r) = (vo_scope_type v, vo_scope_value v)" "oe_action (moved v status now r) = vo_action v"
  "oe_active (moved v status now r) \<longleftrightarrow> status = ''active''" "oe_id (moved v status now r) = oe_id r"
  by (simp_all add: moved_def rewritten_def oe_scope_def oe_active_def)

lemma moved_ok: "payload_ok v \<Longrightarrow> status \<in> set ALLOWED_STATUSES \<Longrightarrow> entry_ok (moved v status now r)"
  by (simp add: payload_ok_def entry_ok_def moved_def rewritten_def)

lemma revoked_simps [simp]:
  "oe_id (revoked now r) = oe_id r" "\<not> oe_active (revoked now r)" "oe_scope (revoked now r) = oe_scope r"
  by (simp_all add: revoked_def oe_active_def oe_scope_def)

lemma revoked_ok: "entry_ok r \<Longrightarrow> entry_ok (revoked now r)"
  by (simp add: entry_ok_def revoked_def)

text \<open>Revoking rows takes their scopes out of the map.\<close>

lemma active_map_revoke:
  assumes "overrides_ok rows" "overrides_ok (map (\<lambda>r. if P r then revoked now r else r) rows)"
  shows "active_map (map (\<lambda>r. if P r then revoked now r else r) rows) s =
    (if \<exists>r \<in> set rows. P r \<and> oe_active r \<and> oe_scope r = s then None else active_map rows s)"
proof -
  have "active_map (map (\<lambda>r. if P r then revoked now r else r) rows) s = active_map (filter (\<lambda>r. \<not> P r) rows) s"
    unfolding active_map_def by (induction rows) simp_all
  then show ?thesis by (simp add: active_map_delete [OF assms(1)])
qed

lemma revoke_inv:
  assumes "overrides_inv t" "ovr_ok (t\<lparr>ot_overrides := map (\<lambda>r. if P r then revoked now r else r) (ot_overrides t)\<rparr>)"
  shows "overrides_inv (t\<lparr>ot_overrides := map (\<lambda>r. if P r then revoked now r else r) (ot_overrides t)\<rparr>)"
  using assms by (auto simp: overrides_inv_def list_all_iff revoked_ok)

lemma update_revokes:
  assumes "overrides_inv (ovr_of w)" "prev \<in> set (ot_overrides (ovr_of w))" "oe_id prev = i"
    and "(if status = ''active''
      then db_route (update_where (\<lambda>r. oe_scope_type r = ty \<and> oe_scope_value r = sv \<and> oe_status r = ''active'' \<and> oe_id r \<noteq> i) revoked)
      else ret ()) w = (Inr (Inr u), w')"
  shows "overrides_inv (ovr_of w')" "prev \<in> set (ot_overrides (ovr_of w'))" "sb_now w' = sb_now w"
    "s \<noteq> (ty, sv) \<or> status \<noteq> ''active'' \<Longrightarrow> active_map (ot_overrides (ovr_of w')) s = active_map (ot_overrides (ovr_of w)) s"
proof -
  let ?P = "\<lambda>r. oe_scope_type r = ty \<and> oe_scope_value r = sv \<and> oe_status r = ''active'' \<and> oe_id r \<noteq> i"
  let ?rows = "ot_overrides (ovr_of w)"
  let ?t = "(ovr_of w)\<lparr>ot_overrides := map (\<lambda>r. if ?P r then revoked (sb_now w) r else r) ?rows\<rparr>"
  note ok = overrides_invD [OF assms(1)]
  have c: "status = ''active'' \<and> ovr_of w' = ?t \<and> ovr_ok ?t \<and> sb_now w' = sb_now w \<or> status \<noteq> ''active'' \<and> w' = w"
    using assms(4) by (auto simp: update_where_def ok_iff split: if_splits)
  then show "overrides_inv (ovr_of w')" using revoke_inv [OF assms(1)] assms(1) by auto
  show "prev \<in> set (ot_overrides (ovr_of w'))" using c assms(2,3) by (auto simp: image_iff intro!: bexI [of _ prev])
  show "sb_now w' = sb_now w" using c by auto
  assume s: "s \<noteq> (ty, sv) \<or> status \<noteq> ''active''"
  show "active_map (ot_overrides (ovr_of w')) s = active_map ?rows s"
    using c
  proof (elim disjE conjE)
    assume t: "ovr_of w' = ?t" "ovr_ok ?t" "status = ''active''"
    then have "overrides_ok (map (\<lambda>r. if ?P r then revoked (sb_now w) r else r) ?rows)" by (simp add: ovr_ok_def)
    with active_map_revoke [OF ok(2), of ?P "sb_now w" s] s t show ?thesis by (auto simp: oe_scope_def)
  qed simp
qed

lemma update_in_tx_ok:
  assumes "overrides_inv (ovr_of w)" "payload_ok v"
    and "update_in_tx i v w = (Inr (Inr (scope, mapped)), w')"
  shows "\<exists>prev. find (\<lambda>r. oe_id r = i) (ot_overrides (ovr_of w)) = Some prev \<and> overrides_inv (ovr_of w') \<and>
    active_map (ot_overrides (ovr_of w')) =
      put v (case vo_status v of None \<Rightarrow> oe_status prev | Some s \<Rightarrow> s) (without prev (active_map (ot_overrides (ovr_of w)))) \<and>
    scope = oe_scope prev \<and> mapped \<in> set (ot_overrides (ovr_of w')) \<and> oe_scope mapped = (vo_scope_type v, vo_scope_value v)"
proof -
  let ?rows = "ot_overrides (ovr_of w)" and ?w = "w\<lparr>sb_ops := Suc (sb_ops w)\<rparr>"
  let ?s = "(vo_scope_type v, vo_scope_value v)"
  obtain prev where prev: "find (\<lambda>r. oe_id r = i) ?rows = Some prev"
    using assms(3) by (cases "find (\<lambda>r. oe_id r = i) ?rows") (auto simp: update_in_tx_def ok_iff)
  note ok = overrides_invD [OF assms(1)]
  note p = find_id [OF ok(2) prev]
  define status where "status = (case vo_status v of None \<Rightarrow> oe_status prev | Some s \<Rightarrow> s)"
  have s: "status \<in> set ALLOWED_STATUSES"
    using assms(2) ok(3) p(1) by (auto simp: status_def payload_ok_def entry_ok_def split: option.splits)
  obtain w1 row w2 where 1: "(if status = ''active''
      then db_route (update_where (\<lambda>r. oe_scope_type r = vo_scope_type v \<and> oe_scope_value r = vo_scope_value v \<and>
        oe_status r = ''active'' \<and> oe_id r \<noteq> i) revoked) else ret ()) ?w = (Inr (Inr ()), w1)"
    and 2: "update_returning i (moved v status) w1 = (Inr row, w2)"
    and 3: "row = Some mapped" "scope = oe_scope prev" "w' = w2"
    using assms(3)
    by (auto simp: update_in_tx_def ok_iff prev Let_def status_def [symmetric] active_status [OF s] split: option.splits)
  have i: "overrides_inv (ovr_of ?w)" "prev \<in> set (ot_overrides (ovr_of ?w))" using assms(1) p(1) by simp_all
  note r = update_revokes [OF i p(2) 1]
  let ?rows1 = "ot_overrides (ovr_of w1)" and ?f = "moved v status (sb_now w1)"
  note ok1 = overrides_invD [OF r(1)]
  have f: "find (\<lambda>r. oe_id r = i) ?rows1 = Some prev"
    using r(2) p(2) id_unique [OF ok1(2)] find_Some_mem
    by (cases "find (\<lambda>r. oe_id r = i) ?rows1") (force simp: find_None_iff_ball)+
  have t: "ovr_of w' = (ovr_of w1)\<lparr>ot_overrides := update_row i ?f ?rows1\<rparr>" "ovr_ok (ovr_of w')"
    and m: "mapped = ?f prev" "scope = oe_scope prev"
    using 2 3 f by (auto simp: update_returning_def update_row_def ok_iff)
  have inv: "overrides_inv (ovr_of w')"
    using update_row_inv [OF r(1)] t moved_ok [OF assms(2) s] by metis
  have "overrides_ok (update_row i ?f ?rows1)" using t by (simp add: ovr_ok_def)
  then have a: "active_map (ot_overrides (ovr_of w')) = put v status (without prev (active_map ?rows1))"
    using active_map_update [OF ok1(2) _ r(2) p(2), of ?f] t(1) by (simp add: put_def without_def Let_def)
  have "put v status (without prev (active_map ?rows1)) = put v status (without prev (active_map ?rows))"
    using r(4) by (auto simp: put_def without_def fun_eq_iff)
  moreover have "mapped \<in> set (ot_overrides (ovr_of w'))"
    using t(1) m(1) set_update_row [OF ok1(2) r(2) p(2), of ?f] by simp
  ultimately show ?thesis using prev inv a m by (simp add: status_def)
qed

lemma update_settled:
  "settled (\<lambda>_. True) (carries_out (UpdateOverride i p)) (update_override st ctx i p)"
  unfolding update_override_def case_prod_beta
proof (intro settled_guard settled_check)
  fix v assume v: "validate_override_payload (with_author ctx p) = Inr v"
  obtain v' where v': "validate_override_payload p = Inr v'" "vo_status v' = vo_status v" "put v' = put v"
    using validate_with_author [OF v] put_cong by blast
  have tx: "overrides_inv (ovr_of w') \<and> carries_out (UpdateOverride i p) (ot_overrides (ovr_of w)) (ot_overrides (ovr_of w'))"
    if "overrides_inv (ovr_of w)" "update_in_tx i v w = (Inr (Inr x), w')" for w x w'
    using update_in_tx_ok [OF that(1) validated_ok [OF v], of i "fst x" "snd x"] that(2) by (auto simp: maps_by_def v')
  show "settled (\<lambda>_. True) (carries_out (UpdateOverride i p))
    (tbind (route_tx (update_in_tx i v)) (\<lambda>x.
     tbind (invalidate_scopes st (override_invalidation_scopes (fst x) (oe_scope (snd x)))) (\<lambda>_.
     tbind (log_override_event ''override.update'' (entry_author ctx (snd x))
       (uuid_to_string (ae_ex (ap_env st)) (oe_id (snd x))) (override_to_json (ap_env st) (snd x))) (\<lambda>_.
       ret (snd x)))))"
    by (rule settled_tx) (use tx in \<open>auto intro: harmless_intros\<close>)
qed

lemma delete_where_ok:
  assumes "overrides_inv (ovr_of w)" "delete_where P w = (Inr removed, w')"
  shows "overrides_inv (ovr_of w')" "ot_overrides (ovr_of w') = filter (\<lambda>r. \<not> P r) (ot_overrides (ovr_of w))"
    "removed = filter P (ot_overrides (ovr_of w))" "sb_fails w' = sb_fails w" "sb_now w' = sb_now w"
  using assms by (auto simp: delete_where_def ok_iff overrides_inv_def list_all_iff)

lemma delete_settled:
  "settled (\<lambda>_. True) (carries_out (DeleteOverride i)) (delete_override st ctx i)"
  unfolding delete_override_def
proof (intro settled_guard, unfold settled_def, intro allI impI)
  let ?g = "\<lambda>deleted. case deleted of
       [] \<Rightarrow> raise (404, (''NOT_FOUND'', ''override not found''))
     | r # _ \<Rightarrow>
         tbind (state_invalidate_override st (oe_scope_type r) (oe_scope_value r)) (\<lambda>_.
         log_override_event ''override.delete'' (Some (cx_actor ctx)) (uuid_to_string (ae_ex (ap_env st)) i)
           (JObj [(''scope_type'', JStr (oe_scope_type r)), (''scope_value'', JStr (oe_scope_value r))]))"
  let ?m = "db_route (delete_where (\<lambda>r. oe_id r = i))"
  fix w r w'
  assume w: "overrides_inv (ovr_of w)" and prog: "tbind ?m ?g w = (r, w')"
  note ok = overrides_invD [OF w]
  let ?rows = "ot_overrides (ovr_of w)"
  obtain r1 w1 where 1: "?m w = (r1, w1)" by fastforce
  show "case r of Inr (Inr _) \<Rightarrow> overrides_inv (ovr_of w') \<and>
        carries_out (DeleteOverride i) ?rows (ot_overrides (ovr_of w'))
      | _ \<Rightarrow> ot_overrides (ovr_of w') = ?rows"
  proof (cases "\<exists>x. r1 = Inr (Inr x)")
    case False
    then have "ovr_of w1 = ovr_of w"
      using 1 by (auto simp: run_map_err sql_def svc_try_def delete_where_def ovr_write_def svc_stmt_def
          split: prod.splits sum.splits error.splits if_splits)
    with False prog show ?thesis by (auto simp: run_tbind 1 split: sum.splits)
  next
    case True
    then obtain removed where x: "r1 = Inr (Inr removed)" by blast
    have "delete_where (\<lambda>r. oe_id r = i) w = (Inr removed, w1)" using 1 x by (auto simp: ok_iff)
    note d = delete_where_ok [OF w this]
    show ?thesis
    proof (cases removed)
      case Nil
      then have "filter (\<lambda>r. \<not> oe_id r = i) ?rows = ?rows" using d(3) by (auto simp: filter_id_conv filter_empty_conv)
      with Nil prog d(2) show ?thesis by (auto simp: run_tbind 1 x run_simple)
    next
      case (Cons y ys)
      then have y: "y \<in> set ?rows" "oe_id y = i" using filter_ConsD [of _ ?rows y ys] d(3) by auto
      then obtain z where z: "find (\<lambda>r. oe_id r = i) ?rows = Some z"
        by (cases "find (\<lambda>r. oe_id r = i) ?rows") (auto simp: find_None_iff_ball)
      have "z = y" using find_id [OF ok(2) z] y by blast
      have q: "harmless (?g removed)" by (simp add: Cons harmless_intros)
      have "?g removed w1 = (r, w')" using prog by (simp add: run_tbind 1 x)
      note q = harmlessD(1) [OF q this] harmless_inv_kept [OF q this d(1)]
      have "active_map (ot_overrides (ovr_of w1)) = without y (active_map ?rows)"
        using active_map_delete [OF ok(2), of "\<lambda>r. oe_id r = i"] y id_unique [OF ok(2) _ y(1)]
        by (fastforce simp: d(2) without_def fun_eq_iff)
      then show ?thesis using q z \<open>z = y\<close> by (simp add: maps_by_def)
    qed
  qed
qed

end
