(* ===== verification/Override_Import.thy ===== *)
theory Override_Import
  imports Override_Correct
begin

text \<open>
  Imports of lists of domains: the index of the rows there are, one line at a time, the rows a replacing
  import removes, and the effect of the whole on the map of active overrides.  The counts an import
  reports are those its dry run predicts.
\<close>

section \<open>The index\<close>

lemma find_in_append: "find P (xs @ ys) = (case find P xs of None \<Rightarrow> find P ys | Some x \<Rightarrow> Some x)"
  by (induction xs) auto

lemma build_index_snoc: "build_index (xs @ [r]) = index_row r (build_index xs)"
  by (simp add: build_index_def)

lemma build_index_Nil [simp]:
  "ix_active (build_index []) = Map.empty" "ix_latest (build_index []) = Map.empty"
  "ix_scopes (build_index []) = (\<lambda>_. [])" "ix_duplicates (build_index []) = []"
  by (simp_all add: build_index_def)

lemma index_latest:
  "ix_latest (build_index rows) (s, a) = map_option oe_id (find (\<lambda>r. oe_scope_value r = s \<and> oe_action r = a) rows)"
proof (induction rows rule: rev_induct)
  case (snoc r rows)
  have "ix_latest (index_row r ix) (s, a) =
      (if ix_latest ix (s, a) = None \<and> oe_scope_value r = s \<and> oe_action r = a then Some (oe_id r) else ix_latest ix (s, a))" for ix
    by (auto simp: index_row_def Let_def split: option.split)
  with snoc show ?case by (auto simp: build_index_snoc find_in_append split: option.splits)
qed simp

lemma index_active_step:
  assumes "entry_ok r"
  shows "ix_active (index_row r ix) s =
      (if oe_active r \<and> oe_scope_value r = s \<and> ix_active ix s = None then Some (oe_id r, oe_action r) else ix_active ix s)"
    "ix_duplicates (index_row r ix) =
      (if oe_active r \<and> ix_active ix (oe_scope_value r) \<noteq> None then ix_duplicates ix @ [oe_id r] else ix_duplicates ix)"
    "ix_scopes (index_row r ix) a =
      (if oe_active r \<and> oe_action r = a \<and> ix_active ix (oe_scope_value r) = None
       then List.insert (oe_scope_value r) (ix_scopes ix a) else ix_scopes ix a)"
proof -
  have "eq_ignore_ascii_case (oe_status r) ''active'' \<longleftrightarrow> oe_active r"
    using assms active_status by (simp add: entry_ok_def oe_active_def)
  then show "ix_active (index_row r ix) s =
      (if oe_active r \<and> oe_scope_value r = s \<and> ix_active ix s = None then Some (oe_id r, oe_action r) else ix_active ix s)"
    "ix_duplicates (index_row r ix) =
      (if oe_active r \<and> ix_active ix (oe_scope_value r) \<noteq> None then ix_duplicates ix @ [oe_id r] else ix_duplicates ix)"
    "ix_scopes (index_row r ix) a =
      (if oe_active r \<and> oe_action r = a \<and> ix_active ix (oe_scope_value r) = None
       then List.insert (oe_scope_value r) (ix_scopes ix a) else ix_scopes ix a)"
    by (auto simp: index_row_def Let_def split: option.split)
qed

lemma index_active:
  assumes "\<forall>r \<in> set rows. entry_ok r"
  shows "ix_active (build_index rows) s =
    map_option (\<lambda>r. (oe_id r, oe_action r)) (find (\<lambda>r. oe_active r \<and> oe_scope_value r = s) rows)"
  using assms
proof (induction rows rule: rev_induct)
  case (snoc r rows)
  then show ?case by (auto simp: build_index_snoc index_active_step find_in_append split: option.splits)
qed simp

lemma index_unique:
  assumes "\<forall>r \<in> set rows. entry_ok r" "distinct (map oe_scope_value (filter oe_active rows))"
  shows "ix_duplicates (build_index rows) = []" "distinct (ix_scopes (build_index rows) a)"
    "set (ix_scopes (build_index rows) a) = {s. \<exists>r \<in> set rows. oe_active r \<and> oe_action r = a \<and> oe_scope_value r = s}"
proof -
  have "ix_duplicates (build_index rows) = [] \<and> distinct (ix_scopes (build_index rows) a) \<and>
    set (ix_scopes (build_index rows) a) = {s. \<exists>r \<in> set rows. oe_active r \<and> oe_action r = a \<and> oe_scope_value r = s}"
    using assms
  proof (induction rows rule: rev_induct)
    case (snoc r rows)
    have e: "entry_ok r" "\<forall>r \<in> set rows. entry_ok r" using snoc.prems(1) by simp_all
    have d: "distinct (map oe_scope_value (filter oe_active rows))" using snoc.prems(2) by simp
    have "ix_active (build_index rows) (oe_scope_value r) = None" if "oe_active r"
      using snoc.prems(2) that by (auto simp: index_active [OF e(2)] find_None_iff_ball image_iff)
    with snoc.IH [OF e(2) d] show ?case
      by (auto simp: build_index_snoc index_active_step [OF e(1)])
  qed simp
  then show "ix_duplicates (build_index rows) = []" "distinct (ix_scopes (build_index rows) a)"
    "set (ix_scopes (build_index rows) a) = {s. \<exists>r \<in> set rows. oe_active r \<and> oe_action r = a \<and> oe_scope_value r = s}"
    by auto
qed

section \<open>One line\<close>

text \<open>The index is right about the scopes that are still to be imported.\<close>

definition index_for :: "override_entry list \<Rightarrow> import_index \<Rightarrow> string set \<Rightarrow> bool" where
  "index_for rows ix S \<longleftrightarrow> (\<forall>s \<in> S.
     (\<forall>i a. ix_active ix s = Some (i, a) \<longrightarrow> (\<exists>r \<in> set rows. oe_id r = i \<and> oe_active r \<and> oe_scope r = (''domain'', s))) \<and>
     (ix_active ix s = None \<longrightarrow> (\<forall>r \<in> set rows. oe_active r \<longrightarrow> oe_scope r \<noteq> (''domain'', s))) \<and>
     (\<forall>i a. ix_latest ix (s, a) = Some i \<longrightarrow> (\<exists>r \<in> set rows. oe_id r = i \<and> oe_scope r = (''domain'', s))))"

lemma imported_again_simps [simp]:
  "oe_scope (imported_again ctx action now r) = oe_scope r" "oe_action (imported_again ctx action now r) = action"
  "oe_active (imported_again ctx action now r)" "oe_id (imported_again ctx action now r) = oe_id r"
  by (simp_all add: imported_again_def oe_scope_def oe_active_def)

lemma imported_entry_simps [simp]:
  "oe_scope (imported_entry ctx action s i now) = (''domain'', s)" "oe_action (imported_entry ctx action s i now) = action"
  "oe_active (imported_entry ctx action s i now)" "oe_id (imported_entry ctx action s i now) = i"
  by (simp_all add: imported_entry_def oe_scope_def oe_active_def)

text \<open>The row a line changes or adds.\<close>

definition target_row :: "import_run \<Rightarrow> string \<Rightarrow> string \<Rightarrow> uuid option" where
  "target_row run action s =
     (case ix_active (ir_index run) s of Some (i, _) \<Rightarrow> Some i | None \<Rightarrow> ix_latest (ir_index run) (s, action))"

lemma target_known: "target_row run action s = None \<longleftrightarrow> \<not> known_scope (ir_index run) action s"
  by (auto simp: target_row_def known_scope_def split: option.splits)

lemma line_updates:
  assumes "overrides_inv (ovr_of w)" "index_for (ot_overrides (ovr_of w)) (ir_index run) S" "s \<in> S"
    and "target_row run action s = Some i" "action \<in> set ALLOWED_ACTIONS"
    and "update_where (\<lambda>r. oe_id r = i) (imported_again ctx action) w = (Inr u, w')"
  shows "overrides_inv (ovr_of w')"
    "active_map (ot_overrides (ovr_of w')) = (active_map (ot_overrides (ovr_of w)))((''domain'', s) \<mapsto> action)"
    "oe_scope r \<noteq> (''domain'', s) \<Longrightarrow> r \<in> set (ot_overrides (ovr_of w')) \<longleftrightarrow> r \<in> set (ot_overrides (ovr_of w))"
proof -
  let ?rows = "ot_overrides (ovr_of w)" and ?f = "imported_again ctx action (sb_now w)"
  note ok = overrides_invD [OF assms(1)]
  obtain x where x: "x \<in> set ?rows" "oe_id x = i" "oe_scope x = (''domain'', s)"
    "\<not> oe_active x \<Longrightarrow> \<forall>r \<in> set ?rows. oe_active r \<longrightarrow> oe_scope r \<noteq> (''domain'', s)"
    using assms(2-4) unfolding index_for_def target_row_def by (fastforce split: option.splits)
  have t: "ovr_of w' = (ovr_of w)\<lparr>ot_overrides := update_row i ?f ?rows\<rparr>" "ovr_ok (ovr_of w')"
    using assms(6) by (auto simp: update_where_def update_row_def ok_iff)
  have "entry_ok (?f r)" if "r \<in> set ?rows" for r
    using ok(3) that assms(5) by (simp add: entry_ok_def imported_again_def)
  then show "overrides_inv (ovr_of w')" using update_row_inv [OF assms(1)] t by metis
  have "overrides_ok (update_row i ?f ?rows)" using t by (simp add: ovr_ok_def)
  from active_map_update [OF ok(2) this x(1,2)] x(3)
  show "active_map (ot_overrides (ovr_of w')) = (active_map ?rows)((''domain'', s) \<mapsto> action)"
    by (simp add: t(1) Let_def)
  assume "oe_scope r \<noteq> (''domain'', s)"
  then show "r \<in> set (ot_overrides (ovr_of w')) \<longleftrightarrow> r \<in> set ?rows"
    using set_update_row [OF ok(2) x(1,2), of ?f] x(3) by (auto simp: t(1))
qed

lemma line_inserts:
  assumes "overrides_inv (ovr_of w)" "canonical_scope s" "action \<in> set ALLOWED_ACTIONS"
    and "insert_override (imported_entry ctx action s i) w = (Inr e, w')"
  shows "overrides_inv (ovr_of w')"
    "active_map (ot_overrides (ovr_of w')) = (active_map (ot_overrides (ovr_of w)))((''domain'', s) \<mapsto> action)"
    "oe_scope r \<noteq> (''domain'', s) \<Longrightarrow> r \<in> set (ot_overrides (ovr_of w')) \<longleftrightarrow> r \<in> set (ot_overrides (ovr_of w))"
proof -
  let ?rows = "ot_overrides (ovr_of w)" and ?e = "imported_entry ctx action s i (sb_now w)"
  have t: "ovr_of w' = (ovr_of w)\<lparr>ot_overrides := ?rows @ [?e]\<rparr>" "ovr_ok (ovr_of w')"
    using assms(4) by (auto simp: insert_override_def ok_iff)
  have "entry_ok ?e" using assms(2,3) by (simp add: entry_ok_def imported_entry_def)
  with assms(1) t show "overrides_inv (ovr_of w')" by (simp add: overrides_inv_def)
  show "active_map (ot_overrides (ovr_of w')) = (active_map ?rows)((''domain'', s) \<mapsto> action)"
    using active_map_insert [of ?rows ?e] t by (simp add: ovr_ok_def)
  assume "oe_scope r \<noteq> (''domain'', s)"
  then show "r \<in> set (ot_overrides (ovr_of w')) \<longleftrightarrow> r \<in> set ?rows" by (auto simp: t(1))
qed

lemma index_for_other:
  assumes "index_for rows (ir_index run) S" "s \<notin> S'" "S' \<subseteq> S"
    and "\<And>r. oe_scope r \<noteq> (''domain'', s) \<Longrightarrow> r \<in> set rows' \<longleftrightarrow> r \<in> set rows"
  shows "index_for rows' (ir_index (set_active s i action run)) S'"
  unfolding index_for_def
proof
  fix t assume t: "t \<in> S'"
  with assms(2) have "t \<noteq> s" by blast
  then have same: "ix_active (ir_index (set_active s i action run)) t = ix_active (ir_index run) t"
    "ix_latest (ir_index (set_active s i action run)) (t, a) = ix_latest (ir_index run) (t, a)" for a
    by (simp_all add: set_active_def)
  have rows: "r \<in> set rows' \<longleftrightarrow> r \<in> set rows" if "oe_scope r = (''domain'', t)" for r
    using assms(4) [of r] that \<open>t \<noteq> s\<close> by simp
  have "(\<exists>r \<in> set rows'. P r \<and> oe_scope r = (''domain'', t)) \<longleftrightarrow> (\<exists>r \<in> set rows. P r \<and> oe_scope r = (''domain'', t))" for P
    using rows by blast
  note ex = this [of "\<lambda>r. oe_id r = j" for j] this [of "\<lambda>r. oe_id r = j \<and> oe_active r" for j, simplified conj_assoc]
  have "t \<in> S" using t assms(3) by blast
  with assms(1) rows show "(\<forall>i' a. ix_active (ir_index (set_active s i action run)) t = Some (i', a) \<longrightarrow>
      (\<exists>r \<in> set rows'. oe_id r = i' \<and> oe_active r \<and> oe_scope r = (''domain'', t))) \<and>
     (ix_active (ir_index (set_active s i action run)) t = None \<longrightarrow>
      (\<forall>r \<in> set rows'. oe_active r \<longrightarrow> oe_scope r \<noteq> (''domain'', t))) \<and>
     (\<forall>i' a. ix_latest (ir_index (set_active s i action run)) (t, a) = Some i' \<longrightarrow>
      (\<exists>r \<in> set rows'. oe_id r = i' \<and> oe_scope r = (''domain'', t)))"
    unfolding same ex index_for_def by blast
qed

text \<open>What a line does to the table, the index and the counts.\<close>

definition count_line :: "string \<Rightarrow> string \<Rightarrow> import_run \<Rightarrow> import_run \<Rightarrow> bool" where
  "count_line action s run run' \<longleftrightarrow>
     ir_updated run' = ir_updated run + (if known_scope (ir_index run) action s then 1 else 0) \<and>
     ir_imported run' = ir_imported run + (if known_scope (ir_index run) action s then 0 else 1) \<and>
     (\<forall>t. t \<noteq> s \<longrightarrow> known_scope (ir_index run') action t = known_scope (ir_index run) action t)"

lemma set_active_counts [simp]:
  "ir_imported (set_active s i action run) = ir_imported run" "ir_updated (set_active s i action run) = ir_updated run"
  by (simp_all add: set_active_def)

lemma known_set_active: "t \<noteq> s \<Longrightarrow> known_scope (ir_index (set_active s i action run)) action t = known_scope (ir_index run) action t"
  by (simp add: known_scope_def set_active_def)

lemma import_scope_ok:
  assumes "overrides_inv (ovr_of w)" "index_for (ot_overrides (ovr_of w)) (ir_index run) S" "s \<in> S"
    and "canonical_scope s" "action \<in> set ALLOWED_ACTIONS" "s \<notin> S'" "S' \<subseteq> S"
    and "import_scope st ctx action s run w = (Inr (Inr run'), w')"
  shows "overrides_inv (ovr_of w')" "index_for (ot_overrides (ovr_of w')) (ir_index run') S'" "count_line action s run run'"
    "active_map (ot_overrides (ovr_of w')) = (active_map (ot_overrides (ovr_of w)))((''domain'', s) \<mapsto> action)"
proof -
  let ?inv = "state_invalidate_override st ''domain'' s :: (override_tables, unit) route"
  have "\<exists>w1. overrides_inv (ovr_of w1) \<and> index_for (ot_overrides (ovr_of w1)) (ir_index run') S' \<and>
    active_map (ot_overrides (ovr_of w1)) = (active_map (ot_overrides (ovr_of w)))((''domain'', s) \<mapsto> action) \<and>
    ?inv w1 = (Inr (Inr ()), w') \<and> count_line action s run run'"
  proof (cases "target_row run action s")
    case None
    then obtain i w1 w2 where 1: "svc_uuid w = (Inr i, w1)"
      "insert_override (imported_entry ctx action s i) w1 = (Inr (imported_entry ctx action s i (sb_now w1)), w2)"
      "?inv w2 = (Inr (Inr ()), w')" "run' = set_active s i action (run\<lparr>ir_imported := Suc (ir_imported run)\<rparr>)"
      using assms(8) by (auto simp: import_scope_def target_row_def [symmetric] ok_iff insert_override_def)
    have w1: "ovr_of w1 = ovr_of w" using 1(1) by (auto simp: run)
    have inv: "overrides_inv (ovr_of w1)" using assms(1) w1 by simp
    have idx: "index_for (ot_overrides (ovr_of w)) (ir_index (run\<lparr>ir_imported := Suc (ir_imported run)\<rparr>)) S"
      using assms(2) by simp
    note l = line_inserts [OF inv assms(4,5) 1(2), unfolded w1]
    show ?thesis
      using l(1,2) index_for_other [OF idx assms(6,7) l(3)] 1(3,4) None
      by (intro exI [of _ w2]) (auto simp: count_line_def target_known known_set_active)
  next
    case (Some i)
    then obtain w1 where 1: "update_where (\<lambda>r. oe_id r = i) (imported_again ctx action) w = (Inr (), w1)"
      "?inv w1 = (Inr (Inr ()), w')" "run' = set_active s i action (run\<lparr>ir_updated := Suc (ir_updated run)\<rparr>)"
      using assms(8) by (auto simp: import_scope_def target_row_def [symmetric] ok_iff)
    have idx: "index_for (ot_overrides (ovr_of w)) (ir_index (run\<lparr>ir_updated := Suc (ir_updated run)\<rparr>)) S"
      using assms(2) by simp
    note l = line_updates [OF assms(1,2,3) Some assms(5) 1(1)]
    have "known_scope (ir_index run) action s" using target_known [of run action s] Some by simp
    then show ?thesis
      using l(1,2) index_for_other [OF idx assms(6,7) l(3)] 1(2,3)
      by (intro exI [of _ w1]) (auto simp: count_line_def known_set_active)
  qed
  then obtain w1 where w1: "overrides_inv (ovr_of w1)" "index_for (ot_overrides (ovr_of w1)) (ir_index run') S'"
    "active_map (ot_overrides (ovr_of w1)) = (active_map (ot_overrides (ovr_of w)))((''domain'', s) \<mapsto> action)"
    "?inv w1 = (Inr (Inr ()), w')" and c: "count_line action s run run'" by blast
  note q = harmless_inv_kept [OF harmless_invalidate w1(4,1)]
  show "overrides_inv (ovr_of w')" "index_for (ot_overrides (ovr_of w')) (ir_index run') S'"
    "active_map (ot_overrides (ovr_of w')) = (active_map (ot_overrides (ovr_of w)))((''domain'', s) \<mapsto> action)"
    using q w1 by simp_all
  show "count_line action s run run'" by (rule c)
qed

section \<open>All lines\<close>

lemma import_scopes_ok:
  assumes "overrides_inv (ovr_of w)" "index_for (ot_overrides (ovr_of w)) (ir_index run) (set scopes)" "distinct scopes"
    and "\<forall>s \<in> set scopes. canonical_scope s" "action \<in> set ALLOWED_ACTIONS"
    and "import_scopes st ctx action scopes run w = (Inr (Inr run'), w')"
  shows "overrides_inv (ovr_of w') \<and>
    active_map (ot_overrides (ovr_of w')) = import_effect Merge action scopes (active_map (ot_overrides (ovr_of w))) \<and>
    ir_updated run' = ir_updated run + length (filter (known_scope (ir_index run) action) scopes) \<and>
    ir_imported run' = ir_imported run + length (filter (\<lambda>s. \<not> known_scope (ir_index run) action s) scopes)"
  using assms
proof (induction scopes arbitrary: run w)
  case Nil
  then show ?case by (simp add: run_simple import_effect_def fun_eq_iff)
next
  case (Cons s scopes)
  obtain run1 w1 where 1: "import_scope st ctx action s run w = (Inr (Inr run1), w1)"
    and 2: "import_scopes st ctx action scopes run1 w1 = (Inr (Inr run'), w')"
    using Cons.prems(6) by (auto simp: ok_iff)
  have c: "canonical_scope s" "s \<in> set (s # scopes)" "s \<notin> set scopes" "set scopes \<subseteq> set (s # scopes)"
    using Cons.prems(3,4) by auto
  note one = import_scope_ok [OF Cons.prems(1,2) c(2,1) Cons.prems(5) c(3,4) 1]
  have "distinct scopes" "\<forall>s \<in> set scopes. canonical_scope s" using Cons.prems(3,4) by simp_all
  note ih = Cons.IH [OF one(1,2) this Cons.prems(5) 2]
  have k: "known_scope (ir_index run1) action t = known_scope (ir_index run) action t" if "t \<in> set scopes" for t
    using one(3) that c(3) by (auto simp: count_line_def)
  then have f: "filter (known_scope (ir_index run1) action) scopes = filter (known_scope (ir_index run) action) scopes"
    "filter (\<lambda>s. \<not> known_scope (ir_index run1) action s) scopes = filter (\<lambda>s. \<not> known_scope (ir_index run) action s) scopes"
    by (auto intro: filter_cong)
  have "import_effect Merge action scopes ((active_map (ot_overrides (ovr_of w)))((''domain'', s) \<mapsto> action)) =
      import_effect Merge action (s # scopes) (active_map (ot_overrides (ovr_of w)))"
    by (auto simp: import_effect_def fun_eq_iff)
  with ih one(4) have "active_map (ot_overrides (ovr_of w')) =
      import_effect Merge action (s # scopes) (active_map (ot_overrides (ovr_of w)))" by (elim conjE) (simp only:)
  with ih one(3) show ?case by (auto simp: count_line_def f)
qed

lemma import_deletes_ok:
  assumes "overrides_inv (ovr_of w)" "import_deletes st mode action scopes w = (Inr (Inr n), w')"
    and "\<forall>s \<in> set scopes. active_map (ot_overrides (ovr_of w)) (''domain'', s) = Some action"
  shows "overrides_inv (ovr_of w')"
    "active_map (ot_overrides (ovr_of w')) = import_effect mode action scopes (active_map (ot_overrides (ovr_of w)))"
    "n = (if mode = Replace then card {s. active_map (ot_overrides (ovr_of w)) (''domain'', s) = Some action \<and> s \<notin> set scopes} else 0)"
proof -
  let ?rows = "ot_overrides (ovr_of w)"
  note ok = overrides_invD [OF assms(1)]
  let ?P = "\<lambda>r. oe_scope_type r = ''domain'' \<and> oe_action r = action \<and> oe_status r = ''active'' \<and>
    (scopes = [] \<or> oe_scope_value r \<notin> set scopes)"
  have P: "?P r \<longleftrightarrow> oe_active r \<and> oe_action r = action \<and> (\<exists>s. oe_scope r = (''domain'', s) \<and> s \<notin> set scopes)" for r
    by (auto simp: oe_active_def oe_scope_def)
  have "overrides_inv (ovr_of w') \<and>
    active_map (ot_overrides (ovr_of w')) = import_effect mode action scopes (active_map ?rows) \<and>
    n = (if mode = Replace then card {s. active_map ?rows (''domain'', s) = Some action \<and> s \<notin> set scopes} else 0)"
  proof (cases "mode = Replace")
    case False
    then have "mode = Merge" by (cases mode) auto
    moreover have "n = 0 \<and> w' = w" using False assms(2) by (auto simp: import_deletes_def ok_iff)
    moreover have "import_effect Merge action scopes (active_map ?rows) = active_map ?rows"
      using assms(3) by (auto simp: import_effect_def fun_eq_iff)
    ultimately show ?thesis using assms(1) by simp
  next
    case True
    obtain removed w1 where 1: "delete_where ?P w = (Inr removed, w1)" "n = length removed"
      "(invalidate_scopes st (map oe_scope removed) :: (override_tables, unit) route) w1 = (Inr (Inr ()), w')"
      using assms(2) True by (auto simp: import_deletes_def ok_iff)
    note d = delete_where_ok [OF assms(1) 1(1)]
    note q = harmless_inv_kept [OF harmless_invalidate_scopes 1(3) d(1)]
    have "active_map (ot_overrides (ovr_of w')) s = import_effect mode action scopes (active_map ?rows) s" for s
      using active_map_delete [OF ok(2), of ?P s] active_map_Some [OF ok(2), of s] assms(3) True P q(2) d(2)
      by (cases s) (auto simp: import_effect_def)
    moreover have "n = card {s. active_map ?rows (''domain'', s) = Some action \<and> s \<notin> set scopes}"
    proof -
      have "distinct removed" using ok(2) d(3) by (simp add: overrides_ok_def distinct_map)
      moreover have "inj_on oe_scope_value (set removed)"
        unfolding d(3) using active_unique [OF ok(2)] by (auto simp: inj_on_def oe_active_def oe_scope_def)
      ultimately have "n = card (oe_scope_value ` set removed)"
        by (simp add: 1(2) card_image distinct_card)
      also have "oe_scope_value ` set removed = {s. active_map ?rows (''domain'', s) = Some action \<and> s \<notin> set scopes}"
        using P by (auto simp: d(3) active_map_Some [OF ok(2)] oe_scope_def oe_active_def image_iff)
      finally show ?thesis .
    qed
    ultimately show ?thesis using q True by (auto simp: fun_eq_iff)
  qed
  then show "overrides_inv (ovr_of w')"
    "active_map (ot_overrides (ovr_of w')) = import_effect mode action scopes (active_map ?rows)"
    "n = (if mode = Replace then card {s. active_map ?rows (''domain'', s) = Some action \<and> s \<notin> set scopes} else 0)"
    by blast+
qed

section \<open>The transaction\<close>

definition existing_rows :: "admin_env \<Rightarrow> override_entry list \<Rightarrow> override_entry list" where
  "existing_rows ae rows = sort_key (\<lambda>r. ae_collate ae (oe_scope_value r))
     (latest_first (filter (\<lambda>r. oe_scope_type r = ''domain'') rows))"

lemma existing_rows_props:
  assumes "overrides_inv t"
  shows "set (existing_rows ae (ot_overrides t)) = set (ot_overrides t)"
    "distinct (map oe_scope_value (filter oe_active (existing_rows ae (ot_overrides t))))"
proof -
  let ?rows = "ot_overrides t"
  note ok = overrides_invD [OF assms]
  show s: "set (existing_rows ae ?rows) = set ?rows"
    using ok(3) by (auto simp: existing_rows_def entry_ok_def)
  have "distinct (existing_rows ae ?rows)"
    using ok(2) by (simp add: existing_rows_def latest_first_def overrides_ok_def distinct_map)
  moreover have "inj_on oe_scope_value (set (filter oe_active (existing_rows ae ?rows)))"
  proof (rule inj_onI)
    fix x y
    assume "x \<in> set (filter oe_active (existing_rows ae ?rows))" "y \<in> set (filter oe_active (existing_rows ae ?rows))"
      "oe_scope_value x = oe_scope_value y"
    with s ok(3) have "x \<in> set ?rows" "y \<in> set ?rows" "oe_active x" "oe_active y" "oe_scope x = oe_scope y"
      by (auto simp: oe_scope_def entry_ok_def)
    then show "x = y" by (rule active_unique [OF ok(2)])
  qed
  ultimately show "distinct (map oe_scope_value (filter oe_active (existing_rows ae ?rows)))"
    by (simp add: distinct_map)
qed

lemma existing_index:
  assumes "overrides_inv t"
  shows "index_for (ot_overrides t) (build_index (existing_rows ae (ot_overrides t))) S"
    "ix_duplicates (build_index (existing_rows ae (ot_overrides t))) = []"
    "distinct (ix_scopes (build_index (existing_rows ae (ot_overrides t))) a)"
    "set (ix_scopes (build_index (existing_rows ae (ot_overrides t))) a) = {s. active_map (ot_overrides t) (''domain'', s) = Some a}"
proof -
  let ?rows = "ot_overrides t" and ?ex = "existing_rows ae (ot_overrides t)"
  note ok = overrides_invD [OF assms]
  note e = existing_rows_props [OF assms]
  have en: "\<forall>r \<in> set ?ex. entry_ok r" using ok(3) e(1) by simp
  have sc: "oe_scope r = (''domain'', s) \<longleftrightarrow> oe_scope_value r = s" if "r \<in> set ?rows" for r s
    using ok(3) that by (auto simp: oe_scope_def entry_ok_def)
  have l: "\<exists>r \<in> set ?rows. oe_id r = i \<and> oe_scope r = (''domain'', s)"
    if "ix_latest (build_index ?ex) (s, a) = Some i" for s a i
    using that e(1) sc by (auto simp: index_latest dest!: find_Some_mem)
  have ac: "\<exists>r \<in> set ?rows. oe_id r = i \<and> oe_active r \<and> oe_scope r = (''domain'', s)"
    if "ix_active (build_index ?ex) s = Some (i, a)" for s a i
    using that e(1) sc by (auto simp: index_active [OF en] dest!: find_Some_mem)
  have no: "\<forall>r \<in> set ?rows. oe_active r \<longrightarrow> oe_scope r \<noteq> (''domain'', s)" if "ix_active (build_index ?ex) s = None" for s
    using that e(1) sc by (auto simp: index_active [OF en] find_None_iff_ball)
  show "index_for ?rows (build_index ?ex) S"
    unfolding index_for_def using l ac no by blast
  show "ix_duplicates (build_index ?ex) = []" "distinct (ix_scopes (build_index ?ex) a)"
    using index_unique [OF en e(2)] by blast+
  show "set (ix_scopes (build_index ?ex) a) = {s. active_map ?rows (''domain'', s) = Some a}"
    using sc by (auto simp: index_unique(3) [OF en e(2)] e(1) active_map_Some [OF ok(2)])
qed

lemma import_effect_twice:
  "import_effect mode action scopes (import_effect Merge action scopes m) = import_effect mode action scopes m"
  by (auto simp: import_effect_def fun_eq_iff)

lemma import_in_tx_ok:
  assumes "overrides_inv (ovr_of w)" "action \<in> set ALLOWED_ACTIONS" "distinct scopes" "\<forall>s \<in> set scopes. canonical_scope s"
    and ix: "ix = build_index (existing_rows ae (ot_overrides (ovr_of w)))"
    and "import_in_tx st ctx action mode scopes ix w = (Inr (Inr (run, deleted)), w')"
  shows "overrides_inv (ovr_of w')"
    "active_map (ot_overrides (ovr_of w')) = import_effect mode action scopes (active_map (ot_overrides (ovr_of w)))"
    "ir_updated run = length (filter (known_scope ix action) scopes)"
    "ir_imported run = length (filter (\<lambda>s. \<not> known_scope ix action s) scopes)"
    "deleted = deleted_would ix mode action scopes"
proof -
  let ?rows = "ot_overrides (ovr_of w)" and ?start = "\<lparr>ir_index = ix, ir_imported = 0, ir_updated = 0\<rparr>"
  note idx = existing_index [OF assms(1), of ae, folded ix]
  obtain w1 where 1: "import_scopes st ctx action scopes ?start w = (Inr (Inr run), w1)"
    and 2: "import_deletes st mode action scopes w1 = (Inr (Inr deleted), w')"
    using assms(6) by (auto simp: import_in_tx_def idx(2) ok_iff)
  have "index_for ?rows (ir_index ?start) (set scopes)" using idx(1) by simp
  note l = import_scopes_ok [OF assms(1) this assms(3,4,2) 1]
  then have m: "active_map (ot_overrides (ovr_of w1)) = import_effect Merge action scopes (active_map ?rows)"
    and i1: "overrides_inv (ovr_of w1)" by blast+
  have "\<forall>s \<in> set scopes. active_map (ot_overrides (ovr_of w1)) (''domain'', s) = Some action"
    by (simp add: m import_effect_def)
  note d = import_deletes_ok [OF i1 2 this]
  show "overrides_inv (ovr_of w')" by (rule d(1))
  show "active_map (ot_overrides (ovr_of w')) = import_effect mode action scopes (active_map ?rows)"
    by (simp add: d(2) m import_effect_twice)
  show "ir_updated run = length (filter (known_scope ix action) scopes)"
    "ir_imported run = length (filter (\<lambda>s. \<not> known_scope ix action s) scopes)"
    using l by simp_all
  have "{s. active_map (ot_overrides (ovr_of w1)) (''domain'', s) = Some action \<and> s \<notin> set scopes} =
      set (filter (\<lambda>s. s \<notin> set scopes) (ix_scopes ix action))"
    by (auto simp: m import_effect_def idx(4))
  moreover have "distinct (filter (\<lambda>s. s \<notin> set scopes) (ix_scopes ix action))" using idx(3) by simp
  ultimately show "deleted = deleted_would ix mode action scopes"
    unfolding d(3) deleted_would_def by (simp only: distinct_card)
qed

section \<open>The handler\<close>

lemma tbind_assoc: "tbind (tbind m f) g = tbind m (\<lambda>x. tbind (f x) g)"
  by (rule ext) (simp add: run_tbind split: prod.split sum.split)

lemma tbind_ret [simp]: "tbind (ret x) f = f x"
  by (rule ext) (simp add: run)

lemma settled_tx_one:
  assumes "\<And>w x w'. overrides_inv (ovr_of w) \<Longrightarrow> P (ot_overrides (ovr_of w)) \<Longrightarrow> m w = (Inr (Inr x), w') \<Longrightarrow>
      overrides_inv (ovr_of w') \<and> Q (ot_overrides (ovr_of w)) (ot_overrides (ovr_of w'))"
    and "\<And>x. harmless (g x)"
  shows "settled P Q (tbind (route_tx m) (\<lambda>x. tbind (g x) (\<lambda>_. ret (h x))))"
  using settled_tx [of P m Q "\<lambda>_. ret ()" g h] assms harmless_ret by simp

lemma settled_harmless:
  assumes "harmless m" "\<And>rows. Q rows rows"
  shows "settled P Q (tbind m (\<lambda>_. ret y))"
  unfolding settled_def
proof (intro allI impI)
  fix w r w'
  assume w: "overrides_inv (ovr_of w)" and prog: "tbind m (\<lambda>_. ret y) w = (r, w')"
  obtain v where v: "m w = (Inr (Inr ()), v)" using harmlessE [OF assms(1), of w] by blast
  with prog harmless_inv_kept [OF assms(1) v w] assms(2)
  show "case r of Inr (Inr _) \<Rightarrow> overrides_inv (ovr_of w') \<and> Q (ot_overrides (ovr_of w)) (ot_overrides (ovr_of w'))
      | _ \<Rightarrow> ot_overrides (ovr_of w') = ot_overrides (ovr_of w)"
    by (auto simp: run_tbind run_simple)
qed

lemma settled_read:
  assumes "\<And>rows. settled (\<lambda>rows'. rows' = rows) Q (g (f rows))"
  shows "settled P Q (tbind (db_route (ovr_read f)) g)"
  unfolding settled_def
proof (intro allI impI)
  fix w r w'
  assume w: "overrides_inv (ovr_of w)" and prog: "tbind (db_route (ovr_read f)) g w = (r, w')"
  let ?w = "w\<lparr>sb_ops := Suc (sb_ops w)\<rparr>" and ?rows = "ot_overrides (ovr_of w)"
  show "case r of Inr (Inr _) \<Rightarrow> overrides_inv (ovr_of w') \<and> Q ?rows (ot_overrides (ovr_of w'))
      | _ \<Rightarrow> ot_overrides (ovr_of w') = ?rows"
  proof (cases "sb_fails w (sb_ops w)")
    case True
    with prog have "w' = ?w \<and> (\<exists>e. r = Inr (Inl e))"
      by (auto simp: run_tbind run_map_err sql_def svc_try_def ovr_read_def svc_query_def svc_op_def)
    then show ?thesis by auto
  next
    case False
    with prog have "g (f ?rows) ?w = (r, w')"
      by (simp add: run_tbind run_map_err sql_def svc_try_def ovr_read_def svc_query_def svc_op_def)
    with settledD [OF assms [of ?rows], of ?w] w show ?thesis by (auto split: sum.splits)
  qed
qed

lemma import_settled: "settled (\<lambda>_. True) (carries_out (ImportOverrides p)) (import_overrides st ctx p)"
  unfolding import_overrides_def Let_def existing_rows_def [symmetric]
proof (intro settled_guard settled_check settled_read)
  fix action mode rows
  assume a: "normalize_action (mq_action p) = Inr action" and m: "normalize_override_import_mode (mq_mode p) = Inr mode"
  let ?scopes = "pi_scopes (parse_override_exchange_lines (mq_content p))"
  let ?ix = "build_index (existing_rows (ap_env st) rows)"
  note ps = parsed_scopes [of "mq_content p"] normalized_members(2) [OF a]
  have "overrides_inv (ovr_of w') \<and> carries_out (ImportOverrides p) (ot_overrides (ovr_of w)) (ot_overrides (ovr_of w'))"
    if "overrides_inv (ovr_of w)" "ot_overrides (ovr_of w) = rows" "mq_dry_run p = Some False"
      "import_in_tx st ctx action mode ?scopes ?ix w = (Inr (Inr x), w')" for w x w'
    using import_in_tx_ok [OF that(1) ps(3,1,2), of ?ix "ap_env st" st ctx mode "fst x" "snd x" w'] that(2-4)
    by (simp add: maps_by_def a m)
  then have tx: "settled (\<lambda>rows'. rows' = rows) (carries_out (ImportOverrides p)) (tbind (route_tx (import_in_tx st ctx action mode ?scopes ?ix))
      (\<lambda>x. tbind (log_override_event e who tgt (j x)) (\<lambda>_. ret (h x))))"
    if "mq_dry_run p = Some False" for e who tgt j and h :: "_ \<Rightarrow> override_import_response"
    using that by (intro settled_tx_one) (auto intro: harmless_intros)
  have dry: "settled (\<lambda>rows'. rows' = rows) (carries_out (ImportOverrides p)) (tbind (log_override_event e who tgt j) (\<lambda>_. ret h))"
    if "mq_dry_run p \<noteq> Some False" for e who tgt j and h :: override_import_response
    by (rule settled_harmless) (use that in \<open>auto simp: maps_by_def a m intro: harmless_intros\<close>)
  show "settled (\<lambda>rows'. rows' = rows) (carries_out (ImportOverrides p))
    (tbind (if \<not> (case mq_dry_run p of None \<Rightarrow> True | Some b \<Rightarrow> b)
        then tbind (route_tx (import_in_tx st ctx action mode ?scopes ?ix))
               (\<lambda>(run, deleted). ret (ir_imported run, ir_updated run, deleted))
        else ret (length (filter (\<lambda>s. \<not> known_scope ?ix action s) ?scopes),
               length (filter (known_scope ?ix action) ?scopes), deleted_would ?ix mode action ?scopes))
      (\<lambda>(imported, updated, deleted).
        tbind (log_override_event (''override.import.'' @ action) (Some (cx_actor ctx)) action
           (import_response_to_json (R action mode imported updated deleted)))
         (\<lambda>_. ret (R action mode imported updated deleted))))" for R
    using tx dry by (auto simp: tbind_assoc case_prod_beta split: option.split)
qed

end
