(* ===== verification/Override_Flow.thy ===== *)
theory Override_Flow
  imports Override_Import Policy_Engine
begin

text \<open>
  What the overrides of the administration service mean for the rest of the system: the table as the policy
  engine reads it, the caches, and the exchange of lists between installations.
\<close>

section \<open>Imports and exports\<close>

lemma import_answer:
  assumes "overrides_inv (ovr_of w)" "import_overrides st ctx p w = (Inr (Inr m), w')"
  shows "\<exists>action mode. normalize_action (mq_action p) = Inr action \<and>
    normalize_override_import_mode (mq_mode p) = Inr mode \<and>
    m = (let parsed = parse_override_exchange_lines (mq_content p); scopes = pi_scopes parsed;
             ix = build_index (existing_rows (ap_env st) (ot_overrides (ovr_of w)))
         in \<lparr>mr_action = action, mr_mode = import_mode_str mode, mr_dry_run = (mq_dry_run p \<noteq> Some False),
             mr_total_lines = pi_total_lines parsed, mr_parsed = length scopes,
             mr_duplicates = pi_duplicates parsed,
             mr_imported = length (filter (\<lambda>s. \<not> known_scope ix action s) scopes),
             mr_updated = length (filter (known_scope ix action) scopes),
             mr_deleted = deleted_would ix mode action scopes, mr_skipped = 0,
             mr_invalid = length (pi_invalid_lines parsed), mr_invalid_lines = pi_invalid_lines parsed\<rparr>)"
proof -
  let ?ex = "existing_rows (ap_env st) (ot_overrides (ovr_of w))"
  let ?scopes = "pi_scopes (parse_override_exchange_lines (mq_content p))"
  have d: "(case mq_dry_run p of None \<Rightarrow> True | Some b \<Rightarrow> b) = (mq_dry_run p \<noteq> Some False)"
    by (cases "mq_dry_run p") auto
  obtain action mode where am: "normalize_action (mq_action p) = Inr action"
    "normalize_override_import_mode (mq_mode p) = Inr mode"
    using assms(2)
    by (cases "normalize_action (mq_action p)"; cases "normalize_override_import_mode (mq_mode p)")
      (auto simp: import_overrides_def ok_iff)
  note ps = parsed_scopes [of "mq_content p"] normalized_members(2) [OF am(1)]
  have "ir_updated run = length (filter (known_scope (build_index ?ex) action) ?scopes) \<and>
      ir_imported run = length (filter (\<lambda>s. \<not> known_scope (build_index ?ex) action s) ?scopes) \<and>
      deleted = deleted_would (build_index ?ex) mode action ?scopes"
    if "import_in_tx st ctx action mode ?scopes (build_index ?ex) (w\<lparr>sb_ops := k\<rparr>) = (Inr (Inr (run, deleted)), v)" for k run deleted v
    using import_in_tx_ok [of "w\<lparr>sb_ops := k\<rparr>" action ?scopes "build_index ?ex" "ap_env st" st ctx mode run deleted v]
      assms(1) ps that by simp
  with assms(2) am show ?thesis
    by (auto simp: import_overrides_def ok_iff Let_def existing_rows_def [symmetric] d split: if_splits)
qed

text \<open>
  C23: a dry run predicts the import.  When a dry run and then the import itself of the same list succeed on the same
  table, every count and every rejected line they report agree, and the dry run has left the table as it was.
\<close>

theorem dry_run_predicts_import:
  assumes "overrides_inv (ovr_of w)"
    and "import_overrides st ctx (p\<lparr>mq_dry_run := Some True\<rparr>) w = (Inr (Inr preview), v)"
    and "import_overrides st ctx (p\<lparr>mq_dry_run := Some False\<rparr>) w = (Inr (Inr final), w')"
  shows "preview = final\<lparr>mr_dry_run := True\<rparr> \<and> ot_overrides (ovr_of v) = ot_overrides (ovr_of w)"
proof -
  have "preview = final\<lparr>mr_dry_run := True\<rparr>"
    using import_answer [OF assms(1,2)] import_answer [OF assms(1,3)] by (auto simp: Let_def)
  moreover have "ot_overrides (ovr_of v) = ot_overrides (ovr_of w)"
    using assms(2) by (auto simp: import_overrides_def ok_iff Let_def split: if_splits dest!: harmlessD(2) [OF harmless_log])
  ultimately show ?thesis by simp
qed

lemma export_answer:
  assumes "overrides_inv (ovr_of w)" "export_overrides st ctx a w = (Inr (Inr x), w')"
  shows "\<exists>action lines. normalize_action a = Inr action \<and> xr_body x = exchange_body lines \<and> distinct lines \<and>
    set lines = {s. active_map (ot_overrides (ovr_of w)) (''domain'', s) = Some action} \<and>
    (\<forall>s \<in> set lines. canonical_scope s)"
proof -
  let ?rows = "ot_overrides (ovr_of w)"
  note ok = overrides_invD [OF assms(1)]
  let ?P = "\<lambda>action r. oe_scope_type r = ''domain'' \<and> oe_action r = action \<and> oe_status r = ''active''"
  obtain action where a: "normalize_action a = Inr action"
    using assms(2) by (cases "normalize_action a") (auto simp: export_overrides_def ok_iff)
  have x: "xr_body x = exchange_body (exchange_lines (map oe_scope_value
      (sort_key (\<lambda>r. ae_collate (ap_env st) (oe_scope_value r)) (filter (?P action) ?rows))))"
    using assms(2) by (auto simp: export_overrides_def ok_iff Let_def a)
  let ?lines = "exchange_lines (map oe_scope_value
    (sort_key (\<lambda>r. ae_collate (ap_env st) (oe_scope_value r)) (filter (?P action) ?rows)))"
  have s: "set ?lines = oe_scope_value ` {r \<in> set ?rows. ?P action r}" by (simp add: exchange_lines_props)
  also have "oe_scope_value ` {r \<in> set ?rows. ?P action r} = {s. active_map ?rows (''domain'', s) = Some action}"
    by (auto simp: active_map_Some [OF ok(2)] oe_scope_def oe_active_def)
  finally have "set ?lines = {s. active_map ?rows (''domain'', s) = Some action}" .
  moreover have "\<forall>s \<in> set ?lines. canonical_scope s" using ok(3) by (auto simp: s entry_ok_def)
  ultimately show ?thesis using a x exchange_lines_props(2) by blast
qed

text \<open>
  C22: what one installation exports another can import.  After a replacing import of an export, the active domain
  overrides with the exported action are exactly those of the source, and no line of the export is rejected or a
  repetition.  An override of the target with the other action stays as long as the list does not name its scope; one
  whose scope is listed takes the imported action, as the code has it, although \<^verbatim>\<open>docs/api-catalog.md\<close> says that a
  replacing import does not modify the rules of the other action (see \<open>listed_scope_changes_action\<close>).
\<close>

theorem exchange_round_trip:
  assumes "overrides_inv (ovr_of w)" "export_overrides st ctx a w = (Inr (Inr x), w')"
    and "overrides_inv (ovr_of v)"
    and "import_overrides st' ctx' \<lparr>mq_action = a, mq_mode = Some ''replace'', mq_dry_run = Some False,
        mq_content = xr_body x\<rparr> v = (Inr (Inr m), v')"
    and "normalize_action a = Inr action"
  shows "(\<forall>s. active_map (ot_overrides (ovr_of v')) (''domain'', s) = Some action \<longleftrightarrow>
        active_map (ot_overrides (ovr_of w)) (''domain'', s) = Some action) \<and>
      (\<forall>s other. other \<noteq> action \<longrightarrow> active_map (ot_overrides (ovr_of w)) (''domain'', s) \<noteq> Some action \<longrightarrow>
        (active_map (ot_overrides (ovr_of v')) (''domain'', s) = Some other \<longleftrightarrow>
         active_map (ot_overrides (ovr_of v)) (''domain'', s) = Some other)) \<and>
      mr_invalid m = 0 \<and> mr_duplicates m = 0"
proof -
  let ?p = "\<lparr>mq_action = a, mq_mode = Some ''replace'', mq_dry_run = Some False, mq_content = xr_body x\<rparr>"
  obtain lines where l: "xr_body x = exchange_body lines" "distinct lines" "\<forall>s \<in> set lines. canonical_scope s"
    "set lines = {s. active_map (ot_overrides (ovr_of w)) (''domain'', s) = Some action}"
    using export_answer [OF assms(1,2)] assms(5) by auto
  note parse = exchange_round [OF l(3,2)]
  have mode: "normalize_override_import_mode (Some ''replace'') = Inr Replace" by code_simp
  have "carries_out (ImportOverrides ?p) (ot_overrides (ovr_of v)) (ot_overrides (ovr_of v'))"
    using settledD [OF import_settled assms(3) TrueI assms(4)] by simp
  then have "active_map (ot_overrides (ovr_of v')) =
      import_effect Replace action lines (active_map (ot_overrides (ovr_of v)))"
    by (simp add: maps_by_def assms(5) mode l(1) parse)
  moreover have "mr_invalid m = 0 \<and> mr_duplicates m = 0"
    using import_answer [OF assms(3,4)] by (auto simp: Let_def l(1) parse)
  ultimately show ?thesis by (auto simp: import_effect_def l(4))
qed

text \<open>
  A listed scope changes its action.  After an import that succeeds and is no dry run, in either mode, every listed scope
  is active with the imported action, also when it was active with another one before.
\<close>

theorem listed_scope_changes_action:
  assumes "overrides_inv (ovr_of w)" "import_overrides st ctx p w = (Inr (Inr m), w')" "mq_dry_run p = Some False"
    and "normalize_action (mq_action p) = Inr action"
    and "s \<in> set (pi_scopes (parse_override_exchange_lines (mq_content p)))"
    and "active_map (ot_overrides (ovr_of w)) (''domain'', s) = Some other" "other \<noteq> action"
  shows "active_map (ot_overrides (ovr_of w')) (''domain'', s) = Some action"
proof -
  obtain mode where "normalize_override_import_mode (mq_mode p) = Inr mode"
    using import_answer [OF assms(1,2)] by blast
  with settledD [OF import_settled assms(1) TrueI assms(2)] assms(3-5) show ?thesis
    by (simp add: maps_by_def import_effect_def)
qed

text \<open>
  C8: the override routes implement a map from scopes to actions.  Whatever statements fail, a creation, update,
  deletion or import that succeeds changes the map of active overrides as its request says and keeps the
  invariant of the table (at most one active override of a scope, all fields normalised), and one that is
  refused or fails leaves the overrides as they were.  An import, in either mode, gives every listed scope its action,
  also where an override with the other action was active; a replacing import also removes the unlisted scopes
  with its own action.
\<close>

theorem override_commands_refine_map:
  assumes "overrides_inv (ovr_of w)" "override_dispatch st ctx c w = (r, w')"
  shows "case r of
      Inr (Inr _) \<Rightarrow> overrides_inv (ovr_of w') \<and>
        active_map (ot_overrides (ovr_of w')) =
          command_effect (ot_overrides (ovr_of w)) c (active_map (ot_overrides (ovr_of w)))
    | _ \<Rightarrow> ot_overrides (ovr_of w') = ot_overrides (ovr_of w)"
proof -
  have "settled (\<lambda>_. True) (carries_out c) (override_dispatch st ctx c)"
    by (cases c) (simp_all add: create_settled update_settled delete_settled import_settled settled_discard del: command_effect.simps)
  from settledD [OF this assms(1) TrueI assms(2)] show ?thesis unfolding maps_by_def .
qed

section \<open>What the engine decides\<close>

text \<open>A row of the table as the query of the engine returns it.\<close>

definition engine_override :: "override_entry \<Rightarrow> override_row" where
  "engine_override r =
     \<lparr>ov_scope_type = oe_scope_type r, ov_scope_value = oe_scope_value r, ov_action = oe_action r,
      ov_status = oe_status r, ov_expires_at = oe_expires_at r, ov_updated_at = oe_updated_at r,
      ov_created_at = oe_created_at r\<rparr>"

definition reads_overrides :: "app_state \<Rightarrow> classification_db \<Rightarrow> override_tables \<Rightarrow> bool" where
  "reads_overrides state cdb t \<longleftrightarrow> as_classification_pool state \<and>
     cdb_overrides cdb = Inr (map engine_override (ot_overrides t))"

definition action_of :: "string \<Rightarrow> policy_action" where
  "action_of a = (if a = ''block'' then Block else Allow)"

definition in_force :: "time \<Rightarrow> string \<Rightarrow> override_entry \<Rightarrow> bool" where
  "in_force now host r \<longleftrightarrow> oe_active r \<and> (case oe_expires_at r of None \<Rightarrow> True | Some t \<Rightarrow> t > now) \<and>
     domain_scope_matches_host (oe_scope_value r) host"

text \<open>The override that is the last word on a host: no other one is as specific, or it blocks.\<close>

definition decisive :: "time \<Rightarrow> string \<Rightarrow> override_entry list \<Rightarrow> override_entry \<Rightarrow> bool" where
  "decisive now host rows r \<longleftrightarrow> in_force now host r \<and>
     (\<forall>x \<in> set rows. in_force now host x \<longrightarrow> x \<noteq> r \<longrightarrow>
        domain_scope_specificity (oe_scope_value x) < domain_scope_specificity (oe_scope_value r) \<or>
        oe_action r = ''block'' \<and> domain_scope_specificity (oe_scope_value x) = domain_scope_specificity (oe_scope_value r))"

lemma action_normal: "a \<in> set ALLOWED_ACTIONS \<Longrightarrow> normalize_override_action a = a"
  by (auto simp: ALLOWED_ACTIONS_def) (code_simp)+

lemma decisive_override_decides:
  assumes "overrides_inv t" "reads_overrides state cdb t" "r \<in> set (ot_overrides t)"
    and "host_from_normalized_key (dr_normalized_key request) = Some host"
    and "decisive (cdb_now cdb) host (ot_overrides t) r"
  shows "map_option pd_action (resolve_override_decision state cdb request) = Some (action_of (oe_action r))"
proof -
  let ?rows = "map engine_override (ot_overrides t)" and ?now = "cdb_now cdb"
  note ok = overrides_invD [OF assms(1)]
  have el: "override_eligible ?now (engine_override x) \<and> row_matches host (engine_override x) \<longleftrightarrow> in_force ?now host x"
    if "x \<in> set (ot_overrides t)" for x
    using ok(3) that by (auto simp: override_eligible_def engine_override_def in_force_def entry_ok_def oe_active_def)
  have sv: "ov_scope_value (engine_override x) = oe_scope_value x" "ov_action (engine_override x) = oe_action x" for x
    by (simp_all add: engine_override_def)
  have named: "\<forall>row \<in> set ?rows. override_eligible ?now row \<longrightarrow> trim (ov_scope_value row) \<noteq> []"
    using ok(3) by (auto simp: sv entry_ok_def graphic_def dest!: canonical_scopeD(1))
  have force: "set (rows_in_force ?now host ?rows) = engine_override ` {x \<in> set (ot_overrides t). in_force ?now host x}"
    using el by (auto simp: rows_in_force_def)
  have top: "set (most_specific (rows_in_force ?now host ?rows)) =
      engine_override ` {x \<in> set (ot_overrides t). in_force ?now host x \<and>
        domain_scope_specificity (oe_scope_value x) = domain_scope_specificity (oe_scope_value r)}"
  proof -
    let ?F = "{x \<in> set (ot_overrides t). in_force ?now host x}"
    let ?spec = "\<lambda>x. domain_scope_specificity (oe_scope_value x)"
    have r: "r \<in> ?F" using assms(3,5) by (simp add: decisive_def)
    have le: "?spec x \<le> ?spec r" if "x \<in> ?F" for x
      using assms(5) that by (cases "x = r") (auto simp: decisive_def)
    have "set (most_specific (rows_in_force ?now host ?rows)) = engine_override ` {x \<in> ?F. \<forall>y \<in> ?F. ?spec y \<le> ?spec x}"
      unfolding set_eq_iff most_specific_iff force by (auto simp: sv)
    also have "{x \<in> ?F. \<forall>y \<in> ?F. ?spec y \<le> ?spec x} = {x \<in> ?F. ?spec x = ?spec r}"
    proof (rule Collect_cong, rule conj_cong [OF refl], rule iffI)
      fix x assume "x \<in> ?F" "\<forall>y \<in> ?F. ?spec y \<le> ?spec x"
      with r have "?spec r \<le> ?spec x" by blast
      with le [OF \<open>x \<in> ?F\<close>] show "?spec x = ?spec r" by (rule le_antisym)
    next
      fix x assume "x \<in> ?F" "?spec x = ?spec r"
      with le show "\<forall>y \<in> ?F. ?spec y \<le> ?spec x" by simp
    qed
    finally show ?thesis by (simp add: conj_assoc)
  qed
  have in_top: "engine_override r \<in> set (most_specific (rows_in_force ?now host ?rows))"
    using assms(3,5) by (auto simp: top decisive_def)
  have acts: "oe_action r \<in> set ALLOWED_ACTIONS" using ok(3) assms(3) by (auto simp: entry_ok_def)
  let ?A = "normalize_override_action ` ov_action ` set (most_specific (rows_in_force ?now host ?rows))"
  have mem: "oe_action r \<in> ?A" using in_top action_normal [OF acts] by (force simp: sv)
  have "override_spec ?now host ?rows = Some (action_of (oe_action r))"
  proof (cases "oe_action r = ''block''")
    case True
    with mem show ?thesis by (simp add: override_spec_def action_of_def image_image)
  next
    case False
    then have allow: "oe_action r = ''allow''" using acts by (auto simp: ALLOWED_ACTIONS_def)
    have "x = r" if "engine_override x \<in> set (most_specific (rows_in_force ?now host ?rows))"
        "x \<in> set (ot_overrides t)" "in_force ?now host x"
        "domain_scope_specificity (oe_scope_value x) = domain_scope_specificity (oe_scope_value r)" for x
      using that assms(5) False by (auto simp: decisive_def)
    then have "?A \<subseteq> {''allow''}"
      using False assms(5) action_normal [OF acts] by (auto simp: top sv allow decisive_def)
    with mem allow show ?thesis by (auto simp: override_spec_def action_of_def image_image)
  qed
  with resolve_override_spec [OF _ _ assms(4) named] assms(2) show ?thesis by (simp add: reads_overrides_def)
qed

section \<open>Caches\<close>

lemma domain_byte_plain: "domain_byte c \<Longrightarrow> c \<notin> {CHR ''*'', CHR ''?'', CHR ''['', CHR '']'', CHR 0x5C}"
  by (auto simp: domain_byte_def is_ascii_alphanumeric_def is_ascii_digit_def is_ascii_upper_def is_ascii_lower_def byte_in_def)

lemma canonical_scope_plain:
  assumes "canonical_scope s"
  shows "glob_plain (case strip_prefix ''*.'' s of Some rest \<Rightarrow> rest | None \<Rightarrow> s)"
  using canonical_scopeD(4) [OF assms] domain_byte_plain
  by (auto simp: glob_plain_def list_all_iff scope_name_def [symmetric] simp del: domain_byte_plain)

lemma invalidation_clears:
  assumes "ap_channel st = Some channel" "svc_reliable w" "server_ok (ap_server st)" "finite (dom (sb_redis w))"
    and "canonical_scope s" "event_keys (OverrideEvent ''domain'' s) key"
    and "state_invalidate_override st ''domain'' s w = (r, w')"
  shows "sb_redis w' key = None"
    "(channel, [(''message'', text_of_json (ae_ex (ap_env st)) (cache_event_to_json (OverrideEvent ''domain'' s)))]) \<in> set (sb_streams w')"
proof -
  let ?ex = "ae_ex (ap_env st)" and ?srv = "ap_server st"
  let ?v = "\<lparr>iw_redis = sb_redis w, iw_published = [], iw_cmds = sb_ops w, iw_fails = sb_fails w\<rparr>"
  have "iw_fails ?v = (\<lambda>_. False)" using assms(2) by (simp add: fun_eq_iff)
  from runsD [OF runs_invalidation this, of ?ex ?srv s] obtain v where
    v: "admin_invalidate_override ?ex ?srv ''domain'' s ?v = (Inr (), v)" by auto
  then obtain v1 where 1: "delete_domain_scope ?srv s ?v = (Inr (), v1)"
    and 2: "inv_publish ?ex (OverrideEvent ''domain'' s) v1 = (Inr (), v)"
    by (auto simp: admin_invalidate_override_def delete_scope_def inv_bind_ok)
  have w': "sb_redis w' = iw_redis v"
    "sb_streams w' = sb_streams w @ map (\<lambda>payload. (channel, [(''message'', payload)])) (iw_published v)"
    using assms(7) v
    by (auto simp: state_invalidate_override_def assms(1) best_effort_def svc_ignore_def svc_bind_def svc_try_def
        svc_inv_def ret_def svc_return_def)
  have key: "key_matches_domain_scope key (case strip_prefix ''*.'' s of Some rest \<Rightarrow> rest | None \<Rightarrow> s) True"
    using assms(6) by (simp add: event_keys_def)
  have "finite (dom (iw_redis ?v))" using assms(4) by simp
  from delete_domain_scope_ok [OF assms(3) 1 refl canonical_scope_plain [OF assms(5)] key this] inv_publish_ok [OF 2]
  show "sb_redis w' key = None" by (simp add: w')
  show "(channel, [(''message'', text_of_json ?ex (cache_event_to_json (OverrideEvent ''domain'' s)))]) \<in> set (sb_streams w')"
    using inv_publish_ok [OF 2] by (simp add: w')
qed

lemma log_keeps_redis:
  assumes "log_override_event a who target payload w = (r, w')"
  shows "sb_redis w' = sb_redis w" "sb_streams w' = sb_streams w"
  using assms
  by (auto simp: log_override_event_def run best_effort_def svc_ignore_def svc_bind_def svc_try_def ovr_write_def
      svc_stmt_def svc_return_def split: if_splits)

section \<open>A created override takes effect\<close>

lemma insert_allowed:
  assumes "overrides_ok rows" "oe_id e \<notin> oe_id ` set rows" "\<forall>r \<in> set rows. oe_active r \<longrightarrow> oe_scope r \<noteq> oe_scope e"
  shows "overrides_ok (rows @ [e])"
  using assms by (auto simp: overrides_ok_def image_iff)

lemma rewrite_allowed:
  assumes "overrides_ok rows" "x \<in> set rows" "oe_active x"
  shows "overrides_ok (update_row (oe_id x) (rewritten v ''active'' now) rows)"
proof -
  have x: "oe_id r = oe_id x \<longleftrightarrow> r = x" if "r \<in> set rows" for r using that assms(2) id_unique [OF assms(1)] by blast
  have ids: "map oe_id (update_row (oe_id x) (rewritten v ''active'' now) rows) = map oe_id rows"
    by (simp add: update_row_def)
  have "map oe_scope (filter oe_active (update_row (oe_id x) (rewritten v ''active'' now) rows)) =
      map oe_scope (filter oe_active rows)"
    using x assms(3) unfolding update_row_def by (induction rows) auto
  with ids assms(1) show ?thesis by (simp add: overrides_ok_def)
qed

lemma upsert_runs:
  assumes "overrides_inv (ovr_of w)" "svc_reliable w" "sb_uuids w (sb_uuid_next w) \<notin> oe_id ` set (ot_overrides (ovr_of w))"
  shows "\<exists>r w'. upsert_active v ''active'' w = (Inr (Inr r), w') \<and> svc_reliable w' \<and> sb_redis w' = sb_redis w"
proof -
  let ?rows = "ot_overrides (ovr_of w)"
  define ids where "ids = map oe_id (latest_first (filter (\<lambda>r. oe_scope_type r = vo_scope_type v \<and>
    oe_scope_value r = vo_scope_value v \<and> oe_status r = ''active'') ?rows))"
  note ok = overrides_invD [OF assms(1)]
  show ?thesis
    using active_ids [OF ok(2) ids_def]
  proof
    assume none: "ids = []"
    let ?e = "new_entry v ''active'' (sb_uuids w (sb_uuid_next w)) (sb_now w)"
    have "\<forall>r \<in> set ?rows. oe_active r \<longrightarrow> oe_scope r \<noteq> oe_scope ?e"
      using arg_cong [OF none, of length] by (auto simp: ids_def filter_empty_conv oe_active_def oe_scope_def new_entry_def)
    then have "overrides_ok (?rows @ [?e])" using insert_allowed [OF ok(2)] assms(3) by simp
    then have "ovr_ok ((ovr_of w)\<lparr>ot_overrides := ?rows @ [?e]\<rparr>)" using ok(1) by (simp add: ovr_ok_def)
    with assms(2) none show ?thesis
      by (simp add: upsert_active_def run ids_def [symmetric] insert_payload_def insert_override_def Let_def)
  next
    assume "\<exists>x \<in> set ?rows. ids = [oe_id x] \<and> oe_active x \<and> oe_scope x = (vo_scope_type v, vo_scope_value v)"
    then obtain x where x: "x \<in> set ?rows" "ids = [oe_id x]" "oe_active x" by blast
    then have "find (\<lambda>r. oe_id r = oe_id x) ?rows \<noteq> None" by (auto simp: find_None_iff_ball)
    moreover have "ovr_ok ((ovr_of w)\<lparr>ot_overrides := update_row (oe_id x) (rewritten v ''active'' (sb_now w)) ?rows\<rparr>)"
      using rewrite_allowed [OF ok(2) x(1,3)] ok(1) by (simp add: ovr_ok_def)
    ultimately show ?thesis using assms(2)
      by (auto simp: upsert_active_def run ids_def [symmetric] x(2) update_returning_def update_row_def Let_def cong: if_cong)
  qed
qed

text \<open>
  C7: a valid override takes effect.  When nothing fails, an editor's valid request for an active override is
  accepted; the override is stored with the normalised scope and action, Redis holds no decision of the keys
  of its scope any more, and the engine that reads the table decides every host for which the override is
  decisive with its action.
\<close>

theorem created_override_enforced:
  assumes "overrides_inv (ovr_of w)" "svc_reliable w" "sb_uuids w (sb_uuid_next w) \<notin> oe_id ` set (ot_overrides (ovr_of w))"
    and "cx_roles ctx \<inter> set ROLE_OVERRIDES_WRITE \<noteq> {}"
    and "validate_override_payload p = Inr v" "vo_status v \<in> {None, Some ''active''}"
    and "ap_channel st = Some channel" "server_ok (ap_server st)" "finite (dom (sb_redis w))"
  shows "\<exists>r w'. create_override st ctx p w = (Inr (Inr r), w') \<and> r \<in> set (ot_overrides (ovr_of w')) \<and>
    oe_scope r = (''domain'', vo_scope_value v) \<and> oe_action r = vo_action v \<and> oe_active r \<and>
    oe_expires_at r = vo_expires_at v \<and>
    (\<forall>key. event_keys (OverrideEvent ''domain'' (vo_scope_value v)) key \<longrightarrow> sb_redis w' key = None) \<and>
    (\<forall>state cdb request host. reads_overrides state cdb (ovr_of w') \<longrightarrow>
      host_from_normalized_key (dr_normalized_key request) = Some host \<longrightarrow>
      decisive (cdb_now cdb) host (ot_overrides (ovr_of w')) r \<longrightarrow>
      map_option pd_action (resolve_override_decision state cdb request) = Some (action_of (vo_action v)))"
proof -
  let ?w = "w\<lparr>sb_ops := Suc (sb_ops w)\<rparr>"
  obtain v' where v': "validate_override_payload (with_author ctx p) = Inr v'" "vo_scope_value v' = vo_scope_value v"
    "vo_action v' = vo_action v" "vo_status v' = vo_status v" "vo_scope_type v' = ''domain''"
    "vo_expires_at v' = vo_expires_at v"
    using validate_authored [OF assms(5), of ctx] validated_payload(1) [OF assms(5)] by simp
  have status: "(case vo_status v' of None \<Rightarrow> ''active'' | Some s \<Rightarrow> s) = ''active''" using assms(6) v'(4) by auto
  have "overrides_inv (ovr_of ?w)" using assms(1) by simp
  obtain r w1 where 1: "upsert_active v' ''active'' ?w = (Inr (Inr r), w1)" "svc_reliable w1" "sb_redis w1 = sb_redis w"
    using upsert_runs [OF \<open>overrides_inv (ovr_of ?w)\<close>, of v'] assms(2,3) by auto
  note up = upsert_active_ok [OF \<open>overrides_inv (ovr_of ?w)\<close> validated_ok [OF v'(1)] 1(1)]
  let ?w1 = "w1\<lparr>sb_ops := Suc (sb_ops w1)\<rparr>"
  have tx: "route_tx (upsert_active v' ''active'') w = (Inr (Inr r), ?w1)"
    using 1 assms(2) by (auto simp: ok_route_tx)
  have sc: "oe_scope_type r = ''domain''" "oe_scope_value r = vo_scope_value v"
    using up(4) v' by (simp_all add: oe_scope_def)
  let ?inv = "state_invalidate_override st ''domain'' (vo_scope_value v) :: (override_tables, unit) route"
  let ?log = "log_override_event ''override.create'' (entry_author ctx r)
    (uuid_to_string (ae_ex (ap_env st)) (oe_id r)) (override_to_json (ap_env st) r) :: (override_tables, unit) route"
  obtain w2 where 2: "?inv ?w1 = (Inr (Inr ()), w2)" using harmlessE [OF harmless_invalidate, of _ _ _ ?w1] by metis
  obtain w' where 3: "?log w2 = (Inr (Inr ()), w')" using harmlessE [OF harmless_log, of _ _ _ _ w2] by metis
  have created: "create_override st ctx p w = (Inr (Inr r), w')"
    using assms(4) tx 2 3 by (auto simp: create_override_def run v'(1) svc_return_def status sc)
  have i1: "overrides_inv (ovr_of ?w1)" using up(1) by simp
  note q2 = harmless_inv_kept [OF harmless_invalidate 2 i1]
  note q3 = harmless_inv_kept [OF harmless_log 3 q2(1)]
  have r: "r \<in> set (ot_overrides (ovr_of w'))" using up(3) q2(2) q3(2) by simp
  have can: "canonical_scope (vo_scope_value v)" using validated_payload(2) [OF assms(5)] .
  have rel: "svc_reliable ?w1" "finite (dom (sb_redis ?w1))" using 1(2,3) assms(9) by simp_all
  have "sb_redis w' key = None" if "event_keys (OverrideEvent ''domain'' (vo_scope_value v)) key" for key
    using invalidation_clears(1) [OF assms(7) rel(1) assms(8) rel(2) can that 2] log_keeps_redis(1) [OF 3] by simp
  moreover have "map_option pd_action (resolve_override_decision state cdb request) = Some (action_of (vo_action v))"
    if "reads_overrides state cdb (ovr_of w')" "host_from_normalized_key (dr_normalized_key request) = Some host"
      "decisive (cdb_now cdb) host (ot_overrides (ovr_of w')) r" for state cdb request host
    using decisive_override_decides [OF q3(1) that(1) r that(2,3)] up(5) v'(3) by simp
  ultimately show ?thesis using created r up(4,5) v'
    by (intro exI [of _ r] exI [of _ w']) (simp add: oe_active_def)
qed

lemma trailing_dot_scope:
  assumes "normalize_domain_scope h = Inr h" "strip_prefix ''*.'' h = None" "last h \<noteq> CHR ''.''" "length h < 253"
  shows "normalize_domain_scope (h @ ''.'') = Inr (h @ ''.'')" "normalize_scope_host (h @ ''.'') = Some h"
    "strip_prefix ''*.'' (h @ ''.'') = None" "glob_plain (h @ ''.'')" "h \<noteq> []"
proof -
  have can: "canonical_scope h" using assms(1) by (simp add: canonical_scope_def)
  note c = canonical_scopeD [OF can]
  have n: "scope_name h = h" using assms(2) by (simp add: scope_name_def)
  have g: "graphic (h @ ''.'')" using c(1) by (auto simp: graphic_def byte_in_def)
  show ne: "h \<noteq> []" using c(1) by (simp add: graphic_def)
  show p: "strip_prefix ''*.'' (h @ ''.'') = None"
    using assms(2) c(3) n by (cases h; cases "tl h") (auto simp: strip_prefix_None_iff)
  show "normalize_domain_scope (h @ ''.'') = Inr (h @ ''.'')"
    using c n assms(4) p g
    by (simp add: normalize_domain_scope_Inr scope_name_def domain_byte_def ascii_lower_def is_ascii_upper_def byte_in_def)
  have "trim_end_matches CHR ''.'' (h @ ''.'') = trim_end_matches CHR ''.'' h"
    by (simp add: trim_end_matches_def)
  then have "trim_end_matches CHR ''.'' (h @ ''.'') = h" using trim_end_matches_id assms(3) by metis
  then show "normalize_scope_host (h @ ''.'') = Some h"
    using g p c(2) ne by (simp add: normalize_scope_host_def Let_def ascii_lower_def is_ascii_upper_def byte_in_def)
  show "glob_plain (h @ ''.'')" using canonical_scope_plain [OF can] assms(2) by (simp add: glob_plain_def)
qed

text \<open>
  C40: an override with a trailing dot is enforced but its cached decisions stay.  For a name \<open>h\<close> that is a scope of its
  own, the service accepts \<open>h\<close> with a dot behind it as another scope, and the engine applies that scope to \<open>h\<close> and every
  name below it.  An invalidation of the scope that succeeds on a server which answers \<open>SCAN\<close> with matching keys only
  still leaves the entries of those names in Redis, under either kind of key, and the event it publishes, though
  understood, leaves them in the adaptor's memory.
\<close>

theorem trailing_dot_override_keeps_cache:
  assumes "normalize_domain_scope h = Inr h" "strip_prefix ''*.'' h = None" "last h \<noteq> CHR ''.''" "length h < 253"
    and "json_text_ok ex" "server_ok srv" "scan_exact srv" "finite (dom (iw_redis w))"
    and "admin_invalidate_override ex srv ''domain'' (h @ ''.'') w = (Inr (), w')"
    and host: "host = h \<or> ends_with host (CHR ''.'' # h)" "key \<in> {domain_pfx @ host, subdomain_pfx @ host}"
  shows "normalize_domain_scope (h @ ''.'') = Inr (h @ ''.'') \<and>
    domain_scope_matches_host (h @ ''.'') host \<and>
    iw_redis w' key = iw_redis w key \<and>
    (\<exists>payload cache'. iw_published w' = iw_published w @ [payload] \<and>
       apply_invalidation ex payload cache = (Inr (), cache') \<and> cw_memory cache' key = cw_memory cache key)"
proof -
  note dot = trailing_dot_scope [OF assms(1-4)]
  have "suffix h key" using host by (auto simp: ends_with_def suffix_def)
  then have "last key = last h" using dot(5) by (auto simp: suffix_def)
  then have spared: "\<not> suffix (h @ ''.'') key" using assms(3) by (auto simp: suffix_def)
  have "iw_redis w' key = iw_redis w key"
    using inv_sparesD [OF invalidation_spares [OF assms(6,7) dot(3,4) spared] assms(9)] .
  moreover have "domain_scope_matches_host (h @ ''.'') host"
    using host(1) dot(2) by (auto simp: domain_scope_matches_host_def)
  moreover note override_event_published [OF assms(9,6,8)] published_event_understood [OF assms(5)]
    apply_event_spares [OF dot(3) spared]
  ultimately show ?thesis using dot(1) by metis
qed

end
