(* ===== verification/Override_Witnesses.thy ===== *)
theory Override_Witnesses
  imports Override_Flow Admin_Samples
begin

text \<open>Instances of the properties of overrides at concrete tables and requests.\<close>

section \<open>Samples\<close>

definition block_row :: override_entry where
  "block_row =
     \<lparr>oe_id = 1, oe_scope_type = ''domain'', oe_scope_value = ''example.com'', oe_action = ''block'', oe_reason = None,
      oe_created_by = Some ''root'', oe_expires_at = None, oe_status = ''active'', oe_created_at = 5, oe_updated_at = 5\<rparr>"

definition one_override :: override_tables where
  "one_override = \<lparr>ot_overrides = [block_row], ot_audit_events = []\<rparr>"

definition no_overrides :: override_tables where
  "no_overrides = \<lparr>ot_overrides = [], ot_audit_events = []\<rparr>"

definition override_server :: "override_tables \<Rightarrow> override_tables svc_base_scheme" where
  "override_server t =
     \<lparr>sb_now = 9, sb_redis = [''domain:example.com'' \<mapsto> (''cached'', 50)], sb_streams = [], sb_acked = [], sb_ops = 0,
      sb_fails = (\<lambda>_. False), sb_calls = 0, sb_uuid_next = 0, sb_uuids = (\<lambda>k. 100 + k), \<dots> = t\<rparr>"

definition cached_state :: admin_state where
  "cached_state = \<lparr>ap_env = sample_ae, ap_server = sample_server, ap_channel = Some ''od:cache:invalidate''\<rparr>"

text \<open>A service without a cache invalidator, whose programs evaluate.\<close>

definition plain_ae :: admin_env where
  "plain_ae =
     \<lparr>ae_ex = plain_ex, ae_env = (\<lambda>_. None), ae_random = (\<lambda>k n. replicate (k + n) CHR ''r''),
      ae_argon_hash = (\<lambda>salt s. Some s), ae_argon_verify = (\<lambda>s h. Some (s = h)),
      ae_sha256_hex = id, ae_hmac_sha256 = (\<lambda>k s. s), ae_base64_encode = id, ae_base64_decode = Some,
      ae_rfc3339 = (\<lambda>t. []), ae_time_parse = (\<lambda>_. None), ae_chrono_max = 2 ^ 62,
      ae_sql_lower = to_ascii_lowercase, ae_collate = map of_char\<rparr>"

definition plain_state :: admin_state where
  "plain_state =
     \<lparr>ap_env = plain_ae, ap_server = \<lparr>rs_glob = (\<lambda>_ _. False), rs_pages = (\<lambda>_ _. [])\<rparr>, ap_channel = None\<rparr>"

lemma override_server_simps [simp]:
  "ovr_of (override_server t) = t" "svc_reliable (override_server t)" "sb_fails (override_server t) k = False"
  "sb_uuids (override_server t) k = 100 + k" "sb_uuid_next (override_server t) = 0" "sb_now (override_server t) = 9"
  by (simp_all add: override_server_def svc_reliable_def)

lemma sample_override_rows [simp]: "ot_overrides one_override = [block_row]" "ot_overrides no_overrides = []"
  by (simp_all add: one_override_def no_overrides_def)

lemma sample_overrides_inv [simp]: "overrides_inv one_override" "overrides_inv no_overrides"
proof -
  have "entry_ok block_row" by code_simp
  then show "overrides_inv one_override"
    by (simp add: overrides_inv_def one_override_def ovr_ok_def overrides_ok_def)
  show "overrides_inv no_overrides"
    by (simp add: overrides_inv_def no_overrides_def ovr_ok_def overrides_ok_def)
qed

definition replace_request :: "string \<Rightarrow> override_import_request" where
  "replace_request content =
     \<lparr>mq_action = ''block'', mq_mode = Some ''replace'', mq_dry_run = Some False, mq_content = content\<rparr>"

definition block_request :: override_upsert_request where
  "block_request =
     \<lparr>oq_scope_type = ''Domain'', oq_scope_value = '' Example.com '', oq_action = ''BLOCK'', oq_reason = None,
      oq_created_by = None, oq_expires_at = None, oq_status = None\<rparr>"

section \<open>Sample runs\<close>

lemma run_exec [run]: "svc_reliable w \<Longrightarrow> sql (svc_exec f) w = (Inr (Inr ()), f (w\<lparr>sb_ops := Suc (sb_ops w)\<rparr>))"
  by (simp add: sql_def svc_try_def svc_exec_def svc_op_def)

lemma override_log_runs: "\<exists>w'. log_override_event a who target payload w = (Inr (Inr ()), w')"
  using harmlessE [OF harmless_log] by metis

lemma sample_fields:
  "normalize_action ''block'' = Inr ''block''" "normalize_override_import_mode (Some ''replace'') = Inr Replace"
  "canonical_scope ''example.org''" "canonical_scope ''example.com''"
  by code_simp+

lemma sample_list_parse:
  "parse_override_exchange_lines ''example.org'' =
     \<lparr>pi_total_lines = 1, pi_scopes = [''example.org''], pi_duplicates = 0, pi_invalid_lines = []\<rparr>"
  "parse_override_exchange_lines ''example.com'' =
     \<lparr>pi_total_lines = 1, pi_scopes = [''example.com''], pi_duplicates = 0, pi_invalid_lines = []\<rparr>"
  using exchange_round [of "[''example.org'']"] exchange_round [of "[''example.com'']"] sample_fields(3,4)
  by (simp_all add: exchange_body_def)

lemma sample_roles: "\<exists>r \<in> set ROLE_OVERRIDES_WRITE. r \<in> cx_roles sample_admin"
    "\<exists>r \<in> set ROLE_OVERRIDES_VIEW. r \<in> cx_roles sample_admin" "\<exists>r \<in> set ROLE_OVERRIDES_DELETE. r \<in> cx_roles sample_admin"
  by (simp_all add: ROLE_OVERRIDES_WRITE_def ROLE_OVERRIDES_VIEW_def ROLE_OVERRIDES_DELETE_def sample_admin_def context_from_fallback_def)

lemma sample_guard: "guard_roles sample_admin ROLE_OVERRIDES_WRITE w = (Inr (Inr ()), w)"
    "guard_roles sample_admin ROLE_OVERRIDES_VIEW w = (Inr (Inr ()), w)"
    "guard_roles sample_admin ROLE_OVERRIDES_DELETE w = (Inr (Inr ()), w)"
  using sample_roles by (simp_all add: run)

lemmas sample_ok = ok_iff sample_guard sample_fields sample_list_parse override_log_runs

lemma sample_preview:
  "\<exists>m w'. import_overrides plain_state sample_admin ((replace_request ''example.org'')\<lparr>mq_dry_run := Some True\<rparr>)
     (override_server one_override) = (Inr (Inr m), w')"
  by (simp add: import_overrides_def replace_request_def sample_ok Let_def)

lemmas sample_import_defs = import_overrides_def replace_request_def Let_def import_in_tx_def import_scope_def
  import_deletes_def delete_where_def insert_override_def state_invalidate_override_def plain_state_def
  build_index_def index_row_def latest_first_def ovr_ok_def overrides_ok_def oe_active_def oe_scope_def imported_entry_def

lemma sample_import:
  "\<exists>m w'. import_overrides plain_state sample_admin (replace_request ''example.org'')
     (override_server one_override) = (Inr (Inr m), w')"
  by (auto simp: sample_import_defs sample_ok one_override_def block_row_def)

lemma sample_import_empty:
  "\<exists>m w'. import_overrides plain_state sample_admin (replace_request ''example.com'')
     (override_server no_overrides) = (Inr (Inr m), w')"
  by (auto simp: sample_import_defs sample_ok no_overrides_def)

lemma sample_export:
  "\<exists>x w'. export_overrides plain_state sample_admin ''block'' (override_server one_override) = (Inr (Inr x), w') \<and>
     xr_body x = ''example.com''"
  by (simp add: export_overrides_def sample_ok Let_def one_override_def block_row_def exchange_lines_def exchange_body_def)

lemma sample_validated:
  "validate_override_payload block_request =
     Inr \<lparr>vo_scope_type = ''domain'', vo_scope_value = ''example.com'', vo_action = ''block'', vo_reason = None,
          vo_created_by = None, vo_expires_at = None, vo_status = None\<rparr>"
  by code_simp

section \<open>Witnesses\<close>

theorem override_commands_refine_map_witness:
  "\<exists>w'. override_dispatch plain_state sample_admin (DeleteOverride 1) (override_server one_override) = (Inr (Inr ()), w') \<and>
     overrides_inv (ovr_of w') \<and> active_map (ot_overrides (ovr_of w')) (''domain'', ''example.com'') = None"
proof -
  have "\<exists>w'. override_dispatch plain_state sample_admin (DeleteOverride 1) (override_server one_override) = (Inr (Inr ()), w')"
    by (simp add: delete_override_def sample_ok delete_where_def one_override_def block_row_def ovr_ok_def overrides_ok_def
        state_invalidate_override_def plain_state_def)
  then obtain w' where w': "override_dispatch plain_state sample_admin (DeleteOverride 1) (override_server one_override) = (Inr (Inr ()), w')"
    by blast
  have "command_effect [block_row] (DeleteOverride 1) m (''domain'', ''example.com'') = None" for m
    by (simp add: block_row_def without_def oe_active_def oe_scope_def)
  moreover have "overrides_inv (ovr_of (override_server one_override))" by simp
  note override_commands_refine_map [OF this w']
  ultimately show ?thesis using w' by (auto simp del: command_effect.simps)
qed

theorem dry_run_predicts_import_witness:
  "\<exists>m w'. import_overrides plain_state sample_admin (replace_request ''example.org'') (override_server one_override) = (Inr (Inr m), w') \<and>
     fst (import_overrides plain_state sample_admin ((replace_request ''example.org'')\<lparr>mq_dry_run := Some True\<rparr>)
       (override_server one_override)) = Inr (Inr (m\<lparr>mr_dry_run := True\<rparr>))"
proof -
  let ?p = "replace_request ''example.org''" and ?w = "override_server one_override"
  obtain m w' where 1: "import_overrides plain_state sample_admin ?p ?w = (Inr (Inr m), w')" using sample_import by blast
  obtain n v where 2: "import_overrides plain_state sample_admin (?p\<lparr>mq_dry_run := Some True\<rparr>) ?w = (Inr (Inr n), v)"
    using sample_preview by blast
  have p: "?p\<lparr>mq_dry_run := Some False\<rparr> = ?p" by (simp add: replace_request_def)
  have "n = m\<lparr>mr_dry_run := True\<rparr>"
    using dry_run_predicts_import [of ?w plain_state sample_admin ?p n v m w', unfolded p] 1 2 by simp
  with 1 2 show ?thesis by simp
qed

theorem exchange_round_trip_witness:
  "\<exists>m w'. import_overrides plain_state sample_admin (replace_request ''example.com'') (override_server no_overrides) = (Inr (Inr m), w') \<and>
     active_map (ot_overrides (ovr_of w')) (''domain'', ''example.com'') = Some ''block'' \<and> mr_invalid m = 0"
proof -
  let ?v = "override_server no_overrides" and ?w = "override_server one_override"
  obtain x w1 where x: "export_overrides plain_state sample_admin ''block'' ?w = (Inr (Inr x), w1)" "xr_body x = ''example.com''"
    using sample_export by blast
  obtain m w' where m: "import_overrides plain_state sample_admin (replace_request ''example.com'') ?v = (Inr (Inr m), w')"
    using sample_import_empty by blast
  have "active_map (ot_overrides (ovr_of ?w)) (''domain'', ''example.com'') = Some ''block''"
    by (simp add: one_override_def block_row_def active_map_def oe_active_def oe_scope_def)
  with exchange_round_trip [OF _ x(1), of ?v plain_state sample_admin m w' "''block''"] m
  show ?thesis by (simp add: x(2) replace_request_def sample_fields)
qed

theorem created_override_enforced_witness:
  "\<exists>r w'. create_override cached_state sample_admin block_request (override_server no_overrides) = (Inr (Inr r), w') \<and>
     sb_redis w' ''domain:example.com'' = None \<and>
     map_option pd_action (resolve_override_decision sample_state
       (sample_cdb (map engine_override (ot_overrides (ovr_of w')))) sample_request) = Some Block"
proof -
  let ?v = "\<lparr>vo_scope_type = ''domain'', vo_scope_value = ''example.com'', vo_action = ''block'', vo_reason = None,
    vo_created_by = None, vo_expires_at = None, vo_status = None\<rparr>"
  let ?w = "override_server no_overrides"
  have pre: "cx_roles sample_admin \<inter> set ROLE_OVERRIDES_WRITE \<noteq> {}" "server_ok (ap_server cached_state)"
    "ap_channel cached_state = Some ''od:cache:invalidate''" "finite (dom (sb_redis ?w))"
    "overrides_inv (ovr_of ?w)" "sb_uuids ?w (sb_uuid_next ?w) \<notin> oe_id ` set (ot_overrides (ovr_of ?w))"
    "vo_status ?v \<in> {None, Some ''active''}"
    using sample_roles(1) sample_server_ok by (auto simp: cached_state_def override_server_def)
  obtain r w' where r: "create_override cached_state sample_admin block_request ?w = (Inr (Inr r), w')"
      "r \<in> set (ot_overrides (ovr_of w'))" "oe_scope r = (''domain'', ''example.com'')" "oe_active r" "oe_expires_at r = None"
    and keys: "\<And>key. event_keys (OverrideEvent ''domain'' ''example.com'') key \<Longrightarrow> sb_redis w' key = None"
    and dec: "\<And>state cdb request host. reads_overrides state cdb (ovr_of w') \<Longrightarrow>
      host_from_normalized_key (dr_normalized_key request) = Some host \<Longrightarrow>
      decisive (cdb_now cdb) host (ot_overrides (ovr_of w')) r \<Longrightarrow>
      map_option pd_action (resolve_override_decision state cdb request) = Some (action_of ''block'')"
    using created_override_enforced [OF pre(5) override_server_simps(2) pre(6,1) sample_validated pre(7,3,2,4)]
    unfolding validated_override_payload.simps by blast
  have k: "event_keys (OverrideEvent ''domain'' ''example.com'') ''domain:example.com''" by code_simp
  have h: "host_from_normalized_key (dr_normalized_key sample_request) = Some ''www.example.com''"
    "domain_scope_matches_host ''example.com'' ''www.example.com''" by code_simp+
  have inv: "overrides_inv (ovr_of w')" "carries_out (CreateOverride block_request) [] (ot_overrides (ovr_of w'))"
    using settledD [OF create_settled pre(5) TrueI r(1)] by simp_all
  have only: "x = r" if "x \<in> set (ot_overrides (ovr_of w'))" "oe_active x" for x
  proof -
    note ok = overrides_invD(2) [OF inv(1)]
    have "active_map (ot_overrides (ovr_of w')) (oe_scope x) = Some (oe_action x)"
      using that by (auto simp: active_map_Some [OF ok])
    then have "oe_scope x = (''domain'', ''example.com'')"
      using inv(2) active_map_def [of "[]"] by (auto simp: maps_by_def sample_validated put_def split: if_splits)
    with that r show ?thesis by (auto intro: active_unique [OF ok])
  qed
  have "in_force 10 ''www.example.com'' r" using r(3-5) h(2) by (simp add: in_force_def oe_scope_def)
  moreover have "oe_active x" if "in_force 10 ''www.example.com'' x" for x using that by (simp add: in_force_def)
  ultimately have "decisive 10 ''www.example.com'' (ot_overrides (ovr_of w')) r"
    using only unfolding decisive_def by blast
  then have "map_option pd_action (resolve_override_decision sample_state
       (sample_cdb (map engine_override (ot_overrides (ovr_of w')))) sample_request) = Some Block"
    using dec [of sample_state "sample_cdb (map engine_override (ot_overrides (ovr_of w')))"] h(1)
    by (simp add: reads_overrides_def sample_state_def sample_cdb_def action_of_def)
  with r keys k show ?thesis by blast
qed

theorem trailing_dot_override_keeps_cache_witness:
  "\<exists>w'. admin_invalidate_override json_ex sample_server ''domain'' ''example.com.'' sample_inv = (Inr (), w') \<and>
     normalize_domain_scope ''example.com.'' = Inr ''example.com.'' \<and>
     domain_scope_matches_host ''example.com.'' ''www.example.com'' \<and>
     iw_redis w' ''subdomain:www.example.com'' = Some ([], 5) \<and>
     (\<exists>payload cache'. iw_published w' = [payload] \<and>
        apply_invalidation json_ex payload (memory_set ''subdomain:www.example.com'' sample_allow 60 (sample_world False)) =
          (Inr (), cache') \<and>
        memory_get ''subdomain:www.example.com'' cache' = Some sample_allow)"
proof -
  obtain w' where w': "admin_invalidate_override json_ex sample_server ''domain'' ''example.com.'' sample_inv = (Inr (), w')"
    using runsD [OF runs_invalidation [of json_ex sample_server "''example.com.''"], of sample_inv] by (auto simp: sample_inv_def)
  let ?cache = "memory_set ''subdomain:www.example.com'' sample_allow 60 (sample_world False)"
  have pre: "normalize_domain_scope ''example.com'' = Inr ''example.com''" "strip_prefix ''*.'' ''example.com'' = None"
    "finite (dom (iw_redis sample_inv))" "ends_with ''www.example.com'' (CHR ''.'' # ''example.com'')"
    by (code_simp, code_simp, simp add: sample_inv_def, code_simp)
  have "normalize_domain_scope ''example.com.'' = Inr ''example.com.'' \<and>
     domain_scope_matches_host ''example.com.'' ''www.example.com'' \<and>
     iw_redis w' ''subdomain:www.example.com'' = iw_redis sample_inv ''subdomain:www.example.com'' \<and>
     (\<exists>payload cache'. iw_published w' = iw_published sample_inv @ [payload] \<and>
        apply_invalidation json_ex payload ?cache = (Inr (), cache') \<and>
        cw_memory cache' ''subdomain:www.example.com'' = cw_memory ?cache ''subdomain:www.example.com'')"
    using trailing_dot_override_keeps_cache [of "''example.com''" json_ex sample_server sample_inv w' "''www.example.com''"
        "''subdomain:www.example.com''" ?cache] pre w' json_ex_ok sample_server_ok sample_server_exact
    by (simp add: subdomain_pfx_def)
  then show ?thesis using w' apply_invalidation_now
    by (fastforce simp: sample_inv_def memory_get_def memory_set_def)
qed

end
