(* ===== verification/Spec2Isabelle.thy ===== *)
theory Spec2Isabelle
  imports Witnesses Worker_Witnesses Flow_Witnesses Admin_Witnesses Override_Witnesses
begin

text \<open>
  \<^bold>\<open>Open Defender ICAP: a model of its Rust services.\<close>

  A proxy sends every request to the ICAP adaptor.  The adaptor normalises the target, looks for a
  cached decision, asks the policy engine, answers the proxy, and queues targets without a verdict for
  classification.  The policy engine evaluates rules, overrides and the taxonomy's activation profile,
  with hints from stored classifications.  The classification worker takes the queued jobs, calls
  language models, stores verdicts and invalidates caches; the page fetcher supplies it with page
  content, and the reclassification worker queues classifications again when they are due.  The
  administration service holds users, roles and tokens, and the overrides, and invalidates caches when
  overrides change.

  \<^bold>\<open>Layers\<close> (paths are below \<^verbatim>\<open>src/\<close>)

  \<^item> \<open>Prelude\<close>, \<open>Rust_Str\<close>, \<open>Rust_Num\<close>: results as sums (\<open>Inl\<close> of an error or a panic), options, sorting;
    byte strings with the operations of \<^verbatim>\<open>str\<close> the code uses; \<^verbatim>\<open>f32\<close> as bit patterns with order and clamping,
    parsing of integers, saturating arithmetic.
  \<^item> \<open>Common_Types\<close>, \<open>Normalizer\<close>: \<^verbatim>\<open>crates/common-types\<close>.  JSON values, the shared structures with their
    serde forms, target normalisation, canonical keys and tenant exceptions.  Libraries the code calls
    (public suffix list, IDNA, URL parser, JSON text, UUID text) are the fields of \<open>externs\<close>; what is
    relied on appears as the hypotheses \<open>psl_ok\<close> and \<open>json_text_ok\<close>.
  \<^item> \<open>Config_Core\<close>: \<^verbatim>\<open>crates/config-core\<close>, environment, secret checks, the validator.
  \<^item> \<open>Taxonomy\<close>, \<open>Activation\<close>: \<^verbatim>\<open>crates/taxonomy\<close>, validation, look-up tables, label resolution, activation profile.
  \<^item> \<open>Host_Match\<close>, \<open>Policy_Store\<close>, \<open>Policy_Db\<close>, \<open>Policy_Evaluator\<close>, \<open>Policy_Engine\<close>: \<^verbatim>\<open>crates/policy-dsl\<close> and
    \<^verbatim>\<open>services/policy-engine\<close>.  The database is a record of tables with a stream of failing statements.
  \<^item> \<open>Icap_Parser\<close>, \<open>Icap_Cache\<close>, \<open>Icap_Adaptor\<close>, \<open>Adaptor_Run\<close>: \<^verbatim>\<open>services/icap-adaptor\<close>.  A connection is a function
    from the cache state to a result, a new state and a list of effects; \<open>adaptor_run\<close> is the step system of
    connections, time and invalidation events from a start with an empty Redis, \<open>adaptor_continues\<close> the same
    from any state, with outages and with other adaptors writing to Redis.
  \<^item> \<open>Cache_Invalidator\<close>: \<^verbatim>\<open>services/admin-api/src/cache.rs\<close> against a Redis server with failing commands.
  \<^item> \<open>Enforcement\<close>: the engine as the service the adaptor calls.
  \<^item> \<open>Llm_Config\<close>, \<open>Llm_Output\<close>, \<open>Llm_Budget\<close>, \<open>Llm_Provider\<close>, \<open>Llm_World\<close>, \<open>Llm_Worker\<close>, \<open>Llm_Queue\<close>:
    \<^verbatim>\<open>workers/llm-worker\<close>.  \<open>worker_world\<close> holds the tables, Redis, the streams, the clock, the budgets, and the
    pattern of failing statements; operations are programs of the state and error monad \<open>job\<close>.  Language
    models are \<open>llm_service\<close>, any function from requests to answers; pages appear in the page table as time
    passes.
  \<^item> \<open>Llm_Correct\<close>, \<open>Llm_Run\<close>, \<open>Llm_Reconcile\<close>, \<open>Llm_Bounds\<close>: what jobs, the stream loop and the reconciler achieve.
  \<^item> \<open>Classification_Flow\<close>: adaptor, worker and engine around one key.
  \<^item> \<open>Svc_Monad\<close>: programs of the two smaller workers, with statements that may fail, transactions, Redis
    streams and keys, the clock and calls to services; rules for weakest preconditions, for what every outcome
    keeps (\<open>svc_keeps\<close>) and for runs without failures (\<open>svc_reliable\<close>).
  \<^item> \<open>Reclass_Worker\<close>, \<open>Reclass_Correct\<close>: \<^verbatim>\<open>workers/reclass-worker\<close>.  Planner and dispatcher are programs over the
    tables of classifications, jobs and pages; \<open>reclass_run\<close> interleaves their iterations with time and
    changes of the other tables.
  \<^item> \<open>Page_Fetcher\<close>, \<open>Fetch_Correct\<close>: \<^verbatim>\<open>workers/page-fetcher\<close>.  Candidate URLs, the crawl service as a function
    to replies, cooldowns, idempotency marks, versions of page content and the stream loop.
  \<^item> \<open>Worker_Flow\<close>: what passes between the three workers.
  \<^item> \<open>Admin_Base\<close>, \<open>Iam_Service\<close>, \<open>Admin_Pages\<close>, \<open>Iam_Routes\<close>, \<open>Admin_Auth\<close>: identity and access in
    \<^verbatim>\<open>services/admin-api\<close> (\<^verbatim>\<open>iam.rs\<close>, \<^verbatim>\<open>pagination.rs\<close>, \<^verbatim>\<open>auth.rs\<close>).  Programs of \<open>Svc_Monad\<close> with typed errors over
    \<open>iam_tables\<close>; every write is checked against the constraints of the migrations (\<open>iam_ok\<close>); a request is
    an \<open>iam_request\<close> and \<open>iam_dispatch\<close> the router.  Random strings, hashes, codecs and the clock's text form
    are the fields of \<open>admin_env\<close>.
  \<^item> \<open>Iam_Correct\<close>, \<open>Iam_Listing\<close>: what identity requests need, keep and return.
  \<^item> \<open>Admin_Run\<close>: execution of these programs by rewriting, and what a success says.
  \<^item> \<open>Auth_Correct\<close>, \<open>Auth_Sessions\<close>: which credentials are accepted, lockout, claims without roles.
  \<^item> \<open>Auth_Runs\<close>, \<open>Auth_Revocation\<close>, \<open>Auth_Changes\<close>: one request to the identity side (\<open>admin_serve\<close>) and runs of
    them with pauses and outages (\<open>admin_run\<close>); what stays true over every run, revoked tokens and spent
    refresh tokens, and who may change which part of the tables.
  \<^item> \<open>Override_Exchange\<close>, \<open>Admin_Overrides\<close>: the override routes of \<^verbatim>\<open>services/admin-api/src/main.rs\<close>, over
    \<open>override_tables\<close> with the unique index of active scopes (\<open>overrides_ok\<close>); \<open>svc_inv\<close> runs the cache
    invalidator of \<open>Cache_Invalidator\<close> on the Redis of the service; \<open>override_dispatch\<close> is the router.
  \<^item> \<open>Override_Run\<close>, \<open>Override_Correct\<close>, \<open>Override_Import\<close>, \<open>Override_Flow\<close>: the table as a map from scopes to actions
    (\<open>active_map\<close>, \<open>command_effect\<close>), imports and exports, and what the engine decides from the table.
  \<^item> \<open>Samples\<close>, \<open>Worker_Samples\<close>, \<open>Admin_Samples\<close>, \<open>Admin_Witnesses\<close>, \<open>Override_Witnesses\<close>, \<open>Witnesses\<close>, \<open>Worker_Witnesses\<close>, \<open>Flow_Witnesses\<close>: instances of the properties at concrete inputs.

  \<^bold>\<open>What is shown\<close>

  \<^item> Evaluation: a document is decided by its matching rule of least priority number; what the activation
    tables do not enable is blocked; overrides are resolved by the longest scope, block first (by action, not by
    update time as the architecture document has it); an engine that cannot read the activation tables
    starts closed; hydration only fills gaps.
  \<^item> Adaptor: a connection passes only on an allowing answer of the engine with a known category; one response
    per connection; unclassified content is held and queued; after an invalidation the cache, memory and Redis,
    returns only answers the engine gave since.
  \<^item> End to end: the adaptor receives the engine's decision; an engine that started closed lets nothing pass without an allow override; a
    finished classification reaches the adaptor with its category.
  \<^item> Worker: a job stores the verdict of its own run with canonical labels and the guarded action; a finished key is released from the
    caches; failed jobs are queued again a bounded number of times or marked; processed jobs are not
    repeated; entries are acknowledged once; stale requests are taken up again; calls, waiting time and
    budgets are bounded; tables stay keyed whatever fails.
  \<^item> Reclassification: the job table makes only steps of an abstract lifecycle; without failures due rows are
    planned and pending jobs drained; a job left running by a failure blocks its key.
  \<^item> Page fetching: the page table stays bounded and versioned; an accepted job leaves one version; finished and
    failed fetches are not repeated within their lifetimes; stored pages and dispatched jobs reach the
    classification worker.
  \<^item> Administration: identity requests are refused without their role and keep an active administrator, unless
    a role or a member is taken from a group; the user list is paged completely; identity data changes only
    for authenticated administrators; bearer and API tokens are accepted exactly for their active owners, and
    never again after a revocation, whatever fails in between; wrong passwords lock accounts; refresh tokens are
    used once.
  \<^item> Overrides: the routes implement a map from scopes to actions, atomically whatever fails; a created override
    is what the engine decides and leaves the caches, unless its scope ends with a dot; dry runs predict
    imports; exports can be imported, and an import rewrites listed scopes of the other action.
  \<^item> Round trips of canonical keys, labels, ICAP requests, decisions and exchange lists.

  \<^bold>\<open>Interfaces\<close> are locales with interpretations on the model: \<open>scope_matcher\<close> (host patterns), \<open>category_resolver\<close>
  (what the policy store needs of the taxonomy), \<open>ttl_cache\<close> (the adaptor's memory), \<open>window_limiter\<close> (both budgets),
  \<open>keyset\<close> (lists paged by a key), \<open>job_frame\<close> (what worker
  programs leave alone), \<open>session_law\<close> (facts about users and sessions that outlive every request).

  \<^bold>\<open>Bounds and fuel.\<close>  All functions are total.  Loops of the code are structural recursion or have a measure: three
  attempts at canonical labels, forty waits of three seconds for page content, at most
  \<open>max (fo_primary_retry_max fo) 1\<close> calls per provider round.  The endless loops of the services are modelled
  by one round each, with properties of every round.

  \<^bold>\<open>Not modelled.\<close>  Metrics registries, tracing and log lines have no effect on decisions.  Sockets, task spawning and
  schema creation are input and output.  Requests to the administration service, connections of the
  adaptor and iterations of the workers' loops are steps that run to their end: \<open>admin_run\<close>, \<open>adaptor_run\<close> and
  \<open>reclass_run\<close> interleave whole steps, not their statements, so two imports that interleave between reading the
  table and writing it, or a connection that stores an answer it was given before an invalidation, are outside
  the model.  Texts that a library's debug output would add to an error message are left out.  The
  event ingester, the remaining routes of the administration service and the command line are not modelled; the crawler and the web front
  end are not Rust.
\<close>

end
